(* ===== verification/KPrelude.thy ===== *)
theory KPrelude
  imports Main "HOL-Library.AList" "HOL-Library.Word"
begin

section \<open>Shared vocabulary of the KubeAir model\<close>

text \<open>
  What every component theory builds on:
  \<^item> the types that stand for Rust's: a \<^verbatim>\<open>HashMap\<close> or \<^verbatim>\<open>DashMap\<close> is an association
    list with distinct keys, whose order stands for one iteration order of the map (Rust
    leaves that order open, so the lemmas are stated for every such list); a \<^verbatim>\<open>BTreeSet\<close>
    is a strictly increasing list; \<^verbatim>\<open>u64\<close>, \<^verbatim>\<open>u32\<close>, \<^verbatim>\<open>i64\<close> are words where the code
    does arithmetic that can reach the bounds of the type;
  \<^item> the string functions of Rust's standard library the sources call (\<^verbatim>\<open>parse\<close>,
    \<^verbatim>\<open>to_string\<close>, \<^verbatim>\<open>split\<close>, \<^verbatim>\<open>split_once\<close>, \<^verbatim>\<open>trim\<close>, \<^verbatim>\<open>strip_suffix\<close>, \<^verbatim>\<open>join\<close>);
    a character is an ASCII character;
  \<^item> Rust's saturating arithmetic on words;
  \<^item> lemmas about all of these.
\<close>

subsection \<open>Collections of lemmas\<close>

named_theorems hm_simps \<open>characteristic equations of association-list maps\<close>
named_theorems str_simps \<open>equations for the string library\<close>

type_synonym u8 = "8 word"
type_synonym u16 = "16 word"
type_synonym u32 = "32 word"
type_synonym u64 = "64 word"
type_synonym i32 = "32 word"
type_synonym i64 = "64 word"

text \<open>A point in time and a span of time, in nanoseconds (\<^verbatim>\<open>chrono\<close>, \<^verbatim>\<open>std::time\<close>).\<close>

type_synonym timestamp = int
type_synonym duration = int

definition secs :: "int \<Rightarrow> duration" where
  "secs n = n * 1000000000"

lemma secs_simps [simp]:
  "secs 0 = 0"
  "secs a < secs b \<longleftrightarrow> a < b"
  "secs a \<le> secs b \<longleftrightarrow> a \<le> b"
  "secs a = secs b \<longleftrightarrow> a = b"
  "secs a + secs b = secs (a + b)"
  "secs a - secs b = secs (a - b)"
  by (auto simp: secs_def)

lemma secs_nonneg_iff [simp]: "0 \<le> secs n \<longleftrightarrow> 0 \<le> n" "0 < secs n \<longleftrightarrow> 0 < n"
  by (auto simp: secs_def zero_less_mult_iff)

subsection \<open>Hash maps\<close>

type_synonym ('k, 'v) hmap = "('k \<times> 'v) list"

abbreviation hm_get :: "('k, 'v) hmap \<Rightarrow> 'k \<Rightarrow> 'v option" where
  "hm_get m k \<equiv> map_of m k"

abbreviation hm_insert :: "'k \<Rightarrow> 'v \<Rightarrow> ('k, 'v) hmap \<Rightarrow> ('k, 'v) hmap" where
  "hm_insert \<equiv> AList.update"

abbreviation hm_remove :: "'k \<Rightarrow> ('k, 'v) hmap \<Rightarrow> ('k, 'v) hmap" where
  "hm_remove \<equiv> AList.delete"

definition hm_contains_key :: "'k \<Rightarrow> ('k, 'v) hmap \<Rightarrow> bool" where
  "hm_contains_key k m \<longleftrightarrow> map_of m k \<noteq> None"

definition hm_keys :: "('k, 'v) hmap \<Rightarrow> 'k list" where
  "hm_keys m = map fst m"

definition hm_values :: "('k, 'v) hmap \<Rightarrow> 'v list" where
  "hm_values m = map snd m"

definition hm_retain :: "('k \<Rightarrow> 'v \<Rightarrow> bool) \<Rightarrow> ('k, 'v) hmap \<Rightarrow> ('k, 'v) hmap" where
  "hm_retain P m = filter (\<lambda>(k, v). P k v) m"

text \<open>\<^verbatim>\<open>get_mut\<close>: the value of a key is replaced in place, when the key is there.\<close>

definition hm_modify :: "'k \<Rightarrow> ('v \<Rightarrow> 'v) \<Rightarrow> ('k, 'v) hmap \<Rightarrow> ('k, 'v) hmap" where
  "hm_modify k f m = (case map_of m k of None \<Rightarrow> m | Some v \<Rightarrow> hm_insert k (f v) m)"

text \<open>\<^verbatim>\<open>extend\<close>: the entries of the second map are inserted one by one.\<close>

definition hm_extend :: "('k, 'v) hmap \<Rightarrow> ('k, 'v) hmap \<Rightarrow> ('k, 'v) hmap" where
  "hm_extend m n = fold (\<lambda>(k, v). hm_insert k v) n m"

definition hm_ok :: "('k, 'v) hmap \<Rightarrow> bool" where
  "hm_ok m \<longleftrightarrow> distinct (map fst m)"

lemma hm_get_insert [simp, hm_simps]:
  "hm_get (hm_insert k v m) k' = (if k' = k then Some v else hm_get m k')"
  by (simp add: update_conv)

lemma hm_get_remove [simp, hm_simps]:
  "hm_get (hm_remove k m) k' = (if k' = k then None else hm_get m k')"
  by (simp add: delete_conv')

lemma hm_get_modify [simp, hm_simps]:
  "hm_get (hm_modify k f m) k' = (if k' = k then map_option f (hm_get m k) else hm_get m k')"
  by (auto simp: hm_modify_def split: option.splits)

lemma hm_get_retain [hm_simps]:
  "hm_ok m \<Longrightarrow> hm_get (hm_retain P m) k =
     (case hm_get m k of None \<Rightarrow> None | Some v \<Rightarrow> if P k v then Some v else None)"
proof (induction m)
  case Nil
  show ?case by (simp add: hm_retain_def)
next
  case (Cons p m)
  obtain k' v' where p: "p = (k', v')" by fastforce
  from Cons.prems have ok: "hm_ok m" and new: "k' \<notin> fst ` set m"
    by (auto simp: hm_ok_def p)
  from new have "hm_get m k' = None" by (simp add: map_of_eq_None_iff)
  moreover from new have "hm_get (hm_retain P m) k' = None"
    by (auto simp: hm_retain_def map_of_eq_None_iff)
  ultimately show ?case
    using Cons.IH [OF ok] by (auto simp: p hm_retain_def)
qed

lemma hm_get_retain_SomeD: "hm_get (hm_retain P m) k = Some v \<Longrightarrow> hm_ok m \<Longrightarrow> hm_get m k = Some v \<and> P k v"
  by (auto simp: hm_get_retain split: option.splits if_splits)

lemma hm_ok_Nil [simp]: "hm_ok []"
  by (simp add: hm_ok_def)

lemma hm_ok_insert [simp, intro]: "hm_ok m \<Longrightarrow> hm_ok (hm_insert k v m)"
  by (simp add: hm_ok_def distinct_update)

lemma hm_ok_remove [simp, intro]: "hm_ok m \<Longrightarrow> hm_ok (hm_remove k m)"
  by (simp add: hm_ok_def distinct_delete)

lemma hm_ok_modify [simp, intro]: "hm_ok m \<Longrightarrow> hm_ok (hm_modify k f m)"
  by (simp add: hm_modify_def split: option.splits)

lemma hm_ok_retain [simp, intro]: "hm_ok m \<Longrightarrow> hm_ok (hm_retain P m)"
  by (induction m) (auto simp: hm_ok_def hm_retain_def)

lemma hm_get_in_set: "hm_ok m \<Longrightarrow> (k, v) \<in> set m \<longleftrightarrow> hm_get m k = Some v"
  by (simp add: hm_ok_def map_of_eq_Some_iff)

lemma hm_contains_key_simps [simp]:
  "hm_contains_key k' (hm_insert k v m) \<longleftrightarrow> k' = k \<or> hm_contains_key k' m"
  "hm_contains_key k' (hm_remove k m) \<longleftrightarrow> k' \<noteq> k \<and> hm_contains_key k' m"
  "hm_contains_key k' (hm_modify k f m) \<longleftrightarrow> hm_contains_key k' m"
  "\<not> hm_contains_key k' []"
  by (auto simp: hm_contains_key_def)

lemma hm_length_insert:
  "length (hm_insert k v m) = (if hm_contains_key k m then length m else Suc (length m))"
  by (induction m) (auto simp: hm_contains_key_def)

lemma hm_length_modify [simp]: "length (hm_modify k f m) = length m"
  by (auto simp: hm_modify_def hm_length_insert hm_contains_key_def split: option.splits)

lemma set_hm_insert:
  "hm_ok m \<Longrightarrow> set (hm_insert k v m) = insert (k, v) {p \<in> set m. fst p \<noteq> k}"
  by (induction m) (auto simp: hm_ok_def rev_image_eqI)

lemma set_hm_remove: "set (hm_remove k m) = {p \<in> set m. fst p \<noteq> k}"
  by (auto simp: AList.delete_eq)

lemma hm_get_in_values: "hm_get m k = Some v \<Longrightarrow> v \<in> set (hm_values m)"
  unfolding hm_values_def by (metis map_of_SomeD image_eqI snd_conv list.set_map)

lemma hm_valuesE:
  assumes "v \<in> set (hm_values m)" and "hm_ok m"
  obtains k where "hm_get m k = Some v"
  using assms unfolding hm_values_def by (metis (no_types, lifting) hm_get_in_set imageE list.set_map prod.collapse)

lemma find_SomeD: "find P xs = Some x \<Longrightarrow> P x \<and> x \<in> set xs"
  by (induction xs) (auto split: if_splits)

lemma set_map_filter: "set (List.map_filter f xs) = {y. \<exists>x \<in> set xs. f x = Some y}"
  by (force simp: List.map_filter_def image_iff)

lemma find_not_None: "x \<in> set xs \<Longrightarrow> P x \<Longrightarrow> find P xs \<noteq> None"
  by (induction xs) auto

subsection \<open>Ordered sets as increasing lists\<close>

type_synonym 'a btset = "'a list"

definition bs_ok :: "('a::linorder) btset \<Rightarrow> bool" where
  "bs_ok s \<longleftrightarrow> sorted_wrt (<) s"

fun bs_insert :: "'a::linorder \<Rightarrow> 'a btset \<Rightarrow> 'a btset" where
  "bs_insert x [] = [x]"
| "bs_insert x (y # ys) =
     (if x < y then x # y # ys else if x = y then y # ys else y # bs_insert x ys)"

definition bs_of_list :: "'a::linorder list \<Rightarrow> 'a btset" where
  "bs_of_list xs = fold bs_insert xs []"

definition bs_remove :: "'a::linorder \<Rightarrow> 'a btset \<Rightarrow> 'a btset" where
  "bs_remove x s = filter (\<lambda>y. y \<noteq> x) s"

definition bs_union :: "'a::linorder btset \<Rightarrow> 'a btset \<Rightarrow> 'a btset" where
  "bs_union s t = fold bs_insert t s"

definition bs_difference :: "'a::linorder btset \<Rightarrow> 'a btset \<Rightarrow> 'a btset" where
  "bs_difference s t = filter (\<lambda>x. x \<notin> set t) s"

lemma set_bs_insert [simp]: "set (bs_insert x s) = insert x (set s)"
  by (induction s) auto

lemma bs_ok_insert [simp, intro]: "bs_ok s \<Longrightarrow> bs_ok (bs_insert x s)"
  unfolding bs_ok_def by (induction s) auto

lemma set_fold_bs_insert [simp]: "set (fold bs_insert xs s) = set s \<union> set xs"
  by (induction xs arbitrary: s) auto

lemma bs_ok_fold_insert [simp, intro]: "bs_ok s \<Longrightarrow> bs_ok (fold bs_insert xs s)"
  by (induction xs arbitrary: s) auto

lemma bs_ok_Nil [simp]: "bs_ok []"
  by (simp add: bs_ok_def)

lemma bs_of_list_props [simp]: "set (bs_of_list xs) = set xs" "bs_ok (bs_of_list xs)"
  by (simp_all add: bs_of_list_def)

lemma bs_union_props [simp]:
  "set (bs_union s t) = set s \<union> set t" "bs_ok s \<Longrightarrow> bs_ok (bs_union s t)"
  by (simp_all add: bs_union_def)

lemma bs_difference_props [simp]:
  "set (bs_difference s t) = set s - set t" "bs_ok s \<Longrightarrow> bs_ok (bs_difference s t)"
  by (auto simp: bs_difference_def bs_ok_def sorted_wrt_filter)

lemma bs_remove_props [simp]:
  "set (bs_remove x s) = set s - {x}" "bs_ok s \<Longrightarrow> bs_ok (bs_remove x s)"
  by (auto simp: bs_remove_def bs_ok_def sorted_wrt_filter)

lemma bs_distinct [simp]: "bs_ok s \<Longrightarrow> distinct s"
  by (simp add: bs_ok_def strict_sorted_iff)

lemma bs_ok_iff: "bs_ok s \<longleftrightarrow> sorted s \<and> distinct s"
  by (simp add: bs_ok_def strict_sorted_iff)

lemma bs_eqI: "bs_ok s \<Longrightarrow> bs_ok t \<Longrightarrow> set s = set t \<Longrightarrow> s = t"
  by (simp add: bs_ok_iff sorted_distinct_set_unique)

lemma bs_ok_take_drop [simp]: "bs_ok s \<Longrightarrow> bs_ok (take n s)" "bs_ok s \<Longrightarrow> bs_ok (drop n s)"
  by (simp_all add: bs_ok_iff sorted_wrt_take sorted_wrt_drop)

text \<open>Removing the elements of a prefix, one at a time, leaves the suffix.\<close>

lemma fold_bs_remove: "fold bs_remove xs s = filter (\<lambda>y. y \<notin> set xs) s"
  by (induction xs arbitrary: s) (auto simp: bs_remove_def intro: filter_cong)

lemma filter_notin_take: "distinct s \<Longrightarrow> filter (\<lambda>y. y \<notin> set (take n s)) s = drop n s"
proof -
  assume d: "distinct s"
  have "filter (\<lambda>y. y \<notin> set (take n s)) (take n s @ drop n s) = drop n s"
    using set_take_disj_set_drop_if_distinct [OF d, of n n]
    by (auto simp del: append_take_drop_id intro!: filter_True)
  then show ?thesis by simp
qed

end
