(* ===== verification/Pod_Types.thy ===== *)
theory Pod_Types
  imports Rust_Str
begin

section \<open>The domain data of the kubelet\<close>

text \<open>
  The data types of \<^verbatim>\<open>kubelet-core\<close>: errors (\<^verbatim>\<open>error.rs\<close>), identifiers and quantities
  (\<^verbatim>\<open>types.rs\<close>), the pod and container specifications (\<^verbatim>\<open>pod/mod.rs\<close>) and the runtime's
  view of a container (\<^verbatim>\<open>container/mod.rs\<close>). A struct is a record with the fields of the
  source in their order, an enum a datatype with its constructors; field and constructor names
  carry a short prefix because record fields and constructors are global in a theory. The
  newtypes \<^verbatim>\<open>PodUID\<close>, \<^verbatim>\<open>ContainerName\<close> and \<^verbatim>\<open>ContainerID\<close> are strings. Numbers the
  program only stores, compares and prints (ports, exit codes, modes, quantities) are \<open>nat\<close>
  or \<open>int\<close>; where it computes with them the component theories use words.
\<close>

subsection \<open>Errors\<close>

datatype KubeletError =
    PodNotFound string
  | ContainerNotFound string string
  | ERuntime string
  | ENetwork string
  | EStorage string
  | EConfig string
  | EAuth string
  | ENodeStatus string
  | EEviction string
  | EProbe string
  | EImagePull string
  | EVolumeMount string
  | EApi string
  | ESerialization string
  | EIo string
  | ETimeout string
  | EInternal string
  | EResource string
  | EAdmission string
  | EPodStatus string
  | ELifecycle string
  | ETls string
  | ESecurity string

type_synonym 'a result = "KubeletError + 'a"

text \<open>\<^verbatim>\<open>e.to_string()\<close>: the message the \<^verbatim>\<open>#[error(\<dots>)]\<close> attribute gives.\<close>

fun error_to_string :: "KubeletError \<Rightarrow> string" where
  "error_to_string (PodNotFound s) = ''Pod not found: '' @ s"
| "error_to_string (ContainerNotFound p c) = ''Container not found: '' @ p @ ''/'' @ c"
| "error_to_string (ERuntime s) = ''Runtime error: '' @ s"
| "error_to_string (ENetwork s) = ''Network error: '' @ s"
| "error_to_string (EStorage s) = ''Storage error: '' @ s"
| "error_to_string (EConfig s) = ''Configuration error: '' @ s"
| "error_to_string (EAuth s) = ''Authentication error: '' @ s"
| "error_to_string (ENodeStatus s) = ''Node status error: '' @ s"
| "error_to_string (EEviction s) = ''Eviction error: '' @ s"
| "error_to_string (EProbe s) = ''Probe error: '' @ s"
| "error_to_string (EImagePull s) = ''Image pull error: '' @ s"
| "error_to_string (EVolumeMount s) = ''Volume mount error: '' @ s"
| "error_to_string (EApi s) = ''API error: '' @ s"
| "error_to_string (ESerialization s) = ''Serialization error: '' @ s"
| "error_to_string (EIo s) = ''IO error: '' @ s"
| "error_to_string (ETimeout s) = ''Timeout: '' @ s"
| "error_to_string (EInternal s) = ''Internal error: '' @ s"
| "error_to_string (EResource s) = ''Resource allocation error: '' @ s"
| "error_to_string (EAdmission s) = ''Admission error: '' @ s"
| "error_to_string (EPodStatus s) = ''Pod status error: '' @ s"
| "error_to_string (ELifecycle s) = ''Lifecycle hook error: '' @ s"
| "error_to_string (ETls s) = ''TLS error: '' @ s"
| "error_to_string (ESecurity s) = ''Security error: '' @ s"

subsection \<open>Identifiers and quantities\<close>

type_synonym PodUID = string
type_synonym ContainerName = string
type_synonym ContainerID = string

record PodRef =
  pr_namespace :: string
  pr_name :: string

definition PodRef_to_string :: "PodRef \<Rightarrow> string" where
  "PodRef_to_string r = pr_namespace r @ ''/'' @ pr_name r"

datatype ResourceUnit = UBytes | UMillicores | UCount

record ResourceQuantity =
  rq_value :: int
  rq_unit :: ResourceUnit

definition cpu_millicores :: "int \<Rightarrow> ResourceQuantity" where
  "cpu_millicores m = \<lparr>rq_value = m, rq_unit = UMillicores\<rparr>"

definition memory_bytes :: "int \<Rightarrow> ResourceQuantity" where
  "memory_bytes b = \<lparr>rq_value = b, rq_unit = UBytes\<rparr>"

record ResourceRequirements =
  rr_requests :: "(string, ResourceQuantity) hmap"
  rr_limits :: "(string, ResourceQuantity) hmap"

definition ResourceRequirements_default :: ResourceRequirements where
  "ResourceRequirements_default = \<lparr>rr_requests = [], rr_limits = []\<rparr>"

subsection \<open>Containers\<close>

datatype Protocol = TCP | UDP | SCTP

fun Protocol_debug :: "Protocol \<Rightarrow> string" where
  "Protocol_debug TCP = ''TCP''"
| "Protocol_debug UDP = ''UDP''"
| "Protocol_debug SCTP = ''SCTP''"

record ContainerPort =
  cp_name :: "string option"
  cp_container_port :: nat
  cp_host_port :: "nat option"
  cp_protocol :: Protocol
  cp_host_ip :: "string option"

datatype EnvVarSource =
    FieldRef string
  | EnvResourceFieldRef "string option" string
  | ConfigMapKeyRef string string bool
  | SecretKeyRef string string bool

record EnvVar =
  ev_name :: string
  ev_value :: "string option"
  ev_value_from :: "EnvVarSource option"

record EnvFromRef =
  er_name :: string
  er_optional :: bool

record EnvFromSource =
  ef_prefix :: "string option"
  ef_config_map_ref :: "EnvFromRef option"
  ef_secret_ref :: "EnvFromRef option"

record VolumeMount =
  vm_name :: string
  vm_mount_path :: string
  vm_sub_path :: "string option"
  vm_sub_path_expr :: "string option"
  vm_read_only :: bool

datatype ProbeHandler =
    PExec "string list"
  | PHttpGet string nat "string option" string
  | PTcpSocket nat "string option"
  | PGrpc nat "string option"

record Probe =
  pb_handler :: ProbeHandler
  pb_initial_delay_seconds :: nat
  pb_period_seconds :: nat
  pb_timeout_seconds :: nat
  pb_success_threshold :: u32
  pb_failure_threshold :: u32

datatype LifecycleHandler =
    LExec "string list"
  | LHttpGet string nat "string option" string
  | LTcpSocket nat "string option"
  | LSleep nat

record Lifecycle =
  lc_post_start :: "LifecycleHandler option"
  lc_pre_stop :: "LifecycleHandler option"

datatype ImagePullPolicy = PullAlways | PullIfNotPresent | PullNever

datatype RestartPolicy = Always | OnFailure | Never

record Capabilities =
  cap_add :: "string list"
  cap_drop :: "string list"

record SeccompSpec =
  sp_type :: string
  sp_localhost_profile :: "string option"

record AppArmorSpec =
  aa_type :: string
  aa_localhost_profile :: "string option"

record SecurityContext =
  sc_run_as_user :: "nat option"
  sc_run_as_group :: "nat option"
  sc_run_as_non_root :: "bool option"
  sc_privileged :: "bool option"
  sc_read_only_root_filesystem :: "bool option"
  sc_allow_privilege_escalation :: "bool option"
  sc_capabilities :: "Capabilities option"
  sc_seccomp_profile :: "SeccompSpec option"
  sc_apparmor_profile :: "AppArmorSpec option"
  sc_proc_mount :: "string option"

record ContainerSpec =
  ctr_name :: string
  ctr_image :: string
  ctr_command :: "string list"
  ctr_args :: "string list"
  ctr_working_dir :: "string option"
  ctr_ports :: "ContainerPort list"
  ctr_env :: "EnvVar list"
  ctr_env_from :: "EnvFromSource list"
  ctr_resources :: ResourceRequirements
  ctr_volume_mounts :: "VolumeMount list"
  ctr_liveness_probe :: "Probe option"
  ctr_readiness_probe :: "Probe option"
  ctr_startup_probe :: "Probe option"
  ctr_lifecycle :: "Lifecycle option"
  ctr_image_pull_policy :: ImagePullPolicy
  ctr_security_context :: "SecurityContext option"
  ctr_termination_message_path :: "string option"
  ctr_termination_message_policy :: "string option"
  ctr_stdin :: "bool option"
  ctr_stdin_once :: "bool option"
  ctr_tty :: "bool option"
  ctr_restart_policy :: "RestartPolicy option"

definition ContainerSpec_default :: ContainerSpec where
  "ContainerSpec_default =
     \<lparr>ctr_name = [], ctr_image = [], ctr_command = [], ctr_args = [], ctr_working_dir = None,
      ctr_ports = [], ctr_env = [], ctr_env_from = [], ctr_resources = ResourceRequirements_default,
      ctr_volume_mounts = [], ctr_liveness_probe = None, ctr_readiness_probe = None,
      ctr_startup_probe = None, ctr_lifecycle = None, ctr_image_pull_policy = PullIfNotPresent,
      ctr_security_context = None, ctr_termination_message_path = None,
      ctr_termination_message_policy = None, ctr_stdin = None, ctr_stdin_once = None,
      ctr_tty = None, ctr_restart_policy = None\<rparr>"

subsection \<open>Pods\<close>

record KeyToPath =
  kp_key :: string
  kp_path :: string
  kp_mode :: "int option"

record ResourceFieldRef =
  rf_container_name :: "string option"
  rf_resource :: string
  rf_divisor :: "string option"

record DownwardAPIVolumeFile =
  da_path :: string
  da_field_ref :: "string option"
  da_resource_field_ref :: "ResourceFieldRef option"
  da_mode :: "int option"

datatype ProjectedVolumeSource =
    PServiceAccountToken "string option" "nat option" string
  | PConfigMap string "KeyToPath list" bool
  | PSecret string "KeyToPath list" bool
  | PDownwardAPI "DownwardAPIVolumeFile list"

datatype VolumeSource =
    EmptyDir "string option" "ResourceQuantity option"
  | HostPath string "string option"
  | VConfigMap string "KeyToPath list" bool "int option"
  | VSecret string "KeyToPath list" bool "int option"
  | PersistentVolumeClaim string bool
  | Projected "ProjectedVolumeSource list" "int option"
  | VDownwardAPI "DownwardAPIVolumeFile list" "int option"
  | NFS string string bool

record VolumeSpec =
  vs_name :: string
  vs_source :: VolumeSource

datatype DnsPolicy = ClusterFirstWithHostNet | ClusterFirst | DnsDefault | DnsNone

record DnsOption =
  do_name :: string
  do_value :: "string option"

record DnsConfig =
  dns_nameservers :: "string list"
  dns_searches :: "string list"
  dns_options :: "DnsOption list"
  dns_policy :: DnsPolicy

datatype TolerationOperator = TolEqual | TolExists

datatype TaintEffect = NoSchedule | PreferNoSchedule | NoExecute

record Toleration =
  tol_key :: "string option"
  tol_operator :: TolerationOperator
  tol_value :: "string option"
  tol_effect :: "TaintEffect option"
  tol_toleration_seconds :: "int option"

record Sysctl =
  sys_name :: string
  sys_value :: string

record PodSecurityContext =
  psc_run_as_user :: "nat option"
  psc_run_as_group :: "nat option"
  psc_run_as_non_root :: "bool option"
  psc_fs_group :: "nat option"
  psc_supplemental_groups :: "nat list"
  psc_sysctls :: "Sysctl list"
  psc_seccomp_profile :: "SeccompSpec option"
  psc_fs_group_change_policy :: "string option"

record ResourceClaimRef =
  rcr_name :: string
  rcr_resource_class_name :: "string option"
  rcr_allocated :: bool
  rcr_prepared :: bool

record ResourceClaim =
  rc_namespace :: string
  rc_name :: string
  rc_class_name :: string
  rc_allocated :: bool
  rc_prepared :: bool

record HostAlias =
  ha_ip :: string
  ha_hostnames :: "string list"

record PodSpec =
  ps_uid :: PodUID
  ps_pod_ref :: PodRef
  ps_containers :: "ContainerSpec list"
  ps_init_containers :: "ContainerSpec list"
  ps_ephemeral_containers :: "ContainerSpec list"
  ps_volumes :: "VolumeSpec list"
  ps_node_name :: string
  ps_host_network :: bool
  ps_host_pid :: bool
  ps_host_ipc :: bool
  ps_dns_config :: "DnsConfig option"
  ps_restart_policy :: RestartPolicy
  ps_termination_grace_period_seconds :: nat
  ps_service_account_name :: string
  ps_priority :: "int option"
  ps_tolerations :: "Toleration list"
  ps_node_selector :: "(string, string) hmap"
  ps_annotations :: "(string, string) hmap"
  ps_labels :: "(string, string) hmap"
  ps_runtime_class_name :: "string option"
  ps_security_context :: "PodSecurityContext option"
  ps_readiness_gates :: "string list"
  ps_active_deadline_seconds :: "nat option"
  ps_automount_service_account_token :: "bool option"
  ps_image_pull_secrets :: "string list"
  ps_enable_service_links :: "bool option"
  ps_share_process_namespace :: "bool option"
  ps_resource_claims :: "ResourceClaimRef list"
  ps_host_aliases :: "HostAlias list"
  ps_hostname :: "string option"
  ps_subdomain :: "string option"
  ps_observed_start_time :: "timestamp option"
  ps_generation :: "int option"

definition PodSpec_default :: PodSpec where
  "PodSpec_default =
     \<lparr>ps_uid = [], ps_pod_ref = \<lparr>pr_namespace = ''default'', pr_name = []\<rparr>, ps_containers = [],
      ps_init_containers = [], ps_ephemeral_containers = [], ps_volumes = [], ps_node_name = [],
      ps_host_network = False, ps_host_pid = False, ps_host_ipc = False, ps_dns_config = None,
      ps_restart_policy = Always, ps_termination_grace_period_seconds = 30,
      ps_service_account_name = ''default'', ps_priority = None, ps_tolerations = [],
      ps_node_selector = [], ps_annotations = [], ps_labels = [], ps_runtime_class_name = None,
      ps_security_context = None, ps_readiness_gates = [], ps_active_deadline_seconds = None,
      ps_automount_service_account_token = None, ps_image_pull_secrets = [],
      ps_enable_service_links = None, ps_share_process_namespace = None, ps_resource_claims = [],
      ps_host_aliases = [], ps_hostname = None, ps_subdomain = None,
      ps_observed_start_time = None, ps_generation = None\<rparr>"

definition PodSpec_key :: "PodSpec \<Rightarrow> string" where
  "PodSpec_key p = pr_namespace (ps_pod_ref p) @ ''/'' @ pr_name (ps_pod_ref p)"

definition effective_hostname :: "PodSpec \<Rightarrow> string" where
  "effective_hostname p =
     take 63 (case ps_hostname p of
                None \<Rightarrow> pr_name (ps_pod_ref p)
              | Some h \<Rightarrow> if h \<noteq> [] then h else pr_name (ps_pod_ref p))"

datatype PodOperation = OpAdd | OpUpdate | OpRemove | OpReconcile

record PodUpdate =
  pu_pod :: PodSpec
  pu_op :: PodOperation

text \<open>\<^verbatim>\<open>pod.containers.iter().chain(pod.init_containers.iter())\<close>.\<close>

abbreviation all_containers :: "PodSpec \<Rightarrow> ContainerSpec list" where
  "all_containers p \<equiv> ps_containers p @ ps_init_containers p"

subsection \<open>The runtime's view of a container\<close>

datatype RuntimeContainerState = RCreated | RRunning | RExited | RUnknown

record RuntimeContainer =
  rtc_id :: ContainerID
  rtc_pod_uid :: string
  rtc_name :: string
  rtc_pid :: "nat option"
  rtc_image :: string
  rtc_image_ref :: string
  rtc_state :: RuntimeContainerState
  rtc_created_at :: timestamp
  rtc_started_at :: "timestamp option"
  rtc_finished_at :: "timestamp option"
  rtc_exit_code :: "int option"
  rtc_exit_reason :: "string option"
  rtc_labels :: "(string, string) hmap"
  rtc_attempt :: u32

record ImageInfo =
  ii_id :: string
  ii_repo_tags :: "string list"
  ii_repo_digests :: "string list"
  ii_size_bytes :: u64

lemma effective_hostname_length: "length (effective_hostname p) \<le> 63"
  by (simp add: effective_hostname_def)

text \<open>What the pod worker returns after one sync of a pod.\<close>

datatype PodSyncResult = Synced | NeedsRetry string | SyncFailed string | SyncTerminated

end
