(* ===== verification/Pod_Lifecycle.thy ===== *)
theory Pod_Lifecycle
  imports Pod_Types
begin

section \<open>Pod lifecycle: phases, statuses, QoS class and validation\<close>

text \<open>
  \<^verbatim>\<open>kubelet-core/src/pod/lifecycle.rs\<close> (the phase of a pod from the states of its
  containers), \<^verbatim>\<open>pod/status.rs\<close> (the store of lifecycle states), \<^verbatim>\<open>qos/mod.rs\<close> and
  \<^verbatim>\<open>pod/sync.rs\<close> (validation and the choice of a sync action). The early returns of
  \<^verbatim>\<open>compute_pod_phase\<close> are the branches of an \<open>if\<close> chain; its loop over the init containers
  is \<open>init_phase\<close>, which is \<open>None\<close> where the loop runs through. Clock reads are arguments.
\<close>

subsection \<open>Data\<close>

datatype PodPhase = Pending | PhRunning | Succeeded | Failed | PhUnknown

datatype ContainerState =
    Waiting string "string option"
  | Running timestamp
  | Terminated int string "string option" timestamp timestamp

record ContainerStatus =
  st_name :: string
  st_state :: ContainerState
  st_last_state :: "ContainerState option"
  st_ready :: bool
  st_restart_count :: u32
  st_image :: string
  st_image_id :: string
  st_container_id :: "string option"
  st_started :: "bool option"
  st_resources :: "ResourceRequirements option"
  st_allocated_resources :: "(string, ResourceQuantity) hmap"

datatype PodConditionType =
    PodScheduled | ContainersReady | Initialized | Ready | PodReadyToStartContainers | DisruptionTarget

datatype ConditionStatus = CTrue | CFalse | CUnknown

record PodCondition =
  pc_condition_type :: PodConditionType
  pc_status :: ConditionStatus
  pc_last_probe_time :: "timestamp option"
  pc_last_transition_time :: "timestamp option"
  pc_reason :: "string option"
  pc_message :: "string option"

record PodLifecycleState =
  ls_phase :: PodPhase
  ls_reason :: "string option"
  ls_conditions :: "PodCondition list"
  ls_container_statuses :: "ContainerStatus list"
  ls_init_container_statuses :: "ContainerStatus list"
  ls_ephemeral_container_statuses :: "ContainerStatus list"
  ls_start_time :: "timestamp option"
  ls_pod_ip :: "string option"
  ls_host_ip :: "string option"
  ls_nominated_node_name :: "string option"
  ls_observed_generation :: "int option"

definition PodLifecycleState_default :: PodLifecycleState where
  "PodLifecycleState_default =
     \<lparr>ls_phase = Pending, ls_reason = None, ls_conditions = [], ls_container_statuses = [],
      ls_init_container_statuses = [], ls_ephemeral_container_statuses = [], ls_start_time = None,
      ls_pod_ip = None, ls_host_ip = None, ls_nominated_node_name = None,
      ls_observed_generation = None\<rparr>"

subsection \<open>The phase of a pod\<close>

fun is_running :: "ContainerState \<Rightarrow> bool" where
  "is_running (Running _) = True"
| "is_running _ = False"

fun is_crash_loop :: "ContainerState \<Rightarrow> bool" where
  "is_crash_loop (Waiting reason _) = (reason = ''CrashLoopBackOff'')"
| "is_crash_loop _ = False"

fun exited_zero :: "ContainerState \<Rightarrow> bool" where
  "exited_zero (Terminated exit_code _ _ _ _) = (exit_code = 0)"
| "exited_zero _ = False"

fun exited_nonzero :: "ContainerState \<Rightarrow> bool" where
  "exited_nonzero (Terminated exit_code _ _ _ _) = (exit_code \<noteq> 0)"
| "exited_nonzero _ = False"

fun init_phase :: "ContainerStatus list \<Rightarrow> RestartPolicy \<Rightarrow> PodPhase option" where
  "init_phase [] policy = None"
| "init_phase (status # rest) policy =
     (case st_state status of
        Waiting _ _ \<Rightarrow> Some Pending
      | Running _ \<Rightarrow> Some Pending
      | Terminated exit_code _ _ _ _ \<Rightarrow>
          if exit_code \<noteq> 0
          then Some (case policy of Never \<Rightarrow> Failed | _ \<Rightarrow> Pending)
          else init_phase rest policy)"

definition compute_pod_phase :: "ContainerStatus list \<Rightarrow> ContainerStatus list \<Rightarrow> RestartPolicy \<Rightarrow> PodPhase" where
  "compute_pod_phase init_statuses statuses policy =
     (if list_ex (\<lambda>s. is_running (st_state s)) statuses then PhRunning
      else if list_ex (\<lambda>s. is_crash_loop (st_state s)) statuses then PhRunning
      else case init_phase init_statuses policy of
        Some phase \<Rightarrow> phase
      | None \<Rightarrow>
          let all_succeeded = list_all (\<lambda>s. exited_zero (st_state s)) statuses;
              any_failed = list_ex (\<lambda>s. exited_nonzero (st_state s)) statuses
          in if all_succeeded \<and> statuses \<noteq> []
             then (case policy of Always \<Rightarrow> PhRunning | _ \<Rightarrow> Succeeded)
             else if any_failed
             then (case policy of Never \<Rightarrow> Failed | _ \<Rightarrow> PhRunning)
             else Pending)"

lemma init_phase_None_iff:
  "init_phase inits policy = None \<longleftrightarrow> (\<forall>s \<in> set inits. exited_zero (st_state s))"
  by (induction inits) (auto split: ContainerState.splits)

lemma init_phase_SomeD:
  "init_phase inits policy = Some ph \<Longrightarrow> ph = Pending \<or> ph = Failed \<and> policy = Never"
  by (induction inits) (auto split: ContainerState.splits if_splits RestartPolicy.splits)

lemma init_phase_Failed_iff:
  "init_phase inits policy = Some Failed \<longleftrightarrow>
     policy = Never \<and> (\<exists>pre s post. inits = pre @ s # post \<and>
        (\<forall>p \<in> set pre. exited_zero (st_state p)) \<and> exited_nonzero (st_state s))"
proof (induction inits)
  case (Cons i inits)
  show ?case
  proof (cases "st_state i")
    case (Terminated e r m a f)
    show ?thesis
    proof (cases "e = 0")
      case True
      have "(\<exists>pre s post. i # inits = pre @ s # post \<and>
              (\<forall>p \<in> set pre. exited_zero (st_state p)) \<and> exited_nonzero (st_state s)) \<longleftrightarrow>
            (\<exists>pre s post. inits = pre @ s # post \<and>
              (\<forall>p \<in> set pre. exited_zero (st_state p)) \<and> exited_nonzero (st_state s))"
        (is "?L = ?R")
      proof
        assume ?L
        then obtain pre s post where h: "i # inits = pre @ s # post"
          "\<forall>p \<in> set pre. exited_zero (st_state p)" "exited_nonzero (st_state s)" by blast
        with Terminated True show ?R by (cases pre) auto
      next
        assume ?R
        then obtain pre s post where h: "inits = pre @ s # post"
          "\<forall>p \<in> set pre. exited_zero (st_state p)" "exited_nonzero (st_state s)" by blast
        with Terminated True show ?L by (intro exI [of _ "i # pre"]) auto
      qed
      with Cons.IH Terminated True show ?thesis by simp
    next
      case False
      have "\<exists>pre s post. i # inits = pre @ s # post \<and>
              (\<forall>p \<in> set pre. exited_zero (st_state p)) \<and> exited_nonzero (st_state s)"
        using Terminated False by (intro exI [of _ "[]"]) auto
      with Terminated False show ?thesis by (auto split: RestartPolicy.splits)
    qed
  qed (auto simp: Cons_eq_append_conv)
qed simp

lemma exited_zero_not_others:
  "exited_zero c \<Longrightarrow> \<not> is_running c" "exited_zero c \<Longrightarrow> \<not> is_crash_loop c" "exited_zero c \<Longrightarrow> \<not> exited_nonzero c"
  by (cases c; simp)+

subsection \<open>The store of lifecycle states\<close>

record PodStatusManager =
  psm_states :: "(PodUID, PodLifecycleState) hmap"

definition PodStatusManager_new :: PodStatusManager where
  "PodStatusManager_new = \<lparr>psm_states = []\<rparr>"

definition status_get :: "PodStatusManager \<Rightarrow> PodUID \<Rightarrow> PodLifecycleState option" where
  "status_get m uid = hm_get (psm_states m) uid"

definition status_set :: "PodUID \<Rightarrow> PodLifecycleState \<Rightarrow> PodStatusManager \<Rightarrow> PodStatusManager" where
  "status_set uid state m = m\<lparr>psm_states := hm_insert uid state (psm_states m)\<rparr>"

definition status_remove :: "PodUID \<Rightarrow> PodStatusManager \<Rightarrow> PodStatusManager" where
  "status_remove uid m = m\<lparr>psm_states := hm_remove uid (psm_states m)\<rparr>"

definition seed_start_time :: "PodUID \<Rightarrow> timestamp \<Rightarrow> PodStatusManager \<Rightarrow> PodStatusManager" where
  "seed_start_time uid t m =
     (case hm_get (psm_states m) uid of
        Some entry \<Rightarrow>
          if ls_start_time entry = None
          then m\<lparr>psm_states := hm_insert uid (entry\<lparr>ls_start_time := Some t\<rparr>) (psm_states m)\<rparr>
          else m
      | None \<Rightarrow> m)"

definition status_all :: "PodStatusManager \<Rightarrow> (PodUID \<times> PodLifecycleState) list" where
  "status_all m = psm_states m"

definition waiting_status :: "string \<Rightarrow> ContainerSpec \<Rightarrow> ContainerStatus" where
  "waiting_status reason c =
     \<lparr>st_name = ctr_name c, st_state = Waiting reason None, st_last_state = None, st_ready = False,
      st_restart_count = 0, st_image = ctr_image c, st_image_id = [], st_container_id = None,
      st_started = Some False, st_resources = Some (ctr_resources c),
      st_allocated_resources = rr_requests (ctr_resources c)\<rparr>"

definition status_initialize ::
  "timestamp \<Rightarrow> timestamp \<Rightarrow> timestamp \<Rightarrow> PodSpec \<Rightarrow> PodStatusManager \<Rightarrow> PodStatusManager" where
  "status_initialize now0 now1 now2 pod m =
     (let start =
            (case Option.bind (hm_get (psm_states m) (ps_uid pod)) ls_start_time of
               Some t \<Rightarrow> Some t
             | None \<Rightarrow> (case ps_observed_start_time pod of Some t \<Rightarrow> Some t | None \<Rightarrow> Some now0));
          state = PodLifecycleState_default
            \<lparr>ls_start_time := start,
             ls_container_statuses := map (waiting_status ''ContainerCreating'') (ps_containers pod),
             ls_init_container_statuses := map (waiting_status ''PodInitializing'') (ps_init_containers pod),
             ls_conditions :=
               [\<lparr>pc_condition_type = PodScheduled, pc_status = CTrue, pc_last_probe_time = None,
                 pc_last_transition_time = Some now1, pc_reason = None, pc_message = None\<rparr>,
                \<lparr>pc_condition_type = Initialized,
                 pc_status = (if ps_init_containers pod = [] then CTrue else CFalse),
                 pc_last_probe_time = None, pc_last_transition_time = Some now2,
                 pc_reason = None, pc_message = None\<rparr>]\<rparr>
      in m\<lparr>psm_states := hm_insert (ps_uid pod) state (psm_states m)\<rparr>)"

definition compute_readiness :: "PodStatusManager \<Rightarrow> PodUID \<Rightarrow> bool" where
  "compute_readiness m uid =
     (case hm_get (psm_states m) uid of
        Some state \<Rightarrow> list_all st_ready (ls_container_statuses state)
      | None \<Rightarrow> False)"

text \<open>The interface the pod manager and the runtime manager use of the status store.\<close>

locale status_store =
  fixes sget :: "'m \<Rightarrow> PodUID \<Rightarrow> PodLifecycleState option"
    and sset :: "PodUID \<Rightarrow> PodLifecycleState \<Rightarrow> 'm \<Rightarrow> 'm"
    and sremove :: "PodUID \<Rightarrow> 'm \<Rightarrow> 'm"
    and sseed :: "PodUID \<Rightarrow> timestamp \<Rightarrow> 'm \<Rightarrow> 'm"
  assumes get_set: "sget (sset uid s m) u = (if u = uid then Some s else sget m u)"
    and get_remove: "sget (sremove uid m) u = (if u = uid then None else sget m u)"
    and get_seed: "sget (sseed uid t m) u =
           (if u = uid
            then map_option (\<lambda>s. if ls_start_time s = None then s\<lparr>ls_start_time := Some t\<rparr> else s) (sget m u)
            else sget m u)"
begin

lemma seed_keeps_start: "sget m uid = Some s \<Longrightarrow> ls_start_time s = Some t0 \<Longrightarrow> sget (sseed uid t m) uid = Some s"
  by (simp add: get_seed)

lemma seed_first_wins: "sget (sseed uid t2 (sseed uid t1 m)) u = sget (sseed uid t1 m) u"
  by (auto simp: get_seed option.map_comp comp_def intro!: option.map_cong)

lemma seed_only_start:
  "sget m u = Some s \<Longrightarrow> \<exists>s'. sget (sseed uid t m) u = Some s' \<and>
     s'\<lparr>ls_start_time := ls_start_time s\<rparr> = s \<and> (ls_start_time s \<noteq> None \<longrightarrow> s' = s)"
  by (rule exI [of _ "if u = uid \<and> ls_start_time s = None then s\<lparr>ls_start_time := Some t\<rparr> else s"])
     (cases "u = uid"; cases "ls_start_time s"; simp add: get_seed)

lemma set_then_get: "sget (sset uid s m) uid = Some s"
  by (simp add: get_set)

end

interpretation ss: status_store status_get status_set status_remove seed_start_time
  by unfold_locales
     (auto simp: status_get_def status_set_def status_remove_def seed_start_time_def split: option.splits)

lemmas status_defs = status_get_def status_set_def status_remove_def seed_start_time_def
  status_initialize_def compute_readiness_def

lemma status_get_initialize_other [simp]:
  "u \<noteq> ps_uid pod \<Longrightarrow> status_get (status_initialize a b c pod m) u = status_get m u"
  by (simp add: status_defs Let_def)

lemma status_get_initialize_same:
  "\<exists>s. status_get (status_initialize a b c pod m) (ps_uid pod) = Some s \<and> ls_phase s = Pending \<and>
       ls_start_time s \<noteq> None"
  by (simp add: status_defs Let_def PodLifecycleState_default_def split: option.splits)

subsection \<open>Quality of service\<close>

datatype QosClass = Guaranteed | Burstable | BestEffort

fun QosClass_to_string :: "QosClass \<Rightarrow> string" where
  "QosClass_to_string Guaranteed = ''Guaranteed''"
| "QosClass_to_string Burstable = ''Burstable''"
| "QosClass_to_string BestEffort = ''BestEffort''"

definition container_guaranteed :: "ContainerSpec \<Rightarrow> bool" where
  "container_guaranteed c =
     (case (hm_get (rr_requests (ctr_resources c)) ''cpu'', hm_get (rr_limits (ctr_resources c)) ''cpu'',
            hm_get (rr_requests (ctr_resources c)) ''memory'', hm_get (rr_limits (ctr_resources c)) ''memory'') of
        (Some cr, Some cl, Some mr, Some ml) \<Rightarrow> cr = cl \<and> mr = ml
      | _ \<Rightarrow> False)"

definition compute_qos_class :: "PodSpec \<Rightarrow> QosClass" where
  "compute_qos_class pod =
     (let cs = all_containers pod in
      if cs = [] then BestEffort
      else if \<not> list_ex (\<lambda>c. rr_requests (ctr_resources c) \<noteq> [] \<or> rr_limits (ctr_resources c) \<noteq> []) cs
      then BestEffort
      else if list_all container_guaranteed cs then Guaranteed
      else Burstable)"

fun oom_score_adj :: "QosClass \<Rightarrow> int" where
  "oom_score_adj Guaranteed = -997"
| "oom_score_adj Burstable = 0"
| "oom_score_adj BestEffort = 1000"

lemma container_guaranteed_iff:
  "container_guaranteed c \<longleftrightarrow>
     (\<forall>r \<in> {''cpu'', ''memory''}. hm_get (rr_requests (ctr_resources c)) r \<noteq> None \<and>
        hm_get (rr_requests (ctr_resources c)) r = hm_get (rr_limits (ctr_resources c)) r)"
  by (auto simp: container_guaranteed_def split: option.splits)

lemma container_guaranteed_nonempty: "container_guaranteed c \<Longrightarrow> rr_requests (ctr_resources c) \<noteq> []"
  by (auto simp: container_guaranteed_def split: option.splits)

subsection \<open>Sync actions and validation\<close>

datatype SyncAction = ACreate | AUpdate | ADelete | AReconcile

definition determine_sync_action :: "PodUpdate \<Rightarrow> SyncAction" where
  "determine_sync_action u =
     (case pu_op u of OpAdd \<Rightarrow> ACreate | OpUpdate \<Rightarrow> AUpdate | OpRemove \<Rightarrow> ADelete | OpReconcile \<Rightarrow> AReconcile)"

fun validate_containers :: "ContainerSpec list \<Rightarrow> unit result" where
  "validate_containers [] = Inr ()"
| "validate_containers (c # cs) =
     (if ctr_name c = [] then Inl (EConfig ''container name cannot be empty'')
      else if ctr_image c = [] then Inl (EConfig (''container '' @ [CHR 0x27] @ ctr_name c @ [CHR 0x27] @ '' has no image''))
      else validate_containers cs)"

definition validate_pod :: "PodSpec \<Rightarrow> unit result" where
  "validate_pod pod =
     (if pr_name (ps_pod_ref pod) = [] then Inl (EConfig ''pod name cannot be empty'')
      else if pr_namespace (ps_pod_ref pod) = [] then Inl (EConfig ''pod namespace cannot be empty'')
      else if ps_uid pod = [] then Inl (EConfig ''pod UID cannot be empty'')
      else validate_containers (ps_containers pod))"

lemma validate_containers_ok_iff:
  "validate_containers cs = Inr () \<longleftrightarrow> (\<forall>c \<in> set cs. ctr_name c \<noteq> [] \<and> ctr_image c \<noteq> [])"
  by (induction cs) auto

lemma validate_containers_err: "validate_containers cs = Inl e \<Longrightarrow> \<exists>m. e = EConfig m"
  by (induction cs) (auto split: if_splits)

subsection \<open>Properties\<close>

text \<open>which phase a pod gets, completely. \<open>compute_pod_phase\<close> is Succeeded exactly when the
  restart policy is not Always, there are app containers, and every container, init or app, has
  exited with code 0. It is Failed exactly when the policy is Never, no app container runs or waits
  in CrashLoopBackOff, and either the first init container that has not succeeded has failed or all
  have succeeded and an app container has failed. It is Running exactly when an app container runs
  or backs off, or all init containers have succeeded and the app containers have stopped in a way
  the policy restarts. It is never Unknown.\<close>

theorem compute_pod_phase_characterisation:
  "(compute_pod_phase inits apps policy = Succeeded \<longleftrightarrow>
      policy \<noteq> Always \<and> apps \<noteq> [] \<and> (\<forall>s \<in> set apps \<union> set inits. exited_zero (st_state s))) \<and>
   (compute_pod_phase inits apps policy = Failed \<longleftrightarrow>
      policy = Never \<and> (\<forall>s \<in> set apps. \<not> is_running (st_state s) \<and> \<not> is_crash_loop (st_state s)) \<and>
      ((\<exists>pre s post. inits = pre @ s # post \<and> (\<forall>p \<in> set pre. exited_zero (st_state p)) \<and>
           exited_nonzero (st_state s)) \<or>
       (\<forall>s \<in> set inits. exited_zero (st_state s)) \<and> (\<exists>s \<in> set apps. exited_nonzero (st_state s)))) \<and>
   (compute_pod_phase inits apps policy = PhRunning \<longleftrightarrow>
      (\<exists>s \<in> set apps. is_running (st_state s) \<or> is_crash_loop (st_state s)) \<or>
      (\<forall>s \<in> set inits. exited_zero (st_state s)) \<and>
        (policy = Always \<and> apps \<noteq> [] \<and> (\<forall>s \<in> set apps. exited_zero (st_state s)) \<or>
         policy \<noteq> Never \<and> (\<exists>s \<in> set apps. exited_nonzero (st_state s)))) \<and>
   compute_pod_phase inits apps policy \<noteq> PhUnknown"
proof -
  define R C Z F I where "R = (\<exists>s \<in> set apps. is_running (st_state s))"
    and "C = (\<exists>s \<in> set apps. is_crash_loop (st_state s))"
    and "Z = (\<forall>s \<in> set apps. exited_zero (st_state s))"
    and "F = (\<exists>s \<in> set apps. exited_nonzero (st_state s))"
    and "I = (\<forall>s \<in> set inits. exited_zero (st_state s))"
  have Z: "Z \<Longrightarrow> \<not> R \<and> \<not> C \<and> \<not> F"
    by (auto simp: R_def C_def Z_def F_def dest: exited_zero_not_others)
  have sets: "(\<forall>s \<in> set apps. \<not> is_running (st_state s) \<and> \<not> is_crash_loop (st_state s)) \<longleftrightarrow> \<not> R \<and> \<not> C"
    "(\<exists>s \<in> set apps. is_running (st_state s) \<or> is_crash_loop (st_state s)) \<longleftrightarrow> R \<or> C"
    "(\<forall>s \<in> set apps \<union> set inits. exited_zero (st_state s)) \<longleftrightarrow> Z \<and> I"
    by (auto simp: R_def C_def Z_def I_def)
  have phase: "compute_pod_phase inits apps policy =
      (if R \<or> C then PhRunning
       else case init_phase inits policy of
         Some ph \<Rightarrow> ph
       | None \<Rightarrow> if Z \<and> apps \<noteq> [] then (case policy of Always \<Rightarrow> PhRunning | _ \<Rightarrow> Succeeded)
                else if F then (case policy of Never \<Rightarrow> Failed | _ \<Rightarrow> PhRunning) else Pending)"
    unfolding compute_pod_phase_def Let_def list_ex_iff list_all_iff
      R_def [symmetric] C_def [symmetric] Z_def [symmetric] F_def [symmetric]
    by (cases R; cases C; simp)
  define P where "P = (\<exists>pre s post. inits = pre @ s # post \<and>
      (\<forall>p \<in> set pre. exited_zero (st_state p)) \<and> exited_nonzero (st_state s))"
  have P: "init_phase inits policy = Some Failed \<longleftrightarrow> policy = Never \<and> P"
    unfolding P_def by (rule init_phase_Failed_iff)
  have I: "init_phase inits policy = None \<longleftrightarrow> I"
    unfolding I_def by (rule init_phase_None_iff)
  note folds = sets phase Z_def [symmetric] F_def [symmetric] I_def [symmetric] P_def [symmetric]
  show ?thesis
  proof (cases "init_phase inits policy")
    case None
    with P I Z show ?thesis unfolding folds by (cases policy; cases R; cases C; cases Z; cases F; simp)
  next
    case (Some ph)
    with P I Z init_phase_SomeD [OF Some] show ?thesis unfolding folds
      by (cases policy; cases R; cases C; cases Z; cases F; auto)
  qed
qed

lemma compute_pod_phase_characterisation_witness:
  "compute_pod_phase [] [(waiting_status [] ContainerSpec_default)\<lparr>st_state := Terminated 1 [] None 0 0\<rparr>] Never = Failed"
  using compute_pod_phase_characterisation
    [of "[]" "[(waiting_status [] ContainerSpec_default)\<lparr>st_state := Terminated 1 [] None 0 0\<rparr>]" Never]
  by simp

text \<open>the QoS class, completely. A pod is Guaranteed exactly when it has a container and every
  app and init container has a CPU and a memory request equal to its limit; it is BestEffort exactly
  when no container has a request or a limit; otherwise it is Burstable.\<close>

theorem compute_qos_class_characterisation:
  "(compute_qos_class pod = Guaranteed \<longleftrightarrow> all_containers pod \<noteq> [] \<and>
      (\<forall>c \<in> set (all_containers pod). \<forall>r \<in> {''cpu'', ''memory''}.
         hm_get (rr_requests (ctr_resources c)) r \<noteq> None \<and>
         hm_get (rr_requests (ctr_resources c)) r = hm_get (rr_limits (ctr_resources c)) r)) \<and>
   (compute_qos_class pod = BestEffort \<longleftrightarrow>
      (\<forall>c \<in> set (all_containers pod). rr_requests (ctr_resources c) = [] \<and> rr_limits (ctr_resources c) = []))"
proof -
  define G B where "G = (\<forall>c \<in> set (all_containers pod). container_guaranteed c)"
    and "B = (\<forall>c \<in> set (all_containers pod). rr_requests (ctr_resources c) = [] \<and> rr_limits (ctr_resources c) = [])"
  have GB: "all_containers pod = [] \<or> \<not> (G \<and> B)"
    unfolding G_def B_def
    by (metis container_guaranteed_nonempty list.set_intros(1) neq_Nil_conv)
  have BE: "all_containers pod = [] \<Longrightarrow> B" by (simp add: B_def)
  have "compute_qos_class pod =
      (if all_containers pod = [] \<or> B then BestEffort else if G then Guaranteed else Burstable)"
    unfolding compute_qos_class_def Let_def list_ex_iff list_all_iff G_def B_def
    by simp
  then show ?thesis
    unfolding container_guaranteed_iff [symmetric] G_def [symmetric] B_def [symmetric]
    using GB BE by (cases "all_containers pod = []"; cases G; cases B; simp)
qed

lemma compute_qos_class_characterisation_witness:
  "compute_qos_class (PodSpec_default\<lparr>ps_containers := [ContainerSpec_default]\<rparr>) = BestEffort"
  using compute_qos_class_characterisation [of "PodSpec_default\<lparr>ps_containers := [ContainerSpec_default]\<rparr>"]
  by (simp add: PodSpec_default_def ContainerSpec_default_def ResourceRequirements_default_def)

text \<open>The comment on \<open>Guaranteed\<close> asks for non-zero requests; the code does not. A pod
  whose only container requests and is limited to zero CPU and zero memory is Guaranteed.\<close>

theorem guaranteed_with_zero_requests:
  "compute_qos_class (PodSpec_default\<lparr>ps_containers := [ContainerSpec_default\<lparr>ctr_resources :=
     \<lparr>rr_requests = [(''cpu'', cpu_millicores 0), (''memory'', memory_bytes 0)],
      rr_limits = [(''cpu'', cpu_millicores 0), (''memory'', memory_bytes 0)]\<rparr>\<rparr>]\<rparr>) = Guaranteed"
  by (simp add: compute_qos_class_def PodSpec_default_def container_guaranteed_def)

text \<open>Validation accepts a pod exactly when its name, namespace and UID are non-empty and every
  app container has a name and an image, and every rejection is a configuration error. Init and
  ephemeral containers are not looked at.\<close>

theorem validate_pod_characterisation:
  "(validate_pod pod = Inr () \<longleftrightarrow>
      pr_name (ps_pod_ref pod) \<noteq> [] \<and> pr_namespace (ps_pod_ref pod) \<noteq> [] \<and> ps_uid pod \<noteq> [] \<and>
      (\<forall>c \<in> set (ps_containers pod). ctr_name c \<noteq> [] \<and> ctr_image c \<noteq> [])) \<and>
   (validate_pod pod \<noteq> Inr () \<longrightarrow> (\<exists>msg. validate_pod pod = Inl (EConfig msg)))"
proof -
  have "\<exists>msg. validate_containers cs = Inl (EConfig msg)" if "validate_containers cs \<noteq> Inr ()" for cs
    using that validate_containers_err [of cs] by (cases "validate_containers cs") auto
  then show ?thesis
    by (simp add: validate_pod_def validate_containers_ok_iff)
qed

theorem validate_pod_characterisation_witness:
  "validate_pod PodSpec_default \<noteq> Inr () \<and> (\<exists>msg. validate_pod PodSpec_default = Inl (EConfig msg))"
proof -
  have h: "validate_pod PodSpec_default \<noteq> Inr ()"
    by (simp add: validate_pod_def PodSpec_default_def)
  show ?thesis using h validate_pod_characterisation [of PodSpec_default] by blast
qed

text \<open>Initialising the status of a pod keeps the start time it already had, else takes the one
  the API server reported, else the current time; every container starts out waiting, and the pod
  Pending and not ready unless it has no containers.\<close>

theorem status_initialize_start_time:
  "\<exists>s. status_get (status_initialize now0 now1 now2 pod m) (ps_uid pod) = Some s \<and> ls_phase s = Pending \<and>
     ls_start_time s =
       (case Option.bind (status_get m (ps_uid pod)) ls_start_time of
          Some t \<Rightarrow> Some t
        | None \<Rightarrow> (case ps_observed_start_time pod of Some t \<Rightarrow> Some t | None \<Rightarrow> Some now0)) \<and>
     map st_name (ls_container_statuses s) = map ctr_name (ps_containers pod) \<and>
     map st_name (ls_init_container_statuses s) = map ctr_name (ps_init_containers pod) \<and>
     compute_readiness (status_initialize now0 now1 now2 pod m) (ps_uid pod) = (ps_containers pod = [])"
proof -
  have r: "list_all st_ready (map (waiting_status r) cs) = (cs = [])" for r cs
    by (cases cs) (simp_all add: waiting_status_def)
  show ?thesis
    by (simp add: status_get_def status_initialize_def compute_readiness_def Let_def r
          PodLifecycleState_default_def comp_def waiting_status_def)
qed

end
