(* ===== verification/F64.thy ===== *)
theory F64
  imports Rust_Str "HOL-Library.Log_Nat" Complex_Main
begin

text \<open>
  Rust's \<^verbatim>\<open>f64\<close>: finite values are rationals, arithmetic is exact arithmetic followed by rounding to
  nearest, ties to even, on the binary64 grid (53 significant bits, smallest exponent \<open>- 1074\<close>),
  overflow gives an infinity. The sign of zero is not kept: none of the code divides by a zero it
  computed. \<open>as u64\<close> truncates, saturates and sends NaN to 0.
\<close>

datatype f64 = Fin rat | PInf | NInf | NaN

subsection \<open>Rounding\<close>

definition rnd_even :: "rat \<Rightarrow> int" where
  "rnd_even x = (let f = \<lfloor>x\<rfloor>; d = x - of_int f in
     if d < 1 / 2 then f else if 1 / 2 < d then f + 1 else if even f then f else f + 1)"

definition fexp :: "rat \<Rightarrow> int" where
  "fexp x = (let (p, q) = quotient_of x; e = bitlen p - bitlen q in if 2 powi e \<le> x then e else e - 1)"

definition grid :: "rat \<Rightarrow> int" where
  "grid x = max (fexp x - 52) (- 1074)"

definition fl_pos :: "rat \<Rightarrow> rat" where
  "fl_pos x = of_int (rnd_even (x / 2 powi grid x)) * 2 powi grid x"

definition fl :: "rat \<Rightarrow> rat" where
  "fl x = (if x = 0 then 0 else if 0 < x then fl_pos x else - fl_pos (- x))"

definition round64 :: "rat \<Rightarrow> f64" where
  "round64 x = (let y = fl x in if 2 powi 1024 \<le> y then PInf else if y \<le> - (2 powi 1024) then NInf else Fin y)"

lemma rnd_even_ge: "of_int k \<le> x \<Longrightarrow> k \<le> rnd_even x"
proof -
  assume "of_int k \<le> x"
  then have "k \<le> \<lfloor>x\<rfloor>" by (simp add: le_floor_iff)
  then show ?thesis by (simp add: rnd_even_def Let_def)
qed

lemma rnd_even_le: "x \<le> of_int k \<Longrightarrow> rnd_even x \<le> k"
proof -
  assume "x \<le> of_int k"
  moreover have "\<lfloor>x\<rfloor> + 1 \<le> k" if "x \<noteq> of_int \<lfloor>x\<rfloor>"
  proof -
    have "of_int \<lfloor>x\<rfloor> < x" using that of_int_floor_le [of x] by linarith
    with \<open>x \<le> of_int k\<close> have "of_int \<lfloor>x\<rfloor> < (of_int k :: rat)" by linarith
    then show ?thesis by simp
  qed
  moreover have "\<lfloor>x\<rfloor> \<le> k" using \<open>x \<le> of_int k\<close> by linarith
  ultimately show ?thesis by (cases "x = of_int \<lfloor>x\<rfloor>") (auto simp: rnd_even_def Let_def)
qed

lemma powi_pos [simp]: "0 < (2 :: rat) powi e"
  by simp

lemma bitlen_powi:
  assumes "0 < p"
  shows "(2 :: rat) powi (bitlen p - 1) \<le> of_int p" "of_int p < (2 :: rat) powi bitlen p"
proof -
  have b: "2 ^ nat (bitlen p - 1) \<le> p" "p < 2 ^ nat (bitlen p)" using bitlen_bounds [OF assms] by simp_all
  have "\<not> bitlen p \<le> 0" using b(2) assms by auto
  then have e: "(2 :: rat) powi (bitlen p - 1) = of_int (2 ^ nat (bitlen p - 1))"
    "(2 :: rat) powi bitlen p = of_int (2 ^ nat (bitlen p))" by (simp_all add: power_int_def)
  show "(2 :: rat) powi (bitlen p - 1) \<le> of_int p" "of_int p < (2 :: rat) powi bitlen p"
    unfolding e of_int_le_iff of_int_less_iff by (fact b)+
qed

lemma fexp_bounds:
  assumes "0 < x"
  shows "2 powi fexp x \<le> x" and "x < 2 powi (fexp x + 1)"
proof -
  obtain p q where pq: "quotient_of x = (p, q)" by fastforce
  then have q: "0 < q" and x: "x = of_int p / of_int q"
    by (auto dest: quotient_of_denom_pos quotient_of_div)
  with assms have p: "0 < p" by (simp add: zero_less_divide_iff)
  note bp = bitlen_powi [OF p] and bq = bitlen_powi [OF q]
  let ?e = "bitlen p - bitlen q"
  have up: "x < 2 powi (?e + 1)"
  proof -
    have "x < 2 powi bitlen p / 2 powi (bitlen q - 1)"
      unfolding x using bp bq p q by (intro frac_less) auto
    also have "\<dots> = 2 powi (?e + 1)" by (simp add: power_int_diff power_int_add)
    finally show ?thesis .
  qed
  have lo: "2 powi (?e - 1) \<le> x"
  proof -
    have "2 powi (?e - 1) = (2 :: rat) powi (bitlen p - 1) / 2 powi bitlen q" by (simp add: power_int_diff)
    also have "\<dots> \<le> x" unfolding x using bp bq p q by (intro frac_le) auto
    finally show ?thesis .
  qed
  show "2 powi fexp x \<le> x" "x < 2 powi (fexp x + 1)"
    using up lo by (auto simp: fexp_def pq Let_def)
qed

subsection \<open>Comparison with values of the grid\<close>

text \<open>A representable value is an integer of at most 53 bits times a power of two.\<close>

definition representable :: "rat \<Rightarrow> bool" where
  "representable r \<longleftrightarrow> (\<exists>k j. r = of_int k * 2 powi j \<and> \<bar>k\<bar> \<le> 2 ^ 53 \<and> - 1074 \<le> j)"

lemma representable_of_nat: "n \<le> 2 ^ 53 \<Longrightarrow> representable (of_nat n)"
  unfolding representable_def by (rule exI [of _ "int n"], rule exI [of _ 0]) simp

lemma grid_point:
  assumes "grid x \<le> j"
  obtains i where "of_int k * 2 powi j = of_int i * (2 :: rat) powi grid x"
proof
  have "(2 :: rat) powi j = 2 powi ((j - grid x) + grid x)" by simp
  also have "\<dots> = 2 powi (j - grid x) * 2 powi grid x" by (rule power_int_add) simp
  also have "(2 :: rat) powi (j - grid x) = 2 ^ nat (j - grid x)" using assms by (simp add: power_int_def)
  finally have "(2 :: rat) powi j = 2 ^ nat (j - grid x) * 2 powi grid x" .
  then show "of_int k * 2 powi j = of_int (k * 2 ^ nat (j - grid x)) * (2 :: rat) powi grid x" by simp
qed

lemma fl_pos_ge_grid: "of_int i * 2 powi grid x \<le> x \<Longrightarrow> of_int i * 2 powi grid x \<le> fl_pos x"
  unfolding fl_pos_def by (intro mult_right_mono) (simp_all add: rnd_even_ge pos_le_divide_eq)

lemma fl_pos_le_grid: "x \<le> of_int i * 2 powi grid x \<Longrightarrow> fl_pos x \<le> of_int i * 2 powi grid x"
  unfolding fl_pos_def by (intro mult_right_mono) (simp_all add: rnd_even_le pos_divide_le_eq)

text \<open>When the grid of \<open>x\<close> is coarser than the value's own, the value is below the binade of \<open>x\<close>.\<close>

lemma below_binade:
  assumes x: "0 < x" and j: "\<not> grid x \<le> j" "- 1074 \<le> j" and k: "k \<le> 2 ^ 53"
  shows "of_int k * 2 powi j \<le> (2 :: rat) powi (grid x + 52)" "(2 :: rat) powi (grid x + 52) \<le> x"
proof -
  have g: "grid x = fexp x - 52" using j unfolding grid_def by linarith
  show "(2 :: rat) powi (grid x + 52) \<le> x" using fexp_bounds(1) [OF x] by (simp add: g)
  have "of_int k * 2 powi j \<le> of_int (2 ^ 53) * (2 :: rat) powi j"
    using k by (intro mult_right_mono) (simp_all only: of_int_le_iff, simp)
  also have "\<dots> = 2 powi (53 + j)" by (simp add: power_int_add)
  also have "\<dots> \<le> 2 powi (grid x + 52)" using j by (intro power_int_increasing) auto
  finally show "of_int k * 2 powi j \<le> (2 :: rat) powi (grid x + 52)" .
qed

lemma fl_pos_ge:
  assumes x: "0 < x" and r: "representable r" "r \<le> x"
  shows "r \<le> fl_pos x"
proof -
  from r(1) obtain k j where kj: "r = of_int k * 2 powi j" "\<bar>k\<bar> \<le> 2 ^ 53" "- 1074 \<le> j"
    by (auto simp: representable_def)
  show ?thesis
  proof (cases "grid x \<le> j")
    case True
    from grid_point [OF this, of k] obtain i where "r = of_int i * 2 powi grid x" unfolding kj(1) .
    with r(2) show ?thesis by (simp add: fl_pos_ge_grid)
  next
    case False
    have k: "k \<le> 2 ^ 53" using kj(2) by linarith
    have p: "(2 :: rat) powi (grid x + 52) = of_int (2 ^ 52) * 2 powi grid x" by (simp add: power_int_add)
    note b = below_binade [OF x False kj(3) k]
    have "2 powi (grid x + 52) \<le> fl_pos x"
      using fl_pos_ge_grid [of "2 ^ 52" x] b(2) by (simp only: p)
    with b(1) show ?thesis unfolding kj(1) by linarith
  qed
qed

lemma fl_pos_le:
  assumes x: "0 < x" and r: "representable r" "x \<le> r"
  shows "fl_pos x \<le> r"
proof -
  from r(1) obtain k j where kj: "r = of_int k * 2 powi j" "\<bar>k\<bar> \<le> 2 ^ 53" "- 1074 \<le> j"
    by (auto simp: representable_def)
  show ?thesis
  proof (cases "grid x \<le> j")
    case True
    from grid_point [OF this, of k] obtain i where "r = of_int i * 2 powi grid x" unfolding kj(1) .
    with r(2) show ?thesis by (simp add: fl_pos_le_grid)
  next
    case False
    have k: "k \<le> 2 ^ 53" using kj(2) by linarith
    have p: "(2 :: rat) powi (grid x + 52) = of_int (2 ^ 52) * 2 powi grid x" by (simp add: power_int_add)
    note b = below_binade [OF x False kj(3) k]
    from b r(2) have e: "x = 2 powi (grid x + 52)" "r = x" unfolding kj(1) by linarith+
    have "x \<le> of_int (2 ^ 52) * 2 powi grid x" using e(1) p by simp
    from fl_pos_le_grid [OF this] show ?thesis using e p by simp
  qed
qed

lemma representable_uminus [simp]: "representable (- r) = representable r"
proof -
  have "representable (- r)" if "representable r" for r
  proof -
    from that obtain k j where "r = of_int k * 2 powi j" "\<bar>k\<bar> \<le> 2 ^ 53" "- 1074 \<le> j" by (auto simp: representable_def)
    then show ?thesis unfolding representable_def by (intro exI [of _ "- k"] exI [of _ j]) simp
  qed
  from this [of r] this [of "- r"] show ?thesis by auto
qed

lemma fl_pos_nonneg: "0 < x \<Longrightarrow> 0 \<le> fl_pos x"
  using fl_pos_ge [of x 0] representable_of_nat [of 0] by simp

theorem fl_ge: "representable r \<Longrightarrow> r \<le> x \<Longrightarrow> r \<le> fl x"
  using fl_pos_ge [of x r] fl_pos_le [of "- x" "- r"] by (auto simp: fl_def)

theorem fl_le: "representable r \<Longrightarrow> x \<le> r \<Longrightarrow> fl x \<le> r"
  using fl_pos_le [of x r] fl_pos_ge [of "- x" "- r"] by (auto simp: fl_def)

lemma fl_representable: "representable r \<Longrightarrow> fl r = r"
  by (intro antisym fl_ge fl_le) simp_all

lemma fl_0 [simp]: "fl 0 = 0"
  by (simp add: fl_def)

lemma fl_1 [simp]: "fl 1 = 1"
  using fl_representable [OF representable_of_nat [of 1]] by simp

lemma fl_nonneg: "0 \<le> x \<Longrightarrow> 0 \<le> fl x"
  using fl_ge [of 0 x] representable_of_nat [of 0] by simp

subsection \<open>Operations\<close>

definition f64_of_u64 :: "nat \<Rightarrow> f64" where
  "f64_of_u64 n = round64 (of_nat n)"

fun f64_div :: "f64 \<Rightarrow> f64 \<Rightarrow> f64" where
  "f64_div (Fin x) (Fin y) =
     (if y = 0 then (if x = 0 then NaN else if 0 < x then PInf else NInf) else round64 (x / y))"
| "f64_div NaN _ = NaN"
| "f64_div _ NaN = NaN"
| "f64_div (Fin x) _ = Fin 0"
| "f64_div PInf (Fin y) = (if 0 \<le> y then PInf else NInf)"
| "f64_div NInf (Fin y) = (if 0 \<le> y then NInf else PInf)"
| "f64_div _ _ = NaN"

fun f64_mul :: "f64 \<Rightarrow> f64 \<Rightarrow> f64" where
  "f64_mul (Fin x) (Fin y) = round64 (x * y)"
| "f64_mul NaN _ = NaN"
| "f64_mul _ NaN = NaN"
| "f64_mul (Fin x) PInf = (if x = 0 then NaN else if 0 < x then PInf else NInf)"
| "f64_mul (Fin x) NInf = (if x = 0 then NaN else if 0 < x then NInf else PInf)"
| "f64_mul PInf (Fin y) = (if y = 0 then NaN else if 0 < y then PInf else NInf)"
| "f64_mul NInf (Fin y) = (if y = 0 then NaN else if 0 < y then NInf else PInf)"
| "f64_mul PInf PInf = PInf"
| "f64_mul NInf NInf = PInf"
| "f64_mul _ _ = NInf"

fun f64_sub :: "f64 \<Rightarrow> f64 \<Rightarrow> f64" where
  "f64_sub (Fin x) (Fin y) = round64 (x - y)"
| "f64_sub NaN _ = NaN"
| "f64_sub _ NaN = NaN"
| "f64_sub (Fin x) PInf = NInf"
| "f64_sub (Fin x) NInf = PInf"
| "f64_sub PInf PInf = NaN"
| "f64_sub NInf NInf = NaN"
| "f64_sub PInf _ = PInf"
| "f64_sub NInf _ = NInf"

fun f64_less :: "f64 \<Rightarrow> f64 \<Rightarrow> bool" where
  "f64_less (Fin x) (Fin y) = (x < y)"
| "f64_less NInf (Fin y) = True"
| "f64_less NInf PInf = True"
| "f64_less (Fin x) PInf = True"
| "f64_less _ _ = False"

fun f64_as_u64 :: "f64 \<Rightarrow> nat" where
  "f64_as_u64 (Fin x) = min (nat \<lfloor>x\<rfloor>) (2 ^ 64 - 1)"
| "f64_as_u64 PInf = 2 ^ 64 - 1"
| "f64_as_u64 _ = 0"

text \<open>\<^verbatim>\<open>str::parse::<f64>\<close>: an optional sign, then digits with an optional fraction and exponent, at least one
  digit before or after the dot, or one of the names of infinity and NaN; the value is rounded once.\<close>

definition parse_exponent :: "string \<Rightarrow> int option" where
  "parse_exponent e =
     (let (neg, ds) = (case e of c # r \<Rightarrow> if c = CHR ''-'' then (True, r) else if c = CHR ''+'' then (False, r) else (False, e)
                       | [] \<Rightarrow> (False, []))
      in if ds = [] \<or> \<not> list_all is_digit ds then None
         else Some (if neg then - int (digits_val 0 ds) else int (digits_val 0 ds)))"

definition parse_decimal :: "string \<Rightarrow> rat option" where
  "parse_decimal s =
     (let m = takeWhile (\<lambda>c. c \<noteq> CHR ''e'' \<and> c \<noteq> CHR ''E'') s; rest = drop (length m) s;
          (whole, frac) = (case split_once CHR ''.'' m of Some (a, b) \<Rightarrow> (a, b) | None \<Rightarrow> (m, []));
          e = (case rest of [] \<Rightarrow> Some 0 | _ # x \<Rightarrow> parse_exponent x)
      in if whole @ frac = [] \<or> \<not> list_all is_digit (whole @ frac) then None
         else map_option (\<lambda>e. of_nat (digits_val 0 (whole @ frac)) * 10 powi (e - int (length frac))) e)"

definition parse_f64 :: "string \<Rightarrow> f64 option" where
  "parse_f64 s =
     (let (neg, body) = (case s of c # r \<Rightarrow> if c = CHR ''-'' then (True, r) else if c = CHR ''+'' then (False, r) else (False, s)
                         | [] \<Rightarrow> (False, []));
          l = to_lowercase body
      in if l = ''inf'' \<or> l = ''infinity'' then Some (if neg then NInf else PInf)
         else if l = ''nan'' then Some NaN
         else map_option (\<lambda>x. round64 (if neg then - x else x)) (parse_decimal body))"

text \<open>Within the range of \<^verbatim>\<open>u64\<close> nothing overflows.\<close>

lemma round64_Fin: "\<bar>x\<bar> \<le> 2 ^ 64 \<Longrightarrow> round64 x = Fin (fl x)"
proof -
  assume a: "\<bar>x\<bar> \<le> 2 ^ 64"
  have r: "representable (2 ^ 64)"
    unfolding representable_def by (intro exI [of _ 1] exI [of _ 64]) (simp add: power_int_def)
  have "fl x \<le> 2 ^ 64" "- (2 ^ 64) \<le> fl x" using a r by (intro fl_le fl_ge; simp)+
  moreover have "(2 :: rat) ^ 64 < 2 powi 1024" by (simp add: power_int_def)
  ultimately show ?thesis by (simp add: round64_def Let_def)
qed

lemma f64_of_u64_Fin: "n < 2 ^ 64 \<Longrightarrow> f64_of_u64 n = Fin (fl (of_nat n))"
proof -
  assume "n < 2 ^ 64"
  then have "(of_nat n :: rat) \<le> of_nat (2 ^ 64)" by (simp only: of_nat_le_iff)
  then show ?thesis unfolding f64_of_u64_def by (intro round64_Fin) simp
qed

lemma f64_of_u64_exact: "n \<le> 2 ^ 53 \<Longrightarrow> f64_of_u64 n = Fin (of_nat n)"
  using fl_representable [OF representable_of_nat, of n] by (simp add: f64_of_u64_Fin)

end
