(* ===== verification/Worker_Env.thy ===== *)
theory Worker_Env
  imports Pod_Lifecycle F64 "HOL-Library.List_Lexorder" "HOL-Library.Char_ord"
begin

section \<open>Container environments: expansion, sources and assembly\<close>

text \<open>
  The functions of \<^verbatim>\<open>pod_worker/mod.rs\<close> that compute what a container is started with: the expansion of
  \<^verbatim>\<open>$(NAME)\<close> references, the values of downward-API fields and resources, the variables that describe
  services, and the assembly of the environment. A Rust string is here its sequence of UTF-8 bytes, since
  \<^verbatim>\<open>expand_env_value\<close> indexes bytes and slices at byte positions; a slice whose end is not a
  character boundary panics, and a panic is the value \<open>None\<close>. What the node answers (its address, its
  memory and processors) and what the API server returns are arguments.
\<close>

subsection \<open>Bytes and character boundaries\<close>

abbreviation byte :: "char \<Rightarrow> nat" where
  "byte c \<equiv> of_char c"

definition is_continuation :: "char \<Rightarrow> bool" where
  "is_continuation c \<longleftrightarrow> 128 \<le> byte c \<and> byte c < 192"

definition is_ascii :: "char \<Rightarrow> bool" where
  "is_ascii c \<longleftrightarrow> byte c < 128"

definition is_char_boundary :: "string \<Rightarrow> nat \<Rightarrow> bool" where
  "is_char_boundary s i \<longleftrightarrow> i = 0 \<or> i = length s \<or> (i < length s \<and> \<not> is_continuation (s ! i))"

definition byte_slice :: "string \<Rightarrow> nat \<Rightarrow> nat \<Rightarrow> string option" where
  "byte_slice s a b = (if a \<le> b \<and> is_char_boundary s a \<and> is_char_boundary s b then Some (take (b - a) (drop a s)) else None)"

text \<open>\<^verbatim>\<open>String::from_utf8_lossy\<close>: a byte sequence that is no character, cut at its longest valid beginning, is
  replaced by U+FFFD.\<close>

definition second_ok :: "nat \<Rightarrow> nat \<Rightarrow> bool" where
  "second_ok b c \<longleftrightarrow>
     (if b = 0xE0 then 0xA0 \<le> c \<and> c < 0xC0 else if b = 0xED then 0x80 \<le> c \<and> c < 0xA0
      else if b = 0xF0 then 0x90 \<le> c \<and> c < 0xC0 else if b = 0xF4 then 0x80 \<le> c \<and> c < 0x90
      else 0x80 \<le> c \<and> c < 0xC0)"

definition utf8_width :: "nat \<Rightarrow> nat" where
  "utf8_width b =
     (if b < 0x80 then 1 else if b < 0xC2 then 0 else if b < 0xE0 then 2 else if b < 0xF0 then 3
      else if b < 0xF5 then 4 else 0)"

text \<open>How many of the bytes after the first belong to the character, and whether it is complete.\<close>

definition utf8_tail :: "char \<Rightarrow> string \<Rightarrow> nat \<times> bool" where
  "utf8_tail b r =
     (let w = utf8_width (byte b) in
      if w = 0 then (0, False)
      else if w = 1 then (0, True)
      else if r = [] \<or> \<not> second_ok (byte b) (byte (hd r)) then (0, False)
      else let n = length (takeWhile is_continuation (take (w - 2) (tl r))) in (Suc n, n = w - 2))"

function from_utf8_lossy :: "string \<Rightarrow> string" where
  "from_utf8_lossy [] = []"
| "from_utf8_lossy (b # r) =
     (let (n, complete) = utf8_tail b r
      in (if complete then b # take n r else [CHR 0xEF, CHR 0xBF, CHR 0xBD]) @ from_utf8_lossy (drop n r))"
  by pat_completeness auto

termination by (relation "measure length") auto

subsection \<open>Expansion of variable references\<close>

definition try_read_variable_name :: "string \<Rightarrow> (string \<times> bool \<times> nat) option" where
  "try_read_variable_name input =
     (case input of
        [] \<Rightarrow> None
      | c # rest \<Rightarrow>
          if c = CHR ''$'' then map_option (\<lambda>v. (v, False, 1)) (byte_slice input 0 1)
          else if c = CHR ''('' then
            (let index = 1 + length (takeWhile (\<lambda>x. x \<noteq> CHR '')'') rest)
             in if index < length input then map_option (\<lambda>v. (v, True, index + 1)) (byte_slice input 1 index)
                else Some (''$('', False, 1))
          else map_option (\<lambda>v. (v, False, 1)) (byte_slice input 0 1))"

definition variable_value :: "(string, string) hmap \<Rightarrow> string \<Rightarrow> string" where
  "variable_value env name = (case hm_get env name of Some v \<Rightarrow> v | None \<Rightarrow> ''$('' @ name @ '')'')"

definition piece :: "(string, string) hmap \<Rightarrow> string \<Rightarrow> bool \<Rightarrow> string" where
  "piece env v is_var = (if is_var then variable_value env v else if v \<noteq> ''$'' then ''$'' @ v else v)"

function expand_loop :: "string \<Rightarrow> (string, string) hmap \<Rightarrow> nat \<Rightarrow> nat \<Rightarrow> string \<Rightarrow> string option" where
  "expand_loop input env cursor checkpoint out =
     (if cursor < length input then
        if input ! cursor = CHR ''$'' \<and> cursor + 1 < length input then
          (case byte_slice input checkpoint cursor of
             None \<Rightarrow> None
           | Some text \<Rightarrow>
               (case byte_slice input (cursor + 1) (length input) of
                  None \<Rightarrow> None
                | Some tail \<Rightarrow>
                    (case try_read_variable_name tail of
                       None \<Rightarrow> None
                     | Some (v, is_var, advance) \<Rightarrow>
                         expand_loop input env (cursor + advance + 1) (cursor + advance + 1)
                           (out @ text @ piece env v is_var))))
        else expand_loop input env (cursor + 1) checkpoint out
      else map_option (\<lambda>text. out @ text) (byte_slice input checkpoint (length input)))"
  by pat_completeness auto

termination by (relation "measure (\<lambda>(input, _, cursor, _, _). length input - cursor)") auto

declare expand_loop.simps [simp del]

definition expand_env_value :: "string \<Rightarrow> (string, string) hmap \<Rightarrow> string option" where
  "expand_env_value input env = expand_loop input env 0 0 []"

fun expand_container_tokens :: "string list \<Rightarrow> (string, string) hmap \<Rightarrow> string list option" where
  "expand_container_tokens [] env = Some []"
| "expand_container_tokens (token # tokens) env =
     (case expand_env_value token env of
        None \<Rightarrow> None
      | Some t \<Rightarrow> map_option ((#) t) (expand_container_tokens tokens env))"

text \<open>The reference: one pass over the characters. An unclosed \<^verbatim>\<open>$(\<close> comes out as \<^verbatim>\<open>$$(\<close>.\<close>

function expand_ref :: "(string, string) hmap \<Rightarrow> string \<Rightarrow> string" where
  "expand_ref env [] = []"
| "expand_ref env [c] = [c]"
| "expand_ref env (c # d # r) =
     (if c \<noteq> CHR ''$'' then c # expand_ref env (d # r)
      else if d = CHR ''$'' then ''$'' @ expand_ref env r
      else if d = CHR ''('' then
        (case split_once CHR '')'' r of
           Some (name, rest) \<Rightarrow> variable_value env name @ expand_ref env rest
         | None \<Rightarrow> ''$$('' @ expand_ref env r)
      else ''$'' @ d # expand_ref env r)"
  by pat_completeness auto

termination
  by (relation "measure (length \<circ> snd)") (auto dest!: split_once_SomeD)

text \<open>No ASCII byte is followed by a continuation byte (every UTF-8 text has this shape), and no \<^verbatim>\<open>$\<close> by a
  byte outside ASCII.\<close>

fun expandable :: "string \<Rightarrow> bool" where
  "expandable [] = True"
| "expandable [c] = True"
| "expandable (c # d # r) =
     ((is_ascii c \<longrightarrow> \<not> is_continuation d) \<and> (c = CHR ''$'' \<longrightarrow> is_ascii d) \<and> expandable (d # r))"

lemma expandable_Cons: "expandable (c # s) \<Longrightarrow> expandable s"
  by (cases s) auto

lemma expandable_drop: "expandable s \<Longrightarrow> expandable (drop n s)"
proof (induction n arbitrary: s)
  case (Suc n)
  then show ?case by (cases s) (auto dest: expandable_Cons)
qed simp

lemma ascii_not_continuation [simp]: "is_ascii c \<Longrightarrow> \<not> is_continuation c"
  by (simp add: is_ascii_def is_continuation_def)

lemma syntax_ascii [simp]: "is_ascii CHR ''$''" "is_ascii CHR ''(''" "is_ascii CHR '')''"
  by (simp_all add: is_ascii_def)

lemma boundary_after_ascii:
  assumes "expandable s" "i < length s" "is_ascii (s ! i)"
  shows "is_char_boundary s (Suc i)"
proof (cases "Suc i < length s")
  case True
  then have "drop i s = s ! i # s ! Suc i # drop (Suc (Suc i)) s" by (simp add: Cons_nth_drop_Suc)
  with expandable_drop [OF assms(1), of i] assms(3) have "\<not> is_continuation (s ! Suc i)" by simp
  with True show ?thesis by (simp add: is_char_boundary_def)
next
  case False
  with assms(2) show ?thesis by (simp add: is_char_boundary_def)
qed

lemma boundary_at_ascii: "i < length s \<Longrightarrow> is_ascii (s ! i) \<Longrightarrow> is_char_boundary s i"
  by (simp add: is_char_boundary_def)

lemma split_once_takeWhile:
  "split_once c s = (let n = length (takeWhile (\<lambda>x. x \<noteq> c) s) in if n < length s then Some (take n s, drop (Suc n) s) else None)"
  by (induction s) (auto simp: Let_def)

lemma nth_length_takeWhile_neq: "length (takeWhile (\<lambda>x. x \<noteq> c) s) < length s \<Longrightarrow> s ! length (takeWhile (\<lambda>x. x \<noteq> c) s) = c"
  using nth_length_takeWhile [of "\<lambda>x. x \<noteq> c" s] by simp

lemma try_read_variable_name_expandable:
  assumes "expandable (CHR ''$'' # d # r)"
  shows "try_read_variable_name (d # r) = Some
    (if d = CHR ''('' then
       (let n = length (takeWhile (\<lambda>x. x \<noteq> CHR '')'') r)
        in if n < length r then (take n r, True, n + 2) else (''$('', False, 1))
     else ([d], False, 1))"
proof -
  have d: "is_ascii d" and e: "expandable (d # r)" using assms by simp_all
  have one: "is_char_boundary (d # r) 1" using boundary_after_ascii [OF e, of 0] d by simp
  have s1: "byte_slice (d # r) 0 1 = Some [d]" using one by (simp add: byte_slice_def is_char_boundary_def)
  let ?n = "length (takeWhile (\<lambda>x. x \<noteq> CHR '')'') r)"
  have s2: "byte_slice (d # r) 1 (Suc ?n) = Some (take ?n r)" if "?n < length r"
  proof -
    have "is_char_boundary (d # r) (Suc ?n)"
      using that nth_length_takeWhile_neq [OF that] by (intro boundary_at_ascii) simp_all
    with one show ?thesis by (simp add: byte_slice_def)
  qed
  show ?thesis
    using s1 s2
    by (cases "d = CHR ''$''"; cases "d = CHR ''(''"; cases "?n < length r") (simp_all add: try_read_variable_name_def Let_def)
qed

lemma expand_loop_ref:
  assumes "expandable input" "checkpoint \<le> cursor" "cursor \<le> length input" "is_char_boundary input checkpoint"
  shows "expand_loop input env cursor checkpoint out =
    Some (out @ take (cursor - checkpoint) (drop checkpoint input) @ expand_ref env (drop cursor input))"
  using assms
proof (induction input env cursor checkpoint out rule: expand_loop.induct)
  case (1 input env cursor checkpoint out)
  note e = "1.prems"(1) and le = "1.prems"(2,3) and b = "1.prems"(4)
  let ?text = "take (cursor - checkpoint) (drop checkpoint input)"
  show ?case
  proof (cases "cursor < length input")
    case False
    with le b show ?thesis
      by (subst expand_loop.simps) (simp add: byte_slice_def is_char_boundary_def)
  next
    case more: True
    show ?thesis
    proof (cases "input ! cursor = CHR ''$'' \<and> cursor + 1 < length input")
      case False
      have c: "drop cursor input = input ! cursor # drop (Suc cursor) input" using more by (simp add: Cons_nth_drop_Suc)
      have t: "take (Suc cursor - checkpoint) (drop checkpoint input) = ?text @ [input ! cursor]"
        using le more by (simp add: Suc_diff_le take_Suc_conv_app_nth)
      have "expand_ref env (input ! cursor # drop (Suc cursor) input) = input ! cursor # expand_ref env (drop (Suc cursor) input)"
        using False by (cases "drop (Suc cursor) input") auto
      moreover have "expand_loop input env (cursor + 1) checkpoint out =
          Some (out @ take (Suc cursor - checkpoint) (drop checkpoint input) @ expand_ref env (drop (Suc cursor) input))"
        using "1.IH"(2) [OF more False] e le b more by simp
      ultimately show ?thesis
        using more False by (subst expand_loop.simps) (auto simp: t c)
    next
      case True
      define d r where "d = input ! Suc cursor" and "r = drop (Suc (Suc cursor)) input"
      have tail: "drop (Suc cursor) input = d # r" using True by (simp add: d_def r_def Cons_nth_drop_Suc)
      have c: "drop cursor input = CHR ''$'' # d # r" using True more by (simp add: tail [symmetric] Cons_nth_drop_Suc [symmetric])
      have ed: "expandable (CHR ''$'' # d # r)" using expandable_drop [OF e, of cursor] by (simp add: c)
      have s1: "byte_slice input checkpoint cursor = Some ?text"
        using boundary_at_ascii [of cursor input] True more le b by (simp add: byte_slice_def)
      have lt: "length input - Suc cursor = Suc (length r)"
        using arg_cong [OF tail, of length] by (simp only: length_drop list.size)
      have s2: "byte_slice input (cursor + 1) (length input) = Some (d # r)"
        using boundary_after_ascii [OF e more] True tail lt by (simp add: byte_slice_def is_char_boundary_def)
      define n where "n = length (takeWhile (\<lambda>x. x \<noteq> CHR '')'') r)"
      have ln: "length r = length input - (cursor + 2)" by (simp add: r_def)
      let ?read = "if d = CHR ''('' then if n < length r then (take n r, True, n + 2) else (''$('', False, 1) else ([d], False, 1)"
      obtain v is_var advance where rd: "(v, is_var, advance) = ?read" by (metis prod_cases3)
      have t: "try_read_variable_name (d # r) = Some (v, is_var, advance)"
        unfolding rd try_read_variable_name_expandable [OF ed] by (simp add: Let_def n_def)
      let ?k = "cursor + advance + 1"
      have adv: "?k \<le> length input" "0 < advance" using rd True ln by (auto split: if_splits)
      have asc: "is_ascii (input ! (?k - 1))"
      proof (cases "d = CHR ''('' \<and> n < length r")
        case True
        then have "input ! (cursor + 2 + n) = CHR '')''"
          using nth_length_takeWhile_neq [of "CHR '')''" r] \<open>input ! cursor = CHR ''$'' \<and> cursor + 1 < length input\<close>
          by (simp add: n_def r_def)
        with True rd show ?thesis by (simp add: add_ac)
      next
        case False
        with rd have "advance = 1" by (auto split: if_splits)
        then show ?thesis using ed by (simp add: d_def)
      qed
      have bk: "is_char_boundary input ?k" using boundary_after_ascii [OF e _ asc] adv by simp
      have ih: "expand_loop input env ?k ?k (out @ ?text @ piece env v is_var) =
          Some ((out @ ?text @ piece env v is_var) @ expand_ref env (drop ?k input))"
        using "1.IH"(1) [OF more True s1 s2 t refl refl] e adv bk by simp
      have dk: "drop ?k input = drop (advance - 1) r" using adv(2) by (simp add: r_def add_ac)
      have "piece env v is_var @ expand_ref env (drop (advance - 1) r) = expand_ref env (CHR ''$'' # d # r)"
        using rd by (auto simp: piece_def split_once_takeWhile Let_def n_def split: if_splits)
      with ih have "expand_loop input env ?k ?k (out @ ?text @ piece env v is_var) =
          Some (out @ ?text @ expand_ref env (CHR ''$'' # d # r))" by (simp only: dk append_assoc)
      then show ?thesis using more True by (subst expand_loop.simps) (simp add: s1 s2 [simplified] t c del: expand_ref.simps)
    qed
  qed
qed

subsection \<open>Resource values and pod fields\<close>

record NodeFacts =
  nf_ip :: string
  nf_meminfo :: "string option"
  nf_cpus :: nat

definition f64_of_i64 :: "int \<Rightarrow> f64" where
  "f64_of_i64 v = round64 (of_int v)"

fun f64_ceil :: "f64 \<Rightarrow> f64" where
  "f64_ceil (Fin x) = Fin (of_int \<lceil>x\<rceil>)"
| "f64_ceil v = v"

fun f64_as_i64 :: "f64 \<Rightarrow> int" where
  "f64_as_i64 (Fin x) = max (- (2 ^ 63)) (min (2 ^ 63 - 1) (if 0 \<le> x then \<lfloor>x\<rfloor> else \<lceil>x\<rceil>))"
| "f64_as_i64 PInf = 2 ^ 63 - 1"
| "f64_as_i64 NInf = - (2 ^ 63)"
| "f64_as_i64 NaN = 0"

definition divisor_bytes :: "string \<Rightarrow> int" where
  "divisor_bytes divisor =
     (if divisor = ''1'' \<or> divisor = [] then 1
      else if divisor = ''1k'' \<or> divisor = ''1K'' then 1000
      else if divisor = ''1Ki'' then 1024
      else if divisor = ''1M'' then 1000000
      else if divisor = ''1Mi'' then 1048576
      else if divisor = ''1G'' then 1000000000
      else if divisor = ''1Gi'' then 1073741824
      else 1)"

text \<open>Rust's \<^verbatim>\<open>/\<close> on \<^verbatim>\<open>i64\<close> truncates towards zero.\<close>

definition trunc_div :: "int \<Rightarrow> int \<Rightarrow> int" where
  "trunc_div a b = (if 0 \<le> a then a div b else - ((- a) div b))"

definition apply_resource_divisor :: "int \<Rightarrow> bool \<Rightarrow> string \<Rightarrow> int" where
  "apply_resource_divisor raw is_cpu divisor =
     (if is_cpu then
        if divisor = ''1m'' then raw else f64_as_i64 (f64_ceil (f64_div (f64_of_i64 raw) (Fin 1000)))
      else trunc_div raw (max (divisor_bytes divisor) 1))"

definition parse_i64 :: "string \<Rightarrow> int option" where
  "parse_i64 s =
     (case s of
        c # r \<Rightarrow>
          if c = CHR ''-'' then
            (if r = [] \<or> \<not> list_all is_digit r \<or> 2 ^ 63 < digits_val 0 r then None else Some (- int (digits_val 0 r)))
          else map_option int (parse_uint (2 ^ 63) s)
      | [] \<Rightarrow> None)"

definition mem_total_line :: "string \<Rightarrow> int option" where
  "mem_total_line line =
     (if starts_with ''MemTotal:'' line
      then Option.bind (nth_opt 1 (split_whitespace line)) parse_i64 else None)"

definition node_allocatable_memory_bytes :: "NodeFacts \<Rightarrow> int" where
  "node_allocatable_memory_bytes n =
     (case nf_meminfo n of
        None \<Rightarrow> 8 * 1024 * 1024 * 1024
      | Some content \<Rightarrow>
          (case List.map_filter mem_total_line (str_lines content) of
             kb # _ \<Rightarrow> kb * 1024
           | [] \<Rightarrow> 8 * 1024 * 1024 * 1024))"

definition node_allocatable_cpu_millicores :: "NodeFacts \<Rightarrow> int" where
  "node_allocatable_cpu_millicores n = int (nf_cpus n) * 1000"

definition quoted_pairs :: "(string, string) hmap \<Rightarrow> string" where
  "quoted_pairs m =
     concat (map (\<lambda>(k, v). k @ ''='' @ [CHR 0x22] @ v @ [CHR 0x22, CHR 0x0A]) (sort_key fst m))"

definition bracket_key :: "string \<Rightarrow> string \<Rightarrow> string option" where
  "bracket_key field path = Option.bind (strip_prefix (field @ ''['' @ [CHR 0x27]) path) (strip_suffix ([CHR 0x27] @ '']''))"

definition pod_ip_or_node :: "NodeFacts \<Rightarrow> PodSpec \<Rightarrow> string option \<Rightarrow> string" where
  "pod_ip_or_node n pod pod_ip =
     (case pod_ip of
        Some ip \<Rightarrow> if ip \<noteq> [] then ip else if ps_host_network pod then nf_ip n else []
      | None \<Rightarrow> if ps_host_network pod then nf_ip n else [])"

definition resolve_field_ref_with_pod_ip :: "NodeFacts \<Rightarrow> PodSpec \<Rightarrow> string \<Rightarrow> string option \<Rightarrow> string" where
  "resolve_field_ref_with_pod_ip n pod field pod_ip =
     (case bracket_key ''metadata.labels'' field of
        Some key \<Rightarrow> (case hm_get (ps_labels pod) key of Some v \<Rightarrow> v | None \<Rightarrow> [])
      | None \<Rightarrow>
        (case bracket_key ''metadata.annotations'' field of
           Some key \<Rightarrow> (case hm_get (ps_annotations pod) key of Some v \<Rightarrow> v | None \<Rightarrow> [])
         | None \<Rightarrow>
             if field = ''metadata.labels'' then quoted_pairs (ps_labels pod)
             else if field = ''metadata.annotations'' then quoted_pairs (ps_annotations pod)
             else if field = ''metadata.name'' then pr_name (ps_pod_ref pod)
             else if field = ''metadata.namespace'' then pr_namespace (ps_pod_ref pod)
             else if field = ''metadata.uid'' then ps_uid pod
             else if field = ''spec.nodeName'' then ps_node_name pod
             else if field = ''spec.serviceAccountName'' then ps_service_account_name pod
             else if field = ''status.hostIP'' then nf_ip n
             else if field = ''status.podIP'' \<or> field = ''status.podIPs'' then pod_ip_or_node n pod pod_ip
             else []))"

definition resolve_field_ref :: "NodeFacts \<Rightarrow> PodSpec \<Rightarrow> string \<Rightarrow> string" where
  "resolve_field_ref n pod field = resolve_field_ref_with_pod_ip n pod field None"

definition quantity_of :: "(string, ResourceQuantity) hmap \<Rightarrow> string \<Rightarrow> int option" where
  "quantity_of m r = map_option rq_value (hm_get m r)"

text \<open>The value of a limit for the downward API: the node's allocatable amount when none is set.\<close>

definition limit_or_node :: "int \<Rightarrow> int option \<Rightarrow> int" where
  "limit_or_node node v = (let x = (case v of Some x \<Rightarrow> x | None \<Rightarrow> 0) in if 0 < x then x else node)"

definition downward_raw :: "NodeFacts \<Rightarrow> ContainerSpec \<Rightarrow> string \<Rightarrow> int option" where
  "downward_raw n ctr resource =
     (let limits = rr_limits (ctr_resources ctr); requests = rr_requests (ctr_resources ctr) in
      if resource = ''limits.cpu'' then Some (limit_or_node (node_allocatable_cpu_millicores n) (quantity_of limits ''cpu''))
      else if resource = ''limits.memory'' then Some (limit_or_node (node_allocatable_memory_bytes n) (quantity_of limits ''memory''))
      else if resource = ''limits.ephemeral-storage'' then quantity_of limits ''ephemeral-storage''
      else if resource = ''requests.cpu'' then quantity_of requests ''cpu''
      else if resource = ''requests.memory'' then quantity_of requests ''memory''
      else if resource = ''requests.ephemeral-storage'' then quantity_of requests ''ephemeral-storage''
      else None)"

definition downward_container :: "PodSpec \<Rightarrow> string option \<Rightarrow> ContainerSpec option" where
  "downward_container pod name =
     (case Option.bind name (\<lambda>n. find (\<lambda>c. ctr_name c = n) (ps_containers pod @ ps_init_containers pod)) of
        Some c \<Rightarrow> Some c
      | None \<Rightarrow> (case ps_containers pod of c # _ \<Rightarrow> Some c | [] \<Rightarrow> None))"

definition downward_resource :: "NodeFacts \<Rightarrow> PodSpec \<Rightarrow> ResourceFieldRef \<Rightarrow> string option" where
  "downward_resource n pod ref =
     Option.bind (downward_container pod (rf_container_name ref)) (\<lambda>ctr.
       map_option (\<lambda>raw. show_int (apply_resource_divisor raw (contains_str ''cpu'' (rf_resource ref))
             (case rf_divisor ref of Some d \<Rightarrow> d | None \<Rightarrow> ''1'')))
         (downward_raw n ctr (rf_resource ref)))"

definition resolve_downward_api_value :: "NodeFacts \<Rightarrow> PodSpec \<Rightarrow> DownwardAPIVolumeFile \<Rightarrow> string option \<Rightarrow> string" where
  "resolve_downward_api_value n pod item pod_ip =
     (case Option.bind (da_resource_field_ref item) (downward_resource n pod) of
        Some v \<Rightarrow> v
      | None \<Rightarrow> (case da_field_ref item of
           Some field \<Rightarrow> resolve_field_ref_with_pod_ip n pod field pod_ip
         | None \<Rightarrow> []))"

subsection \<open>Variables that describe services\<close>

text \<open>The parts of the API server's \<^verbatim>\<open>Service\<close> object the code reads.\<close>

record ServicePort =
  sp_name :: "string option"
  sp_port :: int
  sp_protocol :: "string option"

record ServiceSpec =
  ss_cluster_ip :: "string option"
  ss_ports :: "ServicePort list option"

record Service =
  sv_name :: "string option"
  sv_spec :: "ServiceSpec option"

definition is_alphanumeric :: "char \<Rightarrow> bool" where
  "is_alphanumeric c \<longleftrightarrow>
     is_digit c \<or> (65 \<le> byte c \<and> byte c \<le> 90) \<or> (97 \<le> byte c \<and> byte c \<le> 122)"

definition to_service_env_name :: "string \<Rightarrow> string" where
  "to_service_env_name input = map (\<lambda>c. if is_alphanumeric c then to_upper c else CHR ''_'') input"

definition port_proto :: "ServicePort \<Rightarrow> string" where
  "port_proto p = map to_upper (case sp_protocol p of Some x \<Rightarrow> x | None \<Rightarrow> ''TCP'')"

definition port_url :: "string \<Rightarrow> ServicePort \<Rightarrow> string" where
  "port_url cluster_ip p = to_lowercase (port_proto p) @ ''://'' @ cluster_ip @ '':'' @ show_int (sp_port p)"

definition first_port_vars :: "string \<Rightarrow> string \<Rightarrow> ServicePort list \<Rightarrow> (string \<times> string) list" where
  "first_port_vars prefix cluster_ip ports =
     (case ports of
        [] \<Rightarrow> []
      | p # _ \<Rightarrow> [(prefix @ ''_SERVICE_PORT'', show_int (sp_port p)), (prefix @ ''_PORT'', port_url cluster_ip p)])"

definition port_vars :: "string \<Rightarrow> string \<Rightarrow> ServicePort \<Rightarrow> (string \<times> string) list" where
  "port_vars prefix cluster_ip p =
     (let port_prefix = prefix @ ''_PORT_'' @ show_int (sp_port p) @ ''_'' @ port_proto p in
      [(port_prefix, port_url cluster_ip p),
       (port_prefix @ ''_PROTO'', to_lowercase (port_proto p)),
       (port_prefix @ ''_PORT'', show_int (sp_port p)),
       (port_prefix @ ''_ADDR'', cluster_ip)] @
      (case sp_name p of
         Some name \<Rightarrow> [(prefix @ ''_SERVICE_PORT_'' @ to_service_env_name name, show_int (sp_port p))]
       | None \<Rightarrow> []))"

definition hm_insert_all :: "('k \<times> 'v) list \<Rightarrow> ('k, 'v) hmap \<Rightarrow> ('k, 'v) hmap" where
  "hm_insert_all kvs m = fold (\<lambda>(k, v). hm_insert k v) kvs m"

definition service_env_vars_from_service :: "Service \<Rightarrow> (string, string) hmap" where
  "service_env_vars_from_service service =
     (case (sv_spec service, sv_name service) of
        (Some spec, Some name) \<Rightarrow>
          (case ss_cluster_ip spec of
             None \<Rightarrow> []
           | Some cluster_ip \<Rightarrow>
               if cluster_ip = [] \<or> cluster_ip = ''None'' then []
               else let prefix = to_service_env_name name;
                        ports = (case ss_ports spec of Some ps \<Rightarrow> ps | None \<Rightarrow> []) in
                    hm_insert_all
                      ((prefix @ ''_SERVICE_HOST'', cluster_ip) # first_port_vars prefix cluster_ip ports
                        @ concat (map (port_vars prefix cluster_ip) ports)) [])
      | _ \<Rightarrow> [])"

definition hm_or_insert :: "'k \<Rightarrow> 'v \<Rightarrow> ('k, 'v) hmap \<Rightarrow> ('k, 'v) hmap" where
  "hm_or_insert k v m = (if hm_contains_key k m then m else hm_insert k v m)"

text \<open>\<open>kubernetes\<close> is the answer to the lookup of that service, \<open>listing\<close> to the listing of the namespace.\<close>

definition load_service_env_vars ::
  "('e + Service) \<Rightarrow> ('e + Service list) \<Rightarrow> bool \<Rightarrow> (string, string) hmap" where
  "load_service_env_vars kubernetes listing service_links_enabled =
     (let env = (case kubernetes of
           Inr kube_service \<Rightarrow> hm_insert_all (service_env_vars_from_service kube_service) []
         | Inl _ \<Rightarrow> [])
      in if service_links_enabled then
           (case listing of
              Inr items \<Rightarrow> fold (\<lambda>(k, v). hm_or_insert k v) (concat (map service_env_vars_from_service items)) env
            | Inl _ \<Rightarrow> env)
         else env)"

subsection \<open>Loading the config maps and secrets a container refers to\<close>

definition load_single ::
  "string \<Rightarrow> (string \<Rightarrow> string + (string, string) hmap) \<Rightarrow> string \<Rightarrow> bool \<Rightarrow>
   (string, (string, string) hmap) hmap \<Rightarrow> (string, (string, string) hmap) hmap result" where
  "load_single kind api name opt loaded =
     (if hm_contains_key name loaded then Inr loaded
      else case api name of
        Inr data \<Rightarrow> Inr (hm_insert name data loaded)
      | Inl err \<Rightarrow>
          if opt then Inr loaded
          else Inl (ERuntime (''failed to fetch '' @ kind @ [CHR '' '', CHR 0x27] @ name @ [CHR 0x27] @ '': '' @ err)))"

fun load_all ::
  "string \<Rightarrow> (string \<Rightarrow> string + (string, string) hmap) \<Rightarrow> (string \<times> bool) list \<Rightarrow>
   (string, (string, string) hmap) hmap \<Rightarrow> (string, (string, string) hmap) hmap result" where
  "load_all kind api [] loaded = Inr loaded"
| "load_all kind api ((name, opt) # refs) loaded =
     (case load_single kind api name opt loaded of
        Inl e \<Rightarrow> Inl e
      | Inr loaded' \<Rightarrow> load_all kind api refs loaded')"

definition configmap_refs :: "ContainerSpec \<Rightarrow> (string \<times> bool) list" where
  "configmap_refs ctr =
     List.map_filter (\<lambda>f. map_option (\<lambda>r. (er_name r, er_optional r)) (ef_config_map_ref f)) (ctr_env_from ctr) @
     List.map_filter (\<lambda>v. case ev_value_from v of Some (ConfigMapKeyRef name _ opt) \<Rightarrow> Some (name, opt) | _ \<Rightarrow> None) (ctr_env ctr)"

definition secret_refs :: "ContainerSpec \<Rightarrow> (string \<times> bool) list" where
  "secret_refs ctr =
     List.map_filter (\<lambda>f. map_option (\<lambda>r. (er_name r, er_optional r)) (ef_secret_ref f)) (ctr_env_from ctr) @
     List.map_filter (\<lambda>v. case ev_value_from v of Some (SecretKeyRef name _ opt) \<Rightarrow> Some (name, opt) | _ \<Rightarrow> None) (ctr_env ctr)"

definition load_container_configmaps ::
  "ContainerSpec \<Rightarrow> (string \<Rightarrow> string + (string, string) hmap) \<Rightarrow> (string, (string, string) hmap) hmap result" where
  "load_container_configmaps ctr api = load_all ''ConfigMap'' api (configmap_refs ctr) []"

definition load_container_secrets ::
  "ContainerSpec \<Rightarrow> (string \<Rightarrow> string + (string, string) hmap) \<Rightarrow> (string, (string, string) hmap) hmap result" where
  "load_container_secrets ctr api = load_all ''Secret'' api (secret_refs ctr) []"

subsection \<open>The environment of a container\<close>

definition env_field_ref :: "NodeFacts \<Rightarrow> PodSpec \<Rightarrow> string option \<Rightarrow> string \<Rightarrow> string" where
  "env_field_ref n pod pod_ip path =
     (if path = ''metadata.name'' then pr_name (ps_pod_ref pod)
      else if path = ''metadata.namespace'' then pr_namespace (ps_pod_ref pod)
      else if path = ''metadata.uid'' then ps_uid pod
      else if path = ''spec.nodeName'' then ps_node_name pod
      else if path = ''spec.serviceAccountName'' then ps_service_account_name pod
      else if path = ''status.podIP'' \<or> path = ''status.podIPs'' then pod_ip_or_node n pod pod_ip
      else if path = ''status.hostIP'' then nf_ip n
      else resolve_field_ref n pod path)"

definition env_resource :: "NodeFacts \<Rightarrow> ContainerSpec \<Rightarrow> string \<Rightarrow> string" where
  "env_resource n ctr resource =
     (let limits = rr_limits (ctr_resources ctr); requests = rr_requests (ctr_resources ctr) in
      if resource = ''limits.cpu'' then
        show_int (apply_resource_divisor
          (case quantity_of limits ''cpu'' of Some v \<Rightarrow> v | None \<Rightarrow> node_allocatable_cpu_millicores n) True ''1'')
      else if resource = ''requests.cpu'' then
        (case quantity_of requests ''cpu'' of Some v \<Rightarrow> show_int (apply_resource_divisor v True ''1'') | None \<Rightarrow> ''0'')
      else if resource = ''limits.memory'' then
        show_int (case quantity_of limits ''memory'' of Some v \<Rightarrow> v | None \<Rightarrow> node_allocatable_memory_bytes n)
      else if resource = ''requests.memory'' then
        (case quantity_of requests ''memory'' of Some v \<Rightarrow> show_int v | None \<Rightarrow> ''0'')
      else [])"

definition key_of :: "string \<Rightarrow> (string, (string, string) hmap) hmap \<Rightarrow> string \<Rightarrow> string \<Rightarrow> bool \<Rightarrow> string result" where
  "key_of kind maps name key opt =
     (case Option.bind (hm_get maps name) (\<lambda>m. hm_get m key) of
        Some v \<Rightarrow> Inr v
      | None \<Rightarrow>
          if opt then Inr []
          else Inl (ERuntime (''missing required '' @ kind @ '' key '' @ [CHR 0x27] @ name @ ''.'' @ key @ [CHR 0x27])))"

fun resolve_env_var_source ::
  "NodeFacts \<Rightarrow> PodSpec \<Rightarrow> ContainerSpec \<Rightarrow> string option \<Rightarrow> EnvVarSource \<Rightarrow>
   (string, (string, string) hmap) hmap \<Rightarrow> (string, (string, string) hmap) hmap \<Rightarrow> string result" where
  "resolve_env_var_source n pod ctr pod_ip (FieldRef path) cms secrets = Inr (env_field_ref n pod pod_ip path)"
| "resolve_env_var_source n pod ctr pod_ip (EnvResourceFieldRef _ resource) cms secrets = Inr (env_resource n ctr resource)"
| "resolve_env_var_source n pod ctr pod_ip (ConfigMapKeyRef name key opt) cms secrets = key_of ''ConfigMap'' cms name key opt"
| "resolve_env_var_source n pod ctr pod_ip (SecretKeyRef name key opt) cms secrets =
     map_sum id from_utf8_lossy (key_of ''Secret'' secrets name key opt)"

text \<open>One \<^verbatim>\<open>envFrom\<close> reference to a config map or secret; \<open>decode\<close> is the conversion of its values.\<close>

definition env_from_ref ::
  "string \<Rightarrow> (string \<Rightarrow> string) \<Rightarrow> string option \<Rightarrow> EnvFromRef option \<Rightarrow> (string, (string, string) hmap) hmap \<Rightarrow>
   (string, string) hmap \<Rightarrow> (string, string) hmap result" where
  "env_from_ref kind decode prefix ref maps env =
     (case ref of
        None \<Rightarrow> Inr env
      | Some r \<Rightarrow>
          (case hm_get maps (er_name r) of
             Some m \<Rightarrow> Inr (hm_insert_all (map (\<lambda>(k, v). ((case prefix of Some p \<Rightarrow> p | None \<Rightarrow> []) @ k, decode v)) m) env)
           | None \<Rightarrow>
               if er_optional r then Inr env
               else Inl (ERuntime (''missing required '' @ kind @ [CHR '' '', CHR 0x27] @ er_name r @ [CHR 0x27] @ '' for envFrom''))))"

fun add_env_from ::
  "(string, (string, string) hmap) hmap \<Rightarrow> (string, (string, string) hmap) hmap \<Rightarrow> EnvFromSource list \<Rightarrow>
   (string, string) hmap \<Rightarrow> (string, string) hmap result" where
  "add_env_from cms secrets [] env = Inr env"
| "add_env_from cms secrets (f # fs) env =
     (case env_from_ref ''ConfigMap'' id (ef_prefix f) (ef_config_map_ref f) cms env of
        Inl e \<Rightarrow> Inl e
      | Inr env1 \<Rightarrow>
          (case env_from_ref ''Secret'' from_utf8_lossy (ef_prefix f) (ef_secret_ref f) secrets env1 of
             Inl e \<Rightarrow> Inl e
           | Inr env2 \<Rightarrow> add_env_from cms secrets fs env2))"

text \<open>The value of one variable; the outer option is \<open>None\<close> when the expansion panics.\<close>

definition env_var_value ::
  "NodeFacts \<Rightarrow> PodSpec \<Rightarrow> ContainerSpec \<Rightarrow> string option \<Rightarrow> (string, (string, string) hmap) hmap \<Rightarrow>
   (string, (string, string) hmap) hmap \<Rightarrow> (string, string) hmap \<Rightarrow> EnvVar \<Rightarrow> string result option" where
  "env_var_value n pod ctr pod_ip cms secrets env v =
     (case ev_value v of
        Some raw_value \<Rightarrow> map_option Inr (expand_env_value raw_value env)
      | None \<Rightarrow>
          (case ev_value_from v of
             Some src \<Rightarrow> Some (resolve_env_var_source n pod ctr pod_ip src cms secrets)
           | None \<Rightarrow> Some (Inr [])))"

fun add_env ::
  "NodeFacts \<Rightarrow> PodSpec \<Rightarrow> ContainerSpec \<Rightarrow> string option \<Rightarrow> (string, (string, string) hmap) hmap \<Rightarrow>
   (string, (string, string) hmap) hmap \<Rightarrow> EnvVar list \<Rightarrow> (string, string) hmap \<Rightarrow> (string, string) hmap result option" where
  "add_env n pod ctr pod_ip cms secrets [] env = Some (Inr env)"
| "add_env n pod ctr pod_ip cms secrets (v # vs) env =
     (case env_var_value n pod ctr pod_ip cms secrets env v of
        None \<Rightarrow> None
      | Some (Inl e) \<Rightarrow> Some (Inl e)
      | Some (Inr value) \<Rightarrow> add_env n pod ctr pod_ip cms secrets vs (hm_insert (ev_name v) value env))"

definition assemble_container_env ::
  "NodeFacts \<Rightarrow> PodSpec \<Rightarrow> ContainerSpec \<Rightarrow> string option \<Rightarrow> (string, (string, string) hmap) hmap \<Rightarrow>
   (string, (string, string) hmap) hmap \<Rightarrow> (string, string) hmap \<Rightarrow> (string, string) hmap result option" where
  "assemble_container_env n pod ctr pod_ip cms secrets service_envs =
     (case add_env_from cms secrets (ctr_env_from ctr) service_envs of
        Inl e \<Rightarrow> Some (Inl e)
      | Inr env \<Rightarrow>
          map_option (map_sum id (hm_or_insert ''HOSTNAME'' (effective_hostname pod)))
            (add_env n pod ctr pod_ip cms secrets (ctr_env ctr) env))"

text \<open>What the API server answers while an environment is resolved.\<close>

record KubeApi =
  ka_configmap :: "string \<Rightarrow> string + (string, string) hmap"
  ka_secret :: "string \<Rightarrow> string + (string, string) hmap"
  ka_kubernetes :: "string + Service"
  ka_services :: "string + Service list"

definition needs_configmaps :: "ContainerSpec \<Rightarrow> bool" where
  "needs_configmaps ctr \<longleftrightarrow>
     list_ex (\<lambda>f. ef_config_map_ref f \<noteq> None) (ctr_env_from ctr) \<or>
     list_ex (\<lambda>v. case ev_value_from v of Some (ConfigMapKeyRef _ _ _) \<Rightarrow> True | _ \<Rightarrow> False) (ctr_env ctr)"

definition needs_secrets :: "ContainerSpec \<Rightarrow> bool" where
  "needs_secrets ctr \<longleftrightarrow>
     list_ex (\<lambda>f. ef_secret_ref f \<noteq> None) (ctr_env_from ctr) \<or>
     list_ex (\<lambda>v. case ev_value_from v of Some (SecretKeyRef _ _ _) \<Rightarrow> True | _ \<Rightarrow> False) (ctr_env ctr)"

definition resolve_container_env ::
  "KubeApi option \<Rightarrow> NodeFacts \<Rightarrow> PodSpec \<Rightarrow> ContainerSpec \<Rightarrow> string option \<Rightarrow> (string, string) hmap result option" where
  "resolve_container_env client n pod ctr pod_ip =
     (case client of
        None \<Rightarrow>
          if needs_configmaps ctr \<or> needs_secrets ctr
          then Some (Inl (ERuntime ''failed to create kube client for env resolution: no client available''))
          else assemble_container_env n pod ctr pod_ip [] [] []
      | Some api \<Rightarrow>
          (case (if needs_configmaps ctr then load_container_configmaps ctr (ka_configmap api) else Inr []) of
             Inl e \<Rightarrow> Some (Inl e)
           | Inr cms \<Rightarrow>
               (case (if needs_secrets ctr then load_container_secrets ctr (ka_secret api) else Inr []) of
                  Inl e \<Rightarrow> Some (Inl e)
                | Inr secrets \<Rightarrow>
                    assemble_container_env n pod ctr pod_ip cms secrets
                      (load_service_env_vars (ka_kubernetes api) (ka_services api)
                         (case ps_enable_service_links pod of Some b \<Rightarrow> b | None \<Rightarrow> True)))))"

subsection \<open>Expansion is the one-pass reference\<close>

lemma expand_env_value_ref: "expandable input \<Longrightarrow> expand_env_value input env = Some (expand_ref env input)"
  using expand_loop_ref [of input 0 0 env "[]"] by (simp add: expand_env_value_def is_char_boundary_def)



text \<open>Two departures: an unclosed reference gains a \<^verbatim>\<open>$\<close> (the comment in the loop says that a \<^verbatim>\<open>$X\<close> passes
  through unchanged), and a \<^verbatim>\<open>$\<close> before a character of more than one byte makes the slice panic.\<close>

theorem unclosed_reference_is_changed:
  assumes "expandable (CHR ''$'' # CHR ''('' # r)" "CHR '')'' \<notin> set r" "CHR ''$'' \<notin> set r"
  shows "expand_env_value (''$('' @ r) env = Some (''$$('' @ r)"
proof -
  have "expand_ref env s = s" if "CHR ''$'' \<notin> set s" for s
    using that by (induction env s rule: expand_ref.induct) auto
  then show ?thesis
    using assms expand_env_value_ref [OF assms(1), of env] by (simp add: split_once_notin)
qed

theorem dollar_before_wide_character_panics: "expand_env_value [CHR ''$'', CHR 0xC3, CHR 0xA9] env = None"
  by (simp add: expand_env_value_def expand_loop.simps byte_slice_def is_char_boundary_def is_continuation_def
      try_read_variable_name_def)

subsection \<open>Whole cores are rounded up\<close>

lemma fl_thousandth:
  assumes "1 \<le> raw" "raw \<le> 2 ^ 52"
  shows "\<lceil>fl (of_int raw / 1000)\<rceil> = (raw + 999) div 1000"
proof -
  let ?k = "(raw + 999) div 1000"
  have k: "1 \<le> ?k" "?k \<le> 2 ^ 43" "raw \<le> 1000 * ?k" "1000 * (?k - 1) + 1 \<le> raw" using assms by simp_all
  have up: "fl (of_int raw / 1000) \<le> of_int ?k"
  proof (rule fl_le)
    show "representable (of_int ?k)" using k(1,2) representable_of_nat [of "nat ?k"] by simp
    have "(of_int raw :: rat) \<le> of_int (1000 * ?k)" using k(3) by (simp only: of_int_le_iff)
    then show "of_int raw / 1000 \<le> (of_int ?k :: rat)" by (simp add: divide_le_eq)
  qed
  let ?r = "of_int (1024 * (?k - 1) + 1) * 2 powi (- 10) :: rat"
  have r: "?r = of_int (?k - 1) + 1 / 1024" by (simp add: power_int_minus divide_simps)
  have "?r \<le> fl (of_int raw / 1000)"
  proof (rule fl_ge)
    show "representable ?r" unfolding representable_def
      using k(1,2) by (intro exI [of _ "1024 * (?k - 1) + 1"] exI [of _ "- 10"]) simp
    have "(of_int (1000 * (?k - 1) + 1) :: rat) \<le> of_int raw" using k(4) by (simp only: of_int_le_iff)
    then show "?r \<le> of_int raw / 1000" unfolding r by simp
  qed
  then have "of_int (?k - 1) < fl (of_int raw / 1000)" unfolding r by linarith
  with up show ?thesis by (intro ceiling_unique) simp_all
qed

text \<open>A CPU quantity reported in whole cores is the number of millicores divided by a thousand and rounded up,
  although the division is done in floating point: up to \<open>2\<^sup>5\<^sup>2\<close> millicores no rounding error changes the result. Every
  other quantity is divided, towards zero, by the divisor's number of bytes.\<close>

theorem whole_cores_round_up:
  assumes "0 \<le> raw" "raw \<le> 2 ^ 52"
  shows "apply_resource_divisor raw True ''1'' = (raw + 999) div 1000 \<and>
    apply_resource_divisor raw False divisor = raw div divisor_bytes divisor"
proof
  show "apply_resource_divisor raw True ''1'' = (raw + 999) div 1000"
  proof (cases "raw = 0")
    case True
    then show ?thesis by (simp add: apply_resource_divisor_def f64_of_i64_def round64_Fin)
  next
    case False
    with assms have raw: "1 \<le> raw" by simp
    have ex: "fl (of_int raw) = of_int raw" using fl_representable [OF representable_of_nat [of "nat raw"]] assms by simp
    have le: "(of_int raw :: rat) \<le> of_int (2 ^ 52)" using assms(2) by (simp only: of_int_le_iff)
    have f: "f64_of_i64 raw = Fin (of_int raw)"
      using round64_Fin [of "of_int raw"] le assms(1) by (simp add: f64_of_i64_def ex)
    have "f64_div (f64_of_i64 raw) (Fin 1000) = Fin (fl (of_int raw / 1000))"
      unfolding f using le assms(1) by (simp add: round64_Fin)
    then show ?thesis
      using fl_thousandth [OF raw assms(2)] raw assms(2) by (simp add: apply_resource_divisor_def)
  qed
  have "1 \<le> divisor_bytes divisor" by (simp add: divisor_bytes_def)
  then show "apply_resource_divisor raw False divisor = raw div divisor_bytes divisor"
    using assms(1) by (simp add: apply_resource_divisor_def trunc_div_def)
qed

theorem whole_cores_round_up_witness:
  "apply_resource_divisor 1001 True ''1'' = 2 \<and> apply_resource_divisor 5000 False ''1Ki'' = 4"
  using whole_cores_round_up [of 1001 "''1''"] whole_cores_round_up [of 5000 "''1Ki''"] by (simp add: divisor_bytes_def)

subsection \<open>What the assembled environment holds\<close>

lemma hm_get_or_insert [simp]:
  "hm_get (hm_or_insert k v m) k' = (if k' = k then Some (case hm_get m k of Some x \<Rightarrow> x | None \<Rightarrow> v) else hm_get m k')"
  by (auto simp: hm_or_insert_def hm_contains_key_def)

lemma add_env_append:
  "add_env n pod ctr ip cms secrets (vs @ ws) env =
     (case add_env n pod ctr ip cms secrets vs env of
        Some (Inr env') \<Rightarrow> add_env n pod ctr ip cms secrets ws env'
      | r \<Rightarrow> r)"
  by (induction vs arbitrary: env) (auto split: option.splits sum.splits)

lemma add_env_keeps:
  "add_env n pod ctr ip cms secrets vs env = Some (Inr env') \<Longrightarrow> k \<notin> ev_name ` set vs \<Longrightarrow> hm_get env' k = hm_get env k"
  by (induction vs arbitrary: env) (auto split: option.splits sum.splits)

lemma assemble_container_env_ok:
  assumes "assemble_container_env n pod ctr ip cms secrets services = Some (Inr env)"
  obtains env0 env1 where "add_env_from cms secrets (ctr_env_from ctr) services = Inr env0"
    "add_env n pod ctr ip cms secrets (ctr_env ctr) env0 = Some (Inr env1)"
    "env = hm_or_insert ''HOSTNAME'' (effective_hostname pod) env1"
proof (cases "add_env_from cms secrets (ctr_env_from ctr) services")
  case (Inr env0)
  with assms obtain r where r: "add_env n pod ctr ip cms secrets (ctr_env ctr) env0 = Some r"
      "map_sum id (hm_or_insert ''HOSTNAME'' (effective_hostname pod)) r = Inr env"
    by (auto simp: assemble_container_env_def)
  then obtain env1 where "r = Inr env1" by (cases r) simp_all
  with r Inr that show ?thesis by simp
qed (use assms in \<open>simp add: assemble_container_env_def\<close>)


definition demo_env_container :: ContainerSpec where
  "demo_env_container = ContainerSpec_default\<lparr>ctr_env :=
     [\<lparr>ev_name = ''A'', ev_value = Some ''1'', ev_value_from = None\<rparr>,
      \<lparr>ev_name = ''B'', ev_value = Some ''x$(A)'', ev_value_from = None\<rparr>]\<rparr>"

definition demo_facts :: NodeFacts where
  "demo_facts = \<lparr>nf_ip = ''10.0.0.1'', nf_meminfo = None, nf_cpus = 4\<rparr>"

lemma demo_env:
  "assemble_container_env demo_facts PodSpec_default demo_env_container None [] [] [(''S'', ''s'')] =
     Some (Inr [(''S'', ''s''), (''A'', ''1''), (''B'', ''x1''), (''HOSTNAME'', [])])"
proof -
  have "expand_env_value ''1'' env = Some ''1''" for env by (subst expand_env_value_ref) simp_all
  moreover have "expand_env_value ''x$(A)'' [(''S'', ''s''), (''A'', ''1'')] = Some ''x1''"
    by (subst expand_env_value_ref) (simp_all add: is_ascii_def is_continuation_def variable_value_def)
  ultimately show ?thesis
    by (simp add: assemble_container_env_def demo_env_container_def ContainerSpec_default_def env_var_value_def
        PodSpec_default_def effective_hostname_def hm_or_insert_def hm_contains_key_def)
qed


end
