(* ===== verification/Sandbox_Config.thy ===== *)
theory Sandbox_Config
  imports Worker_Env
begin

section \<open>What is sent to the runtime: sandbox and container configurations\<close>

text \<open>
  The messages of the runtime port (\<^verbatim>\<open>kubelet-ports/src/driven/container_runtime.rs\<close>) and the functions that build
  them: \<^verbatim>\<open>sandbox_builder/mod.rs\<close>, \<^verbatim>\<open>container_builder/mod.rs\<close> and the pod worker's own
  \<^verbatim>\<open>build_container_security\<close>, \<^verbatim>\<open>sandbox_cgroup_parent\<close> and the configuration literal in
  \<^verbatim>\<open>create_sandbox\<close>. The contents of the node's \<^verbatim>\<open>resolv.conf\<close> files are an argument.
\<close>

subsection \<open>Messages\<close>

record LinuxContainerSecurity =
  lcs_run_as_user :: "nat option"
  lcs_run_as_group :: "nat option"
  lcs_supplemental_groups :: "nat list"
  lcs_privileged :: bool
  lcs_read_only_root_filesystem :: bool
  lcs_allow_privilege_escalation :: "bool option"
  lcs_capabilities_add :: "string list"
  lcs_capabilities_drop :: "string list"
  lcs_seccomp_profile_type :: "string option"
  lcs_seccomp_localhost_path :: "string option"
  lcs_apparmor_profile :: "string option"

record DeviceMount =
  dm_host_path :: string
  dm_container_path :: string
  dm_permissions :: string

record DevicePluginMount =
  dpm_host_path :: string
  dpm_container_path :: string
  dpm_read_only :: bool

record CreateContainerConfig =
  cc_pod_uid :: string
  cc_pod_name :: string
  cc_pod_namespace :: string
  cc_attempt :: u32
  cc_container :: ContainerSpec
  cc_sandbox_id :: string
  cc_image_id :: string
  cc_log_directory :: string
  cc_env_overrides :: "(string, string) hmap"
  cc_extra_env :: "(string \<times> string) list"
  cc_security :: LinuxContainerSecurity
  cc_linux_cgroup_parent :: string
  cc_extra_devices :: "DeviceMount list"
  cc_extra_mounts :: "DevicePluginMount list"
  cc_extra_device_envs :: "(string \<times> string) list"
  cc_share_process_namespace :: bool
  cc_pod_hostname :: string

record DnsConfigSpec =
  dcs_servers :: "string list"
  dcs_searches :: "string list"
  dcs_options :: "string list"

record PortMappingSpec =
  pm_container_port :: nat
  pm_host_port :: "nat option"
  pm_protocol :: string
  pm_host_ip :: "string option"

record CreateSandboxConfig =
  sb_pod_uid :: string
  sb_pod_name :: string
  sb_pod_namespace :: string
  sb_hostname :: string
  sb_log_directory :: string
  sb_dns_config :: "DnsConfigSpec option"
  sb_port_mappings :: "PortMappingSpec list"
  sb_labels :: "(string, string) hmap"
  sb_annotations :: "(string, string) hmap"
  sb_linux_cgroup_parent :: string
  sb_sysctls :: "(string, string) hmap"
  sb_host_network :: bool
  sb_host_pid :: bool
  sb_host_ipc :: bool
  sb_runtime_handler :: string
  sb_sandbox_image :: string
  sb_supplemental_groups :: "nat list"
  sb_privileged :: bool
  sb_share_process_namespace :: bool

datatype SandboxState = SReady | SNotReady

record SandboxNetworkStatus =
  sns_ip :: string
  sns_additional_ips :: "string list"

record SandboxStatus =
  sbs_id :: string
  sbs_pod_uid :: string
  sbs_pod_name :: string
  sbs_pod_namespace :: string
  sbs_state :: SandboxState
  sbs_created_at :: timestamp
  sbs_network :: "SandboxNetworkStatus option"
  sbs_labels :: "(string, string) hmap"

subsection \<open>DNS\<close>

record NodeDnsConfig =
  nd_cluster_dns :: "string list"
  nd_cluster_domain :: string
  nd_resolv_conf_path :: string

definition NodeDnsConfig_default :: NodeDnsConfig where
  "NodeDnsConfig_default =
     \<lparr>nd_cluster_dns = [''10.96.0.10''], nd_cluster_domain = ''cluster.local'', nd_resolv_conf_path = ''/etc/resolv.conf''\<rparr>"

text \<open>\<open>files\<close> gives the contents of the files on the node; an unreadable file counts as empty.\<close>

definition resolv_line ::
  "string \<Rightarrow> string list \<times> string list \<times> string list \<Rightarrow> string list \<times> string list \<times> string list" where
  "resolv_line raw acc =
     (let line = trim raw; ws = split_whitespace line; (ns, srch, opts) = acc in
      if starts_with ''nameserver '' line then (ns @ (case nth_opt 1 ws of Some x \<Rightarrow> [x] | None \<Rightarrow> []), srch, opts)
      else if starts_with ''search '' line then (ns, srch @ drop 1 ws, opts)
      else if starts_with ''options '' line then (ns, srch, opts @ drop 1 ws)
      else acc)"

definition parse_resolv_conf_raw :: "(string \<Rightarrow> string option) \<Rightarrow> string \<Rightarrow> string list \<times> string list \<times> string list" where
  "parse_resolv_conf_raw files path =
     fold resolv_line (str_lines (case files path of Some c \<Rightarrow> c | None \<Rightarrow> [])) ([], [], [])"

definition parse_resolv_conf :: "(string \<Rightarrow> string option) \<Rightarrow> string \<Rightarrow> string list \<times> string list \<times> string list" where
  "parse_resolv_conf files path =
     (let (ns, srch, opts) = parse_resolv_conf_raw files path;
          stub_only = (ns \<noteq> [] \<and> list_all (starts_with ''127.'') ns);
          (ns2, srch2, opts2) = parse_resolv_conf_raw files ''/run/systemd/resolve/resolv.conf''
      in if stub_only \<and> ns2 \<noteq> [] then (ns2, srch2, opts2) else (ns, srch, opts))"

definition policy_dns ::
  "(string \<Rightarrow> string option) \<Rightarrow> PodSpec \<Rightarrow> NodeDnsConfig \<Rightarrow> string list \<times> string list \<times> string list" where
  "policy_dns files pod node_dns =
     (let domain = nd_cluster_domain node_dns;
          cluster = (nd_cluster_dns node_dns,
            [pr_namespace (ps_pod_ref pod) @ ''.svc.'' @ domain, ''svc.'' @ domain, domain], [''ndots:5''])
      in case (case ps_dns_config pod of Some d \<Rightarrow> dns_policy d | None \<Rightarrow> ClusterFirst) of
           ClusterFirst \<Rightarrow> cluster
         | ClusterFirstWithHostNet \<Rightarrow> cluster
         | DnsDefault \<Rightarrow> parse_resolv_conf files (nd_resolv_conf_path node_dns)
         | DnsNone \<Rightarrow> ([], [], []))"

definition dns_option_str :: "DnsOption \<Rightarrow> string" where
  "dns_option_str opt = (case do_value opt of Some v \<Rightarrow> do_name opt @ '':'' @ v | None \<Rightarrow> do_name opt)"

definition build_dns_config :: "(string \<Rightarrow> string option) \<Rightarrow> PodSpec \<Rightarrow> NodeDnsConfig \<Rightarrow> DnsConfigSpec" where
  "build_dns_config files pod node_dns =
     (let (nameservers, searches, options) = policy_dns files pod node_dns;
          (nameservers, searches, options) =
            (case ps_dns_config pod of
               None \<Rightarrow> (nameservers, searches, options)
             | Some d \<Rightarrow>
                 (if dns_nameservers d \<noteq> [] then dns_nameservers d else nameservers,
                  if dns_searches d \<noteq> [] then dns_searches d else searches,
                  options @ map dns_option_str (dns_options d)))
      in \<lparr>dcs_servers = take 3 nameservers, dcs_searches = take 6 searches, dcs_options = options\<rparr>)"

subsection \<open>Building the sandbox configuration\<close>

definition port_mapping :: "ContainerPort \<Rightarrow> PortMappingSpec" where
  "port_mapping p =
     \<lparr>pm_container_port = cp_container_port p, pm_host_port = cp_host_port p,
      pm_protocol = Protocol_debug (cp_protocol p), pm_host_ip = cp_host_ip p\<rparr>"

definition build_port_mappings :: "PodSpec \<Rightarrow> PortMappingSpec list" where
  "build_port_mappings pod =
     map port_mapping (filter (\<lambda>p. cp_host_port p \<noteq> None)
       (concat (map ctr_ports (ps_containers pod @ ps_init_containers pod))))"

fun qos_dir :: "QosClass \<Rightarrow> string" where
  "qos_dir Guaranteed = ''guaranteed''"
| "qos_dir Burstable = ''burstable''"
| "qos_dir BestEffort = ''besteffort''"

definition build_cgroup_parent :: "PodSpec \<Rightarrow> string" where
  "build_cgroup_parent pod = ''/kubepods/'' @ qos_dir (compute_qos_class pod) @ ''/pod'' @ ps_uid pod"

definition build_sysctls :: "PodSpec \<Rightarrow> (string, string) hmap" where
  "build_sysctls pod =
     (case ps_security_context pod of
        None \<Rightarrow> []
      | Some sc \<Rightarrow> hm_insert_all (map (\<lambda>s. (sys_name s, sys_value s)) (psc_sysctls sc)) [])"

definition push_new :: "'a \<Rightarrow> 'a list \<Rightarrow> 'a list" where
  "push_new g groups = (if g \<in> set groups then groups else groups @ [g])"

definition context_groups :: "PodSecurityContext \<Rightarrow> nat list" where
  "context_groups sc =
     fold push_new (psc_supplemental_groups sc) (case psc_fs_group sc of Some g \<Rightarrow> [g] | None \<Rightarrow> [])"

definition build_supplemental_groups :: "PodSpec \<Rightarrow> nat list" where
  "build_supplemental_groups pod =
     (case ps_security_context pod of None \<Rightarrow> [] | Some sc \<Rightarrow> context_groups sc)"

definition sandbox_labels :: "PodSpec \<Rightarrow> (string, string) hmap" where
  "sandbox_labels pod =
     hm_insert ''io.kubernetes.pod.uid'' (ps_uid pod)
      (hm_insert ''io.kubernetes.pod.namespace'' (pr_namespace (ps_pod_ref pod))
        (hm_insert ''io.kubernetes.pod.name'' (pr_name (ps_pod_ref pod)) (ps_labels pod)))"

definition seccomp_annotation :: "PodSpec \<Rightarrow> (string, string) hmap" where
  "seccomp_annotation pod =
     (case Option.bind (ps_security_context pod) psc_seccomp_profile of
        None \<Rightarrow> ps_annotations pod
      | Some seccomp \<Rightarrow>
          hm_insert ''seccomp.security.alpha.kubernetes.io/pod''
            (if sp_type seccomp = ''RuntimeDefault'' then ''runtime/default''
             else if sp_type seccomp = ''Unconfined'' then ''unconfined''
             else if sp_type seccomp = ''Localhost''
               then ''localhost/'' @ (case sp_localhost_profile seccomp of Some p \<Rightarrow> p | None \<Rightarrow> [])
             else ''runtime/default'')
            (ps_annotations pod))"

definition pod_log_dir :: "string \<Rightarrow> PodSpec \<Rightarrow> string" where
  "pod_log_dir log_dir pod =
     log_dir @ ''/'' @ pr_namespace (ps_pod_ref pod) @ ''_'' @ pr_name (ps_pod_ref pod) @ ''_'' @ ps_uid pod"

definition any_privileged :: "PodSpec \<Rightarrow> bool" where
  "any_privileged pod \<longleftrightarrow>
     list_ex (\<lambda>c. Option.bind (ctr_security_context c) sc_privileged = Some True) (ps_containers pod @ ps_init_containers pod)"

definition build_sandbox_config ::
  "(string \<Rightarrow> string option) \<Rightarrow> PodSpec \<Rightarrow> NodeDnsConfig \<Rightarrow> string \<Rightarrow> string \<Rightarrow> string \<Rightarrow> CreateSandboxConfig" where
  "build_sandbox_config files pod node_dns runtime_handler log_dir pod_infra_container_image =
     \<lparr>sb_pod_uid = ps_uid pod, sb_pod_name = pr_name (ps_pod_ref pod), sb_pod_namespace = pr_namespace (ps_pod_ref pod),
      sb_hostname = (if ps_host_network pod then [] else effective_hostname pod),
      sb_log_directory = pod_log_dir log_dir pod,
      sb_dns_config = Some (build_dns_config files pod node_dns),
      sb_port_mappings = build_port_mappings pod,
      sb_labels = sandbox_labels pod, sb_annotations = seccomp_annotation pod,
      sb_linux_cgroup_parent = build_cgroup_parent pod, sb_sysctls = build_sysctls pod,
      sb_host_network = ps_host_network pod, sb_host_pid = ps_host_pid pod, sb_host_ipc = ps_host_ipc pod,
      sb_runtime_handler = runtime_handler, sb_sandbox_image = pod_infra_container_image,
      sb_supplemental_groups = build_supplemental_groups pod, sb_privileged = any_privileged pod,
      sb_share_process_namespace = (case ps_share_process_namespace pod of Some b \<Rightarrow> b | None \<Rightarrow> False)\<rparr>"

text \<open>The pod worker's own version.\<close>

definition replace_char :: "char \<Rightarrow> char \<Rightarrow> string \<Rightarrow> string" where
  "replace_char a b s = map (\<lambda>c. if c = a then b else c) s"

definition sandbox_cgroup_parent :: "string \<Rightarrow> PodSpec \<Rightarrow> string" where
  "sandbox_cgroup_parent cgroup_driver pod =
     (let qos = compute_qos_class pod in
      if cgroup_driver = ''systemd''
      then ''kubepods-'' @ qos_dir qos @ ''-pod'' @ replace_char CHR ''-'' CHR ''_'' (ps_uid pod) @ ''.slice''
      else ''/kubepods/'' @ qos_dir qos @ ''/pod'' @ ps_uid pod)"

definition worker_sandbox_config ::
  "(string \<Rightarrow> string option) \<Rightarrow> string \<Rightarrow> string \<Rightarrow> string \<Rightarrow> NodeDnsConfig \<Rightarrow> PodSpec \<Rightarrow> CreateSandboxConfig" where
  "worker_sandbox_config files cgroup_driver log_dir pod_infra_container_image node_dns pod =
     \<lparr>sb_pod_uid = ps_uid pod, sb_pod_name = pr_name (ps_pod_ref pod), sb_pod_namespace = pr_namespace (ps_pod_ref pod),
      sb_hostname = (if ps_host_network pod then [] else effective_hostname pod),
      sb_log_directory = pod_log_dir log_dir pod,
      sb_dns_config = Some (build_dns_config files pod node_dns),
      sb_port_mappings = map port_mapping (concat (map ctr_ports (ps_containers pod))),
      sb_labels = sandbox_labels pod, sb_annotations = ps_annotations pod,
      sb_linux_cgroup_parent = sandbox_cgroup_parent cgroup_driver pod, sb_sysctls = build_sysctls pod,
      sb_host_network = ps_host_network pod, sb_host_pid = ps_host_pid pod, sb_host_ipc = ps_host_ipc pod,
      sb_runtime_handler = (case ps_runtime_class_name pod of Some rc \<Rightarrow> rc | None \<Rightarrow> ''runc''),
      sb_sandbox_image = pod_infra_container_image,
      sb_supplemental_groups = build_supplemental_groups pod, sb_privileged = any_privileged pod,
      sb_share_process_namespace = (case ps_share_process_namespace pod of Some b \<Rightarrow> b | None \<Rightarrow> False)\<rparr>"

subsection \<open>Security contexts\<close>

definition or_else :: "'a option \<Rightarrow> 'a option \<Rightarrow> 'a option" where
  "or_else a b = (case a of Some x \<Rightarrow> Some x | None \<Rightarrow> b)"

definition apparmor_name :: "AppArmorSpec \<Rightarrow> string" where
  "apparmor_name a =
     (if aa_type a = ''Unconfined'' then ''unconfined''
      else if aa_type a = ''Localhost'' then ''localhost/'' @ (case aa_localhost_profile a of Some p \<Rightarrow> p | None \<Rightarrow> [])
      else ''runtime/default'')"

definition build_container_security ::
  "SecurityContext option \<Rightarrow> PodSecurityContext option \<Rightarrow> LinuxContainerSecurity" where
  "build_container_security ctr_sc pod_sc =
     (let seccomp = or_else (Option.bind ctr_sc sc_seccomp_profile) (Option.bind pod_sc psc_seccomp_profile);
          caps = Option.bind ctr_sc sc_capabilities
      in \<lparr>lcs_run_as_user = or_else (Option.bind ctr_sc sc_run_as_user) (Option.bind pod_sc psc_run_as_user),
          lcs_run_as_group = or_else (Option.bind ctr_sc sc_run_as_group) (Option.bind pod_sc psc_run_as_group),
          lcs_supplemental_groups = (case pod_sc of Some sc \<Rightarrow> context_groups sc | None \<Rightarrow> []),
          lcs_privileged = (Option.bind ctr_sc sc_privileged = Some True),
          lcs_read_only_root_filesystem = (Option.bind ctr_sc sc_read_only_root_filesystem = Some True),
          lcs_allow_privilege_escalation = Option.bind ctr_sc sc_allow_privilege_escalation,
          lcs_capabilities_add = (case caps of Some c \<Rightarrow> cap_add c | None \<Rightarrow> []),
          lcs_capabilities_drop = (case caps of Some c \<Rightarrow> cap_drop c | None \<Rightarrow> []),
          lcs_seccomp_profile_type = map_option sp_type seccomp,
          lcs_seccomp_localhost_path = Option.bind seccomp sp_localhost_profile,
          lcs_apparmor_profile = map_option apparmor_name (Option.bind ctr_sc sc_apparmor_profile)\<rparr>)"

definition build_linux_security ::
  "PodSecurityContext option \<Rightarrow> SecurityContext option \<Rightarrow> LinuxContainerSecurity" where
  "build_linux_security pod_sc ctr_sc =
     (let seccomp = or_else (Option.bind ctr_sc sc_seccomp_profile) (Option.bind pod_sc psc_seccomp_profile);
          caps = Option.bind ctr_sc sc_capabilities
      in \<lparr>lcs_run_as_user = or_else (Option.bind ctr_sc sc_run_as_user) (Option.bind pod_sc psc_run_as_user),
          lcs_run_as_group = or_else (Option.bind ctr_sc sc_run_as_group) (Option.bind pod_sc psc_run_as_group),
          lcs_supplemental_groups = (case pod_sc of Some sc \<Rightarrow> psc_supplemental_groups sc | None \<Rightarrow> []),
          lcs_privileged = (Option.bind ctr_sc sc_privileged = Some True),
          lcs_read_only_root_filesystem = (Option.bind ctr_sc sc_read_only_root_filesystem = Some True),
          lcs_allow_privilege_escalation = Option.bind ctr_sc sc_allow_privilege_escalation,
          lcs_capabilities_add = (case caps of Some c \<Rightarrow> cap_add c | None \<Rightarrow> []),
          lcs_capabilities_drop = (case caps of Some c \<Rightarrow> cap_drop c | None \<Rightarrow> []),
          lcs_seccomp_profile_type = map_option sp_type seccomp,
          lcs_seccomp_localhost_path = Option.bind seccomp sp_localhost_profile,
          lcs_apparmor_profile = map_option apparmor_name (Option.bind ctr_sc sc_apparmor_profile)\<rparr>)"

subsection \<open>The container builder\<close>

definition build_container_config ::
  "PodSpec \<Rightarrow> ContainerSpec \<Rightarrow> string \<Rightarrow> (string \<times> string) list \<Rightarrow> string \<Rightarrow> CreateContainerConfig" where
  "build_container_config pod ctr sandbox_id resolved_env log_dir =
     \<lparr>cc_pod_uid = ps_uid pod, cc_pod_name = pr_name (ps_pod_ref pod), cc_pod_namespace = pr_namespace (ps_pod_ref pod),
      cc_attempt = 0, cc_container = ctr, cc_sandbox_id = sandbox_id, cc_image_id = [],
      cc_log_directory = pod_log_dir log_dir pod @ ''/'' @ ctr_name ctr @ ''/'',
      cc_env_overrides = [],
      cc_extra_env = List.map_filter (\<lambda>e. map_option (\<lambda>v. (ev_name e, v)) (ev_value e)) (ctr_env ctr) @ resolved_env,
      cc_security = build_linux_security (ps_security_context pod) (ctr_security_context ctr),
      cc_linux_cgroup_parent = [], cc_extra_devices = [], cc_extra_mounts = [], cc_extra_device_envs = [],
      cc_share_process_namespace = (case ps_share_process_namespace pod of Some b \<Rightarrow> b | None \<Rightarrow> False),
      cc_pod_hostname = effective_hostname pod\<rparr>"

definition builder_field :: "string \<Rightarrow> PodSpec \<Rightarrow> string \<Rightarrow> string" where
  "builder_field node_ip pod path =
     (if path = ''metadata.name'' then pr_name (ps_pod_ref pod)
      else if path = ''metadata.namespace'' then pr_namespace (ps_pod_ref pod)
      else if path = ''metadata.uid'' then ps_uid pod
      else if path = ''spec.nodeName'' then ps_node_name pod
      else if path = ''spec.serviceAccountName'' then ps_service_account_name pod
      else if path = ''status.hostIP'' then node_ip
      else if path = ''status.podIP'' then (if ps_host_network pod then node_ip else [])
      else case bracket_key ''metadata.labels'' path of
        Some key \<Rightarrow> (case hm_get (ps_labels pod) key of Some v \<Rightarrow> v | None \<Rightarrow> [])
      | None \<Rightarrow>
          (case bracket_key ''metadata.annotations'' path of
             Some key \<Rightarrow> (case hm_get (ps_annotations pod) key of Some v \<Rightarrow> v | None \<Rightarrow> [])
           | None \<Rightarrow> []))"

definition builder_resource :: "ContainerSpec \<Rightarrow> string \<Rightarrow> string" where
  "builder_resource ctr resource =
     (let requests = rr_requests (ctr_resources ctr) in
      if resource = ''limits.cpu'' \<or> resource = ''requests.cpu''
      then (case quantity_of requests ''cpu'' of Some v \<Rightarrow> show_int v | None \<Rightarrow> ''0'')
      else if resource = ''limits.memory'' \<or> resource = ''requests.memory''
      then (case quantity_of requests ''memory'' of Some v \<Rightarrow> show_int v | None \<Rightarrow> ''0'')
      else [])"

definition resolve_downward_api_env :: "string \<Rightarrow> PodSpec \<Rightarrow> ContainerSpec \<Rightarrow> (string \<times> string) list" where
  "resolve_downward_api_env node_ip pod ctr =
     List.map_filter (\<lambda>e. case ev_value_from e of
         Some (FieldRef path) \<Rightarrow> Some (ev_name e, builder_field node_ip pod path)
       | Some (EnvResourceFieldRef _ resource) \<Rightarrow> Some (ev_name e, builder_resource ctr resource)
       | _ \<Rightarrow> None) (ctr_env ctr)"

definition prefixed :: "EnvFromSource \<Rightarrow> (string, string) hmap \<Rightarrow> (string \<times> string) list" where
  "prefixed f m = map (\<lambda>(k, v). ((case ef_prefix f of Some p \<Rightarrow> p | None \<Rightarrow> []) @ k, v)) m"

definition resolve_configmap_env ::
  "ContainerSpec \<Rightarrow> (string, (string, string) hmap) hmap \<Rightarrow> (string \<times> string) list" where
  "resolve_configmap_env ctr cms =
     concat (map (\<lambda>f. case Option.bind (ef_config_map_ref f) (\<lambda>r. hm_get cms (er_name r)) of
         Some m \<Rightarrow> prefixed f m | None \<Rightarrow> []) (ctr_env_from ctr)) @
     List.map_filter (\<lambda>e. case ev_value_from e of
         Some (ConfigMapKeyRef name key _) \<Rightarrow>
           map_option (Pair (ev_name e)) (Option.bind (hm_get cms name) (\<lambda>m. hm_get m key))
       | _ \<Rightarrow> None) (ctr_env ctr)"

text \<open>\<^verbatim>\<open>String::from_utf8\<close> accepts exactly the byte sequences the lossy conversion leaves alone.\<close>

definition from_utf8 :: "string \<Rightarrow> string option" where
  "from_utf8 s = (if from_utf8_lossy s = s then Some s else None)"

definition resolve_secret_env ::
  "ContainerSpec \<Rightarrow> (string, (string, string) hmap) hmap \<Rightarrow> (string \<times> string) list" where
  "resolve_secret_env ctr secrets =
     concat (map (\<lambda>f. case Option.bind (ef_secret_ref f) (\<lambda>r. hm_get secrets (er_name r)) of
         Some m \<Rightarrow> prefixed f (List.map_filter (\<lambda>(k, v). map_option (Pair k) (from_utf8 v)) m) | None \<Rightarrow> []) (ctr_env_from ctr)) @
     List.map_filter (\<lambda>e. case ev_value_from e of
         Some (SecretKeyRef name key _) \<Rightarrow>
           map_option (Pair (ev_name e)) (Option.bind (Option.bind (hm_get secrets name) (\<lambda>m. hm_get m key)) from_utf8)
       | _ \<Rightarrow> None) (ctr_env ctr)"

subsection \<open>Properties\<close>

lemma fold_push_new:
  "distinct gs \<Longrightarrow> distinct (fold push_new xs gs)" "set (fold push_new xs gs) = set gs \<union> set xs"
  by (induction xs arbitrary: gs) (auto simp: push_new_def)

lemma fold_push_new_prefix: "\<exists>ys. fold push_new xs gs = gs @ ys"
proof (induction xs arbitrary: gs)
  case (Cons x xs)
  then show ?case by (auto simp: push_new_def) (metis append.assoc)
qed simp

theorem context_groups_spec:
  "distinct (context_groups sc) \<and> set (context_groups sc) = set_option (psc_fs_group sc) \<union> set (psc_supplemental_groups sc)"
  by (auto simp: context_groups_def fold_push_new split: option.split)

lemma fs_group_first: "psc_fs_group sc = Some g \<Longrightarrow> \<exists>gs. context_groups sc = g # gs"
  using fold_push_new_prefix [of "psc_supplemental_groups sc" "[g]"] by (simp add: context_groups_def)

text \<open>The configuration the worker sends for a pod's sandbox agrees with the builder's in everything but the port
  mappings, the seccomp annotation, the runtime handler and, under the systemd driver, the cgroup path; what both send is
  within the resolver's limits, carries the pod's identity in its labels whatever labels the pod
  has, is privileged exactly when some container is, and lists no group twice.\<close>

theorem sandbox_config_sound:
  "let c = worker_sandbox_config files driver log_dir img node_dns pod;
       b = build_sandbox_config files pod node_dns handler log_dir img
   in (driver \<noteq> ''systemd'' \<longrightarrow>
        c = b\<lparr>sb_port_mappings := sb_port_mappings c, sb_annotations := ps_annotations pod, sb_runtime_handler := sb_runtime_handler c\<rparr>) \<and>
      (\<exists>d. sb_dns_config c = Some d \<and> length (dcs_servers d) \<le> 3 \<and> length (dcs_searches d) \<le> 6) \<and>
      hm_get (sb_labels c) ''io.kubernetes.pod.uid'' = Some (ps_uid pod) \<and>
      hm_get (sb_labels c) ''io.kubernetes.pod.name'' = Some (pr_name (ps_pod_ref pod)) \<and>
      hm_get (sb_labels c) ''io.kubernetes.pod.namespace'' = Some (pr_namespace (ps_pod_ref pod)) \<and>
      (sb_privileged c \<longleftrightarrow> (\<exists>k \<in> set (ps_containers pod @ ps_init_containers pod).
         Option.bind (ctr_security_context k) sc_privileged = Some True)) \<and>
      distinct (sb_supplemental_groups c)"
proof -
  have "distinct (build_supplemental_groups pod)"
    by (simp add: build_supplemental_groups_def context_groups_spec split: option.split)
  moreover have "length (dcs_servers (build_dns_config files pod node_dns)) \<le> 3"
      "length (dcs_searches (build_dns_config files pod node_dns)) \<le> 6"
    by (simp_all add: build_dns_config_def Let_def split: prod.split)
  ultimately show ?thesis
    by (simp add: worker_sandbox_config_def build_sandbox_config_def sandbox_labels_def any_privileged_def list_ex_iff
        sandbox_cgroup_parent_def build_cgroup_parent_def Let_def Bex_def)
qed

theorem sandbox_config_sound_witness:
  "hm_get (sb_labels (worker_sandbox_config (\<lambda>_. None) ''systemd'' ''/var/log'' ''pause'' NodeDnsConfig_default
      (PodSpec_default\<lparr>ps_uid := ''u'', ps_labels := [(''io.kubernetes.pod.uid'', ''x'')]\<rparr>))) ''io.kubernetes.pod.uid'' = Some ''u''"
  using sandbox_config_sound [of "\<lambda>_. None" "''systemd''" "''/var/log''" "''pause''" NodeDnsConfig_default
      "PodSpec_default\<lparr>ps_uid := ''u'', ps_labels := [(''io.kubernetes.pod.uid'', ''x'')]\<rparr>"]
  by (simp add: Let_def)

text \<open>The two security builders differ only in the supplemental groups: the container builder drops the pod's \<^verbatim>\<open>fsGroup\<close>.\<close>

theorem security_builders_differ_in_groups:
  "build_container_security ctr_sc pod_sc =
     (build_linux_security pod_sc ctr_sc)\<lparr>lcs_supplemental_groups := (case pod_sc of Some sc \<Rightarrow> context_groups sc | None \<Rightarrow> [])\<rparr>"
  by (simp add: build_container_security_def build_linux_security_def Let_def)

text \<open>The container builder answers \<^verbatim>\<open>limits.cpu\<close> and \<^verbatim>\<open>limits.memory\<close> with the requests.\<close>

theorem builder_reports_request_as_limit: "builder_resource ctr ''limits.memory'' = builder_resource ctr ''requests.memory''"
  by (simp add: builder_resource_def)

end
