(* ===== verification/Cri_Messages.thy ===== *)
theory Cri_Messages
  imports Sandbox_Config
begin

section \<open>Messages of the runtime interface\<close>

text \<open>
  The messages of \<^verbatim>\<open>kubelet-cri/src/proto_generated.rs\<close> the client writes and reads, field by field. An \<^verbatim>\<open>Int64Value\<close> and a
  \<^verbatim>\<open>UInt64Value\<close> are their number, a \<^verbatim>\<open>PodIp\<close> is its text; \<^verbatim>\<open>prost\<close>'s encoding is third-party code. A type whose name
  the kubelet uses for something else has the prefix \<open>Pb\<close>. The defaults are the zero values of protobuf.
\<close>

subsection \<open>Sandboxes\<close>

record PodSandboxMetadata =
  psm_name :: string
  psm_uid :: string
  psm_namespace :: string
  psm_attempt :: u32

record NamespaceOption =
  nso_network :: int
  nso_pid :: int
  nso_ipc :: int
  nso_target_id :: string
  nso_userns :: int
  nso_uts :: int

text \<open>\<^verbatim>\<open>NamespaceMode\<close>, \<^verbatim>\<open>SecurityProfileType\<close> and \<^verbatim>\<open>MountPropagation\<close> as the numbers they are cast to.\<close>

datatype NamespaceMode = ModePod | ModeContainer | ModeNode | ModeTarget

fun namespace_mode :: "NamespaceMode \<Rightarrow> int" where
  "namespace_mode ModePod = 0"
| "namespace_mode ModeContainer = 1"
| "namespace_mode ModeNode = 2"
| "namespace_mode ModeTarget = 3"

datatype SecurityProfileType = RuntimeDefault | Unconfined | Localhost

fun profile_code :: "SecurityProfileType \<Rightarrow> int" where
  "profile_code RuntimeDefault = 0"
| "profile_code Unconfined = 1"
| "profile_code Localhost = 2"

datatype MountPropagation = PropagationPrivate | PropagationHostToContainer | PropagationBidirectional

fun propagation_code :: "MountPropagation \<Rightarrow> int" where
  "propagation_code PropagationPrivate = 0"
| "propagation_code PropagationHostToContainer = 1"
| "propagation_code PropagationBidirectional = 2"

record SeLinuxOption =
  sel_user :: string
  sel_role :: string
  sel_type :: string
  sel_level :: string

record SecurityProfile =
  spf_profile_type :: int
  spf_localhost_ref :: string

record LinuxSandboxSecurityContext =
  lss_namespace_options :: "NamespaceOption option"
  lss_selinux_options :: "SeLinuxOption option"
  lss_run_as_user :: "int option"
  lss_readonly_rootfs :: bool
  lss_supplemental_groups :: "int list"
  lss_privileged :: bool
  lss_seccomp_profile_path :: string
  lss_run_as_group :: "int option"
  lss_seccomp :: "SecurityProfile option"
  lss_apparmor :: "SecurityProfile option"

record LinuxPodSandboxConfig =
  lps_cgroup_parent :: string
  lps_security_context :: "LinuxSandboxSecurityContext option"
  lps_sysctls :: "(string, string) hmap"

record PbDnsConfig =
  cdc_servers :: "string list"
  cdc_searches :: "string list"
  cdc_options :: "string list"

record PbPortMapping =
  cpm_protocol :: int
  cpm_container_port :: int
  cpm_host_port :: int
  cpm_host_ip :: string

record PodSandboxConfig =
  pcf_metadata :: "PodSandboxMetadata option"
  pcf_hostname :: string
  pcf_log_directory :: string
  pcf_dns_config :: "PbDnsConfig option"
  pcf_port_mappings :: "PbPortMapping list"
  pcf_labels :: "(string, string) hmap"
  pcf_annotations :: "(string, string) hmap"
  pcf_linux :: "LinuxPodSandboxConfig option"

record RunPodSandboxRequest =
  rps_config :: "PodSandboxConfig option"
  rps_runtime_handler :: string

record PodSandboxNetworkStatus =
  psn_ip :: string
  psn_additional_ips :: "string list"

record PodSandboxStatus =
  pss_id :: string
  pss_metadata :: "PodSandboxMetadata option"
  pss_state :: int
  pss_created_at :: int
  pss_network :: "PodSandboxNetworkStatus option"
  pss_labels :: "(string, string) hmap"
  pss_annotations :: "(string, string) hmap"
  pss_runtime_handler :: string

record PodSandbox =
  psb_id :: string
  psb_metadata :: "PodSandboxMetadata option"
  psb_state :: int
  psb_created_at :: int
  psb_labels :: "(string, string) hmap"
  psb_annotations :: "(string, string) hmap"
  psb_runtime_handler :: string

subsection \<open>Containers\<close>

record ContainerMetadata =
  cmd_name :: string
  cmd_attempt :: u32

record ImageSpec =
  isp_image :: string
  isp_annotations :: "(string, string) hmap"
  isp_user_specified_image :: string
  isp_runtime_handler :: string

record KeyValue =
  kv_key :: string
  kv_value :: string

record PbMount =
  cmt_container_path :: string
  cmt_host_path :: string
  cmt_readonly :: bool
  cmt_selinux_relabel :: bool
  cmt_propagation :: int

record PbDevice =
  cdv_container_path :: string
  cdv_host_path :: string
  cdv_permissions :: string

record LinuxContainerResources =
  lcr_cpu_period :: int
  lcr_cpu_quota :: int
  lcr_cpu_shares :: int
  lcr_memory_limit_bytes :: int
  lcr_oom_score_adj :: int
  lcr_cpuset_cpus :: string
  lcr_cpuset_mems :: string
  lcr_memory_swap_limit_bytes :: int
  lcr_hugepage_limits :: "(string \<times> nat) list"

record Capability =
  cpb_add_capabilities :: "string list"
  cpb_drop_capabilities :: "string list"

record LinuxContainerSecurityContext =
  lsc_capabilities :: "Capability option"
  lsc_privileged :: bool
  lsc_namespace_options :: "NamespaceOption option"
  lsc_selinux_options :: "SeLinuxOption option"
  lsc_run_as_user :: "int option"
  lsc_run_as_username :: string
  lsc_readonly_rootfs :: bool
  lsc_supplemental_groups :: "int list"
  lsc_apparmor_profile :: string
  lsc_seccomp_profile_path :: string
  lsc_no_new_privs :: bool
  lsc_run_as_group :: "int option"
  lsc_masked_paths :: "string list"
  lsc_readonly_paths :: "string list"
  lsc_seccomp :: "SecurityProfile option"
  lsc_apparmor :: "SecurityProfile option"

record LinuxContainerConfig =
  lcc_resources :: "LinuxContainerResources option"
  lcc_security_context :: "LinuxContainerSecurityContext option"

record ContainerConfig =
  cfg_metadata :: "ContainerMetadata option"
  cfg_image :: "ImageSpec option"
  cfg_command :: "string list"
  cfg_args :: "string list"
  cfg_working_dir :: string
  cfg_envs :: "KeyValue list"
  cfg_mounts :: "PbMount list"
  cfg_devices :: "PbDevice list"
  cfg_labels :: "(string, string) hmap"
  cfg_annotations :: "(string, string) hmap"
  cfg_log_path :: string
  cfg_stdin :: bool
  cfg_stdin_once :: bool
  cfg_tty :: bool
  cfg_linux :: "LinuxContainerConfig option"

record CreateContainerRequest =
  ccr_pod_sandbox_id :: string
  ccr_config :: "ContainerConfig option"
  ccr_sandbox_config :: "PodSandboxConfig option"

record PbContainer =
  crc_id :: string
  crc_pod_sandbox_id :: string
  crc_metadata :: "ContainerMetadata option"
  crc_image :: "ImageSpec option"
  crc_image_ref :: string
  crc_state :: int
  crc_created_at :: int
  crc_labels :: "(string, string) hmap"
  crc_annotations :: "(string, string) hmap"

record PbContainerStatus =
  crs_id :: string
  crs_metadata :: "ContainerMetadata option"
  crs_state :: int
  crs_created_at :: int
  crs_started_at :: int
  crs_finished_at :: int
  crs_exit_code :: int
  crs_image :: "ImageSpec option"
  crs_image_ref :: string
  crs_reason :: string
  crs_message :: string
  crs_labels :: "(string, string) hmap"
  crs_annotations :: "(string, string) hmap"
  crs_mounts :: "PbMount list"
  crs_log_path :: string

record CpuUsage =
  cpu_timestamp :: int
  cpu_usage_core_nano_seconds :: "nat option"
  cpu_usage_nano_cores :: "nat option"

record MemoryUsage =
  mem_timestamp :: int
  mem_working_set_bytes :: "nat option"

record ContainerAttributes =
  cta_id :: string
  cta_metadata :: "ContainerMetadata option"
  cta_labels :: "(string, string) hmap"
  cta_annotations :: "(string, string) hmap"

record FilesystemUsage =
  fsu_timestamp :: int
  fsu_fs_id :: "string option"
  fsu_used_bytes :: "nat option"
  fsu_inodes_used :: "nat option"

record PbContainerStats =
  cst_attributes :: "ContainerAttributes option"
  cst_cpu :: "CpuUsage option"
  cst_memory :: "MemoryUsage option"
  cst_writable_layer :: "FilesystemUsage option"

record ExecSyncRequest =
  esr_container_id :: string
  esr_cmd :: "string list"
  esr_timeout :: int

record AttachRequest =
  atr_container_id :: string
  atr_stdin :: bool
  atr_tty :: bool
  atr_stdout :: bool
  atr_stderr :: bool

subsection \<open>Images\<close>

record PbImage =
  cim_id :: string
  cim_repo_tags :: "string list"
  cim_repo_digests :: "string list"
  cim_size :: u64
  cim_uid :: "int option"
  cim_username :: string
  cim_spec :: "ImageSpec option"
  cim_pinned :: bool

record AuthConfig =
  ac_username :: string
  ac_password :: string
  ac_auth :: string
  ac_server_address :: string
  ac_identity_token :: string
  ac_registry_token :: string

record PullImageRequest =
  pir_image :: "ImageSpec option"
  pir_auth :: "AuthConfig option"
  pir_sandbox_config :: "PodSandboxConfig option"

subsection \<open>Zero values\<close>

definition NamespaceOption_default :: NamespaceOption where
  "NamespaceOption_default =
     \<lparr>nso_network = 0, nso_pid = 0, nso_ipc = 0, nso_target_id = [], nso_userns = 0, nso_uts = 0\<rparr>"

definition LinuxSandboxSecurityContext_default :: LinuxSandboxSecurityContext where
  "LinuxSandboxSecurityContext_default =
     \<lparr>lss_namespace_options = None, lss_selinux_options = None, lss_run_as_user = None, lss_readonly_rootfs = False,
      lss_supplemental_groups = [], lss_privileged = False, lss_seccomp_profile_path = [], lss_run_as_group = None,
      lss_seccomp = None, lss_apparmor = None\<rparr>"

definition LinuxContainerSecurityContext_default :: LinuxContainerSecurityContext where
  "LinuxContainerSecurityContext_default =
     \<lparr>lsc_capabilities = None, lsc_privileged = False, lsc_namespace_options = None, lsc_selinux_options = None,
      lsc_run_as_user = None, lsc_run_as_username = [], lsc_readonly_rootfs = False, lsc_supplemental_groups = [],
      lsc_apparmor_profile = [], lsc_seccomp_profile_path = [], lsc_no_new_privs = False, lsc_run_as_group = None,
      lsc_masked_paths = [], lsc_readonly_paths = [], lsc_seccomp = None, lsc_apparmor = None\<rparr>"

definition PbMount_default :: PbMount where
  "PbMount_default =
     \<lparr>cmt_container_path = [], cmt_host_path = [], cmt_readonly = False, cmt_selinux_relabel = False, cmt_propagation = 0\<rparr>"

end
