(* ===== verification/Json.thy ===== *)
theory Json
  imports F64 Pod_Types
begin

section \<open>JSON values\<close>

text \<open>
  \<^verbatim>\<open>serde_json::Value\<close> with the accessors the sources use. A number is an integer of 64 bits, signed or not, or a double; an object is
  a map by key, so \<^verbatim>\<open>get\<close> on anything else, and every \<^verbatim>\<open>as_\<close> on another constructor, is \<open>None\<close>.
\<close>

datatype json = JNull | JBool bool | JInt int | JFloat f64 | JStr string | JArr "json list" | JObj "(string \<times> json) list"

definition jget :: "string \<Rightarrow> json \<Rightarrow> json option" where
  "jget k v = (case v of JObj kvs \<Rightarrow> hm_get kvs k | _ \<Rightarrow> None)"

definition as_str :: "json \<Rightarrow> string option" where
  "as_str v = (case v of JStr s \<Rightarrow> Some s | _ \<Rightarrow> None)"

definition as_bool :: "json \<Rightarrow> bool option" where
  "as_bool v = (case v of JBool b \<Rightarrow> Some b | _ \<Rightarrow> None)"

definition as_array :: "json \<Rightarrow> json list option" where
  "as_array v = (case v of JArr xs \<Rightarrow> Some xs | _ \<Rightarrow> None)"

definition as_object :: "json \<Rightarrow> (string \<times> json) list option" where
  "as_object v = (case v of JObj kvs \<Rightarrow> Some kvs | _ \<Rightarrow> None)"

definition json_as_u64 :: "json \<Rightarrow> nat option" where
  "json_as_u64 v = (case v of JInt n \<Rightarrow> if 0 \<le> n \<and> n < 2 ^ 64 then Some (nat n) else None | _ \<Rightarrow> None)"

definition json_as_i64 :: "json \<Rightarrow> int option" where
  "json_as_i64 v = (case v of JInt n \<Rightarrow> if - (2 ^ 63) \<le> n \<and> n < 2 ^ 63 then Some n else None | _ \<Rightarrow> None)"

text \<open>\<^verbatim>\<open>serde_json::json!\<close> of an optional value.\<close>

definition jopt :: "('a \<Rightarrow> json) \<Rightarrow> 'a option \<Rightarrow> json" where
  "jopt f x = (case x of Some v \<Rightarrow> f v | None \<Rightarrow> JNull)"

lemma jget_simps [simp]:
  "jget k (JObj kvs) = hm_get kvs k" "jget k JNull = None" "jget k (JStr s) = None" "jget k (JArr xs) = None"
  "jget k (JInt n) = None" "jget k (JBool b) = None" "jget k (JFloat x) = None"
  by (simp_all add: jget_def)

lemma json_as_simps [simp]:
  "as_str (JStr s) = Some s" "as_bool (JBool b) = Some b" "as_array (JArr xs) = Some xs" "as_object (JObj kvs) = Some kvs"
  by (simp_all add: as_str_def as_bool_def as_array_def as_object_def)

end
