(* ===== verification/Probes.thy ===== *)
theory Probes
  imports Worker_Env
begin

section \<open>Probes and lifecycle hooks\<close>

text \<open>
  \<^verbatim>\<open>prober/mod.rs\<close> (results, thresholds, the four kinds of probe), the three probe loops of \<^verbatim>\<open>pod_worker/mod.rs\<close>,
  \<^verbatim>\<open>probe_runner/mod.rs\<close> and \<^verbatim>\<open>lifecycle/mod.rs\<close>. What the network or the runtime answers to one attempt is an
  argument; a loop consumes a list of observations, one for each turn, and says what it did and
  whether it has returned.
\<close>

subsection \<open>Results and thresholds\<close>

datatype ProbeResult = PSuccess | PFailure string | PUnknown string

datatype ProbeType = Liveness | Readiness | Startup

fun ProbeType_to_string :: "ProbeType \<Rightarrow> string" where
  "ProbeType_to_string Liveness = ''liveness''"
| "ProbeType_to_string Readiness = ''readiness''"
| "ProbeType_to_string Startup = ''startup''"

record ProbeState =
  prs_consecutive_successes :: u32
  prs_consecutive_failures :: u32
  prs_last_result :: "ProbeResult option"

definition ProbeState_default :: ProbeState where
  "ProbeState_default = \<lparr>prs_consecutive_successes = 0, prs_consecutive_failures = 0, prs_last_result = None\<rparr>"

datatype ProbeDecision = DPass | DFail | DPending

definition evaluate_probe_result :: "ProbeResult \<Rightarrow> Probe \<Rightarrow> ProbeState \<Rightarrow> ProbeDecision \<times> ProbeState" where
  "evaluate_probe_result result probe st =
     (case result of
        PSuccess \<Rightarrow>
          (let st' = st\<lparr>prs_consecutive_failures := 0, prs_consecutive_successes := prs_consecutive_successes st + 1\<rparr>
           in (if pb_success_threshold probe \<le> prs_consecutive_successes st' then DPass else DPending, st'))
      | _ \<Rightarrow>
          (let st' = st\<lparr>prs_consecutive_successes := 0, prs_consecutive_failures := prs_consecutive_failures st + 1\<rparr>
           in (if pb_failure_threshold probe \<le> prs_consecutive_failures st' then DFail else DPending, st')))"

subsection \<open>One attempt\<close>

text \<open>An operation under a timeout: it did not finish in time, it failed, or it answered.\<close>

datatype 'r attempt = TimedOut | Refused string | Answered 'r

definition http_url :: "string \<Rightarrow> string \<Rightarrow> nat \<Rightarrow> string \<Rightarrow> string" where
  "http_url scheme host port path = to_lowercase scheme @ ''://'' @ host @ '':'' @ show_nat port @ path"

definition run_http_probe :: "nat attempt \<Rightarrow> nat \<Rightarrow> ProbeResult" where
  "run_http_probe answer timeout =
     (case answer of
        Answered status \<Rightarrow> if 200 \<le> status \<and> status \<le> 399 then PSuccess else PFailure (''HTTP probe returned status '' @ show_nat status)
      | Refused e \<Rightarrow> PFailure (''HTTP probe error: '' @ e)
      | TimedOut \<Rightarrow> PFailure (''HTTP probe timed out after '' @ show_nat timeout @ ''s''))"

definition run_tcp_probe :: "unit attempt \<Rightarrow> nat \<Rightarrow> ProbeResult" where
  "run_tcp_probe answer timeout =
     (case answer of
        Answered _ \<Rightarrow> PSuccess
      | Refused e \<Rightarrow> PFailure (''TCP connect failed: '' @ e)
      | TimedOut \<Rightarrow> PFailure (''TCP probe timed out after '' @ show_nat timeout @ ''s''))"

record ExecResult =
  er_stdout :: string
  er_stderr :: string
  er_exit_code :: int

definition run_exec_probe :: "ExecResult attempt \<Rightarrow> nat \<Rightarrow> ProbeResult" where
  "run_exec_probe answer timeout =
     (case answer of
        Answered r \<Rightarrow> if er_exit_code r = 0 then PSuccess else PFailure (''exit code '' @ show_int (er_exit_code r))
      | Refused e \<Rightarrow> PFailure (''exec error: '' @ e)
      | TimedOut \<Rightarrow> PFailure (''exec probe timed out after '' @ show_nat timeout @ ''s''))"

definition SERVING :: int where
  "SERVING = 1"

text \<open>A gRPC probe parses the endpoint, connects, and asks for the health status.\<close>

definition run_grpc_probe :: "string option \<Rightarrow> unit attempt \<Rightarrow> int attempt \<Rightarrow> nat \<Rightarrow> ProbeResult" where
  "run_grpc_probe endpoint_error connect check timeout =
     (case endpoint_error of
        Some e \<Rightarrow> PFailure (''gRPC endpoint: '' @ e)
      | None \<Rightarrow>
          (case connect of
             Refused e \<Rightarrow> PFailure (''gRPC connect failed: '' @ e)
           | TimedOut \<Rightarrow> PFailure (''gRPC probe timed out after '' @ show_nat timeout @ ''s'')
           | Answered _ \<Rightarrow>
               (case check of
                  Answered status \<Rightarrow>
                    if status = SERVING then PSuccess
                    else PFailure (''gRPC health returned non-serving status '' @ show_int status)
                | Refused e \<Rightarrow> PFailure (''gRPC health check failed: '' @ e)
                | TimedOut \<Rightarrow> PFailure ''gRPC health check timed out'')))"

text \<open>What the world answers to each kind of attempt, given what the code asks of it.\<close>

record Net =
  nt_http :: "string \<Rightarrow> nat attempt"
  nt_tcp :: "string \<Rightarrow> nat \<Rightarrow> unit attempt"
  nt_exec :: "ContainerID \<Rightarrow> string list \<Rightarrow> nat \<Rightarrow> ExecResult attempt"
  nt_endpoint :: "string \<Rightarrow> string option"
  nt_connect :: "string \<Rightarrow> unit attempt"
  nt_check :: "string \<Rightarrow> string \<Rightarrow> int attempt"

definition host_or :: "string option \<Rightarrow> string \<Rightarrow> string" where
  "host_or host d = (case host of Some h \<Rightarrow> h | None \<Rightarrow> d)"

fun run_probe :: "Net \<Rightarrow> ProbeHandler \<Rightarrow> ContainerID \<Rightarrow> string \<Rightarrow> nat \<Rightarrow> ProbeResult" where
  "run_probe net (PExec command) cid pod_ip timeout = run_exec_probe (nt_exec net cid command timeout) timeout"
| "run_probe net (PHttpGet path port host scheme) cid pod_ip timeout =
     run_http_probe (nt_http net (http_url scheme (host_or host pod_ip) port path)) timeout"
| "run_probe net (PTcpSocket port host) cid pod_ip timeout = run_tcp_probe (nt_tcp net (host_or host pod_ip) port) timeout"
| "run_probe net (PGrpc port service) cid pod_ip timeout =
     (let endpoint = ''http://'' @ pod_ip @ '':'' @ show_nat port in
      run_grpc_probe (nt_endpoint net endpoint) (nt_connect net endpoint) (nt_check net endpoint (host_or service [])) timeout)"

subsection \<open>The loops of the pod worker\<close>

datatype probe_action =
    ASleep nat
  | AKillingEvent
  | AStop nat
  | ASetDone bool
  | ASetReady bool
  | AForgetReady

text \<open>What one turn of a loop sees: the status of the container and, when it probes, the result.\<close>

type_synonym probe_obs = "RuntimeContainer option result \<times> ProbeResult"

definition is_running_obs :: "probe_obs \<Rightarrow> bool" where
  "is_running_obs ob = (case fst ob of Inr (Some s) \<Rightarrow> rtc_state s = RRunning | _ \<Rightarrow> False)"

text \<open>A turn returns whether the loop ends, what it did, and the state.\<close>

type_synonym probe_turn = "bool \<times> probe_action list \<times> ProbeState"

definition liveness_turn :: "Probe \<Rightarrow> probe_obs \<Rightarrow> ProbeState \<Rightarrow> probe_turn" where
  "liveness_turn probe ob st =
     (if \<not> is_running_obs ob then (True, [], st)
      else let (d, st') = evaluate_probe_result (snd ob) probe st in
           if d = DFail then (True, [AKillingEvent, AStop 0], st')
           else (False, [ASleep (pb_period_seconds probe)], st'))"

definition startup_turn :: "Probe \<Rightarrow> probe_obs \<Rightarrow> ProbeState \<Rightarrow> probe_turn" where
  "startup_turn probe ob st =
     (if \<not> is_running_obs ob then (True, [ASetDone False], st)
      else let (d, st') = evaluate_probe_result (snd ob) probe st in
           case d of
             DPass \<Rightarrow> (True, [ASetDone True], st')
           | DFail \<Rightarrow> (True, [AStop 0, ASetDone False], st')
           | DPending \<Rightarrow> (False, [ASleep (pb_period_seconds probe)], st'))"

definition readiness_turn :: "Probe \<Rightarrow> probe_obs \<Rightarrow> ProbeState \<Rightarrow> probe_turn" where
  "readiness_turn probe ob st =
     (let pause = ASleep (max (pb_period_seconds probe) 1) in
      if is_running_obs ob then
        (let (d, st') = evaluate_probe_result (snd ob) probe st in
         case d of
           DPass \<Rightarrow> (False, [ASetReady True, pause], st')
         | DFail \<Rightarrow> (False, [ASetReady False, pause], ProbeState_default)
         | DPending \<Rightarrow> (False, [pause], st'))
      else case fst ob of
        Inr None \<Rightarrow> (True, [AForgetReady], st)
      | Inr (Some s) \<Rightarrow>
          if rtc_state s = RExited then (True, [ASetReady False], st)
          else (False, [ASetReady False, pause], ProbeState_default)
      | Inl _ \<Rightarrow> (False, [ASetReady False, pause], ProbeState_default))"

text \<open>The loop over the observations: \<open>None\<close> when it returned, else the state it goes on with.\<close>

fun probe_loop :: "(probe_obs \<Rightarrow> ProbeState \<Rightarrow> probe_turn) \<Rightarrow> probe_obs list \<Rightarrow> ProbeState \<Rightarrow> probe_action list \<times> ProbeState option" where
  "probe_loop turn [] st = ([], Some st)"
| "probe_loop turn (ob # obs) st =
     (let (over, acts, st') = turn ob st in
      if over then (acts, None)
      else let (acts', r) = probe_loop turn obs st' in (acts @ acts', r))"

definition spawn_liveness_probe :: "Probe \<Rightarrow> probe_obs list \<Rightarrow> probe_action list \<times> ProbeState option" where
  "spawn_liveness_probe probe obs =
     (let (acts, r) = probe_loop (liveness_turn probe) obs ProbeState_default in (ASleep (pb_initial_delay_seconds probe) # acts, r))"

definition spawn_startup_probe :: "Probe \<Rightarrow> probe_obs list \<Rightarrow> probe_action list \<times> ProbeState option" where
  "spawn_startup_probe probe obs =
     (let (acts, r) = probe_loop (startup_turn probe) obs ProbeState_default in (ASleep (pb_initial_delay_seconds probe) # acts, r))"

definition spawn_readiness_probe :: "Probe \<Rightarrow> probe_obs list \<Rightarrow> probe_action list \<times> ProbeState option" where
  "spawn_readiness_probe probe obs =
     (let (acts, r) = probe_loop (readiness_turn probe) obs ProbeState_default
      in (ASetReady False # ASleep (pb_initial_delay_seconds probe) # acts, r))"

text \<open>The entry of the shared readiness map after some actions.\<close>

fun apply_ready :: "probe_action \<Rightarrow> bool option \<Rightarrow> bool option" where
  "apply_ready (ASetReady b) m = Some b"
| "apply_ready AForgetReady m = None"
| "apply_ready _ m = m"

definition ready_entry :: "probe_action list \<Rightarrow> bool option" where
  "ready_entry acts = fold apply_ready acts None"

subsection \<open>Runs of equal results\<close>

text \<open>Some \<open>t\<close> results in a row satisfy \<open>P\<close>; and how many at the end do.\<close>

definition has_run :: "('a \<Rightarrow> bool) \<Rightarrow> nat \<Rightarrow> 'a list \<Rightarrow> bool" where
  "has_run P t rs \<longleftrightarrow> (\<exists>ys xs zs. rs = ys @ xs @ zs \<and> length xs = t \<and> list_all P xs)"

definition at_end :: "('a \<Rightarrow> bool) \<Rightarrow> 'a list \<Rightarrow> nat" where
  "at_end P rs = length (takeWhile P (rev rs))"

definition failed :: "ProbeResult \<Rightarrow> bool" where
  "failed r \<longleftrightarrow> r \<noteq> PSuccess"

lemma has_run_Cons:
  "has_run P t (r # rs) \<longleftrightarrow> (t \<le> length (r # rs) \<and> list_all P (take t (r # rs))) \<or> has_run P t rs" (is "?L \<longleftrightarrow> ?A \<or> ?B")
proof
  assume ?L
  then obtain ys xs zs where w: "r # rs = ys @ xs @ zs" "length xs = t" "list_all P xs" unfolding has_run_def by blast
  show "?A \<or> ?B"
  proof (cases ys)
    case Nil
    then have "xs = take t (r # rs)" "t \<le> length (r # rs)" using w by auto
    with w(3) show ?thesis by simp
  next
    case (Cons y ys')
    with w show ?thesis unfolding has_run_def by auto
  qed
next
  assume "?A \<or> ?B"
  then show ?L
  proof
    assume ?A
    then have "r # rs = [] @ take t (r # rs) @ drop t (r # rs)" "length (take t (r # rs)) = t" by simp_all
    with \<open>?A\<close> show ?L unfolding has_run_def by blast
  next
    assume ?B
    then obtain ys xs zs where "rs = ys @ xs @ zs" "length xs = t" "list_all P xs" unfolding has_run_def by blast
    then have "r # rs = (r # ys) @ xs @ zs" by simp
    with \<open>length xs = t\<close> \<open>list_all P xs\<close> show ?L unfolding has_run_def by blast
  qed
qed

lemma has_run_Nil: "has_run P t [] \<longleftrightarrow> t = 0"
  by (auto simp: has_run_def)

lemma at_end_simps: "at_end P [] = 0" "at_end P (rs @ [r]) = (if P r then Suc (at_end P rs) else 0)"
  by (simp_all add: at_end_def)

lemma at_end_ge: "t \<le> at_end P rs \<longleftrightarrow> (\<exists>ys xs. rs = ys @ xs \<and> length xs = t \<and> list_all P xs)"
proof
  assume "t \<le> at_end P rs"
  then have "list_all P (take t (rev rs))" "t \<le> length rs"
    unfolding at_end_def using takeWhile_eq_take [of P "rev rs"] length_takeWhile_le [of P "rev rs"]
    by (auto simp: list_all_iff dest: set_takeWhileD) (metis in_set_takeD min.absorb1 set_takeWhileD take_take)
  then have "rs = rev (drop t (rev rs)) @ rev (take t (rev rs))" "length (rev (take t (rev rs))) = t" "list_all P (rev (take t (rev rs)))"
    by (simp_all flip: rev_append)
  then show "\<exists>ys xs. rs = ys @ xs \<and> length xs = t \<and> list_all P xs" by blast
next
  assume "\<exists>ys xs. rs = ys @ xs \<and> length xs = t \<and> list_all P xs"
  then obtain ys xs where "rs = ys @ xs" "length xs = t" "list_all P xs" by blast
  then show "t \<le> at_end P rs" by (simp add: at_end_def takeWhile_append list_all_iff)
qed

lemma has_run_snoc: "has_run P t (rs @ [r]) \<longleftrightarrow> t \<le> at_end P (rs @ [r]) \<or> has_run P t rs"
proof
  assume "has_run P t (rs @ [r])"
  then obtain ys xs zs where w: "rs @ [r] = ys @ xs @ zs" "length xs = t" "list_all P xs" unfolding has_run_def by blast
  show "t \<le> at_end P (rs @ [r]) \<or> has_run P t rs"
  proof (cases zs rule: rev_cases)
    case Nil
    with w have "\<exists>ys xs. rs @ [r] = ys @ xs \<and> length xs = t \<and> list_all P xs" by auto
    then show ?thesis using at_end_ge by blast
  next
    case (snoc zs' z)
    with w have "rs = ys @ xs @ zs'" by simp
    with w show ?thesis unfolding has_run_def by blast
  qed
next
  assume "t \<le> at_end P (rs @ [r]) \<or> has_run P t rs"
  then show "has_run P t (rs @ [r])"
  proof
    assume "t \<le> at_end P (rs @ [r])"
    then show ?thesis unfolding at_end_ge has_run_def by (metis append_Nil2)
  next
    assume "has_run P t rs"
    then show ?thesis unfolding has_run_def by (metis append.assoc)
  qed
qed

subsection \<open>The liveness loop\<close>

lemma evaluate_simps:
  "evaluate_probe_result PSuccess probe st =
     (if pb_success_threshold probe \<le> prs_consecutive_successes st + 1 then DPass else DPending,
      st\<lparr>prs_consecutive_failures := 0, prs_consecutive_successes := prs_consecutive_successes st + 1\<rparr>)"
  "failed r \<Longrightarrow> evaluate_probe_result r probe st =
     (if pb_failure_threshold probe \<le> prs_consecutive_failures st + 1 then DFail else DPending,
      st\<lparr>prs_consecutive_successes := 0, prs_consecutive_failures := prs_consecutive_failures st + 1\<rparr>)"
  by (simp_all add: evaluate_probe_result_def failed_def split: ProbeResult.split)

lemma next_count:
  fixes c t :: u32
  assumes "c < t"
  shows "unat (c + 1) = Suc (unat c)" "t \<le> c + 1 \<longleftrightarrow> unat t \<le> Suc (unat c)"
proof -
  have "unat c < unat t" "unat t < 2 ^ 32" using assms unsigned_less [of t] by (simp_all add: word_less_nat_alt)
  then show e: "unat (c + 1) = Suc (unat c)" by (simp add: unat_word_ariths)
  show "t \<le> c + 1 \<longleftrightarrow> unat t \<le> Suc (unat c)" by (simp add: word_le_nat_alt e)
qed

lemma liveness_loop_kills:
  assumes "list_all is_running_obs obs" "prs_consecutive_failures st < pb_failure_threshold probe"
  shows "snd (probe_loop (liveness_turn probe) obs st) = None \<longleftrightarrow>
    (unat (pb_failure_threshold probe) - unat (prs_consecutive_failures st) \<le> length obs \<and>
     list_all failed (take (unat (pb_failure_threshold probe) - unat (prs_consecutive_failures st)) (map snd obs))) \<or>
    has_run failed (unat (pb_failure_threshold probe)) (map snd obs)"
  using assms
proof (induction obs arbitrary: st)
  case Nil
  then show ?case by (simp add: has_run_Nil word_less_nat_alt)
next
  case (Cons ob obs)
  let ?t = "unat (pb_failure_threshold probe)" and ?c = "unat (prs_consecutive_failures st)"
  let ?rs = "map snd obs"
  have ct: "?c < ?t" using Cons.prems(2) by (simp add: word_less_nat_alt)
  have running: "is_running_obs ob" "list_all is_running_obs obs" using Cons.prems(1) by simp_all
  show ?case
  proof (cases "failed (snd ob)")
    case False
    let ?st = "st\<lparr>prs_consecutive_failures := 0, prs_consecutive_successes := prs_consecutive_successes st + 1\<rparr>"
    have r: "snd ob = PSuccess" using False by (simp add: failed_def)
    have "probe_loop (liveness_turn probe) (ob # obs) st =
        (let (a, x) = probe_loop (liveness_turn probe) obs ?st in (ASleep (pb_period_seconds probe) # a, x))"
      using running r by (simp add: liveness_turn_def evaluate_simps)
    moreover have "snd (probe_loop (liveness_turn probe) obs ?st) = None \<longleftrightarrow>
        (?t - 0 \<le> length obs \<and> list_all failed (take (?t - 0) ?rs)) \<or> has_run failed ?t ?rs"
      using Cons.IH [of ?st] running Cons.prems(2) by (simp add: word_less_nat_alt)
    moreover have "?t \<le> length obs \<and> list_all failed (take ?t ?rs) \<Longrightarrow> has_run failed ?t ?rs"
      by (cases ?rs) (use ct in \<open>auto simp: has_run_Cons\<close>)
    moreover have "has_run failed ?t (snd ob # ?rs) \<longleftrightarrow> has_run failed ?t ?rs"
      using ct False by (auto simp: has_run_Cons take_Cons')
    ultimately show ?thesis using ct False by (auto simp: take_Cons' split: prod.splits)
  next
    case True
    let ?st = "st\<lparr>prs_consecutive_successes := 0, prs_consecutive_failures := prs_consecutive_failures st + 1\<rparr>"
    note n = next_count [OF Cons.prems(2)]
    show ?thesis
    proof (cases "?t \<le> Suc ?c")
      case stop: True
      then have "snd (probe_loop (liveness_turn probe) (ob # obs) st) = None"
        using running True by (simp add: liveness_turn_def evaluate_simps n)
      moreover have "?t - ?c = 1" using stop ct by simp
      ultimately show ?thesis using True by simp
    next
      case False
      have "probe_loop (liveness_turn probe) (ob # obs) st =
          (let (a, x) = probe_loop (liveness_turn probe) obs ?st in (ASleep (pb_period_seconds probe) # a, x))"
        using running True False by (simp add: liveness_turn_def evaluate_simps n)
      moreover have "snd (probe_loop (liveness_turn probe) obs ?st) = None \<longleftrightarrow>
          (?t - Suc ?c \<le> length obs \<and> list_all failed (take (?t - Suc ?c) ?rs)) \<or> has_run failed ?t ?rs"
        using Cons.IH [of ?st] running False by (simp add: word_less_nat_alt n)
      moreover have "?t - ?c = Suc (?t - Suc ?c)" using ct by simp
      moreover have "list_all failed (take (?t - Suc ?c) ?rs)" if "list_all failed (take ?t (snd ob # ?rs))"
      proof -
        have e: "take (Suc (?t - Suc ?c)) (take ?t (snd ob # ?rs)) = take (Suc (?t - Suc ?c)) (snd ob # ?rs)"
          using ct by (simp only: take_take) (simp add: min_absorb1)
        have "list_all failed (take (Suc (?t - Suc ?c)) (take ?t (snd ob # ?rs)))"
          using that unfolding list_all_iff by (blast dest: in_set_takeD)
        then show ?thesis unfolding e by simp
      qed
      ultimately show ?thesis using True by (auto simp: has_run_Cons split: prod.splits)
    qed
  qed
qed

lemma liveness_stop_iff_returned:
  assumes "list_all is_running_obs obs"
  shows "AStop 0 \<in> set (fst (probe_loop (liveness_turn probe) obs st)) \<longleftrightarrow> snd (probe_loop (liveness_turn probe) obs st) = None"
  using assms by (induction obs arbitrary: st) (auto simp: liveness_turn_def case_prod_unfold Let_def)

text \<open>C32: Liveness. While the runtime reports the container as running, the liveness loop stops the container, and
  returns, exactly when somewhere in the results as many in a row as the failure threshold are not successes.\<close>

theorem liveness_probe_stops_after_threshold:
  assumes "list_all is_running_obs obs" "0 < pb_failure_threshold probe"
  shows "(AStop 0 \<in> set (fst (spawn_liveness_probe probe obs)) \<longleftrightarrow> has_run failed (unat (pb_failure_threshold probe)) (map snd obs)) \<and>
    (snd (spawn_liveness_probe probe obs) = None \<longleftrightarrow> has_run failed (unat (pb_failure_threshold probe)) (map snd obs))"
proof -
  let ?t = "unat (pb_failure_threshold probe)"
  have t: "0 < ?t" using assms(2) by (simp add: word_less_nat_alt)
  have "?t \<le> length obs \<and> list_all failed (take ?t (map snd obs)) \<Longrightarrow> has_run failed ?t (map snd obs)"
    by (cases obs) (use t in \<open>auto simp: has_run_Cons\<close>)
  then have "snd (probe_loop (liveness_turn probe) obs ProbeState_default) = None \<longleftrightarrow> has_run failed ?t (map snd obs)"
    using liveness_loop_kills [OF assms(1), of ProbeState_default probe] assms(2) by (auto simp: ProbeState_default_def)
  then show ?thesis using liveness_stop_iff_returned [OF assms(1), of probe ProbeState_default]
    by (simp add: spawn_liveness_probe_def case_prod_unfold Let_def)
qed

definition demo_probe :: Probe where
  "demo_probe = \<lparr>pb_handler = PTcpSocket 80 None, pb_initial_delay_seconds = 0, pb_period_seconds = 10, pb_timeout_seconds = 1,
     pb_success_threshold = 1, pb_failure_threshold = 2\<rparr>"

definition demo_running :: RuntimeContainer where
  "demo_running = \<lparr>rtc_id = ''c'', rtc_pod_uid = ''u'', rtc_name = ''main'', rtc_pid = Some 1, rtc_image = ''i'', rtc_image_ref = ''r'',
     rtc_state = RRunning, rtc_created_at = 0, rtc_started_at = Some 0, rtc_finished_at = None, rtc_exit_code = None,
     rtc_exit_reason = None, rtc_labels = [], rtc_attempt = 0\<rparr>"

definition demo_obs :: "ProbeResult list \<Rightarrow> probe_obs list" where
  "demo_obs rs = map (Pair (Inr (Some demo_running))) rs"

lemma demo_obs_simps: "list_all is_running_obs (demo_obs rs)" "map snd (demo_obs rs) = rs" "length (demo_obs rs) = length rs"
  by (induction rs) (simp_all add: demo_obs_def is_running_obs_def demo_running_def)

theorem liveness_probe_stops_after_threshold_witness:
  "AStop 0 \<in> set (fst (spawn_liveness_probe demo_probe (demo_obs [PFailure [], PSuccess, PFailure [], PUnknown []]))) \<and>
   AStop 0 \<notin> set (fst (spawn_liveness_probe demo_probe (demo_obs [PFailure [], PSuccess, PFailure []])))"
proof -
  have pos: "0 < pb_failure_threshold demo_probe" by (simp add: demo_probe_def)
  note p = liveness_probe_stops_after_threshold [OF demo_obs_simps(1) pos, unfolded demo_obs_simps(2), THEN conjunct1]
  show ?thesis unfolding p by (simp add: demo_probe_def has_run_Cons has_run_Nil failed_def)
qed

subsection \<open>The startup loop\<close>

lemma startup_loop_ends:
  assumes "unat (pb_success_threshold probe) \<le> 1" "prs_consecutive_successes st = 0"
    "unat (prs_consecutive_failures st) < max 1 (unat (pb_failure_threshold probe))"
    "max 1 (unat (pb_failure_threshold probe)) \<le> length obs + unat (prs_consecutive_failures st)"
  shows "snd (probe_loop (startup_turn probe) obs st) = None \<and>
    (\<exists>b. ASetDone b \<in> set (fst (probe_loop (startup_turn probe) obs st))) \<and>
    (ASetDone True \<in> set (fst (probe_loop (startup_turn probe) obs st)) \<longrightarrow> (\<exists>ob \<in> set obs. is_running_obs ob \<and> snd ob = PSuccess))"
  using assms
proof (induction obs arbitrary: st)
  case (Cons ob obs)
  let ?t = "unat (pb_failure_threshold probe)" and ?c = "unat (prs_consecutive_failures st)"
  consider (gone) "\<not> is_running_obs ob" | (passed) "is_running_obs ob" "snd ob = PSuccess" | (failing) "is_running_obs ob" "failed (snd ob)"
    by (auto simp: failed_def)
  then show ?case
  proof cases
    case gone
    then show ?thesis by (auto simp: startup_turn_def)
  next
    case passed
    have "pb_success_threshold probe \<le> 1" using Cons.prems(1) by (simp add: word_le_nat_alt)
    then show ?thesis using passed Cons.prems(2) by (auto simp: startup_turn_def evaluate_simps)
  next
    case failing
    have "?t < 2 ^ 32" using unsigned_less [of "pb_failure_threshold probe"] by simp
    then have n: "unat (prs_consecutive_failures st + 1) = Suc ?c" using Cons.prems(3) by (simp add: unat_word_ariths)
    show ?thesis
    proof (cases "?t \<le> Suc ?c")
      case True
      then show ?thesis using failing n by (auto simp: startup_turn_def evaluate_simps word_le_nat_alt)
    next
      case False
      let ?st = "st\<lparr>prs_consecutive_successes := 0, prs_consecutive_failures := prs_consecutive_failures st + 1\<rparr>"
      have "probe_loop (startup_turn probe) (ob # obs) st =
          (let (a, x) = probe_loop (startup_turn probe) obs ?st in (ASleep (pb_period_seconds probe) # a, x))"
        using failing False n by (simp add: startup_turn_def evaluate_simps word_le_nat_alt)
      moreover note Cons.IH [of ?st]
      ultimately show ?thesis using Cons.prems False n by (auto simp: case_prod_unfold Let_def)
    qed
  qed
qed auto

text \<open>C33: The startup loop ends. With the success threshold the API allows for startup probes (one), the loop returns
  within as many turns as the failure threshold (one at least), whatever it observes; it has then recorded
  whether the container is up, and recorded success only after a probe of the running container succeeded.\<close>

theorem startup_probe_ends:
  assumes "pb_success_threshold probe \<le> 1" "max 1 (unat (pb_failure_threshold probe)) \<le> length obs"
  shows "snd (spawn_startup_probe probe obs) = None \<and> (\<exists>b. ASetDone b \<in> set (fst (spawn_startup_probe probe obs))) \<and>
    (ASetDone True \<in> set (fst (spawn_startup_probe probe obs)) \<longrightarrow> (\<exists>ob \<in> set obs. is_running_obs ob \<and> snd ob = PSuccess))"
  using startup_loop_ends [of probe ProbeState_default obs] assms
  by (simp add: spawn_startup_probe_def ProbeState_default_def word_le_nat_alt case_prod_unfold Let_def)

theorem startup_probe_ends_witness:
  "snd (spawn_startup_probe demo_probe (demo_obs [PFailure [], PFailure []])) = None \<and>
   ASetDone True \<notin> set (fst (spawn_startup_probe demo_probe (demo_obs [PFailure [], PFailure []])))"
proof -
  have "pb_success_threshold demo_probe \<le> 1" "max 1 (unat (pb_failure_threshold demo_probe)) \<le> length (demo_obs [PFailure [], PFailure []])"
    by (simp_all add: demo_probe_def demo_obs_simps)
  from startup_probe_ends [OF this] show ?thesis by (auto simp: demo_obs_def)
qed

text \<open>With a higher success threshold the loop may go on for ever: alternating results are never decided.\<close>

lemma alternating_startup_never_ends:
  assumes "pb_success_threshold probe = 2" "pb_failure_threshold probe = 2" "list_all is_running_obs obs"
    "map snd obs = concat (replicate n [PFailure [], PSuccess])"
  shows "snd (spawn_startup_probe probe obs) \<noteq> None"
proof -
  have "snd (probe_loop (startup_turn probe) obs st) \<noteq> None"
    if "prs_consecutive_failures st = 0" "map snd obs = concat (replicate n [PFailure [], PSuccess])" "list_all is_running_obs obs" for st obs n
    using that
  proof (induction n arbitrary: st obs)
    case (Suc n)
    then obtain a b obs' where o: "obs = a # b # obs'" "snd a = PFailure []" "snd b = PSuccess" "map snd obs' = concat (replicate n [PFailure [], PSuccess])"
      by (auto simp: Cons_eq_map_conv map_eq_Cons_conv)
    have run: "is_running_obs a" "is_running_obs b" "list_all is_running_obs obs'" using Suc.prems(3) o(1) by simp_all
    show ?case using Suc.IH [of _ obs'] o run Suc.prems(1)
      by (simp add: startup_turn_def evaluate_simps failed_def assms(1,2) case_prod_unfold Let_def word_le_nat_alt)
  qed simp
  from this [of ProbeState_default obs n] assms show ?thesis
    by (simp add: spawn_startup_probe_def case_prod_unfold Let_def ProbeState_default_def)
qed

subsection \<open>The readiness loop\<close>

text \<open>Ready by the results: some success-threshold successes in a row, and since then never failure-threshold failures in a row.\<close>

definition ready_by :: "nat \<Rightarrow> nat \<Rightarrow> ProbeResult list \<Rightarrow> bool" where
  "ready_by s f rs \<longleftrightarrow>
     (\<exists>ys xs zs. rs = ys @ xs @ zs \<and> length xs = s \<and> list_all (\<lambda>r. r = PSuccess) xs \<and> \<not> has_run failed f zs)"

lemma ready_by_success:
  assumes "0 < s" "0 < f"
  shows "ready_by s f (rs @ [PSuccess]) \<longleftrightarrow> s \<le> at_end (\<lambda>r. r = PSuccess) (rs @ [PSuccess]) \<or> ready_by s f rs" (is "?L \<longleftrightarrow> ?A \<or> ?B")
proof
  assume ?L
  then obtain ys xs zs where w: "rs @ [PSuccess] = ys @ xs @ zs" "length xs = s" "list_all (\<lambda>r. r = PSuccess) xs" "\<not> has_run failed f zs"
    unfolding ready_by_def by blast
  show "?A \<or> ?B"
  proof (cases zs rule: rev_cases)
    case Nil
    with w show ?thesis by (auto simp: at_end_ge)
  next
    case (snoc zs' z)
    then have "rs = ys @ xs @ zs'" "\<not> has_run failed f zs'" using w by (auto simp: has_run_snoc)
    with w show ?thesis unfolding ready_by_def by blast
  qed
next
  assume "?A \<or> ?B"
  then show ?L
  proof
    assume ?A
    then obtain ys xs where "rs @ [PSuccess] = ys @ xs" "length xs = s" "list_all (\<lambda>r. r = PSuccess) xs" by (auto simp: at_end_ge)
    then have "rs @ [PSuccess] = ys @ xs @ []" by simp
    moreover have "\<not> has_run failed f []" using assms(2) by (simp add: has_run_Nil)
    ultimately show ?L unfolding ready_by_def using \<open>length xs = s\<close> \<open>list_all (\<lambda>r. r = PSuccess) xs\<close> by blast
  next
    assume ?B
    then obtain ys xs zs where w: "rs = ys @ xs @ zs" "length xs = s" "list_all (\<lambda>r. r = PSuccess) xs" "\<not> has_run failed f zs"
      unfolding ready_by_def by blast
    have "\<not> has_run failed f (zs @ [PSuccess])" using w(4) assms(2) by (simp add: has_run_snoc at_end_simps failed_def)
    moreover have "rs @ [PSuccess] = ys @ xs @ (zs @ [PSuccess])" using w(1) by simp
    ultimately show ?L unfolding ready_by_def using w(2,3) by blast
  qed
qed

lemma ready_by_failure:
  assumes "0 < s" "failed r"
  shows "ready_by s f (rs @ [r]) \<longleftrightarrow> at_end failed (rs @ [r]) < f \<and> ready_by s f rs" (is "?L \<longleftrightarrow> ?A \<and> ?B")
proof -
  have same: "at_end failed (ys @ xs @ zs) = at_end failed zs" if "length xs = s" "list_all (\<lambda>r. r = PSuccess) xs" for ys xs zs
  proof -
    obtain xs' x where x: "xs = xs' @ [x]" using \<open>length xs = s\<close> assms(1) by (cases xs rule: rev_cases) auto
    then have "\<not> failed x" using that(2) by (simp add: failed_def)
    then show ?thesis by (simp add: at_end_def x takeWhile_tail)
  qed
  show ?thesis
  proof
    assume ?L
    then obtain ys xs zs where w: "rs @ [r] = ys @ xs @ zs" "length xs = s" "list_all (\<lambda>r. r = PSuccess) xs" "\<not> has_run failed f zs"
      unfolding ready_by_def by blast
    have "zs \<noteq> []"
    proof
      assume "zs = []"
      then have "last xs = r" "xs \<noteq> []" using w(1,2) assms(1) by (auto simp: append_eq_append_conv2 dest: arg_cong [of _ _ last])
      then have "r = PSuccess" using w(3) by (auto simp: list_all_iff)
      with assms(2) show False by (simp add: failed_def)
    qed
    then obtain zs' where z: "zs = zs' @ [r]" "rs = ys @ xs @ zs'" using w(1) by (cases zs rule: rev_cases) auto
    have "at_end failed (rs @ [r]) = at_end failed zs" using same [OF w(2,3), of ys zs] w(1) by simp
    moreover have "at_end failed zs < f" "\<not> has_run failed f zs'" using w(4) unfolding z by (simp_all add: has_run_snoc)
    ultimately show "?A \<and> ?B" unfolding ready_by_def using w(2,3) z(2) by auto
  next
    assume AB: "?A \<and> ?B"
    then obtain ys xs zs where w: "rs = ys @ xs @ zs" "length xs = s" "list_all (\<lambda>r. r = PSuccess) xs" "\<not> has_run failed f zs"
      unfolding ready_by_def by blast
    have e: "rs @ [r] = ys @ xs @ (zs @ [r])" using w(1) by simp
    have "\<not> has_run failed f (zs @ [r])" using w(4) AB same [OF w(2,3), of ys "zs @ [r]"] unfolding e by (simp add: has_run_snoc)
    with e w(2,3) show ?L unfolding ready_by_def by blast
  qed
qed

lemma probe_loop_snoc:
  "probe_loop turn (obs @ [ob]) st =
     (case probe_loop turn obs st of
        (acts, None) \<Rightarrow> (acts, None)
      | (acts, Some st') \<Rightarrow> (let (over, acts', st'') = turn ob st' in (acts @ acts', if over then None else Some st'')))"
  by (induction obs arbitrary: st) (auto simp: case_prod_unfold Let_def split: option.split)

lemma readiness_turn_running:
  assumes "is_running_obs ob"
  shows "snd ob = PSuccess \<Longrightarrow> readiness_turn probe ob st =
      (False, (if pb_success_threshold probe \<le> prs_consecutive_successes st + 1 then [ASetReady True] else []) @
         [ASleep (max (pb_period_seconds probe) 1)],
       st\<lparr>prs_consecutive_failures := 0, prs_consecutive_successes := prs_consecutive_successes st + 1\<rparr>)"
    and "failed (snd ob) \<Longrightarrow> readiness_turn probe ob st =
      (False, (if pb_failure_threshold probe \<le> prs_consecutive_failures st + 1 then [ASetReady False] else []) @
         [ASleep (max (pb_period_seconds probe) 1)],
       if pb_failure_threshold probe \<le> prs_consecutive_failures st + 1 then ProbeState_default
       else st\<lparr>prs_consecutive_successes := 0, prs_consecutive_failures := prs_consecutive_failures st + 1\<rparr>)"
  using assms by (simp_all add: readiness_turn_def evaluate_simps Let_def)

lemma at_end_le: "at_end P rs \<le> length rs"
  unfolding at_end_def by (metis length_rev length_takeWhile_le)

lemma readiness_loop:
  assumes "list_all is_running_obs obs" "0 < pb_success_threshold probe" "0 < pb_failure_threshold probe" "length obs < 2 ^ 32"
  defines "s \<equiv> unat (pb_success_threshold probe)" and "f \<equiv> unat (pb_failure_threshold probe)"
  shows "\<exists>acts st. probe_loop (readiness_turn probe) obs ProbeState_default = (acts, Some st) \<and>
    unat (prs_consecutive_successes st) = at_end (\<lambda>r. r = PSuccess) (map snd obs) \<and>
    unat (prs_consecutive_failures st) = at_end failed (map snd obs) mod f \<and>
    fold apply_ready acts (Some False) = Some (ready_by s f (map snd obs))"
proof -
  have pos: "0 < s" "0 < f" using assms(2,3) by (simp_all add: s_def f_def word_less_nat_alt)
  show ?thesis using assms(1,4)
  proof (induction obs rule: rev_induct)
    case Nil
    have "\<not> ready_by s f []" using pos by (auto simp: ready_by_def)
    then show ?case by (simp add: ProbeState_default_def at_end_simps)
  next
    case (snoc ob obs)
    let ?rs = "map snd obs" and ?r = "snd ob"
    obtain acts st where IH: "probe_loop (readiness_turn probe) obs ProbeState_default = (acts, Some st)"
        "unat (prs_consecutive_successes st) = at_end (\<lambda>r. r = PSuccess) ?rs"
        "unat (prs_consecutive_failures st) = at_end failed ?rs mod f"
        "fold apply_ready acts (Some False) = Some (ready_by s f ?rs)"
      using snoc by auto
    have run: "is_running_obs ob" using snoc.prems by simp
    show ?case
    proof (cases "failed ?r")
      case False
      then have r: "?r = PSuccess" by (simp add: failed_def)
      have "at_end (\<lambda>r. r = PSuccess) ?rs \<le> length obs" using at_end_le [of _ ?rs] by simp
      then have c: "unat (prs_consecutive_successes st + 1) = Suc (at_end (\<lambda>r. r = PSuccess) ?rs)"
        using snoc.prems(2) IH(2) by (simp add: unat_word_ariths)
      then have "pb_success_threshold probe \<le> prs_consecutive_successes st + 1 \<longleftrightarrow> s \<le> at_end (\<lambda>r. r = PSuccess) (?rs @ [PSuccess])"
        by (simp add: word_le_nat_alt s_def at_end_simps)
      moreover have "\<not> failed PSuccess" by (simp add: failed_def)
      ultimately show ?thesis using IH run c r ready_by_success [OF pos, of ?rs]
        by (simp add: probe_loop_snoc readiness_turn_running at_end_simps)
    next
      case True
      let ?k = "at_end failed ?rs"
      have "f < 2 ^ 32" unfolding f_def using unsigned_less [of "pb_failure_threshold probe"] by simp
      moreover have "?k mod f < f" using pos(2) by simp
      ultimately have "Suc (?k mod f) < 2 ^ 32 \<or> Suc (?k mod f) = f" by linarith
      then have c: "unat (prs_consecutive_failures st + 1) = Suc (?k mod f)"
        using IH(3) \<open>?k mod f < f\<close> \<open>f < 2 ^ 32\<close> by (simp add: unat_word_ariths)
      have dec: "pb_failure_threshold probe \<le> prs_consecutive_failures st + 1 \<longleftrightarrow> Suc (?k mod f) = f"
        using c \<open>?k mod f < f\<close> by (auto simp: word_le_nat_alt f_def [symmetric])
      have r: "?r \<noteq> PSuccess" using True by (simp add: failed_def)
      have e: "at_end failed (?rs @ [?r]) = Suc ?k" "at_end (\<lambda>r. r = PSuccess) (?rs @ [?r]) = 0" using True r by (simp_all add: at_end_simps)
      have dead: "\<not> ready_by s f ?rs" if "f \<le> ?k"
      proof (cases obs rule: rev_cases)
        case Nil
        then show ?thesis using that pos by (simp add: at_end_simps)
      next
        case snoc: (snoc obs' ob')
        then have "failed (snd ob')" using that pos by (auto simp: at_end_simps split: if_splits)
        then show ?thesis using ready_by_failure [OF pos(1), of "snd ob'" f "map snd obs'"] that snoc by simp
      qed
      show ?thesis
      proof (cases "Suc (?k mod f) = f")
        case stop: True
        then have "Suc ?k mod f = 0" by (simp add: mod_Suc)
        then have "f \<le> Suc ?k" by (metis dvd_imp_le mod_0_imp_dvd zero_less_Suc)
        then have "\<not> ready_by s f (?rs @ [?r])" using ready_by_failure [OF pos(1) True, of f ?rs] e by simp
        then show ?thesis using IH run dec stop True \<open>Suc ?k mod f = 0\<close> e
          by (simp add: probe_loop_snoc readiness_turn_running ProbeState_default_def)
      next
        case False
        then have m: "Suc ?k mod f = Suc (?k mod f)" by (simp add: mod_Suc)
        have "ready_by s f (?rs @ [?r]) \<longleftrightarrow> ready_by s f ?rs"
        proof -
          have "Suc ?k < f" if "ready_by s f ?rs"
          proof -
            have "?k < f" using dead that by (meson not_le)
            then show ?thesis using False by simp
          qed
          then show ?thesis using ready_by_failure [OF pos(1) True, of f ?rs] e by auto
        qed
        then show ?thesis using IH run dec False True c e m
          by (simp add: probe_loop_snoc readiness_turn_running)
      qed
    qed
  qed
qed

text \<open>Readiness. While the container runs, the readiness the status update reads is exactly: at some point as many
  results in a row as the success threshold were successes, and since then never as many in a row as the
  failure threshold were failures. (Beyond four billion results the counters wrap.)\<close>

theorem readiness_follows_thresholds:
  assumes "list_all is_running_obs obs" "0 < pb_success_threshold probe" "0 < pb_failure_threshold probe" "length obs < 2 ^ 32"
  shows "ready_entry (fst (spawn_readiness_probe probe obs)) =
    Some (ready_by (unat (pb_success_threshold probe)) (unat (pb_failure_threshold probe)) (map snd obs))"
  using readiness_loop [OF assms] by (auto simp: spawn_readiness_probe_def ready_entry_def)

theorem readiness_follows_thresholds_witness:
  "ready_entry (fst (spawn_readiness_probe demo_probe (demo_obs [PSuccess, PFailure []]))) = Some True \<and>
   ready_entry (fst (spawn_readiness_probe demo_probe (demo_obs [PSuccess, PFailure [], PFailure []]))) = Some False"
proof -
  have t: "0 < pb_success_threshold demo_probe" "0 < pb_failure_threshold demo_probe" by (simp_all add: demo_probe_def)
  have "ready_by (unat (pb_success_threshold demo_probe)) (unat (pb_failure_threshold demo_probe)) [PSuccess, PFailure []]"
    unfolding ready_by_def by (rule exI [of _ "[]"], rule exI [of _ "[PSuccess]"], rule exI [of _ "[PFailure []]"])
      (simp add: demo_probe_def has_run_Cons has_run_Nil)
  moreover have "\<not> ready_by 1 2 ([PSuccess, PFailure []] @ [PFailure []])"
    by (subst ready_by_failure) (simp_all add: failed_def at_end_def)
  ultimately show ?thesis
    using readiness_follows_thresholds [OF demo_obs_simps(1) t, of "[PSuccess, PFailure []]"]
      readiness_follows_thresholds [OF demo_obs_simps(1) t, of "[PSuccess, PFailure [], PFailure []]"]
    by (simp add: demo_obs_simps demo_probe_def)
qed

end
