(* ===== verification/Spdy.thy ===== *)
theory Spdy
  imports Sandbox_Config Json Probes "HOL-Library.Monad_Syntax"
begin

unbundle bit_operations_syntax

section \<open>Frames of the streaming protocols\<close>

text \<open>
  The framing of \<^verbatim>\<open>kubelet-app/src/streaming/mod.rs\<close>: the ten-byte frames of \<^verbatim>\<open>SpdyFramer\<close>, the frames of SPDY/3.1 as they are read
  from and written to a connection, blocks of names and values, and the one-byte framing of a web socket. Bytes are words of
  eight bits. A text is the list of its bytes in UTF-8. A reader is the list of bytes it will yield before its end.
\<close>

subsection \<open>Numbers as bytes\<close>

definition to_be_bytes :: "u32 \<Rightarrow> u8 list" where
  "to_be_bytes w = [ucast (drop_bit 24 w), ucast (drop_bit 16 w), ucast (drop_bit 8 w), ucast w]"

definition from_be_bytes :: "u8 \<Rightarrow> u8 \<Rightarrow> u8 \<Rightarrow> u8 \<Rightarrow> u32" where
  "from_be_bytes a b c d = push_bit 24 (ucast a) OR push_bit 16 (ucast b) OR push_bit 8 (ucast c) OR ucast d"

definition as_bytes :: "string \<Rightarrow> u8 list" where
  "as_bytes s = map (\<lambda>c. word_of_nat (of_char c)) s"

definition bytes_text :: "u8 list \<Rightarrow> string" where
  "bytes_text bs = map (\<lambda>b. char_of (unat b)) bs"

lemma length_to_be_bytes [simp]: "length (to_be_bytes w) = 4"
  by (simp add: to_be_bytes_def)

lemma from_to_be_bytes:
  "from_be_bytes (ucast (drop_bit 24 w)) (ucast (drop_bit 16 w)) (ucast (drop_bit 8 w)) (ucast w) = w"
proof (rule bit_word_eqI)
  fix n :: nat
  assume "n < LENGTH(32)"
  then have n: "n < 32" by simp
  then consider "n < 8" | "8 \<le> n" "n < 16" | "16 \<le> n" "n < 24" | "24 \<le> n" by linarith
  then show "bit (from_be_bytes (ucast (drop_bit 24 w)) (ucast (drop_bit 16 w)) (ucast (drop_bit 8 w)) (ucast w)) n = bit w n"
    using n by cases (auto simp: from_be_bytes_def bit_simps)
qed

lemma length_as_bytes [simp]: "length (as_bytes s) = length s"
  by (simp add: as_bytes_def)

lemma as_bytes_Nil [simp]: "as_bytes [] = []" "as_bytes s = [] \<longleftrightarrow> s = []"
  by (simp_all add: as_bytes_def)

lemma bytes_text_as_bytes [simp]: "bytes_text (as_bytes s) = s"
proof -
  have "char_of (unat (word_of_nat (of_char c) :: u8)) = c" for c :: char
    by (simp add: unat_of_nat take_bit_eq_mod)
  then show ?thesis by (simp add: bytes_text_def as_bytes_def comp_def)
qed

definition read_exact :: "nat \<Rightarrow> u8 list \<Rightarrow> (u8 list \<times> u8 list) option" where
  "read_exact n bs = (if n \<le> length bs then Some (take n bs, drop n bs) else None)"

lemma read_exact_append [simp]: "n = length xs \<Longrightarrow> read_exact n (xs @ ys) = Some (xs, ys)"
  by (simp add: read_exact_def)

fun u32_at :: "u8 list \<Rightarrow> u32" where
  "u32_at (a # b # c # d # bs) = from_be_bytes a b c d"
| "u32_at bs = 0"

lemma u32_at_to_be_bytes [simp]: "u32_at (to_be_bytes w @ bs) = w" "u32_at (to_be_bytes w) = w"
  by (simp_all add: to_be_bytes_def from_to_be_bytes)

subsection \<open>Ten-byte frames\<close>

datatype SpdyFrameType = SynStream | SynReply | RstStream | DataFrame

record SpdyFrame =
  sf_frame_type :: SpdyFrameType
  sf_stream_id :: u32
  sf_flags :: u8
  sf_payload :: "u8 list"

fun frame_type_code :: "SpdyFrameType \<Rightarrow> u8" where
  "frame_type_code SynStream = 1"
| "frame_type_code SynReply = 2"
| "frame_type_code RstStream = 3"
| "frame_type_code DataFrame = 0x80"

definition SpdyFramer_encode :: "SpdyFrame \<Rightarrow> u8 list" where
  "SpdyFramer_encode f =
     [frame_type_code (sf_frame_type f)] @ to_be_bytes (sf_stream_id f) @ [sf_flags f] @
     to_be_bytes (word_of_nat (length (sf_payload f))) @ sf_payload f"

definition frame_type_of :: "u8 \<Rightarrow> SpdyFrameType option" where
  "frame_type_of b =
     (if b = 1 then Some SynStream else if b = 2 then Some SynReply else if b = 3 then Some RstStream
      else if b = 0x80 then Some DataFrame else None)"

definition SpdyFramer_decode :: "u8 list \<Rightarrow> SpdyFrame option" where
  "SpdyFramer_decode bs =
     (if length bs < 10 then None
      else case frame_type_of (bs ! 0) of
        None \<Rightarrow> None
      | Some t \<Rightarrow>
          (let len = unat (u32_at (drop 6 bs)) in
           if length bs < 10 + len then None
           else Some \<lparr>sf_frame_type = t, sf_stream_id = u32_at (drop 1 bs), sf_flags = bs ! 5, sf_payload = take len (drop 10 bs)\<rparr>))"

lemma frame_type_round_trip: "frame_type_of (frame_type_code t) = Some t"
  by (cases t) (simp_all add: frame_type_of_def)

lemma frame_decode_encode:
  assumes "length (sf_payload f) < 2 ^ 32"
  shows "SpdyFramer_decode (SpdyFramer_encode f @ tail) = Some f"
proof -
  have n: "unat (word_of_nat (length (sf_payload f)) :: u32) = length (sf_payload f)"
    using assms by (simp add: unat_of_nat)
  have "drop 1 (SpdyFramer_encode f @ tail) =
      to_be_bytes (sf_stream_id f) @ [sf_flags f] @ to_be_bytes (word_of_nat (length (sf_payload f))) @ sf_payload f @ tail"
    "drop 6 (SpdyFramer_encode f @ tail) = to_be_bytes (word_of_nat (length (sf_payload f))) @ sf_payload f @ tail"
    "drop 10 (SpdyFramer_encode f @ tail) = sf_payload f @ tail"
    "(SpdyFramer_encode f @ tail) ! 0 = frame_type_code (sf_frame_type f)" "(SpdyFramer_encode f @ tail) ! 5 = sf_flags f"
    "length (SpdyFramer_encode f @ tail) = 10 + length (sf_payload f) + length tail"
    by (simp_all add: SpdyFramer_encode_def to_be_bytes_def)
  then show ?thesis by (simp add: SpdyFramer_decode_def frame_type_round_trip n)
qed

subsection \<open>Frames on the wire\<close>

datatype SpdyWireFrame =
    WSynStream u32 "u8 list"
  | WSynReply u32 "u8 list"
  | WData u32 u8 "u8 list"
  | WRstStream u32 u32
  | WPing u32
  | WGoAway u32 u32

abbreviation stream_mask :: u32 where "stream_mask \<equiv> 0x7FFFFFFF"
abbreviation length_mask :: u32 where "length_mask \<equiv> 0x00FFFFFF"

text \<open>\<open>Inl None\<close>: no frame; \<open>Inr\<close>: an unknown control frame, skipped.\<close>

definition control_frame :: "u32 \<Rightarrow> u8 list \<Rightarrow> SpdyWireFrame option + unit" where
  "control_frame ty p =
     (if ty = 1 then Inl (if length p < 10 then None else Some (WSynStream (u32_at p AND stream_mask) (drop 10 p)))
      else if ty = 2 then Inl (if length p < 4 then None else Some (WSynReply (u32_at p AND stream_mask) (drop 4 p)))
      else if ty = 3 then Inl (if length p < 8 then None else Some (WRstStream (u32_at p AND stream_mask) (u32_at (drop 4 p))))
      else if ty = 6 then Inl (if length p < 4 then None else Some (WPing (u32_at p)))
      else if ty = 7 then Inl (if length p < 8 then None else Some (WGoAway (u32_at p AND stream_mask) (u32_at (drop 4 p))))
      else Inr ())"

text \<open>Every turn of the loop takes at least the eight bytes of a header.\<close>

function read_spdy_wire_frame :: "u8 list \<Rightarrow> (SpdyWireFrame \<times> u8 list) option" where
  "read_spdy_wire_frame bs =
     (case read_exact 8 bs of
        None \<Rightarrow> None
      | Some (hdr, bs1) \<Rightarrow>
          (let word1 = u32_at hdr; word2 = u32_at (drop 4 hdr); flags = ucast (drop_bit 24 word2);
               len = unat (word2 AND length_mask)
           in case read_exact len bs1 of
                None \<Rightarrow> None
              | Some (payload, bs2) \<Rightarrow>
                  if word1 AND 0x80000000 \<noteq> 0 then
                    (case control_frame (word1 AND 0xFFFF) payload of
                       Inl r \<Rightarrow> map_option (\<lambda>f. (f, bs2)) r
                     | Inr _ \<Rightarrow> read_spdy_wire_frame bs2)
                  else Some (WData (word1 AND stream_mask) flags payload, bs2)))"
  by pat_completeness auto
termination
  by (relation "measure length") (auto simp: read_exact_def split: if_splits)

declare read_spdy_wire_frame.simps [simp del]

definition frame_header :: "bool \<Rightarrow> u32 \<Rightarrow> u8 \<Rightarrow> nat \<Rightarrow> u8 list" where
  "frame_header control ty_or_stream flags len =
     to_be_bytes (if control then 0x80030000 OR (ty_or_stream AND 0xFFFF) else ty_or_stream AND stream_mask) @
     to_be_bytes (push_bit 24 (ucast flags) OR (word_of_nat len AND length_mask))"

definition control_bytes :: "u32 \<Rightarrow> u8 list \<Rightarrow> u8 list" where
  "control_bytes ty payload = frame_header True ty 0 (length payload) @ payload"

text \<open>What is written, when the connection takes it.\<close>

fun write_spdy_wire_frame :: "SpdyWireFrame \<Rightarrow> u8 list" where
  "write_spdy_wire_frame (WData stream_id flags payload) = frame_header False stream_id flags (length payload) @ payload"
| "write_spdy_wire_frame (WSynReply stream_id raw_nv) = control_bytes 2 (to_be_bytes (stream_id AND stream_mask) @ raw_nv)"
| "write_spdy_wire_frame (WRstStream stream_id status_code) =
     control_bytes 3 (to_be_bytes (stream_id AND stream_mask) @ to_be_bytes status_code)"
| "write_spdy_wire_frame (WPing i) = control_bytes 6 (to_be_bytes i)"
| "write_spdy_wire_frame (WGoAway last_good_stream_id status_code) =
     control_bytes 7 (to_be_bytes (last_good_stream_id AND stream_mask) @ to_be_bytes status_code)"
| "write_spdy_wire_frame (WSynStream _ _) = []"


subsection \<open>Reading what was written\<close>

lemma length_frame_header [simp]: "length (frame_header c ty flg n) = 8"
  by (simp add: frame_header_def)

lemma length_mask_is: "length_mask = mask 24"
  by (simp add: mask_eq_exp_minus_1)

lemma second_word:
  "unat ((push_bit 24 (ucast (flg :: u8)) OR (word_of_nat n AND length_mask)) AND length_mask :: u32) = n mod 2 ^ 24"
  "ucast (drop_bit 24 (push_bit 24 (ucast flg) OR (word_of_nat n AND length_mask) :: u32)) = flg"
proof -
  have "(push_bit 24 (ucast flg) OR (word_of_nat n AND length_mask)) AND length_mask = (take_bit 24 (word_of_nat n) :: u32)"
    by (rule bit_word_eqI) (auto simp: length_mask_is bit_simps take_bit_eq_mask)
  moreover have "unat (take_bit 24 (word_of_nat n :: u32)) = take_bit 24 (n mod 2 ^ 32)"
    by (simp add: unsigned_take_bit_eq unat_of_nat)
  moreover have "take_bit 24 (n mod 2 ^ 32) = n mod 2 ^ 24"
    using mod_mod_cancel [of "2 ^ 24 :: nat" "2 ^ 32" n] by (simp add: take_bit_eq_mod)
  ultimately show "unat ((push_bit 24 (ucast flg) OR (word_of_nat n AND length_mask)) AND length_mask :: u32) = n mod 2 ^ 24"
    by metis
  show "ucast (drop_bit 24 (push_bit 24 (ucast flg) OR (word_of_nat n AND length_mask) :: u32)) = flg"
    by (rule bit_word_eqI) (auto simp: length_mask_is bit_simps)
qed

lemma data_word: "(s AND stream_mask) AND 0x80000000 = (0 :: u32)" "(s AND stream_mask) AND stream_mask = s AND stream_mask"
  by (simp_all add: and.assoc)

lemma control_word:
  "(0x80030000 OR (ty AND 0xFFFF)) AND 0x80000000 \<noteq> (0 :: u32)" "(0x80030000 OR (ty AND 0xFFFF)) AND 0xFFFF = ty AND (0xFFFF :: u32)"
  by (simp_all add: bit.conj_disj_distrib2 and.assoc)

lemma header_words:
  "u32_at (frame_header c ty flg n) = (if c then 0x80030000 OR (ty AND 0xFFFF) else ty AND stream_mask)"
  "u32_at (drop 4 (frame_header c ty flg n)) = push_bit 24 (ucast flg) OR (word_of_nat n AND length_mask)"
  by (simp_all add: frame_header_def)

text \<open>The length field holds the length modulo \<open>2\<^sup>2\<^sup>4\<close>.\<close>

lemma read_header:
  "read_spdy_wire_frame (frame_header c ty flg (length p) @ p @ bs) =
     (let n = length p mod 2 ^ 24; q = take n p; r = drop n p @ bs in
      if c then case control_frame (ty AND 0xFFFF) q of Inl x \<Rightarrow> map_option (\<lambda>f. (f, r)) x | Inr _ \<Rightarrow> read_spdy_wire_frame r
      else Some (WData (ty AND stream_mask) flg q, r))"
proof -
  have n: "length p mod 2 ^ 24 \<le> length p" by simp
  have "read_exact (length p mod 2 ^ 24) (p @ bs) = Some (take (length p mod 2 ^ 24) p, drop (length p mod 2 ^ 24) p @ bs)"
    using n by (simp add: read_exact_def)
  then show ?thesis
    by (subst read_spdy_wire_frame.simps)
      (simp add: header_words second_word [simplified] data_word control_word Let_def split: sum.split)
qed

text \<open>What a peer sends: the frames above, new streams with an associated stream and a priority, and other control frames.\<close>

datatype sent_item = Sent SpdyWireFrame | Opened u32 u32 u8 u8 "u8 list" | Other u32 u8 "u8 list"

fun item_bytes :: "sent_item \<Rightarrow> u8 list" where
  "item_bytes (Sent f) = write_spdy_wire_frame f"
| "item_bytes (Opened stream_id associated priority slot raw_nv) =
     control_bytes 1 (to_be_bytes stream_id @ to_be_bytes associated @ [priority, slot] @ raw_nv)"
| "item_bytes (Other ty flg p) = frame_header True ty flg (length p) @ p"

fun item_frames :: "sent_item \<Rightarrow> SpdyWireFrame list" where
  "item_frames (Sent f) = [f]"
| "item_frames (Opened stream_id associated priority slot raw_nv) = [WSynStream stream_id raw_nv]"
| "item_frames (Other ty flg p) = []"

fun frame_fits :: "SpdyWireFrame \<Rightarrow> bool" where
  "frame_fits (WData s flg p) \<longleftrightarrow> s \<le> stream_mask \<and> length p < 2 ^ 24"
| "frame_fits (WSynReply s p) \<longleftrightarrow> s \<le> stream_mask \<and> length p + 4 < 2 ^ 24"
| "frame_fits (WRstStream s st) \<longleftrightarrow> s \<le> stream_mask"
| "frame_fits (WPing i) \<longleftrightarrow> True"
| "frame_fits (WGoAway s st) \<longleftrightarrow> s \<le> stream_mask"
| "frame_fits (WSynStream s p) \<longleftrightarrow> False"

fun item_fits :: "sent_item \<Rightarrow> bool" where
  "item_fits (Sent f) \<longleftrightarrow> frame_fits f"
| "item_fits (Opened s a pr sl p) \<longleftrightarrow> s \<le> stream_mask \<and> length p + 10 < 2 ^ 24"
| "item_fits (Other ty flg p) \<longleftrightarrow> ty < 0x10000 \<and> ty \<notin> {1, 2, 3, 6, 7} \<and> length p < 2 ^ 24"

lemma masked_stream: "s \<le> stream_mask \<Longrightarrow> s AND stream_mask = (s :: u32)"
proof -
  assume "s \<le> stream_mask"
  then have "unat s < 2 ^ 31" by (simp add: word_le_nat_alt)
  then have "take_bit 31 s = s" by (simp add: word_unat_eq_iff unsigned_take_bit_eq take_bit_nat_eq_self)
  moreover have "stream_mask = mask 31" by (simp add: mask_eq_exp_minus_1)
  ultimately show ?thesis by (simp add: take_bit_eq_mask)
qed


lemma small_type: "ty < 0x10000 \<Longrightarrow> ty AND 0xFFFF = (ty :: u32)"
proof -
  assume "ty < 0x10000"
  then have "unat ty < 2 ^ 16" by (simp add: word_less_nat_alt)
  then have "take_bit 16 ty = ty" by (simp add: word_unat_eq_iff unsigned_take_bit_eq take_bit_nat_eq_self)
  moreover have "(0xFFFF :: u32) = mask 16" by (simp add: mask_eq_exp_minus_1)
  ultimately show ?thesis by (simp add: take_bit_eq_mask)
qed

lemma read_control:
  assumes "length p < 2 ^ 24"
  shows "read_spdy_wire_frame (control_bytes ty p @ bs) =
    (case control_frame (ty AND 0xFFFF) p of Inl x \<Rightarrow> map_option (\<lambda>f. (f, bs)) x | Inr _ \<Rightarrow> read_spdy_wire_frame bs)"
  using assms by (simp add: control_bytes_def read_header Let_def split: sum.split)

lemma read_written: "frame_fits f \<Longrightarrow> read_spdy_wire_frame (write_spdy_wire_frame f @ bs) = Some (f, bs)"
  by (cases f) (simp_all add: read_control read_header Let_def control_frame_def masked_stream)

lemma read_opened:
  "item_fits (Opened s a pr sl p) \<Longrightarrow> read_spdy_wire_frame (item_bytes (Opened s a pr sl p) @ bs) = Some (WSynStream s p, bs)"
  by (simp add: read_control control_frame_def masked_stream)

lemma read_other: "item_fits (Other ty flg p) \<Longrightarrow> read_spdy_wire_frame (item_bytes (Other ty flg p) @ bs) = read_spdy_wire_frame bs"
  by (simp add: read_header Let_def control_frame_def small_type)

lemma read_shorter: "read_spdy_wire_frame bs = Some (f, r) \<Longrightarrow> length r < length bs"
  by (induction bs arbitrary: f r rule: read_spdy_wire_frame.induct)
    (subst (asm) (2) read_spdy_wire_frame.simps,
      fastforce simp: read_exact_def Let_def split: if_splits option.splits sum.splits)

text \<open>The frames that are read until there is none, as in the loops of the sessions.\<close>

function frames_read :: "u8 list \<Rightarrow> SpdyWireFrame list" where
  "frames_read bs = (case read_spdy_wire_frame bs of None \<Rightarrow> [] | Some (f, r) \<Rightarrow> f # frames_read r)"
  by pat_completeness auto
termination by (relation "measure length") (auto simp: read_shorter)

declare frames_read.simps [simp del]

lemma frames_read_item: "item_fits i \<Longrightarrow> frames_read (item_bytes i @ bs) = item_frames i @ frames_read bs"
proof (cases i)
  case (Sent f)
  then show "item_fits i \<Longrightarrow> ?thesis" by (subst frames_read.simps) (simp add: read_written)
next
  case (Opened s a pr sl p)
  then show "item_fits i \<Longrightarrow> ?thesis" using read_opened [of s a pr sl p bs] by (subst frames_read.simps) simp
next
  case (Other ty flg p)
  then show "item_fits i \<Longrightarrow> ?thesis"
    using read_other [of ty flg p bs] by (subst frames_read.simps, subst (2) frames_read.simps) simp
qed

lemma frames_read_items:
  "list_all item_fits sent \<Longrightarrow> frames_read (concat (map item_bytes sent) @ tail) = concat (map item_frames sent) @ frames_read tail"
  by (induction sent) (simp_all add: frames_read_item)

text \<open>C14: What a peer sends is read back: from the bytes of any sequence of frames that fit, new streams and other control frames, the
  reader yields exactly the known frames, in order and unchanged, skips the others, and goes on with what follows.\<close>

theorem spdy_frames_read_back:
  assumes "list_all item_fits sent"
  shows "frames_read (concat (map item_bytes sent) @ tail) = concat (map item_frames sent) @ frames_read tail"
  using assms by (rule frames_read_items)

theorem spdy_frames_read_back_witness:
  "frames_read (item_bytes (Sent (WData 5 1 [104, 105])) @ item_bytes (Other 4 0 [1, 2]) @ item_bytes (Opened 7 0 0 0 [9]) @ []) =
     [WData 5 1 [104, 105], WSynStream 7 [9]]"
proof -
  have e: "frames_read [] = []" by (simp add: frames_read.simps read_spdy_wire_frame.simps read_exact_def)
  show ?thesis
    using spdy_frames_read_back [of "[Sent (WData 5 1 [104, 105]), Other 4 0 [1, 2], Opened 7 0 0 0 [9]]" "[]"] by (simp add: e)
qed

text \<open>A frame of sixteen mebibytes or more is sent with its length modulo \<open>2\<^sup>2\<^sup>4\<close>: the rest of its content is read as frames.\<close>

lemma long_output_read_as_frames:
  assumes "length p = 2 ^ 24" "p = write_spdy_wire_frame f @ q" "frame_fits f" "s \<le> stream_mask"
  shows "frames_read (write_spdy_wire_frame (WData s flg p) @ tail) = WData s flg [] # f # frames_read (q @ tail)"
proof -
  have "read_spdy_wire_frame (write_spdy_wire_frame (WData s flg p) @ tail) = Some (WData s flg [], p @ tail)"
    using read_header [of False s flg p tail] assms(1,4) by (simp add: Let_def masked_stream)
  moreover have "frames_read (p @ tail) = f # frames_read (q @ tail)"
    using frames_read_item [of "Sent f" "q @ tail"] assms(2,3) by simp
  ultimately show ?thesis by (subst frames_read.simps) simp
qed


subsection \<open>Blocks of names and values\<close>

text \<open>The block follows the order in which the map is iterated.\<close>

definition nv_pair :: "string \<times> string \<Rightarrow> u8 list" where
  "nv_pair h =
     to_be_bytes (word_of_nat (length (fst h))) @ as_bytes (fst h) @ to_be_bytes (word_of_nat (length (snd h))) @ as_bytes (snd h)"

definition build_nv_block :: "(string, string) hmap \<Rightarrow> u8 list" where
  "build_nv_block headers = to_be_bytes (word_of_nat (length headers)) @ concat (map nv_pair headers)"

definition read_sized :: "u8 list \<Rightarrow> (u8 list \<times> u8 list) option" where
  "read_sized bs = Option.bind (read_exact 4 bs) (\<lambda>(nbuf, r). read_exact (unat (u32_at nbuf)) r)"

definition nv_value :: "string \<Rightarrow> string" where
  "nv_value v = takeWhile (\<lambda>c. c \<noteq> CHR 0x00) v"

fun nv_pairs :: "nat \<Rightarrow> u8 list \<Rightarrow> (string, string) hmap \<Rightarrow> ((string, string) hmap \<times> u8 list) option" where
  "nv_pairs 0 bs out = Some (out, bs)"
| "nv_pairs (Suc n) bs out =
     (case read_sized bs of
        None \<Rightarrow> None
      | Some (name_bytes, bs1) \<Rightarrow>
          (case read_sized bs1 of
             None \<Rightarrow> None
           | Some (value_bytes, bs2) \<Rightarrow>
               (case (from_utf8 (bytes_text name_bytes), from_utf8 (bytes_text value_bytes)) of
                  (Some name, Some val) \<Rightarrow> nv_pairs n bs2 (hm_insert (to_lowercase name) (nv_value val) out)
                | _ \<Rightarrow> None)))"

text \<open>The new offset, which stays as it is when there is no block.\<close>

definition parse_nv_block_offset :: "u8 list \<Rightarrow> nat \<Rightarrow> (string, string) hmap option \<times> nat" where
  "parse_nv_block_offset plain offset =
     (if length plain \<le> offset then (None, offset)
      else case read_exact 4 (drop offset plain) of
        None \<Rightarrow> (None, offset)
      | Some (nbuf, bs) \<Rightarrow>
          (case nv_pairs (unat (u32_at nbuf)) bs [] of
             None \<Rightarrow> (None, offset)
           | Some (out, r) \<Rightarrow> (Some out, length plain - length r)))"

definition nv_fits :: "string \<times> string \<Rightarrow> bool" where
  "nv_fits h \<longleftrightarrow> length (fst h) < 2 ^ 32 \<and> length (snd h) < 2 ^ 32 \<and> from_utf8 (fst h) = Some (fst h) \<and> from_utf8 (snd h) = Some (snd h)"

definition nv_seen :: "string \<times> string \<Rightarrow> string \<times> string" where
  "nv_seen h = (to_lowercase (fst h), nv_value (snd h))"

lemma read_sized_append:
  "length s < 2 ^ 32 \<Longrightarrow> read_sized (to_be_bytes (word_of_nat (length s)) @ as_bytes s @ bs) = Some (as_bytes s, bs)"
  by (simp add: read_sized_def unat_of_nat)

lemma hm_insert_new: "k \<notin> fst ` set m \<Longrightarrow> hm_insert k v m = m @ [(k, v)]"
  by (induction m) auto

lemma nv_pairs_built:
  "list_all nv_fits hs \<Longrightarrow> distinct (map fst out @ map (fst \<circ> nv_seen) hs) \<Longrightarrow>
     nv_pairs (length hs) (concat (map nv_pair hs) @ bs) out = Some (out @ map nv_seen hs, bs)"
proof (induction hs arbitrary: out)
  case (Cons h hs)
  have "read_sized (nv_pair h @ r) = Some (as_bytes (fst h), to_be_bytes (word_of_nat (length (snd h))) @ as_bytes (snd h) @ r)" for r
    using Cons.prems(1) by (simp add: nv_pair_def nv_fits_def read_sized_append)
  moreover have "read_sized (to_be_bytes (word_of_nat (length (snd h))) @ as_bytes (snd h) @ r) = Some (as_bytes (snd h), r)" for r
    using Cons.prems(1) by (simp add: nv_fits_def read_sized_append)
  moreover have "hm_insert (to_lowercase (fst h)) (nv_value (snd h)) out = out @ [nv_seen h]"
    using Cons.prems(2) by (simp add: nv_seen_def hm_insert_new)
  moreover have "nv_pairs (length hs) (concat (map nv_pair hs) @ bs) (out @ [nv_seen h]) = Some ((out @ [nv_seen h]) @ map nv_seen hs, bs)"
    using Cons.prems by (intro Cons.IH) auto
  ultimately show ?case using Cons.prems(1) by (simp add: nv_fits_def)
qed simp

text \<open>A block of headers is read back: wherever it stands in the text decompressed so far, the parser returns the headers, with
  lower-case names and the first of several values, and moves to the end of the block, where the next one starts.\<close>

theorem nv_block_read_back:
  assumes "list_all nv_fits hs" "distinct (map (to_lowercase \<circ> fst) hs)" "length hs < 2 ^ 32"
  shows "parse_nv_block_offset (before @ build_nv_block hs @ after) (length before) =
           (Some (map (\<lambda>(n, v). (to_lowercase n, nv_value v)) hs), length before + length (build_nv_block hs))"
proof -
  have "nv_pairs (length hs) (concat (map nv_pair hs) @ after) [] = Some ([] @ map nv_seen hs, after)"
    using assms by (intro nv_pairs_built) (simp_all add: nv_seen_def comp_def)
  moreover have "nv_seen = (\<lambda>(n, v). (to_lowercase n, nv_value v))" by (auto simp: nv_seen_def)
  ultimately show ?thesis
    using assms(3) by (simp add: parse_nv_block_offset_def build_nv_block_def unat_of_nat)
qed

theorem nv_block_read_back_witness:
  "parse_nv_block_offset ([7, 7] @ build_nv_block [(''StreamType'', ''error'')] @ [1]) 2 = (Some [(''streamtype'', ''error'')], 29)"
proof -
  have u: "from_utf8 ''StreamType'' = Some ''StreamType''" "from_utf8 ''error'' = Some ''error''"
    by (simp_all add: from_utf8_def utf8_tail_def utf8_width_def)
  have "map (\<lambda>(n, v). (to_lowercase n, nv_value v)) [(''StreamType'', ''error'')] = [(''streamtype'', ''error'')]"
    by code_simp
  moreover have "length (build_nv_block [(''StreamType'', ''error'')]) = 27" by (simp add: build_nv_block_def nv_pair_def)
  ultimately show ?thesis
    using nv_block_read_back [of "[(''StreamType'', ''error'')]" "[7, 7]" "[1]"] u by (simp add: nv_fits_def flip: numeral_2_eq_2)
qed


text \<open>A block that is no text is left where it is: no later header of the connection is read.\<close>

definition bad_block :: "u8 list" where
  "bad_block = to_be_bytes 1 @ to_be_bytes 1 @ [0xFF] @ to_be_bytes 0"

lemma bad_block_hides_later_headers:
  "parse_nv_block_offset (before @ bad_block @ later) (length before) = (None, length before)"
proof -
  have "read_exact 4 (bad_block @ later) = Some (to_be_bytes 1, to_be_bytes 1 @ [0xFF] @ to_be_bytes 0 @ later)"
    by (simp add: bad_block_def)
  moreover have "read_sized (to_be_bytes 1 @ [0xFF] @ to_be_bytes 0 @ later) = Some ([0xFF], to_be_bytes 0 @ later)"
    "read_sized (to_be_bytes 0 @ later) = Some ([], later)"
    using read_exact_append [of 1 "[0xFF]" "to_be_bytes 0 @ later"] by (simp_all add: read_sized_def read_exact_def)
  moreover have "from_utf8 (bytes_text [0xFF]) = None"
    by (simp add: bytes_text_def from_utf8_def utf8_tail_def utf8_width_def)
  ultimately show ?thesis by (simp add: parse_nv_block_offset_def bad_block_def)
qed

subsection \<open>Kinds of streams\<close>

datatype SpdyStreamKind = KStdin | KStdout | KStderr | KError | KResize | KPortForwardData

definition spdy_stream_kind_from_headers :: "(string, string) hmap \<Rightarrow> SpdyStreamKind option" where
  "spdy_stream_kind_from_headers headers =
     Option.bind (map_option to_lowercase (hm_get headers ''streamtype'')) (\<lambda>t.
       if t = ''stdin'' then Some KStdin else if t = ''stdout'' then Some KStdout else if t = ''stderr'' then Some KStderr
       else if t = ''error'' then Some KError else if t = ''resize'' then Some KResize
       else if t = ''data'' then Some KPortForwardData else None)"

subsection \<open>Messages of a web socket\<close>

definition STREAM_STDIN :: u8 where "STREAM_STDIN = 0"
definition STREAM_STDOUT :: u8 where "STREAM_STDOUT = 1"
definition STREAM_STDERR :: u8 where "STREAM_STDERR = 2"
definition STREAM_ERROR :: u8 where "STREAM_ERROR = 3"
definition STREAM_RESIZE :: u8 where "STREAM_RESIZE = 4"
definition STREAM_CLOSE :: u8 where "STREAM_CLOSE = 255"

lemmas stream_ids = STREAM_STDIN_def STREAM_STDOUT_def STREAM_STDERR_def STREAM_ERROR_def STREAM_RESIZE_def STREAM_CLOSE_def

record FramedMessage =
  fm_stream_id :: u8
  fm_payload :: "u8 list"

definition FramedMessage_new :: "u8 \<Rightarrow> u8 list \<Rightarrow> FramedMessage" where
  "FramedMessage_new i p = \<lparr>fm_stream_id = i, fm_payload = p\<rparr>"

definition FramedMessage_encode :: "FramedMessage \<Rightarrow> u8 list" where
  "FramedMessage_encode m = fm_stream_id m # fm_payload m"

definition FramedMessage_decode :: "u8 list \<Rightarrow> FramedMessage option" where
  "FramedMessage_decode raw = (case raw of [] \<Rightarrow> None | b # bs \<Rightarrow> Some \<lparr>fm_stream_id = b, fm_payload = bs\<rparr>)"

lemma framed_decode_encode [simp]: "FramedMessage_decode (FramedMessage_encode m) = Some m"
  by (simp add: FramedMessage_decode_def FramedMessage_encode_def)

text \<open>Numbers that are too big for 32 bits wrap.\<close>

definition parse_resize_event :: "(string \<Rightarrow> json option) \<Rightarrow> u8 list \<Rightarrow> (nat \<times> nat) option" where
  "parse_resize_event parse_json payload = do {
     v \<leftarrow> parse_json (from_utf8_lossy (bytes_text payload));
     height \<leftarrow> Option.bind (jget ''height'' v) json_as_u64;
     width \<leftarrow> Option.bind (jget ''width'' v) json_as_u64;
     Some (height mod 2 ^ 32, width mod 2 ^ 32)
   }"

definition exec_to_frames :: "u8 list \<Rightarrow> u8 list \<Rightarrow> FramedMessage list" where
  "exec_to_frames out err =
     (if out \<noteq> [] then [FramedMessage_new STREAM_STDOUT out] else []) @ (if err \<noteq> [] then [FramedMessage_new STREAM_STDERR err] else [])"

record StreamMultiplexer =
  sm_stdout :: "u8 list list"
  sm_stderr :: "u8 list list"
  sm_error :: "json option"

definition demux_step :: "(u8 list \<Rightarrow> json option) \<Rightarrow> FramedMessage \<Rightarrow> StreamMultiplexer \<Rightarrow> StreamMultiplexer" where
  "demux_step json_from_slice f m =
     (if fm_stream_id f = STREAM_STDOUT then m\<lparr>sm_stdout := sm_stdout m @ [fm_payload f]\<rparr>
      else if fm_stream_id f = STREAM_STDERR then m\<lparr>sm_stderr := sm_stderr m @ [fm_payload f]\<rparr>
      else if fm_stream_id f = STREAM_ERROR then m\<lparr>sm_error := json_from_slice (fm_payload f)\<rparr>
      else m)"

definition demux :: "(u8 list \<Rightarrow> json option) \<Rightarrow> FramedMessage list \<Rightarrow> StreamMultiplexer" where
  "demux json_from_slice frames = fold (demux_step json_from_slice) frames \<lparr>sm_stdout = [], sm_stderr = [], sm_error = None\<rparr>"

definition stdout_string :: "StreamMultiplexer \<Rightarrow> string" where
  "stdout_string m = concat (map (from_utf8_lossy \<circ> bytes_text) (sm_stdout m))"

definition stderr_string :: "StreamMultiplexer \<Rightarrow> string" where
  "stderr_string m = concat (map (from_utf8_lossy \<circ> bytes_text) (sm_stderr m))"

lemma demux_exec_frames:
  "concat (sm_stdout (demux jf (exec_to_frames out err))) = out" "concat (sm_stderr (demux jf (exec_to_frames out err))) = err"
  by (simp_all add: demux_def demux_step_def exec_to_frames_def FramedMessage_new_def stream_ids)

text \<open>A character whose bytes are in two frames is lost: each frame is converted by itself.\<close>

lemma split_character_is_lost:
  "stdout_string (demux jf [FramedMessage_new STREAM_STDOUT [0xC3], FramedMessage_new STREAM_STDOUT [0xA9]]) =
     [CHR 0xEF, CHR 0xBF, CHR 0xBD, CHR 0xEF, CHR 0xBF, CHR 0xBD]"
  by (simp add: demux_def demux_step_def FramedMessage_new_def stream_ids stdout_string_def bytes_text_def utf8_tail_def utf8_width_def)

end
