(* ===== verification/Stream_Auth.thy ===== *)
theory Stream_Auth
  imports Rust_Str
begin

section \<open>Who may open a stream\<close>

text \<open>
  Authentication, authorization and the rate limit of \<^verbatim>\<open>kubelet-app/src/streaming/mod.rs\<close>. The answers of the API server to a
  token review and to a subject access review, the connection attempt and the environment variable are arguments. The limiter and the
  cached client are the state. Calls of the limiter happen one after the other, at times of a monotonic clock.
\<close>

subsection \<open>The rate limit\<close>

record FixedWindowRateLimiter =
  rl_entries :: "(string, timestamp list) hmap"
  rl_max_events :: nat
  rl_window :: duration

definition FixedWindowRateLimiter_new :: "nat \<Rightarrow> duration \<Rightarrow> FixedWindowRateLimiter" where
  "FixedWindowRateLimiter_new max_events window = \<lparr>rl_entries = [], rl_max_events = max_events, rl_window = window\<rparr>"

definition recent_events :: "timestamp \<Rightarrow> string \<Rightarrow> FixedWindowRateLimiter \<Rightarrow> timestamp list" where
  "recent_events now key r =
     dropWhile (\<lambda>t. now - t > rl_window r) (case hm_get (rl_entries r) key of Some q \<Rightarrow> q | None \<Rightarrow> [])"

definition limiter_allow :: "timestamp \<Rightarrow> string \<Rightarrow> FixedWindowRateLimiter \<Rightarrow> bool \<times> FixedWindowRateLimiter" where
  "limiter_allow now key r =
     (let q = recent_events now key r in
      if rl_max_events r \<le> length q then (False, r\<lparr>rl_entries := hm_insert key q (rl_entries r)\<rparr>)
      else (True, r\<lparr>rl_entries := hm_insert key (q @ [now]) (rl_entries r)\<rparr>))"

definition stream_rate_limiter :: FixedWindowRateLimiter where
  "stream_rate_limiter = FixedWindowRateLimiter_new 60 (secs 60)"

text \<open>A sequence of calls, with the answers.\<close>

fun limiter_run :: "(timestamp \<times> string) list \<Rightarrow> FixedWindowRateLimiter \<Rightarrow> (timestamp \<times> string \<times> bool) list \<times> FixedWindowRateLimiter" where
  "limiter_run [] r = ([], r)"
| "limiter_run ((now, key) # cs) r =
     (let (ok, r1) = limiter_allow now key r; (log, r2) = limiter_run cs r1 in ((now, key, ok) # log, r2))"

definition allowed_at :: "string \<Rightarrow> (timestamp \<times> string \<times> bool) list \<Rightarrow> timestamp list" where
  "allowed_at key log = List.map_filter (\<lambda>(t, k, ok). if k = key \<and> ok then Some t else None) log"

definition in_window :: "duration \<Rightarrow> timestamp \<Rightarrow> timestamp list \<Rightarrow> nat" where
  "in_window w a ts = length (filter (\<lambda>t. a \<le> t \<and> t \<le> a + w) ts)"

lemma allowed_at_simps [simp]:
  "allowed_at key [] = []"
  "allowed_at key ((t, k, ok) # log) = (if k = key \<and> ok then t # allowed_at key log else allowed_at key log)"
  by (simp_all add: allowed_at_def map_filter_simps)

text \<open>What the queue of a key is, given the calls allowed so far.\<close>

definition limiter_inv :: "timestamp \<Rightarrow> (string \<Rightarrow> timestamp list) \<Rightarrow> FixedWindowRateLimiter \<Rightarrow> bool" where
  "limiter_inv now done_at r \<longleftrightarrow>
     (\<forall>key. (\<exists>d. done_at key = d @ (case hm_get (rl_entries r) key of Some q \<Rightarrow> q | None \<Rightarrow> []) \<and> (\<forall>t \<in> set d. now - t > rl_window r)) \<and>
            (\<forall>a. in_window (rl_window r) a (done_at key) \<le> rl_max_events r))"

lemma in_window_append [simp]: "in_window w a (xs @ ys) = in_window w a xs + in_window w a ys"
  by (simp add: in_window_def)

lemma in_window_none: "\<forall>t \<in> set xs. t < a \<Longrightarrow> in_window w a xs = 0"
  by (auto simp: in_window_def filter_empty_conv)

lemma limiter_allow_config [simp]:
  "rl_window (snd (limiter_allow now key r)) = rl_window r" "rl_max_events (snd (limiter_allow now key r)) = rl_max_events r"
  by (simp_all add: limiter_allow_def Let_def)

lemma limiter_allow_inv:
  assumes inv: "limiter_inv before done_at r" and "before \<le> now" "limiter_allow now key r = (ok, r')"
  shows "limiter_inv now (if ok then done_at(key := done_at key @ [now]) else done_at) r'"
  unfolding limiter_inv_def
proof (intro allI conjI)
  have conf: "rl_window r' = rl_window r" "rl_max_events r' = rl_max_events r"
    using limiter_allow_config [of now key r] assms(3) by simp_all
  let ?queue = "\<lambda>r k. case hm_get (rl_entries r) k of Some q \<Rightarrow> q | None \<Rightarrow> []"
  let ?done = "if ok then done_at(key := done_at key @ [now]) else done_at"
  fix k
  obtain d where d: "done_at k = d @ ?queue r k" "\<forall>t \<in> set d. before - t > rl_window r"
    using inv unfolding limiter_inv_def by blast
  then have old: "\<forall>t \<in> set d. now - t > rl_window r" using assms(2) by fastforce
  let ?old = "takeWhile (\<lambda>t. now - t > rl_window r) (?queue r k)"
  have q: "?queue r k = ?old @ recent_events now k r" by (simp add: recent_events_def)
  have dropped: "\<forall>t \<in> set (d @ ?old). now - t > rl_window r" using old by (auto dest: set_takeWhileD)
  have queue': "?queue r' k = (if k = key then recent_events now k r @ (if ok then [now] else []) else ?queue r k)"
    using assms(3) by (auto simp: limiter_allow_def Let_def update_conv' split: if_splits)
  show "\<exists>d. ?done k = d @ ?queue r' k \<and> (\<forall>t \<in> set d. now - t > rl_window r')"
    unfolding queue' conf using d q dropped old
    by (intro exI [of _ "if k = key then d @ ?old else d"]) (auto simp: append_eq_append_conv2)
  fix a
  have le: "in_window (rl_window r) a (done_at k) \<le> rl_max_events r" using inv unfolding limiter_inv_def by blast
  show "in_window (rl_window r') a (?done k) \<le> rl_max_events r'"
  proof (cases "ok \<and> k = key \<and> a \<le> now \<and> now \<le> a + rl_window r")
    case True
    have "t < a" if "t \<in> set (d @ ?old)" for t
      using dropped that True by fastforce
    then have none: "in_window (rl_window r) a (d @ ?old) = 0"
      by (intro in_window_none) blast
    have "length (recent_events now key r) < rl_max_events r"
      using assms(3) True by (auto simp: limiter_allow_def Let_def split: if_splits)
    moreover have "done_at k = (d @ ?old) @ recent_events now k r" using d(1) q by simp
    moreover have "length (filter P xs) < m" if "length xs < m" for P and xs :: "timestamp list" and m
      using that length_filter_le [of P xs] by linarith
    ultimately show ?thesis
      using True none by (simp add: conf Suc_le_eq) (simp add: in_window_def Suc_le_eq)
  next
    case False
    then show ?thesis using le by (auto simp: conf in_window_def)
  qed
qed

lemma limiter_run_inv:
  "limiter_inv before done_at r \<Longrightarrow> sorted (before # map fst cs) \<Longrightarrow> limiter_run cs r = (log, r') \<Longrightarrow>
     in_window (rl_window r) a (done_at key @ allowed_at key log) \<le> rl_max_events r"
proof (induction cs arbitrary: before done_at r log)
  case Nil
  then have "in_window (rl_window r) a (done_at key) \<le> rl_max_events r" unfolding limiter_inv_def by blast
  then show ?case using Nil.prems(3) by simp
next
  case (Cons c cs)
  obtain now k where c: "c = (now, k)" by (cases c)
  obtain ok r1 where a1: "limiter_allow now k r = (ok, r1)" by fastforce
  obtain log2 where run: "limiter_run cs r1 = (log2, r')" and log: "log = (now, k, ok) # log2"
    using Cons.prems(3) by (auto simp: c a1 Let_def split: prod.splits)
  have conf: "rl_window r1 = rl_window r" "rl_max_events r1 = rl_max_events r"
    using limiter_allow_config [of now k r] by (simp_all add: a1)
  have "before \<le> now" "sorted (now # map fst cs)" using Cons.prems(2) by (auto simp: c)
  then have "in_window (rl_window r1) a ((if ok then done_at(k := done_at k @ [now]) else done_at) key @ allowed_at key log2) \<le> rl_max_events r1"
    using limiter_allow_inv [OF Cons.prems(1) _ a1] run by (intro Cons.IH) auto
  then show ?case
    by (auto simp: log conf in_window_def split: if_splits)
qed

text \<open>C23: However its calls are spaced, the limiter allows at most \<open>max_events\<close> calls of one key in any span of the length of the window,
  including both ends.\<close>

theorem stream_rate_bounded:
  assumes "sorted (map fst calls)"
  shows "length (filter (\<lambda>(t, k, ok). k = key \<and> ok \<and> a \<le> t \<and> t \<le> a + window)
           (fst (limiter_run calls (FixedWindowRateLimiter_new max_events window)))) \<le> max_events"
proof -
  obtain log r' where run: "limiter_run calls (FixedWindowRateLimiter_new max_events window) = (log, r')" by fastforce
  obtain t0 where t0: "\<forall>t \<in> set (map fst calls). t0 \<le> t"
    by (metis Min_le List.finite_set)
  have "limiter_inv t0 (\<lambda>_. []) (FixedWindowRateLimiter_new max_events window)"
    by (simp add: limiter_inv_def FixedWindowRateLimiter_new_def in_window_def)
  from limiter_run_inv [OF this _ run, of a key] t0 assms
  have "in_window window a (allowed_at key log) \<le> max_events" by (simp add: FixedWindowRateLimiter_new_def)
  moreover have "in_window window a (allowed_at key l) = length (filter (\<lambda>(t, k, ok). k = key \<and> ok \<and> a \<le> t \<and> t \<le> a + window) l)" for l
    by (induction l) (auto simp: in_window_def split: if_splits)
  ultimately show ?thesis by (simp add: run)
qed

theorem stream_rate_bounded_witness:
  "fst (limiter_run [(0, ''a''), (1, ''a''), (5, ''a''), (9, ''a'')] (FixedWindowRateLimiter_new 2 5)) =
     [(0, ''a'', True), (1, ''a'', True), (5, ''a'', False), (9, ''a'', True)] \<and>
   length (filter (\<lambda>(t, k, ok). k = ''a'' \<and> ok \<and> 0 \<le> t \<and> t \<le> 0 + 5)
     (fst (limiter_run [(0, ''a''), (1, ''a''), (5, ''a''), (9, ''a'')] (FixedWindowRateLimiter_new 2 5)))) \<le> 2"
proof
  show "length (filter (\<lambda>(t, k, ok). k = ''a'' \<and> ok \<and> 0 \<le> t \<and> t \<le> 0 + 5)
     (fst (limiter_run [(0, ''a''), (1, ''a''), (5, ''a''), (9, ''a'')] (FixedWindowRateLimiter_new 2 5)))) \<le> 2"
    by (rule stream_rate_bounded) simp
qed (simp add: limiter_allow_def recent_events_def FixedWindowRateLimiter_new_def)


subsection \<open>Identities\<close>

record AuthIdentity =
  ai_username :: string
  ai_uid :: "string option"
  ai_groups :: "string list"

record 'c StreamAuthConfig =
  sac_anonymous_auth :: bool
  sac_always_allow :: bool
  sac_kube_client :: "'c option"

text \<open>A header value is text when its bytes are visible ASCII or tabs.\<close>

definition header_text :: "string \<Rightarrow> string option" where
  "header_text v =
     (if list_all (\<lambda>c. (32 \<le> (of_char c :: nat) \<and> (of_char c :: nat) < 127) \<or> (of_char c :: nat) = 9) v then Some v else None)"

definition extract_bearer_token :: "(string, string) hmap \<Rightarrow> string option" where
  "extract_bearer_token headers =
     Option.bind (Option.bind (hm_get headers ''authorization'') header_text) (\<lambda>raw.
     Option.bind (strip_prefix ''Bearer '' raw) (\<lambda>token. if token = [] then None else Some token))"

record UserInfo =
  ui_username :: "string option"
  ui_uid :: "string option"
  ui_groups :: "string list option"

record TokenReviewStatus =
  trs_authenticated :: "bool option"
  trs_error :: "string option"
  trs_user :: "UserInfo option"

record ResourceAttributes =
  ra_namespace :: string
  ra_verb :: string
  ra_subresource :: string
  ra_name :: string

text \<open>The API server: a token gives a status, a review of access an answer with a reason; each call may fail.\<close>

record 'c auth_server =
  as_token_review :: "'c \<Rightarrow> string \<Rightarrow> string + TokenReviewStatus option"
  as_access_review :: "'c \<Rightarrow> AuthIdentity \<Rightarrow> ResourceAttributes \<Rightarrow> string + (bool \<times> string option) option"

definition token_review :: "'c auth_server \<Rightarrow> 'c \<Rightarrow> string \<Rightarrow> string + AuthIdentity" where
  "token_review srv client token =
     (case as_token_review srv client token of
        Inl e \<Rightarrow> Inl (''token review failed: '' @ e)
      | Inr None \<Rightarrow> Inl ''token review missing status''
      | Inr (Some status) \<Rightarrow>
          if trs_authenticated status \<noteq> Some True
          then Inl (case trs_error status of Some e \<Rightarrow> e | None \<Rightarrow> ''token not authenticated'')
          else (case trs_user status of
             None \<Rightarrow> Inl ''token review missing user info''
           | Some user \<Rightarrow>
               (case ui_username user of
                  None \<Rightarrow> Inl ''token review missing username''
                | Some name \<Rightarrow>
                    Inr \<lparr>ai_username = name, ai_uid = ui_uid user, ai_groups = (case ui_groups user of Some g \<Rightarrow> g | None \<Rightarrow> [])\<rparr>)))"

definition subject_access_review ::
  "'c auth_server \<Rightarrow> 'c \<Rightarrow> AuthIdentity \<Rightarrow> string \<Rightarrow> string \<Rightarrow> string \<Rightarrow> string \<Rightarrow> string + unit" where
  "subject_access_review srv client identity namespace pod_name subresource verb =
     (case as_access_review srv client identity
             \<lparr>ra_namespace = namespace, ra_verb = verb, ra_subresource = subresource, ra_name = pod_name\<rparr> of
        Inl e \<Rightarrow> Inl (''subject access review failed: '' @ e)
      | Inr None \<Rightarrow> Inl ''subject access review missing status''
      | Inr (Some (allowed, reason)) \<Rightarrow>
          if allowed then Inr () else Inl (case reason of Some x \<Rightarrow> x | None \<Rightarrow> ''RBAC denied request''))"

text \<open>The client: the given one, else the cached one, else a new connection, which is cached.\<close>

definition kube_client :: "'c option \<Rightarrow> 'c option \<Rightarrow> 'c option \<Rightarrow> 'c option \<times> 'c option" where
  "kube_client try_default provided cached =
     (case provided of
        Some c \<Rightarrow> (Some c, cached)
      | None \<Rightarrow>
          (case cached of
             Some c \<Rightarrow> (Some c, cached)
           | None \<Rightarrow> (case try_default of Some c \<Rightarrow> (Some c, Some c) | None \<Rightarrow> (None, None))))"

subsection \<open>Authorization of a request\<close>

text \<open>A refusal: status, reason and message of the response.\<close>

type_synonym refusal = "nat \<times> string \<times> string"

record 'c auth_state =
  ast_limiter :: FixedWindowRateLimiter
  ast_cached :: "'c option"

record 'c auth_env =
  aen_server :: "'c auth_server"
  aen_try_default :: "'c option"
  aen_fallback :: "string option"
  aen_now :: timestamp

record stream_request =
  sr_headers :: "(string, string) hmap"
  sr_namespace :: string
  sr_pod_name :: string
  sr_subresource :: string
  sr_verb :: string
  sr_cert_cn :: "string option"

definition anonymous_identity :: AuthIdentity where
  "anonymous_identity = \<lparr>ai_username = ''system:anonymous'', ai_uid = None, ai_groups = [''system:unauthenticated'']\<rparr>"

definition insecure_fallback :: "string option \<Rightarrow> bool" where
  "insecure_fallback v = (case v of Some s \<Rightarrow> s \<in> {''1'', ''true'', ''TRUE'', ''yes'', ''YES''} | None \<Rightarrow> False)"

definition rate_limited :: "string \<Rightarrow> 'c auth_env \<Rightarrow> 'c auth_state \<Rightarrow> bool \<times> 'c auth_state" where
  "rate_limited name env st =
     (let (ok, r) = limiter_allow (aen_now env) name (ast_limiter st) in (\<not> ok, st\<lparr>ast_limiter := r\<rparr>))"

abbreviation too_many :: "refusal" where
  "too_many \<equiv> (429, ''TooManyRequests'', ''stream rate limit exceeded'')"

definition authorize_token ::
  "'c auth_env \<Rightarrow> 'c StreamAuthConfig \<Rightarrow> stream_request \<Rightarrow> 'c \<Rightarrow> string \<Rightarrow> 'c auth_state \<Rightarrow> (refusal + AuthIdentity) \<times> 'c auth_state" where
  "authorize_token env cfg req client token st =
     (case token_review (aen_server env) client token of
        Inl e \<Rightarrow> (Inl (401, ''Unauthorized'', e), st)
      | Inr identity \<Rightarrow>
          (let (limited, st1) = rate_limited (ai_username identity) env st in
           if limited then (Inl too_many, st1)
           else if sac_always_allow cfg then (Inr identity, st1)
           else (case subject_access_review (aen_server env) client identity (sr_namespace req) (sr_pod_name req)
                        (sr_subresource req) (sr_verb req) of
                   Inl e \<Rightarrow> (Inl (403, ''Forbidden'', e), st1)
                 | Inr _ \<Rightarrow> (Inr identity, st1))))"

definition authorize_stream_request ::
  "'c auth_env \<Rightarrow> 'c StreamAuthConfig \<Rightarrow> stream_request \<Rightarrow> 'c auth_state \<Rightarrow> (refusal + AuthIdentity) \<times> 'c auth_state" where
  "authorize_stream_request env cfg req st =
     (case sr_cert_cn req of
        Some cn \<Rightarrow> (Inr \<lparr>ai_username = cn, ai_uid = None, ai_groups = []\<rparr>, st)
      | None \<Rightarrow>
          (case extract_bearer_token (sr_headers req) of
             None \<Rightarrow>
               if sac_anonymous_auth cfg then
                 (if sac_always_allow cfg then (Inr anonymous_identity, st)
                  else let (limited, st1) = rate_limited (ai_username anonymous_identity) env st
                       in if limited then (Inl too_many, st1) else (Inr anonymous_identity, st1))
               else (Inl (401, ''Unauthorized'', ''missing bearer token''), st)
           | Some token \<Rightarrow>
               (let (client, cached) = kube_client (aen_try_default env) (sac_kube_client cfg) (ast_cached st);
                    st1 = st\<lparr>ast_cached := cached\<rparr>
                in case client of
                     None \<Rightarrow>
                       if sac_always_allow cfg
                       then (Inr \<lparr>ai_username = ''system:serviceaccount'', ai_uid = None, ai_groups = []\<rparr>, st1)
                       else if insecure_fallback (aen_fallback env) then (Inr anonymous_identity, st1)
                       else (Inl (503, ''ServiceUnavailable'', ''streaming auth backend unavailable''), st1)
                   | Some c \<Rightarrow> authorize_token env cfg req c token st1)))"

text \<open>C4: Nobody without a client certificate opens a stream unless the API server authenticated the bearer token as the returned user
  and allowed that user this very request, provided anonymous access, the setting that allows everything and the insecure fallback are
  all off.\<close>

theorem no_stream_without_review:
  assumes "sr_cert_cn req = None" "\<not> sac_anonymous_auth cfg" "\<not> sac_always_allow cfg" "\<not> insecure_fallback (aen_fallback env)"
    "authorize_stream_request env cfg req st = (Inr identity, st')"
  shows "\<exists>client token status user.
           extract_bearer_token (sr_headers req) = Some token \<and>
           as_token_review (aen_server env) client token = Inr (Some status) \<and> trs_authenticated status = Some True \<and>
           trs_user status = Some user \<and> ui_username user = Some (ai_username identity) \<and>
           (\<exists>reason. as_access_review (aen_server env) client identity
              \<lparr>ra_namespace = sr_namespace req, ra_verb = sr_verb req, ra_subresource = sr_subresource req, ra_name = sr_pod_name req\<rparr> =
              Inr (Some (True, reason)))"
proof -
  obtain token c st1 where t: "extract_bearer_token (sr_headers req) = Some token"
    and a: "authorize_token env cfg req c token st1 = (Inr identity, st')"
    using assms by (auto simp: authorize_stream_request_def Let_def split: option.splits prod.splits if_splits)
  have r: "token_review (aen_server env) c token = Inr identity"
    and s: "subject_access_review (aen_server env) c identity (sr_namespace req) (sr_pod_name req) (sr_subresource req) (sr_verb req) = Inr ()"
    using a assms(3) by (auto simp: authorize_token_def Let_def split: sum.splits prod.splits if_splits)
  from s obtain reason where "as_access_review (aen_server env) c identity
      \<lparr>ra_namespace = sr_namespace req, ra_verb = sr_verb req, ra_subresource = sr_subresource req, ra_name = sr_pod_name req\<rparr> =
      Inr (Some (True, reason))"
    by (auto simp: subject_access_review_def split: sum.splits option.splits prod.splits if_splits)
  moreover from r obtain status user where "as_token_review (aen_server env) c token = Inr (Some status)"
    "trs_authenticated status = Some True" "trs_user status = Some user" "ui_username user = Some (ai_username identity)"
    by (auto simp: token_review_def split: sum.splits option.splits if_splits)
  ultimately show ?thesis using t by blast
qed


text \<open>A server that knows one token and lets its user read logs.\<close>

definition demo_auth_env :: "unit auth_env" where
  "demo_auth_env =
     \<lparr>aen_server =
        \<lparr>as_token_review = (\<lambda>_ token.
           if token = ''t'' then Inr (Some \<lparr>trs_authenticated = Some True, trs_error = None,
               trs_user = Some \<lparr>ui_username = Some ''u'', ui_uid = None, ui_groups = None\<rparr>\<rparr>) else Inl ''no such token''),
         as_access_review = (\<lambda>_ identity ra. Inr (Some (ai_username identity = ''u'' \<and> ra_subresource ra = ''log'', None)))\<rparr>,
      aen_try_default = Some (), aen_fallback = None, aen_now = 0\<rparr>"

definition demo_request :: "string \<Rightarrow> stream_request" where
  "demo_request sub =
     \<lparr>sr_headers = [(''authorization'', ''Bearer t'')], sr_namespace = ''n'', sr_pod_name = ''p'', sr_subresource = sub, sr_verb = ''get'',
      sr_cert_cn = None\<rparr>"

definition strict_config :: "unit StreamAuthConfig" where
  "strict_config = \<lparr>sac_anonymous_auth = False, sac_always_allow = False, sac_kube_client = None\<rparr>"

definition fresh_state :: "unit auth_state" where
  "fresh_state = \<lparr>ast_limiter = stream_rate_limiter, ast_cached = None\<rparr>"

lemmas demo_auth_defs = demo_auth_env_def demo_request_def strict_config_def fresh_state_def

lemma demo_authorized:
  "\<exists>st. authorize_stream_request demo_auth_env strict_config (demo_request ''log'') fresh_state =
     (Inr \<lparr>ai_username = ''u'', ai_uid = None, ai_groups = []\<rparr>, st)"
  by (simp add: demo_auth_defs authorize_stream_request_def authorize_token_def extract_bearer_token_def header_text_def kube_client_def
      token_review_def subject_access_review_def rate_limited_def limiter_allow_def recent_events_def stream_rate_limiter_def
      FixedWindowRateLimiter_new_def Let_def)

theorem no_stream_without_review_witness:
  "\<exists>token reason. extract_bearer_token (sr_headers (demo_request ''log'')) = Some token \<and>
     as_access_review (aen_server demo_auth_env) () \<lparr>ai_username = ''u'', ai_uid = None, ai_groups = []\<rparr>
       \<lparr>ra_namespace = ''n'', ra_verb = ''get'', ra_subresource = ''log'', ra_name = ''p''\<rparr> = Inr (Some (True, reason))"
proof -
  obtain st where st: "authorize_stream_request demo_auth_env strict_config (demo_request ''log'') fresh_state =
     (Inr \<lparr>ai_username = ''u'', ai_uid = None, ai_groups = []\<rparr>, st)"
    using demo_authorized by blast
  show ?thesis
    using no_stream_without_review [OF _ _ _ _ st] by (auto simp: demo_auth_defs insecure_fallback_def)
qed

text \<open>With anonymous access on, the identity is returned before any review: whoever leaves the token out passes, while the same request with
  a token may be refused.\<close>

lemma anonymous_skips_authorization:
  assumes "sr_cert_cn req = None" "extract_bearer_token (sr_headers req) = None" "sac_anonymous_auth cfg"
    "fst (limiter_allow (aen_now env) ''system:anonymous'' (ast_limiter st))"
  shows "fst (authorize_stream_request env cfg req st) = Inr anonymous_identity"
  using assms by (auto simp: authorize_stream_request_def rate_limited_def anonymous_identity_def split: prod.splits)

lemma token_is_refused_where_anonymous_passes:
  "fst (authorize_stream_request demo_auth_env (strict_config\<lparr>sac_anonymous_auth := True\<rparr>) (demo_request ''exec'') fresh_state) =
     Inl (403, ''Forbidden'', ''RBAC denied request'')"
  "fst (authorize_stream_request demo_auth_env (strict_config\<lparr>sac_anonymous_auth := True\<rparr>) ((demo_request ''exec'')\<lparr>sr_headers := []\<rparr>)
     fresh_state) = Inr anonymous_identity"
  by (simp_all add: demo_auth_defs authorize_stream_request_def authorize_token_def extract_bearer_token_def header_text_def kube_client_def
      token_review_def subject_access_review_def rate_limited_def limiter_allow_def recent_events_def stream_rate_limiter_def
      FixedWindowRateLimiter_new_def Let_def)

text \<open>A client certificate is neither reviewed nor limited.\<close>

lemma certificate_suffices:
  "sr_cert_cn req = Some cn \<Longrightarrow>
     authorize_stream_request env cfg req st = (Inr \<lparr>ai_username = cn, ai_uid = None, ai_groups = []\<rparr>, st)"
  by (simp add: authorize_stream_request_def)

end
