(* ===== verification/Stream_Exec.thy ===== *)
theory Stream_Exec
  imports Spdy Stream_Auth
begin

section \<open>Commands over streams\<close>

text \<open>
  \<^verbatim>\<open>exec\<close> and \<^verbatim>\<open>attach\<close> of \<^verbatim>\<open>kubelet-app/src/streaming/mod.rs\<close>: the query, the choice of the container, the result over a web
  socket or over SPDY. Writing JSON and reading it, the header codec and the answers of the runtime are arguments. Logging and metrics
  are left out.
\<close>

subsection \<open>The query\<close>

text \<open>\<^verbatim>\<open>String::push\<close> of the character with this code, below 256.\<close>

definition push_char :: "nat \<Rightarrow> string" where
  "push_char n = (if n < 128 then [char_of n] else [char_of (0xC0 + n div 64), char_of (0x80 + n mod 64)])"

definition hex_digit :: "char \<Rightarrow> nat option" where
  "hex_digit c =
     (let n = (of_char c :: nat) in
      if 48 \<le> n \<and> n \<le> 57 then Some (n - 48) else if 97 \<le> n \<and> n \<le> 102 then Some (n - 87)
      else if 65 \<le> n \<and> n \<le> 70 then Some (n - 55) else None)"

fun percent_decode :: "string \<Rightarrow> string" where
  "percent_decode [] = []"
| "percent_decode (c # cs) =
     (case (if c = CHR ''%'' then (case cs of h # l # r \<Rightarrow> Option.bind (hex_digit h) (\<lambda>x. map_option (Pair x) (hex_digit l)) | _ \<Rightarrow> None)
            else None) of
        Some (h, l) \<Rightarrow> push_char (16 * h + l) @ percent_decode (drop 2 cs)
      | None \<Rightarrow> (if c = CHR ''+'' then '' '' else push_char (of_char c)) @ percent_decode cs)"

record ExecQuery =
  eq_container :: "string option"
  eq_command :: "string list"
  eq_stdin :: "bool option"
  eq_stdout :: "bool option"
  eq_stderr :: "bool option"
  eq_tty :: "bool option"

definition query_bool :: "string \<Rightarrow> bool option" where
  "query_bool v = Some (v = ''1'' \<or> v = ''true'')"

definition query_param :: "string \<Rightarrow> string \<times> string" where
  "query_param p =
     (case split_once CHR ''='' p of Some (k, v) \<Rightarrow> (percent_decode k, percent_decode v) | None \<Rightarrow> (percent_decode p, percent_decode []))"

definition query_step :: "string \<times> string \<Rightarrow> ExecQuery \<Rightarrow> ExecQuery" where
  "query_step kv q =
     (let (k, v) = kv in
      if k = ''container'' then q\<lparr>eq_container := Some v\<rparr>
      else if k = ''command'' then q\<lparr>eq_command := eq_command q @ [v]\<rparr>
      else if k = ''stdin'' then q\<lparr>eq_stdin := query_bool v\<rparr>
      else if k = ''stdout'' then q\<lparr>eq_stdout := query_bool v\<rparr>
      else if k = ''stderr'' then q\<lparr>eq_stderr := query_bool v\<rparr>
      else if k = ''tty'' then q\<lparr>eq_tty := query_bool v\<rparr>
      else q)"

definition empty_query :: ExecQuery where
  "empty_query = \<lparr>eq_container = None, eq_command = [], eq_stdin = None, eq_stdout = None, eq_stderr = None, eq_tty = None\<rparr>"

definition parse_exec_query :: "string \<Rightarrow> ExecQuery" where
  "parse_exec_query raw = fold (\<lambda>p. query_step (query_param p)) (split_on CHR ''&'' raw) empty_query"

text \<open>A client encodes what is not plain with two hexadecimal digits.\<close>

definition hex_char :: "nat \<Rightarrow> char" where
  "hex_char n = (if n < 10 then char_of (48 + n) else char_of (55 + n))"

definition percent_encode :: "(char \<Rightarrow> bool) \<Rightarrow> string \<Rightarrow> string" where
  "percent_encode plain s =
     concat (map (\<lambda>c. if plain c then [c] else [CHR ''%'', hex_char (of_char c div 16), hex_char (of_char c mod 16)]) s)"

abbreviation ascii :: "string \<Rightarrow> bool" where
  "ascii s \<equiv> list_all (\<lambda>c. (of_char c :: nat) < 128) s"

lemma hex_digit_char: "n < 16 \<Longrightarrow> hex_digit (hex_char n) = Some n"
  by (auto simp: hex_digit_def hex_char_def Let_def)

lemma hex_char_safe: "n < 16 \<Longrightarrow> hex_char n \<noteq> CHR ''&'' \<and> hex_char n \<noteq> CHR ''=''"
  by (auto simp: hex_char_def dest!: arg_cong [of _ _ "of_char :: char \<Rightarrow> nat"])

lemma percent_decode_encode:
  assumes "\<And>c. plain c \<Longrightarrow> c \<noteq> CHR ''%'' \<and> c \<noteq> CHR ''+''" "ascii s"
  shows "percent_decode (percent_encode plain s) = s"
  using assms(2)
proof (induction s)
  case Nil
  then show ?case by (simp add: percent_encode_def)
next
  case (Cons c s)
  have n: "(of_char c :: nat) div 16 < 16" "(of_char c :: nat) mod 16 < 16" using Cons.prems by auto
  have "16 * (of_char c div 16) + of_char c mod 16 = (of_char c :: nat)" by simp
  then have p: "push_char (16 * (of_char c div 16) + of_char c mod 16) = [c]" "push_char (of_char c) = [c]"
    using Cons.prems by (simp_all add: push_char_def)
  show ?case
  proof (cases "plain c")
    case True
    then show ?thesis using Cons assms(1) [OF True] p by (simp add: percent_encode_def)
  next
    case False
    then show ?thesis using Cons p n by (simp add: percent_encode_def hex_digit_char)
  qed
qed

lemma encoded_is_safe:
  assumes "\<And>c. plain c \<Longrightarrow> c \<noteq> CHR ''&'' \<and> c \<noteq> CHR ''=''" "ascii s"
  shows "CHR ''&'' \<notin> set (percent_encode plain s)" "CHR ''='' \<notin> set (percent_encode plain s)"
proof -
  have "(of_char c :: nat) div 16 < 16" "(of_char c :: nat) mod 16 < 16" if "c \<in> set s" for c
    using assms(2) that by (auto simp: list_all_iff)
  then have "CHR ''&'' \<notin> set (if plain c then [c] else [CHR ''%'', hex_char (of_char c div 16), hex_char (of_char c mod 16)]) \<and>
      CHR ''='' \<notin> set (if plain c then [c] else [CHR ''%'', hex_char (of_char c div 16), hex_char (of_char c mod 16)])"
    if "c \<in> set s" for c
    using assms(1) [of c] hex_char_safe [of "of_char c div 16"] hex_char_safe [of "of_char c mod 16"] that by auto
  then show "CHR ''&'' \<notin> set (percent_encode plain s)" "CHR ''='' \<notin> set (percent_encode plain s)"
    by (simp_all add: percent_encode_def del: if_image_distrib)
qed




text \<open>The bytes of a character that is not ASCII become one character each.\<close>

lemma non_ascii_word_is_garbled:
  "percent_decode ''%C3%A9'' = [CHR 0xC3, CHR 0x83, CHR 0xC2, CHR 0xA9]" "from_utf8 [CHR 0xC3, CHR 0xA9] = Some [CHR 0xC3, CHR 0xA9]"
proof -
  have "push_char 195 = [CHR 0xC3, CHR 0x83]" "push_char 169 = [CHR 0xC2, CHR 0xA9]" by (simp_all add: push_char_def char_of_def bit_Suc_0_iff)
  moreover have "hex_digit CHR ''C'' = Some 12" "hex_digit CHR ''3'' = Some 3" "hex_digit CHR ''A'' = Some 10" "hex_digit CHR ''9'' = Some 9"
    by (simp_all add: hex_digit_def)
  ultimately show "percent_decode ''%C3%A9'' = [CHR 0xC3, CHR 0x83, CHR 0xC2, CHR 0xA9]" by simp
  show "from_utf8 [CHR 0xC3, CHR 0xA9] = Some [CHR 0xC3, CHR 0xA9]"
    by code_simp
qed

subsection \<open>The container\<close>

definition first_label :: "string \<Rightarrow> string \<Rightarrow> RuntimeContainer \<Rightarrow> string" where
  "first_label k1 k2 c =
     (case hm_get (rtc_labels c) k1 of
        Some v \<Rightarrow> v
      | None \<Rightarrow> (case hm_get (rtc_labels c) k2 of Some v \<Rightarrow> v | None \<Rightarrow> []))"

definition is_target :: "string \<Rightarrow> string \<Rightarrow> string \<Rightarrow> RuntimeContainer \<Rightarrow> bool" where
  "is_target ns pod_name container_name c \<longleftrightarrow>
     first_label ''kubelet.rs/pod_name'' ''io.kubernetes.pod.name'' c = pod_name \<and>
     first_label ''kubelet.rs/pod_namespace'' ''io.kubernetes.pod.namespace'' c = ns \<and>
     (container_name = [] \<or> first_label ''kubelet.rs/container_name'' ''io.kubernetes.container.name'' c = container_name) \<and>
     rtc_state c = RRunning"

definition newer_target :: "RuntimeContainer \<Rightarrow> RuntimeContainer option \<Rightarrow> RuntimeContainer option" where
  "newer_target c best =
     (case best of None \<Rightarrow> Some c | Some prev \<Rightarrow> if rtc_created_at c > rtc_created_at prev then Some c else best)"

definition find_container_id :: "RuntimeContainer list option \<Rightarrow> string \<Rightarrow> string \<Rightarrow> string \<Rightarrow> ContainerID option" where
  "find_container_id listing ns pod_name container_name =
     Option.bind listing (\<lambda>cs.
       map_option rtc_id (fold (\<lambda>c best. if is_target ns pod_name container_name c then newer_target c best else best) cs None))"

lemma fold_newer:
  "fold (\<lambda>c best. if P c then newer_target c best else best) cs b = Some c \<Longrightarrow>
     (Some c = b \<or> c \<in> set cs \<and> P c) \<and> (\<forall>d. Some d = b \<or> d \<in> set cs \<and> P d \<longrightarrow> rtc_created_at d \<le> rtc_created_at c)"
proof (induction cs arbitrary: b)
  case (Cons x cs)
  let ?b = "if P x then newer_target x b else b"
  have ih: "(Some c = ?b \<or> c \<in> set cs \<and> P c) \<and> (\<forall>d. Some d = ?b \<or> d \<in> set cs \<and> P d \<longrightarrow> rtc_created_at d \<le> rtc_created_at c)"
    using Cons.prems by (intro Cons.IH) simp
  have step: "\<exists>d'. Some d' = ?b \<and> rtc_created_at d \<le> rtc_created_at d'" if "Some d = b \<or> d = x \<and> P x" for d
    using that by (cases b) (auto simp: newer_target_def)
  have mem: "Some c = ?b \<Longrightarrow> Some c = b \<or> c = x \<and> P x" by (auto simp: newer_target_def split: if_splits option.splits)
  show ?case using ih step mem by (auto; blast intro: order_trans)
qed simp

lemma fold_newer_None:
  "fold (\<lambda>c best. if P c then newer_target c best else best) cs b = None \<longleftrightarrow> b = None \<and> (\<forall>c \<in> set cs. \<not> P c)"
  by (induction cs arbitrary: b) (auto simp: newer_target_def split: option.splits)

text \<open>C25: A command goes to the most recently created running container of the pod that has the asked name, or any name when none is
  asked; it goes nowhere exactly when there is no such container or the runtime does not answer.\<close>

theorem exec_targets_newest_running:
  "case find_container_id listing ns pod_name container_name of
     Some i \<Rightarrow>
       \<exists>cs c. listing = Some cs \<and> c \<in> set cs \<and> rtc_id c = i \<and> is_target ns pod_name container_name c \<and>
         (\<forall>d \<in> set cs. is_target ns pod_name container_name d \<longrightarrow> rtc_created_at d \<le> rtc_created_at c)
   | None \<Rightarrow> \<forall>cs. listing = Some cs \<longrightarrow> (\<forall>c \<in> set cs. \<not> is_target ns pod_name container_name c)"
proof (cases listing)
  case (Some cs)
  let ?f = "fold (\<lambda>c best. if is_target ns pod_name container_name c then newer_target c best else best) cs None"
  show ?thesis
  proof (cases ?f)
    case None
    then show ?thesis using fold_newer_None [of "is_target ns pod_name container_name" cs None] Some by (simp add: find_container_id_def)
  next
    case (Some c)
    then show ?thesis
      using fold_newer [OF Some] \<open>listing = Some cs\<close> by (auto simp: find_container_id_def)
  qed
qed (simp add: find_container_id_def)

definition attempt_at :: "string \<Rightarrow> RuntimeContainerState \<Rightarrow> timestamp \<Rightarrow> RuntimeContainer" where
  "attempt_at i st t =
     \<lparr>rtc_id = i, rtc_pod_uid = ''u'', rtc_name = ''a'', rtc_pid = None, rtc_image = [], rtc_image_ref = [], rtc_state = st, rtc_created_at = t,
      rtc_started_at = None, rtc_finished_at = None, rtc_exit_code = None, rtc_exit_reason = None,
      rtc_labels = [(''kubelet.rs/pod_name'', ''p''), (''kubelet.rs/pod_namespace'', ''n''), (''kubelet.rs/container_name'', ''a'')], rtc_attempt = 0\<rparr>"

theorem exec_targets_newest_running_witness:
  "find_container_id (Some [attempt_at ''old'' RRunning 1, attempt_at ''new'' RRunning 2, attempt_at ''dead'' RExited 3]) ''n'' ''p'' [] = Some ''new''"
proof -
  let ?cs = "[attempt_at ''old'' RRunning 1, attempt_at ''new'' RRunning 2, attempt_at ''dead'' RExited 3]"
  have t: "is_target ''n'' ''p'' [] (attempt_at i st t) \<longleftrightarrow> st = RRunning" "rtc_created_at (attempt_at i st t) = t" "rtc_id (attempt_at i st t) = i" for i st t
    by (simp_all add: is_target_def first_label_def attempt_at_def)
  show ?thesis
  proof (cases "find_container_id (Some ?cs) ''n'' ''p'' []")
    case None
    then show ?thesis using exec_targets_newest_running [of "Some ?cs" "''n''" "''p''" "[]"] by (simp add: t)
  next
    case (Some i)
    have "\<exists>cs c. Some ?cs = Some cs \<and> c \<in> set cs \<and> rtc_id c = i \<and> is_target ''n'' ''p'' [] c \<and>
        (\<forall>d \<in> set cs. is_target ''n'' ''p'' [] d \<longrightarrow> rtc_created_at d \<le> rtc_created_at c)"
      using exec_targets_newest_running [of "Some ?cs" "''n''" "''p''" "[]"] unfolding Some by (simp only: option.case)
    then obtain c where "c \<in> set ?cs" "rtc_id c = i" "is_target ''n'' ''p'' [] c"
        "\<forall>d \<in> set ?cs. is_target ''n'' ''p'' [] d \<longrightarrow> rtc_created_at d \<le> rtc_created_at c"
      by (elim exE conjE) (simp only: option.inject)
    then have "i = ''new''" by (simp add: t) (elim disjE; simp add: t)
    then show ?thesis using Some by simp
  qed
qed

subsection \<open>Running a command\<close>

text \<open>What the runtime answers: its list of containers, and the result of a command or of an attachment, both waited for 30 seconds.\<close>

record stream_runtime =
  srt_containers :: "RuntimeContainer list option"
  srt_exec_sync :: "ContainerID \<Rightarrow> string list \<Rightarrow> nat \<Rightarrow> string + ExecResult"
  srt_attach_sync :: "ContainerID \<Rightarrow> nat \<Rightarrow> string + ExecResult"

definition not_found_message :: "string \<Rightarrow> string \<Rightarrow> string \<Rightarrow> string" where
  "not_found_message container ns pod_name =
     ''container '' @ [CHR 0x27] @ container @ [CHR 0x27] @ '' not found in pod '' @ [CHR 0x27] @ ns @ ''/'' @ pod_name @ [CHR 0x27]"

definition exec_command :: "ExecQuery \<Rightarrow> string list" where
  "exec_command q = (if eq_command q = [] then [''sh''] else eq_command q)"

definition query_container :: "ExecQuery \<Rightarrow> string" where
  "query_container q = (case eq_container q of Some c \<Rightarrow> c | None \<Rightarrow> [])"

definition run_exec_core :: "stream_runtime \<Rightarrow> string \<Rightarrow> string \<Rightarrow> ExecQuery \<Rightarrow> nat \<times> string + ExecResult" where
  "run_exec_core rt ns pod_name q =
     (case find_container_id (srt_containers rt) ns pod_name (query_container q) of
        None \<Rightarrow> Inl (404, not_found_message (query_container q) ns pod_name)
      | Some i \<Rightarrow> (case srt_exec_sync rt i (exec_command q) 30 of Inl e \<Rightarrow> Inl (500, ''exec failed: '' @ e) | Inr r \<Rightarrow> Inr r))"

definition run_attach_core :: "stream_runtime \<Rightarrow> string \<Rightarrow> string \<Rightarrow> ExecQuery \<Rightarrow> nat \<times> string + ExecResult" where
  "run_attach_core rt ns pod_name q =
     (case find_container_id (srt_containers rt) ns pod_name (query_container q) of
        None \<Rightarrow> Inl (404, not_found_message (query_container q) ns pod_name)
      | Some i \<Rightarrow> (case srt_attach_sync rt i 30 of Inl e \<Rightarrow> Inl (500, ''attach failed: '' @ e) | Inr r \<Rightarrow> Inr r))"

subsection \<open>The status of a command\<close>

definition failure_status :: "string \<Rightarrow> nat \<Rightarrow> json" where
  "failure_status message code = JObj [(''status'', JStr ''Failure''), (''message'', JStr message), (''code'', JInt (int code))]"

definition exit_message :: "int \<Rightarrow> string" where
  "exit_message code = ''command terminated with exit code '' @ show_int code"

definition exit_status :: "int \<Rightarrow> json" where
  "exit_status code =
     (if code = 0 then
        JObj [(''kind'', JStr ''Status''), (''apiVersion'', JStr ''v1''), (''metadata'', JObj []), (''status'', JStr ''Success''),
              (''code'', JInt 200)]
      else
        JObj [(''kind'', JStr ''Status''), (''apiVersion'', JStr ''v1''), (''metadata'', JObj []), (''status'', JStr ''Failure''),
              (''message'', JStr (exit_message code)), (''reason'', JStr ''NonZeroExitCode''),
              (''details'', JObj [(''causes'', JArr [JObj [(''reason'', JStr ''ExitCode''), (''message'', JStr (show_int code))]])]),
              (''code'', JInt 500)])"

definition failure_status_payload :: "(json \<Rightarrow> string) \<Rightarrow> string \<Rightarrow> nat \<Rightarrow> u8 list" where
  "failure_status_payload json_text message code = as_bytes (json_text (failure_status message code))"

definition exit_status_payload :: "(json \<Rightarrow> string) \<Rightarrow> int \<Rightarrow> u8 list" where
  "exit_status_payload json_text code = as_bytes (json_text (exit_status code))"

definition exit_status_payload_v1 :: "int \<Rightarrow> u8 list option" where
  "exit_status_payload_v1 code = (if code = 0 then None else Some (as_bytes (exit_message code)))"

subsection \<open>Over a web socket\<close>

definition is_legacy_ws_protocol :: "string option \<Rightarrow> bool" where
  "is_legacy_ws_protocol protocol =
     (case protocol of Some p \<Rightarrow> p \<in> {''channel.k8s.io'', ''v2.channel.k8s.io'', ''v3.channel.k8s.io''} | None \<Rightarrow> True)"

text \<open>The messages that must be sent for the result to count as delivered, and those whose failure is ignored. A message is sent when the
  socket takes it; \<open>accepts\<close> says so by the number of attempts before it.\<close>

definition result_messages :: "(json \<Rightarrow> string) \<Rightarrow> bool \<Rightarrow> ExecResult \<Rightarrow> u8 list list" where
  "result_messages json_text legacy r =
     (if er_stdout r \<noteq> [] then [FramedMessage_encode (FramedMessage_new STREAM_STDOUT (as_bytes (er_stdout r)))] else []) @
     (if er_stderr r \<noteq> [] then [FramedMessage_encode (FramedMessage_new STREAM_STDERR (as_bytes (er_stderr r)))] else []) @
     (case (if legacy then exit_status_payload_v1 (er_exit_code r) else Some (exit_status_payload json_text (er_exit_code r))) of
        Some p \<Rightarrow> [FramedMessage_encode (FramedMessage_new STREAM_ERROR p)]
      | None \<Rightarrow> [])"

fun send_messages :: "(nat \<Rightarrow> bool) \<Rightarrow> nat \<Rightarrow> u8 list list \<Rightarrow> bool \<times> u8 list list" where
  "send_messages accepts n [] = (True, [])"
| "send_messages accepts n (m # ms) =
     (if accepts n then (let (ok, sent) = send_messages accepts (Suc n) ms in (ok, m # sent)) else (False, []))"

definition close_messages :: "u8 list list" where
  "close_messages = map (\<lambda>i. [STREAM_CLOSE, i]) [STREAM_STDOUT, STREAM_STDERR, STREAM_ERROR]"

definition send_exec_result_ws ::
  "(json \<Rightarrow> string) \<Rightarrow> (nat \<Rightarrow> bool) \<Rightarrow> string option \<Rightarrow> ExecResult \<Rightarrow> int option \<times> u8 list list" where
  "send_exec_result_ws json_text accepts protocol r =
     (let legacy = is_legacy_ws_protocol protocol; ms = result_messages json_text legacy r; (ok, sent) = send_messages accepts 0 ms
      in if \<not> ok then (None, sent)
         else (Some (er_exit_code r),
               sent @ (if legacy then [] else map snd (filter (\<lambda>(n, m). accepts n) (enumerate (length ms) close_messages)))))"

lemma send_all_messages: "send_messages (\<lambda>_. True) n ms = (True, ms)"
  by (induction ms arbitrary: n) simp_all

text \<open>Over a web socket that takes every message the client gets the result back: splitting the messages by their stream yields the
  output and the errors of the command, and the status its exit code stands for; in the older protocols nothing when it succeeded.\<close>

theorem exec_result_demultiplexed:
  assumes "json_from_slice (as_bytes (json_text (exit_status (er_exit_code r)))) = Some (exit_status (er_exit_code r))"
  shows "let (code, sent) = send_exec_result_ws json_text (\<lambda>_. True) protocol r;
             m = demux json_from_slice (List.map_filter FramedMessage_decode sent)
         in code = Some (er_exit_code r) \<and> concat (sm_stdout m) = as_bytes (er_stdout r) \<and> concat (sm_stderr m) = as_bytes (er_stderr r) \<and>
            (if \<not> is_legacy_ws_protocol protocol then sm_error m = Some (exit_status (er_exit_code r))
             else er_exit_code r = 0 \<longrightarrow> sm_error m = None)"
proof -
  have d: "List.map_filter FramedMessage_decode (map FramedMessage_encode ms) = ms" for ms
    by (induction ms) (simp_all add: map_filter_simps)
  have close: "List.map_filter FramedMessage_decode close_messages =
      map (\<lambda>i. FramedMessage_new STREAM_CLOSE [i]) [STREAM_STDOUT, STREAM_STDERR, STREAM_ERROR]"
    by (simp add: close_messages_def FramedMessage_decode_def FramedMessage_new_def map_filter_simps)
  have ign: "fold (demux_step json_from_slice) (map (\<lambda>i. FramedMessage_new STREAM_CLOSE [i]) xs) m = m" for xs m
    by (induction xs) (simp_all add: demux_step_def FramedMessage_new_def stream_ids)
  have app: "List.map_filter FramedMessage_decode (xs @ ys) = List.map_filter FramedMessage_decode xs @ List.map_filter FramedMessage_decode ys"
    for xs ys by (simp add: List.map_filter_def)
  have e: "filter (\<lambda>(n, m). True) xs = xs" for xs :: "(nat \<times> u8 list) list" by (simp add: case_prod_unfold)
  define fs where "fs = (if er_stdout r \<noteq> [] then [FramedMessage_new STREAM_STDOUT (as_bytes (er_stdout r))] else []) @
     (if er_stderr r \<noteq> [] then [FramedMessage_new STREAM_STDERR (as_bytes (er_stderr r))] else []) @
     (case (if is_legacy_ws_protocol protocol then exit_status_payload_v1 (er_exit_code r)
            else Some (exit_status_payload json_text (er_exit_code r))) of
        Some p \<Rightarrow> [FramedMessage_new STREAM_ERROR p]
      | None \<Rightarrow> [])"
  have "result_messages json_text (is_legacy_ws_protocol protocol) r = map FramedMessage_encode fs"
    by (auto simp: result_messages_def fs_def split: option.split)
  then have s: "send_exec_result_ws json_text (\<lambda>_. True) protocol r =
      (Some (er_exit_code r), map FramedMessage_encode fs @ (if is_legacy_ws_protocol protocol then [] else close_messages))"
    by (simp add: send_exec_result_ws_def send_all_messages Let_def e)
  have fd: "demux json_from_slice (List.map_filter FramedMessage_decode
      (map FramedMessage_encode fs @ (if is_legacy_ws_protocol protocol then [] else close_messages))) = demux json_from_slice fs"
    by (simp add: app d close demux_def ign del: list.map)
  show ?thesis
    unfolding s Let_def prod.case fd
    by (auto simp: fs_def demux_def demux_step_def FramedMessage_new_def stream_ids exit_status_payload_v1_def exit_status_payload_def
        assms)
qed


theorem exec_result_demultiplexed_witness:
  "let (code, sent) = send_exec_result_ws (\<lambda>_. ''{}'') (\<lambda>_. True) (Some ''v4.channel.k8s.io'')
         \<lparr>er_stdout = ''hi'', er_stderr = ''no'', er_exit_code = 0\<rparr>;
       m = demux (\<lambda>_. Some (exit_status 0)) (List.map_filter FramedMessage_decode sent)
   in code = Some 0 \<and> concat (sm_stdout m) = as_bytes ''hi'' \<and> concat (sm_stderr m) = as_bytes ''no'' \<and>
      sm_error m = Some (exit_status 0)"
  using exec_result_demultiplexed [of "\<lambda>_. Some (exit_status 0)" "\<lambda>_. ''{}''" "\<lparr>er_stdout = ''hi'', er_stderr = ''no'', er_exit_code = 0\<rparr>"
      "Some ''v4.channel.k8s.io''"]
  by (simp add: is_legacy_ws_protocol_def)


subsection \<open>The handlers\<close>

definition send_failure :: "(json \<Rightarrow> string) \<Rightarrow> (nat \<Rightarrow> bool) \<Rightarrow> nat \<Rightarrow> string \<Rightarrow> u8 list list" where
  "send_failure json_text accepts status message =
     (if accepts 0 then [FramedMessage_encode (FramedMessage_new STREAM_ERROR (failure_status_payload json_text message status))] else [])"

definition handle_exec_ws ::
  "(json \<Rightarrow> string) \<Rightarrow> (nat \<Rightarrow> bool) \<Rightarrow> string option \<Rightarrow> stream_runtime \<Rightarrow> string \<Rightarrow> string \<Rightarrow> ExecQuery \<Rightarrow> u8 list list" where
  "handle_exec_ws json_text accepts protocol rt ns pod_name q =
     (case run_exec_core rt ns pod_name q of
        Inr r \<Rightarrow> snd (send_exec_result_ws json_text accepts protocol r)
      | Inl (status, message) \<Rightarrow> send_failure json_text accepts status message)"

text \<open>What arrives within 25 milliseconds of each other before the attachment; only sizes of the terminal count. Each call resizes to
  width and height.\<close>

datatype ws_message = WsBinary "u8 list" | WsText string | WsClose

definition resize_of :: "(string \<Rightarrow> json option) \<Rightarrow> ws_message \<Rightarrow> (nat \<times> nat) option" where
  "resize_of parse_json m =
     (case m of
        WsBinary payload \<Rightarrow>
          (case FramedMessage_decode payload of
             Some f \<Rightarrow>
               if fm_stream_id f = STREAM_RESIZE then map_option (\<lambda>(h, w). (w, h)) (parse_resize_event parse_json (fm_payload f)) else None
           | None \<Rightarrow> None)
      | _ \<Rightarrow> None)"

definition handle_attach_ws ::
  "(json \<Rightarrow> string) \<Rightarrow> (string \<Rightarrow> json option) \<Rightarrow> (nat \<Rightarrow> bool) \<Rightarrow> string option \<Rightarrow> stream_runtime \<Rightarrow> string \<Rightarrow> string \<Rightarrow> ExecQuery \<Rightarrow>
   ws_message list \<Rightarrow> (ContainerID \<times> nat \<times> nat) list \<times> u8 list list" where
  "handle_attach_ws json_text parse_json accepts protocol rt ns pod_name q early =
     (case find_container_id (srt_containers rt) ns pod_name (query_container q) of
        None \<Rightarrow> ([], send_failure json_text accepts 404 (not_found_message (query_container q) ns pod_name))
      | Some i \<Rightarrow>
          (map (\<lambda>(w, h). (i, w, h)) (List.map_filter (resize_of parse_json) early),
           case run_attach_core rt ns pod_name q of
             Inr r \<Rightarrow> snd (send_exec_result_ws json_text accepts protocol r)
           | Inl (status, message) \<Rightarrow> send_failure json_text accepts status message))"

definition stream_config :: "bool \<Rightarrow> bool \<Rightarrow> 'c option \<Rightarrow> 'c StreamAuthConfig" where
  "stream_config anonymous_auth always_allow client =
     \<lparr>sac_anonymous_auth = anonymous_auth, sac_always_allow = always_allow, sac_kube_client = client\<rparr>"

text \<open>The session starts after the request was authorized.\<close>

definition exec_handler_inner ::
  "'c auth_env \<Rightarrow> 'c StreamAuthConfig \<Rightarrow> stream_request \<Rightarrow> (string \<Rightarrow> string \<Rightarrow> 'r) \<Rightarrow> 'c auth_state \<Rightarrow> (refusal + 'r) \<times> 'c auth_state" where
  "exec_handler_inner env cfg req session st =
     (case authorize_stream_request env cfg (req\<lparr>sr_subresource := ''exec'', sr_verb := ''create''\<rparr>) st of
        (Inl e, st') \<Rightarrow> (Inl e, st')
      | (Inr _, st') \<Rightarrow> (Inr (session (sr_namespace req) (sr_pod_name req)), st'))"

definition attach_handler_inner ::
  "'c auth_env \<Rightarrow> 'c StreamAuthConfig \<Rightarrow> stream_request \<Rightarrow> (string \<Rightarrow> string \<Rightarrow> 'r) \<Rightarrow> 'c auth_state \<Rightarrow> (refusal + 'r) \<times> 'c auth_state" where
  "attach_handler_inner env cfg req session st =
     (case authorize_stream_request env cfg (req\<lparr>sr_subresource := ''attach'', sr_verb := ''create''\<rparr>) st of
        (Inl e, st') \<Rightarrow> (Inl e, st')
      | (Inr _, st') \<Rightarrow> (Inr (session (sr_namespace req) (sr_pod_name req)), st'))"

definition port_forward_handler ::
  "'c auth_env \<Rightarrow> 'c StreamAuthConfig \<Rightarrow> stream_request \<Rightarrow> (string \<Rightarrow> string \<Rightarrow> 'r) \<Rightarrow> 'c auth_state \<Rightarrow> (refusal + 'r) \<times> 'c auth_state" where
  "port_forward_handler env cfg req session st =
     (case authorize_stream_request env cfg (req\<lparr>sr_subresource := ''portforward'', sr_verb := ''create''\<rparr>) st of
        (Inl e, st') \<Rightarrow> (Inl e, st')
      | (Inr _, st') \<Rightarrow> (Inr (session (sr_namespace req) (sr_pod_name req)), st'))"

end
