(* ===== verification/Worker_Text.thy ===== *)
theory Worker_Text
  imports Sandbox_Config
begin

section \<open>The pod worker's readings of texts: errors, registries, quantities, logs\<close>

text \<open>
  The pure functions of \<^verbatim>\<open>pod_worker/mod.rs\<close> that decide from the text of an error, an image reference, a
  quantity or a log: the classification of runtime errors, the extraction of reserved names, the choice of
  pull credentials, memory amounts, the termination message and the managed hosts file.
  \<^verbatim>\<open>to_lowercase\<close> is modelled on ASCII letters. The decoding of a secret's JSON and the exchange
  of service-account keys for tokens are arguments.
\<close>

subsection \<open>Classification of errors\<close>

fun is_transient_runtime_connection_error :: "KubeletError \<Rightarrow> bool" where
  "is_transient_runtime_connection_error (ERuntime msg) =
     (let lower = to_lowercase msg in
      contains_str ''status: unavailable'' lower \<or> contains_str ''connection refused'' lower \<or> contains_str ''transport error'' lower)"
| "is_transient_runtime_connection_error _ = False"

fun is_node_authz_transient_error :: "KubeletError \<Rightarrow> bool" where
  "is_node_authz_transient_error (ERuntime msg) =
     (let lower = to_lowercase msg in
      contains_str ''no relationship found between node'' lower \<and> (contains_str ''forbidden'' lower \<or> contains_str ''403'' lower))"
| "is_node_authz_transient_error _ = False"

fun is_sandbox_not_found_error :: "KubeletError \<Rightarrow> bool" where
  "is_sandbox_not_found_error (ERuntime msg) =
     (let lower = to_lowercase msg in
      (contains_str ''notfound'' lower \<or> contains_str ''not found'' lower) \<and>
      (contains_str ''sandbox'' lower \<or> contains_str ''find sandbox'' lower))"
| "is_sandbox_not_found_error _ = False"

fun is_registry_auth_error :: "KubeletError \<Rightarrow> bool" where
  "is_registry_auth_error (ERuntime msg) =
     (let lower = to_lowercase msg in
      contains_str ''403'' lower \<or> contains_str ''forbidden'' lower \<or> contains_str ''unauthorized'' lower \<or>
      contains_str ''authentication required'' lower \<or> contains_str ''pull access denied'' lower)"
| "is_registry_auth_error _ = False"

text \<open>\<^verbatim>\<open>str::find\<close> followed by a slice: what comes after the first occurrence of the marker.\<close>

fun after_first :: "string \<Rightarrow> string \<Rightarrow> string option" where
  "after_first m [] = (if m = [] then Some [] else None)"
| "after_first m (c # cs) = (case strip_prefix m (c # cs) of Some r \<Rightarrow> Some r | None \<Rightarrow> after_first m cs)"

text \<open>\<^verbatim>\<open>input.replace\<close> of a backslash and a quote by the quote.\<close>

fun unescape_quotes :: "string \<Rightarrow> string" where
  "unescape_quotes [] = []"
| "unescape_quotes [c] = [c]"
| "unescape_quotes (c # d # r) =
     (if c = CHR 0x5C \<and> d = CHR 0x22 then CHR 0x22 # unescape_quotes r else c # unescape_quotes (d # r))"

definition extract_quoted_value :: "string \<Rightarrow> string \<Rightarrow> string option" where
  "extract_quoted_value input marker =
     Option.bind (after_first marker (unescape_quotes input)) (\<lambda>t.
       Option.bind (strip_prefix [CHR 0x22] (trim_start t)) (\<lambda>quoted.
         map_option fst (split_once CHR 0x22 quoted)))"

definition reserved_container_name :: "string \<Rightarrow> string option" where
  "reserved_container_name err = extract_quoted_value err ''failed to reserve container name''"

definition reserved_container_id :: "string \<Rightarrow> ContainerID option" where
  "reserved_container_id err = extract_quoted_value err ''is reserved for''"

subsection \<open>Registries and pull credentials\<close>

definition normalize_registry_host :: "string \<Rightarrow> string" where
  "normalize_registry_host raw =
     to_lowercase (hd (split_on CHR ''/'' (trim_start_matches ''http://'' (trim_start_matches ''https://'' (trim raw)))))"

definition image_registry_host :: "string \<Rightarrow> string" where
  "image_registry_host image_ref =
     (let first = hd (split_on CHR ''/'' image_ref);
          is_registry = (CHR ''.'' \<in> set first \<or> first = ''localhost'' \<or>
            (case split_once CHR '':'' first of Some (_, port) \<Rightarrow> port \<noteq> [] \<and> list_all is_digit port | None \<Rightarrow> False))
      in if is_registry then normalize_registry_host first else ''docker.io'')"

definition host_matches_registry :: "string \<Rightarrow> string \<Rightarrow> bool" where
  "host_matches_registry auth_host image_registry =
     (let auth = normalize_registry_host auth_host; img = normalize_registry_host image_registry in
      auth = img \<or> (auth = ''index.docker.io'' \<and> img = ''docker.io'') \<or> (auth = ''docker.io'' \<and> img = ''index.docker.io''))"

record ImagePullSecret =
  ips_server :: string
  ips_username :: string
  ips_password :: string

text \<open>
  \<^verbatim>\<open>resolve_image_pull_secrets\<close>: \<open>sa\<close> is the answer to the lookup of the service account (the names it lists, some of
  which may be missing), \<open>secret\<close> the answer to the lookup of a secret, \<open>auths\<close> the entries parsed from it.
\<close>

definition pull_secret_names :: "PodSpec \<Rightarrow> ('e + string option list) option \<Rightarrow> string list" where
  "pull_secret_names pod sa =
     (case sa of
        Some (Inr refs) \<Rightarrow> fold push_new (List.map_filter id refs) (ps_image_pull_secrets pod)
      | _ \<Rightarrow> ps_image_pull_secrets pod)"

definition needs_secret_client :: "PodSpec \<Rightarrow> bool" where
  "needs_secret_client pod \<longleftrightarrow> ps_image_pull_secrets pod \<noteq> [] \<or> ps_service_account_name pod \<noteq> []"

definition matching_credentials :: "string \<Rightarrow> (string \<times> string \<times> string) list \<Rightarrow> ImagePullSecret list" where
  "matching_credentials registry entries =
     map (\<lambda>(host, user, pw). \<lparr>ips_server = host, ips_username = user, ips_password = pw\<rparr>)
       (filter (\<lambda>(host, _, _). host_matches_registry host registry) entries)"

definition resolve_image_pull_secrets ::
  "bool \<Rightarrow> ('e + string option list) \<Rightarrow> (string \<Rightarrow> 'e + 's) \<Rightarrow> ('s \<Rightarrow> (string \<times> string \<times> string) list) \<Rightarrow>
   PodSpec \<Rightarrow> string \<Rightarrow> ImagePullSecret list" where
  "resolve_image_pull_secrets has_client sa secret auths pod image_ref =
     (if needs_secret_client pod \<and> has_client then
        concat (map (\<lambda>name. case secret name of
            Inr s \<Rightarrow> matching_credentials (image_registry_host image_ref) (auths s)
          | Inl _ \<Rightarrow> []) (pull_secret_names pod (Some sa)))
      else [])"

subsection \<open>Memory amounts\<close>

definition sat_i64 :: "int \<Rightarrow> int" where
  "sat_i64 v = max (- (2 ^ 63)) (min (2 ^ 63 - 1) v)"

definition parse_i64_or_0 :: "string \<Rightarrow> int" where
  "parse_i64_or_0 s = (case parse_i64 s of Some v \<Rightarrow> v | None \<Rightarrow> 0)"

definition parse_memory_quantity_to_bytes :: "string \<Rightarrow> int" where
  "parse_memory_quantity_to_bytes raw =
     (let s = trim raw in
      case strip_suffix ''Ki'' s of
        Some x \<Rightarrow> sat_i64 (parse_i64_or_0 x * 1024)
      | None \<Rightarrow>
        (case strip_suffix ''Mi'' s of
           Some x \<Rightarrow> sat_i64 (sat_i64 (parse_i64_or_0 x * 1024) * 1024)
         | None \<Rightarrow>
           (case strip_suffix ''Gi'' s of
              Some x \<Rightarrow> sat_i64 (sat_i64 (sat_i64 (parse_i64_or_0 x * 1024) * 1024) * 1024)
            | None \<Rightarrow> parse_i64_or_0 s)))"

definition runtime_overhead_memory_bytes :: "PodSpec \<Rightarrow> (string, (string, string) hmap) hmap \<Rightarrow> int" where
  "runtime_overhead_memory_bytes pod runtime_overheads =
     (case Option.bind (Option.bind (ps_runtime_class_name pod) (hm_get runtime_overheads)) (\<lambda>r. hm_get r ''memory'') of
        Some raw \<Rightarrow> parse_memory_quantity_to_bytes raw
      | None \<Rightarrow>
          (case or_else (hm_get (ps_annotations pod) ''kube-air.io/runtime-overhead-memory'')
                        (hm_get (ps_annotations pod) ''kube-air.io/runtime-overhead-memory-bytes'') of
             Some raw \<Rightarrow> parse_memory_quantity_to_bytes raw
           | None \<Rightarrow> 0))"

definition container_memory :: "ContainerSpec \<Rightarrow> int" where
  "container_memory c =
     (case or_else (quantity_of (rr_limits (ctr_resources c)) ''memory'') (quantity_of (rr_requests (ctr_resources c)) ''memory'') of
        Some v \<Rightarrow> if 0 < v then v else 0
      | None \<Rightarrow> 0)"

definition calculate_pod_memory_requests :: "PodSpec \<Rightarrow> int" where
  "calculate_pod_memory_requests pod = sum_list (map container_memory (ps_containers pod @ ps_init_containers pod))"

definition container_restart_policy :: "ContainerSpec \<Rightarrow> RestartPolicy \<Rightarrow> RestartPolicy" where
  "container_restart_policy c pod = (case ctr_restart_policy c of Some p \<Rightarrow> p | None \<Rightarrow> pod)"

definition is_sidecar_init_container :: "ContainerSpec \<Rightarrow> bool" where
  "is_sidecar_init_container c \<longleftrightarrow> ctr_restart_policy c = Some Always"

subsection \<open>Identity of a sandbox\<close>

definition sandbox_matches_pod_identity :: "SandboxStatus \<Rightarrow> PodSpec \<Rightarrow> string \<Rightarrow> bool" where
  "sandbox_matches_pod_identity sandbox pod node_name =
     (let name = pr_name (ps_pod_ref pod); ns = pr_namespace (ps_pod_ref pod);
          base = strip_suffix (''-'' @ node_name) name
      in if sbs_pod_uid sandbox = ps_uid pod then True
         else if sbs_pod_name sandbox = name \<and> sbs_pod_namespace sandbox = ns then True
         else if base = Some (sbs_pod_name sandbox) \<and> sbs_pod_namespace sandbox = ns then True
         else case (hm_get (sbs_labels sandbox) ''io.kubernetes.pod.name'', hm_get (sbs_labels sandbox) ''io.kubernetes.pod.namespace'') of
           (Some label_name, Some label_ns) \<Rightarrow> label_ns = ns \<and> (label_name = name \<or> base = Some label_name)
         | _ \<Rightarrow> False)"

subsection \<open>Termination messages and the hosts file\<close>

definition MAX_BYTES :: nat where
  "MAX_BYTES = 4096"

text \<open>\<^verbatim>\<open>splitn(4, ' ').nth(3)\<close>: what follows the third space.\<close>

definition log_message :: "string \<Rightarrow> string" where
  "log_message raw_line =
     (case Option.bind (Option.bind (split_once CHR '' '' raw_line) (\<lambda>(_, r). split_once CHR '' '' r))
             (\<lambda>(_, r). split_once CHR '' '' r) of
        Some (_, rest) \<Rightarrow> rest
      | None \<Rightarrow> raw_line)"

text \<open>The lines from the last one backwards, until they reach the limit.\<close>

fun collect_lines :: "nat \<Rightarrow> string list \<Rightarrow> string list" where
  "collect_lines so_far [] = []"
| "collect_lines so_far (raw_line # rest) =
     (let msg = log_message raw_line; so_far' = so_far + length msg + 1
      in msg # (if MAX_BYTES \<le> so_far' then [] else collect_lines so_far' rest))"

definition log_tail :: "string \<Rightarrow> string" where
  "log_tail content = join [CHR 0x0A] (rev (collect_lines 0 (rev (str_lines content))))"

text \<open>\<open>term_log\<close> and \<open>ctr_log\<close> are the contents of the container's termination log and of its log file, when readable.\<close>

definition read_termination_message ::
  "string option \<Rightarrow> string option \<Rightarrow> string option \<Rightarrow> int \<Rightarrow> string option" where
  "read_termination_message term_log ctr_log policy exit_code =
     (case term_log of
        Some s \<Rightarrow> if s \<noteq> [] then Some s else
          (if policy = Some ''FallbackToLogsOnError'' \<and> exit_code \<noteq> 0 then
             (case ctr_log of None \<Rightarrow> None | Some content \<Rightarrow>
                if content = [] \<or> log_tail content = [] then None else Some (log_tail content))
           else None)
      | None \<Rightarrow>
          (if policy = Some ''FallbackToLogsOnError'' \<and> exit_code \<noteq> 0 then
             (case ctr_log of None \<Rightarrow> None | Some content \<Rightarrow>
                if content = [] \<or> log_tail content = [] then None else Some (log_tail content))
           else None))"

definition tab :: string where "tab = [CHR 0x09]"
definition newline :: string where "newline = [CHR 0x0A]"

definition pod_ip_line :: "PodSpec \<Rightarrow> string option \<Rightarrow> string" where
  "pod_ip_line pod pod_ip =
     (case pod_ip of
        None \<Rightarrow> []
      | Some ip \<Rightarrow>
          if ip = [] then []
          else let hostname = effective_hostname pod in
            (case ps_subdomain pod of
               Some subdomain \<Rightarrow>
                 if subdomain \<noteq> []
                 then ip @ tab @ hostname @ ''.'' @ subdomain @ ''.'' @ pr_namespace (ps_pod_ref pod) @ ''.svc.cluster.local'' @ tab @ hostname @ newline
                 else ip @ tab @ hostname @ newline
             | None \<Rightarrow> ip @ tab @ hostname @ newline))"

definition host_alias_lines :: "PodSpec \<Rightarrow> string" where
  "host_alias_lines pod =
     (if ps_host_aliases pod = [] then []
      else newline @ ''# Entries added by HostAliases.'' @ newline @
        concat (map (\<lambda>ha. if ha_ip ha \<noteq> [] \<and> ha_hostnames ha \<noteq> []
            then ha_ip ha @ tab @ join tab (ha_hostnames ha) @ newline else []) (ps_host_aliases pod)))"

definition etc_hosts_content :: "string option \<Rightarrow> PodSpec \<Rightarrow> string option \<Rightarrow> string" where
  "etc_hosts_content node_hosts pod pod_ip =
     (if ps_host_network pod
      then ''# Kubernetes-managed hosts file (host network).'' @ newline @ (case node_hosts of Some c \<Rightarrow> c | None \<Rightarrow> [])
      else ''# Kubernetes-managed hosts file.'' @ newline @
        ''127.0.0.1'' @ tab @ ''localhost'' @ newline @
        ''::1'' @ tab @ ''localhost ip6-localhost ip6-loopback'' @ newline @
        ''fe00::0'' @ tab @ ''ip6-localnet'' @ newline @
        ''fe00::0'' @ tab @ ''ip6-mcastprefix'' @ newline @
        ''fe00::1'' @ tab @ ''ip6-allnodes'' @ newline @
        ''fe00::2'' @ tab @ ''ip6-allrouters'' @ newline @
        pod_ip_line pod pod_ip) @
     host_alias_lines pod"

fun volume_source_subdir :: "VolumeSource \<Rightarrow> string" where
  "volume_source_subdir (EmptyDir _ _) = ''kubernetes.io~empty-dir''"
| "volume_source_subdir (VConfigMap _ _ _ _) = ''kubernetes.io~configmap''"
| "volume_source_subdir (VSecret _ _ _ _) = ''kubernetes.io~secret''"
| "volume_source_subdir (Projected _ _) = ''kubernetes.io~projected''"
| "volume_source_subdir (VDownwardAPI _ _) = ''kubernetes.io~downward-api''"
| "volume_source_subdir _ = ''kubernetes.io~projected''"

definition volume_target_path :: "string \<Rightarrow> PodSpec \<Rightarrow> string \<Rightarrow> string" where
  "volume_target_path root_dir pod volume_name =
     root_dir @ ''/pods/'' @ ps_uid pod @ ''/volumes/'' @
     (case find (\<lambda>v. vs_name v = volume_name) (ps_volumes pod) of
        Some v \<Rightarrow> volume_source_subdir (vs_source v)
      | None \<Rightarrow> ''kubernetes.io~projected'') @ ''/'' @ volume_name"

subsection \<open>Credentials stay with their registry\<close>

definition canonical_registry :: "string \<Rightarrow> string" where
  "canonical_registry host = (let h = normalize_registry_host host in if h = ''index.docker.io'' then ''docker.io'' else h)"

lemma host_matches_registry_iff: "host_matches_registry a b \<longleftrightarrow> canonical_registry a = canonical_registry b"
  by (auto simp: host_matches_registry_def canonical_registry_def Let_def)

text \<open>Pull credentials never leave their registry: every credential the worker passes to the runtime for an image comes
  from a secret the pod or its service account names, and is for the image's registry, up to the two names of Docker Hub.\<close>

theorem pull_credentials_match_registry:
  assumes "c \<in> set (resolve_image_pull_secrets has_client sa secret auths pod image_ref)"
  shows "canonical_registry (ips_server c) = canonical_registry (image_registry_host image_ref) \<and>
    (\<exists>name s. secret name = Inr s \<and> (ips_server c, ips_username c, ips_password c) \<in> set (auths s) \<and>
       (name \<in> set (ps_image_pull_secrets pod) \<or> (\<exists>refs. sa = Inr refs \<and> Some name \<in> set refs)))"
proof -
  from assms obtain name s where n: "name \<in> set (pull_secret_names pod (Some sa))" "secret name = Inr s"
      "c \<in> set (matching_credentials (image_registry_host image_ref) (auths s))"
    by (auto simp: resolve_image_pull_secrets_def split: if_splits sum.splits) metis
  then have "host_matches_registry (ips_server c) (image_registry_host image_ref)"
      "(ips_server c, ips_username c, ips_password c) \<in> set (auths s)"
    by (auto simp: matching_credentials_def)
  moreover have "name \<in> set (ps_image_pull_secrets pod) \<or> (\<exists>refs. sa = Inr refs \<and> Some name \<in> set refs)"
    using n(1) by (auto simp: pull_secret_names_def fold_push_new(2) map_filter_def split: sum.splits)
  ultimately show ?thesis using n(2) by (auto simp: host_matches_registry_iff)
qed

definition demo_auths :: "unit \<Rightarrow> (string \<times> string \<times> string) list" where
  "demo_auths _ = [(''gcr.io'', ''u'', ''p''), (''quay.io'', ''v'', ''q'')]"

theorem pull_credentials_match_registry_witness:
  "canonical_registry ''gcr.io'' = canonical_registry (image_registry_host ''gcr.io/a/b:1'')"
proof -
  have "\<lparr>ips_server = ''gcr.io'', ips_username = ''u'', ips_password = ''p''\<rparr> \<in>
     set (resolve_image_pull_secrets True (Inl ()) (\<lambda>_. Inr ()) demo_auths (PodSpec_default\<lparr>ps_image_pull_secrets := [''s'']\<rparr>) ''gcr.io/a/b:1'')"
    by (simp add: resolve_image_pull_secrets_def needs_secret_client_def PodSpec_default_def pull_secret_names_def demo_auths_def
        matching_credentials_def host_matches_registry_def normalize_registry_host_def image_registry_host_def
        trim_def is_ws_def trim_start_matches.simps to_lowercase_def to_lower_def)
  from pull_credentials_match_registry [OF this] show ?thesis by simp
qed

subsection \<open>Reading a reserved name back\<close>

lemma after_first_Some:
  assumes "\<And>i. i < length pre \<Longrightarrow> strip_prefix m (drop i (pre @ m @ t)) = None" "m \<noteq> []"
  shows "after_first m (pre @ m @ t) = Some t"
  using assms(1)
proof (induction pre)
  case Nil
  show ?case using assms(2) by (cases m) (simp_all add: strip_prefix_Some_iff)
next
  case (Cons c pre)
  have "strip_prefix m (drop i (pre @ m @ t)) = None" if "i < length pre" for i
    using Cons.prems [of "Suc i"] that by simp
  from Cons.IH [OF this] Cons.prems [of 0] show ?case by simp
qed

lemma unescape_quotes_id: "CHR 0x5C \<notin> set s \<Longrightarrow> unescape_quotes s = s"
  by (induction s rule: unescape_quotes.induct) auto

text \<open>When the runtime reports that a name is taken, with the name in quotes after the marker, the worker reads back
  exactly that name.\<close>

theorem reserved_value_read_back:
  assumes "CHR 0x5C \<notin> set (pre @ marker @ v @ post)" "CHR 0x22 \<notin> set v" "marker \<noteq> []"
    "\<And>i. i < length pre \<Longrightarrow> \<not> starts_with marker (drop i (pre @ marker @ '' '' @ [CHR 0x22] @ v @ [CHR 0x22] @ post))"
  shows "extract_quoted_value (pre @ marker @ '' '' @ [CHR 0x22] @ v @ [CHR 0x22] @ post) marker = Some v"
proof -
  let ?t = "'' '' @ [CHR 0x22] @ v @ [CHR 0x22] @ post"
  have u: "unescape_quotes (pre @ marker @ ?t) = pre @ marker @ ?t" using assms(1) by (intro unescape_quotes_id) simp
  have a: "after_first marker (pre @ marker @ ?t) = Some ?t"
    using assms(3,4) by (intro after_first_Some) (simp_all add: starts_with_def)
  have "trim_start ?t = CHR 0x22 # v @ [CHR 0x22] @ post" by (simp add: trim_start_def is_ws_def)
  then show ?thesis
    unfolding extract_quoted_value_def u a using split_once_append [OF assms(2), of post] by simp
qed

theorem reserved_value_read_back_witness:
  "reserved_container_id (''name taken, is reserved for '' @ [CHR 0x22] @ ''abc'' @ [CHR 0x22]) = Some ''abc''"
proof -
  have n: "\<not> starts_with ''is reserved for''
      (drop i (''name taken, '' @ ''is reserved for'' @ '' '' @ [CHR 0x22] @ ''abc'' @ [CHR 0x22] @ []))"
    if "i < length ''name taken, ''" for i
    using that by (auto simp: less_Suc_eq starts_with_def)
  from reserved_value_read_back [of "''name taken, ''" "''is reserved for''" "''abc''" "[]", OF _ _ _ n]
  show ?thesis by (simp add: reserved_container_id_def)
qed

subsection \<open>Departures\<close>

text \<open>A pod whose name ends in a dash and the node's name takes the sandbox of the pod named without that ending, in
  the same namespace, for its own: the comment means static pods, but the code asks for no such thing.\<close>

theorem suffixed_pod_claims_other_pods_sandbox:
  assumes "pr_name (ps_pod_ref pod) = base @ ''-'' @ node" "sbs_pod_name sandbox = base"
    "sbs_pod_namespace sandbox = pr_namespace (ps_pod_ref pod)" "sbs_pod_uid sandbox \<noteq> ps_uid pod"
  shows "sandbox_matches_pod_identity sandbox pod node"
proof -
  have "strip_suffix (''-'' @ node) (base @ ''-'' @ node) = Some base" by (simp only: strip_suffix_append)
  with assms show ?thesis by (simp add: sandbox_matches_pod_identity_def Let_def)
qed

text \<open>The comment promises at most 4 KiB from the end of the log; the last line is never cut.\<close>

theorem last_log_line_is_not_cut:
  assumes "CHR 0x0A \<notin> set l" "CHR 0x0D \<notin> set l" "CHR '' '' \<notin> set l" "l \<noteq> []"
  shows "read_termination_message None (Some l) (Some ''FallbackToLogsOnError'') 1 = Some l"
proof -
  have s: "split_once CHR '' '' l = None" using assms(3) by (rule split_once_notin)
  have "strip_suffix [CHR 0x0D] l = None" using assms(2) by (auto simp: strip_suffix_None_iff)
  then have "str_lines l = [l]"
    using assms(1,4) by (simp add: str_lines_def split_on_notin strip_cr_def)
  then have "log_tail l = l" by (simp add: log_tail_def log_message_def s Let_def)
  with assms(4) show ?thesis by (simp add: read_termination_message_def)
qed

theorem tebibytes_of_overhead_are_zero: "parse_memory_quantity_to_bytes ''1Ti'' = 0"
  by (simp add: parse_memory_quantity_to_bytes_def trim_def is_ws_def strip_suffix_def parse_i64_or_0_def parse_i64_def
      parse_uint_def strip_plus_def is_digit_def)

end
