(* ===== verification/Allocator.thy ===== *)
theory Allocator
  imports KPrelude
begin

text \<open>
  The contract shared by the managers that hand out exclusive resources of the node: the CPU manager
  (CPUs to containers) and the device plugin endpoints (devices to containers). A state has a set of
  free units and, per owner, a set of held units; acquiring and releasing move units between the
  two and touch no other owner. The lemmas about arbitrary sequences of operations are proved once
  here and interpreted on each manager.
\<close>

datatype ('o, 'q) alloc_op = Acquire 'o 'q | Release 'o

locale exclusive_allocator =
  fixes inv :: "'s \<Rightarrow> bool"
    and free :: "'s \<Rightarrow> 'r set"
    and held :: "'s \<Rightarrow> 'o \<Rightarrow> 'r set"
    and acquire :: "'o \<Rightarrow> 'q \<Rightarrow> 's \<Rightarrow> 's"
    and release :: "'o \<Rightarrow> 's \<Rightarrow> 's"
  assumes held_disjoint: "inv s \<Longrightarrow> ow \<noteq> ow' \<Longrightarrow> held s ow \<inter> held s ow' = {}"
    and free_disjoint: "inv s \<Longrightarrow> free s \<inter> held s ow = {}"
    and inv_acquire: "inv s \<Longrightarrow> inv (acquire ow q s)"
    and inv_release: "inv s \<Longrightarrow> inv (release ow s)"
    and acquire_from_free: "inv s \<Longrightarrow> held (acquire ow q s) ow \<subseteq> free s \<union> held s ow"
    and acquire_other: "inv s \<Longrightarrow> ow' \<noteq> ow \<Longrightarrow> held (acquire ow q s) ow' = held s ow'"
    and release_held: "inv s \<Longrightarrow> held (release ow s) ow' = (if ow' = ow then {} else held s ow')"
begin

fun step :: "('o, 'q) alloc_op \<Rightarrow> 's \<Rightarrow> 's" where
  "step (Acquire ow q) s = acquire ow q s"
| "step (Release ow) s = release ow s"

fun owner :: "('o, 'q) alloc_op \<Rightarrow> 'o" where
  "owner (Acquire ow q) = ow"
| "owner (Release ow) = ow"

lemma inv_step: "inv s \<Longrightarrow> inv (step x s)"
  by (cases x) (simp_all add: inv_acquire inv_release)

lemma run_inv: "inv s \<Longrightarrow> inv (fold step xs s)"
  by (induction xs arbitrary: s) (simp_all add: inv_step)

lemma run_disjoint: "inv s \<Longrightarrow> ow \<noteq> ow' \<Longrightarrow> held (fold step xs s) ow \<inter> held (fold step xs s) ow' = {}"
  by (simp add: held_disjoint run_inv)

lemma run_free_disjoint: "inv s \<Longrightarrow> free (fold step xs s) \<inter> held (fold step xs s) ow = {}"
  by (simp add: free_disjoint run_inv)

text \<open>What one owner holds is not touched by the operations of the others.\<close>

lemma step_other: "inv s \<Longrightarrow> owner x \<noteq> ow \<Longrightarrow> held (step x s) ow = held s ow"
  by (cases x) (auto simp: acquire_other release_held)

lemma run_others: "inv s \<Longrightarrow> (\<forall>x \<in> set xs. owner x \<noteq> ow) \<Longrightarrow> held (fold step xs s) ow = held s ow"
  by (induction xs arbitrary: s) (simp_all add: inv_step step_other)

text \<open>In particular nobody else can be given a unit that is held.\<close>

lemma acquire_not_held: "inv s \<Longrightarrow> ow' \<noteq> ow \<Longrightarrow> held (acquire ow q s) ow \<inter> held s ow' = {}"
  by (metis acquire_other held_disjoint inv_acquire)

end

text \<open>A manager that also loses nothing: units only move between the free set and their owner.\<close>

locale conserving_allocator = exclusive_allocator inv free held acquire release
  for inv :: "'s \<Rightarrow> bool"
    and free :: "'s \<Rightarrow> 'r set"
    and held :: "'s \<Rightarrow> 'o \<Rightarrow> 'r set"
    and acquire :: "'o \<Rightarrow> 'q \<Rightarrow> 's \<Rightarrow> 's"
    and release :: "'o \<Rightarrow> 's \<Rightarrow> 's" +
  assumes acquire_moves: "inv s \<Longrightarrow> free (acquire ow q s) \<union> held (acquire ow q s) ow = free s \<union> held s ow"
    and acquire_keeps: "inv s \<Longrightarrow> held s ow \<subseteq> held (acquire ow q s) ow"
    and release_free: "inv s \<Longrightarrow> free (release ow s) = free s \<union> held s ow"
begin

definition units :: "'s \<Rightarrow> 'r set" where
  "units s = free s \<union> (\<Union>ow. held s ow)"

lemma units_split: "units s = free s \<union> held s ow \<union> (\<Union>o' \<in> - {ow}. held s o')"
  unfolding units_def by blast

lemma units_step: "inv s \<Longrightarrow> units (step x s) = units s"
proof (cases x)
  case (Acquire ow q)
  assume "inv s"
  then show ?thesis
    unfolding units_split [of _ ow] Acquire by (simp add: acquire_moves acquire_other)
next
  case (Release ow)
  assume "inv s"
  then show ?thesis
    unfolding units_split [of _ ow] Release by (simp add: release_free release_held)
qed

lemma run_units: "inv s \<Longrightarrow> units (fold step xs s) = units s"
  by (induction xs arbitrary: s) (simp_all add: inv_step units_step)

text \<open>Acquiring and releasing again gives every unit back.\<close>

lemma release_acquire_free: "inv s \<Longrightarrow> free (release ow (acquire ow q s)) = free s \<union> held s ow"
  by (simp add: release_free inv_acquire acquire_moves)

lemma held_stable:
  "inv s \<Longrightarrow> Release ow \<notin> set xs \<Longrightarrow> held s ow \<subseteq> held (fold step xs s) ow"
proof (induction xs arbitrary: s)
  case (Cons x xs)
  then have "held s ow \<subseteq> held (step x s) ow"
  proof (cases x)
    case (Acquire o' q)
    with Cons.prems show ?thesis by (cases "o' = ow") (simp_all add: acquire_keeps acquire_other)
  next
    case (Release o')
    with Cons.prems show ?thesis by (auto simp: release_held)
  qed
  also have "\<dots> \<subseteq> held (fold step xs (step x s)) ow"
    using Cons.prems by (intro Cons.IH) (simp_all add: inv_step)
  finally show ?case by simp
qed simp

end

end
