(* ===== verification/Device_Manager.thy ===== *)
theory Device_Manager
  imports Pod_Types Allocator
begin

text \<open>
  The device plugin manager (\<^verbatim>\<open>kubelet-adapters/src/device_manager/mod.rs\<close>) and the pod worker's use of
  it (\<^verbatim>\<open>allocate_device_resources\<close> in \<^verbatim>\<open>kubelet-app/src/pod_worker/mod.rs\<close>). The two lock-protected
  maps, plugins and pod allocations, are fields of one record. The gRPC Allocate call is a parameter
  \<open>rpc\<close> from socket path and device ids to the converted response or the error; the registry
  checkpoint file is the decoded entries it holds, with \<open>None\<close> for a file that is absent or malformed.
\<close>

subsection \<open>Devices and responses\<close>

datatype DeviceHealth = Healthy | Unhealthy

record Device =
  dev_id :: string
  dev_health :: DeviceHealth
  dev_numa_node :: "nat option"

record DeviceSpec =
  ds_container_path :: string
  ds_host_path :: string
  ds_permissions :: string

record Mount =
  mt_container_path :: string
  mt_host_path :: string
  mt_read_only :: bool

record AllocateResponse =
  ar_envs :: "(string, string) hmap"
  ar_devices :: "DeviceSpec list"
  ar_mounts :: "Mount list"
  ar_annotations :: "(string, string) hmap"

text \<open>The parts of the generated message that the conversion reads.\<close>

record ProtoDevice =
  pd_id :: string
  pd_health :: string
  pd_topology_nodes :: "int list option"

definition proto_device_to_local :: "ProtoDevice \<Rightarrow> Device" where
  "proto_device_to_local device =
     \<lparr>dev_id = pd_id device,
      dev_health = (if to_lowercase (pd_health device) = ''healthy'' then Healthy else Unhealthy),
      dev_numa_node =
        (case pd_topology_nodes device of
           Some (n # _) \<Rightarrow> if 0 \<le> n \<and> n < 2 ^ 32 then Some (nat n) else None
         | _ \<Rightarrow> None)\<rparr>"

definition allocation_key :: "PodUID \<Rightarrow> string \<Rightarrow> string" where
  "allocation_key pod_uid container_name = pod_uid @ '':'' @ container_name"

lemma allocation_key_inj:
  "CHR '':'' \<notin> set u \<Longrightarrow> CHR '':'' \<notin> set u' \<Longrightarrow>
   allocation_key u c = allocation_key u' c' \<longleftrightarrow> u = u' \<and> c = c'"
  unfolding allocation_key_def
  by (metis append_Cons append_Nil option.inject prod.inject split_once_append)

subsection \<open>Plugin endpoints\<close>

record PluginEndpoint =
  pe_resource_name :: string
  pe_socket_path :: string
  pe_devices :: "Device list"
  pe_allocations :: "(string, string list) hmap"

definition PluginEndpoint_new :: "string \<Rightarrow> string \<Rightarrow> PluginEndpoint" where
  "PluginEndpoint_new resource_name socket_path =
     \<lparr>pe_resource_name = resource_name, pe_socket_path = socket_path, pe_devices = [], pe_allocations = []\<rparr>"

definition healthy_count :: "PluginEndpoint \<Rightarrow> nat" where
  "healthy_count ep = length (filter (\<lambda>d. dev_health d = Healthy) (pe_devices ep))"

definition allocated_ids :: "PluginEndpoint \<Rightarrow> string list" where
  "allocated_ids ep = concat (hm_values (pe_allocations ep))"

definition is_available :: "PluginEndpoint \<Rightarrow> Device \<Rightarrow> bool" where
  "is_available ep d \<longleftrightarrow> dev_health d = Healthy \<and> dev_id d \<notin> set (allocated_ids ep)"

definition pe_available_count :: "PluginEndpoint \<Rightarrow> nat" where
  "pe_available_count ep = length (filter (is_available ep) (pe_devices ep))"

definition allocate_devices :: "nat \<Rightarrow> PluginEndpoint \<Rightarrow> string list option" where
  "allocate_devices count ep =
     (let available = map dev_id (take count (filter (is_available ep) (pe_devices ep)))
      in if length available < count then None else Some available)"

text \<open>The two writes of \<^verbatim>\<open>allocate\<close> to the endpoint: recording the chosen devices under the container's
  key, and dropping the record when the plugin refuses.\<close>

definition pe_record :: "string \<Rightarrow> string list \<Rightarrow> PluginEndpoint \<Rightarrow> PluginEndpoint" where
  "pe_record key ids ep = ep\<lparr>pe_allocations := hm_insert key ids (pe_allocations ep)\<rparr>"

definition pe_drop :: "string \<Rightarrow> PluginEndpoint \<Rightarrow> PluginEndpoint" where
  "pe_drop key ep = ep\<lparr>pe_allocations := hm_remove key (pe_allocations ep)\<rparr>"

subsection \<open>The endpoint as an exclusive allocator\<close>

definition pe_reserve :: "string \<Rightarrow> nat \<Rightarrow> PluginEndpoint \<Rightarrow> PluginEndpoint" where
  "pe_reserve key count ep =
     (case allocate_devices count ep of Some ids \<Rightarrow> pe_record key ids ep | None \<Rightarrow> ep)"

definition pe_held :: "PluginEndpoint \<Rightarrow> string \<Rightarrow> string set" where
  "pe_held ep key = (case hm_get (pe_allocations ep) key of Some ids \<Rightarrow> set ids | None \<Rightarrow> {})"

definition pe_free :: "PluginEndpoint \<Rightarrow> string set" where
  "pe_free ep = dev_id ` {d \<in> set (pe_devices ep). is_available ep d}"

definition pe_inv :: "PluginEndpoint \<Rightarrow> bool" where
  "pe_inv ep \<longleftrightarrow> hm_ok (pe_allocations ep) \<and> (\<forall>k k'. k \<noteq> k' \<longrightarrow> pe_held ep k \<inter> pe_held ep k' = {})"

lemma mem_pe_held: "x \<in> pe_held ep k \<longleftrightarrow> (\<exists>ids. hm_get (pe_allocations ep) k = Some ids \<and> x \<in> set ids)"
  by (simp add: pe_held_def split: option.split)

lemma set_allocated_ids: "hm_ok (pe_allocations ep) \<Longrightarrow> set (allocated_ids ep) = (\<Union>k. pe_held ep k)"
proof -
  assume ok: "hm_ok (pe_allocations ep)"
  have "x \<in> set (allocated_ids ep) \<longleftrightarrow> (\<exists>k ids. hm_get (pe_allocations ep) k = Some ids \<and> x \<in> set ids)" for x
    unfolding allocated_ids_def set_concat UN_iff
    by (metis hm_get_in_values hm_valuesE ok)
  then show ?thesis unfolding set_eq_iff UN_iff mem_pe_held by blast
qed

lemma allocate_devices_SomeD:
  assumes "allocate_devices n ep = Some ids"
  shows "length ids = n" and "set ids \<subseteq> pe_free ep"
proof -
  let ?av = "filter (is_available ep) (pe_devices ep)"
  from assms have ids: "ids = map dev_id (take n ?av)" "n \<le> length ?av"
    by (auto simp: allocate_devices_def Let_def split: if_splits)
  then show "length ids = n" by simp
  have "set (take n ?av) \<subseteq> {d \<in> set (pe_devices ep). is_available ep d}"
    using set_take_subset [of n ?av] by simp
  then show "set ids \<subseteq> pe_free ep" unfolding ids(1) pe_free_def set_map by (rule image_mono)
qed

lemma allocate_devices_None_iff: "allocate_devices n ep = None \<longleftrightarrow> pe_available_count ep < n"
  by (auto simp: allocate_devices_def pe_available_count_def Let_def)

lemma pe_free_not_held: "hm_ok (pe_allocations ep) \<Longrightarrow> pe_free ep \<inter> pe_held ep k = {}"
  by (auto simp: pe_free_def is_available_def set_allocated_ids)

lemma pe_held_record [simp]: "pe_held (pe_record key ids ep) k = (if k = key then set ids else pe_held ep k)"
  by (simp add: pe_held_def pe_record_def)

lemma pe_held_drop [simp]: "pe_held (pe_drop key ep) k = (if k = key then {} else pe_held ep k)"
  by (simp add: pe_held_def pe_drop_def)

lemma pe_inv_record: "pe_inv ep \<Longrightarrow> allocate_devices n ep = Some ids \<Longrightarrow> pe_inv (pe_record key ids ep)"
  using allocate_devices_SomeD(2) [of n ep ids] pe_free_not_held [of ep]
  unfolding pe_inv_def pe_held_record by (auto simp: pe_record_def)

lemma pe_inv_drop: "pe_inv ep \<Longrightarrow> pe_inv (pe_drop key ep)"
  unfolding pe_inv_def pe_held_drop by (auto simp: pe_drop_def)

lemma pe_inv_new [simp]: "pe_inv (PluginEndpoint_new r p)"
  by (simp add: pe_inv_def PluginEndpoint_new_def pe_held_def)

interpretation dev: exclusive_allocator pe_inv pe_free pe_held pe_reserve pe_drop
proof unfold_locales
  fix s :: PluginEndpoint and ow ow' :: string and q
  assume inv: "pe_inv s"
  then have ok: "hm_ok (pe_allocations s)" by (simp add: pe_inv_def)
  show "ow \<noteq> ow' \<Longrightarrow> pe_held s ow \<inter> pe_held s ow' = {}" using inv by (simp add: pe_inv_def)
  show "pe_free s \<inter> pe_held s ow = {}" by (rule pe_free_not_held [OF ok])
  show "pe_inv (pe_reserve ow q s)"
    using inv by (simp add: pe_reserve_def pe_inv_record split: option.split)
  show "pe_inv (pe_drop ow s)" by (rule pe_inv_drop [OF inv])
  show "pe_held (pe_reserve ow q s) ow \<subseteq> pe_free s \<union> pe_held s ow"
    using allocate_devices_SomeD(2) [of q s] by (auto simp: pe_reserve_def split: option.splits)
  show "ow' \<noteq> ow \<Longrightarrow> pe_held (pe_reserve ow q s) ow' = pe_held s ow'"
    by (simp add: pe_reserve_def split: option.split)
  show "pe_held (pe_drop ow s) ow' = (if ow' = ow then {} else pe_held s ow')" by simp
qed

subsection \<open>The manager\<close>

type_synonym DeviceIdsByResource = "(string, string list) hmap"
type_synonym ContainerDeviceAllocations = "(string, DeviceIdsByResource) hmap"
type_synonym PodAllocations = "(string, ContainerDeviceAllocations) hmap"

record DeviceManager =
  dm_plugins :: "(string, PluginEndpoint) hmap"
  dm_socket_dir :: string
  dm_pod_allocations :: PodAllocations
  dm_checkpoint :: "(string, string) hmap option"

definition DeviceManager_new :: "string \<Rightarrow> (string, string) hmap option \<Rightarrow> DeviceManager" where
  "DeviceManager_new socket_dir checkpoint_file =
     \<lparr>dm_plugins = [], dm_socket_dir = socket_dir, dm_pod_allocations = [], dm_checkpoint = checkpoint_file\<rparr>"

definition save_plugin_checkpoint :: "bool \<Rightarrow> string \<Rightarrow> string \<Rightarrow> DeviceManager \<Rightarrow> DeviceManager" where
  "save_plugin_checkpoint write_ok resource_name socket_path m =
     (let entries = (case dm_checkpoint m of Some es \<Rightarrow> es | None \<Rightarrow> []) in
      if write_ok then m\<lparr>dm_checkpoint := Some (hm_insert resource_name socket_path entries)\<rparr> else m)"

definition register_plugin :: "bool \<Rightarrow> string \<Rightarrow> string \<Rightarrow> DeviceManager \<Rightarrow> DeviceManager" where
  "register_plugin write_ok resource_name socket_path m =
     save_plugin_checkpoint write_ok resource_name socket_path
       (m\<lparr>dm_plugins := hm_insert resource_name (PluginEndpoint_new resource_name socket_path) (dm_plugins m)\<rparr>)"

definition rediscover_plugins :: "bool \<Rightarrow> (string \<Rightarrow> bool) \<Rightarrow> DeviceManager \<Rightarrow> DeviceManager" where
  "rediscover_plugins write_ok socket_exists m =
     (case dm_checkpoint m of
        None \<Rightarrow> m
      | Some entries \<Rightarrow>
          fold (\<lambda>(resource_name, socket_path) m.
                  if socket_exists socket_path then register_plugin write_ok resource_name socket_path m else m)
               entries m)"

definition update_devices :: "string \<Rightarrow> Device list \<Rightarrow> DeviceManager \<Rightarrow> DeviceManager" where
  "update_devices resource_name devices m =
     m\<lparr>dm_plugins := hm_modify resource_name (\<lambda>ep. ep\<lparr>pe_devices := devices\<rparr>) (dm_plugins m)\<rparr>"

definition quoted_name :: "string \<Rightarrow> string" where
  "quoted_name s = CHR 0x27 # s @ [CHR 0x27]"

text \<open>\<^verbatim>\<open>allocate\<close> holds the lock twice: to reserve, and, after the plugin answered, to record the
  allocation for the pod or to take the reservation back.\<close>

definition allocate_reserve ::
  "PodUID \<Rightarrow> string \<Rightarrow> string \<Rightarrow> nat \<Rightarrow> DeviceManager \<Rightarrow> (string list \<times> string) result \<times> DeviceManager" where
  "allocate_reserve pod_uid container_name resource_name count m =
     (case hm_get (dm_plugins m) resource_name of
        None \<Rightarrow> (Inl (EResource (''no device plugin for resource '' @ quoted_name resource_name)), m)
      | Some ep \<Rightarrow>
          (case allocate_devices count ep of
             None \<Rightarrow>
               (Inl (EResource (''not enough '' @ quoted_name resource_name @ '' devices: need '' @ show_nat count @
                                '', available '' @ show_nat (pe_available_count ep))), m)
           | Some ids \<Rightarrow>
               (Inr (ids, pe_socket_path ep),
                m\<lparr>dm_plugins := hm_insert resource_name
                     (pe_record (allocation_key pod_uid container_name) ids ep) (dm_plugins m)\<rparr>)))"

definition allocate_rollback :: "PodUID \<Rightarrow> string \<Rightarrow> string \<Rightarrow> DeviceManager \<Rightarrow> DeviceManager" where
  "allocate_rollback pod_uid container_name resource_name m =
     m\<lparr>dm_plugins := hm_modify resource_name (pe_drop (allocation_key pod_uid container_name)) (dm_plugins m)\<rparr>"

definition or_default :: "('k, ('a, 'b) hmap) hmap \<Rightarrow> 'k \<Rightarrow> ('a, 'b) hmap" where
  "or_default m k = (case hm_get m k of Some v \<Rightarrow> v | None \<Rightarrow> [])"

definition allocate_commit :: "PodUID \<Rightarrow> string \<Rightarrow> string \<Rightarrow> string list \<Rightarrow> DeviceManager \<Rightarrow> DeviceManager" where
  "allocate_commit pod_uid container_name resource_name ids m =
     (let pa = dm_pod_allocations m; ca = or_default pa pod_uid; ra = or_default ca container_name;
          old = (case hm_get ra resource_name of Some v \<Rightarrow> v | None \<Rightarrow> [])
      in m\<lparr>dm_pod_allocations :=
             hm_insert pod_uid (hm_insert container_name (hm_insert resource_name (old @ ids) ra) ca) pa\<rparr>)"

definition DeviceManager_allocate ::
  "(string \<Rightarrow> string list \<Rightarrow> AllocateResponse result) \<Rightarrow> PodUID \<Rightarrow> string \<Rightarrow> string \<Rightarrow> nat \<Rightarrow>
   DeviceManager \<Rightarrow> AllocateResponse result \<times> DeviceManager" where
  "DeviceManager_allocate rpc pod_uid container_name resource_name count m =
     (case allocate_reserve pod_uid container_name resource_name count m of
        (Inl e, m1) \<Rightarrow> (Inl e, m1)
      | (Inr (ids, socket_path), m1) \<Rightarrow>
          (case rpc socket_path ids of
             Inl err \<Rightarrow> (Inl err, allocate_rollback pod_uid container_name resource_name m1)
           | Inr response \<Rightarrow> (Inr response, allocate_commit pod_uid container_name resource_name ids m1)))"

definition release_ids ::
  "string \<Rightarrow> string \<Rightarrow> string list \<Rightarrow> (string, PluginEndpoint) hmap \<Rightarrow> (string, PluginEndpoint) hmap" where
  "release_ids key resource_name released plugins =
     (case hm_get plugins resource_name of
        None \<Rightarrow> plugins
      | Some ep \<Rightarrow>
          (case hm_get (pe_allocations ep) key of
             None \<Rightarrow> plugins
           | Some allocated \<Rightarrow>
               let rest = filter (\<lambda>i. i \<notin> set released) allocated
               in hm_insert resource_name
                    (if rest = [] then pe_drop key ep else pe_record key rest ep) plugins))"

definition deallocate_pod :: "PodUID \<Rightarrow> DeviceManager \<Rightarrow> DeviceManager" where
  "deallocate_pod pod_uid m =
     (case hm_get (dm_pod_allocations m) pod_uid of
        None \<Rightarrow> m
      | Some container_allocations \<Rightarrow>
          m\<lparr>dm_pod_allocations := hm_remove pod_uid (dm_pod_allocations m),
            dm_plugins :=
              fold (\<lambda>(container_name, resources).
                      fold (\<lambda>(resource_name, released).
                              release_ids (allocation_key pod_uid container_name) resource_name released) resources)
                   container_allocations (dm_plugins m)\<rparr>)"

definition extended_resources :: "DeviceManager \<Rightarrow> (string, nat) hmap" where
  "extended_resources m = map (\<lambda>(name, ep). (name, healthy_count ep)) (dm_plugins m)"

definition plugin_count :: "DeviceManager \<Rightarrow> nat" where
  "plugin_count m = length (dm_plugins m)"

text \<open>\<^verbatim>\<open>refresh_plugin_devices\<close>; \<open>list_once\<close> is the answer of the plugin's ListAndWatch stream.\<close>

definition refresh_plugin_devices ::
  "(string \<Rightarrow> Device list result) \<Rightarrow> string \<Rightarrow> DeviceManager \<Rightarrow> unit result \<times> DeviceManager" where
  "refresh_plugin_devices list_once resource_name m =
     (case hm_get (dm_plugins m) resource_name of
        None \<Rightarrow> (Inl (EResource (''no device plugin for resource '' @ quoted_name resource_name)), m)
      | Some ep \<Rightarrow>
          (case list_once (pe_socket_path ep) of
             Inl e \<Rightarrow> (Inl e, m)
           | Inr devices \<Rightarrow> (Inr (), update_devices resource_name devices m)))"

text \<open>\<^verbatim>\<open>scan_and_register\<close> on the file names of the socket directory. A name without a dot, or whose only
  dot is its first character, has no extension.\<close>

definition scan_resource_name :: "string \<Rightarrow> string option" where
  "scan_resource_name file_name =
     (case split_once CHR ''.'' (rev file_name) of
        Some (ext, stem) \<Rightarrow>
          if rev ext = ''sock'' \<and> stem \<noteq> []
          then map_option (\<lambda>(domain, resource). domain @ ''/'' @ resource) (split_once CHR ''-'' (rev stem))
          else None
      | None \<Rightarrow> None)"

definition scan_and_register :: "bool \<Rightarrow> string list \<Rightarrow> DeviceManager \<Rightarrow> DeviceManager" where
  "scan_and_register write_ok file_names m =
     fold (\<lambda>f m. case scan_resource_name f of
              Some r \<Rightarrow> register_plugin write_ok r (dm_socket_dir m @ ''/'' @ f) m
            | None \<Rightarrow> m) file_names m"

text \<open>The pod worker's loop over the extended resources of a container; a failed allocation is only
  logged.\<close>

fun allocate_device_resources ::
  "(string \<Rightarrow> string list \<Rightarrow> AllocateResponse result) \<Rightarrow> PodUID \<Rightarrow> string \<Rightarrow> (string \<times> ResourceQuantity) list \<Rightarrow>
   DeviceManager \<Rightarrow> (DeviceSpec list \<times> Mount list \<times> (string \<times> string) list) \<times> DeviceManager" where
  "allocate_device_resources rpc uid ctr [] m = (([], [], []), m)"
| "allocate_device_resources rpc uid ctr ((resource, qty) # rest) m =
     (if resource \<in> {''cpu'', ''memory'', ''ephemeral-storage''} \<or> CHR ''/'' \<notin> set resource \<or> nat (max (rq_value qty) 0) = 0
      then allocate_device_resources rpc uid ctr rest m
      else case DeviceManager_allocate rpc uid ctr resource (nat (max (rq_value qty) 0)) m of
        (Inr resp, m1) \<Rightarrow>
          (let ((devices, mounts, envs), m2) = allocate_device_resources rpc uid ctr rest m1
           in ((ar_devices resp @ devices, ar_mounts resp @ mounts, ar_envs resp @ envs), m2))
      | (Inl e, m1) \<Rightarrow> allocate_device_resources rpc uid ctr rest m1)"

subsection \<open>Invariant: allocations are disjoint and recorded\<close>

definition alloc_at :: "(string, PluginEndpoint) hmap \<Rightarrow> string \<Rightarrow> string \<Rightarrow> string list option" where
  "alloc_at plugins r k = Option.bind (hm_get plugins r) (\<lambda>ep. hm_get (pe_allocations ep) k)"

definition recorded :: "PodAllocations \<Rightarrow> PodUID \<Rightarrow> string \<Rightarrow> string \<Rightarrow> string list option" where
  "recorded pa uid c r = Option.bind (hm_get pa uid) (\<lambda>ca. Option.bind (hm_get ca c) (\<lambda>ra. hm_get ra r))"

definition plugins_ok :: "(string, PluginEndpoint) hmap \<Rightarrow> bool" where
  "plugins_ok ps \<longleftrightarrow> (\<forall>r ep. hm_get ps r = Some ep \<longrightarrow> pe_inv ep)"

text \<open>Pod UIDs have no colon, so that the allocation key determines pod and container.\<close>

definition uid_ok :: "PodUID \<Rightarrow> bool" where
  "uid_ok u \<longleftrightarrow> CHR '':'' \<notin> set u"

definition dm_inv :: "DeviceManager \<Rightarrow> bool" where
  "dm_inv m \<longleftrightarrow> plugins_ok (dm_plugins m) \<and>
     (\<forall>r k ids. alloc_at (dm_plugins m) r k = Some ids \<longrightarrow>
        (\<exists>uid c ids'. uid_ok uid \<and> k = allocation_key uid c \<and>
           recorded (dm_pod_allocations m) uid c r = Some ids' \<and> set ids \<subseteq> set ids'))"

lemma plugins_ok_insert [simp]: "plugins_ok ps \<Longrightarrow> pe_inv ep \<Longrightarrow> plugins_ok (hm_insert r ep ps)"
  by (simp add: plugins_ok_def)

lemma plugins_ok_modify: "plugins_ok ps \<Longrightarrow> (\<And>ep. pe_inv ep \<Longrightarrow> pe_inv (f ep)) \<Longrightarrow> plugins_ok (hm_modify r f ps)"
  by (auto simp: plugins_ok_def)

lemma pe_inv_devices [simp]: "pe_inv (ep\<lparr>pe_devices := ds\<rparr>) = pe_inv ep"
  by (simp add: pe_inv_def pe_held_def)

lemma alloc_at_insert [simp]:
  "alloc_at (hm_insert r ep ps) r' k = (if r' = r then hm_get (pe_allocations ep) k else alloc_at ps r' k)"
  by (simp add: alloc_at_def)

lemma alloc_at_modify:
  "alloc_at (hm_modify r f ps) r' k =
     (if r' = r then Option.bind (hm_get ps r) (\<lambda>ep. hm_get (pe_allocations (f ep)) k) else alloc_at ps r' k)"
  by (auto simp: alloc_at_def split: bind_splits)

lemma pe_inv_shrink:
  assumes "pe_inv ep" "hm_get (pe_allocations ep) k = Some ids" "set ids' \<subseteq> set ids"
  shows "pe_inv (pe_record k ids' ep)"
proof -
  have "set ids' \<subseteq> pe_held ep k" using assms by (simp add: pe_held_def)
  with assms(1) show ?thesis unfolding pe_inv_def pe_held_record by (auto simp: pe_record_def)
qed

lemma release_ids_ok: "plugins_ok ps \<Longrightarrow> plugins_ok (release_ids k r ids ps)"
  unfolding release_ids_def Let_def
  by (auto simp: plugins_ok_def pe_inv_drop intro!: pe_inv_shrink split: option.splits)

lemma alloc_at_release:
  "alloc_at (release_ids k r ids ps) r' k' =
     (if r' = r \<and> k' = k then
        Option.bind (alloc_at ps r k) (\<lambda>l. let rest = filter (\<lambda>i. i \<notin> set ids) l in if rest = [] then None else Some rest)
      else alloc_at ps r' k')"
  by (auto simp: release_ids_def alloc_at_def pe_drop_def pe_record_def Let_def split: option.splits)

text \<open>The nested loops of \<^verbatim>\<open>deallocate_pod\<close> as one loop over (container, resource, ids).\<close>

definition release_all :: "PodUID \<Rightarrow> (string \<times> string \<times> string list) list \<Rightarrow>
    (string, PluginEndpoint) hmap \<Rightarrow> (string, PluginEndpoint) hmap" where
  "release_all uid xs ps = fold (\<lambda>(c, r, ids). release_ids (allocation_key uid c) r ids) xs ps"

definition triples :: "ContainerDeviceAllocations \<Rightarrow> (string \<times> string \<times> string list) list" where
  "triples ca = concat (map (\<lambda>(c, rs). map (\<lambda>(r, ids). (c, r, ids)) rs) ca)"

lemma deallocate_loop:
  "fold (\<lambda>(c, rs). fold (\<lambda>(r, ids). release_ids (allocation_key uid c) r ids) rs) ca ps = release_all uid (triples ca) ps"
proof (induction ca arbitrary: ps)
  case (Cons x ca)
  obtain c rs where x: "x = (c, rs)" by fastforce
  have "fold (\<lambda>(r, ids). release_ids (allocation_key uid c) r ids) rs ps = release_all uid (map (\<lambda>(r, ids). (c, r, ids)) rs) ps"
    by (induction rs arbitrary: ps) (auto simp: release_all_def)
  with Cons show ?case by (simp add: x triples_def release_all_def)
qed (simp add: triples_def release_all_def)

lemma release_all_ok: "plugins_ok ps \<Longrightarrow> plugins_ok (release_all uid xs ps)"
  unfolding release_all_def by (induction xs arbitrary: ps) (auto simp: release_ids_ok)

lemma release_all_shrinks:
  "alloc_at (release_all uid xs ps) r k = Some ids \<Longrightarrow> \<exists>ids0. alloc_at ps r k = Some ids0 \<and> set ids \<subseteq> set ids0"
proof (induction xs arbitrary: ps)
  case (Cons x xs)
  obtain c r' ids' where x: "x = (c, r', ids')" by (cases x)
  from Cons obtain ids1 where "alloc_at (release_ids (allocation_key uid c) r' ids' ps) r k = Some ids1" "set ids \<subseteq> set ids1"
    by (fastforce simp: x release_all_def)
  then show ?case by (auto simp: alloc_at_release Let_def bind_eq_Some_conv split: if_splits)
qed (simp add: release_all_def)

lemma release_all_other:
  "(\<forall>(c, r', ids) \<in> set xs. k \<noteq> allocation_key uid c) \<Longrightarrow> alloc_at (release_all uid xs ps) r k = alloc_at ps r k"
  unfolding release_all_def by (induction xs arbitrary: ps) (auto simp: alloc_at_release)

lemma release_all_gone:
  "(c, r, ids) \<in> set xs \<Longrightarrow> (\<And>l. alloc_at ps r (allocation_key uid c) = Some l \<Longrightarrow> set l \<subseteq> set ids) \<Longrightarrow>
   alloc_at (release_all uid xs ps) r (allocation_key uid c) = None"
proof (induction xs arbitrary: ps)
  case (Cons x xs)
  let ?k = "allocation_key uid c"
  obtain c' r' ids' where x: "x = (c', r', ids')" by (cases x)
  let ?ps = "release_ids (allocation_key uid c') r' ids' ps"
  have step: "release_all uid (x # xs) ps = release_all uid xs ?ps" by (simp add: x release_all_def)
  show ?case
  proof (cases "(c, r, ids) \<in> set xs")
    case True
    moreover have "set l \<subseteq> set ids" if "alloc_at ?ps r ?k = Some l" for l
      using that Cons.prems(2) by (auto simp: alloc_at_release Let_def bind_eq_Some_conv split: if_splits)
    ultimately show ?thesis unfolding step by (rule Cons.IH)
  next
    case False
    with Cons.prems(1) have "x = (c, r, ids)" by auto
    with Cons.prems(2) have "alloc_at ?ps r ?k = None"
      by (cases "alloc_at ps r ?k") (auto simp: x alloc_at_release Let_def filter_empty_conv)
    with release_all_shrinks [of uid xs ?ps r ?k] show ?thesis unfolding step by fastforce
  qed
qed simp

lemma recorded_commit:
  "recorded (dm_pod_allocations (allocate_commit uid c r ids m)) uid' c' r' =
     (if uid' = uid \<and> c' = c \<and> r' = r
      then Some ((case recorded (dm_pod_allocations m) uid c r of Some old \<Rightarrow> old | None \<Rightarrow> []) @ ids)
      else recorded (dm_pod_allocations m) uid' c' r')"
  by (auto simp: allocate_commit_def recorded_def or_default_def Let_def split: option.splits)

lemma commit_plugins [simp]: "dm_plugins (allocate_commit uid c r ids m) = dm_plugins m"
  by (simp add: allocate_commit_def Let_def)

lemma recorded_triples: "recorded pa uid c r = Some ids \<Longrightarrow> hm_get pa uid = Some ca \<Longrightarrow> (c, r, ids) \<in> set (triples ca)"
  by (auto simp: recorded_def triples_def bind_eq_Some_conv dest!: map_of_SomeD)

lemma plugins_ok_get: "plugins_ok ps \<Longrightarrow> hm_get ps r = Some ep \<Longrightarrow> pe_inv ep"
  by (auto simp: plugins_ok_def)

subsubsection \<open>Each operation keeps the plugins well-formed\<close>

lemma register_plugins: "dm_plugins (register_plugin w r p m) = hm_insert r (PluginEndpoint_new r p) (dm_plugins m)"
  "dm_pod_allocations (register_plugin w r p m) = dm_pod_allocations m"
  by (simp_all add: register_plugin_def save_plugin_checkpoint_def Let_def)

lemma plugins_ok_reserve: "plugins_ok (dm_plugins m) \<Longrightarrow> plugins_ok (dm_plugins (snd (allocate_reserve u c r n m)))"
  by (simp add: allocate_reserve_def plugins_ok_get pe_inv_record split: option.split)

lemma plugins_ok_rollback: "plugins_ok (dm_plugins m) \<Longrightarrow> plugins_ok (dm_plugins (allocate_rollback u c r m))"
  by (simp add: allocate_rollback_def plugins_ok_modify pe_inv_drop)

lemma deallocate_plugins:
  "dm_plugins (deallocate_pod uid m) =
     (case hm_get (dm_pod_allocations m) uid of None \<Rightarrow> dm_plugins m
      | Some ca \<Rightarrow> release_all uid (triples ca) (dm_plugins m))"
  by (simp add: deallocate_pod_def deallocate_loop split: option.split)

lemma plugins_ok_deallocate: "plugins_ok (dm_plugins m) \<Longrightarrow> plugins_ok (dm_plugins (deallocate_pod uid m))"
  by (simp add: deallocate_plugins release_all_ok split: option.split)

lemma plugins_ok_update: "plugins_ok (dm_plugins m) \<Longrightarrow> plugins_ok (dm_plugins (update_devices r ds m))"
  by (simp add: update_devices_def plugins_ok_modify)

text \<open>Atomic steps: what happens under one acquisition of the locks. Calls of several pod workers and of
  the watch tasks interleave at this granularity.\<close>

datatype dm_atomic =
    ARegister bool string string
  | ADevices string "Device list"
  | AReserve PodUID string string nat
  | ARollback PodUID string string
  | ACommit PodUID string string "string list"
  | ADeallocate PodUID

fun dm_atomic_step :: "dm_atomic \<Rightarrow> DeviceManager \<Rightarrow> DeviceManager" where
  "dm_atomic_step (ARegister w r p) m = register_plugin w r p m"
| "dm_atomic_step (ADevices r ds) m = update_devices r ds m"
| "dm_atomic_step (AReserve u c r n) m = snd (allocate_reserve u c r n m)"
| "dm_atomic_step (ARollback u c r) m = allocate_rollback u c r m"
| "dm_atomic_step (ACommit u c r ids) m = allocate_commit u c r ids m"
| "dm_atomic_step (ADeallocate u) m = deallocate_pod u m"

lemma plugins_ok_atomic: "plugins_ok (dm_plugins m) \<Longrightarrow> plugins_ok (dm_plugins (dm_atomic_step x m))"
  by (cases x) (simp_all add: register_plugins plugins_ok_update plugins_ok_reserve plugins_ok_rollback plugins_ok_deallocate)

lemma plugins_ok_run: "plugins_ok (dm_plugins m) \<Longrightarrow> plugins_ok (dm_plugins (fold dm_atomic_step xs m))"
  by (induction xs arbitrary: m) (simp_all add: plugins_ok_atomic)

lemma plugins_ok_new [simp]: "plugins_ok (dm_plugins (DeviceManager_new dir cp))"
  by (simp add: DeviceManager_new_def plugins_ok_def)

subsubsection \<open>Whole calls keep every reservation recorded\<close>

datatype dm_call =
    CRegister bool string string
  | CDevices string "Device list"
  | CAllocate "string \<Rightarrow> string list \<Rightarrow> AllocateResponse result" PodUID string string nat
  | CDeallocate PodUID

fun dm_call_step :: "dm_call \<Rightarrow> DeviceManager \<Rightarrow> DeviceManager" where
  "dm_call_step (CRegister w r p) m = register_plugin w r p m"
| "dm_call_step (CDevices r ds) m = update_devices r ds m"
| "dm_call_step (CAllocate rpc u c r n) m = snd (DeviceManager_allocate rpc u c r n m)"
| "dm_call_step (CDeallocate u) m = deallocate_pod u m"

fun call_ok :: "dm_call \<Rightarrow> bool" where
  "call_ok (CAllocate rpc u c r n) = uid_ok u"
| "call_ok (CDeallocate u) = uid_ok u"
| "call_ok _ = True"

lemma dm_invD:
  assumes "dm_inv m"
  shows "plugins_ok (dm_plugins m)"
    and "alloc_at (dm_plugins m) r k = Some ids \<Longrightarrow>
      \<exists>uid c ids'. uid_ok uid \<and> k = allocation_key uid c \<and>
           recorded (dm_pod_allocations m) uid c r = Some ids' \<and> set ids \<subseteq> set ids'"
  using assms by (auto simp: dm_inv_def)

lemma dm_invI:
  assumes "plugins_ok (dm_plugins m)"
    and "\<And>r k ids. alloc_at (dm_plugins m) r k = Some ids \<Longrightarrow>
      \<exists>uid c ids'. uid_ok uid \<and> k = allocation_key uid c \<and>
           recorded (dm_pod_allocations m) uid c r = Some ids' \<and> set ids \<subseteq> set ids'"
  shows "dm_inv m"
  unfolding dm_inv_def using assms by blast

lemma allocate_cases:
  obtains (fails) e where "DeviceManager_allocate rpc u c r n m = (Inl e, m)"
  | (refused) ep ids e where "hm_get (dm_plugins m) r = Some ep" "allocate_devices n ep = Some ids"
      "rpc (pe_socket_path ep) ids = Inl e"
      "fst (DeviceManager_allocate rpc u c r n m) = Inl e"
      "dm_plugins (snd (DeviceManager_allocate rpc u c r n m)) =
         hm_modify r (pe_drop (allocation_key u c)) (hm_insert r (pe_record (allocation_key u c) ids ep) (dm_plugins m))"
      "dm_pod_allocations (snd (DeviceManager_allocate rpc u c r n m)) = dm_pod_allocations m"
  | (success) ep ids resp where "hm_get (dm_plugins m) r = Some ep" "allocate_devices n ep = Some ids"
      "rpc (pe_socket_path ep) ids = Inr resp"
      "DeviceManager_allocate rpc u c r n m =
         (Inr resp, allocate_commit u c r ids
           (m\<lparr>dm_plugins := hm_insert r (pe_record (allocation_key u c) ids ep) (dm_plugins m)\<rparr>))"
proof (cases "hm_get (dm_plugins m) r")
  case None
  then show ?thesis by (intro fails) (simp add: DeviceManager_allocate_def allocate_reserve_def)
next
  case (Some ep)
  show ?thesis
  proof (cases "allocate_devices n ep")
    case None
    with Some show ?thesis by (intro fails) (simp add: DeviceManager_allocate_def allocate_reserve_def)
  next
    case ids: (Some ids)
    show ?thesis
    proof (cases "rpc (pe_socket_path ep) ids")
      case (Inl e)
      with Some ids show ?thesis
        by (intro refused) (simp_all add: DeviceManager_allocate_def allocate_reserve_def allocate_rollback_def)
    next
      case (Inr resp)
      with Some ids show ?thesis
        by (intro success) (simp_all add: DeviceManager_allocate_def allocate_reserve_def)
    qed
  qed
qed

lemma alloc_at_get: "hm_get ps r = Some ep \<Longrightarrow> hm_get (pe_allocations ep) k = alloc_at ps r k"
  by (simp add: alloc_at_def)

lemma dm_inv_allocate:
  assumes inv: "dm_inv m" and u: "uid_ok u"
  shows "dm_inv (snd (DeviceManager_allocate rpc u c r n m))" (is "dm_inv ?m")
proof (cases rule: allocate_cases [of rpc u c r n m])
  case (fails e)
  with inv show ?thesis by simp
next
  case (refused ep ids e)
  have pe: "pe_inv ep" using plugins_ok_get [OF dm_invD(1) [OF inv] refused(1)] .
  show ?thesis
  proof (rule dm_invI)
    show "plugins_ok (dm_plugins ?m)"
      unfolding refused(5) using dm_invD(1) [OF inv] pe refused(2)
      by (intro plugins_ok_modify plugins_ok_insert) (simp_all add: pe_inv_record pe_inv_drop)
    fix r' k ids' assume "alloc_at (dm_plugins ?m) r' k = Some ids'"
    then have "alloc_at (dm_plugins m) r' k = Some ids'"
      unfolding refused(5)
      by (auto simp: alloc_at_modify pe_drop_def pe_record_def alloc_at_get [OF refused(1)] split: if_splits)
    from dm_invD(2) [OF inv this] show "\<exists>uid c ids''. uid_ok uid \<and> k = allocation_key uid c \<and>
        recorded (dm_pod_allocations ?m) uid c r' = Some ids'' \<and> set ids' \<subseteq> set ids''"
      unfolding refused(6) .
  qed
next
  case (success ep ids resp)
  have pe: "pe_inv ep" using plugins_ok_get [OF dm_invD(1) [OF inv] success(1)] .
  show ?thesis
  proof (rule dm_invI)
    show "plugins_ok (dm_plugins ?m)"
      using dm_invD(1) [OF inv] pe success(2) by (simp add: success(4) pe_inv_record)
    fix r' k ids' assume a: "alloc_at (dm_plugins ?m) r' k = Some ids'"
    show "\<exists>uid c ids''. uid_ok uid \<and> k = allocation_key uid c \<and>
        recorded (dm_pod_allocations ?m) uid c r' = Some ids'' \<and> set ids' \<subseteq> set ids''"
    proof (cases "r' = r \<and> k = allocation_key u c")
      case True
      with a have "ids' = ids" by (simp add: success(4) pe_record_def)
      with True u show ?thesis by (intro exI [of _ u] exI [of _ c]) (simp add: success(4) recorded_commit)
    next
      case False
      with a have "alloc_at (dm_plugins m) r' k = Some ids'"
        by (auto simp: success(4) pe_record_def alloc_at_get [OF success(1)] split: if_splits)
      from dm_invD(2) [OF inv this] obtain uid c' ids'' where
        "uid_ok uid" "k = allocation_key uid c'" "recorded (dm_pod_allocations m) uid c' r' = Some ids''" "set ids' \<subseteq> set ids''"
        by blast
      with False show ?thesis
        by (intro exI [of _ uid] exI [of _ c']) (auto simp: success(4) recorded_commit split: if_splits)
    qed
  qed
qed

lemma deallocate_recorded:
  "recorded (dm_pod_allocations (deallocate_pod uid m)) uid' c r =
     (if uid' = uid then None else recorded (dm_pod_allocations m) uid' c r)"
  by (auto simp: deallocate_pod_def recorded_def split: option.split)

lemma deallocate_gone:
  assumes inv: "dm_inv m" and u: "uid_ok uid"
  shows "alloc_at (dm_plugins (deallocate_pod uid m)) r (allocation_key uid c) = None"
proof (cases "alloc_at (dm_plugins m) r (allocation_key uid c)")
  case None
  show ?thesis
  proof (cases "hm_get (dm_pod_allocations m) uid")
    case (Some ca)
    with None show ?thesis
      using release_all_shrinks [of uid "triples ca" "dm_plugins m" r "allocation_key uid c"]
      by (cases "alloc_at (dm_plugins (deallocate_pod uid m)) r (allocation_key uid c)") (auto simp: deallocate_plugins)
  qed (simp add: deallocate_plugins None)
next
  case (Some l)
  from dm_invD(2) [OF inv Some] obtain uid' c' ids where
    "uid_ok uid'" and k: "allocation_key uid c = allocation_key uid' c'" and
    "recorded (dm_pod_allocations m) uid' c' r = Some ids" "set l \<subseteq> set ids" by blast
  with u have rec: "recorded (dm_pod_allocations m) uid c r = Some ids" and sub: "set l \<subseteq> set ids"
    by (simp_all add: uid_ok_def allocation_key_inj)
  then obtain ca where ca: "hm_get (dm_pod_allocations m) uid = Some ca"
    by (auto simp: recorded_def bind_eq_Some_conv)
  have "alloc_at (release_all uid (triples ca) (dm_plugins m)) r (allocation_key uid c) = None"
    by (rule release_all_gone [OF recorded_triples [OF rec ca]]) (use sub Some in simp)
  then show ?thesis by (simp add: deallocate_plugins ca)
qed

lemma deallocate_other:
  assumes "uid_ok uid" "uid_ok uid'" "uid' \<noteq> uid"
  shows "alloc_at (dm_plugins (deallocate_pod uid m)) r (allocation_key uid' c) =
         alloc_at (dm_plugins m) r (allocation_key uid' c)"
  using assms by (auto simp: deallocate_plugins uid_ok_def allocation_key_inj intro!: release_all_other split: option.split)

lemma dm_inv_deallocate:
  assumes inv: "dm_inv m" and u: "uid_ok uid"
  shows "dm_inv (deallocate_pod uid m)"
proof (rule dm_invI)
  show "plugins_ok (dm_plugins (deallocate_pod uid m))" by (rule plugins_ok_deallocate [OF dm_invD(1) [OF inv]])
  fix r k ids assume a: "alloc_at (dm_plugins (deallocate_pod uid m)) r k = Some ids"
  then obtain ids0 where "alloc_at (dm_plugins m) r k = Some ids0" "set ids \<subseteq> set ids0"
    using release_all_shrinks by (fastforce simp: deallocate_plugins split: option.splits)
  with dm_invD(2) [OF inv] obtain uid' c ids' where *: "uid_ok uid'" "k = allocation_key uid' c"
    "recorded (dm_pod_allocations m) uid' c r = Some ids'" "set ids \<subseteq> set ids'" by blast
  moreover have "uid' \<noteq> uid" using a deallocate_gone [OF inv u, of r c] *(2) by auto
  ultimately show "\<exists>uid' c ids'. uid_ok uid' \<and> k = allocation_key uid' c \<and>
      recorded (dm_pod_allocations (deallocate_pod uid m)) uid' c r = Some ids' \<and> set ids \<subseteq> set ids'"
    by (intro exI [of _ uid'] exI [of _ c] exI [of _ ids']) (simp add: deallocate_recorded)
qed

lemma dm_inv_call: "dm_inv m \<Longrightarrow> call_ok x \<Longrightarrow> dm_inv (dm_call_step x m)"
proof (cases x)
  case (CRegister w r p)
  assume inv: "dm_inv m"
  show ?thesis
  proof (rule dm_invI)
    show "plugins_ok (dm_plugins (dm_call_step x m))" by (simp add: CRegister register_plugins dm_invD(1) [OF inv])
    fix r' k ids assume "alloc_at (dm_plugins (dm_call_step x m)) r' k = Some ids"
    then have "alloc_at (dm_plugins m) r' k = Some ids"
      by (simp add: CRegister register_plugins PluginEndpoint_new_def split: if_splits)
    from dm_invD(2) [OF inv this] show "\<exists>uid c ids'. uid_ok uid \<and> k = allocation_key uid c \<and>
      recorded (dm_pod_allocations (dm_call_step x m)) uid c r' = Some ids' \<and> set ids \<subseteq> set ids'"
      by (simp add: CRegister register_plugins)
  qed
next
  case (CDevices r ds)
  assume inv: "dm_inv m"
  have "alloc_at (dm_plugins (update_devices r ds m)) r' k = alloc_at (dm_plugins m) r' k" for r' k
    by (simp add: update_devices_def alloc_at_modify) (simp add: alloc_at_def)
  with inv plugins_ok_update [OF dm_invD(1) [OF inv], of r ds] show ?thesis
    by (simp add: CDevices dm_inv_def) (simp add: update_devices_def)
qed (simp_all add: dm_inv_allocate dm_inv_deallocate)

lemma dm_inv_run: "dm_inv m \<Longrightarrow> list_all call_ok xs \<Longrightarrow> dm_inv (fold dm_call_step xs m)"
  by (induction xs arbitrary: m) (simp_all add: dm_inv_call)

lemma dm_inv_new: "dm_inv (DeviceManager_new dir cp)"
  by (simp add: dm_inv_def) (simp add: DeviceManager_new_def alloc_at_def)

subsection \<open>Properties\<close>


abbreviation two_gpus :: "dm_atomic list" where
  "two_gpus \<equiv> [ARegister True ''g/gpu'' ''s'',
     ADevices ''g/gpu'' [\<lparr>dev_id = ''d0'', dev_health = Healthy, dev_numa_node = None\<rparr>,
                       \<lparr>dev_id = ''d1'', dev_health = Healthy, dev_numa_node = None\<rparr>],
     AReserve ''a'' ''x'' ''g/gpu'' 1, AReserve ''b'' ''y'' ''g/gpu'' 1]"

lemmas dm_eval = DeviceManager_new_def register_plugin_def save_plugin_checkpoint_def update_devices_def
  allocate_reserve_def allocate_commit_def allocate_rollback_def DeviceManager_allocate_def deallocate_pod_def
  hm_modify_def or_default_def PluginEndpoint_new_def allocate_devices_def is_available_def allocated_ids_def
  hm_values_def pe_record_def pe_drop_def allocation_key_def pe_held_def recorded_def release_ids_def alloc_at_def


text \<open>deleting a pod releases its devices. After any sequence of whole calls (registrations,
  updates, allocations with any plugin answers, deallocations) on pods whose UIDs have no colon,
  \<open>deallocate_pod\<close> leaves no plugin with an allocation of the pod and no record of it, and changes
  no allocation of any other pod.\<close>

theorem deallocate_pod_releases:
  assumes "m = fold dm_call_step calls (DeviceManager_new dir checkpoint_file)" "list_all call_ok calls" "uid_ok uid"
  shows "alloc_at (dm_plugins (deallocate_pod uid m)) r (allocation_key uid c) = None \<and>
    recorded (dm_pod_allocations (deallocate_pod uid m)) uid c r = None \<and>
    (uid_ok uid' \<and> uid' \<noteq> uid \<longrightarrow>
       alloc_at (dm_plugins (deallocate_pod uid m)) r (allocation_key uid' c) =
         alloc_at (dm_plugins m) r (allocation_key uid' c) \<and>
       recorded (dm_pod_allocations (deallocate_pod uid m)) uid' c r = recorded (dm_pod_allocations m) uid' c r)"
proof -
  have "dm_inv m" unfolding assms(1) by (rule dm_inv_run [OF dm_inv_new assms(2)])
  from deallocate_gone [OF this assms(3)] show ?thesis
    by (simp add: deallocate_recorded deallocate_other assms(3))
qed

abbreviation rpc_ok :: "string \<Rightarrow> string list \<Rightarrow> AllocateResponse result" where
  "rpc_ok \<equiv> \<lambda>_ _. Inr \<lparr>ar_envs = [], ar_devices = [], ar_mounts = [], ar_annotations = []\<rparr>"

abbreviation one_gpu :: "dm_call list" where
  "one_gpu \<equiv> [CRegister True ''g/gpu'' ''s'',
     CDevices ''g/gpu'' [\<lparr>dev_id = ''d0'', dev_health = Healthy, dev_numa_node = None\<rparr>]]"

lemma deallocate_pod_releases_witness:
  "alloc_at (dm_plugins (fold dm_call_step (one_gpu @ [CAllocate rpc_ok ''a'' ''x'' ''g/gpu'' 1])
     (DeviceManager_new ''dir'' None))) ''g/gpu'' (allocation_key ''a'' ''x'') = Some [''d0''] \<and>
   alloc_at (dm_plugins (deallocate_pod ''a'' (fold dm_call_step (one_gpu @ [CAllocate rpc_ok ''a'' ''x'' ''g/gpu'' 1])
     (DeviceManager_new ''dir'' None)))) ''g/gpu'' (allocation_key ''a'' ''x'') = None"
proof -
  let ?cs = "one_gpu @ [CAllocate rpc_ok ''a'' ''x'' ''g/gpu'' 1]"
  have "list_all call_ok ?cs" "uid_ok ''a''" by (simp_all add: uid_ok_def)
  from deallocate_pod_releases [OF refl this, of "''dir''" None "''g/gpu''" "''x''"]
  have "alloc_at (dm_plugins (deallocate_pod ''a'' (fold dm_call_step ?cs (DeviceManager_new ''dir'' None))))
      ''g/gpu'' (allocation_key ''a'' ''x'') = None" by blast
  moreover have "alloc_at (dm_plugins (fold dm_call_step ?cs (DeviceManager_new ''dir'' None)))
      ''g/gpu'' (allocation_key ''a'' ''x'') = Some [''d0'']" by (simp add: dm_eval)
  ultimately show ?thesis by blast
qed

text \<open>a plugin that registers again (as plugins do when they restart) makes the manager forget which
  of its devices are in use: a device a running pod was given and still has on record is given to the
  next pod as well.\<close>

theorem reregistration_double_allocates:
  "let m = fold dm_call_step
       (one_gpu @ [CAllocate rpc_ok ''a'' ''x'' ''g/gpu'' 1] @ one_gpu @ [CAllocate rpc_ok ''b'' ''y'' ''g/gpu'' 1])
       (DeviceManager_new ''dir'' None)
   in recorded (dm_pod_allocations m) ''a'' ''x'' ''g/gpu'' = Some [''d0''] \<and>
      recorded (dm_pod_allocations m) ''b'' ''y'' ''g/gpu'' = Some [''d0'']"
  by (simp add: dm_eval Let_def)

text \<open>A container that restarts is counted against itself. When a container has been given all
  available devices of a plugin, the allocation made for its next start fails, although the devices are
  its own.\<close>

theorem restart_finds_own_devices_taken:
  assumes ep: "hm_get (dm_plugins m) r = Some ep" "pe_inv ep" "pe_available_count ep = n" "0 < n"
    and new: "hm_get (pe_allocations ep) (allocation_key u c) = None"
    and rpc: "\<And>p ids. \<exists>resp. rpc p ids = Inr resp"
  shows "\<exists>resp. fst (DeviceManager_allocate rpc u c r n m) = Inr resp \<and>
    fst (DeviceManager_allocate rpc u c r n (snd (DeviceManager_allocate rpc u c r n m))) =
      Inl (EResource (''not enough '' @ quoted_name r @ '' devices: need '' @ show_nat n @ '', available '' @ show_nat 0))"
proof -
  let ?k = "allocation_key u c"
  from ep(3) have "allocate_devices n ep \<noteq> None" unfolding allocate_devices_None_iff by simp
  then obtain ids where ids: "allocate_devices n ep = Some ids" by blast
  then have all: "ids = map dev_id (filter (is_available ep) (pe_devices ep))"
    using ep(3) by (simp add: allocate_devices_def pe_available_count_def Let_def)
  let ?ep = "pe_record ?k ids ep"
  have ok: "hm_ok (pe_allocations ep)" "hm_ok (pe_allocations ?ep)" using ep(2) by (auto simp: pe_inv_def pe_record_def)
  have "\<not> is_available ?ep d" if d: "d \<in> set (pe_devices ep)" for d
  proof
    assume a: "is_available ?ep d"
    have "pe_held ep k \<subseteq> pe_held ?ep k" "set ids \<subseteq> pe_held ?ep ?k" for k
      using new by (simp_all add: pe_held_def [of ep])
    then have "set (allocated_ids ep) \<subseteq> set (allocated_ids ?ep)" "set ids \<subseteq> set (allocated_ids ?ep)"
      unfolding set_allocated_ids [OF ok(1)] set_allocated_ids [OF ok(2)] by blast+
    with a have "is_available ep d" "dev_id d \<notin> set ids" by (auto simp: is_available_def)
    with d show False by (simp add: all)
  qed
  then have none: "pe_available_count ?ep = 0"
    by (simp add: pe_available_count_def filter_empty_conv) (simp add: pe_record_def)
  then have "allocate_devices n ?ep = None" unfolding allocate_devices_None_iff using ep(4) by simp
  moreover obtain resp where "rpc (pe_socket_path ep) ids = Inr resp" using rpc by blast
  ultimately show ?thesis
    using ep(1) ids none by (simp add: DeviceManager_allocate_def allocate_reserve_def)
qed

lemma restart_finds_own_devices_taken_witness:
  "\<exists>resp. fst (DeviceManager_allocate rpc_ok ''a'' ''x'' ''g/gpu'' 1 (fold dm_call_step one_gpu (DeviceManager_new ''dir'' None))) = Inr resp"
proof -
  let ?m = "fold dm_call_step one_gpu (DeviceManager_new ''dir'' None)"
  obtain ep where ep: "hm_get (dm_plugins ?m) ''g/gpu'' = Some ep" "pe_available_count ep = 1"
      "hm_get (pe_allocations ep) (allocation_key ''a'' ''x'') = None"
    by (simp add: dm_eval pe_available_count_def)
  have "pe_inv ep" using plugins_ok_get [OF dm_invD(1) [OF dm_inv_run [OF dm_inv_new]] ep(1)] by simp
  from restart_finds_own_devices_taken [OF ep(1) this ep(2) _ ep(3), of rpc_ok] show ?thesis by simp
qed

end
