(* ===== verification/Worker_State.thy ===== *)
theory Worker_State
  imports Worker_Text Device_Manager "HOL-Library.State_Monad"
begin

section \<open>The pod worker's state and its environment\<close>

text \<open>
  \<^verbatim>\<open>PodRuntimeState\<close> of \<^verbatim>\<open>pod_worker/mod.rs\<close> and the world the worker acts on. The worker reaches everything outside
  itself through ports (\<^verbatim>\<open>dyn ContainerRuntime\<close>, \<^verbatim>\<open>dyn ImageManager\<close>, \<^verbatim>\<open>dyn VolumeManager\<close>, \<^verbatim>\<open>dyn NodeReporter\<close>),
  the clock, the file system and the tasks it spawns. Each such interaction is a \<open>Call\<close>; the state keeps the
  calls made so far, newest first, and the answers come from an \<open>Env\<close>, a record of functions from
  that history and the call's arguments to an answer. A theorem for every \<open>Env\<close> is thus one for every
  runtime, however it fails, and for every interleaving with the probe tasks, whose maps are read through it.
  The sequential code is written in the state monad of the library. The status manager is part of the state: no
  other task is taken to write this pod's status during one sync. The field \<^verbatim>\<open>probe_states\<close> is left out: no code reads or
  writes it.
\<close>

subsection \<open>State\<close>

record PodRuntimeState =
  rt_sandbox_id :: "string option"
  rt_sandbox_ip :: "string option"
  rt_container_ids :: "(string, string) hmap"
  rt_restart_counts :: "(string, u32) hmap"
  rt_probe_registered :: "(string, string) hmap"
  rt_startup_probe_registered :: "(string, string) hmap"
  rt_readiness_probe_registered :: "(string, string) hmap"
  rt_container_config_errors :: "(string, string) hmap"
  rt_recently_started :: "(string, timestamp) hmap"
  rt_crash_loop_backoff :: "string list"
  rt_last_terminated_states :: "(string, ContainerState) hmap"
  rt_image_pull_backoff :: "(string, u32) hmap"
  rt_start_failure_backoff :: "(string, u32) hmap"
  rt_applied_resources :: "(string, int \<times> int \<times> int) hmap"

definition PodRuntimeState_default :: PodRuntimeState where
  "PodRuntimeState_default =
     \<lparr>rt_sandbox_id = None, rt_sandbox_ip = None, rt_container_ids = [], rt_restart_counts = [],
      rt_probe_registered = [], rt_startup_probe_registered = [], rt_readiness_probe_registered = [],
      rt_container_config_errors = [], rt_recently_started = [], rt_crash_loop_backoff = [],
      rt_last_terminated_states = [], rt_image_pull_backoff = [], rt_start_failure_backoff = [],
      rt_applied_resources = []\<rparr>"

record WorkerConfig =
  wc_runtime_overheads :: "(string, (string, string) hmap) hmap"
  wc_cgroup_driver :: string
  wc_root_dir :: string
  wc_log_dir :: string
  wc_pod_infra_container_image :: string
  wc_node_name :: string
  wc_node_dns :: NodeDnsConfig

subsection \<open>Calls and answers\<close>

datatype FileKind = IsDirectory | IsFile | NoFile

datatype Call =
    CNow
  | CNodeFacts
  | CSleep nat
  | CContainerStatus ContainerID
  | CListContainers
  | CCreateContainer CreateContainerConfig
  | CStartContainer ContainerID
  | CStopContainer ContainerID nat
  | CRemoveContainer ContainerID
  | CUpdateResources ContainerID int int int int
  | CRunSandbox CreateSandboxConfig
  | CStopSandbox string
  | CRemoveSandbox string
  | CSandboxStatus string
  | CListSandboxes
  | CImageStatus string
  | CPullImage string "ImagePullSecret list"
  | CPullSecrets string
  | CPostStart LifecycleHandler ContainerID
  | CPreStop LifecycleHandler ContainerID nat
  | CSpawnStartupProbe ContainerID Probe string
  | CSpawnLivenessProbe ContainerID Probe string
  | CSpawnReadinessProbe ContainerID Probe string
  | CReadStartupDone ContainerID
  | CReadReadiness ContainerID
  | CForgetProbes ContainerID
  | CMountVolumes PodUID "string option"
  | CListVolumes PodUID
  | CUnmountVolumes PodUID "(string \<times> string) list"
  | CResolveEnv string
  | CAllocateDevices PodUID string string nat
  | CReadFile string
  | CFileKind string
  | CMakeDir string
  | CRemoveDir string
  | CCreateFile string
  | CChmod string
  | CWriteFile string string
  | COomScore nat int
  | CCreateCgroup PodUID QosClass int int
  | CWriteCheckpoint PodUID string
  | CDeleteCheckpoint PodUID
  | CReportStatus PodUID PodLifecycleState
  | CContainerEvent string string string string

type_synonym history = "Call list"

record Env =
  en_now :: "history \<Rightarrow> timestamp"
  en_container_status :: "history \<Rightarrow> ContainerID \<Rightarrow> RuntimeContainer option result"
  en_list_containers :: "history \<Rightarrow> RuntimeContainer list result"
  en_create_container :: "history \<Rightarrow> CreateContainerConfig \<Rightarrow> ContainerID result"
  en_start_container :: "history \<Rightarrow> ContainerID \<Rightarrow> unit result"
  en_stop_container :: "history \<Rightarrow> ContainerID \<Rightarrow> nat \<Rightarrow> unit result"
  en_remove_container :: "history \<Rightarrow> ContainerID \<Rightarrow> unit result"
  en_update_resources :: "history \<Rightarrow> ContainerID \<Rightarrow> unit result"
  en_run_sandbox :: "history \<Rightarrow> CreateSandboxConfig \<Rightarrow> string result"
  en_stop_sandbox :: "history \<Rightarrow> string \<Rightarrow> unit result"
  en_remove_sandbox :: "history \<Rightarrow> string \<Rightarrow> unit result"
  en_sandbox_status :: "history \<Rightarrow> string \<Rightarrow> SandboxStatus option result"
  en_list_sandboxes :: "history \<Rightarrow> SandboxStatus list result"
  en_image_status :: "history \<Rightarrow> string \<Rightarrow> ImageInfo option result"
  en_pull_image :: "history \<Rightarrow> string \<Rightarrow> ImagePullSecret list \<Rightarrow> string result"
  en_pull_secrets :: "history \<Rightarrow> string \<Rightarrow> ImagePullSecret list"
  en_post_start :: "history \<Rightarrow> LifecycleHandler \<Rightarrow> ContainerID \<Rightarrow> unit result"
  en_startup_done :: "history \<Rightarrow> ContainerID \<Rightarrow> bool option"
  en_readiness :: "history \<Rightarrow> ContainerID \<Rightarrow> bool option"
  en_mount_volumes :: "history \<Rightarrow> unit result"
  en_list_volumes :: "history \<Rightarrow> (string \<times> string) list result"
  en_unmount_volumes :: "history \<Rightarrow> unit result"
  en_kube_api :: "history \<Rightarrow> KubeApi option"
  en_node_facts :: "history \<Rightarrow> NodeFacts"
  en_allocate :: "history \<Rightarrow> string \<Rightarrow> nat \<Rightarrow> AllocateResponse result"
  en_file :: "history \<Rightarrow> string \<Rightarrow> string option"
  en_file_kind :: "history \<Rightarrow> string \<Rightarrow> FileKind"
  en_write_file :: "history \<Rightarrow> string \<Rightarrow> bool"

record Sync =
  sy_calls :: history
  sy_status :: PodStatusManager
  sy_rt :: PodRuntimeState

subsection \<open>The monad\<close>

type_synonym 'a sync = "(Sync, 'a) state"

abbreviation ret :: "'a \<Rightarrow> 'a sync" where
  "ret \<equiv> State_Monad.return"

definition gets :: "(Sync \<Rightarrow> 'a) \<Rightarrow> 'a sync" where
  "gets f = State (\<lambda>s. (f s, s))"

definition modify :: "(Sync \<Rightarrow> Sync) \<Rightarrow> unit sync" where
  "modify f = State (\<lambda>s. ((), f s))"

text \<open>A call: it joins the history, and the answer is a function of the history.\<close>

definition ask :: "Call \<Rightarrow> (history \<Rightarrow> 'r) \<Rightarrow> 'r sync" where
  "ask c f = State (\<lambda>s. let h = c # sy_calls s in (f h, s\<lparr>sy_calls := h\<rparr>))"

definition tell :: "Call \<Rightarrow> unit sync" where
  "tell c = ask c (\<lambda>_. ())"

lemma run_simps [simp]:
  "run_state (gets f) s = (f s, s)"
  "run_state (modify g) s = ((), g s)"
  "run_state (ask c k) s = (k (c # sy_calls s), s\<lparr>sy_calls := c # sy_calls s\<rparr>)"
  "run_state (tell c) s = ((), s\<lparr>sy_calls := c # sy_calls s\<rparr>)"
  by (simp_all add: gets_def modify_def ask_def tell_def Let_def)

fun for_each :: "('a \<Rightarrow> unit sync) \<Rightarrow> 'a list \<Rightarrow> unit sync" where
  "for_each f [] = ret ()"
| "for_each f (x # xs) = do { f x; for_each f xs }"

fun map_each :: "('a \<Rightarrow> 'b sync) \<Rightarrow> 'a list \<Rightarrow> 'b list sync" where
  "map_each f [] = ret []"
| "map_each f (x # xs) = do { y \<leftarrow> f x; ys \<leftarrow> map_each f xs; ret (y # ys) }"

text \<open>A loop whose body may leave the enclosing function with a result.\<close>

fun for_until :: "('a \<Rightarrow> 'r option sync) \<Rightarrow> 'a list \<Rightarrow> 'r option sync" where
  "for_until f [] = ret None"
| "for_until f (x # xs) = do {
     r \<leftarrow> f x;
     case r of Some v \<Rightarrow> ret (Some v) | None \<Rightarrow> for_until f xs
   }"

abbreviation rt :: "PodRuntimeState sync" where
  "rt \<equiv> gets sy_rt"

definition set_rt :: "(PodRuntimeState \<Rightarrow> PodRuntimeState) \<Rightarrow> unit sync" where
  "set_rt f = modify (\<lambda>s. s\<lparr>sy_rt := f (sy_rt s)\<rparr>)"

definition get_status :: "PodUID \<Rightarrow> PodLifecycleState option sync" where
  "get_status uid = gets (\<lambda>s. status_get (sy_status s) uid)"

definition put_status :: "PodUID \<Rightarrow> PodLifecycleState \<Rightarrow> unit sync" where
  "put_status uid ls = modify (\<lambda>s. s\<lparr>sy_status := status_set uid ls (sy_status s)\<rparr>)"

lemma run_state_parts [simp]:
  "run_state (set_rt f) s = ((), s\<lparr>sy_rt := f (sy_rt s)\<rparr>)"
  "run_state (get_status uid) s = (status_get (sy_status s) uid, s)"
  "run_state (put_status uid ls) s = ((), s\<lparr>sy_status := status_set uid ls (sy_status s)\<rparr>)"
  by (simp_all add: set_rt_def get_status_def put_status_def)

subsection \<open>The operations of the ports\<close>

definition now :: "Env \<Rightarrow> timestamp sync" where
  "now en = ask CNow (en_now en)"

definition or_now :: "Env \<Rightarrow> timestamp option \<Rightarrow> timestamp sync" where
  "or_now en t = (case t of Some x \<Rightarrow> ret x | None \<Rightarrow> now en)"

definition sleep :: "nat \<Rightarrow> unit sync" where
  "sleep ms = tell (CSleep ms)"

definition container_status :: "Env \<Rightarrow> ContainerID \<Rightarrow> RuntimeContainer option result sync" where
  "container_status en cid = ask (CContainerStatus cid) (\<lambda>h. en_container_status en h cid)"

definition list_containers :: "Env \<Rightarrow> RuntimeContainer list result sync" where
  "list_containers en = ask CListContainers (en_list_containers en)"

definition create_container :: "Env \<Rightarrow> CreateContainerConfig \<Rightarrow> ContainerID result sync" where
  "create_container en config = ask (CCreateContainer config) (\<lambda>h. en_create_container en h config)"

definition start_container_call :: "Env \<Rightarrow> ContainerID \<Rightarrow> unit result sync" where
  "start_container_call en cid = ask (CStartContainer cid) (\<lambda>h. en_start_container en h cid)"

definition stop_container :: "Env \<Rightarrow> ContainerID \<Rightarrow> nat \<Rightarrow> unit result sync" where
  "stop_container en cid grace = ask (CStopContainer cid grace) (\<lambda>h. en_stop_container en h cid grace)"

definition remove_container_call :: "Env \<Rightarrow> ContainerID \<Rightarrow> unit result sync" where
  "remove_container_call en cid = ask (CRemoveContainer cid) (\<lambda>h. en_remove_container en h cid)"

definition run_pod_sandbox :: "Env \<Rightarrow> CreateSandboxConfig \<Rightarrow> string result sync" where
  "run_pod_sandbox en config = ask (CRunSandbox config) (\<lambda>h. en_run_sandbox en h config)"

definition stop_pod_sandbox :: "Env \<Rightarrow> string \<Rightarrow> unit result sync" where
  "stop_pod_sandbox en i = ask (CStopSandbox i) (\<lambda>h. en_stop_sandbox en h i)"

definition remove_pod_sandbox :: "Env \<Rightarrow> string \<Rightarrow> unit result sync" where
  "remove_pod_sandbox en i = ask (CRemoveSandbox i) (\<lambda>h. en_remove_sandbox en h i)"

definition pod_sandbox_status :: "Env \<Rightarrow> string \<Rightarrow> SandboxStatus option result sync" where
  "pod_sandbox_status en i = ask (CSandboxStatus i) (\<lambda>h. en_sandbox_status en h i)"

definition list_pod_sandboxes :: "Env \<Rightarrow> SandboxStatus list result sync" where
  "list_pod_sandboxes en = ask CListSandboxes (en_list_sandboxes en)"

lemmas port_defs =
  now_def sleep_def container_status_def list_containers_def create_container_def start_container_call_def
  stop_container_def remove_container_call_def run_pod_sandbox_def stop_pod_sandbox_def remove_pod_sandbox_def
  pod_sandbox_status_def list_pod_sandboxes_def

subsection \<open>What a computation does to the state\<close>

text \<open>A relation between the states before and after a computation that composes.\<close>

locale io_preorder =
  fixes R :: "Sync \<Rightarrow> Sync \<Rightarrow> bool"
  assumes R_refl: "R s s" and R_trans: "R s t \<Longrightarrow> R t u \<Longrightarrow> R s u"
begin

abbreviation ok :: "(Sync, 'x) state \<Rightarrow> bool" where
  "ok m \<equiv> state_io_rel R m"

lemma ok_ret: "ok (ret a)"
  by (simp add: state_io_rel_def R_refl)

lemma ok_gets: "ok (gets f)"
  by (simp add: state_io_rel_def R_refl)

lemma ok_bind: "ok m \<Longrightarrow> (\<And>a. ok (f a)) \<Longrightarrow> ok (State_Monad.bind m f)"
  unfolding state_io_rel_def by (auto split: prod.split intro: R_trans)

lemma ok_modify: "(\<And>s. R s (g s)) \<Longrightarrow> ok (modify g)"
  by (simp add: state_io_rel_def)

lemma ok_ask: "(\<And>s. R s (s\<lparr>sy_calls := c # sy_calls s\<rparr>)) \<Longrightarrow> ok (ask c k)"
  by (simp add: state_io_rel_def)

lemma ok_tell: "(\<And>s. R s (s\<lparr>sy_calls := c # sy_calls s\<rparr>)) \<Longrightarrow> ok (tell c)"
  by (simp add: state_io_rel_def)

lemma ok_for_each: "(\<And>x. x \<in> set xs \<Longrightarrow> ok (f x)) \<Longrightarrow> ok (for_each f xs)"
  by (induction xs) (auto intro: ok_ret ok_bind)

lemma ok_map_each: "(\<And>x. x \<in> set xs \<Longrightarrow> ok (f x)) \<Longrightarrow> ok (map_each f xs)"
  by (induction xs) (auto intro!: ok_ret ok_bind)

lemma ok_for_until: "(\<And>x. x \<in> set xs \<Longrightarrow> ok (f x)) \<Longrightarrow> ok (for_until f xs)"
  by (induction xs) (auto intro!: ok_ret ok_bind split: option.split)

end

end
