(* ===== verification/Pod_Status.thy ===== *)
theory Pod_Status
  imports Worker_State
begin

section \<open>Computing a pod's status\<close>

text \<open>
  \<^verbatim>\<open>PodWorker::update_pod_status\<close>: the statuses of the init, app and ephemeral containers from what the runtime
  reports, the \<open>Initialized\<close>, \<open>ContainersReady\<close> and \<open>Ready\<close> conditions, the phase and the observed generation.
\<close>

subsection \<open>One container\<close>

definition exit_reason :: "int \<Rightarrow> string" where
  "exit_reason code = (if code = 0 then ''Completed'' else ''Error'')"

definition exit_code_of :: "RuntimeContainer \<Rightarrow> int" where
  "exit_code_of s = (case rtc_exit_code s of Some c \<Rightarrow> c | None \<Rightarrow> -1)"

definition or_time :: "timestamp option \<Rightarrow> timestamp \<Rightarrow> timestamp" where
  "or_time t n = (case t of Some x \<Rightarrow> x | None \<Rightarrow> n)"

definition terminated_at :: "RuntimeContainer \<Rightarrow> string option \<Rightarrow> timestamp \<Rightarrow> ContainerState" where
  "terminated_at s message n =
     Terminated (exit_code_of s) (exit_reason (exit_code_of s)) message (or_time (rtc_started_at s) n) (or_time (rtc_finished_at s) n)"

definition backoff_state :: "string \<Rightarrow> ContainerState" where
  "backoff_state name = Waiting ''CrashLoopBackOff'' (Some (''back-off '' @ name @ '' restarting failed container''))"

definition creating :: ContainerState where
  "creating = Waiting ''ContainerCreating'' None"

definition running_state :: "Env \<Rightarrow> RuntimeContainer \<Rightarrow> ContainerState sync" where
  "running_state en s = do { t \<leftarrow> or_now en (rtc_started_at s); ret (Running t) }"

definition unknown_state :: ContainerState where
  "unknown_state = Waiting ''Unknown'' None"

definition observed_init_state :: "Env \<Rightarrow> PodRuntimeState \<Rightarrow> string \<Rightarrow> RuntimeContainer \<Rightarrow> ContainerState sync" where
  "observed_init_state en st name s =
     (case rtc_state s of
        RRunning \<Rightarrow> running_state en s
      | RExited \<Rightarrow> do {
          n \<leftarrow> now en;
          ret (if name \<in> set (rt_crash_loop_backoff st) then backoff_state name else terminated_at s None n)
        }
      | _ \<Rightarrow> ret creating)"

definition init_done :: "PodSpec \<Rightarrow> ContainerStatus \<Rightarrow> bool" where
  "init_done pod s \<longleftrightarrow>
     exited_zero (st_state s) \<or>
     ((case find (\<lambda>c. ctr_name c = st_name s) (ps_init_containers pod) of
         Some c \<Rightarrow> is_sidecar_init_container c
       | None \<Rightarrow> is_sidecar_init_container (hd (ps_init_containers pod))) \<and> is_running (st_state s))"

fun position :: "('a \<Rightarrow> bool) \<Rightarrow> 'a list \<Rightarrow> nat option" where
  "position P [] = None"
| "position P (x # xs) = (if P x then Some 0 else map_option Suc (position P xs))"

text \<open>The reason an init container that has no container id is waiting; \<open>done_before\<close> are the statuses computed so far.\<close>

definition init_waiting :: "PodSpec \<Rightarrow> PodRuntimeState \<Rightarrow> ContainerStatus list \<Rightarrow> string \<Rightarrow> ContainerState" where
  "init_waiting pod st done_before name =
     (let idx = (case position (\<lambda>c. ctr_name c = name) (ps_init_containers pod) of Some i \<Rightarrow> i | None \<Rightarrow> 0);
          prev_all_done = (idx = 0 \<or> list_all (init_done pod) (take idx done_before))
      in case hm_get (rt_container_config_errors st) name of
           Some msg \<Rightarrow> Waiting ''CreateContainerConfigError'' (Some msg)
         | None \<Rightarrow> if \<not> prev_all_done then Waiting ''PodInitializing'' None else creating)"

definition init_state ::
  "Env \<Rightarrow> PodSpec \<Rightarrow> PodRuntimeState \<Rightarrow> ContainerStatus list \<Rightarrow> ContainerSpec \<Rightarrow> (ContainerState \<times> string) sync" where
  "init_state en pod st done_before c =
     (case hm_get (rt_container_ids st) (ctr_name c) of
        Some cid \<Rightarrow> do {
          r \<leftarrow> container_status en cid;
          case r of
            Inr (Some s) \<Rightarrow> do { cs \<leftarrow> observed_init_state en st (ctr_name c) s; ret (cs, rtc_image_ref s) }
          | _ \<Rightarrow> ret (unknown_state, [])
        }
      | None \<Rightarrow> ret (init_waiting pod st done_before (ctr_name c), []))"

text \<open>The last state: the snapshot taken before a restart, else what the previous status reported.\<close>

definition previous_state :: "ContainerStatus list \<Rightarrow> string \<Rightarrow> ContainerState \<Rightarrow> ContainerState option" where
  "previous_state statuses name current =
     (case find (\<lambda>s. st_name s = name) statuses of
        None \<Rightarrow> None
      | Some prev \<Rightarrow>
          (case st_state prev of
             Terminated _ _ _ _ _ \<Rightarrow> Some (st_state prev)
           | Running _ \<Rightarrow> if is_running current then None else Some (st_state prev)
           | Waiting _ _ \<Rightarrow> None))"

definition restart_count_of :: "PodRuntimeState \<Rightarrow> string \<Rightarrow> u32" where
  "restart_count_of st name = (case hm_get (rt_restart_counts st) name of Some n \<Rightarrow> n | None \<Rightarrow> 0)"

definition last_state_of :: "PodRuntimeState \<Rightarrow> ContainerStatus list \<Rightarrow> string \<Rightarrow> ContainerState \<Rightarrow> ContainerState option" where
  "last_state_of st statuses name current =
     (if 0 < restart_count_of st name
      then or_else (hm_get (rt_last_terminated_states st) name) (previous_state statuses name current)
      else None)"

definition probe_ready :: "Env \<Rightarrow> ContainerSpec \<Rightarrow> ContainerID \<Rightarrow> bool sync" where
  "probe_ready en c cid =
     (if ctr_readiness_probe c \<noteq> None then do {
        r \<leftarrow> ask (CReadReadiness cid) (\<lambda>h. en_readiness en h cid);
        ret (r = Some True)
      } else ret True)"

definition init_ready :: "Env \<Rightarrow> ContainerSpec \<Rightarrow> ContainerID option \<Rightarrow> ContainerState \<Rightarrow> bool sync" where
  "init_ready en c cid cs =
     (if exited_zero cs then ret True
      else if is_running cs \<and> is_sidecar_init_container c then
        (case cid of Some i \<Rightarrow> probe_ready en c i | None \<Rightarrow> ret False)
      else ret False)"

definition containerd_url :: "string \<Rightarrow> string" where
  "containerd_url i = ''containerd://'' @ i"

definition init_status ::
  "Env \<Rightarrow> PodSpec \<Rightarrow> PodRuntimeState \<Rightarrow> ContainerStatus list \<Rightarrow> ContainerStatus list \<Rightarrow> ContainerSpec \<Rightarrow> ContainerStatus sync" where
  "init_status en pod st old done_before c = do {
     (cs, image_id) \<leftarrow> init_state en pod st done_before c;
     let cid = hm_get (rt_container_ids st) (ctr_name c);
     ready \<leftarrow> init_ready en c cid cs;
     ret \<lparr>st_name = ctr_name c, st_state = cs, st_last_state = last_state_of st old (ctr_name c) cs, st_ready = ready,
          st_restart_count = sat_sub (restart_count_of st (ctr_name c)) 1, st_image = ctr_image c, st_image_id = image_id,
          st_container_id = map_option containerd_url cid, st_started = Some (is_running cs),
          st_resources = Some (ctr_resources c), st_allocated_resources = rr_requests (ctr_resources c)\<rparr>
   }"

fun init_statuses ::
  "Env \<Rightarrow> PodSpec \<Rightarrow> PodRuntimeState \<Rightarrow> ContainerStatus list \<Rightarrow> ContainerSpec list \<Rightarrow> ContainerStatus list \<Rightarrow> ContainerStatus list sync" where
  "init_statuses en pod st old [] acc = ret acc"
| "init_statuses en pod st old (c # cs) acc = do {
     x \<leftarrow> init_status en pod st old acc c;
     init_statuses en pod st old cs (acc @ [x])
   }"

subsection \<open>App and ephemeral containers\<close>

definition JUST_STARTED :: duration where
  "JUST_STARTED = 800000000"

definition termination_log_path :: "WorkerConfig \<Rightarrow> PodSpec \<Rightarrow> string \<Rightarrow> string" where
  "termination_log_path cfg pod name = pod_log_dir (wc_log_dir cfg) pod @ ''/'' @ name @ ''/termination-log''"

definition container_log_path :: "WorkerConfig \<Rightarrow> PodSpec \<Rightarrow> string \<Rightarrow> string" where
  "container_log_path cfg pod name = pod_log_dir (wc_log_dir cfg) pod @ ''/'' @ name @ ''/0.log''"

definition read_file :: "Env \<Rightarrow> string \<Rightarrow> string option sync" where
  "read_file en path = ask (CReadFile path) (\<lambda>h. en_file en h path)"

definition termination_message :: "Env \<Rightarrow> WorkerConfig \<Rightarrow> PodSpec \<Rightarrow> ContainerSpec \<Rightarrow> int \<Rightarrow> string option sync" where
  "termination_message en cfg pod c exit_code = do {
     t \<leftarrow> read_file en (termination_log_path cfg pod (ctr_name c));
     l \<leftarrow> (if (t = None \<or> t = Some []) \<and> ctr_termination_message_policy c = Some ''FallbackToLogsOnError'' \<and> exit_code \<noteq> 0
          then read_file en (container_log_path cfg pod (ctr_name c)) else ret None);
     ret (read_termination_message t l (ctr_termination_message_policy c) exit_code)
   }"

definition just_started :: "PodRuntimeState \<Rightarrow> string \<Rightarrow> timestamp \<Rightarrow> bool" where
  "just_started st name n =
     (case hm_get (rt_recently_started st) name of Some t \<Rightarrow> max 0 (n - t) < JUST_STARTED | None \<Rightarrow> False)"

definition observed_app_state ::
  "Env \<Rightarrow> WorkerConfig \<Rightarrow> PodSpec \<Rightarrow> PodRuntimeState \<Rightarrow> ContainerSpec \<Rightarrow> ContainerID \<Rightarrow> RuntimeContainer \<Rightarrow> (ContainerState \<times> bool) sync" where
  "observed_app_state en cfg pod st c cid s =
     (case rtc_state s of
        RRunning \<Rightarrow> do {
          ready \<leftarrow> probe_ready en c cid;
          cs \<leftarrow> running_state en s;
          ret (cs, ready)
        }
      | RExited \<Rightarrow> do {
          n \<leftarrow> now en;
          if just_started st (ctr_name c) n then do { cs \<leftarrow> running_state en s; ret (cs, False) }
          else if ctr_name c \<in> set (rt_crash_loop_backoff st) then ret (backoff_state (ctr_name c), False)
          else do {
            m \<leftarrow> termination_message en cfg pod c (exit_code_of s);
            ret (terminated_at s m n, False)
          }
        }
      | _ \<Rightarrow> ret (creating, False))"

definition app_waiting :: "PodRuntimeState \<Rightarrow> bool \<Rightarrow> string \<Rightarrow> ContainerState" where
  "app_waiting st all_inits_done name =
     (case hm_get (rt_container_config_errors st) name of
        Some msg \<Rightarrow> Waiting ''CreateContainerConfigError'' (Some msg)
      | None \<Rightarrow> if \<not> all_inits_done then Waiting ''PodInitializing'' None else creating)"

definition app_state ::
  "Env \<Rightarrow> WorkerConfig \<Rightarrow> PodSpec \<Rightarrow> PodRuntimeState \<Rightarrow> bool \<Rightarrow> ContainerSpec \<Rightarrow> (ContainerState \<times> bool \<times> string) sync" where
  "app_state en cfg pod st all_inits_done c =
     (case hm_get (rt_container_ids st) (ctr_name c) of
        Some cid \<Rightarrow> do {
          r \<leftarrow> container_status en cid;
          case r of
            Inr (Some s) \<Rightarrow> do {
              (cs, ready) \<leftarrow> observed_app_state en cfg pod st c cid s;
              ret (cs, ready, rtc_image_ref s)
            }
          | _ \<Rightarrow> ret (unknown_state, False, [])
        }
      | None \<Rightarrow> ret (app_waiting st all_inits_done (ctr_name c), False, []))"

definition app_status ::
  "Env \<Rightarrow> WorkerConfig \<Rightarrow> PodSpec \<Rightarrow> PodRuntimeState \<Rightarrow> ContainerStatus list \<Rightarrow> bool \<Rightarrow> ContainerSpec \<Rightarrow> ContainerStatus sync" where
  "app_status en cfg pod st old all_inits_done c = do {
     (cs, ready, image_id) \<leftarrow> app_state en cfg pod st all_inits_done c;
     ret \<lparr>st_name = ctr_name c, st_state = cs, st_last_state = last_state_of st old (ctr_name c) cs, st_ready = ready,
          st_restart_count = sat_sub (restart_count_of st (ctr_name c)) 1, st_image = ctr_image c, st_image_id = image_id,
          st_container_id = map_option containerd_url (hm_get (rt_container_ids st) (ctr_name c)), st_started = Some ready,
          st_resources = Some (ctr_resources c), st_allocated_resources = rr_requests (ctr_resources c)\<rparr>
   }"

definition ephemeral_state :: "Env \<Rightarrow> PodRuntimeState \<Rightarrow> ContainerSpec \<Rightarrow> (ContainerState \<times> string) sync" where
  "ephemeral_state en st c =
     (case hm_get (rt_container_ids st) (ctr_name c) of
        Some cid \<Rightarrow> do {
          r \<leftarrow> container_status en cid;
          case r of
            Inr (Some s) \<Rightarrow>
              (case rtc_state s of
                 RRunning \<Rightarrow> do { cs \<leftarrow> running_state en s; ret (cs, rtc_image_ref s) }
               | RExited \<Rightarrow> do { n \<leftarrow> now en; ret (terminated_at s None n, rtc_image_ref s) }
               | _ \<Rightarrow> ret (creating, rtc_image_ref s))
          | _ \<Rightarrow> ret (unknown_state, [])
        }
      | None \<Rightarrow> ret (Waiting ''EphemeralContainerScheduled'' None, []))"

definition ephemeral_status :: "Env \<Rightarrow> PodRuntimeState \<Rightarrow> ContainerSpec \<Rightarrow> ContainerStatus sync" where
  "ephemeral_status en st c = do {
     (cs, image_id) \<leftarrow> ephemeral_state en st c;
     ret \<lparr>st_name = ctr_name c, st_state = cs, st_last_state = None, st_ready = False,
          st_restart_count = 0, st_image = ctr_image c, st_image_id = image_id,
          st_container_id = map_option containerd_url (hm_get (rt_container_ids st) (ctr_name c)),
          st_started = Some (is_running cs),
          st_resources = Some (ctr_resources c), st_allocated_resources = rr_requests (ctr_resources c)\<rparr>
   }"

subsection \<open>Conditions\<close>

fun update_first :: "('a \<Rightarrow> bool) \<Rightarrow> ('a \<Rightarrow> 'a) \<Rightarrow> 'a list \<Rightarrow> 'a list" where
  "update_first P f [] = []"
| "update_first P f (x # xs) = (if P x then f x # xs else x # update_first P f xs)"

definition put_condition :: "PodCondition \<Rightarrow> PodCondition list \<Rightarrow> PodCondition list" where
  "put_condition c cs =
     (if list_ex (\<lambda>x. pc_condition_type x = pc_condition_type c) cs
      then update_first (\<lambda>x. pc_condition_type x = pc_condition_type c) (\<lambda>_. c) cs
      else cs @ [c])"

definition initialized_update :: "ContainerStatus list \<Rightarrow> PodCondition \<Rightarrow> PodCondition" where
  "initialized_update statuses c =
     (if pc_status c = CTrue then c
      else let incomplete = map st_name (filter (\<lambda>s. \<not> exited_zero (st_state s)) statuses) in
        if incomplete = [] then c\<lparr>pc_status := CTrue, pc_reason := None, pc_message := None\<rparr>
        else c\<lparr>pc_status := CFalse, pc_reason := Some ''ContainersNotInitialized'',
               pc_message := Some (''containers with incomplete status: ['' @ join '' '' incomplete @ '']'')\<rparr>)"

definition update_initialized :: "PodSpec \<Rightarrow> ContainerStatus list \<Rightarrow> PodCondition list \<Rightarrow> PodCondition list" where
  "update_initialized pod statuses cs =
     (if ps_init_containers pod = [] then cs
      else update_first (\<lambda>c. pc_condition_type c = Initialized) (initialized_update statuses) cs)"

definition sidecars_ready :: "PodSpec \<Rightarrow> ContainerStatus list \<Rightarrow> bool" where
  "sidecars_ready pod statuses \<longleftrightarrow>
     list_all (\<lambda>s. st_ready s \<or>
       \<not> ((case find (\<lambda>c. ctr_name c = st_name s) (ps_init_containers pod) of
            Some c \<Rightarrow> is_sidecar_init_container c | None \<Rightarrow> False) \<and> is_running (st_state s))) statuses"

definition ready_condition :: "PodConditionType \<Rightarrow> bool \<Rightarrow> timestamp \<Rightarrow> timestamp \<Rightarrow> PodCondition" where
  "ready_condition ty b t1 t2 =
     \<lparr>pc_condition_type = ty, pc_status = (if b then CTrue else CFalse), pc_last_probe_time = Some t1,
      pc_last_transition_time = Some t2, pc_reason = None, pc_message = None\<rparr>"

definition is_initialized :: "PodCondition list \<Rightarrow> bool" where
  "is_initialized cs \<longleftrightarrow> list_ex (\<lambda>c. pc_condition_type c = Initialized \<and> pc_status c = CTrue) cs"

definition update_pod_status :: "Env \<Rightarrow> WorkerConfig \<Rightarrow> PodSpec \<Rightarrow> unit sync" where
  "update_pod_status en cfg pod = do {
     st \<leftarrow> rt;
     old \<leftarrow> get_status (ps_uid pod);
     let ls = (case old of Some x \<Rightarrow> x | None \<Rightarrow> PodLifecycleState_default);
     inits \<leftarrow> init_statuses en pod st (ls_init_container_statuses ls) (ps_init_containers pod) [];
     let all_inits_done = (ps_init_containers pod = [] \<or> list_all (init_done pod) inits);
     let conditions = update_initialized pod inits (ls_conditions ls);
     apps \<leftarrow> map_each (app_status en cfg pod st (ls_container_statuses ls) all_inits_done) (ps_containers pod);
     let all_ready = (sidecars_ready pod inits \<and> list_all st_ready apps);
     ephemerals \<leftarrow> map_each (ephemeral_status en st) (ps_ephemeral_containers pod);
     t1 \<leftarrow> now en;
     t2 \<leftarrow> now en;
     let conditions = put_condition (ready_condition ContainersReady all_ready t1 t2) conditions;
     let pod_ready = (all_ready \<and> is_initialized conditions);
     t3 \<leftarrow> now en;
     t4 \<leftarrow> now en;
     let conditions = put_condition (ready_condition Ready pod_ready t3 t4) conditions;
     put_status (ps_uid pod)
       (ls\<lparr>ls_phase := compute_pod_phase inits apps (ps_restart_policy pod), ls_conditions := conditions,
           ls_container_statuses := apps, ls_init_container_statuses := inits, ls_ephemeral_container_statuses := ephemerals,
           ls_observed_generation := (case ps_generation pod of Some g \<Rightarrow> Some g | None \<Rightarrow> ls_observed_generation ls)\<rparr>)
   }"

subsection \<open>A status update only observes\<close>

fun is_observation :: "Call \<Rightarrow> bool" where
  "is_observation CNow = True"
| "is_observation (CContainerStatus _) = True"
| "is_observation (CReadReadiness _) = True"
| "is_observation (CReadFile _) = True"
| "is_observation _ = False"

definition observes :: "Sync \<Rightarrow> Sync \<Rightarrow> bool" where
  "observes s s' \<longleftrightarrow> sy_status s' = sy_status s \<and> sy_rt s' = sy_rt s \<and>
     (\<exists>cs. sy_calls s' = cs @ sy_calls s \<and> list_all is_observation cs)"

interpretation obs: io_preorder observes
proof
  show "observes s s" for s by (simp add: observes_def)
  show "observes s t \<Longrightarrow> observes t u \<Longrightarrow> observes s u" for s t u
    by (auto simp: observes_def)
qed

lemma obs_ask: "is_observation c \<Longrightarrow> obs.ok (ask c k)"
  by (intro obs.ok_ask) (auto simp: observes_def intro: exI [of _ "[c]"])

lemmas obs_intros = obs.ok_ret obs.ok_gets obs.ok_bind obs_ask

lemma obs_parts:
  "obs.ok (or_now en t)" "obs.ok (now en)" "obs.ok (container_status en cid)" "obs.ok (running_state en x)"
  "obs.ok (probe_ready en c cid)" "obs.ok (read_file en path)"
  by (auto simp: or_now_def now_def container_status_def running_state_def probe_ready_def read_file_def
      intro!: obs_intros split: option.split)

lemma obs_init_status: "obs.ok (init_status en pod st old before c)"
  by (auto simp: init_status_def init_state_def observed_init_state_def init_ready_def Let_def
      intro!: obs_intros obs_parts split: option.split sum.split RuntimeContainerState.split)

lemma obs_init_statuses: "obs.ok (init_statuses en pod st old cs acc)"
  by (induction cs arbitrary: acc) (auto intro!: obs_intros obs_init_status)

lemma obs_app_status: "obs.ok (app_status en cfg pod st old b c)"
  by (auto simp: app_status_def app_state_def observed_app_state_def termination_message_def
      intro!: obs_intros obs_parts split: option.split sum.split RuntimeContainerState.split)

lemma obs_ephemeral_status: "obs.ok (ephemeral_status en st c)"
  by (auto simp: ephemeral_status_def ephemeral_state_def
      intro!: obs_intros obs_parts split: option.split sum.split RuntimeContainerState.split)

subsection \<open>Names and results of the loops\<close>

lemma map_each_all2:
  assumes "\<And>x s. P x (fst (run_state (f x) s))"
  shows "list_all2 P xs (fst (run_state (map_each f xs) s))"
proof (induction xs arbitrary: s)
  case (Cons x xs)
  show ?case using Cons.IH assms [of x s] by (auto split: prod.split simp: split_beta)
qed simp

lemma list_all2_name: "list_all2 (\<lambda>c s. st_name s = ctr_name c) cs ss \<Longrightarrow> map st_name ss = map ctr_name cs"
  by (induction rule: list_all2_induct) auto

lemma fst_bind: "fst (run_state (State_Monad.bind m f) s) = fst (run_state (f (fst (run_state m s))) (snd (run_state m s)))"
  by (simp add: split_beta)

lemma snd_bind: "snd (run_state (State_Monad.bind m f) s) = snd (run_state (f (fst (run_state m s))) (snd (run_state m s)))"
  by (simp add: split_beta)

lemma init_status_name: "st_name (fst (run_state (init_status en pod st old before c) s)) = ctr_name c"
  by (simp add: init_status_def fst_bind split_beta Let_def)

lemma app_status_name: "st_name (fst (run_state (app_status en cfg pod st old b c) s)) = ctr_name c"
  by (simp add: app_status_def fst_bind split_beta)

lemma ephemeral_status_name: "st_name (fst (run_state (ephemeral_status en st c) s)) = ctr_name c"
  by (simp add: ephemeral_status_def fst_bind split_beta)

lemma init_statuses_names:
  "map st_name (fst (run_state (init_statuses en pod st old cs acc) s)) = map st_name acc @ map ctr_name cs"
  by (induction cs arbitrary: acc s) (simp_all add: split_beta init_status_name)

lemma obs_run: "obs.ok m \<Longrightarrow> run_state m s = (a, s') \<Longrightarrow> observes s s'"
  by (drule state_io_relD)

text \<open>The status a computation leaves, in terms of what its loops returned.\<close>

definition new_status ::
  "PodSpec \<Rightarrow> PodLifecycleState \<Rightarrow> ContainerStatus list \<Rightarrow> ContainerStatus list \<Rightarrow> ContainerStatus list \<Rightarrow>
   timestamp \<Rightarrow> timestamp \<Rightarrow> timestamp \<Rightarrow> timestamp \<Rightarrow> PodLifecycleState" where
  "new_status pod ls inits apps ephemerals t1 t2 t3 t4 =
     (let all_ready = (sidecars_ready pod inits \<and> list_all st_ready apps);
          c1 = put_condition (ready_condition ContainersReady all_ready t1 t2) (update_initialized pod inits (ls_conditions ls));
          c2 = put_condition (ready_condition Ready (all_ready \<and> is_initialized c1) t3 t4) c1
      in ls\<lparr>ls_phase := compute_pod_phase inits apps (ps_restart_policy pod), ls_conditions := c2,
            ls_container_statuses := apps, ls_init_container_statuses := inits, ls_ephemeral_container_statuses := ephemerals,
            ls_observed_generation := (case ps_generation pod of Some g \<Rightarrow> Some g | None \<Rightarrow> ls_observed_generation ls)\<rparr>)"

lemma update_pod_status_run:
  obtains inits apps ephemerals s1 t1 t2 t3 t4 ls where
    "run_state (update_pod_status en cfg pod) s =
       ((), s1\<lparr>sy_status := status_set (ps_uid pod) (new_status pod ls inits apps ephemerals t1 t2 t3 t4) (sy_status s1)\<rparr>)"
    "observes s s1" "ls = (case status_get (sy_status s) (ps_uid pod) of Some x \<Rightarrow> x | None \<Rightarrow> PodLifecycleState_default)"
    "map st_name inits = map ctr_name (ps_init_containers pod)" "map st_name apps = map ctr_name (ps_containers pod)"
    "map st_name ephemerals = map ctr_name (ps_ephemeral_containers pod)"
proof -
  let ?st = "sy_rt s"
  define ls where "ls = (case status_get (sy_status s) (ps_uid pod) of Some x \<Rightarrow> x | None \<Rightarrow> PodLifecycleState_default)"
  obtain inits s1 where 1: "run_state (init_statuses en pod ?st (ls_init_container_statuses ls) (ps_init_containers pod) []) s = (inits, s1)"
    by fastforce
  let ?app = "app_status en cfg pod ?st (ls_container_statuses ls) (ps_init_containers pod = [] \<or> list_all (init_done pod) inits)"
  obtain apps s2 where 2: "run_state (map_each ?app (ps_containers pod)) s1 = (apps, s2)" by fastforce
  obtain ephemerals s3 where 3: "run_state (map_each (ephemeral_status en ?st) (ps_ephemeral_containers pod)) s2 = (ephemerals, s3)"
    by fastforce
  have n1: "map st_name inits = map ctr_name (ps_init_containers pod)"
    using init_statuses_names [of en pod ?st "ls_init_container_statuses ls" "ps_init_containers pod" "[]" s] 1 by simp
  have "list_all2 (\<lambda>c x. st_name x = ctr_name c) (ps_containers pod) (fst (run_state (map_each ?app (ps_containers pod)) s1))"
    by (rule map_each_all2) (rule app_status_name)
  then have n2: "map st_name apps = map ctr_name (ps_containers pod)" unfolding 2 by (simp add: list_all2_name)
  have "list_all2 (\<lambda>c x. st_name x = ctr_name c) (ps_ephemeral_containers pod)
      (fst (run_state (map_each (ephemeral_status en ?st) (ps_ephemeral_containers pod)) s2))"
    by (rule map_each_all2) (rule ephemeral_status_name)
  then have n3: "map st_name ephemerals = map ctr_name (ps_ephemeral_containers pod)" unfolding 3 by (simp add: list_all2_name)
  have "observes s s1" by (rule obs_run [OF obs_init_statuses 1])
  moreover have "observes s1 s2" by (rule obs_run [OF obs.ok_map_each 2]) (rule obs_app_status)
  moreover have "observes s2 s3" by (rule obs_run [OF obs.ok_map_each 3]) (rule obs_ephemeral_status)
  ultimately have o: "observes s s3" by (blast intro: obs.R_trans)
  let ?s4 = "s3\<lparr>sy_calls := CNow # CNow # CNow # CNow # sy_calls s3\<rparr>"
  have "observes s3 ?s4" by (simp add: observes_def exI [of _ "[CNow, CNow, CNow, CNow]"])
  with o have "observes s ?s4" by (blast intro: obs.R_trans)
  moreover have "run_state (update_pod_status en cfg pod) s =
       ((), ?s4\<lparr>sy_status := status_set (ps_uid pod) (new_status pod ls inits apps ephemerals
          (en_now en (CNow # sy_calls s3)) (en_now en (CNow # CNow # sy_calls s3))
          (en_now en (CNow # CNow # CNow # sy_calls s3)) (en_now en (CNow # CNow # CNow # CNow # sy_calls s3))) (sy_status ?s4)\<rparr>)"
    by (simp add: update_pod_status_def ls_def [symmetric] Let_def 1 2 3 now_def new_status_def cong: option.case_cong)
  ultimately show ?thesis using that n1 n2 n3 ls_def by blast
qed

subsection \<open>Properties of the new status\<close>

lemma update_first_types:
  "(\<And>x. P x \<Longrightarrow> g (f x) = g x) \<Longrightarrow> map g (update_first P f xs) = map g xs"
  by (induction xs) auto

lemma update_first_distinct_ex:
  assumes "distinct (map g xs)" "\<And>x. P x \<longleftrightarrow> g x = k" "g c = k" "list_ex P xs"
  shows "x \<in> set (update_first P (\<lambda>_. c) xs) \<longleftrightarrow> x = c \<or> (x \<in> set xs \<and> g x \<noteq> k)"
  using assms(1,4)
proof (induction xs)
  case (Cons a xs)
  show ?case
  proof (cases "P a")
    case True
    then have "g y \<noteq> k" if "y \<in> set xs" for y using that Cons.prems(1) assms(2) by (auto simp: rev_image_eqI)
    with True assms(2) show ?thesis by auto
  next
    case False
    with Cons assms(2) show ?thesis by auto
  qed
qed simp

lemma set_put_condition:
  assumes "distinct (map pc_condition_type cs)"
  shows "x \<in> set (put_condition c cs) \<longleftrightarrow> x = c \<or> (x \<in> set cs \<and> pc_condition_type x \<noteq> pc_condition_type c)"
proof (cases "list_ex (\<lambda>x. pc_condition_type x = pc_condition_type c) cs")
  case True
  with update_first_distinct_ex [OF assms, of "\<lambda>x. pc_condition_type x = pc_condition_type c" "pc_condition_type c" c x]
  show ?thesis by (simp add: put_condition_def)
next
  case False
  then show ?thesis by (auto simp: put_condition_def list_ex_iff)
qed

lemma distinct_put_condition:
  assumes "distinct (map pc_condition_type cs)"
  shows "distinct (map pc_condition_type (put_condition c cs))"
proof (cases "list_ex (\<lambda>x. pc_condition_type x = pc_condition_type c) cs")
  case True
  have "map pc_condition_type (update_first (\<lambda>x. pc_condition_type x = pc_condition_type c) (\<lambda>_. c) cs) = map pc_condition_type cs"
    by (rule update_first_types) simp
  with True assms show ?thesis by (simp add: put_condition_def)
next
  case False
  with assms show ?thesis by (auto simp: put_condition_def list_ex_iff)
qed

lemma update_initialized_types: "map pc_condition_type (update_initialized pod inits cs) = map pc_condition_type cs"
  unfolding update_initialized_def
  by (simp add: update_first_types initialized_update_def Let_def)

lemma is_initialized_replace:
  assumes "distinct (map pc_condition_type cs)" "pc_condition_type c \<noteq> Initialized"
  shows "is_initialized (put_condition c cs) = is_initialized cs"
  using set_put_condition [OF assms(1), of _ c] assms(2) by (auto simp: is_initialized_def list_ex_iff)

lemma update_initialized_keeps: "is_initialized cs \<Longrightarrow> is_initialized (update_initialized pod inits cs)"
proof -
  have "is_initialized cs \<Longrightarrow> is_initialized (update_first (\<lambda>c. pc_condition_type c = Initialized) (initialized_update inits) cs)"
    by (induction cs) (auto simp: is_initialized_def initialized_update_def)
  then show "is_initialized cs \<Longrightarrow> ?thesis" by (simp add: update_initialized_def)
qed

definition condition_true :: "PodConditionType \<Rightarrow> PodLifecycleState \<Rightarrow> bool" where
  "condition_true ty ls \<longleftrightarrow> (\<exists>c \<in> set (ls_conditions ls). pc_condition_type c = ty \<and> pc_status c = CTrue)"

definition conditions_ok :: "PodLifecycleState \<Rightarrow> bool" where
  "conditions_ok ls \<longleftrightarrow> distinct (map pc_condition_type (ls_conditions ls))"

lemma ready_condition_simps [simp]:
  "pc_condition_type (ready_condition ty b t1 t2) = ty" "pc_status (ready_condition ty b t1 t2) = CTrue \<longleftrightarrow> b"
  by (simp_all add: ready_condition_def)

lemma new_status_conditions:
  assumes "conditions_ok ls" and ls'_def: "ls' = new_status pod ls inits apps eph t1 t2 t3 t4"
  shows "conditions_ok ls'"
    "condition_true Initialized ls \<Longrightarrow> condition_true Initialized ls'"
    "condition_true ContainersReady ls' \<longleftrightarrow> sidecars_ready pod inits \<and> list_all st_ready apps"
    "condition_true Ready ls' \<longleftrightarrow> condition_true ContainersReady ls' \<and> condition_true Initialized ls'"
proof -
  let ?b = "sidecars_ready pod inits \<and> list_all st_ready apps"
  let ?c0 = "update_initialized pod inits (ls_conditions ls)"
  let ?k1 = "ready_condition ContainersReady ?b t1 t2"
  let ?c1 = "put_condition ?k1 ?c0"
  let ?k2 = "ready_condition Ready (?b \<and> is_initialized ?c1) t3 t4"
  have cs: "ls_conditions ls' = put_condition ?k2 ?c1" by (simp add: ls'_def new_status_def Let_def)
  have d0: "distinct (map pc_condition_type ?c0)" using assms(1) by (simp add: conditions_ok_def update_initialized_types)
  have d1: "distinct (map pc_condition_type ?c1)" by (rule distinct_put_condition [OF d0])
  show "conditions_ok ls'" unfolding conditions_ok_def cs by (rule distinct_put_condition [OF d1])
  have ty: "pc_condition_type ?k1 = ContainersReady" "pc_condition_type ?k2 = Ready"
      "pc_status ?k1 = CTrue \<longleftrightarrow> ?b" "pc_status ?k2 = CTrue \<longleftrightarrow> ?b \<and> is_initialized ?c1"
    by simp_all
  have i: "condition_true Initialized l \<longleftrightarrow> is_initialized (ls_conditions l)" for l
    by (auto simp: condition_true_def is_initialized_def list_ex_iff)
  have i': "is_initialized (ls_conditions ls') = is_initialized ?c1" "is_initialized ?c1 = is_initialized ?c0"
    unfolding cs by (rule is_initialized_replace; simp add: d0 d1 ty)+
  show "condition_true Initialized ls \<Longrightarrow> condition_true Initialized ls'"
    unfolding i i' by (rule update_initialized_keeps)
  show cr: "condition_true ContainersReady ls' \<longleftrightarrow> ?b"
    unfolding condition_true_def cs Bex_def set_put_condition [OF d1] set_put_condition [OF d0] using ty by auto
  have "condition_true Ready ls' \<longleftrightarrow> ?b \<and> is_initialized ?c1"
    unfolding condition_true_def cs Bex_def set_put_condition [OF d1] set_put_condition [OF d0] using ty by auto
  with cr i i' show "condition_true Ready ls' \<longleftrightarrow> condition_true ContainersReady ls' \<and> condition_true Initialized ls'" by simp
qed

text \<open>C13: The status update. It changes nothing but the pod's own status, and all it does to the world is look. The new
  status lists the containers of the specification in order, has the phase that the container states give, one
  condition of each type, is Ready exactly when every app container and every running sidecar is ready and the pod is
  Initialized, and a pod that was Initialized stays so.\<close>

theorem status_update_sound:
  assumes "\<And>ls. status_get (sy_status s) (ps_uid pod) = Some ls \<Longrightarrow> conditions_ok ls"
    and "s' = snd (run_state (update_pod_status en cfg pod) s)"
  shows "sy_rt s' = sy_rt s \<and> (\<exists>cs. sy_calls s' = cs @ sy_calls s \<and> list_all is_observation cs) \<and>
    (\<forall>u. u \<noteq> ps_uid pod \<longrightarrow> status_get (sy_status s') u = status_get (sy_status s) u) \<and>
    (\<exists>ls'. status_get (sy_status s') (ps_uid pod) = Some ls' \<and> conditions_ok ls' \<and>
       map st_name (ls_init_container_statuses ls') = map ctr_name (ps_init_containers pod) \<and>
       map st_name (ls_container_statuses ls') = map ctr_name (ps_containers pod) \<and>
       map st_name (ls_ephemeral_container_statuses ls') = map ctr_name (ps_ephemeral_containers pod) \<and>
       ls_phase ls' = compute_pod_phase (ls_init_container_statuses ls') (ls_container_statuses ls') (ps_restart_policy pod) \<and>
       (condition_true Ready ls' \<longleftrightarrow>
          list_all st_ready (ls_container_statuses ls') \<and> sidecars_ready pod (ls_init_container_statuses ls') \<and>
          condition_true Initialized ls') \<and>
       (\<forall>ls. status_get (sy_status s) (ps_uid pod) = Some ls \<longrightarrow> condition_true Initialized ls \<longrightarrow> condition_true Initialized ls'))"
proof -
  obtain inits apps eph s1 t1 t2 t3 t4 ls where u:
    "run_state (update_pod_status en cfg pod) s =
       ((), s1\<lparr>sy_status := status_set (ps_uid pod) (new_status pod ls inits apps eph t1 t2 t3 t4) (sy_status s1)\<rparr>)"
    and o: "observes s s1"
    and ls: "ls = (case status_get (sy_status s) (ps_uid pod) of Some x \<Rightarrow> x | None \<Rightarrow> PodLifecycleState_default)"
    and n: "map st_name inits = map ctr_name (ps_init_containers pod)" "map st_name apps = map ctr_name (ps_containers pod)"
      "map st_name eph = map ctr_name (ps_ephemeral_containers pod)"
    by (rule update_pod_status_run)
  let ?ls = "new_status pod ls inits apps eph t1 t2 t3 t4"
  have ok: "conditions_ok ls"
    using assms(1) by (auto simp: ls conditions_ok_def PodLifecycleState_default_def split: option.split)
  have s': "s' = s1\<lparr>sy_status := status_set (ps_uid pod) ?ls (sy_status s1)\<rparr>" by (simp add: assms(2) u)
  have f: "ls_init_container_statuses ?ls = inits" "ls_container_statuses ?ls = apps" "ls_ephemeral_container_statuses ?ls = eph"
      "ls_phase ?ls = compute_pod_phase inits apps (ps_restart_policy pod)"
    by (simp_all add: new_status_def Let_def)
  have g: "status_get (sy_status s') (ps_uid pod) = Some ?ls"
      "u \<noteq> ps_uid pod \<Longrightarrow> status_get (sy_status s') u = status_get (sy_status s) u" for u
    using o by (simp_all add: s' status_get_def status_set_def observes_def)
  have i: "condition_true Initialized ?ls" if "status_get (sy_status s) (ps_uid pod) = Some l" "condition_true Initialized l" for l
    using new_status_conditions(2) [OF ok refl] that by (simp add: ls)
  have "sy_rt s' = sy_rt s \<and> (\<exists>cs. sy_calls s' = cs @ sy_calls s \<and> list_all is_observation cs)"
    using o by (simp add: s' observes_def)
  moreover have "condition_true Ready ?ls \<longleftrightarrow> list_all st_ready apps \<and> sidecars_ready pod inits \<and> condition_true Initialized ?ls"
    using new_status_conditions(3,4) [OF ok refl] by auto
  ultimately show ?thesis
    using g i n new_status_conditions(1) [OF ok refl] by (intro conjI exI [of _ ?ls]) (simp_all add: f)
qed

text \<open>An environment in which every port fails.\<close>

definition failing_env :: Env where
  "failing_env =
     \<lparr>en_now = (\<lambda>h. int (length h)), en_container_status = (\<lambda>_ _. Inl (ERuntime [])), en_list_containers = (\<lambda>_. Inl (ERuntime [])),
      en_create_container = (\<lambda>_ _. Inl (ERuntime [])), en_start_container = (\<lambda>_ _. Inl (ERuntime [])),
      en_stop_container = (\<lambda>_ _ _. Inl (ERuntime [])), en_remove_container = (\<lambda>_ _. Inl (ERuntime [])),
      en_update_resources = (\<lambda>_ _. Inl (ERuntime [])), en_run_sandbox = (\<lambda>_ _. Inl (ERuntime [])),
      en_stop_sandbox = (\<lambda>_ _. Inl (ERuntime [])), en_remove_sandbox = (\<lambda>_ _. Inl (ERuntime [])),
      en_sandbox_status = (\<lambda>_ _. Inl (ERuntime [])), en_list_sandboxes = (\<lambda>_. Inl (ERuntime [])),
      en_image_status = (\<lambda>_ _. Inl (ERuntime [])), en_pull_image = (\<lambda>_ _ _. Inl (ERuntime [])), en_pull_secrets = (\<lambda>_ _. []),
      en_post_start = (\<lambda>_ _ _. Inl (ERuntime [])), en_startup_done = (\<lambda>_ _. None), en_readiness = (\<lambda>_ _. None),
      en_mount_volumes = (\<lambda>_. Inl (ERuntime [])), en_list_volumes = (\<lambda>_. Inl (ERuntime [])),
      en_unmount_volumes = (\<lambda>_. Inl (ERuntime [])), en_kube_api = (\<lambda>_. None), en_node_facts = (\<lambda>_. demo_facts),
      en_allocate = (\<lambda>_ _ _. Inl (ERuntime [])), en_file = (\<lambda>_ _. None), en_file_kind = (\<lambda>_ _. NoFile),
      en_write_file = (\<lambda>_ _. False)\<rparr>"

definition demo_config :: WorkerConfig where
  "demo_config = \<lparr>wc_runtime_overheads = [], wc_cgroup_driver = ''cgroupfs'', wc_root_dir = ''/var/lib/kubelet'', wc_log_dir = ''/var/log/pods'',
     wc_pod_infra_container_image = ''pause'', wc_node_name = ''node'', wc_node_dns = NodeDnsConfig_default\<rparr>"

definition fresh_sync :: Sync where
  "fresh_sync = \<lparr>sy_calls = [], sy_status = PodStatusManager_new, sy_rt = PodRuntimeState_default\<rparr>"

definition demo_worker_pod :: PodSpec where
  "demo_worker_pod = PodSpec_default\<lparr>ps_uid := ''u'', ps_pod_ref := \<lparr>pr_namespace = ''default'', pr_name = ''web''\<rparr>,
     ps_init_containers := [ContainerSpec_default\<lparr>ctr_name := ''setup'', ctr_image := ''setup:1''\<rparr>],
     ps_containers := [ContainerSpec_default\<lparr>ctr_name := ''main'', ctr_image := ''main:1''\<rparr>]\<rparr>"

lemma demo_worker_pod_simps:
  "ps_uid demo_worker_pod = ''u''" "map ctr_name (ps_containers demo_worker_pod) = [''main'']"
  "map ctr_name (ps_init_containers demo_worker_pod) = [''setup'']"
  by (simp_all add: demo_worker_pod_def)

theorem status_update_sound_witness:
  "\<exists>ls'. status_get (sy_status (snd (run_state (update_pod_status failing_env demo_config demo_worker_pod) fresh_sync))) ''u'' = Some ls' \<and>
     map st_name (ls_container_statuses ls') = [''main''] \<and> map st_name (ls_init_container_statuses ls') = [''setup'']"
proof -
  have "conditions_ok ls" if "status_get (sy_status fresh_sync) (ps_uid demo_worker_pod) = Some ls" for ls
    using that by (simp add: fresh_sync_def PodStatusManager_new_def status_get_def)
  from status_update_sound [where s = fresh_sync and pod = demo_worker_pod and en = failing_env and cfg = demo_config, OF this refl]
  obtain ls' where "status_get (sy_status (snd (run_state (update_pod_status failing_env demo_config demo_worker_pod) fresh_sync))) (ps_uid demo_worker_pod) = Some ls'"
      "map st_name (ls_container_statuses ls') = map ctr_name (ps_containers demo_worker_pod)"
      "map st_name (ls_init_container_statuses ls') = map ctr_name (ps_init_containers demo_worker_pod)"
    by blast
  then show ?thesis by (intro exI [of _ ls']) (simp add: demo_worker_pod_simps)
qed

end
