(* ===== verification/Oom_Watcher.thy ===== *)
theory Oom_Watcher
  imports Worker_Env
begin

section \<open>Out-of-memory events and scores\<close>

text \<open>
  \<^verbatim>\<open>oom_watcher/mod.rs\<close>: the rolling buffer of events, the parser of kernel lines (\<open>None\<close> at the outer level is the
  panic of a slice) and the \<^verbatim>\<open>oom_score_adj\<close> of a container, computed in floating point. Reading and writing
  under \<^verbatim>\<open>/proc\<close> is left to the callers.
\<close>

record OomEvent =
  oe_timestamp :: timestamp
  oe_container_id :: "string option"
  oe_pod_uid :: "PodUID option"
  oe_process_name :: string
  oe_message :: string

record OomWatcher =
  ow_capacity :: nat
  ow_events :: "OomEvent list"

definition OomWatcher_new :: "nat \<Rightarrow> OomWatcher" where
  "OomWatcher_new capacity = \<lparr>ow_capacity = capacity, ow_events = []\<rparr>"

definition oom_record :: "OomEvent \<Rightarrow> OomWatcher \<Rightarrow> OomWatcher" where
  "oom_record event w =
     (let events = (if ow_capacity w \<le> length (ow_events w) then tl (ow_events w) else ow_events w)
      in w\<lparr>ow_events := events @ [event]\<rparr>)"

definition oom_recent :: "OomWatcher \<Rightarrow> OomEvent list" where
  "oom_recent w = rev (ow_events w)"

definition oom_event_count :: "OomWatcher \<Rightarrow> nat" where
  "oom_event_count w = length (ow_events w)"

definition events_for_pod :: "PodUID \<Rightarrow> OomWatcher \<Rightarrow> OomEvent list" where
  "events_for_pod uid w = filter (\<lambda>e. oe_pod_uid e = Some uid) (ow_events w)"

fun find_char :: "char \<Rightarrow> string \<Rightarrow> nat option" where
  "find_char c [] = None"
| "find_char c (x # xs) = (if x = c then Some 0 else map_option Suc (find_char c xs))"

definition kmsg_process_name :: "string \<Rightarrow> string option" where
  "kmsg_process_name line =
     (case find_char CHR ''('' line of
        None \<Rightarrow> Some ''unknown''
      | Some start \<Rightarrow>
          (case find_char CHR '')'' line of
             None \<Rightarrow> Some ''unknown''
           | Some stop \<Rightarrow> byte_slice line (start + 1) stop))"

definition parse_kmsg_line :: "timestamp \<Rightarrow> string \<Rightarrow> OomEvent option option" where
  "parse_kmsg_line now line =
     (if \<not> contains_str ''Out of memory'' line \<and> \<not> contains_str ''oom-kill'' line then Some None
      else map_option (\<lambda>name. Some \<lparr>oe_timestamp = now, oe_container_id = None, oe_pod_uid = None, oe_process_name = name, oe_message = line\<rparr>)
             (kmsg_process_name line))"

subsection \<open>Scores\<close>

definition f64_clamp :: "f64 \<Rightarrow> f64 \<Rightarrow> f64 \<Rightarrow> f64" where
  "f64_clamp lo hi x = (if f64_less x lo then lo else if f64_less hi x then hi else x)"

fun f64_round :: "f64 \<Rightarrow> f64" where
  "f64_round (Fin x) = Fin (of_int (if 0 \<le> x then \<lfloor>x + 1 / 2\<rfloor> else - \<lfloor>1 / 2 - x\<rfloor>))"
| "f64_round v = v"

definition f64_as_i32 :: "f64 \<Rightarrow> int" where
  "f64_as_i32 v =
     (case v of
        Fin x \<Rightarrow> max (- (2 ^ 31)) (min (2 ^ 31 - 1) (if 0 \<le> x then \<lfloor>x\<rfloor> else \<lceil>x\<rceil>))
      | PInf \<Rightarrow> 2 ^ 31 - 1 | NInf \<Rightarrow> - (2 ^ 31) | NaN \<Rightarrow> 0)"

definition burstable_score :: "nat \<Rightarrow> nat \<Rightarrow> int" where
  "burstable_score req cap =
     (let ratio = f64_clamp (Fin 0) (Fin 1) (f64_div (f64_of_u64 req) (f64_of_u64 cap));
          score = f64_sub (Fin 1000) (f64_mul (Fin 998) ratio)
      in f64_as_i32 (f64_clamp (Fin 2) (Fin 999) (f64_round score)))"

definition score_for_qos :: "QosClass \<Rightarrow> nat option \<Rightarrow> nat option \<Rightarrow> int" where
  "score_for_qos qos requested capacity =
     (case qos of
        Guaranteed \<Rightarrow> -997
      | BestEffort \<Rightarrow> 1000
      | Burstable \<Rightarrow>
          let req = (case requested of Some r \<Rightarrow> r | None \<Rightarrow> 0); cap = (case capacity of Some c \<Rightarrow> c | None \<Rightarrow> 0)
          in if req = 0 \<or> cap = 0 then 999 else burstable_score req cap)"

subsection \<open>Properties\<close>

definition oom_ok :: "OomWatcher \<Rightarrow> bool" where
  "oom_ok w \<longleftrightarrow> length (ow_events w) \<le> max 1 (ow_capacity w)"

lemma oom_ok_record: "oom_ok w \<Longrightarrow> oom_ok (oom_record e w) \<and> ow_capacity (oom_record e w) = ow_capacity w"
  by (cases "ow_events w") (auto simp: oom_ok_def oom_record_def Let_def)

definition last_n :: "nat \<Rightarrow> 'a list \<Rightarrow> 'a list" where
  "last_n n xs = drop (length xs - n) xs"

lemma last_n_snoc: "last_n (Suc n) (xs @ [x]) = last_n n xs @ [x]"
  by (simp add: last_n_def)

lemma last_n_snoc_full: "0 < n \<Longrightarrow> n \<le> length xs \<Longrightarrow> last_n n (xs @ [x]) = tl (last_n n xs) @ [x]"
  by (simp add: last_n_def Suc_diff_le tl_drop) (simp add: drop_Suc tl_drop)

theorem oom_buffer_holds_the_latest:
  assumes "0 < capacity"
  shows "oom_recent (fold oom_record es (OomWatcher_new capacity)) = rev (last_n capacity es)"
proof (induction es rule: rev_induct)
  case Nil
  show ?case by (simp add: oom_recent_def OomWatcher_new_def last_n_def)
next
  case (snoc e es)
  have c: "ow_capacity (fold oom_record xs w) = ow_capacity w" for xs w
    by (induction xs arbitrary: w) (simp_all add: oom_record_def Let_def)
  have ev: "ow_events (fold oom_record es (OomWatcher_new capacity)) = last_n capacity es"
    using snoc.IH by (simp add: oom_recent_def)
  have cap: "ow_capacity (fold oom_record es (OomWatcher_new capacity)) = capacity"
    by (simp add: c OomWatcher_new_def)
  have "ow_events (oom_record e (fold oom_record es (OomWatcher_new capacity))) = last_n capacity (es @ [e])"
  proof (cases "capacity \<le> length es")
    case True
    with assms show ?thesis by (simp add: oom_record_def Let_def ev cap last_n_snoc_full) (simp add: last_n_def)
  next
    case False
    then show ?thesis by (simp add: oom_record_def Let_def ev cap) (simp add: last_n_def)
  qed
  then show ?case by (simp add: oom_recent_def)
qed

lemma f64_as_i32_clamped:
  assumes "v \<noteq> NaN"
  shows "2 \<le> f64_as_i32 (f64_clamp (Fin 2) (Fin 999) v) \<and> f64_as_i32 (f64_clamp (Fin 2) (Fin 999) v) \<le> 999"
proof (cases v)
  case (Fin x)
  have "2 \<le> (\<lfloor>x\<rfloor> :: int)" "\<lfloor>x\<rfloor> \<le> (999 :: int)" if "2 \<le> x" "x \<le> 999"
    using that floor_mono [of 2 x] floor_mono [of x 999] by simp_all
  with Fin show ?thesis by (auto simp: f64_clamp_def f64_as_i32_def not_less)
qed (use assms in \<open>simp_all add: f64_clamp_def f64_as_i32_def\<close>)

lemma burstable_score_bounds: "0 < cap \<Longrightarrow> cap < 2 ^ 64 \<Longrightarrow> req < 2 ^ 64 \<Longrightarrow> 2 \<le> burstable_score req cap \<and> burstable_score req cap \<le> 999"
proof -
  assume a: "0 < cap" "cap < 2 ^ 64" "req < 2 ^ 64"
  have "1 \<le> fl (of_nat cap)" using a(1) representable_of_nat [of 1] by (intro fl_ge) simp_all
  then have c: "f64_of_u64 cap = Fin (fl (of_nat cap))" "fl (of_nat cap) \<noteq> 0" using a(2) by (simp_all add: f64_of_u64_Fin)
  have nn: "round64 x \<noteq> NaN" for x by (simp add: round64_def Let_def)
  have d: "f64_div (f64_of_u64 req) (f64_of_u64 cap) \<noteq> NaN"
    using c a(3) nn by (simp add: f64_of_u64_Fin)
  have "\<exists>y. f64_clamp (Fin 0) (Fin 1) (f64_div (f64_of_u64 req) (f64_of_u64 cap)) = Fin y"
    using d by (cases "f64_div (f64_of_u64 req) (f64_of_u64 cap)") (auto simp: f64_clamp_def)
  then obtain y where y: "f64_clamp (Fin 0) (Fin 1) (f64_div (f64_of_u64 req) (f64_of_u64 cap)) = Fin y" by blast
  have "f64_sub (Fin 1000) (f64_mul (Fin 998) (Fin y)) \<noteq> NaN"
    using nn by (cases "round64 (998 * y)") (simp_all)
  then have "f64_round (f64_sub (Fin 1000) (f64_mul (Fin 998) (Fin y))) \<noteq> NaN"
    by (cases "f64_sub (Fin 1000) (f64_mul (Fin 998) (Fin y))") simp_all
  then show ?thesis unfolding burstable_score_def Let_def y by (rule f64_as_i32_clamped)
qed

text \<open>The score of a container follows its class whatever the amounts are: -997 for Guaranteed, from 2 to 999 for
  Burstable, 1000 for BestEffort, so the kernel kills a BestEffort container before a Burstable one and that
  before a Guaranteed one.\<close>

theorem oom_scores_follow_qos:
  assumes "\<forall>r. requested = Some r \<longrightarrow> r < 2 ^ 64" "\<forall>c. capacity = Some c \<longrightarrow> c < 2 ^ 64"
  shows "score_for_qos Guaranteed r1 c1 < score_for_qos Burstable requested capacity \<and>
    score_for_qos Burstable requested capacity < score_for_qos BestEffort r2 c2 \<and>
    2 \<le> score_for_qos Burstable requested capacity"
proof -
  have "2 \<le> score_for_qos Burstable requested capacity \<and> score_for_qos Burstable requested capacity \<le> 999"
  proof (cases "requested = None \<or> requested = Some 0 \<or> capacity = None \<or> capacity = Some 0")
    case True
    then show ?thesis by (auto simp: score_for_qos_def Let_def split: option.split)
  next
    case False
    then obtain r c where "requested = Some r" "capacity = Some c" "r \<noteq> 0" "c \<noteq> 0" by (cases requested; cases capacity) auto
    with assms burstable_score_bounds [of c r] show ?thesis by (simp add: score_for_qos_def)
  qed
  then show ?thesis by (simp add: score_for_qos_def [of Guaranteed] score_for_qos_def [of BestEffort])
qed

theorem oom_scores_follow_qos_witness:
  "score_for_qos Guaranteed None None < score_for_qos Burstable (Some 5) (Some 10)"
  using oom_scores_follow_qos [of "Some 5" "Some 10" None None] by simp

text \<open>Without a node capacity, which is how the pod worker calls it, the amount requested plays no part.\<close>

theorem score_without_capacity: "score_for_qos Burstable requested None = 999"
  by (simp add: score_for_qos_def Let_def)

text \<open>A closing parenthesis before the first opening one makes the slice panic.\<close>

theorem kmsg_reversed_parentheses_panic: "parse_kmsg_line t ''oom-kill: a) (b'' = None"
  by (simp add: parse_kmsg_line_def kmsg_process_name_def byte_slice_def)

end
