(* ===== verification/Pod_Start.thy ===== *)
theory Pod_Start
  imports Pod_Status Oom_Watcher
begin

section \<open>Images, sandboxes and the start of a container\<close>

text \<open>
  \<^verbatim>\<open>ensure_image\<close>, \<^verbatim>\<open>allocate_device_resources\<close>, \<^verbatim>\<open>create_sandbox\<close> with the recovery and clean-up of older sandboxes,
  and \<^verbatim>\<open>start_container\<close> of \<^verbatim>\<open>pod_worker/mod.rs\<close>, over the environment of \<open>Worker_State\<close>. The result of
  \<open>start_container\<close> has a third case: the expansion of a variable reference may panic.
\<close>

subsection \<open>Images\<close>

fun image_status_attempts :: "Env \<Rightarrow> string \<Rightarrow> nat \<Rightarrow> string option result sync" where
  "image_status_attempts en img 0 = ret (Inr None)"
| "image_status_attempts en img (Suc k) = do {
     r \<leftarrow> ask (CImageStatus img) (\<lambda>h. en_image_status en h img);
     case r of
       Inr (Some info) \<Rightarrow> ret (Inr (Some (ii_id info)))
     | Inr None \<Rightarrow> ret (Inr None)
     | Inl e \<Rightarrow>
         if is_transient_runtime_connection_error e \<and> 0 < k then do { sleep 500; image_status_attempts en img k }
         else ret (Inl e)
   }"

fun pull_attempts :: "Env \<Rightarrow> string \<Rightarrow> ImagePullSecret list \<Rightarrow> nat \<Rightarrow> string result sync" where
  "pull_attempts en img secrets 0 = ret (Inl (ERuntime ''image pull failed after transient-retry budget exhausted''))"
| "pull_attempts en img secrets (Suc k) = do {
     r \<leftarrow> ask (CPullImage img secrets) (\<lambda>h. en_pull_image en h img secrets);
     case r of
       Inr i \<Rightarrow> ret (Inr i)
     | Inl e \<Rightarrow>
         if is_transient_runtime_connection_error e \<and> 0 < k then do { sleep 500; pull_attempts en img secrets k }
         else ret (Inl e)
   }"

definition RETRY_ATTEMPTS :: nat where
  "RETRY_ATTEMPTS = 3"

definition ensure_image :: "Env \<Rightarrow> string \<Rightarrow> string result sync" where
  "ensure_image en img = do {
     secrets \<leftarrow> ask (CPullSecrets img) (\<lambda>h. en_pull_secrets en h img);
     r \<leftarrow> image_status_attempts en img RETRY_ATTEMPTS;
     case r of
       Inl e \<Rightarrow> ret (Inl e)
     | Inr (Some i) \<Rightarrow> ret (Inr i)
     | Inr None \<Rightarrow> pull_attempts en img secrets RETRY_ATTEMPTS
   }"

subsection \<open>Devices\<close>

type_synonym extras = "DeviceMount list \<times> DevicePluginMount list \<times> (string \<times> string) list"

definition add_response :: "AllocateResponse \<Rightarrow> extras \<Rightarrow> extras" where
  "add_response resp x =
     (let (devices, mounts, envs) = x in
      (devices @ map (\<lambda>d. \<lparr>dm_host_path = ds_host_path d, dm_container_path = ds_container_path d, dm_permissions = ds_permissions d\<rparr>) (ar_devices resp),
       mounts @ map (\<lambda>m. \<lparr>dpm_host_path = mt_host_path m, dpm_container_path = mt_container_path m, dpm_read_only = mt_read_only m\<rparr>) (ar_mounts resp),
       envs @ ar_envs resp))"

definition extended_request :: "string \<Rightarrow> ResourceQuantity \<Rightarrow> nat option" where
  "extended_request resource qty =
     (if resource \<in> {''cpu'', ''memory'', ''ephemeral-storage''} \<or> CHR ''/'' \<notin> set resource then None
      else let count = nat (max 0 (rq_value qty)) in if count = 0 then None else Some count)"

fun allocate_loop :: "Env \<Rightarrow> PodSpec \<Rightarrow> string \<Rightarrow> (string, ResourceQuantity) hmap \<Rightarrow> extras \<Rightarrow> extras sync" where
  "allocate_loop en pod name [] x = ret x"
| "allocate_loop en pod name ((resource, qty) # limits) x =
     (case extended_request resource qty of
        None \<Rightarrow> allocate_loop en pod name limits x
      | Some count \<Rightarrow> do {
          r \<leftarrow> ask (CAllocateDevices (ps_uid pod) name resource count) (\<lambda>h. en_allocate en h resource count);
          allocate_loop en pod name limits (case r of Inr resp \<Rightarrow> add_response resp x | Inl _ \<Rightarrow> x)
        })"

definition worker_device_resources :: "Env \<Rightarrow> PodSpec \<Rightarrow> ContainerSpec \<Rightarrow> extras sync" where
  "worker_device_resources en pod c = allocate_loop en pod (ctr_name c) (rr_limits (ctr_resources c)) ([], [], [])"

subsection \<open>Sandboxes\<close>

definition cleanup_sandbox :: "Env \<Rightarrow> string \<Rightarrow> unit sync" where
  "cleanup_sandbox en i = do { _ \<leftarrow> stop_pod_sandbox en i; _ \<leftarrow> remove_pod_sandbox en i; ret () }"

definition cleanup_stale_sandboxes_for_pod :: "Env \<Rightarrow> WorkerConfig \<Rightarrow> PodSpec \<Rightarrow> unit sync" where
  "cleanup_stale_sandboxes_for_pod en cfg pod = do {
     r \<leftarrow> list_pod_sandboxes en;
     case r of
       Inl _ \<Rightarrow> ret ()
     | Inr items \<Rightarrow>
         for_each (\<lambda>sb. if sandbox_matches_pod_identity sb pod (wc_node_name cfg) then cleanup_sandbox en (sbs_id sb) else ret ()) items
   }"

definition sandbox_ip_of :: "Env \<Rightarrow> string \<Rightarrow> string option result sync" where
  "sandbox_ip_of en i = do {
     r \<leftarrow> pod_sandbox_status en i;
     ret (map_sum id (\<lambda>st. map_option sns_ip (Option.bind st sbs_network)) r)
   }"

definition recover_step ::
  "Env \<Rightarrow> WorkerConfig \<Rightarrow> PodSpec \<Rightarrow> SandboxStatus \<Rightarrow> (string \<times> string option) result option sync" where
  "recover_step en cfg pod sb =
     (if \<not> sandbox_matches_pod_identity sb pod (wc_node_name cfg) then ret None
      else if sbs_pod_uid sb \<noteq> ps_uid pod then do { cleanup_sandbox en (sbs_id sb); ret None }
      else if sbs_state sb = SReady then do {
        r \<leftarrow> sandbox_ip_of en (sbs_id sb);
        ret (Some (map_sum id (\<lambda>ip. (sbs_id sb, ip)) r))
      }
      else do { cleanup_sandbox en (sbs_id sb); ret None })"

definition recover_existing_sandbox :: "Env \<Rightarrow> WorkerConfig \<Rightarrow> PodSpec \<Rightarrow> (string \<times> string option) option result sync" where
  "recover_existing_sandbox en cfg pod = do {
     l \<leftarrow> list_pod_sandboxes en;
     case l of
       Inl e \<Rightarrow> ret (Inl e)
     | Inr sandboxes \<Rightarrow> do {
         r \<leftarrow> for_until (recover_step en cfg pod) sandboxes;
         ret (case r of None \<Rightarrow> Inr None | Some (Inl e) \<Rightarrow> Inl e | Some (Inr x) \<Rightarrow> Inr (Some x))
       }
   }"

text \<open>The node's resolver files are read when the configuration is built.\<close>

definition sandbox_config :: "Env \<Rightarrow> WorkerConfig \<Rightarrow> PodSpec \<Rightarrow> CreateSandboxConfig sync" where
  "sandbox_config en cfg pod =
     ask (CReadFile (nd_resolv_conf_path (wc_node_dns cfg))) (\<lambda>h.
       worker_sandbox_config (en_file en h) (wc_cgroup_driver cfg) (wc_log_dir cfg) (wc_pod_infra_container_image cfg) (wc_node_dns cfg) pod)"

definition run_sandbox :: "Env \<Rightarrow> WorkerConfig \<Rightarrow> PodSpec \<Rightarrow> CreateSandboxConfig \<Rightarrow> string result sync" where
  "run_sandbox en cfg pod config = do {
     r \<leftarrow> run_pod_sandbox en config;
     case r of
       Inr i \<Rightarrow> ret (Inr i)
     | Inl e \<Rightarrow>
         if contains_str ''is reserved for'' (error_to_string e)
         then do { cleanup_stale_sandboxes_for_pod en cfg pod; run_pod_sandbox en config }
         else ret (Inl e)
   }"

definition create_sandbox :: "Env \<Rightarrow> WorkerConfig \<Rightarrow> PodSpec \<Rightarrow> (string \<times> string option) result sync" where
  "create_sandbox en cfg pod = do {
     img \<leftarrow> ensure_image en (wc_pod_infra_container_image cfg);
     case img of
       Inl e \<Rightarrow> ret (Inl (ERuntime (''failed to pull pod infra container image: '' @ error_to_string e)))
     | Inr _ \<Rightarrow> do {
         found \<leftarrow> recover_existing_sandbox en cfg pod;
         case found of
           Inl e \<Rightarrow> ret (Inl e)
         | Inr (Some x) \<Rightarrow> ret (Inr x)
         | Inr None \<Rightarrow> do {
             config \<leftarrow> sandbox_config en cfg pod;
             r \<leftarrow> run_sandbox en cfg pod config;
             case r of
               Inl e \<Rightarrow> ret (Inl e)
             | Inr i \<Rightarrow> do { ip \<leftarrow> sandbox_ip_of en i; ret (map_sum id (\<lambda>p. (i, p)) ip) }
           }
       }
   }"

definition cleanup_container_by_id :: "Env \<Rightarrow> ContainerID \<Rightarrow> unit sync" where
  "cleanup_container_by_id en cid = do { _ \<leftarrow> stop_container en cid 0; _ \<leftarrow> remove_container_call en cid; ret () }"

definition cleanup_reserved_container_name :: "Env \<Rightarrow> PodSpec \<Rightarrow> ContainerSpec \<Rightarrow> unit sync" where
  "cleanup_reserved_container_name en pod c = do {
     r \<leftarrow> list_containers en;
     case r of
       Inl _ \<Rightarrow> ret ()
     | Inr items \<Rightarrow>
         for_each (\<lambda>k. if hm_get (rtc_labels k) ''kubelet.rs/pod_uid'' = Some (ps_uid pod) \<and>
                         hm_get (rtc_labels k) ''kubelet.rs/container_name'' = Some (ctr_name c)
                      then do { _ \<leftarrow> remove_container_call en (rtc_id k); ret () } else ret ()) items
   }"

subsection \<open>Volume mounts\<close>

definition path_join :: "string \<Rightarrow> string \<Rightarrow> string" where
  "path_join base p =
     (if starts_with ''/'' p then p else if base = [] \<or> ends_with ''/'' base then base @ p else base @ ''/'' @ p)"

definition invalid_sub_path :: "string \<Rightarrow> bool" where
  "invalid_sub_path p \<longleftrightarrow> starts_with ''/'' p \<or> CHR 0x00 \<in> set p \<or> ''..'' \<in> set (split_on CHR ''/'' p)"

datatype mounts = MountsOk "VolumeMount list" | MountsError KubeletError | MountsConfigError string | MountsPanic

definition debug_str_list :: "string list \<Rightarrow> string" where
  "debug_str_list xs = ''['' @ join '', '' (map debug_str xs) @ '']''"

text \<open>The sub-path of one mount: \<open>None\<close> is a panic, \<open>Some (Inl msg)\<close> a configuration error.\<close>

definition effective_sub_path :: "(string, string) hmap \<Rightarrow> VolumeMount \<Rightarrow> (string + string option) option" where
  "effective_sub_path env vm =
     (case vm_sub_path_expr vm of
        Some expr \<Rightarrow>
          if expr = [] then Some (Inr None)
          else (case expand_env_value expr env of
                  None \<Rightarrow> None
                | Some expanded \<Rightarrow>
                    Some (if invalid_sub_path expanded
                      then Inl (''invalid subPathExpr: '' @ [CHR 0x22] @ expr @ [CHR 0x22] @ '' expanded to invalid path '' @ [CHR 0x22] @ expanded @ [CHR 0x22])
                      else Inr (Some expanded)))
      | None \<Rightarrow> Some (Inr (vm_sub_path vm)))"

definition mount_source :: "string \<Rightarrow> string option \<Rightarrow> string sync" where
  "mount_source base sub =
     (case sub of
        None \<Rightarrow> ret base
      | Some p \<Rightarrow> if p = [] then ret base else do { tell (CMakeDir (path_join base p)); ret (path_join base p) })"

fun resolve_mounts ::
  "string \<Rightarrow> (string, string) hmap \<Rightarrow> (string, string) hmap \<Rightarrow> VolumeMount list \<Rightarrow> VolumeMount list \<Rightarrow> mounts sync" where
  "resolve_mounts ctr mounted env [] acc = ret (MountsOk acc)"
| "resolve_mounts ctr mounted env (vm # vms) acc =
     (if trim (vm_mount_path vm) = []
      then ret (MountsError (ERuntime (''container '' @ quoted ctr @ '' has volumeMount '' @ quoted (vm_name vm) @ '' with empty mount_path'')))
      else case hm_get mounted (vm_name vm) of
        None \<Rightarrow> ret (MountsError (ERuntime (''container '' @ quoted ctr @ '' references unknown volumeMount '' @ quoted (vm_name vm) @
                  '' (mounted volumes: '' @ debug_str_list (hm_keys mounted) @ '')'')))
      | Some base \<Rightarrow>
          (case effective_sub_path env vm of
             None \<Rightarrow> ret MountsPanic
           | Some (Inl msg) \<Rightarrow> ret (MountsConfigError msg)
           | Some (Inr sub) \<Rightarrow> do {
               src \<leftarrow> mount_source base sub;
               if src = []
               then ret (MountsError (ERuntime (''container '' @ quoted ctr @ '' has volumeMount '' @ quoted (vm_name vm) @ '' resolved to empty source path'')))
               else resolve_mounts ctr mounted env vms (acc @ [vm\<lparr>vm_sub_path := Some src\<rparr>])
             }))"

definition write_etc_hosts_file :: "Env \<Rightarrow> WorkerConfig \<Rightarrow> PodSpec \<Rightarrow> string option \<Rightarrow> string option sync" where
  "write_etc_hosts_file en cfg pod pod_ip = do {
     let pod_dir = path_join (path_join (wc_root_dir cfg) ''pods'') (ps_uid pod);
     let hosts_path = path_join pod_dir ''etc-hosts'';
     tell (CMakeDir pod_dir);
     node_hosts \<leftarrow> (if ps_host_network pod then read_file en ''/etc/hosts'' else ret None);
     ok \<leftarrow> ask (CWriteFile hosts_path (etc_hosts_content node_hosts pod pod_ip)) (\<lambda>h. en_write_file en h hosts_path);
     ret (if ok then Some hosts_path else None)
   }"

definition managed_mount :: "string \<Rightarrow> string \<Rightarrow> string \<Rightarrow> VolumeMount" where
  "managed_mount name path src =
     \<lparr>vm_name = name, vm_mount_path = path, vm_sub_path = Some src, vm_sub_path_expr = None, vm_read_only = False\<rparr>"

definition add_hosts_mount :: "Env \<Rightarrow> WorkerConfig \<Rightarrow> PodSpec \<Rightarrow> string option \<Rightarrow> VolumeMount list \<Rightarrow> VolumeMount list sync" where
  "add_hosts_mount en cfg pod pod_ip vms =
     (if list_ex (\<lambda>m. vm_mount_path m = ''/etc/hosts'') vms \<or> ps_host_network pod then ret vms
      else do {
        p \<leftarrow> write_etc_hosts_file en cfg pod pod_ip;
        ret (case p of Some path \<Rightarrow> vms @ [managed_mount ''k8s-managed-etc-hosts'' ''/etc/hosts'' path] | None \<Rightarrow> vms)
      })"

definition trim_end_slashes :: "string \<Rightarrow> string" where
  "trim_end_slashes s = rev (dropWhile (\<lambda>c. c = CHR ''/'') (rev s))"

definition covers :: "string \<Rightarrow> VolumeMount \<Rightarrow> bool" where
  "covers term_path m \<longleftrightarrow>
     (let mp = trim_end_slashes (vm_mount_path m); tp = trim_end_slashes term_path in tp = mp \<or> starts_with (mp @ ''/'') tp)"

definition add_termination_mount :: "Env \<Rightarrow> WorkerConfig \<Rightarrow> PodSpec \<Rightarrow> ContainerSpec \<Rightarrow> VolumeMount list \<Rightarrow> VolumeMount list sync" where
  "add_termination_mount en cfg pod c vms = do {
     let term_path = (case ctr_termination_message_path c of Some p \<Rightarrow> p | None \<Rightarrow> ''/dev/termination-log'');
     let host_log = termination_log_path cfg pod (ctr_name c);
     tell (CMakeDir (pod_log_dir (wc_log_dir cfg) pod @ ''/'' @ ctr_name c));
     kind \<leftarrow> ask (CFileKind host_log) (\<lambda>h. en_file_kind en h host_log);
     (case kind of
        IsDirectory \<Rightarrow> do { tell (CRemoveDir host_log); tell (CCreateFile host_log) }
      | IsFile \<Rightarrow> ret ()
      | NoFile \<Rightarrow> tell (CCreateFile host_log));
     tell (CChmod host_log);
     ret (if list_ex (covers term_path) vms then vms else vms @ [managed_mount ''k8s-termination-log'' term_path host_log])
   }"

subsection \<open>Starting a container\<close>

datatype started = Started | StartError KubeletError | StartPanic

definition container_config ::
  "WorkerConfig \<Rightarrow> PodSpec \<Rightarrow> ContainerSpec \<Rightarrow> ContainerSpec \<Rightarrow> string \<Rightarrow> string \<Rightarrow> u32 \<Rightarrow> (string \<times> string) list \<Rightarrow> extras \<Rightarrow> CreateContainerConfig" where
  "container_config cfg pod c resolved sandbox_id image_id attempt extra_env x =
     (let (devices, mounts, envs) = x in
      \<lparr>cc_pod_uid = ps_uid pod, cc_pod_name = pr_name (ps_pod_ref pod), cc_pod_namespace = pr_namespace (ps_pod_ref pod),
       cc_attempt = attempt, cc_container = resolved, cc_sandbox_id = sandbox_id, cc_image_id = image_id,
       cc_log_directory = pod_log_dir (wc_log_dir cfg) pod, cc_env_overrides = [], cc_extra_env = extra_env,
       cc_security = build_container_security (ctr_security_context c) (ps_security_context pod),
       cc_linux_cgroup_parent = sandbox_cgroup_parent (wc_cgroup_driver cfg) pod,
       cc_extra_devices = devices, cc_extra_mounts = mounts, cc_extra_device_envs = envs,
       cc_share_process_namespace = (case ps_share_process_namespace pod of Some b \<Rightarrow> b | None \<Rightarrow> False),
       cc_pod_hostname = effective_hostname pod\<rparr>)"

definition remove_previous :: "Env \<Rightarrow> string \<Rightarrow> unit sync" where
  "remove_previous en name = do {
     st \<leftarrow> rt;
     case hm_get (rt_container_ids st) name of
       None \<Rightarrow> ret ()
     | Some old_cid \<Rightarrow> do {
         _ \<leftarrow> remove_container_call en old_cid;
         tell (CForgetProbes old_cid);
         set_rt (\<lambda>r. r\<lparr>rt_probe_registered := hm_remove name (rt_probe_registered r),
                       rt_startup_probe_registered := hm_remove name (rt_startup_probe_registered r),
                       rt_readiness_probe_registered := hm_remove name (rt_readiness_probe_registered r),
                       rt_container_ids := hm_remove name (rt_container_ids r)\<rparr>)
       }
   }"

definition create_with_retry :: "Env \<Rightarrow> PodSpec \<Rightarrow> ContainerSpec \<Rightarrow> CreateContainerConfig \<Rightarrow> ContainerID result sync" where
  "create_with_retry en pod c config = do {
     r \<leftarrow> create_container en config;
     case r of
       Inr cid \<Rightarrow> ret (Inr cid)
     | Inl e \<Rightarrow>
         (case reserved_container_name (error_to_string e) of
            None \<Rightarrow> ret (Inl e)
          | Some _ \<Rightarrow> do {
              (case reserved_container_id (error_to_string e) of
                 Some i \<Rightarrow> cleanup_container_by_id en i
               | None \<Rightarrow> ret ());
              cleanup_reserved_container_name en pod c;
              create_container en config
            })
   }"

definition requested_memory :: "PodSpec \<Rightarrow> nat" where
  "requested_memory pod =
     sum_list (map (\<lambda>c. nat (max 0 (case quantity_of (rr_requests (ctr_resources c)) ''memory'' of Some v \<Rightarrow> v | None \<Rightarrow> 0)))
       (ps_containers pod @ ps_init_containers pod))"

definition apply_oom_score :: "Env \<Rightarrow> PodSpec \<Rightarrow> ContainerID \<Rightarrow> unit sync" where
  "apply_oom_score en pod cid = do {
     r \<leftarrow> container_status en cid;
     case r of
       Inr (Some s) \<Rightarrow>
         (case rtc_pid s of
            Some pid \<Rightarrow> tell (COomScore pid (score_for_qos (compute_qos_class pod) (Some (requested_memory pod)) None))
          | None \<Rightarrow> ret ())
     | _ \<Rightarrow> ret ()
   }"

definition record_started :: "Env \<Rightarrow> string \<Rightarrow> ContainerID \<Rightarrow> unit sync" where
  "record_started en name cid = do {
     t \<leftarrow> now en;
     set_rt (\<lambda>r. r\<lparr>rt_crash_loop_backoff := removeAll name (rt_crash_loop_backoff r),
                   rt_container_ids := hm_insert name cid (rt_container_ids r),
                   rt_recently_started := hm_insert name t (rt_recently_started r)\<rparr>)
   }"

text \<open>From the creation of the container on.\<close>

definition launch :: "Env \<Rightarrow> PodSpec \<Rightarrow> ContainerSpec \<Rightarrow> CreateContainerConfig \<Rightarrow> u32 \<Rightarrow> started sync" where
  "launch en pod c config attempt = do {
     remove_previous en (ctr_name c);
     created \<leftarrow> create_with_retry en pod c config;
     case created of
       Inl e \<Rightarrow> ret (StartError e)
     | Inr cid \<Rightarrow> do {
         set_rt (\<lambda>r. r\<lparr>rt_restart_counts := hm_insert (ctr_name c) (sat_add attempt 1) (rt_restart_counts r)\<rparr>);
         r \<leftarrow> start_container_call en cid;
         case r of
           Inl e \<Rightarrow> do { _ \<leftarrow> remove_container_call en cid; ret (StartError e) }
         | Inr _ \<Rightarrow> do {
             hook \<leftarrow> (case Option.bind (ctr_lifecycle c) lc_post_start of
                        Some handler \<Rightarrow> ask (CPostStart handler cid) (\<lambda>h. en_post_start en h handler cid)
                      | None \<Rightarrow> ret (Inr ()));
             case hook of
               Inl e \<Rightarrow> do { _ \<leftarrow> stop_container en cid 0; ret (StartError e) }
             | Inr _ \<Rightarrow> do {
                 apply_oom_score en pod cid;
                 record_started en (ctr_name c) cid;
                 tell (CContainerEvent (ctr_name c) ''Normal'' ''Started'' (''Started container '' @ ctr_name c));
                 ret Started
               }
           }
       }
   }"

text \<open>The configuration of the container: mounts, command, devices.\<close>

definition prepare ::
  "Env \<Rightarrow> WorkerConfig \<Rightarrow> PodSpec \<Rightarrow> ContainerSpec \<Rightarrow> string \<Rightarrow> string \<Rightarrow> (string, string) hmap \<Rightarrow> VolumeMount list \<Rightarrow>
   (CreateContainerConfig \<times> u32) option sync" where
  "prepare en cfg pod c sandbox_id image_id env vms = do {
     st \<leftarrow> rt;
     vms \<leftarrow> add_hosts_mount en cfg pod (rt_sandbox_ip st) vms;
     vms \<leftarrow> add_termination_mount en cfg pod c vms;
     let attempt = restart_count_of st (ctr_name c);
     case (expand_container_tokens (ctr_command c) env, expand_container_tokens (ctr_args c) env) of
       (Some command, Some args) \<Rightarrow> do {
         x \<leftarrow> worker_device_resources en pod c;
         let resolved = c\<lparr>ctr_volume_mounts := vms, ctr_command := command, ctr_args := args\<rparr>;
         ret (Some (container_config cfg pod c resolved sandbox_id image_id attempt env x, attempt))
       }
     | _ \<Rightarrow> ret None
   }"

definition start_container :: "Env \<Rightarrow> WorkerConfig \<Rightarrow> PodSpec \<Rightarrow> ContainerSpec \<Rightarrow> string \<Rightarrow> started sync" where
  "start_container en cfg pod c sandbox_id = do {
     img \<leftarrow> ensure_image en (ctr_image c);
     case img of
       Inl e \<Rightarrow> ret (StartError e)
     | Inr image_id \<Rightarrow> do {
         vols \<leftarrow> ask (CListVolumes (ps_uid pod)) (en_list_volumes en);
         case vols of
           Inl e \<Rightarrow> ret (StartError e)
         | Inr mounted \<Rightarrow> do {
             st \<leftarrow> rt;
             envr \<leftarrow> ask (CResolveEnv (ctr_name c)) (\<lambda>h. resolve_container_env (en_kube_api en h) (en_node_facts en h) pod c (rt_sandbox_ip st));
             case envr of
               None \<Rightarrow> ret StartPanic
             | Some (Inl e) \<Rightarrow> ret (StartError e)
             | Some (Inr env) \<Rightarrow> do {
                 m \<leftarrow> resolve_mounts (ctr_name c) (hm_insert_all mounted []) env (ctr_volume_mounts c) [];
                 case m of
                   MountsPanic \<Rightarrow> ret StartPanic
                 | MountsError e \<Rightarrow> ret (StartError e)
                 | MountsConfigError msg \<Rightarrow> do {
                     set_rt (\<lambda>r. r\<lparr>rt_container_config_errors := hm_insert (ctr_name c) msg (rt_container_config_errors r)\<rparr>);
                     ret Started
                   }
                 | MountsOk vms \<Rightarrow> do {
                     p \<leftarrow> prepare en cfg pod c sandbox_id image_id env vms;
                     case p of
                       None \<Rightarrow> ret StartPanic
                     | Some (config, attempt) \<Rightarrow> launch en pod c config attempt
                   }
               }
           }
       }
   }"

end
