(* ===== verification/Kube_Types.thy ===== *)
theory Kube_Types
  imports Pod_Types
begin

section \<open>Pods as the API server sends them\<close>

text \<open>
  The fields of the API types (crate \<^verbatim>\<open>k8s_openapi\<close>) that \<^verbatim>\<open>kube_reporter\<close> reads from a watched pod, with the types the API
  documents: machine integers as \<open>int\<close>, maps ordered by key as lists, an absent field as \<open>None\<close>.
\<close>

datatype IntOrString = IsInt int | IsString string

record KubeKeyRef =
  kk_name :: "string option"
  kk_key :: string
  kk_optional :: "bool option"

record KubeResourceFieldSelector =
  kr_container_name :: "string option"
  kr_resource :: string
  kr_divisor :: "string option"

record KubeEnvVarSource =
  ke_field_path :: "string option"
  ke_resource_field_ref :: "KubeResourceFieldSelector option"
  ke_config_map_key_ref :: "KubeKeyRef option"
  ke_secret_key_ref :: "KubeKeyRef option"

record KubeEnvVar =
  kv_name :: string
  kv_value :: "string option"
  kv_value_from :: "KubeEnvVarSource option"

record KubeEnvRef =
  kf_name :: "string option"
  kf_optional :: "bool option"

record KubeEnvFrom =
  kf_prefix :: "string option"
  kf_config_map_ref :: "KubeEnvRef option"
  kf_secret_ref :: "KubeEnvRef option"

record KubeVolumeMount =
  km_name :: string
  km_mount_path :: string
  km_sub_path :: "string option"
  km_sub_path_expr :: "string option"
  km_read_only :: "bool option"

record KubeHttpGet =
  kh_path :: "string option"
  kh_port :: IntOrString
  kh_host :: "string option"
  kh_scheme :: "string option"

record KubeTcpSocket =
  kt_port :: IntOrString
  kt_host :: "string option"

record KubeGrpc =
  kg_port :: int
  kg_service :: "string option"

text \<open>The \<^verbatim>\<open>exec\<close> of a handler is its optional command.\<close>

record KubeProbe =
  kp_exec :: "string list option option"
  kp_http_get :: "KubeHttpGet option"
  kp_tcp_socket :: "KubeTcpSocket option"
  kp_grpc :: "KubeGrpc option"
  kp_initial_delay_seconds :: "int option"
  kp_period_seconds :: "int option"
  kp_timeout_seconds :: "int option"
  kp_success_threshold :: "int option"
  kp_failure_threshold :: "int option"

record KubeLifecycleHandler =
  kl_exec :: "string list option option"
  kl_http_get :: "KubeHttpGet option"
  kl_tcp_socket :: "KubeTcpSocket option"
  kl_sleep_seconds :: "int option"

record KubeLifecycle =
  kl_post_start :: "KubeLifecycleHandler option"
  kl_pre_stop :: "KubeLifecycleHandler option"

record KubePort =
  kq_name :: "string option"
  kq_container_port :: int
  kq_host_port :: "int option"
  kq_protocol :: "string option"
  kq_host_ip :: "string option"

record KubeProfile =
  kx_type :: string
  kx_localhost_profile :: "string option"

record KubeCapabilities =
  kc_add :: "string list option"
  kc_drop :: "string list option"

record KubeSecurityContext =
  ks_run_as_user :: "int option"
  ks_run_as_group :: "int option"
  ks_run_as_non_root :: "bool option"
  ks_privileged :: "bool option"
  ks_read_only_root_filesystem :: "bool option"
  ks_allow_privilege_escalation :: "bool option"
  ks_capabilities :: "KubeCapabilities option"
  ks_seccomp_profile :: "KubeProfile option"
  ks_app_armor_profile :: "KubeProfile option"
  ks_proc_mount :: "string option"

record KubeResources =
  kz_requests :: "(string, string) hmap option"
  kz_limits :: "(string, string) hmap option"

record KubeContainer =
  kn_name :: string
  kn_image :: "string option"
  kn_image_pull_policy :: "string option"
  kn_command :: "string list option"
  kn_args :: "string list option"
  kn_env :: "KubeEnvVar list option"
  kn_env_from :: "KubeEnvFrom list option"
  kn_volume_mounts :: "KubeVolumeMount list option"
  kn_resources :: "KubeResources option"
  kn_working_dir :: "string option"
  kn_stdin :: "bool option"
  kn_tty :: "bool option"
  kn_termination_message_path :: "string option"
  kn_termination_message_policy :: "string option"
  kn_ports :: "KubePort list option"
  kn_liveness_probe :: "KubeProbe option"
  kn_readiness_probe :: "KubeProbe option"
  kn_startup_probe :: "KubeProbe option"
  kn_security_context :: "KubeSecurityContext option"
  kn_restart_policy :: "string option"
  kn_lifecycle :: "KubeLifecycle option"

record KubeKeyToPath =
  ki_key :: string
  ki_path :: string
  ki_mode :: "int option"

record KubeDownwardFile =
  kd_path :: string
  kd_field_path :: "string option"
  kd_resource_field_ref :: "KubeResourceFieldSelector option"
  kd_mode :: "int option"

record KubeMapProjection =
  kw_name :: "string option"
  kw_items :: "KubeKeyToPath list option"
  kw_optional :: "bool option"

record KubeTokenProjection =
  ky_audience :: "string option"
  ky_expiration_seconds :: "int option"
  ky_path :: string

record KubeProjection =
  kj_service_account_token :: "KubeTokenProjection option"
  kj_config_map :: "KubeMapProjection option"
  kj_secret :: "KubeMapProjection option"
  kj_downward_api :: "KubeDownwardFile list option option"

record KubeMapVolume =
  ku_name :: "string option"
  ku_items :: "KubeKeyToPath list option"
  ku_optional :: "bool option"
  ku_default_mode :: "int option"

text \<open>A host path is its path and type, an empty directory its medium, a claim its name and read-only flag.\<close>

record KubeVolume =
  kb_name :: string
  kb_host_path :: "(string \<times> string option) option"
  kb_empty_dir :: "string option option"
  kb_config_map :: "KubeMapVolume option"
  kb_secret :: "KubeMapVolume option"
  kb_persistent_volume_claim :: "(string \<times> bool option) option"
  kb_projected :: "(KubeProjection list option \<times> int option) option"
  kb_downward_api :: "(KubeDownwardFile list option \<times> int option) option"

record KubePodSecurityContext =
  ko_run_as_user :: "int option"
  ko_run_as_group :: "int option"
  ko_run_as_non_root :: "bool option"
  ko_fs_group :: "int option"
  ko_supplemental_groups :: "int list option"
  ko_fs_group_change_policy :: "string option"
  ko_sysctls :: "(string \<times> string) list option"
  ko_seccomp_profile :: "KubeProfile option"

record KubeDnsConfig =
  kdns_nameservers :: "string list option"
  kdns_searches :: "string list option"
  kdns_options :: "(string option \<times> string option) list option"

record KubePodSpec =
  kps_containers :: "KubeContainer list"
  kps_init_containers :: "KubeContainer list option"
  kps_ephemeral_containers :: "KubeContainer list option"
  kps_volumes :: "KubeVolume list option"
  kps_restart_policy :: "string option"
  kps_node_selector :: "(string, string) hmap option"
  kps_readiness_gates :: "string list option"
  kps_node_name :: "string option"
  kps_active_deadline_seconds :: "int option"
  kps_service_account_name :: "string option"
  kps_automount_service_account_token :: "bool option"
  kps_termination_grace_period_seconds :: "int option"
  kps_priority :: "int option"
  kps_runtime_class_name :: "string option"
  kps_security_context :: "KubePodSecurityContext option"
  kps_host_network :: "bool option"
  kps_host_pid :: "bool option"
  kps_host_ipc :: "bool option"
  kps_host_aliases :: "(string option \<times> string list option) list option"
  kps_image_pull_secrets :: "string option list option"
  kps_enable_service_links :: "bool option"
  kps_share_process_namespace :: "bool option"
  kps_dns_policy :: "string option"
  kps_dns_config :: "KubeDnsConfig option"
  kps_hostname :: "string option"
  kps_subdomain :: "string option"

record KubeMetadata =
  kmd_uid :: "string option"
  kmd_name :: "string option"
  kmd_namespace :: "string option"
  kmd_labels :: "(string, string) hmap option"
  kmd_annotations :: "(string, string) hmap option"
  kmd_deletion_timestamp :: "timestamp option"
  kmd_generation :: "int option"

text \<open>Of the status, the start time is read.\<close>

record KubePod =
  kpd_metadata :: KubeMetadata
  kpd_spec :: "KubePodSpec option"
  kpd_start_time :: "timestamp option"

end
