(* ===== verification/Static_Manifest.thy ===== *)
theory Static_Manifest
  imports Pod_Types
begin

section \<open>Manifests of static pods\<close>

text \<open>
  The manifest types of \<^verbatim>\<open>kubelet-adapters/src/file_config/mod.rs\<close>, which \<^verbatim>\<open>url_config/mod.rs\<close> repeats for volumes, mounts and host
  aliases, and the conversion to the pods of \<^verbatim>\<open>kubelet-core\<close>. Decoding a file into a manifest is serde's.
\<close>

record ManifestKeyToPath =
  mk_key :: string
  mk_path :: string
  mk_mode :: "int option"

record ManifestConfigMapProjection =
  mcp_name :: "string option"
  mcp_items :: "ManifestKeyToPath list option"
  mcp_optional :: "bool option"

record ManifestSecretProjection =
  msp_name :: "string option"
  msp_items :: "ManifestKeyToPath list option"
  msp_optional :: "bool option"

record ManifestServiceAccountTokenProjection =
  mtp_audience :: "string option"
  mtp_expiration_seconds :: "nat option"
  mtp_path :: string

record ManifestProjectedSource =
  mps_service_account_token :: "ManifestServiceAccountTokenProjection option"
  mps_config_map :: "ManifestConfigMapProjection option"
  mps_secret :: "ManifestSecretProjection option"

record ManifestProjectedVolumeSource =
  mpv_sources :: "ManifestProjectedSource list option"
  mpv_default_mode :: "int option"

record ManifestPersistentVolumeClaimVolumeSource =
  mpc_claim_name :: string
  mpc_read_only :: "bool option"

record ManifestSecretVolumeSource =
  msv_secret_name :: "string option"
  msv_items :: "ManifestKeyToPath list option"
  msv_optional :: "bool option"
  msv_default_mode :: "int option"

record ManifestConfigMapVolumeSource =
  mcv_name :: "string option"
  mcv_items :: "ManifestKeyToPath list option"
  mcv_optional :: "bool option"
  mcv_default_mode :: "int option"

record ManifestEmptyDirVolumeSource =
  mev_medium :: "string option"

record ManifestHostPathVolumeSource =
  mhv_path :: string
  mhv_type :: "string option"

record ManifestVolume =
  mv_name :: string
  mv_host_path :: "ManifestHostPathVolumeSource option"
  mv_empty_dir :: "ManifestEmptyDirVolumeSource option"
  mv_config_map :: "ManifestConfigMapVolumeSource option"
  mv_secret :: "ManifestSecretVolumeSource option"
  mv_persistent_volume_claim :: "ManifestPersistentVolumeClaimVolumeSource option"
  mv_projected :: "ManifestProjectedVolumeSource option"

record ManifestVolumeMount =
  mm_name :: string
  mm_mount_path :: string
  mm_sub_path :: "string option"
  mm_read_only :: "bool option"

record ManifestContainer =
  mc_name :: string
  mc_image :: string
  mc_command :: "string list option"
  mc_args :: "string list option"
  mc_volume_mounts :: "ManifestVolumeMount list option"
  mc_image_pull_policy :: "string option"

record ManifestHostAlias =
  mh_ip :: "string option"
  mh_hostnames :: "string list option"

record ManifestSpec =
  ms_containers :: "ManifestContainer list option"
  ms_init_containers :: "ManifestContainer list option"
  ms_volumes :: "ManifestVolume list option"
  ms_restart_policy :: "string option"
  ms_host_network :: "bool option"
  ms_node_name :: "string option"
  ms_host_aliases :: "ManifestHostAlias list option"

record ManifestMetadata =
  mt_name :: "string option"
  mt_namespace :: "string option"
  mt_uid :: "string option"
  mt_annotations :: "(string, string) hmap option"
  mt_labels :: "(string, string) hmap option"

record PodManifest =
  mf_api_version :: "string option"
  mf_kind :: "string option"
  mf_metadata :: ManifestMetadata
  mf_spec :: ManifestSpec

subsection \<open>Conversion\<close>

definition or_empty :: "'a list option \<Rightarrow> 'a list" where
  "or_empty x = case_option [] id x"

definition or_false :: "bool option \<Rightarrow> bool" where
  "or_false x = case_option False id x"

definition manifest_key_to_path :: "ManifestKeyToPath \<Rightarrow> KeyToPath" where
  "manifest_key_to_path i = \<lparr>kp_key = mk_key i, kp_path = mk_path i, kp_mode = mk_mode i\<rparr>"

definition manifest_items :: "ManifestKeyToPath list option \<Rightarrow> KeyToPath list" where
  "manifest_items items = map manifest_key_to_path (or_empty items)"

definition manifest_restart_policy :: "string option \<Rightarrow> RestartPolicy" where
  "manifest_restart_policy p = (if p = Some ''Never'' then Never else if p = Some ''OnFailure'' then OnFailure else Always)"

definition manifest_pull_policy :: "string option \<Rightarrow> ImagePullPolicy" where
  "manifest_pull_policy p = (if p = Some ''Always'' then PullAlways else if p = Some ''Never'' then PullNever else PullIfNotPresent)"

definition manifest_projected_source :: "ManifestProjectedSource \<Rightarrow> ProjectedVolumeSource option" where
  "manifest_projected_source s =
     (case mps_service_account_token s of
        Some t \<Rightarrow> Some (PServiceAccountToken (mtp_audience t) (mtp_expiration_seconds t) (mtp_path t))
      | None \<Rightarrow>
          (case mps_config_map s of
             Some c \<Rightarrow> Some (PConfigMap (or_empty (mcp_name c)) (manifest_items (mcp_items c)) (or_false (mcp_optional c)))
           | None \<Rightarrow>
               (case mps_secret s of
                  Some c \<Rightarrow> Some (PSecret (or_empty (msp_name c)) (manifest_items (msp_items c)) (or_false (msp_optional c)))
                | None \<Rightarrow> None)))"

definition manifest_config_map :: "ManifestConfigMapVolumeSource \<Rightarrow> VolumeSource" where
  "manifest_config_map c =
     VConfigMap (or_empty (mcv_name c)) (manifest_items (mcv_items c)) (or_false (mcv_optional c)) (mcv_default_mode c)"

definition manifest_secret :: "ManifestSecretVolumeSource \<Rightarrow> VolumeSource" where
  "manifest_secret c =
     VSecret (or_empty (msv_secret_name c)) (manifest_items (msv_items c)) (or_false (msv_optional c)) (msv_default_mode c)"

definition manifest_claim :: "ManifestPersistentVolumeClaimVolumeSource \<Rightarrow> VolumeSource" where
  "manifest_claim c = PersistentVolumeClaim (mpc_claim_name c) (or_false (mpc_read_only c))"

definition manifest_projected :: "ManifestProjectedVolumeSource \<Rightarrow> VolumeSource" where
  "manifest_projected c =
     Projected (List.map_filter manifest_projected_source (or_empty (mpv_sources c))) (mpv_default_mode c)"

text \<open>The first source the manifest names, in the order the file source tries them.\<close>

definition manifest_volume_source :: "ManifestVolume \<Rightarrow> VolumeSource option" where
  "manifest_volume_source v =
     (case mv_host_path v of Some h \<Rightarrow> Some (HostPath (mhv_path h) (mhv_type h)) | None \<Rightarrow>
     (case mv_empty_dir v of Some e \<Rightarrow> Some (EmptyDir (mev_medium e) None) | None \<Rightarrow>
     (case mv_config_map v of Some c \<Rightarrow> Some (manifest_config_map c) | None \<Rightarrow>
     (case mv_secret v of Some c \<Rightarrow> Some (manifest_secret c) | None \<Rightarrow>
     (case mv_persistent_volume_claim v of Some c \<Rightarrow> Some (manifest_claim c) | None \<Rightarrow>
     (case mv_projected v of Some c \<Rightarrow> Some (manifest_projected c) | None \<Rightarrow> None))))))"

definition manifest_volume :: "ManifestVolume \<Rightarrow> VolumeSpec option" where
  "manifest_volume v = map_option (\<lambda>s. \<lparr>vs_name = mv_name v, vs_source = s\<rparr>) (manifest_volume_source v)"

definition manifest_mount :: "ManifestVolumeMount \<Rightarrow> VolumeMount" where
  "manifest_mount m =
     \<lparr>vm_name = mm_name m, vm_mount_path = mm_mount_path m, vm_sub_path = mm_sub_path m, vm_sub_path_expr = None,
      vm_read_only = or_false (mm_read_only m)\<rparr>"

definition manifest_container :: "ManifestContainer \<Rightarrow> ContainerSpec" where
  "manifest_container c =
     \<lparr>ctr_name = mc_name c, ctr_image = mc_image c, ctr_command = or_empty (mc_command c), ctr_args = or_empty (mc_args c),
      ctr_working_dir = None, ctr_ports = [], ctr_env = [], ctr_env_from = [], ctr_resources = ResourceRequirements_default,
      ctr_volume_mounts = map manifest_mount (or_empty (mc_volume_mounts c)), ctr_liveness_probe = None,
      ctr_readiness_probe = None, ctr_startup_probe = None, ctr_lifecycle = None,
      ctr_image_pull_policy = manifest_pull_policy (mc_image_pull_policy c), ctr_security_context = None,
      ctr_termination_message_path = None, ctr_termination_message_policy = None, ctr_stdin = None, ctr_stdin_once = None,
      ctr_tty = None, ctr_restart_policy = None\<rparr>"

definition manifest_host_alias :: "ManifestHostAlias \<Rightarrow> HostAlias" where
  "manifest_host_alias a = \<lparr>ha_ip = or_empty (mh_ip a), ha_hostnames = or_empty (mh_hostnames a)\<rparr>"

text \<open>A pod with the values every static pod gets: the literal the three constructions of the sources share.\<close>

definition static_template :: "PodUID \<Rightarrow> string \<Rightarrow> string \<Rightarrow> string \<Rightarrow> PodSpec" where
  "static_template uid namespace name node =
     \<lparr>ps_uid = uid, ps_pod_ref = \<lparr>pr_namespace = namespace, pr_name = name\<rparr>, ps_containers = [],
      ps_init_containers = [], ps_ephemeral_containers = [], ps_volumes = [], ps_node_name = node,
      ps_host_network = False, ps_host_pid = False, ps_host_ipc = False, ps_dns_config = None,
      ps_restart_policy = Always, ps_termination_grace_period_seconds = 30,
      ps_service_account_name = ''default'', ps_priority = None, ps_tolerations = [],
      ps_node_selector = [], ps_annotations = [], ps_labels = [], ps_runtime_class_name = None,
      ps_security_context = None, ps_readiness_gates = [], ps_active_deadline_seconds = None,
      ps_automount_service_account_token = None, ps_image_pull_secrets = [],
      ps_enable_service_links = None, ps_share_process_namespace = None, ps_resource_claims = [],
      ps_host_aliases = [], ps_hostname = None, ps_subdomain = None,
      ps_observed_start_time = None, ps_generation = None\<rparr>"

lemma static_template_uid [simp]: "ps_uid (static_template uid ns name node) = uid"
  by (simp add: static_template_def)

lemma or_empty_simps [simp]: "or_empty None = []" "or_empty (Some xs) = xs"
  by (simp_all add: or_empty_def)

lemma or_false_simps [simp]: "or_false None = False" "or_false (Some b) = b"
  by (simp_all add: or_false_def)

text \<open>A volume survives the conversion exactly when it names one of the six supported sources, under its own name.\<close>

lemma manifest_volume_None_iff:
  "manifest_volume v = None \<longleftrightarrow>
     mv_host_path v = None \<and> mv_empty_dir v = None \<and> mv_config_map v = None \<and> mv_secret v = None \<and>
     mv_persistent_volume_claim v = None \<and> mv_projected v = None"
  by (auto simp: manifest_volume_def manifest_volume_source_def split: option.splits)

lemma manifest_volume_name: "manifest_volume v = Some s \<Longrightarrow> vs_name s = mv_name v"
  by (auto simp: manifest_volume_def)

end
