(* ===== verification/Kube_Pods.thy ===== *)
theory Kube_Pods
  imports Kube_Types Static_Manifest Worker_Text
begin

section \<open>From the API's pods to the kubelet's\<close>

text \<open>
  The conversions of \<^verbatim>\<open>kubelet-adapters/src/kube_reporter/mod.rs\<close>: \<^verbatim>\<open>pod_to_spec\<close> and its helpers. A cast to an unsigned type wraps.
\<close>

definition as_u16 :: "int \<Rightarrow> nat" where "as_u16 n = nat (n mod 2 ^ 16)"
definition as_u32 :: "int \<Rightarrow> nat" where "as_u32 n = nat (n mod 2 ^ 32)"
definition as_u64 :: "int \<Rightarrow> nat" where "as_u64 n = nat (n mod 2 ^ 64)"

definition or_value :: "'a \<Rightarrow> 'a option \<Rightarrow> 'a" where
  "or_value d x = case_option d id x"

lemma or_value_simps [simp]: "or_value d None = d" "or_value d (Some x) = x"
  by (simp_all add: or_value_def)

subsection \<open>Quantities\<close>

definition scaled_quantity :: "string \<Rightarrow> int \<Rightarrow> ResourceQuantity option" where
  "scaled_quantity x factor = map_option (\<lambda>v. memory_bytes (sat_i64 (v * factor))) (parse_i64 x)"

definition parse_k8s_quantity :: "string \<Rightarrow> ResourceQuantity option" where
  "parse_k8s_quantity raw =
     (let s = trim raw in
      case strip_suffix ''Ki'' s of Some x \<Rightarrow> scaled_quantity x 1024 | None \<Rightarrow>
     (case strip_suffix ''Mi'' s of Some x \<Rightarrow> scaled_quantity x (1024 * 1024) | None \<Rightarrow>
     (case strip_suffix ''Gi'' s of Some x \<Rightarrow> scaled_quantity x (1024 * 1024 * 1024) | None \<Rightarrow>
     (case strip_suffix ''Ti'' s of Some x \<Rightarrow> scaled_quantity x (1024 ^ 4) | None \<Rightarrow>
     (case strip_suffix ''k'' s of Some x \<Rightarrow> scaled_quantity x 1000 | None \<Rightarrow>
     (case strip_suffix ''M'' s of Some x \<Rightarrow> scaled_quantity x 1000000 | None \<Rightarrow>
     (case strip_suffix ''G'' s of Some x \<Rightarrow> scaled_quantity x 1000000000 | None \<Rightarrow>
     (case strip_suffix ''m'' s of Some x \<Rightarrow> map_option cpu_millicores (parse_i64 x) | None \<Rightarrow>
        map_option (\<lambda>n. \<lparr>rq_value = n, rq_unit = UCount\<rparr>) (parse_i64 s)))))))))"

definition parse_k8s_quantity_for_key :: "string \<Rightarrow> string \<Rightarrow> ResourceQuantity option" where
  "parse_k8s_quantity_for_key key s =
     map_option (\<lambda>q. if key = ''cpu'' \<and> rq_unit q = UCount then cpu_millicores (sat_i64 (rq_value q * 1000)) else q)
       (parse_k8s_quantity s)"

subsection \<open>Containers\<close>

definition k8s_env_source :: "KubeEnvVarSource \<Rightarrow> EnvVarSource option" where
  "k8s_env_source v =
     (case ke_field_path v of Some p \<Rightarrow> Some (FieldRef p) | None \<Rightarrow>
     (case ke_resource_field_ref v of Some r \<Rightarrow> Some (EnvResourceFieldRef (kr_container_name r) (kr_resource r)) | None \<Rightarrow>
     (case ke_config_map_key_ref v of
        Some r \<Rightarrow> Some (ConfigMapKeyRef (or_empty (kk_name r)) (kk_key r) (or_false (kk_optional r)))
      | None \<Rightarrow>
        map_option (\<lambda>r. SecretKeyRef (or_empty (kk_name r)) (kk_key r) (or_false (kk_optional r))) (ke_secret_key_ref v))))"

definition k8s_env :: "KubeEnvVar list option \<Rightarrow> EnvVar list" where
  "k8s_env es =
     map (\<lambda>e. \<lparr>ev_name = kv_name e, ev_value = kv_value e, ev_value_from = Option.bind (kv_value_from e) k8s_env_source\<rparr>) (or_empty es)"

definition k8s_env_from :: "KubeEnvFrom list option \<Rightarrow> EnvFromSource list" where
  "k8s_env_from es =
     (let ref = (\<lambda>r. \<lparr>er_name = or_empty (kf_name r), er_optional = or_false (kf_optional r)\<rparr>)
      in map (\<lambda>e. \<lparr>ef_prefix = kf_prefix e, ef_config_map_ref = map_option ref (kf_config_map_ref e),
                   ef_secret_ref = map_option ref (kf_secret_ref e)\<rparr>) (or_empty es))"

definition k8s_volume_mounts :: "KubeVolumeMount list option \<Rightarrow> VolumeMount list" where
  "k8s_volume_mounts ms =
     map (\<lambda>m. \<lparr>vm_name = km_name m, vm_mount_path = km_mount_path m, vm_sub_path = km_sub_path m,
               vm_sub_path_expr = km_sub_path_expr m, vm_read_only = or_false (km_read_only m)\<rparr>) (or_empty ms)"

definition k8s_amounts :: "(string, string) hmap option \<Rightarrow> (string, ResourceQuantity) hmap" where
  "k8s_amounts m = List.map_filter (\<lambda>(k, v). map_option (\<lambda>q. (k, q)) (parse_k8s_quantity_for_key k v)) (or_empty m)"

definition k8s_resources :: "KubeResources option \<Rightarrow> ResourceRequirements" where
  "k8s_resources r =
     (case r of
        None \<Rightarrow> ResourceRequirements_default
      | Some x \<Rightarrow> \<lparr>rr_requests = k8s_amounts (kz_requests x), rr_limits = k8s_amounts (kz_limits x)\<rparr>)"

definition k8s_ports :: "KubePort list option \<Rightarrow> ContainerPort list" where
  "k8s_ports ps =
     map (\<lambda>p. \<lparr>cp_name = kq_name p, cp_container_port = as_u16 (kq_container_port p), cp_host_port = map_option as_u16 (kq_host_port p),
               cp_protocol = (if kq_protocol p = Some ''UDP'' then UDP else if kq_protocol p = Some ''SCTP'' then SCTP else TCP),
               cp_host_ip = kq_host_ip p\<rparr>) (or_empty ps)"

definition k8s_seccomp :: "KubeProfile \<Rightarrow> SeccompSpec" where
  "k8s_seccomp x = \<lparr>sp_type = kx_type x, sp_localhost_profile = kx_localhost_profile x\<rparr>"

definition k8s_security_context :: "KubeSecurityContext \<Rightarrow> SecurityContext" where
  "k8s_security_context c =
     \<lparr>sc_run_as_user = map_option as_u32 (ks_run_as_user c), sc_run_as_group = map_option as_u32 (ks_run_as_group c),
      sc_run_as_non_root = ks_run_as_non_root c, sc_privileged = ks_privileged c,
      sc_read_only_root_filesystem = ks_read_only_root_filesystem c,
      sc_allow_privilege_escalation = ks_allow_privilege_escalation c,
      sc_capabilities = map_option (\<lambda>k. \<lparr>cap_add = or_empty (kc_add k), cap_drop = or_empty (kc_drop k)\<rparr>) (ks_capabilities c),
      sc_seccomp_profile = map_option k8s_seccomp (ks_seccomp_profile c),
      sc_apparmor_profile =
        map_option (\<lambda>x. \<lparr>aa_type = kx_type x, aa_localhost_profile = kx_localhost_profile x\<rparr>) (ks_app_armor_profile c),
      sc_proc_mount = ks_proc_mount c\<rparr>"

subsection \<open>Probes and hooks\<close>

definition resolve_intorstring_port :: "IntOrString \<Rightarrow> ContainerPort list \<Rightarrow> nat" where
  "resolve_intorstring_port port ports =
     (case port of
        IsInt n \<Rightarrow> as_u16 n
      | IsString name \<Rightarrow>
          (case find (\<lambda>p. cp_name p = Some name) ports of Some p \<Rightarrow> cp_container_port p | None \<Rightarrow> 0))"

definition k8s_probe_handler :: "KubeProbe \<Rightarrow> ContainerPort list \<Rightarrow> ProbeHandler option" where
  "k8s_probe_handler p ports =
     (case kp_exec p of Some command \<Rightarrow> Some (PExec (or_empty command)) | None \<Rightarrow>
     (case kp_http_get p of
        Some h \<Rightarrow> Some (PHttpGet (or_value ''/'' (kh_path h)) (resolve_intorstring_port (kh_port h) ports) (kh_host h)
                      (or_value ''HTTP'' (kh_scheme h)))
      | None \<Rightarrow>
     (case kp_tcp_socket p of Some t \<Rightarrow> Some (PTcpSocket (resolve_intorstring_port (kt_port t) ports) (kt_host t)) | None \<Rightarrow>
     (case kp_grpc p of Some g \<Rightarrow> Some (PGrpc (as_u16 (kg_port g)) (kg_service g)) | None \<Rightarrow> None))))"

definition k8s_probe_to_spec :: "KubeProbe \<Rightarrow> ContainerPort list \<Rightarrow> Probe option" where
  "k8s_probe_to_spec p ports =
     map_option (\<lambda>h.
       \<lparr>pb_handler = h, pb_initial_delay_seconds = as_u32 (or_value 0 (kp_initial_delay_seconds p)),
        pb_period_seconds = as_u32 (or_value 10 (kp_period_seconds p)), pb_timeout_seconds = as_u32 (or_value 1 (kp_timeout_seconds p)),
        pb_success_threshold = of_int (or_value 1 (kp_success_threshold p)),
        pb_failure_threshold = of_int (or_value 3 (kp_failure_threshold p))\<rparr>) (k8s_probe_handler p ports)"

text \<open>A hook that names its port gets a fixed one.\<close>

definition k8s_lifecycle_handler_to_spec :: "KubeLifecycleHandler \<Rightarrow> LifecycleHandler option" where
  "k8s_lifecycle_handler_to_spec h =
     (case kl_exec h of Some command \<Rightarrow> Some (LExec (or_empty command)) | None \<Rightarrow>
     (case kl_http_get h of
        Some g \<Rightarrow> Some (LHttpGet (or_value ''/'' (kh_path g)) (case kh_port g of IsInt n \<Rightarrow> as_u16 n | IsString _ \<Rightarrow> 80) (kh_host g)
                      (or_value ''HTTP'' (kh_scheme g)))
      | None \<Rightarrow>
     (case kl_tcp_socket h of
        Some t \<Rightarrow> Some (LTcpSocket (case kt_port t of IsInt n \<Rightarrow> as_u16 n | IsString _ \<Rightarrow> 0) (kt_host t))
      | None \<Rightarrow> map_option (\<lambda>n. LSleep (as_u64 (max 0 n))) (kl_sleep_seconds h))))"

definition k8s_container_to_spec :: "KubeContainer \<Rightarrow> ContainerSpec" where
  "k8s_container_to_spec c =
     (let ports = k8s_ports (kn_ports c); probe = (\<lambda>p. Option.bind p (\<lambda>p. k8s_probe_to_spec p ports)) in
      ContainerSpec_default
       \<lparr>ctr_name := kn_name c, ctr_image := or_empty (kn_image c),
        ctr_image_pull_policy := manifest_pull_policy (kn_image_pull_policy c),
        ctr_command := or_empty (kn_command c), ctr_args := or_empty (kn_args c),
        ctr_env := k8s_env (kn_env c), ctr_env_from := k8s_env_from (kn_env_from c),
        ctr_volume_mounts := k8s_volume_mounts (kn_volume_mounts c), ctr_resources := k8s_resources (kn_resources c),
        ctr_working_dir := kn_working_dir c, ctr_stdin := kn_stdin c, ctr_tty := kn_tty c,
        ctr_termination_message_path := kn_termination_message_path c,
        ctr_termination_message_policy := kn_termination_message_policy c, ctr_ports := ports,
        ctr_liveness_probe := probe (kn_liveness_probe c), ctr_readiness_probe := probe (kn_readiness_probe c),
        ctr_startup_probe := probe (kn_startup_probe c),
        ctr_security_context := map_option k8s_security_context (kn_security_context c),
        ctr_restart_policy :=
          (if kn_restart_policy c = Some ''Never'' then Some Never
           else if kn_restart_policy c = Some ''OnFailure'' then Some OnFailure
           else if kn_restart_policy c = Some ''Always'' then Some Always else None),
        ctr_lifecycle :=
          map_option (\<lambda>l. \<lparr>lc_post_start = Option.bind (kl_post_start l) k8s_lifecycle_handler_to_spec,
                           lc_pre_stop = Option.bind (kl_pre_stop l) k8s_lifecycle_handler_to_spec\<rparr>) (kn_lifecycle c)\<rparr>)"

definition k8s_ephemeral_container_to_spec :: "KubeContainer \<Rightarrow> ContainerSpec" where
  "k8s_ephemeral_container_to_spec c =
     ContainerSpec_default
       \<lparr>ctr_name := kn_name c, ctr_image := or_empty (kn_image c),
        ctr_image_pull_policy := manifest_pull_policy (kn_image_pull_policy c),
        ctr_command := or_empty (kn_command c), ctr_args := or_empty (kn_args c),
        ctr_env := k8s_env (kn_env c), ctr_env_from := k8s_env_from (kn_env_from c),
        ctr_volume_mounts := k8s_volume_mounts (kn_volume_mounts c),
        ctr_working_dir := kn_working_dir c, ctr_stdin := kn_stdin c, ctr_tty := kn_tty c,
        ctr_termination_message_path := kn_termination_message_path c,
        ctr_termination_message_policy := kn_termination_message_policy c,
        ctr_security_context := map_option k8s_security_context (kn_security_context c)\<rparr>"

subsection \<open>Volumes\<close>

definition k8s_key_to_path :: "KubeKeyToPath \<Rightarrow> KeyToPath" where
  "k8s_key_to_path i = \<lparr>kp_key = ki_key i, kp_path = ki_path i, kp_mode = ki_mode i\<rparr>"

definition k8s_items :: "KubeKeyToPath list option \<Rightarrow> KeyToPath list" where
  "k8s_items is = map k8s_key_to_path (or_empty is)"

definition k8s_downward_api_file :: "KubeDownwardFile \<Rightarrow> DownwardAPIVolumeFile" where
  "k8s_downward_api_file f =
     \<lparr>da_path = kd_path f, da_field_ref = kd_field_path f,
      da_resource_field_ref =
        map_option (\<lambda>r. \<lparr>rf_container_name = kr_container_name r, rf_resource = kr_resource r, rf_divisor = kr_divisor r\<rparr>)
          (kd_resource_field_ref f),
      da_mode = kd_mode f\<rparr>"

definition k8s_projection :: "KubeProjection \<Rightarrow> ProjectedVolumeSource option" where
  "k8s_projection s =
     (case kj_service_account_token s of
        Some t \<Rightarrow> Some (PServiceAccountToken (ky_audience t) (map_option as_u64 (ky_expiration_seconds t)) (ky_path t))
      | None \<Rightarrow>
     (case kj_config_map s of
        Some c \<Rightarrow> Some (PConfigMap (or_empty (kw_name c)) (k8s_items (kw_items c)) (or_false (kw_optional c)))
      | None \<Rightarrow>
     (case kj_secret s of
        Some c \<Rightarrow> Some (PSecret (or_empty (kw_name c)) (k8s_items (kw_items c)) (or_false (kw_optional c)))
      | None \<Rightarrow> map_option (\<lambda>d. PDownwardAPI (map k8s_downward_api_file (or_empty d))) (kj_downward_api s))))"

definition k8s_volume_source :: "KubeVolume \<Rightarrow> VolumeSource option" where
  "k8s_volume_source v =
     (case kb_host_path v of Some (p, t) \<Rightarrow> Some (HostPath p t) | None \<Rightarrow>
     (case kb_empty_dir v of Some medium \<Rightarrow> Some (EmptyDir medium None) | None \<Rightarrow>
     (case kb_config_map v of
        Some c \<Rightarrow> Some (VConfigMap (or_empty (ku_name c)) (k8s_items (ku_items c)) (or_false (ku_optional c)) (ku_default_mode c))
      | None \<Rightarrow>
     (case kb_secret v of
        Some c \<Rightarrow> Some (VSecret (or_empty (ku_name c)) (k8s_items (ku_items c)) (or_false (ku_optional c)) (ku_default_mode c))
      | None \<Rightarrow>
     (case kb_persistent_volume_claim v of Some (n, ro) \<Rightarrow> Some (PersistentVolumeClaim n (or_false ro)) | None \<Rightarrow>
     (case kb_projected v of
        Some (sources, mode) \<Rightarrow> Some (Projected (List.map_filter k8s_projection (or_empty sources)) mode)
      | None \<Rightarrow>
     (case kb_downward_api v of
        Some (items, mode) \<Rightarrow> Some (VDownwardAPI (map k8s_downward_api_file (or_empty items)) mode)
      | None \<Rightarrow> None)))))))"

definition k8s_volume_to_spec :: "KubeVolume \<Rightarrow> VolumeSpec option" where
  "k8s_volume_to_spec v = map_option (\<lambda>s. \<lparr>vs_name = kb_name v, vs_source = s\<rparr>) (k8s_volume_source v)"

subsection \<open>Pods\<close>

definition k8s_pod_security_context :: "KubePodSecurityContext \<Rightarrow> PodSecurityContext" where
  "k8s_pod_security_context c =
     \<lparr>psc_run_as_user = map_option as_u32 (ko_run_as_user c), psc_run_as_group = map_option as_u32 (ko_run_as_group c),
      psc_run_as_non_root = ko_run_as_non_root c, psc_fs_group = map_option as_u32 (ko_fs_group c),
      psc_supplemental_groups = map as_u32 (or_empty (ko_supplemental_groups c)),
      psc_sysctls = map (\<lambda>(n, v). \<lparr>sys_name = n, sys_value = v\<rparr>) (or_empty (ko_sysctls c)),
      psc_seccomp_profile = map_option k8s_seccomp (ko_seccomp_profile c),
      psc_fs_group_change_policy = ko_fs_group_change_policy c\<rparr>"

definition k8s_dns :: "KubePodSpec \<Rightarrow> DnsConfig" where
  "k8s_dns sp =
     (let policy = kps_dns_policy sp; extra = kps_dns_config sp in
      \<lparr>dns_nameservers = or_empty (Option.bind extra kdns_nameservers), dns_searches = or_empty (Option.bind extra kdns_searches),
       dns_options =
         List.map_filter (\<lambda>(name, v). map_option (\<lambda>n. \<lparr>do_name = n, do_value = v\<rparr>) name) (or_empty (Option.bind extra kdns_options)),
       dns_policy =
         (if policy = Some ''Default'' then DnsDefault else if policy = Some ''None'' then DnsNone
          else if policy = Some ''ClusterFirstWithHostNet'' then ClusterFirstWithHostNet else ClusterFirst)\<rparr>)"

definition non_empty :: "string option \<Rightarrow> string option" where
  "non_empty h = (if h = Some [] then None else h)"

definition k8s_spec_to_pod :: "PodUID \<Rightarrow> PodRef \<Rightarrow> string \<Rightarrow> KubePod \<Rightarrow> KubePodSpec \<Rightarrow> PodSpec" where
  "k8s_spec_to_pod uid ref node_name pod sp =
     PodSpec_default
       \<lparr>ps_uid := uid, ps_pod_ref := ref, ps_node_name := or_value node_name (kps_node_name sp),
        ps_containers := map k8s_container_to_spec (kps_containers sp),
        ps_init_containers := map k8s_container_to_spec (or_empty (kps_init_containers sp)),
        ps_ephemeral_containers := map k8s_ephemeral_container_to_spec (or_empty (kps_ephemeral_containers sp)),
        ps_volumes := List.map_filter k8s_volume_to_spec (or_empty (kps_volumes sp)),
        ps_restart_policy := manifest_restart_policy (kps_restart_policy sp),
        ps_active_deadline_seconds := map_option as_u64 (kps_active_deadline_seconds sp),
        ps_service_account_name := or_empty (kps_service_account_name sp),
        ps_automount_service_account_token := kps_automount_service_account_token sp,
        ps_termination_grace_period_seconds := or_value 30 (map_option as_u64 (kps_termination_grace_period_seconds sp)),
        ps_node_selector := or_empty (kps_node_selector sp), ps_priority := kps_priority sp,
        ps_runtime_class_name := kps_runtime_class_name sp, ps_readiness_gates := or_empty (kps_readiness_gates sp),
        ps_labels := or_empty (kmd_labels (kpd_metadata pod)), ps_annotations := or_empty (kmd_annotations (kpd_metadata pod)),
        ps_security_context := map_option k8s_pod_security_context (kps_security_context sp),
        ps_host_network := or_false (kps_host_network sp), ps_host_pid := or_false (kps_host_pid sp),
        ps_host_ipc := or_false (kps_host_ipc sp),
        ps_host_aliases := map (\<lambda>(ip, names). \<lparr>ha_ip = or_empty ip, ha_hostnames = or_empty names\<rparr>) (or_empty (kps_host_aliases sp)),
        ps_observed_start_time := kpd_start_time pod,
        ps_image_pull_secrets := map or_empty (or_empty (kps_image_pull_secrets sp)),
        ps_enable_service_links := kps_enable_service_links sp, ps_share_process_namespace := kps_share_process_namespace sp,
        ps_dns_config := Some (k8s_dns sp), ps_hostname := non_empty (kps_hostname sp), ps_subdomain := non_empty (kps_subdomain sp),
        ps_generation := kmd_generation (kpd_metadata pod)\<rparr>"

definition is_mirror :: "KubePod \<Rightarrow> bool" where
  "is_mirror pod =
     (case kmd_annotations (kpd_metadata pod) of Some a \<Rightarrow> hm_contains_key ''kubernetes.io/config.mirror'' a | None \<Rightarrow> False)"

definition pod_to_spec :: "KubePod \<Rightarrow> string \<Rightarrow> PodSpec option" where
  "pod_to_spec pod node_name =
     (let md = kpd_metadata pod in
      case (kmd_uid md, kmd_name md) of
        (Some uid, Some name) \<Rightarrow>
          if is_mirror pod then None
          else map_option (k8s_spec_to_pod uid \<lparr>pr_namespace = or_value ''default'' (kmd_namespace md), pr_name = name\<rparr> node_name pod)
                 (kpd_spec pod)
      | _ \<Rightarrow> None)"

end
