(* ===== verification/Filesystem.thy ===== *)
theory Filesystem
  imports Pod_Types "HOL-Library.State_Monad" "HOL-Library.Sublist"
begin

section \<open>The file system the kubelet writes to\<close>

text \<open>
  The operations of \<^verbatim>\<open>std::fs\<close> and \<^verbatim>\<open>tokio::fs\<close> the sources call, on an explicit tree: directories, regular
  files and symbolic links, each with mode and group. A path is the list of its components. The kernel's walk
  follows links, at most 40 of them. Every call may fail by itself (no space, no permission): the \<open>n\<close>-th call
  does so when \<open>io n\<close> says so, after a write has stored some of its bytes. New files have mode \<open>0644\<close> and new
  directories \<open>0755\<close>, the usual mask of the daemon; both inherit the group of a directory with the setgid bit.
\<close>

subsection \<open>Paths\<close>

type_synonym fpath = "string list"

definition comps :: "string \<Rightarrow> fpath" where
  "comps s = filter (\<lambda>c. c \<noteq> [] \<and> c \<noteq> ''.'') (split_on CHR ''/'' s)"

text \<open>\<^verbatim>\<open>Path::join\<close>: an absolute argument replaces the path. Equality of paths is equality of components.\<close>

definition join_path :: "fpath \<Rightarrow> string \<Rightarrow> fpath" where
  "join_path dir s = (if starts_with ''/'' s then comps s else dir @ comps s)"

definition path_str :: "fpath \<Rightarrow> string" where
  "path_str p = ''/'' @ join ''/'' p"

definition plain_name :: "string \<Rightarrow> bool" where
  "plain_name c \<longleftrightarrow> c \<noteq> [] \<and> c \<noteq> ''.'' \<and> c \<noteq> ''..'' \<and> CHR ''/'' \<notin> set c"

definition plain_path :: "fpath \<Rightarrow> bool" where
  "plain_path p \<longleftrightarrow> list_all plain_name p"

definition path_ok :: "fpath \<Rightarrow> bool" where
  "path_ok p \<longleftrightarrow> list_all (\<lambda>c. plain_name c \<or> c = ''..'') p"

lemma path_ok_simps [simp]:
  "path_ok []"
  "path_ok (c # p) \<longleftrightarrow> (plain_name c \<or> c = ''..'') \<and> path_ok p"
  "path_ok (p @ q) \<longleftrightarrow> path_ok p \<and> path_ok q"
  by (simp_all add: path_ok_def)

lemma plain_path_ok: "plain_path p \<Longrightarrow> path_ok p"
  by (simp add: path_ok_def plain_path_def list_all_iff)

lemma split_on_no_sep: "c \<in> set (split_on a s) \<Longrightarrow> a \<notin> set c"
  by (induction s arbitrary: c) (auto split: if_splits list.splits)

lemma path_ok_comps [simp]: "path_ok (comps s)"
  by (auto simp: path_ok_def comps_def list_all_iff plain_name_def dest: split_on_no_sep)

lemma path_ok_join [simp]: "path_ok dir \<Longrightarrow> path_ok (join_path dir s)"
  by (simp add: join_path_def)

lemma comps_append: "comps (a @ CHR ''/'' # b) = comps a @ comps b"
  by (simp add: comps_def split_on_both)

lemma comps_plain_name: "plain_name c \<Longrightarrow> comps c = [c]"
  by (simp add: comps_def plain_name_def split_on_notin)

lemma plain_name_not_absolute: "plain_name c \<Longrightarrow> \<not> starts_with ''/'' c"
  by (cases c) (auto simp: starts_with_def plain_name_def)

lemma join_path_plain [simp]: "plain_name c \<Longrightarrow> join_path dir c = dir @ [c]"
  by (simp add: join_path_def comps_plain_name plain_name_not_absolute)

lemma plain_path_simps [simp]:
  "plain_path []"
  "plain_path (c # p) \<longleftrightarrow> plain_name c \<and> plain_path p"
  "plain_path (p @ q) \<longleftrightarrow> plain_path p \<and> plain_path q"
  by (simp_all add: plain_path_def)

subsection \<open>The tree\<close>

datatype fnode = RegFile string | Directory | Symlink bool fpath

record inode =
  in_node :: fnode
  in_mode :: u32
  in_gid :: u32

type_synonym tree = "(fpath, inode) hmap"

definition is_link :: "tree \<Rightarrow> fpath \<Rightarrow> bool" where
  "is_link t p = (case hm_get t p of Some i \<Rightarrow> (case in_node i of Symlink _ _ \<Rightarrow> True | _ \<Rightarrow> False) | None \<Rightarrow> False)"

definition dir_at :: "tree \<Rightarrow> fpath \<Rightarrow> bool" where
  "dir_at t p \<longleftrightarrow> map_option in_node (hm_get t p) = Some Directory"

definition file_at :: "tree \<Rightarrow> fpath \<Rightarrow> string option" where
  "file_at t p = (case hm_get t p of Some i \<Rightarrow> (case in_node i of RegFile c \<Rightarrow> Some c | _ \<Rightarrow> None) | None \<Rightarrow> None)"

text \<open>Distinct paths, a root, a directory above every entry, proper names and link targets.\<close>

fun target_ok :: "fnode \<Rightarrow> bool" where
  "target_ok (Symlink _ target) = path_ok target"
| "target_ok _ = True"

definition tree_ok :: "tree \<Rightarrow> bool" where
  "tree_ok t \<longleftrightarrow> hm_ok t \<and> dir_at t [] \<and>
     (\<forall>p i. hm_get t p = Some i \<longrightarrow> plain_path p \<and> target_ok (in_node i) \<and> (p \<noteq> [] \<longrightarrow> dir_at t (butlast p)))"

lemma tree_okD:
  assumes "tree_ok t"
  shows "hm_ok t" "dir_at t []" "hm_get t p = Some i \<Longrightarrow> plain_path p" "hm_get t p = Some i \<Longrightarrow> target_ok (in_node i)"
    "hm_get t p = Some i \<Longrightarrow> p \<noteq> [] \<Longrightarrow> dir_at t (butlast p)"
  using assms unfolding tree_ok_def by blast+

subsection \<open>Resolution\<close>

definition ENOENT :: string where "ENOENT = ''No such file or directory (os error 2)''"
definition EEXIST :: string where "EEXIST = ''File exists (os error 17)''"
definition ENOTDIR :: string where "ENOTDIR = ''Not a directory (os error 20)''"
definition EISDIR :: string where "EISDIR = ''Is a directory (os error 21)''"
definition ENOTEMPTY :: string where "ENOTEMPTY = ''Directory not empty (os error 39)''"
definition ELOOP :: string where "ELOOP = ''Too many levels of symbolic links (os error 40)''"

type_synonym 'a io = "string + 'a"

function walk :: "tree \<Rightarrow> bool \<Rightarrow> nat \<Rightarrow> fpath \<Rightarrow> fpath \<Rightarrow> fpath io" where
  "walk t follow n cur [] = Inr cur"
| "walk t follow n cur (c # cs) =
     (if c = ''..'' then walk t follow n (butlast cur) cs
      else case hm_get t (cur @ [c]) of
        None \<Rightarrow> if cs = [] then Inr (cur @ [c]) else Inl ENOENT
      | Some i \<Rightarrow>
          (case in_node i of
             Symlink absolute target \<Rightarrow>
               if cs = [] \<and> \<not> follow then Inr (cur @ [c])
               else (case n of 0 \<Rightarrow> Inl ELOOP | Suc m \<Rightarrow> walk t follow m (if absolute then [] else cur) (target @ cs))
           | RegFile _ \<Rightarrow> if cs = [] then Inr (cur @ [c]) else Inl ENOTDIR
           | Directory \<Rightarrow> walk t follow n (cur @ [c]) cs))"
  by pat_completeness auto
termination
  by (relation "measures [\<lambda>(_, _, n, _, _). n, \<lambda>(_, _, _, _, cs). length cs]") auto

definition locate :: "tree \<Rightarrow> bool \<Rightarrow> fpath \<Rightarrow> fpath io" where
  "locate t follow p = walk t follow 40 [] p"

text \<open>On a path without links and \<open>..\<close> whose directories exist the walk ends at the path itself.\<close>

lemma walk_plain:
  assumes "plain_path rel" "\<And>q c r. rel = q @ c # r \<Longrightarrow> r \<noteq> [] \<Longrightarrow> dir_at t (cur @ q @ [c])"
    "follow \<longrightarrow> rel = [] \<or> \<not> is_link t (cur @ rel)"
  shows "walk t follow n cur rel = Inr (cur @ rel)"
  using assms
proof (induction rel arbitrary: cur)
  case (Cons c cs)
  have c: "c \<noteq> ''..''" using Cons.prems(1) by (simp add: plain_name_def)
  show ?case
  proof (cases "cs = []")
    case True
    then show ?thesis using c Cons.prems(3) by (auto simp: is_link_def split: option.splits fnode.splits)
  next
    case False
    then have d: "dir_at t (cur @ [c])" using Cons.prems(2) [of "[]" c cs] by simp
    have "walk t follow n (cur @ [c]) cs = Inr ((cur @ [c]) @ cs)"
    proof (rule Cons.IH)
      show "plain_path cs" using Cons.prems(1) by simp
      show "dir_at t ((cur @ [c]) @ q @ [c'])" if "cs = q @ c' # r" "r \<noteq> []" for q c' r
        using Cons.prems(2) [of "c # q" c' r] that by simp
      show "follow \<longrightarrow> cs = [] \<or> \<not> is_link t ((cur @ [c]) @ cs)" using Cons.prems(3) by simp
    qed
    then show ?thesis using c d by (auto simp: dir_at_def)
  qed
qed simp


text \<open>The walk ends at the root, at an entry, or at a free name in a directory.\<close>

lemma dir_at_parent: "tree_ok t \<Longrightarrow> dir_at t p \<Longrightarrow> dir_at t (butlast p)"
  by (cases "p = []") (auto simp: dir_at_def dest: tree_okD(5))

lemma dir_at_plain: "tree_ok t \<Longrightarrow> dir_at t p \<Longrightarrow> plain_path p"
  by (auto simp: dir_at_def dest: tree_okD(3))

lemma walk_ends:
  assumes "walk t follow n cur cs = Inr q" "tree_ok t" "dir_at t cur" "path_ok cs"
  shows "plain_path q \<and> (q = [] \<or> dir_at t (butlast q))"
  using assms
proof (induction t follow n cur cs rule: walk.induct)
  case (1 t follow n cur)
  then show ?case using dir_at_parent dir_at_plain by auto
next
  case (2 t follow n cur c cs)
  note prems = 2(4-7)
  have cur: "plain_path cur" using dir_at_plain prems(2,3) by blast
  have root: "dir_at t []" using prems(2) by (simp add: tree_ok_def)
  have up: "dir_at t (butlast cur)" using dir_at_parent [OF prems(2,3)] .
  show ?case
  proof (cases "c = ''..''")
    case True
    then show ?thesis using 2(1) [OF True _ prems(2) up] prems(1,4) by simp
  next
    case False
    then have c: "c \<noteq> ''..''" "plain_name c" using prems(4) by simp_all
    show ?thesis
    proof (cases "hm_get t (cur @ [c])")
      case None
      then show ?thesis using prems(1,3) c cur by (auto split: if_splits)
    next
      case (Some i)
      show ?thesis
      proof (cases "in_node i")
        case (RegFile x)
        then show ?thesis using Some prems(1,3) c cur by (auto split: if_splits)
      next
        case Directory
        then have "dir_at t (cur @ [c])" using Some by (simp add: dir_at_def)
        then show ?thesis using 2(2) [OF c(1) Some Directory _ prems(2)] prems(1,4) Some Directory c by simp
      next
        case (Symlink a target)
        show ?thesis
        proof (cases "cs = [] \<and> \<not> follow")
          case True
          then show ?thesis using Some Symlink prems(1,3) c cur by auto
        next
          case False
          then obtain m where m: "n = Suc m" using Some Symlink prems(1) c by (auto split: nat.splits)
          have "walk t follow m (if a then [] else cur) (target @ cs) = Inr q" using Some Symlink False prems(1) c m by auto
          then show ?thesis using 2(3) [OF c(1) Some Symlink False m _ prems(2)] prems(3,4) root tree_okD(4) [OF prems(2) Some] Symlink by simp
        qed
      qed
    qed
  qed
qed


subsection \<open>The effect of each call on the tree\<close>

definition new_gid :: "tree \<Rightarrow> fpath \<Rightarrow> u32" where
  "new_gid t q = (case hm_get t (butlast q) of Some i \<Rightarrow> if bit (in_mode i) 10 then in_gid i else 0 | None \<Rightarrow> 0)"

definition new_dir_mode :: "tree \<Rightarrow> fpath \<Rightarrow> u32" where
  "new_dir_mode t q = (case hm_get t (butlast q) of Some i \<Rightarrow> if bit (in_mode i) 10 then 0x5ED else 0x1ED | None \<Rightarrow> 0x1ED)"

definition t_stat :: "bool \<Rightarrow> fpath \<Rightarrow> tree \<Rightarrow> inode io" where
  "t_stat follow p t =
     (case locate t follow p of
        Inl e \<Rightarrow> Inl e
      | Inr q \<Rightarrow> (case hm_get t q of None \<Rightarrow> Inl ENOENT | Some i \<Rightarrow> Inr i))"

definition t_read :: "fpath \<Rightarrow> tree \<Rightarrow> string io" where
  "t_read p t =
     (case t_stat True p t of
        Inl e \<Rightarrow> Inl e
      | Inr i \<Rightarrow> (case in_node i of RegFile c \<Rightarrow> Inr c | Directory \<Rightarrow> Inl EISDIR | Symlink _ _ \<Rightarrow> Inl ELOOP))"

definition t_read_dir :: "fpath \<Rightarrow> tree \<Rightarrow> string list io" where
  "t_read_dir p t =
     (case locate t True p of
        Inl e \<Rightarrow> Inl e
      | Inr q \<Rightarrow>
          if dir_at t q then Inr (map last (filter (\<lambda>k. k \<noteq> [] \<and> butlast k = q) (hm_keys t)))
          else Inl (if hm_get t q = None then ENOENT else ENOTDIR))"

definition t_write :: "fpath \<Rightarrow> string \<Rightarrow> tree \<Rightarrow> unit io \<times> tree" where
  "t_write p content t =
     (case locate t True p of
        Inl e \<Rightarrow> (Inl e, t)
      | Inr q \<Rightarrow>
          (case hm_get t q of
             None \<Rightarrow> (Inr (), hm_insert q \<lparr>in_node = RegFile content, in_mode = 0x1A4, in_gid = new_gid t q\<rparr> t)
           | Some i \<Rightarrow>
               (case in_node i of
                  Directory \<Rightarrow> (Inl EISDIR, t)
                | _ \<Rightarrow> (Inr (), hm_insert q (i\<lparr>in_node := RegFile content\<rparr>) t))))"

definition t_mkdir :: "fpath \<Rightarrow> tree \<Rightarrow> unit io \<times> tree" where
  "t_mkdir p t =
     (case locate t False p of
        Inl e \<Rightarrow> (Inl e, t)
      | Inr q \<Rightarrow>
          if hm_contains_key q t then (Inl EEXIST, t)
          else (Inr (), hm_insert q \<lparr>in_node = Directory, in_mode = new_dir_mode t q, in_gid = new_gid t q\<rparr> t))"

definition t_remove_file :: "fpath \<Rightarrow> tree \<Rightarrow> unit io \<times> tree" where
  "t_remove_file p t =
     (case locate t False p of
        Inl e \<Rightarrow> (Inl e, t)
      | Inr q \<Rightarrow>
          if hm_get t q = None then (Inl ENOENT, t)
          else if dir_at t q then (Inl EISDIR, t)
          else (Inr (), hm_remove q t))"

definition has_children :: "tree \<Rightarrow> fpath \<Rightarrow> bool" where
  "has_children t q \<longleftrightarrow> list_ex (\<lambda>k. k \<noteq> [] \<and> butlast k = q) (hm_keys t)"

definition t_remove_dir :: "fpath \<Rightarrow> tree \<Rightarrow> unit io \<times> tree" where
  "t_remove_dir p t =
     (case locate t False p of
        Inl e \<Rightarrow> (Inl e, t)
      | Inr q \<Rightarrow>
          if hm_get t q = None then (Inl ENOENT, t)
          else if \<not> dir_at t q then (Inl ENOTDIR, t)
          else if q = [] \<or> has_children t q then (Inl ENOTEMPTY, t)
          else (Inr (), hm_remove q t))"

definition t_change :: "bool \<Rightarrow> (inode \<Rightarrow> inode) \<Rightarrow> fpath \<Rightarrow> tree \<Rightarrow> unit io \<times> tree" where
  "t_change follow f p t =
     (case locate t follow p of
        Inl e \<Rightarrow> (Inl e, t)
      | Inr q \<Rightarrow> if hm_get t q = None then (Inl ENOENT, t) else (Inr (), hm_modify q f t))"

definition t_chmod :: "u32 \<Rightarrow> fpath \<Rightarrow> tree \<Rightarrow> unit io \<times> tree" where
  "t_chmod mode = t_change True (\<lambda>i. i\<lparr>in_mode := and mode 0xFFF\<rparr>)"

definition t_lchown :: "u32 \<Rightarrow> fpath \<Rightarrow> tree \<Rightarrow> unit io \<times> tree" where
  "t_lchown gid = t_change False (\<lambda>i. i\<lparr>in_gid := gid\<rparr>)"

text \<open>\<^verbatim>\<open>rename\<close> of anything but a directory: the target is replaced.\<close>

definition t_rename :: "fpath \<Rightarrow> fpath \<Rightarrow> tree \<Rightarrow> unit io \<times> tree" where
  "t_rename p p' t =
     (case (locate t False p, locate t False p') of
        (Inl e, _) \<Rightarrow> (Inl e, t)
      | (Inr q, Inl e) \<Rightarrow> (Inl e, t)
      | (Inr q, Inr q') \<Rightarrow>
          (case hm_get t q of
             None \<Rightarrow> (Inl ENOENT, t)
           | Some i \<Rightarrow>
               if dir_at t q then (Inl ENOTDIR, t)
               else if dir_at t q' then (Inl EISDIR, t)
               else (Inr (), hm_insert q' i (hm_remove q t))))"

text \<open>\<^verbatim>\<open>remove_dir_all\<close>: a link is removed, not followed.\<close>

definition t_remove_all :: "fpath \<Rightarrow> tree \<Rightarrow> unit io \<times> tree" where
  "t_remove_all p t =
     (case locate t False p of
        Inl e \<Rightarrow> (Inl e, t)
      | Inr q \<Rightarrow>
          if hm_get t q = None then (Inl ENOENT, t)
          else if q = [] then (Inl EISDIR, t)
          else if dir_at t q then (Inr (), filter (\<lambda>(k, _). \<not> prefix q k) t)
          else if is_link t q then (Inr (), hm_remove q t)
          else (Inl ENOTDIR, t))"

subsection \<open>Calls that may fail\<close>

record disk =
  dk_tree :: tree
  dk_calls :: nat

type_synonym faults = "nat \<Rightarrow> (string \<times> nat) option"

type_synonym 'a fsio = "(disk, 'a) state"

definition syscall :: "faults \<Rightarrow> (tree \<Rightarrow> 'a io \<times> tree) \<Rightarrow> (nat \<Rightarrow> tree \<Rightarrow> tree) \<Rightarrow> 'a io fsio" where
  "syscall io f broken = State (\<lambda>d.
     case io (dk_calls d) of
       None \<Rightarrow> (fst (f (dk_tree d)), \<lparr>dk_tree = snd (f (dk_tree d)), dk_calls = Suc (dk_calls d)\<rparr>)
     | Some (e, n) \<Rightarrow> (Inl e, \<lparr>dk_tree = broken n (dk_tree d), dk_calls = Suc (dk_calls d)\<rparr>))"

definition query :: "faults \<Rightarrow> (tree \<Rightarrow> 'a io) \<Rightarrow> 'a io fsio" where
  "query io f = syscall io (\<lambda>t. (f t, t)) (\<lambda>_ t. t)"

definition effect :: "faults \<Rightarrow> (tree \<Rightarrow> unit io \<times> tree) \<Rightarrow> unit io fsio" where
  "effect io f = syscall io f (\<lambda>_ t. t)"

definition fs_stat :: "faults \<Rightarrow> fpath \<Rightarrow> inode io fsio" where "fs_stat io p = query io (t_stat True p)"
definition fs_lstat :: "faults \<Rightarrow> fpath \<Rightarrow> inode io fsio" where "fs_lstat io p = query io (t_stat False p)"
definition fs_read :: "faults \<Rightarrow> fpath \<Rightarrow> string io fsio" where "fs_read io p = query io (t_read p)"
definition fs_read_dir :: "faults \<Rightarrow> fpath \<Rightarrow> string list io fsio" where "fs_read_dir io p = query io (t_read_dir p)"
definition fs_mkdir :: "faults \<Rightarrow> fpath \<Rightarrow> unit io fsio" where "fs_mkdir io p = effect io (t_mkdir p)"
definition fs_remove_file :: "faults \<Rightarrow> fpath \<Rightarrow> unit io fsio" where "fs_remove_file io p = effect io (t_remove_file p)"
definition fs_remove_dir :: "faults \<Rightarrow> fpath \<Rightarrow> unit io fsio" where "fs_remove_dir io p = effect io (t_remove_dir p)"
definition fs_remove_all :: "faults \<Rightarrow> fpath \<Rightarrow> unit io fsio" where "fs_remove_all io p = effect io (t_remove_all p)"
definition fs_set_permissions :: "faults \<Rightarrow> u32 \<Rightarrow> fpath \<Rightarrow> unit io fsio" where "fs_set_permissions io mode p = effect io (t_chmod mode p)"
definition fs_lchown :: "faults \<Rightarrow> u32 \<Rightarrow> fpath \<Rightarrow> unit io fsio" where "fs_lchown io gid p = effect io (t_lchown gid p)"
definition fs_rename :: "faults \<Rightarrow> fpath \<Rightarrow> fpath \<Rightarrow> unit io fsio" where "fs_rename io p q = effect io (t_rename p q)"

definition fs_write :: "faults \<Rightarrow> fpath \<Rightarrow> string \<Rightarrow> unit io fsio" where
  "fs_write io p content = syscall io (t_write p content) (\<lambda>n t. snd (t_write p (take n content) t))"

definition fs_exists :: "faults \<Rightarrow> fpath \<Rightarrow> bool fsio" where
  "fs_exists io p = do { r \<leftarrow> fs_stat io p; State_Monad.return (\<not> isl r) }"

definition fs_is_dir :: "faults \<Rightarrow> fpath \<Rightarrow> bool fsio" where
  "fs_is_dir io p = do {
     r \<leftarrow> fs_stat io p;
     State_Monad.return (case r of Inr i \<Rightarrow> in_node i = Directory | Inl _ \<Rightarrow> False)
   }"

definition fs_is_file :: "faults \<Rightarrow> fpath \<Rightarrow> bool fsio" where
  "fs_is_file io p = do {
     r \<leftarrow> fs_stat io p;
     State_Monad.return (case r of Inr i \<Rightarrow> (case in_node i of RegFile _ \<Rightarrow> True | _ \<Rightarrow> False) | Inl _ \<Rightarrow> False)
   }"

text \<open>\<^verbatim>\<open>create_dir_all\<close>: the directory, else its parent and then the directory again. A directory in the way is fine.\<close>

definition or_existing :: "faults \<Rightarrow> fpath \<Rightarrow> string \<Rightarrow> unit io fsio" where
  "or_existing io p e = do { d \<leftarrow> fs_is_dir io p; State_Monad.return (if d then Inr () else Inl e) }"

fun make_all :: "faults \<Rightarrow> nat \<Rightarrow> fpath \<Rightarrow> unit io fsio" where
  "make_all io n p = do {
     r \<leftarrow> fs_mkdir io p;
     case r of
       Inr _ \<Rightarrow> State_Monad.return (Inr ())
     | Inl e \<Rightarrow>
         if e \<noteq> ENOENT then or_existing io p e
         else (case n of
           0 \<Rightarrow> State_Monad.return (Inl ''failed to create whole tree'')
         | Suc m \<Rightarrow> do {
             up \<leftarrow> make_all io m (butlast p);
             case up of
               Inl e \<Rightarrow> State_Monad.return (Inl e)
             | Inr _ \<Rightarrow> do {
                 r \<leftarrow> fs_mkdir io p;
                 case r of Inr _ \<Rightarrow> State_Monad.return (Inr ()) | Inl e \<Rightarrow> or_existing io p e
               }
           })
   }"

declare make_all.simps [simp del]

definition fs_create_dir_all :: "faults \<Rightarrow> fpath \<Rightarrow> unit io fsio" where
  "fs_create_dir_all io p = make_all io (length p) p"


subsection \<open>Every call keeps the tree well formed\<close>

lemma tree_okI:
  assumes "hm_ok t" "dir_at t []" "\<And>p i. hm_get t p = Some i \<Longrightarrow> plain_path p"
    "\<And>p i. hm_get t p = Some i \<Longrightarrow> target_ok (in_node i)" "\<And>p i. hm_get t p = Some i \<Longrightarrow> p \<noteq> [] \<Longrightarrow> dir_at t (butlast p)"
  shows "tree_ok t"
  using assms unfolding tree_ok_def by blast

lemma dir_at_insert: "dir_at (hm_insert q i t) p \<longleftrightarrow> (if p = q then in_node i = Directory else dir_at t p)"
  by (simp add: dir_at_def)

lemma dir_at_remove: "dir_at (hm_remove q t) p \<longleftrightarrow> p \<noteq> q \<and> dir_at t p"
  by (simp add: dir_at_def)

lemma butlast_neq: "p \<noteq> [] \<Longrightarrow> butlast p \<noteq> p"
  by (metis append_butlast_last_id not_Cons_self2 self_append_conv)

lemma tree_ok_insert:
  assumes "tree_ok t" "plain_path q" "target_ok (in_node i)" "q = [] \<or> dir_at t (butlast q)" "dir_at t q \<longrightarrow> in_node i = Directory"
  shows "tree_ok (hm_insert q i t)"
proof (rule tree_okI)
  show "hm_ok (hm_insert q i t)" using tree_okD(1) [OF assms(1)] by simp
  show "dir_at (hm_insert q i t) []" using tree_okD(2) [OF assms(1)] assms(5) by (auto simp: dir_at_insert)
  fix p j
  assume p: "hm_get (hm_insert q i t) p = Some j"
  then show "plain_path p" "target_ok (in_node j)" using assms(2,3) tree_okD(3,4) [OF assms(1)] by (auto split: if_splits)
  assume ne: "p \<noteq> []"
  have "dir_at t (butlast p)" using p ne assms(4) tree_okD(5) [OF assms(1)] by (auto split: if_splits)
  then show "dir_at (hm_insert q i t) (butlast p)" using assms(5) by (auto simp: dir_at_insert)
qed

lemma tree_ok_remove:
  assumes "tree_ok t" "q \<noteq> []" "dir_at t q \<longrightarrow> \<not> has_children t q"
  shows "tree_ok (hm_remove q t)"
proof (rule tree_okI)
  show "hm_ok (hm_remove q t)" using tree_okD(1) [OF assms(1)] by simp
  show "dir_at (hm_remove q t) []" using tree_okD(2) [OF assms(1)] assms(2) by (simp add: dir_at_remove)
  fix p j
  assume "hm_get (hm_remove q t) p = Some j"
  then have p: "p \<noteq> q" "hm_get t p = Some j" by (auto split: if_splits)
  then show "plain_path p" "target_ok (in_node j)" using tree_okD(3,4) [OF assms(1)] by auto
  assume ne: "p \<noteq> []"
  have up: "dir_at t (butlast p)" using tree_okD(5) [OF assms(1) p(2) ne] .
  have "butlast p \<noteq> q"
  proof
    assume "butlast p = q"
    moreover have "p \<in> set (hm_keys t)" using p(2) by (auto simp: hm_keys_def dest: map_of_SomeD intro: rev_image_eqI)
    ultimately have "has_children t q" using ne by (auto simp: has_children_def list_ex_iff)
    then show False using assms(3) up \<open>butlast p = q\<close> by simp
  qed
  then show "dir_at (hm_remove q t) (butlast p)" using up by (simp add: dir_at_remove)
qed

lemma tree_ok_modify: "tree_ok t \<Longrightarrow> (\<And>i. in_node (f i) = in_node i) \<Longrightarrow> tree_ok (hm_modify q f t)"
  by (cases "hm_get t q") (auto simp: hm_modify_def dir_at_def intro!: tree_ok_insert dest: tree_okD)

lemma locate_ends:
  assumes "locate t follow p = Inr q" "tree_ok t" "path_ok p"
  shows "plain_path q" "q = [] \<or> dir_at t (butlast q)"
  using walk_ends [OF assms(1) [unfolded locate_def] assms(2) _ assms(3)] tree_okD(2) [OF assms(2)] by auto

lemma dir_at_simps: "hm_get t q = None \<Longrightarrow> \<not> dir_at t q" "hm_get t q = Some i \<Longrightarrow> dir_at t q \<longleftrightarrow> in_node i = Directory"
  by (simp_all add: dir_at_def)

lemma tree_ok_write: "tree_ok t \<Longrightarrow> path_ok p \<Longrightarrow> tree_ok (snd (t_write p content t))"
  using locate_ends [of t True p]
  by (auto simp: t_write_def dir_at_simps split: sum.split option.split fnode.split intro!: tree_ok_insert)

lemma tree_ok_mkdir: "tree_ok t \<Longrightarrow> path_ok p \<Longrightarrow> tree_ok (snd (t_mkdir p t))"
  using locate_ends [of t False p]
  by (auto simp: t_mkdir_def dir_at_simps split: sum.split intro!: tree_ok_insert)

lemma tree_ok_remove_file: "tree_ok t \<Longrightarrow> tree_ok (snd (t_remove_file p t))"
  using tree_okD(2) [of t]
  by (auto simp: t_remove_file_def split: sum.split intro!: tree_ok_remove)

lemma tree_ok_remove_dir: "tree_ok t \<Longrightarrow> tree_ok (snd (t_remove_dir p t))"
  by (auto simp: t_remove_dir_def split: sum.split intro!: tree_ok_remove)

lemma tree_ok_chmod: "tree_ok t \<Longrightarrow> tree_ok (snd (t_chmod mode p t))"
  by (auto simp: t_chmod_def t_change_def split: sum.split intro!: tree_ok_modify)

lemma tree_ok_lchown: "tree_ok t \<Longrightarrow> tree_ok (snd (t_lchown gid p t))"
  by (auto simp: t_lchown_def t_change_def split: sum.split intro!: tree_ok_modify)

lemma tree_ok_rename:
  assumes "tree_ok t" "path_ok p'"
  shows "tree_ok (snd (t_rename p p' t))"
proof (cases "locate t False p"; cases "locate t False p'")
  fix q q'
  assume l: "locate t False p = Inr q" "locate t False p' = Inr q'"
  note e = locate_ends [OF l(2) assms]
  show ?thesis
  proof (cases "hm_get t q")
    case (Some i)
    show ?thesis
    proof (cases "dir_at t q \<or> dir_at t q'")
      case False
      then have q: "q \<noteq> []" "q' \<noteq> []" using tree_okD(2) [OF assms(1)] by auto
      have r: "tree_ok (hm_remove q t)" using False q by (intro tree_ok_remove assms(1)) auto
      have "butlast q' \<noteq> q" using e(2) q False by auto
      then have "tree_ok (hm_insert q' i (hm_remove q t))"
        using e q False tree_okD(4) [OF assms(1) Some] by (intro tree_ok_insert r) (auto simp: dir_at_remove)
      then show ?thesis using False Some l by (simp add: t_rename_def)
    qed (use Some l assms in \<open>auto simp: t_rename_def\<close>)
  qed (use l assms in \<open>simp add: t_rename_def\<close>)
qed (use assms in \<open>simp_all add: t_rename_def\<close>)


lemma hm_get_filter_keys: "hm_get (filter (\<lambda>(k, _). P k) t) k = (if P k then hm_get t k else None)"
  by (induction t) auto

lemma prefix_butlast: "q \<noteq> [] \<Longrightarrow> prefix q (butlast p) \<Longrightarrow> prefix q p"
  by (metis append_butlast_last_id butlast.simps(1) prefix_snoc)

lemma tree_ok_remove_all:
  assumes "tree_ok t"
  shows "tree_ok (snd (t_remove_all p t))"
proof (cases "locate t False p")
  case (Inr q)
  have "tree_ok (filter (\<lambda>(k, _). \<not> prefix q k) t)" if q: "q \<noteq> []"
  proof (rule tree_okI)
    show "hm_ok (filter (\<lambda>(k, _). \<not> prefix q k) t)"
      using tree_okD(1) [OF assms] by (simp add: hm_ok_def distinct_map_filter)
    show "dir_at (filter (\<lambda>(k, _). \<not> prefix q k) t) []"
      using tree_okD(2) [OF assms] q by (simp add: dir_at_def hm_get_filter_keys)
    fix k i
    assume "hm_get (filter (\<lambda>(k, _). \<not> prefix q k) t) k = Some i"
    then have k: "\<not> prefix q k" "hm_get t k = Some i" by (auto simp: hm_get_filter_keys split: if_splits)
    then show "plain_path k" "target_ok (in_node i)" using tree_okD(3,4) [OF assms] by auto
    assume "k \<noteq> []"
    then show "dir_at (filter (\<lambda>(k, _). \<not> prefix q k) t) (butlast k)"
      using tree_okD(5) [OF assms k(2)] k(1) prefix_butlast [OF q] by (auto simp: dir_at_def hm_get_filter_keys)
  qed
  moreover have "tree_ok (hm_remove q t)" if "\<not> dir_at t q" using that assms tree_okD(2) [OF assms] by (intro tree_ok_remove) auto
  ultimately show ?thesis using Inr assms by (simp add: t_remove_all_def)
qed (use assms in \<open>simp add: t_remove_all_def\<close>)

subsection \<open>Runs without faults\<close>

text \<open>\<open>yields m t r t'\<close>: on the tree \<open>t\<close> the computation returns \<open>r\<close> and leaves \<open>t'\<close>.\<close>

definition quiet :: "faults \<Rightarrow> bool" where
  "quiet io \<longleftrightarrow> (\<forall>n. io n = None)"

definition yields :: "'a fsio \<Rightarrow> tree \<Rightarrow> 'a \<Rightarrow> tree \<Rightarrow> bool" where
  "yields m t r t' \<longleftrightarrow>
     (\<forall>d. dk_tree d = t \<longrightarrow> fst (run_state m d) = r \<and> dk_tree (snd (run_state m d)) = t')"

named_theorems yields_intros \<open>computations that yield\<close>

lemma yields_return [yields_intros]: "yields (State_Monad.return r) t r t"
  by (simp add: yields_def)

lemma yields_bind: "yields m t a t' \<Longrightarrow> yields (f a) t' r t'' \<Longrightarrow> yields (State_Monad.bind m f) t r t''"
  by (auto simp: yields_def split: prod.split)

lemma yields_unique: "yields m t r t' \<Longrightarrow> yields m t s t'' \<Longrightarrow> r = s \<and> t' = t''"
  unfolding yields_def by (metis disk.select_convs(1))

lemma yields_run: "yields m t r t' \<Longrightarrow> dk_tree d = t \<Longrightarrow> run_state m d = (r, snd (run_state m d)) \<and> dk_tree (snd (run_state m d)) = t'"
  by (simp add: yields_def prod_eq_iff)

lemma yields_syscall: "quiet io \<Longrightarrow> yields (syscall io f broken) t (fst (f t)) (snd (f t))"
  by (simp add: yields_def syscall_def quiet_def)

lemma yields_query: "quiet io \<Longrightarrow> yields (query io f) t (f t) t"
  using yields_syscall [of io "\<lambda>t. (f t, t)"] by (simp add: query_def)

lemma yields_effect: "quiet io \<Longrightarrow> yields (effect io f) t (fst (f t)) (snd (f t))"
  using yields_syscall [of io f] by (simp add: effect_def)

lemma yields_write: "quiet io \<Longrightarrow> yields (fs_write io p content) t (fst (t_write p content t)) (snd (t_write p content t))"
  by (simp add: fs_write_def yields_syscall)

lemma yields_calls [yields_intros]:
  assumes "quiet io"
  shows "yields (fs_stat io p) t (t_stat True p t) t"
    "yields (fs_lstat io p) t (t_stat False p t) t"
    "yields (fs_read io p) t (t_read p t) t"
    "yields (fs_read_dir io p) t (t_read_dir p t) t"
    "yields (fs_mkdir io p) t (fst (t_mkdir p t)) (snd (t_mkdir p t))"
    "yields (fs_remove_file io p) t (fst (t_remove_file p t)) (snd (t_remove_file p t))"
    "yields (fs_remove_dir io p) t (fst (t_remove_dir p t)) (snd (t_remove_dir p t))"
    "yields (fs_remove_all io p) t (fst (t_remove_all p t)) (snd (t_remove_all p t))"
    "yields (fs_set_permissions io mode p) t (fst (t_chmod mode p t)) (snd (t_chmod mode p t))"
    "yields (fs_lchown io gid p) t (fst (t_lchown gid p t)) (snd (t_lchown gid p t))"
    "yields (fs_rename io p q) t (fst (t_rename p q t)) (snd (t_rename p q t))"
    "yields (fs_write io p content) t (fst (t_write p content t)) (snd (t_write p content t))"
  unfolding fs_stat_def fs_lstat_def fs_read_def fs_read_dir_def fs_mkdir_def fs_remove_file_def fs_remove_dir_def
    fs_remove_all_def fs_set_permissions_def fs_lchown_def fs_rename_def
  by (rule yields_query [OF assms] yields_effect [OF assms] yields_write [OF assms])+

lemma yields_tests [yields_intros]:
  assumes "quiet io"
  shows "yields (fs_exists io p) t (\<not> isl (t_stat True p t)) t"
    "yields (fs_is_dir io p) t (case t_stat True p t of Inr i \<Rightarrow> in_node i = Directory | Inl _ \<Rightarrow> False) t"
    "yields (fs_is_file io p) t
       (case t_stat True p t of Inr i \<Rightarrow> (case in_node i of RegFile _ \<Rightarrow> True | _ \<Rightarrow> False) | Inl _ \<Rightarrow> False) t"
  unfolding fs_exists_def fs_is_dir_def fs_is_file_def
  by (rule yields_bind [OF yields_calls(1) [OF assms]], rule yields_return)+


subsection \<open>Paths without links\<close>

text \<open>On the way to \<open>p\<close> there are only directories, as far as there is anything.\<close>

definition free_path :: "tree \<Rightarrow> fpath \<Rightarrow> bool" where
  "free_path t p \<longleftrightarrow> plain_path p \<and> (\<forall>q. prefix q p \<longrightarrow> \<not> is_link t q \<and> (q \<noteq> p \<longrightarrow> file_at t q = None))"

lemma free_pathD: "free_path t p \<Longrightarrow> prefix q p \<Longrightarrow> \<not> is_link t q" "free_path t p \<Longrightarrow> strict_prefix q p \<Longrightarrow> file_at t q = None"
  by (auto simp: free_path_def strict_prefix_def)

lemma free_path_plain: "free_path t p \<Longrightarrow> plain_path p"
  by (simp add: free_path_def)

lemma free_path_prefix: "free_path t p \<Longrightarrow> prefix q p \<Longrightarrow> free_path t q"
proof -
  assume f: "free_path t p" and q: "prefix q p"
  have "plain_path q" using f q by (auto simp: free_path_def prefix_def)
  moreover have "file_at t r = None" if "prefix r q" "r \<noteq> q" for r
    using free_pathD(2) [OF f] that q by (metis prefix_order.dual_order.not_eq_order_implies_strict prefix_order.le_less_trans prefix_order.less_le_trans)
  moreover have "\<not> is_link t r" if "prefix r q" for r using free_pathD(1) [OF f] that q prefix_order.trans by blast
  ultimately show ?thesis by (auto simp: free_path_def)
qed

lemma node_cases:
  obtains (none) "hm_get t p = None" "\<not> dir_at t p" "file_at t p = None" "\<not> is_link t p"
  | (dir) i where "hm_get t p = Some i" "in_node i = Directory" "dir_at t p" "file_at t p = None" "\<not> is_link t p"
  | (reg) i c where "hm_get t p = Some i" "in_node i = RegFile c" "\<not> dir_at t p" "file_at t p = Some c" "\<not> is_link t p"
  | (link) i a g where "hm_get t p = Some i" "in_node i = Symlink a g" "\<not> dir_at t p" "file_at t p = None" "is_link t p"
proof (cases "hm_get t p")
  case None
  then show ?thesis using none by (simp add: dir_at_def file_at_def is_link_def)
next
  case (Some i)
  then show ?thesis using dir reg link by (cases "in_node i") (simp_all add: dir_at_def file_at_def is_link_def)
qed

lemma prefix_butlast_strict: "prefix k p \<Longrightarrow> k \<noteq> p \<Longrightarrow> prefix k (butlast p)"
  by (cases p rule: rev_cases) auto

lemma dir_at_prefix:
  assumes "tree_ok t" "prefix q p" "hm_get t p \<noteq> None" "q \<noteq> p"
  shows "dir_at t q"
  using assms(2-4)
proof (induction p rule: rev_induct)
  case (snoc c p)
  have "dir_at t p" using tree_okD(5) [OF assms(1), of "p @ [c]"] snoc.prems by auto
  then show ?case using snoc by (cases "q = p") (auto simp: dir_at_def)
qed simp

lemma walk_free:
  assumes "tree_ok t" "dir_at t cur" "free_path t (cur @ rel)"
  shows "walk t follow n cur rel = (if rel = [] \<or> dir_at t (butlast (cur @ rel)) then Inr (cur @ rel) else Inl ENOENT)"
  using assms(2,3)
proof (induction rel arbitrary: cur)
  case (Cons c cs)
  have c: "c \<noteq> ''..''" using free_path_plain [OF Cons.prems(2)] by (simp add: plain_name_def)
  have f: "free_path t ((cur @ [c]) @ cs)" using Cons.prems(2) by simp
  have nl: "\<not> is_link t (cur @ [c])" using free_pathD(1) [OF f] by simp
  show ?case
  proof (cases t "cur @ [c]" rule: node_cases)
    case none
    have "\<not> dir_at t (butlast (cur @ c # cs))" if "cs \<noteq> []"
    proof
      assume d: "dir_at t (butlast (cur @ c # cs))"
      have "prefix (cur @ [c]) (butlast (cur @ c # cs))" using that by (simp add: butlast_append)
      then show False using dir_at_prefix [OF assms(1)] d none(1,2) by (metis dir_at_def option.distinct(1) option.simps(8))
    qed
    then show ?thesis using c none Cons.prems(1) by (auto simp: butlast_append)
  next
    case dir
    then show ?thesis using c Cons.IH [OF dir(3) f] Cons.prems(1) by (auto simp: butlast_append)
  next
    case reg
    have "cs = []"
    proof (rule ccontr)
      assume "cs \<noteq> []"
      then have "strict_prefix (cur @ [c]) ((cur @ [c]) @ cs)" by (simp add: strict_prefix_def)
      then show False using free_pathD(2) [OF f] reg by simp
    qed
    then show ?thesis using c reg Cons.prems(1) by (simp add: butlast_append)
  next
    case link
    then show ?thesis using nl by simp
  qed
qed simp

lemma locate_free:
  "tree_ok t \<Longrightarrow> free_path t p \<Longrightarrow>
   locate t follow p = (if p = [] \<or> dir_at t (butlast p) then Inr p else Inl ENOENT)"
  using walk_free [of t "[]" p follow 40] by (simp add: locate_def tree_okD(2))


subsection \<open>Creating the directories of a path\<close>

definition adds_dirs :: "fpath \<Rightarrow> tree \<Rightarrow> tree \<Rightarrow> bool" where
  "adds_dirs p t t' \<longleftrightarrow> tree_ok t' \<and> (\<forall>k. hm_get t k \<noteq> None \<longrightarrow> hm_get t' k = hm_get t k) \<and>
     (\<forall>k. hm_get t k = None \<longrightarrow> (if prefix k p then dir_at t' k else hm_get t' k = None))"

lemma adds_dirsD:
  assumes "adds_dirs p t t'"
  shows "tree_ok t'" "hm_get t k = Some i \<Longrightarrow> hm_get t' k = Some i" "hm_get t k = None \<Longrightarrow> prefix k p \<Longrightarrow> dir_at t' k"
    "hm_get t k = None \<Longrightarrow> \<not> prefix k p \<Longrightarrow> hm_get t' k = None"
  using assms unfolding adds_dirs_def by (metis option.distinct(1))+

lemma dir_at_kind: "dir_at t p \<Longrightarrow> file_at t p = None \<and> \<not> is_link t p"
  by (cases t p rule: node_cases) auto

lemma adds_dirs_refl: "tree_ok t \<Longrightarrow> dir_at t p \<Longrightarrow> adds_dirs p t t"
  using dir_at_prefix [of t _ p] by (auto simp: adds_dirs_def dir_at_def)

lemma adds_dirs_files:
  assumes "adds_dirs p t t'"
  shows "file_at t' k = file_at t k" "is_link t' k \<longleftrightarrow> is_link t k"
proof -
  have "file_at t' k = file_at t k \<and> (is_link t' k \<longleftrightarrow> is_link t k)"
  proof (cases "hm_get t k")
    case None
    then have n: "file_at t k = None" "\<not> is_link t k" by (simp_all add: file_at_def is_link_def)
    show ?thesis
    proof (cases "prefix k p")
      case True
      then show ?thesis using dir_at_kind [OF adds_dirsD(3) [OF assms None True]] n by simp
    next
      case False
      then show ?thesis using adds_dirsD(4) [OF assms None False] n by (simp add: file_at_def is_link_def)
    qed
  next
    case (Some i)
    then show ?thesis using adds_dirsD(2) [OF assms Some] by (simp add: file_at_def is_link_def)
  qed
  then show "file_at t' k = file_at t k" "is_link t' k \<longleftrightarrow> is_link t k" by simp_all
qed

lemma adds_dirs_dir:
  assumes a: "adds_dirs p t t'" and f: "free_path t p" and r: "file_at t p = None"
  shows "dir_at t' k \<longleftrightarrow> dir_at t k \<or> prefix k p"
proof (cases t k rule: node_cases)
  case none
  then show ?thesis using adds_dirsD(3,4) [OF a none(1)] by (cases "prefix k p") (auto simp: dir_at_def)
next
  case (dir i)
  then show ?thesis using adds_dirsD(2) [OF a dir(1)] by (simp add: dir_at_def)
next
  case (reg i c)
  then have "\<not> prefix k p" using free_pathD(2) [OF f] r by (cases "k = p") (auto simp: strict_prefix_def)
  then show ?thesis using adds_dirsD(2) [OF a reg(1)] reg by (simp add: dir_at_def)
next
  case (link i)
  then show ?thesis using adds_dirsD(2) [OF a link(1)] free_pathD(1) [OF f] by (auto simp: dir_at_def)
qed

lemma t_mkdir_free:
  assumes "tree_ok t" "free_path t p"
  shows "t_mkdir p t =
    (if p \<noteq> [] \<and> \<not> dir_at t (butlast p) then (Inl ENOENT, t)
     else if hm_get t p \<noteq> None then (Inl EEXIST, t)
     else (Inr (), hm_insert p \<lparr>in_node = Directory, in_mode = new_dir_mode t p, in_gid = new_gid t p\<rparr> t))"
  by (simp add: t_mkdir_def locate_free [OF assms] hm_contains_key_def)

lemma adds_dirs_mkdir:
  assumes "tree_ok t" "free_path t p" "p = [] \<or> dir_at t (butlast p)" "hm_get t p = None"
  shows "adds_dirs p t (snd (t_mkdir p t))"
proof -
  have ok: "tree_ok (snd (t_mkdir p t))" using assms(1,2) by (intro tree_ok_mkdir plain_path_ok free_path_plain)
  have "dir_at (snd (t_mkdir p t)) k" if "prefix k p" for k
  proof (cases "k = p")
    case True
    then show ?thesis using assms by (auto simp: t_mkdir_free dir_at_insert)
  next
    case False
    then have "prefix k (butlast p)" "p \<noteq> []" using that by (metis prefix_butlast_strict) (use that False in auto)
    then have "dir_at t k" using dir_at_prefix [OF assms(1), of k "butlast p"] assms(3) by (cases "k = butlast p") (auto simp: dir_at_def)
    then show ?thesis using assms False by (auto simp: t_mkdir_free dir_at_insert)
  qed
  then show ?thesis using ok assms by (auto simp: adds_dirs_def t_mkdir_free)
qed


lemma adds_dirs_trans:
  assumes "adds_dirs (butlast p) t t'" "adds_dirs p t' t''" "free_path t p" "file_at t p = None"
  shows "adds_dirs p t t''"
proof -
  have 1: "hm_get t'' k = hm_get t k" if "hm_get t k \<noteq> None" for k
    using that adds_dirsD(2) [OF assms(1), of k] adds_dirsD(2) [OF assms(2), of k] by auto
  have 2: "dir_at t'' k" if "hm_get t k = None" "prefix k p" for k
  proof (cases "hm_get t' k")
    case None
    then show ?thesis using adds_dirsD(3) [OF assms(2)] that by simp
  next
    case (Some i)
    then have "prefix k (butlast p)" using adds_dirsD(4) [OF assms(1) that(1)] by auto
    then have "dir_at t' k" using adds_dirsD(3) [OF assms(1) that(1)] by simp
    then show ?thesis using adds_dirsD(2) [OF assms(2) Some] Some by (simp add: dir_at_def)
  qed
  have 3: "hm_get t'' k = None" if "hm_get t k = None" "\<not> prefix k p" for k
  proof -
    have "\<not> prefix k (butlast p)" using that(2) by (metis prefixeq_butlast prefix_order.trans)
    then show ?thesis using adds_dirsD(4) [OF assms(1) that(1)] adds_dirsD(4) [OF assms(2)] that(2) by simp
  qed
  show ?thesis using adds_dirsD(1) [OF assms(2)] 1 2 3 by (auto simp: adds_dirs_def)
qed

lemma free_path_cong: "(\<And>k. file_at t' k = file_at t k) \<Longrightarrow> (\<And>k. is_link t' k \<longleftrightarrow> is_link t k) \<Longrightarrow> free_path t' p \<longleftrightarrow> free_path t p"
  by (simp add: free_path_def)

lemma t_stat_dir: "tree_ok t \<Longrightarrow> free_path t p \<Longrightarrow> dir_at t p \<Longrightarrow> \<exists>i. t_stat follow p t = Inr i \<and> in_node i = Directory"
  using dir_at_parent [of t p] by (auto simp: t_stat_def locate_free dir_at_def)

lemma yields_or_existing:
  assumes "quiet io" "tree_ok t" "free_path t p" "dir_at t p"
  shows "yields (or_existing io p e) t (Inr ()) t"
proof -
  obtain i where "t_stat True p t = Inr i" "in_node i = Directory" using t_stat_dir [OF assms(2-4)] by blast
  then have "yields (fs_is_dir io p) t True t" using yields_tests(2) [OF assms(1), of p t] by simp
  then show ?thesis unfolding or_existing_def by (rule yields_bind) (simp add: yields_return)
qed

lemma error_names [simp]: "EEXIST \<noteq> ENOENT" "ENOTDIR \<noteq> ENOENT" "EISDIR \<noteq> ENOENT"
  by (simp_all add: EEXIST_def ENOENT_def ENOTDIR_def EISDIR_def)

lemma make_all_creates:
  assumes "quiet io"
  shows "length p \<le> n \<Longrightarrow> tree_ok t \<Longrightarrow> free_path t p \<Longrightarrow> file_at t p = None \<Longrightarrow>
    \<exists>t'. yields (make_all io n p) t (Inr ()) t' \<and> adds_dirs p t t'"
proof (induction n arbitrary: p t)
  case (Suc m)
  note mk = t_mkdir_free [OF Suc.prems(2,3)]
  note run = yields_calls(5) [OF assms, of p t]
  consider (there) "hm_get t p \<noteq> None" | (parent) "hm_get t p = None" "p = [] \<or> dir_at t (butlast p)"
    | (missing) "hm_get t p = None" "p \<noteq> []" "\<not> dir_at t (butlast p)" by blast
  then show ?case
  proof cases
    case there
    then have d: "dir_at t p" using free_pathD(1) [OF Suc.prems(3), of p] Suc.prems(4) by (cases t p rule: node_cases) auto
    then have "p = [] \<or> dir_at t (butlast p)" using dir_at_parent [OF Suc.prems(2)] by blast
    then have "t_mkdir p t = (Inl EEXIST, t)" using mk there by auto
    then have "yields (fs_mkdir io p) t (Inl EEXIST) t" using run by simp
    then have "yields (make_all io (Suc m) p) t (Inr ()) t"
      by (subst make_all.simps) (erule yields_bind, simp add: yields_or_existing [OF assms Suc.prems(2,3) d])
    then show ?thesis using adds_dirs_refl [OF Suc.prems(2) d] by blast
  next
    case parent
    then have "fst (t_mkdir p t) = Inr ()" by (auto simp: mk)
    then have "yields (fs_mkdir io p) t (Inr ()) (snd (t_mkdir p t))" using run by simp
    then have "yields (make_all io (Suc m) p) t (Inr ()) (snd (t_mkdir p t))"
      by (subst make_all.simps) (erule yields_bind, simp add: yields_return)
    then show ?thesis using adds_dirs_mkdir [OF Suc.prems(2,3) parent(2,1)] by blast
  next
    case missing
    then have e: "t_mkdir p t = (Inl ENOENT, t)" by (simp add: mk)
    have pre: "prefix (butlast p) p" "butlast p \<noteq> p" using missing(2) butlast_neq by (simp_all add: prefixeq_butlast)
    have f: "free_path t (butlast p)" using free_path_prefix [OF Suc.prems(3) pre(1)] .
    have "file_at t (butlast p) = None" using free_pathD(2) [OF Suc.prems(3)] pre by (simp add: strict_prefix_def)
    moreover have "length (butlast p) \<le> m" using Suc.prems(1) by simp
    ultimately obtain t' where t': "yields (make_all io m (butlast p)) t (Inr ()) t'" "adds_dirs (butlast p) t t'"
      using Suc.IH [OF _ Suc.prems(2) f] by blast
    have ok: "tree_ok t'" "free_path t' p" "file_at t' p = None" "dir_at t' (butlast p)"
      using adds_dirsD(1) [OF t'(2)] adds_dirs_files [OF t'(2)] Suc.prems(3,4) free_path_cong [of t' t p]
        adds_dirs_dir [OF t'(2) f] \<open>file_at t (butlast p) = None\<close> by auto
    have "hm_get t' p = None" using adds_dirsD(4) [OF t'(2) missing(1)] pre by (metis prefix_order.antisym)
    then have mk': "fst (t_mkdir p t') = Inr ()" and a: "adds_dirs p t' (snd (t_mkdir p t'))"
      using adds_dirs_mkdir [OF ok(1,2)] ok(4) by (auto simp: t_mkdir_free [OF ok(1,2)])
    have run': "yields (fs_mkdir io p) t' (Inr ()) (snd (t_mkdir p t'))" using yields_calls(5) [OF assms, of p t'] mk' by simp
    have "yields (fs_mkdir io p) t (Inl ENOENT) t" using run e by simp
    then have "yields (make_all io (Suc m) p) t (Inr ()) (snd (t_mkdir p t'))"
      by (subst make_all.simps) (erule yields_bind, simp, rule yields_bind [OF t'(1)], simp, rule yields_bind [OF run'], simp add: yields_return)
    then show ?thesis using adds_dirs_trans [OF t'(2) a Suc.prems(3,4)] by blast
  qed
next
  case 0
  then have p: "p = []" by simp
  have d: "dir_at t []" using tree_okD(2) [OF 0(2)] .
  then have "hm_get t [] \<noteq> None" by (auto simp: dir_at_def)
  then have "t_mkdir p t = (Inl EEXIST, t)" using t_mkdir_free [OF 0(2,3)] p by auto
  then have "yields (fs_mkdir io p) t (Inl EEXIST) t" using yields_calls(5) [OF assms, of p t] by simp
  then have "yields (make_all io 0 p) t (Inr ()) t" using yields_or_existing [OF assms 0(2,3)] d p
    by (subst make_all.simps) (erule yields_bind, simp)
  then show ?case using adds_dirs_refl [OF 0(2)] d p by blast
qed

lemma free_path_dir:
  assumes "tree_ok t" "dir_at t dir"
  shows "free_path t dir"
proof -
  have "\<not> is_link t q \<and> file_at t q = None" if "prefix q dir" for q
  proof -
    have "dir_at t q" using dir_at_prefix [OF assms(1) that] assms(2) by (cases "q = dir") (auto simp: dir_at_def)
    then show ?thesis using dir_at_kind by blast
  qed
  then show ?thesis using dir_at_plain [OF assms] by (simp add: free_path_def)
qed

lemma create_dir_all_exists:
  assumes "quiet io" "tree_ok t" "dir_at t p"
  shows "yields (fs_create_dir_all io p) t (Inr ()) t"
proof -
  note f = free_path_dir [OF assms(2,3)]
  have "hm_get t p \<noteq> None" "p = [] \<or> dir_at t (butlast p)" using assms(3) dir_at_parent [OF assms(2,3)] by (auto simp: dir_at_def)
  then have "t_mkdir p t = (Inl EEXIST, t)" using t_mkdir_free [OF assms(2) f] by auto
  then have r: "yields (fs_mkdir io p) t (Inl EEXIST) t" using yields_calls(5) [OF assms(1), of p t] by simp
  have o: "yields (or_existing io p EEXIST) t (Inr ()) t" using yields_or_existing [OF assms(1,2) f assms(3)] .
  show ?thesis unfolding fs_create_dir_all_def by (subst make_all.simps) (rule yields_bind [OF r], simp add: o)
qed

lemma create_dir_all_creates:
  "quiet io \<Longrightarrow> tree_ok t \<Longrightarrow> free_path t p \<Longrightarrow> file_at t p = None \<Longrightarrow>
   \<exists>t'. yields (fs_create_dir_all io p) t (Inr ()) t' \<and> adds_dirs p t t'"
  unfolding fs_create_dir_all_def by (rule make_all_creates) simp_all


subsection \<open>Writing one file\<close>

text \<open>The file \<open>p\<close> with content \<open>c\<close> and the directories above it are there; everything else is as before.\<close>

definition puts :: "fpath \<Rightarrow> string \<Rightarrow> tree \<Rightarrow> tree \<Rightarrow> bool" where
  "puts p c t t' \<longleftrightarrow> tree_ok t' \<and> file_at t' = (file_at t)(p \<mapsto> c) \<and> is_link t' = is_link t \<and>
     (\<forall>k. dir_at t' k \<longleftrightarrow> dir_at t k \<or> strict_prefix k p)"

lemma putsD:
  assumes "puts p c t t'"
  shows "tree_ok t'" "file_at t' = (file_at t)(p \<mapsto> c)" "is_link t' = is_link t" "dir_at t' k \<longleftrightarrow> dir_at t k \<or> strict_prefix k p"
  using assms unfolding puts_def by blast+

lemma file_at_insert: "file_at (hm_insert q i t) = (file_at t)(q := (case in_node i of RegFile c \<Rightarrow> Some c | _ \<Rightarrow> None))"
  by (auto simp: file_at_def)

lemma is_link_insert: "is_link (hm_insert q i t) = (is_link t)(q := (case in_node i of Symlink _ _ \<Rightarrow> True | _ \<Rightarrow> False))"
  by (rule ext) (simp add: is_link_def)

lemma dir_at_below: "tree_ok t \<Longrightarrow> dir_at t (butlast p) \<Longrightarrow> strict_prefix k p \<Longrightarrow> dir_at t k"
  using dir_at_prefix [of t k "butlast p"] prefix_butlast_strict [of k p]
  by (cases "k = butlast p") (auto simp: strict_prefix_def dir_at_def)

lemma write_puts:
  assumes "tree_ok t" "free_path t p" "p \<noteq> []" "dir_at t (butlast p)" "\<not> dir_at t p"
  shows "fst (t_write p c t) = Inr ()" "puts p c t (snd (t_write p c t))"
proof -
  have l: "locate t True p = Inr p" using assms by (simp add: locate_free)
  have ok: "tree_ok (snd (t_write p c t))" using assms(1,2) by (intro tree_ok_write plain_path_ok free_path_plain)
  have nl: "\<not> is_link t p" using free_pathD(1) [OF assms(2)] by simp
  have up: "dir_at t k" if "strict_prefix k p" for k using dir_at_below [OF assms(1,4) that] .
  have "fst (t_write p c t) = Inr () \<and> puts p c t (snd (t_write p c t))"
  proof (cases t p rule: node_cases)
    case none
    then show ?thesis using l ok up
      by (auto simp: puts_def t_write_def file_at_insert is_link_insert dir_at_insert fun_upd_idem)
  next
    case (reg i c')
    then have "file_at (snd (t_write p c t)) = (file_at t)(p \<mapsto> c)" "is_link (snd (t_write p c t)) = is_link t"
        "\<forall>k. dir_at (snd (t_write p c t)) k = dir_at t k"
      using l by (auto simp: t_write_def file_at_insert is_link_insert dir_at_insert fun_upd_idem)
    then show ?thesis using ok up reg l by (auto simp: puts_def t_write_def)
  qed (use assms(5) nl in auto)
  then show "fst (t_write p c t) = Inr ()" "puts p c t (snd (t_write p c t))" by blast+
qed

text \<open>Changing mode or group changes no content.\<close>

definition same_nodes :: "tree \<Rightarrow> tree \<Rightarrow> bool" where
  "same_nodes t t' \<longleftrightarrow> (\<forall>k. map_option in_node (hm_get t' k) = map_option in_node (hm_get t k))"

lemma same_nodes_views: "same_nodes t t' \<Longrightarrow> file_at t' = file_at t \<and> is_link t' = is_link t \<and> dir_at t' = dir_at t"
proof -
  assume s: "same_nodes t t'"
  have "file_at t' k = file_at t k \<and> is_link t' k = is_link t k \<and> dir_at t' k = dir_at t k" for k
  proof -
    have "map_option in_node (hm_get t' k) = map_option in_node (hm_get t k)" using s by (simp add: same_nodes_def)
    then show ?thesis by (cases "hm_get t k"; cases "hm_get t' k") (simp_all add: file_at_def is_link_def dir_at_def)
  qed
  then show ?thesis by (auto simp: fun_eq_iff)
qed

lemma same_nodes_change: "(\<And>i. in_node (f i) = in_node i) \<Longrightarrow> same_nodes t (snd (t_change follow f p t))"
  by (auto simp: same_nodes_def t_change_def split: sum.split option.split)

lemma same_nodes_chmod: "same_nodes t (snd (t_chmod mode p t))"
  unfolding t_chmod_def by (rule same_nodes_change) simp

lemma same_nodes_lchown: "same_nodes t (snd (t_lchown gid p t))"
  unfolding t_lchown_def by (rule same_nodes_change) simp

lemma puts_chmod: "puts p c t t' \<Longrightarrow> puts p c t (snd (t_chmod mode q t'))"
  using same_nodes_views [OF same_nodes_chmod [where t = t' and mode = mode and p = q]] tree_ok_chmod [where t = t' and mode = mode and p = q]
  by (simp add: puts_def)

lemma puts_after_dirs:
  assumes "adds_dirs (butlast p) t t'" "free_path t p" "puts p c t' t''" "p \<noteq> []"
  shows "puts p c t t''"
proof -
  have pre: "prefix (butlast p) p" "butlast p \<noteq> p" using butlast_neq [OF assms(4)] by (simp_all add: prefixeq_butlast)
  have f: "free_path t (butlast p)" using free_path_prefix [OF assms(2) pre(1)] .
  have n: "file_at t (butlast p) = None" using free_pathD(2) [OF assms(2)] pre by (simp add: strict_prefix_def)
  have "prefix k (butlast p) \<longleftrightarrow> strict_prefix k p" for k
    using prefix_butlast_strict [of k p] pre
    by (metis append_butlast_last_id assms(4) prefix_order.dual_order.strict_trans1 strict_prefix_def)
  then have "dir_at t' k \<longleftrightarrow> dir_at t k \<or> strict_prefix k p" for k using adds_dirs_dir [OF assms(1) f n] by simp
  then show ?thesis using assms(3) adds_dirs_files [OF assms(1)] by (auto simp: puts_def fun_eq_iff)
qed

end
