(* ===== verification/Cri_Client.thy ===== *)
theory Cri_Client
  imports Cri_Messages Stream_Exec Pod_Start Kube_Pods Filesystem
begin

section \<open>The client of the container runtime\<close>

text \<open>
  \<^verbatim>\<open>kubelet-cri/src/client/mod.rs\<close>: what the kubelet asks of containerd and how it reads the answers. The runtime is a record of
  functions on a state of its own; an error is the text of its status. The directories the client makes before it asks
  for a container are made on the tree of \<open>Filesystem\<close>, paths kept as text resolved from the root. Casts and products
  wrap as in a release build.
\<close>

subsection \<open>Numbers\<close>

definition wrap_i64 :: "int \<Rightarrow> int" where
  "wrap_i64 n = (n + 2 ^ 63) mod 2 ^ 64 - 2 ^ 63"

lemma wrap_i64_id: "- (2 ^ 63) \<le> n \<Longrightarrow> n < 2 ^ 63 \<Longrightarrow> wrap_i64 n = n"
  by (simp add: wrap_i64_def)

text \<open>\<^verbatim>\<open>from_timestamp(ns / 1_000_000_000, 0)\<close>, which is in range for every 64-bit number; division is towards zero.\<close>

definition whole_seconds :: "int \<Rightarrow> timestamp" where
  "whole_seconds ns = secs (trunc_div ns 1000000000)"

subsection \<open>Reading answers\<close>

text \<open>The text from the first digest on, if there is one.\<close>

fun from_digest :: "string \<Rightarrow> string option" where
  "from_digest [] = None"
| "from_digest (c # cs) = (if starts_with ''sha256:'' (c # cs) then Some (c # cs) else from_digest cs)"

definition normalize_image_id :: "string \<Rightarrow> string" where
  "normalize_image_id image_ref = or_value image_ref (from_digest image_ref)"

definition cri_container_state :: "int \<Rightarrow> RuntimeContainerState" where
  "cri_container_state s = (if s = 0 then RCreated else if s = 1 then RRunning else if s = 2 then RExited else RUnknown)"

definition cri_sandbox_state :: "int \<Rightarrow> SandboxState" where
  "cri_sandbox_state s = (if s = 0 then SReady else SNotReady)"

definition network_status :: "PodSandboxNetworkStatus \<Rightarrow> SandboxNetworkStatus" where
  "network_status n = \<lparr>sns_ip = psn_ip n, sns_additional_ips = psn_additional_ips n\<rparr>"

definition of_metadata :: "('m \<Rightarrow> string) \<Rightarrow> 'm option \<Rightarrow> string" where
  "of_metadata f m = or_value [] (map_option f m)"

definition sandbox_status :: "PodSandboxStatus \<Rightarrow> SandboxStatus" where
  "sandbox_status s =
     \<lparr>sbs_id = pss_id s, sbs_pod_uid = of_metadata psm_uid (pss_metadata s), sbs_pod_name = of_metadata psm_name (pss_metadata s),
      sbs_pod_namespace = of_metadata psm_namespace (pss_metadata s), sbs_state = cri_sandbox_state (pss_state s),
      sbs_created_at = whole_seconds (pss_created_at s), sbs_network = map_option network_status (pss_network s),
      sbs_labels = pss_labels s\<rparr>"

definition listed_sandbox :: "PodSandbox \<Rightarrow> SandboxStatus" where
  "listed_sandbox s =
     \<lparr>sbs_id = psb_id s, sbs_pod_uid = of_metadata psm_uid (psb_metadata s), sbs_pod_name = of_metadata psm_name (psb_metadata s),
      sbs_pod_namespace = of_metadata psm_namespace (psb_metadata s), sbs_state = cri_sandbox_state (psb_state s),
      sbs_created_at = whole_seconds (psb_created_at s), sbs_network = None, sbs_labels = psb_labels s\<rparr>"

definition listed_container :: "PbContainer \<Rightarrow> RuntimeContainer" where
  "listed_container c =
     \<lparr>rtc_id = crc_id c, rtc_pod_uid = or_value [] (hm_get (crc_labels c) ''io.kubernetes.pod.uid''),
      rtc_name = of_metadata cmd_name (crc_metadata c), rtc_pid = None, rtc_image = of_metadata isp_image (crc_image c),
      rtc_image_ref = crc_image_ref c, rtc_state = cri_container_state (crc_state c),
      rtc_created_at = whole_seconds (crc_created_at c), rtc_started_at = None, rtc_finished_at = None,
      rtc_exit_code = None, rtc_exit_reason = None, rtc_labels = crc_labels c,
      rtc_attempt = (case crc_metadata c of Some m \<Rightarrow> cmd_attempt m | None \<Rightarrow> 0)\<rparr>"

definition status_of_container :: "PbContainerStatus \<Rightarrow> RuntimeContainer" where
  "status_of_container s =
     \<lparr>rtc_id = crs_id s, rtc_pod_uid = of_metadata cmd_name (crs_metadata s), rtc_name = of_metadata cmd_name (crs_metadata s),
      rtc_pid = None, rtc_image = of_metadata isp_image (crs_image s), rtc_image_ref = normalize_image_id (crs_image_ref s),
      rtc_state = cri_container_state (crs_state s), rtc_created_at = whole_seconds (crs_created_at s),
      rtc_started_at = (if 1 \<le> crs_state s then Some (whole_seconds (crs_started_at s)) else None),
      rtc_finished_at = (if crs_state s = 2 then Some (whole_seconds (crs_finished_at s)) else None),
      rtc_exit_code = (if crs_state s = 2 then Some (crs_exit_code s) else None),
      rtc_exit_reason = None, rtc_labels = crs_labels s,
      rtc_attempt = (case crs_metadata s of Some m \<Rightarrow> cmd_attempt m | None \<Rightarrow> 0)\<rparr>"

record ContainerStats =
  cs_cpu_usage_nano_cores :: nat
  cs_memory_usage_bytes :: nat
  cs_network_rx_bytes :: nat
  cs_network_tx_bytes :: nat
  cs_disk_usage_bytes :: nat
  cs_timestamp :: "timestamp option"

definition container_stats_of :: "PbContainerStats \<Rightarrow> ContainerStats" where
  "container_stats_of s =
     \<lparr>cs_cpu_usage_nano_cores = or_value 0 (Option.bind (cst_cpu s) cpu_usage_nano_cores),
      cs_memory_usage_bytes = or_value 0 (Option.bind (cst_memory s) mem_working_set_bytes),
      cs_network_rx_bytes = 0, cs_network_tx_bytes = 0, cs_disk_usage_bytes = 0, cs_timestamp = None\<rparr>"

definition image_info :: "PbImage \<Rightarrow> ImageInfo" where
  "image_info i = \<lparr>ii_id = cim_id i, ii_repo_tags = cim_repo_tags i, ii_repo_digests = cim_repo_digests i, ii_size_bytes = cim_size i\<rparr>"

subsection \<open>Environment and mounts\<close>

definition spec_to_cri_env :: "ContainerSpec \<Rightarrow> (string \<times> string) list \<Rightarrow> KeyValue list" where
  "spec_to_cri_env c extra_env = map (\<lambda>(k, v). \<lparr>kv_key = k, kv_value = v\<rparr>) extra_env"

definition cri_mount :: "VolumeMount \<Rightarrow> PbMount" where
  "cri_mount m =
     \<lparr>cmt_container_path = vm_mount_path m, cmt_host_path = or_value [] (vm_sub_path m), cmt_readonly = vm_read_only m,
      cmt_selinux_relabel = False, cmt_propagation = propagation_code PropagationPrivate\<rparr>"

text \<open>Where a mount lies in the host directory of another, if it lies in it.\<close>

definition mountpoint_in :: "PbMount \<Rightarrow> PbMount \<Rightarrow> string option" where
  "mountpoint_in parent child =
     (let prefix = trim_end_slashes (cmt_container_path parent) @ ''/'';
          child_cp = trim_end_slashes (cmt_container_path child)
      in if starts_with prefix child_cp then Some (path_join (cmt_host_path parent) (drop (length prefix) child_cp)) else None)"

definition mountpoints :: "PbMount list \<Rightarrow> string list" where
  "mountpoints ms =
     List.map_filter (\<lambda>(i, j). if i = j then None else mountpoint_in (ms ! i) (ms ! j)) (List.product [0..<length ms] [0..<length ms])"

fun make_mountpoints :: "faults \<Rightarrow> string list \<Rightarrow> unit fsio" where
  "make_mountpoints io [] = State_Monad.return ()"
| "make_mountpoints io (p # ps) = do {
     there \<leftarrow> fs_exists io (comps p);
     _ \<leftarrow> (if there then State_Monad.return (Inr ()) else fs_create_dir_all io (comps p));
     make_mountpoints io ps
   }"

definition mount_depth :: "PbMount \<Rightarrow> nat" where
  "mount_depth m = length (filter (\<lambda>s. s \<noteq> []) (split_on CHR ''/'' (cmt_container_path m)))"

text \<open>\<^verbatim>\<open>sort_by\<close> is stable; the deepest come first.\<close>

definition deepest_first :: "PbMount list \<Rightarrow> PbMount list" where
  "deepest_first = sort_key (\<lambda>m. - int (mount_depth m))"

definition spec_to_cri_mounts :: "faults \<Rightarrow> ContainerSpec \<Rightarrow> PbMount list fsio" where
  "spec_to_cri_mounts io c = do {
     let ms = map cri_mount (ctr_volume_mounts c);
     _ \<leftarrow> make_mountpoints io (mountpoints ms);
     State_Monad.return (deepest_first ms)
   }"

subsection \<open>Resources and security\<close>

definition quantity_value :: "(string, ResourceQuantity) hmap \<Rightarrow> string \<Rightarrow> int" where
  "quantity_value m k = or_value 0 (map_option rq_value (hm_get m k))"

definition clamp :: "int \<Rightarrow> int \<Rightarrow> int \<Rightarrow> int" where
  "clamp lo hi n = max lo (min hi n)"

definition spec_to_linux_resources :: "ContainerSpec \<Rightarrow> LinuxContainerResources" where
  "spec_to_linux_resources c =
     (let cpu_req_millis = quantity_value (rr_requests (ctr_resources c)) ''cpu'';
          cpu_shares = (if cpu_req_millis > 0 then clamp 2 262144 (trunc_div (wrap_i64 (cpu_req_millis * 1024)) 1000) else 2);
          cpu_quota = wrap_i64 (quantity_value (rr_limits (ctr_resources c)) ''cpu'' * 100)
      in \<lparr>lcr_cpu_period = (if cpu_quota > 0 then 100000 else 0), lcr_cpu_quota = cpu_quota, lcr_cpu_shares = cpu_shares,
          lcr_memory_limit_bytes = quantity_value (rr_limits (ctr_resources c)) ''memory'', lcr_oom_score_adj = 0,
          lcr_cpuset_cpus = [], lcr_cpuset_mems = [], lcr_memory_swap_limit_bytes = 0, lcr_hugepage_limits = []\<rparr>)"

definition pid_mode :: "bool \<Rightarrow> int" where
  "pid_mode share_process_namespace = namespace_mode (if share_process_namespace then ModePod else ModeContainer)"

definition seccomp_profile :: "LinuxContainerSecurity \<Rightarrow> string \<Rightarrow> SecurityProfile" where
  "seccomp_profile security t =
     \<lparr>spf_profile_type = profile_code (if t = ''Unconfined'' then Unconfined else if t = ''Localhost'' then Localhost else RuntimeDefault),
      spf_localhost_ref = or_value [] (lcs_seccomp_localhost_path security)\<rparr>"

definition build_security_context :: "LinuxContainerSecurity \<Rightarrow> bool \<Rightarrow> LinuxContainerSecurityContext" where
  "build_security_context security share_process_namespace =
     \<lparr>lsc_capabilities =
        (if lcs_capabilities_add security \<noteq> [] \<or> lcs_capabilities_drop security \<noteq> []
         then Some \<lparr>cpb_add_capabilities = lcs_capabilities_add security, cpb_drop_capabilities = lcs_capabilities_drop security\<rparr> else None),
      lsc_privileged = lcs_privileged security,
      lsc_namespace_options = Some (NamespaceOption_default\<lparr>nso_pid := pid_mode share_process_namespace\<rparr>),
      lsc_selinux_options = None, lsc_run_as_user = map_option int (lcs_run_as_user security), lsc_run_as_username = [],
      lsc_readonly_rootfs = lcs_read_only_root_filesystem security,
      lsc_supplemental_groups = map int (lcs_supplemental_groups security),
      lsc_apparmor_profile = [], lsc_seccomp_profile_path = [],
      lsc_no_new_privs = or_value False (map_option Not (lcs_allow_privilege_escalation security)),
      lsc_run_as_group = map_option int (lcs_run_as_group security), lsc_masked_paths = [], lsc_readonly_paths = [],
      lsc_seccomp = map_option (seccomp_profile security) (lcs_seccomp_profile_type security), lsc_apparmor = None\<rparr>"

definition has_security_settings :: "LinuxContainerSecurity \<Rightarrow> bool" where
  "has_security_settings security \<longleftrightarrow>
     lcs_run_as_user security \<noteq> None \<or> lcs_run_as_group security \<noteq> None \<or> lcs_supplemental_groups security \<noteq> [] \<or>
     lcs_privileged security \<or> lcs_read_only_root_filesystem security \<or> lcs_allow_privilege_escalation security \<noteq> None \<or>
     lcs_capabilities_add security \<noteq> [] \<or> lcs_capabilities_drop security \<noteq> [] \<or> lcs_seccomp_profile_type security \<noteq> None"

definition build_optional_security_context :: "LinuxContainerSecurity \<Rightarrow> bool \<Rightarrow> LinuxContainerSecurityContext option" where
  "build_optional_security_context security share_process_namespace =
     (if \<not> has_security_settings security
      then Some (LinuxContainerSecurityContext_default
        \<lparr>lsc_namespace_options := Some (NamespaceOption_default\<lparr>nso_pid := pid_mode share_process_namespace\<rparr>)\<rparr>)
      else Some (build_security_context security share_process_namespace))"

definition build_namespace_options :: "bool \<Rightarrow> bool \<Rightarrow> bool \<Rightarrow> bool \<Rightarrow> NamespaceOption" where
  "build_namespace_options host_network host_pid host_ipc share_process_namespace =
     \<lparr>nso_network = namespace_mode (if host_network then ModeNode else ModePod),
      nso_pid = namespace_mode (if host_pid then ModeNode else if share_process_namespace then ModePod else ModeContainer),
      nso_ipc = namespace_mode (if host_ipc then ModeNode else ModePod), nso_target_id = [],
      nso_userns = namespace_mode ModePod, nso_uts = namespace_mode ModePod\<rparr>"

subsection \<open>Requests\<close>

definition cri_port_mapping :: "PortMappingSpec \<Rightarrow> PbPortMapping" where
  "cri_port_mapping p =
     \<lparr>cpm_protocol = (if pm_protocol p = ''UDP'' then 1 else if pm_protocol p = ''SCTP'' then 2 else 0),
      cpm_container_port = int (pm_container_port p), cpm_host_port = int (or_value 0 (pm_host_port p)),
      cpm_host_ip = or_value [] (pm_host_ip p)\<rparr>"

definition run_sandbox_request :: "CreateSandboxConfig \<Rightarrow> RunPodSandboxRequest" where
  "run_sandbox_request config =
     \<lparr>rps_config = Some
        \<lparr>pcf_metadata = Some \<lparr>psm_name = sb_pod_name config, psm_uid = sb_pod_uid config, psm_namespace = sb_pod_namespace config,
                              psm_attempt = 0\<rparr>,
         pcf_hostname = sb_hostname config, pcf_log_directory = sb_log_directory config,
         pcf_dns_config = map_option (\<lambda>d. \<lparr>cdc_servers = dcs_servers d, cdc_searches = dcs_searches d, cdc_options = dcs_options d\<rparr>)
                            (sb_dns_config config),
         pcf_port_mappings = map cri_port_mapping (sb_port_mappings config), pcf_labels = sb_labels config,
         pcf_annotations = sb_annotations config,
         pcf_linux = Some
           \<lparr>lps_cgroup_parent = sb_linux_cgroup_parent config,
            lps_security_context = Some (LinuxSandboxSecurityContext_default
              \<lparr>lss_namespace_options := Some (build_namespace_options (sb_host_network config) (sb_host_pid config)
                                                 (sb_host_ipc config) (sb_share_process_namespace config)),
               lss_supplemental_groups := map int (sb_supplemental_groups config), lss_privileged := sb_privileged config\<rparr>),
            lps_sysctls = sb_sysctls config\<rparr>\<rparr>,
      rps_runtime_handler = sb_runtime_handler config\<rparr>"

definition plugin_mount :: "DevicePluginMount \<Rightarrow> PbMount" where
  "plugin_mount dm =
     PbMount_default\<lparr>cmt_container_path := dpm_container_path dm, cmt_host_path := dpm_host_path dm, cmt_readonly := dpm_read_only dm,
                      cmt_propagation := propagation_code PropagationPrivate\<rparr>"

definition container_labels :: "CreateContainerConfig \<Rightarrow> (string, string) hmap" where
  "container_labels config =
     [(''io.kubernetes.pod.name'', cc_pod_name config), (''io.kubernetes.pod.namespace'', cc_pod_namespace config),
      (''io.kubernetes.pod.uid'', cc_pod_uid config), (''io.kubernetes.container.name'', ctr_name (cc_container config)),
      (''kubelet.rs/pod_uid'', cc_pod_uid config), (''kubelet.rs/pod_name'', cc_pod_name config),
      (''kubelet.rs/pod_namespace'', cc_pod_namespace config), (''kubelet.rs/container_name'', ctr_name (cc_container config))]"

definition request_sandbox_labels :: "CreateContainerConfig \<Rightarrow> (string, string) hmap" where
  "request_sandbox_labels config =
     [(''io.kubernetes.pod.name'', cc_pod_name config), (''io.kubernetes.pod.namespace'', cc_pod_namespace config),
      (''io.kubernetes.pod.uid'', cc_pod_uid config)]"

definition image_spec :: "string \<Rightarrow> string \<Rightarrow> ImageSpec" where
  "image_spec img user_specified =
     \<lparr>isp_image = img, isp_annotations = [], isp_user_specified_image = user_specified, isp_runtime_handler = []\<rparr>"

definition request_sandbox_config :: "CreateContainerConfig \<Rightarrow> PodSandboxConfig" where
  "request_sandbox_config config =
     \<lparr>pcf_metadata = Some \<lparr>psm_name = cc_pod_name config, psm_uid = cc_pod_uid config, psm_namespace = cc_pod_namespace config, psm_attempt = 0\<rparr>,
      pcf_hostname = cc_pod_hostname config, pcf_log_directory = cc_log_directory config, pcf_dns_config = None,
      pcf_port_mappings = [], pcf_labels = request_sandbox_labels config, pcf_annotations = [],
      pcf_linux = Some
        \<lparr>lps_cgroup_parent = cc_linux_cgroup_parent config,
         lps_security_context =
           (if lcs_privileged (cc_security config) then Some (LinuxSandboxSecurityContext_default\<lparr>lss_privileged := True\<rparr>) else None),
         lps_sysctls = []\<rparr>\<rparr>"

definition create_container_request :: "CreateContainerConfig \<Rightarrow> PbMount list \<Rightarrow> CreateContainerRequest" where
  "create_container_request config mounts =
     (let c = cc_container config in
      \<lparr>ccr_pod_sandbox_id = cc_sandbox_id config,
       ccr_config = Some
         \<lparr>cfg_metadata = Some \<lparr>cmd_name = ctr_name c, cmd_attempt = cc_attempt config\<rparr>,
          cfg_image = Some (image_spec (cc_image_id config) (ctr_image c)),
          cfg_command = ctr_command c, cfg_args = ctr_args c, cfg_working_dir = or_value [] (ctr_working_dir c),
          cfg_envs = spec_to_cri_env c (cc_extra_env config @ cc_extra_device_envs config),
          cfg_mounts = mounts @ map plugin_mount (cc_extra_mounts config),
          cfg_devices = map (\<lambda>d. \<lparr>cdv_container_path = dm_container_path d, cdv_host_path = dm_host_path d, cdv_permissions = dm_permissions d\<rparr>)
                          (cc_extra_devices config),
          cfg_labels = container_labels config, cfg_annotations = [],
          cfg_log_path = ctr_name c @ ''/'' @ show_nat (unat (cc_attempt config)) @ ''.log'',
          cfg_stdin = or_value False (ctr_stdin c), cfg_stdin_once = False, cfg_tty = or_value False (ctr_tty c),
          cfg_linux = Some
            \<lparr>lcc_resources = Some (spec_to_linux_resources c),
             lcc_security_context = build_optional_security_context (cc_security config) (cc_share_process_namespace config)\<rparr>\<rparr>,
       ccr_sandbox_config = Some (request_sandbox_config config)\<rparr>)"

subsection \<open>The client\<close>

text \<open>The calls of the service, each on the state of the runtime.\<close>

type_synonym ('s, 'a) rpc = "'s \<Rightarrow> (string + 'a) \<times> 's"

record 's cri_server =
  sv_version :: "('s, string \<times> string) rpc"
  sv_run_pod_sandbox :: "RunPodSandboxRequest \<Rightarrow> ('s, string) rpc"
  sv_stop_pod_sandbox :: "string \<Rightarrow> ('s, unit) rpc"
  sv_remove_pod_sandbox :: "string \<Rightarrow> ('s, unit) rpc"
  sv_pod_sandbox_status :: "string \<Rightarrow> ('s, PodSandboxStatus option) rpc"
  sv_list_pod_sandbox :: "('s, PodSandbox list) rpc"
  sv_create_container :: "CreateContainerRequest \<Rightarrow> ('s, string) rpc"
  sv_start_container :: "string \<Rightarrow> ('s, unit) rpc"
  sv_stop_container :: "string \<Rightarrow> int \<Rightarrow> ('s, unit) rpc"
  sv_remove_container :: "string \<Rightarrow> ('s, unit) rpc"
  sv_list_containers :: "('s, PbContainer list) rpc"
  sv_container_status :: "string \<Rightarrow> ('s, PbContainerStatus option) rpc"
  sv_container_stats :: "string \<Rightarrow> ('s, PbContainerStats option) rpc"
  sv_exec_sync :: "ExecSyncRequest \<Rightarrow> 's \<Rightarrow> (string + ExecResult) option \<times> 's"
  sv_attach :: "AttachRequest \<Rightarrow> ('s, string) rpc"
  sv_update_container_resources :: "string \<Rightarrow> LinuxContainerResources \<Rightarrow> ('s, unit) rpc"
  sv_pull_image :: "PullImageRequest \<Rightarrow> ('s, string) rpc"
  sv_list_images :: "('s, PbImage list) rpc"
  sv_remove_image :: "ImageSpec \<Rightarrow> ('s, unit) rpc"
  sv_image_status :: "ImageSpec \<Rightarrow> ('s, PbImage option) rpc"

definition called :: "string \<Rightarrow> ('a \<Rightarrow> 'b) \<Rightarrow> (string + 'a) \<times> 's \<Rightarrow> 'b result \<times> 's" where
  "called what k r = (case fst r of Inl e \<Rightarrow> Inl (ERuntime (what @ '': '' @ e)) | Inr a \<Rightarrow> Inr (k a), snd r)"

definition client_run_pod_sandbox :: "'s cri_server \<Rightarrow> CreateSandboxConfig \<Rightarrow> 's \<Rightarrow> string result \<times> 's" where
  "client_run_pod_sandbox sv config s = called ''RunPodSandbox'' id (sv_run_pod_sandbox sv (run_sandbox_request config) s)"

definition client_stop_pod_sandbox :: "'s cri_server \<Rightarrow> string \<Rightarrow> 's \<Rightarrow> unit result \<times> 's" where
  "client_stop_pod_sandbox sv i s = called ''StopPodSandbox'' id (sv_stop_pod_sandbox sv i s)"

definition client_remove_pod_sandbox :: "'s cri_server \<Rightarrow> string \<Rightarrow> 's \<Rightarrow> unit result \<times> 's" where
  "client_remove_pod_sandbox sv i s = called ''RemovePodSandbox'' id (sv_remove_pod_sandbox sv i s)"

definition client_pod_sandbox_status :: "'s cri_server \<Rightarrow> string \<Rightarrow> 's \<Rightarrow> SandboxStatus option result \<times> 's" where
  "client_pod_sandbox_status sv i s = called ''PodSandboxStatus'' (map_option sandbox_status) (sv_pod_sandbox_status sv i s)"

definition client_list_pod_sandboxes :: "'s cri_server \<Rightarrow> 's \<Rightarrow> SandboxStatus list result \<times> 's" where
  "client_list_pod_sandboxes sv s = called ''ListPodSandbox'' (map listed_sandbox) (sv_list_pod_sandbox sv s)"

definition client_create_container ::
  "'s cri_server \<Rightarrow> faults \<Rightarrow> CreateContainerConfig \<Rightarrow> disk \<times> 's \<Rightarrow> ContainerID result \<times> disk \<times> 's" where
  "client_create_container sv io config ds =
     (let (mounts, d) = run_state (spec_to_cri_mounts io (cc_container config)) (fst ds);
          (r, s) = called ''CreateContainer'' id (sv_create_container sv (create_container_request config mounts) (snd ds))
      in (r, d, s))"

definition client_start_container :: "'s cri_server \<Rightarrow> ContainerID \<Rightarrow> 's \<Rightarrow> unit result \<times> 's" where
  "client_start_container sv cid s = called ''StartContainer'' id (sv_start_container sv cid s)"

definition client_stop_container :: "'s cri_server \<Rightarrow> ContainerID \<Rightarrow> nat \<Rightarrow> 's \<Rightarrow> unit result \<times> 's" where
  "client_stop_container sv cid timeout s = called ''StopContainer'' id (sv_stop_container sv cid (wrap_i64 (int timeout)) s)"

definition client_remove_container :: "'s cri_server \<Rightarrow> ContainerID \<Rightarrow> 's \<Rightarrow> unit result \<times> 's" where
  "client_remove_container sv cid s = called ''RemoveContainer'' id (sv_remove_container sv cid s)"

definition client_list_containers :: "'s cri_server \<Rightarrow> 's \<Rightarrow> RuntimeContainer list result \<times> 's" where
  "client_list_containers sv s = called ''ListContainers'' (map listed_container) (sv_list_containers sv s)"

definition client_container_status :: "'s cri_server \<Rightarrow> ContainerID \<Rightarrow> 's \<Rightarrow> RuntimeContainer option result \<times> 's" where
  "client_container_status sv cid s = called ''ContainerStatus'' (map_option status_of_container) (sv_container_status sv cid s)"

definition client_container_stats :: "'s cri_server \<Rightarrow> ContainerID \<Rightarrow> 's \<Rightarrow> ContainerStats option result \<times> 's" where
  "client_container_stats sv cid s = called ''ContainerStats'' (map_option container_stats_of) (sv_container_stats sv cid s)"

text \<open>No answer within the deadline is \<open>None\<close>.\<close>

definition client_exec_sync :: "'s cri_server \<Rightarrow> ContainerID \<Rightarrow> string list \<Rightarrow> nat \<Rightarrow> 's \<Rightarrow> ExecResult result \<times> 's" where
  "client_exec_sync sv cid command timeout s =
     (case sv_exec_sync sv \<lparr>esr_container_id = cid, esr_cmd = command, esr_timeout = wrap_i64 (int timeout)\<rparr> s of
        (None, s') \<Rightarrow> (Inl (ERuntime (''ExecSync timed out after '' @ show_nat (timeout + 35) @ ''s'')), s')
      | (Some r, s') \<Rightarrow> called ''ExecSync'' id (r, s'))"

definition client_attach_sync :: "'s cri_server \<Rightarrow> ContainerID \<Rightarrow> nat \<Rightarrow> 's \<Rightarrow> ExecResult result \<times> 's" where
  "client_attach_sync sv cid timeout s =
     called ''Attach'' (\<lambda>url. \<lparr>er_stdout = ''attach_url='' @ url, er_stderr = [], er_exit_code = 0\<rparr>)
       (sv_attach sv \<lparr>atr_container_id = cid, atr_stdin = True, atr_tty = False, atr_stdout = True, atr_stderr = True\<rparr> s)"

text \<open>The client keeps the default of the port for the size of a terminal, which does nothing.\<close>

definition client_update_container_tty_size :: "'s cri_server \<Rightarrow> ContainerID \<Rightarrow> nat \<Rightarrow> nat \<Rightarrow> 's \<Rightarrow> unit result \<times> 's" where
  "client_update_container_tty_size sv cid width height s = (Inr (), s)"

definition client_update_container_resources ::
  "'s cri_server \<Rightarrow> ContainerID \<Rightarrow> int \<Rightarrow> int \<Rightarrow> int \<Rightarrow> int \<Rightarrow> 's \<Rightarrow> unit result \<times> 's" where
  "client_update_container_resources sv cid cpu_shares cpu_quota cpu_period memory_limit_bytes s =
     called ''UpdateContainerResources (resize)'' id (sv_update_container_resources sv cid
       \<lparr>lcr_cpu_period = cpu_period, lcr_cpu_quota = cpu_quota, lcr_cpu_shares = cpu_shares, lcr_memory_limit_bytes = memory_limit_bytes,
        lcr_oom_score_adj = 0, lcr_cpuset_cpus = [], lcr_cpuset_mems = [], lcr_memory_swap_limit_bytes = 0, lcr_hugepage_limits = []\<rparr> s)"

record ContainerResourceUpdate =
  cru_cpuset_cpus :: string
  cru_cpuset_mems :: string
  cru_cpu_quota :: int
  cru_cpu_period :: int
  cru_memory_limit :: int

definition client_update_cpuset :: "'s cri_server \<Rightarrow> string \<Rightarrow> ContainerResourceUpdate \<Rightarrow> 's \<Rightarrow> unit result \<times> 's" where
  "client_update_cpuset sv cid u s =
     called ''UpdateContainerResources'' id (sv_update_container_resources sv cid
       \<lparr>lcr_cpu_period = cru_cpu_period u, lcr_cpu_quota = cru_cpu_quota u, lcr_cpu_shares = 1024,
        lcr_memory_limit_bytes = cru_memory_limit u, lcr_oom_score_adj = 0, lcr_cpuset_cpus = cru_cpuset_cpus u,
        lcr_cpuset_mems = cru_cpuset_mems u, lcr_memory_swap_limit_bytes = 0, lcr_hugepage_limits = []\<rparr> s)"

definition client_runtime_version :: "'s cri_server \<Rightarrow> 's \<Rightarrow> string result \<times> 's" where
  "client_runtime_version sv s = called ''CRI Version RPC failed'' (\<lambda>(name, version). name @ ''://'' @ version) (sv_version sv s)"

definition client_health_check :: "'s cri_server \<Rightarrow> 's \<Rightarrow> string result \<times> 's" where
  "client_health_check sv s = called ''CRI Version RPC failed'' (\<lambda>(name, version). name @ '' '' @ version) (sv_version sv s)"

subsection \<open>Images\<close>

text \<open>Base 64 is third-party code, an argument. Only the first secret is used.\<close>

definition auth_config :: "(string \<Rightarrow> string) \<Rightarrow> ImagePullSecret \<Rightarrow> AuthConfig" where
  "auth_config encode s =
     \<lparr>ac_username = ips_username s, ac_password = ips_password s, ac_auth = encode (ips_username s @ '':'' @ ips_password s),
      ac_server_address = [], ac_identity_token = [], ac_registry_token = []\<rparr>"

definition client_pull_image :: "'s cri_server \<Rightarrow> (string \<Rightarrow> string) \<Rightarrow> string \<Rightarrow> ImagePullSecret list \<Rightarrow> 's \<Rightarrow> string result \<times> 's" where
  "client_pull_image sv encode img pull_secrets s =
     called ''PullImage'' normalize_image_id (sv_pull_image sv
       \<lparr>pir_image = Some (image_spec img img),
        pir_auth = (case pull_secrets of [] \<Rightarrow> None | x # _ \<Rightarrow> Some (auth_config encode x)), pir_sandbox_config = None\<rparr> s)"

definition client_list_images :: "'s cri_server \<Rightarrow> 's \<Rightarrow> ImageInfo list result \<times> 's" where
  "client_list_images sv s = called ''ListImages'' (map image_info) (sv_list_images sv s)"

definition client_remove_image :: "'s cri_server \<Rightarrow> string \<Rightarrow> 's \<Rightarrow> unit result \<times> 's" where
  "client_remove_image sv image_id s = called ''RemoveImage'' id (sv_remove_image sv (image_spec image_id image_id) s)"

definition client_image_status :: "'s cri_server \<Rightarrow> string \<Rightarrow> 's \<Rightarrow> ImageInfo option result \<times> 's" where
  "client_image_status sv img s = called ''ImageStatus'' (map_option image_info) (sv_image_status sv (image_spec img img) s)"

end
