(* ===== verification/Cri_Requests.thy ===== *)
theory Cri_Requests
  imports Cri_Client "HOL-Library.Multiset"
begin

section \<open>What the runtime is asked for\<close>

text \<open>
  The requests of \<open>Cri_Client\<close> against what a pod declares: security, resources, mounts and the labels by which the kubelet
  finds a container again.
\<close>

subsection \<open>Mounts\<close>

lemma depth_slash: "filter (\<lambda>s. s \<noteq> []) (split_on CHR ''/'' (a @ CHR ''/'' # b)) =
    filter (\<lambda>s. s \<noteq> []) (split_on CHR ''/'' a) @ filter (\<lambda>s. s \<noteq> []) (split_on CHR ''/'' b)"
  by (simp add: split_on_both)

definition parts :: "string \<Rightarrow> nat" where
  "parts s = length (filter (\<lambda>c. c \<noteq> []) (split_on CHR ''/'' s))"

lemma parts_simps: "parts [] = 0" "parts (a @ CHR ''/'' # b) = parts a + parts b" "parts (CHR ''/'' # b) = parts b"
  using depth_slash [of "[]" b] by (simp_all add: parts_def depth_slash)

lemma parts_trim: "parts (trim_end_slashes s) = parts s"
proof (induction s rule: rev_induct)
  case (snoc c s)
  then show ?case using parts_simps(2) [of s "[]"] by (cases "c = CHR ''/''") (simp_all add: trim_end_slashes_def parts_simps)
qed (simp add: trim_end_slashes_def)

lemma trim_end_last: "trim_end_slashes s = x @ y \<Longrightarrow> y \<noteq> [] \<Longrightarrow> List.last y \<noteq> CHR ''/''"
proof -
  assume e: "trim_end_slashes s = x @ y" and n: "y \<noteq> []"
  have "dropWhile (\<lambda>c. c = CHR ''/'') (rev s) = rev y @ rev x" using e by (metis rev_append rev_rev_ident trim_end_slashes_def)
  then show ?thesis using n hd_dropWhile [of "\<lambda>c. c = CHR ''/''" "rev s"] by (simp add: hd_append hd_rev)
qed

lemma parts_pos: "s \<noteq> [] \<Longrightarrow> List.last s \<noteq> CHR ''/'' \<Longrightarrow> 0 < parts s"
proof (induction s)
  case (Cons c s)
  show ?case
  proof (cases "c = CHR ''/''")
    case True
    then have "s \<noteq> []" using Cons.prems(2) by auto
    then show ?thesis using Cons True by (simp add: parts_simps)
  next
    case False
    then show ?thesis by (auto simp: parts_def split: list.split)
  qed
qed simp

text \<open>A mount in another one is deeper.\<close>

lemma nested_deeper:
  assumes "mountpoint_in p c = Some d"
  shows "mount_depth p < mount_depth c"
proof -
  let ?p = "trim_end_slashes (cmt_container_path p)" and ?c = "trim_end_slashes (cmt_container_path c)"
  obtain r where r: "?c = ?p @ CHR ''/'' # r"
    using assms by (auto simp: mountpoint_in_def Let_def starts_with_def strip_prefix_Some_iff split: if_splits)
  have "r \<noteq> []" using trim_end_last [of "cmt_container_path c" ?p "CHR ''/'' # r"] r by auto
  moreover from this have "List.last r \<noteq> CHR ''/''" using trim_end_last [of "cmt_container_path c" "?p @ ''/''" r] r by simp
  ultimately have "parts ?p < parts ?c" using parts_pos [of r] by (simp add: r parts_simps)
  then show ?thesis by (simp add: parts_trim) (simp add: parts_def mount_depth_def)
qed

lemma deepest_first_props:
  "mset (deepest_first ms) = mset ms"
  "i < j \<Longrightarrow> j < length ms \<Longrightarrow> mount_depth (deepest_first ms ! j) \<le> mount_depth (deepest_first ms ! i)"
  "filter (\<lambda>m. mount_depth m = n) (deepest_first ms) = filter (\<lambda>m. mount_depth m = n) ms"
proof -
  let ?f = "\<lambda>m. - int (mount_depth m)"
  show "mset (deepest_first ms) = mset ms" by (simp add: deepest_first_def)
  have "sorted (map ?f (deepest_first ms))" "length (deepest_first ms) = length ms" by (simp_all add: deepest_first_def)
  then show "mount_depth (deepest_first ms ! j) \<le> mount_depth (deepest_first ms ! i)" if "i < j" "j < length ms"
    using that by (auto simp: sorted_iff_nth_mono dest: spec [of _ i])
  show "filter (\<lambda>m. mount_depth m = n) (deepest_first ms) = filter (\<lambda>m. mount_depth m = n) ms"
    using sort_key_stable [of ?f "- int n" ms] by (simp add: deepest_first_def)
qed

lemma make_mountpoints_yields:
  assumes "quiet io" "tree_ok t" "\<forall>p \<in> set ps. free_path t (comps p) \<and> file_at t (comps p) = None"
  shows "\<exists>t'. yields (make_mountpoints io ps) t () t' \<and> tree_ok t' \<and> file_at t' = file_at t \<and> is_link t' = is_link t \<and>
           (\<forall>k. dir_at t' k \<longleftrightarrow> dir_at t k \<or> (\<exists>p \<in> set ps. prefix k (comps p)))"
  using assms
proof (induction ps arbitrary: t)
  case Nil
  then show ?case using yields_return [of "()" t] by (intro exI [of _ t]) simp
next
  case (Cons p ps)
  have p: "free_path t (comps p)" "file_at t (comps p) = None" using Cons.prems(3) by simp_all
  obtain t1 where t1: "yields (if \<not> isl (t_stat True (comps p) t) then State_Monad.return (Inr ()) else fs_create_dir_all io (comps p)) t (Inr ()) t1"
      "tree_ok t1" "file_at t1 = file_at t" "is_link t1 = is_link t" "\<forall>k. dir_at t1 k \<longleftrightarrow> dir_at t k \<or> prefix k (comps p)"
  proof (cases "isl (t_stat True (comps p) t)")
    case True
    obtain t1 where "yields (fs_create_dir_all io (comps p)) t (Inr ()) t1" "adds_dirs (comps p) t t1"
      using create_dir_all_creates [OF Cons.prems(1,2) p] by blast
    then show ?thesis using that [of t1] True adds_dirsD(1) adds_dirs_files adds_dirs_dir [OF _ p] by (auto simp: fun_eq_iff)
  next
    case False
    then obtain i where "t_stat True (comps p) t = Inr i" by (cases "t_stat True (comps p) t") auto
    then have "hm_get t (comps p) = Some i" using locate_free [OF Cons.prems(2) p(1)] by (auto simp: t_stat_def split: if_splits option.splits)
    then have d: "dir_at t (comps p)" using p free_pathD(1) [OF p(1), of "comps p"]
      by (cases "in_node i") (auto simp: file_at_def is_link_def dir_at_def)
    have "dir_at t k" if "prefix k (comps p)" for k
      using dir_at_prefix [OF Cons.prems(2) that] d by (cases "k = comps p") (auto simp: dir_at_def)
    then show ?thesis using that [of t] False yields_return [of "Inr () :: unit io" t] Cons.prems(2) by auto
  qed
  have "\<forall>q \<in> set ps. free_path t1 (comps q) \<and> file_at t1 (comps q) = None"
    using Cons.prems(3) by (simp add: free_path_def t1(3,4))
  from Cons.IH [OF Cons.prems(1) t1(2) this] obtain t' where t': "yields (make_mountpoints io ps) t1 () t'" "tree_ok t'"
      "file_at t' = file_at t1" "is_link t' = is_link t1" "\<forall>k. dir_at t' k \<longleftrightarrow> dir_at t1 k \<or> (\<exists>p \<in> set ps. prefix k (comps p))"
    by blast
  have "yields (make_mountpoints io (p # ps)) t () t'"
    unfolding make_mountpoints.simps
    by (rule yields_bind [OF yields_tests(1) [OF Cons.prems(1)]], rule yields_bind [OF t1(1)], rule t'(1))
  then show ?case using t' t1 by auto
qed


lemma set_mountpoints:
  "set (mountpoints ms) = {p. \<exists>i < length ms. \<exists>j < length ms. i \<noteq> j \<and> mountpoint_in (ms ! i) (ms ! j) = Some p}"
  unfolding mountpoints_def List.map_filter_def by (force split: if_splits)



text \<open>A read-only volume with a volume below it, and a place that is made.\<close>

definition mount_at :: "string \<Rightarrow> string \<Rightarrow> VolumeMount" where
  "mount_at path src = \<lparr>vm_name = ''v'', vm_mount_path = path, vm_sub_path = Some src, vm_sub_path_expr = None, vm_read_only = True\<rparr>"

definition host_tree :: tree where
  "host_tree = [([], \<lparr>in_node = Directory, in_mode = 0x1ED, in_gid = 0\<rparr>), ([''a''], \<lparr>in_node = Directory, in_mode = 0x1ED, in_gid = 0\<rparr>),
                ([''b''], \<lparr>in_node = Directory, in_mode = 0x1ED, in_gid = 0\<rparr>)]"

lemma host_tree_get: "hm_get host_tree k =
    (if k = [] \<or> k = [''a''] \<or> k = [''b''] then Some \<lparr>in_node = Directory, in_mode = 0x1ED, in_gid = 0\<rparr> else None)"
  by (simp add: host_tree_def)

lemma host_tree_ok: "tree_ok host_tree"
  unfolding tree_ok_def
  by (auto simp: host_tree_get hm_ok_def dir_at_def plain_name_def split: if_splits) (simp add: host_tree_def)

lemma nested_mountpoints:
  "mountpoints (map cri_mount [mount_at ''/etc'' ''/a'', mount_at ''/etc/sub/'' ''/b'']) = [''/a/sub'']"
  by (simp add: mountpoints_def mountpoint_in_def cri_mount_def mount_at_def trim_end_slashes_def path_join_def starts_with_def
      ends_with_def strip_suffix_def upt_rec List.map_filter_def Let_def)


text \<open>The places are joined to the host directory as they are: with \<open>..\<close> in its mount path a container has directories made
  anywhere on the node, and two slashes make the rest of the path absolute.\<close>

lemma mount_path_escapes:
  "let c = ContainerSpec_default\<lparr>ctr_volume_mounts := [mount_at ''/etc'' ''/a'', mount_at ''/etc/../x'' ''/b'', mount_at ''/etc//y'' ''/b'']\<rparr>;
       t' = dk_tree (snd (run_state (spec_to_cri_mounts (\<lambda>_. None) c) \<lparr>dk_tree = host_tree, dk_calls = 0\<rparr>))
   in \<not> dir_at host_tree [''x''] \<and> dir_at t' [''x''] \<and> \<not> dir_at host_tree [''y''] \<and> dir_at t' [''y'']"
  by code_simp

subsection \<open>Security\<close>

text \<open>The shortcut for containers without settings builds what the general case would.\<close>

lemma build_optional_security_context_eq:
  "build_optional_security_context security share = Some (build_security_context security share)"
  by (auto simp: build_optional_security_context_def has_security_settings_def build_security_context_def
      LinuxContainerSecurityContext_default_def or_value_def)

definition context_of_request :: "CreateContainerRequest \<Rightarrow> LinuxContainerSecurityContext option" where
  "context_of_request req = Option.bind (Option.bind (ccr_config req) cfg_linux) lcc_security_context"

definition sandbox_context_of :: "PodSandboxConfig \<Rightarrow> LinuxSandboxSecurityContext option" where
  "sandbox_context_of config = Option.bind (pcf_linux config) lps_security_context"

definition may_be_privileged :: "PodSandboxConfig \<Rightarrow> bool" where
  "may_be_privileged config \<longleftrightarrow> (case sandbox_context_of config of Some sc \<Rightarrow> lss_privileged sc | None \<Rightarrow> False)"


definition privileged_context :: SecurityContext where
  "privileged_context =
     \<lparr>sc_run_as_user = None, sc_run_as_group = None, sc_run_as_non_root = None, sc_privileged = Some True, sc_read_only_root_filesystem = None,
      sc_allow_privilege_escalation = None, sc_capabilities = None, sc_seccomp_profile = None, sc_apparmor_profile = None, sc_proc_mount = None\<rparr>"


text \<open>The profile of AppArmor is built and then not sent, so a confined container runs unconfined.\<close>

lemma apparmor_never_sent:
  "map_option lsc_apparmor (context_of_request (create_container_request config mounts)) = Some None \<and>
   map_option lsc_apparmor_profile (context_of_request (create_container_request config mounts)) = Some []"
  by (simp add: context_of_request_def create_container_request_def Let_def build_optional_security_context_eq build_security_context_def)

text \<open>A container of a pod with the process namespace of the host gets one of its own: only the sandbox is asked to share it.\<close>

lemma host_pid_only_for_sandbox:
  "map_option nso_pid (lsc_namespace_options (build_security_context security False)) = Some (namespace_mode ModeContainer) \<and>
   nso_pid (build_namespace_options hn True hi False) = namespace_mode ModeNode"
  by (simp add: build_security_context_def pid_mode_def build_namespace_options_def)

text \<open>No path is masked or read-only, so all of \<^verbatim>\<open>/proc\<close> is open to every container.\<close>

lemma no_masked_paths: "lsc_masked_paths (build_security_context security share) = [] \<and> lsc_readonly_paths (build_security_context security share) = []"
  by (simp add: build_security_context_def)


subsection \<open>Resources\<close>

lemma trunc_div_nonneg: "0 \<le> a \<Longrightarrow> 0 < b \<Longrightarrow> trunc_div a b = a div b"
  by (cases "a = 0") (simp_all add: trunc_div_def)

text \<open>For CPU amounts below \<open>9 * 10 ^ 15\<close> thousandths the shares are those of the request, between 2 and 262144; the quota is to its
  period as the limit to one CPU; the memory limit is the declared one. Without a request the shares are 2, without
  a limit there is neither quota nor period.\<close>

theorem requested_resources_are_declared:
  assumes "req = quantity_value (rr_requests (ctr_resources c)) ''cpu''" "limit = quantity_value (rr_limits (ctr_resources c)) ''cpu''"
    "0 \<le> req" "req \<le> 9 * 10 ^ 15" "0 \<le> limit" "limit \<le> 9 * 10 ^ 15"
  shows "lcr_cpu_shares (spec_to_linux_resources c) = max 2 (min 262144 (req * 1024 div 1000)) \<and>
     lcr_cpu_quota (spec_to_linux_resources c) * 1000 = limit * lcr_cpu_period (spec_to_linux_resources c) \<and>
     (lcr_cpu_period (spec_to_linux_resources c) = 0 \<longleftrightarrow> limit = 0) \<and>
     lcr_memory_limit_bytes (spec_to_linux_resources c) = quantity_value (rr_limits (ctr_resources c)) ''memory''"
proof -
  have r: "wrap_i64 (req * 1024) = req * 1024" and l: "wrap_i64 (limit * 100) = limit * 100"
    using assms(3-6) by (simp_all add: wrap_i64_id)
  show ?thesis
    using assms(3,5) by (auto simp: spec_to_linux_resources_def Let_def assms(1,2) [symmetric] r l clamp_def trunc_div_nonneg)
qed

definition with_cpu :: "int \<Rightarrow> int \<Rightarrow> ContainerSpec" where
  "with_cpu req limit = ContainerSpec_default\<lparr>ctr_resources :=
     \<lparr>rr_requests = [(''cpu'', cpu_millicores req)], rr_limits = [(''cpu'', cpu_millicores limit)]\<rparr>\<rparr>"

lemma with_cpu_values:
  "quantity_value (rr_requests (ctr_resources (with_cpu req limit))) ''cpu'' = req"
  "quantity_value (rr_limits (ctr_resources (with_cpu req limit))) ''cpu'' = limit"
  by (simp_all add: with_cpu_def quantity_value_def cpu_millicores_def)

theorem requested_resources_are_declared_witness:
  "lcr_cpu_shares (spec_to_linux_resources (with_cpu 500 1500)) = 512 \<and>
   lcr_cpu_quota (spec_to_linux_resources (with_cpu 500 1500)) * 1000 = 1500 * lcr_cpu_period (spec_to_linux_resources (with_cpu 500 1500))"
  using requested_resources_are_declared [OF with_cpu_values(1) [symmetric] with_cpu_values(2) [symmetric], of 500 1500] by simp

text \<open>A limit below a hundredth of a CPU becomes a quota below a millisecond, which the kernel refuses.\<close>

lemma small_quota: "lcr_cpu_quota (spec_to_linux_resources (with_cpu 5 5)) = 500"
  by (simp add: spec_to_linux_resources_def Let_def with_cpu_values wrap_i64_def)

subsection \<open>Finding a container again\<close>

lemma request_labels:
  assumes "crc_labels e = container_labels config"
  shows "is_target ns pod name (listed_container e) \<longleftrightarrow>
      cc_pod_name config = pod \<and> cc_pod_namespace config = ns \<and> (name = [] \<or> ctr_name (cc_container config) = name) \<and> crc_state e = 1"
    "rtc_pod_uid (listed_container e) = cc_pod_uid config"
    "rtc_id (listed_container e) = crc_id e" "rtc_created_at (listed_container e) = whole_seconds (crc_created_at e)"
  using assms by (auto simp: is_target_def first_label_def listed_container_def container_labels_def cri_container_state_def)

text \<open>C11: When the runtime lists containers with the labels of the requests they were created by, as it must, the
  kubelet knows the pod of every one of them, and a command for a container of a pod goes to the latest running container that was
  created for it, in whole seconds, and nowhere exactly when there is none.\<close>

theorem created_container_is_found:
  assumes "sv_list_containers sv s = (Inr es, s')" "\<forall>e \<in> set es. crc_labels e = container_labels (conf e)"
    "created_for = (\<lambda>e. e \<in> set es \<and> cc_pod_name (conf e) = pod \<and> cc_pod_namespace (conf e) = ns \<and>
                       (name = [] \<or> ctr_name (cc_container (conf e)) = name) \<and> crc_state e = 1)"
  shows "\<exists>cs. client_list_containers sv s = (Inr cs, s') \<and> map rtc_pod_uid cs = map (\<lambda>e. cc_pod_uid (conf e)) es \<and>
     (case find_container_id (Some cs) ns pod name of
        None \<Rightarrow> \<not> (\<exists>e. created_for e)
      | Some cid \<Rightarrow> \<exists>e. created_for e \<and> crc_id e = cid \<and>
          (\<forall>e'. created_for e' \<longrightarrow> whole_seconds (crc_created_at e') \<le> whole_seconds (crc_created_at e)))"
proof -
  let ?cs = "map listed_container es" and ?P = "is_target ns pod name"
  let ?best = "fold (\<lambda>c best. if ?P c then newer_target c best else best) ?cs None"
  have P: "created_for e \<longleftrightarrow> e \<in> set es \<and> ?P (listed_container e)" for e
    using assms(2) by (auto simp: assms(3) request_labels(1))
  have uids: "map rtc_pod_uid ?cs = map (\<lambda>e. cc_pod_uid (conf e)) es"
    using assms(2) by (simp add: listed_container_def container_labels_def)
  have "case find_container_id (Some ?cs) ns pod name of
        None \<Rightarrow> \<not> (\<exists>e. created_for e)
      | Some cid \<Rightarrow> \<exists>e. created_for e \<and> crc_id e = cid \<and>
          (\<forall>e'. created_for e' \<longrightarrow> whole_seconds (crc_created_at e') \<le> whole_seconds (crc_created_at e))"
  proof (cases ?best)
    case None
    then show ?thesis using fold_newer_None [of ?P ?cs None] by (auto simp: find_container_id_def P)
  next
    case (Some c)
    note f = fold_newer [OF Some]
    then obtain e where e: "e \<in> set es" "?P (listed_container e)" "c = listed_container e" by auto
    have le: "whole_seconds (crc_created_at e') \<le> whole_seconds (crc_created_at e)" if "created_for e'" for e'
      using f that e(3) by (auto simp: P listed_container_def)
    show ?thesis using e le by (auto simp: find_container_id_def Some P listed_container_def)
  qed
  then show ?thesis using uids assms(1) by (intro exI [of _ ?cs]) (simp add: client_list_containers_def called_def)
qed


text \<open>A runtime that lists two attempts of one container and refuses everything else.\<close>

definition demo_cri_config :: "u32 \<Rightarrow> CreateContainerConfig" where
  "demo_cri_config n =
     container_config demo_config (PodSpec_default\<lparr>ps_uid := ''u'', ps_pod_ref := \<lparr>pr_namespace = ''n'', pr_name = ''p''\<rparr>\<rparr>)
       (ContainerSpec_default\<lparr>ctr_name := ''a''\<rparr>) (ContainerSpec_default\<lparr>ctr_name := ''a''\<rparr>) ''s'' ''i'' n [] ([], [], [])"

definition demo_listing :: "PbContainer list" where
  "demo_listing = map (\<lambda>(i, st, t). \<lparr>crc_id = i, crc_pod_sandbox_id = ''s'', crc_metadata = None, crc_image = None, crc_image_ref = [], crc_state = st,
       crc_created_at = t, crc_labels = container_labels (demo_cri_config 0), crc_annotations = []\<rparr>) [(''old'', 2, 5000000000), (''new'', 1, 7000000000)]"

definition demo_server :: "unit cri_server" where
  "demo_server =
     \<lparr>sv_version = (\<lambda>s. (Inl ''unavailable'', s)), sv_run_pod_sandbox = (\<lambda>_ s. (Inl ''unavailable'', s)), sv_stop_pod_sandbox = (\<lambda>_ s. (Inl ''unavailable'', s)),
       sv_remove_pod_sandbox = (\<lambda>_ s. (Inl ''unavailable'', s)), sv_pod_sandbox_status = (\<lambda>_ s. (Inl ''unavailable'', s)),
       sv_list_pod_sandbox = (\<lambda>s. (Inl ''unavailable'', s)), sv_create_container = (\<lambda>_ s. (Inl ''unavailable'', s)),
       sv_start_container = (\<lambda>_ s. (Inl ''unavailable'', s)), sv_stop_container = (\<lambda>_ _ s. (Inl ''unavailable'', s)),
       sv_remove_container = (\<lambda>_ s. (Inl ''unavailable'', s)), sv_list_containers = (\<lambda>s. (Inr demo_listing, s)),
       sv_container_status = (\<lambda>_ s. (Inl ''unavailable'', s)), sv_container_stats = (\<lambda>_ s. (Inl ''unavailable'', s)),
       sv_exec_sync = (\<lambda>_ s. (None, s)), sv_attach = (\<lambda>_ s. (Inl ''unavailable'', s)),
       sv_update_container_resources = (\<lambda>_ _ s. (Inl ''unavailable'', s)), sv_pull_image = (\<lambda>_ s. (Inl ''unavailable'', s)),
       sv_list_images = (\<lambda>s. (Inl ''unavailable'', s)), sv_remove_image = (\<lambda>_ s. (Inl ''unavailable'', s)),
       sv_image_status = (\<lambda>_ s. (Inl ''unavailable'', s))\<rparr>"

theorem created_container_is_found_witness:
  "\<exists>cs. client_list_containers demo_server () = (Inr cs, ()) \<and> find_container_id (Some cs) ''n'' ''p'' ''a'' = Some ''new''"
proof -
  let ?for = "\<lambda>e. e \<in> set demo_listing \<and> cc_pod_name (demo_cri_config 0) = ''p'' \<and> cc_pod_namespace (demo_cri_config 0) = ''n'' \<and>
       (''a'' = [] \<or> ctr_name (cc_container (demo_cri_config 0)) = ''a'') \<and> crc_state e = 1"
  have l: "sv_list_containers demo_server () = (Inr demo_listing, ())" by (simp add: demo_server_def)
  have "\<forall>e \<in> set demo_listing. crc_labels e = container_labels (demo_cri_config 0)" by (auto simp: demo_listing_def)
  from created_container_is_found [OF l this refl, of "''p''" "''n''" "''a''"] obtain cs
    where cs: "client_list_containers demo_server () = (Inr cs, ())"
      and f: "case find_container_id (Some cs) ''n'' ''p'' ''a'' of None \<Rightarrow> \<not> (\<exists>e. ?for e)
        | Some cid \<Rightarrow> \<exists>e. ?for e \<and> crc_id e = cid \<and> (\<forall>e'. ?for e' \<longrightarrow> whole_seconds (crc_created_at e') \<le> whole_seconds (crc_created_at e))"
    by (elim exE conjE)
  have "?for e \<longleftrightarrow> e \<in> set demo_listing \<and> crc_id e = ''new''" for e
    by (auto simp: demo_listing_def demo_cri_config_def container_config_def)
  moreover have "\<exists>e \<in> set demo_listing. crc_id e = ''new''" by (simp add: demo_listing_def)
  ultimately have "find_container_id (Some cs) ''n'' ''p'' ''a'' = Some ''new''" using f by (auto split: option.splits)
  with cs show ?thesis by blast
qed

text \<open>The single status of a container has the name of the container where the pod should be, and attaching returns the address of
  a stream in place of what the container writes.\<close>

lemma status_pod_uid_is_name: "rtc_pod_uid (status_of_container s) = rtc_name (status_of_container s)"
  by (simp add: status_of_container_def)

lemma attach_returns_address:
  "sv_attach sv \<lparr>atr_container_id = cid, atr_stdin = True, atr_tty = False, atr_stdout = True, atr_stderr = True\<rparr> s = (Inr url, s') \<Longrightarrow>
     client_attach_sync sv cid timeout s = (Inr \<lparr>er_stdout = ''attach_url='' @ url, er_stderr = [], er_exit_code = 0\<rparr>, s')"
  by (simp add: client_attach_sync_def called_def)

end
