(* ===== verification/Cri_Types.thy ===== *)
theory Cri_Types
  imports Sandbox_Config Probes
begin

section \<open>The in-memory runtime service\<close>

text \<open>
  \<^verbatim>\<open>kubelet-cri/src/types/mod.rs\<close>, the messages and their conversions, and \<^verbatim>\<open>kubelet-cri/src/mock_server/mod.rs\<close>, a runtime
  service that keeps them in memory. Random identifiers and the clock are arguments; a hash map is an association list.
\<close>

subsection \<open>Messages\<close>

record CriPodSandboxMetadata =
  kpm_name :: string
  kpm_uid :: string
  kpm_namespace :: string
  kpm_attempt :: u32

record CriDnsConfig =
  kdc_servers :: "string list"
  kdc_searches :: "string list"
  kdc_options :: "string list"

datatype CriProtocol = Tcp | Udp | Sctp

record CriPortMapping =
  kpt_protocol :: CriProtocol
  kpt_container_port :: int
  kpt_host_port :: int
  kpt_host_ip :: string

record CriLinuxSandboxSecurityContext =
  kls_privileged :: bool
  kls_run_as_user :: "int option"
  kls_run_as_group :: "int option"
  kls_supplemental_groups :: "int list"

record CriLinuxPodSandboxConfig =
  klp_cgroup_parent :: string
  klp_security_context :: "CriLinuxSandboxSecurityContext option"
  klp_sysctls :: "(string, string) hmap"

record CriSandboxConfig =
  ksc_metadata :: CriPodSandboxMetadata
  ksc_hostname :: string
  ksc_log_directory :: string
  ksc_dns_config :: "CriDnsConfig option"
  ksc_port_mappings :: "CriPortMapping list"
  ksc_labels :: "(string, string) hmap"
  ksc_annotations :: "(string, string) hmap"
  ksc_linux :: "CriLinuxPodSandboxConfig option"

datatype CriSandboxState = SandboxReady | SandboxNotReady

record CriPodSandboxNetworkStatus =
  kns_ip :: string
  kns_additional_ips :: "string list"

record CriPodSandboxStatus =
  kps_id :: string
  kps_metadata :: CriPodSandboxMetadata
  kps_state :: CriSandboxState
  kps_created_at :: int
  kps_network :: "CriPodSandboxNetworkStatus option"
  kps_labels :: "(string, string) hmap"
  kps_annotations :: "(string, string) hmap"

record CriContainerMetadata =
  kcm_name :: string
  kcm_attempt :: u32

record CriImageSpec =
  kis_image :: string
  kis_annotations :: "(string, string) hmap"

record CriKeyValue =
  kkv_key :: string
  kkv_value :: string

record CriMount =
  kmt_host_path :: string
  kmt_container_path :: string
  kmt_readonly :: bool
  kmt_propagation :: int

record CriLinuxContainerResources =
  klr_cpu_period :: int
  klr_cpu_quota :: int
  klr_cpu_shares :: int
  klr_memory_limit_in_bytes :: int
  klr_oom_score_adj :: int
  klr_cpuset_cpus :: string
  klr_cpuset_mems :: string

record CriCapability =
  kca_add_capabilities :: "string list"
  kca_drop_capabilities :: "string list"

record CriLinuxContainerSecurityContext =
  kcs_privileged :: bool
  kcs_run_as_user :: "int option"
  kcs_run_as_group :: "int option"
  kcs_readonly_rootfs :: bool
  kcs_capabilities :: "CriCapability option"

record CriLinuxContainerConfig =
  klc_resources :: "CriLinuxContainerResources option"
  klc_security_context :: "CriLinuxContainerSecurityContext option"

record CriContainerConfig =
  kcc_metadata :: CriContainerMetadata
  kcc_image :: CriImageSpec
  kcc_command :: "string list"
  kcc_args :: "string list"
  kcc_working_dir :: string
  kcc_envs :: "CriKeyValue list"
  kcc_mounts :: "CriMount list"
  kcc_log_path :: string
  kcc_stdin :: bool
  kcc_stdin_once :: bool
  kcc_tty :: bool
  kcc_linux :: "CriLinuxContainerConfig option"
  kcc_labels :: "(string, string) hmap"
  kcc_annotations :: "(string, string) hmap"

datatype CriContainerState = ContainerCreated | ContainerRunning | ContainerExited | ContainerUnknown

record CriContainerStatus =
  kct_id :: string
  kct_metadata :: CriContainerMetadata
  kct_state :: CriContainerState
  kct_created_at :: int
  kct_started_at :: int
  kct_finished_at :: int
  kct_exit_code :: int
  kct_image :: CriImageSpec
  kct_image_ref :: string
  kct_reason :: string
  kct_message :: string
  kct_labels :: "(string, string) hmap"
  kct_annotations :: "(string, string) hmap"
  kct_mounts :: "CriMount list"
  kct_log_path :: string

record CriImage =
  kim_id :: string
  kim_repo_tags :: "string list"
  kim_repo_digests :: "string list"
  kim_size :: u64
  kim_uid :: "int option"
  kim_username :: string
  kim_spec :: "CriImageSpec option"
  kim_pinned :: bool

subsection \<open>Conversions\<close>

fun runtime_state :: "CriContainerState \<Rightarrow> RuntimeContainerState" where
  "runtime_state ContainerRunning = RRunning"
| "runtime_state ContainerExited = RExited"
| "runtime_state ContainerCreated = RCreated"
| "runtime_state ContainerUnknown = RUnknown"

definition positive_time :: "int \<Rightarrow> timestamp option" where
  "positive_time n = (if n > 0 then Some n else None)"

definition RuntimeContainer_from :: "CriContainerStatus \<Rightarrow> RuntimeContainer" where
  "RuntimeContainer_from s =
     \<lparr>rtc_id = kct_id s, rtc_pod_uid = [], rtc_name = kcm_name (kct_metadata s), rtc_pid = None, rtc_image = kis_image (kct_image s),
      rtc_image_ref = kct_image_ref s, rtc_state = runtime_state (kct_state s), rtc_created_at = kct_created_at s,
      rtc_started_at = positive_time (kct_started_at s), rtc_finished_at = positive_time (kct_finished_at s),
      rtc_exit_code = (if kct_exit_code s \<noteq> 0 then Some (kct_exit_code s) else None),
      rtc_exit_reason = (if kct_reason s = [] then None else Some (kct_reason s)), rtc_labels = kct_labels s,
      rtc_attempt = kcm_attempt (kct_metadata s)\<rparr>"

definition ImageInfo_from :: "CriImage \<Rightarrow> ImageInfo" where
  "ImageInfo_from i = \<lparr>ii_id = kim_id i, ii_repo_tags = kim_repo_tags i, ii_repo_digests = kim_repo_digests i, ii_size_bytes = kim_size i\<rparr>"

definition literal_env :: "EnvVar list \<Rightarrow> CriKeyValue list" where
  "literal_env = List.map_filter (\<lambda>e. map_option (\<lambda>v. \<lparr>kkv_key = ev_name e, kkv_value = v\<rparr>) (ev_value e))"

definition security_to_cri :: "SecurityContext \<Rightarrow> CriLinuxContainerSecurityContext" where
  "security_to_cri sc =
     \<lparr>kcs_privileged = (sc_privileged sc = Some True), kcs_run_as_user = map_option int (sc_run_as_user sc),
      kcs_run_as_group = map_option int (sc_run_as_group sc), kcs_readonly_rootfs = (sc_read_only_root_filesystem sc = Some True),
      kcs_capabilities = map_option (\<lambda>c. \<lparr>kca_add_capabilities = cap_add c, kca_drop_capabilities = cap_drop c\<rparr>) (sc_capabilities sc)\<rparr>"

definition container_spec_to_cri_config :: "ContainerSpec \<Rightarrow> string \<Rightarrow> string \<Rightarrow> u32 \<Rightarrow> string \<Rightarrow> CriContainerConfig" where
  "container_spec_to_cri_config spec pod_name pod_uid attempt log_path =
     \<lparr>kcc_metadata = \<lparr>kcm_name = ctr_name spec, kcm_attempt = attempt\<rparr>,
      kcc_image = \<lparr>kis_image = ctr_image spec, kis_annotations = []\<rparr>, kcc_command = ctr_command spec, kcc_args = ctr_args spec,
      kcc_working_dir = (case ctr_working_dir spec of Some d \<Rightarrow> d | None \<Rightarrow> []), kcc_envs = literal_env (ctr_env spec),
      kcc_mounts = map (\<lambda>m. \<lparr>kmt_host_path = [], kmt_container_path = vm_mount_path m, kmt_readonly = vm_read_only m, kmt_propagation = 0\<rparr>)
                     (ctr_volume_mounts spec),
      kcc_log_path = log_path, kcc_stdin = False, kcc_stdin_once = False, kcc_tty = False,
      kcc_linux = Some \<lparr>klc_resources = None, klc_security_context = map_option security_to_cri (ctr_security_context spec)\<rparr>,
      kcc_labels = [(''io.kubernetes.pod.name'', pod_name), (''io.kubernetes.pod.uid'', pod_uid), (''io.kubernetes.container.name'', ctr_name spec)],
      kcc_annotations = []\<rparr>"

subsection \<open>The service\<close>

record MockCriServer =
  mcs_sandboxes :: "(string, CriPodSandboxStatus) hmap"
  mcs_containers :: "(string, CriContainerStatus) hmap"
  mcs_images :: "(string, CriImage) hmap"
  mcs_fail_next_sandbox :: bool
  mcs_fail_next_container :: bool

definition MockCriServer_new :: MockCriServer where
  "MockCriServer_new =
     \<lparr>mcs_sandboxes = [], mcs_containers = [], mcs_images = [], mcs_fail_next_sandbox = False, mcs_fail_next_container = False\<rparr>"

definition set_fail_next_sandbox :: "bool \<Rightarrow> MockCriServer \<Rightarrow> MockCriServer" where
  "set_fail_next_sandbox fail m = m\<lparr>mcs_fail_next_sandbox := fail\<rparr>"

definition set_fail_next_container :: "bool \<Rightarrow> MockCriServer \<Rightarrow> MockCriServer" where
  "set_fail_next_container fail m = m\<lparr>mcs_fail_next_container := fail\<rparr>"

definition mcs_run_pod_sandbox :: "string \<Rightarrow> int \<Rightarrow> CriSandboxConfig \<Rightarrow> MockCriServer \<Rightarrow> (string + string) \<times> MockCriServer" where
  "mcs_run_pod_sandbox uuid now config m =
     (if mcs_fail_next_sandbox m then (Inl ''mock: run_pod_sandbox injected failure'', m\<lparr>mcs_fail_next_sandbox := False\<rparr>)
      else let i = ''sandbox-'' @ uuid in
        (Inr i, m\<lparr>mcs_sandboxes := hm_insert i
           \<lparr>kps_id = i, kps_metadata = ksc_metadata config, kps_state = SandboxReady, kps_created_at = now,
            kps_network = Some \<lparr>kns_ip = ''10.244.0.1'', kns_additional_ips = []\<rparr>, kps_labels = ksc_labels config,
            kps_annotations = ksc_annotations config\<rparr> (mcs_sandboxes m)\<rparr>))"

definition mcs_stop_pod_sandbox :: "string \<Rightarrow> MockCriServer \<Rightarrow> MockCriServer" where
  "mcs_stop_pod_sandbox i m = m\<lparr>mcs_sandboxes := hm_modify i (\<lambda>s. s\<lparr>kps_state := SandboxNotReady\<rparr>) (mcs_sandboxes m)\<rparr>"

definition mcs_remove_pod_sandbox :: "string \<Rightarrow> MockCriServer \<Rightarrow> MockCriServer" where
  "mcs_remove_pod_sandbox i m = m\<lparr>mcs_sandboxes := hm_remove i (mcs_sandboxes m)\<rparr>"

definition mcs_pod_sandbox_status :: "string \<Rightarrow> MockCriServer \<Rightarrow> CriPodSandboxStatus option" where
  "mcs_pod_sandbox_status i m = hm_get (mcs_sandboxes m) i"

definition mcs_list_pod_sandboxes :: "MockCriServer \<Rightarrow> CriPodSandboxStatus list" where
  "mcs_list_pod_sandboxes m = hm_values (mcs_sandboxes m)"

definition mcs_create_container :: "string \<Rightarrow> int \<Rightarrow> string \<Rightarrow> CriContainerConfig \<Rightarrow> MockCriServer \<Rightarrow> (string + string) \<times> MockCriServer" where
  "mcs_create_container uuid now sandbox_id config m =
     (if mcs_fail_next_container m then (Inl ''mock: create_container injected failure'', m\<lparr>mcs_fail_next_container := False\<rparr>)
      else let i = ''ctr-'' @ uuid in
        (Inr i, m\<lparr>mcs_containers := hm_insert i
           \<lparr>kct_id = i, kct_metadata = kcc_metadata config, kct_state = ContainerCreated, kct_created_at = now, kct_started_at = 0,
            kct_finished_at = 0, kct_exit_code = 0, kct_image = kcc_image config, kct_image_ref = ''sha256:mock'', kct_reason = [],
            kct_message = [], kct_labels = kcc_labels config, kct_annotations = kcc_annotations config, kct_mounts = kcc_mounts config,
            kct_log_path = kcc_log_path config\<rparr> (mcs_containers m)\<rparr>))"

definition mcs_start_container :: "int \<Rightarrow> string \<Rightarrow> MockCriServer \<Rightarrow> (string + unit) \<times> MockCriServer" where
  "mcs_start_container now i m =
     (if hm_contains_key i (mcs_containers m)
      then (Inr (), m\<lparr>mcs_containers := hm_modify i (\<lambda>c. c\<lparr>kct_state := ContainerRunning, kct_started_at := now\<rparr>) (mcs_containers m)\<rparr>)
      else (Inl (''container not found: '' @ i), m))"

definition mcs_stop_container :: "int \<Rightarrow> string \<Rightarrow> int \<Rightarrow> MockCriServer \<Rightarrow> MockCriServer" where
  "mcs_stop_container now i exit_code m =
     m\<lparr>mcs_containers := hm_modify i (\<lambda>c. c\<lparr>kct_state := ContainerExited, kct_finished_at := now, kct_exit_code := exit_code\<rparr>) (mcs_containers m)\<rparr>"

definition mcs_remove_container :: "string \<Rightarrow> MockCriServer \<Rightarrow> MockCriServer" where
  "mcs_remove_container i m = m\<lparr>mcs_containers := hm_remove i (mcs_containers m)\<rparr>"

definition mcs_list_containers :: "MockCriServer \<Rightarrow> CriContainerStatus list" where
  "mcs_list_containers m = hm_values (mcs_containers m)"

definition mcs_container_status :: "string \<Rightarrow> MockCriServer \<Rightarrow> CriContainerStatus option" where
  "mcs_container_status i m = hm_get (mcs_containers m) i"

text \<open>\<^verbatim>\<open>{:?}\<close> of a list of texts is an argument.\<close>

definition mcs_exec_sync :: "(string list \<Rightarrow> string) \<Rightarrow> string \<Rightarrow> string list \<Rightarrow> ExecResult" where
  "mcs_exec_sync debug i cmd = \<lparr>er_stdout = ''mock exec in '' @ i @ '': '' @ debug cmd, er_stderr = [], er_exit_code = 0\<rparr>"

definition mcs_pull_image :: "string \<Rightarrow> string \<Rightarrow> MockCriServer \<Rightarrow> string \<times> MockCriServer" where
  "mcs_pull_image uuid img m =
     (let i = ''sha256:'' @ uuid in
      (i, m\<lparr>mcs_images := hm_insert i
         \<lparr>kim_id = i, kim_repo_tags = [img], kim_repo_digests = [], kim_size = 50000000, kim_uid = None, kim_username = [],
          kim_spec = Some \<lparr>kis_image = img, kis_annotations = []\<rparr>, kim_pinned = False\<rparr> (mcs_images m)\<rparr>))"

definition mcs_list_images :: "MockCriServer \<Rightarrow> CriImage list" where
  "mcs_list_images m = hm_values (mcs_images m)"

definition mcs_remove_image :: "string \<Rightarrow> MockCriServer \<Rightarrow> MockCriServer" where
  "mcs_remove_image i m = m\<lparr>mcs_images := hm_remove i (mcs_images m)\<rparr>"

definition mcs_image_status :: "string \<Rightarrow> MockCriServer \<Rightarrow> CriImage option" where
  "mcs_image_status image_ref m = find (\<lambda>i. image_ref \<in> set (kim_repo_tags i)) (hm_values (mcs_images m))"

subsection \<open>What the service keeps\<close>

text \<open>A container that ended with code zero has no exit code after the conversion, like one that has not ended.\<close>

lemma success_has_no_exit_code: "kct_state s = ContainerExited \<Longrightarrow> kct_exit_code s = 0 \<Longrightarrow> rtc_exit_code (RuntimeContainer_from s) = None"
  by (simp add: RuntimeContainer_from_def)

text \<open>Times of the life of a container: created, started, stopped.\<close>

lemma container_life:
  assumes "mcs_create_container uuid t0 box config m = (Inr i, m1)" "mcs_start_container t1 i m1 = (r, m2)" "0 < t1" "0 < t2"
  shows "r = Inr () \<and>
     map_option (\<lambda>c. (rtc_state (RuntimeContainer_from c), rtc_started_at (RuntimeContainer_from c), rtc_finished_at (RuntimeContainer_from c)))
       (mcs_container_status i m1) = Some (RCreated, None, None) \<and>
     map_option (\<lambda>c. (rtc_state (RuntimeContainer_from c), rtc_started_at (RuntimeContainer_from c), rtc_finished_at (RuntimeContainer_from c)))
       (mcs_container_status i m2) = Some (RRunning, Some t1, None) \<and>
     map_option (\<lambda>c. (rtc_state (RuntimeContainer_from c), rtc_exit_code (RuntimeContainer_from c), rtc_finished_at (RuntimeContainer_from c)))
       (mcs_container_status i (mcs_stop_container t2 i code m2)) = Some (RExited, if code = 0 then None else Some code, Some t2)"
  using assms by (auto simp del: map_option_eq_Some simp: mcs_create_container_def mcs_start_container_def mcs_stop_container_def mcs_container_status_def hm_contains_key_def
      RuntimeContainer_from_def positive_time_def Let_def split: if_splits)

end
