(* ===== verification/Pod_Manager.thy ===== *)
theory Pod_Manager
  imports Pod_Lifecycle
begin

section \<open>The pod manager: the registry of desired pods\<close>

text \<open>
  \<^verbatim>\<open>kubelet-core/src/pod/manager.rs\<close>. The manager keeps the desired pods by UID, the pods
  removed in the last five minutes, the status store and the sending end of the update channel.
  The channel is the list of the updates sent so far and whether the receiver is still there:
  \<^verbatim>\<open>send\<close> on a channel whose receiver is gone is an error, and what the operation changed
  before it stays changed, so an operation returns its result and the new state. The bounded
  channel's back-pressure (\<^verbatim>\<open>send\<close> waits for room) is not modelled.
\<close>

subsection \<open>State\<close>

record PodManager =
  pm_desired :: "(PodUID, PodSpec) hmap"
  pm_recently_removed :: "(PodUID, PodSpec \<times> timestamp) hmap"
  pm_status :: PodStatusManager
  pm_sent :: "PodUpdate list"
  pm_open :: bool

definition PodManager_new :: PodManager where
  "PodManager_new =
     \<lparr>pm_desired = [], pm_recently_removed = [], pm_status = PodStatusManager_new, pm_sent = [], pm_open = True\<rparr>"

definition REMOVED_POD_TTL :: duration where
  "REMOVED_POD_TTL = secs 300"

definition send :: "PodUpdate \<Rightarrow> PodManager \<Rightarrow> unit result \<times> PodManager" where
  "send u m =
     (if pm_open m then (Inr (), m\<lparr>pm_sent := pm_sent m @ [u]\<rparr>)
      else (Inl (EInternal ''pod update channel closed: channel closed''), m))"

subsection \<open>Equivalent names of a static pod and its mirror\<close>

definition strip_node_suffix :: "string \<Rightarrow> string \<Rightarrow> string" where
  "strip_node_suffix name node_name =
     (if node_name = [] then name
      else case strip_suffix (CHR ''-'' # node_name) name of Some r \<Rightarrow> r | None \<Rightarrow> name)"

definition pod_names_equivalent :: "PodSpec \<Rightarrow> PodSpec \<Rightarrow> bool" where
  "pod_names_equivalent existing incoming \<longleftrightarrow>
     pr_name (ps_pod_ref existing) = pr_name (ps_pod_ref incoming) \<or>
     strip_node_suffix (pr_name (ps_pod_ref existing)) (ps_node_name existing) =
     strip_node_suffix (pr_name (ps_pod_ref incoming)) (ps_node_name incoming)"

subsection \<open>Operations\<close>

definition find_equivalent :: "PodManager \<Rightarrow> PodSpec \<Rightarrow> PodSpec option" where
  "find_equivalent m pod =
     find (\<lambda>r. pr_namespace (ps_pod_ref r) = pr_namespace (ps_pod_ref pod) \<and>
               pod_names_equivalent r pod \<and> ps_uid r \<noteq> ps_uid pod)
          (hm_values (pm_desired m))"

text \<open>The tail of \<^verbatim>\<open>upsert\<close>: store the pod, initialise its status when it is new, tell the subscriber.\<close>

definition upsert_store ::
  "timestamp \<Rightarrow> timestamp \<Rightarrow> timestamp \<Rightarrow> bool \<Rightarrow> PodSpec \<Rightarrow> PodManager \<Rightarrow> unit result \<times> PodManager" where
  "upsert_store now0 now1 now2 is_new pod m =
     (let m1 = m\<lparr>pm_desired := hm_insert (ps_uid pod) pod (pm_desired m)\<rparr>;
          m2 = (if is_new then m1\<lparr>pm_status := status_initialize now0 now1 now2 pod (pm_status m1)\<rparr> else m1)
      in send \<lparr>pu_pod = pod, pu_op = (if is_new then OpAdd else OpUpdate)\<rparr> m2)"

definition PodManager_upsert ::
  "timestamp \<Rightarrow> timestamp \<Rightarrow> timestamp \<Rightarrow> PodSpec \<Rightarrow> PodManager \<Rightarrow> unit result \<times> PodManager" where
  "PodManager_upsert now0 now1 now2 pod m =
     (let uid = ps_uid pod; is_new = (\<not> hm_contains_key uid (pm_desired m)) in
      if is_new then
        (case find_equivalent m pod of
           Some existing \<Rightarrow>
             if ps_host_aliases pod \<noteq> [] then
               (if ps_host_aliases existing \<noteq> ps_host_aliases pod then
                  (case hm_get (pm_desired m) (ps_uid existing) of
                     Some entry \<Rightarrow>
                       let updated_pod = entry\<lparr>ps_host_aliases := ps_host_aliases pod\<rparr>;
                           m1 = m\<lparr>pm_desired := hm_insert (ps_uid existing) updated_pod (pm_desired m)\<rparr>
                       in send \<lparr>pu_pod = updated_pod, pu_op = OpUpdate\<rparr> m1
                   | None \<Rightarrow> (Inr (), m))
                else (Inr (), m))
             else
               upsert_store now0 now1 now2 True
                 (if ps_host_aliases existing \<noteq> []
                  then pod\<lparr>ps_host_aliases := ps_host_aliases existing\<rparr> else pod) m
         | None \<Rightarrow> upsert_store now0 now1 now2 True pod m)
      else
        upsert_store now0 now1 now2 False
          (case hm_get (pm_desired m) uid of
             Some existing \<Rightarrow>
               if ps_host_aliases pod = [] \<and> ps_host_aliases existing \<noteq> []
               then pod\<lparr>ps_host_aliases := ps_host_aliases existing\<rparr> else pod
           | None \<Rightarrow> pod) m)"

definition elapsed :: "timestamp \<Rightarrow> timestamp \<Rightarrow> duration" where
  "elapsed now t = max 0 (now - t)"

definition evict_stale_removed :: "timestamp \<Rightarrow> PodManager \<Rightarrow> PodManager" where
  "evict_stale_removed now m =
     m\<lparr>pm_recently_removed :=
         hm_retain (\<lambda>_ (_, inserted). elapsed now inserted < REMOVED_POD_TTL) (pm_recently_removed m)\<rparr>"

definition PodManager_remove ::
  "timestamp \<Rightarrow> timestamp \<Rightarrow> PodUID \<Rightarrow> PodSpec option \<Rightarrow> PodManager \<Rightarrow> unit result \<times> PodManager" where
  "PodManager_remove now0 now1 uid fallback_spec m =
     (case hm_get (pm_desired m) uid of
        Some pod \<Rightarrow>
          let m1 = m\<lparr>pm_desired := hm_remove uid (pm_desired m),
                     pm_recently_removed := hm_insert uid (pod, now0) (pm_recently_removed m)\<rparr>
          in send \<lparr>pu_pod = pod, pu_op = OpRemove\<rparr> (evict_stale_removed now1 m1)
      | None \<Rightarrow>
          (case fallback_spec of
             Some spec \<Rightarrow> send \<lparr>pu_pod = spec, pu_op = OpRemove\<rparr> m
           | None \<Rightarrow> (Inr (), m)))"

definition PodManager_get :: "PodManager \<Rightarrow> PodUID \<Rightarrow> PodSpec option" where
  "PodManager_get m uid = hm_get (pm_desired m) uid"

definition PodManager_list :: "PodManager \<Rightarrow> PodSpec list" where
  "PodManager_list m = hm_values (pm_desired m)"

definition PodManager_count :: "PodManager \<Rightarrow> nat" where
  "PodManager_count m = length (pm_desired m)"

definition get_by_name :: "timestamp \<Rightarrow> string \<Rightarrow> string \<Rightarrow> PodManager \<Rightarrow> PodSpec option" where
  "get_by_name now namespace name m =
     (case find (\<lambda>r. pr_namespace (ps_pod_ref r) = namespace \<and> pr_name (ps_pod_ref r) = name)
                (hm_values (pm_desired m)) of
        Some pod \<Rightarrow> Some pod
      | None \<Rightarrow>
          map_option fst
            (find (\<lambda>(spec, inserted). elapsed now inserted < REMOVED_POD_TTL \<and>
                     pr_namespace (ps_pod_ref spec) = namespace \<and> pr_name (ps_pod_ref spec) = name)
                  (hm_values (pm_recently_removed m))))"

fun reconcile_entries :: "PodSpec list \<Rightarrow> PodManager \<Rightarrow> unit result \<times> PodManager" where
  "reconcile_entries [] m = (Inr (), m)"
| "reconcile_entries (p # ps) m =
     (case send \<lparr>pu_pod = p, pu_op = OpReconcile\<rparr> m of
        (Inl e, m') \<Rightarrow> (Inl e, m')
      | (Inr _, m') \<Rightarrow> reconcile_entries ps m')"

definition reconcile_all :: "PodManager \<Rightarrow> unit result \<times> PodManager" where
  "reconcile_all m = reconcile_entries (hm_values (pm_desired m)) m"

subsection \<open>Well-formedness\<close>

definition pm_inv :: "PodManager \<Rightarrow> bool" where
  "pm_inv m \<longleftrightarrow> hm_ok (pm_desired m) \<and> hm_ok (pm_recently_removed m) \<and>
     (\<forall>uid pod. hm_get (pm_desired m) uid = Some pod \<longrightarrow>
        ps_uid pod = uid \<and> status_get (pm_status m) uid \<noteq> None)"

lemma pm_invD:
  "pm_inv m \<Longrightarrow> hm_ok (pm_desired m)"
  "pm_inv m \<Longrightarrow> hm_ok (pm_recently_removed m)"
  "pm_inv m \<Longrightarrow> hm_get (pm_desired m) uid = Some pod \<Longrightarrow> ps_uid pod = uid"
  "pm_inv m \<Longrightarrow> hm_get (pm_desired m) uid = Some pod \<Longrightarrow> status_get (pm_status m) uid \<noteq> None"
  by (auto simp: pm_inv_def)

lemma send_frame [simp]:
  "pm_desired (snd (send u m)) = pm_desired m"
  "pm_recently_removed (snd (send u m)) = pm_recently_removed m"
  "pm_status (snd (send u m)) = pm_status m"
  "pm_open (snd (send u m)) = pm_open m"
  by (simp_all add: send_def)

lemma send_sent: "pm_sent (snd (send u m)) = (if pm_open m then pm_sent m @ [u] else pm_sent m)"
  by (simp add: send_def)

lemma send_ok_iff: "fst (send u m) = Inr () \<longleftrightarrow> pm_open m"
  by (simp add: send_def)

lemma pm_inv_send [simp]: "pm_inv (snd (send u m)) = pm_inv m"
  by (simp add: pm_inv_def)

lemma find_equivalent_SomeD:
  assumes "pm_inv m" and "find_equivalent m pod = Some existing"
  shows "hm_get (pm_desired m) (ps_uid existing) = Some existing"
    and "ps_uid existing \<noteq> ps_uid pod" and "pod_names_equivalent existing pod"
proof -
  from assms(2) have e: "existing \<in> set (hm_values (pm_desired m))"
    and p: "pod_names_equivalent existing pod" "ps_uid existing \<noteq> ps_uid pod"
    by (auto simp: find_equivalent_def find_Some_iff)
  from e obtain k where "(k, existing) \<in> set (pm_desired m)" by (auto simp: hm_values_def)
  with assms(1) have "hm_get (pm_desired m) k = Some existing"
    by (simp add: pm_inv_def hm_get_in_set)
  moreover from this assms(1) have "ps_uid existing = k" by (simp add: pm_invD)
  ultimately show "hm_get (pm_desired m) (ps_uid existing) = Some existing" by simp
  show "ps_uid existing \<noteq> ps_uid pod" "pod_names_equivalent existing pod" using p by auto
qed

lemma pm_inv_upsert_store:
  assumes "pm_inv m" and "is_new \<or> status_get (pm_status m) (ps_uid pod) \<noteq> None"
  shows "pm_inv (snd (upsert_store a b c is_new pod m))"
proof -
  have "status_get (status_initialize a b c pod (pm_status m)) u \<noteq> None"
    if "u = ps_uid pod \<or> status_get (pm_status m) u \<noteq> None" for u
    using that status_get_initialize_same [of a b c pod "pm_status m"]
    by (cases "u = ps_uid pod") auto
  with assms show ?thesis
    by (auto simp: upsert_store_def Let_def pm_inv_def split: if_splits)
qed

lemma pm_inv_set_aliases:
  assumes "pm_inv m" and "hm_get (pm_desired m) uid = Some entry"
  shows "pm_inv (m\<lparr>pm_desired := hm_insert uid (entry\<lparr>ps_host_aliases := al\<rparr>) (pm_desired m)\<rparr>)"
  using assms by (auto simp: pm_inv_def split: if_splits)

lemma pm_inv_upsert:
  assumes "pm_inv m"
  shows "pm_inv (snd (PodManager_upsert a b c pod m))"
proof -
  have old: "pm_inv (snd (upsert_store a b c False p m))"
    if "hm_get (pm_desired m) (ps_uid pod) = Some q" "ps_uid p = ps_uid pod" for p q
    using pm_inv_upsert_store [OF assms, of False p a b c] pm_invD(4) [OF assms that(1)] that(2) by simp
  have new: "pm_inv (snd (upsert_store a b c True p m))" for p
    using pm_inv_upsert_store [OF assms, of True p a b c] by simp
  show ?thesis
    using assms old new pm_inv_set_aliases [OF assms]
    by (simp add: PodManager_upsert_def Let_def hm_contains_key_def split: option.split)
qed

lemma pm_inv_drop:
  assumes "pm_inv m"
  shows "pm_inv (m\<lparr>pm_desired := hm_remove uid (pm_desired m),
                   pm_recently_removed := hm_insert uid (pod, t) (pm_recently_removed m)\<rparr>)"
  using assms by (simp add: pm_inv_def)

lemma pm_inv_evict_stale: "pm_inv m \<Longrightarrow> pm_inv (evict_stale_removed now m)"
  by (simp add: pm_inv_def evict_stale_removed_def)

lemma pm_inv_remove: "pm_inv m \<Longrightarrow> pm_inv (snd (PodManager_remove a b uid fb m))"
  by (simp add: PodManager_remove_def Let_def pm_inv_evict_stale pm_inv_drop split: option.split)

lemma reconcile_entries_spec:
  "pm_open m \<Longrightarrow> reconcile_entries ps m =
     (Inr (), m\<lparr>pm_sent := pm_sent m @ map (\<lambda>p. \<lparr>pu_pod = p, pu_op = OpReconcile\<rparr>) ps\<rparr>)"
  by (induction ps arbitrary: m) (simp_all add: send_def)

lemma reconcile_entries_closed: "\<not> pm_open m \<Longrightarrow> snd (reconcile_entries ps m) = m"
  by (induction ps arbitrary: m) (simp_all add: send_def)

lemma pm_inv_reconcile_all: "pm_inv m \<Longrightarrow> pm_inv (snd (reconcile_all m))"
  by (cases "pm_open m") (simp_all add: reconcile_all_def reconcile_entries_spec reconcile_entries_closed pm_inv_def)

subsection \<open>The subscriber's view: replaying the channel\<close>

text \<open>
  A subscriber that applies the updates it receives, in order, to an empty map: an Add or an
  Update stores the pod it carries, a Remove deletes it, a Reconcile changes nothing.
\<close>

definition apply_update :: "(PodUID \<rightharpoonup> PodSpec) \<Rightarrow> PodUpdate \<Rightarrow> (PodUID \<rightharpoonup> PodSpec)" where
  "apply_update d u =
     (case pu_op u of
        OpAdd \<Rightarrow> d(ps_uid (pu_pod u) \<mapsto> pu_pod u)
      | OpUpdate \<Rightarrow> d(ps_uid (pu_pod u) \<mapsto> pu_pod u)
      | OpRemove \<Rightarrow> d(ps_uid (pu_pod u) := None)
      | OpReconcile \<Rightarrow> d)"

definition replay :: "PodUpdate list \<Rightarrow> (PodUID \<rightharpoonup> PodSpec)" where
  "replay us = foldl apply_update Map.empty us"

lemma replay_snoc [simp]: "replay (us @ [u]) = apply_update (replay us) u"
  by (simp add: replay_def)

definition in_sync :: "PodManager \<Rightarrow> bool" where
  "in_sync m \<longleftrightarrow> pm_open m \<and> replay (pm_sent m) = map_of (pm_desired m)"

lemma upsert_store_sync: "in_sync m \<Longrightarrow> in_sync (snd (upsert_store a b c is_new pod m))"
  by (auto simp: in_sync_def upsert_store_def Let_def send_sent apply_update_def update_conv')

lemma set_aliases_sync:
  "in_sync m \<Longrightarrow> ps_uid p = uid \<Longrightarrow>
   in_sync (snd (send \<lparr>pu_pod = p, pu_op = OpUpdate\<rparr> (m\<lparr>pm_desired := hm_insert uid p (pm_desired m)\<rparr>)))"
  by (auto simp: in_sync_def send_sent apply_update_def update_conv')

lemma upsert_sync:
  assumes "pm_inv m" and "in_sync m"
  shows "in_sync (snd (PodManager_upsert a b c pod m))"
proof -
  have "in_sync (snd (send \<lparr>pu_pod = p\<lparr>ps_host_aliases := al\<rparr>, pu_op = OpUpdate\<rparr>
          (m\<lparr>pm_desired := hm_insert uid (p\<lparr>ps_host_aliases := al\<rparr>) (pm_desired m)\<rparr>)))"
    if "hm_get (pm_desired m) uid = Some p" for uid p al
    using assms that by (intro set_aliases_sync) (auto dest: pm_invD(3))
  with assms(2) show ?thesis
    by (simp add: PodManager_upsert_def Let_def upsert_store_sync split: option.split)
qed

lemma remove_sync:
  assumes "pm_inv m" and "in_sync m" and "\<And>spec. fb = Some spec \<Longrightarrow> ps_uid spec = uid"
  shows "in_sync (snd (PodManager_remove a b uid fb m))"
proof (cases "hm_get (pm_desired m) uid")
  case (Some pod)
  with assms have "ps_uid pod = uid" by (simp add: pm_invD(3))
  with Some assms(2) show ?thesis
    by (simp add: PodManager_remove_def Let_def in_sync_def send_sent evict_stale_removed_def
          apply_update_def delete_conv')
next
  case None
  show ?thesis
  proof (cases fb)
    case (Some spec)
    have "(map_of (pm_desired m))(uid := None) = map_of (pm_desired m)"
      using None by auto
    with None Some assms show ?thesis
      by (simp add: PodManager_remove_def in_sync_def send_sent apply_update_def)
  qed (use None assms in \<open>simp add: PodManager_remove_def\<close>)
qed

lemma foldl_reconcile: "foldl apply_update d (map (\<lambda>p. \<lparr>pu_pod = p, pu_op = OpReconcile\<rparr>) ps) = d"
  by (induction ps) (simp_all add: apply_update_def)

lemma reconcile_all_sync: "in_sync m \<Longrightarrow> in_sync (snd (reconcile_all m))"
  by (simp add: in_sync_def reconcile_all_def reconcile_entries_spec replay_def foldl_reconcile)

subsection \<open>Runs of the manager\<close>

datatype pm_op =
    PmUpsert timestamp timestamp timestamp PodSpec
  | PmRemove timestamp timestamp PodUID "PodSpec option"
  | PmReconcile

fun pm_step :: "pm_op \<Rightarrow> PodManager \<Rightarrow> PodManager" where
  "pm_step (PmUpsert a b c pod) m = snd (PodManager_upsert a b c pod m)"
| "pm_step (PmRemove a b uid fb) m = snd (PodManager_remove a b uid fb m)"
| "pm_step PmReconcile m = snd (reconcile_all m)"

definition pm_run :: "pm_op list \<Rightarrow> PodManager \<Rightarrow> PodManager" where
  "pm_run ops m = fold pm_step ops m"

text \<open>A Remove that carries a fallback specification carries the one of the pod it names.\<close>

fun fallback_matches :: "pm_op \<Rightarrow> bool" where
  "fallback_matches (PmRemove _ _ uid (Some spec)) = (ps_uid spec = uid)"
| "fallback_matches _ = True"

lemma pm_step_inv: "pm_inv m \<Longrightarrow> pm_inv (pm_step x m)"
  by (cases x) (auto intro: pm_inv_upsert pm_inv_remove pm_inv_reconcile_all)

lemma pm_step_sync:
  assumes "pm_inv m" and "in_sync m" and "fallback_matches x"
  shows "in_sync (pm_step x m)"
proof (cases x)
  case (PmRemove a b uid fb)
  with assms show ?thesis by (cases fb) (auto intro!: remove_sync)
qed (use assms in \<open>auto intro: upsert_sync reconcile_all_sync\<close>)

lemma pm_run_inv: "pm_inv m \<Longrightarrow> pm_inv (pm_run ops m)"
  unfolding pm_run_def by (induction ops arbitrary: m) (auto intro: pm_step_inv)

lemma pm_run_sync:
  "pm_inv m \<Longrightarrow> in_sync m \<Longrightarrow> list_all fallback_matches ops \<Longrightarrow> in_sync (pm_run ops m)"
  unfolding pm_run_def
  by (induction ops arbitrary: m) (auto intro: pm_step_inv pm_step_sync)

lemma pm_inv_new [simp]: "pm_inv PodManager_new"
  by (simp add: pm_inv_def PodManager_new_def)

lemma in_sync_new [simp]: "in_sync PodManager_new"
  by (simp add: in_sync_def PodManager_new_def replay_def fun_eq_iff)

subsection \<open>Host aliases are never lost on an upsert\<close>

lemma upsert_store_desired [simp]:
  "pm_desired (snd (upsert_store a b c n pod m)) = hm_insert (ps_uid pod) pod (pm_desired m)"
  by (simp add: upsert_store_def Let_def)

text \<open>The three ways an upsert goes, as equations.\<close>

definition inherit_aliases :: "PodSpec \<Rightarrow> PodSpec \<Rightarrow> PodSpec" where
  "inherit_aliases old pod =
     (if ps_host_aliases pod = [] \<and> ps_host_aliases old \<noteq> []
      then pod\<lparr>ps_host_aliases := ps_host_aliases old\<rparr> else pod)"

lemma inherit_aliases_props [simp]:
  "ps_uid (inherit_aliases old pod) = ps_uid pod"
  "ps_host_aliases old \<noteq> [] \<Longrightarrow> ps_host_aliases (inherit_aliases old pod) \<noteq> []"
  "ps_host_aliases pod \<noteq> [] \<Longrightarrow> inherit_aliases old pod = pod"
  by (simp_all add: inherit_aliases_def)

lemma upsert_known:
  "hm_get (pm_desired m) (ps_uid pod) = Some old \<Longrightarrow>
   PodManager_upsert a b c pod m = upsert_store a b c False (inherit_aliases old pod) m"
  by (simp add: PodManager_upsert_def Let_def hm_contains_key_def inherit_aliases_def)

lemma upsert_new:
  "hm_get (pm_desired m) (ps_uid pod) = None \<Longrightarrow> find_equivalent m pod = None \<Longrightarrow>
   PodManager_upsert a b c pod m = upsert_store a b c True pod m"
  by (simp add: PodManager_upsert_def Let_def hm_contains_key_def)

lemma upsert_new_mirror:
  "hm_get (pm_desired m) (ps_uid pod) = None \<Longrightarrow> find_equivalent m pod = Some old \<Longrightarrow>
   ps_host_aliases pod = [] \<Longrightarrow>
   PodManager_upsert a b c pod m = upsert_store a b c True (inherit_aliases old pod) m"
  by (simp add: PodManager_upsert_def Let_def hm_contains_key_def inherit_aliases_def)

lemma upsert_new_static:
  "pm_inv m \<Longrightarrow> hm_get (pm_desired m) (ps_uid pod) = None \<Longrightarrow> find_equivalent m pod = Some old \<Longrightarrow>
   ps_host_aliases pod \<noteq> [] \<Longrightarrow>
   PodManager_upsert a b c pod m =
     (if ps_host_aliases old = ps_host_aliases pod then (Inr (), m)
      else send \<lparr>pu_pod = old\<lparr>ps_host_aliases := ps_host_aliases pod\<rparr>, pu_op = OpUpdate\<rparr>
             (m\<lparr>pm_desired := hm_insert (ps_uid old) (old\<lparr>ps_host_aliases := ps_host_aliases pod\<rparr>) (pm_desired m)\<rparr>))"
  using find_equivalent_SomeD(1) [of m pod old]
  by (simp add: PodManager_upsert_def Let_def hm_contains_key_def)

lemma upsert_cases:
  obtains (known) old where "hm_get (pm_desired m) (ps_uid pod) = Some old"
    | (new) "hm_get (pm_desired m) (ps_uid pod) = None" "find_equivalent m pod = None"
    | (mirror) old where "hm_get (pm_desired m) (ps_uid pod) = None" "find_equivalent m pod = Some old"
        "ps_host_aliases pod = []"
    | (static) old where "hm_get (pm_desired m) (ps_uid pod) = None" "find_equivalent m pod = Some old"
        "ps_host_aliases pod \<noteq> []"
  by (cases "hm_get (pm_desired m) (ps_uid pod)"; cases "find_equivalent m pod"; cases "ps_host_aliases pod = []")
     (blast+)

lemma upsert_keeps_aliases:
  assumes inv: "pm_inv m" and old: "hm_get (pm_desired m) uid = Some p" and ne: "ps_host_aliases p \<noteq> []"
  shows "\<exists>p'. hm_get (pm_desired (snd (PodManager_upsert a b c pod m))) uid = Some p' \<and> ps_host_aliases p' \<noteq> []"
proof (cases m pod rule: upsert_cases)
  case (known q)
  show ?thesis
  proof (cases "uid = ps_uid pod")
    case True
    with known old have "q = p" by simp
    with True ne show ?thesis by (simp add: upsert_known [OF known])
  next
    case False
    with old ne show ?thesis by (simp add: upsert_known [OF known])
  qed
next
  case new
  with old have "uid \<noteq> ps_uid pod" by fastforce
  with old ne show ?thesis by (simp add: upsert_new [OF new])
next
  case (mirror q)
  with old have "uid \<noteq> ps_uid pod" by fastforce
  with old ne show ?thesis by (simp add: upsert_new_mirror [OF mirror])
next
  case (static q)
  with old ne show ?thesis by (simp add: upsert_new_static [OF inv static])
qed

subsection \<open>Properties\<close>

lemma upserts_keep_aliases:
  assumes "pm_inv m" and "hm_get (pm_desired m) uid = Some p" and "ps_host_aliases p \<noteq> []"
    and "\<forall>x \<in> set ops. \<exists>a b c pod. x = PmUpsert a b c pod"
  shows "\<exists>p'. hm_get (pm_desired (pm_run ops m)) uid = Some p' \<and> ps_host_aliases p' \<noteq> []"
  using assms
proof (induction ops arbitrary: m p)
  case Nil
  then show ?case by (simp add: pm_run_def)
next
  case (Cons x ops)
  then obtain a b c pod where x: "x = PmUpsert a b c pod" by (metis list.set_intros(1))
  obtain p' where "hm_get (pm_desired (pm_step x m)) uid = Some p'" "ps_host_aliases p' \<noteq> []"
    using upsert_keeps_aliases [OF Cons.prems(1-3), of a b c pod] by (metis pm_step.simps(1) x)
  moreover have "pm_inv (pm_step x m)" using Cons.prems(1) by (rule pm_step_inv)
  ultimately show ?case
    using Cons.IH [of "pm_step x m" p'] Cons.prems(4) by (simp add: pm_run_def)
qed

lemma get_by_name_SomeD:
  assumes "get_by_name now ns n m = Some p"
  shows "pr_namespace (ps_pod_ref p) = ns \<and> pr_name (ps_pod_ref p) = n"
proof (cases "find (\<lambda>r. pr_namespace (ps_pod_ref r) = ns \<and> pr_name (ps_pod_ref r) = n) (hm_values (pm_desired m))")
  case None
  let ?Q = "\<lambda>(spec, inserted). elapsed now inserted < REMOVED_POD_TTL \<and>
      pr_namespace (ps_pod_ref spec) = ns \<and> pr_name (ps_pod_ref spec) = n"
  from assms have "map_option fst (find ?Q (hm_values (pm_recently_removed m))) = Some p"
    unfolding get_by_name_def None by (simp only: option.case)
  then obtain q where q: "find ?Q (hm_values (pm_recently_removed m)) = Some q" and p: "fst q = p"
    by (cases "find ?Q (hm_values (pm_recently_removed m))") simp_all
  from find_SomeD [OF q] have "?Q q" by (rule conjunct1)
  with p show ?thesis by (cases q) simp
next
  case (Some q)
  with assms have "p = q" by (simp add: get_by_name_def)
  with find_SomeD [OF Some] show ?thesis by simp
qed

text \<open>C39: the channel is a faithful log. Whatever sequence of upserts, removals and reconciliations
  runs from a new manager whose receiver stays, replaying the updates that were sent gives exactly
  the desired pods, so a subscriber that applies them in order knows the desired state. (A removal
  that carries a fallback specification carries the one of the pod it removes.)\<close>

theorem channel_replays_desired:
  assumes "list_all fallback_matches ops"
  shows "replay (pm_sent (pm_run ops PodManager_new)) = map_of (pm_desired (pm_run ops PodManager_new)) \<and>
         (\<forall>uid. PodManager_get (pm_run ops PodManager_new) uid \<noteq> None \<longrightarrow>
            status_get (pm_status (pm_run ops PodManager_new)) uid \<noteq> None)"
proof -
  have "in_sync (pm_run ops PodManager_new)" using assms by (simp add: pm_run_sync)
  moreover have "pm_inv (pm_run ops PodManager_new)" by (simp add: pm_run_inv)
  ultimately show ?thesis
    unfolding in_sync_def pm_inv_def PodManager_get_def by (metis option.exhaust)
qed

theorem channel_replays_desired_witness:
  "replay (pm_sent (pm_run [PmUpsert 1 1 1 PodSpec_default, PmReconcile, PmRemove 2 2 [] (Some PodSpec_default)]
       PodManager_new)) =
   map_of (pm_desired (pm_run [PmUpsert 1 1 1 PodSpec_default, PmReconcile, PmRemove 2 2 [] (Some PodSpec_default)]
       PodManager_new))"
  using channel_replays_desired
    [of "[PmUpsert 1 1 1 PodSpec_default, PmReconcile, PmRemove 2 2 [] (Some PodSpec_default)]"]
  by (simp add: PodSpec_default_def)

text \<open>Host aliases survive. Once a desired pod has host aliases, no sequence of upserts, of this
  pod or of any other, leaves it without: the API server's periodic re-sync of a mirror pod, which
  carries none, does not clear what the static file contributed.\<close>

theorem host_aliases_survive_upserts:
  assumes "pm_inv m" and "hm_get (pm_desired m) uid = Some p" and "ps_host_aliases p \<noteq> []"
    and "\<forall>x \<in> set ops. \<exists>a b c pod. x = PmUpsert a b c pod"
  shows "\<exists>p'. hm_get (pm_desired (pm_run ops m)) uid = Some p' \<and> ps_host_aliases p' \<noteq> []"
  using assms by (rule upserts_keep_aliases)

theorem host_aliases_survive_upserts_witness:
  "let al = [\<lparr>ha_ip = ''127.0.0.1'', ha_hostnames = [''kubernetes'']\<rparr>];
       m = pm_run [PmUpsert 1 1 1 (PodSpec_default\<lparr>ps_host_aliases := al\<rparr>)] PodManager_new
   in \<exists>p'. hm_get (pm_desired (pm_run [PmUpsert 2 2 2 PodSpec_default] m)) [] = Some p' \<and> ps_host_aliases p' \<noteq> []"
proof -
  let ?al = "[\<lparr>ha_ip = ''127.0.0.1'', ha_hostnames = [''kubernetes'']\<rparr>]"
  let ?p = "PodSpec_default\<lparr>ps_host_aliases := ?al\<rparr>"
  let ?m = "pm_run [PmUpsert 1 1 1 ?p] PodManager_new"
  have 1: "pm_inv ?m" by (simp add: pm_run_inv)
  have 2: "hm_get (pm_desired ?m) [] = Some ?p"
    by (simp add: pm_run_def upsert_new PodManager_new_def find_equivalent_def hm_values_def PodSpec_default_def)
  have 3: "ps_host_aliases ?p \<noteq> []" by simp
  show ?thesis
    using host_aliases_survive_upserts [OF 1 2 3, of "[PmUpsert 2 2 2 PodSpec_default]"] by (simp add: Let_def)
qed

text \<open>a static pod is not run twice. When a new pod with host aliases arrives whose name is
  equivalent to that of a desired pod in its namespace (a mirror with the node-name suffix), the set
  of desired pods stays the same, the mirror gets its aliases, and at most one Update goes out: none
  when the aliases are already there, so polling the file again is silent.\<close>

theorem static_pod_merges_into_mirror:
  assumes "pm_inv m" and "pm_open m" and "hm_get (pm_desired m) (ps_uid pod) = None"
    and "find_equivalent m pod = Some old" and "ps_host_aliases pod \<noteq> []"
  shows "let m' = snd (PodManager_upsert a b c pod m) in
     fst (PodManager_upsert a b c pod m) = Inr () \<and>
     (\<forall>uid. PodManager_get m' uid =
        (if uid = ps_uid old then Some (old\<lparr>ps_host_aliases := ps_host_aliases pod\<rparr>) else PodManager_get m uid)) \<and>
     PodManager_count m' = PodManager_count m \<and>
     pm_sent m' = (if ps_host_aliases old = ps_host_aliases pod then pm_sent m
                   else pm_sent m @ [\<lparr>pu_pod = old\<lparr>ps_host_aliases := ps_host_aliases pod\<rparr>, pu_op = OpUpdate\<rparr>])"
proof -
  note old = find_equivalent_SomeD(1) [OF assms(1,4)]
  show ?thesis
  proof (cases "ps_host_aliases old = ps_host_aliases pod")
    case True
    then have "old\<lparr>ps_host_aliases := ps_host_aliases pod\<rparr> = old" by (metis PodSpec.surjective PodSpec.update_convs(29))
    with old True show ?thesis
      by (simp add: upsert_new_static [OF assms(1,3,4,5)] PodManager_get_def)
  next
    case False
    with old assms(2) show ?thesis
      by (simp add: upsert_new_static [OF assms(1,3,4,5)] PodManager_get_def PodManager_count_def
            send_sent send_ok_iff hm_length_insert hm_contains_key_def)
  qed
qed

abbreviation mirror_pod :: PodSpec where
  "mirror_pod \<equiv> PodSpec_default\<lparr>ps_uid := ''uid-mirror'', ps_node_name := ''node1'',
     ps_pod_ref := \<lparr>pr_namespace = ''kube-system'', pr_name = ''kube-vip-node1''\<rparr>\<rparr>"

abbreviation static_pod :: PodSpec where
  "static_pod \<equiv> PodSpec_default\<lparr>ps_uid := ''uid-static'', ps_node_name := ''node1'',
     ps_pod_ref := \<lparr>pr_namespace = ''kube-system'', pr_name = ''kube-vip''\<rparr>,
     ps_host_aliases := [\<lparr>ha_ip = ''127.0.0.1'', ha_hostnames = [''kubernetes'']\<rparr>]\<rparr>"

lemma mirror_run:
  "pm_desired (pm_run [PmUpsert 1 1 1 mirror_pod] PodManager_new) = [(''uid-mirror'', mirror_pod)]"
  "pm_open (pm_run [PmUpsert 1 1 1 mirror_pod] PodManager_new)"
  by (simp_all add: pm_run_def upsert_new PodManager_new_def find_equivalent_def hm_values_def upsert_store_def
        Let_def)

theorem static_pod_merges_into_mirror_witness:
  "let m = pm_run [PmUpsert 1 1 1 mirror_pod] PodManager_new in
   PodManager_count (snd (PodManager_upsert 2 2 2 static_pod m)) = PodManager_count m"
proof -
  let ?m = "pm_run [PmUpsert 1 1 1 mirror_pod] PodManager_new"
  have 1: "pm_inv ?m" by (simp add: pm_run_inv)
  have 3: "hm_get (pm_desired ?m) (ps_uid static_pod) = None" by (simp add: mirror_run)
  have 4: "find_equivalent ?m static_pod = Some mirror_pod"
    by (simp add: find_equivalent_def mirror_run hm_values_def pod_names_equivalent_def strip_node_suffix_def
          strip_suffix_def)
  have 5: "ps_host_aliases static_pod \<noteq> []" by simp
  show ?thesis
    using static_pod_merges_into_mirror [OF 1 mirror_run(2) 3 4 5, of 2 2 2] by (simp add: Let_def)
qed

text \<open>a removed pod is gone from the desired set at once, exactly one Remove is sent for it, and
  for five minutes a lookup by name still finds a pod of that name, so that its logs can be read.\<close>

theorem removed_pod_stays_readable:
  assumes "pm_inv m" and "pm_open m" and "PodManager_get m uid = Some pod"
    and "now0 \<le> now1" and "now1 \<le> now" and "now < now0 + REMOVED_POD_TTL"
  shows "let m' = snd (PodManager_remove now0 now1 uid fb m) in
     PodManager_get m' uid = None \<and> pm_sent m' = pm_sent m @ [\<lparr>pu_pod = pod, pu_op = OpRemove\<rparr>] \<and>
     (\<exists>p. get_by_name now (pr_namespace (ps_pod_ref pod)) (pr_name (ps_pod_ref pod)) m' = Some p \<and>
          ps_pod_ref p = ps_pod_ref pod)"
proof -
  let ?m = "snd (PodManager_remove now0 now1 uid fb m)"
  let ?ns = "pr_namespace (ps_pod_ref pod)" and ?n = "pr_name (ps_pod_ref pod)"
  have get: "hm_get (pm_desired m) uid = Some pod" using assms(3) by (simp add: PodManager_get_def)
  have inv: "pm_inv ?m" using assms(1) by (rule pm_inv_remove)
  have "hm_get (pm_recently_removed ?m) uid = Some (pod, now0)"
    using get pm_invD(2) [OF assms(1)] assms(4-6)
    by (simp add: PodManager_remove_def Let_def evict_stale_removed_def hm_get_retain elapsed_def REMOVED_POD_TTL_def)
  then have rr: "(pod, now0) \<in> set (hm_values (pm_recently_removed ?m))"
    by (rule hm_get_in_values)
  let ?Q = "\<lambda>(spec, inserted). elapsed now inserted < REMOVED_POD_TTL \<and>
              pr_namespace (ps_pod_ref spec) = ?ns \<and> pr_name (ps_pod_ref spec) = ?n"
  have "?Q (pod, now0)" using assms(4-6) by (simp add: elapsed_def REMOVED_POD_TTL_def)
  with rr have "find ?Q (hm_values (pm_recently_removed ?m)) \<noteq> None" by (rule find_not_None)
  then have "\<exists>p. get_by_name now ?ns ?n ?m = Some p"
    by (cases "find (\<lambda>r. pr_namespace (ps_pod_ref r) = ?ns \<and> pr_name (ps_pod_ref r) = ?n) (hm_values (pm_desired ?m))")
       (simp_all add: get_by_name_def)
  then obtain p where p: "get_by_name now ?ns ?n ?m = Some p" ..
  then have "ps_pod_ref p = ps_pod_ref pod" using get_by_name_SomeD [of now ?ns ?n ?m p] by simp
  moreover have "PodManager_get ?m uid = None"
    using get by (simp add: PodManager_get_def PodManager_remove_def Let_def evict_stale_removed_def)
  moreover have "pm_sent ?m = pm_sent m @ [\<lparr>pu_pod = pod, pu_op = OpRemove\<rparr>]"
    using get assms(2) by (simp add: PodManager_remove_def Let_def evict_stale_removed_def send_sent)
  ultimately show ?thesis using p by (simp add: Let_def)
qed

theorem removed_pod_stays_readable_witness:
  "let m = pm_run [PmUpsert 1 1 1 mirror_pod] PodManager_new;
       m' = snd (PodManager_remove 5 5 ''uid-mirror'' None m)
   in PodManager_get m' ''uid-mirror'' = None \<and> get_by_name 6 ''kube-system'' ''kube-vip-node1'' m' \<noteq> None"
proof -
  let ?m = "pm_run [PmUpsert 1 1 1 mirror_pod] PodManager_new"
  have 1: "pm_inv ?m" by (simp add: pm_run_inv)
  have 3: "PodManager_get ?m ''uid-mirror'' = Some mirror_pod" by (simp add: PodManager_get_def mirror_run)
  show ?thesis
    using removed_pod_stays_readable [OF 1 mirror_run(2) 3, of 5 5 6 None]
    by (simp add: Let_def REMOVED_POD_TTL_def secs_def) force
qed

end
