(* ===== verification/Cpu_Manager.thy ===== *)
theory Cpu_Manager
  imports Pod_Lifecycle Allocator
begin

text \<open>
  The CPU manager (\<^verbatim>\<open>kubelet-adapters/src/cpu_manager/mod.rs\<close>): CPU sets with their Linux list
  syntax, and the \<^verbatim>\<open>none\<close> and \<^verbatim>\<open>static\<close> policies. CPU ids are \<^verbatim>\<open>u32\<close>, modelled as naturals
  below \<open>2 ^ 32\<close> (\<open>cpus_ok\<close>): the only addition on them, \<^verbatim>\<open>range_end + 1\<close>, is evaluated when a larger
  id exists and so cannot wrap. A \<^verbatim>\<open>BTreeSet\<close> is its increasing list.
\<close>

subsection \<open>CPU sets\<close>

type_synonym CpuSet = "nat btset"

definition cpus_ok :: "CpuSet \<Rightarrow> bool" where
  "cpus_ok s \<longleftrightarrow> bs_ok s \<and> (\<forall>c \<in> set s. c < 2 ^ 32)"

definition CpuSet_new :: "nat list \<Rightarrow> CpuSet" where
  "CpuSet_new cpus = bs_of_list cpus"

definition from_range :: "nat \<Rightarrow> nat \<Rightarrow> CpuSet" where
  "from_range first last_cpu = bs_of_list [first..<Suc last_cpu]"

fun parse_parts :: "string list \<Rightarrow> CpuSet \<Rightarrow> CpuSet result" where
  "parse_parts [] acc = Inr acc"
| "parse_parts (p # ps) acc =
     (let part = trim p in
      if part = [] then parse_parts ps acc
      else case split_once CHR ''-'' part of
        Some (a, b) \<Rightarrow>
          (case parse_u32 (trim a) of
             None \<Rightarrow> Inl (EConfig (''invalid cpuset range start '' @ quoted a))
           | Some x \<Rightarrow>
               (case parse_u32 (trim b) of
                  None \<Rightarrow> Inl (EConfig (''invalid cpuset range end '' @ quoted b))
                | Some y \<Rightarrow> parse_parts ps (fold bs_insert [x..<Suc y] acc)))
      | None \<Rightarrow>
          (case parse_u32 part of
             None \<Rightarrow> Inl (EConfig (''invalid cpu id '' @ quoted part))
           | Some x \<Rightarrow> parse_parts ps (bs_insert x acc)))"

definition CpuSet_parse :: "string \<Rightarrow> CpuSet result" where
  "CpuSet_parse s = parse_parts (split_on CHR '','' s) []"

definition range_part :: "nat \<Rightarrow> nat \<Rightarrow> string" where
  "range_part range_start range_end =
     (if range_start = range_end then show_nat range_start
      else show_nat range_start @ ''-'' @ show_nat range_end)"

fun cpuset_parts :: "nat \<Rightarrow> nat \<Rightarrow> nat list \<Rightarrow> string list" where
  "cpuset_parts range_start range_end [] = [range_part range_start range_end]"
| "cpuset_parts range_start range_end (cpu # rest) =
     (if cpu = range_end + 1 then cpuset_parts range_start cpu rest
      else range_part range_start range_end # cpuset_parts cpu cpu rest)"

definition to_cpuset_string :: "CpuSet \<Rightarrow> string" where
  "to_cpuset_string s =
     (case s of [] \<Rightarrow> [] | c # rest \<Rightarrow> join '','' (cpuset_parts c c rest))"

definition CpuSet_take :: "nat \<Rightarrow> CpuSet \<Rightarrow> CpuSet option \<times> CpuSet" where
  "CpuSet_take count s =
     (if length s < count then (None, s)
      else let taken = take count s in (Some taken, fold bs_remove taken s))"

lemma take_Some:
  "bs_ok s \<Longrightarrow> CpuSet_take n s = (if length s < n then (None, s) else (Some (take n s), drop n s))"
  by (simp add: CpuSet_take_def Let_def fold_bs_remove filter_notin_take)

lemma cpus_ok_closed [simp]:
  "cpus_ok s \<Longrightarrow> cpus_ok (take n s)" "cpus_ok s \<Longrightarrow> cpus_ok (drop n s)"
  "cpus_ok s \<Longrightarrow> cpus_ok t \<Longrightarrow> cpus_ok (bs_union s t)" "cpus_ok s \<Longrightarrow> cpus_ok (bs_difference s t)"
  "cpus_ok []"
  by (auto simp: cpus_ok_def dest: in_set_takeD in_set_dropD)

subsection \<open>The list syntax round trip\<close>

lemma show_nat_chars [simp]: "CHR ''-'' \<notin> set (show_nat n)" "CHR '','' \<notin> set (show_nat n)"
  by (rule show_nat_notin, simp add: is_digit_def)+

lemma parse_range_part:
  assumes "x \<le> y" "y < 2 ^ 32"
  shows "parse_parts (range_part x y # ps) acc = parse_parts ps (fold bs_insert [x..<Suc y] acc)"
proof (cases "x = y")
  case True
  with assms show ?thesis
    by (simp add: range_part_def Let_def split_once_notin)
next
  case False
  have ws: "\<forall>c \<in> set (show_nat x @ ''-'' @ show_nat y). \<not> is_ws c"
    using show_nat_digits [of x] show_nat_digits [of y]
    by (auto simp: list_all_iff is_digit_not_ws) (simp add: is_ws_def)
  have "split_once CHR ''-'' (show_nat x @ CHR ''-'' # show_nat y) = Some (show_nat x, show_nat y)"
    by (rule split_once_append) simp
  with False assms trim_none [OF ws] show ?thesis
    by (simp add: range_part_def Let_def)
qed

lemma parse_cpuset_parts:
  "x \<le> y \<Longrightarrow> sorted_wrt (<) (y # cs) \<Longrightarrow> (\<forall>c \<in> set (y # cs). c < 2 ^ 32) \<Longrightarrow>
   parse_parts (cpuset_parts x y cs) acc = Inr (fold bs_insert ([x..<Suc y] @ cs) acc)"
proof (induction x y cs arbitrary: acc rule: cpuset_parts.induct)
  case (1 x y)
  then show ?case by (simp add: parse_range_part del: parse_parts.simps(2))
next
  case (2 x y c cs)
  show ?case
  proof (cases "c = y + 1")
    case True
    with 2 have "parse_parts (cpuset_parts x c cs) acc = Inr (fold bs_insert ([x..<Suc c] @ cs) acc)" by simp
    moreover from 2 True have "[x..<Suc c] = [x..<Suc y] @ [c]" by simp
    ultimately show ?thesis using True by simp
  next
    case False
    with 2 have "parse_parts (cpuset_parts c c cs) acc' = Inr (fold bs_insert ([c..<Suc c] @ cs) acc')" for acc' by simp
    with False 2 show ?thesis by (simp add: parse_range_part del: parse_parts.simps(2))
  qed
qed

lemma cpuset_parts_no_comma: "p \<in> set (cpuset_parts x y cs) \<Longrightarrow> CHR '','' \<notin> set p"
  by (induction x y cs rule: cpuset_parts.induct)
     (auto simp: range_part_def split: if_splits)

lemma cpuset_parts_ne [simp]: "cpuset_parts x y cs \<noteq> []"
  by (induction x y cs rule: cpuset_parts.induct) auto

text \<open>formatting a CPU set in the Linux list syntax and parsing it gives the same set back, ranges
  included, for every set of 32-bit CPU ids.\<close>

theorem cpuset_string_round_trip: "cpus_ok s \<Longrightarrow> CpuSet_parse (to_cpuset_string s) = Inr s"
proof (cases s)
  case Nil
  then show ?thesis by (simp add: to_cpuset_string_def CpuSet_parse_def Let_def)
next
  case (Cons c cs)
  assume ok: "cpus_ok s"
  then have bs: "bs_ok s" by (simp add: cpus_ok_def)
  have "CpuSet_parse (to_cpuset_string s) = parse_parts (cpuset_parts c c cs) []"
    by (simp add: Cons CpuSet_parse_def to_cpuset_string_def split_on_join cpuset_parts_no_comma)
  also have "\<dots> = Inr (bs_of_list s)"
    using ok parse_cpuset_parts [of c c cs "[]"]
    by (simp add: Cons cpus_ok_def bs_ok_def bs_of_list_def)
  also have "bs_of_list s = s"
    by (rule bs_eqI) (simp_all add: bs)
  finally show ?thesis .
qed

lemma cpuset_string_round_trip_witness:
  "to_cpuset_string [0, 1, 2, 3, 6, 8, 9, 10] = ''0-3,6,8-10'' \<and>
   CpuSet_parse (to_cpuset_string [0, 1, 2, 3, 6, 8, 9, 10]) = Inr [0, 1, 2, 3, 6, 8, 9, 10]"
proof
  show "to_cpuset_string [0, 1, 2, 3, 6, 8, 9, 10] = ''0-3,6,8-10''" by code_simp
  show "CpuSet_parse (to_cpuset_string [0, 1, 2, 3, 6, 8, 9, 10]) = Inr [0, 1, 2, 3, 6, 8, 9, 10]"
    by (rule cpuset_string_round_trip) (simp add: cpus_ok_def bs_ok_def)
qed

subsection \<open>The manager\<close>

datatype CpuManagerPolicy = PolicyNone | PolicyStatic

definition CpuManagerPolicy_parse :: "string \<Rightarrow> CpuManagerPolicy" where
  "CpuManagerPolicy_parse s = (if s = ''static'' then PolicyStatic else PolicyNone)"

record CpuAssignment =
  ca_pod_uid :: PodUID
  ca_container_name :: string
  ca_cpus :: CpuSet
  ca_exclusive :: bool

record CpuManager =
  cm_policy :: CpuManagerPolicy
  cm_total_cpus :: CpuSet
  cm_available_cpus :: CpuSet
  cm_reserved_cpus :: CpuSet
  cm_assignments :: "(PodUID \<times> string, CpuAssignment) hmap"

definition CpuManager_new :: "string \<Rightarrow> CpuSet \<Rightarrow> CpuSet \<Rightarrow> CpuManager" where
  "CpuManager_new policy total_cpus reserved_cpus =
     \<lparr>cm_policy = CpuManagerPolicy_parse policy, cm_total_cpus = total_cpus,
      cm_available_cpus = bs_difference total_cpus reserved_cpus, cm_reserved_cpus = reserved_cpus, cm_assignments = []\<rparr>"

text \<open>\<open>parallelism\<close> is what \<^verbatim>\<open>available_parallelism\<close> answered, at least 1 when it answers.\<close>

definition detect_host_cpus :: "nat option \<Rightarrow> CpuSet" where
  "detect_host_cpus parallelism =
     (let count = (case parallelism of Some n \<Rightarrow> n | None \<Rightarrow> 1) in from_range 0 (count - 1))"

definition exclusively_assigned :: "CpuManager \<Rightarrow> CpuSet" where
  "exclusively_assigned m =
     fold (\<lambda>a acc. bs_union acc (ca_cpus a)) (filter ca_exclusive (hm_values (cm_assignments m))) []"

definition shared_pool :: "CpuManager \<Rightarrow> CpuSet" where
  "shared_pool m = bs_difference (cm_total_cpus m) (exclusively_assigned m)"

definition CpuManager_assign ::
  "PodUID \<Rightarrow> string \<Rightarrow> QosClass \<Rightarrow> nat \<Rightarrow> CpuManager \<Rightarrow> CpuSet result \<times> CpuManager" where
  "CpuManager_assign pod_uid container_name qos cpu_request_millicores m =
     (if cm_policy m = PolicyNone then (Inr (cm_total_cpus m), m)
      else case hm_get (cm_assignments m) (pod_uid, container_name) of
        Some existing \<Rightarrow> (Inr (ca_cpus existing), m)
      | None \<Rightarrow>
          if qos = Guaranteed \<and> cpu_request_millicores mod 1000 = 0 then
            (let num_cpus = cpu_request_millicores div 1000 in
             case CpuSet_take num_cpus (cm_available_cpus m) of
               (None, avail) \<Rightarrow>
                 (Inl (EResource (''not enough CPUs: need '' @ show_nat num_cpus @ '', available '' @
                                  show_nat (length avail))), m)
             | (Some exclusive, avail) \<Rightarrow>
                 (Inr exclusive,
                  m\<lparr>cm_available_cpus := avail,
                    cm_assignments := hm_insert (pod_uid, container_name)
                      \<lparr>ca_pod_uid = pod_uid, ca_container_name = container_name,
                       ca_cpus = exclusive, ca_exclusive = True\<rparr> (cm_assignments m)\<rparr>))
          else (Inr (shared_pool m), m))"

definition CpuManager_release :: "PodUID \<Rightarrow> string \<Rightarrow> CpuManager \<Rightarrow> CpuManager" where
  "CpuManager_release pod_uid container_name m =
     (let m' = m\<lparr>cm_assignments := hm_remove (pod_uid, container_name) (cm_assignments m)\<rparr> in
      case hm_get (cm_assignments m) (pod_uid, container_name) of
        Some a \<Rightarrow> if ca_exclusive a
                  then m'\<lparr>cm_available_cpus := bs_union (cm_available_cpus m) (ca_cpus a)\<rparr> else m'
      | None \<Rightarrow> m')"

definition available_count :: "CpuManager \<Rightarrow> nat" where
  "available_count m = length (cm_available_cpus m)"

subsection \<open>The exclusive-allocation contract\<close>

definition cpus_of :: "CpuManager \<Rightarrow> PodUID \<times> string \<Rightarrow> nat set" where
  "cpus_of m k = (case hm_get (cm_assignments m) k of Some a \<Rightarrow> set (ca_cpus a) | None \<Rightarrow> {})"

definition cm_inv :: "CpuManager \<Rightarrow> bool" where
  "cm_inv m \<longleftrightarrow>
     cpus_ok (cm_total_cpus m) \<and> cpus_ok (cm_available_cpus m) \<and> hm_ok (cm_assignments m) \<and>
     (\<forall>k a. hm_get (cm_assignments m) k = Some a \<longrightarrow> ca_exclusive a \<and> cpus_ok (ca_cpus a)) \<and>
     (\<forall>k k'. k \<noteq> k' \<longrightarrow> cpus_of m k \<inter> cpus_of m k' = {}) \<and>
     (\<forall>k. set (cm_available_cpus m) \<inter> cpus_of m k = {}) \<and>
     set (cm_available_cpus m) \<union> (\<Union>k. cpus_of m k) = set (cm_total_cpus m) - set (cm_reserved_cpus m)"

lemma cm_inv_new: "cpus_ok total_cpus \<Longrightarrow> cm_inv (CpuManager_new policy total_cpus reserved_cpus)"
  by (simp add: cm_inv_def CpuManager_new_def cpus_of_def)

lemma cm_invD:
  assumes "cm_inv m"
  shows "cpus_ok (cm_total_cpus m)" "cpus_ok (cm_available_cpus m)" "hm_ok (cm_assignments m)"
    and "hm_get (cm_assignments m) k = Some a \<Longrightarrow> ca_exclusive a \<and> cpus_ok (ca_cpus a)"
    and "k \<noteq> k' \<Longrightarrow> cpus_of m k \<inter> cpus_of m k' = {}"
    and "set (cm_available_cpus m) \<inter> cpus_of m k = {}"
    and "set (cm_available_cpus m) \<union> (\<Union>k. cpus_of m k) = set (cm_total_cpus m) - set (cm_reserved_cpus m)"
  using assms unfolding cm_inv_def by iprover+

lemma mem_cpus_of: "x \<in> cpus_of m k \<longleftrightarrow> (\<exists>a. hm_get (cm_assignments m) k = Some a \<and> x \<in> set (ca_cpus a))"
  by (simp add: cpus_of_def split: option.split)

lemma set_exclusively_assigned:
  assumes "cm_inv m"
  shows "set (exclusively_assigned m) = (\<Union>k. cpus_of m k)"
proof -
  have fold: "set (fold (\<lambda>a acc. bs_union acc (ca_cpus a)) as acc) = set acc \<union> (\<Union>a \<in> set as. set (ca_cpus a))" for as acc
    by (induction as arbitrary: acc) auto
  have "a \<in> set (filter ca_exclusive (hm_values (cm_assignments m))) \<longleftrightarrow>
        (\<exists>k. hm_get (cm_assignments m) k = Some a)" for a
    using cm_invD(4) [OF assms, of _ a] hm_get_in_values [of "cm_assignments m" _ a]
      hm_valuesE [of a "cm_assignments m", OF _ cm_invD(3) [OF assms]]
    unfolding set_filter mem_Collect_eq by metis
  then show ?thesis
    unfolding exclusively_assigned_def fold by (simp add: set_eq_iff mem_cpus_of) blast
qed

lemma set_shared_pool: "cm_inv m \<Longrightarrow> set (shared_pool m) = set (cm_total_cpus m) - (\<Union>k. cpus_of m k)"
  by (simp add: shared_pool_def set_exclusively_assigned)

text \<open>An assignment is one of three: no change with a known answer, exclusive CPUs cut off the front of
  the available list, or a refusal.\<close>

lemma assign_unchanged:
  "cm_policy m = PolicyNone \<Longrightarrow> CpuManager_assign u c q r m = (Inr (cm_total_cpus m), m)"
  "cm_policy m = PolicyStatic \<Longrightarrow> hm_get (cm_assignments m) (u, c) = Some a \<Longrightarrow>
     CpuManager_assign u c q r m = (Inr (ca_cpus a), m)"
  "cm_policy m = PolicyStatic \<Longrightarrow> hm_get (cm_assignments m) (u, c) = None \<Longrightarrow>
     \<not> (q = Guaranteed \<and> r mod 1000 = 0) \<Longrightarrow> CpuManager_assign u c q r m = (Inr (shared_pool m), m)"
  by (auto simp: CpuManager_assign_def)

lemma assign_exclusive:
  assumes "cm_inv m" "cm_policy m = PolicyStatic" "hm_get (cm_assignments m) (u, c) = None"
    and "r mod 1000 = 0"
  shows "CpuManager_assign u c Guaranteed r m =
     (if length (cm_available_cpus m) < r div 1000
      then (Inl (EResource (''not enough CPUs: need '' @ show_nat (r div 1000) @ '', available '' @
              show_nat (length (cm_available_cpus m)))), m)
      else (Inr (take (r div 1000) (cm_available_cpus m)),
            m\<lparr>cm_available_cpus := drop (r div 1000) (cm_available_cpus m),
              cm_assignments := hm_insert (u, c)
                \<lparr>ca_pod_uid = u, ca_container_name = c,
                 ca_cpus = take (r div 1000) (cm_available_cpus m), ca_exclusive = True\<rparr> (cm_assignments m)\<rparr>))"
proof -
  have "bs_ok (cm_available_cpus m)" using cm_invD(2) [OF assms(1)] by (simp add: cpus_ok_def)
  with assms(2-) show ?thesis by (simp add: CpuManager_assign_def take_Some Let_def)
qed

lemma assign_cases:
  assumes "cm_inv m"
  obtains (same) "snd (CpuManager_assign u c q r m) = m"
  | (exclusive) n where "hm_get (cm_assignments m) (u, c) = None" "n \<le> length (cm_available_cpus m)"
      "snd (CpuManager_assign u c q r m) =
         m\<lparr>cm_available_cpus := drop n (cm_available_cpus m),
           cm_assignments := hm_insert (u, c) \<lparr>ca_pod_uid = u, ca_container_name = c,
             ca_cpus = take n (cm_available_cpus m), ca_exclusive = True\<rparr> (cm_assignments m)\<rparr>"
proof (cases "cm_policy m = PolicyStatic \<and> hm_get (cm_assignments m) (u, c) = None \<and> q = Guaranteed \<and> r mod 1000 = 0")
  case True
  with assign_exclusive [OF assms, of u c r] show ?thesis
    by (cases "length (cm_available_cpus m) < r div 1000") (simp_all add: same exclusive [of "r div 1000"])
next
  case False
  with assign_unchanged [of m u c] show ?thesis
    by (cases "cm_policy m"; cases "hm_get (cm_assignments m) (u, c)") (simp_all add: same)
qed

text \<open>Moving the first \<open>n\<close> available CPUs to a new owner keeps the invariant.\<close>

lemma cm_inv_exclusive:
  assumes inv: "cm_inv m" and fresh: "hm_get (cm_assignments m) k = None"
    and m': "m' = m\<lparr>cm_available_cpus := drop n (cm_available_cpus m),
       cm_assignments := hm_insert k a (cm_assignments m)\<rparr>"
    and a: "ca_cpus a = take n (cm_available_cpus m)" "ca_exclusive a"
  shows "cm_inv m'" and "cpus_of m' k = set (take n (cm_available_cpus m))"
    and "k' \<noteq> k \<Longrightarrow> cpus_of m' k' = cpus_of m k'"
    and "set (cm_available_cpus m') \<union> cpus_of m' k = set (cm_available_cpus m)"
proof -
  let ?av = "cm_available_cpus m"
  have held: "cpus_of m' k' = (if k' = k then set (take n ?av) else cpus_of m k')" for k'
    by (simp add: m' cpus_of_def a)
  show "cpus_of m' k = set (take n ?av)" "k' \<noteq> k \<Longrightarrow> cpus_of m' k' = cpus_of m k'" by (simp_all add: held)
  have av: "set (take n ?av) \<union> set (drop n ?av) = set ?av" by (metis append_take_drop_id set_append)
  have dj: "set (take n ?av) \<inter> set (drop n ?av) = {}"
    using cm_invD(2) [OF inv] by (simp add: cpus_ok_def set_take_disj_set_drop_if_distinct)
  have none: "cpus_of m k = {}" using fresh by (simp add: cpus_of_def)
  have av': "set (cm_available_cpus m') = set (drop n ?av)" by (simp add: m')
  show "set (cm_available_cpus m') \<union> cpus_of m' k = set ?av" using av by (simp add: held av' Un_commute)
  have sub: "set (take n ?av) \<subseteq> set ?av" "set (drop n ?av) \<subseteq> set ?av" using av by blast+
  note D = cm_invD [OF inv]
  show "cm_inv m'" unfolding cm_inv_def
  proof (intro conjI allI impI)
    fix k1 k2 :: "PodUID \<times> string" assume "k1 \<noteq> k2"
    then show "cpus_of m' k1 \<inter> cpus_of m' k2 = {}" using D(5) [of k1 k2] D(6) [of k1] D(6) [of k2] sub
      unfolding held by (simp split: if_split) blast
  next
    fix k1 show "set (cm_available_cpus m') \<inter> cpus_of m' k1 = {}"
      unfolding held av' using dj D(6) [of k1] sub by (cases "k1 = k") auto
  next
    have "x \<in> (\<Union>k. cpus_of m' k) \<longleftrightarrow> x \<in> set (take n ?av) \<or> x \<in> (\<Union>k. cpus_of m k)" for x
      unfolding UN_iff held using none by (metis UNIV_I empty_iff)
    then have "(\<Union>k. cpus_of m' k) = set (take n ?av) \<union> (\<Union>k. cpus_of m k)" by blast
    then have "set (cm_available_cpus m') \<union> (\<Union>k. cpus_of m' k) = set ?av \<union> (\<Union>k. cpus_of m k)"
      unfolding av' using av by (metis Un_assoc Un_commute)
    then show "set (cm_available_cpus m') \<union> (\<Union>k. cpus_of m' k) = set (cm_total_cpus m') - set (cm_reserved_cpus m')"
      using D(7) by (simp add: m')
  next
    fix k1 a1 assume "hm_get (cm_assignments m') k1 = Some a1"
    then show "ca_exclusive a1" "cpus_ok (ca_cpus a1)"
      using D(2) D(4) [of k1 a1] a by (simp_all add: m' split: if_splits)
  qed (use D in \<open>simp_all add: m'\<close>)
qed

lemma release_effect:
  fixes m u c
  assumes inv: "cm_inv m"
  defines "m' \<equiv> CpuManager_release u c m"
  shows "cpus_of m' k = (if k = (u, c) then {} else cpus_of m k)"
    and "set (cm_available_cpus m') = set (cm_available_cpus m) \<union> cpus_of m (u, c)"
    and "cm_inv m'" and "cm_policy m' = cm_policy m"
proof -
  note D = cm_invD [OF inv]
  have held: "cpus_of m' k = (if k = (u, c) then {} else cpus_of m k)" for k
    by (simp add: m'_def CpuManager_release_def cpus_of_def Let_def split: option.split)
  have av: "set (cm_available_cpus m') = set (cm_available_cpus m) \<union> cpus_of m (u, c)"
    using D(4) by (simp add: m'_def CpuManager_release_def cpus_of_def Let_def split: option.split)
  have rest: "cm_total_cpus m' = cm_total_cpus m" "cm_reserved_cpus m' = cm_reserved_cpus m"
    "cm_assignments m' = hm_remove (u, c) (cm_assignments m)" and pol: "cm_policy m' = cm_policy m"
    by (simp_all add: m'_def CpuManager_release_def Let_def split: option.split)
  have ok: "cpus_ok (cm_available_cpus m')"
    using D(2) D(4) by (simp add: m'_def CpuManager_release_def Let_def split: option.split)
  show "cm_inv m'" unfolding cm_inv_def
  proof (intro conjI allI impI)
    fix k1 k2 :: "PodUID \<times> string" assume "k1 \<noteq> k2"
    then show "cpus_of m' k1 \<inter> cpus_of m' k2 = {}" using D(5) [of k1 k2] by (simp add: held)
  next
    fix k1 show "set (cm_available_cpus m') \<inter> cpus_of m' k1 = {}"
      unfolding held av using D(6) [of k1] D(5) [of "(u, c)" k1] by (simp add: Int_Un_distrib2)
  next
    have "x \<in> (\<Union>k. cpus_of m' k) \<or> x \<in> cpus_of m (u, c) \<longleftrightarrow> x \<in> (\<Union>k. cpus_of m k)" for x
      unfolding UN_iff held by (metis UNIV_I empty_iff)
    then have "set (cm_available_cpus m') \<union> (\<Union>k. cpus_of m' k) = set (cm_available_cpus m) \<union> (\<Union>k. cpus_of m k)"
      unfolding av by blast
    then show "set (cm_available_cpus m') \<union> (\<Union>k. cpus_of m' k) = set (cm_total_cpus m') - set (cm_reserved_cpus m')"
      using D(7) by (simp add: rest)
  next
    fix k1 a1 assume "hm_get (cm_assignments m') k1 = Some a1"
    then show "ca_exclusive a1" "cpus_ok (ca_cpus a1)" using D(4) [of k1 a1] by (simp_all add: rest split: if_splits)
  qed (use D ok in \<open>simp_all add: rest\<close>)
  show "cpus_of m' k = (if k = (u, c) then {} else cpus_of m k)"
    and "set (cm_available_cpus m') = set (cm_available_cpus m) \<union> cpus_of m (u, c)"
    and "cm_policy m' = cm_policy m" by (fact held av pol)+
qed

lemma assign_effect:
  fixes m u c q r
  assumes inv: "cm_inv m"
  defines "m' \<equiv> snd (CpuManager_assign u c q r m)"
  shows "cm_inv m'" and "k \<noteq> (u, c) \<Longrightarrow> cpus_of m' k = cpus_of m k"
    and "cpus_of m (u, c) \<subseteq> cpus_of m' (u, c)"
    and "set (cm_available_cpus m') \<union> cpus_of m' (u, c) = set (cm_available_cpus m) \<union> cpus_of m (u, c)"
proof -
  from inv have "cm_inv m' \<and> (k \<noteq> (u, c) \<longrightarrow> cpus_of m' k = cpus_of m k) \<and> cpus_of m (u, c) \<subseteq> cpus_of m' (u, c) \<and>
    set (cm_available_cpus m') \<union> cpus_of m' (u, c) = set (cm_available_cpus m) \<union> cpus_of m (u, c)"
  proof (cases rule: assign_cases [of m u c q r])
    case same
    with inv show ?thesis by (simp add: m'_def)
  next
    case (exclusive n)
    have none: "cpus_of m (u, c) = {}" using exclusive(1) by (simp add: cpus_of_def)
    from cm_inv_exclusive [OF inv exclusive(1) exclusive(3)] show ?thesis
      unfolding none m'_def by simp
  qed
  then show "cm_inv m'" "k \<noteq> (u, c) \<Longrightarrow> cpus_of m' k = cpus_of m k" "cpus_of m (u, c) \<subseteq> cpus_of m' (u, c)"
    "set (cm_available_cpus m') \<union> cpus_of m' (u, c) = set (cm_available_cpus m) \<union> cpus_of m (u, c)"
    by simp_all
qed

lemma assign_from_available:
  "cm_inv m \<Longrightarrow> cpus_of (snd (CpuManager_assign u c q r m)) (u, c) \<subseteq> set (cm_available_cpus m) \<union> cpus_of m (u, c)"
  using assign_effect(4) [of m u c q r] by blast

interpretation cpu: conserving_allocator cm_inv "\<lambda>m. set (cm_available_cpus m)" cpus_of
  "\<lambda>(u, c) (q, r) m. snd (CpuManager_assign u c q r m)" "\<lambda>(u, c). CpuManager_release u c"
  by (unfold_locales; simp only: split_paired_all prod.case)
    (simp_all add: cm_invD assign_effect release_effect assign_from_available)

text \<open>A sequence of calls, as the pod workers make them one after the other under the lock.\<close>

fun cpu_step :: "(PodUID \<times> string, QosClass \<times> nat) alloc_op \<Rightarrow> CpuManager \<Rightarrow> CpuManager" where
  "cpu_step (Acquire (u, c) (q, r)) m = snd (CpuManager_assign u c q r m)"
| "cpu_step (Release (u, c)) m = CpuManager_release u c m"

lemma cpu_step_eq: "cpu_step = cpu.step"
proof (intro ext)
  fix x m show "cpu_step x m = cpu.step x m" by (cases "(x, m)" rule: cpu_step.cases) simp_all
qed

lemma reserved_const: "cm_reserved_cpus (cpu_step x m) = cm_reserved_cpus m \<and> cm_total_cpus (cpu_step x m) = cm_total_cpus m"
  by (cases "(x, m)" rule: cpu_step.cases)
    (simp_all add: CpuManager_assign_def CpuManager_release_def Let_def split: option.split prod.split)

lemma run_const:
  "cm_reserved_cpus (fold cpu_step xs m) = cm_reserved_cpus m \<and> cm_total_cpus (fold cpu_step xs m) = cm_total_cpus m"
  by (induction xs arbitrary: m) (simp_all add: reserved_const)

subsection \<open>Properties\<close>

text \<open>C36: exclusive CPUs are exclusive. After any sequence of assignments and releases from a fresh
  manager, no CPU belongs to two containers, no CPU of a container is also available or reserved, and
  the available and assigned CPUs together are exactly the CPUs of the node that are not reserved:
  none is lost and none is invented.\<close>

theorem exclusive_cpus_partition:
  assumes "cpus_ok total_cpus"
    and m: "m = fold cpu_step ops (CpuManager_new policy total_cpus reserved_cpus)"
  shows "(\<forall>k k'. k \<noteq> k' \<longrightarrow> cpus_of m k \<inter> cpus_of m k' = {}) \<and>
    (\<forall>k. cpus_of m k \<inter> (set (cm_available_cpus m) \<union> set reserved_cpus) = {}) \<and>
    set (cm_available_cpus m) \<union> (\<Union>k. cpus_of m k) = set total_cpus - set reserved_cpus"
proof -
  have inv: "cm_inv m"
    unfolding m cpu_step_eq using assms(1) by (intro cpu.run_inv cm_inv_new)
  have c: "cm_total_cpus m = total_cpus" "cm_reserved_cpus m = reserved_cpus"
    unfolding m by (simp_all add: run_const) (simp_all add: CpuManager_new_def)
  have un: "set (cm_available_cpus m) \<union> (\<Union>k. cpus_of m k) = set total_cpus - set reserved_cpus"
    using cm_invD(7) [OF inv] by (simp add: c)
  then have "cpus_of m k \<inter> set reserved_cpus = {}" for k by blast
  then have "\<forall>k. cpus_of m k \<inter> (set (cm_available_cpus m) \<union> set reserved_cpus) = {}"
    using cm_invD(6) [OF inv] by (simp add: Int_Un_distrib Int_commute)
  with un cm_invD(5) [OF inv] show ?thesis by blast
qed

lemmas cpu_eval = CpuManager_assign_def CpuManager_release_def CpuManager_new_def CpuSet_take_def
  CpuManagerPolicy_parse_def from_range_def bs_of_list_def bs_union_def bs_difference_def bs_remove_def
  cpus_of_def available_count_def

lemma exclusive_cpus_partition_witness:
  "cpus_ok [0, 1, 2, 3, 4, 5, 6, 7] \<and>
   set (cm_available_cpus (fold cpu_step
       [Acquire (''a'', ''x'') (Guaranteed, 2000), Acquire (''b'', ''y'') (Guaranteed, 3000), Release (''a'', ''x'')]
       (CpuManager_new ''static'' [0, 1, 2, 3, 4, 5, 6, 7] [0]))) = {1, 2, 6, 7} \<and>
   cpus_of (fold cpu_step
       [Acquire (''a'', ''x'') (Guaranteed, 2000), Acquire (''b'', ''y'') (Guaranteed, 3000), Release (''a'', ''x'')]
       (CpuManager_new ''static'' [0, 1, 2, 3, 4, 5, 6, 7] [0])) (''b'', ''y'') = {3, 4, 5} \<and>
   cpus_of (fold cpu_step
       [Acquire (''a'', ''x'') (Guaranteed, 2000), Acquire (''b'', ''y'') (Guaranteed, 3000), Release (''a'', ''x'')]
       (CpuManager_new ''static'' [0, 1, 2, 3, 4, 5, 6, 7] [0])) (''b'', ''y'') \<inter> {0} = {}"
proof -
  let ?ops = "[Acquire (''a'', ''x'') (Guaranteed, 2000), Acquire (''b'', ''y'') (Guaranteed, 3000), Release (''a'', ''x'')]"
  let ?m = "fold cpu_step ?ops (CpuManager_new ''static'' [0, 1, 2, 3, 4, 5, 6, 7] [0])"
  have ok: "cpus_ok [0, 1, 2, 3, 4, 5, 6, 7]" by (simp add: cpu_eval cpus_ok_def bs_ok_def)
  have "cpus_of ?m (''b'', ''y'') \<inter> (set (cm_available_cpus ?m) \<union> set [0]) = {}"
    using exclusive_cpus_partition [OF ok refl, of ?ops "''static''" "[0]"] by blast
  moreover have "cm_available_cpus ?m = [1, 2, 6, 7]" "cpus_of ?m (''b'', ''y'') = {3, 4, 5}"
    by (simp_all add: cpu_eval)
  ultimately show ?thesis using ok by simp
qed

text \<open>every answer of \<open>assign\<close> under the static policy. A container that already holds CPUs gets the
  same set; a Guaranteed container with a whole number of CPUs gets exactly that many, all of them
  available, or an error naming both numbers with nothing changed; any other container gets the
  shared pool, which no exclusive CPU is in.\<close>

theorem assign_static_answers:
  assumes inv: "cm_inv m" and pol: "cm_policy m = PolicyStatic"
  shows "case CpuManager_assign u c q r m of
     (Inr cpus, m') \<Rightarrow>
       (case hm_get (cm_assignments m) (u, c) of
          Some a \<Rightarrow> cpus = ca_cpus a \<and> m' = m
        | None \<Rightarrow>
            if q = Guaranteed \<and> r mod 1000 = 0
            then length cpus = r div 1000 \<and> set cpus \<subseteq> set (cm_available_cpus m) \<and>
                 cpus_of m' (u, c) = set cpus \<and> set (cm_available_cpus m') = set (cm_available_cpus m) - set cpus
            else m' = m \<and> set cpus = set (cm_total_cpus m) - (\<Union>k. cpus_of m k))
   | (Inl e, m') \<Rightarrow>
       m' = m \<and> hm_get (cm_assignments m) (u, c) = None \<and> q = Guaranteed \<and> r mod 1000 = 0 \<and>
       available_count m < r div 1000 \<and>
       e = EResource (''not enough CPUs: need '' @ show_nat (r div 1000) @ '', available '' @ show_nat (available_count m))"
proof (cases "hm_get (cm_assignments m) (u, c)")
  case (Some a)
  with assign_unchanged(2) [OF pol Some] show ?thesis by simp
next
  case None
  show ?thesis
  proof (cases "q = Guaranteed \<and> r mod 1000 = 0")
    case False
    with None assign_unchanged(3) [OF pol None False] show ?thesis by (auto simp: set_shared_pool inv)
  next
    case True
    let ?n = "r div 1000" and ?av = "cm_available_cpus m"
    have d: "distinct ?av" using cm_invD(2) [OF inv] by (simp add: cpus_ok_def)
    have "set ?av = set (take ?n ?av) \<union> set (drop ?n ?av)" by (metis append_take_drop_id set_append)
    then have "set (drop ?n ?av) = set ?av - set (take ?n ?av)"
      using set_take_disj_set_drop_if_distinct [OF d, of ?n ?n] by blast
    with True None assign_exclusive [OF inv pol None] show ?thesis
      by (simp add: available_count_def cpus_of_def set_take_subset)
  qed
qed

lemma assign_static_answers_witness:
  "fst (CpuManager_assign ''a'' ''x'' Guaranteed 2000 (CpuManager_new ''static'' [0, 1, 2] [0])) = Inr [1, 2] \<and>
   fst (CpuManager_assign ''a'' ''x'' Guaranteed 3000 (CpuManager_new ''static'' [0, 1, 2] [0])) =
     Inl (EResource ''not enough CPUs: need 3, available 2'')"
proof -
  let ?m = "CpuManager_new ''static'' [0, 1, 2] [0]"
  have ok: "cpus_ok [0, 1, 2]" by (simp add: cpus_ok_def bs_ok_def)
  have pol: "cm_policy ?m = PolicyStatic" by code_simp
  have 1: "fst (CpuManager_assign ''a'' ''x'' Guaranteed 2000 ?m) = Inr [1, 2]" by (simp add: cpu_eval)
  have e: "\<exists>e. CpuManager_assign ''a'' ''x'' Guaranteed 3000 ?m = (Inl e, ?m)" by (simp add: cpu_eval)
  have s: "''not enough CPUs: need '' @ show_nat (3000 div 1000) @ '', available '' @ show_nat (available_count ?m) =
      ''not enough CPUs: need 3, available 2''"
    by (simp add: cpu_eval show_nat.simps digit_char_eval digit_char_eval(3) [unfolded numeral_2_eq_2])
  from e assign_static_answers [OF cm_inv_new [OF ok] pol, of "''a''" "''x''" Guaranteed 3000] s 1
  show ?thesis by auto
qed

text \<open>Releasing what was just assigned restores the manager's available CPUs exactly, in the same
  order.\<close>

theorem release_after_assign:
  assumes inv: "cm_inv m" and new: "hm_get (cm_assignments m) (u, c) = None"
  shows "cm_available_cpus (CpuManager_release u c (snd (CpuManager_assign u c q r m))) = cm_available_cpus m"
proof (rule bs_eqI)
  let ?m = "CpuManager_release u c (snd (CpuManager_assign u c q r m))"
  have "cpus_of m (u, c) = {}" by (simp add: cpus_of_def new)
  with cpu.release_acquire_free [OF inv, of "(u, c)" "(q, r)"]
  show "set (cm_available_cpus ?m) = set (cm_available_cpus m)" by simp
  show "bs_ok (cm_available_cpus m)" "bs_ok (cm_available_cpus ?m)"
    using cm_invD(2) [OF inv] cm_invD(2) [OF release_effect(3) [OF assign_effect(1) [OF inv]]]
    by (simp_all add: cpus_ok_def)
qed

lemma release_after_assign_witness:
  "cm_available_cpus (CpuManager_release ''a'' ''x''
     (snd (CpuManager_assign ''a'' ''x'' Guaranteed 1000 (CpuManager_new ''static'' [0, 1, 2] [0])))) = [1, 2]"
proof -
  have ok: "cpus_ok [0, 1, 2]" by (simp add: cpus_ok_def bs_ok_def)
  have n: "hm_get (cm_assignments (CpuManager_new ''static'' [0, 1, 2] [0])) (''a'', ''x'') = None" by code_simp
  have "cm_available_cpus (CpuManager_new ''static'' [0, 1, 2] [0]) = [1, 2]" by (simp add: cpu_eval)
  with release_after_assign [OF cm_inv_new [OF ok] n] show ?thesis by simp
qed

end
