(* ===== verification/Memory_Manager.thy ===== *)
theory Memory_Manager
  imports Cpu_Manager F64
begin

text \<open>
  The memory manager (\<^verbatim>\<open>kubelet-adapters/src/memory_manager/mod.rs\<close>). Byte counts are \<^verbatim>\<open>u64\<close> as naturals
  below \<open>2 ^ 64\<close> with the wrap-around of the only unchecked operations, \<^verbatim>\<open>kb * 1024\<close> and
  \<^verbatim>\<open>free_bytes += bytes\<close>, written out. The contents of the files under \<^verbatim>\<open>/sys/devices/system/node\<close> and
  of \<^verbatim>\<open>/proc/meminfo\<close> are arguments, \<open>None\<close> when they cannot be read.
\<close>

subsection \<open>NUMA topology\<close>

record NumaNode =
  nn_id :: nat
  nn_total_bytes :: nat
  nn_free_bytes :: nat
  nn_cpus :: "nat list"

definition utilization :: "NumaNode \<Rightarrow> f64" where
  "utilization n =
     (if nn_total_bytes n = 0 then Fin 0
      else f64_sub (Fin 1) (f64_div (f64_of_u64 (nn_free_bytes n)) (f64_of_u64 (nn_total_bytes n))))"

definition kb_to_bytes :: "nat \<Rightarrow> nat" where
  "kb_to_bytes kb = kb * 1024 mod 2 ^ 64"

fun meminfo_scan :: "string \<Rightarrow> string list \<Rightarrow> nat option" where
  "meminfo_scan key [] = None"
| "meminfo_scan key (line # rest) =
     (if contains_str key line then
        (case nth_opt 3 (split_whitespace line) of
           Some val \<Rightarrow> map_option kb_to_bytes (parse_u64 val)
         | None \<Rightarrow> meminfo_scan key rest)
      else meminfo_scan key rest)"

definition read_numa_meminfo :: "string option \<Rightarrow> string \<Rightarrow> nat option" where
  "read_numa_meminfo content key = Option.bind content (\<lambda>s. meminfo_scan key (str_lines s))"

definition cpulist_part :: "string \<Rightarrow> nat list" where
  "cpulist_part part =
     (case split_once CHR ''-'' part of
        Some (a, b) \<Rightarrow>
          [(case parse_u32 a of Some x \<Rightarrow> x | None \<Rightarrow> 0)..<Suc (case parse_u32 b of Some y \<Rightarrow> y | None \<Rightarrow> 0)]
      | None \<Rightarrow> (case parse_u32 part of Some x \<Rightarrow> [x] | None \<Rightarrow> []))"

definition read_numa_cpulist :: "string option \<Rightarrow> nat list" where
  "read_numa_cpulist content =
     (case content of
        None \<Rightarrow> []
      | Some s \<Rightarrow>
          (case CpuSet_parse (trim s) of
             Inl _ \<Rightarrow> []
           | Inr cs \<Rightarrow> concat (map cpulist_part (split_on CHR '','' (to_cpuset_string cs)))))"

definition proc_meminfo :: "string \<Rightarrow> nat \<Rightarrow> string option \<Rightarrow> nat" where
  "proc_meminfo key fallback content =
     (case Option.bind content (\<lambda>s.
         Option.bind (find (\<lambda>l. starts_with key l) (str_lines s)) (\<lambda>l.
         Option.bind (nth_opt 1 (split_whitespace l)) parse_u64)) of
        Some kb \<Rightarrow> kb_to_bytes kb
      | None \<Rightarrow> fallback)"

definition total_memory_bytes :: "string option \<Rightarrow> nat" where
  "total_memory_bytes = proc_meminfo ''MemTotal:'' (8 * 1024 * 1024 * 1024)"

definition free_memory_bytes :: "string option \<Rightarrow> nat" where
  "free_memory_bytes = proc_meminfo ''MemAvailable:'' (4 * 1024 * 1024 * 1024)"

text \<open>One directory entry: its name and the contents of its \<^verbatim>\<open>meminfo\<close> and \<^verbatim>\<open>cpulist\<close>.\<close>

record node_entry =
  ne_name :: string
  ne_meminfo :: "string option"
  ne_cpulist :: "string option"

definition numa_node_of_entry :: "node_entry \<Rightarrow> NumaNode option" where
  "numa_node_of_entry e =
     (case strip_prefix ''node'' (ne_name e) of
        None \<Rightarrow> None
      | Some suffix \<Rightarrow>
          (case parse_u32 suffix of
             None \<Rightarrow> None
           | Some i \<Rightarrow>
               Some \<lparr>nn_id = i,
                     nn_total_bytes = (case read_numa_meminfo (ne_meminfo e) ''MemTotal'' of Some v \<Rightarrow> v | None \<Rightarrow> 0),
                     nn_free_bytes = (case read_numa_meminfo (ne_meminfo e) ''MemFree'' of Some v \<Rightarrow> v | None \<Rightarrow> 0),
                     nn_cpus = read_numa_cpulist (ne_cpulist e)\<rparr>))"

text \<open>\<open>dir\<close> is \<open>None\<close> when the directory does not exist, \<open>Some None\<close> when it cannot be listed.\<close>

definition discover_numa_nodes :: "node_entry list option option \<Rightarrow> string option \<Rightarrow> nat \<Rightarrow> NumaNode list" where
  "discover_numa_nodes dir meminfo online_cpus =
     (let whole = \<lparr>nn_id = 0, nn_total_bytes = total_memory_bytes meminfo,
                   nn_free_bytes = free_memory_bytes meminfo, nn_cpus = [0..<online_cpus]\<rparr>
      in case dir of
           None \<Rightarrow> [whole]
         | Some None \<Rightarrow> []
         | Some (Some entries) \<Rightarrow>
             (let nodes = sort_key nn_id (List.map_filter numa_node_of_entry entries)
              in if nodes = [] then [whole] else nodes))"

subsection \<open>The manager\<close>

datatype MemoryManagerPolicy = MmNone | MmStatic

definition MemoryManagerPolicy_parse :: "string \<Rightarrow> MemoryManagerPolicy" where
  "MemoryManagerPolicy_parse s = (if s = ''Static'' then MmStatic else MmNone)"

record MemoryAssignment =
  ma_pod_uid :: PodUID
  ma_container_name :: string
  ma_numa_nodes :: "nat list"
  ma_bytes :: nat

record MemoryManager =
  mm_policy :: MemoryManagerPolicy
  mm_numa_nodes :: "NumaNode list"
  mm_assignments :: "(PodUID \<times> string, MemoryAssignment) hmap"

definition MemoryManager_new :: "string \<Rightarrow> NumaNode list \<Rightarrow> MemoryManager" where
  "MemoryManager_new policy numa_nodes =
     \<lparr>mm_policy = MemoryManagerPolicy_parse policy, mm_numa_nodes = numa_nodes, mm_assignments = []\<rparr>"

text \<open>\<^verbatim>\<open>Iterator::min_by_key\<close>: the first of the elements with the least key.\<close>

fun min_by_key :: "('a \<Rightarrow> nat) \<Rightarrow> 'a list \<Rightarrow> 'a option" where
  "min_by_key f [] = None"
| "min_by_key f (x # xs) =
     (case min_by_key f xs of None \<Rightarrow> Some x | Some y \<Rightarrow> if f y < f x then Some y else Some x)"

definition best_numa_node :: "nat \<Rightarrow> MemoryManager \<Rightarrow> nat option" where
  "best_numa_node bytes_needed m =
     map_option nn_id (min_by_key (\<lambda>n. f64_as_u64 (utilization n))
       (filter (\<lambda>n. bytes_needed \<le> nn_free_bytes n) (mm_numa_nodes m)))"

definition all_numa_nodes_string :: "MemoryManager \<Rightarrow> string" where
  "all_numa_nodes_string m =
     (if mm_numa_nodes m = [] then ''0'' else join '','' (map (\<lambda>n. show_nat (nn_id n)) (mm_numa_nodes m)))"

text \<open>\<^verbatim>\<open>iter_mut().find(|n| n.id == id)\<close> and an update: the first node with the id changes.\<close>

fun update_node :: "nat \<Rightarrow> (NumaNode \<Rightarrow> NumaNode) \<Rightarrow> NumaNode list \<Rightarrow> NumaNode list" where
  "update_node i f [] = []"
| "update_node i f (n # ns) = (if nn_id n = i then f n # ns else n # update_node i f ns)"

definition MemoryManager_assign ::
  "PodUID \<Rightarrow> string \<Rightarrow> QosClass \<Rightarrow> nat \<Rightarrow> MemoryManager \<Rightarrow> string result \<times> MemoryManager" where
  "MemoryManager_assign pod_uid container_name qos bytes m =
     (if mm_policy m = MmNone then (Inr (all_numa_nodes_string m), m)
      else case hm_get (mm_assignments m) (pod_uid, container_name) of
        Some existing \<Rightarrow> (Inr (join '','' (map show_nat (ma_numa_nodes existing))), m)
      | None \<Rightarrow>
          if qos \<noteq> Guaranteed then (Inr (all_numa_nodes_string m), m)
          else case best_numa_node bytes m of
            None \<Rightarrow>
              (Inl (EResource (''no NUMA node with '' @ show_nat bytes @ '' bytes free for pod '' @
                               pod_uid @ ''/'' @ container_name)), m)
          | Some numa_id \<Rightarrow>
              (Inr (show_nat numa_id),
               m\<lparr>mm_numa_nodes := update_node numa_id (\<lambda>n. n\<lparr>nn_free_bytes := nn_free_bytes n - bytes\<rparr>) (mm_numa_nodes m),
                 mm_assignments := hm_insert (pod_uid, container_name)
                   \<lparr>ma_pod_uid = pod_uid, ma_container_name = container_name, ma_numa_nodes = [numa_id], ma_bytes = bytes\<rparr>
                   (mm_assignments m)\<rparr>))"

definition give_back :: "nat \<Rightarrow> nat \<Rightarrow> NumaNode list \<Rightarrow> NumaNode list" where
  "give_back bytes i = update_node i (\<lambda>n. n\<lparr>nn_free_bytes := (nn_free_bytes n + bytes) mod 2 ^ 64\<rparr>)"

definition MemoryManager_release :: "PodUID \<Rightarrow> string \<Rightarrow> MemoryManager \<Rightarrow> MemoryManager" where
  "MemoryManager_release pod_uid container_name m =
     (case hm_get (mm_assignments m) (pod_uid, container_name) of
        None \<Rightarrow> m
      | Some a \<Rightarrow>
          m\<lparr>mm_assignments := hm_remove (pod_uid, container_name) (mm_assignments m),
            mm_numa_nodes := fold (give_back (ma_bytes a)) (ma_numa_nodes a) (mm_numa_nodes m)\<rparr>)"

definition numa_node_count :: "MemoryManager \<Rightarrow> nat" where
  "numa_node_count m = length (mm_numa_nodes m)"

subsection \<open>Accounting\<close>

definition free_of :: "NumaNode list \<Rightarrow> nat \<Rightarrow> nat option" where
  "free_of ns i = map_of (map (\<lambda>n. (nn_id n, nn_free_bytes n)) ns) i"

definition pinned :: "nat \<Rightarrow> (PodUID \<times> string) \<times> MemoryAssignment \<Rightarrow> nat" where
  "pinned i x = (if i \<in> set (ma_numa_nodes (snd x)) then ma_bytes (snd x) else 0)"

definition used_bytes :: "MemoryManager \<Rightarrow> nat \<Rightarrow> nat" where
  "used_bytes m i = sum_list (map (pinned i) (mm_assignments m))"

lemma sum_insert_new: "hm_get m k = None \<Longrightarrow> sum_list (map f (hm_insert k v m)) = sum_list (map f m) + (f (k, v) :: nat)"
  by (induction m) auto

lemma sum_remove: "hm_ok m \<Longrightarrow> hm_get m k = Some v \<Longrightarrow> sum_list (map f (hm_remove k m)) + f (k, v) = (sum_list (map f m) :: nat)"
proof (induction m)
  case (Cons x m)
  show ?case
  proof (cases "fst x = k")
    case True
    with Cons.prems have "k \<notin> fst ` set m" "x = (k, v)" by (cases x; auto simp: hm_ok_def)+
    then have "hm_remove k m = m" by (simp add: delete_idem)
    with \<open>x = (k, v)\<close> show ?thesis by simp
  next
    case False
    with Cons have "sum_list (map f (hm_remove k m)) + f (k, v) = sum_list (map f m)" by (auto simp: hm_ok_def)
    with False show ?thesis by simp
  qed
qed simp

lemma free_of_update:
  "(\<And>n. nn_id (f n) = nn_id n) \<Longrightarrow> (\<And>n. nn_free_bytes (f n) = g (nn_free_bytes n)) \<Longrightarrow>
   free_of (update_node i f ns) j = (if j = i then map_option g (free_of ns i) else free_of ns j)"
  by (induction ns) (auto simp: free_of_def)

lemma min_by_key_in: "min_by_key f xs = Some x \<Longrightarrow> x \<in> set xs"
  by (induction xs arbitrary: x) (auto split: option.splits if_splits)

lemma min_by_key_least: "min_by_key f xs = Some x \<Longrightarrow> y \<in> set xs \<Longrightarrow> f x \<le> f y"
proof (induction xs arbitrary: x y)
  case (Cons a xs)
  show ?case
  proof (cases "min_by_key f xs")
    case None
    with Cons.prems show ?thesis by (cases xs) (auto split: option.splits if_splits)
  next
    case (Some z)
    from Cons.prems(2) consider "y = a" | "y \<in> set xs" by auto
    then show ?thesis
    proof cases
      case 1
      with Cons.prems(1) Some show ?thesis by (auto split: if_splits)
    next
      case 2
      from Cons.IH [OF Some this] Cons.prems(1) Some show ?thesis by (auto split: if_splits)
    qed
  qed
qed simp

lemma min_by_key_None: "min_by_key f xs = None \<longleftrightarrow> xs = []"
  by (cases xs) (auto split: option.splits)

lemma best_numa_node_Some:
  assumes "best_numa_node b m = Some i" "distinct (map nn_id (mm_numa_nodes m))"
  shows "\<exists>v. free_of (mm_numa_nodes m) i = Some v \<and> b \<le> v"
proof -
  from assms(1) obtain n where n: "n \<in> set (mm_numa_nodes m)" "b \<le> nn_free_bytes n" "nn_id n = i"
    by (auto simp: best_numa_node_def dest!: min_by_key_in)
  have "free_of (mm_numa_nodes m) i = Some (nn_free_bytes n)"
    unfolding free_of_def using n assms(2) by (intro map_of_is_SomeI) (auto simp: comp_def)
  with n show ?thesis by simp
qed

definition mm_inv :: "NumaNode list \<Rightarrow> MemoryManager \<Rightarrow> bool" where
  "mm_inv nodes0 m \<longleftrightarrow>
     map nn_id (mm_numa_nodes m) = map nn_id nodes0 \<and> distinct (map nn_id nodes0) \<and> hm_ok (mm_assignments m) \<and>
     (\<forall>k a. hm_get (mm_assignments m) k = Some a \<longrightarrow> length (ma_numa_nodes a) = 1) \<and>
     (\<forall>i v. free_of (mm_numa_nodes m) i = Some v \<longrightarrow> free_of nodes0 i = Some (v + used_bytes m i)) \<and>
     (\<forall>i v. free_of nodes0 i = Some v \<longrightarrow> v < 2 ^ 64)"

lemma mm_invD:
  assumes "mm_inv nodes0 m"
  shows "map nn_id (mm_numa_nodes m) = map nn_id nodes0" "distinct (map nn_id nodes0)" "hm_ok (mm_assignments m)"
    and "hm_get (mm_assignments m) k = Some a \<Longrightarrow> length (ma_numa_nodes a) = 1"
    and "free_of (mm_numa_nodes m) i = Some v \<Longrightarrow> free_of nodes0 i = Some (v + used_bytes m i)"
    and "free_of nodes0 i = Some v \<Longrightarrow> v < 2 ^ 64"
  using assms unfolding mm_inv_def by iprover+

lemma update_node_ids: "(\<And>n. nn_id (f n) = nn_id n) \<Longrightarrow> map nn_id (update_node i f ns) = map nn_id ns"
  by (induction ns) auto

lemma mm_inv_assign:
  assumes inv: "mm_inv nodes0 m"
  shows "mm_inv nodes0 (snd (MemoryManager_assign u c q b m))"
proof (cases "mm_policy m = MmStatic \<and> hm_get (mm_assignments m) (u, c) = None \<and> q = Guaranteed \<and> best_numa_node b m \<noteq> None")
  case False
  then have "snd (MemoryManager_assign u c q b m) = m"
    by (cases "mm_policy m") (auto simp: MemoryManager_assign_def split: option.splits)
  with inv show ?thesis by simp
next
  case True
  then obtain i where i: "best_numa_node b m = Some i" by blast
  let ?a = "\<lparr>ma_pod_uid = u, ma_container_name = c, ma_numa_nodes = [i], ma_bytes = b\<rparr>"
  let ?f = "\<lambda>n. n\<lparr>nn_free_bytes := nn_free_bytes n - b\<rparr>"
  let ?m = "m\<lparr>mm_numa_nodes := update_node i ?f (mm_numa_nodes m),
      mm_assignments := hm_insert (u, c) ?a (mm_assignments m)\<rparr>"
  have m': "snd (MemoryManager_assign u c q b m) = ?m" using True i by (simp add: MemoryManager_assign_def)
  have new: "hm_get (mm_assignments m) (u, c) = None" using True by simp
  note D = mm_invD [OF inv]
  obtain v0 where v0: "free_of (mm_numa_nodes m) i = Some v0" "b \<le> v0"
    using best_numa_node_Some [OF i] D(1,2) by auto
  have used: "used_bytes ?m j = used_bytes m j + (if j = i then b else 0)" for j
    by (simp add: used_bytes_def sum_insert_new [OF new]) (simp add: pinned_def)
  have free: "free_of (mm_numa_nodes ?m) j = (if j = i then Some (v0 - b) else free_of (mm_numa_nodes m) j)" for j
    using free_of_update [of ?f "\<lambda>x. x - b" i "mm_numa_nodes m" j] v0 by simp
  show ?thesis unfolding m' mm_inv_def
  proof (intro conjI allI impI)
    fix j v assume "free_of (mm_numa_nodes ?m) j = Some v"
    then show "free_of nodes0 j = Some (v + used_bytes ?m j)"
      using D(5) [of j] v0 unfolding free used by (cases "j = i") auto
  next
    fix k a assume "hm_get (mm_assignments ?m) k = Some a"
    then show "length (ma_numa_nodes a) = 1" using D(4) [of k a] by (auto split: if_splits)
  qed (use D in \<open>simp_all add: update_node_ids\<close>)
qed

lemma mm_inv_release:
  assumes inv: "mm_inv nodes0 m"
  shows "mm_inv nodes0 (MemoryManager_release u c m)"
proof (cases "hm_get (mm_assignments m) (u, c)")
  case None
  with inv show ?thesis by (simp add: MemoryManager_release_def)
next
  case (Some a)
  note D = mm_invD [OF inv]
  from D(4) [OF Some] obtain i where i: "ma_numa_nodes a = [i]" by (cases "ma_numa_nodes a") auto
  let ?f = "\<lambda>n. n\<lparr>nn_free_bytes := (nn_free_bytes n + ma_bytes a) mod 2 ^ 64\<rparr>"
  let ?m = "m\<lparr>mm_assignments := hm_remove (u, c) (mm_assignments m), mm_numa_nodes := update_node i ?f (mm_numa_nodes m)\<rparr>"
  have m': "MemoryManager_release u c m = ?m" by (simp add: MemoryManager_release_def Some i give_back_def)
  have used: "used_bytes ?m j + (if j = i then ma_bytes a else 0) = used_bytes m j" for j
    using sum_remove [OF D(3) Some, of "pinned j"] by (simp add: used_bytes_def pinned_def [of _ "((u, c), a)"] i split: if_splits)
  have free: "free_of (mm_numa_nodes ?m) j =
      (if j = i then map_option (\<lambda>v. (v + ma_bytes a) mod 2 ^ 64) (free_of (mm_numa_nodes m) i)
       else free_of (mm_numa_nodes m) j)" for j
    using free_of_update [of ?f "\<lambda>v. (v + ma_bytes a) mod 2 ^ 64" i "mm_numa_nodes m" j] by simp
  show ?thesis unfolding m' mm_inv_def
  proof (intro conjI allI impI)
    fix j v assume v: "free_of (mm_numa_nodes ?m) j = Some v"
    show "free_of nodes0 j = Some (v + used_bytes ?m j)"
    proof (cases "j = i")
      case True
      with v obtain v1 where v1: "free_of (mm_numa_nodes m) i = Some v1" "v = (v1 + ma_bytes a) mod 2 ^ 64"
        unfolding free by auto
      have total: "free_of nodes0 i = Some (v1 + used_bytes m i)" using D(5) [OF v1(1)] .
      have "v1 + ma_bytes a \<le> v1 + used_bytes m i" using used [of i] by simp
      then have "v = v1 + ma_bytes a" using D(6) [OF total] v1(2) by simp
      with total used [of i] True show ?thesis by simp
    next
      case False
      with v D(5) [of j v] used [of j] show ?thesis unfolding free by simp
    qed
  next
    fix k a' assume "hm_get (mm_assignments ?m) k = Some a'"
    then show "length (ma_numa_nodes a') = 1" using D(4) [of k a'] by (simp split: if_splits)
  qed (use D in \<open>simp_all add: update_node_ids\<close>)
qed

fun mem_step :: "(PodUID \<times> string, QosClass \<times> nat) alloc_op \<Rightarrow> MemoryManager \<Rightarrow> MemoryManager" where
  "mem_step (Acquire (u, c) (q, b)) m = snd (MemoryManager_assign u c q b m)"
| "mem_step (Release (u, c)) m = MemoryManager_release u c m"

lemma mm_inv_run: "mm_inv nodes0 m \<Longrightarrow> mm_inv nodes0 (fold mem_step xs m)"
proof (induction xs arbitrary: m)
  case (Cons x xs)
  have "mm_inv nodes0 (mem_step x m)"
    using Cons.prems by (cases "(x, m)" rule: mem_step.cases) (simp_all add: mm_inv_assign mm_inv_release)
  with Cons.IH show ?case by simp
qed simp

lemma free_of_nodes: "free_of ns i = Some v \<Longrightarrow> \<exists>n \<in> set ns. nn_free_bytes n = v"
  by (auto simp: free_of_def dest!: map_of_SomeD)

lemma mm_inv_new:
  "distinct (map nn_id nodes) \<Longrightarrow> (\<forall>n \<in> set nodes. nn_free_bytes n < 2 ^ 64) \<Longrightarrow>
   mm_inv nodes (MemoryManager_new policy nodes)"
  by (auto simp: mm_inv_def MemoryManager_new_def used_bytes_def dest: free_of_nodes)

lemma find_filter: "find P xs = (case filter P xs of [] \<Rightarrow> None | x # _ \<Rightarrow> Some x)"
  by (induction xs) auto

subsection \<open>Properties\<close>

text \<open>NUMA memory is accounted exactly. After any sequence of assignments and releases, the free bytes
  of a node plus the bytes pinned to it are the free bytes it started with: no node is overcommitted,
  the subtraction never saturates, the addition never wraps, and nothing is lost.\<close>

theorem memory_accounting:
  assumes "distinct (map nn_id nodes)" "\<forall>n \<in> set nodes. nn_free_bytes n < 2 ^ 64"
    and "m = fold mem_step ops (MemoryManager_new policy nodes)"
  shows "free_of nodes i = map_option (\<lambda>v. v + used_bytes m i) (free_of (mm_numa_nodes m) i)"
proof -
  have inv: "mm_inv nodes m" unfolding assms(3) using mm_inv_run mm_inv_new assms(1,2) by blast
  have "free_of nodes i = None \<longleftrightarrow> i \<notin> nn_id ` set nodes" "free_of (mm_numa_nodes m) i = None \<longleftrightarrow> i \<notin> nn_id ` set (mm_numa_nodes m)"
    by (simp_all add: free_of_def map_of_eq_None_iff image_comp comp_def)
  moreover have "nn_id ` set (mm_numa_nodes m) = nn_id ` set nodes" using mm_invD(1) [OF inv] by (metis list.set_map)
  ultimately show ?thesis using mm_invD(5) [OF inv, of i] by (cases "free_of (mm_numa_nodes m) i") auto
qed

abbreviation two_nodes :: "NumaNode list" where
  "two_nodes \<equiv> [\<lparr>nn_id = 0, nn_total_bytes = 1000, nn_free_bytes = 600, nn_cpus = []\<rparr>,
                \<lparr>nn_id = 1, nn_total_bytes = 1000, nn_free_bytes = 1000, nn_cpus = []\<rparr>]"

text \<open>The node chosen for a container. The code asks for the least utilised node with room, but the
  sort key is the utilisation, a fraction below one, truncated to an integer. On nodes of at most
  \<open>2 ^ 53\<close> bytes the key is zero for every node with a free byte, so a positive request always gets
  the first node of the list that has room, however full it is.\<close>

theorem best_numa_node_is_first_fit:
  assumes nodes: "\<forall>n \<in> set (mm_numa_nodes m). nn_free_bytes n \<le> nn_total_bytes n \<and> nn_total_bytes n \<le> 2 ^ 53"
    and b: "0 < bytes"
  shows "best_numa_node bytes m = map_option nn_id (find (\<lambda>n. bytes \<le> nn_free_bytes n) (mm_numa_nodes m))"
proof -
  have key: "f64_as_u64 (utilization n) = 0" if "n \<in> set (mm_numa_nodes m)" "bytes \<le> nn_free_bytes n" for n
  proof (cases "nn_total_bytes n = 0")
    case True
    then show ?thesis by (simp add: utilization_def)
  next
    case False
    define f t where "f = (of_nat (nn_free_bytes n) :: rat)" and "t = (of_nat (nn_total_bytes n) :: rat)"
    from nodes that(1) have n2: "nn_free_bytes n \<le> nn_total_bytes n" "nn_total_bytes n \<le> 2 ^ 53" by blast+
    have nf: "1 \<le> nn_free_bytes n" "nn_free_bytes n \<le> 2 ^ 53" "nn_total_bytes n \<le> 2 ^ 53"
      using n2 that(2) b by linarith+
    have f1: "1 \<le> f" using nf(1) by (simp add: f_def)
    have t0: "0 < t" using False by (simp add: t_def)
    have ft: "f \<le> t" using n2(1) by (simp add: f_def t_def)
    have "t \<le> of_nat (2 ^ 53)" unfolding t_def using n2(2) by (simp only: of_nat_le_iff)
    then have t53: "t \<le> 2 ^ 53" by simp
    have q: "1 / 2 ^ 53 \<le> f / t" "f / t \<le> 1"
      using f1 t53 t0 ft by (auto intro!: frac_le)
    have r: "representable (1 / 2 ^ 53)" "representable (1 - 1 / 2 ^ 53)"
      unfolding representable_def
      by (rule exI [of _ 1], rule exI [of _ "- 53"], simp add: power_int_def power_divide)
        (rule exI [of _ "2 ^ 53 - 1"], rule exI [of _ "- 53"], simp add: power_int_def power_divide)
    have d: "f64_div (f64_of_u64 (nn_free_bytes n)) (f64_of_u64 (nn_total_bytes n)) = Fin (fl (f / t))"
    proof -
      have "0 \<le> f / t" using f1 t0 by simp
      then have "\<bar>f / t\<bar> = f / t" by (rule abs_of_nonneg)
      also have "\<dots> \<le> 2 ^ 64" by (rule order_trans [OF q(2)]) simp
      finally have "\<bar>f / t\<bar> \<le> 2 ^ 64" .
      from round64_Fin [OF this] show ?thesis
        using nf t0 by (simp add: f64_of_u64_exact f_def [symmetric] t_def [symmetric])
    qed
    have g: "1 / 2 ^ 53 \<le> fl (f / t)" "fl (f / t) \<le> 1"
      using fl_ge [OF r(1) q(1)] fl_le [of 1, OF _ q(2)] representable_of_nat [of 1] by simp_all
    then have "f64_sub (Fin 1) (Fin (fl (f / t))) = Fin (fl (1 - fl (f / t)))"
      by (simp add: round64_Fin)
    moreover have "fl (1 - fl (f / t)) \<le> 1 - 1 / 2 ^ 53" using g by (intro fl_le [OF r(2)]) simp
    ultimately show ?thesis using False by (simp add: utilization_def d)
  qed
  have first: "min_by_key k xs = (case xs of [] \<Rightarrow> None | x # _ \<Rightarrow> Some x)"
    if "\<forall>x \<in> set xs. k x = 0" for k and xs :: "NumaNode list"
    using that by (cases xs) (auto split: option.split)
  show ?thesis
    unfolding best_numa_node_def find_filter by (subst first) (simp_all add: key)
qed

lemma best_numa_node_is_first_fit_witness:
  "best_numa_node 500 (MemoryManager_new ''Static'' two_nodes) = Some 0"
proof -
  have "\<forall>n \<in> set (mm_numa_nodes (MemoryManager_new ''Static'' two_nodes)).
      nn_free_bytes n \<le> nn_total_bytes n \<and> nn_total_bytes n \<le> 2 ^ 53"
    by (simp add: MemoryManager_new_def)
  from best_numa_node_is_first_fit [OF this, of 500] show ?thesis by (simp add: MemoryManager_new_def)
qed

lemma memory_accounting_witness:
  "mm_policy (MemoryManager_new ''Static'' two_nodes) = MmStatic \<and>
   Some 600 = map_option (\<lambda>v. v + used_bytes (fold mem_step [Acquire (''a'', ''x'') (Guaranteed, 500)]
       (MemoryManager_new ''Static'' two_nodes)) 0)
     (free_of (mm_numa_nodes (fold mem_step [Acquire (''a'', ''x'') (Guaranteed, 500)]
       (MemoryManager_new ''Static'' two_nodes))) 0)"
proof
  show "mm_policy (MemoryManager_new ''Static'' two_nodes) = MmStatic"
    by (simp add: MemoryManager_new_def MemoryManagerPolicy_parse_def)
  have "distinct (map nn_id two_nodes)" "\<forall>n \<in> set two_nodes. nn_free_bytes n < 2 ^ 64" by simp_all
  from memory_accounting [OF this refl, of 0 "[Acquire (''a'', ''x'') (Guaranteed, 500)]" "''Static''"]
  show "Some 600 = map_option (\<lambda>v. v + used_bytes (fold mem_step [Acquire (''a'', ''x'') (Guaranteed, 500)]
       (MemoryManager_new ''Static'' two_nodes)) 0)
     (free_of (mm_numa_nodes (fold mem_step [Acquire (''a'', ''x'') (Guaranteed, 500)]
       (MemoryManager_new ''Static'' two_nodes))) 0)"
    by (simp add: free_of_def)
qed

end
