(* ===== verification/Topology_Manager.thy ===== *)
theory Topology_Manager
  imports Pod_Types
begin

text \<open>
  The topology manager (\<^verbatim>\<open>kubelet-adapters/src/topology_manager/mod.rs\<close>): NUMA hints, their
  intersection, and admission under the four policies. The \<^verbatim>\<open>HashSet\<close> of node ids is a set.
\<close>

record TopologyHint =
  th_numa_affinity :: "nat set option"
  th_preferred :: bool

definition no_preference :: TopologyHint where
  "no_preference = \<lparr>th_numa_affinity = None, th_preferred = True\<rparr>"

definition with_numa_nodes :: "nat set \<Rightarrow> bool \<Rightarrow> TopologyHint" where
  "with_numa_nodes nodes preferred = \<lparr>th_numa_affinity = Some nodes, th_preferred = preferred\<rparr>"

definition intersect :: "TopologyHint \<Rightarrow> TopologyHint \<Rightarrow> TopologyHint" where
  "intersect h g =
     (case (th_numa_affinity h, th_numa_affinity g) of
        (None, None) \<Rightarrow> no_preference
      | (Some a, None) \<Rightarrow> with_numa_nodes a (th_preferred h \<and> th_preferred g)
      | (None, Some a) \<Rightarrow> with_numa_nodes a (th_preferred h \<and> th_preferred g)
      | (Some a, Some b) \<Rightarrow> with_numa_nodes (a \<inter> b) (th_preferred h \<and> th_preferred g))"

definition is_empty_affinity :: "TopologyHint \<Rightarrow> bool" where
  "is_empty_affinity h = (case th_numa_affinity h of Some s \<Rightarrow> s = {} | None \<Rightarrow> False)"

datatype TopologyPolicy = TpNone | TpBestEffort | TpRestricted | TpSingleNumaNode

definition TopologyPolicy_parse :: "string \<Rightarrow> TopologyPolicy" where
  "TopologyPolicy_parse s =
     (if s = ''best-effort'' then TpBestEffort else if s = ''restricted'' then TpRestricted
      else if s = ''single-numa-node'' then TpSingleNumaNode else TpNone)"

datatype TopologyScope = TsContainer | TsPod

definition TopologyScope_parse :: "string \<Rightarrow> TopologyScope" where
  "TopologyScope_parse s = (if s = ''pod'' then TsPod else TsContainer)"

record TopologyManager =
  tm_policy :: TopologyPolicy
  tm_scope :: TopologyScope
  tm_providers :: "string list"
  tm_accepted_hints :: "(PodUID \<times> string, TopologyHint) hmap"

definition TopologyManager_new :: "string \<Rightarrow> string \<Rightarrow> TopologyManager" where
  "TopologyManager_new policy scope =
     \<lparr>tm_policy = TopologyPolicy_parse policy, tm_scope = TopologyScope_parse scope,
      tm_providers = [''cpu'', ''memory''], tm_accepted_hints = []\<rparr>"

definition merge_hints :: "TopologyHint list \<Rightarrow> TopologyHint" where
  "merge_hints hints = (case hints of [] \<Rightarrow> no_preference | h # hs \<Rightarrow> fold (\<lambda>g acc. intersect acc g) hs h)"

definition single_numa_hint :: "TopologyHint \<Rightarrow> TopologyHint option" where
  "single_numa_hint merged =
     (case th_numa_affinity merged of
        None \<Rightarrow> None
      | Some affinity \<Rightarrow> if affinity = {} then None else Some (with_numa_nodes {Min affinity} True))"

definition tm_record :: "PodUID \<Rightarrow> string \<Rightarrow> TopologyHint \<Rightarrow> TopologyManager \<Rightarrow> TopologyManager" where
  "tm_record pod_uid container_name hint m =
     m\<lparr>tm_accepted_hints := hm_insert (pod_uid, container_name) hint (tm_accepted_hints m)\<rparr>"

definition TopologyManager_admit ::
  "PodUID \<Rightarrow> string \<Rightarrow> TopologyHint list \<Rightarrow> TopologyManager \<Rightarrow> TopologyHint result \<times> TopologyManager" where
  "TopologyManager_admit pod_uid container_name hints m =
     (let merged = merge_hints hints in
      case tm_policy m of
        TpNone \<Rightarrow> (Inr no_preference, m)
      | TpBestEffort \<Rightarrow>
          (let hint = (if is_empty_affinity merged then no_preference else merged)
           in (Inr hint, tm_record pod_uid container_name hint m))
      | TpRestricted \<Rightarrow>
          if is_empty_affinity merged
          then (Inl (EAdmission (''topology restricted: no aligned NUMA resources for '' @ pod_uid @ ''/'' @ container_name)), m)
          else (Inr merged, tm_record pod_uid container_name merged m)
      | TpSingleNumaNode \<Rightarrow>
          (case single_numa_hint merged of
             Some h \<Rightarrow> (Inr h, tm_record pod_uid container_name h m)
           | None \<Rightarrow>
               (Inl (EAdmission (''topology single-numa-node: cannot satisfy on one NUMA node for '' @
                                 pod_uid @ ''/'' @ container_name)), m)))"

definition remove_pod :: "PodUID \<Rightarrow> TopologyManager \<Rightarrow> TopologyManager" where
  "remove_pod pod_uid m = m\<lparr>tm_accepted_hints := hm_retain (\<lambda>(uid, _) _. uid \<noteq> pod_uid) (tm_accepted_hints m)\<rparr>"

definition get_hint :: "PodUID \<Rightarrow> string \<Rightarrow> TopologyManager \<Rightarrow> TopologyHint option" where
  "get_hint pod_uid container_name m = hm_get (tm_accepted_hints m) (pod_uid, container_name)"

subsection \<open>The merged hint\<close>

definition affinities :: "TopologyHint list \<Rightarrow> nat set list" where
  "affinities hints = List.map_filter th_numa_affinity hints"

text \<open>The merged affinity is the intersection of the affinities that are given, whatever the order.\<close>

lemma fold_intersect_affinity:
  "th_numa_affinity (fold (\<lambda>g acc. intersect acc g) hs h) =
     (if affinities (h # hs) = [] then None else Some (\<Inter>(set (affinities (h # hs)))))"
proof (induction hs arbitrary: h)
  case Nil
  then show ?case by (simp add: affinities_def map_filter_simps split: option.split)
next
  case (Cons g hs)
  have "affinities (intersect h g # hs) = [] \<longleftrightarrow> affinities (h # g # hs) = []"
    "\<Inter>(set (affinities (intersect h g # hs))) = \<Inter>(set (affinities (h # g # hs)))"
    by (auto simp: affinities_def map_filter_simps intersect_def no_preference_def with_numa_nodes_def split: option.splits)
  with Cons show ?case by simp
qed

lemma merge_hints_affinity:
  "th_numa_affinity (merge_hints hints) =
     (if affinities hints = [] then None else Some (\<Inter>(set (affinities hints))))"
  by (cases hints) (simp_all add: merge_hints_def fold_intersect_affinity no_preference_def affinities_def map_filter_simps)

text \<open>admission under every policy, in terms of the NUMA nodes that all hints with an affinity have
  in common. \<open>restricted\<close> admits exactly when no hint has an affinity or the common set is not empty,
  and records exactly that set; \<open>single-numa-node\<close> admits exactly when a hint has an affinity and the
  common set is not empty, and pins the container to its lowest node; \<open>best-effort\<close> always admits and
  drops the affinity when there is no common node; a rejected container leaves the manager unchanged.\<close>

theorem topology_admission:
  assumes "common = \<Inter>(set (affinities hints))"
  shows "case TopologyManager_admit u c hints m of
     (Inr h, m') \<Rightarrow>
       (tm_policy m = TpNone \<longrightarrow> h = no_preference \<and> m' = m) \<and>
       (tm_policy m = TpBestEffort \<longrightarrow> get_hint u c m' = Some h \<and>
          th_numa_affinity h = (if affinities hints = [] \<or> common = {} then None else Some common)) \<and>
       (tm_policy m = TpRestricted \<longrightarrow> get_hint u c m' = Some h \<and> (affinities hints = [] \<or> common \<noteq> {}) \<and>
          th_numa_affinity h = (if affinities hints = [] then None else Some common)) \<and>
       (tm_policy m = TpSingleNumaNode \<longrightarrow> get_hint u c m' = Some h \<and> affinities hints \<noteq> [] \<and> common \<noteq> {} \<and>
          th_numa_affinity h = Some {Min common})
   | (Inl e, m') \<Rightarrow>
       m' = m \<and> (\<exists>msg. e = EAdmission msg) \<and>
       (tm_policy m = TpRestricted \<and> affinities hints \<noteq> [] \<and> common = {} \<or>
        tm_policy m = TpSingleNumaNode \<and> (affinities hints = [] \<or> common = {}))"
  using merge_hints_affinity [of hints] unfolding assms
  by (cases "tm_policy m")
    (auto simp: TopologyManager_admit_def Let_def is_empty_affinity_def single_numa_hint_def get_hint_def
      tm_record_def no_preference_def with_numa_nodes_def split: option.splits if_splits)

lemma topology_admission_witness:
  "fst (TopologyManager_admit ''p'' ''c'' [with_numa_nodes {0, 1} True, no_preference, with_numa_nodes {1, 2} True]
     (TopologyManager_new ''single-numa-node'' ''container'')) = Inr (with_numa_nodes {1} True) \<and>
   (\<exists>e. fst (TopologyManager_admit ''p'' ''c'' [with_numa_nodes {0} True, with_numa_nodes {1} True]
     (TopologyManager_new ''restricted'' ''container'')) = Inl e)"
proof -
  let ?m = "TopologyManager_new ''restricted'' ''container''"
  let ?hs = "[with_numa_nodes {0} True, with_numa_nodes {1} True]"
  have a: "affinities ?hs = [{0}, {1}]" by (simp add: affinities_def map_filter_simps with_numa_nodes_def)
  have p: "tm_policy ?m = TpRestricted" by code_simp
  have "\<exists>e. fst (TopologyManager_admit ''p'' ''c'' ?hs ?m) = Inl e"
    using topology_admission [OF refl, where u = "''p''" and c = "''c''" and hints = ?hs and m = ?m] unfolding a p
    by (auto split: prod.splits sum.splits)
  moreover have "fst (TopologyManager_admit ''p'' ''c'' [with_numa_nodes {0, 1} True, no_preference, with_numa_nodes {1, 2} True]
     (TopologyManager_new ''single-numa-node'' ''container'')) = Inr (with_numa_nodes {1} True)" by code_simp
  ultimately show ?thesis by blast
qed

lemma remove_pod_hints:
  "hm_ok (tm_accepted_hints m) \<Longrightarrow> get_hint u c (remove_pod p m) = (if u = p then None else get_hint u c m)"
  by (simp add: get_hint_def remove_pod_def hm_get_retain split: option.split)

end
