(* ===== verification/Resource_Manager.thy ===== *)
theory Resource_Manager
  imports Memory_Manager Topology_Manager Device_Manager
begin

text \<open>
  The resource manager (\<^verbatim>\<open>kubelet-adapters/src/resource_manager/mod.rs\<close>), which composes the CPU, memory,
  topology and device managers. Quantities are the \<^verbatim>\<open>i64\<close> values of the pod spec.
\<close>

record ContainerResources =
  cr_cpuset_cpus :: string
  cr_cpuset_mems :: string
  cr_device_env :: "(string, string) hmap"
  cr_devices :: "DeviceSpec list"
  cr_device_mounts :: "Mount list"

record ResourceManager =
  rm_cpu :: CpuManager
  rm_memory :: MemoryManager
  rm_topology :: TopologyManager
  rm_device :: DeviceManager

definition parse_cpu_millis :: "int option \<Rightarrow> nat" where
  "parse_cpu_millis s = (case s of Some v \<Rightarrow> nat (max v 0) | None \<Rightarrow> 0)"

definition parse_memory_bytes :: "int option \<Rightarrow> nat" where
  "parse_memory_bytes s = (case s of Some v \<Rightarrow> nat (max v 0) | None \<Rightarrow> 0)"

definition request_of :: "ContainerSpec \<Rightarrow> string \<Rightarrow> int option" where
  "request_of c r = map_option rq_value (hm_get (rr_requests (ctr_resources c)) r)"

definition admit_container :: "PodUID \<Rightarrow> ContainerSpec \<Rightarrow> QosClass \<Rightarrow> ResourceManager \<Rightarrow> unit result \<times> ResourceManager" where
  "admit_container pod_uid c qos m =
     (let hints = [no_preference, with_numa_nodes {0..<numa_node_count (rm_memory m)} True] in
      case TopologyManager_admit pod_uid (ctr_name c) hints (rm_topology m) of
        (Inl e, t) \<Rightarrow> (Inl e, m\<lparr>rm_topology := t\<rparr>)
      | (Inr _, t) \<Rightarrow> (Inr (), m\<lparr>rm_topology := t\<rparr>))"

text \<open>\<^verbatim>\<open>quantity.value.to_string().parse::<usize>().unwrap_or(1)\<close>: a negative quantity does not parse.\<close>

definition device_request :: "int \<Rightarrow> nat" where
  "device_request v = (case parse_uint (2 ^ 64) (show_int v) of Some n \<Rightarrow> n | None \<Rightarrow> 1)"

fun allocate_devices_loop ::
  "(string \<Rightarrow> string list \<Rightarrow> AllocateResponse result) \<Rightarrow> PodUID \<Rightarrow> string \<Rightarrow> (string \<times> ResourceQuantity) list \<Rightarrow>
   (string, string) hmap \<Rightarrow> DeviceSpec list \<Rightarrow> Mount list \<Rightarrow> DeviceManager \<Rightarrow>
   ((string, string) hmap \<times> DeviceSpec list \<times> Mount list) result \<times> DeviceManager" where
  "allocate_devices_loop rpc uid c [] env devices mounts d = (Inr (env, devices, mounts), d)"
| "allocate_devices_loop rpc uid c ((resource, quantity) # rest) env devices mounts d =
     (if resource = ''cpu'' \<or> resource = ''memory'' \<or> resource = ''ephemeral-storage''
      then allocate_devices_loop rpc uid c rest env devices mounts d
      else case DeviceManager_allocate rpc uid c resource (device_request (rq_value quantity)) d of
        (Inr response, d1) \<Rightarrow>
          allocate_devices_loop rpc uid c rest (hm_extend env (ar_envs response)) (devices @ ar_devices response)
            (mounts @ ar_mounts response) d1
      | (Inl e, d1) \<Rightarrow> (Inl e, d1))"

definition ResourceManager_allocate ::
  "(string \<Rightarrow> string list \<Rightarrow> AllocateResponse result) \<Rightarrow> PodSpec \<Rightarrow> ContainerSpec \<Rightarrow> ResourceManager \<Rightarrow>
   ContainerResources result \<times> ResourceManager" where
  "ResourceManager_allocate rpc pod c m =
     (let qos = compute_qos_class pod; uid = ps_uid pod; name = ctr_name c in
      case CpuManager_assign uid name qos (parse_cpu_millis (request_of c ''cpu'')) (rm_cpu m) of
        (Inl e, cm) \<Rightarrow> (Inl e, m\<lparr>rm_cpu := cm\<rparr>)
      | (Inr cpuset, cm) \<Rightarrow>
          (case MemoryManager_assign uid name qos (parse_memory_bytes (request_of c ''memory'')) (rm_memory m) of
             (Inl e, mm) \<Rightarrow> (Inl e, m\<lparr>rm_cpu := cm, rm_memory := mm\<rparr>)
           | (Inr mems, mm) \<Rightarrow>
               (case allocate_devices_loop rpc uid name (rr_limits (ctr_resources c)) [] [] [] (rm_device m) of
                  (Inl e, d) \<Rightarrow> (Inl e, m\<lparr>rm_cpu := cm, rm_memory := mm, rm_device := d\<rparr>)
                | (Inr (env, devices, mounts), d) \<Rightarrow>
                    (Inr \<lparr>cr_cpuset_cpus = to_cpuset_string cpuset, cr_cpuset_mems = mems, cr_device_env = env,
                          cr_devices = devices, cr_device_mounts = mounts\<rparr>,
                     m\<lparr>rm_cpu := cm, rm_memory := mm, rm_device := d\<rparr>))))"

definition release_pod :: "PodUID \<Rightarrow> string list \<Rightarrow> ResourceManager \<Rightarrow> ResourceManager" where
  "release_pod pod_uid containers m =
     m\<lparr>rm_cpu := fold (CpuManager_release pod_uid) containers (rm_cpu m),
       rm_memory := fold (MemoryManager_release pod_uid) containers (rm_memory m),
       rm_topology := remove_pod pod_uid (rm_topology m),
       rm_device := deallocate_pod pod_uid (rm_device m)\<rparr>"

subsection \<open>Invariant\<close>

definition rm_inv :: "NumaNode list \<Rightarrow> ResourceManager \<Rightarrow> bool" where
  "rm_inv nodes m \<longleftrightarrow> cm_inv (rm_cpu m) \<and> mm_inv nodes (rm_memory m) \<and> hm_ok (tm_accepted_hints (rm_topology m)) \<and>
     dm_inv (rm_device m)"

lemma loop_dm_inv:
  "dm_inv d \<Longrightarrow> uid_ok uid \<Longrightarrow> dm_inv (snd (allocate_devices_loop rpc uid c ls env ds ms d))"
proof (induction rpc uid c ls env ds ms d rule: allocate_devices_loop.induct)
  case (2 rpc uid c resource quantity rest env devices mounts d)
  let ?a = "DeviceManager_allocate rpc uid c resource (device_request (rq_value quantity)) d"
  have a: "dm_inv (snd ?a)" using "2.prems" by (rule dm_inv_allocate)
  show ?case
  proof (cases "resource = ''cpu'' \<or> resource = ''memory'' \<or> resource = ''ephemeral-storage''")
    case True
    with 2(1) "2.prems" show ?thesis by simp
  next
    case False
    show ?thesis
    proof (cases "fst ?a")
      case (Inl e)
      with False a show ?thesis by (cases ?a) simp
    next
      case (Inr resp)
      then have eq: "?a = (Inr resp, snd ?a)" by (metis prod.collapse)
      have "dm_inv (snd (allocate_devices_loop rpc uid c rest (hm_extend env (ar_envs resp))
          (devices @ ar_devices resp) (mounts @ ar_mounts resp) (snd ?a)))"
        by (rule 2(2) [OF False eq [symmetric] refl a "2.prems"(2)])
      moreover have "allocate_devices_loop rpc uid c ((resource, quantity) # rest) env devices mounts d =
          allocate_devices_loop rpc uid c rest (hm_extend env (ar_envs resp))
          (devices @ ar_devices resp) (mounts @ ar_mounts resp) (snd ?a)"
        using False by (subst allocate_devices_loop.simps(2), subst eq) simp
      ultimately show ?thesis by simp
    qed
  qed
qed simp

lemma rm_inv_allocate:
  assumes inv: "rm_inv nodes m" and u: "uid_ok (ps_uid pod)"
  shows "rm_inv nodes (snd (ResourceManager_allocate rpc pod c m))"
proof -
  obtain x cm where x: "CpuManager_assign (ps_uid pod) (ctr_name c) (compute_qos_class pod)
      (parse_cpu_millis (request_of c ''cpu'')) (rm_cpu m) = (x, cm)" by fastforce
  obtain y mm where y: "MemoryManager_assign (ps_uid pod) (ctr_name c) (compute_qos_class pod)
      (parse_memory_bytes (request_of c ''memory'')) (rm_memory m) = (y, mm)" by fastforce
  obtain z d where z: "allocate_devices_loop rpc (ps_uid pod) (ctr_name c) (rr_limits (ctr_resources c)) [] [] []
      (rm_device m) = (z, d)" by fastforce
  have "cm_inv cm" "mm_inv nodes mm" "dm_inv d"
    using inv u x y z assign_effect(1) [of "rm_cpu m"] mm_inv_assign [of nodes "rm_memory m"] loop_dm_inv [of "rm_device m"]
    unfolding rm_inv_def by (metis snd_conv)+
  with inv show ?thesis
    unfolding rm_inv_def ResourceManager_allocate_def Let_def x y z
    by (cases x; cases y; cases z) (simp_all add: split_beta)
qed

lemma release_cpus:
  "cm_inv m \<Longrightarrow> cm_inv (fold (CpuManager_release uid) cs m) \<and>
   (\<forall>k. cpus_of (fold (CpuManager_release uid) cs m) k = (if fst k = uid \<and> snd k \<in> set cs then {} else cpus_of m k))"
proof (induction cs arbitrary: m)
  case (Cons c cs)
  note r = release_effect [OF Cons.prems, of uid c]
  from Cons.IH [OF r(3)] r(1) show ?case by (auto split: if_splits)
qed simp

lemma release_memory:
  "mm_inv nodes m \<Longrightarrow> mm_inv nodes (fold (MemoryManager_release uid) cs m) \<and>
   (\<forall>k. hm_get (mm_assignments (fold (MemoryManager_release uid) cs m)) k =
        (if fst k = uid \<and> snd k \<in> set cs then None else hm_get (mm_assignments m) k))"
proof (induction cs arbitrary: m)
  case (Cons c cs)
  have "hm_get (mm_assignments (MemoryManager_release uid c m)) k =
      (if k = (uid, c) then None else hm_get (mm_assignments m) k)" for k
    by (simp add: MemoryManager_release_def split: option.split)
  with Cons.IH [OF mm_inv_release [OF Cons.prems, of uid c]] show ?case by (auto split: if_splits)
qed simp

subsection \<open>Properties\<close>

text \<open>C38: tearing a pod down gives everything back, however far its allocations got. In any state the
  four managers can reach, after \<open>release_pod\<close> with the pod's container names the pod holds no
  exclusive CPU, no pinned memory, no topology hint and no device; the CPUs, memory and devices of
  other pods are untouched, and the CPUs it held are available again.\<close>

theorem release_pod_gives_everything_back:
  assumes inv: "rm_inv nodes m" and u: "uid_ok uid" and c: "c \<in> set containers"
    and m'_def: "m' = release_pod uid containers m"
  shows "cpus_of (rm_cpu m') (uid, c) = {} \<and> hm_get (mm_assignments (rm_memory m')) (uid, c) = None \<and>
    get_hint uid c (rm_topology m') = None \<and>
    alloc_at (dm_plugins (rm_device m')) r (allocation_key uid c) = None \<and>
    cpus_of (rm_cpu m) (uid, c) \<subseteq> set (cm_available_cpus (rm_cpu m')) \<and>
    (uid' \<noteq> uid \<and> uid_ok uid' \<longrightarrow>
       cpus_of (rm_cpu m') (uid', d) = cpus_of (rm_cpu m) (uid', d) \<and>
       hm_get (mm_assignments (rm_memory m')) (uid', d) = hm_get (mm_assignments (rm_memory m)) (uid', d) \<and>
       get_hint uid' d (rm_topology m') = get_hint uid' d (rm_topology m) \<and>
       alloc_at (dm_plugins (rm_device m')) r (allocation_key uid' d) =
         alloc_at (dm_plugins (rm_device m)) r (allocation_key uid' d)) \<and>
    rm_inv nodes m'"
proof -
  have i: "cm_inv (rm_cpu m)" "mm_inv nodes (rm_memory m)" "hm_ok (tm_accepted_hints (rm_topology m))" "dm_inv (rm_device m)"
    using inv by (simp_all add: rm_inv_def)
  let ?cm = "fold (CpuManager_release uid) containers (rm_cpu m)"
  note cpu = release_cpus [OF i(1), of uid containers]
  have const: "cm_total_cpus ?cm = cm_total_cpus (rm_cpu m) \<and> cm_reserved_cpus ?cm = cm_reserved_cpus (rm_cpu m)"
  proof -
    have "fold (CpuManager_release uid) cs x = fold cpu_step (map (\<lambda>c. Release (uid, c)) cs) x" for cs x
      by (induction cs arbitrary: x) simp_all
    then show ?thesis using run_const by metis
  qed
  have "cpus_of (rm_cpu m) (uid, c) \<subseteq> set (cm_total_cpus ?cm) - set (cm_reserved_cpus ?cm)"
    unfolding const [THEN conjunct1] const [THEN conjunct2] cm_invD(7) [OF i(1), symmetric]
    by (rule le_supI2 [OF UN_upper]) simp
  then have "cpus_of (rm_cpu m) (uid, c) \<subseteq> set (cm_available_cpus ?cm) \<union> (\<Union>k. cpus_of ?cm k)"
    using cm_invD(7) [OF conjunct1 [OF cpu]] by simp
  moreover have "cpus_of (rm_cpu m) (uid, c) \<inter> cpus_of ?cm k = {}" for k
    using conjunct2 [OF cpu, rule_format, of k] cm_invD(5) [OF i(1), of "(uid, c)" k] c
    by (cases "k = (uid, c)"; cases "fst k = uid \<and> snd k \<in> set containers") simp_all
  ultimately have given: "cpus_of (rm_cpu m) (uid, c) \<subseteq> set (cm_available_cpus ?cm)" by blast
  note mem = release_memory [OF i(2), of uid containers]
  show ?thesis
    unfolding m'_def rm_inv_def release_pod_def
    using c cpu mem given i u
    by (simp add: remove_pod_hints deallocate_gone deallocate_other dm_inv_deallocate) (simp add: remove_pod_def)
qed

lemma rm_inv_new:
  assumes "cpus_ok total_cpus" "distinct (map nn_id nodes)" "\<forall>n \<in> set nodes. nn_free_bytes n < 2 ^ 64"
  shows "rm_inv nodes \<lparr>rm_cpu = CpuManager_new p total_cpus reserved_cpus, rm_memory = MemoryManager_new q nodes,
    rm_topology = TopologyManager_new tp ts, rm_device = DeviceManager_new dir cp\<rparr>"
  using assms by (simp add: rm_inv_def cm_inv_new mm_inv_new dm_inv_new) (simp add: TopologyManager_new_def)

lemma release_pod_gives_everything_back_witness:
  "let m0 = \<lparr>rm_cpu = CpuManager_new ''static'' [0, 1] [], rm_memory = MemoryManager_new ''Static'' two_nodes,
       rm_topology = TopologyManager_new ''none'' ''pod'', rm_device = DeviceManager_new ''d'' None\<rparr>;
       m = m0\<lparr>rm_cpu := snd (CpuManager_assign ''u'' ''c'' Guaranteed 1000 (rm_cpu m0))\<rparr>
   in cpus_of (rm_cpu m) (''u'', ''c'') = {0} \<and> cpus_of (rm_cpu (release_pod ''u'' [''c''] m)) (''u'', ''c'') = {}"
proof -
  let ?start = "\<lparr>rm_cpu = CpuManager_new ''static'' [0, 1] [], rm_memory = MemoryManager_new ''Static'' two_nodes,
       rm_topology = TopologyManager_new ''none'' ''pod'', rm_device = DeviceManager_new ''d'' None\<rparr>"
  let ?m = "?start\<lparr>rm_cpu := snd (CpuManager_assign ''u'' ''c'' Guaranteed 1000 (rm_cpu ?start))\<rparr>"
  have "cpus_ok [0, 1]" by (simp add: cpus_ok_def bs_ok_def)
  then have inv0: "rm_inv two_nodes ?start" by (rule rm_inv_new) simp_all
  have inv: "rm_inv two_nodes ?m" using inv0 assign_effect(1) [of "rm_cpu ?start"] unfolding rm_inv_def by simp
  have "uid_ok ''u''" "''c'' \<in> set [''c'']" by (simp_all add: uid_ok_def)
  from release_pod_gives_everything_back [OF inv this refl]
  have "cpus_of (rm_cpu (release_pod ''u'' [''c''] ?m)) (''u'', ''c'') = {}" by blast
  moreover have "cpus_of (rm_cpu ?m) (''u'', ''c'') = {0}" by (simp add: cpu_eval)
  ultimately show ?thesis unfolding Let_def by blast
qed

end
