(* ===== verification/Admission.thy ===== *)
theory Admission
  imports Pod_Types
begin

text \<open>
  Node-local admission (\<^verbatim>\<open>kubelet-adapters/src/admission/mod.rs\<close>): the usage account of the node and
  the admission predicates, in the order the code evaluates them. CPU and memory are 64-bit words and
  the pod count a 32-bit word, so that the unchecked additions of the release build wrap as they do there.
\<close>

subsection \<open>Requests and overheads\<close>

definition parse_quantity :: "int option \<Rightarrow> u64" where
  "parse_quantity s = (case s of Some v \<Rightarrow> of_int (max v 0) | None \<Rightarrow> 0)"

definition container_request :: "string \<Rightarrow> ContainerSpec \<Rightarrow> u64" where
  "container_request r c = parse_quantity (map_option rq_value (hm_get (rr_requests (ctr_resources c)) r))"

definition pod_cpu_millis :: "PodSpec \<Rightarrow> u64" where
  "pod_cpu_millis pod = sum_list (map (container_request ''cpu'') (all_containers pod))"

definition pod_memory_bytes :: "PodSpec \<Rightarrow> u64" where
  "pod_memory_bytes pod = sum_list (map (container_request ''memory'') (all_containers pod))"

type_synonym overheads = "(string, (string, string) hmap) hmap"

definition pod_runtime_overhead :: "PodSpec \<Rightarrow> overheads \<Rightarrow> (string, string) hmap option" where
  "pod_runtime_overhead pod overheads = Option.bind (ps_runtime_class_name pod) (hm_get overheads)"

definition parse_u64_or_0 :: "string \<Rightarrow> u64" where
  "parse_u64_or_0 s = (case parse_u64 s of Some n \<Rightarrow> of_nat n | None \<Rightarrow> 0)"

definition parse_cpu_overhead_millis :: "string option \<Rightarrow> u64" where
  "parse_cpu_overhead_millis v =
     (case v of
        None \<Rightarrow> 0
      | Some v \<Rightarrow>
          let s = trim v in
          case strip_suffix ''m'' s of
            Some m \<Rightarrow> parse_u64_or_0 m
          | None \<Rightarrow> sat_mul (parse_u64_or_0 s) 1000)"

definition parse_memory_overhead_bytes :: "string option \<Rightarrow> u64" where
  "parse_memory_overhead_bytes v =
     (case v of
        None \<Rightarrow> 0
      | Some v \<Rightarrow>
          let s = trim v in
          case strip_suffix ''Ki'' s of
            Some x \<Rightarrow> sat_mul (parse_u64_or_0 x) 1024
          | None \<Rightarrow>
              (case strip_suffix ''Mi'' s of
                 Some x \<Rightarrow> sat_mul (sat_mul (parse_u64_or_0 x) 1024) 1024
               | None \<Rightarrow>
                   (case strip_suffix ''Gi'' s of
                      Some x \<Rightarrow> sat_mul (sat_mul (sat_mul (parse_u64_or_0 x) 1024) 1024) 1024
                    | None \<Rightarrow> parse_u64_or_0 s)))"

definition cpu_overhead :: "PodSpec \<Rightarrow> overheads \<Rightarrow> u64" where
  "cpu_overhead pod overheads = parse_cpu_overhead_millis (Option.bind (pod_runtime_overhead pod overheads) (\<lambda>o'. hm_get o' ''cpu''))"

definition memory_overhead :: "PodSpec \<Rightarrow> overheads \<Rightarrow> u64" where
  "memory_overhead pod overheads =
     parse_memory_overhead_bytes (Option.bind (pod_runtime_overhead pod overheads) (\<lambda>o'. hm_get o' ''memory''))"

subsection \<open>The usage account\<close>

record ResourceUsage =
  ru_cpu_millicores :: u64
  ru_memory_bytes :: u64
  ru_overhead_cpu_millicores :: u64
  ru_overhead_memory_bytes :: u64
  ru_pod_count :: u32
  ru_host_ports :: "(nat \<times> string, PodUID) hmap"

definition ResourceUsage_default :: ResourceUsage where
  "ResourceUsage_default = \<lparr>ru_cpu_millicores = 0, ru_memory_bytes = 0, ru_overhead_cpu_millicores = 0,
     ru_overhead_memory_bytes = 0, ru_pod_count = 0, ru_host_ports = []\<rparr>"

definition port_key :: "ContainerPort \<Rightarrow> (nat \<times> string) option" where
  "port_key port = map_option (\<lambda>hp. (hp, Protocol_debug (cp_protocol port))) (cp_host_port port)"

definition add_container :: "PodUID \<Rightarrow> ContainerSpec \<Rightarrow> ResourceUsage \<Rightarrow> ResourceUsage" where
  "add_container uid ctr u =
     u\<lparr>ru_cpu_millicores := ru_cpu_millicores u + container_request ''cpu'' ctr,
       ru_memory_bytes := ru_memory_bytes u + container_request ''memory'' ctr,
       ru_host_ports := fold (\<lambda>port m. case port_key port of Some k \<Rightarrow> hm_insert k uid m | None \<Rightarrow> m)
                             (ctr_ports ctr) (ru_host_ports u)\<rparr>"

definition add_pod_with_overhead :: "PodSpec \<Rightarrow> overheads \<Rightarrow> ResourceUsage \<Rightarrow> ResourceUsage" where
  "add_pod_with_overhead pod overheads u =
     (let u1 = fold (add_container (ps_uid pod)) (all_containers pod) (u\<lparr>ru_pod_count := ru_pod_count u + 1\<rparr>)
      in u1\<lparr>ru_overhead_cpu_millicores := ru_overhead_cpu_millicores u1 + cpu_overhead pod overheads,
            ru_overhead_memory_bytes := ru_overhead_memory_bytes u1 + memory_overhead pod overheads\<rparr>)"

definition add_pod :: "PodSpec \<Rightarrow> ResourceUsage \<Rightarrow> ResourceUsage" where
  "add_pod pod = add_pod_with_overhead pod []"

definition remove_container :: "ContainerSpec \<Rightarrow> ResourceUsage \<Rightarrow> ResourceUsage" where
  "remove_container ctr u =
     u\<lparr>ru_cpu_millicores := sat_sub (ru_cpu_millicores u) (container_request ''cpu'' ctr),
       ru_memory_bytes := sat_sub (ru_memory_bytes u) (container_request ''memory'' ctr),
       ru_host_ports := fold (\<lambda>port m. case port_key port of Some k \<Rightarrow> hm_remove k m | None \<Rightarrow> m)
                             (ctr_ports ctr) (ru_host_ports u)\<rparr>"

definition remove_pod_with_overhead :: "PodSpec \<Rightarrow> overheads \<Rightarrow> ResourceUsage \<Rightarrow> ResourceUsage" where
  "remove_pod_with_overhead pod overheads u =
     (let u1 = fold remove_container (all_containers pod) (u\<lparr>ru_pod_count := sat_sub (ru_pod_count u) 1\<rparr>)
      in u1\<lparr>ru_overhead_cpu_millicores := sat_sub (ru_overhead_cpu_millicores u1) (cpu_overhead pod overheads),
            ru_overhead_memory_bytes := sat_sub (ru_overhead_memory_bytes u1) (memory_overhead pod overheads)\<rparr>)"

definition usage_remove_pod :: "PodSpec \<Rightarrow> ResourceUsage \<Rightarrow> ResourceUsage" where
  "usage_remove_pod pod = remove_pod_with_overhead pod []"

subsection \<open>The controller\<close>

record NodeAllocatable =
  na_cpu_millicores :: u64
  na_memory_bytes :: u64
  na_max_pods :: u32

record NodeTaint =
  nt_key :: string
  nt_value :: "string option"
  nt_effect :: TaintEffect

record AdmissionController =
  ac_allocatable :: NodeAllocatable
  ac_node_labels :: "(string, string) hmap"
  ac_node_taints :: "NodeTaint list"

datatype AdmissionResult = Admit | Reject string

fun TaintEffect_debug :: "TaintEffect \<Rightarrow> string" where
  "TaintEffect_debug NoSchedule = ''NoSchedule''"
| "TaintEffect_debug PreferNoSchedule = ''PreferNoSchedule''"
| "TaintEffect_debug NoExecute = ''NoExecute''"

definition toleration_matches :: "NodeTaint \<Rightarrow> Toleration \<Rightarrow> bool" where
  "toleration_matches taint tol \<longleftrightarrow>
     (case tol_key tol of Some k \<Rightarrow> k = nt_key taint | None \<Rightarrow> True) \<and>
     (case tol_operator tol of TolExists \<Rightarrow> True | TolEqual \<Rightarrow> tol_value tol = nt_value taint)"

definition pod_tolerates_taint :: "PodSpec \<Rightarrow> NodeTaint \<Rightarrow> bool" where
  "pod_tolerates_taint pod taint = list_ex (toleration_matches taint) (ps_tolerations pod)"

definition pod_host_ports :: "PodSpec \<Rightarrow> (nat \<times> string) list" where
  "pod_host_ports pod = List.map_filter port_key (concat (map ctr_ports (all_containers pod)))"

definition port_conflict :: "PodSpec \<Rightarrow> ResourceUsage \<Rightarrow> string option" where
  "port_conflict pod u =
     map_option (\<lambda>(hp, proto). ''port conflict: hostPort '' @ show_nat hp @ ''/'' @ proto @ '' already in use by pod '' @
                   the (hm_get (ru_host_ports u) (hp, proto)))
       (find (\<lambda>k. hm_contains_key k (ru_host_ports u)) (pod_host_ports pod))"

definition selector_mismatch :: "AdmissionController \<Rightarrow> PodSpec \<Rightarrow> string option" where
  "selector_mismatch ac pod =
     map_option (\<lambda>(k, v). ''node selector mismatch: '' @ CHR 0x27 # k @ ''='' @ v @ CHR 0x27 # '' not on node'')
       (find (\<lambda>(k, v). hm_get (ac_node_labels ac) k \<noteq> Some v) (ps_node_selector pod))"

definition untolerated_taint :: "AdmissionController \<Rightarrow> PodSpec \<Rightarrow> string option" where
  "untolerated_taint ac pod =
     map_option (\<lambda>t. ''pod does not tolerate taint '' @ nt_key t @ ''='' @ debug_opt_str (nt_value t) @ '':'' @ TaintEffect_debug (nt_effect t))
       (find (\<lambda>t. (nt_effect t = NoSchedule \<or> nt_effect t = NoExecute) \<and> \<not> pod_tolerates_taint pod t) (ac_node_taints ac))"

definition claim_problem :: "PodSpec \<Rightarrow> string option" where
  "claim_problem pod =
     map_option (\<lambda>c. ''resource claim '' @ CHR 0x27 # rcr_name c @ CHR 0x27 #
                     (if \<not> rcr_allocated c then '' is not allocated'' else '' is not prepared''))
       (find (\<lambda>c. \<not> rcr_allocated c \<or> \<not> rcr_prepared c) (ps_resource_claims pod))"

fun first_rejection :: "string option list \<Rightarrow> AdmissionResult" where
  "first_rejection [] = Admit"
| "first_rejection (Some r # rs) = Reject r"
| "first_rejection (None # rs) = first_rejection rs"

definition admit_with_runtime_overhead ::
  "AdmissionController \<Rightarrow> PodSpec \<Rightarrow> ResourceUsage \<Rightarrow> string set \<Rightarrow> overheads \<Rightarrow> AdmissionResult" where
  "admit_with_runtime_overhead ac pod u known_runtime_classes overheads =
     (let al = ac_allocatable ac;
          requested_cpu = pod_cpu_millis pod + cpu_overhead pod overheads;
          available_cpu = sat_sub (na_cpu_millicores al) (ru_cpu_millicores u + ru_overhead_cpu_millicores u);
          requested_mem = pod_memory_bytes pod + memory_overhead pod overheads;
          available_mem = sat_sub (na_memory_bytes al) (ru_memory_bytes u + ru_overhead_memory_bytes u)
      in first_rejection
        [if na_max_pods al \<le> ru_pod_count u
         then Some (''max pods exceeded: '' @ show_nat (unat (ru_pod_count u)) @ '' / '' @ show_nat (unat (na_max_pods al))) else None,
         if available_cpu < requested_cpu
         then Some (''insufficient CPU: requested '' @ show_nat (unat requested_cpu) @ ''m, available '' @ show_nat (unat available_cpu) @ ''m'') else None,
         if available_mem < requested_mem
         then Some (''insufficient memory: requested '' @ show_nat (unat requested_mem) @ '' bytes, available '' @
                    show_nat (unat available_mem) @ '' bytes'') else None,
         port_conflict pod u,
         (case ps_runtime_class_name pod of
            Some rc \<Rightarrow> if rc \<notin> known_runtime_classes
                       then Some (''RuntimeClass '' @ CHR 0x27 # rc @ CHR 0x27 # '' not available on this node'') else None
          | None \<Rightarrow> None),
         selector_mismatch ac pod,
         untolerated_taint ac pod,
         claim_problem pod])"

definition admit :: "AdmissionController \<Rightarrow> PodSpec \<Rightarrow> ResourceUsage \<Rightarrow> string set \<Rightarrow> AdmissionResult" where
  "admit ac pod u known_runtime_classes = admit_with_runtime_overhead ac pod u known_runtime_classes []"

subsection \<open>What admission implies\<close>

lemma first_rejection_Admit: "first_rejection rs = Admit \<longleftrightarrow> (\<forall>r \<in> set rs. r = None)"
  by (induction rs rule: first_rejection.induct) auto

lemma find_None_iff': "find P xs = None \<longleftrightarrow> (\<forall>x \<in> set xs. \<not> P x)"
  by (auto simp: find_None_iff)

lemma map_filter_append: "List.map_filter f (xs @ ys) = List.map_filter f xs @ List.map_filter f ys"
  by (simp add: List.map_filter_def)

lemma fold_add_containers:
  "fold (add_container uid) cs u =
     u\<lparr>ru_cpu_millicores := ru_cpu_millicores u + sum_list (map (container_request ''cpu'') cs),
       ru_memory_bytes := ru_memory_bytes u + sum_list (map (container_request ''memory'') cs),
       ru_host_ports := fold (\<lambda>k. hm_insert k uid) (List.map_filter port_key (concat (map ctr_ports cs))) (ru_host_ports u)\<rparr>"
proof (induction cs arbitrary: u)
  case (Cons c cs)
  have "fold (\<lambda>port m. case port_key port of Some k \<Rightarrow> hm_insert k uid m | None \<Rightarrow> m) ps m =
      fold (\<lambda>k. hm_insert k uid) (List.map_filter port_key ps) m" for ps m
    by (induction ps arbitrary: m) (auto simp: map_filter_simps split: option.split)
  with Cons show ?case by (simp add: add_container_def map_filter_append add.assoc)
qed (simp add: map_filter_simps)

lemma fold_remove_containers:
  "ru_host_ports (fold remove_container cs u) =
     fold hm_remove (List.map_filter port_key (concat (map ctr_ports cs))) (ru_host_ports u)"
proof (induction cs arbitrary: u)
  case (Cons c cs)
  have "fold (\<lambda>port m. case port_key port of Some k \<Rightarrow> hm_remove k m | None \<Rightarrow> m) ps m =
      fold hm_remove (List.map_filter port_key ps) m" for ps and m :: "(nat \<times> string, PodUID) hmap"
    by (induction ps arbitrary: m) (auto simp: map_filter_simps split: option.split)
  with Cons show ?case by (simp add: remove_container_def map_filter_append)
qed (simp add: map_filter_simps)

lemma hm_get_fold_insert: "hm_get (fold (\<lambda>k. hm_insert k v) ks m) k' = (if k' \<in> set ks then Some v else hm_get m k')"
  by (induction ks arbitrary: m) auto

lemma hm_get_fold_remove: "hm_get (fold hm_remove ks m) k' = (if k' \<in> set ks then None else hm_get m k')"
  by (induction ks arbitrary: m) auto

lemma admit_iff:
  "admit_with_runtime_overhead ac pod u known overheads = Admit \<longleftrightarrow>
     ru_pod_count u < na_max_pods (ac_allocatable ac) \<and>
     pod_cpu_millis pod + cpu_overhead pod overheads \<le>
       sat_sub (na_cpu_millicores (ac_allocatable ac)) (ru_cpu_millicores u + ru_overhead_cpu_millicores u) \<and>
     pod_memory_bytes pod + memory_overhead pod overheads \<le>
       sat_sub (na_memory_bytes (ac_allocatable ac)) (ru_memory_bytes u + ru_overhead_memory_bytes u) \<and>
     (\<forall>k \<in> set (pod_host_ports pod). hm_get (ru_host_ports u) k = None) \<and>
     (\<forall>rc. ps_runtime_class_name pod = Some rc \<longrightarrow> rc \<in> known) \<and>
     (\<forall>(k, v) \<in> set (ps_node_selector pod). hm_get (ac_node_labels ac) k = Some v) \<and>
     (\<forall>t \<in> set (ac_node_taints ac). nt_effect t = PreferNoSchedule \<or> pod_tolerates_taint pod t) \<and>
     (\<forall>c \<in> set (ps_resource_claims pod). rcr_allocated c \<and> rcr_prepared c)"
proof -
  have taint: "(nt_effect t = NoSchedule \<or> nt_effect t = NoExecute) \<longleftrightarrow> nt_effect t \<noteq> PreferNoSchedule" for t
    by (cases "nt_effect t") simp_all
  show ?thesis
    unfolding admit_with_runtime_overhead_def Let_def first_rejection_Admit port_conflict_def selector_mismatch_def
      untolerated_taint_def claim_problem_def taint
    by (simp add: find_None_iff' hm_contains_key_def not_less not_le case_prod_beta split: option.split)
qed

text \<open>The pod's needs as unbounded numbers, and the account after adding it.\<close>

definition cpu_need :: "overheads \<Rightarrow> PodSpec \<Rightarrow> nat" where
  "cpu_need overheads pod = sum_list (map (\<lambda>c. unat (container_request ''cpu'' c)) (all_containers pod)) + unat (cpu_overhead pod overheads)"

definition memory_need :: "overheads \<Rightarrow> PodSpec \<Rightarrow> nat" where
  "memory_need overheads pod = sum_list (map (\<lambda>c. unat (container_request ''memory'' c)) (all_containers pod)) + unat (memory_overhead pod overheads)"

lemma unat_sum_list:
  "sum_list (map (\<lambda>x. unat (f x)) xs) < 2 ^ LENGTH('a) \<Longrightarrow> unat (sum_list (map f xs) :: 'a::len word) = sum_list (map (\<lambda>x. unat (f x)) xs)"
  by (induction xs) (simp_all add: unat_add_lem [THEN iffD1])

lemma add_pod_fields:
  "ru_cpu_millicores (add_pod_with_overhead pod ov u) = ru_cpu_millicores u + pod_cpu_millis pod"
  "ru_memory_bytes (add_pod_with_overhead pod ov u) = ru_memory_bytes u + pod_memory_bytes pod"
  "ru_overhead_cpu_millicores (add_pod_with_overhead pod ov u) = ru_overhead_cpu_millicores u + cpu_overhead pod ov"
  "ru_overhead_memory_bytes (add_pod_with_overhead pod ov u) = ru_overhead_memory_bytes u + memory_overhead pod ov"
  "ru_pod_count (add_pod_with_overhead pod ov u) = ru_pod_count u + 1"
  "hm_get (ru_host_ports (add_pod_with_overhead pod ov u)) k =
     (if k \<in> set (pod_host_ports pod) then Some (ps_uid pod) else hm_get (ru_host_ports u) k)"
  by (simp_all add: add_pod_with_overhead_def Let_def fold_add_containers pod_cpu_millis_def pod_memory_bytes_def
        hm_get_fold_insert pod_host_ports_def map_filter_append)

lemma need_eq:
  assumes "cpu_need ov pod < 2 ^ 64" "memory_need ov pod < 2 ^ 64"
  shows "unat (pod_cpu_millis pod) + unat (cpu_overhead pod ov) = cpu_need ov pod"
    "unat (pod_memory_bytes pod) + unat (memory_overhead pod ov) = memory_need ov pod"
proof -
  have lt: "(a :: nat) < 2 ^ 64" if "a + b < 2 ^ 64" for a b using that by linarith
  have "unat (sum_list (map (container_request ''cpu'') (all_containers pod))) =
      sum_list (map (\<lambda>c. unat (container_request ''cpu'' c)) (all_containers pod))"
    by (rule unat_sum_list) (use lt [OF assms(1) [unfolded cpu_need_def]] in simp)
  then show "unat (pod_cpu_millis pod) + unat (cpu_overhead pod ov) = cpu_need ov pod"
    unfolding pod_cpu_millis_def cpu_need_def by (simp only:)
  have "unat (sum_list (map (container_request ''memory'') (all_containers pod))) =
      sum_list (map (\<lambda>c. unat (container_request ''memory'' c)) (all_containers pod))"
    by (rule unat_sum_list) (use lt [OF assms(2) [unfolded memory_need_def]] in simp)
  then show "unat (pod_memory_bytes pod) + unat (memory_overhead pod ov) = memory_need ov pod"
    unfolding pod_memory_bytes_def memory_need_def by (simp only:)
qed

text \<open>One dimension of the account: a request that fits the remaining room is added without wrapping.\<close>

lemma room_lemma:
  fixes used over limit need oh :: "'a::len word"
  assumes used: "unat used + unat over = total_used" "total_used \<le> unat limit"
    and fits: "need + oh \<le> sat_sub limit (used + over)" and small: "unat need + unat oh < 2 ^ LENGTH('a)"
  shows "unat (used + need) + unat (over + oh) = total_used + (unat need + unat oh)"
    and "total_used + (unat need + unat oh) \<le> unat limit"
proof -
  have lim: "unat limit < 2 ^ LENGTH('a)" by simp
  have "unat used + unat over < 2 ^ LENGTH('a)" using used lim by linarith
  then have uo: "unat (used + over) = total_used" using used(1) by (simp add: unat_add_lem [THEN iffD1])
  have no: "unat (need + oh) = unat need + unat oh" using small by (simp add: unat_add_lem [THEN iffD1])
  from fits have "unat need + unat oh \<le> unat limit - total_used"
    by (simp add: word_le_nat_alt uo no)
  then show tot: "total_used + (unat need + unat oh) \<le> unat limit" using used(2) by linarith
  have "unat used + unat need < 2 ^ LENGTH('a)" "unat over + unat oh < 2 ^ LENGTH('a)"
    using tot used(1) lim by linarith+
  then show "unat (used + need) + unat (over + oh) = total_used + (unat need + unat oh)"
    using used(1) by (simp add: unat_add_lem [THEN iffD1])
qed

text \<open>The sync loop's discipline: a pod is added to the account when it is admitted.\<close>

definition admit_step ::
  "AdmissionController \<Rightarrow> string set \<Rightarrow> overheads \<Rightarrow> PodSpec \<Rightarrow> PodSpec list \<times> ResourceUsage \<Rightarrow> PodSpec list \<times> ResourceUsage" where
  "admit_step ac known ov pod s =
     (if admit_with_runtime_overhead ac pod (snd s) known ov = Admit
      then (fst s @ [pod], add_pod_with_overhead pod ov (snd s)) else s)"

definition usage_inv :: "AdmissionController \<Rightarrow> overheads \<Rightarrow> PodSpec list \<times> ResourceUsage \<Rightarrow> bool" where
  "usage_inv ac ov s \<longleftrightarrow>
     unat (ru_cpu_millicores (snd s)) + unat (ru_overhead_cpu_millicores (snd s)) = sum_list (map (cpu_need ov) (fst s)) \<and>
     sum_list (map (cpu_need ov) (fst s)) \<le> unat (na_cpu_millicores (ac_allocatable ac)) \<and>
     unat (ru_memory_bytes (snd s)) + unat (ru_overhead_memory_bytes (snd s)) = sum_list (map (memory_need ov) (fst s)) \<and>
     sum_list (map (memory_need ov) (fst s)) \<le> unat (na_memory_bytes (ac_allocatable ac)) \<and>
     unat (ru_pod_count (snd s)) = length (fst s) \<and> length (fst s) \<le> unat (na_max_pods (ac_allocatable ac)) \<and>
     (\<forall>p \<in> set (fst s). \<forall>k \<in> set (pod_host_ports p). hm_get (ru_host_ports (snd s)) k \<noteq> None) \<and>
     sorted_wrt (\<lambda>p q. set (pod_host_ports p) \<inter> set (pod_host_ports q) = {}) (fst s)"

lemma usage_inv_step:
  assumes inv: "usage_inv ac ov s" and small: "cpu_need ov pod < 2 ^ 64" "memory_need ov pod < 2 ^ 64"
  shows "usage_inv ac ov (admit_step ac known ov pod s)"
proof (cases "admit_with_runtime_overhead ac pod (snd s) known ov = Admit")
  case False
  with inv show ?thesis by (simp add: admit_step_def)
next
  case True
  let ?u = "snd s" and ?al = "ac_allocatable ac"
  let ?u' = "add_pod_with_overhead pod ov ?u"
  note adm = True [unfolded admit_iff]
  have s': "admit_step ac known ov pod s = (fst s @ [pod], ?u')" using True by (simp add: admit_step_def)
  note need = need_eq [OF small]
  have cpu: "unat (ru_cpu_millicores ?u') + unat (ru_overhead_cpu_millicores ?u') = sum_list (map (cpu_need ov) (fst s)) + cpu_need ov pod"
    "sum_list (map (cpu_need ov) (fst s)) + cpu_need ov pod \<le> unat (na_cpu_millicores ?al)"
    using room_lemma [of "ru_cpu_millicores ?u" "ru_overhead_cpu_millicores ?u" "sum_list (map (cpu_need ov) (fst s))"
      "na_cpu_millicores ?al" "pod_cpu_millis pod" "cpu_overhead pod ov"] inv adm small(1)
    unfolding usage_inv_def need add_pod_fields by simp_all
  have mem: "unat (ru_memory_bytes ?u') + unat (ru_overhead_memory_bytes ?u') = sum_list (map (memory_need ov) (fst s)) + memory_need ov pod"
    "sum_list (map (memory_need ov) (fst s)) + memory_need ov pod \<le> unat (na_memory_bytes ?al)"
    using room_lemma [of "ru_memory_bytes ?u" "ru_overhead_memory_bytes ?u" "sum_list (map (memory_need ov) (fst s))"
      "na_memory_bytes ?al" "pod_memory_bytes pod" "memory_overhead pod ov"] inv adm small(2)
    unfolding usage_inv_def need add_pod_fields by simp_all
  have lt: "unat (ru_pod_count ?u) < unat (na_max_pods ?al)" using adm by (simp add: word_less_nat_alt)
  moreover have "unat (na_max_pods ?al) < 2 ^ LENGTH(32)" by (rule unsigned_less)
  ultimately have "unat (ru_pod_count ?u) + unat (1 :: u32) < 2 ^ LENGTH(32)" by simp
  then have count: "unat (ru_pod_count ?u') = Suc (unat (ru_pod_count ?u))"
    unfolding add_pod_fields by (subst unat_add_lem [THEN iffD1]) simp_all
  have new: "hm_get (ru_host_ports ?u) k = None" if "k \<in> set (pod_host_ports pod)" for k using adm that by blast
  have ports: "\<forall>p \<in> set (fst s). \<forall>k \<in> set (pod_host_ports p). hm_get (ru_host_ports ?u) k \<noteq> None"
    using inv unfolding usage_inv_def by blast
  then have disj: "set (pod_host_ports p) \<inter> set (pod_host_ports pod) = {}" if "p \<in> set (fst s)" for p
    using that new by fastforce
  show ?thesis
    using inv cpu mem lt count ports disj unfolding s' usage_inv_def
    by (simp add: add_pod_fields(6) sorted_wrt_append)
qed

lemma usage_inv_run:
  "usage_inv ac ov s \<Longrightarrow> (\<forall>p \<in> set pods. cpu_need ov p < 2 ^ 64 \<and> memory_need ov p < 2 ^ 64) \<Longrightarrow>
   usage_inv ac ov (fold (admit_step ac known ov) pods s)"
  by (induction pods arbitrary: s) (simp_all add: usage_inv_step)

lemma usage_inv_start: "usage_inv ac ov ([], ResourceUsage_default)"
  by (simp add: usage_inv_def ResourceUsage_default_def)

subsection \<open>Properties\<close>


abbreviation ask_cpu :: "int \<Rightarrow> ContainerSpec" where
  "ask_cpu v \<equiv> ContainerSpec_default\<lparr>ctr_resources := \<lparr>rr_requests = [(''cpu'', cpu_millicores v)], rr_limits = []\<rparr>\<rparr>"

abbreviation small_node :: AdmissionController where
  "small_node \<equiv> \<lparr>ac_allocatable = \<lparr>na_cpu_millicores = 4000, na_memory_bytes = 1024, na_max_pods = 10\<rparr>,
     ac_node_labels = [], ac_node_taints = []\<rparr>"

lemmas admission_eval = pod_cpu_millis_def pod_memory_bytes_def container_request_def parse_quantity_def cpu_overhead_def
  memory_overhead_def pod_runtime_overhead_def parse_cpu_overhead_millis_def parse_memory_overhead_bytes_def
  PodSpec_default_def ContainerSpec_default_def ResourceUsage_default_def cpu_millicores_def


text \<open>without that bound the 64-bit sum wraps. A pod whose three containers ask for
  \<open>2 ^ 63 - 1\<close>, \<open>2 ^ 63 - 1\<close> and 2 millicores, values an \<open>i64\<close> quantity can hold, asks for \<open>2 ^ 64\<close>
  millicores and is admitted on an empty node with four CPUs.\<close>

theorem overflowing_request_admitted:
  "cpu_need [] (PodSpec_default\<lparr>ps_containers := [ask_cpu (2 ^ 63 - 1), ask_cpu (2 ^ 63 - 1), ask_cpu 2]\<rparr>) = 2 ^ 64 \<and>
   admit small_node (PodSpec_default\<lparr>ps_containers := [ask_cpu (2 ^ 63 - 1), ask_cpu (2 ^ 63 - 1), ask_cpu 2]\<rparr>)
     ResourceUsage_default {} = Admit"
  unfolding admit_def admit_iff
  by (simp add: cpu_need_def admission_eval pod_host_ports_def port_key_def map_filter_simps sat_sub_def)

text \<open>which pods are admitted, exactly: those that pass all eight predicates. The pod count is below
  the maximum, CPU and memory with overhead fit what is left (in 64-bit arithmetic), no host port is
  taken, the runtime class is known, the node has the selected labels, every hard taint is tolerated
  and every resource claim is allocated and prepared.\<close>

theorem admission_predicates:
  "admit_with_runtime_overhead ac pod u known ov = Admit \<longleftrightarrow>
     ru_pod_count u < na_max_pods (ac_allocatable ac) \<and>
     pod_cpu_millis pod + cpu_overhead pod ov \<le>
       sat_sub (na_cpu_millicores (ac_allocatable ac)) (ru_cpu_millicores u + ru_overhead_cpu_millicores u) \<and>
     pod_memory_bytes pod + memory_overhead pod ov \<le>
       sat_sub (na_memory_bytes (ac_allocatable ac)) (ru_memory_bytes u + ru_overhead_memory_bytes u) \<and>
     (\<forall>k \<in> set (pod_host_ports pod). hm_get (ru_host_ports u) k = None) \<and>
     (\<forall>rc. ps_runtime_class_name pod = Some rc \<longrightarrow> rc \<in> known) \<and>
     (\<forall>(k, v) \<in> set (ps_node_selector pod). hm_get (ac_node_labels ac) k = Some v) \<and>
     (\<forall>t \<in> set (ac_node_taints ac). nt_effect t = PreferNoSchedule \<or> pod_tolerates_taint pod t) \<and>
     (\<forall>c \<in> set (ps_resource_claims pod). rcr_allocated c \<and> rcr_prepared c)"
  by (rule admit_iff)

lemma admission_predicates_witness:
  "admit_with_runtime_overhead small_node (PodSpec_default\<lparr>ps_containers := [ask_cpu 3000]\<rparr>) ResourceUsage_default {} [] = Admit"
  unfolding admission_predicates
  by (simp add: admission_eval pod_host_ports_def port_key_def map_filter_simps sat_sub_def)

lemma fold_remove_amounts:
  "unat (ru_cpu_millicores (fold remove_container cs u)) = unat (ru_cpu_millicores u) - sum_list (map (\<lambda>c. unat (container_request ''cpu'' c)) cs)"
  "unat (ru_memory_bytes (fold remove_container cs u)) = unat (ru_memory_bytes u) - sum_list (map (\<lambda>c. unat (container_request ''memory'' c)) cs)"
  "ru_overhead_cpu_millicores (fold remove_container cs u) = ru_overhead_cpu_millicores u"
  "ru_overhead_memory_bytes (fold remove_container cs u) = ru_overhead_memory_bytes u"
  "ru_pod_count (fold remove_container cs u) = ru_pod_count u"
  by (induction cs arbitrary: u) (simp_all add: remove_container_def)

lemma sat_sub_add: "unat a + unat b < 2 ^ LENGTH('a) \<Longrightarrow> sat_sub (a + b) b = (a :: 'a::len word)"
  by (simp add: word_unat_eq_iff unat_add_lem [THEN iffD1])

text \<open>removing an admitted pod undoes adding it. When the account has room for the pod in 64 bits,
  every amount returns to its old value and every host port to its old owner.\<close>

theorem remove_pod_undoes_add_pod:
  assumes adm: "admit_with_runtime_overhead ac pod u known ov = Admit"
    and cpu: "unat (ru_cpu_millicores u) + unat (ru_overhead_cpu_millicores u) + cpu_need ov pod < 2 ^ 64"
    and mem: "unat (ru_memory_bytes u) + unat (ru_overhead_memory_bytes u) + memory_need ov pod < 2 ^ 64"
    and u': "u' = remove_pod_with_overhead pod ov (add_pod_with_overhead pod ov u)"
  shows "ru_cpu_millicores u' = ru_cpu_millicores u \<and> ru_memory_bytes u' = ru_memory_bytes u \<and>
    ru_overhead_cpu_millicores u' = ru_overhead_cpu_millicores u \<and>
    ru_overhead_memory_bytes u' = ru_overhead_memory_bytes u \<and> ru_pod_count u' = ru_pod_count u \<and>
    hm_get (ru_host_ports u') k = hm_get (ru_host_ports u) k"
proof -
  let ?v = "add_pod_with_overhead pod ov u"
  have need: "unat (pod_cpu_millis pod) + unat (cpu_overhead pod ov) = cpu_need ov pod"
    "unat (pod_memory_bytes pod) + unat (memory_overhead pod ov) = memory_need ov pod"
    using need_eq [of ov pod] cpu mem by linarith+
  have sums: "sum_list (map (\<lambda>c. unat (container_request ''cpu'' c)) (all_containers pod)) = unat (pod_cpu_millis pod)"
    "sum_list (map (\<lambda>c. unat (container_request ''memory'' c)) (all_containers pod)) = unat (pod_memory_bytes pod)"
    using need unfolding cpu_need_def memory_need_def by linarith+
  have a: "unat (ru_cpu_millicores ?v) = unat (ru_cpu_millicores u) + unat (pod_cpu_millis pod)"
    "unat (ru_memory_bytes ?v) = unat (ru_memory_bytes u) + unat (pod_memory_bytes pod)"
    unfolding add_pod_fields using cpu mem need by (subst unat_add_lem [THEN iffD1]; simp)+
  have b: "sat_sub (ru_overhead_cpu_millicores u + cpu_overhead pod ov) (cpu_overhead pod ov) = ru_overhead_cpu_millicores u"
    "sat_sub (ru_overhead_memory_bytes u + memory_overhead pod ov) (memory_overhead pod ov) = ru_overhead_memory_bytes u"
    using cpu mem need by (intro sat_sub_add; simp)+
  have "ru_pod_count u < na_max_pods (ac_allocatable ac)" using adm unfolding admit_iff by blast
  moreover have "unat (na_max_pods (ac_allocatable ac)) < 2 ^ LENGTH(32)" by (rule unsigned_less)
  ultimately have c: "sat_sub (ru_pod_count u + 1) 1 = ru_pod_count u"
    by (intro sat_sub_add) (simp add: word_less_nat_alt)
  have "hm_get (ru_host_ports u) k = None" if "k \<in> set (pod_host_ports pod)" using adm that unfolding admit_iff by blast
  moreover have "hm_get (ru_host_ports u') k =
      (if k \<in> set (pod_host_ports pod) then None else hm_get (ru_host_ports ?v) k)"
    unfolding u' remove_pod_with_overhead_def Let_def
    by (simp add: fold_remove_containers hm_get_fold_remove pod_host_ports_def [symmetric] del: map_append concat_append fold_append)
  ultimately have p: "hm_get (ru_host_ports u') k = hm_get (ru_host_ports u) k" by (simp add: add_pod_fields)
  have "unat (ru_cpu_millicores u') = unat (ru_cpu_millicores u)" "unat (ru_memory_bytes u') = unat (ru_memory_bytes u)"
    unfolding u' remove_pod_with_overhead_def Let_def
    using a by (simp_all add: fold_remove_amounts sums del: map_append sum_list_append fold_append)
  with p b c show ?thesis
    unfolding word_unat_eq_iff [where 'a = 64]
    by (simp add: u' remove_pod_with_overhead_def Let_def fold_remove_amounts(3-5) add_pod_fields(3-5) del: map_append fold_append)
qed

lemma remove_pod_undoes_add_pod_witness:
  "ru_cpu_millicores (remove_pod_with_overhead (PodSpec_default\<lparr>ps_containers := [ask_cpu 3000]\<rparr>) []
     (add_pod_with_overhead (PodSpec_default\<lparr>ps_containers := [ask_cpu 3000]\<rparr>) [] ResourceUsage_default)) = 0"
proof -
  let ?p = "PodSpec_default\<lparr>ps_containers := [ask_cpu 3000]\<rparr>"
  have "admit_with_runtime_overhead small_node ?p ResourceUsage_default {} [] = Admit"
    unfolding admit_iff by (simp add: admission_eval pod_host_ports_def port_key_def map_filter_simps sat_sub_def)
  moreover have "unat (ru_cpu_millicores ResourceUsage_default) + unat (ru_overhead_cpu_millicores ResourceUsage_default) +
      cpu_need [] ?p < 2 ^ 64"
    "unat (ru_memory_bytes ResourceUsage_default) + unat (ru_overhead_memory_bytes ResourceUsage_default) +
      memory_need [] ?p < 2 ^ 64"
    by (simp_all add: cpu_need_def memory_need_def admission_eval)
  ultimately show ?thesis
    using remove_pod_undoes_add_pod [OF _ _ _ refl, of small_node ?p ResourceUsage_default "{}" "[]"]
    by (simp add: ResourceUsage_default_def)
qed

text \<open>The effect of a toleration is ignored: changing it changes no admission decision, so a
  toleration for \<open>NoSchedule\<close> also admits the pod past a \<open>NoExecute\<close> taint of the same key.\<close>

theorem toleration_effect_ignored:
  "admit_with_runtime_overhead ac (pod\<lparr>ps_tolerations := map (\<lambda>t. t\<lparr>tol_effect := e t\<rparr>) (ps_tolerations pod)\<rparr>) u known ov =
   admit_with_runtime_overhead ac pod u known ov"
proof -
  have "toleration_matches taint (t\<lparr>tol_effect := x\<rparr>) = toleration_matches taint t" for taint t x
    by (simp add: toleration_matches_def split: TolerationOperator.split)
  then have "pod_tolerates_taint (pod\<lparr>ps_tolerations := map (\<lambda>t. t\<lparr>tol_effect := e t\<rparr>) (ps_tolerations pod)\<rparr>) taint =
      pod_tolerates_taint pod taint" for taint
    by (simp add: pod_tolerates_taint_def list_ex_iff)
  then show ?thesis
    unfolding admit_with_runtime_overhead_def untolerated_taint_def
    by (simp add: pod_cpu_millis_def pod_memory_bytes_def cpu_overhead_def memory_overhead_def pod_runtime_overhead_def
        port_conflict_def pod_host_ports_def selector_mismatch_def claim_problem_def)
qed

end
