(* ===== verification/Sync_Slots.thy ===== *)
theory Sync_Slots
  imports Pod_Types
begin

text \<open>
  The per-pod sync tasks of the runtime manager (\<^verbatim>\<open>sync_pod\<close>, \<^verbatim>\<open>delete_pod\<close> and the task part of
  \<^verbatim>\<open>evict_pod\<close> in \<^verbatim>\<open>kubelet-app/src/runtime_manager/mod.rs\<close>) as an interleaving of atomic steps, one step
  per acquisition of a lock. The types of pod specs (\<open>'p\<close>) and of the worker's runtime state (\<open>'s\<close>) are
  parameters, as are what the worker answers, what \<^verbatim>\<open>pod_manager.get\<close> answers at each step, and the
  default runtime state.
\<close>

subsection \<open>State\<close>

record PodSyncSlot =
  slot_running :: bool
  slot_pending :: bool
  slot_retry_count :: u32

definition PodSyncSlot_default :: PodSyncSlot where
  "PodSyncSlot_default = \<lparr>slot_running = False, slot_pending = False, slot_retry_count = 0\<rparr>"

text \<open>Where a task stands. A sync task loops over taking the runtime state, running the worker,
  storing the state and clearing the retry count or bumping it and sleeping, and deciding whether
  to go on; then it clears the slot. A delete or eviction task takes the state, terminates the
  pod, polls the slot until it is free or 30 seconds have passed, and cleans up.\<close>

datatype 's task_pc =
    TkTake | TkWork 's | TkReset | TkBump | TkSleep nat | TkDecide | TkCleanup | TkDone
  | DkTake | DkTerminate 's | DkDrain | DkCleanup | DkDone

record ('p, 's) task =
  tk_uid :: PodUID
  tk_pod :: 'p
  tk_pc :: "'s task_pc"

record ('p, 's) sync_sys =
  sy_slots :: "(PodUID, PodSyncSlot) hmap"
  sy_states :: "(PodUID, 's) hmap"
  sy_deleting :: "PodUID set"
  sy_tasks :: "('p, 's) task list"

definition sync_init :: "('p, 's) sync_sys" where
  "sync_init = \<lparr>sy_slots = [], sy_states = [], sy_deleting = {}, sy_tasks = []\<rparr>"

subsection \<open>Entering\<close>

text \<open>The critical section of \<^verbatim>\<open>sync_pod\<close>: coalesce, or mark the slot running and spawn a task.\<close>

definition sync_pod :: "PodUID \<Rightarrow> 'p \<Rightarrow> ('p, 's) sync_sys \<Rightarrow> ('p, 's) sync_sys" where
  "sync_pod uid pod s =
     (let slot = (case hm_get (sy_slots s) uid of Some sl \<Rightarrow> sl | None \<Rightarrow> PodSyncSlot_default) in
      if slot_running slot
      then s\<lparr>sy_slots := hm_insert uid (slot\<lparr>slot_pending := True\<rparr>) (sy_slots s)\<rparr>
      else s\<lparr>sy_slots := hm_insert uid (slot\<lparr>slot_running := True\<rparr>) (sy_slots s),
             sy_tasks := sy_tasks s @ [\<lparr>tk_uid = uid, tk_pod = pod, tk_pc = TkTake\<rparr>]\<rparr>)"

definition delete_pod :: "PodUID \<Rightarrow> 'p \<Rightarrow> ('p, 's) sync_sys \<Rightarrow> ('p, 's) sync_sys" where
  "delete_pod uid pod s =
     s\<lparr>sy_deleting := insert uid (sy_deleting s),
       sy_tasks := sy_tasks s @ [\<lparr>tk_uid = uid, tk_pod = pod, tk_pc = DkTake\<rparr>]\<rparr>"

text \<open>Evicting spawns the same kind of task but does not mark the pod as being deleted.\<close>

definition evict_task :: "PodUID \<Rightarrow> 'p \<Rightarrow> ('p, 's) sync_sys \<Rightarrow> ('p, 's) sync_sys" where
  "evict_task uid pod s = s\<lparr>sy_tasks := sy_tasks s @ [\<lparr>tk_uid = uid, tk_pod = pod, tk_pc = DkTake\<rparr>]\<rparr>"

subsection \<open>Steps of the tasks\<close>

text \<open>\<^verbatim>\<open>500 * 2^(min(n, 6) - 1)\<close> milliseconds, at most 30 seconds, with saturating arithmetic.\<close>

definition backoff_ms :: "u32 \<Rightarrow> u64" where
  "backoff_ms retry_count =
     min (sat_mul 500 (push_bit (unat (sat_sub (min retry_count 6) 1)) 1)) 30000"

definition set_task :: "nat \<Rightarrow> ('p, 's) task \<Rightarrow> ('p, 's) sync_sys \<Rightarrow> ('p, 's) sync_sys" where
  "set_task i t s = s\<lparr>sy_tasks := (sy_tasks s)[i := t]\<rparr>"

definition goto :: "nat \<Rightarrow> 's task_pc \<Rightarrow> ('p, 's) sync_sys \<Rightarrow> ('p, 's) sync_sys" where
  "goto i pc s = set_task i ((sy_tasks s ! i)\<lparr>tk_pc := pc\<rparr>) s"

definition take_state :: "'s \<Rightarrow> PodUID \<Rightarrow> ('p, 's) sync_sys \<Rightarrow> 's \<times> ('p, 's) sync_sys" where
  "take_state dflt uid s =
     ((case hm_get (sy_states s) uid of Some st \<Rightarrow> st | None \<Rightarrow> dflt),
      s\<lparr>sy_states := hm_remove uid (sy_states s)\<rparr>)"

definition put_state :: "PodUID \<Rightarrow> 's \<Rightarrow> ('p, 's) sync_sys \<Rightarrow> ('p, 's) sync_sys" where
  "put_state uid st s = s\<lparr>sy_states := hm_insert uid st (sy_states s)\<rparr>"

text \<open>The worker of task \<open>i\<close> returns \<open>result\<close>, having changed the runtime state to \<open>st\<close>.\<close>

definition worker_returns :: "nat \<Rightarrow> PodSyncResult \<Rightarrow> 's \<Rightarrow> ('p, 's) sync_sys \<Rightarrow> ('p, 's) sync_sys" where
  "worker_returns i result st s =
     (let uid = tk_uid (sy_tasks s ! i) in
      case result of
        Synced \<Rightarrow> goto i TkReset (put_state uid st s)
      | NeedsRetry _ \<Rightarrow> goto i TkBump (put_state uid st s)
      | SyncFailed _ \<Rightarrow> goto i TkDecide (put_state uid st s)
      | SyncTerminated \<Rightarrow> goto i TkDecide (s\<lparr>sy_states := hm_remove uid (sy_states s)\<rparr>))"

text \<open>After the loop body: run again with the newest spec if an update is pending, else free the slot.\<close>

definition decide :: "(PodUID \<Rightarrow> 'p option) \<Rightarrow> nat \<Rightarrow> ('p, 's) sync_sys \<Rightarrow> ('p, 's) sync_sys" where
  "decide get i s =
     (let t = sy_tasks s ! i; uid = tk_uid t in
      case hm_get (sy_slots s) uid of
        Some slot \<Rightarrow>
          if slot_pending slot then
            (let s1 = s\<lparr>sy_slots := hm_insert uid (slot\<lparr>slot_pending := False\<rparr>) (sy_slots s)\<rparr> in
             case get uid of
               Some pod \<Rightarrow> set_task i (t\<lparr>tk_pod := pod, tk_pc := TkTake\<rparr>) s1
             | None \<Rightarrow> goto i TkCleanup s1)
          else goto i TkCleanup (s\<lparr>sy_slots := hm_remove uid (sy_slots s)\<rparr>)
      | None \<Rightarrow> goto i TkCleanup s)"

definition wake :: "(PodUID \<Rightarrow> 'p option) \<Rightarrow> nat \<Rightarrow> ('p, 's) sync_sys \<Rightarrow> ('p, 's) sync_sys" where
  "wake get i s =
     (let t = sy_tasks s ! i; uid = tk_uid t in
      case hm_get (sy_slots s) uid of
        Some slot \<Rightarrow>
          if slot_pending slot then
            (let s1 = s\<lparr>sy_slots := hm_insert uid (slot\<lparr>slot_pending := False\<rparr>) (sy_slots s)\<rparr> in
             case get uid of
               Some pod \<Rightarrow> set_task i (t\<lparr>tk_pod := pod, tk_pc := TkTake\<rparr>) s1
             | None \<Rightarrow> goto i TkTake s1)
          else goto i TkTake s
      | None \<Rightarrow> goto i TkTake s)"

definition bump_retry :: "nat \<Rightarrow> ('p, 's) sync_sys \<Rightarrow> ('p, 's) sync_sys" where
  "bump_retry i s =
     (let uid = tk_uid (sy_tasks s ! i);
          slot = (case hm_get (sy_slots s) uid of Some sl \<Rightarrow> sl | None \<Rightarrow> PodSyncSlot_default);
          n = sat_add (slot_retry_count slot) 1
      in goto i (TkSleep (unat (backoff_ms n)))
           (s\<lparr>sy_slots := hm_insert uid (slot\<lparr>slot_retry_count := n\<rparr>) (sy_slots s)\<rparr>))"

definition reset_retry :: "nat \<Rightarrow> ('p, 's) sync_sys \<Rightarrow> ('p, 's) sync_sys" where
  "reset_retry i s =
     (let uid = tk_uid (sy_tasks s ! i)
      in goto i TkDecide (s\<lparr>sy_slots := hm_modify uid (\<lambda>sl. sl\<lparr>slot_retry_count := 0\<rparr>) (sy_slots s)\<rparr>))"

definition slot_busy :: "PodUID \<Rightarrow> ('p, 's) sync_sys \<Rightarrow> bool" where
  "slot_busy uid s = (case hm_get (sy_slots s) uid of Some sl \<Rightarrow> slot_running sl | None \<Rightarrow> False)"

datatype ('p, 's) label =
    LSync PodUID 'p
  | LDelete PodUID 'p
  | LEvict PodUID 'p
  | LTask nat
  | LWorker nat PodSyncResult 's
  | LDeadline nat

text \<open>One step; \<open>None\<close> when the step is not enabled. \<open>LTask i\<close> is the next lock-protected action of
  task \<open>i\<close>; \<open>LDeadline i\<close> is a drain poll that finds its 30 seconds over.\<close>

fun sync_step :: "'s \<Rightarrow> (PodUID \<Rightarrow> 'p option) \<Rightarrow> ('p, 's) label \<Rightarrow> ('p, 's) sync_sys \<Rightarrow> ('p, 's) sync_sys option" where
  "sync_step dflt get (LSync uid pod) s = Some (sync_pod uid pod s)"
| "sync_step dflt get (LDelete uid pod) s = Some (delete_pod uid pod s)"
| "sync_step dflt get (LEvict uid pod) s = Some (evict_task uid pod s)"
| "sync_step dflt get (LWorker i result st) s =
     (if i < length (sy_tasks s)
      then (case tk_pc (sy_tasks s ! i) of TkWork _ \<Rightarrow> Some (worker_returns i result st s) | _ \<Rightarrow> None)
      else None)"
| "sync_step dflt get (LDeadline i) s =
     (if i < length (sy_tasks s)
      then (case tk_pc (sy_tasks s ! i) of DkDrain \<Rightarrow> Some (goto i DkCleanup s) | _ \<Rightarrow> None)
      else None)"
| "sync_step dflt get (LTask i) s =
     (if i < length (sy_tasks s) then
        (let uid = tk_uid (sy_tasks s ! i) in
         case tk_pc (sy_tasks s ! i) of
           TkTake \<Rightarrow> (let (st, s1) = take_state dflt uid s in Some (goto i (TkWork st) s1))
         | TkReset \<Rightarrow> Some (reset_retry i s)
         | TkBump \<Rightarrow> Some (bump_retry i s)
         | TkSleep _ \<Rightarrow> Some (wake get i s)
         | TkDecide \<Rightarrow> Some (decide get i s)
         | TkCleanup \<Rightarrow> Some (goto i TkDone (s\<lparr>sy_slots := hm_remove uid (sy_slots s)\<rparr>))
         | DkTake \<Rightarrow> (let (st, s1) = take_state dflt uid s in Some (goto i (DkTerminate st) s1))
         | DkTerminate _ \<Rightarrow> Some (goto i DkDrain s)
         | DkDrain \<Rightarrow> Some (if slot_busy uid s then s else goto i DkCleanup s)
         | DkCleanup \<Rightarrow> Some (goto i DkDone (s\<lparr>sy_deleting := sy_deleting s - {uid}\<rparr>))
         | _ \<Rightarrow> None)
      else None)"

definition active_pod_count :: "('p, 's) sync_sys \<Rightarrow> nat" where
  "active_pod_count s =
     length (sy_states s) +
     length (filter (\<lambda>(uid, sl). slot_running sl \<and> uid \<notin> sy_deleting s) (sy_slots s))"

subsection \<open>Sync tasks and their slots\<close>

fun sync_live :: "'s task_pc \<Rightarrow> bool" where
  "sync_live TkDone = False"
| "sync_live DkTake = False"
| "sync_live (DkTerminate _) = False"
| "sync_live DkDrain = False"
| "sync_live DkCleanup = False"
| "sync_live DkDone = False"
| "sync_live _ = True"

definition live_tasks :: "PodUID \<Rightarrow> ('p, 's) sync_sys \<Rightarrow> ('p, 's) task list" where
  "live_tasks uid s = filter (\<lambda>t. tk_uid t = uid \<and> sync_live (tk_pc t)) (sy_tasks s)"

text \<open>The well-behaved executions: nobody asks for a sync of a pod in the window in which a task of the
  pod has left its loop but not yet run its final clearing of the slot.\<close>

fun quiet :: "('p, 's) label \<Rightarrow> ('p, 's) sync_sys \<Rightarrow> bool" where
  "quiet (LSync uid pod) s = (\<forall>t \<in> set (live_tasks uid s). tk_pc t \<noteq> TkCleanup)"
| "quiet _ s = True"

inductive steps :: "'s \<Rightarrow> bool \<Rightarrow> ('p, 's) sync_sys \<Rightarrow> bool" for dflt quiet_only where
  init: "steps dflt quiet_only sync_init"
| step: "steps dflt quiet_only s \<Longrightarrow> sync_step dflt get l s = Some s' \<Longrightarrow> (quiet_only \<longrightarrow> quiet l s) \<Longrightarrow>
         steps dflt quiet_only s'"

inductive_cases steps_cases: "steps dflt q s"

definition slot_inv :: "('p, 's) sync_sys \<Rightarrow> PodUID \<Rightarrow> bool" where
  "slot_inv s uid \<longleftrightarrow>
     (\<forall>sl. hm_get (sy_slots s) uid = Some sl \<longrightarrow> slot_running sl) \<and>
     (case live_tasks uid s of
        [] \<Rightarrow> hm_get (sy_slots s) uid = None
      | [t] \<Rightarrow>
          (case hm_get (sy_slots s) uid of
             None \<Rightarrow> tk_pc t = TkCleanup
           | Some sl \<Rightarrow> tk_pc t = TkCleanup \<longrightarrow> \<not> slot_pending sl)
      | _ \<Rightarrow> False)"

lemma filter_single:
  assumes "length (filter P xs) \<le> 1" "i < length xs" "P (xs ! i)"
  shows "filter P xs = [xs ! i]" "filter P (xs[i := y]) = (if P y then [y] else [])"
proof -
  have xs: "xs = take i xs @ xs ! i # drop (Suc i) xs" using assms(2) by (rule id_take_nth_drop)
  have "filter P xs = filter P (take i xs) @ xs ! i # filter P (drop (Suc i) xs)"
    by (subst xs) (simp add: assms(3))
  with assms(1) have e: "filter P (take i xs) = []" "filter P (drop (Suc i) xs) = []" by simp_all
  with \<open>filter P xs = _\<close> show "filter P xs = [xs ! i]" by simp
  show "filter P (xs[i := y]) = (if P y then [y] else [])"
    by (simp add: upd_conv_take_nth_drop [OF assms(2)] e)
qed

lemma filter_update_other: "i < length xs \<Longrightarrow> \<not> P (xs ! i) \<Longrightarrow> \<not> P y \<Longrightarrow> filter P (xs[i := y]) = filter P xs"
proof -
  assume a: "i < length xs" "\<not> P (xs ! i)" "\<not> P y"
  have "filter P xs = filter P (take i xs) @ filter P (drop (Suc i) xs)"
    by (subst id_take_nth_drop [OF a(1)]) (simp add: a(2))
  then show ?thesis by (simp add: upd_conv_take_nth_drop [OF a(1)] a(3))
qed

lemma slot_inv_cong:
  "hm_get (sy_slots s') u = hm_get (sy_slots s) u \<Longrightarrow> live_tasks u s' = live_tasks u s \<Longrightarrow> slot_inv s' u = slot_inv s u"
  unfolding slot_inv_def by (simp only:)

lemma slot_inv_length: "slot_inv s uid \<Longrightarrow> length (live_tasks uid s) \<le> 1"
  by (auto simp: slot_inv_def split: list.splits)

text \<open>A live sync task moves on, touching only its own slot.\<close>

lemma slot_inv_move:
  assumes inv: "\<And>u. slot_inv s u" and i: "i < length (sy_tasks s)"
    and live: "sync_live (tk_pc (sy_tasks s ! i))" and uid: "tk_uid t' = tk_uid (sy_tasks s ! i)"
    and s': "sy_tasks s' = (sy_tasks s)[i := t']"
    and other: "\<And>u. u \<noteq> tk_uid t' \<Longrightarrow> hm_get (sy_slots s') u = hm_get (sy_slots s) u"
    and own: "\<And>sl. hm_get (sy_slots s') (tk_uid t') = Some sl \<Longrightarrow> slot_running sl \<and> (tk_pc t' = TkCleanup \<longrightarrow> \<not> slot_pending sl)"
    and pc: "if sync_live (tk_pc t') then hm_get (sy_slots s') (tk_uid t') = None \<longrightarrow> tk_pc t' = TkCleanup
             else hm_get (sy_slots s') (tk_uid t') = None"
  shows "slot_inv s' u"
proof (cases "u = tk_uid t'")
  case True
  let ?P = "\<lambda>t. tk_uid t = u \<and> sync_live (tk_pc t)"
  have "length (filter ?P (sy_tasks s)) \<le> 1" using slot_inv_length [OF inv [of u]] by (simp add: live_tasks_def)
  from filter_single(2) [OF this i, of t'] have "live_tasks u s' = (if sync_live (tk_pc t') then [t'] else [])"
    using live uid True by (simp add: live_tasks_def s')
  with own pc True show ?thesis by (auto simp: slot_inv_def split: if_splits option.split)
next
  case False
  have "live_tasks u s' = live_tasks u s"
    using False uid i unfolding live_tasks_def s' by (intro filter_update_other) auto
  from slot_inv_cong [OF other [OF False] this] inv [of u] show ?thesis by simp
qed

text \<open>Steps of delete and eviction tasks leave slots and sync tasks alone.\<close>

lemma slot_inv_frame:
  assumes inv: "\<And>u. slot_inv s u" and i: "i < length (sy_tasks s)"
    and dead: "\<not> sync_live (tk_pc (sy_tasks s ! i))" "\<not> sync_live (tk_pc t')"
    and s': "sy_tasks s' = (sy_tasks s)[i := t']" "sy_slots s' = sy_slots s"
  shows "slot_inv s' u"
proof -
  have "live_tasks u s' = live_tasks u s"
    using dead i unfolding live_tasks_def s'(1) by (intro filter_update_other) auto
  with inv [of u] show ?thesis by (subst slot_inv_cong) (simp_all add: s'(2))
qed

lemma slot_inv_sync_pod:
  assumes inv: "\<And>u. slot_inv s u" and q: "quiet (LSync uid pod) s"
  shows "slot_inv (sync_pod uid pod s) u"
proof (cases "u = uid")
  case False
  then have "hm_get (sy_slots (sync_pod uid pod s)) u = hm_get (sy_slots s) u" "live_tasks u (sync_pod uid pod s) = live_tasks u s"
    by (simp_all add: sync_pod_def Let_def live_tasks_def)
  from slot_inv_cong [OF this] inv [of u] show ?thesis by simp
next
  case True
  show ?thesis
  proof (cases "hm_get (sy_slots s) uid")
    case None
    with inv [of uid] q have "live_tasks uid s = []" by (auto simp: slot_inv_def split: list.splits)
    with None True show ?thesis
      by (simp add: sync_pod_def Let_def PodSyncSlot_default_def slot_inv_def live_tasks_def)
  next
    case (Some sl)
    with inv [of uid] have "slot_running sl" by (simp add: slot_inv_def)
    moreover have "\<forall>t \<in> set (live_tasks uid s). tk_pc t \<noteq> TkCleanup" using q by simp
    moreover have "live_tasks uid (sync_pod uid pod s) = live_tasks uid s"
      using Some \<open>slot_running sl\<close> by (simp add: sync_pod_def live_tasks_def)
    ultimately show ?thesis using Some True inv [of uid]
      by (auto simp: slot_inv_def split: list.splits) (auto simp: sync_pod_def)
  qed
qed

lemma slot_inv_append:
  assumes "\<And>u. slot_inv s u" "\<not> sync_live (tk_pc t)" "sy_tasks s' = sy_tasks s @ [t]" "sy_slots s' = sy_slots s"
  shows "slot_inv s' u"
proof -
  have "live_tasks u s' = live_tasks u s" using assms by (simp add: live_tasks_def)
  with assms(1) [of u] show ?thesis by (subst slot_inv_cong) (simp_all add: assms(4))
qed

lemmas task_defs = goto_def set_task_def put_state_def take_state_def worker_returns_def decide_def wake_def
  bump_retry_def reset_retry_def Let_def

text \<open>A live task that is still in its loop owns a running slot.\<close>

lemma live_slot:
  assumes "slot_inv s (tk_uid (sy_tasks s ! i))" "i < length (sy_tasks s)" "sync_live (tk_pc (sy_tasks s ! i))"
    "tk_pc (sy_tasks s ! i) \<noteq> TkCleanup"
  obtains sl where "hm_get (sy_slots s) (tk_uid (sy_tasks s ! i)) = Some sl" "slot_running sl"
proof -
  let ?u = "tk_uid (sy_tasks s ! i)"
  let ?P = "\<lambda>t. tk_uid t = ?u \<and> sync_live (tk_pc t)"
  have "length (filter ?P (sy_tasks s)) \<le> 1" using slot_inv_length [OF assms(1)] by (simp add: live_tasks_def)
  from filter_single(1) [OF this assms(2)] have "live_tasks ?u s = [sy_tasks s ! i]"
    using assms(3) by (simp add: live_tasks_def)
  with assms(1,4) that show ?thesis by (auto simp: slot_inv_def split: option.splits)
qed

lemma slot_inv_worker:
  assumes inv: "\<And>u. slot_inv s u" and i: "i < length (sy_tasks s)" and pc: "tk_pc (sy_tasks s ! i) = TkWork st0"
  shows "slot_inv (worker_returns i result st s) u"
proof -
  let ?t = "sy_tasks s ! i"
  from live_slot [OF inv i] pc obtain sl where sl: "hm_get (sy_slots s) (tk_uid ?t) = Some sl" "slot_running sl" by auto
  define pc' :: "'b task_pc" where "pc' = (case result of Synced \<Rightarrow> TkReset | NeedsRetry _ \<Rightarrow> TkBump | _ \<Rightarrow> TkDecide)"
  have pc': "sync_live pc'" "pc' \<noteq> TkCleanup" by (simp_all add: pc'_def split: PodSyncResult.split)
  have w: "sy_tasks (worker_returns i result st s) = (sy_tasks s)[i := ?t\<lparr>tk_pc := pc'\<rparr>]"
    "sy_slots (worker_returns i result st s) = sy_slots s"
    by (simp_all add: task_defs pc'_def split: PodSyncResult.split)
  show ?thesis
    by (rule slot_inv_move [OF inv i _ _ w(1)]) (simp_all add: pc pc' w(2) sl)
qed

lemma slot_inv_task:
  assumes inv: "\<And>u. slot_inv s u" and i: "i < length (sy_tasks s)" and s': "sync_step dflt get (LTask i) s = Some s'"
  shows "slot_inv s' u"
proof -
  let ?t = "sy_tasks s ! i"
  let ?uid = "tk_uid ?t"
  have owned: "\<exists>sl. hm_get (sy_slots s) ?uid = Some sl \<and> slot_running sl" if "sync_live (tk_pc ?t)" "tk_pc ?t \<noteq> TkCleanup"
    using live_slot [OF inv i that] by metis
  note move = slot_inv_move [OF inv i] and frame = slot_inv_frame [OF inv i]
  show ?thesis
  proof (cases "tk_pc ?t")
    case TkTake
    with owned obtain sl where "hm_get (sy_slots s) ?uid = Some sl" "slot_running sl" by auto
    with s' i TkTake show ?thesis
      by (intro move [where t' = "?t\<lparr>tk_pc := TkWork (fst (take_state dflt ?uid s))\<rparr>"]) (auto simp: task_defs)
  next
    case TkReset
    with owned obtain sl where "hm_get (sy_slots s) ?uid = Some sl" "slot_running sl" by auto
    with s' i TkReset show ?thesis
      by (intro move [where t' = "?t\<lparr>tk_pc := TkDecide\<rparr>"]) (auto simp: task_defs)
  next
    case TkBump
    with owned obtain sl where sl: "hm_get (sy_slots s) ?uid = Some sl" "slot_running sl" by auto
    with s' i TkBump show ?thesis
      by (intro move [where t' = "?t\<lparr>tk_pc := TkSleep (unat (backoff_ms (sat_add (slot_retry_count sl) 1)))\<rparr>"]) (auto simp: task_defs)
  next
    case (TkSleep n)
    with owned obtain sl where sl: "hm_get (sy_slots s) ?uid = Some sl" "slot_running sl" by auto
    let ?pod = "case get ?uid of Some p \<Rightarrow> if slot_pending sl then p else tk_pod ?t | None \<Rightarrow> tk_pod ?t"
    from sl s' i TkSleep show ?thesis
      by (intro move [where t' = "?t\<lparr>tk_pod := ?pod, tk_pc := TkTake\<rparr>"])
        (auto simp: task_defs split: if_splits option.splits)
  next
    case TkDecide
    with owned obtain sl where sl: "hm_get (sy_slots s) ?uid = Some sl" "slot_running sl" by auto
    show ?thesis
    proof (cases "slot_pending sl \<and> get ?uid \<noteq> None")
      case True
      then obtain p where "get ?uid = Some p" "slot_pending sl" by blast
      with sl s' i TkDecide show ?thesis
        by (intro move [where t' = "?t\<lparr>tk_pod := p, tk_pc := TkTake\<rparr>"]) (auto simp: task_defs)
    next
      case False
      with sl s' i TkDecide show ?thesis
        by (intro move [where t' = "?t\<lparr>tk_pc := TkCleanup\<rparr>"]) (auto simp: task_defs split: if_splits option.splits)
    qed
  next
    case TkCleanup
    with s' i show ?thesis
      by (intro move [where t' = "?t\<lparr>tk_pc := TkDone\<rparr>"]) (auto simp: task_defs)
  next
    case DkTake
    with s' i show ?thesis
      by (intro frame [where t' = "?t\<lparr>tk_pc := DkTerminate (fst (take_state dflt ?uid s))\<rparr>"]) (auto simp: task_defs)
  next
    case (DkTerminate st)
    with s' i show ?thesis by (intro frame [where t' = "?t\<lparr>tk_pc := DkDrain\<rparr>"]) (auto simp: task_defs)
  next
    case DkDrain
    show ?thesis
    proof (cases "slot_busy ?uid s")
      case True
      with s' i DkDrain inv show ?thesis by simp
    next
      case False
      with s' i DkDrain show ?thesis by (intro frame [where t' = "?t\<lparr>tk_pc := DkCleanup\<rparr>"]) (auto simp: task_defs)
    qed
  next
    case DkCleanup
    with s' i show ?thesis by (intro frame [where t' = "?t\<lparr>tk_pc := DkDone\<rparr>"]) (auto simp: task_defs)
  qed (use s' i in \<open>simp_all\<close>)
qed

lemma slot_inv_step:
  assumes inv: "\<And>u. slot_inv s u" and s': "sync_step dflt get l s = Some s'" and q: "quiet l s"
  shows "slot_inv s' u"
proof (cases l)
  case (LSync uid pod)
  with s' q slot_inv_sync_pod [OF inv, of uid pod] show ?thesis by auto
next
  case (LDelete uid pod)
  with s' show ?thesis by (intro slot_inv_append [OF inv]) (auto simp: delete_pod_def)
next
  case (LEvict uid pod)
  with s' show ?thesis by (intro slot_inv_append [OF inv]) (auto simp: evict_task_def)
next
  case (LTask i)
  moreover from this s' have "i < length (sy_tasks s)" by (simp split: if_splits)
  ultimately show ?thesis using slot_inv_task [OF inv] s' by blast
next
  case (LWorker i result st)
  with s' obtain st0 where "i < length (sy_tasks s)" "tk_pc (sy_tasks s ! i) = TkWork st0" "s' = worker_returns i result st s"
    by (auto split: if_splits task_pc.splits)
  with slot_inv_worker [OF inv] show ?thesis by blast
next
  case (LDeadline i)
  with s' have "i < length (sy_tasks s)" "tk_pc (sy_tasks s ! i) = DkDrain" "s' = goto i DkCleanup s"
    by (auto split: if_splits task_pc.splits)
  then show ?thesis
    by (intro slot_inv_frame [OF inv, where t' = "(sy_tasks s ! i)\<lparr>tk_pc := DkCleanup\<rparr>"]) (simp_all add: task_defs)
qed

lemma steps_slot_inv: "steps dflt True s \<Longrightarrow> slot_inv s u"
proof (induction arbitrary: u rule: steps.induct)
  case init
  show ?case by (simp add: sync_init_def slot_inv_def live_tasks_def)
next
  case (step s get l s')
  from slot_inv_step [OF step.IH step.hyps(2)] step.hyps(3) show ?case by simp
qed

subsection \<open>Properties\<close>

text \<open>C9: one sync at a time, and no update is lost, as long as no sync is requested in the window
  between a task's last look at its slot and its final clearing of it. In every state such executions
  reach, whatever tasks, workers, deletions and evictions interleave: a pod has at most one live sync
  task; while that task is in its loop the pod's slot is marked running, so further requests coalesce; a
  pending request always has a task in its loop that will look at it; and a deletion that finds the
  slot free finds no task in its loop.\<close>

theorem one_sync_per_pod:
  assumes "steps dflt True s"
  shows "length (live_tasks uid s) \<le> 1 \<and>
    (\<forall>t \<in> set (live_tasks uid s). tk_pc t \<noteq> TkCleanup \<longrightarrow> slot_busy uid s) \<and>
    (\<forall>sl. hm_get (sy_slots s) uid = Some sl \<and> slot_pending sl \<longrightarrow>
       (\<exists>t. live_tasks uid s = [t] \<and> tk_pc t \<noteq> TkCleanup))"
  using steps_slot_inv [OF assms, of uid]
  by (auto simp: slot_inv_def slot_busy_def split: list.splits option.splits)

lemma steps_snoc: "steps d q s \<Longrightarrow> sync_step d get l s = Some s' \<Longrightarrow> (q \<longrightarrow> quiet l s) \<Longrightarrow> steps d q s'"
  by (rule steps.step)

lemma one_sync_per_pod_witness:
  "\<exists>s :: (unit, unit) sync_sys. steps () True s \<and> length (live_tasks ''u'' s) = 1 \<and> slot_busy ''u'' s"
proof -
  let ?s = "sync_pod ''u'' () sync_init :: (unit, unit) sync_sys"
  have st: "steps () True ?s"
    by (rule steps.step [OF steps.init, where l = "LSync ''u'' ()" and get = "\<lambda>_. None"])
      (simp_all add: live_tasks_def sync_init_def)
  have "length (live_tasks ''u'' ?s) \<noteq> 0" by code_simp
  moreover have "length (live_tasks ''u'' ?s) \<le> 1" using one_sync_per_pod [OF st, of "''u''"] by blast
  moreover have "slot_busy ''u'' ?s" by code_simp
  ultimately show ?thesis using st by (intro exI [of _ ?s]) linarith
qed

text \<open>A run of labels, for evaluating concrete interleavings.\<close>

fun sync_run :: "'s \<Rightarrow> (PodUID \<Rightarrow> 'p option) \<Rightarrow> ('p, 's) label list \<Rightarrow> ('p, 's) sync_sys \<Rightarrow> ('p, 's) sync_sys option" where
  "sync_run dflt get [] s = Some s"
| "sync_run dflt get (l # ls) s = (case sync_step dflt get l s of Some s' \<Rightarrow> sync_run dflt get ls s' | None \<Rightarrow> None)"

lemma sync_run_steps: "steps dflt False s \<Longrightarrow> sync_run dflt get ls s = Some s' \<Longrightarrow> steps dflt False s'"
  by (induction ls arbitrary: s) (auto split: option.splits intro: steps.step)

lemma case_option_ex: "(case x of Some s \<Rightarrow> P s | None \<Rightarrow> False) \<Longrightarrow> \<exists>s. x = Some s \<and> P s"
  by (cases x) simp_all

text \<open>the window is real. After a task has removed its slot and left its loop, an update spawns a
  second task with a new slot; the first task's final clearing then deletes that new slot, and the
  next update spawns a third task while the second is still working: two workers synchronise the same
  pod at the same time.\<close>

theorem two_syncs_of_one_pod:
  "\<exists>s :: (unit, unit) sync_sys. steps () False s \<and>
     map tk_pc (live_tasks ''u'' s) = [TkWork (), TkWork ()]"
proof -
  let ?ls = "[LSync ''u'' (), LTask 0, LWorker 0 Synced (), LTask 0, LTask 0,
     LSync ''u'' (), LTask 0, LSync ''u'' (), LTask 1, LTask 2] :: (unit, unit) label list"
  have "case sync_run () (\<lambda>_. Some ()) ?ls sync_init of
      Some s \<Rightarrow> map tk_pc (live_tasks ''u'' s) = [TkWork (), TkWork ()] | None \<Rightarrow> False"
    by code_simp
  from case_option_ex [OF this] obtain s where
    s: "sync_run () (\<lambda>_. Some ()) ?ls sync_init = Some s" "map tk_pc (live_tasks ''u'' s) = [TkWork (), TkWork ()]"
    by (elim exE conjE)
  show ?thesis by (rule exI [of _ s], rule conjI [OF sync_run_steps [OF steps.init s(1)] s(2)])
qed

text \<open>\<open>active_pod_count\<close> counts a pod twice while it waits to be retried: its runtime state is back in
  the map and its slot is still running. One pod, no other task, and the count is 2.\<close>

theorem retrying_pod_counted_twice:
  "\<exists>s :: (unit, unit) sync_sys. steps () True s \<and> length (sy_tasks s) = 1 \<and> sy_deleting s = {} \<and> active_pod_count s = 2"
proof -
  let ?s1 = "sync_pod ''u'' () sync_init :: (unit, unit) sync_sys"
  let ?s2 = "goto 0 (TkWork ()) ?s1" and ?r = "NeedsRetry []"
  let ?s3 = "worker_returns 0 ?r () ?s2"
  have "steps () True ?s1"
    by (rule steps.step [OF steps.init, where l = "LSync ''u'' ()" and get = "\<lambda>_. None"])
      (simp_all add: live_tasks_def sync_init_def)
  then have "steps () True ?s2"
    by (rule steps.step [where l = "LTask 0" and get = "\<lambda>_. None"])
      (simp_all add: sync_init_def sync_pod_def PodSyncSlot_default_def task_defs)
  then have "steps () True ?s3"
    by (rule steps.step [where l = "LWorker 0 ?r ()" and get = "\<lambda>_. None"])
      (simp_all add: sync_init_def sync_pod_def PodSyncSlot_default_def task_defs)
  then have "steps () True (bump_retry 0 ?s3)"
    by (rule steps.step [where l = "LTask 0" and get = "\<lambda>_. None"])
      (simp_all add: sync_init_def sync_pod_def PodSyncSlot_default_def task_defs)
  then show ?thesis
    by (intro exI [of _ "bump_retry 0 ?s3"])
      (simp add: sync_init_def sync_pod_def PodSyncSlot_default_def task_defs active_pod_count_def)
qed

text \<open>the retry back-off. After the \<open>n\<close>-th consecutive retry the task sleeps
  \<open>500 * 2 ^ (min n 6 - 1)\<close> milliseconds, between half a second and 16 seconds, never decreasing with
  \<open>n\<close>; the 30 second cap the comment names is never reached, and nothing overflows.\<close>

theorem retry_backoff:
  "unat (backoff_ms n) = 500 * 2 ^ (min (unat n) 6 - 1) \<and> 500 \<le> unat (backoff_ms n) \<and> unat (backoff_ms n) \<le> 16000"
proof -
  define k where "k = min (unat n) 6 - 1"
  have m: "unat (sat_sub (min n 6) (1 :: u32)) = k"
    by (simp add: k_def min_def word_le_nat_alt)
  have "k \<le> 5" by (simp add: k_def)
  then consider "k = 0" | "k = 1" | "k = 2" | "k = 3" | "k = 4" | "k = 5" by linarith
  then show ?thesis
    unfolding backoff_ms_def m k_def [symmetric]
    by cases (simp_all add: sat_mul_def push_bit_eq_mult min_def word_le_nat_alt)
qed

end
