(* ===== verification/Eviction.thy ===== *)
theory Eviction
  imports Pod_Lifecycle F64 "HOL-Library.Multiset"
begin

text \<open>
  Eviction under resource pressure: thresholds and their evaluation
  (\<^verbatim>\<open>kubelet-adapters/src/eviction/mod.rs\<close>), ranking and the eviction manager (\<^verbatim>\<open>eviction/manager.rs\<close>), and
  the pressure conditions from the system's signals (\<^verbatim>\<open>eviction/pressure.rs\<close>). Byte counts are \<^verbatim>\<open>u64\<close>
  as naturals, with wrap-around written out where the code adds or multiplies them.
\<close>

subsection \<open>Thresholds\<close>

datatype ThresholdValue = Absolute nat | Percentage f64

record EvictionThreshold =
  et_resource :: string
  et_value :: ThresholdValue

definition quantity_suffixes :: "(string \<times> nat) list" where
  "quantity_suffixes =
     [(''Ki'', 1024), (''Mi'', 1024 * 1024), (''Gi'', 1024 * 1024 * 1024), (''Ti'', 1024 ^ 4), (''Pi'', 1024 ^ 5),
      (''K'', 1000), (''M'', 1000 * 1000), (''G'', 1000 ^ 3), (''T'', 1000 ^ 4)]"

fun scan_suffixes :: "(string \<times> nat) list \<Rightarrow> string \<Rightarrow> nat option" where
  "scan_suffixes [] s = parse_u64 s"
| "scan_suffixes ((suffix, multiplier) # rest) s =
     (case Option.bind (strip_suffix suffix s) parse_f64 of
        Some n \<Rightarrow> Some (f64_as_u64 (f64_mul n (f64_of_u64 multiplier)))
      | None \<Rightarrow> scan_suffixes rest s)"

definition eviction_parse_quantity :: "string \<Rightarrow> nat option" where
  "eviction_parse_quantity s = scan_suffixes quantity_suffixes s"

definition EvictionThreshold_parse :: "string \<Rightarrow> string \<Rightarrow> EvictionThreshold option" where
  "EvictionThreshold_parse resource value_str =
     (let trimmed = trim value_str in
      case strip_suffix ''%'' trimmed of
        Some pct \<Rightarrow>
          map_option (\<lambda>p. \<lparr>et_resource = resource, et_value = Percentage (f64_div p (Fin 100))\<rparr>) (parse_f64 pct)
      | None \<Rightarrow>
          map_option (\<lambda>b. \<lparr>et_resource = resource, et_value = Absolute b\<rparr>) (eviction_parse_quantity trimmed))"

definition is_exceeded :: "EvictionThreshold \<Rightarrow> nat \<Rightarrow> nat \<Rightarrow> bool" where
  "is_exceeded t current capacity =
     (case et_value t of
        Absolute bytes \<Rightarrow> current < bytes
      | Percentage pct \<Rightarrow> current < f64_as_u64 (f64_mul (f64_of_u64 capacity) pct))"

record ResourcePressure =
  rp_memory_pressure :: bool
  rp_disk_pressure :: bool
  rp_pid_pressure :: bool

record NodeResources =
  nr_available_memory_bytes :: nat
  nr_total_memory_bytes :: nat
  nr_available_disk_bytes :: nat
  nr_total_disk_bytes :: nat
  nr_available_pids :: nat
  nr_total_pids :: nat

record EvictionEvaluator =
  ee_hard_thresholds :: "EvictionThreshold list"
  ee_soft_thresholds :: "EvictionThreshold list"

definition EvictionEvaluator_new :: "(string, string) hmap \<Rightarrow> (string, string) hmap \<Rightarrow> EvictionEvaluator" where
  "EvictionEvaluator_new hard soft =
     \<lparr>ee_hard_thresholds = List.map_filter (\<lambda>(k, v). EvictionThreshold_parse k v) hard,
      ee_soft_thresholds = List.map_filter (\<lambda>(k, v). EvictionThreshold_parse k v) soft\<rparr>"

definition evaluate_threshold :: "NodeResources \<Rightarrow> EvictionThreshold \<Rightarrow> ResourcePressure \<Rightarrow> ResourcePressure" where
  "evaluate_threshold r t p =
     (if et_resource t = ''memory.available'' then
        (if is_exceeded t (nr_available_memory_bytes r) (nr_total_memory_bytes r)
         then p\<lparr>rp_memory_pressure := True\<rparr> else p)
      else if et_resource t = ''nodefs.available'' then
        (if is_exceeded t (nr_available_disk_bytes r) (nr_total_disk_bytes r)
         then p\<lparr>rp_disk_pressure := True\<rparr> else p)
      else if et_resource t = ''pid.available'' then
        (if is_exceeded t (nr_available_pids r) (nr_total_pids r)
         then p\<lparr>rp_pid_pressure := True\<rparr> else p)
      else p)"

definition evaluator_evaluate :: "EvictionEvaluator \<Rightarrow> NodeResources \<Rightarrow> ResourcePressure" where
  "evaluator_evaluate e r =
     fold (evaluate_threshold r) (ee_hard_thresholds e)
       \<lparr>rp_memory_pressure = False, rp_disk_pressure = False, rp_pid_pressure = False\<rparr>"

subsection \<open>Ranking\<close>

fun qos_eviction_priority :: "QosClass \<Rightarrow> nat" where
  "qos_eviction_priority BestEffort = 0"
| "qos_eviction_priority Burstable = 1"
| "qos_eviction_priority Guaranteed = 2"

text \<open>The order in which classes are evicted, as a linear order on them.\<close>

instantiation QosClass :: linorder
begin

definition less_eq_QosClass :: "QosClass \<Rightarrow> QosClass \<Rightarrow> bool" where
  "less_eq_QosClass a b \<longleftrightarrow> qos_eviction_priority a \<le> qos_eviction_priority b"

definition less_QosClass :: "QosClass \<Rightarrow> QosClass \<Rightarrow> bool" where
  "less_QosClass a b \<longleftrightarrow> qos_eviction_priority a < qos_eviction_priority b"

instance
proof
  fix x y :: QosClass
  show "x \<le> y \<Longrightarrow> y \<le> x \<Longrightarrow> x = y"
    by (cases x; cases y) (simp_all add: less_eq_QosClass_def)
qed (auto simp: less_eq_QosClass_def less_QosClass_def)

end

type_synonym candidate = "PodUID \<times> QosClass \<times> nat"

record PodResourceUsage =
  pru_memory_bytes :: nat
  pru_cpu_millicores :: nat
  pru_disk_bytes :: nat

text \<open>\<^verbatim>\<open>sort_by\<close> is a stable sort; its comparison puts a lower eviction priority first and, within a class,
  the larger usage first.\<close>

definition before :: "candidate \<Rightarrow> candidate \<Rightarrow> bool" where
  "before a b \<longleftrightarrow>
     qos_eviction_priority (fst (snd a)) < qos_eviction_priority (fst (snd b)) \<or>
     qos_eviction_priority (fst (snd a)) = qos_eviction_priority (fst (snd b)) \<and> snd (snd b) \<le> snd (snd a)"

fun insert_candidate :: "candidate \<Rightarrow> candidate list \<Rightarrow> candidate list" where
  "insert_candidate x [] = [x]"
| "insert_candidate x (y # ys) = (if before x y then x # y # ys else y # insert_candidate x ys)"

definition sort_candidates :: "candidate list \<Rightarrow> candidate list" where
  "sort_candidates xs = foldr insert_candidate xs []"

definition rank_for_memory :: "PodSpec list \<Rightarrow> (PodUID, PodResourceUsage) hmap \<Rightarrow> candidate list" where
  "rank_for_memory pods usage =
     sort_candidates
       (map (\<lambda>p. (ps_uid p, compute_qos_class p, case hm_get usage (ps_uid p) of Some u \<Rightarrow> pru_memory_bytes u | None \<Rightarrow> 0))
         (filter (\<lambda>p. ps_restart_policy p \<noteq> Never) pods))"

definition rank_for_disk :: "PodSpec list \<Rightarrow> (PodUID, PodResourceUsage) hmap \<Rightarrow> candidate list" where
  "rank_for_disk pods usage =
     sort_candidates
       (map (\<lambda>p. (ps_uid p, compute_qos_class p, case hm_get usage (ps_uid p) of Some u \<Rightarrow> pru_disk_bytes u | None \<Rightarrow> 0)) pods)"

subsection \<open>The manager\<close>

datatype EvictionReason = MemoryPressure | DiskPressure | PIDPressure | NodeConditionPressure string

fun EvictionReason_to_string :: "EvictionReason \<Rightarrow> string" where
  "EvictionReason_to_string MemoryPressure = ''EvictionThresholdMet: memory.available''"
| "EvictionReason_to_string DiskPressure = ''EvictionThresholdMet: nodefs.available''"
| "EvictionReason_to_string PIDPressure = ''EvictionThresholdMet: pid.available''"
| "EvictionReason_to_string (NodeConditionPressure r) = ''EvictionThresholdMet: '' @ r"

record EvictionDecision =
  ed_pod_uid :: PodUID
  ed_pod_ref :: PodRef
  ed_reason :: EvictionReason
  ed_message :: string
  ed_grace_period :: duration

record EvictionManager =
  em_evaluator :: EvictionEvaluator
  em_grace_period_override :: "duration option"
  em_last_evictions :: "(PodUID, timestamp) hmap"
  em_min_eviction_reclaim_period :: duration

definition EvictionManager_new ::
  "(string, string) hmap \<Rightarrow> (string, string) hmap \<Rightarrow> duration option \<Rightarrow> EvictionManager" where
  "EvictionManager_new hard soft grace_period_override =
     \<lparr>em_evaluator = EvictionEvaluator_new hard soft, em_grace_period_override = grace_period_override,
      em_last_evictions = [], em_min_eviction_reclaim_period = secs 30\<rparr>"

definition grace_period_for_qos :: "EvictionManager \<Rightarrow> QosClass \<Rightarrow> duration" where
  "grace_period_for_qos m qos =
     (case em_grace_period_override m of
        Some gp \<Rightarrow> gp
      | None \<Rightarrow> (case qos of Guaranteed \<Rightarrow> secs 30 | Burstable \<Rightarrow> secs 10 | BestEffort \<Rightarrow> 0))"

definition recently_evicted :: "timestamp \<Rightarrow> EvictionManager \<Rightarrow> PodUID \<Rightarrow> bool" where
  "recently_evicted now m uid =
     (case hm_get (em_last_evictions m) uid of
        Some evicted \<Rightarrow> max 0 (now - evicted) < em_min_eviction_reclaim_period m
      | None \<Rightarrow> False)"

fun pick_candidate ::
  "timestamp \<Rightarrow> candidate list \<Rightarrow> EvictionReason \<Rightarrow> EvictionManager \<Rightarrow> EvictionDecision option \<times> EvictionManager" where
  "pick_candidate now [] reason m = (None, m)"
| "pick_candidate now ((uid, qos, usage) # ranked) reason m =
     (if recently_evicted now m uid then pick_candidate now ranked reason m
      else
        (Some \<lparr>ed_pod_uid = uid, ed_pod_ref = \<lparr>pr_namespace = ''unknown'', pr_name = uid\<rparr>, ed_reason = reason,
               ed_message = ''The node was low on resource. Threshold capacity was exceeded.'',
               ed_grace_period = grace_period_for_qos m qos\<rparr>,
         m\<lparr>em_last_evictions := hm_insert uid now (em_last_evictions m)\<rparr>))"

text \<open>\<open>now1\<close> and \<open>now2\<close> are the clock at the two picks.\<close>

definition eviction_evaluate ::
  "timestamp \<Rightarrow> timestamp \<Rightarrow> NodeResources \<Rightarrow> PodSpec list \<Rightarrow> (PodUID, PodResourceUsage) hmap \<Rightarrow> EvictionManager \<Rightarrow>
   EvictionDecision list \<times> EvictionManager" where
  "eviction_evaluate now1 now2 resources pods usage m =
     (let pressure = evaluator_evaluate (em_evaluator m) resources;
          (d1, m1) = (if rp_memory_pressure pressure
                      then pick_candidate now1 (rank_for_memory pods usage) MemoryPressure m else (None, m));
          (d2, m2) = (if rp_disk_pressure pressure
                      then pick_candidate now2 (rank_for_disk pods usage) DiskPressure m1 else (None, m1))
      in (List.map_filter id [d1, d2], m2))"

definition eviction_has_pressure :: "EvictionManager \<Rightarrow> NodeResources \<Rightarrow> bool" where
  "eviction_has_pressure m r =
     (let p = evaluator_evaluate (em_evaluator m) r in rp_memory_pressure p \<or> rp_disk_pressure p \<or> rp_pid_pressure p)"

text \<open>Successive evaluations; the entries of the log are the time and the pod of each eviction.\<close>

record eviction_tick =
  tk_now1 :: timestamp
  tk_now2 :: timestamp
  tk_resources :: NodeResources
  tk_pods :: "PodSpec list"
  tk_usage :: "(PodUID, PodResourceUsage) hmap"

fun eviction_log :: "EvictionManager \<Rightarrow> eviction_tick list \<Rightarrow> (timestamp \<times> PodUID) list" where
  "eviction_log m [] = []"
| "eviction_log m (k # ks) =
     (let (ds, m') = eviction_evaluate (tk_now1 k) (tk_now2 k) (tk_resources k) (tk_pods k) (tk_usage k) m
      in map (\<lambda>d. (if ed_reason d = MemoryPressure then tk_now1 k else tk_now2 k, ed_pod_uid d)) ds @ eviction_log m' ks)"

subsection \<open>Pressure conditions from the system's signals\<close>

record ResourceSignals =
  rs_memory_available_bytes :: nat
  rs_nodefs_available_bytes :: nat
  rs_nodefs_inodes_free :: nat
  rs_imagefs_available_bytes :: nat
  rs_pid_available :: nat
  rs_nodefs_total_bytes :: nat
  rs_imagefs_total_bytes :: nat

text \<open>The contents of \<^verbatim>\<open>/proc/meminfo\<close> (\<open>None\<close> when it cannot be read).\<close>

definition read_mem_available :: "string option \<Rightarrow> nat" where
  "read_mem_available meminfo =
     (case find (starts_with ''MemAvailable:'') (str_lines (case meminfo of Some c \<Rightarrow> c | None \<Rightarrow> [])) of
        Some line \<Rightarrow>
          (case Option.bind (nth_opt 1 (split_whitespace line)) parse_u64 of Some kb \<Rightarrow> kb * 1024 mod 2 ^ 64 | None \<Rightarrow> 0)
      | None \<Rightarrow> 0)"

record statvfs_result =
  f_frsize :: nat
  f_bavail :: nat
  f_ffree :: nat
  f_blocks :: nat

definition read_statfs :: "statvfs_result option \<Rightarrow> nat \<times> nat \<times> nat" where
  "read_statfs ret =
     (case ret of
        Some st \<Rightarrow> (f_bavail st * f_frsize st mod 2 ^ 64, f_ffree st, f_blocks st * f_frsize st mod 2 ^ 64)
      | None \<Rightarrow> (0, 0, 0))"

text \<open>The contents of \<^verbatim>\<open>pid_max\<close> and the names of the entries of \<^verbatim>\<open>/proc\<close>.\<close>

definition read_pid_available :: "string option \<Rightarrow> string list option \<Rightarrow> nat" where
  "read_pid_available pid_max_file proc_entries =
     (let pid_max = (case Option.bind pid_max_file (\<lambda>s. parse_u64 (trim s)) of Some n \<Rightarrow> n | None \<Rightarrow> 32768);
          current_pids = (case proc_entries of
                            Some es \<Rightarrow> length (filter (\<lambda>e. parse_u64 e \<noteq> None) es)
                          | None \<Rightarrow> 0)
      in pid_max - current_pids)"

definition collect_signals ::
  "string option \<Rightarrow> statvfs_result option \<Rightarrow> statvfs_result option \<Rightarrow> string option \<Rightarrow> string list option \<Rightarrow> ResourceSignals" where
  "collect_signals meminfo rootfs imagefs pid_max_file proc_entries =
     (let (nodefs_avail, nodefs_inodes, nodefs_total) = read_statfs rootfs;
          (imagefs_avail, _, imagefs_total) = read_statfs imagefs
      in \<lparr>rs_memory_available_bytes = read_mem_available meminfo, rs_nodefs_available_bytes = nodefs_avail,
          rs_nodefs_inodes_free = nodefs_inodes, rs_imagefs_available_bytes = imagefs_avail,
          rs_pid_available = read_pid_available pid_max_file proc_entries,
          rs_nodefs_total_bytes = nodefs_total, rs_imagefs_total_bytes = imagefs_total\<rparr>)"

definition parse_or_0 :: "string \<Rightarrow> nat" where
  "parse_or_0 s = (case parse_u64 s of Some n \<Rightarrow> n | None \<Rightarrow> 0)"

definition parse_bytes :: "string \<Rightarrow> nat" where
  "parse_bytes s =
     (case strip_suffix ''Ki'' s of Some n \<Rightarrow> parse_or_0 n * 1024 mod 2 ^ 64
      | None \<Rightarrow>
        (case strip_suffix ''Mi'' s of Some n \<Rightarrow> parse_or_0 n * 1024 * 1024 mod 2 ^ 64
         | None \<Rightarrow>
           (case strip_suffix ''Gi'' s of Some n \<Rightarrow> parse_or_0 n * 1024 * 1024 * 1024 mod 2 ^ 64
            | None \<Rightarrow> parse_or_0 s)))"

definition threshold_exceeded :: "nat \<Rightarrow> nat \<Rightarrow> string \<Rightarrow> bool" where
  "threshold_exceeded signal_value capacity threshold =
     (case strip_suffix ''%'' threshold of
        Some pct_str \<Rightarrow>
          (let pct = (case parse_f64 pct_str of Some p \<Rightarrow> p | None \<Rightarrow> Fin 0) in
           if capacity = 0 then False
           else signal_value < f64_as_u64 (f64_mul (f64_div pct (Fin 100)) (f64_of_u64 capacity)))
      | None \<Rightarrow> signal_value < parse_bytes threshold)"

record PressureConditions =
  pc_memory_pressure :: bool
  pc_disk_pressure :: bool
  pc_pid_pressure :: bool

definition signal_exceeded :: "ResourceSignals \<Rightarrow> string \<Rightarrow> string \<Rightarrow> bool" where
  "signal_exceeded sig signal threshold =
     (if signal = ''memory.available'' then
        threshold_exceeded (rs_memory_available_bytes sig)
          ((rs_memory_available_bytes sig + rs_nodefs_total_bytes sig) mod 2 ^ 64) threshold
      else if signal = ''nodefs.available'' then
        threshold_exceeded (rs_nodefs_available_bytes sig) (rs_nodefs_total_bytes sig) threshold
      else if signal = ''nodefs.inodesFree'' then threshold_exceeded (rs_nodefs_inodes_free sig) 1000000 threshold
      else if signal = ''imagefs.available'' then
        threshold_exceeded (rs_imagefs_available_bytes sig) (rs_imagefs_total_bytes sig) threshold
      else if signal = ''pid.available'' then
        rs_pid_available sig < (case parse_u64 threshold of Some n \<Rightarrow> n | None \<Rightarrow> 1000)
      else False)"

definition raise_condition :: "ResourceSignals \<Rightarrow> string \<times> string \<Rightarrow> PressureConditions \<Rightarrow> PressureConditions" where
  "raise_condition sig entry c =
     (let (signal, threshold) = entry in
      if signal_exceeded sig signal threshold then
        (if signal = ''memory.available'' then c\<lparr>pc_memory_pressure := True\<rparr>
         else if signal = ''nodefs.available'' \<or> signal = ''nodefs.inodesFree'' \<or> signal = ''imagefs.available''
         then c\<lparr>pc_disk_pressure := True\<rparr>
         else if signal = ''pid.available'' then c\<lparr>pc_pid_pressure := True\<rparr>
         else c)
      else c)"

definition evaluate_pressure :: "ResourceSignals \<Rightarrow> (string, string) hmap \<Rightarrow> PressureConditions" where
  "evaluate_pressure sig eviction_hard =
     fold (raise_condition sig) eviction_hard
       \<lparr>pc_memory_pressure = False, pc_disk_pressure = False, pc_pid_pressure = False\<rparr>"

subsection \<open>Ranking: lemmas\<close>

lemma mset_insert_candidate [simp]: "mset (insert_candidate x xs) = add_mset x (mset xs)"
  by (induction xs) auto

lemma before_total: "\<not> before x y \<Longrightarrow> before y x"
  by (auto simp: before_def)

lemma before_trans: "before x y \<Longrightarrow> before y z \<Longrightarrow> before x z"
  by (auto simp: before_def)

lemma set_insert_candidate [simp]: "set (insert_candidate x xs) = insert x (set xs)"
  by (induction xs) auto

lemma sorted_insert_candidate: "sorted_wrt before xs \<Longrightarrow> sorted_wrt before (insert_candidate x xs)"
  by (induction xs) (auto intro: before_trans dest: before_total)

lemma filter_insert_candidate:
  "sorted_wrt before xs \<Longrightarrow>
   filter (\<lambda>c. snd c = k) (insert_candidate x xs) = (if snd x = k then x # filter (\<lambda>c. snd c = k) xs else filter (\<lambda>c. snd c = k) xs)"
  by (induction xs) (auto simp: before_def)

lemma sort_candidates_props:
  "mset (sort_candidates xs) = mset xs"
  "sorted_wrt before (sort_candidates xs)"
  "filter (\<lambda>c. snd c = k) (sort_candidates xs) = filter (\<lambda>c. snd c = k) xs"
proof -
  show s: "sorted_wrt before (sort_candidates xs)"
    by (induction xs) (auto simp: sort_candidates_def sorted_insert_candidate)
  show "mset (sort_candidates xs) = mset xs"
    by (induction xs) (auto simp: sort_candidates_def)
  have "sorted_wrt before (foldr insert_candidate xs []) \<and>
        filter (\<lambda>c. snd c = k) (foldr insert_candidate xs []) = filter (\<lambda>c. snd c = k) xs"
    by (induction xs) (auto simp: sorted_insert_candidate filter_insert_candidate)
  then show "filter (\<lambda>c. snd c = k) (sort_candidates xs) = filter (\<lambda>c. snd c = k) xs"
    by (simp add: sort_candidates_def)
qed

lemma before_iff:
  "before a b \<longleftrightarrow> fst (snd a) < fst (snd b) \<or> fst (snd a) = fst (snd b) \<and> snd (snd b) \<le> snd (snd a)"
proof -
  have "(qos_eviction_priority x = qos_eviction_priority y) = (x = y)" for x y
    by (cases x; cases y) simp_all
  then show ?thesis by (simp add: before_def less_QosClass_def)
qed

definition mem_usage :: "(PodUID, PodResourceUsage) hmap \<Rightarrow> PodSpec \<Rightarrow> nat" where
  "mem_usage usage p = (case hm_get usage (ps_uid p) of Some u \<Rightarrow> pru_memory_bytes u | None \<Rightarrow> 0)"

definition disk_usage :: "(PodUID, PodResourceUsage) hmap \<Rightarrow> PodSpec \<Rightarrow> nat" where
  "disk_usage usage p = (case hm_get usage (ps_uid p) of Some u \<Rightarrow> pru_disk_bytes u | None \<Rightarrow> 0)"

definition eviction_order :: "candidate \<Rightarrow> candidate \<Rightarrow> bool" where
  "eviction_order a b = (case (a, b) of ((_, q, u), (_, q', u')) \<Rightarrow> q < q' \<or> q = q' \<and> u' \<le> u)"

lemma eviction_order_before: "eviction_order = before"
  by (intro ext) (auto simp: eviction_order_def before_iff)

lemma rank_for_memory_alt:
  "rank_for_memory pods usage =
     sort_candidates (map (\<lambda>p. (ps_uid p, compute_qos_class p, mem_usage usage p)) (filter (\<lambda>p. ps_restart_policy p \<noteq> Never) pods))"
  by (simp add: rank_for_memory_def mem_usage_def)

lemma rank_for_disk_alt:
  "rank_for_disk pods usage = sort_candidates (map (\<lambda>p. (ps_uid p, compute_qos_class p, disk_usage usage p)) pods)"
  by (simp add: rank_for_disk_def disk_usage_def)

text \<open>Both rankings are stable sorts of the candidates. For memory the candidates are the pods that may restart,
  for disk all pods, Guaranteed ones included; a class with a lower eviction priority comes first, within a class the
  pod with the larger usage comes first, and pods of equal class and usage keep the order in which they were listed.\<close>

theorem eviction_ranking:
  "mset (rank_for_memory pods usage) =
     mset (map (\<lambda>p. (ps_uid p, compute_qos_class p, mem_usage usage p)) (filter (\<lambda>p. ps_restart_policy p \<noteq> Never) pods)) \<and>
   sorted_wrt eviction_order (rank_for_memory pods usage) \<and>
   filter (\<lambda>c. snd c = k) (rank_for_memory pods usage) =
     map (\<lambda>p. (ps_uid p, k)) (filter (\<lambda>p. ps_restart_policy p \<noteq> Never \<and> (compute_qos_class p, mem_usage usage p) = k) pods) \<and>
   mset (rank_for_disk pods usage) = mset (map (\<lambda>p. (ps_uid p, compute_qos_class p, disk_usage usage p)) pods) \<and>
   sorted_wrt eviction_order (rank_for_disk pods usage) \<and>
   filter (\<lambda>c. snd c = k) (rank_for_disk pods usage) =
     map (\<lambda>p. (ps_uid p, k)) (filter (\<lambda>p. (compute_qos_class p, disk_usage usage p) = k) pods)"
proof -
  have k: "filter (\<lambda>c. snd c = k) (map (\<lambda>p. (ps_uid p, f p, g p)) ps) = map (\<lambda>p. (ps_uid p, k)) (filter (\<lambda>p. (f p, g p) = k) ps)"
    for ps and f :: "PodSpec \<Rightarrow> QosClass" and g :: "PodSpec \<Rightarrow> nat"
    by (induction ps) simp_all
  show ?thesis
    by (simp only: rank_for_memory_alt rank_for_disk_alt sort_candidates_props eviction_order_before k filter_filter simp_thms)
qed

subsection \<open>Picking a victim\<close>

definition decision_for :: "EvictionManager \<Rightarrow> EvictionReason \<Rightarrow> candidate \<Rightarrow> EvictionDecision" where
  "decision_for m reason c =
     \<lparr>ed_pod_uid = fst c, ed_pod_ref = \<lparr>pr_namespace = ''unknown'', pr_name = fst c\<rparr>, ed_reason = reason,
      ed_message = ''The node was low on resource. Threshold capacity was exceeded.'',
      ed_grace_period = grace_period_for_qos m (fst (snd c))\<rparr>"

lemma pick_candidate_find:
  "pick_candidate now ranked reason m =
     (case find (\<lambda>c. \<not> recently_evicted now m (fst c)) ranked of
        None \<Rightarrow> (None, m)
      | Some c \<Rightarrow> (Some (decision_for m reason c), m\<lparr>em_last_evictions := hm_insert (fst c) now (em_last_evictions m)\<rparr>))"
  by (induction now ranked reason m rule: pick_candidate.induct) (simp_all add: decision_for_def)

lemma decision_for_simps [simp]:
  "ed_pod_uid (decision_for m reason c) = fst c" "ed_reason (decision_for m reason c) = reason"
  "ed_grace_period (decision_for m reason c) = grace_period_for_qos m (fst (snd c))"
  by (simp_all add: decision_for_def)

lemma find_sorted_first:
  assumes "sorted_wrt R xs" "find P xs = Some x" "y \<in> set xs" "P y"
  shows "x = y \<or> R x y"
  using assms by (induction xs) (auto split: if_splits)

definition pick_if :: "bool \<Rightarrow> timestamp \<Rightarrow> candidate list \<Rightarrow> EvictionReason \<Rightarrow> EvictionManager \<Rightarrow>
    EvictionDecision option \<times> EvictionManager" where
  "pick_if b now ranked reason m = (if b then pick_candidate now ranked reason m else (None, m))"

lemma eviction_evaluate_picks:
  "eviction_evaluate now1 now2 r pods usage m =
     (let p = evaluator_evaluate (em_evaluator m) r;
          (d1, m1) = pick_if (rp_memory_pressure p) now1 (rank_for_memory pods usage) MemoryPressure m;
          (d2, m2) = pick_if (rp_disk_pressure p) now2 (rank_for_disk pods usage) DiskPressure m1
      in (List.map_filter id [d1, d2], m2))"
  by (simp add: eviction_evaluate_def pick_if_def)

lemma pick_if_cases:
  obtains "pick_if b now ranked reason m = (None, m)"
  | c where "b" "c \<in> set ranked" "\<not> recently_evicted now m (fst c)" "find (\<lambda>c. \<not> recently_evicted now m (fst c)) ranked = Some c"
      "pick_if b now ranked reason m =
         (Some (decision_for m reason c), m\<lparr>em_last_evictions := hm_insert (fst c) now (em_last_evictions m)\<rparr>)"
proof (cases "b \<and> find (\<lambda>c. \<not> recently_evicted now m (fst c)) ranked \<noteq> None")
  case True
  then obtain c where "find (\<lambda>c. \<not> recently_evicted now m (fst c)) ranked = Some c" by blast
  with True find_SomeD [OF this] show ?thesis by (intro that(2) [of c]) (simp_all add: pick_if_def pick_candidate_find)
next
  case False
  then have "\<not> b \<or> find (\<lambda>c. \<not> recently_evicted now m (fst c)) ranked = None" by blast
  then show ?thesis by (intro that(1)) (elim disjE; simp add: pick_if_def pick_candidate_find)
qed

lemma victim_is_best:
  assumes "d \<in> set (fst (eviction_evaluate now1 now2 r pods usage m))" "ed_reason d = MemoryPressure"
  shows "\<exists>p \<in> set pods. ps_uid p = ed_pod_uid d \<and> ps_restart_policy p \<noteq> Never \<and> \<not> recently_evicted now1 m (ps_uid p) \<and>
           ed_grace_period d = grace_period_for_qos m (compute_qos_class p) \<and>
           (\<forall>p' \<in> set pods. ps_restart_policy p' \<noteq> Never \<and> \<not> recently_evicted now1 m (ps_uid p') \<longrightarrow>
              compute_qos_class p < compute_qos_class p' \<or>
              compute_qos_class p = compute_qos_class p' \<and> mem_usage usage p' \<le> mem_usage usage p)"
proof -
  let ?R = "rank_for_memory pods usage" and ?c = "\<lambda>p. (ps_uid p, compute_qos_class p, mem_usage usage p)"
  let ?P = "\<lambda>c. \<not> recently_evicted now1 m (fst c)"
  have R: "set ?R = ?c ` {p \<in> set pods. ps_restart_policy p \<noteq> Never}"
    using arg_cong [OF sort_candidates_props(1), of set_mset] by (simp add: rank_for_memory_alt)
  have "\<exists>c. find ?P ?R = Some c \<and> d = decision_for m MemoryPressure c"
    using assms
    by (cases rule: pick_if_cases [of "rp_memory_pressure (evaluator_evaluate (em_evaluator m) r)" now1 ?R MemoryPressure m])
       (auto simp: eviction_evaluate_picks Let_def List.map_filter_def pick_if_def pick_candidate_find split: prod.splits option.splits if_splits)
  then obtain c where c: "find ?P ?R = Some c" "d = decision_for m MemoryPressure c" by blast
  then obtain p where p: "p \<in> set pods" "ps_restart_policy p \<noteq> Never" "c = ?c p" "?P c"
    using find_SomeD [OF c(1)] R by auto
  have "compute_qos_class p < compute_qos_class p' \<or>
        compute_qos_class p = compute_qos_class p' \<and> mem_usage usage p' \<le> mem_usage usage p"
    if "p' \<in> set pods" "ps_restart_policy p' \<noteq> Never" "\<not> recently_evicted now1 m (ps_uid p')" for p'
    using find_sorted_first [OF sort_candidates_props(2) c(1) [unfolded rank_for_memory_alt], of "?c p'"] that R p(3)
    by (auto simp: before_iff rank_for_memory_alt)
  then show ?thesis using p c(2) by (intro bexI [of _ p]) simp_all
qed

text \<open>A pod evicted for memory pressure is the right victim. It is one of the given pods, may restart, was not
  evicted within the reclaim period, gets the grace period of its class, and every other pod that was eligible is of
  a class evicted later, or of the same class with no larger memory usage.\<close>

theorem memory_victim:
  assumes "d \<in> set (fst (eviction_evaluate now1 now2 r pods usage m))" "ed_reason d = MemoryPressure"
  shows "\<exists>p \<in> set pods. ps_uid p = ed_pod_uid d \<and> ps_restart_policy p \<noteq> Never \<and> \<not> recently_evicted now1 m (ps_uid p) \<and>
           ed_grace_period d = grace_period_for_qos m (compute_qos_class p) \<and>
           (\<forall>p' \<in> set pods. ps_restart_policy p' \<noteq> Never \<and> \<not> recently_evicted now1 m (ps_uid p') \<longrightarrow>
              compute_qos_class p < compute_qos_class p' \<or>
              compute_qos_class p = compute_qos_class p' \<and> mem_usage usage p' \<le> mem_usage usage p)"
  by (rule victim_is_best [OF assms])

subsection \<open>Evictions are spaced\<close>

definition spaced :: "duration \<Rightarrow> (timestamp \<times> PodUID) list \<Rightarrow> bool" where
  "spaced d = sorted_wrt (\<lambda>e e'. snd e = snd e' \<longrightarrow> fst e + d \<le> fst e')"

definition log_fits :: "EvictionManager \<Rightarrow> (timestamp \<times> PodUID) list \<Rightarrow> bool" where
  "log_fits m es \<longleftrightarrow> spaced (em_min_eviction_reclaim_period m) es \<and>
     (\<forall>e \<in> set es. \<forall>s. hm_get (em_last_evictions m) (snd e) = Some s \<longrightarrow> s + em_min_eviction_reclaim_period m \<le> fst e)"

lemma log_fits_Cons:
  assumes "0 < em_min_eviction_reclaim_period m" "\<not> recently_evicted now m u"
    "log_fits (m\<lparr>em_last_evictions := hm_insert u now (em_last_evictions m)\<rparr>) es"
  shows "log_fits m ((now, u) # es)"
proof -
  have 1: "s + em_min_eviction_reclaim_period m \<le> now" if "hm_get (em_last_evictions m) u = Some s" for s
    using assms(1,2) that by (simp add: recently_evicted_def)
  have 2: "now + em_min_eviction_reclaim_period m \<le> fst e" if "e \<in> set es" "snd e = u" for e
    using assms(3) that by (auto simp: log_fits_def)
  have 3: "s + em_min_eviction_reclaim_period m \<le> fst e"
    if "e \<in> set es" "hm_get (em_last_evictions m) (snd e) = Some s" for e s
    using assms(1,3) that 1 [of s] 2 [of e] by (cases "snd e = u") (force simp: log_fits_def)+
  show ?thesis using assms(3) 1 2 3 by (auto simp: log_fits_def spaced_def)
qed

lemma pick_if_props:
  assumes "pick_if b now ranked reason m = (d, m')"
  shows "em_min_eviction_reclaim_period m' = em_min_eviction_reclaim_period m" "d = Some x \<Longrightarrow> ed_reason x = reason"
  using assms by (cases rule: pick_if_cases [of b now ranked reason m]; force)+

lemma pick_if_fits:
  assumes "0 < em_min_eviction_reclaim_period m" "pick_if b now ranked reason m = (d, m')" "log_fits m' es"
  shows "log_fits m (map (\<lambda>x. (now, ed_pod_uid x)) (List.map_filter id [d]) @ es)"
  using assms
  by (cases rule: pick_if_cases [of b now ranked reason m]) (force simp: List.map_filter_def intro: log_fits_Cons)+

lemma eviction_log_fits: "0 < em_min_eviction_reclaim_period m \<Longrightarrow> log_fits m (eviction_log m ks)"
proof (induction m ks rule: eviction_log.induct)
  case (1 m)
  then show ?case by (simp add: log_fits_def spaced_def)
next
  case (2 m k ks)
  let ?p = "evaluator_evaluate (em_evaluator m) (tk_resources k)"
  obtain d1 m1 where p1: "pick_if (rp_memory_pressure ?p) (tk_now1 k) (rank_for_memory (tk_pods k) (tk_usage k)) MemoryPressure m = (d1, m1)"
    by fastforce
  obtain d2 m2 where p2: "pick_if (rp_disk_pressure ?p) (tk_now2 k) (rank_for_disk (tk_pods k) (tk_usage k)) DiskPressure m1 = (d2, m2)"
    by fastforce
  have e: "eviction_evaluate (tk_now1 k) (tk_now2 k) (tk_resources k) (tk_pods k) (tk_usage k) m = (List.map_filter id [d1, d2], m2)"
    by (simp add: eviction_evaluate_picks p1 p2)
  have "log_fits m2 (eviction_log m2 ks)"
    using 2 e p1 p2 by (intro "2.IH" [OF _ refl]) (simp_all add: pick_if_props)
  then have "log_fits m1 (map (\<lambda>x. (tk_now2 k, ed_pod_uid x)) (List.map_filter id [d2]) @ eviction_log m2 ks)"
    using 2 p1 by (intro pick_if_fits [OF _ p2]) (simp_all add: pick_if_props)
  from pick_if_fits [OF "2.prems" p1 this] show ?case
    by (auto simp: e List.map_filter_def pick_if_props(2) [OF p1] pick_if_props(2) [OF p2] split: option.splits)
qed

text \<open>Over any sequence of evaluations, whatever the resources, pods and usages are, two evictions of the same pod
  are at least 30 seconds apart; in particular one evaluation that finds memory and disk pressure at once within 30
  seconds picks two different pods.\<close>

theorem evictions_spaced: "spaced (secs 30) (eviction_log (EvictionManager_new hard soft grace) ks)"
proof -
  let ?m = "EvictionManager_new hard soft grace"
  have "em_min_eviction_reclaim_period ?m = secs 30" by (simp add: EvictionManager_new_def)
  with eviction_log_fits [of ?m ks] show ?thesis by (simp add: log_fits_def)
qed

subsection \<open>Thresholds\<close>

lemma evaluate_fold:
  "rp_memory_pressure (fold (evaluate_threshold r) ts p) \<longleftrightarrow>
     rp_memory_pressure p \<or> (\<exists>t \<in> set ts. et_resource t = ''memory.available'' \<and> is_exceeded t (nr_available_memory_bytes r) (nr_total_memory_bytes r))"
  "rp_disk_pressure (fold (evaluate_threshold r) ts p) \<longleftrightarrow>
     rp_disk_pressure p \<or> (\<exists>t \<in> set ts. et_resource t = ''nodefs.available'' \<and> is_exceeded t (nr_available_disk_bytes r) (nr_total_disk_bytes r))"
  "rp_pid_pressure (fold (evaluate_threshold r) ts p) \<longleftrightarrow>
     rp_pid_pressure p \<or> (\<exists>t \<in> set ts. et_resource t = ''pid.available'' \<and> is_exceeded t (nr_available_pids r) (nr_total_pids r))"
  by (induction ts arbitrary: p) (auto simp: evaluate_threshold_def)

lemma EvictionThreshold_parse_resource: "EvictionThreshold_parse k v = Some t \<Longrightarrow> et_resource t = k"
  by (auto simp: EvictionThreshold_parse_def Let_def split: option.splits)

text \<open>What a threshold string of the configuration means for a signal.\<close>

definition configured_exceeded :: "(string, string) hmap \<Rightarrow> string \<Rightarrow> nat \<Rightarrow> nat \<Rightarrow> bool" where
  "configured_exceeded hard signal available capacity \<longleftrightarrow>
     (\<exists>v t. (signal, v) \<in> set hard \<and> EvictionThreshold_parse signal v = Some t \<and> is_exceeded t available capacity)"

lemma configured_exceeded_thresholds:
  "(\<exists>t \<in> set (List.map_filter (\<lambda>(k, v). EvictionThreshold_parse k v) hard). et_resource t = s \<and> is_exceeded t a c) \<longleftrightarrow>
   configured_exceeded hard s a c"
proof -
  have "set (List.map_filter (\<lambda>(k, v). EvictionThreshold_parse k v) hard) =
        {t. \<exists>k v. (k, v) \<in> set hard \<and> EvictionThreshold_parse k v = Some t}"
    by (force simp: set_map_filter)
  then show ?thesis unfolding configured_exceeded_def using EvictionThreshold_parse_resource by blast
qed

text \<open>The node is under memory, disk or process pressure exactly when the hard configuration has a threshold for
  that signal which parses and which the available amount is below. The soft thresholds have no influence, and an
  entry that does not parse, or that names another signal, is ignored.\<close>

theorem pressure_iff_threshold_met:
  "rp_memory_pressure (evaluator_evaluate (EvictionEvaluator_new hard soft) r) =
     configured_exceeded hard ''memory.available'' (nr_available_memory_bytes r) (nr_total_memory_bytes r) \<and>
   rp_disk_pressure (evaluator_evaluate (EvictionEvaluator_new hard soft) r) =
     configured_exceeded hard ''nodefs.available'' (nr_available_disk_bytes r) (nr_total_disk_bytes r) \<and>
   rp_pid_pressure (evaluator_evaluate (EvictionEvaluator_new hard soft) r) =
     configured_exceeded hard ''pid.available'' (nr_available_pids r) (nr_total_pids r)"
  by (simp add: evaluator_evaluate_def EvictionEvaluator_new_def evaluate_fold configured_exceeded_thresholds)

subsection \<open>Threshold strings\<close>

lemma show_nat_not_sign: "show_nat n = c # r \<Longrightarrow> c \<noteq> CHR ''-'' \<and> c \<noteq> CHR ''+''"
  using show_nat_digits [of n] is_digit_not_special by (cases "show_nat n") auto

lemma parse_decimal_show_nat: "parse_decimal (show_nat n) = Some (of_nat n)"
proof -
  have d: "list_all is_digit (show_nat n)" by (rule show_nat_digits)
  then have "\<forall>c \<in> set (show_nat n). c \<noteq> CHR ''e'' \<and> c \<noteq> CHR ''E'' \<and> c \<noteq> CHR ''.''"
    by (auto simp: list_all_iff is_digit_def)
  then have "takeWhile (\<lambda>c. c \<noteq> CHR ''e'' \<and> c \<noteq> CHR ''E'') (show_nat n) = show_nat n" "split_once CHR ''.'' (show_nat n) = None"
    by (auto simp: takeWhile_eq_all_conv split_once_None_iff)
  then show ?thesis using d by (simp only: parse_decimal_def Let_def) simp
qed

lemma parse_f64_show_nat: "parse_f64 (show_nat n) = Some (f64_of_u64 n)"
proof -
  obtain c r where cr: "show_nat n = c # r" by (cases "show_nat n") auto
  have "is_digit c" using show_nat_digits [of n] cr by simp
  then have "to_lower c \<noteq> CHR ''i''" "to_lower c \<noteq> CHR ''n''" by (auto simp: is_digit_def to_lower_def)
  then have "to_lowercase (c # r) \<noteq> ''inf''" "to_lowercase (c # r) \<noteq> ''infinity''" "to_lowercase (c # r) \<noteq> ''nan''"
    by (simp_all add: to_lowercase_def)
  then show ?thesis
    using show_nat_not_sign [OF cr] parse_decimal_show_nat [of n] cr by (simp add: parse_f64_def f64_of_u64_def)
qed

lemma strip_suffix_show_nat: "\<not> is_digit (last suf) \<Longrightarrow> suf \<noteq> [] \<Longrightarrow> strip_suffix suf (show_nat n) = None"
proof -
  assume a: "\<not> is_digit (last suf)" "suf \<noteq> []"
  have "show_nat n \<noteq> r @ suf" for r
    using show_nat_digits [of n] a last_in_set [of suf] by (auto simp: list_all_iff)
  then show ?thesis by (auto simp: strip_suffix_None_iff)
qed

lemma quantity_product:
  assumes "n * k \<le> 2 ^ 53" "0 < k" "k \<le> 2 ^ 53"
  shows "f64_as_u64 (f64_mul (f64_of_u64 n) (f64_of_u64 k)) = n * k"
proof -
  have "n \<le> 2 ^ 53" using assms(1,2) order_trans [of n "n * k" "2 ^ 53"] by simp
  then have "f64_of_u64 n = Fin (of_nat n)" "f64_of_u64 k = Fin (of_nat k)"
    using assms(3) by (simp_all only: f64_of_u64_exact)
  moreover have "round64 (of_nat (n * k)) = Fin (of_nat (n * k))"
    using f64_of_u64_exact [OF assms(1)] by (simp only: f64_of_u64_def)
  ultimately have e: "f64_mul (f64_of_u64 n) (f64_of_u64 k) = Fin (of_nat (n * k))" by simp
  have "nat \<lfloor>of_nat (n * k) :: rat\<rfloor> = n * k" by (metis floor_of_nat nat_int)
  then show ?thesis unfolding e f64_as_u64.simps using assms(1) by simp
qed

lemma quantity_suffix_cases:
  assumes "(suf, k) \<in> set quantity_suffixes" "n * k \<le> 2 ^ 53"
  shows "eviction_parse_quantity (show_nat n @ suf) = Some (n * k)"
proof -
  have p: "f64_as_u64 (f64_mul (f64_of_u64 n) (f64_of_u64 k)) = n * k"
    using assms by (intro quantity_product) (auto simp: quantity_suffixes_def)
  from assms(1) show ?thesis
    unfolding quantity_suffixes_def eviction_parse_quantity_def
    by (simp, elim disjE) (use p in \<open>simp_all add: strip_suffix_def parse_f64_show_nat\<close>)
qed

lemma eviction_parse_quantity_plain: "n < 2 ^ 64 \<Longrightarrow> eviction_parse_quantity (show_nat n) = Some n"
  by (simp add: eviction_parse_quantity_def quantity_suffixes_def strip_suffix_show_nat is_digit_def)

lemma percentage_parse:
  "p \<le> 100 \<Longrightarrow> EvictionThreshold_parse r (show_nat p @ ''%'') = Some \<lparr>et_resource = r, et_value = Percentage (Fin (fl (of_nat p / 100)))\<rparr>"
proof -
  assume a: "p \<le> 100"
  have t: "trim (show_nat p @ ''%'') = show_nat p @ ''%''"
    using show_nat_notin [of _ p] by (intro trim_none) (auto simp: is_ws_def is_digit_def)
  have q: "f64_of_u64 p = Fin (of_nat p)" using a by (intro f64_of_u64_exact) simp
  have r: "round64 (of_nat p / 100) = Fin (fl (of_nat p / 100))" using a by (intro round64_Fin) simp
  show ?thesis by (simp add: EvictionThreshold_parse_def t parse_f64_show_nat q r)
qed

lemma percentage_amount:
  assumes "p \<le> 100" "capacity \<le> 2 ^ 53"
  shows "f64_as_u64 (f64_mul (f64_of_u64 capacity) (Fin (fl (of_nat p / 100)))) \<le> capacity"
proof -
  let ?q = "fl (of_nat p / 100)"
  have q: "0 \<le> ?q" "?q \<le> 1"
    using assms(1) fl_le [of 1 "of_nat p / 100"] representable_of_nat [of 1] by (auto intro: fl_nonneg)
  have c: "(of_nat capacity :: rat) \<le> 2 ^ 53" using assms(2) of_nat_mono [OF assms(2), where 'a = rat] by simp
  have le: "of_nat capacity * ?q \<le> of_nat capacity" using q by (simp add: mult_left_le)
  have ge: "0 \<le> of_nat capacity * ?q" using q by simp
  have "\<bar>of_nat capacity * ?q\<bar> \<le> 2 ^ 64" using le ge c by simp
  then have m: "f64_mul (f64_of_u64 capacity) (Fin ?q) = Fin (fl (of_nat capacity * ?q))"
    using f64_of_u64_exact [OF assms(2)] by (simp add: round64_Fin)
  have "fl (of_nat capacity * ?q) \<le> of_nat capacity" using le by (intro fl_le representable_of_nat assms(2))
  then have "\<lfloor>fl (of_nat capacity * ?q)\<rfloor> \<le> int capacity" by linarith
  then show ?thesis unfolding m by simp
qed

lemma percentage_all: "capacity \<le> 2 ^ 53 \<Longrightarrow> f64_as_u64 (f64_mul (f64_of_u64 capacity) (Fin 1)) = capacity"
  using quantity_product [of capacity 1] f64_of_u64_exact [of 1] by simp

text \<open>Threshold strings mean what they say. A whole number with one of the nine suffixes is that many units, as long
  as the product is at most \<open>2\<^sup>5\<^sup>3\<close> bytes; a plain number is taken as it is; a whole percentage up to 100 gives a threshold
  that full capacity can never be below and that, at 100 percent, everything below full capacity is below.\<close>

theorem threshold_strings:
  assumes "(suf, k) \<in> set quantity_suffixes" "n * k \<le> 2 ^ 53" "j < 2 ^ 64" "p \<le> 100" "capacity \<le> 2 ^ 53"
  shows "EvictionThreshold_parse r (show_nat n @ suf) = Some \<lparr>et_resource = r, et_value = Absolute (n * k)\<rparr> \<and>
         EvictionThreshold_parse r (show_nat j) = Some \<lparr>et_resource = r, et_value = Absolute j\<rparr> \<and>
         (\<exists>t. EvictionThreshold_parse r (show_nat p @ ''%'') = Some t \<and> \<not> is_exceeded t capacity capacity) \<and>
         (\<exists>t. EvictionThreshold_parse r ''100%'' = Some t \<and> is_exceeded t a capacity = (a < capacity))"
proof (intro conjI)
  have l: "\<not> is_ws c" if "c \<in> set (show_nat x) \<or> is_digit c \<or> c \<in> set ''KMGTPi''" for c x
    using that show_nat_notin [of c x] by (auto simp: is_ws_def is_digit_def)
  have suf: "set suf \<subseteq> set ''KMGTPi''" "suf \<noteq> []" using assms(1) by (auto simp: quantity_suffixes_def)
  have 1: "trim (show_nat n @ suf) = show_nat n @ suf" using suf l by (intro trim_none) (auto simp del: set_simps)
  have 2: "strip_suffix ''%'' (show_nat n @ suf) = None"
    using assms(1) by (auto simp: quantity_suffixes_def strip_suffix_def)
  show "EvictionThreshold_parse r (show_nat n @ suf) = Some \<lparr>et_resource = r, et_value = Absolute (n * k)\<rparr>"
    by (simp add: EvictionThreshold_parse_def 1 2 quantity_suffix_cases [OF assms(1,2)])
  show "EvictionThreshold_parse r (show_nat j) = Some \<lparr>et_resource = r, et_value = Absolute j\<rparr>"
    using assms(3) by (simp add: EvictionThreshold_parse_def eviction_parse_quantity_plain strip_suffix_show_nat is_digit_def)
  show "\<exists>t. EvictionThreshold_parse r (show_nat p @ ''%'') = Some t \<and> \<not> is_exceeded t capacity capacity"
    using percentage_parse [OF assms(4)] percentage_amount [OF assms(4,5)] by (simp add: is_exceeded_def)
  have "show_nat 100 = ''100''" by (simp add: show_nat.simps digit_char_eval)
  then show "\<exists>t. EvictionThreshold_parse r ''100%'' = Some t \<and> is_exceeded t a capacity = (a < capacity)"
    using percentage_parse [of 100 r] percentage_all [OF assms(5)] by (simp add: is_exceeded_def)
qed

theorem threshold_strings_witness:
  "EvictionThreshold_parse ''memory.available'' (show_nat 100 @ ''Mi'') =
     Some \<lparr>et_resource = ''memory.available'', et_value = Absolute 104857600\<rparr>"
  using threshold_strings [of "''Mi''" "1024 * 1024" 100 0 0 0 "''memory.available''"] by (simp add: quantity_suffixes_def)

text \<open>A node with one best-effort pod, below its memory threshold.\<close>

definition demo_pods :: "PodSpec list" where
  "demo_pods = [PodSpec_default\<lparr>ps_uid := ''a''\<rparr>, PodSpec_default\<lparr>ps_uid := ''b''\<rparr>]"

definition demo_resources :: NodeResources where
  "demo_resources = \<lparr>nr_available_memory_bytes = 5, nr_total_memory_bytes = 100, nr_available_disk_bytes = 50,
     nr_total_disk_bytes = 100, nr_available_pids = 50, nr_total_pids = 100\<rparr>"

definition demo_usage :: "(PodUID, PodResourceUsage) hmap" where
  "demo_usage = [(''b'', \<lparr>pru_memory_bytes = 7, pru_cpu_millicores = 0, pru_disk_bytes = 0\<rparr>)]"

definition demo_manager :: EvictionManager where
  "demo_manager = EvictionManager_new [(''memory.available'', ''10'')] [] None"

lemma demo_evaluator:
  "em_evaluator demo_manager = \<lparr>ee_hard_thresholds = [\<lparr>et_resource = ''memory.available'', et_value = Absolute 10\<rparr>], ee_soft_thresholds = []\<rparr>"
proof -
  have s: "show_nat 10 = ''10''" by (simp add: show_nat.simps digit_char_eval)
  have "eviction_parse_quantity ''10'' = Some 10" using eviction_parse_quantity_plain [of 10] s by simp
  moreover have "trim ''10'' = ''10''" "strip_suffix ''%'' ''10'' = None" by (simp_all add: trim_def is_ws_def strip_suffix_def)
  ultimately show ?thesis
    by (simp add: demo_manager_def EvictionManager_new_def EvictionEvaluator_new_def List.map_filter_def EvictionThreshold_parse_def)
qed

theorem memory_victim_witness:
  "\<exists>d \<in> set (fst (eviction_evaluate 0 0 demo_resources demo_pods demo_usage demo_manager)). ed_pod_uid d = ''b''"
proof -
  let ?e = "eviction_evaluate 0 0 demo_resources demo_pods demo_usage demo_manager"
  have q: "compute_qos_class (PodSpec_default\<lparr>ps_uid := u\<rparr>) = BestEffort" for u
    by (simp add: compute_qos_class_def PodSpec_default_def)
  have rp: "ps_restart_policy PodSpec_default = Always" by (simp add: PodSpec_default_def)
  have r: "rank_for_memory demo_pods demo_usage = [(''b'', BestEffort, 7), (''a'', BestEffort, 0)]"
    by (simp add: rank_for_memory_def demo_pods_def q demo_usage_def sort_candidates_def before_def rp)
  have n: "recently_evicted 0 demo_manager u = False" for u
    by (simp add: demo_manager_def EvictionManager_new_def recently_evicted_def)
  have "\<exists>d \<in> set (fst ?e). ed_reason d = MemoryPressure"
    by (simp add: eviction_evaluate_def demo_evaluator evaluator_evaluate_def evaluate_threshold_def is_exceeded_def demo_resources_def
        r n List.map_filter_def)
  then obtain d where d: "d \<in> set (fst ?e)" "ed_reason d = MemoryPressure" by blast
  from memory_victim [OF d] have "ed_pod_uid d = ''b''"
    by (auto simp: demo_pods_def q mem_usage_def demo_usage_def n rp)
  with d(1) show ?thesis by blast
qed

subsection \<open>Pressure conditions\<close>

lemma raise_condition_simps:
  "pc_memory_pressure (raise_condition sig (s, v) c) \<longleftrightarrow> pc_memory_pressure c \<or> s = ''memory.available'' \<and> signal_exceeded sig s v"
  "pc_disk_pressure (raise_condition sig (s, v) c) \<longleftrightarrow>
     pc_disk_pressure c \<or> s \<in> {''nodefs.available'', ''nodefs.inodesFree'', ''imagefs.available''} \<and> signal_exceeded sig s v"
  "pc_pid_pressure (raise_condition sig (s, v) c) \<longleftrightarrow> pc_pid_pressure c \<or> s = ''pid.available'' \<and> signal_exceeded sig s v"
  by (simp_all add: raise_condition_def)

lemma evaluate_pressure_fold:
  "pc_memory_pressure (fold (raise_condition sig) es c) \<longleftrightarrow>
     pc_memory_pressure c \<or> (\<exists>(s, v) \<in> set es. s = ''memory.available'' \<and> signal_exceeded sig s v)"
  "pc_disk_pressure (fold (raise_condition sig) es c) \<longleftrightarrow>
     pc_disk_pressure c \<or>
     (\<exists>(s, v) \<in> set es. s \<in> {''nodefs.available'', ''nodefs.inodesFree'', ''imagefs.available''} \<and> signal_exceeded sig s v)"
  "pc_pid_pressure (fold (raise_condition sig) es c) \<longleftrightarrow>
     pc_pid_pressure c \<or> (\<exists>(s, v) \<in> set es. s = ''pid.available'' \<and> signal_exceeded sig s v)"
proof -
  show "pc_memory_pressure (fold (raise_condition sig) es c) \<longleftrightarrow>
     pc_memory_pressure c \<or> (\<exists>(s, v) \<in> set es. s = ''memory.available'' \<and> signal_exceeded sig s v)"
    by (induction es arbitrary: c) (auto simp: raise_condition_simps simp del: insert_iff)
  show "pc_disk_pressure (fold (raise_condition sig) es c) \<longleftrightarrow>
     pc_disk_pressure c \<or>
     (\<exists>(s, v) \<in> set es. s \<in> {''nodefs.available'', ''nodefs.inodesFree'', ''imagefs.available''} \<and> signal_exceeded sig s v)"
    by (induction es arbitrary: c) (auto simp: raise_condition_simps simp del: insert_iff)
  show "pc_pid_pressure (fold (raise_condition sig) es c) \<longleftrightarrow>
     pc_pid_pressure c \<or> (\<exists>(s, v) \<in> set es. s = ''pid.available'' \<and> signal_exceeded sig s v)"
    by (induction es arbitrary: c) (auto simp: raise_condition_simps simp del: insert_iff)
qed

lemma ten_percent: "parse_f64 ''10'' = Some (Fin 10)"
  using parse_f64_show_nat [of 10] f64_of_u64_exact [of 10] by (simp add: show_nat.simps digit_char_eval)

lemma one_tenth_ge: "1 / 16 \<le> fl (10 / 100)"
proof (rule fl_ge)
  show "representable (1 / 16)"
    unfolding representable_def by (rule exI [of _ 1], rule exI [of _ "- 4"]) (simp add: power_int_def eval_nat_numeral)
qed simp

lemma evaluate_pressure_alt:
  "evaluate_pressure sig hard =
     \<lparr>pc_memory_pressure = (\<exists>(s, v) \<in> set hard. s = ''memory.available'' \<and> signal_exceeded sig s v),
      pc_disk_pressure = (\<exists>(s, v) \<in> set hard.
        s \<in> {''nodefs.available'', ''nodefs.inodesFree'', ''imagefs.available''} \<and> signal_exceeded sig s v),
      pc_pid_pressure = (\<exists>(s, v) \<in> set hard. s = ''pid.available'' \<and> signal_exceeded sig s v)\<rparr>"
  by (rule PressureConditions.equality) (simp_all add: evaluate_pressure_def evaluate_pressure_fold del: insert_iff)

text \<open>The conditions reported for the node: memory pressure exactly when the entry for \<^verbatim>\<open>memory.available\<close> is met,
  process pressure when the one for \<^verbatim>\<open>pid.available\<close> is (a threshold that does not parse counts as 1000), and disk
  pressure when one of the three entries for file systems is; no other entry matters, nor does their order.\<close>

theorem pressure_conditions:
  "evaluate_pressure sig hard =
     \<lparr>pc_memory_pressure = (\<exists>(s, v) \<in> set hard. s = ''memory.available'' \<and> signal_exceeded sig s v),
      pc_disk_pressure = (\<exists>(s, v) \<in> set hard.
        s \<in> {''nodefs.available'', ''nodefs.inodesFree'', ''imagefs.available''} \<and> signal_exceeded sig s v),
      pc_pid_pressure = (\<exists>(s, v) \<in> set hard. s = ''pid.available'' \<and> signal_exceeded sig s v)\<rparr>"
  by (rule evaluate_pressure_alt)

text \<open>The memory signal is measured against the wrong capacity. A percentage for \<^verbatim>\<open>memory.available\<close> is taken of
  the available memory plus the size of the root file system, so a node with 8 GiB of memory available and a root file
  system of 1 TiB reports memory pressure at a threshold of 10 percent, however much memory it has in total.\<close>

theorem memory_percentage_counts_disk:
  assumes "rs_memory_available_bytes sig = 2 ^ 33" "rs_nodefs_total_bytes sig = 2 ^ 40"
  shows "pc_memory_pressure (evaluate_pressure sig [(''memory.available'', ''10%'')])"
proof -
  let ?t = "(2 ^ 33 + 2 ^ 40) :: nat" and ?q = "fl (10 / 100)"
  have q: "1 / 16 \<le> ?q" "?q \<le> 1"
    using one_tenth_ge fl_le [of 1 "10 / 100"] representable_of_nat [of 1] by simp_all
  have 1: "2 ^ 36 \<le> ?q * of_nat ?t" "?q * of_nat ?t \<le> 2 ^ 64" using q by simp_all
  then have 2: "round64 (?q * of_nat ?t) = Fin (fl (?q * of_nat ?t))" by (intro round64_Fin) simp
  have "of_nat (2 ^ 36) \<le> fl (?q * of_nat ?t)" using 1(1) by (intro fl_ge representable_of_nat) simp_all
  then have "2 ^ 36 \<le> \<lfloor>fl (?q * of_nat ?t)\<rfloor>" by (simp add: le_floor_iff)
  from nat_mono [OF this] have 3: "2 ^ 36 \<le> nat \<lfloor>fl (?q * of_nat ?t)\<rfloor>" by simp
  have 4: "f64_div (Fin 10) (Fin 100) = Fin ?q" by (simp add: round64_Fin)
  have 5: "f64_of_u64 ?t = Fin (of_nat ?t)" by (intro f64_of_u64_exact) simp
  have "2 ^ 33 < f64_as_u64 (f64_mul (f64_div (Fin 10) (Fin 100)) (f64_of_u64 ?t))"
    unfolding 4 5 f64_mul.simps 2 f64_as_u64.simps using 3 by (simp only: min_less_iff_conj) simp
  then have "threshold_exceeded (2 ^ 33) ?t ''10%''"
    by (simp add: threshold_exceeded_def strip_suffix_def ten_percent)
  then have "signal_exceeded sig ''memory.available'' ''10%''" using assms by (simp add: signal_exceeded_def)
  then show ?thesis by (simp add: evaluate_pressure_alt)
qed

theorem memory_percentage_counts_disk_witness:
  "\<exists>sig. rs_memory_available_bytes sig = 2 ^ 33 \<and> pc_memory_pressure (evaluate_pressure sig [(''memory.available'', ''10%'')])"
  by (rule exI [of _ "\<lparr>rs_memory_available_bytes = 2 ^ 33, rs_nodefs_available_bytes = 2 ^ 39, rs_nodefs_inodes_free = 9,
        rs_imagefs_available_bytes = 2 ^ 39, rs_pid_available = 9, rs_nodefs_total_bytes = 2 ^ 40, rs_imagefs_total_bytes = 2 ^ 40\<rparr>"],
      intro conjI memory_percentage_counts_disk) simp_all

text \<open>The two parsers of the same configuration disagree. A threshold of \<^verbatim>\<open>1Ti\<close> is one tebibyte for the eviction
  manager, but no bytes at all for the pressure conditions, which therefore never report it as met.\<close>

theorem tebibyte_threshold_ignored:
  "EvictionThreshold_parse ''nodefs.available'' ''1Ti'' = Some \<lparr>et_resource = ''nodefs.available'', et_value = Absolute (2 ^ 40)\<rparr> \<and>
   \<not> pc_disk_pressure (evaluate_pressure sig [(''nodefs.available'', ''1Ti'')])"
proof
  have s: "show_nat 1 = ''1''" by (simp add: show_nat.simps digit_char_eval)
  have q: "eviction_parse_quantity ''1Ti'' = Some (2 ^ 40)"
    using quantity_suffix_cases [of "''Ti''" "1024 ^ 4" 1] s by (simp add: quantity_suffixes_def)
  have "trim ''1Ti'' = ''1Ti''" "strip_suffix ''%'' ''1Ti'' = None" by (simp_all add: trim_def is_ws_def strip_suffix_def)
  then show "EvictionThreshold_parse ''nodefs.available'' ''1Ti'' =
      Some \<lparr>et_resource = ''nodefs.available'', et_value = Absolute (2 ^ 40)\<rparr>"
    by (simp add: EvictionThreshold_parse_def q)
  have "parse_bytes ''1Ti'' = 0" by (simp add: parse_bytes_def strip_suffix_def parse_or_0_def parse_uint_def strip_plus_def is_digit_def)
  then show "\<not> pc_disk_pressure (evaluate_pressure sig [(''nodefs.available'', ''1Ti'')])"
    by (simp add: evaluate_pressure_alt signal_exceeded_def threshold_exceeded_def strip_suffix_def)
qed

end
