(* ===== verification/Pleg.thy ===== *)
theory Pleg
  imports Pod_Types
begin

text \<open>
  The pod lifecycle event generator (\<^verbatim>\<open>kubelet-app/src/runtime_manager/pleg.rs\<close>). It compares the runtime's listing of
  containers with the one it saw last and reports the differences as events. The container runtime is not part of
  the source: its answer to \<^verbatim>\<open>list_containers\<close> is an argument of \<open>relist\<close>, as is the clock.
\<close>

datatype PlegEventType = ContainerStarted | ContainerDied | ContainerRemoved | ContainerChanged

record PlegEvent =
  pe_pod_uid :: string
  pe_container_id :: string
  pe_container_name :: string
  pe_event_type :: PlegEventType

record GenericPleg =
  gp_relist_period :: duration
  gp_last_relist :: "timestamp option"
  gp_cache :: "(string, RuntimeContainer) hmap"

definition GenericPleg_new :: "duration \<Rightarrow> GenericPleg" where
  "GenericPleg_new period = \<lparr>gp_relist_period = period, gp_last_relist = None, gp_cache = []\<rparr>"

definition is_healthy :: "timestamp \<Rightarrow> duration \<Rightarrow> GenericPleg \<Rightarrow> bool" where
  "is_healthy now max_staleness p =
     (case gp_last_relist p of Some t \<Rightarrow> max 0 (now - t) \<le> max_staleness | None \<Rightarrow> False)"

definition pleg_event :: "RuntimeContainer \<Rightarrow> PlegEventType \<Rightarrow> PlegEvent" where
  "pleg_event c ty =
     \<lparr>pe_pod_uid = rtc_pod_uid c, pe_container_id = rtc_id c, pe_container_name = rtc_name c, pe_event_type = ty\<rparr>"

fun transition_type :: "RuntimeContainerState \<Rightarrow> RuntimeContainerState \<Rightarrow> PlegEventType" where
  "transition_type RRunning RExited = ContainerDied"
| "transition_type _ RRunning = ContainerStarted"
| "transition_type _ _ = ContainerChanged"

definition live_event :: "(string, RuntimeContainer) hmap \<Rightarrow> RuntimeContainer \<Rightarrow> PlegEvent option" where
  "live_event cache c =
     (case hm_get cache (rtc_id c) of
        Some old \<Rightarrow>
          if rtc_state old \<noteq> rtc_state c then Some (pleg_event c (transition_type (rtc_state old) (rtc_state c))) else None
      | None \<Rightarrow> Some (pleg_event c (if rtc_state c = RRunning then ContainerStarted else ContainerChanged)))"

fun relist_live ::
  "(string, RuntimeContainer) hmap \<Rightarrow> RuntimeContainer list \<Rightarrow> (string, RuntimeContainer) hmap \<Rightarrow> PlegEvent list \<Rightarrow>
   (string, RuntimeContainer) hmap \<times> PlegEvent list" where
  "relist_live cache [] next_cache events = (next_cache, events)"
| "relist_live cache (c # live) next_cache events =
     relist_live cache live (hm_insert (rtc_id c) c next_cache)
       (events @ (case live_event cache c of Some e \<Rightarrow> [e] | None \<Rightarrow> []))"

definition removed_events :: "(string, RuntimeContainer) hmap \<Rightarrow> (string, RuntimeContainer) hmap \<Rightarrow> PlegEvent list" where
  "removed_events cache next_cache =
     map (\<lambda>(_, old). pleg_event old ContainerRemoved) (filter (\<lambda>(i, _). \<not> hm_contains_key i next_cache) cache)"

definition relist :: "timestamp \<Rightarrow> RuntimeContainer list result \<Rightarrow> GenericPleg \<Rightarrow> PlegEvent list result \<times> GenericPleg" where
  "relist now listing p =
     (case listing of
        Inl e \<Rightarrow> (Inl e, p)
      | Inr live \<Rightarrow>
          (let (next_cache, events) = relist_live (gp_cache p) live [] []
           in (Inr (events @ removed_events (gp_cache p) next_cache),
               p\<lparr>gp_cache := next_cache, gp_last_relist := Some now\<rparr>)))"

text \<open>A sequence of relists, and all events they produced.\<close>

fun pleg_run :: "(timestamp \<times> RuntimeContainer list result) list \<Rightarrow> GenericPleg \<Rightarrow> PlegEvent list \<times> GenericPleg" where
  "pleg_run [] p = ([], p)"
| "pleg_run ((now, listing) # rest) p =
     (case relist now listing p of
        (r, p') \<Rightarrow> (case pleg_run rest p' of (es, q) \<Rightarrow> ((case r of Inr e \<Rightarrow> e | Inl _ \<Rightarrow> []) @ es, q)))"

subsection \<open>The events of one relist\<close>

definition cache_ok :: "(string, RuntimeContainer) hmap \<Rightarrow> bool" where
  "cache_ok cache \<longleftrightarrow> hm_ok cache \<and> (\<forall>(i, c) \<in> set cache. rtc_id c = i)"

abbreviation events_of :: "string \<Rightarrow> PlegEvent list \<Rightarrow> PlegEvent list" where
  "events_of i \<equiv> filter (\<lambda>e. pe_container_id e = i)"

text \<open>What the events of one container should be, given what the cache and the new listing say of it.\<close>

fun expected_events :: "RuntimeContainer option \<Rightarrow> RuntimeContainer option \<Rightarrow> PlegEvent list" where
  "expected_events None None = []"
| "expected_events (Some old) None = [pleg_event old ContainerRemoved]"
| "expected_events None (Some c) = [pleg_event c (if rtc_state c = RRunning then ContainerStarted else ContainerChanged)]"
| "expected_events (Some old) (Some c) =
     (if rtc_state old = rtc_state c then [] else [pleg_event c (transition_type (rtc_state old) (rtc_state c))])"

lemma pleg_event_simps [simp]:
  "pe_container_id (pleg_event c ty) = rtc_id c" "pe_event_type (pleg_event c ty) = ty" "pe_pod_uid (pleg_event c ty) = rtc_pod_uid c"
  by (simp_all add: pleg_event_def)

definition cache_of :: "RuntimeContainer list \<Rightarrow> (string, RuntimeContainer) hmap" where
  "cache_of live = fold (\<lambda>c. hm_insert (rtc_id c) c) live []"

lemma relist_live_eq:
  "relist_live cache live n es =
     (fold (\<lambda>c. hm_insert (rtc_id c) c) live n, es @ concat (map (\<lambda>c. case live_event cache c of Some e \<Rightarrow> [e] | None \<Rightarrow> []) live))"
  by (induction cache live n es rule: relist_live.induct) simp_all

lemma cache_ok_insert: "cache_ok n \<Longrightarrow> cache_ok (hm_insert (rtc_id c) c n)"
  by (auto simp: cache_ok_def set_hm_insert)

lemma cache_ok_cache_of: "cache_ok (cache_of live)"
proof -
  have "cache_ok n \<Longrightarrow> cache_ok (fold (\<lambda>c. hm_insert (rtc_id c) c) live n)" for n
    by (induction live arbitrary: n) (auto intro: cache_ok_insert)
  from this [of "[]"] show ?thesis by (simp add: cache_of_def) (simp add: cache_ok_def)
qed

lemma cache_okD: "cache_ok cache \<Longrightarrow> hm_get cache i = Some c \<Longrightarrow> rtc_id c = i"
  by (auto simp: cache_ok_def dest: map_of_SomeD)

lemma hm_get_fold_containers:
  "distinct (map rtc_id live) \<Longrightarrow>
   hm_get (fold (\<lambda>c. hm_insert (rtc_id c) c) live n) i =
     (case filter (\<lambda>c. rtc_id c = i) live of [] \<Rightarrow> hm_get n i | c # _ \<Rightarrow> Some c)"
proof (induction live arbitrary: n)
  case (Cons c live)
  have "rtc_id c = i \<Longrightarrow> filter (\<lambda>c. rtc_id c = i) live = []"
    using Cons.prems by (auto simp: filter_empty_conv image_iff)
  then show ?case using Cons by (auto split: list.splits)
qed simp

lemma filter_ids_distinct: "distinct (map rtc_id live) \<Longrightarrow> length (filter (\<lambda>c. rtc_id c = i) live) \<le> 1"
  by (induction live) (auto simp: filter_empty_conv image_iff)

lemma events_of_live:
  "events_of i (concat (map (\<lambda>c. case live_event cache c of Some e \<Rightarrow> [e] | None \<Rightarrow> []) live)) =
   concat (map (\<lambda>c. expected_events (hm_get cache i) (Some c)) (filter (\<lambda>c. rtc_id c = i) live))"
  by (induction live) (auto simp: live_event_def split: option.splits)

lemma events_of_removed:
  assumes "cache_ok cache"
  shows "events_of i (removed_events cache n) =
    (if hm_get n i = None then (case hm_get cache i of Some old \<Rightarrow> [pleg_event old ContainerRemoved] | None \<Rightarrow> []) else [])"
proof -
  have *: "cache_ok cache \<Longrightarrow> filter (\<lambda>(k, _). k = i) cache = (case hm_get cache i of Some old \<Rightarrow> [(i, old)] | None \<Rightarrow> [])"
    by (induction cache) (force simp: cache_ok_def hm_ok_def filter_empty_conv split: option.splits dest: map_of_SomeD)+
  have "events_of i (removed_events cache n) =
    map (\<lambda>(_, old). pleg_event old ContainerRemoved) (filter (\<lambda>(k, _). \<not> hm_contains_key k n) (filter (\<lambda>(k, _). k = i) cache))"
    using assms by (induction cache) (auto simp: removed_events_def cache_ok_def hm_ok_def)
  then show ?thesis using * [OF assms] by (auto simp: hm_contains_key_def split: option.splits)
qed

lemma relist_Inr:
  "relist now (Inr live) p =
     (Inr (concat (map (\<lambda>c. case live_event (gp_cache p) c of Some e \<Rightarrow> [e] | None \<Rightarrow> []) live) @
           removed_events (gp_cache p) (cache_of live)),
      p\<lparr>gp_cache := cache_of live, gp_last_relist := Some now\<rparr>)"
  by (simp add: relist_def relist_live_eq cache_of_def)

lemma relist_events:
  assumes "cache_ok (gp_cache p)" "distinct (map rtc_id live)" "relist now (Inr live) p = (Inr es, p')"
  shows "events_of i es = expected_events (hm_get (gp_cache p) i) (hm_get (gp_cache p') i)"
proof -
  have n: "hm_get (cache_of live) i = (case filter (\<lambda>c. rtc_id c = i) live of [] \<Rightarrow> None | c # _ \<Rightarrow> Some c)"
    using hm_get_fold_containers [OF assms(2), of "[]" i] by (simp add: cache_of_def split: list.splits)
  consider "filter (\<lambda>c. rtc_id c = i) live = []" | c where "filter (\<lambda>c. rtc_id c = i) live = [c]"
    using filter_ids_distinct [OF assms(2), of i] by (cases "filter (\<lambda>c. rtc_id c = i) live") auto
  then show ?thesis
    using assms(3) n events_of_removed [OF assms(1), of i "cache_of live"]
    by cases (auto simp: relist_Inr events_of_live split: option.splits)
qed

lemma relist_cache_ok: "cache_ok (gp_cache p) \<Longrightarrow> relist now l p = (r, p') \<Longrightarrow> cache_ok (gp_cache p')"
  by (cases l) (auto simp: relist_Inr cache_ok_cache_of relist_def [of now "Inl _"])

subsection \<open>The event log\<close>

definition last_event :: "string \<Rightarrow> PlegEvent list \<Rightarrow> PlegEventType option" where
  "last_event i es = (if events_of i es = [] then None else Some (pe_event_type (last (events_of i es))))"

definition unique_ids :: "RuntimeContainer list result \<Rightarrow> bool" where
  "unique_ids listing = (case listing of Inr live \<Rightarrow> distinct (map rtc_id live) | Inl _ \<Rightarrow> True)"

text \<open>The last event tells what the cache says: the container is absent, running, or present and not running.\<close>

definition tracks :: "PlegEventType option \<Rightarrow> RuntimeContainer option \<Rightarrow> bool" where
  "tracks e c \<longleftrightarrow>
     (e \<in> {None, Some ContainerRemoved} \<longleftrightarrow> c = None) \<and>
     (e = Some ContainerStarted \<longleftrightarrow> (\<exists>x. c = Some x \<and> rtc_state x = RRunning))"

lemma last_event_append:
  "last_event i (xs @ ys) = (case last_event i ys of None \<Rightarrow> last_event i xs | Some t \<Rightarrow> Some t)"
  by (simp add: last_event_def)

lemma tracks_expected:
  assumes "tracks (last_event i xs) old" "events_of i ys = expected_events old c"
  shows "tracks (last_event i (xs @ ys)) c"
proof -
  have "last_event i ys = (if expected_events old c = [] then None else Some (pe_event_type (last (expected_events old c))))"
    using assms(2) by (simp add: last_event_def)
  then show ?thesis
    using assms(1) unfolding last_event_append tracks_def
    by (cases "(old, c)" rule: expected_events.cases) (auto elim: transition_type.elims)
qed

lemma pleg_run_tracks:
  assumes "cache_ok (gp_cache p)" "list_all (\<lambda>(_, l). unique_ids l) inputs" "pleg_run inputs p = (es, q)"
    "\<And>i. tracks (last_event i xs) (hm_get (gp_cache p) i)"
  shows "tracks (last_event i (xs @ es)) (hm_get (gp_cache q) i)"
  using assms
proof (induction inputs p arbitrary: xs es rule: pleg_run.induct)
  case (2 now listing rest p)
  obtain r p' where r: "relist now listing p = (r, p')" by fastforce
  obtain es' where es': "pleg_run rest p' = (es', q)" "es = (case r of Inr e \<Rightarrow> e | Inl _ \<Rightarrow> []) @ es'"
    using 2 r by (auto split: prod.splits)
  have t: "tracks (last_event i (xs @ (case r of Inr e \<Rightarrow> e | Inl _ \<Rightarrow> []))) (hm_get (gp_cache p') i)" for i
  proof (cases listing)
    case (Inr live)
    then obtain e where "r = Inr e" using r by (auto simp: relist_Inr)
    then show ?thesis
      using 2(5) relist_events [OF 2(2), of live now e p' i] r Inr 2(3)
      by (intro tracks_expected) (auto simp: unique_ids_def)
  qed (use r 2(5) in \<open>auto simp: relist_def\<close>)
  have "list_all (\<lambda>(_, l). unique_ids l) rest" using 2(3) by simp
  from "2.IH" [OF r [symmetric] relist_cache_ok [OF 2(2) r] this es'(1) t] show ?case using es'(2) by simp
qed simp

lemma singleton_iff_mem: "length xs \<le> 1 \<Longrightarrow> xs = [x] \<longleftrightarrow> x \<in> set xs"
  by (cases xs) auto

text \<open>One relist reports exactly the differences. If the runtime lists every container id once, the events of a
  container are: none when it is unknown before and after or keeps its state, a removal when it is no longer listed, a
  start when it is running and was not, a death when it went from running to exited, and otherwise a change; and the
  cache becomes the listing. A failed listing changes nothing.\<close>

theorem relist_reports_differences:
  assumes "cache_ok (gp_cache p)" "distinct (map rtc_id live)"
  shows "\<exists>es p'. relist now (Inr live) p = (Inr es, p') \<and>
           (\<forall>i. events_of i es = expected_events (hm_get (gp_cache p) i) (hm_get (gp_cache p') i)) \<and>
           cache_ok (gp_cache p') \<and> set (gp_cache p') = (\<lambda>c. (rtc_id c, c)) ` set live \<and>
           relist now (Inl err) p = (Inl err, p)"
proof -
  obtain es p' where r: "relist now (Inr live) p = (Inr es, p')" by (simp add: relist_Inr)
  have ok: "cache_ok (gp_cache p')" by (rule relist_cache_ok [OF assms(1) r])
  have "(i, c) \<in> set (gp_cache p') \<longleftrightarrow> c \<in> set live \<and> rtc_id c = i" for i c
  proof -
    have "(i, c) \<in> set (gp_cache p') \<longleftrightarrow> hm_get (gp_cache p') i = Some c"
      using ok by (simp add: cache_ok_def hm_get_in_set)
    also have "\<dots> \<longleftrightarrow> filter (\<lambda>c. rtc_id c = i) live = [c]"
      using r hm_get_fold_containers [OF assms(2), of "[]" i] filter_ids_distinct [OF assms(2), of i]
      by (auto simp: relist_Inr cache_of_def split: list.splits)
    also have "\<dots> \<longleftrightarrow> c \<in> set live \<and> rtc_id c = i"
      using filter_ids_distinct [OF assms(2), of i] singleton_iff_mem [of "filter (\<lambda>c. rtc_id c = i) live" c] by simp
    finally show ?thesis .
  qed
  then have "set (gp_cache p') = (\<lambda>c. (rtc_id c, c)) ` set live" by auto
  with r ok relist_events [OF assms r] show ?thesis by (auto simp: relist_def [of now "Inl err"])
qed


definition demo_container :: "string \<Rightarrow> RuntimeContainerState \<Rightarrow> RuntimeContainer" where
  "demo_container i st = \<lparr>rtc_id = i, rtc_pod_uid = ''u'', rtc_name = ''c'', rtc_pid = None, rtc_image = ''img'', rtc_image_ref = ''img'',
     rtc_state = st, rtc_created_at = 0, rtc_started_at = None, rtc_finished_at = None, rtc_exit_code = None, rtc_exit_reason = None,
     rtc_labels = [], rtc_attempt = 0\<rparr>"

theorem relist_reports_differences_witness:
  "\<exists>es p'. relist 5 (Inr [demo_container ''1'' RRunning]) (GenericPleg_new 1) = (Inr es, p') \<and>
     map pe_event_type (events_of ''1'' es) = [ContainerStarted]"
proof -
  let ?c = "demo_container ''1'' RRunning"
  have ok: "cache_ok (gp_cache (GenericPleg_new 1))" by (simp add: GenericPleg_new_def cache_ok_def)
  have "distinct (map rtc_id [?c])" by simp
  from relist_reports_differences [OF ok this, of 5 "ERuntime []"]
  have "\<exists>es p'. relist 5 (Inr [?c]) (GenericPleg_new 1) = (Inr es, p') \<and>
     events_of ''1'' es = expected_events (hm_get (gp_cache (GenericPleg_new 1)) ''1'') (hm_get (gp_cache p') ''1'')"
    by iprover
  moreover have "expected_events (hm_get (gp_cache (GenericPleg_new 1)) ''1'') (hm_get (gp_cache (snd (relist 5 (Inr [?c]) (GenericPleg_new 1)))) ''1'')
      = [pleg_event ?c ContainerStarted]"
    by (simp add: relist_Inr cache_of_def GenericPleg_new_def demo_container_def)
  ultimately show ?thesis by (elim exE conjE) (rule exI, rule exI, rule conjI, assumption, simp)
qed

lemma snd_pleg_run:
  "snd (pleg_run ((now, l) # rest) p) = snd (pleg_run rest (snd (relist now l p)))" "snd (pleg_run [] p) = p"
  by (simp_all split: prod.splits)


end
