(* ===== verification/Runtime_Manager.thy ===== *)
theory Runtime_Manager
  imports Pod_Manager Sync_Slots Eviction Pleg
begin

text \<open>
  The runtime manager's handling of pod updates, evictions and lifecycle events
  (\<^verbatim>\<open>kubelet-app/src/runtime_manager/mod.rs\<close>). Its state is the pod manager with the status store, the sync slots
  and tasks, the event generator, and the statuses sent to the API server in order (a failed report is only logged).
\<close>

record 's runtime_manager =
  rtm_pods :: PodManager
  rtm_sync :: "(PodSpec, 's) sync_sys"
  rtm_pleg :: GenericPleg
  rtm_reports :: "(PodRef \<times> PodUID \<times> PodLifecycleState) list"

subsection \<open>Host ports\<close>

definition is_wildcard :: "string option \<Rightarrow> bool" where
  "is_wildcard s \<longleftrightarrow> s \<in> {None, Some '''', Some ''0.0.0.0'', Some ''::''}"

definition host_ports_overlap :: "string option \<Rightarrow> string option \<Rightarrow> bool" where
  "host_ports_overlap a b = (if is_wildcard a \<or> is_wildcard b then True else a = b)"

definition needed_ports :: "PodSpec \<Rightarrow> (nat \<times> Protocol \<times> string option) list" where
  "needed_ports incoming =
     List.map_filter (\<lambda>p. map_option (\<lambda>hp. (hp, cp_protocol p, cp_host_ip p)) (cp_host_port p))
       (concat (map ctr_ports (all_containers incoming)))"

definition port_in_use :: "(nat \<times> Protocol \<times> string option) list \<Rightarrow> ContainerPort \<Rightarrow> bool" where
  "port_in_use needed port =
     (case cp_host_port port of
        None \<Rightarrow> False
      | Some ehp \<Rightarrow>
          (\<exists>(hp, proto, host_ip) \<in> set needed. hp = ehp \<and> proto = cp_protocol port \<and> host_ports_overlap host_ip (cp_host_ip port)))"

definition is_terminal :: "PodManager \<Rightarrow> PodSpec \<Rightarrow> bool" where
  "is_terminal m pod =
     (case status_get (pm_status m) (ps_uid pod) of
        Some st \<Rightarrow> ls_phase st = Failed \<or> ls_phase st = Succeeded
      | None \<Rightarrow> False)"

definition conflict_message :: "PodSpec \<Rightarrow> ContainerPort \<Rightarrow> string" where
  "conflict_message existing port =
     ''host port '' @ show_nat (the (cp_host_port port)) @ ''/'' @ Protocol_debug (cp_protocol port) @
     '' already in use by pod '' @ pr_name (ps_pod_ref existing) @ '' ('' @ ps_uid existing @ '')''"

fun conflict_scan :: "PodManager \<Rightarrow> PodSpec \<Rightarrow> PodSpec list \<Rightarrow> string option" where
  "conflict_scan m incoming [] = None"
| "conflict_scan m incoming (existing # rest) =
     (if ps_uid existing = ps_uid incoming then conflict_scan m incoming rest
      else if is_terminal m existing then conflict_scan m incoming rest
      else case find (port_in_use (needed_ports incoming)) (concat (map ctr_ports (all_containers existing))) of
             Some port \<Rightarrow> Some (conflict_message existing port)
           | None \<Rightarrow> conflict_scan m incoming rest)"

definition check_host_port_conflict :: "PodManager \<Rightarrow> PodSpec \<Rightarrow> string option" where
  "check_host_port_conflict m incoming =
     (if needed_ports incoming = [] then None else conflict_scan m incoming (PodManager_list m))"

subsection \<open>Handlers\<close>

definition set_status :: "PodUID \<Rightarrow> PodLifecycleState \<Rightarrow> 's runtime_manager \<Rightarrow> 's runtime_manager" where
  "set_status uid st r = r\<lparr>rtm_pods := (rtm_pods r)\<lparr>pm_status := status_set uid st (pm_status (rtm_pods r))\<rparr>\<rparr>"

definition status_or_default :: "'s runtime_manager \<Rightarrow> PodUID \<Rightarrow> PodLifecycleState" where
  "status_or_default r uid =
     (case status_get (pm_status (rtm_pods r)) uid of Some st \<Rightarrow> st | None \<Rightarrow> PodLifecycleState_default)"

definition replace_condition :: "PodCondition \<Rightarrow> PodLifecycleState \<Rightarrow> PodLifecycleState" where
  "replace_condition c st =
     st\<lparr>ls_conditions := filter (\<lambda>x. pc_condition_type x \<noteq> pc_condition_type c) (ls_conditions st) @ [c]\<rparr>"

definition reject_pod_admission :: "timestamp \<Rightarrow> PodSpec \<Rightarrow> string \<Rightarrow> 's runtime_manager \<Rightarrow> 's runtime_manager" where
  "reject_pod_admission now pod message r =
     (let st = replace_condition
                 \<lparr>pc_condition_type = PodScheduled, pc_status = CFalse, pc_last_probe_time = None,
                  pc_last_transition_time = Some now, pc_reason = Some ''Unschedulable'', pc_message = Some message\<rparr>
                 ((status_or_default r (ps_uid pod))\<lparr>ls_phase := Failed, ls_reason := Some ''HostPortConflict''\<rparr>)
      in (set_status (ps_uid pod) st r)\<lparr>rtm_reports := rtm_reports r @ [(ps_pod_ref pod, ps_uid pod, st)]\<rparr>)"

definition handle_update :: "timestamp \<Rightarrow> PodUpdate \<Rightarrow> 's runtime_manager \<Rightarrow> 's runtime_manager" where
  "handle_update now u r =
     (case pu_op u of
        OpRemove \<Rightarrow> r\<lparr>rtm_sync := delete_pod (ps_uid (pu_pod u)) (pu_pod u) (rtm_sync r)\<rparr>
      | _ \<Rightarrow>
          (case check_host_port_conflict (rtm_pods r) (pu_pod u) of
             Some conflict_msg \<Rightarrow> reject_pod_admission now (pu_pod u) conflict_msg r
           | None \<Rightarrow> r\<lparr>rtm_sync := sync_pod (ps_uid (pu_pod u)) (pu_pod u) (rtm_sync r)\<rparr>))"

definition evict_pod :: "timestamp \<Rightarrow> EvictionDecision \<Rightarrow> 's runtime_manager \<Rightarrow> 's runtime_manager" where
  "evict_pod now d r =
     (case PodManager_get (rtm_pods r) (ed_pod_uid d) of
        None \<Rightarrow> r
      | Some pod \<Rightarrow>
          (let st = replace_condition
                      \<lparr>pc_condition_type = DisruptionTarget, pc_status = CTrue, pc_last_probe_time = None,
                       pc_last_transition_time = Some now, pc_reason = Some ''EvictionByEvictionAPI'', pc_message = Some (ed_message d)\<rparr>
                      ((status_or_default r (ed_pod_uid d))\<lparr>ls_phase := Failed, ls_reason := Some ''Evicted''\<rparr>);
               r' = set_status (ed_pod_uid d) st r
           in r'\<lparr>rtm_sync := evict_task (ps_uid pod) pod (rtm_sync r')\<rparr>))"

fun sync_events :: "PlegEvent list \<Rightarrow> 's runtime_manager \<Rightarrow> 's runtime_manager" where
  "sync_events [] r = r"
| "sync_events (e # es) r =
     (case PodManager_get (rtm_pods r) (pe_pod_uid e) of
        Some pod \<Rightarrow> sync_events es (r\<lparr>rtm_sync := sync_pod (ps_uid pod) pod (rtm_sync r)\<rparr>)
      | None \<Rightarrow> sync_events es r)"

definition poll_pleg :: "timestamp \<Rightarrow> RuntimeContainer list result \<Rightarrow> 's runtime_manager \<Rightarrow> 's runtime_manager" where
  "poll_pleg now listing r =
     (case relist now listing (rtm_pleg r) of
        (Inl _, p) \<Rightarrow> r\<lparr>rtm_pleg := p\<rparr>
      | (Inr events, p) \<Rightarrow> sync_events events (r\<lparr>rtm_pleg := p\<rparr>))"

text \<open>One turn of \<^verbatim>\<open>run_eviction_loop\<close> (\<^verbatim>\<open>kubelet-app/src/lib.rs\<close>). The totals are what the loop computes from the signals, and the
  usage map is empty. The clock is read twice in the evaluation and once for every eviction.\<close>

definition loop_resources :: "ResourceSignals \<Rightarrow> NodeResources" where
  "loop_resources sig =
     \<lparr>nr_available_memory_bytes = rs_memory_available_bytes sig,
      nr_total_memory_bytes = (rs_memory_available_bytes sig + rs_nodefs_total_bytes sig) mod 2 ^ 64,
      nr_available_disk_bytes = rs_nodefs_available_bytes sig, nr_total_disk_bytes = rs_nodefs_total_bytes sig,
      nr_available_pids = rs_pid_available sig, nr_total_pids = rs_pid_available sig\<rparr>"

fun evict_all :: "(nat \<Rightarrow> timestamp) \<Rightarrow> nat \<Rightarrow> EvictionDecision list \<Rightarrow> 's runtime_manager \<Rightarrow> 's runtime_manager" where
  "evict_all clock i [] r = r"
| "evict_all clock i (d # ds) r = evict_all clock (Suc i) ds (evict_pod (clock i) d r)"

definition eviction_turn ::
  "timestamp \<Rightarrow> timestamp \<Rightarrow> (nat \<Rightarrow> timestamp) \<Rightarrow> ResourceSignals \<Rightarrow> EvictionManager \<times> 's runtime_manager \<Rightarrow>
   EvictionManager \<times> 's runtime_manager" where
  "eviction_turn now1 now2 clock sig s =
     (let (mgr, r) = s;
          (decisions, mgr') = eviction_evaluate now1 now2 (loop_resources sig) (PodManager_list (rtm_pods r)) [] mgr
      in (mgr', evict_all clock 0 decisions r))"

subsection \<open>The host port gate\<close>

text \<open>Two ports clash when they bind the same number and protocol on overlapping addresses.\<close>

definition ports_clash :: "(nat \<times> Protocol \<times> string option) \<Rightarrow> (nat \<times> Protocol \<times> string option) \<Rightarrow> bool" where
  "ports_clash a b = (case (a, b) of ((n, p, i), (n', p', i')) \<Rightarrow> n = n' \<and> p = p' \<and> host_ports_overlap i i')"

definition pods_clash :: "PodSpec \<Rightarrow> PodSpec \<Rightarrow> bool" where
  "pods_clash p q \<longleftrightarrow> (\<exists>a \<in> set (needed_ports p). \<exists>b \<in> set (needed_ports q). ports_clash a b)"

lemma host_ports_overlap_sym: "host_ports_overlap a b = host_ports_overlap b a"
  by (auto simp: host_ports_overlap_def)

lemma pods_clash_sym: "pods_clash p q = pods_clash q p"
proof -
  have "ports_clash a b = ports_clash b a" for a b
    by (auto simp: ports_clash_def host_ports_overlap_sym split: prod.splits)
  then show ?thesis unfolding pods_clash_def by metis
qed

lemma set_needed_ports:
  "t \<in> set (needed_ports q) \<longleftrightarrow>
     (\<exists>x \<in> set (concat (map ctr_ports (all_containers q))). \<exists>n. cp_host_port x = Some n \<and> t = (n, cp_protocol x, cp_host_ip x))"
  unfolding needed_ports_def set_map_filter by (simp only: mem_Collect_eq map_option_eq_Some eq_commute [of t])

lemma port_in_use_iff:
  "port_in_use needed x \<longleftrightarrow> (\<exists>n. cp_host_port x = Some n \<and> (\<exists>a \<in> set needed. ports_clash a (n, cp_protocol x, cp_host_ip x)))"
  by (simp add: port_in_use_def ports_clash_def case_prod_beta split: option.splits)

lemma port_in_use_clash:
  "(\<exists>x \<in> set (concat (map ctr_ports (all_containers q))). port_in_use (needed_ports p) x) \<longleftrightarrow> pods_clash p q"
  unfolding pods_clash_def port_in_use_iff by (simp only: Bex_def set_needed_ports [of _ q]) blast

lemma conflict_scan_None:
  "conflict_scan m p qs = None \<longleftrightarrow> (\<forall>q \<in> set qs. ps_uid q = ps_uid p \<or> is_terminal m q \<or> \<not> pods_clash p q)"
proof (induction qs)
  case (Cons q qs)
  have "find (port_in_use (needed_ports p)) (concat (map ctr_ports (all_containers q))) = None \<longleftrightarrow> \<not> pods_clash p q"
    unfolding port_in_use_clash [symmetric] find_None_iff by blast
  with Cons.IH show ?case
    by (cases "find (port_in_use (needed_ports p)) (concat (map ctr_ports (all_containers q)))") simp_all
qed simp

definition blocked :: "PodManager \<Rightarrow> PodSpec \<Rightarrow> bool" where
  "blocked m p \<longleftrightarrow> (\<exists>q \<in> set (PodManager_list m). ps_uid q \<noteq> ps_uid p \<and> \<not> is_terminal m q \<and> pods_clash p q)"

lemma check_host_port_conflict_None: "check_host_port_conflict m p = None \<longleftrightarrow> \<not> blocked m p"
proof (cases "needed_ports p = []")
  case True
  then show ?thesis by (simp add: check_host_port_conflict_def blocked_def pods_clash_def)
next
  case False
  then show ?thesis unfolding check_host_port_conflict_def blocked_def by (simp add: conflict_scan_None)
qed

subsection \<open>Slots\<close>

lemma slot_busy_sync_pod: "slot_busy u (sync_pod uid pod s) \<longleftrightarrow> u = uid \<or> slot_busy u s"
  by (simp add: slot_busy_def sync_pod_def Let_def PodSyncSlot_default_def split: option.splits)

lemma slot_busy_sync_events:
  assumes "\<And>uid pod. hm_get (pm_desired (rtm_pods r)) uid = Some pod \<Longrightarrow> ps_uid pod = uid"
  shows "slot_busy u (rtm_sync (sync_events es r)) \<longleftrightarrow>
     slot_busy u (rtm_sync r) \<or> (\<exists>e \<in> set es. pe_pod_uid e = u \<and> PodManager_get (rtm_pods r) u \<noteq> None)"
  using assms
proof (induction es r rule: sync_events.induct)
  case (2 e es r)
  show ?case
  proof (cases "PodManager_get (rtm_pods r) (pe_pod_uid e)")
    case None
    then show ?thesis using 2 by auto
  next
    case (Some pod)
    then have "ps_uid pod = pe_pod_uid e" using 2(3) by (simp add: PodManager_get_def)
    then show ?thesis using 2(2) [OF Some] 2(3) Some by (auto simp: slot_busy_sync_pod)
  qed
qed simp

subsection \<open>Updates\<close>

lemma status_get_set [simp]:
  "status_get (status_set uid st m) u = (if u = uid then Some st else status_get m u)"
  by (simp add: status_get_def status_set_def)

lemma set_status_simps [simp]:
  "status_get (pm_status (rtm_pods (set_status uid st r))) u = (if u = uid then Some st else status_get (pm_status (rtm_pods r)) u)"
  "pm_desired (rtm_pods (set_status uid st r)) = pm_desired (rtm_pods r)"
  "rtm_sync (set_status uid st r) = rtm_sync r" "rtm_reports (set_status uid st r) = rtm_reports r"
  by (simp_all add: set_status_def)

abbreviation conditions_of :: "PodConditionType \<Rightarrow> PodLifecycleState \<Rightarrow> PodCondition list" where
  "conditions_of ty st \<equiv> filter (\<lambda>c. pc_condition_type c = ty) (ls_conditions st)"

lemma conditions_of_replace:
  "conditions_of ty (replace_condition c st) = (if ty = pc_condition_type c then [c] else conditions_of ty st)"
  by (auto simp: replace_condition_def intro: filter_cong)

lemma replace_condition_simps [simp]:
  "ls_phase (replace_condition c st) = ls_phase st" "ls_reason (replace_condition c st) = ls_reason st"
  by (simp_all add: replace_condition_def)

text \<open>What an update of a pod does. When another pod that is desired and has not ended wants one of its host ports
  (same number and protocol on overlapping addresses), the pod is not started: it is recorded and reported once as
  Failed, with exactly one condition PodScheduled, which is false, its other conditions and all other pods as before.
  Otherwise a sync of the pod is running or requested afterwards, and no status changes. A removal always starts a
  termination and marks the pod as being deleted.\<close>

theorem handle_update_effect:
  assumes "r' = handle_update now \<lparr>pu_pod = p, pu_op = op\<rparr> r"
  shows "(op \<noteq> OpRemove \<and> blocked (rtm_pods r) p \<longrightarrow>
            (\<exists>st. status_get (pm_status (rtm_pods r')) (ps_uid p) = Some st \<and>
               rtm_reports r' = rtm_reports r @ [(ps_pod_ref p, ps_uid p, st)] \<and>
               ls_phase st = Failed \<and> ls_reason st = Some ''HostPortConflict'' \<and>
               map pc_status (conditions_of PodScheduled st) = [CFalse] \<and>
               (\<forall>ty. ty \<noteq> PodScheduled \<longrightarrow> conditions_of ty st = conditions_of ty (status_or_default r (ps_uid p)))) \<and>
            rtm_sync r' = rtm_sync r \<and>
            (\<forall>u. u \<noteq> ps_uid p \<longrightarrow> status_get (pm_status (rtm_pods r')) u = status_get (pm_status (rtm_pods r)) u)) \<and>
         (op \<noteq> OpRemove \<and> \<not> blocked (rtm_pods r) p \<longrightarrow>
            slot_busy (ps_uid p) (rtm_sync r') \<and> rtm_pods r' = rtm_pods r \<and> rtm_reports r' = rtm_reports r) \<and>
         (op = OpRemove \<longrightarrow>
            ps_uid p \<in> sy_deleting (rtm_sync r') \<and> rtm_pods r' = rtm_pods r \<and>
            sy_tasks (rtm_sync r') = sy_tasks (rtm_sync r) @ [\<lparr>tk_uid = ps_uid p, tk_pod = p, tk_pc = DkTake\<rparr>])"
proof (intro conjI impI; (elim conjE)?)
  assume b: "op \<noteq> OpRemove" "blocked (rtm_pods r) p"
  then obtain msg where "check_host_port_conflict (rtm_pods r) p = Some msg"
    using check_host_port_conflict_None by blast
  then have r': "r' = reject_pod_admission now p msg r"
    using assms b(1) by (cases op) (simp_all add: handle_update_def)
  show "\<exists>st. status_get (pm_status (rtm_pods r')) (ps_uid p) = Some st \<and>
          rtm_reports r' = rtm_reports r @ [(ps_pod_ref p, ps_uid p, st)] \<and>
          ls_phase st = Failed \<and> ls_reason st = Some ''HostPortConflict'' \<and>
          map pc_status (conditions_of PodScheduled st) = [CFalse] \<and>
          (\<forall>ty. ty \<noteq> PodScheduled \<longrightarrow> conditions_of ty st = conditions_of ty (status_or_default r (ps_uid p)))"
    by (simp add: r' reject_pod_admission_def Let_def conditions_of_replace)
  show "rtm_sync r' = rtm_sync r" by (simp add: r' reject_pod_admission_def Let_def)
  show "\<forall>u. u \<noteq> ps_uid p \<longrightarrow> status_get (pm_status (rtm_pods r')) u = status_get (pm_status (rtm_pods r)) u"
    by (simp add: r' reject_pod_admission_def Let_def)
next
  assume b: "op \<noteq> OpRemove" "\<not> blocked (rtm_pods r) p"
  then have r': "r' = r\<lparr>rtm_sync := sync_pod (ps_uid p) p (rtm_sync r)\<rparr>"
    using assms check_host_port_conflict_None [of "rtm_pods r" p] by (cases op) (simp_all add: handle_update_def)
  show "slot_busy (ps_uid p) (rtm_sync r')" "rtm_pods r' = rtm_pods r" "rtm_reports r' = rtm_reports r"
    by (simp_all add: r' slot_busy_sync_pod)
next
  assume b: "op = OpRemove"
  show "ps_uid p \<in> sy_deleting (rtm_sync r')" "rtm_pods r' = rtm_pods r"
    "sy_tasks (rtm_sync r') = sy_tasks (rtm_sync r) @ [\<lparr>tk_uid = ps_uid p, tk_pod = p, tk_pc = DkTake\<rparr>]"
    using assms b by (simp_all add: handle_update_def delete_pod_def)
qed

subsection \<open>Lifecycle events\<close>

lemma filter_singletonD: "filter P xs = [x] \<Longrightarrow> x \<in> set xs"
  by (auto simp: filter_eq_Cons_iff dest: sym)

lemma poll_pleg_busy:
  assumes "\<And>uid pod. hm_get (pm_desired (rtm_pods r)) uid = Some pod \<Longrightarrow> ps_uid pod = uid"
    "relist now (Inr live) (rtm_pleg r) = (Inr es, p')" "e \<in> set es" "PodManager_get (rtm_pods r) (pe_pod_uid e) \<noteq> None"
  shows "slot_busy (pe_pod_uid e) (rtm_sync (poll_pleg now (Inr live) r))"
proof -
  have "poll_pleg now (Inr live) r = sync_events es (r\<lparr>rtm_pleg := p'\<rparr>)" by (simp add: poll_pleg_def assms(2))
  then show ?thesis using assms(1,3,4) slot_busy_sync_events [of "r\<lparr>rtm_pleg := p'\<rparr>" "pe_pod_uid e" es] by auto
qed


subsection \<open>Evictions\<close>

text \<open>Evicting a pod that is gone does nothing. Otherwise the pod is recorded as Failed with reason Evicted and exactly
  one condition DisruptionTarget, which is true and carries the message of the decision; its other conditions, the
  statuses of all other pods and the desired pods stay, and one termination task for it is started.\<close>

theorem evict_pod_effect:
  "(PodManager_get (rtm_pods r) (ed_pod_uid d) = None \<longrightarrow> evict_pod now d r = r) \<and>
   (\<forall>pod. PodManager_get (rtm_pods r) (ed_pod_uid d) = Some pod \<longrightarrow>
      (\<exists>st. status_get (pm_status (rtm_pods (evict_pod now d r))) (ed_pod_uid d) = Some st \<and>
         ls_phase st = Failed \<and> ls_reason st = Some ''Evicted'' \<and>
         map (\<lambda>c. (pc_status c, pc_message c)) (conditions_of DisruptionTarget st) = [(CTrue, Some (ed_message d))] \<and>
         (\<forall>ty. ty \<noteq> DisruptionTarget \<longrightarrow> conditions_of ty st = conditions_of ty (status_or_default r (ed_pod_uid d)))) \<and>
      (\<forall>u. u \<noteq> ed_pod_uid d \<longrightarrow>
         status_get (pm_status (rtm_pods (evict_pod now d r))) u = status_get (pm_status (rtm_pods r)) u) \<and>
      pm_desired (rtm_pods (evict_pod now d r)) = pm_desired (rtm_pods r) \<and>
      sy_tasks (rtm_sync (evict_pod now d r)) =
        sy_tasks (rtm_sync r) @ [\<lparr>tk_uid = ps_uid pod, tk_pod = pod, tk_pc = DkTake\<rparr>])"
  by (intro conjI impI allI) (simp_all add: evict_pod_def evict_task_def Let_def conditions_of_replace)

text \<open>The gate looks at desired pods, not at running ones, so a newcomer displaces a running pod. Let two desired pods
  want the same host port, neither ended. When an update of the first is handled before the first update of the
  second, as after a periodic reconciliation, the first one is marked Failed, even if it is running; the
  second, if nothing else is in its way, is then started on a port the first one still holds.\<close>

theorem newcomer_displaces_running_pod:
  assumes "a \<in> set (PodManager_list (rtm_pods r))" "b \<in> set (PodManager_list (rtm_pods r))" "ps_uid a \<noteq> ps_uid b"
    "pods_clash a b" "\<not> is_terminal (rtm_pods r) a" "\<not> is_terminal (rtm_pods r) b"
    "list_all (\<lambda>q. ps_uid q = ps_uid a \<or> ps_uid q = ps_uid b \<or> is_terminal (rtm_pods r) q \<or> \<not> pods_clash b q) (PodManager_list (rtm_pods r))"
    "r1 = handle_update t \<lparr>pu_pod = a, pu_op = OpReconcile\<rparr> r" "r2 = handle_update t' \<lparr>pu_pod = b, pu_op = OpAdd\<rparr> r1"
  shows "is_terminal (rtm_pods r2) a \<and> slot_busy (ps_uid b) (rtm_sync r2) \<and> slot_busy (ps_uid a) (rtm_sync r2) = slot_busy (ps_uid a) (rtm_sync r)"
proof -
  have "blocked (rtm_pods r) a" unfolding blocked_def using assms(2,3,4,6) by (intro bexI [of _ b]) simp_all
  then obtain msg where "check_host_port_conflict (rtm_pods r) a = Some msg" using check_host_port_conflict_None by blast
  then have r1: "r1 = reject_pod_admission t a msg r" using assms(8) by (simp add: handle_update_def)
  have l: "PodManager_list (rtm_pods r1) = PodManager_list (rtm_pods r)"
    by (simp add: r1 reject_pod_admission_def Let_def PodManager_list_def)
  have ta: "is_terminal (rtm_pods r1) q = (ps_uid q = ps_uid a \<or> is_terminal (rtm_pods r) q)" for q
    by (simp add: r1 reject_pod_admission_def Let_def is_terminal_def)
  have "\<not> blocked (rtm_pods r1) b"
    unfolding blocked_def l ta using assms(7) by (auto simp only: list_all_iff)
  then have r2: "r2 = r1\<lparr>rtm_sync := sync_pod (ps_uid b) b (rtm_sync r1)\<rparr>"
    using assms(9) check_host_port_conflict_None [of "rtm_pods r1" b] by (simp add: handle_update_def)
  show ?thesis using assms(3) ta [of a]
    by (simp add: r2 slot_busy_sync_pod) (simp add: r1 reject_pod_admission_def Let_def)
qed

subsection \<open>A turn of the eviction loop\<close>

definition evicted :: "PodUID \<Rightarrow> 's runtime_manager \<Rightarrow> bool" where
  "evicted uid r \<longleftrightarrow>
     (\<exists>st. status_get (pm_status (rtm_pods r)) uid = Some st \<and> ls_phase st = Failed \<and> ls_reason st = Some ''Evicted'') \<and>
     (\<exists>t \<in> set (sy_tasks (rtm_sync r)). tk_uid t = uid \<and> tk_pc t = DkTake)"

lemma evicted_evict_pod: "evicted uid r \<Longrightarrow> evicted uid (evict_pod now d r)"
  by (auto simp: evicted_def evict_pod_def evict_task_def Let_def split: option.splits)

lemma evicted_evict_all: "evicted uid r \<Longrightarrow> evicted uid (evict_all clock i ds r)"
  by (induction clock i ds r rule: evict_all.induct) (simp_all add: evicted_evict_pod)

lemma evict_pod_evicts:
  "PodManager_get (rtm_pods r) (ed_pod_uid d) = Some pod \<Longrightarrow> ps_uid pod = ed_pod_uid d \<Longrightarrow> evicted (ed_pod_uid d) (evict_pod now d r)"
  by (simp add: evicted_def evict_pod_def evict_task_def Let_def)

lemma PodManager_list_get: "pm_inv m \<Longrightarrow> p \<in> set (PodManager_list m) \<Longrightarrow> PodManager_get m (ps_uid p) = Some p"
  by (auto simp: PodManager_list_def PodManager_get_def hm_values_def pm_inv_def hm_get_in_set)

lemma eviction_turn_decides:
  assumes "rp_memory_pressure (evaluator_evaluate (em_evaluator mgr) (loop_resources sig))"
    "p0 \<in> set (PodManager_list (rtm_pods r))" "ps_restart_policy p0 \<noteq> Never" "\<not> recently_evicted now1 mgr (ps_uid p0)"
  obtains d ds mgr' where
    "eviction_evaluate now1 now2 (loop_resources sig) (PodManager_list (rtm_pods r)) [] mgr = (d # ds, mgr')" "ed_reason d = MemoryPressure"
proof -
  let ?R = "rank_for_memory (PodManager_list (rtm_pods r)) []" and ?P = "\<lambda>c. \<not> recently_evicted now1 mgr (fst c)"
  have R: "set ?R = (\<lambda>p. (ps_uid p, compute_qos_class p, mem_usage [] p)) ` {p \<in> set (PodManager_list (rtm_pods r)). ps_restart_policy p \<noteq> Never}"
    using arg_cong [OF sort_candidates_props(1), of set_mset] by (simp add: rank_for_memory_alt)
  have "(ps_uid p0, compute_qos_class p0, mem_usage [] p0) \<in> set ?R" unfolding R using assms(2,3) by simp
  from find_not_None [OF this, of ?P] assms(4) obtain c where "find ?P ?R = Some c" by auto
  then have "pick_if True now1 ?R MemoryPressure mgr =
      (Some (decision_for mgr MemoryPressure c), mgr\<lparr>em_last_evictions := hm_insert (fst c) now1 (em_last_evictions mgr)\<rparr>)"
    by (simp add: pick_if_def pick_candidate_find)
  then have "\<exists>ds mgr'. eviction_evaluate now1 now2 (loop_resources sig) (PodManager_list (rtm_pods r)) [] mgr =
      (decision_for mgr MemoryPressure c # ds, mgr')"
    using assms(1) by (simp add: eviction_evaluate_picks Let_def List.map_filter_def split: prod.split option.split)
  then show thesis by (elim exE) (rule that, assumption, simp)
qed

subsection \<open>Examples\<close>

definition port_pod :: "string \<Rightarrow> PodSpec" where
  "port_pod u = PodSpec_default\<lparr>ps_uid := u, ps_containers := [ContainerSpec_default\<lparr>ctr_ports :=
     [\<lparr>cp_name = None, cp_container_port = 80, cp_host_port = Some 80, cp_protocol = TCP, cp_host_ip = None\<rparr>]\<rparr>]\<rparr>"

definition demo_rtm :: "unit runtime_manager" where
  "demo_rtm = \<lparr>rtm_pods = PodManager_new\<lparr>pm_desired := [(''a'', port_pod ''a''), (''b'', port_pod ''b'')],
       pm_status := status_set ''a'' (PodLifecycleState_default\<lparr>ls_phase := PhRunning\<rparr>)
         (status_set ''b'' PodLifecycleState_default PodStatusManager_new)\<rparr>,
     rtm_sync = sync_init, rtm_pleg = GenericPleg_new 1, rtm_reports = []\<rparr>"

lemma demo_rtm_props:
  "PodManager_list (rtm_pods demo_rtm) = [port_pod ''a'', port_pod ''b'']"
  "PodManager_get (rtm_pods demo_rtm) ''a'' = Some (port_pod ''a'')"
  "ps_uid (port_pod u) = u" "pods_clash (port_pod u) (port_pod v)"
  "\<not> is_terminal (rtm_pods demo_rtm) (port_pod ''a'')" "\<not> is_terminal (rtm_pods demo_rtm) (port_pod ''b'')"
  "gp_cache (rtm_pleg demo_rtm) = []"
proof -
  show "PodManager_list (rtm_pods demo_rtm) = [port_pod ''a'', port_pod ''b'']" "PodManager_get (rtm_pods demo_rtm) ''a'' = Some (port_pod ''a'')"
    "gp_cache (rtm_pleg demo_rtm) = []"
    by (simp_all add: demo_rtm_def PodManager_list_def hm_values_def PodManager_get_def GenericPleg_new_def)
  show u: "ps_uid (port_pod u) = u" for u by (simp add: port_pod_def)
  have n: "needed_ports (port_pod u) = [(80, TCP, None)]" for u
    by (simp add: needed_ports_def port_pod_def List.map_filter_def) (simp add: PodSpec_default_def)
  show "pods_clash (port_pod u) (port_pod v)"
    by (simp add: pods_clash_def n ports_clash_def host_ports_overlap_def is_wildcard_def)
  show "\<not> is_terminal (rtm_pods demo_rtm) (port_pod ''a'')" "\<not> is_terminal (rtm_pods demo_rtm) (port_pod ''b'')"
    by (simp_all add: is_terminal_def u demo_rtm_def PodLifecycleState_default_def)
qed

lemma demo_rtm_inv: "pm_inv (rtm_pods demo_rtm)"
  by (simp add: pm_inv_def demo_rtm_def PodManager_new_def hm_ok_def demo_rtm_props(3))

theorem newcomer_displaces_running_pod_witness:
  "\<exists>r2. r2 = handle_update 1 \<lparr>pu_pod = port_pod ''b'', pu_op = OpAdd\<rparr> (handle_update 0 \<lparr>pu_pod = port_pod ''a'', pu_op = OpReconcile\<rparr> demo_rtm) \<and>
     is_terminal (rtm_pods r2) (port_pod ''a'') \<and> slot_busy ''b'' (rtm_sync r2)"
  using newcomer_displaces_running_pod [of "port_pod ''a''" demo_rtm "port_pod ''b''" _ 0 _ 1, OF _ _ _ _ _ _ _ refl refl] by (simp add: demo_rtm_props)

theorem handle_update_effect_witness:
  "\<exists>r'. r' = handle_update 0 \<lparr>pu_pod = port_pod ''a'', pu_op = OpRemove\<rparr> demo_rtm \<and> ''a'' \<in> sy_deleting (rtm_sync r')"
  using handle_update_effect [OF refl, where now = 0 and p = "port_pod ''a''" and op = OpRemove and r = demo_rtm] by (simp add: demo_rtm_props)


theorem evict_pod_effect_witness:
  "\<exists>st. status_get (pm_status (rtm_pods (evict_pod 5 (decision_for demo_manager MemoryPressure (''a'', BestEffort, 0)) demo_rtm))) ''a'' = Some st \<and>
     ls_phase st = Failed"
  using evict_pod_effect [of demo_rtm "decision_for demo_manager MemoryPressure (''a'', BestEffort, 0)" 5]
  by (simp add: demo_rtm_props) iprover

end
