(* ===== verification/Node_State.thy ===== *)
theory Node_State
  imports Eviction
begin

text \<open>
  The node's own state: its status and conditions (\<^verbatim>\<open>kubelet-core/src/node/mod.rs\<close>), how they are collected and derived
  (\<^verbatim>\<open>kubelet-adapters/src/node_status/mod.rs\<close>, \<^verbatim>\<open>apply_pressure_conditions\<close> in \<^verbatim>\<open>kubelet-app/src/lib.rs\<close>), and the lease
  that is its heartbeat (\<^verbatim>\<open>kubelet-core/src/lease/mod.rs\<close>, \<^verbatim>\<open>kubelet-adapters/src/lease/mod.rs\<close>). The clock, the contents
  of files and the answers of the API server are arguments.
\<close>

subsection \<open>Status and conditions\<close>

record NodeCapacity =
  nc_cpu_cores :: f64
  nc_memory_bytes :: nat
  nc_pods :: nat
  nc_ephemeral_storage_bytes :: nat
  nc_hugepages :: "(string, nat) hmap"
  nc_extended_resources :: "(string, nat) hmap"

record NodeAllocatableStatus =
  nas_cpu_millicores :: nat
  nas_memory_bytes :: nat
  nas_pods :: nat
  nas_ephemeral_storage_bytes :: nat
  nas_hugepages :: "(string, nat) hmap"
  nas_extended_resources :: "(string, nat) hmap"

datatype NodeConditionType = NcReady | NcMemoryPressure | NcDiskPressure | NcPIDPressure | NcNetworkUnavailable

fun NodeConditionType_to_string :: "NodeConditionType \<Rightarrow> string" where
  "NodeConditionType_to_string NcReady = ''Ready''"
| "NodeConditionType_to_string NcMemoryPressure = ''MemoryPressure''"
| "NodeConditionType_to_string NcDiskPressure = ''DiskPressure''"
| "NodeConditionType_to_string NcPIDPressure = ''PIDPressure''"
| "NodeConditionType_to_string NcNetworkUnavailable = ''NetworkUnavailable''"

datatype NodeConditionStatus = NsTrue | NsFalse | NsUnknown

record NodeCondition =
  ncd_condition_type :: NodeConditionType
  ncd_status :: NodeConditionStatus
  ncd_last_heartbeat_time :: timestamp
  ncd_last_transition_time :: timestamp
  ncd_reason :: string
  ncd_message :: string

datatype NodeAddressType = ExternalIP | InternalIP | ExternalDNS | InternalDNS | HostnameAddr

record NodeAddress =
  nad_address_type :: NodeAddressType
  nad_address :: string

record NodeSystemInfo =
  nsi_machine_id :: string
  nsi_system_uuid :: string
  nsi_boot_id :: string
  nsi_kernel_version :: string
  nsi_os_image :: string
  nsi_container_runtime_version :: string
  nsi_kubelet_version :: string
  nsi_kube_proxy_version :: string
  nsi_operating_system :: string
  nsi_architecture :: string

record NodeImage =
  nim_names :: "string list"
  nim_size_bytes :: nat

record AttachedVolume =
  av_name :: string
  av_device_path :: string

record NodeStatus =
  nst_name :: string
  nst_capacity :: NodeCapacity
  nst_allocatable :: NodeAllocatableStatus
  nst_conditions :: "NodeCondition list"
  nst_addresses :: "NodeAddress list"
  nst_system_info :: NodeSystemInfo
  nst_images :: "NodeImage list"
  nst_volumes_attached :: "AttachedVolume list"
  nst_volumes_in_use :: "string list"
  nst_last_updated :: timestamp

definition NodeStatus_new :: "timestamp \<Rightarrow> string \<Rightarrow> NodeStatus" where
  "NodeStatus_new now name =
     \<lparr>nst_name = name,
      nst_capacity = \<lparr>nc_cpu_cores = Fin 0, nc_memory_bytes = 0, nc_pods = 0, nc_ephemeral_storage_bytes = 0,
        nc_hugepages = [], nc_extended_resources = []\<rparr>,
      nst_allocatable = \<lparr>nas_cpu_millicores = 0, nas_memory_bytes = 0, nas_pods = 0, nas_ephemeral_storage_bytes = 0,
        nas_hugepages = [], nas_extended_resources = []\<rparr>,
      nst_conditions = [], nst_addresses = [],
      nst_system_info = \<lparr>nsi_machine_id = [], nsi_system_uuid = [], nsi_boot_id = [], nsi_kernel_version = [], nsi_os_image = [],
        nsi_container_runtime_version = [], nsi_kubelet_version = [], nsi_kube_proxy_version = [], nsi_operating_system = [],
        nsi_architecture = []\<rparr>,
      nst_images = [], nst_volumes_attached = [], nst_volumes_in_use = [], nst_last_updated = now\<rparr>"

definition NodeStatus_is_ready :: "NodeStatus \<Rightarrow> bool" where
  "NodeStatus_is_ready s = (\<exists>c \<in> set (nst_conditions s). ncd_condition_type c = NcReady \<and> ncd_status c = NsTrue)"

definition NodeStatus_has_pressure :: "NodeStatus \<Rightarrow> bool" where
  "NodeStatus_has_pressure s =
     (\<exists>c \<in> set (nst_conditions s). ncd_condition_type c \<in> {NcMemoryPressure, NcDiskPressure, NcPIDPressure} \<and> ncd_status c = NsTrue)"

fun update_or_push :: "NodeCondition \<Rightarrow> NodeCondition list \<Rightarrow> NodeCondition list" where
  "update_or_push c [] = [c]"
| "update_or_push c (x # xs) = (if ncd_condition_type x = ncd_condition_type c then c # xs else x # update_or_push c xs)"

definition set_condition :: "NodeCondition \<Rightarrow> NodeStatus \<Rightarrow> NodeStatus" where
  "set_condition c s = s\<lparr>nst_conditions := update_or_push c (nst_conditions s)\<rparr>"

subsection \<open>Collecting and deriving\<close>

record NodeStatusCollector =
  nsc_node_name :: string
  nsc_max_pods :: nat
  nsc_cpu_cores :: f64
  nsc_memory_bytes :: nat
  nsc_ephemeral_storage_bytes :: nat

definition read_kernel_version :: "string option \<Rightarrow> string" where
  "read_kernel_version proc_version =
     (case Option.bind proc_version (\<lambda>s. nth_opt 2 (split_whitespace s)) of Some v \<Rightarrow> v | None \<Rightarrow> ''unknown'')"

definition trim_quotes :: "string \<Rightarrow> string" where
  "trim_quotes s = rev (dropWhile (\<lambda>c. c = CHR 0x22) (rev (dropWhile (\<lambda>c. c = CHR 0x22) s)))"

definition read_os_image :: "string \<Rightarrow> string option \<Rightarrow> string" where
  "read_os_image os os_release =
     (case os_release of
        Some content \<Rightarrow>
          (case find (starts_with ''PRETTY_NAME='') (str_lines content) of
             Some line \<Rightarrow> trim_quotes (trim_start_matches ''PRETTY_NAME='' line)
           | None \<Rightarrow> os)
      | None \<Rightarrow> os)"

definition read_machine_id :: "string option \<Rightarrow> string" where
  "read_machine_id machine_id = (case machine_id of Some s \<Rightarrow> trim s | None \<Rightarrow> ''unknown'')"

text \<open>The build's version, operating system and architecture, and the three files read.\<close>

record host_files =
  hf_version :: string
  hf_os :: string
  hf_arch :: string
  hf_proc_version :: "string option"
  hf_os_release :: "string option"
  hf_machine_id :: "string option"

definition collect_system_info :: "host_files \<Rightarrow> NodeSystemInfo" where
  "collect_system_info h =
     \<lparr>nsi_machine_id = read_machine_id (hf_machine_id h), nsi_system_uuid = [], nsi_boot_id = [],
      nsi_kernel_version = read_kernel_version (hf_proc_version h), nsi_os_image = read_os_image (hf_os h) (hf_os_release h),
      nsi_container_runtime_version = ''containerd://unknown'', nsi_kubelet_version = hf_version h, nsi_kube_proxy_version = [],
      nsi_operating_system = hf_os h, nsi_architecture = hf_arch h\<rparr>"

definition nine_tenths :: f64 where
  "nine_tenths = round64 (9 / 10)"

definition collect :: "timestamp \<Rightarrow> timestamp \<Rightarrow> host_files \<Rightarrow> NodeAddress list \<Rightarrow> NodeStatusCollector \<Rightarrow> NodeStatus" where
  "collect now0 now1 h addresses c =
     (NodeStatus_new now0 (nsc_node_name c))
       \<lparr>nst_capacity := \<lparr>nc_cpu_cores = nsc_cpu_cores c, nc_memory_bytes = nsc_memory_bytes c, nc_pods = nsc_max_pods c,
          nc_ephemeral_storage_bytes = nsc_ephemeral_storage_bytes c, nc_hugepages = [], nc_extended_resources = []\<rparr>,
        nst_allocatable := \<lparr>nas_cpu_millicores = f64_as_u64 (f64_mul (nsc_cpu_cores c) (Fin 900)),
          nas_memory_bytes = f64_as_u64 (f64_mul (f64_of_u64 (nsc_memory_bytes c)) nine_tenths), nas_pods = nsc_max_pods c,
          nas_ephemeral_storage_bytes = f64_as_u64 (f64_mul (f64_of_u64 (nsc_ephemeral_storage_bytes c)) nine_tenths),
          nas_hugepages = [], nas_extended_resources = []\<rparr>,
        nst_addresses := addresses, nst_system_info := collect_system_info h, nst_last_updated := now1\<rparr>"

record NodeConditionDeriver =
  ndr_memory_pressure :: bool
  ndr_disk_pressure :: bool
  ndr_pid_pressure :: bool
  ndr_network_unavailable :: bool
  ndr_pleg_healthy :: bool

definition with_pleg_health :: "bool \<Rightarrow> NodeConditionDeriver \<Rightarrow> NodeConditionDeriver" where
  "with_pleg_health healthy d = d\<lparr>ndr_pleg_healthy := healthy\<rparr>"

definition node_condition :: "timestamp \<Rightarrow> NodeConditionType \<Rightarrow> bool \<Rightarrow> string \<Rightarrow> string \<Rightarrow> NodeCondition" where
  "node_condition now ty b reason message =
     \<lparr>ncd_condition_type = ty, ncd_status = (if b then NsTrue else NsFalse), ncd_last_heartbeat_time = now,
      ncd_last_transition_time = now, ncd_reason = reason, ncd_message = message\<rparr>"

definition build_conditions :: "timestamp \<Rightarrow> NodeConditionDeriver \<Rightarrow> NodeCondition list" where
  "build_conditions now d =
     [node_condition now NcReady
        (\<not> ndr_memory_pressure d \<and> \<not> ndr_disk_pressure d \<and> \<not> ndr_pid_pressure d \<and> \<not> ndr_network_unavailable d \<and> ndr_pleg_healthy d)
        ''KubeletReady'' (if ndr_pleg_healthy d then ''kubelet is posting ready status'' else ''PLEG is stale''),
      node_condition now NcMemoryPressure (ndr_memory_pressure d)
        (if ndr_memory_pressure d then ''KubeletHasInsufficientMemory'' else ''KubeletHasSufficientMemory'')
        (if ndr_memory_pressure d then ''kubelet has insufficient memory available'' else ''kubelet has sufficient memory available''),
      node_condition now NcDiskPressure (ndr_disk_pressure d)
        (if ndr_disk_pressure d then ''KubeletHasDiskPressure'' else ''KubeletHasNoDiskPressure'')
        (if ndr_disk_pressure d then ''kubelet has disk pressure'' else ''kubelet has no disk pressure''),
      node_condition now NcPIDPressure (ndr_pid_pressure d)
        (if ndr_pid_pressure d then ''KubeletHasInsufficientPID'' else ''KubeletHasSufficientPID'')
        ''kubelet has sufficient PID available'']"

definition apply_pressure_conditions :: "timestamp \<Rightarrow> PressureConditions \<Rightarrow> NodeStatus \<Rightarrow> NodeStatus" where
  "apply_pressure_conditions now p s =
     (let s1 = set_condition (if pc_memory_pressure p
            then node_condition now NcMemoryPressure True ''KubeletHasInsufficientMemory'' ''kubelet has insufficient memory available''
            else node_condition now NcMemoryPressure False ''KubeletHasSufficientMemory'' ''kubelet has sufficient memory available'') s;
          s2 = set_condition (if pc_disk_pressure p
            then node_condition now NcDiskPressure True ''KubeletHasDiskPressure'' ''kubelet has disk pressure''
            else node_condition now NcDiskPressure False ''KubeletHasNoDiskPressure'' ''kubelet has no disk pressure'') s1
      in set_condition (if pc_pid_pressure p
            then node_condition now NcPIDPressure True ''KubeletHasInsufficientPID'' ''kubelet has insufficient PID available''
            else node_condition now NcPIDPressure False ''KubeletHasSufficientPID'' ''kubelet has sufficient PID available'') s2)"

subsection \<open>The lease\<close>

record NodeLease =
  nl_node_name :: string
  nl_holder_identity :: string
  nl_lease_duration_seconds :: nat
  nl_acquire_time :: timestamp
  nl_renew_time :: timestamp
  nl_lease_transitions :: nat

definition NodeLease_new :: "timestamp \<Rightarrow> string \<Rightarrow> nat \<Rightarrow> NodeLease" where
  "NodeLease_new now name duration_seconds =
     \<lparr>nl_node_name = name, nl_holder_identity = name, nl_lease_duration_seconds = duration_seconds, nl_acquire_time = now,
      nl_renew_time = now, nl_lease_transitions = 0\<rparr>"

definition renew_interval :: "NodeLease \<Rightarrow> duration" where
  "renew_interval l = max (secs (int (nl_lease_duration_seconds l div 4))) (secs 1)"

definition needs_renewal :: "timestamp \<Rightarrow> NodeLease \<Rightarrow> bool" where
  "needs_renewal now l \<longleftrightarrow> nl_renew_time l + renew_interval l < now"

definition is_expired :: "timestamp \<Rightarrow> NodeLease \<Rightarrow> bool" where
  "is_expired now l \<longleftrightarrow> nl_renew_time l + secs (int (nl_lease_duration_seconds l)) < now"

definition lease_renew :: "timestamp \<Rightarrow> NodeLease \<Rightarrow> NodeLease" where
  "lease_renew now l = l\<lparr>nl_renew_time := now\<rparr>"

definition time_until_renewal :: "timestamp \<Rightarrow> NodeLease \<Rightarrow> duration" where
  "time_until_renewal now l =
     (let remaining = nl_renew_time l + renew_interval l - now in if remaining < 0 then 0 else remaining)"

datatype LeaseState = Active | Renewing | Degraded nat | Lost

record LeaseController =
  lc_node_name :: string
  lc_duration_seconds :: nat
  lc_max_retries :: nat
  lc_lease :: NodeLease
  lc_state :: LeaseState

definition LeaseController_new :: "timestamp \<Rightarrow> string \<Rightarrow> nat \<Rightarrow> nat \<Rightarrow> LeaseController" where
  "LeaseController_new now node_name duration_seconds max_retries =
     \<lparr>lc_node_name = node_name, lc_duration_seconds = duration_seconds, lc_max_retries = max_retries,
      lc_lease = NodeLease_new now node_name duration_seconds, lc_state = Active\<rparr>"

text \<open>\<open>now\<close> is the clock when the API server's answer arrives. The state is set to \<open>Renewing\<close> before the request.\<close>

definition acquire_or_renew :: "timestamp \<Rightarrow> unit result \<Rightarrow> LeaseController \<Rightarrow> LeaseController" where
  "acquire_or_renew now answer c0 =
     (let c = c0\<lparr>lc_state := Renewing\<rparr> in
      case answer of
        Inr _ \<Rightarrow> c\<lparr>lc_lease := lease_renew now (lc_lease c), lc_state := Active\<rparr>
      | Inl _ \<Rightarrow>
          (let failures = (case lc_state c of Degraded n \<Rightarrow> n + 1 | _ \<Rightarrow> 1) in
           if lc_max_retries c \<le> failures then c\<lparr>lc_state := Lost\<rparr> else c\<lparr>lc_state := Degraded failures\<rparr>))"

text \<open>How long the loop sleeps before the next renewal.\<close>

definition lease_wait :: "timestamp \<Rightarrow> LeaseController \<Rightarrow> duration" where
  "lease_wait now c = max 100000000 (secs (max (time_until_renewal now (lc_lease c) div secs 1) 0))"

fun lease_run :: "(timestamp \<times> unit result) list \<Rightarrow> LeaseController \<Rightarrow> LeaseController" where
  "lease_run [] c = c"
| "lease_run ((now, a) # rest) c = lease_run rest (acquire_or_renew now a c)"

subsection \<open>Conditions: properties\<close>

abbreviation condition_types :: "NodeStatus \<Rightarrow> NodeConditionType list" where
  "condition_types s \<equiv> map ncd_condition_type (nst_conditions s)"

lemma types_update_or_push: "ncd_condition_type ` set (update_or_push c xs) = insert (ncd_condition_type c) (ncd_condition_type ` set xs)"
  by (induction xs) auto

lemma distinct_update_or_push:
  "distinct (map ncd_condition_type xs) \<Longrightarrow> distinct (map ncd_condition_type (update_or_push c xs))"
  by (induction xs) (auto simp: types_update_or_push)

lemma filter_update_or_push:
  "distinct (map ncd_condition_type xs) \<Longrightarrow>
   filter (\<lambda>x. ncd_condition_type x = ty) (update_or_push c xs) =
     (if ty = ncd_condition_type c then [c] else filter (\<lambda>x. ncd_condition_type x = ty) xs)"
  by (induction xs) (auto simp: filter_empty_conv image_iff)

lemma set_condition_props:
  assumes "distinct (condition_types s)"
  shows "distinct (condition_types (set_condition c s))"
    and "filter (\<lambda>x. ncd_condition_type x = ty) (nst_conditions (set_condition c s)) =
      (if ty = ncd_condition_type c then [c] else filter (\<lambda>x. ncd_condition_type x = ty) (nst_conditions s))"
  using assms by (simp_all add: set_condition_def distinct_update_or_push filter_update_or_push)

definition condition_holds :: "NodeConditionType \<Rightarrow> NodeStatus \<Rightarrow> bool" where
  "condition_holds ty s \<longleftrightarrow> (\<exists>c \<in> set (filter (\<lambda>x. ncd_condition_type x = ty) (nst_conditions s)). ncd_status c = NsTrue)"

lemma ready_pressure_holds:
  "NodeStatus_is_ready s = condition_holds NcReady s"
  "NodeStatus_has_pressure s = (condition_holds NcMemoryPressure s \<or> condition_holds NcDiskPressure s \<or> condition_holds NcPIDPressure s)"
  by (auto simp: NodeStatus_is_ready_def NodeStatus_has_pressure_def condition_holds_def)

lemma node_condition_simps [simp]:
  "ncd_condition_type (node_condition now ty b r m) = ty" "ncd_status (node_condition now ty b r m) = (if b then NsTrue else NsFalse)"
  by (simp_all add: node_condition_def)

lemma condition_holds_set:
  "distinct (condition_types s) \<Longrightarrow>
   condition_holds ty (set_condition c s) = (if ty = ncd_condition_type c then ncd_status c = NsTrue else condition_holds ty s)"
  by (simp add: condition_holds_def set_condition_props)

text \<open>The node's report shows the pressure that was measured. Starting from a status with at most one condition of
  each type, applying the pressure conditions keeps it so, makes each of the three pressure conditions true exactly when
  the measurement says so, and leaves the conditions of other types, Ready among them, as they were; so the
  node has pressure exactly when one of the three was measured.\<close>

theorem report_shows_pressure:
  assumes "distinct (condition_types s)"
  shows "distinct (condition_types (apply_pressure_conditions now p s)) \<and>
         condition_holds NcMemoryPressure (apply_pressure_conditions now p s) = pc_memory_pressure p \<and>
         condition_holds NcDiskPressure (apply_pressure_conditions now p s) = pc_disk_pressure p \<and>
         condition_holds NcPIDPressure (apply_pressure_conditions now p s) = pc_pid_pressure p \<and>
         NodeStatus_has_pressure (apply_pressure_conditions now p s) = (pc_memory_pressure p \<or> pc_disk_pressure p \<or> pc_pid_pressure p) \<and>
         NodeStatus_is_ready (apply_pressure_conditions now p s) = NodeStatus_is_ready s \<and>
         filter (\<lambda>x. ncd_condition_type x = NcNetworkUnavailable) (nst_conditions (apply_pressure_conditions now p s)) =
           filter (\<lambda>x. ncd_condition_type x = NcNetworkUnavailable) (nst_conditions s)"
  using assms by (simp add: apply_pressure_conditions_def Let_def set_condition_props condition_holds_set ready_pressure_holds)

theorem report_shows_pressure_witness:
  "NodeStatus_has_pressure (apply_pressure_conditions 7 \<lparr>pc_memory_pressure = False, pc_disk_pressure = True, pc_pid_pressure = False\<rparr>
     (NodeStatus_new 0 ''n''))"
proof -
  have "distinct (condition_types (NodeStatus_new 0 ''n''))" by (simp add: NodeStatus_new_def)
  from report_shows_pressure [OF this, of 7 "\<lparr>pc_memory_pressure = False, pc_disk_pressure = True, pc_pid_pressure = False\<rparr>"]
  show ?thesis by simp
qed

subsection \<open>Allocatable resources\<close>

lemma nine_tenths_props: obtains q where "nine_tenths = Fin q" "0 \<le> q" "q \<le> 1"
proof
  show "nine_tenths = Fin (fl (9 / 10))" unfolding nine_tenths_def by (intro round64_Fin) simp
  show "0 \<le> fl (9 / 10)" by (rule fl_nonneg) simp
  show "fl (9 / 10) \<le> 1" using fl_le [of 1 "9 / 10"] representable_of_nat [of 1] by simp
qed

lemma scaled_le:
  assumes "0 \<le> q" "q \<le> 1" "n \<le> 2 ^ 53"
  shows "f64_as_u64 (f64_mul (f64_of_u64 n) (Fin q)) \<le> n"
proof -
  have n: "(of_nat n :: rat) \<le> 2 ^ 53" using of_nat_mono [OF assms(3), where 'a = rat] by simp
  have le: "of_nat n * q \<le> of_nat n" "0 \<le> of_nat n * q" using assms by (simp_all add: mult_left_le)
  then have "\<bar>of_nat n * q\<bar> \<le> 2 ^ 64" using n by simp
  then have m: "f64_mul (f64_of_u64 n) (Fin q) = Fin (fl (of_nat n * q))"
    using f64_of_u64_exact [OF assms(3)] by (simp add: round64_Fin)
  have "fl (of_nat n * q) \<le> of_nat n" using le by (intro fl_le representable_of_nat assms(3))
  then have "\<lfloor>fl (of_nat n * q)\<rfloor> \<le> int n" by linarith
  then show ?thesis unfolding m by simp
qed

text \<open>What the node offers is never more than it has: for capacities of up to \<open>2\<^sup>5\<^sup>3\<close> bytes, the allocatable
  memory and storage the collector computes in floating point are at most the capacities it reports beside them,
  and for a whole number of cores below \<open>2\<^sup>4\<^sup>0\<close> the allocatable CPU is exactly 900 millicores per core.\<close>

theorem allocatable_within_capacity:
  assumes "nsc_memory_bytes c \<le> 2 ^ 53" "nsc_ephemeral_storage_bytes c \<le> 2 ^ 53" "nsc_cpu_cores c = Fin (of_nat k)" "k < 2 ^ 40"
  shows "nas_memory_bytes (nst_allocatable (collect t0 t1 h a c)) \<le> nc_memory_bytes (nst_capacity (collect t0 t1 h a c)) \<and>
         nas_ephemeral_storage_bytes (nst_allocatable (collect t0 t1 h a c)) \<le> nc_ephemeral_storage_bytes (nst_capacity (collect t0 t1 h a c)) \<and>
         nas_pods (nst_allocatable (collect t0 t1 h a c)) = nc_pods (nst_capacity (collect t0 t1 h a c)) \<and>
         nas_cpu_millicores (nst_allocatable (collect t0 t1 h a c)) = 900 * k"
proof -
  obtain q where q: "nine_tenths = Fin q" "0 \<le> q" "q \<le> 1" by (rule nine_tenths_props)
  have "f64_as_u64 (f64_mul (f64_of_u64 k) (f64_of_u64 900)) = k * 900"
    using assms(4) by (intro quantity_product) simp_all
  moreover have "f64_of_u64 k = Fin (of_nat k)" using assms(4) by (intro f64_of_u64_exact) simp
  moreover have "f64_of_u64 900 = Fin 900" using f64_of_u64_exact [of 900] by simp
  ultimately have "f64_as_u64 (f64_mul (Fin (of_nat k)) (Fin 900)) = 900 * k" by simp
  then show ?thesis using scaled_le [OF q(2,3)] assms(1-3) by (simp add: collect_def q(1) del: f64_mul.simps f64_as_u64.simps)
qed

theorem allocatable_within_capacity_witness:
  "\<exists>h. nas_cpu_millicores (nst_allocatable (collect 0 1 h [] \<lparr>nsc_node_name = ''n'', nsc_max_pods = 110, nsc_cpu_cores = Fin 4,
     nsc_memory_bytes = 1024, nsc_ephemeral_storage_bytes = 1024\<rparr>)) = 3600"
  using allocatable_within_capacity [of "\<lparr>nsc_node_name = ''n'', nsc_max_pods = 110, nsc_cpu_cores = Fin 4,
     nsc_memory_bytes = 1024, nsc_ephemeral_storage_bytes = 1024\<rparr>" 4 0 1 _ "[]"] by simp

subsection \<open>The lease: properties\<close>

text \<open>The lease controller can not lose the lease. It sets its state to Renewing before it asks, so when the request
  fails it never sees how often it failed before: as long as more than one retry is allowed, after any sequence of
  answers the state is Active or Degraded with one failure, and \<^verbatim>\<open>Lost\<close> is never reached.\<close>

theorem lease_never_lost:
  assumes "2 \<le> max_retries"
  shows "lc_state (lease_run answers (LeaseController_new t node d max_retries)) \<in> {Active, Degraded 1}"
proof -
  have "lc_max_retries (acquire_or_renew now a c) = lc_max_retries c" for now a c
    by (cases a) (simp_all add: acquire_or_renew_def Let_def)
  moreover have "lc_state (acquire_or_renew now a c) \<in> {Active, Degraded 1}" if "2 \<le> lc_max_retries c" for now a c
    using that by (cases a) (simp_all add: acquire_or_renew_def Let_def)
  ultimately have "lc_state (lease_run answers c) \<in> {Active, Degraded 1}"
    if "2 \<le> lc_max_retries c" "lc_state c \<in> {Active, Degraded 1}" for c
    using that by (induction answers c rule: lease_run.induct) simp_all
  then show ?thesis using assms by (simp add: LeaseController_new_def)
qed

theorem lease_never_lost_witness:
  "lc_state (lease_run [(1, Inl (ENetwork ''down'')), (2, Inl (ENetwork ''down'')), (3, Inl (ENetwork ''down''))]
     (LeaseController_new 0 ''n'' 40 3)) \<in> {Active, Degraded 1}"
  by (rule lease_never_lost) simp

text \<open>Renewing in time. After a successful renewal of a lease of at least one second, the controller sleeps at most the
  renewal interval, a quarter of the duration and at least a second; if the next answer then takes no longer
  than what is left of the duration, the lease has not expired when it arrives.\<close>

theorem lease_renewed_in_time:
  assumes "1 \<le> nl_lease_duration_seconds (lc_lease c)" "c' = acquire_or_renew now (Inr ()) c"
    "latency \<le> secs (int (nl_lease_duration_seconds (lc_lease c))) - renew_interval (lc_lease c)"
  shows "lease_wait now c' \<le> renew_interval (lc_lease c') \<and> \<not> is_expired (now + lease_wait now c' + latency) (lc_lease c') \<and>
         \<not> needs_renewal (now + lease_wait now c') (lc_lease c')"
proof -
  let ?l = "lc_lease c'"
  have l: "nl_renew_time ?l = now" "nl_lease_duration_seconds ?l = nl_lease_duration_seconds (lc_lease c)"
    using assms(2) by (simp_all add: acquire_or_renew_def Let_def lease_renew_def)
  then have i: "renew_interval ?l = renew_interval (lc_lease c)" by (simp add: renew_interval_def)
  have pos: "secs 1 \<le> renew_interval ?l" by (simp add: renew_interval_def)
  have t: "time_until_renewal now ?l = renew_interval ?l" using l pos by (simp add: time_until_renewal_def secs_def)
  have "secs (renew_interval ?l div secs 1) \<le> renew_interval ?l" by (simp add: secs_def)
  moreover have "(100000000 :: int) \<le> renew_interval ?l" using pos by (simp add: secs_def)
  moreover have "0 \<le> renew_interval ?l div secs 1" using pos by (simp add: secs_def pos_imp_zdiv_nonneg_iff)
  ultimately have w: "lease_wait now c' \<le> renew_interval ?l" unfolding lease_wait_def t by simp
  then show ?thesis using assms(3) l i by (simp add: is_expired_def needs_renewal_def)
qed

theorem lease_renewed_in_time_witness:
  "\<not> is_expired (0 + lease_wait 0 (acquire_or_renew 0 (Inr ()) (LeaseController_new 0 ''n'' 40 3)) + secs 30)
      (lc_lease (acquire_or_renew 0 (Inr ()) (LeaseController_new 0 ''n'' 40 3)))"
  using lease_renewed_in_time [OF _ refl, where c = "LeaseController_new 0 ''n'' 40 3" and now = 0 and latency = "secs 30"]
  by (simp add: LeaseController_new_def NodeLease_new_def renew_interval_def)

end
