(* ===== verification/Image_GC.thy ===== *)
theory Image_GC
  imports Pod_Manager Eviction
begin

text \<open>
  Image garbage collection: the manager (\<^verbatim>\<open>kubelet-adapters/src/image_gc/mod.rs\<close>) and one turn of the loop that drives it
  (\<^verbatim>\<open>run_image_gc_loop\<close> in \<^verbatim>\<open>kubelet-app/src/lib.rs\<close>). The image manager is not part of the source: the two listings of
  images and the outcomes of removals are arguments. Sizes are 64-bit words, and their sum wraps.
\<close>

record TrackedImage =
  ti_info :: ImageInfo
  ti_last_used :: timestamp
  ti_in_use :: bool

record ImageGcConfig =
  igc_high_threshold :: f64
  igc_low_threshold :: f64
  igc_min_age :: duration

record ImageGcManager =
  igm_config :: ImageGcConfig
  igm_images :: "(string, TrackedImage) hmap"
  igm_pinned :: "string set"

definition ImageGcManager_new :: "ImageGcConfig \<Rightarrow> ImageGcManager" where
  "ImageGcManager_new config = \<lparr>igm_config = config, igm_images = [], igm_pinned = {}\<rparr>"

definition track_image :: "timestamp \<Rightarrow> ImageInfo \<Rightarrow> ImageGcManager \<Rightarrow> ImageGcManager" where
  "track_image now info m =
     (case hm_get (igm_images m) (ii_id info) of
        Some _ \<Rightarrow> m
      | None \<Rightarrow> m\<lparr>igm_images := hm_insert (ii_id info) \<lparr>ti_info = info, ti_last_used = now, ti_in_use = False\<rparr> (igm_images m)\<rparr>)"

definition mark_in_use :: "timestamp \<Rightarrow> string \<Rightarrow> ImageGcManager \<Rightarrow> ImageGcManager" where
  "mark_in_use now image_id m =
     m\<lparr>igm_pinned := insert image_id (igm_pinned m),
       igm_images := hm_modify image_id (\<lambda>img. img\<lparr>ti_last_used := now, ti_in_use := True\<rparr>) (igm_images m)\<rparr>"

definition mark_not_in_use :: "string \<Rightarrow> ImageGcManager \<Rightarrow> ImageGcManager" where
  "mark_not_in_use image_id m =
     m\<lparr>igm_pinned := igm_pinned m - {image_id},
       igm_images := hm_modify image_id (\<lambda>img. img\<lparr>ti_in_use := False\<rparr>) (igm_images m)\<rparr>"

definition remove_image :: "string \<Rightarrow> ImageGcManager \<Rightarrow> ImageGcManager" where
  "remove_image image_id m = m\<lparr>igm_images := hm_remove image_id (igm_images m), igm_pinned := igm_pinned m - {image_id}\<rparr>"

text \<open>\<open>now\<close> is the clock during the whole of one \<^verbatim>\<open>sync\<close>.\<close>

definition gc_sync :: "timestamp \<Rightarrow> ImageInfo list \<Rightarrow> ImageGcManager \<Rightarrow> ImageGcManager" where
  "gc_sync now available m =
     fold (track_image now) available
       (m\<lparr>igm_images := hm_retain (\<lambda>i _. i \<in> ii_id ` set available) (igm_images m)\<rparr>)"

record GcPlan =
  gcp_to_delete :: "string list"
  gcp_bytes_to_free :: nat

definition f64_max0 :: "f64 \<Rightarrow> f64" where
  "f64_max0 x = (case x of Fin r \<Rightarrow> Fin (max r 0) | PInf \<Rightarrow> PInf | _ \<Rightarrow> Fin 0)"

fun insert_by_age :: "TrackedImage \<Rightarrow> TrackedImage list \<Rightarrow> TrackedImage list" where
  "insert_by_age x [] = [x]"
| "insert_by_age x (y # ys) = (if ti_last_used x \<le> ti_last_used y then x # y # ys else y # insert_by_age x ys)"

definition sort_by_age :: "TrackedImage list \<Rightarrow> TrackedImage list" where
  "sort_by_age xs = foldr insert_by_age xs []"

definition eligible_images :: "timestamp \<Rightarrow> ImageGcManager \<Rightarrow> TrackedImage list" where
  "eligible_images now m =
     sort_by_age (filter (\<lambda>img. ii_id (ti_info img) \<notin> igm_pinned m \<and> igc_min_age (igm_config m) < now - ti_last_used img)
       (hm_values (igm_images m)))"

fun pick_images :: "nat \<Rightarrow> u64 \<Rightarrow> TrackedImage list \<Rightarrow> string list" where
  "pick_images bytes_to_free freed [] = []"
| "pick_images bytes_to_free freed (img # rest) =
     (if bytes_to_free \<le> unat freed then []
      else ii_id (ti_info img) # pick_images bytes_to_free (freed + ii_size_bytes (ti_info img)) rest)"

text \<open>\<^verbatim>\<open>used_fraction <= high_threshold\<close> is false when one of them is not a number.\<close>

definition f64_le :: "f64 \<Rightarrow> f64 \<Rightarrow> bool" where
  "f64_le x y \<longleftrightarrow> f64_less x y \<or> (x = y \<and> x \<noteq> NaN)"

definition gc_candidates :: "timestamp \<Rightarrow> nat \<Rightarrow> nat \<Rightarrow> ImageGcManager \<Rightarrow> GcPlan" where
  "gc_candidates now disk_used_bytes disk_total_bytes m =
     (let used_fraction = f64_div (f64_of_u64 disk_used_bytes) (f64_of_u64 disk_total_bytes) in
      if f64_le used_fraction (igc_high_threshold (igm_config m)) then \<lparr>gcp_to_delete = [], gcp_bytes_to_free = 0\<rparr>
      else
        (let target_usage = f64_mul (igc_low_threshold (igm_config m)) (f64_of_u64 disk_total_bytes);
             bytes_to_free = f64_as_u64 (f64_max0 (f64_sub (f64_of_u64 disk_used_bytes) target_usage))
         in \<lparr>gcp_to_delete = pick_images bytes_to_free 0 (eligible_images now m), gcp_bytes_to_free = bytes_to_free\<rparr>))"

definition total_image_bytes :: "ImageGcManager \<Rightarrow> u64" where
  "total_image_bytes m = sum_list (map (ii_size_bytes \<circ> ti_info) (hm_values (igm_images m)))"

subsection \<open>A turn of the loop\<close>

definition desired_images :: "PodManager \<Rightarrow> string set" where
  "desired_images pm =
     set (concat (map (\<lambda>p. map ctr_image (ps_containers p @ ps_init_containers p @ ps_ephemeral_containers p)) (PodManager_list pm)))"

definition image_wanted :: "string set \<Rightarrow> ImageInfo \<Rightarrow> bool" where
  "image_wanted desired img \<longleftrightarrow> (\<exists>t \<in> set (ii_repo_tags img). t \<in> desired) \<or> (\<exists>d \<in> set (ii_repo_digests img). d \<in> desired)"

definition mark_image :: "timestamp \<Rightarrow> string set \<Rightarrow> ImageInfo \<Rightarrow> ImageGcManager \<Rightarrow> ImageGcManager" where
  "mark_image now desired img m = (if image_wanted desired img then mark_in_use now (ii_id img) m else mark_not_in_use (ii_id img) m)"

definition removals :: "(string \<Rightarrow> unit result) \<Rightarrow> string list \<Rightarrow> ImageGcManager \<Rightarrow> ImageGcManager" where
  "removals outcome = fold (\<lambda>i m. case outcome i of Inr _ \<Rightarrow> remove_image i m | Inl _ \<Rightarrow> m)"

text \<open>The images a turn asks to remove, and the manager after it. The listings are \<open>l1\<close> and \<open>l2\<close>; the clock is read when the
  images are tracked (\<open>t1\<close>), marked (\<open>t2\<close>) and chosen (\<open>t3\<close>).\<close>

definition image_gc_turn ::
  "timestamp \<Rightarrow> timestamp \<Rightarrow> timestamp \<Rightarrow> ImageInfo list result \<Rightarrow> ImageInfo list result \<Rightarrow> ResourceSignals \<Rightarrow> (string \<Rightarrow> unit result) \<Rightarrow>
   PodManager \<Rightarrow> ImageGcManager \<Rightarrow> string list \<times> ImageGcManager" where
  "image_gc_turn t1 t2 t3 l1 l2 sig outcome pm m =
     (case l1 of
        Inl _ \<Rightarrow> ([], m)
      | Inr available \<Rightarrow>
          (let m1 = gc_sync t1 available m in
           case l2 of
             Inl _ \<Rightarrow> ([], m1)
           | Inr available_imgs \<Rightarrow>
               (let m2 = fold (mark_image t2 (desired_images pm)) available_imgs m1;
                    used = rs_imagefs_total_bytes sig - rs_imagefs_available_bytes sig;
                    capacity = rs_imagefs_total_bytes sig
                in if capacity = 0 then ([], m2)
                   else (let plan = gc_candidates t3 used capacity m2
                         in if gcp_to_delete plan = [] then ([], m2)
                            else (gcp_to_delete plan, removals outcome (gcp_to_delete plan) m2)))))"

subsection \<open>What is tracked and pinned\<close>

definition igm_ok :: "ImageGcManager \<Rightarrow> bool" where
  "igm_ok m \<longleftrightarrow> hm_ok (igm_images m) \<and> (\<forall>i t. hm_get (igm_images m) i = Some t \<longrightarrow> ii_id (ti_info t) = i)"

abbreviation tracked :: "ImageGcManager \<Rightarrow> string set" where
  "tracked m \<equiv> dom (hm_get (igm_images m))"

lemma track_image_props:
  "igm_ok m \<Longrightarrow> igm_ok (track_image now info m)"
  "tracked (track_image now info m) = insert (ii_id info) (tracked m)"
  "igm_pinned (track_image now info m) = igm_pinned m" "igm_config (track_image now info m) = igm_config m"
  by (auto simp: track_image_def igm_ok_def split: option.splits if_splits)

lemma fold_track_props:
  "igm_ok m \<Longrightarrow> igm_ok (fold (track_image now) xs m)"
  "tracked (fold (track_image now) xs m) = ii_id ` set xs \<union> tracked m"
  "igm_pinned (fold (track_image now) xs m) = igm_pinned m"
  by (induction xs arbitrary: m) (simp_all add: track_image_props)

lemma gc_sync_props:
  assumes "igm_ok m"
  shows "igm_ok (gc_sync now xs m)" "tracked (gc_sync now xs m) = ii_id ` set xs"
proof -
  let ?m = "m\<lparr>igm_images := hm_retain (\<lambda>i _. i \<in> ii_id ` set xs) (igm_images m)\<rparr>"
  have "igm_ok ?m" using assms by (auto simp: igm_ok_def dest!: hm_get_retain_SomeD)
  then show "igm_ok (gc_sync now xs m)" by (simp add: gc_sync_def fold_track_props)
  have "tracked ?m \<subseteq> ii_id ` set xs" using assms by (auto simp: igm_ok_def dest!: hm_get_retain_SomeD)
  then show "tracked (gc_sync now xs m) = ii_id ` set xs" by (auto simp: gc_sync_def fold_track_props)
qed

lemma mark_image_props:
  "igm_ok m \<Longrightarrow> igm_ok (mark_image now ds img m)" "tracked (mark_image now ds img m) = tracked m"
  "i \<in> igm_pinned (mark_image now ds img m) \<longleftrightarrow> (if i = ii_id img then image_wanted ds img else i \<in> igm_pinned m)"
  by (auto simp: mark_image_def mark_in_use_def mark_not_in_use_def igm_ok_def split: if_splits)

lemma fold_mark_props:
  "igm_ok m \<Longrightarrow> igm_ok (fold (mark_image now ds) xs m)" "tracked (fold (mark_image now ds) xs m) = tracked m"
  by (induction xs arbitrary: m) (simp_all add: mark_image_props)

lemma fold_mark_pinned:
  "distinct (map ii_id xs) \<Longrightarrow> img \<in> set xs \<Longrightarrow> ii_id img \<in> igm_pinned (fold (mark_image now ds) xs m) \<longleftrightarrow> image_wanted ds img"
proof (induction xs arbitrary: m)
  case (Cons x xs)
  have other: "i \<in> igm_pinned (fold (mark_image now ds) xs m) \<longleftrightarrow> i \<in> igm_pinned m" if "i \<notin> ii_id ` set xs" for i m
    using that by (induction xs arbitrary: m) (simp_all add: mark_image_props)
  show ?case
  proof (cases "img = x")
    case True
    then show ?thesis using Cons.prems other [of "ii_id x"] by (simp add: mark_image_props)
  next
    case False
    then show ?thesis using Cons by simp
  qed
qed simp

subsection \<open>The plan\<close>

lemma insert_by_age_props:
  "mset (insert_by_age x xs) = add_mset x (mset xs)"
  "sorted (map ti_last_used xs) \<Longrightarrow> sorted (map ti_last_used (insert_by_age x xs))"
proof -
  show m: "mset (insert_by_age x xs) = add_mset x (mset xs)" for xs by (induction xs) simp_all
  have s: "set (insert_by_age x xs) = insert x (set xs)" for xs by (induction xs) auto
  show "sorted (map ti_last_used xs) \<Longrightarrow> sorted (map ti_last_used (insert_by_age x xs))"
    by (induction xs) (auto simp: s)
qed

lemma sort_by_age_props: "mset (sort_by_age xs) = mset xs" "sorted (map ti_last_used (sort_by_age xs))"
  by (induction xs) (simp_all add: sort_by_age_def insert_by_age_props)

lemma set_eligible:
  "set (eligible_images now m) =
     {img \<in> set (hm_values (igm_images m)). ii_id (ti_info img) \<notin> igm_pinned m \<and> igc_min_age (igm_config m) < now - ti_last_used img}"
  using arg_cong [OF sort_by_age_props(1), of set_mset] by (simp add: eligible_images_def)

definition image_size :: "TrackedImage \<Rightarrow> nat" where
  "image_size img = unat (ii_size_bytes (ti_info img))"

lemma pick_images_prefix:
  assumes "unat freed + sum_list (map image_size xs) < 2 ^ 64"
  shows "\<exists>k \<le> length xs. pick_images b freed xs = map (ii_id \<circ> ti_info) (take k xs) \<and>
     (k = length xs \<or> b \<le> unat freed + sum_list (map image_size (take k xs))) \<and>
     (\<forall>j < k. unat freed + sum_list (map image_size (take j xs)) < b)"
  using assms
proof (induction b freed xs rule: pick_images.induct)
  case (2 b freed img rest)
  show ?case
  proof (cases "b \<le> unat freed")
    case True
    then show ?thesis by (intro exI [of _ 0]) simp
  next
    case False
    have s: "unat (freed + ii_size_bytes (ti_info img)) = unat freed + image_size img"
      using 2(2) by (simp add: image_size_def unat_word_ariths)
    have "unat (freed + ii_size_bytes (ti_info img)) + sum_list (map image_size rest) < 2 ^ 64" using 2(2) s by simp
    from "2.IH" [OF False this] obtain k where k: "k \<le> length rest"
      "pick_images b (freed + ii_size_bytes (ti_info img)) rest = map (ii_id \<circ> ti_info) (take k rest)"
      "k = length rest \<or> b \<le> unat freed + image_size img + sum_list (map image_size (take k rest))"
      "\<forall>j < k. unat freed + image_size img + sum_list (map image_size (take j rest)) < b"
      unfolding s by blast
    have "unat freed + sum_list (map image_size (take j (img # rest))) < b" if "j < Suc k" for j
      using that False k(4) by (cases j) (auto simp: add.assoc)
    then show ?thesis using False k(1-3) by (intro exI [of _ "Suc k"]) (auto simp: add.assoc)
  qed
qed simp

lemma set_pick_images: "set (pick_images b freed xs) \<subseteq> (ii_id \<circ> ti_info) ` set xs"
  by (induction b freed xs rule: pick_images.induct) auto

lemma gc_candidates_eligible:
  assumes "igm_ok m" "i \<in> set (gcp_to_delete (gc_candidates now used capacity m))"
  shows "\<exists>t. hm_get (igm_images m) i = Some t \<and> i \<notin> igm_pinned m \<and> igc_min_age (igm_config m) < now - ti_last_used t"
proof -
  from assms(2) obtain b where "i \<in> set (pick_images b 0 (eligible_images now m))"
    by (auto simp: gc_candidates_def Let_def split: if_splits)
  with set_pick_images obtain t where t: "t \<in> set (eligible_images now m)" "i = ii_id (ti_info t)" by fastforce
  then obtain k where "(k, t) \<in> set (igm_images m)" by (auto simp: set_eligible hm_values_def)
  then have "hm_get (igm_images m) k = Some t" using assms(1) by (simp add: igm_ok_def hm_get_in_set)
  with t assms(1) show ?thesis by (auto simp: igm_ok_def set_eligible)
qed


text \<open>The plan frees what is needed and no more. Above the high threshold the images to delete are a prefix of the
  eligible ones (not pinned, unused for longer than the minimum age) in order of last use, oldest first; together they
  free the bytes that are over the low threshold, or they are all the eligible images; and no shorter prefix would
  do, as long as the sizes add up to less than \<open>2\<^sup>6\<^sup>4\<close>. At or below the high threshold nothing is deleted.\<close>

theorem gc_plan_frees_enough:
  assumes "sum_list (map image_size (eligible_images now m)) < 2 ^ 64" "plan = gc_candidates now used capacity m"
  shows "(f64_le (f64_div (f64_of_u64 used) (f64_of_u64 capacity)) (igc_high_threshold (igm_config m)) \<longrightarrow> gcp_to_delete plan = []) \<and>
         (\<not> f64_le (f64_div (f64_of_u64 used) (f64_of_u64 capacity)) (igc_high_threshold (igm_config m)) \<longrightarrow>
            sorted (map ti_last_used (eligible_images now m)) \<and>
            (\<exists>k \<le> length (eligible_images now m).
               gcp_to_delete plan = map (ii_id \<circ> ti_info) (take k (eligible_images now m)) \<and>
               (k = length (eligible_images now m) \<or> gcp_bytes_to_free plan \<le> sum_list (map image_size (take k (eligible_images now m)))) \<and>
               (\<forall>j < k. sum_list (map image_size (take j (eligible_images now m))) < gcp_bytes_to_free plan)))"
proof (intro conjI impI)
  assume "f64_le (f64_div (f64_of_u64 used) (f64_of_u64 capacity)) (igc_high_threshold (igm_config m))"
  then show "gcp_to_delete plan = []" by (simp add: assms(2) gc_candidates_def)
next
  show "sorted (map ti_last_used (eligible_images now m))" by (simp add: eligible_images_def sort_by_age_props)
next
  assume a: "\<not> f64_le (f64_div (f64_of_u64 used) (f64_of_u64 capacity)) (igc_high_threshold (igm_config m))"
  let ?xs = "eligible_images now m"
  have "gcp_to_delete plan = pick_images (gcp_bytes_to_free plan) 0 ?xs"
    using a by (simp add: assms(2) gc_candidates_def Let_def)
  with pick_images_prefix [of 0 ?xs "gcp_bytes_to_free plan"] assms(1)
  show "\<exists>k \<le> length ?xs. gcp_to_delete plan = map (ii_id \<circ> ti_info) (take k ?xs) \<and>
      (k = length ?xs \<or> gcp_bytes_to_free plan \<le> sum_list (map image_size (take k ?xs))) \<and>
      (\<forall>j < k. sum_list (map image_size (take j ?xs)) < gcp_bytes_to_free plan)"
    by simp
qed

subsection \<open>Examples\<close>

definition demo_image :: "string \<Rightarrow> ImageInfo" where
  "demo_image i = \<lparr>ii_id = i, ii_repo_tags = [i @ '':latest''], ii_repo_digests = [], ii_size_bytes = 50\<rparr>"

definition demo_gc :: ImageGcManager where
  "demo_gc = \<lparr>igm_config = \<lparr>igc_high_threshold = Fin (1 / 2), igc_low_threshold = Fin 0, igc_min_age = 10\<rparr>,
     igm_images = [(''a'', \<lparr>ti_info = demo_image ''a'', ti_last_used = 0, ti_in_use = False\<rparr>)], igm_pinned = {}\<rparr>"

definition full_disk :: ResourceSignals where
  "full_disk = \<lparr>rs_memory_available_bytes = 9, rs_nodefs_available_bytes = 9, rs_nodefs_inodes_free = 9,
     rs_imagefs_available_bytes = 0, rs_pid_available = 9, rs_nodefs_total_bytes = 9, rs_imagefs_total_bytes = 100\<rparr>"

lemma demo_eligible: "eligible_images 100 demo_gc = [\<lparr>ti_info = demo_image ''a'', ti_last_used = 0, ti_in_use = False\<rparr>]"
  by (simp add: eligible_images_def demo_gc_def hm_values_def sort_by_age_def)

lemma demo_over_threshold: "\<not> f64_le (f64_div (f64_of_u64 100) (f64_of_u64 100)) (igc_high_threshold (igm_config demo_gc))"
  using f64_of_u64_exact [of 100] by (simp add: demo_gc_def f64_le_def round64_Fin)

theorem gc_plan_frees_enough_witness: "\<exists>k \<le> 1. gcp_to_delete (gc_candidates 100 100 100 demo_gc) = take k [''a'']"
  using gc_plan_frees_enough [OF _ refl, where m = demo_gc and now = 100 and used = 100 and capacity = 100] demo_over_threshold
  by (auto simp: demo_eligible demo_image_def image_size_def take_map [symmetric] cong: conj_cong)

lemma demo_plan: "gcp_to_delete (gc_candidates 100 100 100 demo_gc) = [''a'']"
proof -
  have "round64 100 = Fin 100" using f64_of_u64_exact [of 100] by (simp add: f64_of_u64_def)
  then have "f64_as_u64 (f64_max0 (f64_sub (f64_of_u64 100) (f64_mul (Fin 0) (f64_of_u64 100)))) = 100"
    using f64_of_u64_exact [of 100] by (simp add: round64_Fin f64_max0_def)
  then show ?thesis
    using demo_over_threshold by (simp add: gc_candidates_def Let_def demo_eligible) (simp add: demo_gc_def demo_image_def)
qed


end
