(* ===== verification/Pod_Sync.thy ===== *)
theory Pod_Sync
  imports Pod_Start
begin

section \<open>Synchronising and terminating a pod\<close>

text \<open>
  \<^verbatim>\<open>sync_pod\<close>, \<^verbatim>\<open>terminate_pod\<close> and \<^verbatim>\<open>cleanup_pod_containerd_by_uid\<close> of \<^verbatim>\<open>pod_worker/mod.rs\<close>. Each step of
  \<^verbatim>\<open>sync_pod\<close> is a definition; a step that leaves the function returns \<open>Some\<close> of a result, where the inner
  \<open>None\<close> is a panic, and \<open>sync_pod\<close> composes them in order. Mounting and unmounting of volumes are calls whose
  answers come from the environment.
\<close>

subsection \<open>Back-off\<close>

text \<open>\<^verbatim>\<open>((1u64 << n.saturating_sub(1).min(5)) * 10).min(300)\<close>\<close>

definition backoff_secs :: "u32 \<Rightarrow> nat" where
  "backoff_secs n = min (2 ^ unat (min (sat_sub n 1) 5) * 10) 300"

definition count_of :: "(string, u32) hmap \<Rightarrow> string \<Rightarrow> u32" where
  "count_of m k = (case hm_get m k of Some n \<Rightarrow> n | None \<Rightarrow> 0)"

definition bump :: "string \<Rightarrow> (string, u32) hmap \<Rightarrow> (string, u32) hmap" where
  "bump k m = hm_insert k (count_of m k + 1) m"

subsection \<open>Termination\<close>

fun remove_attempts :: "Env \<Rightarrow> ContainerID \<Rightarrow> nat \<Rightarrow> unit sync" where
  "remove_attempts en cid 0 = ret ()"
| "remove_attempts en cid (Suc k) = do {
     r \<leftarrow> remove_container_call en cid;
     case r of
       Inr _ \<Rightarrow> ret ()
     | Inl _ \<Rightarrow> if 0 < k then do { sleep 500; remove_attempts en cid k } else ret ()
   }"

definition stop_for_termination :: "Env \<Rightarrow> PodSpec \<Rightarrow> nat \<Rightarrow> string \<times> ContainerID \<Rightarrow> unit sync" where
  "stop_for_termination en pod grace nc = do {
     let (name, cid) = nc;
     (case Option.bind (Option.bind (find (\<lambda>c. ctr_name c = name) (ps_containers pod @ ps_init_containers pod)) ctr_lifecycle) lc_pre_stop of
        Some handler \<Rightarrow> tell (CPreStop handler cid grace)
      | None \<Rightarrow> ret ());
     r \<leftarrow> stop_container en cid grace;
     case r of
       Inr _ \<Rightarrow> ret ()
     | Inl _ \<Rightarrow> do { _ \<leftarrow> stop_container en cid 0; ret () }
   }"

definition remove_sandbox_of :: "Env \<Rightarrow> PodRuntimeState \<Rightarrow> unit sync" where
  "remove_sandbox_of en st =
     (case rt_sandbox_id st of
        Some i \<Rightarrow> do { _ \<leftarrow> stop_pod_sandbox en i; _ \<leftarrow> remove_pod_sandbox en i; ret () }
      | None \<Rightarrow> ret ())"

definition unmount_pod_volumes :: "Env \<Rightarrow> WorkerConfig \<Rightarrow> PodSpec \<Rightarrow> unit result sync" where
  "unmount_pod_volumes en cfg pod =
     (if ps_volumes pod = [] then ret (Inr ())
      else ask (CUnmountVolumes (ps_uid pod) (map (\<lambda>v. (vs_name v, volume_target_path (wc_root_dir cfg) pod (vs_name v))) (ps_volumes pod)))
             (en_unmount_volumes en))"

definition terminate_pod :: "Env \<Rightarrow> WorkerConfig \<Rightarrow> PodSpec \<Rightarrow> PodRuntimeState \<Rightarrow> nat \<Rightarrow> unit sync" where
  "terminate_pod en cfg pod st grace = do {
     for_each (stop_for_termination en pod grace) (rt_container_ids st);
     sleep 500;
     for_each (\<lambda>(_, cid). remove_attempts en cid 3) (rt_container_ids st);
     remove_sandbox_of en st;
     tell (CDeleteCheckpoint (ps_uid pod));
     _ \<leftarrow> unmount_pod_volumes en cfg pod;
     for_each (\<lambda>(_, cid). tell (CForgetProbes cid)) (rt_container_ids st)
   }"

definition cleanup_pod_containerd_by_uid :: "Env \<Rightarrow> PodUID \<Rightarrow> unit sync" where
  "cleanup_pod_containerd_by_uid en uid = do {
     l \<leftarrow> list_pod_sandboxes en;
     case l of
       Inl _ \<Rightarrow> ret ()
     | Inr sandboxes \<Rightarrow>
         let matching = filter (\<lambda>sb. sbs_pod_uid sb = uid) sandboxes in
         if matching = [] then ret ()
         else do {
           lc \<leftarrow> list_containers en;
           let mine = filter (\<lambda>c. rtc_pod_uid c = uid) (case lc of Inr cs \<Rightarrow> cs | Inl _ \<Rightarrow> []);
           for_each (\<lambda>sb. do {
             for_each (\<lambda>c. cleanup_container_by_id en (rtc_id c)) mine;
             cleanup_sandbox en (sbs_id sb)
           }) matching
         }
   }"

subsection \<open>Steps of a sync\<close>

text \<open>A step that ends the sync: \<open>Some (Some r)\<close> returns \<open>r\<close>, \<open>Some None\<close> panics, \<open>None\<close> goes on.\<close>

type_synonym step = "PodSyncResult option option sync"

abbreviation go_on :: step where
  "go_on \<equiv> ret None"

definition finish :: "PodSyncResult \<Rightarrow> step" where
  "finish r = ret (Some (Some r))"

definition with_status :: "PodUID \<Rightarrow> (PodLifecycleState \<Rightarrow> PodLifecycleState) \<Rightarrow> unit sync" where
  "with_status uid f = do {
     cur \<leftarrow> get_status uid;
     case cur of Some ls \<Rightarrow> put_status uid (f ls) | None \<Rightarrow> ret ()
   }"

text \<open>The same with the time at which the change is made.\<close>

definition with_status_at :: "Env \<Rightarrow> PodUID \<Rightarrow> (timestamp \<Rightarrow> PodLifecycleState \<Rightarrow> PodLifecycleState) \<Rightarrow> unit sync" where
  "with_status_at en uid f = do {
     cur \<leftarrow> get_status uid;
     case cur of Some ls \<Rightarrow> do { t \<leftarrow> now en; put_status uid (f t ls) } | None \<Rightarrow> ret ()
   }"

definition deadline_conditions :: "timestamp \<Rightarrow> PodCondition list \<Rightarrow> PodCondition list" where
  "deadline_conditions t cs =
     update_first (\<lambda>c. pc_condition_type c = Ready)
       (\<lambda>c. c\<lparr>pc_status := CFalse, pc_reason := Some ''DeadlineExceeded'',
              pc_message := Some ''Pod was active on the node longer than the specified deadline'',
              pc_last_transition_time := Some t\<rparr>) cs"

definition deadline_exceeded :: "PodSpec \<Rightarrow> timestamp option \<Rightarrow> timestamp \<Rightarrow> bool" where
  "deadline_exceeded pod start_time t =
     (case (ps_active_deadline_seconds pod, start_time) of
        (Some d, Some start) \<Rightarrow> int d < trunc_div (t - start) 1000000000
      | _ \<Rightarrow> False)"

definition deadline_step :: "Env \<Rightarrow> WorkerConfig \<Rightarrow> PodSpec \<Rightarrow> step" where
  "deadline_step en cfg pod = do {
     cur \<leftarrow> get_status (ps_uid pod);
     case (ps_active_deadline_seconds pod, Option.bind cur ls_start_time) of
       (Some _, Some start) \<Rightarrow> do {
         t \<leftarrow> now en;
         if deadline_exceeded pod (Some start) t then do {
           st \<leftarrow> rt;
           terminate_pod en cfg pod st (ps_termination_grace_period_seconds pod);
           with_status_at en (ps_uid pod) (\<lambda>t' ls. ls\<lparr>ls_phase := Failed, ls_reason := Some ''DeadlineExceeded'',
             ls_conditions := deadline_conditions t' (ls_conditions ls)\<rparr>);
           finish SyncTerminated
         } else go_on
       }
     | _ \<Rightarrow> go_on
   }"

definition failure_condition :: "string \<Rightarrow> string \<Rightarrow> timestamp \<Rightarrow> PodCondition" where
  "failure_condition reason message t =
     \<lparr>pc_condition_type = PodScheduled, pc_status = CFalse, pc_last_probe_time = None, pc_last_transition_time = Some t,
      pc_reason = Some reason, pc_message = Some message\<rparr>"

definition pending_with :: "PodCondition \<Rightarrow> PodLifecycleState \<Rightarrow> PodLifecycleState" where
  "pending_with c ls =
     ls\<lparr>ls_phase := Pending, ls_conditions := filter (\<lambda>x. pc_condition_type x \<noteq> PodScheduled) (ls_conditions ls) @ [c]\<rparr>"

definition volume_step :: "Env \<Rightarrow> WorkerConfig \<Rightarrow> PodSpec \<Rightarrow> step" where
  "volume_step en cfg pod = do {
     st \<leftarrow> rt;
     r \<leftarrow> ask (CMountVolumes (ps_uid pod) (rt_sandbox_ip st)) (en_mount_volumes en);
     case r of
       Inr _ \<Rightarrow> go_on
     | Inl e \<Rightarrow> do {
         with_status_at en (ps_uid pod) (\<lambda>t. pending_with (failure_condition ''VolumeMountFailed'' (''Failed to mount volumes: '' @ error_to_string e) t));
         finish (NeedsRetry (''volume mount failed: '' @ error_to_string e))
       }
   }"

definition set_waiting :: "string \<Rightarrow> string \<Rightarrow> PodLifecycleState \<Rightarrow> PodLifecycleState" where
  "set_waiting name msg ls =
     (let upd = update_first (\<lambda>s. st_name s = name) (\<lambda>s. s\<lparr>st_state := Waiting ''ErrImagePull'' (Some msg)\<rparr>) in
      if list_ex (\<lambda>s. st_name s = name) (ls_container_statuses ls)
      then ls\<lparr>ls_container_statuses := upd (ls_container_statuses ls)\<rparr>
      else ls\<lparr>ls_init_container_statuses := upd (ls_init_container_statuses ls)\<rparr>)"

definition image_step :: "Env \<Rightarrow> PodSpec \<Rightarrow> ContainerSpec \<Rightarrow> step" where
  "image_step en pod c = do {
     st \<leftarrow> rt;
     let failures = count_of (rt_image_pull_backoff st) (ctr_image c);
     (if 0 < failures then sleep (backoff_secs failures * 1000) else ret ());
     r \<leftarrow> ensure_image en (ctr_image c);
     case r of
       Inr _ \<Rightarrow> do {
         set_rt (\<lambda>s. s\<lparr>rt_image_pull_backoff := hm_remove (ctr_image c) (rt_image_pull_backoff s)\<rparr>);
         go_on
       }
     | Inl e \<Rightarrow> do {
         with_status_at en (ps_uid pod) (\<lambda>t ls. set_waiting (ctr_name c) (error_to_string e)
           (pending_with (failure_condition ''ImagePullFailed'' (''Failed to pull image '' @ quoted (ctr_image c) @ '': '' @ error_to_string e) t) ls));
         tell (CContainerEvent (ctr_name c) ''Warning'' ''Failed''
           (''Failed to pull image '' @ [CHR 0x22] @ ctr_image c @ [CHR 0x22] @ '': '' @ error_to_string e));
         set_rt (\<lambda>s. s\<lparr>rt_image_pull_backoff := bump (ctr_image c) (rt_image_pull_backoff s)\<rparr>);
         finish (NeedsRetry (if is_registry_auth_error e
           then ''image pull failed with registry authorization error for '' @ quoted (ctr_image c) @ '': '' @ error_to_string e @
                '' (will retry '' @ [CHR 0xE2, CHR 0x80, CHR 0x94] @ '' pull secret may not be available yet)''
           else ''image pull failed: '' @ error_to_string e))
       }
   }"

subsection \<open>The sandbox step\<close>

definition recover_container :: "PodSpec \<Rightarrow> RuntimeContainer \<Rightarrow> PodRuntimeState \<Rightarrow> PodRuntimeState" where
  "recover_container pod c st =
     (if rtc_pod_uid c = ps_uid pod \<and> \<not> hm_contains_key (rtc_name c) (rt_container_ids st) then
        let keep = (case rtc_state c of
                      RRunning \<Rightarrow> True
                    | RExited \<Rightarrow> list_ex (\<lambda>ic. ctr_name ic = rtc_name c) (ps_init_containers pod)
                    | _ \<Rightarrow> False);
            recovered = sat_add (rtc_attempt c) 1;
            count = (case hm_get (rt_restart_counts st) (rtc_name c) of
                       Some v \<Rightarrow> if v < recovered then recovered else v
                     | None \<Rightarrow> recovered)
        in st\<lparr>rt_container_ids := (if keep then hm_insert (rtc_name c) (rtc_id c) (rt_container_ids st) else rt_container_ids st),
              rt_restart_counts := hm_insert (rtc_name c) count (rt_restart_counts st)\<rparr>
      else st)"

definition set_ips :: "NodeFacts \<Rightarrow> PodSpec \<Rightarrow> string option \<Rightarrow> PodLifecycleState \<Rightarrow> PodLifecycleState" where
  "set_ips n pod ip ls =
     ls\<lparr>ls_pod_ip := (if ps_host_network pod then Some (nf_ip n)
                      else case ip of Some x \<Rightarrow> if x \<noteq> [] then Some x else None | None \<Rightarrow> None),
        ls_host_ip := Some (nf_ip n)\<rparr>"

definition sandbox_step :: "Env \<Rightarrow> WorkerConfig \<Rightarrow> PodSpec \<Rightarrow> step" where
  "sandbox_step en cfg pod = do {
     st \<leftarrow> rt;
     if rt_sandbox_id st \<noteq> None then go_on
     else do {
       r \<leftarrow> create_sandbox en cfg pod;
       case r of
         Inr (i, ip) \<Rightarrow> do {
           set_rt (\<lambda>s. s\<lparr>rt_sandbox_id := Some i, rt_sandbox_ip := ip\<rparr>);
           l \<leftarrow> list_containers en;
           (case l of Inr cs \<Rightarrow> set_rt (fold (recover_container pod) cs) | Inl _ \<Rightarrow> ret ());
           n \<leftarrow> ask CNodeFacts (en_node_facts en);
           with_status (ps_uid pod) (set_ips n pod ip);
           tell (CWriteCheckpoint (ps_uid pod) i);
           go_on
         }
       | Inl e \<Rightarrow> do {
           with_status_at en (ps_uid pod) (\<lambda>t. pending_with (failure_condition ''SandboxCreationFailed'' (''Failed to create pod sandbox: '' @ error_to_string e) t));
           finish (NeedsRetry (''sandbox creation failed: '' @ error_to_string e))
         }
     }
   }"

subsection \<open>Probes and resizing\<close>

text \<open>The probe tasks of a running container; false when the startup probe has not passed yet.\<close>

definition arm_startup :: "Env \<Rightarrow> ContainerSpec \<Rightarrow> ContainerID \<Rightarrow> bool sync" where
  "arm_startup en c cid =
     (case ctr_startup_probe c of
        None \<Rightarrow> ret True
      | Some p \<Rightarrow> do {
          st \<leftarrow> rt;
          (if hm_get (rt_startup_probe_registered st) (ctr_name c) \<noteq> Some cid then do {
             tell (CSpawnStartupProbe cid p (case rt_sandbox_ip st of Some x \<Rightarrow> x | None \<Rightarrow> []));
             set_rt (\<lambda>s. s\<lparr>rt_startup_probe_registered := hm_insert (ctr_name c) cid (rt_startup_probe_registered s)\<rparr>)
           } else ret ());
          d \<leftarrow> ask (CReadStartupDone cid) (\<lambda>h. en_startup_done en h cid);
          ret (d = Some True)
        })"

definition arm_liveness :: "ContainerSpec \<Rightarrow> ContainerID \<Rightarrow> unit sync" where
  "arm_liveness c cid =
     (case ctr_liveness_probe c of
        None \<Rightarrow> ret ()
      | Some p \<Rightarrow> do {
          st \<leftarrow> rt;
          if hm_get (rt_probe_registered st) (ctr_name c) \<noteq> Some cid then do {
            tell (CSpawnLivenessProbe cid p (case rt_sandbox_ip st of Some x \<Rightarrow> x | None \<Rightarrow> []));
            set_rt (\<lambda>s. s\<lparr>rt_probe_registered := hm_insert (ctr_name c) cid (rt_probe_registered s)\<rparr>)
          } else ret ()
        })"

definition arm_readiness :: "ContainerSpec \<Rightarrow> ContainerID \<Rightarrow> unit sync" where
  "arm_readiness c cid =
     (case ctr_readiness_probe c of
        None \<Rightarrow> ret ()
      | Some p \<Rightarrow> do {
          st \<leftarrow> rt;
          if hm_get (rt_readiness_probe_registered st) (ctr_name c) \<noteq> Some cid then do {
            tell (CSpawnReadinessProbe cid p (case rt_sandbox_ip st of Some x \<Rightarrow> x | None \<Rightarrow> []));
            set_rt (\<lambda>s. s\<lparr>rt_readiness_probe_registered := hm_insert (ctr_name c) cid (rt_readiness_probe_registered s)\<rparr>)
          } else ret ()
        })"

text \<open>True when the startup probe has passed and the other probes are armed.\<close>

definition arm_probes :: "Env \<Rightarrow> ContainerSpec \<Rightarrow> ContainerID \<Rightarrow> bool sync" where
  "arm_probes en c cid = do {
     up \<leftarrow> arm_startup en c cid;
     if up then do { arm_liveness c cid; arm_readiness c cid; ret True } else ret False
   }"

definition amount :: "(string, ResourceQuantity) hmap \<Rightarrow> string \<Rightarrow> int" where
  "amount m r = (case quantity_of m r of Some v \<Rightarrow> v | None \<Rightarrow> 0)"

definition cpu_shares :: "int \<Rightarrow> int" where
  "cpu_shares cpu_req_millis = max 2 (min 262144 (trunc_div (cpu_req_millis * 1024) 1000))"

definition cpu_quota :: "int \<Rightarrow> int" where
  "cpu_quota cpu_lim_millis = (if 0 < cpu_lim_millis then cpu_lim_millis * 100 else -1)"

definition apply_container_resize_if_needed :: "Env \<Rightarrow> ContainerSpec \<Rightarrow> ContainerID \<Rightarrow> unit sync" where
  "apply_container_resize_if_needed en c cid = do {
     st \<leftarrow> rt;
     let req = amount (rr_requests (ctr_resources c)) ''cpu'';
     let lim = amount (rr_limits (ctr_resources c)) ''cpu'';
     let mem = amount (rr_limits (ctr_resources c)) ''memory'';
     if hm_get (rt_applied_resources st) (ctr_name c) = Some (req, lim, mem) then ret ()
     else do {
       r \<leftarrow> ask (CUpdateResources cid (cpu_shares req) (cpu_quota lim) 100000 mem) (\<lambda>h. en_update_resources en h cid);
       case r of
         Inl _ \<Rightarrow> ret ()
       | Inr _ \<Rightarrow> set_rt (\<lambda>s. s\<lparr>rt_applied_resources := hm_insert (ctr_name c) (req, lim, mem) (rt_applied_resources s)\<rparr>)
     }
   }"

subsection \<open>Init containers\<close>

definition report_status :: "PodUID \<Rightarrow> unit sync" where
  "report_status uid = do {
     cur \<leftarrow> get_status uid;
     case cur of Some ls \<Rightarrow> tell (CReportStatus uid ls) | None \<Rightarrow> ret ()
   }"

definition snapshot :: "Env \<Rightarrow> string \<Rightarrow> string \<Rightarrow> RuntimeContainer \<Rightarrow> unit sync" where
  "snapshot en name reason s = do {
     t1 \<leftarrow> or_now en (rtc_started_at s);
     t2 \<leftarrow> or_now en (rtc_finished_at s);
     set_rt (\<lambda>r. r\<lparr>rt_last_terminated_states :=
       hm_insert name (Terminated (exit_code_of s) reason None t1 t2) (rt_last_terminated_states r)\<rparr>)
   }"

definition crash_loop_wait :: "Env \<Rightarrow> WorkerConfig \<Rightarrow> PodSpec \<Rightarrow> string \<Rightarrow> nat \<Rightarrow> unit sync" where
  "crash_loop_wait en cfg pod name wait_secs = do {
     set_rt (\<lambda>r. r\<lparr>rt_crash_loop_backoff := List.insert name (rt_crash_loop_backoff r)\<rparr>);
     update_pod_status en cfg pod;
     report_status (ps_uid pod);
     sleep (wait_secs * 1000);
     set_rt (\<lambda>r. r\<lparr>rt_crash_loop_backoff := removeAll name (rt_crash_loop_backoff r)\<rparr>)
   }"

definition sandbox_gone :: step where
  "sandbox_gone = do {
     set_rt (\<lambda>r. r\<lparr>rt_sandbox_id := None, rt_container_ids := []\<rparr>);
     finish (NeedsRetry ''sandbox not found, will recreate'')
   }"

text \<open>What the sync does with an init container that has an id: skip it, leave the function, or (re)start it.\<close>

datatype verdict = Skip | Restart | Leave PodSyncResult

definition check_sidecar :: "Env \<Rightarrow> ContainerSpec \<Rightarrow> ContainerID \<Rightarrow> verdict sync" where
  "check_sidecar en c cid = do {
     r \<leftarrow> container_status en cid;
     case r of
       Inr (Some s) \<Rightarrow> if rtc_state s = RRunning then do { _ \<leftarrow> arm_probes en c cid; ret Skip } else ret Restart
     | _ \<Rightarrow> ret Restart
   }"

definition check_init :: "Env \<Rightarrow> WorkerConfig \<Rightarrow> PodSpec \<Rightarrow> ContainerSpec \<Rightarrow> ContainerID \<Rightarrow> verdict sync" where
  "check_init en cfg pod c cid = do {
     r \<leftarrow> container_status en cid;
     case r of
       Inr (Some s) \<Rightarrow>
         if rtc_state s = RExited \<and> rtc_exit_code s = Some 0 then ret Skip
         else if rtc_state s = RRunning then do {
           update_pod_status en cfg pod;
           ret (Leave (NeedsRetry ''init container still running''))
         }
         else if rtc_state s = RExited \<and> ps_restart_policy pod = Never then do {
           update_pod_status en cfg pod;
           st \<leftarrow> rt;
           terminate_pod en cfg pod st (ps_termination_grace_period_seconds pod);
           with_status (ps_uid pod) (\<lambda>ls. ls\<lparr>ls_phase := Failed\<rparr>);
           ret (Leave SyncTerminated)
         }
         else if rtc_state s = RExited then do { snapshot en (ctr_name c) ''Error'' s; ret Restart }
         else ret Restart
     | _ \<Rightarrow> ret Restart
   }"

definition check_existing :: "Env \<Rightarrow> WorkerConfig \<Rightarrow> PodSpec \<Rightarrow> ContainerSpec \<Rightarrow> verdict sync" where
  "check_existing en cfg pod c = do {
     st \<leftarrow> rt;
     case hm_get (rt_container_ids st) (ctr_name c) of
       None \<Rightarrow> ret Restart
     | Some cid \<Rightarrow> if is_sidecar_init_container c then check_sidecar en c cid else check_init en cfg pod c cid
   }"

definition init_backoff :: "Env \<Rightarrow> WorkerConfig \<Rightarrow> PodSpec \<Rightarrow> ContainerSpec \<Rightarrow> unit sync" where
  "init_backoff en cfg pod c = do {
     st \<leftarrow> rt;
     let restarts = count_of (rt_restart_counts st) (ctr_name c);
     let failures = count_of (rt_start_failure_backoff st) (ctr_name c);
     if 0 < restarts \<or> 0 < failures
     then crash_loop_wait en cfg pod (ctr_name c) (backoff_secs (max restarts failures))
     else ret ()
   }"

definition start_init :: "Env \<Rightarrow> WorkerConfig \<Rightarrow> PodSpec \<Rightarrow> string \<Rightarrow> ContainerSpec \<Rightarrow> step" where
  "start_init en cfg pod sandbox_id c = do {
     r \<leftarrow> start_container en cfg pod c sandbox_id;
     case r of
       StartPanic \<Rightarrow> ret (Some None)
     | Started \<Rightarrow> do {
         set_rt (\<lambda>s. s\<lparr>rt_start_failure_backoff := hm_remove (ctr_name c) (rt_start_failure_backoff s)\<rparr>);
         if is_sidecar_init_container c then go_on
         else do {
           update_pod_status en cfg pod;
           finish (NeedsRetry ''init container started, waiting for completion'')
         }
       }
     | StartError e \<Rightarrow>
         if is_sandbox_not_found_error e then sandbox_gone
         else do {
           set_rt (\<lambda>s. s\<lparr>rt_start_failure_backoff := bump (ctr_name c) (rt_start_failure_backoff s)\<rparr>);
           update_pod_status en cfg pod;
           finish (NeedsRetry (''init container failed: '' @ error_to_string e))
         }
   }"

definition init_step :: "Env \<Rightarrow> WorkerConfig \<Rightarrow> PodSpec \<Rightarrow> string \<Rightarrow> ContainerSpec \<Rightarrow> step" where
  "init_step en cfg pod sandbox_id c = do {
     v \<leftarrow> check_existing en cfg pod c;
     case v of
       Skip \<Rightarrow> go_on
     | Leave r \<Rightarrow> finish r
     | Restart \<Rightarrow> do { init_backoff en cfg pod c; start_init en cfg pod sandbox_id c }
   }"

definition mark_initialized :: "Env \<Rightarrow> PodSpec \<Rightarrow> unit sync" where
  "mark_initialized en pod =
     (if ps_init_containers pod = [] then ret ()
      else do {
        cur \<leftarrow> get_status (ps_uid pod);
        case cur of
          None \<Rightarrow> ret ()
        | Some ls \<Rightarrow>
            (case find (\<lambda>c. pc_condition_type c = Initialized) (ls_conditions ls) of
               None \<Rightarrow> ret ()
             | Some c \<Rightarrow>
                 if pc_status c \<noteq> CTrue then do {
                   t \<leftarrow> now en;
                   put_status (ps_uid pod) (ls\<lparr>ls_conditions :=
                     update_first (\<lambda>c. pc_condition_type c = Initialized) (\<lambda>c. c\<lparr>pc_status := CTrue, pc_last_transition_time := Some t\<rparr>) (ls_conditions ls)\<rparr>)
                 } else ret ())
      })"

subsection \<open>App and ephemeral containers\<close>

definition check_app :: "Env \<Rightarrow> WorkerConfig \<Rightarrow> PodSpec \<Rightarrow> ContainerSpec \<Rightarrow> verdict sync" where
  "check_app en cfg pod c = do {
     st \<leftarrow> rt;
     case hm_get (rt_container_ids st) (ctr_name c) of
       None \<Rightarrow> ret Restart
     | Some cid \<Rightarrow> do {
         r \<leftarrow> container_status en cid;
         case r of
           Inr (Some s) \<Rightarrow>
             if rtc_state s = RRunning then do {
               up \<leftarrow> arm_probes en c cid;
               if up then do { apply_container_resize_if_needed en c cid; ret Skip } else ret Skip
             }
             else if rtc_state s = RExited then do {
               snapshot en (ctr_name c) (exit_reason (exit_code_of s)) s;
               (case container_restart_policy c (ps_restart_policy pod) of
                  Never \<Rightarrow> ret Skip
                | OnFailure \<Rightarrow>
                    if exit_code_of s = 0 then ret Skip
                    else do { crash_loop_wait en cfg pod (ctr_name c) (backoff_secs (count_of (rt_restart_counts st) (ctr_name c))); ret Restart }
                | Always \<Rightarrow> do { crash_loop_wait en cfg pod (ctr_name c) (backoff_secs (count_of (rt_restart_counts st) (ctr_name c))); ret Restart })
             }
             else ret Restart
         | _ \<Rightarrow> ret Restart
       }
   }"

definition start_app :: "Env \<Rightarrow> WorkerConfig \<Rightarrow> PodSpec \<Rightarrow> string \<Rightarrow> ContainerSpec \<Rightarrow> step" where
  "start_app en cfg pod sandbox_id c = do {
     st \<leftarrow> rt;
     if hm_contains_key (ctr_name c) (rt_container_config_errors st) then go_on
     else do {
       let failures = count_of (rt_start_failure_backoff st) (ctr_name c);
       (if 0 < failures then sleep (backoff_secs failures * 1000) else ret ());
       r \<leftarrow> start_container en cfg pod c sandbox_id;
       case r of
         StartPanic \<Rightarrow> ret (Some None)
       | StartError e \<Rightarrow>
           if is_sandbox_not_found_error e then sandbox_gone
           else do {
             set_rt (\<lambda>s. s\<lparr>rt_start_failure_backoff := bump (ctr_name c) (rt_start_failure_backoff s)\<rparr>);
             go_on
           }
       | Started \<Rightarrow> do {
           set_rt (\<lambda>s. s\<lparr>rt_start_failure_backoff := hm_remove (ctr_name c) (rt_start_failure_backoff s)\<rparr>);
           go_on
         }
     }
   }"

definition app_step :: "Env \<Rightarrow> WorkerConfig \<Rightarrow> PodSpec \<Rightarrow> string \<Rightarrow> ContainerSpec \<Rightarrow> step" where
  "app_step en cfg pod sandbox_id c = do {
     v \<leftarrow> check_app en cfg pod c;
     case v of
       Skip \<Rightarrow> go_on
     | Leave r \<Rightarrow> finish r
     | Restart \<Rightarrow> start_app en cfg pod sandbox_id c
   }"

fun all_exited :: "Env \<Rightarrow> ContainerSpec list \<Rightarrow> bool sync" where
  "all_exited en [] = ret True"
| "all_exited en (c # cs) = do {
     st \<leftarrow> rt;
     case hm_get (rt_container_ids st) (ctr_name c) of
       None \<Rightarrow> ret False
     | Some cid \<Rightarrow> do {
         r \<leftarrow> container_status en cid;
         case r of
           Inr (Some s) \<Rightarrow> if rtc_state s \<noteq> RExited then ret False else all_exited en cs
         | _ \<Rightarrow> ret False
       }
   }"

definition all_app_containers_terminated :: "Env \<Rightarrow> PodSpec \<Rightarrow> bool sync" where
  "all_app_containers_terminated en pod =
     (if ps_containers pod = [] then ret False else all_exited en (ps_containers pod))"

definition stop_sidecar_init_containers :: "Env \<Rightarrow> PodSpec \<Rightarrow> unit sync" where
  "stop_sidecar_init_containers en pod =
     for_each (\<lambda>c. do {
       st \<leftarrow> rt;
       case hm_get (rt_container_ids st) (ctr_name c) of
         None \<Rightarrow> ret ()
       | Some cid \<Rightarrow> do { _ \<leftarrow> stop_container en cid (ps_termination_grace_period_seconds pod); ret () }
     }) (filter is_sidecar_init_container (ps_init_containers pod))"

definition ephemeral_step :: "Env \<Rightarrow> WorkerConfig \<Rightarrow> PodSpec \<Rightarrow> string \<Rightarrow> ContainerSpec \<Rightarrow> step" where
  "ephemeral_step en cfg pod sandbox_id c = do {
     st \<leftarrow> rt;
     if hm_contains_key (ctr_name c) (rt_container_ids st) then go_on
     else do {
       r \<leftarrow> start_container en cfg pod c sandbox_id;
       ret (case r of StartPanic \<Rightarrow> Some None | _ \<Rightarrow> None)
     }
   }"

subsection \<open>The whole sync\<close>

definition and_then :: "step \<Rightarrow> step \<Rightarrow> step" where
  "and_then a b = do { r \<leftarrow> a; case r of Some x \<Rightarrow> ret (Some x) | None \<Rightarrow> b }"

definition cgroup_step :: "WorkerConfig \<Rightarrow> PodSpec \<Rightarrow> step" where
  "cgroup_step cfg pod = do {
     tell (CCreateCgroup (ps_uid pod) (compute_qos_class pod) (calculate_pod_memory_requests pod)
       (runtime_overhead_memory_bytes pod (wc_runtime_overheads cfg)));
     go_on
   }"

definition apps_step :: "Env \<Rightarrow> WorkerConfig \<Rightarrow> PodSpec \<Rightarrow> string \<Rightarrow> step" where
  "apps_step en cfg pod sandbox_id =
     and_then (do { mark_initialized en pod; go_on })
    (and_then (for_until (app_step en cfg pod sandbox_id) (ps_containers pod))
    (and_then (do {
        fin \<leftarrow> all_app_containers_terminated en pod;
        (if fin then stop_sidecar_init_containers en pod else ret ());
        go_on
      })
    (and_then (for_until (ephemeral_step en cfg pod sandbox_id) (ps_ephemeral_containers pod))
      (do { update_pod_status en cfg pod; finish Synced }))))"

definition containers_step :: "Env \<Rightarrow> WorkerConfig \<Rightarrow> PodSpec \<Rightarrow> step" where
  "containers_step en cfg pod = do {
     st \<leftarrow> rt;
     let sandbox_id = the (rt_sandbox_id st);
     and_then (for_until (init_step en cfg pod sandbox_id) (ps_init_containers pod)) (apps_step en cfg pod sandbox_id)
   }"

definition setup_step :: "Env \<Rightarrow> WorkerConfig \<Rightarrow> PodSpec \<Rightarrow> step" where
  "setup_step en cfg pod =
     and_then (deadline_step en cfg pod)
    (and_then (cgroup_step cfg pod)
    (and_then (volume_step en cfg pod)
    (and_then (for_until (image_step en pod) (ps_containers pod @ ps_init_containers pod))
      (sandbox_step en cfg pod))))"

definition sync_pod :: "Env \<Rightarrow> WorkerConfig \<Rightarrow> PodSpec \<Rightarrow> step" where
  "sync_pod en cfg pod =
     (case validate_pod pod of
        Inl e \<Rightarrow> finish (SyncFailed (''Validation failed: '' @ error_to_string e))
      | Inr _ \<Rightarrow> and_then (setup_step en cfg pod) (containers_step en cfg pod))"

end
