(* ===== verification/Sync_Calls.thy ===== *)
theory Sync_Calls
  imports Pod_Sync "HOL-Library.Sublist"
begin

section \<open>What a sync asks of the outside world\<close>

text \<open>
  Facts about the calls a sync makes, for every environment. The locale below fixes a property of calls that all but the
  creation of containers and long sleeps have; its lemmas say which definitions make only such calls. It is interpreted
  once for the containers a step may create and once for the length of its sleeps.
\<close>

definition adds :: "(Call \<Rightarrow> bool) \<Rightarrow> Sync \<Rightarrow> Sync \<Rightarrow> bool" where
  "adds P s s' \<longleftrightarrow> (\<exists>cs. sy_calls s' = cs @ sy_calls s \<and> list_all P cs)"

lemma adds_refl: "adds P s s"
  by (simp add: adds_def)

lemma adds_trans: "adds P s t \<Longrightarrow> adds P t u \<Longrightarrow> adds P s u"
  by (auto simp: adds_def)

lemma adds_mono: "adds P s t \<Longrightarrow> (\<And>c. P c \<Longrightarrow> Q c) \<Longrightarrow> adds Q s t"
  by (auto simp: adds_def list_all_iff)

lemma adds_suffix: "adds P s t \<Longrightarrow> suffix (sy_calls s) (sy_calls t)"
  by (auto simp: adds_def suffix_def)

definition creates_or_sleeps :: "Call \<Rightarrow> bool" where
  "creates_or_sleeps c \<longleftrightarrow> (case c of CCreateContainer _ \<Rightarrow> True | CSleep _ \<Rightarrow> True | _ \<Rightarrow> False)"

definition MAX_SLEEP :: nat where
  "MAX_SLEEP = 300000"

text \<open>The relation between states that the lemmas are about: it allows every call that neither creates a container nor
  sleeps, short sleeps, changes of the status manager, and changes of the runtime state that keep the sandbox and
  the recorded containers.\<close>

locale sync_rel = io_preorder R for R +
  assumes R_call: "\<not> creates_or_sleeps c \<Longrightarrow> R s (s\<lparr>sy_calls := c # sy_calls s\<rparr>)"
    and R_sleep: "n \<le> MAX_SLEEP \<Longrightarrow> R s (s\<lparr>sy_calls := CSleep n # sy_calls s\<rparr>)"
    and R_status: "R s (s\<lparr>sy_status := x\<rparr>)"
    and R_frame: "rt_container_ids r = rt_container_ids (sy_rt s) \<Longrightarrow> rt_sandbox_id r = rt_sandbox_id (sy_rt s) \<Longrightarrow> R s (s\<lparr>sy_rt := r\<rparr>)"
begin

lemma ask: "\<not> creates_or_sleeps c \<Longrightarrow> ok (ask c k)" and tell: "\<not> creates_or_sleeps c \<Longrightarrow> ok (tell c)"
  by (rule ok_ask ok_tell, erule R_call)+

lemma get_status: "ok (get_status u)" and put_status: "ok (put_status u ls)"
  by (simp_all add: state_io_rel_def R_refl R_status)

lemma set_rt: "(\<And>r. rt_container_ids (f r) = rt_container_ids r \<and> rt_sandbox_id (f r) = rt_sandbox_id r) \<Longrightarrow> ok (set_rt f)"
  by (simp add: state_io_rel_def R_frame)

lemma sleep: "n \<le> MAX_SLEEP \<Longrightarrow> ok (sleep n)"
  unfolding sleep_def by (rule ok_tell) (rule R_sleep)

lemmas basic = ok_ret ok_gets ok_bind ask tell set_rt get_status put_status sleep ok_for_each ok_map_each ok_for_until

lemma ports:
  "ok (now en)" "ok (or_now en t)" "ok (container_status en i)" "ok (list_containers en)" "ok (start_container_call en i)"
  "ok (stop_container en i g)" "ok (remove_container_call en i)" "ok (run_pod_sandbox en c)" "ok (stop_pod_sandbox en i)"
  "ok (remove_pod_sandbox en i)" "ok (pod_sandbox_status en i)" "ok (list_pod_sandboxes en)" "ok (read_file en p)"
  by (auto simp: port_defs or_now_def read_file_def creates_or_sleeps_def intro!: basic split: option.split)

lemma observes: "observes s s' \<Longrightarrow> R s s'"
proof -
  have c: "R s (s\<lparr>sy_calls := cs @ sy_calls s\<rparr>)" if "list_all is_observation cs" for s cs
    using that
  proof (induction cs)
    case (Cons c cs)
    have "\<not> creates_or_sleeps c" using Cons.prems by (cases c) (simp_all add: creates_or_sleeps_def)
    from R_trans [OF Cons.IH R_call [OF this]] Cons.prems show ?case by simp
  qed (simp add: R_refl)
  assume "observes s s'"
  then obtain cs where cs: "sy_calls s' = cs @ sy_calls s" "list_all is_observation cs" "sy_status s' = sy_status s" "sy_rt s' = sy_rt s"
    by (auto simp: observes_def)
  then have "s' = s\<lparr>sy_calls := cs @ sy_calls s\<rparr>" by (cases s; cases s') simp
  with c [OF cs(2)] show "R s s'" by simp
qed

lemma obs: "obs.ok m \<Longrightarrow> ok m"
  by (auto simp: state_io_rel_def observes)

lemma update_pod_status: "ok (update_pod_status en cfg pod)"
  unfolding update_pod_status_def Let_def
  by (intro basic obs [OF obs_init_statuses] obs [OF obs_app_status] obs [OF obs_ephemeral_status] ports) 

lemma image_status_attempts: "ok (image_status_attempts en img k)"
  by (induction k) (auto simp: creates_or_sleeps_def MAX_SLEEP_def intro!: basic split: sum.split option.split)

lemma pull_attempts: "ok (pull_attempts en img secrets k)"
  by (induction k) (auto simp: creates_or_sleeps_def MAX_SLEEP_def intro!: basic split: sum.split)

lemma ensure_image: "ok (ensure_image en img)"
  unfolding ensure_image_def
  by (auto simp: creates_or_sleeps_def intro!: basic image_status_attempts pull_attempts split: sum.split option.split)

lemma worker_device_resources: "ok (worker_device_resources en pod c)"
proof -
  have "ok (allocate_loop en pod name limits x)" for name limits x
    by (induction en pod name limits x rule: allocate_loop.induct)
      (auto simp: creates_or_sleeps_def intro!: basic split: option.split)
  then show ?thesis by (simp add: worker_device_resources_def)
qed

lemma cleanup_sandbox: "ok (cleanup_sandbox en i)"
  unfolding cleanup_sandbox_def by (intro basic ports)

lemma cleanup_stale: "ok (cleanup_stale_sandboxes_for_pod en cfg pod)"
  unfolding cleanup_stale_sandboxes_for_pod_def by (auto intro!: basic ports cleanup_sandbox split: sum.split)

lemma sandbox_ip_of: "ok (sandbox_ip_of en i)"
  unfolding sandbox_ip_of_def by (intro basic ports)

lemma recover_existing_sandbox: "ok (recover_existing_sandbox en cfg pod)"
  unfolding recover_existing_sandbox_def recover_step_def
  by (auto intro!: basic ports cleanup_sandbox sandbox_ip_of split: sum.split)

lemma create_sandbox: "ok (create_sandbox en cfg pod)"
  unfolding create_sandbox_def run_sandbox_def sandbox_config_def
  by (auto simp: creates_or_sleeps_def intro!: basic ports cleanup_stale ensure_image recover_existing_sandbox sandbox_ip_of
      split: sum.split option.split prod.split)

lemma cleanup_container_by_id: "ok (cleanup_container_by_id en i)"
  unfolding cleanup_container_by_id_def by (intro basic ports)

lemma cleanup_reserved: "ok (cleanup_reserved_container_name en pod c)"
  unfolding cleanup_reserved_container_name_def by (auto intro!: basic ports split: sum.split)

lemma resolve_mounts: "ok (resolve_mounts ctr mounted env vms acc)"
  by (induction vms arbitrary: acc)
    (auto simp: mount_source_def creates_or_sleeps_def intro!: basic split: option.split sum.split)

lemma add_hosts_mount: "ok (add_hosts_mount en cfg pod ip vms)"
  unfolding add_hosts_mount_def write_etc_hosts_file_def Let_def
  by (auto simp: creates_or_sleeps_def intro!: basic ports)

lemma add_termination_mount: "ok (add_termination_mount en cfg pod c vms)"
  unfolding add_termination_mount_def Let_def
  by (auto simp: creates_or_sleeps_def intro!: basic split: FileKind.split)

lemma prepare: "ok (prepare en cfg pod c sid img env vms)"
  unfolding prepare_def Let_def
  by (auto intro!: basic add_hosts_mount add_termination_mount worker_device_resources split: option.split)

lemma bind_result: "ok m \<Longrightarrow> (\<And>s a s'. run_state m s = (a, s') \<Longrightarrow> ok (f a)) \<Longrightarrow> ok (State_Monad.bind m f)"
  unfolding state_io_rel_def by (auto split: prod.split intro: R_trans)

lemma create_with_retry:
  assumes "\<And>s. R s (s\<lparr>sy_calls := CCreateContainer config # sy_calls s\<rparr>)"
  shows "ok (create_with_retry en pod c config)"
  unfolding create_with_retry_def create_container_def
  by (auto intro!: basic ok_ask assms cleanup_container_by_id cleanup_reserved split: sum.split option.split)

lemma apply_oom_score: "ok (apply_oom_score en pod cid)"
  unfolding apply_oom_score_def by (auto simp: creates_or_sleeps_def intro!: basic ports split: sum.split option.split)

lemma set_ids:
  assumes "\<And>s r. (\<And>k. k \<noteq> name \<Longrightarrow> hm_get (rt_container_ids r) k = hm_get (rt_container_ids (sy_rt s)) k) \<Longrightarrow>
      rt_sandbox_id r = rt_sandbox_id (sy_rt s) \<Longrightarrow> R s (s\<lparr>sy_rt := r\<rparr>)"
    "\<And>k r. k \<noteq> name \<Longrightarrow> hm_get (rt_container_ids (f r)) k = hm_get (rt_container_ids r) k" "\<And>r. rt_sandbox_id (f r) = rt_sandbox_id r"
  shows "ok (set_rt f)"
  using assms by (simp add: state_io_rel_def)

lemma launch:
  assumes creating: "\<And>s. R s (s\<lparr>sy_calls := CCreateContainer config # sy_calls s\<rparr>)"
    and ids: "\<And>s r. (\<And>k. k \<noteq> ctr_name c \<Longrightarrow> hm_get (rt_container_ids r) k = hm_get (rt_container_ids (sy_rt s)) k) \<Longrightarrow>
      rt_sandbox_id r = rt_sandbox_id (sy_rt s) \<Longrightarrow> R s (s\<lparr>sy_rt := r\<rparr>)"
  shows "ok (launch en pod c config attempt)"
proof -
  have "ok (remove_previous en (ctr_name c))" unfolding remove_previous_def
    by (auto simp: creates_or_sleeps_def intro!: ok_bind ok_ret ok_gets tell ports set_ids [OF ids] split: option.split)
  moreover have "ok (record_started en (ctr_name c) cid)" for cid unfolding record_started_def
    by (auto intro!: ok_bind ports set_ids [OF ids])
  ultimately show ?thesis unfolding launch_def
    by (auto simp: creates_or_sleeps_def intro!: basic ports create_with_retry creating apply_oom_score
        split: sum.split option.split)
qed

end

lemma prepare_name:
  assumes "run_state (prepare en cfg pod c sid img env vms) s = (Some (config, attempt), s')"
  shows "ctr_name (cc_container config) = ctr_name c" "attempt = restart_count_of (sy_rt s) (ctr_name c)"
  using assms
  by (auto simp: prepare_def container_config_def Let_def split: prod.splits option.splits)

context sync_rel
begin

lemma start_container:
  assumes creating: "\<And>s config. ctr_name (cc_container config) = ctr_name c \<Longrightarrow> R s (s\<lparr>sy_calls := CCreateContainer config # sy_calls s\<rparr>)"
    and ids: "\<And>s r. (\<And>k. k \<noteq> ctr_name c \<Longrightarrow> hm_get (rt_container_ids r) k = hm_get (rt_container_ids (sy_rt s)) k) \<Longrightarrow>
      rt_sandbox_id r = rt_sandbox_id (sy_rt s) \<Longrightarrow> R s (s\<lparr>sy_rt := r\<rparr>)"
  shows "ok (start_container en cfg pod c sid)"
proof -
  have "ok (State_Monad.bind (prepare en cfg pod c sid img env vms)
      (\<lambda>p. case p of None \<Rightarrow> ret StartPanic | Some (config, attempt) \<Rightarrow> launch en pod c config attempt))" for img env vms
    by (rule bind_result [OF prepare]) (auto intro!: ok_ret launch creating ids dest: prepare_name split: option.split)
  then show ?thesis unfolding start_container_def
    by (auto simp: creates_or_sleeps_def intro!: basic ensure_image resolve_mounts split: sum.split option.split mounts.split)
qed

lemma remove_attempts: "ok (remove_attempts en cid k)"
  by (induction k) (auto simp: MAX_SLEEP_def intro!: basic ports split: sum.split)

lemma terminate_pod: "ok (terminate_pod en cfg pod st grace)"
  unfolding terminate_pod_def stop_for_termination_def remove_sandbox_of_def unmount_pod_volumes_def Let_def
  by (auto simp: creates_or_sleeps_def MAX_SLEEP_def intro!: basic ports remove_attempts split: prod.split option.split sum.split)

lemma with_status: "ok (with_status u f)" and with_status_at: "ok (with_status_at en u g)"
  unfolding with_status_def with_status_at_def by (auto intro!: basic ports split: option.split)

lemma and_then: "ok a \<Longrightarrow> ok b \<Longrightarrow> ok (and_then a b)"
  unfolding and_then_def by (auto intro!: basic split: option.split)

lemma finish: "ok (finish r)"
  unfolding finish_def by (rule ok_ret)

lemma backoff_sleep: "backoff_secs n * 1000 \<le> MAX_SLEEP"
  by (simp add: backoff_secs_def MAX_SLEEP_def)

lemma early_steps:
  "ok (deadline_step en cfg pod)" "ok (cgroup_step cfg pod)" "ok (volume_step en cfg pod)" "ok (image_step en pod k)"
  unfolding deadline_step_def cgroup_step_def volume_step_def image_step_def Let_def
  by (auto simp: creates_or_sleeps_def intro!: basic ports backoff_sleep ensure_image terminate_pod with_status_at finish
      split: option.split sum.split)

lemma probes: "ok (arm_probes en c cid)" "ok (apply_container_resize_if_needed en c cid)"
  unfolding arm_probes_def arm_startup_def arm_liveness_def arm_readiness_def apply_container_resize_if_needed_def Let_def
  by (auto simp: creates_or_sleeps_def intro!: basic split: option.split sum.split)

lemma snapshot: "ok (snapshot en name reason x)" and report_status: "ok (report_status u)"
  unfolding snapshot_def report_status_def by (auto simp: creates_or_sleeps_def intro!: basic ports split: option.split)

lemma crash_loop_wait: "n * 1000 \<le> MAX_SLEEP \<Longrightarrow> ok (crash_loop_wait en cfg pod name n)"
  unfolding crash_loop_wait_def by (auto intro!: basic update_pod_status report_status)

lemma check_existing: "ok (check_existing en cfg pod c)"
  unfolding check_existing_def check_sidecar_def check_init_def
  by (auto intro!: basic ports probes update_pod_status terminate_pod with_status snapshot split: option.split sum.split)

lemma init_backoff: "ok (init_backoff en cfg pod c)"
  unfolding init_backoff_def Let_def by (auto intro!: basic crash_loop_wait backoff_sleep)

lemma check_app: "ok (check_app en cfg pod c)"
  unfolding check_app_def
  by (auto intro!: basic ports probes snapshot crash_loop_wait backoff_sleep split: option.split sum.split RestartPolicy.split)

lemma mark_initialized: "ok (mark_initialized en pod)"
  unfolding mark_initialized_def by (auto intro!: basic ports split: option.split)

lemma all_app_containers_terminated: "ok (all_app_containers_terminated en pod)"
proof -
  have "ok (all_exited en cs)" for cs
    by (induction cs) (auto intro!: basic ports split: option.split sum.split)
  then show ?thesis unfolding all_app_containers_terminated_def by (auto intro!: basic)
qed

lemma stop_sidecar_init_containers: "ok (stop_sidecar_init_containers en pod)"
  unfolding stop_sidecar_init_containers_def by (auto intro!: basic ports split: option.split)

end

text \<open>For a relation that allows every change of the runtime state, the whole sync.\<close>

locale sync_rel_any = sync_rel R for R +
  assumes R_rt: "R s (s\<lparr>sy_rt := r\<rparr>)"
begin

lemma any_rt: "ok (set_rt f)"
  by (simp add: state_io_rel_def R_rt)

lemma started_any:
  assumes "\<And>s config. ctr_name (cc_container config) = ctr_name c \<Longrightarrow> R s (s\<lparr>sy_calls := CCreateContainer config # sy_calls s\<rparr>)"
  shows "ok (start_container en cfg pod c sid)"
  using assms R_rt by (rule start_container)

lemma sandbox_gone: "ok sandbox_gone"
  unfolding sandbox_gone_def by (auto intro!: ok_bind any_rt finish)

lemma setup_step: "ok (setup_step en cfg pod)"
proof -
  have "ok (sandbox_step en cfg pod)" unfolding sandbox_step_def
    by (auto simp: creates_or_sleeps_def intro!: ok_bind any_rt ok_ret ok_gets ask tell ports create_sandbox with_status with_status_at finish
        split: sum.split prod.split)
  then show ?thesis unfolding setup_step_def by (intro and_then early_steps ok_for_until)
qed

lemma init_step:
  assumes "\<And>s config. ctr_name (cc_container config) = ctr_name c \<Longrightarrow> R s (s\<lparr>sy_calls := CCreateContainer config # sy_calls s\<rparr>)"
  shows "ok (init_step en cfg pod sid c)"
proof -
  have "ok (start_init en cfg pod sid c)" unfolding start_init_def
    by (auto intro!: ok_bind any_rt ok_ret started_any assms update_pod_status finish sandbox_gone split: started.split)
  then show ?thesis unfolding init_step_def
    by (auto intro!: ok_bind ok_ret check_existing init_backoff finish split: verdict.split)
qed

lemma app_step:
  assumes "\<And>s config. ctr_name (cc_container config) = ctr_name c \<Longrightarrow> R s (s\<lparr>sy_calls := CCreateContainer config # sy_calls s\<rparr>)"
  shows "ok (app_step en cfg pod sid c)"
proof -
  have "ok (start_app en cfg pod sid c)" unfolding start_app_def Let_def
    by (auto intro!: ok_bind any_rt ok_ret ok_gets sleep started_any assms backoff_sleep finish sandbox_gone split: started.split)
  then show ?thesis unfolding app_step_def by (auto intro!: ok_bind ok_ret check_app finish split: verdict.split)
qed

lemma ephemeral_step:
  assumes "\<And>s config. ctr_name (cc_container config) = ctr_name c \<Longrightarrow> R s (s\<lparr>sy_calls := CCreateContainer config # sy_calls s\<rparr>)"
  shows "ok (ephemeral_step en cfg pod sid c)"
  unfolding ephemeral_step_def by (auto intro!: ok_bind ok_ret ok_gets started_any assms)

lemma apps_step:
  assumes "\<And>s config. ctr_name (cc_container config) \<in> ctr_name ` set (ps_containers pod @ ps_ephemeral_containers pod) \<Longrightarrow>
    R s (s\<lparr>sy_calls := CCreateContainer config # sy_calls s\<rparr>)"
  shows "ok (apps_step en cfg pod sid)"
  unfolding apps_step_def
  by (auto intro!: and_then basic mark_initialized app_step ephemeral_step assms all_app_containers_terminated
      stop_sidecar_init_containers update_pod_status finish)

lemma sync_pod:
  assumes "\<And>s config. R s (s\<lparr>sy_calls := CCreateContainer config # sy_calls s\<rparr>)"
  shows "ok (sync_pod en cfg pod)"
  unfolding sync_pod_def containers_step_def Let_def
  by (auto intro!: and_then basic setup_step init_step apps_step assms finish split: sum.split)

end

text \<open>Properties of the calls made.\<close>

locale call_pred =
  fixes P :: "Call \<Rightarrow> bool"
  assumes P_other: "\<not> creates_or_sleeps c \<Longrightarrow> P c"
    and P_sleep: "n \<le> MAX_SLEEP \<Longrightarrow> P (CSleep n)"

lemma adds_call: "P c \<Longrightarrow> adds P s (s\<lparr>sy_calls := c # sy_calls s\<rparr>)"
  by (simp add: adds_def exI [of _ "[c]"])

sublocale call_pred \<subseteq> sync_rel_any "adds P"
  by unfold_locales (auto intro: adds_refl adds_trans adds_call P_other P_sleep simp: adds_def)

subsection \<open>Sleeps are bounded\<close>

definition short_sleep :: "Call \<Rightarrow> bool" where
  "short_sleep c \<longleftrightarrow> (case c of CSleep n \<Rightarrow> n \<le> MAX_SLEEP | _ \<Rightarrow> True)"

interpretation sleeps: call_pred short_sleep
  by unfold_locales (auto simp: short_sleep_def creates_or_sleeps_def split: Call.splits)

lemma backoff_secs_doubles:
  assumes "0 < n"
  shows "backoff_secs n = min (10 * 2 ^ (unat n - 1)) 300"
proof -
  let ?k = "unat n - 1"
  have e: "unat (min (sat_sub n 1) 5) = min ?k 5"
    by (simp add: min_def word_le_nat_alt)
  show ?thesis
  proof (cases "?k \<le> 5")
    case True
    then show ?thesis by (simp add: backoff_secs_def e mult.commute)
  next
    case False
    then have "(2 :: nat) ^ 5 \<le> 2 ^ ?k" by (intro power_increasing) simp_all
    with False show ?thesis by (simp add: backoff_secs_def e)
  qed
qed

text \<open>Back-off. Whatever the environment answers, a sync never sleeps longer than five minutes at a time, and the wait
  after the n-th failure is ten seconds doubled n - 1 times, up to that limit.\<close>

theorem sync_backoff_bounded:
  assumes "run_state (sync_pod en cfg pod) s = (r, s')"
  shows "(\<exists>cs. sy_calls s' = cs @ sy_calls s \<and> (\<forall>ms. CSleep ms \<in> set cs \<longrightarrow> ms \<le> 300000)) \<and>
    (\<forall>n. 0 < n \<longrightarrow> backoff_secs n = min (10 * 2 ^ (unat n - 1)) 300)"
proof -
  have "adds short_sleep s s'"
    using sleeps.sync_pod [OF adds_call, of en cfg pod] assms by (auto simp: short_sleep_def dest: state_io_relD)
  then show ?thesis
    using backoff_secs_doubles by (force simp: adds_def list_all_iff short_sleep_def MAX_SLEEP_def)
qed

theorem sync_backoff_bounded_witness:
  "(\<exists>cs. sy_calls (snd (run_state (sync_pod failing_env demo_config demo_worker_pod) fresh_sync)) = cs @ sy_calls fresh_sync \<and>
     (\<forall>ms. CSleep ms \<in> set cs \<longrightarrow> ms \<le> 300000)) \<and> backoff_secs 3 = 40"
proof -
  obtain r s' where "run_state (sync_pod failing_env demo_config demo_worker_pod) fresh_sync = (r, s')" by fastforce
  with sync_backoff_bounded [OF this] show ?thesis by simp
qed

end
