(* ===== verification/Mock_Runtime.thy ===== *)
theory Mock_Runtime
  imports Pod_Status
begin

section \<open>The in-memory runtime\<close>

text \<open>
  \<^verbatim>\<open>mock_runtime/mod.rs\<close>, the repository's own implementation of the runtime and image ports, and the environment it
  gives the pod worker: its state after a history is the fold of the operations of that history. Identifiers, which the
  code draws at random, and the clock are functions of the history.
\<close>

record MockRuntime =
  mr_sandboxes :: "(string, SandboxStatus) hmap"
  mr_containers :: "(string, RuntimeContainer) hmap"
  mr_images :: "(string, ImageInfo) hmap"
  mr_fail_on_start :: bool
  mr_start_calls :: nat
  mr_stop_calls :: nat
  mr_create_sandbox_calls :: nat
  mr_fail_on_pull_image :: bool
  mr_exit_on_start :: "int option"

definition MockRuntime_new :: MockRuntime where
  "MockRuntime_new =
     \<lparr>mr_sandboxes = [], mr_containers = [], mr_images = [], mr_fail_on_start = False, mr_start_calls = 0, mr_stop_calls = 0,
      mr_create_sandbox_calls = 0, mr_fail_on_pull_image = False, mr_exit_on_start = None\<rparr>"

definition MockRuntime_new_failing :: MockRuntime where
  "MockRuntime_new_failing = MockRuntime_new\<lparr>mr_fail_on_pull_image := True\<rparr>"

definition set_fail_on_start :: "bool \<Rightarrow> MockRuntime \<Rightarrow> MockRuntime" where
  "set_fail_on_start fail m = m\<lparr>mr_fail_on_start := fail\<rparr>"

definition set_exit_on_start :: "int option \<Rightarrow> MockRuntime \<Rightarrow> MockRuntime" where
  "set_exit_on_start code m = m\<lparr>mr_exit_on_start := code\<rparr>"

definition container_count :: "MockRuntime \<Rightarrow> nat" where
  "container_count m = length (mr_containers m)"

definition sandbox_count :: "MockRuntime \<Rightarrow> nat" where
  "sandbox_count m = length (mr_sandboxes m)"

subsection \<open>Operations\<close>

definition mock_run_pod_sandbox :: "string \<Rightarrow> timestamp \<Rightarrow> CreateSandboxConfig \<Rightarrow> MockRuntime \<Rightarrow> string result \<times> MockRuntime" where
  "mock_run_pod_sandbox i t config m =
     (Inr i, m\<lparr>mr_create_sandbox_calls := mr_create_sandbox_calls m + 1,
        mr_sandboxes := hm_insert i
          \<lparr>sbs_id = i, sbs_pod_uid = sb_pod_uid config, sbs_pod_name = sb_pod_name config, sbs_pod_namespace = sb_pod_namespace config,
           sbs_state = SReady, sbs_created_at = t, sbs_network = Some \<lparr>sns_ip = ''10.0.0.1'', sns_additional_ips = []\<rparr>,
           sbs_labels = sb_labels config\<rparr> (mr_sandboxes m)\<rparr>)"

definition mock_stop_pod_sandbox :: "string \<Rightarrow> MockRuntime \<Rightarrow> unit result \<times> MockRuntime" where
  "mock_stop_pod_sandbox i m = (Inr (), m\<lparr>mr_sandboxes := hm_modify i (\<lambda>s. s\<lparr>sbs_state := SNotReady\<rparr>) (mr_sandboxes m)\<rparr>)"

definition mock_remove_pod_sandbox :: "string \<Rightarrow> MockRuntime \<Rightarrow> unit result \<times> MockRuntime" where
  "mock_remove_pod_sandbox i m = (Inr (), m\<lparr>mr_sandboxes := hm_remove i (mr_sandboxes m)\<rparr>)"

definition mock_pod_sandbox_status :: "string \<Rightarrow> MockRuntime \<Rightarrow> SandboxStatus option result" where
  "mock_pod_sandbox_status i m = Inr (hm_get (mr_sandboxes m) i)"

definition mock_list_pod_sandboxes :: "MockRuntime \<Rightarrow> SandboxStatus list result" where
  "mock_list_pod_sandboxes m = Inr (hm_values (mr_sandboxes m))"

definition mock_create_container :: "string \<Rightarrow> timestamp \<Rightarrow> CreateContainerConfig \<Rightarrow> MockRuntime \<Rightarrow> ContainerID result \<times> MockRuntime" where
  "mock_create_container i t config m =
     (Inr i, m\<lparr>mr_containers := hm_insert i
        \<lparr>rtc_id = i, rtc_pod_uid = cc_pod_uid config, rtc_name = ctr_name (cc_container config), rtc_pid = None,
         rtc_image = ctr_image (cc_container config), rtc_image_ref = ''sha256:mock'', rtc_state = RCreated, rtc_created_at = t,
         rtc_started_at = None, rtc_finished_at = None, rtc_exit_code = None, rtc_exit_reason = None, rtc_labels = [],
         rtc_attempt = cc_attempt config\<rparr> (mr_containers m)\<rparr>)"

definition mock_start_container :: "nat \<Rightarrow> timestamp \<Rightarrow> ContainerID \<Rightarrow> MockRuntime \<Rightarrow> unit result \<times> MockRuntime" where
  "mock_start_container pid t cid m =
     (if mr_fail_on_start m then (Inl (ERuntime ''mock start failure''), m)
      else (Inr (), m\<lparr>mr_start_calls := mr_start_calls m + 1,
        mr_containers := hm_modify cid (\<lambda>c. case mr_exit_on_start m of
            Some code \<Rightarrow> c\<lparr>rtc_state := RExited, rtc_exit_code := Some code, rtc_started_at := Some t, rtc_finished_at := Some t\<rparr>
          | None \<Rightarrow> c\<lparr>rtc_state := RRunning, rtc_started_at := Some t, rtc_pid := Some pid\<rparr>) (mr_containers m)\<rparr>))"

definition mock_stop_container :: "timestamp \<Rightarrow> ContainerID \<Rightarrow> MockRuntime \<Rightarrow> unit result \<times> MockRuntime" where
  "mock_stop_container t cid m =
     (Inr (), m\<lparr>mr_stop_calls := mr_stop_calls m + 1,
        mr_containers := hm_modify cid (\<lambda>c. c\<lparr>rtc_state := RExited, rtc_exit_code := Some 0, rtc_finished_at := Some t\<rparr>) (mr_containers m)\<rparr>)"

definition mock_remove_container :: "ContainerID \<Rightarrow> MockRuntime \<Rightarrow> unit result \<times> MockRuntime" where
  "mock_remove_container cid m = (Inr (), m\<lparr>mr_containers := hm_remove cid (mr_containers m)\<rparr>)"

definition mock_list_containers :: "MockRuntime \<Rightarrow> RuntimeContainer list result" where
  "mock_list_containers m = Inr (hm_values (mr_containers m))"

definition mock_container_status :: "ContainerID \<Rightarrow> MockRuntime \<Rightarrow> RuntimeContainer option result" where
  "mock_container_status cid m = Inr (hm_get (mr_containers m) cid)"

definition mock_pull_image :: "string \<Rightarrow> string \<Rightarrow> MockRuntime \<Rightarrow> string result \<times> MockRuntime" where
  "mock_pull_image i img m =
     (if mr_fail_on_pull_image m then (Inl (ERuntime (''mock pull failure for image '' @ [CHR 0x27] @ img @ [CHR 0x27])), m)
      else (Inr i, m\<lparr>mr_images := hm_insert i \<lparr>ii_id = i, ii_repo_tags = [img], ii_repo_digests = [], ii_size_bytes = 50000000\<rparr> (mr_images m)\<rparr>))"

definition mock_remove_image :: "string \<Rightarrow> MockRuntime \<Rightarrow> unit result \<times> MockRuntime" where
  "mock_remove_image i m = (Inr (), m\<lparr>mr_images := hm_remove i (mr_images m)\<rparr>)"

definition mock_list_images :: "MockRuntime \<Rightarrow> ImageInfo list result" where
  "mock_list_images m = Inr (hm_values (mr_images m))"

definition mock_image_status :: "string \<Rightarrow> MockRuntime \<Rightarrow> ImageInfo option result" where
  "mock_image_status img m = Inr (find (\<lambda>i. img \<in> set (ii_repo_tags i)) (hm_values (mr_images m)))"

definition mock_attach_sync :: "ContainerID \<Rightarrow> MockRuntime \<Rightarrow> string result" where
  "mock_attach_sync cid m =
     (case hm_get (mr_containers m) cid of
        None \<Rightarrow> Inl (ERuntime ''container not found'')
      | Some c \<Rightarrow>
          if rtc_state c \<noteq> RRunning then Inl (ERuntime ''container is not running; cannot attach'')
          else Inr (''mock attach: '' @ cid))"

subsection \<open>As an environment\<close>

definition mock_id :: "history \<Rightarrow> string" where
  "mock_id h = show_nat (length h)"

definition mock_clock :: "history \<Rightarrow> timestamp" where
  "mock_clock h = secs (int (length h))"

fun mock_apply :: "history \<Rightarrow> Call \<Rightarrow> MockRuntime \<Rightarrow> MockRuntime" where
  "mock_apply h (CRunSandbox config) m = snd (mock_run_pod_sandbox (mock_id h) (mock_clock h) config m)"
| "mock_apply h (CStopSandbox i) m = snd (mock_stop_pod_sandbox i m)"
| "mock_apply h (CRemoveSandbox i) m = snd (mock_remove_pod_sandbox i m)"
| "mock_apply h (CCreateContainer config) m = snd (mock_create_container (mock_id h) (mock_clock h) config m)"
| "mock_apply h (CStartContainer cid) m = snd (mock_start_container 1 (mock_clock h) cid m)"
| "mock_apply h (CStopContainer cid _) m = snd (mock_stop_container (mock_clock h) cid m)"
| "mock_apply h (CRemoveContainer cid) m = snd (mock_remove_container cid m)"
| "mock_apply h (CPullImage img _) m = snd (mock_pull_image (mock_id h) img m)"
| "mock_apply h _ m = m"

fun mock_state :: "MockRuntime \<Rightarrow> history \<Rightarrow> MockRuntime" where
  "mock_state m0 [] = m0"
| "mock_state m0 (c # h) = mock_apply h c (mock_state m0 h)"

text \<open>The history an answer depends on begins with the call itself. Volumes mount at once, hooks succeed, no probe has
  run, there is no API server and the files are absent and writable.\<close>

definition mock_env :: "MockRuntime \<Rightarrow> Env" where
  "mock_env m0 =
     \<lparr>en_now = mock_clock,
      en_container_status = (\<lambda>h cid. mock_container_status cid (mock_state m0 h)),
      en_list_containers = (\<lambda>h. mock_list_containers (mock_state m0 h)),
      en_create_container = (\<lambda>h config. fst (mock_create_container (mock_id (tl h)) (mock_clock (tl h)) config (mock_state m0 (tl h)))),
      en_start_container = (\<lambda>h cid. fst (mock_start_container 1 (mock_clock (tl h)) cid (mock_state m0 (tl h)))),
      en_stop_container = (\<lambda>h cid _. fst (mock_stop_container (mock_clock (tl h)) cid (mock_state m0 (tl h)))),
      en_remove_container = (\<lambda>h cid. fst (mock_remove_container cid (mock_state m0 (tl h)))),
      en_update_resources = (\<lambda>_ _. Inr ()),
      en_run_sandbox = (\<lambda>h config. fst (mock_run_pod_sandbox (mock_id (tl h)) (mock_clock (tl h)) config (mock_state m0 (tl h)))),
      en_stop_sandbox = (\<lambda>h i. fst (mock_stop_pod_sandbox i (mock_state m0 (tl h)))),
      en_remove_sandbox = (\<lambda>h i. fst (mock_remove_pod_sandbox i (mock_state m0 (tl h)))),
      en_sandbox_status = (\<lambda>h i. mock_pod_sandbox_status i (mock_state m0 h)),
      en_list_sandboxes = (\<lambda>h. mock_list_pod_sandboxes (mock_state m0 h)),
      en_image_status = (\<lambda>h img. mock_image_status img (mock_state m0 h)),
      en_pull_image = (\<lambda>h img _. fst (mock_pull_image (mock_id (tl h)) img (mock_state m0 (tl h)))),
      en_pull_secrets = (\<lambda>_ _. []),
      en_post_start = (\<lambda>_ _ _. Inr ()), en_startup_done = (\<lambda>_ _. None), en_readiness = (\<lambda>_ _. None),
      en_mount_volumes = (\<lambda>_. Inr ()), en_list_volumes = (\<lambda>_. Inr []), en_unmount_volumes = (\<lambda>_. Inr ()),
      en_kube_api = (\<lambda>_. None), en_node_facts = (\<lambda>_. demo_facts), en_allocate = (\<lambda>_ _ _. Inl (ERuntime ''no plugin'')),
      en_file = (\<lambda>_ _. None), en_file_kind = (\<lambda>_ _. NoFile), en_write_file = (\<lambda>_ _. True)\<rparr>"

subsection \<open>The contract of a runtime\<close>

text \<open>What the pod worker relies on when it tears a pod down, with \<open>holds h\<close> the containers and \<open>boxes h\<close> the
  sandboxes the runtime has after a history: removing a stopped container succeeds and takes it away, so does
  removing a stopped sandbox, and nothing but a creation adds to either.\<close>

locale runtime_contract =
  fixes en :: Env and holds :: "history \<Rightarrow> ContainerID set" and boxes :: "history \<Rightarrow> string set"
  assumes remove_ok: "CStopContainer cid g \<in> set h \<Longrightarrow> en_remove_container en (CRemoveContainer cid # h) cid = Inr ()"
    and removed: "en_remove_container en (CRemoveContainer cid # h) cid = Inr () \<Longrightarrow> cid \<notin> holds (CRemoveContainer cid # h)"
    and no_new_container: "(\<And>config. c \<noteq> CCreateContainer config) \<Longrightarrow> holds (c # h) \<subseteq> holds h"
    and box_removed: "i \<notin> boxes (CRemoveSandbox i # CStopSandbox i # h)"
    and no_new_box: "(\<And>config. c \<noteq> CRunSandbox config) \<Longrightarrow> boxes (c # h) \<subseteq> boxes h"

definition mock_holds :: "MockRuntime \<Rightarrow> history \<Rightarrow> ContainerID set" where
  "mock_holds m0 h = fst ` set (mr_containers (mock_state m0 h))"

definition mock_boxes :: "MockRuntime \<Rightarrow> history \<Rightarrow> string set" where
  "mock_boxes m0 h = fst ` set (mr_sandboxes (mock_state m0 h))"

lemmas mock_defs = mock_run_pod_sandbox_def mock_stop_pod_sandbox_def mock_remove_pod_sandbox_def mock_create_container_def
  mock_start_container_def mock_stop_container_def mock_remove_container_def mock_pull_image_def

lemma hm_keys_conv: "fst ` set m = {k. hm_contains_key k m}"
  by (auto simp: hm_contains_key_def dom_map_of_conv_image_fst [symmetric])

lemma hm_modify_keys [simp]: "fst ` set (hm_modify k f m) = fst ` set m"
  by (simp add: hm_keys_conv)

lemma hm_remove_keys [simp]: "fst ` set (hm_remove k m) = fst ` set m - {k}"
  by (auto simp: hm_keys_conv)

interpretation mock: runtime_contract "mock_env m0" "mock_holds m0" "mock_boxes m0" for m0
proof
  show "(\<And>config. c \<noteq> CCreateContainer config) \<Longrightarrow> mock_holds m0 (c # h) \<subseteq> mock_holds m0 h" for c h
    by (cases c) (auto simp: mock_holds_def mock_defs)
  show "(\<And>config. c \<noteq> CRunSandbox config) \<Longrightarrow> mock_boxes m0 (c # h) \<subseteq> mock_boxes m0 h" for c h
    by (cases c) (auto simp: mock_boxes_def mock_defs)
qed (simp_all add: mock_env_def mock_holds_def mock_boxes_def mock_defs)

end
