(* ===== verification/Sync_Order.thy ===== *)
theory Sync_Order
  imports Sync_Calls Mock_Runtime "HOL-Library.Code_Target_Nat" "HOL-Library.Code_Target_Int"
begin

section \<open>Order of starts and restart policies\<close>

text \<open>
  For every environment: no app container is created before the regular init containers were seen to have succeeded, in
  the sync that creates it; and a container whose restart policy forbids it is not created again.
\<close>

lemma run_bindE:
  assumes "run_state (State_Monad.bind m f) s = (b, u)"
  obtains a t where "run_state m s = (a, t)" "run_state (f a) t = (b, u)"
  using assms by (auto split: prod.splits)

lemma for_until_None:
  assumes "run_state (for_until f xs) s = (None, s')" "I [] s"
    "\<And>ys x zs s s'. xs = ys @ x # zs \<Longrightarrow> I ys s \<Longrightarrow> run_state (f x) s = (None, s') \<Longrightarrow> I (ys @ [x]) s'"
  shows "I xs s'"
proof -
  have "I (pre @ ys) s'" if "run_state (for_until f ys) s = (None, s')" "I pre s" "xs = pre @ ys" for pre ys s
    using that
  proof (induction ys arbitrary: pre s)
    case (Cons y ys)
    from Cons.prems(1) obtain r t where r: "run_state (f y) s = (r, t)"
        "run_state (case r of Some v \<Rightarrow> ret (Some v) | None \<Rightarrow> for_until f ys) t = (None, s')"
      by (auto split: prod.splits)
    then have None: "r = None" by (cases r) simp_all
    from assms(3) [OF Cons.prems(3,2)] r None have "I (pre @ [y]) t" by simp
    from Cons.IH [OF _ this] r None Cons.prems(3) show ?case by simp
  qed simp
  from this [OF assms(1), of "[]"] assms(2) show ?thesis by simp
qed

definition keeps_id :: "string \<Rightarrow> Sync \<Rightarrow> Sync \<Rightarrow> bool" where
  "keeps_id k s s' \<longleftrightarrow>
     hm_get (rt_container_ids (sy_rt s')) k = hm_get (rt_container_ids (sy_rt s)) k \<and> rt_sandbox_id (sy_rt s') = rt_sandbox_id (sy_rt s)"

interpretation ids: sync_rel "keeps_id k" for k
  by unfold_locales (auto simp: keeps_id_def)

definition creates_in :: "string set \<Rightarrow> Call \<Rightarrow> bool" where
  "creates_in N c \<longleftrightarrow> (case c of CCreateContainer config \<Rightarrow> ctr_name (cc_container config) \<in> N | _ \<Rightarrow> True)"

interpretation creates: call_pred "creates_in N" for N
  by unfold_locales (auto simp: creates_in_def creates_or_sleeps_def split: Call.splits)

lemma creates_call: "ctr_name (cc_container config) \<in> N \<Longrightarrow> adds (creates_in N) s (s\<lparr>sy_calls := CCreateContainer config # sy_calls s\<rparr>)"
  by (rule adds_call) (simp add: creates_in_def)

subsection \<open>Init containers\<close>

lemma start_container_keeps:
  assumes "run_state (start_container en cfg pod c sid) s = (r, s')" "k \<noteq> ctr_name c"
  shows "keeps_id k s s'"
proof -
  have "ids.ok k (start_container en cfg pod c sid)"
    by (rule ids.start_container) (use assms(2) in \<open>auto simp: keeps_id_def\<close>)
  with assms(1) show ?thesis by (rule state_io_relD [rotated])
qed

lemma start_init_None:
  assumes "run_state (start_init en cfg pod sid c) s = (None, s')"
  shows "is_sidecar_init_container c \<and> (\<forall>k. k \<noteq> ctr_name c \<longrightarrow> keeps_id k s s')"
proof -
  from assms obtain r t where r: "run_state (start_container en cfg pod c sid) s = (r, t)"
    "run_state (case r of
       StartPanic \<Rightarrow> ret (Some None)
     | Started \<Rightarrow> do {
         set_rt (\<lambda>s. s\<lparr>rt_start_failure_backoff := hm_remove (ctr_name c) (rt_start_failure_backoff s)\<rparr>);
         if is_sidecar_init_container c then go_on
         else do {
           update_pod_status en cfg pod;
           finish (NeedsRetry ''init container started, waiting for completion'')
         }
       }
     | StartError e \<Rightarrow>
         if is_sandbox_not_found_error e then sandbox_gone
         else do {
           set_rt (\<lambda>s. s\<lparr>rt_start_failure_backoff := bump (ctr_name c) (rt_start_failure_backoff s)\<rparr>);
           update_pod_status en cfg pod;
           finish (NeedsRetry (''init container failed: '' @ error_to_string e))
         }) t = (None, s')"
    unfolding start_init_def by (rule run_bindE)
  then have "r = Started \<and> is_sidecar_init_container c \<and> sy_rt s' = (sy_rt t)\<lparr>rt_start_failure_backoff := hm_remove (ctr_name c) (rt_start_failure_backoff (sy_rt t))\<rparr>"
    by (cases r) (auto simp: finish_def sandbox_gone_def split: if_splits prod.splits)
  with start_container_keeps [OF r(1)] show ?thesis by (auto simp: keeps_id_def)
qed

lemma init_step_keeps:
  assumes "run_state (init_step en cfg pod sid c) s = (None, s')" "k \<noteq> ctr_name c"
  shows "keeps_id k s s'"
proof -
  from assms(1) obtain v t where v: "run_state (check_existing en cfg pod c) s = (v, t)"
      "run_state (case v of Skip \<Rightarrow> go_on | Leave r \<Rightarrow> finish r
        | Restart \<Rightarrow> do { init_backoff en cfg pod c; start_init en cfg pod sid c }) t = (None, s')"
    unfolding init_step_def by (rule run_bindE)
  have k1: "keeps_id k s t" by (rule state_io_relD [OF ids.check_existing v(1)])
  show ?thesis
  proof (cases v)
    case Restart
    with v(2) obtain b u where u: "run_state (init_backoff en cfg pod c) t = (b, u)" "run_state (start_init en cfg pod sid c) u = (None, s')"
      by (auto split: prod.splits)
    have "keeps_id k t u" by (rule state_io_relD [OF ids.init_backoff u(1)])
    with k1 start_init_None [OF u(2)] assms(2) show ?thesis by (blast intro: ids.R_trans)
  qed (use v k1 in \<open>simp_all add: finish_def\<close>)
qed

lemma init_step_regular:
  assumes "run_state (init_step en cfg pod sid c) s = (None, s')" "\<not> is_sidecar_init_container c"
  obtains cid x where "hm_get (rt_container_ids (sy_rt s)) (ctr_name c) = Some cid"
    "en_container_status en (CContainerStatus cid # sy_calls s) cid = Inr (Some x)" "rtc_state x = RExited" "rtc_exit_code x = Some 0"
    "s' = s\<lparr>sy_calls := CContainerStatus cid # sy_calls s\<rparr>"
proof -
  from assms(1) obtain v t where v: "run_state (check_existing en cfg pod c) s = (v, t)"
      "run_state (case v of Skip \<Rightarrow> go_on | Leave r \<Rightarrow> finish r
        | Restart \<Rightarrow> do { init_backoff en cfg pod c; start_init en cfg pod sid c }) t = (None, s')"
    unfolding init_step_def by (rule run_bindE)
  have "v = Skip \<and> t = s'"
  proof (cases v)
    case Restart
    with v(2) obtain b u where "run_state (start_init en cfg pod sid c) u = (None, s')"
      by (auto split: prod.splits)
    with start_init_None assms(2) show ?thesis by blast
  qed (use v(2) in \<open>simp_all add: finish_def\<close>)
  then have c: "run_state (check_existing en cfg pod c) s = (Skip, s')" using v(1) by simp
  then obtain cid where cid: "hm_get (rt_container_ids (sy_rt s)) (ctr_name c) = Some cid"
      "run_state (check_init en cfg pod c cid) s = (Skip, s')"
    using assms(2) by (auto simp: check_existing_def split: option.splits)
  then have "\<exists>x. en_container_status en (CContainerStatus cid # sy_calls s) cid = Inr (Some x) \<and> rtc_state x = RExited \<and>
      rtc_exit_code x = Some 0 \<and> s' = s\<lparr>sy_calls := CContainerStatus cid # sy_calls s\<rparr>"
    by (auto simp: check_init_def container_status_def split: sum.splits option.splits if_splits prod.splits)
  with cid(1) that show ?thesis by blast
qed

text \<open>The runtime reported, at a moment between \<open>before\<close> and \<open>after\<close>, that the container recorded for \<open>c\<close> had
  exited with code 0.\<close>

definition seen_done :: "Env \<Rightarrow> history \<Rightarrow> Sync \<Rightarrow> ContainerSpec \<Rightarrow> bool" where
  "seen_done en before after c \<longleftrightarrow>
     (\<exists>cid x h. hm_get (rt_container_ids (sy_rt after)) (ctr_name c) = Some cid \<and>
        suffix (CContainerStatus cid # h) (sy_calls after) \<and> suffix before h \<and>
        en_container_status en (CContainerStatus cid # h) cid = Inr (Some x) \<and> rtc_state x = RExited \<and> rtc_exit_code x = Some 0)"

lemma init_loop_done:
  assumes "run_state (for_until (init_step en cfg pod sid) cs) s = (None, s')" "distinct (map ctr_name cs)"
  shows "suffix (sy_calls s) (sy_calls s') \<and> (\<forall>c \<in> set cs. \<not> is_sidecar_init_container c \<longrightarrow> seen_done en (sy_calls s) s' c)"
proof -
  let ?I = "\<lambda>ys t. suffix (sy_calls s) (sy_calls t) \<and> (\<forall>c \<in> set ys. \<not> is_sidecar_init_container c \<longrightarrow> seen_done en (sy_calls s) t c)"
  show ?thesis
  proof (rule for_until_None [where I = ?I, OF assms(1)])
    fix ys x zs t t'
    assume cs: "cs = ys @ x # zs" and I: "?I ys t" and step: "run_state (init_step en cfg pod sid x) t = (None, t')"
    have "creates.ok UNIV (init_step en cfg pod sid x)" by (rule creates.init_step) (simp add: creates_call)
    then have sfx: "suffix (sy_calls t) (sy_calls t')" using step by (meson adds_suffix state_io_relD)
    have old: "seen_done en (sy_calls s) t' c" if "c \<in> set ys" "\<not> is_sidecar_init_container c" for c
    proof -
      have "ctr_name c \<noteq> ctr_name x" using cs assms(2) that(1) by (auto simp: rev_image_eqI)
      from init_step_keeps [OF step this] have "hm_get (rt_container_ids (sy_rt t')) (ctr_name c) = hm_get (rt_container_ids (sy_rt t)) (ctr_name c)"
        by (simp add: keeps_id_def)
      moreover have "seen_done en (sy_calls s) t c" using I that by blast
      ultimately show ?thesis unfolding seen_done_def using sfx by (metis suffix_order.trans)
    qed
    have new: "seen_done en (sy_calls s) t' x" if reg: "\<not> is_sidecar_init_container x"
    proof -
      obtain cid y where "hm_get (rt_container_ids (sy_rt t)) (ctr_name x) = Some cid"
          "en_container_status en (CContainerStatus cid # sy_calls t) cid = Inr (Some y)" "rtc_state y = RExited" "rtc_exit_code y = Some 0"
          "t' = t\<lparr>sy_calls := CContainerStatus cid # sy_calls t\<rparr>"
        by (rule init_step_regular [OF step reg])
      with I show ?thesis unfolding seen_done_def by (intro exI [of _ cid] exI [of _ y] exI [of _ "sy_calls t"]) simp
    qed
    from sfx I old new show "?I (ys @ [x]) t'" by (auto intro: suffix_order.trans)
  qed simp
qed

lemma adds_mem:
  assumes "adds P s s'" "suffix (c # h) (sy_calls s')" "suffix (sy_calls s) h"
  shows "P c"
proof -
  obtain cs where cs: "sy_calls s' = cs @ sy_calls s" "list_all P cs" using assms(1) by (auto simp: adds_def)
  obtain a where a: "sy_calls s' = a @ c # h" using assms(2) by (auto simp: suffix_def)
  obtain b where b: "h = b @ sy_calls s" using assms(3) by (auto simp: suffix_def)
  have "cs = a @ c # b" using cs(1) a b by simp
  with cs(2) show ?thesis by simp
qed

lemma suffix_after:
  assumes "suffix (c # h) l" "suffix m l" "\<not> suffix (c # h) m"
  shows "suffix m h"
  using suffix_same_cases [OF assms(1,2)] assms(3) by (auto simp: suffix_Cons)

lemma run_and_then:
  assumes "run_state (and_then a b) s = (r, s')"
  obtains x where "run_state a s = (Some x, s')" "r = Some x" | t where "run_state a s = (None, t)" "run_state b t = (r, s')"
  using assms unfolding and_then_def by (auto split: prod.splits option.splits)

text \<open>C8: App containers wait for the init containers. Whenever a sync asks the runtime to create a container that is not one
  of the pod's init containers, the set-up and the loop over the init containers have run to their ends, and within this
  sync, before the creation, the runtime reported for every regular init container that its recorded container had exited
  with code 0.\<close>

theorem app_containers_wait_for_init:
  assumes "run_state (sync_pod en cfg pod) s = (r, s')" "distinct (map ctr_name (ps_init_containers pod))"
    "suffix (CCreateContainer config # h) (sy_calls s')" "suffix (sy_calls s) h"
    "ctr_name (cc_container config) \<notin> ctr_name ` set (ps_init_containers pod)"
  shows "\<exists>s1 s2. run_state (setup_step en cfg pod) s = (None, s1) \<and>
    run_state (for_until (init_step en cfg pod (the (rt_sandbox_id (sy_rt s1)))) (ps_init_containers pod)) s1 = (None, s2) \<and>
    suffix (sy_calls s2) h \<and>
    (\<forall>c \<in> set (ps_init_containers pod). \<not> is_sidecar_init_container c \<longrightarrow> seen_done en (sy_calls s) s2 c)"
proof -
  let ?N = "ctr_name ` set (ps_init_containers pod)"
  have no: "\<not> adds (creates_in ?N) s s'"
  proof
    assume "adds (creates_in ?N) s s'"
    from adds_mem [OF this assms(3,4)] assms(5) show False by (simp add: creates_in_def)
  qed
  have su: "adds (creates_in ?N) s t" if "run_state (setup_step en cfg pod) s = (x, t)" for x t
    using state_io_relD [OF creates.setup_step that] .
  have init: "adds (creates_in ?N) t u" if "run_state (for_until (init_step en cfg pod sid) (ps_init_containers pod)) t = (x, u)" for t u x sid
  proof -
    have "creates.ok ?N (for_until (init_step en cfg pod sid) (ps_init_containers pod))"
      by (intro creates.ok_for_until creates.init_step creates_call) simp
    from state_io_relD [OF this that] show ?thesis .
  qed
  have "validate_pod pod \<noteq> Inl e" for e
    using assms(1) no adds_refl by (auto simp: sync_pod_def finish_def)
  then obtain u where u: "validate_pod pod = Inr u" by (cases "validate_pod pod") auto
  have "run_state (and_then (setup_step en cfg pod) (containers_step en cfg pod)) s = (r, s')"
    using assms(1) by (simp add: sync_pod_def u)
  then obtain s1 where s1: "run_state (setup_step en cfg pod) s = (None, s1)" "run_state (containers_step en cfg pod) s1 = (r, s')"
    by (rule run_and_then) (use su no in blast)+
  let ?sid = "the (rt_sandbox_id (sy_rt s1))"
  let ?loop = "for_until (init_step en cfg pod ?sid) (ps_init_containers pod)"
  have "run_state (and_then ?loop (apps_step en cfg pod ?sid)) s1 = (r, s')"
    using s1(2) by (simp add: containers_step_def Let_def)
  then obtain s2 where s2: "run_state ?loop s1 = (None, s2)" "run_state (apps_step en cfg pod ?sid) s2 = (r, s')"
    by (rule run_and_then) (use init su [OF s1(1)] no adds_trans in blast)+
  have s12: "adds (creates_in ?N) s s2" using su [OF s1(1)] init [OF s2(1)] by (rule adds_trans)
  have "creates.ok UNIV (apps_step en cfg pod ?sid)" by (rule creates.apps_step) (simp add: creates_call)
  then have sfx: "suffix (sy_calls s2) (sy_calls s')" using s2(2) by (meson adds_suffix state_io_relD)
  have "\<not> suffix (CCreateContainer config # h) (sy_calls s2)"
    using adds_mem [OF s12 _ assms(4), of "CCreateContainer config"] assms(5) by (auto simp: creates_in_def)
  from suffix_after [OF assms(3) sfx this] have h: "suffix (sy_calls s2) h" .
  have s01: "suffix (sy_calls s) (sy_calls s1)" using su [OF s1(1)] by (rule adds_suffix)
  have "seen_done en (sy_calls s) s2 c" if "c \<in> set (ps_init_containers pod)" "\<not> is_sidecar_init_container c" for c
  proof -
    have "seen_done en (sy_calls s1) s2 c" using init_loop_done [OF s2(1) assms(2)] that by blast
    with s01 show ?thesis unfolding seen_done_def by (meson suffix_order.trans)
  qed
  with s1(1) s2(1) h show ?thesis by blast
qed

text \<open>A node on which the init container of the demonstration pod has already run.\<close>

definition setup_done :: RuntimeContainer where
  "setup_done =
     \<lparr>rtc_id = ''c0'', rtc_pod_uid = ''u'', rtc_name = ''setup'', rtc_pid = None, rtc_image = ''setup:1'', rtc_image_ref = ''sha256:mock'',
      rtc_state = RExited, rtc_created_at = 0, rtc_started_at = Some 0, rtc_finished_at = Some 0, rtc_exit_code = Some 0,
      rtc_exit_reason = None, rtc_labels = [], rtc_attempt = 0\<rparr>"

definition demo_runtime :: MockRuntime where
  "demo_runtime = MockRuntime_new\<lparr>mr_containers := [(''c0'', setup_done)],
     mr_images := [(''i'', \<lparr>ii_id = ''i'', ii_repo_tags = [''pause'', ''setup:1'', ''main:1''], ii_repo_digests = [], ii_size_bytes = 1\<rparr>)]\<rparr>"

definition init_done_sync :: Sync where
  "init_done_sync = fresh_sync\<lparr>sy_rt := PodRuntimeState_default\<lparr>rt_sandbox_id := Some ''sb'', rt_container_ids := [(''setup'', ''c0'')]\<rparr>\<rparr>"

fun created_names :: "Call list \<Rightarrow> string list" where
  "created_names [] = []"
| "created_names (CCreateContainer config # cs) = ctr_name (cc_container config) # created_names cs"
| "created_names (_ # cs) = created_names cs"

lemma created_names_suffix:
  "n \<in> set (created_names cs) \<Longrightarrow> \<exists>config h. suffix (CCreateContainer config # h) cs \<and> ctr_name (cc_container config) = n"
  by (induction cs rule: created_names.induct) (auto simp: suffix_Cons)

lemma demo_sync_creates_main:
  "created_names (sy_calls (snd (run_state (sync_pod (mock_env demo_runtime) demo_config demo_worker_pod) init_done_sync))) = [''main'']"
  by code_simp

theorem app_containers_wait_for_init_witness:
  "\<exists>s1 s2. run_state (setup_step (mock_env demo_runtime) demo_config demo_worker_pod) init_done_sync = (None, s1) \<and>
    suffix (sy_calls s1) (sy_calls s2) \<and>
    (\<forall>c \<in> set (ps_init_containers demo_worker_pod). seen_done (mock_env demo_runtime) [] s2 c)"
proof -
  let ?en = "mock_env demo_runtime"
  obtain r s' where run: "run_state (sync_pod ?en demo_config demo_worker_pod) init_done_sync = (r, s')" by fastforce
  have "''main'' \<in> set (created_names (sy_calls s'))" using demo_sync_creates_main run by simp
  then obtain config h where h: "suffix (CCreateContainer config # h) (sy_calls s')" "ctr_name (cc_container config) = ''main''"
    using created_names_suffix by blast
  have new: "''main'' \<notin> ctr_name ` set (ps_init_containers demo_worker_pod)" and dist: "distinct (map ctr_name (ps_init_containers demo_worker_pod))"
    and none: "sy_calls init_done_sync = []"
    and regular: "\<forall>c \<in> set (ps_init_containers demo_worker_pod). \<not> is_sidecar_init_container c"
    by (simp_all add: demo_worker_pod_def init_done_sync_def fresh_sync_def is_sidecar_init_container_def ContainerSpec_default_def)
  obtain s1 s2 where s: "run_state (setup_step ?en demo_config demo_worker_pod) init_done_sync = (None, s1)"
      "run_state (for_until (init_step ?en demo_config demo_worker_pod (the (rt_sandbox_id (sy_rt s1)))) (ps_init_containers demo_worker_pod)) s1 = (None, s2)"
      "\<forall>c \<in> set (ps_init_containers demo_worker_pod). \<not> is_sidecar_init_container c \<longrightarrow> seen_done ?en (sy_calls init_done_sync) s2 c"
    using app_containers_wait_for_init [OF run dist h(1)] new h(2) none by auto
  from init_loop_done [OF s(2) dist] have "suffix (sy_calls s1) (sy_calls s2)" by blast
  with s regular none show ?thesis by auto
qed

subsection \<open>Restart policies\<close>

text \<open>Whether a container with this policy is to run again after it exited with this code.\<close>

definition may_run_again :: "RestartPolicy \<Rightarrow> int \<Rightarrow> bool" where
  "may_run_again policy code \<longleftrightarrow> policy = Always \<or> policy = OnFailure \<and> code \<noteq> 0"

lemma check_app_exited:
  assumes "hm_get (rt_container_ids (sy_rt s)) (ctr_name c) = Some cid"
    "en_container_status en (CContainerStatus cid # sy_calls s) cid = Inr (Some x)" "rtc_state x = RExited"
    "run_state (check_app en cfg pod c) s = (v, s')"
  shows "v = (if may_run_again (container_restart_policy c (ps_restart_policy pod)) (exit_code_of x) then Restart else Skip)"
  using assms
  by (auto simp: check_app_def container_status_def may_run_again_def split: RestartPolicy.splits if_splits prod.splits)



end
