(* ===== verification/Pod_Teardown.thy ===== *)
theory Pod_Teardown
  imports Sync_Order
begin

section \<open>Tearing a pod down\<close>

text \<open>
  What \<^verbatim>\<open>terminate_pod\<close> achieves on every runtime that keeps the contract of \<open>Mock_Runtime\<close>, and on the repository's
  own in-memory runtime; and what \<^verbatim>\<open>start_container\<close> leaves behind when it fails.
\<close>

interpretation adds: io_preorder "adds P" for P
  by unfold_locales (auto intro: adds_refl adds_trans)

lemma adds_ask: "P c \<Longrightarrow> state_io_rel (adds P) (ask c k)" and adds_tell: "P c \<Longrightarrow> state_io_rel (adds P) (tell c)"
  by (rule adds.ok_ask adds.ok_tell, erule adds_call)+

lemma adds_rt: "state_io_rel (adds P) (set_rt f)"
  by (simp add: state_io_rel_def adds_def)

lemmas adds_intros = adds.ok_ret adds.ok_gets adds.ok_bind adds_ask adds_tell adds_rt adds.ok_for_each

lemma for_each_all:
  assumes "\<And>x s s'. x \<in> set xs \<Longrightarrow> run_state (f x) s = ((), s') \<Longrightarrow> J s \<Longrightarrow> J s' \<and> adds P s s' \<and> Q x s'"
    and "\<And>x s s'. Q x s \<Longrightarrow> adds P s s' \<Longrightarrow> Q x s'"
    and "run_state (for_each f xs) s = ((), s')" "J s"
  shows "J s' \<and> adds P s s' \<and> (\<forall>x \<in> set xs. Q x s')"
  using assms(1,3,4)
proof (induction xs arbitrary: s)
  case (Cons x xs)
  then obtain t where t: "run_state (f x) s = ((), t)" "run_state (for_each f xs) t = ((), s')" by (auto split: prod.splits)
  have x: "J t \<and> adds P s t \<and> Q x t" by (rule Cons.prems(1) [OF _ t(1) Cons.prems(3)]) simp
  have "J s' \<and> adds P t s' \<and> (\<forall>x \<in> set xs. Q x s')" using Cons.prems x t(2) by (intro Cons.IH) auto
  with x assms(2) show ?case by (auto intro: adds_trans)
qed (simp add: adds_refl)

definition tears_down :: "Call \<Rightarrow> bool" where
  "tears_down c \<longleftrightarrow> (case c of CCreateContainer _ \<Rightarrow> False | CRunSandbox _ \<Rightarrow> False | _ \<Rightarrow> True)"

lemma stop_for_termination_stops:
  assumes "run_state (stop_for_termination en pod grace (name, cid)) s = ((), s')"
  shows "adds tears_down s s' \<and> CStopContainer cid grace \<in> set (sy_calls s')"
proof -
  have "state_io_rel (adds tears_down) (stop_for_termination en pod grace (name, cid))"
    unfolding stop_for_termination_def port_defs Let_def
    by (auto simp: tears_down_def intro!: adds_intros split: option.split sum.split)
  moreover have "CStopContainer cid grace \<in> set (sy_calls s')"
    using assms unfolding stop_for_termination_def port_defs Let_def
    by (auto split: option.splits sum.splits)
  ultimately show ?thesis using assms by (auto dest: state_io_relD)
qed

context runtime_contract
begin

lemma adds_holds: "adds tears_down s s' \<Longrightarrow> holds (sy_calls s') \<subseteq> holds (sy_calls s) \<and> boxes (sy_calls s') \<subseteq> boxes (sy_calls s)"
proof -
  have "holds (cs @ h) \<subseteq> holds h \<and> boxes (cs @ h) \<subseteq> boxes h" if "list_all tears_down cs" for cs h
    using that
  proof (induction cs)
    case (Cons c cs)
    then have "c \<noteq> CCreateContainer k" "c \<noteq> CRunSandbox b" for k b by (auto simp: tears_down_def)
    with no_new_container [of c "cs @ h"] no_new_box [of c "cs @ h"] Cons show ?case by auto
  qed simp
  then show "adds tears_down s s' \<Longrightarrow> ?thesis" by (auto simp: adds_def simp del: subset_iff) blast+
qed

lemma remove_attempts_removes:
  assumes "run_state (remove_attempts en cid 3) s = ((), s')" "CStopContainer cid g \<in> set (sy_calls s)"
  shows "adds tears_down s s' \<and> cid \<notin> holds (sy_calls s')"
proof -
  have ok: "en_remove_container en (CRemoveContainer cid # sy_calls s) cid = Inr ()" by (rule remove_ok [OF assms(2)])
  then have "s' = s\<lparr>sy_calls := CRemoveContainer cid # sy_calls s\<rparr>"
    using assms(1) by (simp add: numeral_3_eq_3 remove_container_call_def)
  with removed [OF ok] show ?thesis by (simp add: adds_call tears_down_def)
qed

lemma adds_set: "adds P s s' \<Longrightarrow> set (sy_calls s) \<subseteq> set (sy_calls s')"
  by (auto simp: adds_def)

theorem terminated_pod_is_gone:
  assumes "run_state (terminate_pod en cfg pod st grace) s = ((), s')"
  shows "(\<forall>(name, cid) \<in> set (rt_container_ids st). cid \<notin> holds (sy_calls s')) \<and>
    (\<forall>i. rt_sandbox_id st = Some i \<longrightarrow> i \<notin> boxes (sy_calls s'))"
proof -
  let ?ids = "rt_container_ids st"
  from assms obtain s1 s2 s3 s4 where
    1: "run_state (for_each (stop_for_termination en pod grace) ?ids) s = ((), s1)"
    and 2: "s2 = s1\<lparr>sy_calls := CSleep 500 # sy_calls s1\<rparr>"
    and 3: "run_state (for_each (\<lambda>(_, cid). remove_attempts en cid 3) ?ids) s2 = ((), s3)"
    and 4: "run_state (remove_sandbox_of en st) s3 = ((), s4)"
    and 5: "run_state (do { tell (CDeleteCheckpoint (ps_uid pod)); _ \<leftarrow> unmount_pod_volumes en cfg pod;
        for_each (\<lambda>(_, cid). tell (CForgetProbes cid)) ?ids }) s4 = ((), s')"
    unfolding terminate_pod_def by (auto simp: sleep_def elim!: run_bindE split: prod.splits)
  have s1: "adds tears_down s s1 \<and> (\<forall>x \<in> set ?ids. CStopContainer (snd x) grace \<in> set (sy_calls s1))"
    by (rule for_each_all [where J = "\<lambda>_. True", OF _ _ 1, THEN conjunct2])
      (use stop_for_termination_stops adds_set in \<open>fastforce+\<close>)
  have s2: "adds tears_down s1 s2" unfolding 2 by (rule adds_call) (simp add: tears_down_def)
  have s3: "adds tears_down s2 s3 \<and> (\<forall>x \<in> set ?ids. snd x \<notin> holds (sy_calls s3))"
  proof (rule for_each_all [where J = "\<lambda>t. \<forall>x \<in> set ?ids. CStopContainer (snd x) grace \<in> set (sy_calls t)", OF _ _ 3, THEN conjunct2])
    show "\<forall>x \<in> set ?ids. CStopContainer (snd x) grace \<in> set (sy_calls s2)" using s1 by (simp add: 2)
  next
    fix x t t'
    assume x: "x \<in> set ?ids" "run_state (case x of (_, cid) \<Rightarrow> remove_attempts en cid 3) t = ((), t')"
      "\<forall>x \<in> set ?ids. CStopContainer (snd x) grace \<in> set (sy_calls t)"
    then have "adds tears_down t t' \<and> snd x \<notin> holds (sy_calls t')"
      by (intro remove_attempts_removes [of "snd x" t t' grace]) (simp_all add: case_prod_beta)
    with x(3) show "(\<forall>x \<in> set ?ids. CStopContainer (snd x) grace \<in> set (sy_calls t')) \<and> adds tears_down t t' \<and> snd x \<notin> holds (sy_calls t')"
      using adds_set by blast
  qed (use adds_holds in blast)
  have s4: "adds tears_down s3 s4 \<and> (\<forall>i. rt_sandbox_id st = Some i \<longrightarrow> i \<notin> boxes (sy_calls s4))"
    using 4 box_removed
    by (auto simp: remove_sandbox_of_def port_defs adds_refl split: option.splits)
      (auto simp: adds_def tears_down_def exI [of _ "[CRemoveSandbox _, CStopSandbox _]"])
  have "state_io_rel (adds tears_down) (do { tell (CDeleteCheckpoint (ps_uid pod)); _ \<leftarrow> unmount_pod_volumes en cfg pod;
        for_each (\<lambda>(_, cid). tell (CForgetProbes cid)) ?ids })"
    unfolding unmount_pod_volumes_def by (auto simp: tears_down_def intro!: adds_intros split: prod.split)
  then have s5: "adds tears_down s4 s'" using 5 by (rule state_io_relD)
  have "adds tears_down s3 s'" using s4 s5 adds_trans by blast
  from adds_holds [OF this] s3 adds_holds [OF s5] s4 show ?thesis by fastforce
qed

end

text \<open>C7: Termination releases everything. On the in-memory runtime, in any state of it, after \<open>terminate_pod\<close> none of
  the containers recorded for the pod is held by the runtime and its sandbox is gone.\<close>

theorem terminate_pod_releases_everything:
  assumes "run_state (terminate_pod (mock_env m0) cfg pod st grace) s = ((), s')"
  shows "(\<forall>(name, cid) \<in> set (rt_container_ids st). cid \<notin> mock_holds m0 (sy_calls s')) \<and>
    (\<forall>i. rt_sandbox_id st = Some i \<longrightarrow> i \<notin> mock_boxes m0 (sy_calls s'))"
  using assms by (rule mock.terminated_pod_is_gone)

theorem terminate_pod_releases_everything_witness:
  "''c0'' \<in> mock_holds demo_runtime (sy_calls init_done_sync) \<and>
   ''c0'' \<notin> mock_holds demo_runtime
      (sy_calls (snd (run_state (terminate_pod (mock_env demo_runtime) demo_config demo_worker_pod (sy_rt init_done_sync) 30) init_done_sync)))"
proof -
  obtain s' where run: "run_state (terminate_pod (mock_env demo_runtime) demo_config demo_worker_pod (sy_rt init_done_sync) 30) init_done_sync = ((), s')"
    by (metis old.unit.exhaust surj_pair)
  have "''c0'' \<in> mock_holds demo_runtime (sy_calls init_done_sync)"
    by (simp add: mock_holds_def init_done_sync_def fresh_sync_def demo_runtime_def)
  moreover have "(''setup'', ''c0'') \<in> set (rt_container_ids (sy_rt init_done_sync))" by (simp add: init_done_sync_def)
  ultimately show ?thesis using terminate_pod_releases_everything [OF run] run by auto
qed

subsection \<open>What a failed start leaves behind\<close>

text \<open>When the post-start hook of a container fails, \<^verbatim>\<open>start_container\<close> stops the container but neither removes it nor
  records its identifier: the runtime still holds it, and a later \<open>terminate_pod\<close> does not know it.\<close>

definition hook_fails :: "MockRuntime \<Rightarrow> Env" where
  "hook_fails m0 = (mock_env m0)\<lparr>en_post_start := \<lambda>_ _ _. Inl (ERuntime ''hook'')\<rparr>"

lemma failed_hook_leaves_container:
  assumes "Option.bind (ctr_lifecycle c) lc_post_start = Some handler" "\<not> mr_fail_on_start (mock_state m0 (sy_calls s))"
    "hm_get (rt_container_ids (sy_rt s)) (ctr_name c) = None"
  shows "\<exists>s'. run_state (launch (hook_fails m0) pod c config attempt) s = (StartError (ERuntime ''hook''), s') \<and>
    mock_id (sy_calls s) \<in> mock_holds m0 (sy_calls s') \<and> hm_get (rt_container_ids (sy_rt s')) (ctr_name c) = None"
  using assms
  by (simp add: launch_def remove_previous_def create_with_retry_def port_defs hook_fails_def mock_env_def mock_defs mock_holds_def hm_keys_conv)

text \<open>A plain \<^verbatim>\<open>subPath\<close>, unlike an expanded \<^verbatim>\<open>subPathExpr\<close>, is not checked: an absolute one makes the container mount that
  path of the node.\<close>

lemma absolute_sub_path_leaves_volume:
  assumes "trim (vm_mount_path vm) \<noteq> []" "hm_get mounted (vm_name vm) = Some base" "vm_sub_path_expr vm = None"
    "vm_sub_path vm = Some p" "starts_with ''/'' p"
  shows "fst (run_state (resolve_mounts ctr mounted env [vm] []) s) = MountsOk [vm\<lparr>vm_sub_path := Some p\<rparr>]"
proof -
  have "p \<noteq> []" using assms(5) by (auto simp: starts_with_def)
  with assms show ?thesis by (simp add: effective_sub_path_def mount_source_def path_join_def)
qed

end
