(* ===== verification/Hooks.thy ===== *)
theory Hooks
  imports Probes
begin

section \<open>The probe manager and the lifecycle hooks\<close>

text \<open>
  \<^verbatim>\<open>probe_runner/mod.rs\<close>: one attempt, the task that repeats it, and the manager that keeps a handle for each task.
  A handle is the number of its task; tasks that run are a set. Dropping a handle does not stop its task, as in
  tokio. \<^verbatim>\<open>lifecycle/mod.rs\<close>: the four kinds of hook.
\<close>

subsection \<open>One attempt of the runner\<close>

definition exec_once :: "ExecResult attempt \<Rightarrow> unit result" where
  "exec_once answer =
     (case answer of
        TimedOut \<Rightarrow> Inl (EProbe ''exec probe timed out'')
      | Refused e \<Rightarrow> Inl (EProbe (''exec probe error: '' @ e))
      | Answered r \<Rightarrow>
          if er_exit_code r \<noteq> 0
          then Inl (EProbe (''exec probe exited with '' @ show_int (er_exit_code r) @ '': '' @ trim (from_utf8_lossy (er_stderr r))))
          else Inr ())"

definition http_once :: "nat attempt \<Rightarrow> unit result" where
  "http_once answer =
     (case answer of
        TimedOut \<Rightarrow> Inl (EProbe ''HTTP probe timed out'')
      | Refused e \<Rightarrow> Inl (EProbe (''HTTP probe failed: '' @ e))
      | Answered status \<Rightarrow> if 200 \<le> status \<and> status < 400 then Inr () else Inl (EProbe (''HTTP probe: status '' @ show_nat status)))"

definition tcp_once :: "nat \<Rightarrow> unit attempt \<Rightarrow> unit result" where
  "tcp_once port answer =
     (case answer of
        TimedOut \<Rightarrow> Inl (EProbe (''TCP probe timed out on port '' @ show_nat port))
      | Refused e \<Rightarrow> Inl (EProbe (''TCP probe failed: '' @ e))
      | Answered _ \<Rightarrow> Inr ())"

definition grpc_once :: "nat \<Rightarrow> string option \<Rightarrow> unit attempt \<Rightarrow> int attempt \<Rightarrow> unit result" where
  "grpc_once port endpoint_error connect check =
     (case endpoint_error of
        Some e \<Rightarrow> Inl (EProbe (''gRPC endpoint: '' @ e))
      | None \<Rightarrow>
          (case connect of
             TimedOut \<Rightarrow> Inl (EProbe (''gRPC probe timed out on port '' @ show_nat port))
           | Refused e \<Rightarrow> Inl (EProbe (''gRPC connect failed: '' @ e))
           | Answered _ \<Rightarrow>
               (case check of
                  TimedOut \<Rightarrow> Inl (EProbe ''gRPC health check timed out'')
                | Refused e \<Rightarrow> Inl (EProbe (''gRPC health check failed: '' @ e))
                | Answered status \<Rightarrow>
                    if status = SERVING then Inr ()
                    else Inl (EProbe (''gRPC health check returned non-serving status '' @ show_int status)))))"

fun run_once :: "Net \<Rightarrow> ProbeHandler \<Rightarrow> ContainerID \<Rightarrow> nat \<Rightarrow> unit result" where
  "run_once net (PExec command) cid timeout = exec_once (nt_exec net cid command timeout)"
| "run_once net (PHttpGet path port host scheme) cid timeout = http_once (nt_http net (http_url scheme (host_or host ''localhost'') port path))"
| "run_once net (PTcpSocket port host) cid timeout = tcp_once port (nt_tcp net (host_or host ''localhost'') port)"
| "run_once net (PGrpc port service) cid timeout =
     (let endpoint = ''http://localhost:'' @ show_nat port in
      grpc_once port (nt_endpoint net endpoint) (nt_connect net endpoint) (nt_check net endpoint (host_or service [])))"

text \<open>The two implementations of a probe agree once the host is given and, for gRPC, is the local one.\<close>

lemma run_once_agrees:
  "(run_once net h cid t = Inr ()) \<longleftrightarrow> (run_probe net h cid ''localhost'' t = PSuccess)"
  by (cases h) (auto simp: exec_once_def http_once_def tcp_once_def grpc_once_def run_exec_probe_def run_http_probe_def run_tcp_probe_def
      run_grpc_probe_def Let_def split: attempt.splits option.splits)

subsection \<open>The task of the runner\<close>

record ProbeOutcome =
  po_pod_uid :: PodUID
  po_container_name :: string
  po_kind :: ProbeType
  po_success :: bool
  po_message :: string

text \<open>The counters and the outcomes sent so far; \<open>None\<close> when the task has returned.\<close>

type_synonym runner = "(u32 \<times> u32) option \<times> ProbeOutcome list"

definition outcome :: "PodUID \<Rightarrow> string \<Rightarrow> ProbeType \<Rightarrow> bool \<Rightarrow> string \<Rightarrow> ProbeOutcome" where
  "outcome uid name kind ok msg = \<lparr>po_pod_uid = uid, po_container_name = name, po_kind = kind, po_success = ok, po_message = msg\<rparr>"

definition runner_turn :: "PodUID \<Rightarrow> string \<Rightarrow> Probe \<Rightarrow> ProbeType \<Rightarrow> unit result \<Rightarrow> runner \<Rightarrow> runner" where
  "runner_turn uid name probe kind result r =
     (case fst r of
        None \<Rightarrow> r
      | Some (failures, successes) \<Rightarrow>
          (case result of
             Inr _ \<Rightarrow>
               (Some (0, successes + 1),
                if pb_success_threshold probe \<le> successes + 1 then snd r @ [outcome uid name kind True []] else snd r)
           | Inl e \<Rightarrow>
               if pb_failure_threshold probe \<le> failures + 1
               then (if kind \<noteq> Readiness then None else Some (0, 0), snd r @ [outcome uid name kind False (error_to_string e)])
               else (Some (failures + 1, 0), snd r)))"

definition runner_task :: "PodUID \<Rightarrow> string \<Rightarrow> Probe \<Rightarrow> ProbeType \<Rightarrow> unit result list \<Rightarrow> runner" where
  "runner_task uid name probe kind results = fold (runner_turn uid name probe kind) results (Some (0, 0), [])"

subsection \<open>The manager\<close>

type_synonym probe_key = "string \<times> string \<times> string"

record ContainerProbes =
  cps_liveness :: "Probe option"
  cps_readiness :: "Probe option"
  cps_startup :: "Probe option"

record ProbeManager =
  pbm_handles :: "(probe_key, nat) hmap"
  pbm_tasks :: "(nat \<times> probe_key) list"
  pbm_next :: nat

definition ProbeManager_new :: ProbeManager where
  "ProbeManager_new = \<lparr>pbm_handles = [], pbm_tasks = [], pbm_next = 0\<rparr>"

definition start_one :: "PodUID \<Rightarrow> string \<Rightarrow> string \<Rightarrow> Probe option \<Rightarrow> ProbeManager \<Rightarrow> ProbeManager" where
  "start_one uid name kind probe m =
     (case probe of
        None \<Rightarrow> m
      | Some _ \<Rightarrow> m\<lparr>pbm_handles := hm_insert (uid, name, kind) (pbm_next m) (pbm_handles m),
                   pbm_tasks := (pbm_next m, (uid, name, kind)) # pbm_tasks m, pbm_next := Suc (pbm_next m)\<rparr>)"

definition start_probes :: "PodUID \<Rightarrow> string \<Rightarrow> ContainerProbes \<Rightarrow> ProbeManager \<Rightarrow> ProbeManager" where
  "start_probes uid name probes m =
     start_one uid name ''readiness'' (cps_readiness probes)
      (start_one uid name ''liveness'' (cps_liveness probes)
        (start_one uid name ''startup'' (cps_startup probes) m))"

definition abort_task :: "probe_key \<Rightarrow> ProbeManager \<Rightarrow> ProbeManager" where
  "abort_task k m =
     (case hm_get (pbm_handles m) k of
        None \<Rightarrow> m
      | Some i \<Rightarrow> m\<lparr>pbm_handles := hm_remove k (pbm_handles m), pbm_tasks := filter (\<lambda>t. fst t \<noteq> i) (pbm_tasks m)\<rparr>)"

definition stop_probes :: "PodUID \<Rightarrow> string \<Rightarrow> ProbeManager \<Rightarrow> ProbeManager" where
  "stop_probes uid name m = fold abort_task [(uid, name, ''liveness''), (uid, name, ''readiness''), (uid, name, ''startup'')] m"

definition stop_all_pod_probes :: "PodUID \<Rightarrow> ProbeManager \<Rightarrow> ProbeManager" where
  "stop_all_pod_probes uid m = fold abort_task (filter (\<lambda>(u, _, _). u = uid) (hm_keys (pbm_handles m))) m"

definition active_probe_count :: "ProbeManager \<Rightarrow> nat" where
  "active_probe_count m = length (pbm_handles m)"

subsection \<open>Lifecycle hooks\<close>

definition exec_hook :: "(KubeletError + ExecResult) \<Rightarrow> unit result" where
  "exec_hook answer =
     (case answer of
        Inl e \<Rightarrow> Inl e
      | Inr r \<Rightarrow>
          if er_exit_code r \<noteq> 0
          then Inl (ELifecycle (''lifecycle exec hook failed with exit code '' @ show_int (er_exit_code r) @ '': '' @ trim (from_utf8_lossy (er_stderr r))))
          else Inr ())"

text \<open>\<^verbatim>\<open>StatusCode\<close> displays as its number and, where it has one, its name; the whole text is an argument.\<close>

definition http_hook :: "string + (nat \<times> string) \<Rightarrow> unit result" where
  "http_hook answer =
     (case answer of
        Inl e \<Rightarrow> Inl (ELifecycle (''HTTP hook GET failed: '' @ e))
      | Inr (status, shown) \<Rightarrow>
          if \<not> (200 \<le> status \<and> status < 300) \<and> 400 \<le> status then Inl (ELifecycle (''HTTP hook returned error status: '' @ shown)) else Inr ())"

definition tcp_hook :: "string \<Rightarrow> nat \<Rightarrow> unit attempt \<Rightarrow> unit result" where
  "tcp_hook host port answer =
     (case answer of
        TimedOut \<Rightarrow> Inl (ELifecycle (''TCP hook timed out connecting to '' @ host @ '':'' @ show_nat port))
      | Refused e \<Rightarrow> Inl (ELifecycle (''TCP hook connect failed: '' @ e))
      | Answered _ \<Rightarrow> Inr ())"

text \<open>The sleep finishes when it ends before the timeout; at equality either may win, which \<open>first\<close> decides.\<close>

definition sleep_hook :: "bool \<Rightarrow> nat \<Rightarrow> nat \<Rightarrow> unit result" where
  "sleep_hook first timeout seconds =
     (if seconds < timeout \<or> (seconds = timeout \<and> first) then Inr ()
      else Inl (ELifecycle (''Sleep hook timed out after '' @ show_nat timeout @ ''s (grace period exceeded)'')))"

record HookNet =
  hn_exec :: "ContainerID \<Rightarrow> string list \<Rightarrow> nat \<Rightarrow> KubeletError + ExecResult"
  hn_http :: "string \<Rightarrow> string + (nat \<times> string)"
  hn_tcp :: "string \<Rightarrow> nat \<Rightarrow> unit attempt"
  hn_first :: bool

fun hook_execute :: "HookNet \<Rightarrow> nat \<Rightarrow> LifecycleHandler \<Rightarrow> ContainerID \<Rightarrow> unit result" where
  "hook_execute net timeout (LExec command) cid = exec_hook (hn_exec net cid command timeout)"
| "hook_execute net timeout (LHttpGet path port host scheme) cid = http_hook (hn_http net (http_url scheme (host_or host ''localhost'') port path))"
| "hook_execute net timeout (LTcpSocket port host) cid = tcp_hook (host_or host ''localhost'') port (hn_tcp net (host_or host ''localhost'') port)"
| "hook_execute net timeout (LSleep seconds) cid = sleep_hook (hn_first net) timeout seconds"

definition run_post_start :: "HookNet \<Rightarrow> LifecycleHandler \<Rightarrow> ContainerID \<Rightarrow> unit result" where
  "run_post_start net handler cid = hook_execute net 30 handler cid"

text \<open>A failed pre-stop hook is only logged.\<close>

definition run_pre_stop :: "HookNet \<Rightarrow> LifecycleHandler \<Rightarrow> ContainerID \<Rightarrow> nat \<Rightarrow> unit" where
  "run_pre_stop net handler cid grace = (case hook_execute net grace handler cid of Inl _ \<Rightarrow> () | Inr _ \<Rightarrow> ())"

subsection \<open>Properties of the runner\<close>

lemma runner_reports_once:
  assumes "kind \<noteq> Readiness"
  shows "(fst (runner_task uid name probe kind results) \<noteq> None \<longrightarrow> list_all po_success (snd (runner_task uid name probe kind results))) \<and>
    (fst (runner_task uid name probe kind results) = None \<longrightarrow>
       (\<exists>os x. snd (runner_task uid name probe kind results) = os @ [x] \<and> list_all po_success os \<and> \<not> po_success x))"
proof (induction results rule: rev_induct)
  case Nil
  then show ?case by (simp add: runner_task_def)
next
  case (snoc r rs)
  have e: "runner_task uid name probe kind (rs @ [r]) = runner_turn uid name probe kind r (runner_task uid name probe kind rs)"
    by (simp add: runner_task_def)
  show ?case
  proof (cases "fst (runner_task uid name probe kind rs)")
    case None
    then show ?thesis using snoc by (simp add: e runner_turn_def)
  next
    case (Some c)
    then show ?thesis using snoc assms by (cases c) (auto simp: e runner_turn_def outcome_def split: sum.splits)
  qed
qed

subsection \<open>Properties of the manager\<close>

text \<open>Every task that runs has its handle and every handle its task.\<close>

definition no_orphans :: "ProbeManager \<Rightarrow> bool" where
  "no_orphans m \<longleftrightarrow> (\<forall>i k. (i, k) \<in> set (pbm_tasks m) \<longleftrightarrow> hm_get (pbm_handles m) k = Some i) \<and>
     (\<forall>i k. (i, k) \<in> set (pbm_tasks m) \<longrightarrow> i < pbm_next m) \<and> inj_on fst (set (pbm_tasks m))"

lemma no_orphansD:
  assumes "no_orphans m"
  shows "(i, k) \<in> set (pbm_tasks m) \<longleftrightarrow> hm_get (pbm_handles m) k = Some i"
    and "(i, k) \<in> set (pbm_tasks m) \<Longrightarrow> i < pbm_next m" and "inj_on fst (set (pbm_tasks m))"
  using assms unfolding no_orphans_def by blast+

lemma no_orphans_new: "no_orphans ProbeManager_new"
  by (simp add: no_orphans_def ProbeManager_new_def)

lemma no_orphans_start_one:
  assumes "no_orphans m" "hm_get (pbm_handles m) (uid, name, kind) = None"
  shows "no_orphans (start_one uid name kind probe m)"
proof (cases probe)
  case (Some p)
  have fresh: "pbm_next m \<notin> fst ` set (pbm_tasks m)" using no_orphansD(2) [OF assms(1)] by fastforce
  show ?thesis unfolding no_orphans_def
  proof (intro conjI allI impI)
    fix i k
    show "((i, k) \<in> set (pbm_tasks (start_one uid name kind probe m))) = (hm_get (pbm_handles (start_one uid name kind probe m)) k = Some i)"
      using no_orphansD(1) [OF assms(1), of i k] assms(2) fresh by (auto simp: start_one_def Some image_iff)
  next
    fix i k
    show "(i, k) \<in> set (pbm_tasks (start_one uid name kind probe m)) \<Longrightarrow> i < pbm_next (start_one uid name kind probe m)"
      using no_orphansD(2) [OF assms(1), of i k] by (auto simp: start_one_def Some)
  next
    show "inj_on fst (set (pbm_tasks (start_one uid name kind probe m)))"
      using no_orphansD(3) [OF assms(1)] fresh by (auto simp: start_one_def Some)
  qed
qed (use assms in \<open>simp add: start_one_def\<close>)

lemma start_one_get:
  "hm_get (pbm_handles (start_one uid name kind probe m)) (u, n, k) =
     (if probe \<noteq> None \<and> (u, n, k) = (uid, name, kind) then Some (pbm_next m) else hm_get (pbm_handles m) (u, n, k))"
  by (auto simp: start_one_def split: option.split)

lemma no_orphans_start_probes:
  assumes "no_orphans m" "\<And>kind. hm_get (pbm_handles m) (uid, name, kind) = None"
  shows "no_orphans (start_probes uid name probes m)"
  unfolding start_probes_def using assms by (intro no_orphans_start_one) (simp_all add: start_one_get)

lemma abort_task_spec:
  assumes "no_orphans m"
  shows "no_orphans (abort_task k m) \<and> set (pbm_tasks (abort_task k m)) = {t \<in> set (pbm_tasks m). snd t \<noteq> k} \<and>
    (\<forall>k'. hm_get (pbm_handles (abort_task k m)) k' = (if k' = k then None else hm_get (pbm_handles m) k'))"
proof (cases "hm_get (pbm_handles m) k")
  case None
  then have "\<forall>t \<in> set (pbm_tasks m). snd t \<noteq> k" using assms by (auto simp: no_orphans_def)
  with None assms show ?thesis by (auto simp: abort_task_def)
next
  case (Some i)
  then have mem: "(i, k) \<in> set (pbm_tasks m)" using assms unfolding no_orphans_def by blast
  have same: "fst t = i \<longleftrightarrow> snd t = k" if "t \<in> set (pbm_tasks m)" for t
  proof
    assume "fst t = i"
    then have "t = (i, k)" using inj_onD [OF no_orphansD(3) [OF assms], of t "(i, k)"] that mem by simp
    then show "snd t = k" by simp
  next
    assume "snd t = k"
    then show "fst t = i" using no_orphansD(1) [OF assms, of "fst t" k] that Some by (cases t) simp
  qed
  have tasks: "set (pbm_tasks (abort_task k m)) = {t \<in> set (pbm_tasks m). snd t \<noteq> k}"
    using same by (auto simp: abort_task_def Some)
  have get: "\<forall>k'. hm_get (pbm_handles (abort_task k m)) k' = (if k' = k then None else hm_get (pbm_handles m) k')"
    by (simp add: abort_task_def Some)
  have 1: "inj_on fst {t \<in> set (pbm_tasks m). snd t \<noteq> k}"
    using no_orphansD(3) [OF assms] by (rule inj_on_subset) blast
  have 2: "(i, k') \<in> {t \<in> set (pbm_tasks m). snd t \<noteq> k} \<longleftrightarrow> hm_get (pbm_handles (abort_task k m)) k' = Some i" for i k'
    using no_orphansD(1) [OF assms, of i k'] by (simp add: get)
  have 3: "(i, k') \<in> {t \<in> set (pbm_tasks m). snd t \<noteq> k} \<Longrightarrow> i < pbm_next (abort_task k m)" for i k'
    using no_orphansD(2) [OF assms, of i k'] by (simp add: abort_task_def Some)
  have "no_orphans (abort_task k m)" unfolding no_orphans_def tasks by (intro conjI allI impI 1 2) (erule 3)
  with tasks get show ?thesis by blast
qed

lemma abort_tasks_spec:
  assumes "no_orphans m"
  shows "no_orphans (fold abort_task ks m) \<and> set (pbm_tasks (fold abort_task ks m)) = {t \<in> set (pbm_tasks m). snd t \<notin> set ks}"
  using assms
proof (induction ks arbitrary: m)
  case (Cons k ks)
  then show ?case using abort_task_spec [OF Cons.prems, of k] by auto
qed simp

text \<open>Stopping the probes of a pod stops all of its probe tasks and no other, provided no task has lost its handle; and
  starting the probes of a container none of whose keys is held keeps it so.\<close>

theorem stopped_pod_has_no_probe_tasks:
  assumes "no_orphans m"
  shows "no_orphans (stop_all_pod_probes uid m) \<and>
    set (pbm_tasks (stop_all_pod_probes uid m)) = {t \<in> set (pbm_tasks m). fst (snd t) \<noteq> uid} \<and>
    ((\<forall>kind. hm_get (pbm_handles m) (uid, name, kind) = None) \<longrightarrow> no_orphans (start_probes uid name probes m))"
proof -
  have held: "snd t \<in> set (hm_keys (pbm_handles m))" if "t \<in> set (pbm_tasks m)" for t
  proof -
    have "hm_get (pbm_handles m) (snd t) = Some (fst t)" using assms that by (cases t) (simp add: no_orphans_def)
    then show ?thesis by (auto simp: hm_keys_def dest: map_of_SomeD intro: rev_image_eqI)
  qed
  then have "set (pbm_tasks (stop_all_pod_probes uid m)) = {t \<in> set (pbm_tasks m). fst (snd t) \<noteq> uid}"
    using abort_tasks_spec [OF assms, of "filter (\<lambda>(u, _, _). u = uid) (hm_keys (pbm_handles m))"]
    by (auto simp: stop_all_pod_probes_def)
  then show ?thesis
    using abort_tasks_spec [OF assms] no_orphans_start_probes [OF assms] by (simp add: stop_all_pod_probes_def)
qed

definition all_probes :: ContainerProbes where
  "all_probes = \<lparr>cps_liveness = Some demo_probe, cps_readiness = Some demo_probe, cps_startup = Some demo_probe\<rparr>"

theorem stopped_pod_has_no_probe_tasks_witness:
  "pbm_tasks (start_probes ''u'' ''c'' all_probes ProbeManager_new) \<noteq> [] \<and>
   pbm_tasks (stop_all_pod_probes ''u'' (start_probes ''u'' ''c'' all_probes ProbeManager_new)) = []"
proof -
  let ?m = "start_probes ''u'' ''c'' all_probes ProbeManager_new"
  have "no_orphans ?m"
    using stopped_pod_has_no_probe_tasks [OF no_orphans_new, of "''u''" "''c''" all_probes] by (simp add: ProbeManager_new_def)
  then have "set (pbm_tasks (stop_all_pod_probes ''u'' ?m)) = {t \<in> set (pbm_tasks ?m). fst (snd t) \<noteq> ''u''}"
    by (rule stopped_pod_has_no_probe_tasks [THEN conjunct2, THEN conjunct1])
  also have "\<dots> = {}" by (auto simp: start_probes_def start_one_def all_probes_def ProbeManager_new_def)
  finally have "set (pbm_tasks (stop_all_pod_probes ''u'' ?m)) = {}" .
  then have "pbm_tasks (stop_all_pod_probes ''u'' ?m) = []" by (simp only: set_empty)
  moreover have "pbm_tasks ?m \<noteq> []" by (simp add: start_probes_def start_one_def all_probes_def ProbeManager_new_def)
  ultimately show ?thesis by blast
qed

text \<open>Starting the probes of a container again, as after a restart, replaces the handles: the earlier tasks go on, and
  stopping the pod's probes does not stop them.\<close>

lemma restarted_probes_leak:
  "(0, (''u'', ''c'', ''startup'')) \<in>
     set (pbm_tasks (stop_all_pod_probes ''u'' (start_probes ''u'' ''c'' all_probes (start_probes ''u'' ''c'' all_probes ProbeManager_new))))"
  by code_simp

text \<open>The startup probe does not hold the others back: all three tasks run at once.\<close>

lemma startup_does_not_block:
  "map (snd \<circ> snd \<circ> snd) (pbm_tasks (start_probes uid name all_probes ProbeManager_new)) = [''readiness'', ''liveness'', ''startup'']"
  by (simp add: start_probes_def start_one_def all_probes_def ProbeManager_new_def)

end
