(* ===== verification/Volume_Files.thy ===== *)
theory Volume_Files
  imports Filesystem Worker_Text
begin

section \<open>The files of a pod's volumes\<close>

text \<open>
  The part of \<^verbatim>\<open>pod_worker/mod.rs\<close> that writes the files of config map, secret, downward API and projected volumes
  (\<^verbatim>\<open>ensure_pod_volumes\<close>, \<^verbatim>\<open>write_projected_volume\<close> and their helpers) and \<^verbatim>\<open>volume_fsgroup/mod.rs\<close>, on the file system
  of \<open>Filesystem\<close>. The API server is a record of answers, one for each attempt; listing and mounting volumes are
  arguments. Recursion into directories is bounded by \<open>depth_limit\<close>: a path of more components is longer than the
  4096 bytes the kernel accepts.
\<close>

subsection \<open>Loops\<close>

fun each_ok :: "('a \<Rightarrow> unit result fsio) \<Rightarrow> 'a list \<Rightarrow> unit result fsio" where
  "each_ok f [] = State_Monad.return (Inr ())"
| "each_ok f (x # xs) = do {
     r \<leftarrow> f x;
     case r of Inl e \<Rightarrow> State_Monad.return (Inl e) | Inr _ \<Rightarrow> each_ok f xs
   }"

fun each_do :: "('a \<Rightarrow> unit fsio) \<Rightarrow> 'a list \<Rightarrow> unit fsio" where
  "each_do f [] = State_Monad.return ()"
| "each_do f (x # xs) = do { f x; each_do f xs }"

text \<open>The operator \<^verbatim>\<open>?\<close> after a call and after a fallible step.\<close>

definition or_fail :: "(string \<Rightarrow> KubeletError) \<Rightarrow> 'a io fsio \<Rightarrow> ('a \<Rightarrow> 'b result fsio) \<Rightarrow> 'b result fsio" where
  "or_fail err m k = do {
     r \<leftarrow> m;
     case r of Inl e \<Rightarrow> State_Monad.return (Inl (err e)) | Inr x \<Rightarrow> k x
   }"

definition if_ok :: "unit result fsio \<Rightarrow> 'b result fsio \<Rightarrow> 'b result fsio" where
  "if_ok m k = do {
     r \<leftarrow> m;
     case r of Inl e \<Rightarrow> State_Monad.return (Inl e) | Inr _ \<Rightarrow> k
   }"

definition make_parent :: "faults \<Rightarrow> fpath \<Rightarrow> unit io fsio" where
  "make_parent io p = (if p = [] then State_Monad.return (Inr ()) else fs_create_dir_all io (butlast p))"

definition depth_limit :: nat where "depth_limit = 4096"

subsection \<open>Ownership\<close>

datatype FsGroupPolicy = FsGroupNone | FsGroupFile | ReadWriteOnceWithFsType

definition chown_gid :: "faults \<Rightarrow> u32 \<Rightarrow> fpath \<Rightarrow> unit result fsio" where
  "chown_gid io gid p =
     or_fail (\<lambda>e. EStorage (''lchown '' @ path_str p @ '' to gid '' @ show_nat (unat gid) @ '': '' @ e)) (fs_lchown io gid p)
       (\<lambda>_. State_Monad.return (Inr ()))"

fun apply_fs_group_recursive :: "faults \<Rightarrow> nat \<Rightarrow> u32 \<Rightarrow> fpath \<Rightarrow> unit result fsio" where
  "apply_fs_group_recursive io n gid p =
     if_ok (chown_gid io gid p)
       (or_fail (\<lambda>e. EStorage (''stat '' @ path_str p @ '': '' @ e)) (fs_stat io p) (\<lambda>metadata.
          if in_node metadata \<noteq> Directory then State_Monad.return (Inr ())
          else or_fail (\<lambda>e. EStorage (''chmod setgid: '' @ e)) (fs_set_permissions io (or (in_mode metadata) 0x400) p) (\<lambda>_. do {
            entries \<leftarrow> fs_read_dir io p;
            case entries of
              Inl _ \<Rightarrow> State_Monad.return (Inr ())
            | Inr names \<Rightarrow>
                each_ok (\<lambda>name. do {
                  l \<leftarrow> fs_lstat io (p @ [name]);
                  if (case l of Inr i \<Rightarrow> (case in_node i of Symlink _ _ \<Rightarrow> True | _ \<Rightarrow> False) | Inl _ \<Rightarrow> False)
                  then chown_gid io gid (p @ [name])
                  else (case n of 0 \<Rightarrow> State_Monad.return (Inr ()) | Suc m \<Rightarrow> apply_fs_group_recursive io m gid (p @ [name]))
                }) names
          })))"

declare apply_fs_group_recursive.simps [simp del]

definition apply_fs_group :: "faults \<Rightarrow> fpath \<Rightarrow> u32 \<Rightarrow> FsGroupPolicy \<Rightarrow> unit result fsio" where
  "apply_fs_group io p gid policy =
     (if policy = FsGroupNone then State_Monad.return (Inr ())
      else do {
        there \<leftarrow> fs_exists io p;
        if \<not> there then State_Monad.return (Inr ()) else apply_fs_group_recursive io depth_limit gid p
      })"

fun volume_has_correct_ownership :: "faults \<Rightarrow> nat \<Rightarrow> fpath \<Rightarrow> u32 \<Rightarrow> bool fsio" where
  "volume_has_correct_ownership io n p gid = do {
     there \<leftarrow> fs_exists io p;
     if \<not> there then State_Monad.return False
     else do {
       metadata \<leftarrow> fs_stat io p;
       case metadata of
         Inl _ \<Rightarrow> State_Monad.return False
       | Inr i \<Rightarrow>
           if in_gid i \<noteq> gid then State_Monad.return False
           else if in_node i \<noteq> Directory then State_Monad.return True
           else do {
             entries \<leftarrow> fs_read_dir io p;
             case entries of
               Inl _ \<Rightarrow> State_Monad.return True
             | Inr names \<Rightarrow>
                 (case n of
                    0 \<Rightarrow> State_Monad.return True
                  | Suc m \<Rightarrow>
                      foldr (\<lambda>name rest. do {
                        ok \<leftarrow> volume_has_correct_ownership io m (p @ [name]) gid;
                        if ok then rest else State_Monad.return False
                      }) names (State_Monad.return True))
           }
     }
   }"

declare volume_has_correct_ownership.simps [simp del]

subsection \<open>Single files\<close>

definition write_if_changed :: "faults \<Rightarrow> fpath \<Rightarrow> string \<Rightarrow> unit result fsio" where
  "write_if_changed io p v = do {
     existing \<leftarrow> fs_read io p;
     if existing = Inr v then State_Monad.return (Inr ())
     else or_fail EIo (fs_write io p v) (\<lambda>_. State_Monad.return (Inr ()))
   }"

definition file_mode :: "int option \<Rightarrow> int option \<Rightarrow> u32 \<Rightarrow> u32" where
  "file_mode item_mode default_mode fallback =
     (case item_mode of
        Some m \<Rightarrow> word_of_int m
      | None \<Rightarrow> (case default_mode of Some m \<Rightarrow> word_of_int m | None \<Rightarrow> fallback))"

text \<open>One file of a config map or secret: its directories, its content if it differs, its mode if one is given.\<close>

definition write_entry :: "faults \<Rightarrow> u32 option \<Rightarrow> fpath \<Rightarrow> string \<Rightarrow> unit result fsio" where
  "write_entry io mode p v =
     or_fail EIo (make_parent io p) (\<lambda>_.
       if_ok (write_if_changed io p v) (case mode of
         None \<Rightarrow> State_Monad.return (Inr ())
       | Some m \<Rightarrow> do { _ \<leftarrow> fs_set_permissions io m p; State_Monad.return (Inr ()) }))"

definition write_projected_configmap_files ::
  "faults \<Rightarrow> fpath \<Rightarrow> (string, string) hmap \<Rightarrow> KeyToPath list \<Rightarrow> int option \<Rightarrow> unit result fsio" where
  "write_projected_configmap_files io dir cm_data items default_mode =
     (if items = [] then
        each_ok (\<lambda>(key, v). write_entry io (map_option word_of_int default_mode) (join_path dir key) v) cm_data
      else
        each_ok (\<lambda>item. case hm_get cm_data (kp_key item) of
            None \<Rightarrow> State_Monad.return (Inr ())
          | Some v \<Rightarrow> write_entry io (Some (file_mode (kp_mode item) default_mode 0x1A4)) (join_path dir (kp_path item)) v) items)"

definition write_projected_secret_files ::
  "faults \<Rightarrow> fpath \<Rightarrow> (string, string) hmap \<Rightarrow> KeyToPath list \<Rightarrow> int option \<Rightarrow> unit result fsio" where
  "write_projected_secret_files io dir secret_data items default_mode =
     (if items = [] then
        each_ok (\<lambda>(key, v). write_entry io (Some (file_mode None default_mode 0x180)) (join_path dir key) v) secret_data
      else
        each_ok (\<lambda>item. case hm_get secret_data (kp_key item) of
            None \<Rightarrow> State_Monad.return (Inr ())
          | Some v \<Rightarrow> write_entry io (Some (file_mode (kp_mode item) default_mode 0x180)) (join_path dir (kp_path item)) v) items)"

definition configmap_data_bytes :: "(string, string) hmap \<Rightarrow> (string, string) hmap \<Rightarrow> (string, string) hmap" where
  "configmap_data_bytes data binary_data = hm_extend (hm_extend [] data) binary_data"

definition expected_configmap_paths :: "fpath \<Rightarrow> (string, string) hmap \<Rightarrow> KeyToPath list \<Rightarrow> fpath list" where
  "expected_configmap_paths dir cm_data items =
     (if items = [] then map (join_path dir) (hm_keys cm_data) else map (\<lambda>item. join_path dir (kp_path item)) items)"

definition expected_secret_paths :: "fpath \<Rightarrow> (string, string) hmap \<Rightarrow> KeyToPath list \<Rightarrow> fpath list" where
  "expected_secret_paths dir secret_data items =
     (if items = [] then map (join_path dir) (hm_keys secret_data) else map (\<lambda>item. join_path dir (kp_path item)) items)"


subsection \<open>Clean-up\<close>

definition remove_if_dangling :: "faults \<Rightarrow> fpath \<Rightarrow> unit fsio" where
  "remove_if_dangling io p = do {
     l \<leftarrow> fs_lstat io p;
     if (case l of Inr i \<Rightarrow> (case in_node i of Symlink _ _ \<Rightarrow> True | _ \<Rightarrow> False) | Inl _ \<Rightarrow> False)
     then do {
       there \<leftarrow> fs_exists io p;
       if there then State_Monad.return () else do { _ \<leftarrow> fs_remove_file io p; State_Monad.return () }
     }
     else State_Monad.return ()
   }"

definition remove_dangling_symlinks_in_dir :: "faults \<Rightarrow> fpath \<Rightarrow> unit fsio" where
  "remove_dangling_symlinks_in_dir io dir = do {
     entries \<leftarrow> fs_read_dir io dir;
     case entries of
       Inl _ \<Rightarrow> State_Monad.return ()
     | Inr names \<Rightarrow> each_do (\<lambda>name. remove_if_dangling io (dir @ [name])) names
   }"

fun remove_dir_contents_recursive :: "faults \<Rightarrow> nat \<Rightarrow> fpath \<Rightarrow> unit fsio" where
  "remove_dir_contents_recursive io n dir = do {
     entries \<leftarrow> fs_read_dir io dir;
     case entries of
       Inl _ \<Rightarrow> State_Monad.return ()
     | Inr names \<Rightarrow>
         each_do (\<lambda>name. do {
           d \<leftarrow> fs_is_dir io (dir @ [name]);
           if d then do {
             (case n of 0 \<Rightarrow> State_Monad.return () | Suc m \<Rightarrow> remove_dir_contents_recursive io m (dir @ [name]));
             _ \<leftarrow> fs_remove_dir io (dir @ [name]);
             State_Monad.return ()
           }
           else do {
             f \<leftarrow> fs_is_file io (dir @ [name]);
             if f then do { _ \<leftarrow> fs_remove_file io (dir @ [name]); State_Monad.return () } else State_Monad.return ()
           }
         }) names
   }"

declare remove_dir_contents_recursive.simps [simp del]

fun remove_stale_files_recursive :: "faults \<Rightarrow> nat \<Rightarrow> fpath list \<Rightarrow> fpath \<Rightarrow> unit fsio" where
  "remove_stale_files_recursive io n expected dir = do {
     entries \<leftarrow> fs_read_dir io dir;
     case entries of
       Inl _ \<Rightarrow> State_Monad.return ()
     | Inr names \<Rightarrow>
         each_do (\<lambda>name. do {
           d \<leftarrow> fs_is_dir io (dir @ [name]);
           if d then do {
             (case n of 0 \<Rightarrow> State_Monad.return () | Suc m \<Rightarrow> remove_stale_files_recursive io m expected (dir @ [name]));
             left \<leftarrow> fs_read_dir io (dir @ [name]);
             if left = Inr [] then do { _ \<leftarrow> fs_remove_dir io (dir @ [name]); State_Monad.return () } else State_Monad.return ()
           }
           else do {
             f \<leftarrow> fs_is_file io (dir @ [name]);
             if f \<and> dir @ [name] \<notin> set expected
             then do { _ \<leftarrow> fs_remove_file io (dir @ [name]); State_Monad.return () }
             else State_Monad.return ()
           }
         }) names
   }"

declare remove_stale_files_recursive.simps [simp del]

definition clear_volume_dir :: "faults \<Rightarrow> fpath \<Rightarrow> unit fsio" where
  "clear_volume_dir io dir = remove_dir_contents_recursive io depth_limit dir"

definition cleanup_stale_volume_files :: "faults \<Rightarrow> fpath \<Rightarrow> fpath list \<Rightarrow> unit fsio" where
  "cleanup_stale_volume_files io dir expected = remove_stale_files_recursive io depth_limit expected dir"

subsection \<open>Answers of the API server\<close>

text \<open>
  \<open>va_configmap\<close> and \<open>va_secret\<close>: the answer to the \<open>k\<close>-th request for a name (an error's text, or the data and binary
  data); \<open>va_token\<close>: the token granted for an audience list and lifetime, if one came back.
\<close>

record VolumeApi =
  va_client :: bool
  va_configmap :: "string \<Rightarrow> nat \<Rightarrow> string + ((string, string) hmap \<times> (string, string) hmap)"
  va_secret :: "string \<Rightarrow> nat \<Rightarrow> string + (string, string) hmap"
  va_token :: "string list \<Rightarrow> nat \<Rightarrow> string option"

definition token_audiences :: "string option \<Rightarrow> string list" where
  "token_audiences audience = (case audience of Some aud \<Rightarrow> if aud \<noteq> [] then [aud] else [] | None \<Rightarrow> [])"

definition request_service_account_token :: "VolumeApi \<Rightarrow> string option \<Rightarrow> nat option \<Rightarrow> string option" where
  "request_service_account_token api audience expiration_seconds =
     (if \<not> va_client api then None
      else case va_token api (token_audiences audience) (case expiration_seconds of Some s \<Rightarrow> s | None \<Rightarrow> 3600) of
        Some token \<Rightarrow> if token \<noteq> [] then Some token else None
      | None \<Rightarrow> None)"

text \<open>Up to five attempts; only the transient refusal of the node authorizer is tried again.\<close>

fun fetch_with_retry :: "(nat \<Rightarrow> string + 'a) \<Rightarrow> string \<Rightarrow> nat \<Rightarrow> nat \<Rightarrow> 'a result" where
  "fetch_with_retry get what attempt tries =
     (case get attempt of
        Inr d \<Rightarrow> Inr d
      | Inl e \<Rightarrow>
          let err = ERuntime (''failed to fetch '' @ what @ '' for projected volume: '' @ e)
          in case tries of
               Suc m \<Rightarrow> if is_node_authz_transient_error err then fetch_with_retry get what (attempt + 1) m else Inl err
             | 0 \<Rightarrow> Inl err)"

type_synonym fetched = "(string, (string, string) hmap) hmap \<times> (string, (string, string) hmap) hmap"

fun fetch_sources :: "VolumeApi \<Rightarrow> ProjectedVolumeSource list \<Rightarrow> fetched \<Rightarrow> fetched result" where
  "fetch_sources api [] got = Inr got"
| "fetch_sources api (PConfigMap name items optional # sources) (cms, secrets) =
     (if hm_contains_key name cms then fetch_sources api sources (cms, secrets)
      else case fetch_with_retry (va_configmap api name) (''ConfigMap '' @ quoted name) 1 4 of
        Inr (data, binary) \<Rightarrow> fetch_sources api sources (hm_insert name (configmap_data_bytes data binary) cms, secrets)
      | Inl e \<Rightarrow> if optional then fetch_sources api sources (cms, secrets) else Inl e)"
| "fetch_sources api (PSecret name items optional # sources) (cms, secrets) =
     (if hm_contains_key name secrets then fetch_sources api sources (cms, secrets)
      else case fetch_with_retry (va_secret api name) (''Secret '' @ quoted name) 1 4 of
        Inr data \<Rightarrow> fetch_sources api sources (cms, hm_insert name data secrets)
      | Inl e \<Rightarrow> if optional then fetch_sources api sources (cms, secrets) else Inl e)"
| "fetch_sources api (_ # sources) got = fetch_sources api sources got"


subsection \<open>Projected volumes\<close>

definition is_configmap_source :: "ProjectedVolumeSource \<Rightarrow> bool" where
  "is_configmap_source s = (case s of PConfigMap _ _ _ \<Rightarrow> True | _ \<Rightarrow> False)"

definition is_secret_source :: "ProjectedVolumeSource \<Rightarrow> bool" where
  "is_secret_source s = (case s of PSecret _ _ _ \<Rightarrow> True | _ \<Rightarrow> False)"

definition source_optional :: "ProjectedVolumeSource \<Rightarrow> bool" where
  "source_optional s = (case s of PConfigMap _ _ optional \<Rightarrow> optional | PSecret _ _ optional \<Rightarrow> optional | _ \<Rightarrow> True)"

definition write_downward_item :: "faults \<Rightarrow> NodeFacts \<Rightarrow> PodSpec \<Rightarrow> string option \<Rightarrow> fpath \<Rightarrow> int option \<Rightarrow> DownwardAPIVolumeFile \<Rightarrow> unit result fsio" where
  "write_downward_item io nf pod pod_ip dir default_mode item =
     (let v = resolve_downward_api_value nf pod item pod_ip; p = join_path dir (da_path item)
      in if v = [] \<and> da_field_ref item \<noteq> None then State_Monad.return (Inr ())
         else or_fail EIo (make_parent io p) (\<lambda>_.
                or_fail EIo (fs_write io p v) (\<lambda>_. do {
                  _ \<leftarrow> fs_set_permissions io (file_mode (da_mode item) default_mode 0x1A4) p;
                  State_Monad.return (Inr ())
                })))"

definition write_token :: "faults \<Rightarrow> VolumeApi \<Rightarrow> fpath \<Rightarrow> int option \<Rightarrow> string option \<Rightarrow> nat option \<Rightarrow> string \<Rightarrow> unit result fsio" where
  "write_token io api dir default_mode audience expiration_seconds path =
     (let p = join_path dir path
      in or_fail EIo (make_parent io p) (\<lambda>_.
           case request_service_account_token api audience expiration_seconds of
             Some token \<Rightarrow>
               if_ok (write_if_changed io p token) (do {
                 _ \<leftarrow> fs_set_permissions io (file_mode None default_mode 0x180) p;
                 State_Monad.return (Inr ())
               })
           | None \<Rightarrow> do { _ \<leftarrow> fs_exists io p; State_Monad.return (Inr ()) }))"

definition write_source ::
  "faults \<Rightarrow> VolumeApi \<Rightarrow> NodeFacts \<Rightarrow> PodSpec \<Rightarrow> string option \<Rightarrow> fpath \<Rightarrow> int option \<Rightarrow> fetched \<Rightarrow> ProjectedVolumeSource \<Rightarrow> unit result fsio" where
  "write_source io api nf pod pod_ip dir default_mode got source =
     (case source of
        PConfigMap name items _ \<Rightarrow>
          (case hm_get (fst got) name of
             Some data \<Rightarrow> write_projected_configmap_files io dir data items default_mode
           | None \<Rightarrow> State_Monad.return (Inr ()))
      | PSecret name items _ \<Rightarrow>
          (case hm_get (snd got) name of
             Some data \<Rightarrow> write_projected_secret_files io dir data items default_mode
           | None \<Rightarrow> State_Monad.return (Inr ()))
      | PDownwardAPI items \<Rightarrow> each_ok (write_downward_item io nf pod pod_ip dir default_mode) items
      | PServiceAccountToken audience expiration_seconds path \<Rightarrow>
          write_token io api dir default_mode audience expiration_seconds path)"

definition expected_of_source :: "fpath \<Rightarrow> fetched \<Rightarrow> ProjectedVolumeSource \<Rightarrow> fpath list" where
  "expected_of_source dir got source =
     (case source of
        PConfigMap name items _ \<Rightarrow>
          (case hm_get (fst got) name of Some data \<Rightarrow> expected_configmap_paths dir data items | None \<Rightarrow> [])
      | PSecret name items _ \<Rightarrow>
          (case hm_get (snd got) name of Some data \<Rightarrow> expected_secret_paths dir data items | None \<Rightarrow> [])
      | PServiceAccountToken _ _ path \<Rightarrow> [join_path dir path]
      | PDownwardAPI items \<Rightarrow> map (\<lambda>item. join_path dir (da_path item)) items)"

definition write_sources ::
  "faults \<Rightarrow> VolumeApi \<Rightarrow> NodeFacts \<Rightarrow> PodSpec \<Rightarrow> string option \<Rightarrow> fpath \<Rightarrow> int option \<Rightarrow> fetched \<Rightarrow> ProjectedVolumeSource list \<Rightarrow> unit result fsio" where
  "write_sources io api nf pod pod_ip dir default_mode got sources =
     if_ok (each_ok (write_source io api nf pod pod_ip dir default_mode got) sources) (do {
       cleanup_stale_volume_files io dir (concat (map (expected_of_source dir got) sources));
       State_Monad.return (Inr ())
     })"

definition write_projected_volume ::
  "faults \<Rightarrow> VolumeApi \<Rightarrow> NodeFacts \<Rightarrow> string \<Rightarrow> PodSpec \<Rightarrow> string \<Rightarrow> ProjectedVolumeSource list \<Rightarrow> int option \<Rightarrow> string option \<Rightarrow> unit result fsio" where
  "write_projected_volume io api nf root_dir pod volume_name sources default_mode pod_ip =
     (let dir = comps (volume_target_path root_dir pod volume_name)
      in or_fail EIo (fs_create_dir_all io dir) (\<lambda>_. do {
           remove_dangling_symlinks_in_dir io dir;
           let needs_client = list_ex is_configmap_source sources \<or> list_ex is_secret_source sources;
           if needs_client \<and> \<not> va_client api then
             State_Monad.return (if list_all source_optional sources then Inr ()
               else Inl (ERuntime ''failed to create kube client for projected volume: no client available''))
           else case fetch_sources api sources ([], []) of
             Inl e \<Rightarrow> State_Monad.return (Inl e)
           | Inr got \<Rightarrow> write_sources io api nf pod pod_ip dir default_mode got sources
         }))"

subsection \<open>Config map, secret and downward API volumes\<close>

definition refresh_downward_item :: "faults \<Rightarrow> NodeFacts \<Rightarrow> PodSpec \<Rightarrow> string option \<Rightarrow> fpath \<Rightarrow> int option \<Rightarrow> DownwardAPIVolumeFile \<Rightarrow> unit fsio" where
  "refresh_downward_item io nf pod pod_ip dir default_mode item =
     (let v = resolve_downward_api_value nf pod item pod_ip; p = join_path dir (da_path item)
      in if v = [] \<and> da_field_ref item \<noteq> None then State_Monad.return ()
         else do {
           _ \<leftarrow> make_parent io p;
           _ \<leftarrow> fs_write io p v;
           _ \<leftarrow> fs_set_permissions io (file_mode (da_mode item) default_mode 0x1A4) p;
           State_Monad.return ()
         })"

definition refresh_downward_volume :: "faults \<Rightarrow> NodeFacts \<Rightarrow> string \<Rightarrow> PodSpec \<Rightarrow> string option \<Rightarrow> VolumeSpec \<Rightarrow> unit fsio" where
  "refresh_downward_volume io nf root_dir pod pod_ip v =
     (case vs_source v of
        VDownwardAPI items default_mode \<Rightarrow> do {
          let dir = comps (volume_target_path root_dir pod (vs_name v));
          _ \<leftarrow> fs_create_dir_all io dir;
          each_do (refresh_downward_item io nf pod pod_ip dir default_mode) items
        }
      | _ \<Rightarrow> State_Monad.return ())"

definition refresh_projected_volume :: "faults \<Rightarrow> VolumeApi \<Rightarrow> NodeFacts \<Rightarrow> string \<Rightarrow> PodSpec \<Rightarrow> string option \<Rightarrow> VolumeSpec \<Rightarrow> unit result fsio" where
  "refresh_projected_volume io api nf root_dir pod pod_ip v =
     (case vs_source v of
        Projected sources default_mode \<Rightarrow> write_projected_volume io api nf root_dir pod (vs_name v) sources default_mode pod_ip
      | _ \<Rightarrow> State_Monad.return (Inr ()))"

text \<open>The config map has arrived: write, and on success drop what is no longer expected.\<close>

definition update_configmap_dir :: "faults \<Rightarrow> fpath \<Rightarrow> (string, string) hmap \<Rightarrow> KeyToPath list \<Rightarrow> int option \<Rightarrow> unit fsio" where
  "update_configmap_dir io dir data items default_mode = do {
     r \<leftarrow> write_projected_configmap_files io dir data items (Some (case default_mode of Some m \<Rightarrow> m | None \<Rightarrow> 0x1A4));
     case r of
       Inl _ \<Rightarrow> State_Monad.return ()
     | Inr _ \<Rightarrow> cleanup_stale_volume_files io dir (expected_configmap_paths dir data items)
   }"

definition update_secret_dir :: "faults \<Rightarrow> fpath \<Rightarrow> (string, string) hmap \<Rightarrow> KeyToPath list \<Rightarrow> int option \<Rightarrow> unit fsio" where
  "update_secret_dir io dir data items default_mode = do {
     r \<leftarrow> write_projected_secret_files io dir data items (Some (case default_mode of Some m \<Rightarrow> m | None \<Rightarrow> 0x1A4));
     case r of
       Inl _ \<Rightarrow> State_Monad.return ()
     | Inr _ \<Rightarrow> cleanup_stale_volume_files io dir (expected_secret_paths dir data items)
   }"

definition refresh_configmap_volume :: "faults \<Rightarrow> VolumeApi \<Rightarrow> string \<Rightarrow> PodSpec \<Rightarrow> VolumeSpec \<Rightarrow> unit result fsio" where
  "refresh_configmap_volume io api root_dir pod v =
     (case vs_source v of
        VConfigMap name items optional default_mode \<Rightarrow> do {
          let dir = comps (volume_target_path root_dir pod (vs_name v));
          _ \<leftarrow> fs_create_dir_all io dir;
          remove_dangling_symlinks_in_dir io dir;
          if va_client api then
            (case va_configmap api name 1 of
               Inr (data, binary) \<Rightarrow> do {
                 update_configmap_dir io dir (configmap_data_bytes data binary) items default_mode;
                 State_Monad.return (Inr ())
               }
             | Inl e \<Rightarrow>
                 if optional then do { clear_volume_dir io dir; State_Monad.return (Inr ()) }
                 else State_Monad.return (Inl (ERuntime (''Failed to fetch ConfigMap '' @ quoted name @
                   '' for non-optional volume '' @ quoted (vs_name v) @ '': '' @ e))))
          else State_Monad.return (if optional then Inr ()
            else Inl (ERuntime (''No kube client available to fetch ConfigMap '' @ quoted name @ '' for volume '' @ quoted (vs_name v))))
        }
      | _ \<Rightarrow> State_Monad.return (Inr ()))"

definition refresh_secret_volume :: "faults \<Rightarrow> VolumeApi \<Rightarrow> string \<Rightarrow> PodSpec \<Rightarrow> VolumeSpec \<Rightarrow> unit result fsio" where
  "refresh_secret_volume io api root_dir pod v =
     (case vs_source v of
        VSecret name items optional default_mode \<Rightarrow> do {
          let dir = comps (volume_target_path root_dir pod (vs_name v));
          _ \<leftarrow> fs_create_dir_all io dir;
          remove_dangling_symlinks_in_dir io dir;
          if va_client api then
            (case va_secret api name 1 of
               Inr data \<Rightarrow> do { update_secret_dir io dir data items default_mode; State_Monad.return (Inr ()) }
             | Inl e \<Rightarrow>
                 if optional then do { clear_volume_dir io dir; State_Monad.return (Inr ()) }
                 else State_Monad.return (Inl (ERuntime (''Failed to fetch Secret '' @ quoted name @
                   '' for non-optional volume '' @ quoted (vs_name v) @ '': '' @ e))))
          else State_Monad.return (Inl (ERuntime (''No kube client available to fetch Secret '' @ quoted name @
                 '' for volume '' @ quoted (vs_name v))))
        }
      | _ \<Rightarrow> State_Monad.return (Inr ()))"

subsection \<open>All volumes of a pod\<close>

record MountRequest =
  mr_pod_uid :: string
  mr_pod_namespace :: string
  mr_volume_name :: string
  mr_volume_spec :: VolumeSpec
  mr_mount_path :: string
  mr_read_only :: bool

definition mount_request :: "string \<Rightarrow> PodSpec \<Rightarrow> VolumeSpec \<Rightarrow> MountRequest" where
  "mount_request root_dir pod v =
     \<lparr>mr_pod_uid = ps_uid pod, mr_pod_namespace = pr_namespace (ps_pod_ref pod), mr_volume_name = vs_name v, mr_volume_spec = v,
      mr_mount_path = volume_target_path root_dir pod (vs_name v),
      mr_read_only = (case vs_source v of PersistentVolumeClaim _ read_only \<Rightarrow> read_only | _ \<Rightarrow> False)\<rparr>"

definition fs_group_policy :: "PodSecurityContext \<Rightarrow> FsGroupPolicy" where
  "fs_group_policy sc = (if psc_fs_group_change_policy sc = Some ''OnRootMismatch'' then ReadWriteOnceWithFsType else FsGroupFile)"

definition apply_fs_groups :: "faults \<Rightarrow> string \<Rightarrow> PodSpec \<Rightarrow> unit fsio" where
  "apply_fs_groups io root_dir pod =
     (case ps_security_context pod of
        Some sc \<Rightarrow>
          (case psc_fs_group sc of
             Some gid \<Rightarrow>
               each_do (\<lambda>v. do {
                 _ \<leftarrow> apply_fs_group io (comps (volume_target_path root_dir pod (vs_name v))) (of_nat gid) (fs_group_policy sc);
                 State_Monad.return ()
               }) (ps_volumes pod)
           | None \<Rightarrow> State_Monad.return ())
      | None \<Rightarrow> State_Monad.return ())"

definition ensure_pod_volumes ::
  "faults \<Rightarrow> VolumeApi \<Rightarrow> NodeFacts \<Rightarrow> string list result \<Rightarrow> (MountRequest list \<Rightarrow> unit result fsio) \<Rightarrow> string \<Rightarrow> PodSpec \<Rightarrow> string option \<Rightarrow>
     unit result fsio" where
  "ensure_pod_volumes io api nf mounted mount root_dir pod pod_ip =
     (if ps_volumes pod = [] then State_Monad.return (Inr ())
      else if pr_name (ps_pod_ref pod) = [] then
        State_Monad.return (Inl (ERuntime (''pod name is empty; cannot resolve DownwardAPI fieldRefs '' @ [CHR 0xE2, CHR 0x80, CHR 0x94] @ '' will retry'')))
      else case mounted of
        Inl e \<Rightarrow> State_Monad.return (Inl e)
      | Inr already \<Rightarrow>
          let missing = filter (\<lambda>v. vs_name v \<notin> set already) (ps_volumes pod)
          in if_ok (if missing = [] then State_Monad.return (Inr ()) else mount (map (mount_request root_dir pod) missing)) (do {
               each_do (refresh_downward_volume io nf root_dir pod pod_ip) (ps_volumes pod);
               if_ok (each_ok (refresh_projected_volume io api nf root_dir pod pod_ip) (ps_volumes pod))
                 (if_ok (each_ok (refresh_configmap_volume io api root_dir pod) (ps_volumes pod))
                   (if_ok (each_ok (refresh_secret_volume io api root_dir pod) (ps_volumes pod)) (do {
                      apply_fs_groups io root_dir pod;
                      State_Monad.return (Inr ())
                    })))
             }))"


subsection \<open>Runs without faults\<close>

lemma yields_or_fail: "yields m t (Inr x) t' \<Longrightarrow> yields (k x) t' r t'' \<Longrightarrow> yields (or_fail err m k) t r t''"
  unfolding or_fail_def by (erule yields_bind) simp

lemma yields_or_fail_Inl: "yields m t (Inl e) t' \<Longrightarrow> yields (or_fail err m k) t (Inl (err e)) t'"
  unfolding or_fail_def by (erule yields_bind) (simp add: yields_return)

lemma yields_if_ok: "yields m t (Inr ()) t' \<Longrightarrow> yields k t' r t'' \<Longrightarrow> yields (if_ok m k) t r t''"
  unfolding if_ok_def by (erule yields_bind) simp

lemma yields_each_ok_Cons: "yields (f x) t (Inr ()) t' \<Longrightarrow> yields (each_ok f xs) t' r t'' \<Longrightarrow> yields (each_ok f (x # xs)) t r t''"
  by (simp, erule yields_bind) simp

lemma yields_each_do_Cons: "yields (f x) t () t' \<Longrightarrow> yields (each_do f xs) t' () t'' \<Longrightarrow> yields (each_do f (x # xs)) t () t''"
  by (simp, erule yields_bind) simp

lemma make_parent_creates:
  assumes "quiet io" "tree_ok t" "free_path t p" "p \<noteq> []"
  shows "\<exists>t'. yields (make_parent io p) t (Inr ()) t' \<and> adds_dirs (butlast p) t t'"
proof -
  have pre: "prefix (butlast p) p" "butlast p \<noteq> p" using butlast_neq [OF assms(4)] by (simp_all add: prefixeq_butlast)
  have "file_at t (butlast p) = None" using free_pathD(2) [OF assms(3)] pre by (simp add: strict_prefix_def)
  then show ?thesis using create_dir_all_creates [OF assms(1,2) free_path_prefix [OF assms(3) pre(1)]] assms(4) by (simp add: make_parent_def)
qed

lemma t_read_file: "tree_ok t \<Longrightarrow> free_path t p \<Longrightarrow> p \<noteq> [] \<Longrightarrow> dir_at t (butlast p) \<Longrightarrow> t_read p t = Inr v \<longleftrightarrow> file_at t p = Some v"
  by (cases t p rule: node_cases) (auto simp: t_read_def t_stat_def locate_free)

lemma write_if_changed_puts:
  assumes "quiet io" "tree_ok t" "free_path t p" "p \<noteq> []" "dir_at t (butlast p)" "\<not> dir_at t p"
  shows "\<exists>t'. yields (write_if_changed io p v) t (Inr ()) t' \<and> puts p v t t'"
proof (cases "t_read p t = Inr v")
  case True
  have "yields (write_if_changed io p v) t (Inr ()) t" unfolding write_if_changed_def
    by (rule yields_bind [OF yields_calls(3) [OF assms(1)]]) (simp add: True yields_return)
  moreover have "file_at t p = Some v" using True t_read_file [OF assms(2-5)] by simp
  then have "puts p v t t" using assms(2) dir_at_below [OF assms(2,5)] by (auto simp: puts_def)
  ultimately show ?thesis by blast
next
  case False
  note w = write_puts [OF assms(2-6), of v]
  have "yields (fs_write io p v) t (Inr ()) (snd (t_write p v t))" using yields_write [OF assms(1)] w(1) by metis
  then have "yields (write_if_changed io p v) t (Inr ()) (snd (t_write p v t))" unfolding write_if_changed_def
    by (intro yields_bind [OF yields_calls(3) [OF assms(1)]]) (simp add: False, erule yields_or_fail, rule yields_return)
  then show ?thesis using w(2) by blast
qed

lemma parent_made:
  assumes "quiet io" "tree_ok t" "free_path t p" "p \<noteq> []" "\<not> dir_at t p"
  obtains t1 where "yields (make_parent io p) t (Inr ()) t1" "adds_dirs (butlast p) t t1" "tree_ok t1" "free_path t1 p"
    "dir_at t1 (butlast p)" "\<not> dir_at t1 p" "\<And>k. dir_at t1 k \<Longrightarrow> dir_at t k \<or> strict_prefix k p"
proof -
  obtain t1 where t1: "yields (make_parent io p) t (Inr ()) t1" "adds_dirs (butlast p) t t1"
    using make_parent_creates [OF assms(1-4)] by blast
  have pre: "prefix (butlast p) p" "butlast p \<noteq> p" using butlast_neq [OF assms(4)] by (simp_all add: prefixeq_butlast)
  have f: "free_path t (butlast p)" using free_path_prefix [OF assms(3) pre(1)] .
  have n: "file_at t (butlast p) = None" using free_pathD(2) [OF assms(3)] pre by (simp add: strict_prefix_def)
  have d: "dir_at t1 k \<longleftrightarrow> dir_at t k \<or> prefix k (butlast p)" for k using adds_dirs_dir [OF t1(2) f n] .
  have s: "strict_prefix k p" if "prefix k (butlast p)" for k
    using prefix_order.trans [OF that pre(1)] prefix_length_le [OF that] assms(4) by (cases p rule: rev_cases) (auto simp: strict_prefix_def)
  show ?thesis
  proof (rule that [OF t1 adds_dirsD(1) [OF t1(2)]])
    show "free_path t1 p" using free_path_cong [of t1 t p] adds_dirs_files [OF t1(2)] assms(3) by blast
    show "dir_at t1 (butlast p)" using d by simp
    show "\<not> dir_at t1 p" using d [of p] assms(5) s [of p] by (auto simp: strict_prefix_def)
    show "dir_at t k \<or> strict_prefix k p" if "dir_at t1 k" for k using that d [of k] s [of k] by blast
  qed
qed

lemma write_entry_puts:
  assumes "quiet io" "tree_ok t" "free_path t p" "p \<noteq> []" "\<not> dir_at t p"
  shows "\<exists>t'. yields (write_entry io mode p v) t (Inr ()) t' \<and> puts p v t t'"
proof -
  obtain t1 where t1: "yields (make_parent io p) t (Inr ()) t1" "adds_dirs (butlast p) t t1" "tree_ok t1" "free_path t1 p"
      "dir_at t1 (butlast p)" "\<not> dir_at t1 p" using parent_made [OF assms] by metis
  obtain t2 where t2: "yields (write_if_changed io p v) t1 (Inr ()) t2" "puts p v t1 t2"
    using write_if_changed_puts [OF assms(1) t1(3,4) assms(4) t1(5,6)] by blast
  have p2: "puts p v t t2" using puts_after_dirs [OF t1(2) assms(3) t2(2) assms(4)] .
  show ?thesis
  proof (cases mode)
    case None
    then have "yields (write_entry io mode p v) t (Inr ()) t2" unfolding write_entry_def
      by (intro yields_or_fail [OF t1(1)] yields_if_ok [OF t2(1)]) (simp add: yields_return)
    then show ?thesis using p2 by blast
  next
    case (Some m)
    have "yields (write_entry io mode p v) t (Inr ()) (snd (t_chmod m p t2))" unfolding write_entry_def Some option.case
      by (intro yields_or_fail [OF t1(1)] yields_if_ok [OF t2(1)] yields_bind [OF yields_calls(9) [OF assms(1)]] yields_return)
    then show ?thesis using puts_chmod [OF p2] by blast
  qed
qed

text \<open>Several files, in the order given; the last one of a path wins.\<close>

definition placeable :: "tree \<Rightarrow> fpath list \<Rightarrow> bool" where
  "placeable t ps \<longleftrightarrow>
     (\<forall>p \<in> set ps. p \<noteq> [] \<and> free_path t p \<and> \<not> dir_at t p \<and> (\<forall>p' \<in> set ps. \<not> strict_prefix p' p))"

lemma placeableD:
  assumes "placeable t ps" "p \<in> set ps"
  shows "p \<noteq> []" "free_path t p" "\<not> dir_at t p" "p' \<in> set ps \<Longrightarrow> \<not> strict_prefix p' p"
  using assms unfolding placeable_def by blast+

text \<open>Files are written one after the other; directories are added above the paths \<open>ps\<close> only.\<close>

definition puts_all :: "fpath list \<Rightarrow> (fpath \<times> string) list \<Rightarrow> tree \<Rightarrow> tree \<Rightarrow> bool" where
  "puts_all ps es t t' \<longleftrightarrow> tree_ok t' \<and> file_at t' = file_at t ++ map_of (rev es) \<and> is_link t' = is_link t \<and>
     (\<forall>k. dir_at t k \<longrightarrow> dir_at t' k) \<and> (\<forall>k. dir_at t' k \<longrightarrow> dir_at t k \<or> (\<exists>p \<in> set ps. strict_prefix k p)) \<and> fst ` set es \<subseteq> set ps"

lemma puts_allD:
  assumes "puts_all ps es t t'"
  shows "tree_ok t'" "file_at t' = file_at t ++ map_of (rev es)" "is_link t' = is_link t" "dir_at t k \<Longrightarrow> dir_at t' k"
    "dir_at t' k \<Longrightarrow> dir_at t k \<or> (\<exists>p \<in> set ps. strict_prefix k p)" "fst ` set es \<subseteq> set ps"
  using assms unfolding puts_all_def by blast+

lemma puts_all_Nil: "tree_ok t \<Longrightarrow> puts_all ps [] t t"
  by (simp add: puts_all_def)

lemma puts_all_single: "puts p v t t' \<Longrightarrow> p \<in> set ps \<Longrightarrow> puts_all ps [(p, v)] t t'"
  by (auto simp: puts_def puts_all_def)

lemma puts_all_append:
  assumes "puts_all ps es t t1" "puts_all ps es' t1 t2"
  shows "puts_all ps (es @ es') t t2"
  unfolding puts_all_def
proof (intro conjI allI impI)
  show "tree_ok t2" "is_link t2 = is_link t" using puts_allD(1,3) assms by simp_all
  show "file_at t2 = file_at t ++ map_of (rev (es @ es'))" using puts_allD(2) [OF assms(1)] puts_allD(2) [OF assms(2)] by simp
  show "dir_at t k \<Longrightarrow> dir_at t2 k" for k using puts_allD(4) [OF assms(1), of k] puts_allD(4) [OF assms(2), of k] by blast
  show "dir_at t2 k \<Longrightarrow> dir_at t k \<or> (\<exists>p \<in> set ps. strict_prefix k p)" for k using puts_allD(5) [OF assms(2), of k] puts_allD(5) [OF assms(1), of k] by blast
  show "fst ` set (es @ es') \<subseteq> set ps" using puts_allD(6) [OF assms(1)] puts_allD(6) [OF assms(2)] by auto
qed

lemma placeable_puts_all:
  assumes "placeable t ps" "puts_all ps es t t'"
  shows "placeable t' ps"
proof -
  have "q \<noteq> [] \<and> free_path t' q \<and> \<not> dir_at t' q \<and> (\<forall>p' \<in> set ps. \<not> strict_prefix p' q)" if "q \<in> set ps" for q
  proof -
    note q = placeableD [OF assms(1) that]
    have "file_at t' r = None" if "prefix r q" "r \<noteq> q" for r
    proof -
      have r: "strict_prefix r q" using that by (simp add: strict_prefix_def)
      then have "r \<notin> fst ` set es" using q(4) puts_allD(6) [OF assms(2)] by blast
      then have "map_of (rev es) r = None" by (simp add: map_of_eq_None_iff)
      then show ?thesis using free_pathD(2) [OF q(2) r] puts_allD(2) [OF assms(2)] by (simp add: map_add_def)
    qed
    then have "free_path t' q" using q(2) puts_allD(3) [OF assms(2)] by (simp add: free_path_def)
    moreover have "\<not> strict_prefix q p" if "p \<in> set ps" for p using placeableD(4) [OF assms(1) that \<open>q \<in> set ps\<close>] .
    then have "\<not> dir_at t' q" using puts_allD(5) [OF assms(2)] q(3) by blast
    ultimately show ?thesis using q(1,4) by blast
  qed
  then show ?thesis by (simp add: placeable_def)
qed

lemma placeable_subset: "placeable t ps \<Longrightarrow> set qs \<subseteq> set ps \<Longrightarrow> placeable t qs"
  unfolding placeable_def by (metis subsetD)

text \<open>A sequence of steps each of which writes its entries writes all of them.\<close>

definition writes :: "fpath list \<Rightarrow> unit result fsio \<Rightarrow> (fpath \<times> string) list \<Rightarrow> bool" where
  "writes ps m es \<longleftrightarrow> (\<forall>t. tree_ok t \<longrightarrow> placeable t ps \<longrightarrow> (\<exists>t'. yields m t (Inr ()) t' \<and> puts_all ps es t t'))"

lemma writes_return: "writes ps (State_Monad.return (Inr ())) []"
  unfolding writes_def by (intro allI impI exI conjI, rule yields_return, erule puts_all_Nil)

lemma writes_entry: "quiet io \<Longrightarrow> p \<in> set ps \<Longrightarrow> writes ps (write_entry io m p v) [(p, v)]"
  unfolding writes_def using write_entry_puts [of io _ p m v] puts_all_single [of p v _ _ ps] placeableD [of _ ps p] by metis

lemma writes_if_ok:
  assumes "writes ps m es" "writes ps k es'"
  shows "writes ps (if_ok m k) (es @ es')"
  unfolding writes_def
proof (intro allI impI)
  fix t assume t: "tree_ok t" "placeable t ps"
  obtain t1 where t1: "yields m t (Inr ()) t1" "puts_all ps es t t1" using assms(1) t unfolding writes_def by blast
  then obtain t2 where t2: "yields k t1 (Inr ()) t2" "puts_all ps es' t1 t2"
    using assms(2) puts_allD(1) placeable_puts_all [OF t(2)] unfolding writes_def by blast
  show "\<exists>t'. yields (if_ok m k) t (Inr ()) t' \<and> puts_all ps (es @ es') t t'"
    using yields_if_ok [OF t1(1) t2(1)] puts_all_append [OF t1(2) t2(2)] by blast
qed

lemma each_ok_Cons: "each_ok f (x # xs) = if_ok (f x) (each_ok f xs)"
  by (simp add: if_ok_def)

lemma writes_each: "(\<And>x. x \<in> set xs \<Longrightarrow> writes ps (f x) (es x)) \<Longrightarrow> writes ps (each_ok f xs) (concat (map es xs))"
proof (induction xs)
  case (Cons x xs)
  then show ?case using writes_if_ok [of ps "f x" "es x" "each_ok f xs"] by (simp add: each_ok_Cons del: each_ok.simps)
qed (simp add: writes_return)

text \<open>What a config map or a secret contributes: path and content of each file, in the order of the code.\<close>

definition data_entries :: "fpath \<Rightarrow> (string, string) hmap \<Rightarrow> KeyToPath list \<Rightarrow> (fpath \<times> string) list" where
  "data_entries dir data items =
     (if items = [] then map (\<lambda>(k, v). (join_path dir k, v)) data
      else concat (map (\<lambda>item. case hm_get data (kp_key item) of None \<Rightarrow> [] | Some v \<Rightarrow> [(join_path dir (kp_path item), v)]) items))"

lemma data_entries_flat: "data_entries dir data [] = concat (map (\<lambda>(k, v). [(join_path dir k, v)]) data)"
  by (induction data) (auto simp: data_entries_def)

lemma configmap_files_written:
  assumes "quiet io" "fst ` set (data_entries dir data items) \<subseteq> set ps"
  shows "writes ps (write_projected_configmap_files io dir data items default_mode) (data_entries dir data items)"
proof (cases "items = []")
  case True
  have "writes ps (case kv of (key, v) \<Rightarrow> write_entry io (map_option word_of_int default_mode) (join_path dir key) v)
      (case kv of (k, v) \<Rightarrow> [(join_path dir k, v)])" if "kv \<in> set data" for kv
  proof -
    obtain k v where kv: "kv = (k, v)" by (cases kv)
    have "join_path dir k \<in> fst ` set (data_entries dir data items)" using that kv True by (force simp: data_entries_def)
    then show ?thesis using writes_entry [OF assms(1)] assms(2) kv by auto
  qed
  then show ?thesis using True by (simp add: write_projected_configmap_files_def data_entries_flat writes_each)
next
  case False
  have "writes ps (case hm_get data (kp_key item) of None \<Rightarrow> State_Monad.return (Inr ())
        | Some v \<Rightarrow> write_entry io (Some (file_mode (kp_mode item) default_mode 0x1A4)) (join_path dir (kp_path item)) v)
      (case hm_get data (kp_key item) of None \<Rightarrow> [] | Some v \<Rightarrow> [(join_path dir (kp_path item), v)])" if "item \<in> set items" for item
  proof (cases "hm_get data (kp_key item)")
    case (Some v)
    then have "join_path dir (kp_path item) \<in> fst ` set (data_entries dir data items)" using that False by (force simp: data_entries_def)
    then show ?thesis using writes_entry [OF assms(1)] assms(2) Some by auto
  qed (simp add: writes_return)
  then show ?thesis using False by (simp add: write_projected_configmap_files_def data_entries_def writes_each)
qed

lemma secret_files_written:
  assumes "quiet io" "fst ` set (data_entries dir data items) \<subseteq> set ps"
  shows "writes ps (write_projected_secret_files io dir data items default_mode) (data_entries dir data items)"
proof (cases "items = []")
  case True
  have "writes ps (case kv of (key, v) \<Rightarrow> write_entry io (Some (file_mode None default_mode 0x180)) (join_path dir key) v)
      (case kv of (k, v) \<Rightarrow> [(join_path dir k, v)])" if "kv \<in> set data" for kv
  proof -
    obtain k v where kv: "kv = (k, v)" by (cases kv)
    have "join_path dir k \<in> fst ` set (data_entries dir data items)" using that kv True by (force simp: data_entries_def)
    then show ?thesis using writes_entry [OF assms(1)] assms(2) kv by auto
  qed
  then show ?thesis using True by (simp add: write_projected_secret_files_def data_entries_flat writes_each)
next
  case False
  have "writes ps (case hm_get data (kp_key item) of None \<Rightarrow> State_Monad.return (Inr ())
        | Some v \<Rightarrow> write_entry io (Some (file_mode (kp_mode item) default_mode 0x180)) (join_path dir (kp_path item)) v)
      (case hm_get data (kp_key item) of None \<Rightarrow> [] | Some v \<Rightarrow> [(join_path dir (kp_path item), v)])" if "item \<in> set items" for item
  proof (cases "hm_get data (kp_key item)")
    case (Some v)
    then have "join_path dir (kp_path item) \<in> fst ` set (data_entries dir data items)" using that False by (force simp: data_entries_def)
    then show ?thesis using writes_entry [OF assms(1)] assms(2) Some by auto
  qed (simp add: writes_return)
  then show ?thesis using False by (simp add: write_projected_secret_files_def data_entries_def writes_each)
qed

text \<open>Likewise the other sources of a projected volume.\<close>

definition downward_entries :: "NodeFacts \<Rightarrow> PodSpec \<Rightarrow> string option \<Rightarrow> fpath \<Rightarrow> DownwardAPIVolumeFile \<Rightarrow> (fpath \<times> string) list" where
  "downward_entries nf pod pod_ip dir item =
     (let v = resolve_downward_api_value nf pod item pod_ip
      in if v = [] \<and> da_field_ref item \<noteq> None then [] else [(join_path dir (da_path item), v)])"

definition source_entries ::
  "VolumeApi \<Rightarrow> NodeFacts \<Rightarrow> PodSpec \<Rightarrow> string option \<Rightarrow> fpath \<Rightarrow> fetched \<Rightarrow> ProjectedVolumeSource \<Rightarrow> (fpath \<times> string) list" where
  "source_entries api nf pod pod_ip dir got source =
     (case source of
        PConfigMap name items _ \<Rightarrow> (case hm_get (fst got) name of Some data \<Rightarrow> data_entries dir data items | None \<Rightarrow> [])
      | PSecret name items _ \<Rightarrow> (case hm_get (snd got) name of Some data \<Rightarrow> data_entries dir data items | None \<Rightarrow> [])
      | PDownwardAPI items \<Rightarrow> concat (map (downward_entries nf pod pod_ip dir) items)
      | PServiceAccountToken audience expiration_seconds path \<Rightarrow>
          (case request_service_account_token api audience expiration_seconds of
             Some token \<Rightarrow> [(join_path dir path, token)] | None \<Rightarrow> []))"

lemma written_after_parent:
  assumes "quiet io" "p \<in> set ps"
  shows "writes ps (or_fail EIo (make_parent io p) (\<lambda>_. or_fail EIo (fs_write io p v) (\<lambda>_. do {
      _ \<leftarrow> fs_set_permissions io m p; State_Monad.return (Inr ()) }))) [(p, v)]"
  unfolding writes_def
proof (intro allI impI)
  fix t assume t: "tree_ok t" "placeable t ps"
  note q = placeableD [OF t(2) assms(2)]
  obtain t1 where t1: "yields (make_parent io p) t (Inr ()) t1" "adds_dirs (butlast p) t t1" "tree_ok t1" "free_path t1 p"
      "dir_at t1 (butlast p)" "\<not> dir_at t1 p" using parent_made [OF assms(1) t(1) q(2,1,3)] by metis
  note w = write_puts [OF t1(3,4) q(1) t1(5,6), of v]
  have r: "yields (fs_write io p v) t1 (Inr ()) (snd (t_write p v t1))" using yields_write [OF assms(1), of p v t1] w(1) by simp
  have "puts p v t (snd (t_chmod m p (snd (t_write p v t1))))" using puts_chmod [OF puts_after_dirs [OF t1(2) q(2) w(2) q(1)]] .
  moreover have "yields (or_fail EIo (make_parent io p) (\<lambda>_. or_fail EIo (fs_write io p v) (\<lambda>_. do {
      _ \<leftarrow> fs_set_permissions io m p; State_Monad.return (Inr ()) }))) t (Inr ()) (snd (t_chmod m p (snd (t_write p v t1))))"
    by (intro yields_or_fail [OF t1(1)] yields_or_fail [OF r] yields_bind [OF yields_calls(9) [OF assms(1)]] yields_return)
  ultimately show "\<exists>t'. yields (or_fail EIo (make_parent io p) (\<lambda>_. or_fail EIo (fs_write io p v) (\<lambda>_. do {
      _ \<leftarrow> fs_set_permissions io m p; State_Monad.return (Inr ()) }))) t (Inr ()) t' \<and> puts_all ps [(p, v)] t t'"
    using puts_all_single [OF _ assms(2)] by blast
qed

lemma downward_item_written:
  assumes "quiet io" "join_path dir (da_path item) \<in> set ps"
  shows "writes ps (write_downward_item io nf pod pod_ip dir default_mode item) (downward_entries nf pod pod_ip dir item)"
proof (cases "resolve_downward_api_value nf pod item pod_ip = [] \<and> da_field_ref item \<noteq> None")
  case True
  show ?thesis unfolding write_downward_item_def downward_entries_def Let_def if_P [OF True] by (rule writes_return)
next
  case False
  show ?thesis unfolding write_downward_item_def downward_entries_def Let_def if_not_P [OF False]
    by (rule written_after_parent [OF assms])
qed

lemma parent_only_written:
  assumes "quiet io" "p \<in> set ps"
  shows "writes ps (or_fail EIo (make_parent io p) (\<lambda>_. do { _ \<leftarrow> fs_exists io p; State_Monad.return (Inr ()) })) []"
  unfolding writes_def
proof (intro allI impI)
  fix t assume t: "tree_ok t" "placeable t ps"
  note q = placeableD [OF t(2) assms(2)]
  obtain t1 where t1: "yields (make_parent io p) t (Inr ()) t1" "adds_dirs (butlast p) t t1" "tree_ok t1"
      "\<And>k. dir_at t1 k \<Longrightarrow> dir_at t k \<or> strict_prefix k p" using parent_made [OF assms(1) t(1) q(2,1,3)] by metis
  have "dir_at t1 k" if d: "dir_at t k" for k
  proof -
    obtain i where i: "hm_get t k = Some i" "in_node i = Directory" using d by (auto simp: dir_at_def)
    then show ?thesis using adds_dirsD(2) [OF t1(2) i(1)] by (simp add: dir_at_def)
  qed
  moreover have "dir_at t k \<or> (\<exists>p \<in> set ps. strict_prefix k p)" if "dir_at t1 k" for k using t1(4) [OF that] assms(2) by blast
  ultimately have "puts_all ps [] t t1"
    using t1(3) adds_dirs_files [OF t1(2)] by (simp add: puts_all_def fun_eq_iff)
  moreover have "yields (or_fail EIo (make_parent io p) (\<lambda>_. do { _ \<leftarrow> fs_exists io p; State_Monad.return (Inr ()) })) t (Inr ()) t1"
    by (intro yields_or_fail [OF t1(1)] yields_bind [OF yields_tests(1) [OF assms(1)]] yields_return)
  ultimately show "\<exists>t'. yields (or_fail EIo (make_parent io p) (\<lambda>_. do { _ \<leftarrow> fs_exists io p; State_Monad.return (Inr ()) })) t (Inr ()) t' \<and>
      puts_all ps [] t t'" by blast
qed

lemma token_written:
  assumes "quiet io" "join_path dir path \<in> set ps"
  shows "writes ps (write_token io api dir default_mode audience expiration_seconds path)
    (case request_service_account_token api audience expiration_seconds of Some token \<Rightarrow> [(join_path dir path, token)] | None \<Rightarrow> [])"
proof (cases "request_service_account_token api audience expiration_seconds")
  case None
  then show ?thesis using parent_only_written [OF assms] by (simp add: write_token_def Let_def)
next
  case (Some token)
  then show ?thesis
    using writes_entry [OF assms, of "Some (file_mode None default_mode 0x180)" token]
    by (simp add: write_token_def write_entry_def Let_def)
qed

lemma data_entries_expected:
  "fst ` set (data_entries dir data items) \<subseteq> set (expected_configmap_paths dir data items)"
  "fst ` set (data_entries dir data items) \<subseteq> set (expected_secret_paths dir data items)"
  by (force simp: data_entries_def expected_configmap_paths_def expected_secret_paths_def hm_keys_def split: option.splits)+

lemma source_written:
  assumes "quiet io" "set (expected_of_source dir got source) \<subseteq> set ps"
  shows "writes ps (write_source io api nf pod pod_ip dir default_mode got source) (source_entries api nf pod pod_ip dir got source)"
proof (cases source)
  case (PServiceAccountToken audience expiration_seconds path)
  then show ?thesis using token_written [OF assms(1)] assms(2) by (simp add: write_source_def source_entries_def expected_of_source_def)
next
  case (PConfigMap name items optional)
  show ?thesis
  proof (cases "hm_get (fst got) name")
    case (Some data)
    have "writes ps (write_projected_configmap_files io dir data items default_mode) (data_entries dir data items)"
      using data_entries_expected(1) [of dir data items] assms(2) PConfigMap Some
      by (intro configmap_files_written assms(1)) (simp add: expected_of_source_def)
    then show ?thesis using PConfigMap Some by (simp add: write_source_def source_entries_def)
  qed (simp add: PConfigMap write_source_def source_entries_def writes_return)
next
  case (PSecret name items optional)
  show ?thesis
  proof (cases "hm_get (snd got) name")
    case (Some data)
    have "writes ps (write_projected_secret_files io dir data items default_mode) (data_entries dir data items)"
      using data_entries_expected(2) [of dir data items] assms(2) PSecret Some
      by (intro secret_files_written assms(1)) (simp add: expected_of_source_def)
    then show ?thesis using PSecret Some by (simp add: write_source_def source_entries_def)
  qed (simp add: PSecret write_source_def source_entries_def writes_return)
next
  case (PDownwardAPI items)
  have "writes ps (each_ok (write_downward_item io nf pod pod_ip dir default_mode) items) (concat (map (downward_entries nf pod pod_ip dir) items))"
    using assms(2) PDownwardAPI by (intro writes_each downward_item_written assms(1)) (auto simp: expected_of_source_def)
  then show ?thesis using PDownwardAPI by (simp add: write_source_def source_entries_def)
qed

subsection \<open>Clean-up without links\<close>

text \<open>Entries are only removed, none outside the area, and in it the files that remain are the expected ones.\<close>

definition shrinks :: "(fpath \<Rightarrow> bool) \<Rightarrow> fpath list \<Rightarrow> tree \<Rightarrow> tree \<Rightarrow> bool" where
  "shrinks area expected t t' \<longleftrightarrow> tree_ok t' \<and> (\<forall>k i. hm_get t' k = Some i \<longrightarrow> hm_get t k = Some i) \<and>
     (\<forall>k. \<not> area k \<longrightarrow> hm_get t' k = hm_get t k) \<and>
     (\<forall>k. area k \<longrightarrow> file_at t' k = (if k \<in> set expected then file_at t k else None))"

lemma shrinksD:
  assumes "shrinks area expected t t'"
  shows "tree_ok t'" "hm_get t' k = Some i \<Longrightarrow> hm_get t k = Some i" "\<not> area k \<Longrightarrow> hm_get t' k = hm_get t k"
    "area k \<Longrightarrow> file_at t' k = (if k \<in> set expected then file_at t k else None)"
  using assms unfolding shrinks_def by blast+

lemma shrinks_trans:
  assumes "shrinks a expected t t1" "shrinks b expected t1 t2"
  shows "shrinks (\<lambda>k. a k \<or> b k) expected t t2"
  unfolding shrinks_def
proof (intro conjI allI impI)
  show "tree_ok t2" using shrinksD(1) [OF assms(2)] .
  fix k i
  show "hm_get t2 k = Some i \<Longrightarrow> hm_get t k = Some i" using shrinksD(2) assms by blast
  show "\<not> (a k \<or> b k) \<Longrightarrow> hm_get t2 k = hm_get t k" using shrinksD(3) assms by metis
  assume ab: "a k \<or> b k"
  have same: "file_at t' k = file_at t'' k" if "hm_get t' k = hm_get t'' k" for t' t'' using that by (simp add: file_at_def)
  show "file_at t2 k = (if k \<in> set expected then file_at t k else None)"
  proof (cases "b k")
    case True
    then have 2: "file_at t2 k = (if k \<in> set expected then file_at t1 k else None)" using shrinksD(4) [OF assms(2)] by blast
    show ?thesis
    proof (cases "a k")
      case True
      then show ?thesis using 2 shrinksD(4) [OF assms(1)] by simp
    next
      case False
      then show ?thesis using 2 same [OF shrinksD(3) [OF assms(1)]] by simp
    qed
  next
    case False
    then have "a k" using ab by blast
    then show ?thesis using shrinksD(4) [OF assms(1)] same [OF shrinksD(3) [OF assms(2) False]] by simp
  qed
qed

definition no_links_below :: "tree \<Rightarrow> fpath \<Rightarrow> bool" where
  "no_links_below t dir \<longleftrightarrow> (\<forall>k. prefix dir k \<longrightarrow> \<not> is_link t k)"

definition depth_below :: "tree \<Rightarrow> fpath \<Rightarrow> nat \<Rightarrow> bool" where
  "depth_below t dir n \<longleftrightarrow> (\<forall>k. prefix dir k \<longrightarrow> hm_get t k \<noteq> None \<longrightarrow> length k \<le> length dir + n)"

lemma shrinks_keeps:
  assumes "shrinks a expected t t'"
  shows "no_links_below t dir \<Longrightarrow> no_links_below t' dir" "depth_below t dir n \<Longrightarrow> depth_below t' dir n"
proof -
  have sub: "hm_get t' k = Some i \<Longrightarrow> hm_get t k = Some i" for k i using shrinksD(2) [OF assms] by blast
  show "no_links_below t dir \<Longrightarrow> no_links_below t' dir"
    using sub by (auto simp: no_links_below_def is_link_def split: option.splits)
  show "depth_below t dir n \<Longrightarrow> depth_below t' dir n" using sub by (auto simp: depth_below_def)
qed

lemma no_links_below_child: "no_links_below t dir \<Longrightarrow> no_links_below t (dir @ [c])"
  unfolding no_links_below_def by (metis append_prefixD)

lemma depth_below_child: "depth_below t dir (Suc n) \<Longrightarrow> depth_below t (dir @ [c]) n"
  unfolding depth_below_def by (metis add_Suc_right add_Suc append_prefixD length_append_singleton)

lemma free_path_child:
  assumes "tree_ok t" "dir_at t dir" "no_links_below t dir" "plain_name c"
  shows "free_path t (dir @ [c])"
proof -
  have "\<not> is_link t q \<and> (q \<noteq> dir @ [c] \<longrightarrow> file_at t q = None)" if "prefix q (dir @ [c])" for q
  proof (cases "q = dir @ [c]")
    case True
    then show ?thesis using assms(3) by (simp add: no_links_below_def)
  next
    case False
    then have "prefix q dir" using that by (auto simp: prefix_snoc)
    then have "dir_at t q" using dir_at_prefix [OF assms(1), of q dir] assms(2) by (cases "q = dir") (auto simp: dir_at_def)
    then show ?thesis using dir_at_kind by blast
  qed
  moreover have "plain_path (dir @ [c])" using dir_at_plain [OF assms(1,2)] assms(4) by simp
  ultimately show ?thesis by (simp add: free_path_def)
qed

lemma t_stat_child:
  "tree_ok t \<Longrightarrow> dir_at t dir \<Longrightarrow> free_path t (dir @ [c]) \<Longrightarrow>
   t_stat follow (dir @ [c]) t = (case hm_get t (dir @ [c]) of None \<Rightarrow> Inl ENOENT | Some i \<Rightarrow> Inr i)"
  by (simp add: t_stat_def locate_free split: option.split)

lemma nothing_below:
  "tree_ok t \<Longrightarrow> \<not> dir_at t p \<Longrightarrow> prefix p k \<Longrightarrow> k \<noteq> p \<Longrightarrow> hm_get t k = None"
  using dir_at_prefix [of t p k] by blast


lemma shrinks_area:
  assumes "shrinks a expected t t'" "\<And>k. b k = a k"
  shows "shrinks b expected t t'"
proof -
  have "b = a" using assms(2) by (rule ext)
  then show ?thesis using assms(1) by (simp only:)
qed

lemma shrinks_with_root:
  assumes "shrinks (strict_prefix p) expected t t'" "file_at t' p = None" "file_at t p = None"
  shows "shrinks (prefix p) expected t t'"
  unfolding shrinks_def
proof (intro conjI allI impI)
  show "tree_ok t'" using shrinksD(1) [OF assms(1)] .
  fix k i
  show "hm_get t' k = Some i \<Longrightarrow> hm_get t k = Some i" using shrinksD(2) [OF assms(1)] .
  show "\<not> prefix p k \<Longrightarrow> hm_get t' k = hm_get t k" using shrinksD(3) [OF assms(1), of k] by (simp add: strict_prefix_def)
  assume "prefix p k"
  then show "file_at t' k = (if k \<in> set expected then file_at t k else None)"
    using shrinksD(4) [OF assms(1), of k] assms(2,3) by (cases "k = p") (simp_all add: strict_prefix_def)
qed

lemma strict_prefix_child:
  assumes "strict_prefix dir k"
  obtains c r where "k = dir @ c # r"
  using assms that by (cases "drop (length dir) k") (auto simp: strict_prefix_def prefix_def)

lemma shrinks_nothing:
  "tree_ok t \<Longrightarrow> (\<And>k. area k \<Longrightarrow> k \<notin> set expected \<Longrightarrow> file_at t k = None) \<Longrightarrow> shrinks area expected t t"
  by (auto simp: shrinks_def)

lemma childless:
  assumes "tree_ok t" "\<not> has_children t p" "prefix p k" "k \<noteq> p"
  shows "hm_get t k = None"
proof (rule ccontr)
  assume k: "hm_get t k \<noteq> None"
  obtain c r where kc: "k = p @ c # r" using assms(3,4) by (metis append_Nil2 prefixE list.exhaust)
  have "hm_get t (p @ [c]) \<noteq> None"
    using dir_at_prefix [OF assms(1), of "p @ [c]" k] k kc by (cases "p @ [c] = k") (auto simp: dir_at_def)
  then have "p @ [c] \<in> set (hm_keys t)" by (auto simp: hm_keys_def dest: map_of_SomeD intro: rev_image_eqI)
  then show False using assms(2) by (auto simp: has_children_def list_ex_iff)
qed

lemma shrinks_remove:
  assumes "tree_ok t" "p \<noteq> []" "\<not> has_children t p" "p \<notin> set expected \<or> dir_at t p"
  shows "shrinks (prefix p) expected t (hm_remove p t)"
proof -
  note below = childless [OF assms(1,3)]
  have "tree_ok (hm_remove p t)" using assms by (intro tree_ok_remove) auto
  moreover have "file_at (hm_remove p t) k = (if k \<in> set expected then file_at t k else None)" if "prefix p k" for k
    using below [OF that] assms(4) dir_at_kind [of t p] by (cases "k = p") (auto simp: file_at_def)
  ultimately show ?thesis by (auto simp: shrinks_def)
qed

definition stale_step :: "faults \<Rightarrow> nat \<Rightarrow> fpath list \<Rightarrow> fpath \<Rightarrow> string \<Rightarrow> unit fsio" where
  "stale_step io n expected dir name = do {
     d \<leftarrow> fs_is_dir io (dir @ [name]);
     if d then do {
       (case n of 0 \<Rightarrow> State_Monad.return () | Suc m \<Rightarrow> remove_stale_files_recursive io m expected (dir @ [name]));
       left \<leftarrow> fs_read_dir io (dir @ [name]);
       if left = Inr [] then do { _ \<leftarrow> fs_remove_dir io (dir @ [name]); State_Monad.return () } else State_Monad.return ()
     }
     else do {
       f \<leftarrow> fs_is_file io (dir @ [name]);
       if f \<and> dir @ [name] \<notin> set expected
       then do { _ \<leftarrow> fs_remove_file io (dir @ [name]); State_Monad.return () }
       else State_Monad.return ()
     }
   }"

lemma remove_stale_unfold:
  "remove_stale_files_recursive io n expected dir = do {
     entries \<leftarrow> fs_read_dir io dir;
     case entries of Inl _ \<Rightarrow> State_Monad.return () | Inr names \<Rightarrow> each_do (stale_step io n expected dir) names
   }"
  unfolding remove_stale_files_recursive.simps [of io n expected dir] stale_step_def [abs_def] by (rule refl)

lemma yields_return_unit: "yields m t a t' \<Longrightarrow> yields (State_Monad.bind m (\<lambda>_. State_Monad.return ())) t () t'"
  by (erule yields_bind) (rule yields_return)

lemma read_dir_empty: "dir_at t p \<Longrightarrow> locate t True p = Inr p \<Longrightarrow> t_read_dir p t = Inr [] \<longleftrightarrow> \<not> has_children t p"
  by (auto simp: t_read_dir_def has_children_def list_ex_iff filter_empty_conv)

lemma stale_step_shrinks:
  assumes "quiet io" "tree_ok t" "dir_at t dir" "no_links_below t dir" "plain_name c"
    and rec: "\<And>m. n = Suc m \<Longrightarrow> dir_at t (dir @ [c]) \<Longrightarrow>
      \<exists>t'. yields (remove_stale_files_recursive io m expected (dir @ [c])) t () t' \<and> shrinks (strict_prefix (dir @ [c])) expected t t'"
    and deep: "n = 0 \<Longrightarrow> dir_at t (dir @ [c]) \<Longrightarrow> \<not> has_children t (dir @ [c])"
  shows "\<exists>t'. yields (stale_step io n expected dir c) t () t' \<and> shrinks (prefix (dir @ [c])) expected t t'"
proof -
  let ?p = "dir @ [c]"
  have f: "free_path t ?p" using free_path_child [OF assms(2-5)] .
  have st: "t_stat True ?p t = (case hm_get t ?p of None \<Rightarrow> Inl ENOENT | Some i \<Rightarrow> Inr i)"
    using t_stat_child [OF assms(2,3) f] by simp
  note isd = yields_tests(2) [OF assms(1), of ?p t] and isf = yields_tests(3) [OF assms(1), of ?p t]
  show ?thesis
  proof (cases t ?p rule: node_cases)
    case none
    have "file_at t k = None" if "prefix ?p k" for k
      using nothing_below [OF assms(2) none(2) that] none(3) by (cases "k = ?p") (simp_all add: file_at_def)
    then have "shrinks (prefix ?p) expected t t" by (intro shrinks_nothing assms(2)) blast
    moreover have "yields (stale_step io n expected dir c) t () t" unfolding stale_step_def
      by (rule yields_bind [OF isd], simp add: st none, rule yields_bind [OF isf], simp add: st none yields_return)
    ultimately show ?thesis by blast
  next
    case (reg i v)
    show ?thesis
    proof (cases "?p \<in> set expected")
      case True
      have "file_at t k = None" if "prefix ?p k" "k \<notin> set expected" for k
        using nothing_below [OF assms(2) reg(3) that(1)] True that(2) by (cases "k = ?p") (simp_all add: file_at_def)
      then have "shrinks (prefix ?p) expected t t" by (intro shrinks_nothing assms(2)) blast
      moreover have "yields (stale_step io n expected dir c) t () t" unfolding stale_step_def
        by (rule yields_bind [OF isd], simp add: st reg, rule yields_bind [OF isf], simp add: True yields_return)
      ultimately show ?thesis by blast
    next
      case False
      have "\<not> has_children t ?p"
      proof
        assume "has_children t ?p"
        then obtain k where "k \<in> set (hm_keys t)" "k \<noteq> []" "butlast k = ?p" by (auto simp: has_children_def list_ex_iff)
        then have "dir_at t ?p" using tree_okD(5) [OF assms(2)] by (metis hm_keys_def map_of_eq_None_iff not_None_eq list.set_map)
        then show False using reg(3) by blast
      qed
      then have s: "shrinks (prefix ?p) expected t (hm_remove ?p t)" using False by (intro shrinks_remove assms(2)) auto
      have "t_remove_file ?p t = (Inr (), hm_remove ?p t)"
        using reg by (simp add: t_remove_file_def locate_free [OF assms(2) f] assms(3))
      then have r: "yields (fs_remove_file io ?p) t (Inr ()) (hm_remove ?p t)" using yields_calls(6) [OF assms(1), of ?p t] by simp
      have "yields (stale_step io n expected dir c) t () (hm_remove ?p t)" unfolding stale_step_def
        by (rule yields_bind [OF isd], simp add: st reg, rule yields_bind [OF isf],
            simp add: st reg False yields_return_unit [OF r])
      then show ?thesis using s by blast
    qed
  next
    case (dir i)
    have "\<exists>t1. yields (case n of 0 \<Rightarrow> State_Monad.return () | Suc m \<Rightarrow> remove_stale_files_recursive io m expected ?p) t () t1 \<and>
        shrinks (strict_prefix ?p) expected t t1"
    proof (cases n)
      case 0
      have "file_at t k = None" if "strict_prefix ?p k" for k
        using childless [OF assms(2) deep [OF 0 dir(3)], of k] that by (auto simp: file_at_def strict_prefix_def)
      then have "shrinks (strict_prefix ?p) expected t t" by (intro shrinks_nothing assms(2)) blast
      then show ?thesis using 0 yields_return by (intro exI [of _ t]) simp
    next
      case (Suc m)
      then show ?thesis using rec [OF Suc dir(3)] by simp
    qed
    then obtain t1 where t1: "yields (case n of 0 \<Rightarrow> State_Monad.return () | Suc m \<Rightarrow> remove_stale_files_recursive io m expected ?p) t () t1"
      "shrinks (strict_prefix ?p) expected t t1" by blast
    have same: "hm_get t1 ?p = hm_get t ?p" "hm_get t1 dir = hm_get t dir"
      using shrinksD(3) [OF t1(2), of ?p] shrinksD(3) [OF t1(2), of dir] by (auto simp: strict_prefix_def)
    have ok: "tree_ok t1" "dir_at t1 ?p" "dir_at t1 dir" "no_links_below t1 dir"
      using shrinksD(1) [OF t1(2)] same dir assms(3) shrinks_keeps(1) [OF t1(2) assms(4)] by (auto simp: dir_at_def)
    have l: "locate t1 follow ?p = Inr ?p" for follow
      using locate_free [OF ok(1) free_path_child [OF ok(1,3,4) assms(5)]] ok(3) by simp
    note rd = yields_calls(4) [OF assms(1), of ?p t1]
    show ?thesis
    proof (cases "has_children t1 ?p")
      case True
      have "yields (stale_step io n expected dir c) t () t1" unfolding stale_step_def
        by (rule yields_bind [OF isd], simp add: st dir, rule yields_bind [OF t1(1)], rule yields_bind [OF rd],
            simp add: read_dir_empty [OF ok(2) l] True yields_return)
      moreover have "file_at t1 ?p = None" "file_at t ?p = None" using dir_at_kind ok(2) dir(3) by blast+
      then have "shrinks (prefix ?p) expected t t1"
        by (intro shrinks_with_root [OF t1(2)])
      ultimately show ?thesis by blast
    next
      case False
      have "t_remove_dir ?p t1 = (Inr (), hm_remove ?p t1)" using False ok(2) by (auto simp: t_remove_dir_def l dir_at_def)
      then have r: "yields (fs_remove_dir io ?p) t1 (Inr ()) (hm_remove ?p t1)" using yields_calls(7) [OF assms(1), of ?p t1] by simp
      have "yields (stale_step io n expected dir c) t () (hm_remove ?p t1)" unfolding stale_step_def
        by (rule yields_bind [OF isd], simp add: st dir, rule yields_bind [OF t1(1)], rule yields_bind [OF rd],
            simp add: read_dir_empty [OF ok(2) l] False yields_return_unit [OF r])
      moreover have "shrinks (prefix ?p) expected t1 (hm_remove ?p t1)" using False ok(1,2) by (intro shrinks_remove) auto
      then have "shrinks (\<lambda>k. strict_prefix ?p k \<or> prefix ?p k) expected t (hm_remove ?p t1)" by (rule shrinks_trans [OF t1(2)])
      then have "shrinks (prefix ?p) expected t (hm_remove ?p t1)"
        by (rule shrinks_area) (auto simp: strict_prefix_def)
      ultimately show ?thesis by blast
    qed
  next
    case link
    then show ?thesis using free_pathD(1) [OF f] by simp
  qed
qed


lemma read_dir_names:
  assumes "tree_ok t" "dir_at t dir" "no_links_below t dir"
  obtains names where "t_read_dir dir t = Inr names" "list_all plain_name names"
    "\<And>k. strict_prefix dir k \<Longrightarrow> hm_get t k \<noteq> None \<Longrightarrow> \<exists>c \<in> set names. prefix (dir @ [c]) k"
proof -
  let ?ns = "map last (filter (\<lambda>k. k \<noteq> [] \<and> butlast k = dir) (hm_keys t))"
  have "free_path t dir" using free_path_dir [OF assms(1,2)] .
  then have "locate t True dir = Inr dir" using locate_free [OF assms(1)] dir_at_parent [OF assms(1,2)] by simp
  then have "t_read_dir dir t = Inr ?ns" using assms(2) by (simp add: t_read_dir_def)
  moreover have "plain_name (last k)" if "k \<in> set (hm_keys t)" "k \<noteq> []" for k
  proof -
    have "hm_get t k \<noteq> None" using that(1) by (metis hm_keys_def map_of_eq_None_iff list.set_map)
    then have "plain_path k" using tree_okD(3) [OF assms(1)] by blast
    then have "plain_path (butlast k @ [last k])" using that(2) by simp
    then show ?thesis by simp
  qed
  then have "list_all plain_name ?ns" by (auto simp: list_all_iff)
  moreover have "\<exists>c \<in> set ?ns. prefix (dir @ [c]) k" if below: "strict_prefix dir k" "hm_get t k \<noteq> None" for k
  proof -
    obtain c r where kc: "k = dir @ c # r" using strict_prefix_child [OF below(1)] .
    have "hm_get t (dir @ [c]) \<noteq> None"
      using dir_at_prefix [OF assms(1), of "dir @ [c]" k] below(2) kc by (cases "dir @ [c] = k") (auto simp: dir_at_def)
    then have "dir @ [c] \<in> set (hm_keys t)" by (auto simp: hm_keys_def dest: map_of_SomeD intro: rev_image_eqI)
    then have "c \<in> set ?ns" by force
    moreover have "prefix (dir @ [c]) k" using kc by simp
    ultimately show ?thesis by blast
  qed
  ultimately show ?thesis using that by blast
qed

lemma stale_loop_shrinks:
  assumes io: "quiet io"
    and rec: "\<And>m p t. n = Suc m \<Longrightarrow> tree_ok t \<Longrightarrow> dir_at t p \<Longrightarrow> no_links_below t p \<Longrightarrow> depth_below t p (Suc m) \<Longrightarrow>
      \<exists>t'. yields (remove_stale_files_recursive io m expected p) t () t' \<and> shrinks (strict_prefix p) expected t t'"
  shows "tree_ok t \<Longrightarrow> dir_at t dir \<Longrightarrow> no_links_below t dir \<Longrightarrow> depth_below t dir (Suc n) \<Longrightarrow> list_all plain_name names \<Longrightarrow>
    \<exists>t'. yields (each_do (stale_step io n expected dir) names) t () t' \<and>
      shrinks (\<lambda>k. \<exists>c \<in> set names. prefix (dir @ [c]) k) expected t t'"
proof (induction names arbitrary: t)
  case Nil
  then show ?case by (intro exI [of _ t]) (simp add: yields_return shrinks_def)
next
  case (Cons c names)
  have "\<exists>t1. yields (stale_step io n expected dir c) t () t1 \<and> shrinks (prefix (dir @ [c])) expected t t1"
  proof (rule stale_step_shrinks [OF io Cons.prems(1-3)])
    show "plain_name c" using Cons.prems(5) by simp
    show "\<exists>t'. yields (remove_stale_files_recursive io m expected (dir @ [c])) t () t' \<and> shrinks (strict_prefix (dir @ [c])) expected t t'"
      if "n = Suc m" "dir_at t (dir @ [c])" for m
      using rec [OF that(1) Cons.prems(1) that(2) no_links_below_child [OF Cons.prems(3)]] depth_below_child Cons.prems(4) that(1) by blast
    show "\<not> has_children t (dir @ [c])" if "n = 0" "dir_at t (dir @ [c])"
    proof
      assume "has_children t (dir @ [c])"
      then obtain k where k: "k \<in> set (hm_keys t)" "k \<noteq> []" "butlast k = dir @ [c]" by (auto simp: has_children_def list_ex_iff)
      then have "hm_get t k \<noteq> None" by (metis hm_keys_def map_of_eq_None_iff list.set_map)
      moreover have k': "k = (dir @ [c]) @ [last k]" using k(2,3) by (metis append_butlast_last_id)
      then have "prefix dir k" by (metis append.assoc prefixI)
      ultimately have "length k \<le> length dir + Suc 0" using Cons.prems(4) that(1) by (simp add: depth_below_def)
      moreover have "length k = Suc (Suc (length dir))" by (subst k') simp
      ultimately show False by simp
    qed
  qed
  then obtain t1 where t1: "yields (stale_step io n expected dir c) t () t1" "shrinks (prefix (dir @ [c])) expected t t1" by blast
  have "hm_get t1 dir = hm_get t dir" using shrinksD(3) [OF t1(2), of dir] by simp
  then have "dir_at t1 dir" using Cons.prems(2) by (simp add: dir_at_def)
  then obtain t2 where t2: "yields (each_do (stale_step io n expected dir) names) t1 () t2"
      "shrinks (\<lambda>k. \<exists>c \<in> set names. prefix (dir @ [c]) k) expected t1 t2"
    using Cons.IH [OF shrinksD(1) [OF t1(2)]] shrinks_keeps [OF t1(2)] Cons.prems(3-5) by auto
  have "shrinks (\<lambda>k. \<exists>c \<in> set (c # names). prefix (dir @ [c]) k) expected t t2"
    by (rule shrinks_area [OF shrinks_trans [OF t1(2) t2(2)]]) auto
  then show ?case using yields_each_do_Cons [OF t1(1) t2(1)] by blast
qed

lemma remove_stale_shrinks:
  assumes "quiet io"
  shows "tree_ok t \<Longrightarrow> dir_at t dir \<Longrightarrow> no_links_below t dir \<Longrightarrow> depth_below t dir (Suc n) \<Longrightarrow>
    \<exists>t'. yields (remove_stale_files_recursive io n expected dir) t () t' \<and> shrinks (strict_prefix dir) expected t t'"
proof (induction n arbitrary: dir t rule: less_induct)
  case (less n)
  obtain names where names: "t_read_dir dir t = Inr names" "list_all plain_name names"
      "\<And>k. strict_prefix dir k \<Longrightarrow> hm_get t k \<noteq> None \<Longrightarrow> \<exists>c \<in> set names. prefix (dir @ [c]) k"
    using read_dir_names [OF less.prems(1-3)] by blast
  have "\<exists>t'. yields (each_do (stale_step io n expected dir) names) t () t' \<and>
      shrinks (\<lambda>k. \<exists>c \<in> set names. prefix (dir @ [c]) k) expected t t'"
    by (rule stale_loop_shrinks [OF assms _ less.prems names(2)]) (use less.IH in auto)
  then obtain t' where t': "yields (each_do (stale_step io n expected dir) names) t () t'"
      "shrinks (\<lambda>k. \<exists>c \<in> set names. prefix (dir @ [c]) k) expected t t'" by blast
  have "yields (remove_stale_files_recursive io n expected dir) t () t'" unfolding remove_stale_unfold [of io n]
    by (rule yields_bind [OF yields_calls(4) [OF assms]]) (simp add: names(1) t'(1))
  moreover have "shrinks (strict_prefix dir) expected t t'"
    unfolding shrinks_def
  proof (intro conjI allI impI)
    show "tree_ok t'" using shrinksD(1) [OF t'(2)] .
    fix k i
    show "hm_get t' k = Some i \<Longrightarrow> hm_get t k = Some i" using shrinksD(2) [OF t'(2)] .
    have in_area: "strict_prefix dir k" if area: "\<exists>c \<in> set names. prefix (dir @ [c]) k"
    proof -
      obtain c where "prefix (dir @ [c]) k" using area by (rule bexE)
      then have "prefix dir k" "length dir < length k" by (auto simp: prefix_def)
      then show ?thesis by (auto simp: strict_prefix_def)
    qed
    show "\<not> strict_prefix dir k \<Longrightarrow> hm_get t' k = hm_get t k" using shrinksD(3) [OF t'(2)] in_area by blast
    assume k: "strict_prefix dir k"
    show "file_at t' k = (if k \<in> set expected then file_at t k else None)"
    proof (cases "hm_get t k")
      case None
      then have "hm_get t' k = None" using shrinksD(2) [OF t'(2), of k] by (cases "hm_get t' k") auto
      then show ?thesis using None by (simp add: file_at_def)
    next
      case (Some i)
      then show ?thesis using names(3) [OF k] shrinksD(4) [OF t'(2)] by simp
    qed
  qed
  ultimately show ?case by blast
qed

end
