(* ===== verification/Volume_Refresh.thy ===== *)
theory Volume_Refresh
  imports Volume_Files
begin

section \<open>What a refresh leaves in a volume\<close>

text \<open>
  The effect of the writers of \<open>Volume_Files\<close> on a volume directory without links, when no call fails: the files of the
  volume are exactly those its sources contribute. Then what happens when these conditions do not hold: links left by
  the upstream kubelet, items whose key is gone.
\<close>

subsection \<open>Write, then clean up\<close>

definition volume_dir_ok :: "tree \<Rightarrow> fpath \<Rightarrow> fpath list \<Rightarrow> bool" where
  "volume_dir_ok t dir ps \<longleftrightarrow> tree_ok t \<and> dir_at t dir \<and> no_links_below t dir \<and> depth_below t dir (Suc depth_limit) \<and>
     placeable t ps \<and> (\<forall>p \<in> set ps. strict_prefix dir p \<and> length p \<le> length dir + Suc depth_limit)"

lemma volume_dir_okD:
  assumes "volume_dir_ok t dir ps"
  shows "tree_ok t" "dir_at t dir" "no_links_below t dir" "depth_below t dir (Suc depth_limit)" "placeable t ps"
    "p \<in> set ps \<Longrightarrow> strict_prefix dir p" "p \<in> set ps \<Longrightarrow> length p \<le> length dir + Suc depth_limit"
  using assms unfolding volume_dir_ok_def by blast+

lemma puts_all_depth:
  assumes "volume_dir_ok t dir ps" "puts_all ps es t t1"
  shows "depth_below t1 dir (Suc depth_limit)"
  unfolding depth_below_def
proof (intro allI impI)
  fix k assume k: "prefix dir k" "hm_get t1 k \<noteq> None"
  have old: "length k \<le> length dir + Suc depth_limit" if "hm_get t k \<noteq> None"
    using volume_dir_okD(4) [OF assms(1)] k(1) that by (simp add: depth_below_def)
  show "length k \<le> length dir + Suc depth_limit"
  proof (cases t1 k rule: node_cases)
    case none
    then show ?thesis using k(2) by simp
  next
    case (dir i)
    then have "dir_at t k \<or> (\<exists>p \<in> set ps. strict_prefix k p)" using puts_allD(5) [OF assms(2)] by blast
    then show ?thesis
    proof
      assume "dir_at t k"
      then show ?thesis using old by (auto simp: dir_at_def)
    next
      assume "\<exists>p \<in> set ps. strict_prefix k p"
      then obtain p where "p \<in> set ps" "strict_prefix k p" by blast
      then show ?thesis using volume_dir_okD(7) [OF assms(1)] prefix_length_less by fastforce
    qed
  next
    case (reg i c)
    show ?thesis
    proof (cases "map_of (rev es) k")
      case None
      then have "file_at t k = Some c" using reg puts_allD(2) [OF assms(2)] by (simp add: map_add_def)
      then show ?thesis using old by (auto simp: file_at_def split: option.splits)
    next
      case (Some v)
      then have "k \<in> fst ` set es" by (force dest: map_of_SomeD)
      then show ?thesis using puts_allD(6) [OF assms(2)] volume_dir_okD(7) [OF assms(1)] by blast
    qed
  next
    case link
    then have "is_link t k" using puts_allD(3) [OF assms(2)] by simp
    then show ?thesis using old by (auto simp: is_link_def split: option.splits)
  qed
qed

lemma written_then_cleaned:
  assumes "quiet io" "volume_dir_ok t dir ps" "writes ps m es"
  obtains t1 t2 where "yields m t (Inr ()) t1" "yields (cleanup_stale_volume_files io dir expected) t1 () t2"
    "\<And>k. strict_prefix dir k \<Longrightarrow> file_at t2 k = (if k \<in> set expected then (file_at t ++ map_of (rev es)) k else None)"
    "\<And>k. \<not> strict_prefix dir k \<Longrightarrow> file_at t2 k = file_at t k" "tree_ok t2"
proof -
  obtain t1 where t1: "yields m t (Inr ()) t1" "puts_all ps es t t1"
    using assms(3) volume_dir_okD(1,5) [OF assms(2)] unfolding writes_def by blast
  have ok: "tree_ok t1" "dir_at t1 dir" "no_links_below t1 dir"
    using puts_allD(1,3,4) [OF t1(2)] volume_dir_okD(2,3) [OF assms(2)] by (auto simp: no_links_below_def)
  obtain t2 where t2: "yields (cleanup_stale_volume_files io dir expected) t1 () t2" "shrinks (strict_prefix dir) expected t1 t2"
    using remove_stale_shrinks [OF assms(1) ok puts_all_depth [OF assms(2) t1(2)]] unfolding cleanup_stale_volume_files_def by blast
  show ?thesis
  proof (rule that [OF t1(1) t2(1)])
    show "file_at t2 k = (if k \<in> set expected then (file_at t ++ map_of (rev es)) k else None)" if "strict_prefix dir k" for k
      using shrinksD(4) [OF t2(2) that] puts_allD(2) [OF t1(2)] by simp
    show "file_at t2 k = file_at t k" if "\<not> strict_prefix dir k" for k
    proof -
      have "k \<notin> fst ` set es" using puts_allD(6) [OF t1(2)] volume_dir_okD(6) [OF assms(2)] that by blast
      then have "map_of (rev es) k = None" by (simp add: map_of_eq_None_iff)
      then have "file_at t1 k = file_at t k" using puts_allD(2) [OF t1(2)] by (simp add: map_add_def)
      then show ?thesis using shrinksD(3) [OF t2(2) that] by (simp add: file_at_def)
    qed
    show "tree_ok t2" using shrinksD(1) [OF t2(2)] .
  qed
qed

text \<open>The pattern of the two refreshes: write, and clean up when that succeeded.\<close>

lemma refreshed:
  assumes "quiet io" "volume_dir_ok t dir ps" "writes ps m es"
  shows "\<exists>t2. yields (do { r \<leftarrow> m; case r of Inl _ \<Rightarrow> State_Monad.return () | Inr _ \<Rightarrow> cleanup_stale_volume_files io dir expected }) t () t2 \<and>
    (\<forall>k. strict_prefix dir k \<longrightarrow> file_at t2 k = (if k \<in> set expected then (file_at t ++ map_of (rev es)) k else None)) \<and>
    (\<forall>k. \<not> strict_prefix dir k \<longrightarrow> file_at t2 k = file_at t k)"
proof (rule written_then_cleaned [OF assms, of expected])
  fix t1 t2
  assume t: "yields m t (Inr ()) t1" "yields (cleanup_stale_volume_files io dir expected) t1 () t2"
    "\<And>k. strict_prefix dir k \<Longrightarrow> file_at t2 k = (if k \<in> set expected then (file_at t ++ map_of (rev es)) k else None)"
    "\<And>k. \<not> strict_prefix dir k \<Longrightarrow> file_at t2 k = file_at t k"
  have "yields (do { r \<leftarrow> m; case r of Inl _ \<Rightarrow> State_Monad.return () | Inr _ \<Rightarrow> cleanup_stale_volume_files io dir expected }) t () t2"
    by (rule yields_bind [OF t(1)]) (simp add: t(2))
  then show ?thesis using t(3,4) by blast
qed

lemma volume_dir_flat:
  assumes "tree_ok t" "dir_at t dir" "no_links_below t dir" "depth_below t dir (Suc depth_limit)"
    "\<forall>k \<in> set ks. plain_name k \<and> \<not> dir_at t (dir @ [k])"
  shows "volume_dir_ok t dir (map (\<lambda>k. dir @ [k]) ks)"
  using assms free_path_child [OF assms(1-3)] by (auto simp: volume_dir_ok_def placeable_def strict_prefix_def)

lemma map_of_rev_distinct: "distinct (map fst xs) \<Longrightarrow> map_of (rev xs) = map_of xs"
proof (induction xs)
  case (Cons x xs)
  then have "map_of xs (fst x) = None" by (simp add: map_of_eq_None_iff)
  then show ?case using Cons by (cases x) (auto simp: map_add_def fun_eq_iff split: option.split)
qed simp

lemma flat_entries:
  assumes "list_all plain_name (hm_keys data)" "hm_ok data"
  shows "map_of (rev (data_entries dir data [])) (dir @ [k]) = hm_get data k"
proof -
  have e: "data_entries dir data [] = map (\<lambda>(k, v). (dir @ [k], v)) data"
    using assms(1) by (auto simp: data_entries_def hm_keys_def list_all_iff)
  have "distinct (map fst (map (\<lambda>(k, v). (dir @ [k], v)) data))"
  proof -
    have "map fst (map (\<lambda>(k, v). (dir @ [k], v)) data) = map (\<lambda>k. dir @ [k]) (map fst data)" by auto
    moreover have "distinct (map (\<lambda>k. dir @ [k]) (map fst data))"
      using assms(2) unfolding distinct_map [of "\<lambda>k. dir @ [k]"] hm_ok_def by (simp add: inj_on_def)
    ultimately show ?thesis by (simp only:)
  qed
  then have "map_of (rev (data_entries dir data [])) = map_of (map (\<lambda>(k, v). (dir @ [k], v)) data)"
    by (simp add: e map_of_rev_distinct)
  moreover have "map_of (map (\<lambda>(k, v). (dir @ [k], v)) data) (dir @ [k]) = hm_get data k" by (induction data) auto
  ultimately show ?thesis by simp
qed


subsection \<open>Config map and secret volumes\<close>


definition plain_inode :: "fnode \<Rightarrow> inode" where
  "plain_inode n = \<lparr>in_node = n, in_mode = 0x1ED, in_gid = 0\<rparr>"

definition demo_tree :: tree where
  "demo_tree = [([], plain_inode Directory), ([''v''], plain_inode Directory), ([''v'', ''old''], plain_inode (RegFile ''0''))]"

definition no_faults :: faults where
  "no_faults = (\<lambda>_. None)"

lemma quiet_no_faults: "quiet no_faults"
  by (simp add: quiet_def no_faults_def)

lemma plain_names [simp]: "plain_name ''v''" "plain_name ''old''" "plain_name ''k''"
  by (simp_all add: plain_name_def)

lemma demo_tree_get:
  "hm_get demo_tree p = (if p = [] \<or> p = [''v''] then Some (plain_inode Directory)
     else if p = [''v'', ''old''] then Some (plain_inode (RegFile ''0'')) else None)"
  by (auto simp: demo_tree_def)

lemma demo_tree_ok:
  "tree_ok demo_tree" "dir_at demo_tree [''v'']" "no_links_below demo_tree [''v'']" "depth_below demo_tree [''v''] (Suc depth_limit)"
proof -
  show "tree_ok demo_tree"
    by (rule tree_okI) (auto simp: demo_tree_get dir_at_def plain_inode_def hm_ok_def demo_tree_def split: if_splits)
  show "dir_at demo_tree [''v'']" by (simp add: dir_at_def demo_tree_get plain_inode_def)
  show "no_links_below demo_tree [''v'']" by (simp add: no_links_below_def is_link_def demo_tree_get plain_inode_def)
  show "depth_below demo_tree [''v''] (Suc depth_limit)" by (auto simp: depth_below_def demo_tree_get depth_limit_def)
qed



subsection \<open>Projected volumes\<close>

lemma dangling_noop:
  assumes "quiet io" "tree_ok t" "dir_at t dir" "no_links_below t dir"
  shows "yields (remove_dangling_symlinks_in_dir io dir) t () t"
proof -
  obtain names where names: "t_read_dir dir t = Inr names" "list_all plain_name names"
    by (rule read_dir_names [OF assms(2-4)])
  have one: "yields (remove_if_dangling io (dir @ [c])) t () t" if "plain_name c" for c
  proof -
    have n: "\<not> is_link t (dir @ [c])" using assms(4) by (simp add: no_links_below_def)
    note l = t_stat_child [OF assms(2,3) free_path_child [OF assms(2-4) that], of False]
    have "\<not> (case t_stat False (dir @ [c]) t of Inr i \<Rightarrow> (case in_node i of Symlink _ _ \<Rightarrow> True | _ \<Rightarrow> False) | Inl _ \<Rightarrow> False)"
      by (cases t "dir @ [c]" rule: node_cases) (simp_all add: l n)
    then show ?thesis unfolding remove_if_dangling_def
      by (intro yields_bind [OF yields_calls(2) [OF assms(1)]]) (simp only: if_False yields_return)
  qed
  have "yields (each_do (\<lambda>name. remove_if_dangling io (dir @ [name])) ns) t () t" if "list_all plain_name ns" for ns
    using that
  proof (induction ns)
    case (Cons c ns)
    then show ?case using yields_each_do_Cons [of "\<lambda>name. remove_if_dangling io (dir @ [name])" c t t ns t] one by simp
  qed (simp add: yields_return)
  from this [OF names(2)] show ?thesis unfolding remove_dangling_symlinks_in_dir_def
    by (intro yields_bind [OF yields_calls(4) [OF assms(1)]]) (simp only: names(1) sum.case)
qed


definition bare_tree :: "fpath \<Rightarrow> tree" where
  "bare_tree p = map (\<lambda>n. (take n p, plain_inode Directory)) [0..<Suc (length p)]"

definition volume_with_old_file :: "fpath \<Rightarrow> tree" where
  "volume_with_old_file dir = (dir @ [''old''], plain_inode (RegFile ''0'')) # bare_tree dir"

lemma bare_tree_get: "hm_get (bare_tree p) k = (if prefix k p then Some (plain_inode Directory) else None)"
proof -
  have "k \<in> fst ` set (bare_tree p) \<longleftrightarrow> prefix k p"
    by (auto simp: bare_tree_def image_iff prefix_def intro!: bexI [of _ "length k"]) (metis append_take_drop_id)
  moreover have "snd e = plain_inode Directory" if "e \<in> set (bare_tree p)" for e using that by (auto simp: bare_tree_def)
  ultimately show ?thesis
    by (cases "hm_get (bare_tree p) k") (auto simp: map_of_eq_None_iff dest!: map_of_SomeD intro: rev_image_eqI)
qed

lemma volume_with_old_file_get:
  "hm_get (volume_with_old_file dir) k =
    (if k = dir @ [''old''] then Some (plain_inode (RegFile ''0'')) else if prefix k dir then Some (plain_inode Directory) else None)"
  by (auto simp: volume_with_old_file_def bare_tree_get)

lemma volume_with_old_file_ok:
  assumes "plain_path dir"
  shows "tree_ok (volume_with_old_file dir)" "dir_at (volume_with_old_file dir) dir" "no_links_below (volume_with_old_file dir) dir"
    "depth_below (volume_with_old_file dir) dir (Suc depth_limit)"
proof -
  have "inj_on (\<lambda>n. take n dir) {0..<Suc (length dir)}"
    by (rule inj_onI) (metis atLeastLessThan_iff length_take less_Suc_eq_le min.absorb2)
  then have "distinct (map fst (bare_tree dir))" by (simp add: bare_tree_def comp_def distinct_map del: upt_Suc)
  moreover have "hm_get (bare_tree dir) (dir @ [''old'']) = None" by (simp add: bare_tree_get)
  ultimately have d: "hm_ok (volume_with_old_file dir)" by (simp add: hm_ok_def volume_with_old_file_def map_of_eq_None_iff)
  show "dir_at (volume_with_old_file dir) dir" by (simp add: dir_at_def volume_with_old_file_get plain_inode_def)
  have dirs: "dir_at (volume_with_old_file dir) k \<longleftrightarrow> prefix k dir" for k
    by (auto simp: dir_at_def volume_with_old_file_get plain_inode_def)
  have pp: "plain_path k" if "prefix k dir" for k using that assms by (auto simp: prefix_def)
  show "tree_ok (volume_with_old_file dir)"
  proof (rule tree_okI)
    show "hm_ok (volume_with_old_file dir)" by (rule d)
    show "dir_at (volume_with_old_file dir) []" by (simp add: dirs)
    fix p i assume p: "hm_get (volume_with_old_file dir) p = Some i"
    show "plain_path p" using p pp assms by (auto simp: volume_with_old_file_get split: if_splits)
    show "target_ok (in_node i)" using p by (auto simp: volume_with_old_file_get plain_inode_def split: if_splits)
    show "dir_at (volume_with_old_file dir) (butlast p)" if "p \<noteq> []"
      using p by (auto simp: volume_with_old_file_get dirs split: if_splits intro: prefix_order.trans [OF prefixeq_butlast])
  qed
  show "no_links_below (volume_with_old_file dir) dir" by (simp add: no_links_below_def is_link_def volume_with_old_file_get plain_inode_def)
  show "depth_below (volume_with_old_file dir) dir (Suc depth_limit)"
    by (auto simp: depth_below_def volume_with_old_file_get split: if_splits dest!: prefix_length_le)
qed

definition token_api :: VolumeApi where
  "token_api = \<lparr>va_client = True, va_configmap = (\<lambda>_ _. Inl []), va_secret = (\<lambda>_ _. Inl []), va_token = (\<lambda>_ _. Some ''t'')\<rparr>"

definition token_dir :: fpath where
  "token_dir = comps (volume_target_path ''/r'' PodSpec_default ''v'')"



subsection \<open>Where the mirror breaks\<close>

text \<open>
  A volume the upstream kubelet wrote: the file is a link through \<^verbatim>\<open>..data\<close> to a directory that still exists. The write
  goes through the link, and the clean-up then enters \<^verbatim>\<open>..data\<close>, where no path is expected, and deletes the file
  just written: the volume is left with a dangling link until the next refresh.
\<close>

definition upstream_volume :: tree where
  "upstream_volume =
    [([], plain_inode Directory), ([''v''], plain_inode Directory), ([''v'', ''..ts''], plain_inode Directory),
     ([''v'', ''..ts'', ''key''], plain_inode (RegFile ''old'')), ([''v'', ''..data''], plain_inode (Symlink False [''..ts''])),
     ([''v'', ''key''], plain_inode (Symlink False [''..data'', ''key'']))]"

definition refreshed_twice :: "tree \<Rightarrow> string io \<times> string io \<times> string io" where
  "refreshed_twice t =
     (let m = update_secret_dir no_faults [''v''] [(''key'', ''new'')] [] None;
          once = dk_tree (snd (run_state m \<lparr>dk_tree = t, dk_calls = 0\<rparr>));
          again = dk_tree (snd (run_state (do { remove_dangling_symlinks_in_dir no_faults [''v'']; m }) \<lparr>dk_tree = once, dk_calls = 0\<rparr>))
      in (t_read [''v'', ''key''] t, t_read [''v'', ''key''] once, t_read [''v'', ''key''] again))"

lemma live_links_lose_the_file: "refreshed_twice upstream_volume = (Inr ''old'', Inl ENOENT, Inr ''new'')"
  by code_simp

text \<open>With items every item's path counts as expected, also when its key is gone from the object: the file stays.\<close>

lemma removed_key_keeps_its_file:
  "let t' = dk_tree (snd (run_state (update_configmap_dir no_faults [''v''] [] [\<lparr>kp_key = ''k'', kp_path = ''old'', kp_mode = None\<rparr>] None)
       \<lparr>dk_tree = demo_tree, dk_calls = 0\<rparr>))
   in file_at t' [''v'', ''old''] = Some ''0''"
  by code_simp

text \<open>\<^verbatim>\<open>OnRootMismatch\<close> changes nothing: ownership is set recursively all the same.\<close>

lemma on_root_mismatch_still_recurses:
  "apply_fs_group io p gid (fs_group_policy sc) = apply_fs_group io p gid FsGroupFile"
  by (simp add: apply_fs_group_def fs_group_policy_def)

end
