(* ===== verification/Faulty_Runs.thy ===== *)
theory Faulty_Runs
  imports Filesystem
begin

section \<open>What holds however calls fail\<close>

text \<open>
  Assertions about computations on the file system that hold for every sequence of faults: \<open>always P m Q\<close> says that from
  a tree with \<open>P\<close> the computation ends with a result and a tree related by \<open>Q\<close>. The rules follow the
  sequence of calls. Then the effect of the calls on a directory without links: they stay inside.
\<close>

definition always :: "(tree \<Rightarrow> bool) \<Rightarrow> 'a fsio \<Rightarrow> ('a \<Rightarrow> tree \<Rightarrow> bool) \<Rightarrow> bool" where
  "always P m Q \<longleftrightarrow> (\<forall>d. P (dk_tree d) \<longrightarrow> Q (fst (run_state m d)) (dk_tree (snd (run_state m d))))"

abbreviation keeps :: "(tree \<Rightarrow> bool) \<Rightarrow> 'a fsio \<Rightarrow> bool" where
  "keeps I m \<equiv> always I m (\<lambda>_. I)"

named_theorems always_intros \<open>assertions about computations\<close>

lemma always_run: "always P m Q \<Longrightarrow> P (dk_tree d) \<Longrightarrow> run_state m d = (r, d') \<Longrightarrow> Q r (dk_tree d')"
  by (force simp: always_def)

lemma always_return [always_intros]: "(\<And>t. P t \<Longrightarrow> Q r t) \<Longrightarrow> always P (State_Monad.return r) Q"
  by (simp add: always_def)

lemma always_bind: "always P m R \<Longrightarrow> (\<And>r. always (R r) (f r) Q) \<Longrightarrow> always P (State_Monad.bind m f) Q"
  by (simp add: always_def split: prod.split) (metis fst_conv snd_conv)

lemma always_conseq: "always P m Q \<Longrightarrow> (\<And>t. P' t \<Longrightarrow> P t) \<Longrightarrow> (\<And>r t. Q r t \<Longrightarrow> Q' r t) \<Longrightarrow> always P' m Q'"
  unfolding always_def by blast

lemma always_conj: "always P m Q \<Longrightarrow> always P m Q' \<Longrightarrow> always P m (\<lambda>r t. Q r t \<and> Q' r t)"
  unfolding always_def by blast

lemma always_fixed: "(\<And>t. P t \<Longrightarrow> always (\<lambda>s. s = t) m Q) \<Longrightarrow> always P m Q"
  unfolding always_def by blast

lemma keeps_bind [always_intros]: "keeps I m \<Longrightarrow> (\<And>r. keeps I (f r)) \<Longrightarrow> keeps I (State_Monad.bind m f)"
  by (rule always_bind)

lemma always_syscall:
  "(\<And>t. P t \<Longrightarrow> Q (fst (f t)) (snd (f t))) \<Longrightarrow> (\<And>t e n. P t \<Longrightarrow> Q (Inl e) (broken n t)) \<Longrightarrow> always P (syscall io f broken) Q"
  by (simp add: always_def syscall_def split: option.split)

lemma always_query: "(\<And>t. P t \<Longrightarrow> Q (f t) t) \<Longrightarrow> (\<And>t e. P t \<Longrightarrow> Q (Inl e) t) \<Longrightarrow> always P (query io f) Q"
  unfolding query_def by (rule always_syscall) simp_all

lemma always_effect: "(\<And>t. P t \<Longrightarrow> Q (fst (f t)) (snd (f t))) \<Longrightarrow> (\<And>t e. P t \<Longrightarrow> Q (Inl e) t) \<Longrightarrow> always P (effect io f) Q"
  unfolding effect_def by (rule always_syscall)

lemma keeps_query: "keeps I (query io f)"
  by (rule always_query)

lemma keeps_effect: "(\<And>t. I t \<Longrightarrow> I (snd (f t))) \<Longrightarrow> keeps I (effect io f)"
  by (rule always_effect)

lemma keeps_queries [always_intros]:
  "keeps I (fs_stat io p)" "keeps I (fs_lstat io p)" "keeps I (fs_read io p)" "keeps I (fs_read_dir io p)"
  unfolding fs_stat_def fs_lstat_def fs_read_def fs_read_dir_def by (rule keeps_query)+

lemma keeps_tests [always_intros]: "keeps I (fs_exists io p)" "keeps I (fs_is_dir io p)" "keeps I (fs_is_file io p)"
  unfolding fs_exists_def fs_is_dir_def fs_is_file_def by (intro always_intros; assumption)+

lemma keeps_or_existing [always_intros]: "keeps I (or_existing io p e)"
  unfolding or_existing_def by (intro always_intros; assumption)

lemma keeps_write:
  "(\<And>t c. I t \<Longrightarrow> I (snd (t_write p c t))) \<Longrightarrow> keeps I (fs_write io p content)"
  unfolding fs_write_def by (rule always_syscall) simp_all

lemma keeps_make_all:
  assumes "\<And>t q. prefix q p \<Longrightarrow> I t \<Longrightarrow> I (snd (t_mkdir q t))"
  shows "keeps I (make_all io n p)"
  using assms
proof (induction n arbitrary: p)
  case 0
  have mk: "keeps I (fs_mkdir io p)" unfolding fs_mkdir_def by (rule keeps_effect) (simp add: 0)
  show ?case by (subst make_all.simps) (intro keeps_bind [OF mk], auto intro!: always_intros split: sum.split)
next
  case (Suc m)
  have mk: "keeps I (fs_mkdir io p)" unfolding fs_mkdir_def by (rule keeps_effect) (simp add: Suc.prems)
  have up: "keeps I (make_all io m (butlast p))"
    by (rule Suc.IH) (metis Suc.prems prefix_order.trans prefixeq_butlast)
  show ?case
    by (subst make_all.simps) (intro keeps_bind [OF mk], auto intro!: always_intros up mk split: sum.split)
qed

lemma keeps_create_dir_all: "(\<And>t q. prefix q p \<Longrightarrow> I t \<Longrightarrow> I (snd (t_mkdir q t))) \<Longrightarrow> keeps I (fs_create_dir_all io p)"
  unfolding fs_create_dir_all_def by (rule keeps_make_all)


subsection \<open>Directories are made, files stay\<close>

lemma files_mkdir: "file_at (snd (t_mkdir p t)) = file_at t"
proof -
  have "file_at t q = None" if "\<not> hm_contains_key q t" for q using that by (simp add: hm_contains_key_def file_at_def)
  then show ?thesis by (auto simp: t_mkdir_def file_at_insert fun_eq_iff split: sum.split)
qed

lemma keeps_files_create_dir_all: "keeps (\<lambda>t. file_at t = f) (fs_create_dir_all io p)"
  by (rule keeps_create_dir_all) (simp add: files_mkdir)

end
