(* ===== verification/Volume_Safety.thy ===== *)
theory Volume_Safety
  imports Volume_Refresh Faulty_Runs
begin

section \<open>Refreshing a volume when calls fail\<close>

text \<open>
  Two facts about the writers of \<open>Volume_Files\<close> that need no assumption on the calls: whatever fails, a refresh of a
  directory without links touches nothing outside it, and a projected volume whose objects cannot be fetched keeps its files.
\<close>

subsection \<open>Staying inside a directory\<close>

definition confined :: "fpath \<Rightarrow> tree \<Rightarrow> tree \<Rightarrow> bool" where
  "confined dir t\<^sub>0 t \<longleftrightarrow> tree_ok t \<and> dir_at t dir \<and> no_links_below t dir \<and> (\<forall>p. \<not> strict_prefix dir p \<longrightarrow> hm_get t p = hm_get t\<^sub>0 p)"

lemma confinedD:
  assumes "confined dir t\<^sub>0 t"
  shows "tree_ok t" "dir_at t dir" "no_links_below t dir" "\<not> strict_prefix dir p \<Longrightarrow> hm_get t p = hm_get t\<^sub>0 p"
  using assms unfolding confined_def by blast+

lemma walk_no_links:
  "walk t follow n cur cs = Inr q \<Longrightarrow> plain_path cs \<Longrightarrow> (\<And>k. prefix k cs \<Longrightarrow> k \<noteq> [] \<Longrightarrow> \<not> is_link t (cur @ k)) \<Longrightarrow> q = cur @ cs"
proof (induction cs arbitrary: cur)
  case (Cons c cs)
  have c: "c \<noteq> ''..''" using Cons.prems(2) by (simp add: plain_name_def)
  have n: "\<not> is_link t (cur @ [c])" using Cons.prems(3) [of "[c]"] by simp
  show ?case
  proof (cases t "cur @ [c]" rule: node_cases)
    case (dir i)
    have "q = (cur @ [c]) @ cs"
    proof (rule Cons.IH)
      show "walk t follow n (cur @ [c]) cs = Inr q" using Cons.prems(1) c dir by simp
      show "plain_path cs" using Cons.prems(2) by simp
      show "\<not> is_link t ((cur @ [c]) @ k)" if "prefix k cs" for k using Cons.prems(3) [of "c # k"] that by simp
    qed
    then show ?thesis by simp
  qed (use Cons.prems c n in \<open>auto split: if_splits\<close>)
qed simp

lemma confined_no_link:
  assumes "confined dir t\<^sub>0 t"
  shows "prefix k dir \<or> strict_prefix dir k \<Longrightarrow> \<not> is_link t k"
  using confinedD(1-3) [OF assms] free_pathD(1) [OF free_path_dir, of t dir k] by (auto simp: no_links_below_def)

lemma confined_locate:
  assumes "confined dir t\<^sub>0 t" "plain_path p" "prefix p dir \<or> strict_prefix dir p" "locate t follow p = Inr q"
  shows "q = p"
proof -
  have "\<not> is_link t k" if "prefix k p" for k
  proof (rule confined_no_link [OF assms(1)])
    from assms(3) show "prefix k dir \<or> strict_prefix dir k"
    proof
      assume "prefix p dir"
      then show ?thesis using that prefix_order.trans by blast
    next
      assume "strict_prefix dir p"
      then have "prefix dir k \<or> prefix k dir" using that prefix_same_cases [of dir p k] by (simp add: strict_prefix_def)
      then show ?thesis by (auto simp: strict_prefix_def)
    qed
  qed
  then show ?thesis using walk_no_links [of t follow 40 "[]" p q] assms(2,4) by (simp add: locate_def)
qed

lemma confined_step:
  assumes "confined dir t\<^sub>0 t" "tree_ok t'" "\<And>k. k \<noteq> p \<Longrightarrow> hm_get t' k = hm_get t k" "\<not> is_link t' p" "strict_prefix dir p"
  shows "confined dir t\<^sub>0 t'"
  unfolding confined_def
proof (intro conjI allI impI)
  show "tree_ok t'" by fact
  have "dir \<noteq> p" using assms(5) by (simp add: strict_prefix_def)
  then show "dir_at t' dir" using confinedD(2) [OF assms(1)] assms(3) by (simp add: dir_at_def)
  have "\<not> is_link t' k" if "prefix dir k" for k
    using confined_no_link [OF assms(1), of k] assms(3,4) that by (cases "k = p") (auto simp: is_link_def strict_prefix_def)
  then show "no_links_below t' dir" by (simp add: no_links_below_def)
  show "hm_get t' k = hm_get t\<^sub>0 k" if "\<not> strict_prefix dir k" for k
    using confinedD(4) [OF assms(1) that] assms(3) [of k] assms(5) that by fastforce
qed

lemma confined_ops:
  assumes "confined dir t\<^sub>0 t" "plain_path p" "strict_prefix dir p"
  shows "confined dir t\<^sub>0 (snd (t_write p c t))" "confined dir t\<^sub>0 (snd (t_mkdir p t))"
    "confined dir t\<^sub>0 (snd (t_remove_file p t))" "confined dir t\<^sub>0 (snd (t_remove_dir p t))" "confined dir t\<^sub>0 (snd (t_chmod mode p t))"
proof -
  note ok = confinedD(1) [OF assms(1)]
  have loc: "q = p" if "locate t follow p = Inr q" for follow q using confined_locate [OF assms(1,2)] assms(3) that by blast
  have nl: "\<not> is_link t p" using confined_no_link [OF assms(1)] assms(3) by blast
  note step = confined_step [OF assms(1) _ _ _ assms(3)]
  show "confined dir t\<^sub>0 (snd (t_write p c t))"
    by (rule step [OF tree_ok_write [OF ok plain_path_ok [OF assms(2)]]])
      (use nl in \<open>auto simp: t_write_def is_link_insert dest!: loc split: sum.split option.split fnode.split\<close>)
  show "confined dir t\<^sub>0 (snd (t_mkdir p t))"
    by (rule step [OF tree_ok_mkdir [OF ok plain_path_ok [OF assms(2)]]])
      (use nl in \<open>auto simp: t_mkdir_def is_link_insert dest!: loc split: sum.split\<close>)
  show "confined dir t\<^sub>0 (snd (t_remove_file p t))"
    by (rule step [OF tree_ok_remove_file [OF ok]])
      (use nl in \<open>auto simp: t_remove_file_def is_link_def delete_conv dest!: loc split: sum.split\<close>)
  show "confined dir t\<^sub>0 (snd (t_remove_dir p t))"
    by (rule step [OF tree_ok_remove_dir [OF ok]])
      (use nl in \<open>auto simp: t_remove_dir_def is_link_def delete_conv dest!: loc split: sum.split\<close>)
  have "\<not> is_link (snd (t_chmod mode p t)) p" using nl same_nodes_views [OF same_nodes_chmod] by metis
  then show "confined dir t\<^sub>0 (snd (t_chmod mode p t))"
    by (intro step [OF tree_ok_chmod [OF ok]])
      (auto simp: t_chmod_def t_change_def hm_modify_def dest!: loc split: sum.split option.split)
qed

lemma confined_mkdir_above: "confined dir t\<^sub>0 t \<Longrightarrow> prefix p dir \<Longrightarrow> plain_path p \<Longrightarrow> snd (t_mkdir p t) = t"
proof -
  assume c: "confined dir t\<^sub>0 t" and p: "prefix p dir" "plain_path p"
  have "hm_contains_key p t"
    using dir_at_prefix [OF confinedD(1) [OF c] p(1)] confinedD(2) [OF c] by (cases "p = dir") (auto simp: dir_at_def hm_contains_key_def)
  moreover have "q = p" if "locate t False p = Inr q" for q using confined_locate [OF c p(2) _ that] p(1) by blast
  ultimately show ?thesis by (auto simp: t_mkdir_def split: sum.split)
qed

lemma confined_mkdirs: "plain_path p \<Longrightarrow> strict_prefix dir p \<Longrightarrow> confined dir t\<^sub>0 t \<Longrightarrow> prefix q p \<Longrightarrow> confined dir t\<^sub>0 (snd (t_mkdir q t))"
proof -
  assume p: "plain_path p" "strict_prefix dir p" and c: "confined dir t\<^sub>0 t" and q: "prefix q p"
  have "plain_path q" using p(1) q by (auto simp: prefix_def)
  moreover have "prefix q dir \<or> strict_prefix dir q" using prefix_same_cases [of dir p q] p(2) q by (auto simp: strict_prefix_def)
  ultimately show ?thesis using confined_ops(2) [OF c] confined_mkdir_above [OF c] c by auto
qed

text \<open>The calls of the writers and of the clean-up.\<close>

lemma keeps_or_fail [always_intros]: "keeps I m \<Longrightarrow> (\<And>x. keeps I (k x)) \<Longrightarrow> keeps I (or_fail err m k)"
  unfolding or_fail_def by (auto intro!: always_intros split: sum.split)

lemma keeps_if_ok [always_intros]: "keeps I m \<Longrightarrow> keeps I k \<Longrightarrow> keeps I (if_ok m k)"
  unfolding if_ok_def by (auto intro!: always_intros split: sum.split)

lemma keeps_each_ok: "(\<And>x. x \<in> set xs \<Longrightarrow> keeps I (f x)) \<Longrightarrow> keeps I (each_ok f xs)"
  by (induction xs) (auto intro!: always_intros split: sum.split)

lemma keeps_each_do: "(\<And>x. x \<in> set xs \<Longrightarrow> keeps I (f x)) \<Longrightarrow> keeps I (each_do f xs)"
  by (induction xs) (auto intro!: always_intros)

lemma keeps_confined_calls:
  assumes "plain_path p" "strict_prefix dir p"
  shows "keeps (confined dir t\<^sub>0) (fs_write io p v)" "keeps (confined dir t\<^sub>0) (fs_set_permissions io m p)"
    "keeps (confined dir t\<^sub>0) (fs_remove_file io p)" "keeps (confined dir t\<^sub>0) (fs_remove_dir io p)"
    "keeps (confined dir t\<^sub>0) (make_parent io p)"
proof -
  note ops = confined_ops [OF _ assms]
  show "keeps (confined dir t\<^sub>0) (fs_write io p v)" by (rule keeps_write) (rule ops(1))
  show "keeps (confined dir t\<^sub>0) (fs_set_permissions io m p)" unfolding fs_set_permissions_def by (rule keeps_effect) (rule ops(5))
  show "keeps (confined dir t\<^sub>0) (fs_remove_file io p)" unfolding fs_remove_file_def by (rule keeps_effect) (rule ops(3))
  show "keeps (confined dir t\<^sub>0) (fs_remove_dir io p)" unfolding fs_remove_dir_def by (rule keeps_effect) (rule ops(4))
  have "prefix (butlast p) p" by (rule prefixeq_butlast)
  then have "keeps (confined dir t\<^sub>0) (fs_create_dir_all io (butlast p))"
    using confined_mkdirs [OF assms] prefix_order.trans by (intro keeps_create_dir_all) blast
  then show "keeps (confined dir t\<^sub>0) (make_parent io p)" by (auto simp: make_parent_def intro!: always_intros)
qed

lemma keeps_confined_writers:
  assumes "plain_path p" "strict_prefix dir p"
  shows "keeps (confined dir t\<^sub>0) (write_if_changed io p v)" "keeps (confined dir t\<^sub>0) (write_entry io m p v)"
proof -
  note calls = keeps_confined_calls [OF assms]
  show 1: "keeps (confined dir t\<^sub>0) (write_if_changed io p v)"
    unfolding write_if_changed_def by (auto intro!: always_intros calls)
  show "keeps (confined dir t\<^sub>0) (write_entry io m p v)"
    unfolding write_entry_def by (auto intro!: always_intros calls 1 split: option.split)
qed

definition inside :: "fpath \<Rightarrow> fpath list \<Rightarrow> bool" where
  "inside dir ps \<longleftrightarrow> (\<forall>p \<in> set ps. plain_path p \<and> strict_prefix dir p)"

lemma keeps_configmap_files:
  assumes "inside dir (expected_configmap_paths dir data items)"
  shows "keeps (confined dir t\<^sub>0) (write_projected_configmap_files io dir data items mode)"
proof -
  have "plain_path (join_path dir k)" "strict_prefix dir (join_path dir k)" if "items = []" "k \<in> fst ` set data" for k
    using assms that by (auto simp: inside_def expected_configmap_paths_def hm_keys_def)
  moreover have "plain_path (join_path dir (kp_path item))" "strict_prefix dir (join_path dir (kp_path item))"
      if "items \<noteq> []" "item \<in> set items" for item
    using assms that by (auto simp: inside_def expected_configmap_paths_def)
  ultimately show ?thesis unfolding write_projected_configmap_files_def
    by (auto intro!: keeps_each_ok keeps_confined_writers always_intros split: option.split) (metis fst_conv image_eqI)+
qed

lemma keeps_secret_files:
  assumes "inside dir (expected_secret_paths dir data items)"
  shows "keeps (confined dir t\<^sub>0) (write_projected_secret_files io dir data items mode)"
proof -
  have "plain_path (join_path dir k)" "strict_prefix dir (join_path dir k)" if "items = []" "k \<in> fst ` set data" for k
    using assms that by (auto simp: inside_def expected_secret_paths_def hm_keys_def)
  moreover have "plain_path (join_path dir (kp_path item))" "strict_prefix dir (join_path dir (kp_path item))"
      if "items \<noteq> []" "item \<in> set items" for item
    using assms that by (auto simp: inside_def expected_secret_paths_def)
  ultimately show ?thesis unfolding write_projected_secret_files_def
    by (auto intro!: keeps_each_ok keeps_confined_writers always_intros split: option.split) (metis fst_conv image_eqI)+
qed

lemma keeps_source:
  assumes "inside dir (expected_of_source dir got source)"
  shows "keeps (confined dir t\<^sub>0) (write_source io api nf pod pod_ip dir mode got source)"
proof (cases source)
  case (PConfigMap name items optional)
  then show ?thesis using assms
    by (auto simp: write_source_def expected_of_source_def intro!: keeps_configmap_files always_intros split: option.split)
next
  case (PSecret name items optional)
  then show ?thesis using assms
    by (auto simp: write_source_def expected_of_source_def intro!: keeps_secret_files always_intros split: option.split)
next
  case (PDownwardAPI items)
  then show ?thesis using assms
    by (auto simp: write_source_def expected_of_source_def inside_def write_downward_item_def Let_def
        intro!: keeps_each_ok keeps_confined_calls always_intros)
next
  case (PServiceAccountToken audience expiration path)
  then show ?thesis using assms
    by (auto simp: write_source_def expected_of_source_def inside_def write_token_def Let_def
        intro!: keeps_confined_calls keeps_confined_writers always_intros split: option.split)
qed

lemma read_dir_plain:
  "always (confined dir t\<^sub>0) (fs_read_dir io p) (\<lambda>r t. confined dir t\<^sub>0 t \<and> (\<forall>names. r = Inr names \<longrightarrow> list_all plain_name names))"
  unfolding fs_read_dir_def
proof (rule always_query)
  fix t assume c: "confined dir t\<^sub>0 t"
  have "plain_name (last k)" if "k \<in> set (hm_keys t)" "k \<noteq> []" for k
  proof -
    have "hm_get t k \<noteq> None" using that(1) by (auto simp: hm_keys_def map_of_eq_None_iff)
    then have "plain_path k" using tree_okD(3) [OF confinedD(1) [OF c]] by blast
    then show ?thesis using that(2) by (simp add: plain_path_def list_all_iff)
  qed
  then have "list_all plain_name names" if "t_read_dir p t = Inr names" for names
    using that by (auto simp: t_read_dir_def list_all_iff split: sum.splits if_splits)
  then show "confined dir t\<^sub>0 t \<and> (\<forall>names. t_read_dir p t = Inr names \<longrightarrow> list_all plain_name names)" using c by blast
qed simp

lemma keeps_stale:
  "plain_path d \<Longrightarrow> prefix dir d \<Longrightarrow> keeps (confined dir t\<^sub>0) (remove_stale_files_recursive io n expected d)"
proof (induction n arbitrary: d rule: less_induct)
  case (less n)
  have step: "keeps (confined dir t\<^sub>0) (do {
           b \<leftarrow> fs_is_dir io (d @ [name]);
           if b then do {
             (case n of 0 \<Rightarrow> State_Monad.return () | Suc m \<Rightarrow> remove_stale_files_recursive io m expected (d @ [name]));
             left \<leftarrow> fs_read_dir io (d @ [name]);
             if left = Inr [] then do { _ \<leftarrow> fs_remove_dir io (d @ [name]); State_Monad.return () } else State_Monad.return ()
           }
           else do {
             f \<leftarrow> fs_is_file io (d @ [name]);
             if f \<and> d @ [name] \<notin> set expected
             then do { _ \<leftarrow> fs_remove_file io (d @ [name]); State_Monad.return () }
             else State_Monad.return ()
           }
         })" if "plain_name name" for name
  proof -
    have p: "plain_path (d @ [name])" "prefix dir (d @ [name])" "strict_prefix dir (d @ [name])"
      using less.prems that by (auto simp: strict_prefix_def)
    have rec: "keeps (confined dir t\<^sub>0) (case n of 0 \<Rightarrow> State_Monad.return () | Suc m \<Rightarrow> remove_stale_files_recursive io m expected (d @ [name]))"
      using less.IH p by (auto intro!: always_intros split: nat.split)
    show ?thesis using p by (auto intro!: always_intros rec keeps_confined_calls)
  qed
  show ?case
  proof (subst remove_stale_files_recursive.simps, rule always_bind [OF read_dir_plain])
    fix r
    show "always (\<lambda>t. confined dir t\<^sub>0 t \<and> (\<forall>names. r = Inr names \<longrightarrow> list_all plain_name names))
      (case r of Inl _ \<Rightarrow> State_Monad.return ()
       | Inr names \<Rightarrow> each_do (\<lambda>name. do {
           d' \<leftarrow> fs_is_dir io (d @ [name]);
           if d' then do {
             (case n of 0 \<Rightarrow> State_Monad.return () | Suc m \<Rightarrow> remove_stale_files_recursive io m expected (d @ [name]));
             left \<leftarrow> fs_read_dir io (d @ [name]);
             if left = Inr [] then do { _ \<leftarrow> fs_remove_dir io (d @ [name]); State_Monad.return () } else State_Monad.return ()
           }
           else do {
             f \<leftarrow> fs_is_file io (d @ [name]);
             if f \<and> d @ [name] \<notin> set expected
             then do { _ \<leftarrow> fs_remove_file io (d @ [name]); State_Monad.return () }
             else State_Monad.return ()
           }
         }) names) (\<lambda>_. confined dir t\<^sub>0)"
    proof (cases "\<exists>names. r = Inr names \<and> \<not> list_all plain_name names")
      case True
      then show ?thesis by (auto simp: always_def)
    next
      case False
      then show ?thesis using step by (auto intro!: always_return keeps_each_do simp: list_all_iff split: sum.split)
    qed
  qed
qed

lemma keeps_cleanup: "plain_path dir \<Longrightarrow> keeps (confined dir t\<^sub>0) (cleanup_stale_volume_files io dir expected)"
  unfolding cleanup_stale_volume_files_def by (rule keeps_stale) simp_all


definition no_space :: faults where
  "no_space = (\<lambda>n. if even n then Some (''No space left on device (os error 28)'', 1) else None)"


text \<open>Without that condition on the paths it does not hold: they are joined as they are, and \<open>..\<close> leaves the volume.\<close>

lemma item_path_escapes:
  "let t' = dk_tree (snd (run_state (update_configmap_dir no_faults [''v''] [(''k'', ''1'')] [\<lparr>kp_key = ''k'', kp_path = ''../x'', kp_mode = None\<rparr>] None)
       \<lparr>dk_tree = demo_tree, dk_calls = 0\<rparr>))
   in file_at demo_tree [''x''] = None \<and> file_at t' [''x''] = Some ''1''"
  by code_simp


subsection \<open>A missing object keeps the files\<close>

lemma keeps_files_remove_if_dangling: "keeps (\<lambda>t. file_at t = f) (remove_if_dangling io p)"
proof -
  have l: "always (\<lambda>t. file_at t = f) (fs_lstat io p) (\<lambda>r t. file_at t = f \<and> (\<forall>i. r = Inr i \<longrightarrow> t_stat False p t = Inr i))"
    unfolding fs_lstat_def by (rule always_query) auto
  have rm: "always (\<lambda>t. file_at t = f \<and> (\<forall>i. r = Inr i \<longrightarrow> t_stat False p t = Inr i)) (fs_remove_file io p) (\<lambda>_ t. file_at t = f)"
    if r: "case r of Inr i \<Rightarrow> (case in_node i of Symlink _ _ \<Rightarrow> True | _ \<Rightarrow> False) | Inl _ \<Rightarrow> False" for r
    unfolding fs_remove_file_def
  proof (rule always_effect)
    fix t assume t: "file_at t = f \<and> (\<forall>i. r = Inr i \<longrightarrow> t_stat False p t = Inr i)"
    then obtain i a g where "r = Inr i" "in_node i = Symlink a g" "t_stat False p t = Inr i"
      using r by (auto split: sum.splits fnode.splits)
    then obtain q where q: "locate t False p = Inr q" "hm_get t q = Some i" "in_node i = Symlink a g"
      by (auto simp: t_stat_def split: sum.splits option.splits)
    have "file_at (hm_remove q t) = file_at t" using q by (auto simp: file_at_def delete_conv fun_eq_iff)
    then show "file_at (snd (t_remove_file p t)) = f" using q t by (simp add: t_remove_file_def dir_at_def)
  qed simp
  show ?thesis unfolding remove_if_dangling_def
  proof (rule always_bind [OF l])
    fix r
    let ?P = "\<lambda>t. file_at t = f \<and> (\<forall>i. r = Inr i \<longrightarrow> t_stat False p t = Inr i)"
    show "always ?P (if case r of Inr i \<Rightarrow> (case in_node i of Symlink _ _ \<Rightarrow> True | _ \<Rightarrow> False) | Inl _ \<Rightarrow> False
        then do { there \<leftarrow> fs_exists io p;
          if there then State_Monad.return () else do { _ \<leftarrow> fs_remove_file io p; State_Monad.return () } }
        else State_Monad.return ()) (\<lambda>_ t. file_at t = f)"
    proof (cases "case r of Inr i \<Rightarrow> (case in_node i of Symlink _ _ \<Rightarrow> True | _ \<Rightarrow> False) | Inl _ \<Rightarrow> False")
      case True
      have "always ?P (if there then State_Monad.return () else do { _ \<leftarrow> fs_remove_file io p; State_Monad.return () }) (\<lambda>_ t. file_at t = f)" for there
        by (cases there) (auto intro!: always_return always_bind [OF rm [OF True]])
      then show ?thesis using True by (simp add: always_bind [OF keeps_tests(1)])
    qed (auto intro: always_return)
  qed
qed

lemma keeps_files_dangling: "keeps (\<lambda>t. file_at t = f) (remove_dangling_symlinks_in_dir io dir)"
  unfolding remove_dangling_symlinks_in_dir_def
  by (auto intro!: always_intros keeps_each_do keeps_files_remove_if_dangling split: sum.split)

text \<open>C20: A projected volume one of whose required objects cannot be had keeps the files it has. The call returns an error,
  so that the pod is not started on stale or missing files, and no regular file anywhere is created, changed or
  removed, whatever other calls fail.\<close>

theorem missing_object_keeps_files:
  assumes "if va_client api then isl (fetch_sources api sources ([], []))
      else (list_ex is_configmap_source sources \<or> list_ex is_secret_source sources) \<and> \<not> list_all source_optional sources"
    "run_state (write_projected_volume io api nf root_dir pod name sources mode pod_ip) d = (r, d')"
  shows "isl r \<and> file_at (dk_tree d') = file_at (dk_tree d)"
proof -
  let ?f = "file_at (dk_tree d)" and ?dir = "comps (volume_target_path root_dir pod name)"
  have fails: "always (\<lambda>t. file_at t = ?f)
     (if (list_ex is_configmap_source sources \<or> list_ex is_secret_source sources) \<and> \<not> va_client api then
        State_Monad.return (if list_all source_optional sources then Inr ()
          else Inl (ERuntime ''failed to create kube client for projected volume: no client available''))
      else case fetch_sources api sources ([], []) of
        Inl e \<Rightarrow> State_Monad.return (Inl e)
      | Inr got \<Rightarrow> write_sources io api nf pod pod_ip ?dir mode got sources)
     (\<lambda>r t. isl r \<and> file_at t = ?f)"
  proof (cases "va_client api")
    case True
    then obtain e where "fetch_sources api sources ([], []) = Inl e" using assms(1) by (auto simp: isl_def)
    then show ?thesis using True by (simp add: always_return)
  next
    case False
    then have "list_ex is_configmap_source sources \<or> list_ex is_secret_source sources" "list_all source_optional sources = False"
      using assms(1) by simp_all
    then show ?thesis using False by (simp only: simp_thms if_True if_False) (simp add: always_return)
  qed
  have "always (\<lambda>t. file_at t = ?f) (write_projected_volume io api nf root_dir pod name sources mode pod_ip) (\<lambda>r t. isl r \<and> file_at t = ?f)"
    unfolding write_projected_volume_def Let_def or_fail_def
  proof (rule always_bind [OF keeps_files_create_dir_all], goal_cases)
    case (1 r)
    show ?case
    proof (cases r)
      case (Inr u)
      then show ?thesis by (simp only: sum.case) (rule always_bind [OF keeps_files_dangling fails])
    qed (simp add: always_return)
  qed
  from always_run [OF this _ assms(2)] show ?thesis by simp
qed

theorem missing_object_keeps_files_witness:
  "let (r, d') = run_state (write_projected_volume no_space token_api demo_facts ''/r'' PodSpec_default ''v'' [PSecret ''s'' [] False] None None)
      \<lparr>dk_tree = demo_tree, dk_calls = 0\<rparr>
   in isl r \<and> file_at (dk_tree d') = file_at demo_tree"
proof -
  let ?run = "run_state (write_projected_volume no_space token_api demo_facts ''/r'' PodSpec_default ''v'' [PSecret ''s'' [] False] None None)
      \<lparr>dk_tree = demo_tree, dk_calls = 0\<rparr>"
  have "isl (fetch_sources token_api [PSecret ''s'' [] False] ([], []))" by code_simp
  then have "isl (fst ?run) \<and> file_at (dk_tree (snd ?run)) = file_at demo_tree"
    using missing_object_keeps_files [of token_api "[PSecret ''s'' [] False]" no_space demo_facts "''/r''" PodSpec_default "''v''" None None
        "\<lparr>dk_tree = demo_tree, dk_calls = 0\<rparr>" "fst ?run" "snd ?run"]
    by (simp add: token_api_def)
  then show ?thesis by (simp add: Let_def split_beta)
qed

end
