(* ===== verification/Csi.thy ===== *)
theory Csi
  imports Volume_Files Faulty_Runs
begin

section \<open>CSI volumes\<close>

text \<open>
  \<^verbatim>\<open>kubelet-adapters/src/csi/mod.rs\<close>: the registry of plugins found on disk, the client, whose calls the source simulates on the file
  system, and the manager of staged and published volumes. A path kept as text is resolved from the root. Only
  \<^verbatim>\<open>node_get_info\<close>, which connects to the socket, is left out.
\<close>

subsection \<open>Messages\<close>

datatype AccessMode =
    UnknownMode | SingleNodeWriter | SingleNodeReadOnly | MultiNodeReadOnly | MultiNodeSingleWriter | MultiNodeMultiWriter

datatype AccessType = MountAccess | BlockAccess

record VolumeCapability =
  vc_access_mode :: AccessMode
  vc_access_type :: AccessType
  vc_fs_type :: string
  vc_mount_flags :: "string list"

record NodeStageVolumeRequest =
  sv_volume_id :: string
  sv_publish_context :: "(string, string) hmap"
  sv_staging_target_path :: string
  sv_volume_capability :: VolumeCapability
  sv_secrets :: "(string, string) hmap"
  sv_volume_context :: "(string, string) hmap"

record NodePublishVolumeRequest =
  pv_volume_id :: string
  pv_publish_context :: "(string, string) hmap"
  pv_staging_target_path :: string
  pv_target_path :: string
  pv_volume_capability :: VolumeCapability
  pv_readonly :: bool
  pv_secrets :: "(string, string) hmap"
  pv_volume_context :: "(string, string) hmap"

record NodeUnpublishVolumeRequest =
  uv_volume_id :: string
  uv_target_path :: string

record NodeUnstageVolumeRequest =
  ug_volume_id :: string
  ug_staging_target_path :: string

record CsiPlugin =
  cp_name :: string
  cp_socket_path :: fpath
  cp_node_id :: string
  cp_max_volumes_per_node :: int
  cp_accessible_topology :: "(string, string) hmap"

record CsiVolumeContext =
  cx_volume_id :: string
  cx_volume_attributes :: "(string, string) hmap"
  cx_target_path :: string
  cx_staging_target_path :: "string option"
  cx_read_only :: bool
  cx_access_type :: AccessType
  cx_fs_type :: "string option"
  cx_mount_flags :: "string list"
  cx_secrets :: "(string, string) hmap"

subsection \<open>Registry\<close>

record CsiPluginRegistry =
  cr_plugins :: "(string, CsiPlugin) hmap"
  cr_plugin_dir :: fpath

definition CsiPluginRegistry_new :: "fpath \<Rightarrow> CsiPluginRegistry" where
  "CsiPluginRegistry_new plugin_dir = \<lparr>cr_plugins = [], cr_plugin_dir = plugin_dir\<rparr>"

definition csi_register :: "CsiPlugin \<Rightarrow> CsiPluginRegistry \<Rightarrow> CsiPluginRegistry" where
  "csi_register plugin r = r\<lparr>cr_plugins := hm_insert (cp_name plugin) plugin (cr_plugins r)\<rparr>"

definition csi_deregister :: "string \<Rightarrow> CsiPluginRegistry \<Rightarrow> CsiPluginRegistry" where
  "csi_deregister driver_name r = r\<lparr>cr_plugins := hm_remove driver_name (cr_plugins r)\<rparr>"

definition csi_get :: "string \<Rightarrow> CsiPluginRegistry \<Rightarrow> CsiPlugin option" where
  "csi_get driver_name r = hm_get (cr_plugins r) driver_name"

definition csi_plugin_count :: "CsiPluginRegistry \<Rightarrow> nat" where
  "csi_plugin_count r = length (cr_plugins r)"

definition csi_list :: "CsiPluginRegistry \<Rightarrow> CsiPlugin list" where
  "csi_list r = hm_values (cr_plugins r)"

definition discovered :: "fpath \<Rightarrow> string \<Rightarrow> CsiPlugin" where
  "discovered socket driver_name =
     \<lparr>cp_name = driver_name, cp_socket_path = socket, cp_node_id = [], cp_max_volumes_per_node = 0, cp_accessible_topology = []\<rparr>"

fun scan_entries :: "faults \<Rightarrow> fpath \<Rightarrow> string list \<Rightarrow> (string, CsiPlugin) hmap \<Rightarrow> (string, CsiPlugin) hmap fsio" where
  "scan_entries io dir [] plugins = State_Monad.return plugins"
| "scan_entries io dir (name # names) plugins = do {
     d \<leftarrow> fs_is_dir io (dir @ [name]);
     if \<not> d then scan_entries io dir names plugins
     else do {
       s \<leftarrow> fs_exists io (dir @ [name, ''csi.sock'']);
       if \<not> s \<or> name = [] \<or> hm_contains_key name plugins then scan_entries io dir names plugins
       else scan_entries io dir names (hm_insert name (discovered (dir @ [name, ''csi.sock'']) name) plugins)
     }
   }"

definition csi_scan :: "faults \<Rightarrow> CsiPluginRegistry \<Rightarrow> CsiPluginRegistry fsio" where
  "csi_scan io r = do {
     entries \<leftarrow> fs_read_dir io (cr_plugin_dir r);
     case entries of
       Inl _ \<Rightarrow> State_Monad.return r
     | Inr names \<Rightarrow> do {
         plugins \<leftarrow> scan_entries io (cr_plugin_dir r) names (cr_plugins r);
         State_Monad.return (r\<lparr>cr_plugins := plugins\<rparr>)
       }
   }"

subsection \<open>Client\<close>

definition node_stage_volume :: "faults \<Rightarrow> NodeStageVolumeRequest \<Rightarrow> unit result fsio" where
  "node_stage_volume io req =
     or_fail (\<lambda>e. EStorage (''stage dir: '' @ e)) (make_parent io (comps (sv_staging_target_path req)))
       (\<lambda>_. State_Monad.return (Inr ()))"

definition node_publish_volume :: "faults \<Rightarrow> NodePublishVolumeRequest \<Rightarrow> unit result fsio" where
  "node_publish_volume io req =
     or_fail (\<lambda>e. EStorage (''publish dir: '' @ e)) (fs_create_dir_all io (comps (pv_target_path req)))
       (\<lambda>_. State_Monad.return (Inr ()))"

definition node_unpublish_volume :: "faults \<Rightarrow> NodeUnpublishVolumeRequest \<Rightarrow> unit result fsio" where
  "node_unpublish_volume io req = do {
     _ \<leftarrow> fs_remove_dir io (comps (uv_target_path req));
     State_Monad.return (Inr ())
   }"

definition node_unstage_volume :: "faults \<Rightarrow> NodeUnstageVolumeRequest \<Rightarrow> unit result fsio" where
  "node_unstage_volume io req = do {
     _ \<leftarrow> fs_remove_dir io (comps (ug_staging_target_path req));
     State_Monad.return (Inr ())
   }"

subsection \<open>Manager\<close>

record CsiVolumeManager =
  cv_registry :: CsiPluginRegistry
  cv_published :: "(string, string) hmap"
  cv_staged :: "(string, string) hmap"

definition CsiVolumeManager_new :: "fpath \<Rightarrow> CsiVolumeManager" where
  "CsiVolumeManager_new plugin_dir = \<lparr>cv_registry = CsiPluginRegistry_new plugin_dir, cv_published = [], cv_staged = []\<rparr>"

definition driver_name :: "CsiVolumeContext \<Rightarrow> string option" where
  "driver_name ctx = hm_get (cx_volume_attributes ctx) ''csi.storage.k8s.io/driver''"

definition missing_driver :: KubeletError where
  "missing_driver = EStorage ''missing csi.storage.k8s.io/driver attribute''"

definition capability :: "CsiVolumeContext \<Rightarrow> VolumeCapability" where
  "capability ctx =
     \<lparr>vc_access_mode = SingleNodeWriter, vc_access_type = cx_access_type ctx,
      vc_fs_type = (case cx_fs_type ctx of Some t \<Rightarrow> t | None \<Rightarrow> []), vc_mount_flags = cx_mount_flags ctx\<rparr>"

definition stage_request :: "CsiVolumeContext \<Rightarrow> NodeStageVolumeRequest" where
  "stage_request ctx =
     \<lparr>sv_volume_id = cx_volume_id ctx, sv_publish_context = [],
      sv_staging_target_path = (case cx_staging_target_path ctx of Some p \<Rightarrow> p | None \<Rightarrow> []), sv_volume_capability = capability ctx,
      sv_secrets = cx_secrets ctx, sv_volume_context = cx_volume_attributes ctx\<rparr>"

definition stage_volume :: "faults \<Rightarrow> CsiVolumeContext \<Rightarrow> CsiVolumeManager \<Rightarrow> (unit result \<times> CsiVolumeManager) fsio" where
  "stage_volume io ctx m =
     (case driver_name ctx of
        None \<Rightarrow> State_Monad.return (Inl missing_driver, m)
      | Some driver \<Rightarrow>
          (case csi_get driver (cv_registry m) of
             None \<Rightarrow> State_Monad.return (Inl (EStorage (''no CSI plugin registered for driver '' @ quoted driver)), m)
           | Some plugin \<Rightarrow> do {
               r \<leftarrow> node_stage_volume io (stage_request ctx);
               State_Monad.return (case r of
                 Inl e \<Rightarrow> (Inl e, m)
               | Inr _ \<Rightarrow> (Inr (), m\<lparr>cv_staged := hm_insert (cx_volume_id ctx) (sv_staging_target_path (stage_request ctx)) (cv_staged m)\<rparr>))
             }))"

definition publish_request :: "CsiVolumeManager \<Rightarrow> CsiVolumeContext \<Rightarrow> NodePublishVolumeRequest" where
  "publish_request m ctx =
     \<lparr>pv_volume_id = cx_volume_id ctx, pv_publish_context = [],
      pv_staging_target_path = (case hm_get (cv_staged m) (cx_volume_id ctx) of
          Some p \<Rightarrow> p
        | None \<Rightarrow> (case cx_staging_target_path ctx of Some p \<Rightarrow> p | None \<Rightarrow> ''/var/lib/kubelet/plugins'')),
      pv_target_path = cx_target_path ctx, pv_volume_capability = capability ctx, pv_readonly = cx_read_only ctx,
      pv_secrets = cx_secrets ctx, pv_volume_context = cx_volume_attributes ctx\<rparr>"

definition publish_volume :: "faults \<Rightarrow> CsiVolumeContext \<Rightarrow> CsiVolumeManager \<Rightarrow> (unit result \<times> CsiVolumeManager) fsio" where
  "publish_volume io ctx m =
     (case driver_name ctx of
        None \<Rightarrow> State_Monad.return (Inl missing_driver, m)
      | Some driver \<Rightarrow> do {
          r \<leftarrow> node_publish_volume io (publish_request m ctx);
          State_Monad.return (case r of
            Inl e \<Rightarrow> (Inl e, m)
          | Inr _ \<Rightarrow> (Inr (), m\<lparr>cv_published := hm_insert (cx_volume_id ctx) (cx_target_path ctx) (cv_published m)\<rparr>))
        })"

definition unpublish_volume :: "faults \<Rightarrow> string \<Rightarrow> string \<Rightarrow> CsiVolumeManager \<Rightarrow> (unit result \<times> CsiVolumeManager) fsio" where
  "unpublish_volume io volume_id target_path m = do {
     registry \<leftarrow> csi_scan io (cv_registry m);
     let m = m\<lparr>cv_registry := registry\<rparr>;
     r \<leftarrow> node_unpublish_volume io \<lparr>uv_volume_id = volume_id, uv_target_path = target_path\<rparr>;
     State_Monad.return (case r of
       Inl e \<Rightarrow> (Inl e, m)
     | Inr _ \<Rightarrow> (Inr (), m\<lparr>cv_published := hm_remove volume_id (cv_published m)\<rparr>))
   }"

definition is_published :: "string \<Rightarrow> CsiVolumeManager \<Rightarrow> bool" where
  "is_published volume_id m = hm_contains_key volume_id (cv_published m)"

definition is_staged :: "string \<Rightarrow> CsiVolumeManager \<Rightarrow> bool" where
  "is_staged volume_id m = hm_contains_key volume_id (cv_staged m)"

definition mounted_count :: "CsiVolumeManager \<Rightarrow> nat" where
  "mounted_count m = length (cv_published m)"

subsection \<open>Discovery\<close>

text \<open>The simulated client never refuses to unpublish, and a scan never forgets or replaces a plugin.\<close>

lemma unpublish_succeeds: "fst (fst (run_state (unpublish_volume io volume_id target_path m) d)) = Inr ()"
  by (simp add: unpublish_volume_def node_unpublish_volume_def split_beta Let_def)

lemma unpublish_keeps_staged: "cv_staged (snd (fst (run_state (unpublish_volume io volume_id target_path m) d))) = cv_staged m"
  by (simp add: unpublish_volume_def node_unpublish_volume_def split_beta Let_def)

lemma scan_entries_keeps:
  "hm_get plugins k = Some p \<Longrightarrow> hm_get (fst (run_state (scan_entries io dir names plugins) d)) k = Some p"
proof (induction names arbitrary: plugins d)
  case (Cons name names)
  have "hm_get (hm_insert name v plugins) k = Some p" if "\<not> hm_contains_key name plugins" for v
    using Cons.prems that by (auto simp: hm_contains_key_def)
  then show ?case using Cons by (auto simp: split_beta)
qed simp

lemma scan_keeps: "csi_get k r = Some p \<Longrightarrow> csi_get k (fst (run_state (csi_scan io r) d)) = Some p"
  using scan_entries_keeps [where plugins = "cr_plugins r"]
  by (auto simp: csi_scan_def csi_get_def split_beta split: sum.split)

end
