(* ===== verification/Volume_Manager.thy ===== *)
theory Volume_Manager
  imports Csi
begin

section \<open>The volume managers\<close>

text \<open>
  \<^verbatim>\<open>kubelet-adapters/src/volume/mod.rs\<close>: the local manager, which makes directories and remembers what it mounted, and the
  composite manager, which sends persistent volume claims to CSI or, when the claim is bound to a local or host path
  volume, to the local one. The state is passed through each call. Outside the source are the child processes
  \<^verbatim>\<open>mount\<close> and \<^verbatim>\<open>umount\<close>, the look-up of a claim at the API server and one environment variable: arguments.
\<close>

subsection \<open>State\<close>

record UnmountRequest =
  ur_pod_uid :: string
  ur_volume_name :: string
  ur_mount_path :: string

record MountedVolume =
  mv_pod_uid :: string
  mv_volume_name :: string
  mv_mount_path :: fpath
  mv_device_path :: "string option"
  mv_read_only :: bool

record LocalVolumeManager =
  lv_root_dir :: fpath
  lv_mounted :: "(string, MountedVolume list) hmap"
  lv_tmpfs_paths :: "fpath list"

definition LocalVolumeManager_new :: "fpath \<Rightarrow> LocalVolumeManager" where
  "LocalVolumeManager_new root_dir = \<lparr>lv_root_dir = root_dir, lv_mounted = [], lv_tmpfs_paths = []\<rparr>"

definition pod_volume_dir :: "fpath \<Rightarrow> string \<Rightarrow> fpath" where
  "pod_volume_dir root_dir pod_uid = join_path (join_path (join_path root_dir ''pods'') pod_uid) ''volumes''"

subsection \<open>Local volumes\<close>

text \<open>The answer of \<^verbatim>\<open>mount\<close>: it cannot be run, it ran and succeeded, or it exited with a status.\<close>

type_synonym mount_answer = "string + string option"

definition is_memory_medium :: "string option \<Rightarrow> bool" where
  "is_memory_medium medium = (case medium of Some m \<Rightarrow> to_lowercase m = ''memory'' | None \<Rightarrow> False)"

definition emptydir_path :: "fpath \<Rightarrow> string \<Rightarrow> string \<Rightarrow> fpath" where
  "emptydir_path root_dir pod_uid volume_name = join_path (join_path (pod_volume_dir root_dir pod_uid) ''kubernetes.io~empty-dir'') volume_name"

definition mount_emptydir ::
  "faults \<Rightarrow> (fpath \<Rightarrow> mount_answer) \<Rightarrow> string \<Rightarrow> string \<Rightarrow> string option \<Rightarrow> LocalVolumeManager \<Rightarrow> (fpath result \<times> LocalVolumeManager) fsio" where
  "mount_emptydir io mnt pod_uid volume_name medium m =
     (let p = emptydir_path (lv_root_dir m) pod_uid volume_name
      in do {
        made \<leftarrow> fs_create_dir_all io p;
        case made of
          Inl e \<Rightarrow> State_Monad.return (Inl (EIo e), m)
        | Inr _ \<Rightarrow>
            let answer = (if is_memory_medium medium then mnt p else Inr None)
            in case answer of
                 Inl e \<Rightarrow> State_Monad.return (Inl (EVolumeMount (''failed to run mount for tmpfs at '' @ quoted (path_str p) @ '': '' @ e)), m)
               | Inr (Some status) \<Rightarrow>
                   State_Monad.return (Inl (EVolumeMount (''mount -t tmpfs failed at '' @ quoted (path_str p) @ '' (exit: '' @ status @ '')'')), m)
               | Inr None \<Rightarrow> do {
                   _ \<leftarrow> fs_set_permissions io 0x1FF p;
                   State_Monad.return (Inr p, if is_memory_medium medium then m\<lparr>lv_tmpfs_paths := List.insert p (lv_tmpfs_paths m)\<rparr> else m)
                 }
      })"

definition host_path_error :: "fpath \<Rightarrow> string \<Rightarrow> fpath result" where
  "host_path_error p what = Inl (EVolumeMount (''hostPath '' @ quoted (path_str p) @ what))"

definition mount_hostpath :: "faults \<Rightarrow> string \<Rightarrow> string option \<Rightarrow> fpath result fsio" where
  "mount_hostpath io path path_type =
     (let p = comps path
      in if path_type = Some ''Directory'' then do {
           d \<leftarrow> fs_is_dir io p;
           State_Monad.return (if d then Inr p else host_path_error p '' must be an existing directory'')
         }
         else if path_type = Some ''DirectoryOrCreate'' then do {
           there \<leftarrow> fs_exists io p;
           (if there then State_Monad.return () else do { _ \<leftarrow> fs_create_dir_all io p; State_Monad.return () });
           there \<leftarrow> fs_exists io p;
           if there then do {
             d \<leftarrow> fs_is_dir io p;
             State_Monad.return (if d then Inr p else host_path_error p '' is not a directory'')
           }
           else State_Monad.return (Inr p)
         }
         else if path_type = Some ''File'' then do {
           f \<leftarrow> fs_is_file io p;
           State_Monad.return (if f then Inr p else host_path_error p '' must be an existing file'')
         }
         else if path_type = Some ''FileOrCreate'' then do {
           _ \<leftarrow> make_parent io p;
           there \<leftarrow> fs_exists io p;
           made \<leftarrow> (if there then State_Monad.return (Inr ()) else fs_write io p []);
           case made of
             Inl e \<Rightarrow> State_Monad.return (Inl (EIo e))
           | Inr _ \<Rightarrow> do {
               f \<leftarrow> fs_is_file io p;
               State_Monad.return (if f then Inr p else host_path_error p '' is not a file'')
             }
         }
         else if path_type \<in> {Some ''Socket'', Some ''CharDevice'', Some ''BlockDevice''} then do {
           there \<leftarrow> fs_exists io p;
           State_Monad.return (if there then Inr p else host_path_error p '' does not exist'')
         }
         else do {
           there \<leftarrow> fs_exists io p;
           (if there then State_Monad.return () else do { _ \<leftarrow> fs_create_dir_all io p; State_Monad.return () });
           State_Monad.return (Inr p)
         })"

definition mount_kind :: "faults \<Rightarrow> string \<Rightarrow> MountRequest \<Rightarrow> LocalVolumeManager \<Rightarrow> fpath result fsio" where
  "mount_kind io kind req m =
     (let p = join_path (join_path (pod_volume_dir (lv_root_dir m) (mr_pod_uid req)) kind) (mr_volume_name req)
      in or_fail EIo (fs_create_dir_all io p) (\<lambda>_. State_Monad.return (Inr p)))"

definition with_manager :: "'m \<Rightarrow> 'a result fsio \<Rightarrow> ('a result \<times> 'm) fsio" where
  "with_manager m c = do { r \<leftarrow> c; State_Monad.return (r, m) }"

definition mount_one :: "faults \<Rightarrow> (fpath \<Rightarrow> mount_answer) \<Rightarrow> MountRequest \<Rightarrow> LocalVolumeManager \<Rightarrow> (fpath result \<times> LocalVolumeManager) fsio" where
  "mount_one io mnt req m =
     (case vs_source (mr_volume_spec req) of
        EmptyDir medium _ \<Rightarrow> mount_emptydir io mnt (mr_pod_uid req) (mr_volume_name req) medium m
      | HostPath path path_type \<Rightarrow> with_manager m (mount_hostpath io path path_type)
      | VConfigMap _ _ _ _ \<Rightarrow> with_manager m (mount_kind io ''kubernetes.io~configmap'' req m)
      | VSecret _ _ _ _ \<Rightarrow> with_manager m (mount_kind io ''kubernetes.io~secret'' req m)
      | Projected _ _ \<Rightarrow> with_manager m (mount_kind io ''kubernetes.io~projected'' req m)
      | VDownwardAPI _ _ \<Rightarrow> with_manager m (mount_kind io ''kubernetes.io~downward-api'' req m)
      | _ \<Rightarrow> State_Monad.return (Inl (EVolumeMount (''Unsupported volume type for '' @ quoted (mr_volume_name req))), m))"

definition listed :: "(string, MountedVolume list) hmap \<Rightarrow> string \<Rightarrow> MountedVolume list" where
  "listed mounted pod_uid = (case hm_get mounted pod_uid of Some vols \<Rightarrow> vols | None \<Rightarrow> [])"

definition push_volume :: "MountedVolume \<Rightarrow> (string, MountedVolume list) hmap \<Rightarrow> (string, MountedVolume list) hmap" where
  "push_volume v mounted =
     hm_insert (mv_pod_uid v) (listed mounted (mv_pod_uid v) @ [v]) mounted"

definition mounted_at :: "MountRequest \<Rightarrow> fpath \<Rightarrow> string option \<Rightarrow> MountedVolume" where
  "mounted_at req p device =
     \<lparr>mv_pod_uid = mr_pod_uid req, mv_volume_name = mr_volume_name req, mv_mount_path = p, mv_device_path = device,
      mv_read_only = mr_read_only req\<rparr>"

fun local_mount_volumes ::
  "faults \<Rightarrow> (fpath \<Rightarrow> mount_answer) \<Rightarrow> MountRequest list \<Rightarrow> LocalVolumeManager \<Rightarrow> (fpath list result \<times> LocalVolumeManager) fsio" where
  "local_mount_volumes io mnt [] m = State_Monad.return (Inr [], m)"
| "local_mount_volumes io mnt (req # reqs) m = do {
     (r, m) \<leftarrow> mount_one io mnt req m;
     case r of
       Inl e \<Rightarrow> State_Monad.return (Inl e, m)
     | Inr p \<Rightarrow> do {
         (r, m) \<leftarrow> local_mount_volumes io mnt reqs (m\<lparr>lv_mounted := push_volume (mounted_at req p None) (lv_mounted m)\<rparr>);
         State_Monad.return (map_sum id (\<lambda>ps. p # ps) r, m)
       }
   }"

text \<open>The answer of \<^verbatim>\<open>umount\<close> is ignored.\<close>

definition local_unmount_one :: "UnmountRequest \<Rightarrow> LocalVolumeManager \<Rightarrow> LocalVolumeManager" where
  "local_unmount_one req m =
     m\<lparr>lv_tmpfs_paths := removeAll (emptydir_path (lv_root_dir m) (ur_pod_uid req) (ur_volume_name req)) (lv_tmpfs_paths m),
       lv_mounted := hm_modify (ur_pod_uid req) (filter (\<lambda>v. mv_volume_name v \<noteq> ur_volume_name req)) (lv_mounted m)\<rparr>"

definition local_unmount_volumes :: "UnmountRequest list \<Rightarrow> LocalVolumeManager \<Rightarrow> LocalVolumeManager" where
  "local_unmount_volumes reqs m = fold local_unmount_one reqs m"

definition local_volumes_mounted :: "string \<Rightarrow> LocalVolumeManager \<Rightarrow> bool" where
  "local_volumes_mounted pod_uid m = (case hm_get (lv_mounted m) pod_uid of Some vols \<Rightarrow> vols \<noteq> [] | None \<Rightarrow> False)"

definition local_list_mounted :: "string \<Rightarrow> LocalVolumeManager \<Rightarrow> MountedVolume list" where
  "local_list_mounted pod_uid m = listed (lv_mounted m) pod_uid"

subsection \<open>The composite manager\<close>

record CompositeVolumeManager =
  vm_local :: LocalVolumeManager
  vm_csi :: CsiVolumeManager
  vm_csi_mounted :: "(string, MountedVolume list) hmap"
  vm_root_dir :: fpath

definition CompositeVolumeManager_new :: "faults \<Rightarrow> fpath \<Rightarrow> fpath \<Rightarrow> CompositeVolumeManager fsio" where
  "CompositeVolumeManager_new io root_dir csi_plugin_dir = do {
     registry \<leftarrow> csi_scan io (cv_registry (CsiVolumeManager_new csi_plugin_dir));
     State_Monad.return \<lparr>vm_local = LocalVolumeManager_new root_dir, vm_csi = (CsiVolumeManager_new csi_plugin_dir)\<lparr>cv_registry := registry\<rparr>,
       vm_csi_mounted = [], vm_root_dir = root_dir\<rparr>
   }"

text \<open>What the manager reads of a persistent volume: its local path, its CSI driver and handle, its host path and type.\<close>

record PvSource =
  pvs_local :: "string option"
  pvs_csi :: "(string \<times> string) option"
  pvs_host_path :: "(string \<times> string option) option"

record VolumeOutside =
  vo_mount :: "fpath \<Rightarrow> mount_answer"
  vo_pv :: "string \<Rightarrow> string \<Rightarrow> PvSource option"
  vo_default_driver :: "string option"

definition csi_driver_and_volume_id :: "string option \<Rightarrow> string \<Rightarrow> (string \<times> string) result" where
  "csi_driver_and_volume_id default_driver claim_name =
     (case strip_prefix ''csi://'' claim_name of
        Some rest \<Rightarrow>
          (case split_once CHR ''/'' rest of
             Some (driver, volume_id) \<Rightarrow>
               if driver \<noteq> [] \<and> volume_id \<noteq> [] then Inr (driver, volume_id)
               else Inl (EVolumeMount (''invalid CSI claim name '' @ quoted claim_name @ '': expected csi://<driver>/<volume-id>''))
           | None \<Rightarrow> Inl (EVolumeMount (''invalid CSI claim name '' @ quoted claim_name @ '': expected csi://<driver>/<volume-id>'')))
      | None \<Rightarrow>
          (case default_driver of
             Some driver \<Rightarrow>
               if trim driver \<noteq> [] then Inr (driver, claim_name)
               else Inl (EVolumeMount (''PVC '' @ quoted claim_name @ '' requires CSI driver mapping: use csi://<driver>/<volume-id> or set KUBELET_CSI_DEFAULT_DRIVER''))
           | None \<Rightarrow> Inl (EVolumeMount (''PVC '' @ quoted claim_name @ '' requires CSI driver mapping: use csi://<driver>/<volume-id> or set KUBELET_CSI_DEFAULT_DRIVER''))))"

definition csi_staging_path :: "fpath \<Rightarrow> MountRequest \<Rightarrow> fpath" where
  "csi_staging_path root_dir req =
     join_path (join_path (join_path (pod_volume_dir root_dir (mr_pod_uid req)) ''csi'') ''staging'') (mr_volume_name req)"

definition csi_context :: "fpath \<Rightarrow> MountRequest \<Rightarrow> string \<Rightarrow> string \<Rightarrow> CsiVolumeContext" where
  "csi_context root_dir req driver volume_id =
     \<lparr>cx_volume_id = volume_id, cx_volume_attributes = [(''csi.storage.k8s.io/driver'', driver)], cx_target_path = mr_mount_path req,
      cx_staging_target_path = Some (path_str (csi_staging_path root_dir req)), cx_read_only = mr_read_only req,
      cx_access_type = MountAccess, cx_fs_type = None, cx_mount_flags = [], cx_secrets = []\<rparr>"

definition mount_csi_pvc ::
  "faults \<Rightarrow> VolumeOutside \<Rightarrow> MountRequest \<Rightarrow> string \<Rightarrow> CompositeVolumeManager \<Rightarrow> (fpath result \<times> CompositeVolumeManager) fsio" where
  "mount_csi_pvc io out req claim_name vm =
     (case csi_driver_and_volume_id (vo_default_driver out) claim_name of
        Inl e \<Rightarrow> State_Monad.return (Inl e, vm)
      | Inr (driver, volume_id) \<Rightarrow> do {
          let ctx = csi_context (vm_root_dir vm) req driver volume_id;
          registry \<leftarrow> csi_scan io (cv_registry (vm_csi vm));
          (r, csi) \<leftarrow> stage_volume io ctx ((vm_csi vm)\<lparr>cv_registry := registry\<rparr>);
          case r of
            Inl e \<Rightarrow> State_Monad.return (Inl e, vm\<lparr>vm_csi := csi\<rparr>)
          | Inr _ \<Rightarrow> do {
              (r, csi) \<leftarrow> publish_volume io ctx csi;
              State_Monad.return (case r of
                Inl e \<Rightarrow> (Inl e, vm\<lparr>vm_csi := csi\<rparr>)
              | Inr _ \<Rightarrow>
                  (Inr (comps (mr_mount_path req)),
                   vm\<lparr>vm_csi := csi,
                      vm_csi_mounted := push_volume (mounted_at req (comps (mr_mount_path req)) (Some volume_id)) (vm_csi_mounted vm)\<rparr>))
            }
        })"

definition host_path_request :: "MountRequest \<Rightarrow> string \<Rightarrow> string option \<Rightarrow> bool \<Rightarrow> MountRequest" where
  "host_path_request req path path_type read_only =
     req\<lparr>mr_volume_spec := \<lparr>vs_name = vs_name (mr_volume_spec req), vs_source = HostPath path path_type\<rparr>, mr_read_only := read_only\<rparr>"

text \<open>Where a request goes: to the local manager, possibly rewritten, or to CSI under a claim name.\<close>

definition route :: "VolumeOutside \<Rightarrow> MountRequest \<Rightarrow> MountRequest + string" where
  "route out req =
     (case vs_source (mr_volume_spec req) of
        PersistentVolumeClaim claim_name read_only \<Rightarrow>
          (case vo_pv out (mr_pod_namespace req) claim_name of
             None \<Rightarrow> Inr claim_name
           | Some pv \<Rightarrow>
               (case pvs_local pv of
                  Some path \<Rightarrow> Inl (host_path_request req path (Some ''Directory'') read_only)
                | None \<Rightarrow>
                    (case pvs_csi pv of
                       Some (driver, handle) \<Rightarrow> Inr (''csi://'' @ driver @ ''/'' @ handle)
                     | None \<Rightarrow>
                         (case pvs_host_path pv of
                            Some (path, path_type) \<Rightarrow> Inl (host_path_request req path path_type read_only)
                          | None \<Rightarrow> Inr claim_name))))
      | _ \<Rightarrow> Inl req)"

fun mount_claims ::
  "faults \<Rightarrow> VolumeOutside \<Rightarrow> MountRequest list \<Rightarrow> CompositeVolumeManager \<Rightarrow> ((fpath list \<times> MountRequest list) result \<times> CompositeVolumeManager) fsio" where
  "mount_claims io out [] vm = State_Monad.return (Inr ([], []), vm)"
| "mount_claims io out (req # reqs) vm =
     (case route out req of
        Inl local_req \<Rightarrow> do {
          (r, vm) \<leftarrow> mount_claims io out reqs vm;
          State_Monad.return (map_sum id (\<lambda>(paths, locals). (paths, local_req # locals)) r, vm)
        }
      | Inr claim_name \<Rightarrow> do {
          (r, vm) \<leftarrow> mount_csi_pvc io out req claim_name vm;
          case r of
            Inl e \<Rightarrow> State_Monad.return (Inl e, vm)
          | Inr p \<Rightarrow> do {
              (r, vm) \<leftarrow> mount_claims io out reqs vm;
              State_Monad.return (map_sum id (\<lambda>(paths, locals). (p # paths, locals)) r, vm)
            }
        })"

definition mount_volumes ::
  "faults \<Rightarrow> VolumeOutside \<Rightarrow> MountRequest list \<Rightarrow> CompositeVolumeManager \<Rightarrow> (fpath list result \<times> CompositeVolumeManager) fsio" where
  "mount_volumes io out reqs vm = do {
     (r, vm) \<leftarrow> mount_claims io out reqs vm;
     case r of
       Inl e \<Rightarrow> State_Monad.return (Inl e, vm)
     | Inr (paths, locals) \<Rightarrow>
         if locals = [] then State_Monad.return (Inr paths, vm)
         else do {
           (r, m) \<leftarrow> local_mount_volumes io (vo_mount out) locals (vm_local vm);
           State_Monad.return (map_sum id (\<lambda>ps. paths @ ps) r, vm\<lparr>vm_local := m\<rparr>)
         }
   }"

text \<open>The first volume of that name leaves the list, and the list leaves the map when it becomes empty.\<close>

definition take_csi :: "UnmountRequest \<Rightarrow> (string, MountedVolume list) hmap \<Rightarrow> MountedVolume option \<times> (string, MountedVolume list) hmap" where
  "take_csi req mounted =
     (let vols = listed mounted (ur_pod_uid req);
          hit = find (\<lambda>v. mv_volume_name v = ur_volume_name req) vols;
          left = (case hit of Some v \<Rightarrow> remove1 v vols | None \<Rightarrow> vols)
      in (hit,
          if \<not> hm_contains_key (ur_pod_uid req) mounted then mounted
          else if left = [] then hm_remove (ur_pod_uid req) mounted
          else hm_insert (ur_pod_uid req) left mounted))"

fun unmount_claims ::
  "faults \<Rightarrow> UnmountRequest list \<Rightarrow> CompositeVolumeManager \<Rightarrow> (UnmountRequest list result \<times> CompositeVolumeManager) fsio" where
  "unmount_claims io [] vm = State_Monad.return (Inr [], vm)"
| "unmount_claims io (req # reqs) vm =
     (let (hit, mounted) = take_csi req (vm_csi_mounted vm); vm = vm\<lparr>vm_csi_mounted := mounted\<rparr>
      in case hit of
           None \<Rightarrow> do {
             (r, vm) \<leftarrow> unmount_claims io reqs vm;
             State_Monad.return (map_sum id (\<lambda>locals. req # locals) r, vm)
           }
         | Some v \<Rightarrow>
             (case mv_device_path v of
                None \<Rightarrow> unmount_claims io reqs vm
              | Some volume_id \<Rightarrow> do {
                  (r, csi) \<leftarrow> unpublish_volume io volume_id (path_str (mv_mount_path v)) (vm_csi vm);
                  case r of
                    Inl e \<Rightarrow> State_Monad.return (Inl e, vm\<lparr>vm_csi := csi\<rparr>)
                  | Inr _ \<Rightarrow> unmount_claims io reqs (vm\<lparr>vm_csi := csi\<rparr>)
                }))"

definition unmount_volumes :: "faults \<Rightarrow> UnmountRequest list \<Rightarrow> CompositeVolumeManager \<Rightarrow> (unit result \<times> CompositeVolumeManager) fsio" where
  "unmount_volumes io reqs vm = do {
     (r, vm) \<leftarrow> unmount_claims io reqs vm;
     State_Monad.return (case r of
       Inl e \<Rightarrow> (Inl e, vm)
     | Inr locals \<Rightarrow> (Inr (), vm\<lparr>vm_local := local_unmount_volumes locals (vm_local vm)\<rparr>))
   }"

definition volumes_mounted :: "string \<Rightarrow> CompositeVolumeManager \<Rightarrow> bool" where
  "volumes_mounted pod_uid vm \<longleftrightarrow>
     local_volumes_mounted pod_uid (vm_local vm) \<or>
     (case hm_get (vm_csi_mounted vm) pod_uid of Some vols \<Rightarrow> vols \<noteq> [] | None \<Rightarrow> False)"

definition list_mounted_volumes :: "string \<Rightarrow> CompositeVolumeManager \<Rightarrow> MountedVolume list" where
  "list_mounted_volumes pod_uid vm =
     local_list_mounted pod_uid (vm_local vm) @ listed (vm_csi_mounted vm) pod_uid"

end
