(* ===== verification/Volume_Mounts.thy ===== *)
theory Volume_Mounts
  imports Volume_Manager "HOL-Library.Multiset"
begin

section \<open>What the volume managers keep track of\<close>

text \<open>
  The managers against an abstract state, the names mounted for each pod: mounting what is missing makes every volume of a
  pod mounted exactly once, unmounting removes the requested ones and nothing else, whatever calls of the file system
  fail. The directory the manager makes is the one the worker writes to.
\<close>

lemma isl_map_sum: "isl (map_sum f g x) = isl x"
  by (cases x) simp_all

subsection \<open>Names\<close>

definition names :: "(string, MountedVolume list) hmap \<Rightarrow> string \<Rightarrow> string list" where
  "names mounted uid = map mv_volume_name (listed mounted uid)"

definition mounted_names :: "CompositeVolumeManager \<Rightarrow> string \<Rightarrow> string list" where
  "mounted_names vm uid = map mv_volume_name (list_mounted_volumes uid vm)"

lemma mounted_names_eq: "mounted_names vm uid = names (lv_mounted (vm_local vm)) uid @ names (vm_csi_mounted vm) uid"
  by (simp add: mounted_names_def list_mounted_volumes_def local_list_mounted_def names_def)

definition mounted_once :: "CompositeVolumeManager \<Rightarrow> bool" where
  "mounted_once vm \<longleftrightarrow> (\<forall>uid. distinct (mounted_names vm uid))"

definition mount_key :: "MountRequest \<Rightarrow> string \<times> string" where
  "mount_key req = (mr_pod_uid req, mr_volume_name req)"

definition of_pod :: "string \<Rightarrow> (string \<times> string) list \<Rightarrow> string list" where
  "of_pod uid ks = map snd (filter (\<lambda>k. fst k = uid) ks)"

lemma of_pod_simps [simp]:
  "of_pod uid [] = []" "of_pod uid (k # ks) = (if fst k = uid then [snd k] else []) @ of_pod uid ks" "of_pod uid (ks @ ks') = of_pod uid ks @ of_pod uid ks'"
  by (simp_all add: of_pod_def)

lemma set_of_pod: "set (of_pod uid ks) = {n. (uid, n) \<in> set ks}"
  by (force simp: of_pod_def)

lemma of_pod_image: "set ks = Pair uid ` A \<Longrightarrow> set (of_pod uid ks) = A"
  by (auto simp: set_of_pod)

definition added :: "(string, MountedVolume list) hmap \<Rightarrow> (string, MountedVolume list) hmap \<Rightarrow> (string \<times> string) list \<Rightarrow> bool" where
  "added mounted mounted' ks \<longleftrightarrow> (\<forall>uid. names mounted' uid = names mounted uid @ of_pod uid ks)"

lemma added_Nil [simp]: "added mounted mounted []"
  by (simp add: added_def)

lemma added_trans: "added m m' ks \<Longrightarrow> added m' m'' ks' \<Longrightarrow> added m m'' (ks @ ks')"
  by (simp add: added_def)

lemma added_push: "added mounted (push_volume (mounted_at req p device) mounted) [mount_key req]"
  by (simp add: added_def names_def listed_def push_volume_def mounted_at_def mount_key_def)

subsection \<open>Mounting\<close>

lemma mount_one_mounted:
  "run_state (mount_one io mnt req m) d = ((r, m'), d') \<Longrightarrow> lv_mounted m' = lv_mounted m \<and> lv_root_dir m' = lv_root_dir m"
  by (auto simp: mount_one_def mount_emptydir_def with_manager_def Let_def split_beta
      split: VolumeSource.splits sum.splits option.splits if_splits)

lemma local_mount_adds:
  "run_state (local_mount_volumes io mnt reqs m) d = ((r, m'), d') \<Longrightarrow>
   \<exists>ks. added (lv_mounted m) (lv_mounted m') ks \<and> mset ks \<subseteq># mset (map mount_key reqs) \<and>
     (\<not> isl r \<longrightarrow> mset ks = mset (map mount_key reqs))"
proof (induction reqs arbitrary: m d r m' d')
  case (Cons req reqs)
  obtain r1 m1 d1 where one: "run_state (mount_one io mnt req m) d = ((r1, m1), d1)" by (metis prod.exhaust)
  note same = mount_one_mounted [OF one]
  show ?case
  proof (cases r1)
    case (Inl e)
    then show ?thesis using Cons.prems one same by (auto intro!: exI [of _ "[]"])
  next
    case (Inr p)
    let ?m = "m1\<lparr>lv_mounted := push_volume (mounted_at req p None) (lv_mounted m1)\<rparr>"
    obtain r2 m2 d2 where rest: "run_state (local_mount_volumes io mnt reqs ?m) d1 = ((r2, m2), d2)" by (metis prod.exhaust)
    obtain ks where ks: "added (lv_mounted ?m) (lv_mounted m2) ks" "mset ks \<subseteq># mset (map mount_key reqs)"
        "\<not> isl r2 \<longrightarrow> mset ks = mset (map mount_key reqs)"
      using Cons.IH [OF rest] by blast
    have "m' = m2" "isl r = isl r2" using Cons.prems one Inr rest by (auto simp: isl_map_sum)
    moreover have "added (lv_mounted m) (lv_mounted m2) ([mount_key req] @ ks)"
      using added_trans [OF added_push [of "lv_mounted m1" req p None], of "lv_mounted m2" ks] ks(1) same by simp
    ultimately show ?thesis using ks(2,3) by (intro exI [of _ "[mount_key req] @ ks"]) auto
  qed
qed simp

lemma route_key: "route out req = Inl req' \<Longrightarrow> mount_key req' = mount_key req"
  by (auto simp: route_def mount_key_def host_path_request_def split: VolumeSource.splits option.splits)

lemma mount_csi_adds:
  assumes "run_state (mount_csi_pvc io out req claim vm) d = ((r, vm'), d')"
  shows "vm_local vm' = vm_local vm"
    "added (vm_csi_mounted vm) (vm_csi_mounted vm') (case r of Inl _ \<Rightarrow> [] | Inr _ \<Rightarrow> [mount_key req])"
  using assms added_push
  by (auto simp: mount_csi_pvc_def Let_def split_beta split: sum.splits)

lemma mount_claims_adds:
  "run_state (mount_claims io out reqs vm) d = ((r, vm'), d') \<Longrightarrow>
   vm_local vm' = vm_local vm \<and>
   (\<exists>ks. added (vm_csi_mounted vm) (vm_csi_mounted vm') ks \<and> mset ks \<subseteq># mset (map mount_key reqs) \<and>
     (\<forall>paths locals. r = Inr (paths, locals) \<longrightarrow> mset (map mount_key reqs) = mset ks + mset (map mount_key locals)))"
proof (induction reqs arbitrary: vm d r vm' d')
  case (Cons req reqs)
  show ?case
  proof (cases "route out req")
    case (Inl req')
    obtain r1 vm1 d1 where rest: "run_state (mount_claims io out reqs vm) d = ((r1, vm1), d1)" by (metis prod.exhaust)
    have vm': "vm' = vm1" "r = map_sum id (\<lambda>(paths, locals). (paths, req' # locals)) r1" using Cons.prems Inl rest by auto
    obtain ks where ks: "vm_local vm1 = vm_local vm" "added (vm_csi_mounted vm) (vm_csi_mounted vm1) ks"
        "mset ks \<subseteq># mset (map mount_key reqs)"
        "\<And>paths locals. r1 = Inr (paths, locals) \<Longrightarrow> mset (map mount_key reqs) = mset ks + mset (map mount_key locals)"
      using Cons.IH [OF rest] by blast
    have "mset (map mount_key (req # reqs)) = mset ks + mset (map mount_key locals)" if "r = Inr (paths, locals)" for paths locals
      using that ks(4) route_key [OF Inl] unfolding vm'(2) by (cases r1) auto
    moreover have "mset ks \<subseteq># mset (map mount_key (req # reqs))" using ks(3) by (simp add: subset_mset.le_add_same_cancel2 subset_mset.order_trans)
    ultimately show ?thesis using ks(1,2) vm'(1) by blast
  next
    case (Inr claim)
    obtain r1 vm1 d1 where one: "run_state (mount_csi_pvc io out req claim vm) d = ((r1, vm1), d1)" by (metis prod.exhaust)
    note a1 = mount_csi_adds [OF one]
    show ?thesis
    proof (cases r1)
      case (Inl e)
      then have "vm' = vm1" "r = Inl e" using Cons.prems Inr one by auto
      then show ?thesis using a1 Inl by (auto intro!: exI [of _ "[]"])
    next
      case (Inr p)
      obtain r2 vm2 d2 where rest: "run_state (mount_claims io out reqs vm1) d1 = ((r2, vm2), d2)" by (metis prod.exhaust)
      have vm': "vm' = vm2" "r = map_sum id (\<lambda>(paths, locals). (p # paths, locals)) r2"
        using Cons.prems \<open>route out req = Inr claim\<close> one Inr rest by auto
      obtain ks where ks: "vm_local vm2 = vm_local vm1" "added (vm_csi_mounted vm1) (vm_csi_mounted vm2) ks"
          "mset ks \<subseteq># mset (map mount_key reqs)"
          "\<And>paths locals. r2 = Inr (paths, locals) \<Longrightarrow> mset (map mount_key reqs) = mset ks + mset (map mount_key locals)"
        using Cons.IH [OF rest] by blast
      have "added (vm_csi_mounted vm) (vm_csi_mounted vm2) ([mount_key req] @ ks)" using added_trans [OF a1(2) ks(2)] Inr by simp
      moreover have "mset (map mount_key (req # reqs)) = mset ([mount_key req] @ ks) + mset (map mount_key locals)"
          if "r = Inr (paths, locals)" for paths locals
        using that ks(4) unfolding vm'(2) by (cases r2) auto
      ultimately show ?thesis using ks(1,3) a1(1) vm'(1) by (intro conjI exI [of _ "[mount_key req] @ ks"]) auto
    qed
  qed
qed simp

text \<open>The names each pod gains are requested ones, and all of them when the call succeeds.\<close>

lemma mount_volumes_adds:
  assumes "run_state (mount_volumes io out reqs vm) d = ((r, vm'), d')"
  shows "\<exists>ks. (\<forall>uid. mset (mounted_names vm' uid) = mset (mounted_names vm uid) + mset (of_pod uid ks)) \<and>
    mset ks \<subseteq># mset (map mount_key reqs) \<and> (\<not> isl r \<longrightarrow> mset ks = mset (map mount_key reqs))"
proof -
  obtain r1 vm1 d1 where claims: "run_state (mount_claims io out reqs vm) d = ((r1, vm1), d1)" by (metis prod.exhaust)
  obtain ks where ks: "vm_local vm1 = vm_local vm" "added (vm_csi_mounted vm) (vm_csi_mounted vm1) ks"
      "mset ks \<subseteq># mset (map mount_key reqs)"
      "\<And>paths locals. r1 = Inr (paths, locals) \<Longrightarrow> mset (map mount_key reqs) = mset ks + mset (map mount_key locals)"
    using mount_claims_adds [OF claims] by blast
  show ?thesis
  proof (cases "\<exists>paths locals. r1 = Inr (paths, locals) \<and> locals \<noteq> []")
    case False
    then have "vm' = vm1" "\<not> isl r \<Longrightarrow> \<exists>paths. r1 = Inr (paths, [])"
      using assms claims by (auto simp: mount_volumes_def split: sum.splits)
    then show ?thesis using ks by (intro exI [of _ ks]) (auto simp: mounted_names_eq added_def)
  next
    case True
    then obtain paths locals where r1: "r1 = Inr (paths, locals)" "locals \<noteq> []" by blast
    obtain r2 m2 d2 where rest: "run_state (local_mount_volumes io (vo_mount out) locals (vm_local vm1)) d1 = ((r2, m2), d2)" by (metis prod.exhaust)
    obtain ks' where ks': "added (lv_mounted (vm_local vm1)) (lv_mounted m2) ks'" "mset ks' \<subseteq># mset (map mount_key locals)"
        "\<not> isl r2 \<longrightarrow> mset ks' = mset (map mount_key locals)"
      using local_mount_adds [OF rest] by blast
    have "vm' = vm1\<lparr>vm_local := m2\<rparr>" "isl r = isl r2" using assms claims r1 rest by (auto simp: mount_volumes_def isl_map_sum)
    moreover have "mset (ks' @ ks) \<subseteq># mset (map mount_key reqs)" "isl r2 \<or> mset (ks' @ ks) = mset (map mount_key reqs)"
      unfolding ks(4) [OF r1(1)] using ks'(2,3) by (auto simp: add.commute)
    ultimately show ?thesis using ks(1,2) ks'(1)
      by (intro exI [of _ "ks' @ ks"]) (auto simp: mounted_names_eq added_def)
  qed
qed

subsection \<open>Unmounting\<close>

lemma names_take_csi:
  assumes "take_csi req mounted = (hit, mounted')" "distinct (names mounted (ur_pod_uid req))"
  shows "names mounted' uid = filter (\<lambda>n. (uid, n) \<noteq> (ur_pod_uid req, ur_volume_name req)) (names mounted uid)"
    "hit = None \<longleftrightarrow> ur_volume_name req \<notin> set (names mounted (ur_pod_uid req))"
proof -
  let ?vols = "listed mounted (ur_pod_uid req)"
  have hit: "hit = find (\<lambda>v. mv_volume_name v = ur_volume_name req) ?vols" using assms(1) by (simp add: take_csi_def Let_def)
  then show none: "hit = None \<longleftrightarrow> ur_volume_name req \<notin> set (names mounted (ur_pod_uid req))"
    unfolding hit by (force simp: names_def find_None_iff)
  have left: "listed mounted' u = (if u = ur_pod_uid req then (case hit of Some v \<Rightarrow> remove1 v ?vols | None \<Rightarrow> ?vols) else listed mounted u)" for u
    using assms(1) by (auto simp: take_csi_def Let_def listed_def hm_contains_key_def split: option.splits if_splits)
  have rm: "map mv_volume_name (remove1 v vs) = filter (\<lambda>n. n \<noteq> mv_volume_name v) (map mv_volume_name vs)"
    if "v \<in> set vs" "distinct (map mv_volume_name vs)" for v and vs :: "MountedVolume list"
    using that by (induction vs) (auto intro!: filter_True [symmetric])
  show "names mounted' uid = filter (\<lambda>n. (uid, n) \<noteq> (ur_pod_uid req, ur_volume_name req)) (names mounted uid)"
  proof (cases "uid = ur_pod_uid req")
    case True
    show ?thesis
    proof (cases hit)
      case None
      then have "ur_volume_name req \<notin> set (map mv_volume_name ?vols)" using none by (simp add: names_def)
      then have "filter (\<lambda>n. n \<noteq> ur_volume_name req) (map mv_volume_name ?vols) = map mv_volume_name ?vols" by (intro filter_True) metis
      then show ?thesis using None True left by (simp add: names_def)
    next
      case (Some v)
      then have "v \<in> set ?vols" "mv_volume_name v = ur_volume_name req" using hit by (auto simp: find_Some_iff)
      then show ?thesis using Some True left rm [of v ?vols] assms(2) by (simp add: names_def)
    qed
  qed (use left in \<open>simp add: names_def\<close>)
qed

definition unmount_key :: "UnmountRequest \<Rightarrow> string \<times> string" where
  "unmount_key req = (ur_pod_uid req, ur_volume_name req)"

lemma unmount_claims_names:
  "run_state (unmount_claims io reqs vm) d = ((r, vm'), d') \<Longrightarrow> \<forall>uid. distinct (names (vm_csi_mounted vm) uid) \<Longrightarrow>
   vm_local vm' = vm_local vm \<and>
   (\<forall>uid. names (vm_csi_mounted vm') uid = filter (\<lambda>n. (uid, n) \<notin> set (map unmount_key reqs)) (names (vm_csi_mounted vm) uid)) \<and>
   (\<exists>locals. r = Inr locals \<and> set (map unmount_key locals) \<subseteq> set (map unmount_key reqs) \<and>
     (\<forall>k \<in> set (map unmount_key reqs). snd k \<notin> set (names (vm_csi_mounted vm) (fst k)) \<longrightarrow> k \<in> set (map unmount_key locals)))"
proof (induction reqs arbitrary: vm d r vm' d')
  case (Cons req reqs)
  obtain hit mounted where t: "take_csi req (vm_csi_mounted vm) = (hit, mounted)" by force
  note nt = names_take_csi [OF t Cons.prems(2) [rule_format]]
  have dist: "\<forall>uid. distinct (names mounted uid)" using Cons.prems(2) nt(1) by simp
  obtain vm1 d1 r1 where rest: "run_state (unmount_claims io reqs vm1) d1 = ((r1, vm'), d')"
      "vm_local vm1 = vm_local vm" "vm_csi_mounted vm1 = mounted" "r = (if hit = None then map_sum id ((#) req) r1 else r1)"
  proof (cases hit)
    case None
    obtain r1 vm1 d1 where rest: "run_state (unmount_claims io reqs (vm\<lparr>vm_csi_mounted := mounted\<rparr>)) d = ((r1, vm1), d1)" by (metis prod.exhaust)
    then have "r = map_sum id ((#) req) r1" "vm1 = vm'" "d1 = d'" using Cons.prems(1) t None by auto
    then show ?thesis using that [of "vm\<lparr>vm_csi_mounted := mounted\<rparr>" d r1] rest None by simp
  next
    case (Some v)
    show ?thesis
    proof (cases "mv_device_path v")
      case None
      then show ?thesis using Cons.prems(1) t Some that [of "vm\<lparr>vm_csi_mounted := mounted\<rparr>" d r] by auto
    next
      case (Some volume_id)
      let ?u = "run_state (unpublish_volume io volume_id (path_str (mv_mount_path v)) (vm_csi vm)) d"
      let ?vm = "vm\<lparr>vm_csi_mounted := mounted, vm_csi := snd (fst ?u)\<rparr>"
      obtain u d1 where u: "?u = ((Inr (), u), d1)" using unpublish_succeeds by (metis prod.collapse)
      have "run_state (unmount_claims io reqs ?vm) (snd ?u) = ((r, vm'), d')"
        using Cons.prems(1) t \<open>hit = Some v\<close> Some u by (simp add: Let_def)
      then show ?thesis using that [of ?vm "snd ?u" r] \<open>hit = Some v\<close> by simp
    qed
  qed
  have ih: "vm_local vm' = vm_local vm"
      "\<And>uid. names (vm_csi_mounted vm') uid = filter (\<lambda>n. (uid, n) \<notin> set (map unmount_key reqs)) (names mounted uid)"
      "\<exists>locals. r1 = Inr locals \<and> set (map unmount_key locals) \<subseteq> set (map unmount_key reqs) \<and>
        (\<forall>k \<in> set (map unmount_key reqs). snd k \<notin> set (names mounted (fst k)) \<longrightarrow> k \<in> set (map unmount_key locals))"
    using Cons.IH [OF rest(1)] dist rest(2,3) by simp_all
  then obtain locals where l: "r1 = Inr locals" "set (map unmount_key locals) \<subseteq> set (map unmount_key reqs)"
      "\<And>k. k \<in> set (map unmount_key reqs) \<Longrightarrow> snd k \<notin> set (names mounted (fst k)) \<Longrightarrow> k \<in> set (map unmount_key locals)" by blast
  have n: "names (vm_csi_mounted vm') uid = filter (\<lambda>n. (uid, n) \<notin> set (map unmount_key (req # reqs))) (names (vm_csi_mounted vm) uid)" for uid
    unfolding ih(2) nt(1) by (auto simp: unmount_key_def intro: filter_cong)
  let ?locals = "if hit = None then req # locals else locals"
  have "k \<in> set (map unmount_key ?locals)"
    if "k \<in> set (map unmount_key (req # reqs))" "snd k \<notin> set (names (vm_csi_mounted vm) (fst k))" for k
  proof (cases "k = unmount_key req")
    case True
    then show ?thesis using that(2) nt(2) by (simp add: unmount_key_def)
  next
    case False
    then show ?thesis using that l(3) [of k] nt(1) by auto
  qed
  moreover have "r = Inr ?locals" using rest(4) l(1) by simp
  moreover have "set (map unmount_key ?locals) \<subseteq> set (map unmount_key (req # reqs))" using l(2) by auto
  ultimately show ?case using ih(1) n by blast
qed simp

lemma names_local_unmount:
  "names (lv_mounted (local_unmount_volumes reqs m)) uid = filter (\<lambda>n. (uid, n) \<notin> set (map unmount_key reqs)) (names (lv_mounted m) uid)"
proof (induction reqs arbitrary: m)
  case (Cons req reqs)
  have one: "names (lv_mounted (local_unmount_one req m)) uid = filter (\<lambda>n. (uid, n) \<noteq> unmount_key req) (names (lv_mounted m) uid)"
    by (auto simp: names_def local_unmount_one_def listed_def unmount_key_def filter_map comp_def split: option.split intro: filter_cong)
  show ?case using Cons.IH [of "local_unmount_one req m"] by (auto simp: local_unmount_volumes_def one intro: filter_cong)
qed (simp add: local_unmount_volumes_def)


lemma distinct_mset: "distinct xs \<Longrightarrow> mset ys = mset xs \<Longrightarrow> distinct ys"
  by (metis mset_eq_imp_distinct_iff)

text \<open>Mounting what is missing mounts each volume once. When the worker asks for the volumes of a pod that are not listed,
  no volume of any pod is listed twice, no volume of another pod appears or disappears, only volumes of the pod are
  added, and when the call succeeds all of them are listed, whatever calls of the file system or the outside fail.\<close>

theorem missing_volumes_mounted_once:
  assumes "mounted_once vm" "distinct (map vs_name (ps_volumes pod))"
    "reqs = map (mount_request root_dir pod) (filter (\<lambda>v. vs_name v \<notin> set (mounted_names vm (ps_uid pod))) (ps_volumes pod))"
    "run_state (mount_volumes io out reqs vm) d = ((r, vm'), d')"
  shows "mounted_once vm' \<and> (\<forall>uid. uid \<noteq> ps_uid pod \<longrightarrow> set (mounted_names vm' uid) = set (mounted_names vm uid)) \<and>
    set (mounted_names vm (ps_uid pod)) \<subseteq> set (mounted_names vm' (ps_uid pod)) \<and>
    set (mounted_names vm' (ps_uid pod)) \<subseteq> set (mounted_names vm (ps_uid pod)) \<union> set (map vs_name (ps_volumes pod)) \<and>
    (\<not> isl r \<longrightarrow> set (map vs_name (ps_volumes pod)) \<subseteq> set (mounted_names vm' (ps_uid pod)))"
proof -
  let ?uid = "ps_uid pod" and ?old = "mounted_names vm (ps_uid pod)"
  let ?new = "filter (\<lambda>n. n \<notin> set ?old) (map vs_name (ps_volumes pod))"
  have keys: "map mount_key reqs = map (Pair ?uid) ?new"
    unfolding assms(3) by (induction "ps_volumes pod" rule: list.induct) (auto simp: mount_key_def mount_request_def filter_map comp_def)
  obtain ks where ks: "\<And>uid. mset (mounted_names vm' uid) = mset (mounted_names vm uid) + mset (of_pod uid ks)"
      "mset ks \<subseteq># mset (map mount_key reqs)" "\<not> isl r \<Longrightarrow> mset ks = mset (map mount_key reqs)"
    using mount_volumes_adds [OF assms(4)] by blast
  have dk: "distinct (map mount_key reqs)" unfolding keys using assms(2) by (simp add: distinct_map inj_on_def)
  have sk: "set ks \<subseteq> Pair ?uid ` set ?new" using set_mset_mono [OF ks(2)] unfolding keys by auto
  obtain zs where "mset (map mount_key reqs) = mset (ks @ zs)" using ks(2) ex_mset by (metis mset_append subset_mset.le_iff_add)
  then have "distinct ks" using distinct_mset [OF dk, of "ks @ zs"] by simp
  then have dp: "distinct (of_pod uid ks)" for uid by (auto simp: of_pod_def distinct_map inj_on_def)
  have other: "of_pod uid ks = []" if "uid \<noteq> ?uid" for uid using sk that by (auto simp: of_pod_def filter_empty_conv)
  have own: "set (of_pod ?uid ks) \<subseteq> set ?new" using sk by (auto simp: of_pod_def)
  have sets: "set (mounted_names vm' uid) = set (mounted_names vm uid) \<union> set (of_pod uid ks)" for uid
    using arg_cong [OF ks(1), of set_mset] by simp
  have whole: "distinct (mounted_names vm uid @ of_pod uid ks)" for uid
  proof (cases "uid = ?uid")
    case True
    then show ?thesis using assms(1) dp [of uid] own by (auto simp: mounted_once_def)
  next
    case False
    then show ?thesis using assms(1) other by (simp add: mounted_once_def)
  qed
  have "distinct (mounted_names vm' uid)" for uid using distinct_mset [OF whole [of uid]] ks(1) by simp
  then have "mounted_once vm'" by (simp add: mounted_once_def)
  moreover have "set (map vs_name (ps_volumes pod)) \<subseteq> set (mounted_names vm' ?uid)" if "\<not> isl r"
  proof -
    have "set ks = Pair ?uid ` set ?new" using arg_cong [OF ks(3) [OF that], of set_mset] unfolding keys by simp
    then have "set (of_pod ?uid ks) = set ?new" by (rule of_pod_image)
    then show ?thesis using sets by auto
  qed
  ultimately show ?thesis using sets own other by auto
qed

text \<open>Unmounting removes what is asked for and nothing else. The call never fails, and afterwards each pod's list is the
  old one without the requested names, so that a pod all of whose volumes are requested has none left.\<close>

theorem unmount_removes_exactly:
  assumes "mounted_once vm" "run_state (unmount_volumes io reqs vm) d = ((r, vm'), d')"
  shows "r = Inr () \<and> mounted_once vm' \<and>
    (\<forall>uid. mounted_names vm' uid = filter (\<lambda>n. (uid, n) \<notin> set (map unmount_key reqs)) (mounted_names vm uid))"
proof -
  have dist: "\<forall>uid. distinct (names (vm_csi_mounted vm) uid)" using assms(1) by (simp add: mounted_once_def mounted_names_eq)
  obtain r1 vm1 d1 where claims: "run_state (unmount_claims io reqs vm) d = ((r1, vm1), d1)" by (metis prod.exhaust)
  note u = unmount_claims_names [OF claims dist]
  then obtain locals where l: "r1 = Inr locals" "set (map unmount_key locals) \<subseteq> set (map unmount_key reqs)"
      "\<And>k. k \<in> set (map unmount_key reqs) \<Longrightarrow> snd k \<notin> set (names (vm_csi_mounted vm) (fst k)) \<Longrightarrow> k \<in> set (map unmount_key locals)" by blast
  have fin: "r = Inr ()" "vm' = vm1\<lparr>vm_local := local_unmount_volumes locals (vm_local vm)\<rparr>"
    using assms(2) claims l(1) u by (auto simp: unmount_volumes_def)
  have "(uid, n) \<in> set (map unmount_key locals) \<longleftrightarrow> (uid, n) \<in> set (map unmount_key reqs)"
    if "n \<in> set (names (lv_mounted (vm_local vm)) uid)" for uid n
  proof -
    have "n \<notin> set (names (vm_csi_mounted vm) uid)" using assms(1) that by (auto simp: mounted_once_def mounted_names_eq)
    then show ?thesis using l(2) l(3) [of "(uid, n)"] by auto
  qed
  then have "filter (\<lambda>n. (uid, n) \<notin> set (map unmount_key locals)) (names (lv_mounted (vm_local vm)) uid) =
      filter (\<lambda>n. (uid, n) \<notin> set (map unmount_key reqs)) (names (lv_mounted (vm_local vm)) uid)" for uid
    by (intro filter_cong) simp_all
  then have "mounted_names vm' uid = filter (\<lambda>n. (uid, n) \<notin> set (map unmount_key reqs)) (mounted_names vm uid)" for uid
    using u unfolding mounted_names_eq fin(2) by (simp add: names_local_unmount del: set_map)
  then show ?thesis using fin(1) assms(1) by (simp add: mounted_once_def)
qed

definition demo_volume_pod :: PodSpec where
  "demo_volume_pod = PodSpec_default\<lparr>ps_uid := ''u'', ps_volumes := [\<lparr>vs_name = ''a'', vs_source = EmptyDir None None\<rparr>]\<rparr>"

definition demo_volume_manager :: CompositeVolumeManager where
  "demo_volume_manager =
     \<lparr>vm_local = LocalVolumeManager_new [''r''], vm_csi = CsiVolumeManager_new [''p''],
      vm_csi_mounted = [(''u'', [\<lparr>mv_pod_uid = ''u'', mv_volume_name = ''c'', mv_mount_path = [''c''], mv_device_path = Some ''id'', mv_read_only = False\<rparr>])],
      vm_root_dir = [''r'']\<rparr>"

definition demo_outside :: VolumeOutside where
  "demo_outside = \<lparr>vo_mount = (\<lambda>_. Inr None), vo_pv = (\<lambda>_ _. None), vo_default_driver = None\<rparr>"

definition empty_disk :: disk where
  "empty_disk = \<lparr>dk_tree = [([], \<lparr>in_node = Directory, in_mode = 0x1ED, in_gid = 0\<rparr>)], dk_calls = 0\<rparr>"

lemma demo_mounted_once: "mounted_once demo_volume_manager"
  by (simp add: mounted_once_def mounted_names_eq names_def listed_def demo_volume_manager_def LocalVolumeManager_new_def)

theorem missing_volumes_mounted_once_witness:
  "let reqs = map (mount_request ''/r'' demo_volume_pod)
          (filter (\<lambda>v. vs_name v \<notin> set (mounted_names demo_volume_manager (ps_uid demo_volume_pod))) (ps_volumes demo_volume_pod));
       ((r, vm'), d') = run_state (mount_volumes (\<lambda>_. None) demo_outside reqs demo_volume_manager) empty_disk
   in mounted_once vm' \<and> ''a'' \<in> set (mounted_names vm' ''u'') \<and> ''c'' \<in> set (mounted_names vm' ''u'')"
proof -
  let ?reqs = "map (mount_request ''/r'' demo_volume_pod)
      (filter (\<lambda>v. vs_name v \<notin> set (mounted_names demo_volume_manager (ps_uid demo_volume_pod))) (ps_volumes demo_volume_pod))"
  let ?run = "run_state (mount_volumes (\<lambda>_. None) demo_outside ?reqs demo_volume_manager) empty_disk"
  have run: "?run = ((fst (fst ?run), snd (fst ?run)), snd ?run)" by simp
  have ok: "\<not> isl (fst (fst ?run))" by code_simp
  have "''c'' \<in> set (mounted_names demo_volume_manager (ps_uid demo_volume_pod))" by code_simp
  moreover have "ps_uid demo_volume_pod = ''u''" "map vs_name (ps_volumes demo_volume_pod) = [''a'']" by (simp_all add: demo_volume_pod_def)
  ultimately show ?thesis
    using missing_volumes_mounted_once [OF demo_mounted_once _ refl run] ok unfolding Let_def split_beta by auto
qed

theorem unmount_removes_exactly_witness:
  "let ((r, vm'), d') = run_state (unmount_volumes (\<lambda>_. None) [\<lparr>ur_pod_uid = ''u'', ur_volume_name = ''c'', ur_mount_path = ''/c''\<rparr>] demo_volume_manager) empty_disk
   in r = Inr () \<and> mounted_names vm' ''u'' = []"
proof -
  let ?run = "run_state (unmount_volumes (\<lambda>_. None) [\<lparr>ur_pod_uid = ''u'', ur_volume_name = ''c'', ur_mount_path = ''/c''\<rparr>] demo_volume_manager) empty_disk"
  have run: "?run = ((fst (fst ?run), snd (fst ?run)), snd ?run)" by simp
  show ?thesis unfolding Let_def split_beta
    using unmount_removes_exactly [OF demo_mounted_once run]
    by (simp add: unmount_key_def mounted_names_eq names_def listed_def demo_volume_manager_def LocalVolumeManager_new_def)
qed

subsection \<open>Two modules, one directory\<close>

lemma find_named: "v \<in> set vs \<Longrightarrow> distinct (map vs_name vs) \<Longrightarrow> find (\<lambda>w. vs_name w = vs_name v) vs = Some v"
  by (induction vs) (auto simp: image_iff)

lemma plain_kinds [simp]:
  "plain_name ''pods''" "plain_name ''volumes''" "plain_name ''kubernetes.io~empty-dir''" "plain_name ''kubernetes.io~configmap''"
  "plain_name ''kubernetes.io~secret''" "plain_name ''kubernetes.io~projected''" "plain_name ''kubernetes.io~downward-api''"
  by (simp_all add: plain_name_def)

lemma comps_plain: "plain_name a \<Longrightarrow> comps (a @ CHR ''/'' # b) = a # comps b"
  by (simp add: comps_append comps_plain_name)

text \<open>The local volume manager makes the directory the pod worker writes to. For every kind of volume the worker fills
  or hands to a container, a mount that succeeds returns the path \<open>volume_target_path\<close> computes in another module.\<close>

theorem manager_makes_the_workers_directory:
  assumes "lv_root_dir m = comps root_dir" "plain_name (ps_uid pod)" "plain_name (vs_name v)" "v \<in> set (ps_volumes pod)"
    "distinct (map vs_name (ps_volumes pod))" "\<forall>path type. vs_source v \<noteq> HostPath path type"
    "run_state (mount_one io mnt (mount_request root_dir pod v) m) d = ((Inr p, m'), d')"
  shows "p = comps (volume_target_path root_dir pod (vs_name v))"
proof -
  have found: "find (\<lambda>w. vs_name w = vs_name v) (ps_volumes pod) = Some v" by (rule find_named [OF assms(4,5)])
  have dir: "comps (volume_target_path root_dir pod (vs_name v)) =
      comps root_dir @ [''pods'', ps_uid pod, ''volumes''] @ comps (volume_source_subdir (vs_source v)) @ [vs_name v]"
    unfolding volume_target_path_def found
    using comps_append [of root_dir] assms(2,3) comps_plain [of "''pods''"] comps_plain [of "ps_uid pod"] comps_plain [of "''volumes''"]
    by (simp add: comps_append comps_plain_name)
  have kind: "p = comps root_dir @ [''pods'', ps_uid pod, ''volumes'', kind, vs_name v]"
    if "plain_name kind" "fst (run_state (mount_kind io kind (mount_request root_dir pod v) m) d) = Inr p" for kind
    using that assms(1-3)
    by (auto simp: mount_kind_def mount_request_def pod_volume_dir_def or_fail_def Let_def split_beta split: sum.splits)
  have spec: "mr_volume_spec (mount_request root_dir pod v) = v" by (simp add: mount_request_def)
  show ?thesis
  proof (cases "vs_source v")
    case (EmptyDir medium size)
    then have "p = comps root_dir @ [''pods'', ps_uid pod, ''volumes'', ''kubernetes.io~empty-dir'', vs_name v]"
      using assms(1-3,7)
      by (auto simp: mount_one_def mount_request_def mount_emptydir_def emptydir_path_def pod_volume_dir_def Let_def split_beta
          split: sum.splits option.splits if_splits)
    then show ?thesis using EmptyDir dir by (simp add: comps_plain_name)
  qed (use assms(6,7) kind dir spec in \<open>auto simp: mount_one_def with_manager_def comps_plain_name split_beta\<close>)
qed

theorem manager_makes_the_workers_directory_witness:
  "let ((r, m'), d') = run_state (mount_one (\<lambda>_. None) (\<lambda>_. Inr None) (mount_request ''/r'' demo_volume_pod \<lparr>vs_name = ''a'', vs_source = EmptyDir None None\<rparr>)
          (LocalVolumeManager_new [''r''])) empty_disk
   in r = Inr (comps (volume_target_path ''/r'' demo_volume_pod ''a''))"
proof -
  let ?v = "\<lparr>vs_name = ''a'', vs_source = EmptyDir None None\<rparr>"
  let ?run = "run_state (mount_one (\<lambda>_. None) (\<lambda>_. Inr None) (mount_request ''/r'' demo_volume_pod ?v) (LocalVolumeManager_new [''r''])) empty_disk"
  have "\<not> isl (fst (fst ?run))" by code_simp
  then obtain p where p: "fst (fst ?run) = Inr p" by (cases "fst (fst ?run)") auto
  then have run: "?run = ((Inr p, snd (fst ?run)), snd ?run)" by (metis prod.collapse)
  have root: "lv_root_dir (LocalVolumeManager_new [''r'']) = comps ''/r''" by code_simp
  have "p = comps (volume_target_path ''/r'' demo_volume_pod (vs_name ?v))"
    by (rule manager_makes_the_workers_directory [OF root _ _ _ _ _ run]) (simp_all add: demo_volume_pod_def plain_name_def)
  then show ?thesis using p by (simp add: Let_def split_beta)
qed

subsection \<open>What the simulation leaves out\<close>

text \<open>Staging and publishing a CSI volume make directories and nothing else: no file is brought into the pod.\<close>

lemma keeps_files_make_parent: "keeps (\<lambda>t. file_at t = f) (make_parent io p)"
  by (auto simp: make_parent_def intro!: always_intros keeps_files_create_dir_all)

lemma csi_mounts_are_empty:
  "keeps (\<lambda>t. file_at t = f) (node_stage_volume io sreq)" "keeps (\<lambda>t. file_at t = f) (node_publish_volume io preq)"
  unfolding node_stage_volume_def node_publish_volume_def or_fail_def
  by (auto intro!: always_intros keeps_files_make_parent keeps_files_create_dir_all split: sum.split)

text \<open>The published volumes are keyed by volume alone: unpublishing it for one pod forgets it for all. Nothing is ever unstaged.\<close>

lemma unpublish_forgets_all_pods: "\<not> is_published volume_id (snd (fst (run_state (unpublish_volume io volume_id target m) d)))"
  by (simp add: is_published_def unpublish_volume_def node_unpublish_volume_def hm_contains_key_def split_beta Let_def)

lemma staged_volumes_stay: "is_staged volume_id (snd (fst (run_state (unpublish_volume io volume_id target m) d))) = is_staged volume_id m"
  by (simp add: is_staged_def unpublish_keeps_staged)

end
