(* ===== verification/Checkpoint.thy ===== *)
theory Checkpoint
  imports Faulty_Runs Rust_Str
begin

section \<open>Checkpoints\<close>

text \<open>
  \<^verbatim>\<open>kubelet-adapters/src/checkpoint/mod.rs\<close>: state kept in files, one per key, written to a temporary file that is then renamed.
  The serializer is third-party code, two arguments. Contents are taken to be valid UTF-8.
\<close>

subsection \<open>Names of files\<close>

text \<open>\<^verbatim>\<open>file_stem\<close>, \<^verbatim>\<open>extension\<close> and \<^verbatim>\<open>with_extension\<close> on the last component: a dot in front does not start an extension.\<close>

definition split_extension :: "string \<Rightarrow> string \<times> string option" where
  "split_extension name =
     (case rsplit_once CHR ''.'' name of
        Some (stem, ext) \<Rightarrow> if stem = [] then (name, None) else (stem, Some ext)
      | None \<Rightarrow> (name, None))"

definition with_extension :: "fpath \<Rightarrow> string \<Rightarrow> fpath" where
  "with_extension p ext = (if p = [] then p else butlast p @ [fst (split_extension (last p)) @ ''.'' @ ext])"

definition safe_key :: "string \<Rightarrow> string" where
  "safe_key key = map (\<lambda>c. if c = CHR ''/'' \<or> c = CHR '':'' then CHR ''_'' else c) key"

subsection \<open>The manager\<close>

record CheckpointManager =
  cm_dir :: fpath

definition CheckpointManager_new :: "faults \<Rightarrow> fpath \<Rightarrow> CheckpointManager result fsio" where
  "CheckpointManager_new io dir = do {
     r \<leftarrow> fs_create_dir_all io dir;
     State_Monad.return (case r of Inl e \<Rightarrow> Inl (EIo e) | Inr _ \<Rightarrow> Inr \<lparr>cm_dir = dir\<rparr>)
   }"

definition path_for :: "CheckpointManager \<Rightarrow> string \<Rightarrow> fpath" where
  "path_for m key = join_path (cm_dir m) (safe_key key @ ''.json'')"

definition checkpoint_write :: "faults \<Rightarrow> ('a \<Rightarrow> string io) \<Rightarrow> CheckpointManager \<Rightarrow> string \<Rightarrow> 'a \<Rightarrow> unit result fsio" where
  "checkpoint_write io to_json m key v =
     (let path = path_for m key; tmp = with_extension path ''tmp''
      in case to_json v of
           Inl e \<Rightarrow> State_Monad.return (Inl (ESerialization e))
         | Inr json \<Rightarrow> do {
             r \<leftarrow> fs_write io tmp json;
             case r of
               Inl e \<Rightarrow> State_Monad.return (Inl (EIo e))
             | Inr _ \<Rightarrow> do {
                 r \<leftarrow> fs_rename io tmp path;
                 State_Monad.return (case r of Inl e \<Rightarrow> Inl (EIo e) | Inr _ \<Rightarrow> Inr ())
               }
           })"

definition checkpoint_read :: "faults \<Rightarrow> (string \<Rightarrow> 'a io) \<Rightarrow> CheckpointManager \<Rightarrow> string \<Rightarrow> 'a option result fsio" where
  "checkpoint_read io from_json m key =
     (let path = path_for m key
      in do {
        there \<leftarrow> fs_exists io path;
        if \<not> there then State_Monad.return (Inr None)
        else do {
          content \<leftarrow> fs_read io path;
          State_Monad.return (case content of
            Inl e \<Rightarrow> Inl (EIo e)
          | Inr s \<Rightarrow> (case from_json s of Inl e \<Rightarrow> Inl (ESerialization e) | Inr v \<Rightarrow> Inr (Some v)))
        }
      })"

definition checkpoint_delete :: "faults \<Rightarrow> CheckpointManager \<Rightarrow> string \<Rightarrow> unit result fsio" where
  "checkpoint_delete io m key = do {
     there \<leftarrow> fs_exists io (path_for m key);
     if there then do {
       r \<leftarrow> fs_remove_file io (path_for m key);
       State_Monad.return (case r of Inl e \<Rightarrow> Inl (EIo e) | Inr _ \<Rightarrow> Inr ())
     }
     else State_Monad.return (Inr ())
   }"

definition json_stem :: "string \<Rightarrow> string option" where
  "json_stem name = (case split_extension name of (stem, ext) \<Rightarrow> if ext = Some ''json'' then Some stem else None)"

definition checkpoint_list :: "faults \<Rightarrow> CheckpointManager \<Rightarrow> string list result fsio" where
  "checkpoint_list io m = do {
     entries \<leftarrow> fs_read_dir io (cm_dir m);
     State_Monad.return (case entries of Inl e \<Rightarrow> Inl (EIo e) | Inr names \<Rightarrow> Inr (List.map_filter json_stem names))
   }"

definition checkpoint_exists :: "faults \<Rightarrow> CheckpointManager \<Rightarrow> string \<Rightarrow> bool fsio" where
  "checkpoint_exists io m key = fs_exists io (path_for m key)"

record PodCheckpoint =
  pc_uid :: string
  pc_name :: string
  pc_namespace :: string
  pc_sandbox_id :: "string option"
  pc_container_ids :: "(string, string) hmap"
  pc_restart_counts :: "(string, u32) hmap"

definition PodCheckpoint_new :: "string \<Rightarrow> string \<Rightarrow> string \<Rightarrow> PodCheckpoint" where
  "PodCheckpoint_new uid name namespace =
     \<lparr>pc_uid = uid, pc_name = name, pc_namespace = namespace, pc_sandbox_id = None, pc_container_ids = [], pc_restart_counts = []\<rparr>"

subsection \<open>The two files of a checkpoint\<close>

definition json_name :: "string \<Rightarrow> string" where
  "json_name key = safe_key key @ ''.json''"

definition tmp_name :: "string \<Rightarrow> string" where
  "tmp_name key = fst (split_extension (json_name key)) @ ''.tmp''"

lemma safe_key_no_slash: "CHR ''/'' \<notin> set (safe_key key)"
  by (auto simp: safe_key_def)

lemma split_json: "split_extension (safe_key key @ ''.json'') = (if safe_key key = [] then (''.json'', None) else (safe_key key, Some ''json''))"
  using rsplit_once_append [of "CHR ''.''" "''json''" "safe_key key"] by (simp add: split_extension_def)

lemma tmp_name_eq: "tmp_name key = (if safe_key key = [] then ''.json'' else safe_key key) @ ''.tmp''"
  by (simp add: tmp_name_def json_name_def split_json)

lemma file_names [simp]: "plain_name (json_name key)" "plain_name (tmp_name key)" "tmp_name key \<noteq> json_name key"
proof -
  show "plain_name (json_name key)" using safe_key_no_slash [of key] by (auto simp: plain_name_def json_name_def append_eq_Cons_conv)
  show "plain_name (tmp_name key)" using safe_key_no_slash [of key] by (auto simp: plain_name_def tmp_name_eq append_eq_Cons_conv)
  have "last (tmp_name key) \<noteq> last (json_name key)" by (simp add: tmp_name_eq json_name_def)
  then show "tmp_name key \<noteq> json_name key" by auto
qed

lemmas other_name [simp] = file_names(3) [symmetric]

lemma path_for_eq: "path_for m key = cm_dir m @ [json_name key]"
  using file_names(1) [of key] by (simp add: path_for_def json_name_def)

lemma tmp_path_eq: "with_extension (path_for m key) ''tmp'' = cm_dir m @ [tmp_name key]"
  by (simp add: path_for_eq with_extension_def tmp_name_def)

subsection \<open>Writes are atomic\<close>

lemmas file_paths = path_for_eq tmp_path_eq [unfolded path_for_eq]

definition checkpoint_ready :: "CheckpointManager \<Rightarrow> string \<Rightarrow> tree \<Rightarrow> bool" where
  "checkpoint_ready m key t \<longleftrightarrow>
     tree_ok t \<and> dir_at t (cm_dir m) \<and> \<not> is_link t (cm_dir m @ [json_name key]) \<and> \<not> is_link t (cm_dir m @ [tmp_name key])"

lemma free_path_in_dir:
  assumes "tree_ok t" "dir_at t dir" "plain_name c" "\<not> is_link t (dir @ [c])"
  shows "free_path t (dir @ [c])"
proof -
  have "\<not> is_link t q \<and> (q \<noteq> dir @ [c] \<longrightarrow> file_at t q = None)" if "prefix q (dir @ [c])" for q
  proof (cases "q = dir @ [c]")
    case False
    then have q: "prefix q dir" using that by simp
    have "dir_at t q" using dir_at_prefix [OF assms(1) q] assms(2) by (cases "q = dir") (auto simp: dir_at_def)
    then show ?thesis using dir_at_kind by blast
  qed (simp add: assms(4))
  then show ?thesis using dir_at_plain [OF assms(1,2)] assms(3) by (simp add: free_path_def)
qed

lemma ready_locate:
  assumes "checkpoint_ready m key t" "n = json_name key \<or> n = tmp_name key"
  shows "locate t follow (cm_dir m @ [n]) = Inr (cm_dir m @ [n])"
proof -
  note r = assms(1) [unfolded checkpoint_ready_def]
  have "free_path t (cm_dir m @ [n])" by (rule free_path_in_dir) (use r assms(2) in auto)
  then show ?thesis using r by (simp add: locate_free)
qed

lemma write_tmp:
  fixes c :: string
  assumes "checkpoint_ready m key t"
  defines "tmp \<equiv> cm_dir m @ [tmp_name key]"
  defines "s \<equiv> snd (t_write tmp c t)"
  shows "checkpoint_ready m key s" "k \<noteq> tmp \<Longrightarrow> hm_get s k = hm_get t k"
    "fst (t_write tmp c t) = Inr () \<Longrightarrow> file_at s tmp = Some c" "\<not> dir_at t tmp \<Longrightarrow> fst (t_write tmp c t) = Inr ()"
proof -
  note r = assms(1) [unfolded checkpoint_ready_def]
  have l: "locate t True tmp = Inr tmp" unfolding tmp_def by (rule ready_locate [OF assms(1)]) simp
  have nl: "\<not> is_link t tmp" using r by (simp add: tmp_def)
  show get: "hm_get s k = hm_get t k" if "k \<noteq> tmp" for k
    using that l by (auto simp: s_def t_write_def split: option.split fnode.split)
  have "plain_path tmp" using dir_at_plain [of t "cm_dir m"] r by (simp add: tmp_def)
  then have ok: "tree_ok s" unfolding s_def using r by (intro tree_ok_write plain_path_ok) auto
  have link: "\<not> is_link s tmp" using nl l by (auto simp: s_def t_write_def is_link_insert split: option.split fnode.split)
  have "dir_at s (cm_dir m)" using r get [of "cm_dir m"] by (simp add: dir_at_def tmp_def)
  moreover have "\<not> is_link s (cm_dir m @ [json_name key])"
    using r get [of "cm_dir m @ [json_name key]"] by (simp add: is_link_def tmp_def)
  ultimately show "checkpoint_ready m key s" using ok link by (simp add: checkpoint_ready_def tmp_def)
  show "file_at s tmp = Some c" if "fst (t_write tmp c t) = Inr ()"
    using that l by (auto simp: s_def t_write_def file_at_insert split: option.splits fnode.splits)
  show "fst (t_write tmp c t) = Inr ()" if "\<not> dir_at t tmp"
    using that l by (auto simp: t_write_def dir_at_def split: option.split fnode.split)
qed

lemma rename_tmp:
  assumes "checkpoint_ready m key t"
  defines "tmp \<equiv> cm_dir m @ [tmp_name key]" and "path \<equiv> cm_dir m @ [json_name key]"
  defines "s \<equiv> snd (t_rename tmp path t)"
  shows "k \<noteq> tmp \<Longrightarrow> k \<noteq> path \<Longrightarrow> hm_get s k = hm_get t k"
    "fst (t_rename tmp path t) = Inr () \<Longrightarrow> file_at s path = file_at t tmp"
    "isl (fst (t_rename tmp path t)) \<Longrightarrow> s = t"
    "file_at t tmp = Some c \<Longrightarrow> \<not> dir_at t path \<Longrightarrow> fst (t_rename tmp path t) = Inr ()"
    "checkpoint_ready m key s"
proof -
  note r = assms(1) [unfolded checkpoint_ready_def]
  have l: "locate t False tmp = Inr tmp" "locate t False path = Inr path"
    unfolding tmp_def path_def by (simp_all add: ready_locate [OF assms(1)])
  have ne: "tmp \<noteq> path" by (simp add: tmp_def path_def)
  show get: "hm_get s k = hm_get t k" if "k \<noteq> tmp" "k \<noteq> path" for k
    using that l by (auto simp: s_def t_rename_def delete_conv split: option.split)
  show "file_at s path = file_at t tmp" if "fst (t_rename tmp path t) = Inr ()"
    using that l by (auto simp: s_def t_rename_def file_at_insert file_at_def split: option.splits if_splits)
  show "s = t" if "isl (fst (t_rename tmp path t))" using that l by (auto simp: s_def t_rename_def split: option.splits)
  show "fst (t_rename tmp path t) = Inr ()" if "file_at t tmp = Some c" "\<not> dir_at t path"
    using that l by (auto simp: t_rename_def file_at_def dir_at_def split: option.splits fnode.splits)
  have "plain_path path" using dir_at_plain [of t "cm_dir m"] r by (simp add: path_def)
  then have "tree_ok s" unfolding s_def using r by (intro tree_ok_rename plain_path_ok) auto
  moreover have "dir_at s (cm_dir m)" using r get [of "cm_dir m"] by (simp add: dir_at_def tmp_def path_def)
  moreover have "\<not> is_link s tmp" "\<not> is_link s path"
    using r l ne by (auto simp: s_def t_rename_def is_link_def delete_conv tmp_def path_def split: option.split)
  ultimately show "checkpoint_ready m key s" by (simp add: checkpoint_ready_def tmp_def path_def)
qed

lemma run_fs_write:
  "run_state (fs_write io p content) d = (r, d') \<Longrightarrow>
   \<exists>c. dk_tree d' = snd (t_write p c (dk_tree d)) \<and> (r = Inr () \<longrightarrow> c = content \<and> fst (t_write p c (dk_tree d)) = Inr ())"
  by (auto simp: fs_write_def syscall_def split: option.splits)

lemma run_fs_rename:
  "run_state (fs_rename io p q) d = (r, d') \<Longrightarrow>
   dk_tree d' = dk_tree d \<and> isl r \<or> dk_tree d' = snd (t_rename p q (dk_tree d)) \<and> r = fst (t_rename p q (dk_tree d))"
  by (auto simp: fs_rename_def effect_def syscall_def split: option.splits)

text \<open>C27: Writing a checkpoint is atomic. Whatever calls fail, and however much of the temporary file was written, the
  checkpoint's file has its old content or the complete new one, the new one when the call succeeds, and no file but these
  two changes; a kubelet that stops between the calls leaves one of these states too.\<close>

theorem checkpoint_write_atomic:
  assumes "checkpoint_ready m key (dk_tree d)" "run_state (checkpoint_write io to_json m key v) d = (r, d')"
  shows "(file_at (dk_tree d') (path_for m key) = file_at (dk_tree d) (path_for m key) \<or>
      Inr (file_at (dk_tree d') (path_for m key)) = map_sum id Some (to_json v)) \<and>
    (r = Inr () \<longrightarrow> Inr (file_at (dk_tree d') (path_for m key)) = map_sum id Some (to_json v)) \<and>
    (\<forall>k. k \<noteq> path_for m key \<and> k \<noteq> with_extension (path_for m key) ''tmp'' \<longrightarrow> hm_get (dk_tree d') k = hm_get (dk_tree d) k)"
proof (cases "to_json v")
  case (Inl e)
  then show ?thesis using assms(2) by (auto simp: checkpoint_write_def Let_def)
next
  case (Inr json)
  let ?tmp = "cm_dir m @ [tmp_name key]" and ?path = "cm_dir m @ [json_name key]"
  obtain r1 d1 where w: "run_state (fs_write io ?tmp json) d = (r1, d1)" by fastforce
  obtain c where c: "dk_tree d1 = snd (t_write ?tmp c (dk_tree d))"
      "r1 = Inr () \<Longrightarrow> c = json \<and> fst (t_write ?tmp c (dk_tree d)) = Inr ()"
    using run_fs_write [OF w] by blast
  note wt = write_tmp [OF assms(1), where c = c, folded c(1)]
  have same: "file_at (dk_tree d1) ?path = file_at (dk_tree d) ?path" using wt(2) [of ?path] by (simp add: file_at_def)
  show ?thesis
  proof (cases r1)
    case (Inl e)
    then have "d' = d1" "r \<noteq> Inr ()" using assms(2) Inr w by (auto simp: checkpoint_write_def Let_def file_paths)
    then show ?thesis using same wt(2) by (auto simp: file_paths)
  next
    case (Inr u)
    then have "r1 = Inr ()" by simp
    note cj = c(2) [OF this]
    then have "file_at (dk_tree d1) ?tmp = Some c" using wt(3) by blast
    then have full: "file_at (dk_tree d1) ?tmp = Some json" using cj by simp
    obtain r2 d2 where n: "run_state (fs_rename io ?tmp ?path) d1 = (r2, d2)" by fastforce
    have d': "d' = d2" "r = Inr () \<longleftrightarrow> \<not> isl r2"
      using assms(2) \<open>to_json v = Inr json\<close> w Inr n by (auto simp: checkpoint_write_def Let_def file_paths split: sum.splits)
    note rt = rename_tmp [OF wt(1)]
    from run_fs_rename [OF n] show ?thesis
    proof
      assume "dk_tree d2 = dk_tree d1 \<and> isl r2"
      then show ?thesis using d' same wt(2) by (auto simp: file_paths)
    next
      assume s: "dk_tree d2 = snd (t_rename ?tmp ?path (dk_tree d1)) \<and> r2 = fst (t_rename ?tmp ?path (dk_tree d1))"
      show ?thesis
      proof (cases "isl r2")
        case True
        then show ?thesis using d' s rt(3) same wt(2) by (auto simp: file_paths)
      next
        case False
        then have "r2 = Inr ()" by (cases r2) auto
        then have "file_at (dk_tree d2) ?path = Some json" using s rt(2) full by simp
        then show ?thesis using d' s rt(1) wt(2) \<open>to_json v = Inr json\<close> by (simp add: file_paths)
      qed
    qed
  qed
qed

subsection \<open>What is written is read back\<close>

lemma yields_checkpoint_write:
  assumes "quiet io" "checkpoint_ready m key t" "\<not> dir_at t (cm_dir m @ [tmp_name key])" "\<not> dir_at t (path_for m key)" "to_json v = Inr json"
  shows "\<exists>t'. yields (checkpoint_write io to_json m key v) t (Inr ()) t' \<and> checkpoint_ready m key t' \<and>
    file_at t' (path_for m key) = Some json \<and>
    (\<forall>k. k \<noteq> path_for m key \<and> k \<noteq> cm_dir m @ [tmp_name key] \<longrightarrow> hm_get t' k = hm_get t k)"
proof -
  let ?tmp = "cm_dir m @ [tmp_name key]" and ?path = "cm_dir m @ [json_name key]"
  let ?s = "snd (t_write ?tmp json t)"
  note wt = write_tmp [OF assms(2), where c = json] and rt = rename_tmp [OF write_tmp(1) [OF assms(2), where c = json]]
  have w: "fst (t_write ?tmp json t) = Inr ()" using wt(4) assms(3) by simp
  have "\<not> dir_at ?s ?path" using assms(4) wt(2) [of ?path] by (simp add: dir_at_def path_for_eq)
  then have n: "fst (t_rename ?tmp ?path ?s) = Inr ()" using rt(4) wt(3) w by simp
  have "yields (fs_rename io ?tmp ?path) ?s (Inr ()) (snd (t_rename ?tmp ?path ?s))"
    using yields_effect [OF assms(1), of "t_rename ?tmp ?path" ?s] n by (simp add: fs_rename_def)
  moreover have "yields (fs_write io ?tmp json) t (Inr ()) ?s" using yields_write [OF assms(1), of ?tmp json t] w by simp
  ultimately have "yields (checkpoint_write io to_json m key v) t (Inr ()) (snd (t_rename ?tmp ?path ?s))"
    unfolding checkpoint_write_def Let_def assms(5) file_paths sum.case
    by (elim yields_bind [where a = "Inr ()"]) (simp, elim yields_bind [where a = "Inr ()"], simp add: yields_return)
  moreover have "file_at (snd (t_rename ?tmp ?path ?s)) ?path = Some json" using rt(2) n wt(3) w by simp
  ultimately show ?thesis using rt(1,5) wt(2) by (intro exI [of _ "snd (t_rename ?tmp ?path ?s)"]) (simp add: path_for_eq)
qed

lemma yields_checkpoint_read:
  assumes "quiet io"
  shows "yields (checkpoint_read io from_json m key) s
      (if isl (t_stat True (path_for m key) s) then Inr None else (case t_read (path_for m key) s of
         Inl e \<Rightarrow> Inl (EIo e) | Inr c \<Rightarrow> (case from_json c of Inl e \<Rightarrow> Inl (ESerialization e) | Inr v \<Rightarrow> Inr (Some v)))) s"
  unfolding checkpoint_read_def Let_def
  by (rule yields_bind [OF yields_tests(1) [OF assms]])
    (auto intro!: yields_return yields_bind [OF yields_calls(3) [OF assms]])

lemma checkpoint_read_cong:
  assumes "quiet io" "checkpoint_ready m key t" "checkpoint_ready m key t'" "hm_get t' (path_for m key) = hm_get t (path_for m key)"
    "yields (checkpoint_read io from_json m key) t r t"
  shows "yields (checkpoint_read io from_json m key) t' r t'"
proof -
  have l: "locate s True (path_for m key) = Inr (path_for m key)" if "checkpoint_ready m key s" for s
    unfolding path_for_eq by (rule ready_locate [OF that]) simp
  have st: "t_stat True (path_for m key) t' = t_stat True (path_for m key) t" "t_read (path_for m key) t' = t_read (path_for m key) t"
    using assms(4) by (simp_all add: t_stat_def t_read_def l [OF assms(2)] l [OF assms(3)])
  note read = yields_checkpoint_read [OF assms(1), of from_json m key]
  show ?thesis using read [of t'] read [of t] yields_unique [OF read [of t] assms(5)] st by auto
qed


subsection \<open>Instances\<close>

text \<open>A disk whose rename fails after the temporary file was written, and one whose write stops after two bytes.\<close>

definition checkpoint_disk :: disk where
  "checkpoint_disk =
     \<lparr>dk_tree = [([], \<lparr>in_node = Directory, in_mode = 0x1ED, in_gid = 0\<rparr>), ([''c''], \<lparr>in_node = Directory, in_mode = 0x1ED, in_gid = 0\<rparr>),
        ([''c'', ''k.json''], \<lparr>in_node = RegFile ''old'', in_mode = 0x1A4, in_gid = 0\<rparr>)], dk_calls = 0\<rparr>"

definition rename_fails :: faults where
  "rename_fails = (\<lambda>n. if n = 1 then Some (''Input/output error (os error 5)'', 0) else None)"

lemma checkpoint_disk_get:
  "hm_get (dk_tree checkpoint_disk) p =
    (if p = [] \<or> p = [''c''] then Some \<lparr>in_node = Directory, in_mode = 0x1ED, in_gid = 0\<rparr>
     else if p = [''c'', ''k.json''] then Some \<lparr>in_node = RegFile ''old'', in_mode = 0x1A4, in_gid = 0\<rparr> else None)"
  by (auto simp: checkpoint_disk_def)

lemma demo_names: "json_name ''k'' = ''k.json''" "tmp_name ''k'' = ''k.tmp''"
  by (simp_all add: json_name_def tmp_name_eq safe_key_def)

lemma checkpoint_disk_ready: "checkpoint_ready \<lparr>cm_dir = [''c'']\<rparr> ''k'' (dk_tree checkpoint_disk)"
proof -
  have "tree_ok (dk_tree checkpoint_disk)"
    by (rule tree_okI) (auto simp: checkpoint_disk_get dir_at_def hm_ok_def plain_name_def split: if_splits, auto simp: checkpoint_disk_def)
  then show ?thesis by (simp add: checkpoint_ready_def demo_names dir_at_def is_link_def checkpoint_disk_get)
qed

theorem checkpoint_write_atomic_witness:
  "let (r, d') = run_state (checkpoint_write rename_fails Inr \<lparr>cm_dir = [''c'']\<rparr> ''k'' ''new'') checkpoint_disk
   in file_at (dk_tree d') [''c'', ''k.json''] \<in> {Some ''old'', Some ''new''} \<and> isl r"
proof -
  let ?run = "run_state (checkpoint_write rename_fails Inr \<lparr>cm_dir = [''c'']\<rparr> ''k'' ''new'') checkpoint_disk"
  have run: "?run = (fst ?run, snd ?run)" by simp
  have p: "path_for \<lparr>cm_dir = [''c'']\<rparr> ''k'' = [''c'', ''k.json'']" by (simp add: path_for_eq demo_names)
  have "file_at (dk_tree checkpoint_disk) [''c'', ''k.json''] = Some ''old''" by (simp add: file_at_def checkpoint_disk_get)
  moreover have "isl (fst ?run)" by code_simp
  ultimately show ?thesis using checkpoint_write_atomic [OF checkpoint_disk_ready run] unfolding p by (auto simp: Let_def split_beta)
qed


text \<open>Keys that differ only in a slash, a colon and an underscore share a file, and listing returns the changed names.\<close>

lemma keys_collide: "path_for m ''a/b'' = path_for m ''a_b''" "path_for m ''a:b'' = path_for m ''a_b''"
  by (simp_all add: path_for_def safe_key_def)

lemma list_returns_file_names: "json_stem (json_name ''ns/pod'') = Some ''ns_pod''"
  by code_simp

lemma empty_key_is_not_listed: "json_stem (json_name []) = None"
  by code_simp

end
