(* ===== verification/Log_Manager.thy ===== *)
theory Log_Manager
  imports Faulty_Runs Rust_Str
begin

section \<open>Container logs\<close>

text \<open>
  \<^verbatim>\<open>kubelet-adapters/src/log_manager/mod.rs\<close>: log lines in the two formats, the files of one container with their rotation, and the
  directories of all containers. JSON is third-party code: writing an entry and reading one are arguments. A handle on
  an open file is the path of the file; nothing else removes the files. Sizes and indices have the width of the code and wrap.
\<close>

subsection \<open>Lines\<close>

record LogEntry =
  le_log :: string
  le_stream :: string
  le_time :: string

definition with_newline :: "string \<Rightarrow> string" where
  "with_newline message = (if ends_with [CHR 0x0A] message then message else message @ [CHR 0x0A])"

definition LogEntry_stdout :: "string \<Rightarrow> string \<Rightarrow> LogEntry" where
  "LogEntry_stdout now message = \<lparr>le_log = with_newline message, le_stream = ''stdout'', le_time = now\<rparr>"

definition LogEntry_stderr :: "string \<Rightarrow> string \<Rightarrow> LogEntry" where
  "LogEntry_stderr now message = \<lparr>le_log = with_newline message, le_stream = ''stderr'', le_time = now\<rparr>"

definition to_json_line :: "(LogEntry \<Rightarrow> string option) \<Rightarrow> LogEntry \<Rightarrow> string" where
  "to_json_line to_json entry = (case to_json entry of Some s \<Rightarrow> s | None \<Rightarrow> []) @ [CHR 0x0A]"

text \<open>Four fields at most; the last one keeps its spaces.\<close>

definition parse_line :: "(string \<Rightarrow> LogEntry option) \<Rightarrow> string \<Rightarrow> LogEntry option" where
  "parse_line from_json line =
     (case from_json line of
        Some entry \<Rightarrow> Some entry
      | None \<Rightarrow>
          (case split_once CHR '' '' line of
             None \<Rightarrow> None
           | Some (timestamp, rest) \<Rightarrow>
               (let (stream, rest) = (case split_once CHR '' '' rest of Some (s, r) \<Rightarrow> (s, Some r) | None \<Rightarrow> (rest, None))
                in case rest of
                     None \<Rightarrow> None
                   | Some flags_message \<Rightarrow>
                       (let message = (case split_once CHR '' '' flags_message of Some (_, m) \<Rightarrow> m | None \<Rightarrow> [])
                        in if stream \<noteq> ''stdout'' \<and> stream \<noteq> ''stderr'' then None
                           else Some \<lparr>le_log = with_newline message, le_stream = stream, le_time = timestamp\<rparr>))))"

subsection \<open>Files of a container\<close>

definition t_open_append :: "fpath \<Rightarrow> tree \<Rightarrow> unit io \<times> tree" where
  "t_open_append p t =
     (case locate t True p of
        Inl e \<Rightarrow> (Inl e, t)
      | Inr q \<Rightarrow>
          (case hm_get t q of
             None \<Rightarrow> (Inr (), hm_insert q \<lparr>in_node = RegFile [], in_mode = 0x1A4, in_gid = new_gid t q\<rparr> t)
           | Some i \<Rightarrow> (if in_node i = Directory then Inl EISDIR else Inr (), t)))"

definition t_append :: "fpath \<Rightarrow> string \<Rightarrow> tree \<Rightarrow> unit io \<times> tree" where
  "t_append p content t =
     (case file_at t p of
        Some old \<Rightarrow> (Inr (), hm_modify p (\<lambda>i. i\<lparr>in_node := RegFile (old @ content)\<rparr>) t)
      | None \<Rightarrow> (Inr (), t))"

definition fs_open_append :: "faults \<Rightarrow> fpath \<Rightarrow> unit io fsio" where "fs_open_append io p = effect io (t_open_append p)"

definition fs_append :: "faults \<Rightarrow> fpath \<Rightarrow> string \<Rightarrow> unit io fsio" where
  "fs_append io p content = syscall io (t_append p content) (\<lambda>n t. snd (t_append p (take n content) t))"

record ContainerLogManager =
  cl_log_dir :: fpath
  cl_max_size_bytes :: u64
  cl_max_files :: u32
  cl_current_index :: u32
  cl_current_file :: "fpath option"
  cl_current_size :: u64

definition log_path :: "fpath \<Rightarrow> u32 \<Rightarrow> fpath" where
  "log_path log_dir i = join_path log_dir (show_nat (unat i) @ ''.log'')"

definition find_current_index :: "faults \<Rightarrow> fpath \<Rightarrow> u32 fsio" where
  "find_current_index io log_dir = do {
     entries \<leftarrow> fs_read_dir io log_dir;
     State_Monad.return (case entries of
       Inl _ \<Rightarrow> 0
     | Inr names \<Rightarrow>
         of_nat (foldr max (List.map_filter (\<lambda>name. Option.bind (strip_suffix ''.log'' name) parse_u32) names) 0))
   }"

definition ContainerLogManager_new :: "faults \<Rightarrow> fpath \<Rightarrow> u64 \<Rightarrow> u32 \<Rightarrow> ContainerLogManager result fsio" where
  "ContainerLogManager_new io log_dir max_size_bytes max_files = do {
     made \<leftarrow> fs_create_dir_all io log_dir;
     case made of
       Inl e \<Rightarrow> State_Monad.return (Inl (EStorage (''create log dir: '' @ e)))
     | Inr _ \<Rightarrow> do {
         index \<leftarrow> find_current_index io log_dir;
         let path = log_path log_dir index;
         meta \<leftarrow> fs_stat io path;
         opened \<leftarrow> fs_open_append io path;
         State_Monad.return (case opened of
           Inl e \<Rightarrow> Inl (EStorage (''open log file: '' @ e))
         | Inr _ \<Rightarrow>
             Inr \<lparr>cl_log_dir = log_dir, cl_max_size_bytes = max_size_bytes, cl_max_files = max_files, cl_current_index = index,
               cl_current_file = Some path,
               cl_current_size = (case meta of Inr i \<Rightarrow> (case in_node i of RegFile c \<Rightarrow> of_nat (length c) | _ \<Rightarrow> 0) | Inl _ \<Rightarrow> 0)\<rparr>)
       }
   }"

definition log_rotate :: "faults \<Rightarrow> ContainerLogManager \<Rightarrow> (unit result \<times> ContainerLogManager) fsio" where
  "log_rotate io m =
     (let m = m\<lparr>cl_current_file := None, cl_current_index := cl_current_index m + 1, cl_current_size := 0\<rparr>
      in do {
        (if cl_max_files m \<le> cl_current_index m then do {
           let old_path = log_path (cl_log_dir m) (cl_current_index m - cl_max_files m);
           there \<leftarrow> fs_exists io old_path;
           if there then do { _ \<leftarrow> fs_remove_file io old_path; State_Monad.return () } else State_Monad.return ()
         }
         else State_Monad.return ());
        let new_path = log_path (cl_log_dir m) (cl_current_index m);
        r \<leftarrow> fs_write io new_path [];
        State_Monad.return (case r of
          Inl e \<Rightarrow> (Inl (EStorage (''open rotated log: '' @ e)), m)
        | Inr _ \<Rightarrow> (Inr (), m\<lparr>cl_current_file := Some new_path\<rparr>))
      })"

definition append_line :: "faults \<Rightarrow> string \<Rightarrow> ContainerLogManager \<Rightarrow> (unit result \<times> ContainerLogManager) fsio" where
  "append_line io line m =
     (case cl_current_file m of
        None \<Rightarrow> State_Monad.return (Inr (), m)
      | Some file \<Rightarrow> do {
          r \<leftarrow> fs_append io file line;
          State_Monad.return (case r of
            Inl e \<Rightarrow> (Inl (EStorage (''write log: '' @ e)), m)
          | Inr _ \<Rightarrow> (Inr (), m\<lparr>cl_current_size := cl_current_size m + of_nat (length line)\<rparr>))
        })"

definition log_write :: "faults \<Rightarrow> string \<Rightarrow> ContainerLogManager \<Rightarrow> (unit result \<times> ContainerLogManager) fsio" where
  "log_write io line m =
     (if cl_max_size_bytes m < cl_current_size m + of_nat (length line) then do {
        (r, m) \<leftarrow> log_rotate io m;
        case r of
          Inl e \<Rightarrow> State_Monad.return (Inl e, m)
        | Inr _ \<Rightarrow> append_line io line m
      }
      else append_line io line m)"

definition write_log_entry :: "faults \<Rightarrow> (LogEntry \<Rightarrow> string option) \<Rightarrow> LogEntry \<Rightarrow> ContainerLogManager \<Rightarrow> (unit result \<times> ContainerLogManager) fsio" where
  "write_log_entry io to_json entry m = log_write io (to_json_line to_json entry) m"

definition current_log_path :: "ContainerLogManager \<Rightarrow> fpath" where
  "current_log_path m = log_path (cl_log_dir m) (cl_current_index m)"

fun existing :: "faults \<Rightarrow> fpath list \<Rightarrow> fpath list fsio" where
  "existing io [] = State_Monad.return []"
| "existing io (p # ps) = do {
     there \<leftarrow> fs_exists io p;
     rest \<leftarrow> existing io ps;
     State_Monad.return (if there then p # rest else rest)
   }"

definition first_kept :: "ContainerLogManager \<Rightarrow> nat" where
  "first_kept m = unat (cl_current_index m) - unat (cl_max_files m - 1)"

definition log_files :: "faults \<Rightarrow> ContainerLogManager \<Rightarrow> fpath list fsio" where
  "log_files io m = existing io (map (\<lambda>i. log_path (cl_log_dir m) (of_nat i)) [first_kept m..<Suc (unat (cl_current_index m))])"

subsection \<open>Directories of all containers\<close>

record LogManager =
  lm_log_root :: fpath
  lm_max_size_bytes :: u64
  lm_max_files :: u32

definition pod_log_name :: "string \<Rightarrow> string \<Rightarrow> string \<Rightarrow> string" where
  "pod_log_name namespace pod_name pod_uid = namespace @ ''_'' @ pod_name @ ''_'' @ pod_uid"

definition container_log_dir :: "LogManager \<Rightarrow> string \<Rightarrow> string \<Rightarrow> string \<Rightarrow> string \<Rightarrow> fpath" where
  "container_log_dir m namespace pod_name pod_uid container_name =
     join_path (join_path (lm_log_root m) (pod_log_name namespace pod_name pod_uid)) container_name"

definition for_container :: "faults \<Rightarrow> LogManager \<Rightarrow> string \<Rightarrow> string \<Rightarrow> string \<Rightarrow> string \<Rightarrow> ContainerLogManager result fsio" where
  "for_container io m namespace pod_name pod_uid container_name =
     ContainerLogManager_new io (container_log_dir m namespace pod_name pod_uid container_name) (lm_max_size_bytes m) (lm_max_files m)"

definition remove_pod_logs :: "faults \<Rightarrow> LogManager \<Rightarrow> string \<Rightarrow> string \<Rightarrow> string \<Rightarrow> unit result fsio" where
  "remove_pod_logs io m namespace pod_name pod_uid =
     (let pod_dir = join_path (lm_log_root m) (pod_log_name namespace pod_name pod_uid)
      in do {
        there \<leftarrow> fs_exists io pod_dir;
        if there then do {
          r \<leftarrow> fs_remove_all io pod_dir;
          State_Monad.return (case r of Inl e \<Rightarrow> Inl (EStorage (''remove pod logs: '' @ e)) | Inr _ \<Rightarrow> Inr ())
        }
        else State_Monad.return (Inr ())
      })"

text \<open>A directory counts as one block of the file system.\<close>

definition inode_len :: "inode \<Rightarrow> nat" where
  "inode_len i = (case in_node i of RegFile c \<Rightarrow> length c | Symlink absolute target \<Rightarrow> (if absolute then 1 else 0) + length (join ''/'' target) | Directory \<Rightarrow> 4096)"

fun sum_sizes :: "faults \<Rightarrow> fpath \<Rightarrow> string list \<Rightarrow> u64 fsio" where
  "sum_sizes io dir [] = State_Monad.return 0"
| "sum_sizes io dir (name # names) = do {
     meta \<leftarrow> fs_lstat io (dir @ [name]);
     rest \<leftarrow> sum_sizes io dir names;
     State_Monad.return (case meta of Inr i \<Rightarrow> of_nat (inode_len i) + rest | Inl _ \<Rightarrow> rest)
   }"

definition walkdir_size :: "faults \<Rightarrow> fpath \<Rightarrow> u64 fsio" where
  "walkdir_size io dir = do {
     there \<leftarrow> fs_exists io dir;
     if \<not> there then State_Monad.return 0
     else do {
       entries \<leftarrow> fs_read_dir io dir;
       case entries of Inl _ \<Rightarrow> State_Monad.return 0 | Inr names \<Rightarrow> sum_sizes io dir names
     }
   }"

definition log_size_bytes :: "faults \<Rightarrow> LogManager \<Rightarrow> string \<Rightarrow> string \<Rightarrow> string \<Rightarrow> string \<Rightarrow> u64 fsio" where
  "log_size_bytes io m namespace pod_name pod_uid container_name =
     walkdir_size io (container_log_dir m namespace pod_name pod_uid container_name)"

definition parse_log_max_size :: "string \<Rightarrow> u64" where
  "parse_log_max_size s =
     (let number = (\<lambda>n fallback. case parse_u64 n of Some v \<Rightarrow> of_nat v | None \<Rightarrow> fallback)
      in case strip_suffix ''Ki'' s of
           Some n \<Rightarrow> number n 10 * 1024
         | None \<Rightarrow>
             (case strip_suffix ''Mi'' s of
                Some n \<Rightarrow> number n 10 * 1024 * 1024
              | None \<Rightarrow>
                  (case strip_suffix ''Gi'' s of
                     Some n \<Rightarrow> number n 1 * 1024 * 1024 * 1024
                   | None \<Rightarrow> number s (10 * 1024 * 1024))))"

subsection \<open>Effects on the tree\<close>

definition numbered :: "fpath \<Rightarrow> nat \<Rightarrow> fpath" where
  "numbered dir i = dir @ [show_nat i @ ''.log'']"

lemma log_name_plain [simp]: "plain_name (show_nat i @ ''.log'')"
proof -
  have "\<not> is_digit CHR ''/''" by code_simp
  then show ?thesis using show_nat_notin [of "CHR ''/''" i] by (auto simp: plain_name_def append_eq_Cons_conv)
qed

lemma log_path_numbered: "log_path dir i = numbered dir (unat i)"
  by (simp add: log_path_def numbered_def)

lemma numbered_inj [simp]: "numbered dir i = numbered dir j \<longleftrightarrow> i = j"
  by (simp add: numbered_def)

lemma numbered_butlast [simp]: "butlast (numbered dir i) = dir" "numbered dir i \<noteq> []" "numbered dir i \<noteq> dir"
  by (simp_all add: numbered_def)

lemma append_effect:
  assumes "tree_ok t" "file_at t p = Some old"
  shows "fst (t_append p c t) = Inr ()" "tree_ok (snd (t_append p c t))" "file_at (snd (t_append p c t)) = (file_at t)(p \<mapsto> old @ c)"
    "is_link (snd (t_append p c t)) = is_link t" "dir_at (snd (t_append p c t)) = dir_at t"
proof -
  obtain i where i: "hm_get t p = Some i" "in_node i = RegFile old" using assms(2) by (auto simp: file_at_def split: option.splits fnode.splits)
  have s: "snd (t_append p c t) = hm_insert p (i\<lparr>in_node := RegFile (old @ c)\<rparr>) t"
    using assms(2) i by (simp add: t_append_def hm_modify_def)
  show "fst (t_append p c t) = Inr ()" using assms(2) by (simp add: t_append_def)
  show "file_at (snd (t_append p c t)) = (file_at t)(p \<mapsto> old @ c)" unfolding s by (simp add: file_at_insert)
  show "is_link (snd (t_append p c t)) = is_link t" unfolding s using i by (auto simp: is_link_insert fun_eq_iff is_link_def)
  show "dir_at (snd (t_append p c t)) = dir_at t" unfolding s using i by (auto simp: dir_at_insert fun_eq_iff dir_at_def)
  show "tree_ok (snd (t_append p c t))" unfolding s
    using tree_okD(3,5) [OF assms(1) i(1)] i by (intro tree_ok_insert assms(1)) (auto simp: dir_at_def)
qed

subsection \<open>Rotation\<close>

text \<open>The lines written so far in chunks, one for each index; the last ones are on disk.\<close>

definition log_state :: "ContainerLogManager \<Rightarrow> string list list \<Rightarrow> tree \<Rightarrow> bool" where
  "log_state m cs t \<longleftrightarrow>
     cs \<noteq> [] \<and> length cs < 2 ^ 32 \<and> tree_ok t \<and> dir_at t (cl_log_dir m) \<and> 0 < unat (cl_max_files m) \<and>
     unat (cl_current_index m) = length cs - 1 \<and> cl_current_file m = Some (numbered (cl_log_dir m) (length cs - 1)) \<and>
     unat (cl_current_size m) = length (concat (last cs)) \<and>
     (\<forall>i. \<not> is_link t (numbered (cl_log_dir m) i) \<and> \<not> dir_at t (numbered (cl_log_dir m) i)) \<and>
     (\<forall>i. file_at t (numbered (cl_log_dir m) i) =
        (if i < length cs \<and> length cs \<le> i + unat (cl_max_files m) then Some (concat (cs ! i)) else None)) \<and>
     (\<forall>c \<in> set cs. length (concat c) \<le> unat (cl_max_size_bytes m) \<or> length c \<le> 1)"

lemma log_stateD:
  assumes "log_state m cs t"
  shows "cs \<noteq> []" "length cs < 2 ^ 32" "tree_ok t" "dir_at t (cl_log_dir m)" "0 < unat (cl_max_files m)"
    "unat (cl_current_index m) = length cs - 1" "cl_current_file m = Some (numbered (cl_log_dir m) (length cs - 1))"
    "unat (cl_current_size m) = length (concat (last cs))"
    "\<not> is_link t (numbered (cl_log_dir m) i)" "\<not> dir_at t (numbered (cl_log_dir m) i)"
    "file_at t (numbered (cl_log_dir m) i) =
       (if i < length cs \<and> length cs \<le> i + unat (cl_max_files m) then Some (concat (cs ! i)) else None)"
    "c \<in> set cs \<Longrightarrow> length (concat c) \<le> unat (cl_max_size_bytes m) \<or> length c \<le> 1"
  using assms unfolding log_state_def by blast+

lemma unat_add_small: "unat x + n < 2 ^ LENGTH('a) \<Longrightarrow> unat (x + of_nat n :: 'a::len word) = unat x + n"
  by (simp add: unat_word_ariths(1) unat_of_nat mod_add_right_eq take_bit_eq_mod)

lemma yields_append_line:
  assumes "quiet io" "log_state m cs t" "length (concat (last cs)) + length line \<le> unat (cl_max_size_bytes m) \<or> last cs = []"
    "length (concat (last cs)) + length line < 2 ^ 64"
  shows "\<exists>m' t'. yields (append_line io line m) t (Inr (), m') t' \<and> log_state m' (butlast cs @ [last cs @ [line]]) t' \<and>
    cl_log_dir m' = cl_log_dir m \<and> cl_max_files m' = cl_max_files m \<and> cl_max_size_bytes m' = cl_max_size_bytes m"
proof -
  note s = log_stateD [OF assms(2)]
  let ?dir = "cl_log_dir m" and ?cs = "butlast cs @ [last cs @ [line]]"
  let ?p = "numbered ?dir (length cs - 1)"
  have cur: "file_at t ?p = Some (concat (last cs))" using s(1,5,11) by (simp add: last_conv_nth)
  note e = append_effect [OF s(3) cur, of line]
  let ?t = "snd (t_append ?p line t)" and ?m = "m\<lparr>cl_current_size := cl_current_size m + of_nat (length line)\<rparr>"
  have len: "length ?cs = length cs" using s(1) by simp
  have y: "yields (append_line io line m) t (Inr (), ?m) ?t"
    unfolding append_line_def s(7) option.case
  proof (rule yields_bind)
    show "yields (fs_append io ?p line) t (Inr ()) ?t" unfolding fs_append_def using yields_syscall [OF assms(1), of "t_append ?p line" _ t] unfolding e(1) .
  qed (simp add: yields_return)
  have size: "unat (cl_current_size ?m) = length (concat (last ?cs))"
    using unat_add_small [of "cl_current_size m" "length line"] s(8) assms(4) by simp
  obtain ys y where cs: "cs = ys @ [y]" using s(1) by (metis rev_exhaust)
  have files: "file_at ?t (numbered ?dir i) = (if i < length ?cs \<and> length ?cs \<le> i + unat (cl_max_files m) then Some (concat (?cs ! i)) else None)" for i
    unfolding e(3) using s(5) s(11) [of i] by (auto simp: cs nth_append)
  have sized: "length (concat c) \<le> unat (cl_max_size_bytes m) \<or> length c \<le> 1" if "c \<in> set ?cs" for c
    using that s(12) assms(3) by (auto dest: in_set_butlastD)
  have "log_state ?m ?cs ?t"
    unfolding log_state_def using e(2,4,5) s size files sized len by simp
  then show ?thesis using y by (intro exI [of _ ?m] exI [of _ ?t]) simp
qed

lemma free_numbered: "tree_ok t \<Longrightarrow> dir_at t dir \<Longrightarrow> \<not> is_link t (numbered dir i) \<Longrightarrow> free_path t (numbered dir i)"
proof -
  assume ok: "tree_ok t" and d: "dir_at t dir" and l: "\<not> is_link t (numbered dir i)"
  have "\<not> is_link t q \<and> (q \<noteq> numbered dir i \<longrightarrow> file_at t q = None)" if "prefix q (numbered dir i)" for q
  proof (cases "q = numbered dir i")
    case False
    then have q: "prefix q dir" using that by (simp add: numbered_def)
    have "dir_at t q" using dir_at_prefix [OF ok q] d by (cases "q = dir") (auto simp: dir_at_def)
    then show ?thesis using dir_at_kind by blast
  qed (simp add: l)
  then show "free_path t (numbered dir i)" using dir_at_plain [OF ok d] by (simp add: free_path_def numbered_def)
qed

text \<open>The old file, if any, goes; then the new one is there, empty.\<close>

lemma yields_remove_old:
  assumes "quiet io" "tree_ok t" "dir_at t dir" "\<not> is_link t (numbered dir i)" "\<not> dir_at t (numbered dir i)"
  shows "\<exists>t'. yields (do {
      there \<leftarrow> fs_exists io (numbered dir i);
      if there then do { _ \<leftarrow> fs_remove_file io (numbered dir i); State_Monad.return () } else State_Monad.return () }) t () t' \<and>
    tree_ok t' \<and> dir_at t' = dir_at t \<and> is_link t' = is_link t \<and> file_at t' = (file_at t)(numbered dir i := None)"
proof -
  have l: "locate t f (numbered dir i) = Inr (numbered dir i)" for f
    using locate_free [OF assms(2) free_numbered [OF assms(2-4)]] assms(3) by simp
  show ?thesis
  proof (cases t "numbered dir i" rule: node_cases)
    case none
    then have "t_stat True (numbered dir i) t = Inl ENOENT" by (simp add: t_stat_def l)
    then have "yields (fs_exists io (numbered dir i)) t False t" using yields_tests(1) [OF assms(1), of "numbered dir i" t] by simp
    then have "yields (do {
      there \<leftarrow> fs_exists io (numbered dir i);
      if there then do { _ \<leftarrow> fs_remove_file io (numbered dir i); State_Monad.return () } else State_Monad.return () }) t () t"
      by (rule yields_bind) (simp add: yields_return)
    then show ?thesis using none assms(2) by (auto intro!: exI [of _ t] simp: fun_eq_iff)
  next
    case (reg j c)
    let ?t = "hm_remove (numbered dir i) t"
    have "t_stat True (numbered dir i) t = Inr j" using reg by (simp add: t_stat_def l)
    then have e: "yields (fs_exists io (numbered dir i)) t True t" using yields_tests(1) [OF assms(1), of "numbered dir i" t] by simp
    have "t_remove_file (numbered dir i) t = (Inr (), ?t)" using reg by (simp add: t_remove_file_def l)
    then have "yields (fs_remove_file io (numbered dir i)) t (Inr ()) ?t" using yields_calls(6) [OF assms(1), of "numbered dir i" t] by simp
    then have "yields (do {
      there \<leftarrow> fs_exists io (numbered dir i);
      if there then do { _ \<leftarrow> fs_remove_file io (numbered dir i); State_Monad.return () } else State_Monad.return () }) t () ?t"
      by (intro yields_bind [OF e]) (simp, erule yields_bind, rule yields_return)
    moreover have "tree_ok ?t" using assms(2,5) by (intro tree_ok_remove) simp_all
    ultimately show ?thesis using reg by (intro exI [of _ ?t]) (auto simp: fun_eq_iff dir_at_remove is_link_def file_at_def)
  qed (use assms(4,5) in auto)
qed

lemma yields_new_file:
  assumes "quiet io" "tree_ok t" "dir_at t dir" "\<not> is_link t (numbered dir i)" "\<not> dir_at t (numbered dir i)"
  shows "\<exists>t'. yields (fs_write io (numbered dir i) c) t (Inr ()) t' \<and>
    tree_ok t' \<and> dir_at t' = dir_at t \<and> is_link t' = is_link t \<and> file_at t' = (file_at t)(numbered dir i \<mapsto> c)"
proof -
  note w = write_puts [OF assms(2) free_numbered [OF assms(2-4)] _ _ assms(5), simplified, OF assms(3), of c]
  let ?t = "snd (t_write (numbered dir i) c t)"
  have y: "yields (fs_write io (numbered dir i) c) t (Inr ()) ?t" using yields_write [OF assms(1), of "numbered dir i" c t] w(1) by simp
  have "dir_at ?t k \<longleftrightarrow> dir_at t k" for k
  proof -
    have "dir_at t k" if "strict_prefix k (numbered dir i)" using dir_at_below [OF assms(2), of "numbered dir i" k] assms(3) that by simp
    then show ?thesis using putsD(4) [OF w(2)] by blast
  qed
  then show ?thesis using y putsD(1-3) [OF w(2)] by (intro exI [of _ ?t]) (auto simp: fun_eq_iff)
qed

lemma yields_rotate:
  assumes "quiet io" "log_state m cs t" "Suc (length cs) < 2 ^ 32"
  shows "\<exists>m' t'. yields (log_rotate io m) t (Inr (), m') t' \<and> log_state m' (cs @ [[]]) t' \<and>
    cl_log_dir m' = cl_log_dir m \<and> cl_max_files m' = cl_max_files m \<and> cl_max_size_bytes m' = cl_max_size_bytes m"
proof -
  note s = log_stateD [OF assms(2)]
  let ?dir = "cl_log_dir m" and ?n = "length cs" and ?mf = "unat (cl_max_files m)"
  let ?m = "m\<lparr>cl_current_file := None, cl_current_index := cl_current_index m + 1, cl_current_size := 0\<rparr>"
  have idx: "unat (cl_current_index m + 1) = ?n" using unat_add_small [of "cl_current_index m" 1] s(1,6) assms(3) by simp
  define old where "old = (if cl_max_files m \<le> cl_current_index m + 1 then do {
           there \<leftarrow> fs_exists io (numbered ?dir (?n - ?mf));
           if there then do { _ \<leftarrow> fs_remove_file io (numbered ?dir (?n - ?mf)); State_Monad.return () } else State_Monad.return ()
         } else State_Monad.return ())"
  have sub: "unat (cl_current_index m + 1 - cl_max_files m) = ?n - ?mf" if "cl_max_files m \<le> cl_current_index m + 1"
    using that idx by (simp add: unat_sub)
  have rot: "log_rotate io m = do {
      old;
      r \<leftarrow> fs_write io (numbered ?dir ?n) [];
      State_Monad.return (case r of
        Inl e \<Rightarrow> (Inl (EStorage (''open rotated log: '' @ e)), ?m)
      | Inr _ \<Rightarrow> (Inr (), ?m\<lparr>cl_current_file := Some (numbered ?dir ?n)\<rparr>)) }"
    unfolding log_rotate_def old_def Let_def by (simp add: log_path_numbered idx sub cong: if_cong sum.case_cong)
  have "\<exists>t1. yields old t () t1 \<and> tree_ok t1 \<and> dir_at t1 = dir_at t \<and> is_link t1 = is_link t \<and>
      file_at t1 = (if ?mf \<le> ?n then (file_at t)(numbered ?dir (?n - ?mf) := None) else file_at t)"
  proof (cases "cl_max_files m \<le> cl_current_index m + 1")
    case True
    then have "?mf \<le> ?n" using idx by (simp add: word_le_nat_alt)
    then show ?thesis using yields_remove_old [OF assms(1) s(3,4,9,10)] True unfolding old_def by simp
  next
    case False
    then have "\<not> ?mf \<le> ?n" using idx by (simp add: word_le_nat_alt)
    then show ?thesis using False s(3) unfolding old_def by (intro exI [of _ t]) (simp add: yields_return)
  qed
  then obtain t1 where t1: "yields old t () t1" "tree_ok t1" "dir_at t1 = dir_at t" "is_link t1 = is_link t"
      "file_at t1 = (if ?mf \<le> ?n then (file_at t)(numbered ?dir (?n - ?mf) := None) else file_at t)" by blast
  have "dir_at t1 ?dir" "\<not> is_link t1 (numbered ?dir ?n)" "\<not> dir_at t1 (numbered ?dir ?n)" using t1(3,4) s(4,9,10) by simp_all
  then obtain t2 where t2: "yields (fs_write io (numbered ?dir ?n) []) t1 (Inr ()) t2" "tree_ok t2" "dir_at t2 = dir_at t1" "is_link t2 = is_link t1"
      "file_at t2 = (file_at t1)(numbered ?dir ?n \<mapsto> [])"
    using yields_new_file [OF assms(1) t1(2)] by blast
  let ?m' = "?m\<lparr>cl_current_file := Some (numbered ?dir ?n)\<rparr>"
  have y: "yields (log_rotate io m) t (Inr (), ?m') t2"
    unfolding rot by (rule yields_bind [OF t1(1)], rule yields_bind [OF t2(1)]) (simp add: yields_return)
  have files: "file_at t2 (numbered ?dir i) =
      (if i < length (cs @ [[]]) \<and> length (cs @ [[]]) \<le> i + ?mf then Some (concat ((cs @ [[]]) ! i)) else None)" for i
    unfolding t2(5) t1(5) using s(5) s(11) [of i] by (auto simp: nth_append)
  have "log_state ?m' (cs @ [[]]) t2"
    unfolding log_state_def using t2(2-4) t1(3,4) s(4,5,9,10,12) idx files assms(3) by auto
  then show ?thesis using y by (intro exI [of _ ?m'] exI [of _ t2]) simp
qed

lemma yields_log_write:
  assumes "quiet io" "log_state m cs t" "Suc (length cs) < 2 ^ 32" "length (concat (concat cs)) + length line < 2 ^ 64"
  shows "\<exists>m' cs' t'. yields (log_write io line m) t (Inr (), m') t' \<and> log_state m' cs' t' \<and> concat cs' = concat cs @ [line] \<and>
    length cs' \<le> Suc (length cs) \<and> cl_log_dir m' = cl_log_dir m \<and> cl_max_files m' = cl_max_files m \<and> cl_max_size_bytes m' = cl_max_size_bytes m"
proof -
  note s = log_stateD [OF assms(2)]
  have part: "length (concat (last cs)) \<le> length (concat (concat cs))" using s(1) by (induction cs rule: rev_induct) auto
  then have size: "unat (cl_current_size m + of_nat (length line)) = length (concat (last cs)) + length line"
    using unat_add_small [of "cl_current_size m" "length line"] s(8) assms(4) by simp
  have small: "length (concat (last cs)) + length line < 2 ^ 64" using part assms(4) by simp
  show ?thesis
  proof (cases "cl_max_size_bytes m < cl_current_size m + of_nat (length line)")
    case True
    obtain m1 t1 where r: "yields (log_rotate io m) t (Inr (), m1) t1" "log_state m1 (cs @ [[]]) t1"
        "cl_log_dir m1 = cl_log_dir m" "cl_max_files m1 = cl_max_files m" "cl_max_size_bytes m1 = cl_max_size_bytes m"
      using yields_rotate [OF assms(1-3)] by blast
    obtain m2 t2 where a: "yields (append_line io line m1) t1 (Inr (), m2) t2" "log_state m2 (butlast (cs @ [[]]) @ [last (cs @ [[]]) @ [line]]) t2"
        "cl_log_dir m2 = cl_log_dir m1" "cl_max_files m2 = cl_max_files m1" "cl_max_size_bytes m2 = cl_max_size_bytes m1"
      using yields_append_line [OF assms(1) r(2), of line] small by auto
    have "yields (log_write io line m) t (Inr (), m2) t2"
      unfolding log_write_def if_P [OF True] by (rule yields_bind [OF r(1)]) (simp add: a(1))
    then show ?thesis using a(2-5) r(3-5) by (intro exI [of _ m2] exI [of _ "cs @ [[line]]"] exI [of _ t2]) simp
  next
    case False
    then have "length (concat (last cs)) + length line \<le> unat (cl_max_size_bytes m)" using size by (simp add: word_le_nat_alt not_less)
    then obtain m2 t2 where a: "yields (append_line io line m) t (Inr (), m2) t2" "log_state m2 (butlast cs @ [last cs @ [line]]) t2"
        "cl_log_dir m2 = cl_log_dir m" "cl_max_files m2 = cl_max_files m" "cl_max_size_bytes m2 = cl_max_size_bytes m"
      using yields_append_line [OF assms(1,2)] small by blast
    obtain ys y where cs: "cs = ys @ [y]" using s(1) by (metis rev_exhaust)
    have "yields (log_write io line m) t (Inr (), m2) t2" unfolding log_write_def if_not_P [OF False] by (rule a(1))
    then show ?thesis using a(2-5) by (intro exI [of _ m2] exI [of _ "butlast cs @ [last cs @ [line]]"] exI [of _ t2]) (simp add: cs)
  qed
qed

fun write_lines :: "faults \<Rightarrow> string list \<Rightarrow> ContainerLogManager \<Rightarrow> (unit result \<times> ContainerLogManager) fsio" where
  "write_lines io [] m = State_Monad.return (Inr (), m)"
| "write_lines io (line # lines) m = do {
     (r, m) \<leftarrow> log_write io line m;
     case r of Inl e \<Rightarrow> State_Monad.return (Inl e, m) | Inr _ \<Rightarrow> write_lines io lines m
   }"

lemma yields_write_lines:
  assumes "quiet io"
  shows "log_state m cs t \<Longrightarrow> length cs + length lines < 2 ^ 32 \<Longrightarrow> length (concat (concat cs)) + length (concat lines) < 2 ^ 64 \<Longrightarrow>
    \<exists>m' cs' t'. yields (write_lines io lines m) t (Inr (), m') t' \<and> log_state m' cs' t' \<and> concat cs' = concat cs @ lines \<and>
      cl_log_dir m' = cl_log_dir m \<and> cl_max_files m' = cl_max_files m \<and> cl_max_size_bytes m' = cl_max_size_bytes m"
proof (induction lines arbitrary: m cs t)
  case Nil
  then show ?case by (intro exI [of _ m] exI [of _ cs] exI [of _ t]) (simp add: yields_return)
next
  case (Cons line lines)
  have "Suc (length cs) < 2 ^ 32" "length (concat (concat cs)) + length line < 2 ^ 64" using Cons.prems(2,3) by simp_all
  then obtain m1 cs1 t1 where w: "yields (log_write io line m) t (Inr (), m1) t1" "log_state m1 cs1 t1" "concat cs1 = concat cs @ [line]"
      "length cs1 \<le> Suc (length cs)" "cl_log_dir m1 = cl_log_dir m" "cl_max_files m1 = cl_max_files m" "cl_max_size_bytes m1 = cl_max_size_bytes m"
    using yields_log_write [OF assms Cons.prems(1)] by blast
  have "length cs1 + length lines < 2 ^ 32" "length (concat (concat cs1)) + length (concat lines) < 2 ^ 64"
    using Cons.prems(2,3) w(3,4) by simp_all
  then obtain m2 cs2 t2 where r: "yields (write_lines io lines m1) t1 (Inr (), m2) t2" "log_state m2 cs2 t2" "concat cs2 = concat cs1 @ lines"
      "cl_log_dir m2 = cl_log_dir m1" "cl_max_files m2 = cl_max_files m1" "cl_max_size_bytes m2 = cl_max_size_bytes m1"
    using Cons.IH [OF w(2)] by blast
  have "yields (write_lines io (line # lines) m) t (Inr (), m2) t2" by (simp, rule yields_bind [OF w(1)]) (simp add: r(1))
  then show ?case using r w by (intro exI [of _ m2] exI [of _ cs2] exI [of _ t2]) simp
qed

lemma yields_existing:
  assumes "quiet io" "\<And>p. p \<in> set ps \<Longrightarrow> \<not> isl (t_stat True p t)"
  shows "yields (existing io ps) t ps t"
  using assms(2)
proof (induction ps)
  case (Cons p ps)
  have "yields (fs_exists io p) t True t" using yields_tests(1) [OF assms(1), of p t] Cons.prems by simp
  then show ?case by (simp, elim yields_bind, intro yields_bind [OF Cons.IH]) (auto simp: Cons.prems yields_return)
qed (simp add: yields_return)

lemma yields_log_files:
  assumes "quiet io" "log_state m cs t"
  shows "yields (log_files io m) t (map (numbered (cl_log_dir m)) [length cs - unat (cl_max_files m)..<length cs]) t"
proof -
  note s = log_stateD [OF assms(2)]
  have "unat (cl_max_files m - 1) = unat (cl_max_files m) - 1" using s(5) by (subst unat_sub) (simp_all add: word_le_nat_alt)
  then have "first_kept m = length cs - unat (cl_max_files m)" using s(1,5,6) by (simp add: first_kept_def)
  moreover have "log_path (cl_log_dir m) (of_nat i) = numbered (cl_log_dir m) i" if "i < length cs" for i
    using that s(2) by (simp add: log_path_numbered unat_of_nat take_bit_nat_eq_self)
  ultimately have eq: "map (\<lambda>i. log_path (cl_log_dir m) (of_nat i)) [first_kept m..<Suc (unat (cl_current_index m))] =
      map (numbered (cl_log_dir m)) [length cs - unat (cl_max_files m)..<length cs]"
    using s(1,6) by simp
  have "\<not> isl (t_stat True (numbered (cl_log_dir m) i) t)" if "length cs - unat (cl_max_files m) \<le> i" "i < length cs" for i
  proof -
    have "locate t True (numbered (cl_log_dir m) i) = Inr (numbered (cl_log_dir m) i)"
      using locate_free [OF s(3) free_numbered [OF s(3,4,9)]] s(4) by simp
    moreover have "file_at t (numbered (cl_log_dir m) i) \<noteq> None" using s(11) [of i] that by auto
    ultimately show ?thesis by (auto simp: t_stat_def file_at_def split: option.splits)
  qed
  then show ?thesis unfolding log_files_def eq by (intro yields_existing [OF assms(1)]) auto
qed

text \<open>A manager on a directory that does not exist yet starts with one empty file.\<close>

lemma new_log_state:
  assumes "quiet io" "tree_ok t" "free_path t dir" "hm_get t dir = None" "max_files \<noteq> 0"
  shows "\<exists>m t'. yields (ContainerLogManager_new io dir max_size max_files) t (Inr m) t' \<and> log_state m [[]] t' \<and>
    cl_max_files m = max_files \<and> cl_max_size_bytes m = max_size"
proof -
  obtain t1 where t1: "yields (fs_create_dir_all io dir) t (Inr ()) t1" "adds_dirs dir t t1"
    using create_dir_all_creates [OF assms(1-3)] assms(4) by (auto simp: file_at_def)
  have ok: "tree_ok t1" "dir_at t1 dir" using adds_dirsD(1) [OF t1(2)] adds_dirsD(3) [OF t1(2) assms(4)] by auto
  have below: "hm_get t1 (dir @ [c]) = None" for c
  proof -
    have "hm_get t (dir @ [c]) = None"
    proof (rule ccontr)
      assume "hm_get t (dir @ [c]) \<noteq> None"
      then have "dir_at t (butlast (dir @ [c]))" using tree_okD(5) [OF assms(2), of "dir @ [c]"] by auto
      then show False using assms(4) by (simp add: dir_at_def)
    qed
    moreover have "\<not> prefix (dir @ [c]) dir" by (auto dest: prefix_length_le)
    ultimately show ?thesis using adds_dirsD(4) [OF t1(2)] by blast
  qed
  have "k \<notin> set (hm_keys t1)" if "k \<noteq> [] \<and> butlast k = dir" for k
  proof -
    have "k = dir @ [last k]" using that by (metis append_butlast_last_id)
    then show ?thesis using below by (metis hm_keys_def map_of_eq_None_iff list.set_map)
  qed
  then have "filter (\<lambda>k. k \<noteq> [] \<and> butlast k = dir) (hm_keys t1) = []" by (auto simp: filter_empty_conv)
  moreover have "locate t1 True dir = Inr dir" using locate_free [OF ok(1) free_path_dir [OF ok]] dir_at_parent [OF ok] by simp
  ultimately have "t_read_dir dir t1 = Inr []" using ok(2) by (simp add: t_read_dir_def)
  then have "yields (fs_read_dir io dir) t1 (Inr []) t1" using yields_calls(4) [OF assms(1), of dir t1] by simp
  then have idx: "yields (find_current_index io dir) t1 0 t1"
    unfolding find_current_index_def by (rule yields_bind) (simp add: yields_return)
  let ?p = "numbered dir 0"
  have none: "hm_get t1 ?p = None" by (simp add: numbered_def below)
  have kinds: "\<not> is_link t1 (numbered dir i)" "\<not> dir_at t1 (numbered dir i)" "file_at t1 (numbered dir i) = None" for i
    by (simp_all add: numbered_def below is_link_def dir_at_def file_at_def)
  have l: "locate t1 True ?p = Inr ?p" using locate_free [OF ok(1) free_numbered [OF ok kinds(1)]] ok(2) by simp
  obtain t2 where t2: "yields (fs_write io ?p []) t1 (Inr ()) t2" "tree_ok t2" "dir_at t2 = dir_at t1" "is_link t2 = is_link t1"
      "file_at t2 = (file_at t1)(?p \<mapsto> [])"
    using yields_new_file [OF assms(1) ok kinds(1,2)] by blast
  have "t_open_append ?p t1 = t_write ?p [] t1" by (simp add: t_open_append_def t_write_def l none)
  then have "yields (fs_open_append io ?p) t1 (fst (t_write ?p [] t1)) (snd (t_write ?p [] t1))"
    using yields_effect [OF assms(1), of "t_open_append ?p" t1] by (simp add: fs_open_append_def)
  then have o: "yields (fs_open_append io ?p) t1 (Inr ()) t2"
    using yields_unique [OF t2(1) yields_write [OF assms(1)]] by auto
  have st: "yields (fs_stat io ?p) t1 (Inl ENOENT) t1"
    using yields_calls(1) [OF assms(1), of ?p t1] by (simp add: t_stat_def l none)
  let ?m = "\<lparr>cl_log_dir = dir, cl_max_size_bytes = max_size, cl_max_files = max_files, cl_current_index = 0, cl_current_file = Some ?p,
      cl_current_size = 0\<rparr>"
  have "yields (ContainerLogManager_new io dir max_size max_files) t (Inr ?m) t2"
    unfolding ContainerLogManager_new_def
    by (rule yields_bind [OF t1(1)], simp, rule yields_bind [OF idx], simp add: log_path_numbered Let_def,
        rule yields_bind [OF st], rule yields_bind [OF o]) (simp add: yields_return)
  moreover have "log_state ?m [[]] t2"
  proof -
    have "Suc 0 \<le> unat max_files" using assms(5) by (metis unat_gt_0 Suc_leI)
    then show ?thesis unfolding log_state_def using t2(2-5) ok(2) kinds by auto
  qed
  ultimately show ?thesis by (intro exI [of _ ?m] exI [of _ t2]) simp
qed


definition log_disk :: disk where
  "log_disk = \<lparr>dk_tree = [([], \<lparr>in_node = Directory, in_mode = 0x1ED, in_gid = 0\<rparr>)], dk_calls = 0\<rparr>"


subsection \<open>Behaviour at the edges\<close>

text \<open>A line in the format of the container runtime is read back field by field.\<close>

lemma cri_line_read_back:
  assumes "CHR '' '' \<notin> set timestamp" "stream \<in> {''stdout'', ''stderr''}" "CHR '' '' \<notin> set flags"
    "from_json (timestamp @ CHR '' '' # stream @ CHR '' '' # flags @ CHR '' '' # message) = None"
  shows "parse_line from_json (timestamp @ CHR '' '' # stream @ CHR '' '' # flags @ CHR '' '' # message) =
    Some \<lparr>le_log = with_newline message, le_stream = stream, le_time = timestamp\<rparr>"
proof -
  have "CHR '' '' \<notin> set stream" using assms(2) by auto
  then show ?thesis using assms by (auto simp: parse_line_def split_once_append)
qed

text \<open>The flag is dropped: a partial line ends in a newline like a full one, so a long message is broken into pieces.\<close>

lemma partial_line_gets_newline:
  "parse_line (\<lambda>_. None) ''t stdout P abc'' = Some \<lparr>le_log = ''abc'' @ [CHR 0x0A], le_stream = ''stdout'', le_time = ''t''\<rparr>"
  by code_simp

text \<open>When the new file cannot be opened there is no current file, and every later line that fits is dropped with success.\<close>

lemma failed_rotation_loses_lines:
  assumes "cl_current_file m = None" "\<not> cl_max_size_bytes m < cl_current_size m + of_nat (length line)"
  shows "run_state (log_write io line m) d = ((Inr (), m), d)"
  using assms by (simp add: log_write_def append_line_def)

lemma rotation_failure_leaves_no_file:
  assumes "run_state (log_rotate io m) d = ((Inl e, m'), d')"
  shows "cl_current_file m' = None \<and> cl_current_size m' = 0"
  using assms by (auto simp: log_rotate_def Let_def split_beta split: sum.splits if_splits)

end
