(* ===== verification/File_Source.thy ===== *)
theory File_Source
  imports Static_Manifest Checkpoint Pod_Manager
begin

section \<open>The directory of static pods\<close>

text \<open>
  \<^verbatim>\<open>kubelet-adapters/src/file_config/mod.rs\<close>: a directory is polled, every manifest in it becomes an update, and a manifest
  that is gone becomes a removal. One turn of the loop is a function of what the poll sees; the loop is a run over the
  views of successive polls. Decoders and the UUID of a path are third-party code, arguments of the model. Then the dispatch of
  the updates to the pod manager (\<^verbatim>\<open>kubelet-app/src/lib.rs\<close>).
\<close>

record FilePodSource =
  fp_path :: fpath
  fp_node_name :: string
  fp_poll_interval :: duration

definition FilePodSource_new :: "fpath \<Rightarrow> string \<Rightarrow> duration \<Rightarrow> FilePodSource" where
  "FilePodSource_new path node_name interval = \<lparr>fp_path = path, fp_node_name = node_name, fp_poll_interval = interval\<rparr>"

record decoders =
  dc_json :: "string \<Rightarrow> PodManifest option"
  dc_yaml :: "string \<Rightarrow> PodManifest option"
  dc_uuid5 :: "string \<Rightarrow> string"

text \<open>Here a file is given by its name in the directory; a name always has a stem.\<close>

definition parse_manifest :: "decoders \<Rightarrow> FilePodSource \<Rightarrow> string \<Rightarrow> string \<Rightarrow> PodSpec option" where
  "parse_manifest dc src content file =
     (case (if snd (split_extension file) = Some ''json'' then dc_json dc content else dc_yaml dc content) of
        None \<Rightarrow> None
      | Some m \<Rightarrow>
          (let md = mf_metadata m; sp = mf_spec m;
               name = (case mt_name md of Some n \<Rightarrow> n | None \<Rightarrow> fst (split_extension file));
               namespace = (case mt_namespace md of Some n \<Rightarrow> n | None \<Rightarrow> ''default'');
               uid = (case mt_uid md of Some u \<Rightarrow> u | None \<Rightarrow> dc_uuid5 dc (path_str (fp_path src @ [file])));
               static_name = name @ ''-'' @ fp_node_name src
           in Some ((static_template uid namespace static_name
                      (case ms_node_name sp of Some n \<Rightarrow> n | None \<Rightarrow> fp_node_name src))
                \<lparr>ps_containers := map manifest_container (or_empty (ms_containers sp)),
                 ps_init_containers := map manifest_container (or_empty (ms_init_containers sp)),
                 ps_volumes := List.map_filter manifest_volume (or_empty (ms_volumes sp)),
                 ps_host_network := or_false (ms_host_network sp),
                 ps_restart_policy := manifest_restart_policy (ms_restart_policy sp),
                 ps_annotations := or_empty (mt_annotations md),
                 ps_labels := or_empty (mt_labels md),
                 ps_host_aliases := map manifest_host_alias (or_empty (ms_host_aliases sp))\<rparr>)))"

subsection \<open>One poll\<close>

text \<open>
  What a poll sees: whether the directory is there, the entries \<^verbatim>\<open>next_entry\<close> delivers before the end or an error (\<open>None\<close>
  when the directory cannot be opened), and what reading each file gives.
\<close>

record dir_view =
  dv_exists :: bool
  dv_listing :: "string list option"
  dv_content :: "string \<Rightarrow> string option"

text \<open>\<open>Inl\<close> is a return from the loop: the receiver is gone. \<open>accepts n\<close> says whether it still takes the \<open>n\<close>-th update.\<close>

record source_state =
  so_known :: "(string, PodUID) hmap"
  so_sent :: "PodUpdate list"

type_synonym source_turn = "source_state + source_state"

definition send_update :: "(nat \<Rightarrow> bool) \<Rightarrow> PodUpdate \<Rightarrow> source_state \<Rightarrow> source_turn" where
  "send_update accepts u s =
     (if accepts (length (so_sent s)) then Inr (s\<lparr>so_sent := so_sent s @ [u]\<rparr>) else Inl s)"

definition is_manifest :: "string \<Rightarrow> bool" where
  "is_manifest file = (case snd (split_extension file) of Some e \<Rightarrow> e \<in> {''yaml'', ''yml'', ''json''} | None \<Rightarrow> False)"

definition file_operation :: "string \<Rightarrow> PodUID \<Rightarrow> source_state \<Rightarrow> PodOperation" where
  "file_operation file uid s =
     (if hm_get (so_known s) file = Some uid then OpReconcile
      else if hm_contains_key file (so_known s) then OpUpdate else OpAdd)"

fun scan_directory ::
  "decoders \<Rightarrow> FilePodSource \<Rightarrow> (nat \<Rightarrow> bool) \<Rightarrow> dir_view \<Rightarrow> string list \<Rightarrow> source_state \<Rightarrow> source_turn" where
  "scan_directory dc src accepts v [] s = Inr s"
| "scan_directory dc src accepts v (file # files) s =
     (if \<not> is_manifest file then scan_directory dc src accepts v files s
      else case dv_content v file of
        None \<Rightarrow> scan_directory dc src accepts v files s
      | Some content \<Rightarrow>
          (case parse_manifest dc src content file of
             None \<Rightarrow> scan_directory dc src accepts v files s
           | Some pod \<Rightarrow>
               (case send_update accepts \<lparr>pu_pod = pod, pu_op = file_operation file (ps_uid pod) s\<rparr>
                       (s\<lparr>so_known := hm_insert file (ps_uid pod) (so_known s)\<rparr>) of
                  Inl s' \<Rightarrow> Inl s'
                | Inr s' \<Rightarrow> scan_directory dc src accepts v files s')))"

definition removed_pod :: "FilePodSource \<Rightarrow> string \<Rightarrow> PodUID \<Rightarrow> PodSpec" where
  "removed_pod src file uid =
     static_template uid ''default'' (fst (split_extension file) @ ''-'' @ fp_node_name src) (fp_node_name src)"

fun remove_files :: "FilePodSource \<Rightarrow> (nat \<Rightarrow> bool) \<Rightarrow> string list \<Rightarrow> source_state \<Rightarrow> source_turn" where
  "remove_files src accepts [] s = Inr s"
| "remove_files src accepts (file # files) s =
     (case hm_get (so_known s) file of
        None \<Rightarrow> remove_files src accepts files s
      | Some uid \<Rightarrow>
          (case send_update accepts \<lparr>pu_pod = removed_pod src file uid, pu_op = OpRemove\<rparr>
                  (s\<lparr>so_known := hm_remove file (so_known s)\<rparr>) of
             Inl s' \<Rightarrow> Inl s'
           | Inr s' \<Rightarrow> remove_files src accepts files s'))"

definition file_poll :: "decoders \<Rightarrow> FilePodSource \<Rightarrow> (nat \<Rightarrow> bool) \<Rightarrow> dir_view \<Rightarrow> source_state \<Rightarrow> source_turn" where
  "file_poll dc src accepts v s =
     (if \<not> dv_exists v then Inr s
      else
        (let entries = or_empty (dv_listing v)
         in case scan_directory dc src accepts v entries s of
              Inl s' \<Rightarrow> Inl s'
            | Inr s' \<Rightarrow>
                remove_files src accepts (filter (\<lambda>p. p \<notin> set (filter is_manifest entries)) (hm_keys (so_known s'))) s'))"

fun file_run :: "decoders \<Rightarrow> FilePodSource \<Rightarrow> (nat \<Rightarrow> bool) \<Rightarrow> dir_view list \<Rightarrow> source_state \<Rightarrow> source_turn" where
  "file_run dc src accepts [] s = Inr s"
| "file_run dc src accepts (v # vs) s =
     (case file_poll dc src accepts v s of Inl s' \<Rightarrow> Inl s' | Inr s' \<Rightarrow> file_run dc src accepts vs s')"

definition source_start :: source_state where
  "source_start = \<lparr>so_known = [], so_sent = []\<rparr>"

subsection \<open>The receiver\<close>

text \<open>What the updates ask for: a pod under its identifier, until it is removed.\<close>

definition asks :: "(PodUID \<rightharpoonup> PodSpec) \<Rightarrow> PodUpdate \<Rightarrow> (PodUID \<rightharpoonup> PodSpec)" where
  "asks d u =
     (if pu_op u = OpRemove then d(ps_uid (pu_pod u) := None) else d(ps_uid (pu_pod u) \<mapsto> pu_pod u))"

definition wanted :: "PodUpdate list \<Rightarrow> (PodUID \<rightharpoonup> PodSpec)" where
  "wanted us = foldl asks Map.empty us"

text \<open>The dispatcher of \<^verbatim>\<open>lib.rs\<close>; an error is logged. The timestamps are the clock reads of the pod manager.\<close>

definition dispatch_update :: "timestamp \<Rightarrow> timestamp \<Rightarrow> timestamp \<Rightarrow> PodUpdate \<Rightarrow> PodManager \<Rightarrow> PodManager" where
  "dispatch_update now0 now1 now2 u m =
     (if pu_op u = OpRemove then snd (PodManager_remove now0 now1 (ps_uid (pu_pod u)) (Some (pu_pod u)) m)
      else snd (PodManager_upsert now0 now1 now2 (pu_pod u) m))"

lemma wanted_simps [simp]: "wanted [] = Map.empty" "wanted (us @ [u]) = asks (wanted us) u"
  by (simp_all add: wanted_def)

lemma asks_simps [simp]:
  "asks d \<lparr>pu_pod = p, pu_op = OpRemove\<rparr> = d(ps_uid p := None)"
  "op \<noteq> OpRemove \<Longrightarrow> asks d \<lparr>pu_pod = p, pu_op = op\<rparr> = d(ps_uid p \<mapsto> p)"
  by (simp_all add: asks_def)

lemma file_operation_not_remove [simp]: "file_operation f u s \<noteq> OpRemove"
  by (simp add: file_operation_def)

text \<open>The dispatcher keeps the pod manager's invariant, and does what the update asks for as long as no other pod has an equivalent name
  and no host aliases are inherited.\<close>

lemma dispatch_inv: "pm_inv m \<Longrightarrow> pm_inv (dispatch_update a b c u m)"
  by (simp add: dispatch_update_def pm_inv_remove pm_inv_upsert)

lemma send_desired: "pm_desired (snd (send u m)) = pm_desired m"
  by (simp add: send_def)

lemma dispatch_asks:
  assumes "pu_op u \<noteq> OpRemove \<Longrightarrow> hm_get (pm_desired m) (ps_uid (pu_pod u)) = None \<Longrightarrow> find_equivalent m (pu_pod u) = None"
    "\<And>old. hm_get (pm_desired m) (ps_uid (pu_pod u)) = Some old \<Longrightarrow> ps_host_aliases old = [] \<or> ps_host_aliases (pu_pod u) \<noteq> []"
  shows "hm_get (pm_desired (dispatch_update a b c u m)) = asks (hm_get (pm_desired m)) u"
proof (cases "pu_op u = OpRemove")
  case True
  then show ?thesis
    by (auto simp: dispatch_update_def PodManager_remove_def asks_def Let_def send_desired evict_stale_removed_def fun_eq_iff split: option.splits)
next
  case False
  show ?thesis
  proof (cases "hm_get (pm_desired m) (ps_uid (pu_pod u))")
    case None
    with False assms(1) show ?thesis by (simp add: dispatch_update_def upsert_new asks_def fun_eq_iff)
  next
    case (Some old)
    have "inherit_aliases old (pu_pod u) = pu_pod u" using assms(2) [OF Some] by (auto simp: inherit_aliases_def)
    with False show ?thesis by (simp add: dispatch_update_def upsert_known [OF Some] asks_def fun_eq_iff)
  qed
qed

subsection \<open>The effect of a poll\<close>

text \<open>The pod a file gives in a view, when it is a manifest that can be read and parsed.\<close>

definition served :: "decoders \<Rightarrow> FilePodSource \<Rightarrow> dir_view \<Rightarrow> string \<Rightarrow> PodSpec option" where
  "served dc src v file =
     (if is_manifest file
      then (case dv_content v file of None \<Rightarrow> None | Some c \<Rightarrow> parse_manifest dc src c file) else None)"

abbreviation open_end :: "nat \<Rightarrow> bool" where
  "open_end \<equiv> \<lambda>_. True"

text \<open>The invariant: what is wanted are the pods of the known files, each under its own identifier.\<close>

definition source_inv :: "source_state \<Rightarrow> bool" where
  "source_inv s \<longleftrightarrow> hm_ok (so_known s) \<and>
     (\<forall>f g u. hm_get (so_known s) f = Some u \<longrightarrow> hm_get (so_known s) g = Some u \<longrightarrow> f = g) \<and>
     (\<forall>u. wanted (so_sent s) u \<noteq> None \<longleftrightarrow> (\<exists>f. hm_get (so_known s) f = Some u))"

lemma source_invD:
  assumes "source_inv s"
  shows "hm_ok (so_known s)" "hm_get (so_known s) f = Some u \<Longrightarrow> hm_get (so_known s) g = Some u \<Longrightarrow> f = g"
    "wanted (so_sent s) u \<noteq> None \<longleftrightarrow> (\<exists>f. hm_get (so_known s) f = Some u)"
  using assms unfolding source_inv_def by blast+

lemma source_inv_start: "source_inv source_start"
  by (simp add: source_inv_def source_start_def)

lemma scan_step:
  "scan_directory dc src accepts v (file # files) s =
     (case served dc src v file of
        None \<Rightarrow> scan_directory dc src accepts v files s
      | Some pod \<Rightarrow>
          (case send_update accepts \<lparr>pu_pod = pod, pu_op = file_operation file (ps_uid pod) s\<rparr>
                  (s\<lparr>so_known := hm_insert file (ps_uid pod) (so_known s)\<rparr>) of
             Inl s' \<Rightarrow> Inl s'
           | Inr s' \<Rightarrow> scan_directory dc src accepts v files s'))"
  by (simp add: served_def split: option.split)

text \<open>A scan whose updates are taken adds what the files give, in their order.\<close>

lemma scan_spec:
  "\<exists>s'. scan_directory dc src open_end v files s = Inr s' \<and> (hm_ok (so_known s) \<longrightarrow> hm_ok (so_known s')) \<and>
     (\<forall>f. hm_get (so_known s') f =
        (if f \<in> set files \<and> served dc src v f \<noteq> None then map_option ps_uid (served dc src v f) else hm_get (so_known s) f)) \<and>
     wanted (so_sent s') =
       foldl (\<lambda>d f. case served dc src v f of None \<Rightarrow> d | Some p \<Rightarrow> d(ps_uid p \<mapsto> p)) (wanted (so_sent s)) files"
proof (induction files arbitrary: s)
  case Nil
  then show ?case by simp
next
  case (Cons x files)
  show ?case
  proof (cases "served dc src v x")
    case None
    obtain s' where "scan_directory dc src open_end v files s = Inr s'" "hm_ok (so_known s) \<longrightarrow> hm_ok (so_known s')"
        "\<And>f. hm_get (so_known s') f =
           (if f \<in> set files \<and> served dc src v f \<noteq> None then map_option ps_uid (served dc src v f) else hm_get (so_known s) f)"
        "wanted (so_sent s') =
           foldl (\<lambda>d f. case served dc src v f of None \<Rightarrow> d | Some p \<Rightarrow> d(ps_uid p \<mapsto> p)) (wanted (so_sent s)) files"
      using Cons [of s] by blast
    with None show ?thesis by (intro exI [of _ s']) (auto simp: scan_step simp del: scan_directory.simps)
  next
    case (Some pod)
    let ?u = "\<lparr>pu_pod = pod, pu_op = file_operation x (ps_uid pod) s\<rparr>"
    let ?s = "s\<lparr>so_known := hm_insert x (ps_uid pod) (so_known s), so_sent := so_sent s @ [?u]\<rparr>"
    obtain s' where "scan_directory dc src open_end v files ?s = Inr s'" "hm_ok (so_known ?s) \<longrightarrow> hm_ok (so_known s')"
        "\<And>f. hm_get (so_known s') f =
           (if f \<in> set files \<and> served dc src v f \<noteq> None then map_option ps_uid (served dc src v f) else hm_get (so_known ?s) f)"
        "wanted (so_sent s') =
           foldl (\<lambda>d f. case served dc src v f of None \<Rightarrow> d | Some p \<Rightarrow> d(ps_uid p \<mapsto> p)) (wanted (so_sent ?s)) files"
      using Cons [of ?s] by blast
    then show ?thesis using Some by (intro exI [of _ s']) (auto simp: scan_step send_update_def simp del: scan_directory.simps)
  qed
qed

text \<open>A removal of distinct files drops the pods they are known by.\<close>

lemma remove_spec:
  assumes "distinct files"
  shows "\<exists>s'. remove_files src open_end files s = Inr s' \<and> (hm_ok (so_known s) \<longrightarrow> hm_ok (so_known s')) \<and>
     (\<forall>f. hm_get (so_known s') f = (if f \<in> set files then None else hm_get (so_known s) f)) \<and>
     (\<forall>u. wanted (so_sent s') u = (if \<exists>f \<in> set files. hm_get (so_known s) f = Some u then None else wanted (so_sent s) u))"
  using assms
proof (induction files arbitrary: s)
  case Nil
  then show ?case by simp
next
  case (Cons x files)
  show ?case
  proof (cases "hm_get (so_known s) x")
    case None
    obtain s' where "remove_files src open_end files s = Inr s'" "hm_ok (so_known s) \<longrightarrow> hm_ok (so_known s')"
        "\<And>f. hm_get (so_known s') f = (if f \<in> set files then None else hm_get (so_known s) f)"
        "\<And>u. wanted (so_sent s') u = (if \<exists>f \<in> set files. hm_get (so_known s) f = Some u then None else wanted (so_sent s) u)"
      using Cons.IH [of s] Cons.prems by auto
    with None show ?thesis by (intro exI [of _ s']) auto
  next
    case (Some uid)
    let ?s = "s\<lparr>so_known := hm_remove x (so_known s), so_sent := so_sent s @ [\<lparr>pu_pod = removed_pod src x uid, pu_op = OpRemove\<rparr>]\<rparr>"
    have nin: "x \<notin> set files" using Cons.prems by simp
    obtain s' where s': "remove_files src open_end files ?s = Inr s'" "hm_ok (so_known ?s) \<longrightarrow> hm_ok (so_known s')"
        "\<And>f. hm_get (so_known s') f = (if f \<in> set files then None else hm_get (so_known ?s) f)"
        "\<And>u. wanted (so_sent s') u = (if \<exists>f \<in> set files. hm_get (so_known ?s) f = Some u then None else wanted (so_sent ?s) u)"
      using Cons.IH [of ?s] Cons.prems by auto
    have "(\<exists>f \<in> set files. hm_get (so_known ?s) f = Some u) \<longleftrightarrow> (\<exists>f \<in> set files. hm_get (so_known s) f = Some u)" for u
      using nin by auto
    with s' Some show ?thesis by (intro exI [of _ s']) (auto simp: send_update_def removed_pod_def)
  qed
qed

text \<open>What a scan leaves wanted, when no two files give the same identifier.\<close>

lemma foldl_served:
  assumes "\<And>f g p q. f \<in> set files \<Longrightarrow> g \<in> set files \<Longrightarrow> h f = Some p \<Longrightarrow> h g = Some q \<Longrightarrow> ps_uid p = ps_uid q \<Longrightarrow> p = q"
  shows "foldl (\<lambda>d f. case h f of None \<Rightarrow> d | Some p \<Rightarrow> d(ps_uid p \<mapsto> p)) d files u = Some p \<longleftrightarrow>
     (\<exists>f \<in> set files. h f = Some p \<and> ps_uid p = u) \<or> (\<forall>f \<in> set files. \<forall>q. h f = Some q \<longrightarrow> ps_uid q \<noteq> u) \<and> d u = Some p"
  using assms
proof (induction files arbitrary: d)
  case Nil
  then show ?case by simp
next
  case (Cons f files)
  have IH: "foldl (\<lambda>d f. case h f of None \<Rightarrow> d | Some p \<Rightarrow> d(ps_uid p \<mapsto> p)) e files u = Some p \<longleftrightarrow>
     (\<exists>f \<in> set files. h f = Some p \<and> ps_uid p = u) \<or> (\<forall>f \<in> set files. \<forall>q. h f = Some q \<longrightarrow> ps_uid q \<noteq> u) \<and> e u = Some p" for e
    by (rule Cons.IH) (meson Cons.prems list.set_intros(2))
  show ?case
  proof (cases "h f")
    case None
    then show ?thesis by (simp add: IH)
  next
    case (Some r)
    have same: "q = r" if "g \<in> set files" "h g = Some q" "ps_uid q = ps_uid r" for g q
      using Cons.prems [of g f q r] that Some by simp
    show ?thesis using Some same by (auto simp: IH)
  qed
qed

subsection \<open>The pods are those of the directory\<close>

text \<open>
  No two manifests give one identifier, a known file keeps its identifier, and no file gives the identifier another is known
  by.
\<close>

definition uids_stable :: "(string \<Rightarrow> PodSpec option) \<Rightarrow> string list \<Rightarrow> source_state \<Rightarrow> bool" where
  "uids_stable h files s \<longleftrightarrow>
     (\<forall>f \<in> set files. \<forall>p. h f = Some p \<longrightarrow>
        (\<forall>g \<in> set files. \<forall>q. h g = Some q \<longrightarrow> ps_uid q = ps_uid p \<longrightarrow> g = f) \<and>
        (\<forall>u. hm_get (so_known s) f = Some u \<longrightarrow> u = ps_uid p) \<and>
        (\<forall>g. hm_get (so_known s) g = Some (ps_uid p) \<longrightarrow> g = f))"

lemma uids_stableD:
  assumes "uids_stable h files s" "f \<in> set files" "h f = Some p"
  shows "g \<in> set files \<Longrightarrow> h g = Some q \<Longrightarrow> ps_uid q = ps_uid p \<Longrightarrow> g = f"
    "hm_get (so_known s) f = Some u \<Longrightarrow> u = ps_uid p" "hm_get (so_known s) g = Some (ps_uid p) \<Longrightarrow> g = f"
  using assms unfolding uids_stable_def by blast+

lemma served_is_manifest: "served dc src v f = Some p \<Longrightarrow> is_manifest f"
  by (simp add: served_def split: if_splits)

definition gives :: "(string \<Rightarrow> PodSpec option) \<Rightarrow> source_state \<Rightarrow> PodUID \<Rightarrow> PodSpec \<Rightarrow> string \<Rightarrow> bool" where
  "gives h s u p f \<longleftrightarrow>
     (case h f of Some q \<Rightarrow> q = p \<and> ps_uid q = u | None \<Rightarrow> hm_get (so_known s) f = Some u \<and> wanted (so_sent s) u = Some p)"

abbreviation listed_manifest :: "string list \<Rightarrow> string \<Rightarrow> bool" where
  "listed_manifest files f \<equiv> f \<in> set files \<and> is_manifest f"

lemma file_poll_raw:
  assumes "hm_ok (so_known s)" "dv_exists v" "dv_listing v = Some files"
  obtains s' where "file_poll dc src open_end v s = Inr s'" "hm_ok (so_known s')"
    "\<And>f. hm_get (so_known s') f =
       (if listed_manifest files f
        then (case served dc src v f of Some p \<Rightarrow> Some (ps_uid p) | None \<Rightarrow> hm_get (so_known s) f) else None)"
    "\<And>u. wanted (so_sent s') u =
       (if \<exists>f. \<not> listed_manifest files f \<and> hm_get (so_known s) f = Some u then None
        else foldl (\<lambda>d f. case served dc src v f of None \<Rightarrow> d | Some p \<Rightarrow> d(ps_uid p \<mapsto> p)) (wanted (so_sent s)) files u)"
proof -
  let ?h = "served dc src v"
  obtain s1 where s1: "scan_directory dc src open_end v files s = Inr s1" "hm_ok (so_known s1)"
      "\<And>f. hm_get (so_known s1) f = (if f \<in> set files \<and> ?h f \<noteq> None then map_option ps_uid (?h f) else hm_get (so_known s) f)"
      "wanted (so_sent s1) = foldl (\<lambda>d f. case ?h f of None \<Rightarrow> d | Some p \<Rightarrow> d(ps_uid p \<mapsto> p)) (wanted (so_sent s)) files"
    using scan_spec [of dc src v files s] assms(1) by blast
  let ?gone = "filter (\<lambda>p. p \<notin> set (filter is_manifest files)) (hm_keys (so_known s1))"
  have "distinct ?gone" using s1(2) by (simp add: hm_ok_def hm_keys_def)
  from remove_spec [OF this] obtain s2 where s2: "remove_files src open_end ?gone s1 = Inr s2" "hm_ok (so_known s2)"
      "\<And>f. hm_get (so_known s2) f = (if f \<in> set ?gone then None else hm_get (so_known s1) f)"
      "\<And>u. wanted (so_sent s2) u = (if \<exists>f \<in> set ?gone. hm_get (so_known s1) f = Some u then None else wanted (so_sent s1) u)"
    using s1(2) by blast
  have gone: "f \<in> set ?gone \<longleftrightarrow> hm_get (so_known s1) f \<noteq> None \<and> \<not> listed_manifest files f" for f
    by (auto simp: hm_keys_def map_of_eq_None_iff)
  have man: "?h f \<noteq> None \<Longrightarrow> is_manifest f" for f using served_is_manifest by blast
  have same: "hm_get (so_known s1) f = hm_get (so_known s) f" if "\<not> listed_manifest files f" for f
    using that man [of f] by (auto simp: s1(3))
  have out: "(\<exists>f \<in> set ?gone. hm_get (so_known s1) f = Some u) \<longleftrightarrow> (\<exists>f. \<not> listed_manifest files f \<and> hm_get (so_known s) f = Some u)"
    for u using same unfolding Bex_def gone by force
  show ?thesis
  proof
    show "file_poll dc src open_end v s = Inr s2" using s2(1) assms(2,3) by (simp add: file_poll_def s1(1))
    show "hm_get (so_known s2) f = (if listed_manifest files f
        then (case ?h f of Some p \<Rightarrow> Some (ps_uid p) | None \<Rightarrow> hm_get (so_known s) f) else None)" for f
      unfolding s2(3) gone s1(3) using man [of f] by (auto split: option.split)
    show "wanted (so_sent s2) u = (if \<exists>f. \<not> listed_manifest files f \<and> hm_get (so_known s) f = Some u then None
        else foldl (\<lambda>d f. case ?h f of None \<Rightarrow> d | Some p \<Rightarrow> d(ps_uid p \<mapsto> p)) (wanted (so_sent s)) files u)" for u
      unfolding s2(4) out s1(4) ..
  qed (fact s2(2))
qed

text \<open>Two files that give pods of one identifier are the same file.\<close>

lemma gives_same:
  assumes "source_inv s" "uids_stable h files s" "f \<in> set files" "g \<in> set files" "gives h s u p f" "gives h s u q g"
  shows "f = g"
proof -
  note st = uids_stableD [OF assms(2)]
  have a: "case h f of Some q \<Rightarrow> ps_uid q = u | None \<Rightarrow> hm_get (so_known s) f = Some u"
    using assms(5) by (simp add: gives_def split: option.splits)
  have b: "case h g of Some q \<Rightarrow> ps_uid q = u | None \<Rightarrow> hm_get (so_known s) g = Some u"
    using assms(6) by (simp add: gives_def split: option.splits)
  show ?thesis
  proof (cases "h f")
    case None
    then show ?thesis using a b source_invD(2) [OF assms(1), of f u g] st(3) [OF assms(4), of _ f] by (cases "h g") simp_all
  next
    case (Some r)
    then show ?thesis using a b st(1) [OF assms(3) Some assms(4)] st(3) [OF assms(3) Some, of g] by (cases "h g") simp_all
  qed
qed

lemma wanted_after:
  assumes "source_inv s" "uids_stable h files s" "\<And>f. h f \<noteq> None \<Longrightarrow> is_manifest f"
  shows "(if \<exists>f. \<not> listed_manifest files f \<and> hm_get (so_known s) f = Some u then None
        else foldl (\<lambda>d f. case h f of None \<Rightarrow> d | Some p \<Rightarrow> d(ps_uid p \<mapsto> p)) (wanted (so_sent s)) files u) = Some p \<longleftrightarrow>
    (\<exists>f. listed_manifest files f \<and> gives h s u p f)" (is "(if ?gone then None else ?fold) = Some p \<longleftrightarrow> ?R")
proof -
  note inv = source_invD [OF assms(1)] and st = uids_stableD [OF assms(2)] and one = gives_same [OF assms(1,2)]
  have fold: "?fold = Some p \<longleftrightarrow> (\<exists>f \<in> set files. h f = Some p \<and> ps_uid p = u) \<or>
      (\<forall>f \<in> set files. \<forall>q. h f = Some q \<longrightarrow> ps_uid q \<noteq> u) \<and> wanted (so_sent s) u = Some p"
    by (rule foldl_served) (metis option.inject st(1))
  show ?thesis
  proof (cases "\<exists>f \<in> set files. \<exists>q. h f = Some q \<and> ps_uid q = u")
    case True
    then obtain f q where f: "f \<in> set files" "h f = Some q" "ps_uid q = u" by blast
    have "\<not> ?gone" using st(3) [OF f(1,2)] f assms(3) by (metis option.distinct(1))
    moreover have "?fold = Some p \<longleftrightarrow> q = p" unfolding fold using f st(1) [OF f(1,2)] by (metis option.inject)
    moreover have g: "gives h s u q f" using f by (simp add: gives_def)
    have "?R \<longleftrightarrow> q = p"
    proof
      assume ?R
      then obtain g where "g \<in> set files" "gives h s u p g" by blast
      moreover from this have "f = g" using one [OF f(1) _ g] by blast
      ultimately show "q = p" using f(2) by (simp add: gives_def)
    next
      assume "q = p"
      then show ?R using f g assms(3) by blast
    qed
    ultimately show ?thesis by (simp only: if_False)
  next
    case False
    then have old: "?fold = Some p \<longleftrightarrow> wanted (so_sent s) u = Some p" unfolding fold by blast
    have g: "gives h s u p f \<longleftrightarrow> hm_get (so_known s) f = Some u \<and> wanted (so_sent s) u = Some p" if "f \<in> set files" for f
    proof (cases "h f")
      case None
      then show ?thesis by (simp add: gives_def)
    next
      case (Some q)
      with that False have "ps_uid q \<noteq> u" by blast
      with Some st(2) [OF that Some, of u] show ?thesis by (auto simp: gives_def)
    qed
    have R: "?R \<longleftrightarrow> (\<exists>f. listed_manifest files f \<and> hm_get (so_known s) f = Some u) \<and> wanted (so_sent s) u = Some p"
      using g by blast
    show ?thesis
    proof (cases "wanted (so_sent s) u = Some p")
      case True
      then obtain f where f: "hm_get (so_known s) f = Some u" using inv(3) [of u] by auto
      then have "?gone \<longleftrightarrow> \<not> (\<exists>f. listed_manifest files f \<and> hm_get (so_known s) f = Some u)" using inv(2) by blast
      then show ?thesis unfolding R using True old by (cases ?gone) (simp_all only: if_True if_False option.distinct simp_thms)
    next
      case False
      then show ?thesis using old R by simp
    qed
  qed
qed

lemma file_poll_spec:
  assumes "source_inv s" "dv_exists v" "dv_listing v = Some files" "uids_stable (served dc src v) files s"
  shows "\<exists>s'. file_poll dc src open_end v s = Inr s' \<and> source_inv s' \<and>
    (\<forall>u p. wanted (so_sent s') u = Some p \<longleftrightarrow> (\<exists>f. listed_manifest files f \<and> gives (served dc src v) s u p f)) \<and>
    (\<forall>f u. hm_get (so_known s') f = Some u \<longleftrightarrow> listed_manifest files f \<and> (\<exists>p. gives (served dc src v) s u p f))"
proof -
  let ?h = "served dc src v"
  obtain s' where s': "file_poll dc src open_end v s = Inr s'" "hm_ok (so_known s')"
      "\<And>f. hm_get (so_known s') f =
         (if listed_manifest files f then (case ?h f of Some p \<Rightarrow> Some (ps_uid p) | None \<Rightarrow> hm_get (so_known s) f) else None)"
      "\<And>u. wanted (so_sent s') u =
         (if \<exists>f. \<not> listed_manifest files f \<and> hm_get (so_known s) f = Some u then None
          else foldl (\<lambda>d f. case ?h f of None \<Rightarrow> d | Some p \<Rightarrow> d(ps_uid p \<mapsto> p)) (wanted (so_sent s)) files u)"
    using file_poll_raw [OF source_invD(1) [OF assms(1)] assms(2,3)] by blast
  have w: "wanted (so_sent s') u = Some p \<longleftrightarrow> (\<exists>f. listed_manifest files f \<and> gives ?h s u p f)" for u p
    unfolding s'(4) by (rule wanted_after [OF assms(1,4)]) (use served_is_manifest in blast)
  have k: "hm_get (so_known s') f = Some u \<longleftrightarrow> listed_manifest files f \<and> (\<exists>p. gives ?h s u p f)" for f u
    using source_invD(3) [OF assms(1), of u] by (auto simp: s'(3) gives_def split: option.splits)
  have "f = g" if "hm_get (so_known s') f = Some u" "hm_get (so_known s') g = Some u" for f g u
    using that gives_same [OF assms(1,4)] unfolding k by blast
  moreover have "wanted (so_sent s') u \<noteq> None \<longleftrightarrow> (\<exists>f. hm_get (so_known s') f = Some u)" for u
    unfolding k using w [of u] by (metis not_Some_eq)
  ultimately have "source_inv s'" using s'(2) unfolding source_inv_def by blast
  then show ?thesis using s'(1) w k by blast
qed

text \<open>What holds after some polls, when every name has one identifier: known files are known by it, and each wanted pod was read from
  its file.\<close>

definition read_once :: "decoders \<Rightarrow> FilePodSource \<Rightarrow> (string \<Rightarrow> PodUID) \<Rightarrow> dir_view set \<Rightarrow> source_state \<Rightarrow> bool" where
  "read_once dc src uid_of views s \<longleftrightarrow> source_inv s \<and>
     (\<forall>f u. hm_get (so_known s) f = Some u \<longrightarrow> u = uid_of f) \<and>
     (\<forall>u p. wanted (so_sent s) u = Some p \<longrightarrow> (\<exists>f. u = uid_of f \<and> (\<exists>v \<in> views. served dc src v f = Some p)))"

lemma read_once_mono: "read_once dc src uid_of V s \<Longrightarrow> V \<subseteq> W \<Longrightarrow> read_once dc src uid_of W s"
  unfolding read_once_def by blast

definition one_uid :: "decoders \<Rightarrow> FilePodSource \<Rightarrow> (string \<Rightarrow> PodUID) \<Rightarrow> dir_view \<Rightarrow> bool" where
  "one_uid dc src uid_of v \<longleftrightarrow> (\<forall>f p. served dc src v f = Some p \<longrightarrow> ps_uid p = uid_of f)"

lemma stable_uids:
  assumes "inj uid_of" "one_uid dc src uid_of v" "read_once dc src uid_of V s"
  shows "uids_stable (served dc src v) files s"
proof -
  have "g = f" if "hm_get (so_known s) g = Some (uid_of f)" for f g
    using assms(3) that injD [OF assms(1), of g f] by (auto simp: read_once_def)
  then show ?thesis using assms by (auto simp: uids_stable_def one_uid_def read_once_def dest: injD)
qed

lemma read_once_poll:
  assumes "inj uid_of" "one_uid dc src uid_of v" "read_once dc src uid_of V s" "dv_exists v" "dv_listing v = Some files"
  shows "\<exists>s'. file_poll dc src open_end v s = Inr s' \<and> read_once dc src uid_of (insert v V) s' \<and>
    (\<forall>f p. f \<in> set files \<and> served dc src v f = Some p \<longrightarrow> wanted (so_sent s') (uid_of f) = Some p) \<and>
    (\<forall>u p. wanted (so_sent s') u = Some p \<longrightarrow> (\<exists>f. f \<in> set files \<and> is_manifest f \<and> u = uid_of f))"
proof -
  let ?h = "served dc src v"
  have inv: "source_inv s" "\<And>f u. hm_get (so_known s) f = Some u \<Longrightarrow> u = uid_of f"
      "\<And>u p. wanted (so_sent s) u = Some p \<Longrightarrow> \<exists>f. u = uid_of f \<and> (\<exists>v \<in> V. served dc src v f = Some p)"
    using assms(3) by (simp_all add: read_once_def)
  from file_poll_spec [OF inv(1) assms(4,5) stable_uids [OF assms(1-3)]]
  obtain s' where s': "file_poll dc src open_end v s = Inr s'" "source_inv s'"
      "\<And>u p. wanted (so_sent s') u = Some p \<longleftrightarrow> (\<exists>f. listed_manifest files f \<and> gives ?h s u p f)"
      "\<And>f u. hm_get (so_known s') f = Some u \<longleftrightarrow> listed_manifest files f \<and> (\<exists>p. gives ?h s u p f)"
    by blast
  have g: "u = uid_of f" "?h f = Some p \<or> wanted (so_sent s) u = Some p" if "gives ?h s u p f" for u p f
    using that assms(2) inv(2) by (auto simp: gives_def one_uid_def split: option.splits)
  have "\<exists>f. u = uid_of f \<and> (\<exists>v \<in> insert v V. served dc src v f = Some p)" if w: "wanted (so_sent s') u = Some p" for u p
  proof -
    from w obtain f where "gives ?h s u p f" unfolding s'(3) by blast
    from g [OF this] inv(3) show ?thesis by blast
  qed
  moreover have "u = uid_of f" if "hm_get (so_known s') f = Some u" for f u using that g(1) unfolding s'(4) by blast
  ultimately have "read_once dc src uid_of (insert v V) s'" using s'(2) by (simp add: read_once_def)
  moreover have "wanted (so_sent s') (uid_of f) = Some p" if "f \<in> set files" "?h f = Some p" for f p
  proof -
    have "gives ?h s (uid_of f) p f" using that(2) assms(2) by (simp add: gives_def one_uid_def)
    then show ?thesis unfolding s'(3) using that served_is_manifest by blast
  qed
  moreover have "\<exists>f. f \<in> set files \<and> is_manifest f \<and> u = uid_of f" if "wanted (so_sent s') u = Some p" for u p
    using that g(1) unfolding s'(3) by blast
  ultimately show ?thesis using s'(1) by blast
qed

lemma read_once_run:
  assumes "inj uid_of" "\<And>v. v \<in> set vs \<Longrightarrow> one_uid dc src uid_of v \<and> (dv_exists v \<longrightarrow> dv_listing v \<noteq> None)" "read_once dc src uid_of V s"
  shows "\<exists>s'. file_run dc src open_end vs s = Inr s' \<and> read_once dc src uid_of (set vs \<union> V) s'"
  using assms(2,3)
proof (induction vs arbitrary: s V)
  case Nil
  then show ?case by simp
next
  case (Cons v vs)
  have v: "one_uid dc src uid_of v" "dv_exists v \<Longrightarrow> dv_listing v \<noteq> None" using Cons.prems(1) by simp_all
  obtain s1 where s1: "file_poll dc src open_end v s = Inr s1" "read_once dc src uid_of (insert v V) s1"
  proof (cases "dv_exists v")
    case True
    then obtain files where "dv_listing v = Some files" using v(2) by blast
    from read_once_poll [OF assms(1) v(1) Cons.prems(2) True this] show ?thesis using that by blast
  next
    case False
    then have "file_poll dc src open_end v s = Inr s" by (simp add: file_poll_def)
    then show ?thesis using that read_once_mono [OF Cons.prems(2)] by blast
  qed
  obtain s' where "file_run dc src open_end vs s1 = Inr s'" "read_once dc src uid_of (set vs \<union> insert v V) s'"
    using Cons.IH [OF _ s1(2)] Cons.prems(1) by auto
  then show ?case using s1(1) by (intro exI [of _ s']) simp
qed

lemma file_run_append:
  "file_run dc src accepts (vs @ ws) s =
     (case file_run dc src accepts vs s of Inl s' \<Rightarrow> Inl s' | Inr s' \<Rightarrow> file_run dc src accepts ws s')"
  by (induction vs arbitrary: s) (simp_all split: sum.split)

text \<open>C1: The static pods are those of the directory. When every manifest keeps its own identifier and no two share one, then after any
  number of polls of a directory that can be listed or is missing, and a last poll that lists it, every listed manifest that was
  read and parsed has exactly its pod wanted, and every pod that is wanted belongs to a listed manifest and is what that manifest said
  when it was read: a file that cannot be parsed keeps its pod, a file that is gone loses it.\<close>

theorem static_pods_mirror_directory:
  assumes "inj uid_of" "\<And>w. w \<in> set (vs @ [v]) \<Longrightarrow> one_uid dc src uid_of w \<and> (dv_exists w \<longrightarrow> dv_listing w \<noteq> None)"
    "dv_exists v" "dv_listing v = Some files"
  shows "\<exists>s. file_run dc src (\<lambda>_. True) (vs @ [v]) source_start = Inr s \<and>
    (\<forall>f p. f \<in> set files \<and> served dc src v f = Some p \<longrightarrow> wanted (so_sent s) (uid_of f) = Some p) \<and>
    (\<forall>u p. wanted (so_sent s) u = Some p \<longrightarrow>
       (\<exists>f. f \<in> set files \<and> is_manifest f \<and> u = uid_of f) \<and>
       (\<exists>f. u = uid_of f \<and> (\<exists>w \<in> set (vs @ [v]). served dc src w f = Some p)))"
proof -
  have start: "read_once dc src uid_of {} source_start"
    using source_inv_start by (simp add: read_once_def) (simp add: source_start_def)
  obtain s1 where s1: "file_run dc src open_end vs source_start = Inr s1" "read_once dc src uid_of (set vs) s1"
    using read_once_run [OF assms(1) _ start, of vs] assms(2) by auto
  have v: "one_uid dc src uid_of v" using assms(2) by simp
  from read_once_poll [OF assms(1) v s1(2) assms(3,4)]
  obtain s where s: "file_poll dc src open_end v s1 = Inr s" "read_once dc src uid_of (insert v (set vs)) s"
    "\<forall>f p. f \<in> set files \<and> served dc src v f = Some p \<longrightarrow> wanted (so_sent s) (uid_of f) = Some p"
    "\<forall>u p. wanted (so_sent s) u = Some p \<longrightarrow> (\<exists>f. f \<in> set files \<and> is_manifest f \<and> u = uid_of f)"
    by blast
  have "\<exists>f. u = uid_of f \<and> (\<exists>w \<in> set (vs @ [v]). served dc src w f = Some p)" if "wanted (so_sent s) u = Some p" for u p
    using s(2) that unfolding read_once_def by auto
  moreover have "file_run dc src open_end (vs @ [v]) source_start = Inr s" by (simp add: file_run_append s1(1) s(1))
  ultimately show ?thesis using s(3,4) by blast
qed

subsection \<open>Instances\<close>

text \<open>A directory whose files hold the identifier of their pod.\<close>

definition demo_manifest :: "string \<Rightarrow> PodManifest" where
  "demo_manifest uid =
     \<lparr>mf_api_version = None, mf_kind = None,
      mf_metadata = \<lparr>mt_name = None, mt_namespace = None, mt_uid = Some uid, mt_annotations = None, mt_labels = None\<rparr>,
      mf_spec = \<lparr>ms_containers = None, ms_init_containers = None, ms_volumes = None, ms_restart_policy = None,
                 ms_host_network = None, ms_node_name = None, ms_host_aliases = None\<rparr>\<rparr>"

definition demo_decoders :: decoders where
  "demo_decoders = \<lparr>dc_json = (\<lambda>_. None), dc_yaml = (\<lambda>c. Some (demo_manifest c)), dc_uuid5 = id\<rparr>"

definition demo_source :: FilePodSource where
  "demo_source = FilePodSource_new [''m''] ''n'' (secs 20)"

definition demo_view :: "(string \<times> string) list \<Rightarrow> dir_view" where
  "demo_view files = \<lparr>dv_exists = True, dv_listing = Some (map fst files), dv_content = map_of files\<rparr>"

definition demo_wanted :: "dir_view list \<Rightarrow> PodUID \<Rightarrow> bool" where
  "demo_wanted vs uid =
     (case file_run demo_decoders demo_source (\<lambda>_. True) vs source_start of Inr s \<Rightarrow> wanted (so_sent s) uid \<noteq> None | Inl _ \<Rightarrow> False)"

lemma demo_served:
  "served demo_decoders demo_source v f = Some p \<Longrightarrow> \<exists>c. dv_content v f = Some c \<and> ps_uid p = c"
  by (auto simp: served_def parse_manifest_def demo_decoders_def demo_manifest_def Let_def split: if_splits option.splits)

theorem static_pods_mirror_directory_witness:
  "let a = (''a.yaml'', ''a.yaml''); b = (''b.yaml'', ''b.yaml'') in
   \<exists>s. file_run demo_decoders demo_source (\<lambda>_. True) ([demo_view [a, b]] @ [demo_view [b]]) source_start = Inr s \<and>
       wanted (so_sent s) ''a.yaml'' = None \<and> wanted (so_sent s) ''b.yaml'' \<noteq> None"
proof -
  let ?a = "(''a.yaml'', ''a.yaml'')" and ?b = "(''b.yaml'', ''b.yaml'')"
  have one: "one_uid demo_decoders demo_source id w \<and> (dv_exists w \<longrightarrow> dv_listing w \<noteq> None)"
    if "w \<in> set ([demo_view [?a, ?b]] @ [demo_view [?b]])" for w
    using that by (auto simp: one_uid_def demo_view_def dest!: demo_served split: if_splits)
  have v: "dv_exists (demo_view [?b])" "dv_listing (demo_view [?b]) = Some [''b.yaml'']" by (simp_all add: demo_view_def)
  from static_pods_mirror_directory [OF inj_on_id one v] obtain s where
    s: "file_run demo_decoders demo_source (\<lambda>_. True) ([demo_view [?a, ?b]] @ [demo_view [?b]]) source_start = Inr s"
      "\<forall>f p. f \<in> set [''b.yaml''] \<and> served demo_decoders demo_source (demo_view [?b]) f = Some p \<longrightarrow> wanted (so_sent s) (id f) = Some p"
      "\<forall>u p. wanted (so_sent s) u = Some p \<longrightarrow> (\<exists>f. f \<in> set [''b.yaml''] \<and> is_manifest f \<and> u = id f)"
    by blast
  have "served demo_decoders demo_source (demo_view [?b]) ''b.yaml'' \<noteq> None" by code_simp
  then have "wanted (so_sent s) ''b.yaml'' \<noteq> None" using s(2) by auto
  moreover have "wanted (so_sent s) ''a.yaml'' = None" using s(3) by (cases "wanted (so_sent s) ''a.yaml''") auto
  ultimately show ?thesis using s(1) by (simp add: Let_def)
qed

subsection \<open>What a poll does beyond that\<close>

text \<open>A directory that is there but cannot be listed, for one poll, removes every static pod.\<close>

lemma unreadable_directory_removes_every_pod:
  assumes "source_inv s" "dv_exists v" "dv_listing v = None"
  shows "\<exists>s'. file_poll dc src open_end v s = Inr s' \<and> wanted (so_sent s') = Map.empty"
proof -
  have "distinct (hm_keys (so_known s))" using source_invD(1) [OF assms(1)] by (simp add: hm_ok_def hm_keys_def)
  from remove_spec [OF this, of src s] obtain s' where s': "remove_files src open_end (hm_keys (so_known s)) s = Inr s'"
      "\<And>u. wanted (so_sent s') u =
        (if \<exists>f \<in> set (hm_keys (so_known s)). hm_get (so_known s) f = Some u then None else wanted (so_sent s) u)"
    by blast
  have "wanted (so_sent s') u = None" for u
  proof (cases "wanted (so_sent s) u")
    case None
    then show ?thesis by (simp add: s'(2))
  next
    case (Some p)
    then obtain f where f: "hm_get (so_known s) f = Some u" using source_invD(3) [OF assms(1), of u] by auto
    then have "f \<in> set (hm_keys (so_known s))" by (metis hm_keys_def image_set map_of_eq_None_iff option.distinct(1))
    with f show ?thesis by (auto simp: s'(2))
  qed
  moreover have "file_poll dc src open_end v s = Inr s'" using assms(2,3) s'(1) by (simp add: file_poll_def)
  ultimately show ?thesis by blast
qed

text \<open>A manifest that moves to another file loses its pod until the next poll, and one that gets a new identifier leaves the old pod
  wanted for good, even when the file goes.\<close>

lemma moved_manifest_loses_pod:
  "\<not> demo_wanted [demo_view [(''a.yaml'', ''u'')], demo_view [(''b.yaml'', ''u'')]] ''u''"
  "demo_wanted [demo_view [(''a.yaml'', ''u'')], demo_view [(''b.yaml'', ''u'')], demo_view [(''b.yaml'', ''u'')]] ''u''"
  by code_simp+

lemma changed_uid_keeps_old_pod:
  "demo_wanted [demo_view [(''a.yaml'', ''u'')], demo_view [(''a.yaml'', ''w'')], demo_view []] ''u''"
  by code_simp

text \<open>A static pod the manager merged into its mirror is not stopped when its manifest goes: the removal names an identifier the manager
  does not hold.\<close>

lemma merged_pod_outlives_manifest:
  assumes "pm_inv m" "hm_get (pm_desired m) (ps_uid pod) = None" "find_equivalent m pod = Some old" "ps_host_aliases pod \<noteq> []"
    "pu_op u = OpAdd" "pu_pod u = pod" "ps_uid gone = ps_uid pod"
  shows "let m' = dispatch_update d e f \<lparr>pu_pod = gone, pu_op = OpRemove\<rparr> (dispatch_update a b c u m)
         in hm_get (pm_desired m') (ps_uid old) = Some (old\<lparr>ps_host_aliases := ps_host_aliases pod\<rparr>)"
proof -
  note old = find_equivalent_SomeD [OF assms(1,3)]
  have same: "old\<lparr>ps_host_aliases := ps_host_aliases pod\<rparr> = old" if "ps_host_aliases old = ps_host_aliases pod"
    using that by (metis PodSpec.surjective PodSpec.update_convs(29))
  let ?m = "dispatch_update a b c u m"
  have m: "hm_get (pm_desired ?m) (ps_uid old) = Some (old\<lparr>ps_host_aliases := ps_host_aliases pod\<rparr>)"
      "hm_get (pm_desired ?m) (ps_uid pod) = None"
    using assms(2,5,6) old same by (auto simp: dispatch_update_def upsert_new_static [OF assms(1-4)] send_desired)
  then have "pm_desired (dispatch_update d e f \<lparr>pu_pod = gone, pu_op = OpRemove\<rparr> ?m) = pm_desired ?m"
    by (simp add: dispatch_update_def [of d] PodManager_remove_def assms(7) send_desired)
  with m(1) show ?thesis by (simp add: Let_def)
qed

end
