(* ===== verification/Url_Source.thy ===== *)
theory Url_Source
  imports File_Source
begin

section \<open>Static pods from a URL\<close>

text \<open>
  \<^verbatim>\<open>kubelet-adapters/src/url_config/mod.rs\<close>: an endpoint that returns a list of pods is polled, and the API server is asked for the
  identifier of the mirror pod. Fetching, decoding and that question are answers of the environment. Volumes, mounts and host
  aliases are those of the file source; containers and pods have more fields here.
\<close>

record UrlKeyRef =
  uk_name :: string
  uk_key :: string
  uk_optional :: "bool option"

record UrlResourceFieldRef =
  ur_resource :: string
  ur_container_name :: "string option"

record UrlEnvVarSource =
  ue_field_ref :: "string option"
  ue_resource_field_ref :: "UrlResourceFieldRef option"
  ue_config_map_key_ref :: "UrlKeyRef option"
  ue_secret_key_ref :: "UrlKeyRef option"

record UrlEnvVar =
  uv_name :: string
  uv_value :: "string option"
  uv_value_from :: "UrlEnvVarSource option"

record UrlCapabilities =
  ucap_add :: "string list option"
  ucap_drop :: "string list option"

record UrlSecurityContext =
  us_privileged :: "bool option"
  us_capabilities :: "UrlCapabilities option"
  us_run_as_user :: "nat option"
  us_run_as_group :: "nat option"
  us_run_as_non_root :: "bool option"
  us_read_only_root_filesystem :: "bool option"
  us_allow_privilege_escalation :: "bool option"

record UrlContainer =
  uc_name :: string
  uc_image :: string
  uc_command :: "string list option"
  uc_args :: "string list option"
  uc_volume_mounts :: "ManifestVolumeMount list option"
  uc_image_pull_policy :: "string option"
  uc_env :: "UrlEnvVar list option"
  uc_security_context :: "UrlSecurityContext option"

record UrlPodSecurityContext =
  up_run_as_user :: "nat option"
  up_run_as_group :: "nat option"

record UrlSpec =
  us_containers :: "UrlContainer list option"
  us_init_containers :: "UrlContainer list option"
  us_volumes :: "ManifestVolume list option"
  us_restart_policy :: "string option"
  us_host_network :: "bool option"
  us_host_pid :: "bool option"
  us_host_ipc :: "bool option"
  us_node_name :: "string option"
  us_security_context :: "UrlPodSecurityContext option"
  us_priority_class_name :: "string option"
  us_host_aliases :: "ManifestHostAlias list option"

record UrlManifest =
  um_metadata :: ManifestMetadata
  um_spec :: UrlSpec

subsection \<open>Conversion\<close>

definition url_env_source :: "UrlEnvVarSource \<Rightarrow> EnvVarSource option" where
  "url_env_source v =
     (case ue_field_ref v of Some p \<Rightarrow> Some (FieldRef p) | None \<Rightarrow>
     (case ue_resource_field_ref v of Some r \<Rightarrow> Some (EnvResourceFieldRef (ur_container_name r) (ur_resource r)) | None \<Rightarrow>
     (case ue_config_map_key_ref v of Some r \<Rightarrow> Some (ConfigMapKeyRef (uk_name r) (uk_key r) (or_false (uk_optional r))) | None \<Rightarrow>
     (case ue_secret_key_ref v of Some r \<Rightarrow> Some (SecretKeyRef (uk_name r) (uk_key r) (or_false (uk_optional r))) | None \<Rightarrow> None))))"

definition url_env_var :: "UrlEnvVar \<Rightarrow> EnvVar" where
  "url_env_var e = \<lparr>ev_name = uv_name e, ev_value = uv_value e, ev_value_from = Option.bind (uv_value_from e) url_env_source\<rparr>"

definition url_security_context :: "UrlSecurityContext \<Rightarrow> SecurityContext" where
  "url_security_context c =
     \<lparr>sc_run_as_user = us_run_as_user c, sc_run_as_group = us_run_as_group c, sc_run_as_non_root = us_run_as_non_root c,
      sc_privileged = us_privileged c, sc_read_only_root_filesystem = us_read_only_root_filesystem c,
      sc_allow_privilege_escalation = us_allow_privilege_escalation c,
      sc_capabilities = map_option (\<lambda>k. \<lparr>cap_add = or_empty (ucap_add k), cap_drop = or_empty (ucap_drop k)\<rparr>) (us_capabilities c),
      sc_seccomp_profile = None, sc_apparmor_profile = None, sc_proc_mount = None\<rparr>"

definition url_container :: "UrlContainer \<Rightarrow> ContainerSpec" where
  "url_container c =
     \<lparr>ctr_name = uc_name c, ctr_image = uc_image c, ctr_command = or_empty (uc_command c), ctr_args = or_empty (uc_args c),
      ctr_working_dir = None, ctr_ports = [], ctr_env = map url_env_var (or_empty (uc_env c)), ctr_env_from = [],
      ctr_resources = ResourceRequirements_default,
      ctr_volume_mounts = map manifest_mount (or_empty (uc_volume_mounts c)), ctr_liveness_probe = None,
      ctr_readiness_probe = None, ctr_startup_probe = None, ctr_lifecycle = None,
      ctr_image_pull_policy = manifest_pull_policy (uc_image_pull_policy c),
      ctr_security_context = map_option url_security_context (uc_security_context c),
      ctr_termination_message_path = None, ctr_termination_message_policy = None, ctr_stdin = None, ctr_stdin_once = None,
      ctr_tty = None, ctr_restart_policy = None\<rparr>"

definition parse_containers :: "UrlContainer list \<Rightarrow> ContainerSpec list" where
  "parse_containers cs = map url_container cs"

text \<open>Projected volumes are tried before claims here.\<close>

definition url_volume_source :: "ManifestVolume \<Rightarrow> VolumeSource option" where
  "url_volume_source v =
     (case mv_host_path v of Some h \<Rightarrow> Some (HostPath (mhv_path h) (mhv_type h)) | None \<Rightarrow>
     (case mv_empty_dir v of Some e \<Rightarrow> Some (EmptyDir (mev_medium e) None) | None \<Rightarrow>
     (case mv_config_map v of Some c \<Rightarrow> Some (manifest_config_map c) | None \<Rightarrow>
     (case mv_secret v of Some c \<Rightarrow> Some (manifest_secret c) | None \<Rightarrow>
     (case mv_projected v of Some c \<Rightarrow> Some (manifest_projected c) | None \<Rightarrow>
     (case mv_persistent_volume_claim v of Some c \<Rightarrow> Some (manifest_claim c) | None \<Rightarrow> None))))))"

definition parse_volumes :: "ManifestVolume list \<Rightarrow> VolumeSpec list" where
  "parse_volumes vs =
     List.map_filter (\<lambda>v. map_option (\<lambda>s. \<lparr>vs_name = mv_name v, vs_source = s\<rparr>) (url_volume_source v)) vs"

definition url_namespace :: "ManifestMetadata \<Rightarrow> string" where
  "url_namespace md = (case mt_namespace md of Some n \<Rightarrow> n | None \<Rightarrow> ''kube-system'')"

definition url_name :: "ManifestMetadata \<Rightarrow> string" where
  "url_name md = (case mt_name md of Some n \<Rightarrow> n | None \<Rightarrow> ''unknown'')"

definition pod_key :: "ManifestMetadata \<Rightarrow> string" where
  "pod_key md = url_namespace md @ ''/'' @ url_name md"

definition parse_pod :: "(string \<Rightarrow> string) \<Rightarrow> string \<Rightarrow> UrlManifest \<Rightarrow> PodSpec" where
  "parse_pod uuid5 node_name m =
     (let md = um_metadata m; sp = um_spec m;
          uid = (case mt_uid md of Some u \<Rightarrow> u | None \<Rightarrow> uuid5 (url_namespace md @ ''/'' @ url_name md));
          static_name = url_name md @ ''-'' @ node_name
      in (static_template uid (url_namespace md) static_name
            (case us_node_name sp of Some n \<Rightarrow> n | None \<Rightarrow> node_name))
         \<lparr>ps_containers := parse_containers (or_empty (us_containers sp)),
          ps_init_containers := parse_containers (or_empty (us_init_containers sp)),
          ps_volumes := parse_volumes (or_empty (us_volumes sp)),
          ps_host_network := or_false (us_host_network sp),
          ps_host_pid := or_false (us_host_pid sp),
          ps_host_ipc := or_false (us_host_ipc sp),
          ps_restart_policy := manifest_restart_policy (us_restart_policy sp),
          ps_annotations := or_empty (mt_annotations md),
          ps_labels := or_empty (mt_labels md),
          ps_host_aliases := map manifest_host_alias (or_empty (us_host_aliases sp))\<rparr>)"

subsection \<open>One poll\<close>

text \<open>
  What a poll sees: the items of the list, none when the endpoint fails or its answer does not decode (a list without items is
  empty); and, when there is a client, the identifier the API server gives for a name in a namespace, none on an error.
\<close>

record UrlPodSource =
  url_node_name :: string
  url_uuid5 :: "string \<Rightarrow> string"

record url_view =
  uw_items :: "UrlManifest list option"
  uw_mirror :: "(string \<Rightarrow> string \<Rightarrow> string option) option"

record url_state =
  uu_known :: "(string, PodUID) hmap"
  uu_committed :: "(string, string) hmap"
  uu_sent :: "PodUpdate list"

type_synonym url_turn = "url_state + url_state"

definition url_send :: "(nat \<Rightarrow> bool) \<Rightarrow> PodUpdate \<Rightarrow> url_state \<Rightarrow> url_turn" where
  "url_send accepts u s =
     (if accepts (length (uu_sent s)) then Inr (s\<lparr>uu_sent := uu_sent s @ [u]\<rparr>) else Inl s)"

definition resolve_uid :: "UrlPodSource \<Rightarrow> url_view \<Rightarrow> url_state \<Rightarrow> UrlManifest \<Rightarrow> UrlManifest" where
  "resolve_uid src v s item =
     (let md = um_metadata item in
      if mt_uid md \<noteq> None then item
      else case hm_get (uu_committed s) (pod_key md) of
        Some committed \<Rightarrow> item\<lparr>um_metadata := md\<lparr>mt_uid := Some committed\<rparr>\<rparr>
      | None \<Rightarrow>
          (case uw_mirror v of
             None \<Rightarrow> item
           | Some ask \<Rightarrow>
               (case ask (url_namespace md) (url_name md @ ''-'' @ url_node_name src) of
                  Some uid \<Rightarrow> item\<lparr>um_metadata := md\<lparr>mt_uid := Some uid\<rparr>\<rparr>
                | None \<Rightarrow> item)))"

definition uid_str :: "UrlPodSource \<Rightarrow> ManifestMetadata \<Rightarrow> string" where
  "uid_str src md = (case mt_uid md of Some u \<Rightarrow> u | None \<Rightarrow> url_uuid5 src (pod_key md))"

definition url_operation :: "string \<Rightarrow> PodUID \<Rightarrow> url_state \<Rightarrow> PodOperation" where
  "url_operation key uid s =
     (if hm_get (uu_known s) key = Some uid then OpReconcile
      else if hm_contains_key key (uu_known s) then OpUpdate else OpAdd)"

definition commit_uid :: "string \<Rightarrow> string \<Rightarrow> url_state \<Rightarrow> url_state" where
  "commit_uid key uid s =
     (if hm_contains_key key (uu_committed s) then s else s\<lparr>uu_committed := hm_insert key uid (uu_committed s)\<rparr>)"

fun url_items ::
  "UrlPodSource \<Rightarrow> (nat \<Rightarrow> bool) \<Rightarrow> url_view \<Rightarrow> UrlManifest list \<Rightarrow> string list \<Rightarrow> url_state \<Rightarrow> url_state + string list \<times> url_state" where
  "url_items src accepts v [] current s = Inr (current, s)"
| "url_items src accepts v (raw # items) current s =
     (let item = resolve_uid src v s raw;
          uid = uid_str src (um_metadata item);
          s1 = commit_uid (pod_key (um_metadata raw)) uid s;
          pod = parse_pod (url_uuid5 src) (url_node_name src) item
      in case url_send accepts \<lparr>pu_pod = pod, pu_op = url_operation uid (ps_uid pod) s1\<rparr>
                (s1\<lparr>uu_known := hm_insert uid (ps_uid pod) (uu_known s1)\<rparr>) of
           Inl s' \<Rightarrow> Inl s'
         | Inr s' \<Rightarrow> url_items src accepts v items (uid # current) s')"

definition url_removed_pod :: "UrlPodSource \<Rightarrow> PodUID \<Rightarrow> PodSpec" where
  "url_removed_pod src uid = static_template uid ''kube-system'' ''removed'' (url_node_name src)"

fun url_removals :: "UrlPodSource \<Rightarrow> (nat \<Rightarrow> bool) \<Rightarrow> string list \<Rightarrow> url_state \<Rightarrow> url_turn" where
  "url_removals src accepts [] s = Inr s"
| "url_removals src accepts (uid # uids) s =
     (case hm_get (uu_known s) uid of
        None \<Rightarrow> url_removals src accepts uids s
      | Some u \<Rightarrow>
          (case url_send accepts \<lparr>pu_pod = url_removed_pod src u, pu_op = OpRemove\<rparr>
                  (s\<lparr>uu_known := hm_remove uid (uu_known s)\<rparr>) of
             Inl s' \<Rightarrow> Inl s'
           | Inr s' \<Rightarrow> url_removals src accepts uids s'))"

definition url_poll :: "UrlPodSource \<Rightarrow> (nat \<Rightarrow> bool) \<Rightarrow> url_view \<Rightarrow> url_state \<Rightarrow> url_turn" where
  "url_poll src accepts v s =
     (case uw_items v of
        None \<Rightarrow> Inr s
      | Some items \<Rightarrow>
          (case url_items src accepts v items [] s of
             Inl s' \<Rightarrow> Inl s'
           | Inr (current, s') \<Rightarrow>
               url_removals src accepts (filter (\<lambda>u. u \<notin> set current) (hm_keys (uu_known s')))
                 (s'\<lparr>uu_committed := hm_retain (\<lambda>_ uid. uid \<in> set current) (uu_committed s')\<rparr>)))"

fun url_run :: "UrlPodSource \<Rightarrow> (nat \<Rightarrow> bool) \<Rightarrow> url_view list \<Rightarrow> url_state \<Rightarrow> url_turn" where
  "url_run src accepts [] s = Inr s"
| "url_run src accepts (v # vs) s =
     (case url_poll src accepts v s of Inl s' \<Rightarrow> Inl s' | Inr s' \<Rightarrow> url_run src accepts vs s')"

definition url_start :: url_state where
  "url_start = \<lparr>uu_known = [], uu_committed = [], uu_sent = []\<rparr>"

subsection \<open>A pod keeps its identifier\<close>

definition url_ref :: "UrlPodSource \<Rightarrow> string \<Rightarrow> string \<Rightarrow> PodRef" where
  "url_ref src ns name = \<lparr>pr_namespace = ns, pr_name = name @ ''-'' @ url_node_name src\<rparr>"

definition concerns :: "string \<Rightarrow> string \<Rightarrow> UrlManifest \<Rightarrow> bool" where
  "concerns ns name item \<longleftrightarrow> url_namespace (um_metadata item) = ns \<and> url_name (um_metadata item) = name"

text \<open>Every update of the pod carries \<open>u\<close>, and \<open>u\<close> is never removed.\<close>

definition only_uid :: "UrlPodSource \<Rightarrow> string \<Rightarrow> string \<Rightarrow> PodUID \<Rightarrow> PodUpdate list \<Rightarrow> bool" where
  "only_uid src ns name u us \<longleftrightarrow>
     (\<forall>x \<in> set us. (pu_op x \<noteq> OpRemove \<and> ps_pod_ref (pu_pod x) = url_ref src ns name \<longrightarrow> ps_uid (pu_pod x) = u) \<and>
        (pu_op x = OpRemove \<longrightarrow> ps_uid (pu_pod x) \<noteq> u))"

lemma only_uid_append [simp]: "only_uid src ns name u (us @ ws) \<longleftrightarrow> only_uid src ns name u us \<and> only_uid src ns name u ws"
  by (auto simp: only_uid_def)

definition url_inv :: "url_state \<Rightarrow> bool" where
  "url_inv s \<longleftrightarrow> hm_ok (uu_known s) \<and> hm_ok (uu_committed s) \<and> (\<forall>x y. hm_get (uu_known s) x = Some y \<longrightarrow> y = x)"

lemma parse_pod_ident [simp]:
  "ps_uid (parse_pod (url_uuid5 src) (url_node_name src) item) = uid_str src (um_metadata item)"
  "ps_pod_ref (parse_pod (url_uuid5 src) (url_node_name src) item) =
     url_ref src (url_namespace (um_metadata item)) (url_name (um_metadata item))"
  by (simp_all add: parse_pod_def uid_str_def pod_key_def url_ref_def Let_def static_template_def split: option.split)

lemma resolve_uid_key [simp]:
  "url_namespace (um_metadata (resolve_uid src v s item)) = url_namespace (um_metadata item)"
  "url_name (um_metadata (resolve_uid src v s item)) = url_name (um_metadata item)"
  by (auto simp: resolve_uid_def url_namespace_def url_name_def Let_def split: option.splits)

lemma url_operation_not_remove [simp]: "url_operation k u s \<noteq> OpRemove"
  by (simp add: url_operation_def)

lemma url_ref_eq: "url_ref src (url_namespace md) (url_name md) = url_ref src ns name \<longleftrightarrow> url_namespace md = ns \<and> url_name md = name"
  by (simp add: url_ref_def)

lemma url_send_Inr: "url_send accepts u s = Inr s' \<longleftrightarrow> accepts (length (uu_sent s)) \<and> s' = s\<lparr>uu_sent := uu_sent s @ [u]\<rparr>"
  by (auto simp: url_send_def)

text \<open>The state after one item, when its update is taken.\<close>

definition after_item :: "UrlPodSource \<Rightarrow> url_view \<Rightarrow> UrlManifest \<Rightarrow> url_state \<Rightarrow> url_state" where
  "after_item src v raw s =
     (let item = resolve_uid src v s raw;
          uid = uid_str src (um_metadata item);
          s1 = commit_uid (pod_key (um_metadata raw)) uid s;
          pod = parse_pod (url_uuid5 src) (url_node_name src) item
      in s1\<lparr>uu_known := hm_insert uid (ps_uid pod) (uu_known s1),
            uu_sent := uu_sent s1 @ [\<lparr>pu_pod = pod, pu_op = url_operation uid (ps_uid pod) s1\<rparr>]\<rparr>)"

lemma url_items_step:
  assumes "url_items src accepts v (raw # items) current s = Inr r"
  shows "url_items src accepts v items (uid_str src (um_metadata (resolve_uid src v s raw)) # current) (after_item src v raw s) = Inr r"
  using assms by (auto simp: Let_def after_item_def url_send_Inr split: sum.splits)

lemma commit_uid_simps [simp]:
  "uu_known (commit_uid k u s) = uu_known s" "uu_sent (commit_uid k u s) = uu_sent s"
  "hm_ok (uu_committed s) \<Longrightarrow> hm_ok (uu_committed (commit_uid k u s))"
  "hm_get (uu_committed (commit_uid k u s)) k' =
     (if k' = k \<and> hm_get (uu_committed s) k = None then Some u else hm_get (uu_committed s) k')"
  by (auto simp: commit_uid_def hm_contains_key_def)

lemma url_inv_after_item: "url_inv s \<Longrightarrow> url_inv (after_item src v raw s)"
  by (auto simp: url_inv_def after_item_def Let_def)

text \<open>A pod whose identifier is committed is sent under it.\<close>

lemma after_item_latched:
  assumes "hm_get (uu_committed s) (ns @ ''/'' @ name) = Some u" "only_uid src ns name u (uu_sent s)"
    "concerns ns name raw \<longrightarrow> mt_uid (um_metadata raw) = None"
  shows "hm_get (uu_committed (after_item src v raw s)) (ns @ ''/'' @ name) = Some u"
    "only_uid src ns name u (uu_sent (after_item src v raw s))"
    "concerns ns name raw \<longrightarrow> uid_str src (um_metadata (resolve_uid src v s raw)) = u"
proof -
  show uid: "concerns ns name raw \<longrightarrow> uid_str src (um_metadata (resolve_uid src v s raw)) = u"
    using assms(1,3) by (auto simp: concerns_def resolve_uid_def uid_str_def pod_key_def Let_def)
  show "hm_get (uu_committed (after_item src v raw s)) (ns @ ''/'' @ name) = Some u"
    using assms(1) by (auto simp: after_item_def Let_def)
  show "only_uid src ns name u (uu_sent (after_item src v raw s))"
    using assms(2) uid by (auto simp: after_item_def Let_def only_uid_def url_ref_eq concerns_def)
qed

lemma url_items_latched:
  assumes "url_items src accepts v items current s = Inr (current', s')" "url_inv s"
    "hm_get (uu_committed s) (ns @ ''/'' @ name) = Some u" "only_uid src ns name u (uu_sent s)"
    "\<forall>raw \<in> set items. concerns ns name raw \<longrightarrow> mt_uid (um_metadata raw) = None"
  shows "url_inv s' \<and> hm_get (uu_committed s') (ns @ ''/'' @ name) = Some u \<and> only_uid src ns name u (uu_sent s') \<and>
    set current \<subseteq> set current' \<and> ((\<exists>raw \<in> set items. concerns ns name raw) \<longrightarrow> u \<in> set current')"
  using assms
proof (induction items arbitrary: current s)
  case Nil
  then show ?case by simp
next
  case (Cons raw items)
  note step = url_items_step [OF Cons.prems(1)]
  have raw: "concerns ns name raw \<longrightarrow> mt_uid (um_metadata raw) = None" using Cons.prems(5) by simp
  note a = after_item_latched [OF Cons.prems(3,4) raw, of v]
  show ?case using Cons.IH [OF step url_inv_after_item [OF Cons.prems(2)] a(1,2)] Cons.prems(5) a(3) by auto
qed

lemma url_removals_latched:
  assumes "url_removals src accepts uids s = Inr s'" "url_inv s" "only_uid src ns name u (uu_sent s)" "u \<notin> set uids"
  shows "url_inv s' \<and> uu_committed s' = uu_committed s \<and> only_uid src ns name u (uu_sent s')"
  using assms
proof (induction uids arbitrary: s)
  case Nil
  then show ?case by simp
next
  case (Cons x uids)
  show ?case
  proof (cases "hm_get (uu_known s) x")
    case None
    then show ?thesis using Cons.IH [OF _ Cons.prems(2,3)] Cons.prems(1,4) by simp
  next
    case (Some y)
    let ?u = "\<lparr>pu_pod = url_removed_pod src y, pu_op = OpRemove\<rparr>"
    let ?s = "s\<lparr>uu_known := hm_remove x (uu_known s), uu_sent := uu_sent s @ [?u]\<rparr>"
    have y: "y = x" using Cons.prems(2) Some by (simp add: url_inv_def)
    have "url_removals src accepts uids ?s = Inr s'"
      using Cons.prems(1) Some by (auto simp: url_send_Inr split: sum.splits)
    moreover have "url_inv ?s" using Cons.prems(2) by (auto simp: url_inv_def split: if_splits)
    moreover have "only_uid src ns name u (uu_sent ?s)"
      using Cons.prems(3,4) y by (auto simp: only_uid_def url_removed_pod_def)
    ultimately show ?thesis using Cons.IH [of ?s] Cons.prems(4) by simp
  qed
qed

lemma url_inv_retain: "url_inv s \<Longrightarrow> url_inv (s\<lparr>uu_committed := hm_retain P (uu_committed s)\<rparr>)"
  by (simp add: url_inv_def)

lemma url_poll_end:
  assumes "url_removals src accepts (filter (\<lambda>x. x \<notin> set current) (hm_keys (uu_known s)))
      (s\<lparr>uu_committed := hm_retain (\<lambda>_ uid. uid \<in> set current) (uu_committed s)\<rparr>) = Inr s'"
    "url_inv s" "hm_get (uu_committed s) k = Some u" "only_uid src ns name u (uu_sent s)" "u \<in> set current"
  shows "url_inv s' \<and> hm_get (uu_committed s') k = Some u \<and> only_uid src ns name u (uu_sent s')"
proof -
  have "hm_get (hm_retain (\<lambda>_ uid. uid \<in> set current) (uu_committed s)) k = Some u"
    using assms(2,3,5) by (simp add: url_inv_def hm_get_retain)
  then show ?thesis using url_removals_latched [OF assms(1) url_inv_retain [OF assms(2)], of ns name u] assms(4,5) by simp
qed

definition lists_once :: "string \<Rightarrow> string \<Rightarrow> url_view \<Rightarrow> bool" where
  "lists_once ns name v \<longleftrightarrow>
     (\<forall>items. uw_items v = Some items \<longrightarrow> (\<exists>raw \<in> set items. concerns ns name raw) \<and>
        (\<forall>raw \<in> set items. concerns ns name raw \<longrightarrow> mt_uid (um_metadata raw) = None))"

lemma url_poll_latched:
  assumes "url_poll src accepts v s = Inr s'" "url_inv s" "hm_get (uu_committed s) (ns @ ''/'' @ name) = Some u"
    "only_uid src ns name u (uu_sent s)" "lists_once ns name v"
  shows "url_inv s' \<and> hm_get (uu_committed s') (ns @ ''/'' @ name) = Some u \<and> only_uid src ns name u (uu_sent s')"
proof (cases "uw_items v")
  case None
  then show ?thesis using assms by (simp add: url_poll_def)
next
  case (Some items)
  then obtain current s1 where s1: "url_items src accepts v items [] s = Inr (current, s1)"
      "url_removals src accepts (filter (\<lambda>x. x \<notin> set current) (hm_keys (uu_known s1)))
        (s1\<lparr>uu_committed := hm_retain (\<lambda>_ uid. uid \<in> set current) (uu_committed s1)\<rparr>) = Inr s'"
    using assms(1) by (auto simp: url_poll_def split: sum.splits)
  have "\<exists>raw \<in> set items. concerns ns name raw" "\<forall>raw \<in> set items. concerns ns name raw \<longrightarrow> mt_uid (um_metadata raw) = None"
    using assms(5) Some by (simp_all add: lists_once_def)
  with url_items_latched [OF s1(1) assms(2-4)] url_poll_end [OF s1(2)] show ?thesis by blast
qed

text \<open>The first time a pod is listed, an identifier is committed.\<close>

definition unseen :: "UrlPodSource \<Rightarrow> string \<Rightarrow> string \<Rightarrow> url_state \<Rightarrow> bool" where
  "unseen src ns name s \<longleftrightarrow> hm_get (uu_committed s) (ns @ ''/'' @ name) = None \<and>
     (\<forall>x \<in> set (uu_sent s). pu_op x \<noteq> OpRemove \<and> ps_pod_ref (pu_pod x) \<noteq> url_ref src ns name)"

lemma unseen_only: "unseen src ns name s \<Longrightarrow> only_uid src ns name u (uu_sent s)"
  by (simp add: unseen_def only_uid_def)

lemma after_item_unseen:
  assumes "unseen src ns name s"
  shows "(\<not> concerns ns name raw \<and> unseen src ns name (after_item src v raw s)) \<or>
    (\<exists>u. hm_get (uu_committed (after_item src v raw s)) (ns @ ''/'' @ name) = Some u \<and>
         only_uid src ns name u (uu_sent (after_item src v raw s)) \<and>
         (concerns ns name raw \<longrightarrow> uid_str src (um_metadata (resolve_uid src v s raw)) = u))"
proof (cases "pod_key (um_metadata raw) = ns @ ''/'' @ name")
  case True
  with assms show ?thesis
    by (intro disjI2) (auto simp: after_item_def Let_def unseen_def only_uid_def)
next
  case False
  then have "\<not> concerns ns name raw" by (auto simp: concerns_def pod_key_def)
  with False assms show ?thesis
    by (intro disjI1) (auto simp: after_item_def Let_def unseen_def url_ref_eq concerns_def)
qed

lemma url_items_first:
  assumes "url_items src accepts v items current s = Inr (current', s')" "url_inv s" "unseen src ns name s"
    "\<forall>raw \<in> set items. concerns ns name raw \<longrightarrow> mt_uid (um_metadata raw) = None" "\<exists>raw \<in> set items. concerns ns name raw"
  shows "\<exists>u. url_inv s' \<and> hm_get (uu_committed s') (ns @ ''/'' @ name) = Some u \<and> only_uid src ns name u (uu_sent s') \<and> u \<in> set current'"
  using assms
proof (induction items arbitrary: current s)
  case Nil
  then show ?case by simp
next
  case (Cons raw items)
  note step = url_items_step [OF Cons.prems(1)] and inv = url_inv_after_item [OF Cons.prems(2), of src v raw]
  have items: "\<forall>raw \<in> set items. concerns ns name raw \<longrightarrow> mt_uid (um_metadata raw) = None" using Cons.prems(4) by simp
  from after_item_unseen [OF Cons.prems(3), of raw v] show ?case
  proof
    assume "\<not> concerns ns name raw \<and> unseen src ns name (after_item src v raw s)"
    then show ?case using Cons.IH [OF step inv _ items] Cons.prems(5) by simp
  next
    assume "\<exists>u. hm_get (uu_committed (after_item src v raw s)) (ns @ ''/'' @ name) = Some u \<and>
         only_uid src ns name u (uu_sent (after_item src v raw s)) \<and>
         (concerns ns name raw \<longrightarrow> uid_str src (um_metadata (resolve_uid src v s raw)) = u)"
    then obtain u where u: "hm_get (uu_committed (after_item src v raw s)) (ns @ ''/'' @ name) = Some u"
        "only_uid src ns name u (uu_sent (after_item src v raw s))"
        "concerns ns name raw \<longrightarrow> uid_str src (um_metadata (resolve_uid src v s raw)) = u" by blast
    from url_items_latched [OF step inv u(1,2) items] u(3) Cons.prems(5) show ?case by (intro exI [of _ u]) auto
  qed
qed

text \<open>C21: A pod from the URL keeps its identifier. As long as every answer that decodes lists the pod, without an identifier of its own,
  all updates of it carry the identifier of the first one, whether the API server could be asked at first, later, or never, and
  that identifier is never removed.\<close>

theorem url_uid_latched:
  assumes "url_run src accepts (v # vs) url_start = Inr s" "uw_items v \<noteq> None" "\<forall>w \<in> set (v # vs). lists_once ns name w"
  shows "\<exists>uid. \<forall>u \<in> set (uu_sent s).
    (pu_op u \<noteq> OpRemove \<and> ps_pod_ref (pu_pod u) = \<lparr>pr_namespace = ns, pr_name = name @ ''-'' @ url_node_name src\<rparr> \<longrightarrow>
       ps_uid (pu_pod u) = uid) \<and>
    (pu_op u = OpRemove \<longrightarrow> ps_uid (pu_pod u) \<noteq> uid)"
proof -
  obtain s1 where s1: "url_poll src accepts v url_start = Inr s1" "url_run src accepts vs s1 = Inr s"
    using assms(1) by (auto split: sum.splits)
  obtain items where items: "uw_items v = Some items" using assms(2) by blast
  then obtain current s0 where s0: "url_items src accepts v items [] url_start = Inr (current, s0)"
      "url_removals src accepts (filter (\<lambda>x. x \<notin> set current) (hm_keys (uu_known s0)))
        (s0\<lparr>uu_committed := hm_retain (\<lambda>_ uid. uid \<in> set current) (uu_committed s0)\<rparr>) = Inr s1"
    using s1(1) by (auto simp: url_poll_def split: sum.splits)
  have start: "url_inv url_start" "unseen src ns name url_start" by (simp_all add: url_inv_def unseen_def url_start_def)
  have l: "\<forall>raw \<in> set items. concerns ns name raw \<longrightarrow> mt_uid (um_metadata raw) = None" "\<exists>raw \<in> set items. concerns ns name raw"
    using assms(3) items by (auto simp: lists_once_def)
  from url_items_first [OF s0(1) start l] url_poll_end [OF s0(2)] obtain u where
    u: "url_inv s1" "hm_get (uu_committed s1) (ns @ ''/'' @ name) = Some u" "only_uid src ns name u (uu_sent s1)" by blast
  have "only_uid src ns name u (uu_sent s)" if "url_run src accepts vs t = Inr s" "url_inv t"
      "hm_get (uu_committed t) (ns @ ''/'' @ name) = Some u" "only_uid src ns name u (uu_sent t)" "\<forall>w \<in> set vs. lists_once ns name w" for t
    using that
  proof (induction vs arbitrary: t)
    case (Cons w vs)
    obtain t' where t': "url_poll src accepts w t = Inr t'" "url_run src accepts vs t' = Inr s"
      using Cons.prems(1) by (auto split: sum.splits)
    from url_poll_latched [OF t'(1) Cons.prems(2-4)] Cons.prems(5) Cons.IH [OF t'(2)] show ?case by simp
  qed simp
  from this [OF s1(2) u] assms(3) show ?thesis by (intro exI [of _ u]) (simp add: only_uid_def url_ref_def)
qed

subsection \<open>Instances\<close>

text \<open>The API server is not there at the first poll and knows the mirror pod at the second.\<close>

definition url_demo_item :: "string \<Rightarrow> UrlManifest" where
  "url_demo_item name =
     \<lparr>um_metadata = \<lparr>mt_name = Some name, mt_namespace = None, mt_uid = None, mt_annotations = None, mt_labels = None\<rparr>,
      um_spec = \<lparr>us_containers = None, us_init_containers = None, us_volumes = None, us_restart_policy = None, us_host_network = None,
                 us_host_pid = None, us_host_ipc = None, us_node_name = None, us_security_context = None,
                 us_priority_class_name = None, us_host_aliases = None\<rparr>\<rparr>"

definition url_demo_source :: UrlPodSource where
  "url_demo_source = \<lparr>url_node_name = ''n'', url_uuid5 = (\<lambda>k. ''uuid:'' @ k)\<rparr>"

definition url_demo_views :: "url_view list" where
  "url_demo_views =
     [\<lparr>uw_items = Some [url_demo_item ''a''], uw_mirror = None\<rparr>,
      \<lparr>uw_items = Some [url_demo_item ''a''], uw_mirror = Some (\<lambda>_ _. Some ''mirror'')\<rparr>]"

definition url_demo_uids :: "PodUID list" where
  "url_demo_uids =
     (case url_run url_demo_source (\<lambda>_. True) url_demo_views url_start of
        Inr s \<Rightarrow> map (\<lambda>u. ps_uid (pu_pod u)) (uu_sent s) | Inl _ \<Rightarrow> [])"

theorem url_uid_latched_witness:
  "\<exists>s uid. url_run url_demo_source (\<lambda>_. True) url_demo_views url_start = Inr s \<and>
     (\<forall>u \<in> set (uu_sent s). pu_op u \<noteq> OpRemove \<and>
        ps_pod_ref (pu_pod u) = \<lparr>pr_namespace = ''kube-system'', pr_name = ''a'' @ ''-'' @ url_node_name url_demo_source\<rparr> \<longrightarrow>
        ps_uid (pu_pod u) = uid)"
proof -
  let ?run = "url_run url_demo_source (\<lambda>_. True) url_demo_views url_start"
  have "\<not> isl ?run" by code_simp
  then obtain s where s: "?run = Inr s" by (cases ?run) simp_all
  have l: "\<forall>w \<in> set (hd url_demo_views # tl url_demo_views). lists_once ''kube-system'' ''a'' w"
    by (simp add: url_demo_views_def lists_once_def concerns_def url_demo_item_def url_namespace_def url_name_def)
  have run: "url_run url_demo_source (\<lambda>_. True) (hd url_demo_views # tl url_demo_views) url_start = Inr s"
    using s by (simp add: url_demo_views_def)
  have "uw_items (hd url_demo_views) \<noteq> None" by (simp add: url_demo_views_def)
  from url_uid_latched [OF run this l] s show ?thesis by blast
qed

text \<open>Both updates carry the derived identifier.\<close>

lemma url_demo_same_uid: "url_demo_uids = [''uuid:kube-system/a'', ''uuid:kube-system/a'']"
  by code_simp

text \<open>The source never sends an update as an \<open>Update\<close>: a changed pod goes out as \<open>Reconcile\<close>. And the two sources prefer different
  sources of a volume that names both a claim and a projection.\<close>

lemma url_never_updates: "url_inv s \<Longrightarrow> url_operation uid uid s \<noteq> OpUpdate"
  by (auto simp: url_operation_def url_inv_def hm_contains_key_def)

lemma sources_order_differs:
  assumes "mv_host_path v = None" "mv_empty_dir v = None" "mv_config_map v = None" "mv_secret v = None"
    "mv_persistent_volume_claim v = Some c" "mv_projected v = Some q"
  shows "manifest_volume_source v = Some (manifest_claim c)" "url_volume_source v = Some (manifest_projected q)"
  using assms by (simp_all add: manifest_volume_source_def url_volume_source_def)

lemma url_drops_pod_security: "ps_security_context (parse_pod f n m) = None" "ps_priority (parse_pod f n m) = None"
  by (simp_all add: parse_pod_def static_template_def Let_def)

end
