(* ===== verification/Kube_Source.thy ===== *)
theory Kube_Source
  imports Kube_Pods File_Source
begin

section \<open>The watch on the API server\<close>

text \<open>
  \<^verbatim>\<open>KubePodSource\<close> of \<^verbatim>\<open>kubelet-adapters/src/kube_reporter/mod.rs\<close>: events of a watch and periodic lists become updates. The stream, the
  timer and the list calls are inputs, one at a time, in the order the select takes them.
\<close>

datatype watch_event = Applied KubePod | WDeleted KubePod | Restarted "KubePod list"

definition removal_of :: "KubePod \<Rightarrow> string \<Rightarrow> PodUpdate list" where
  "removal_of pod node_name =
     (let md = kpd_metadata pod; uid = or_empty (kmd_uid md); name = or_empty (kmd_name md)
      in if uid = [] \<or> name = [] then []
         else [\<lparr>pu_pod = PodSpec_default\<lparr>ps_uid := uid,
                   ps_pod_ref := \<lparr>pr_namespace = or_value ''default'' (kmd_namespace md), pr_name = name\<rparr>, ps_node_name := node_name\<rparr>,
                pu_op = OpRemove\<rparr>])"

definition applied_updates :: "KubePod \<Rightarrow> string \<Rightarrow> PodUpdate list" where
  "applied_updates pod node_name =
     (if kmd_deletion_timestamp (kpd_metadata pod) \<noteq> None then removal_of pod node_name
      else case pod_to_spec pod node_name of Some spec \<Rightarrow> [\<lparr>pu_pod = spec, pu_op = OpAdd\<rparr>] | None \<Rightarrow> [])"

fun pod_event_to_updates :: "watch_event \<Rightarrow> string \<Rightarrow> PodUpdate list" where
  "pod_event_to_updates (Applied pod) node_name = applied_updates pod node_name"
| "pod_event_to_updates (WDeleted pod) node_name = removal_of pod node_name"
| "pod_event_to_updates (Restarted pods) node_name = concat (map (\<lambda>p. applied_updates p node_name) pods)"

definition relist_updates :: "KubePod list \<Rightarrow> string \<Rightarrow> PodUpdate list" where
  "relist_updates pods node_name =
     List.map_filter (\<lambda>pod. if kmd_deletion_timestamp (kpd_metadata pod) \<noteq> None then None
                             else map_option (\<lambda>spec. \<lparr>pu_pod = spec, pu_op = OpReconcile\<rparr>) (pod_to_spec pod node_name)) pods"

subsection \<open>The loop\<close>

datatype watch_input = RelistOk "KubePod list" | RelistFailed | RelistTimeout | StreamEnd | StreamError | StreamEvent watch_event

text \<open>The updates sent, whether the relist of this connection succeeded, and the interval of the next one. \<open>Inl\<close>: the receiver is gone.\<close>

record watch_state =
  wt_sent :: "PodUpdate list"
  wt_relisted :: bool
  wt_interval :: duration

definition connect :: "PodUpdate list \<Rightarrow> watch_state" where
  "connect us = \<lparr>wt_sent = us, wt_relisted = False, wt_interval = secs 2\<rparr>"

fun send_all :: "(nat \<Rightarrow> bool) \<Rightarrow> PodUpdate list \<Rightarrow> watch_state \<Rightarrow> watch_state + watch_state" where
  "send_all accepts [] s = Inr s"
| "send_all accepts (u # us) s =
     (if accepts (length (wt_sent s)) then send_all accepts us (s\<lparr>wt_sent := wt_sent s @ [u]\<rparr>) else Inl s)"

definition watch_step :: "(nat \<Rightarrow> bool) \<Rightarrow> string \<Rightarrow> watch_input \<Rightarrow> watch_state \<Rightarrow> watch_state + watch_state" where
  "watch_step accepts node_name i s =
     (case i of
        RelistOk pods \<Rightarrow>
          (case send_all accepts (relist_updates pods node_name) s of
             Inl s' \<Rightarrow> Inl s'
           | Inr s' \<Rightarrow> Inr (if wt_relisted s' then s' else s'\<lparr>wt_relisted := True, wt_interval := secs 30\<rparr>))
      | RelistFailed \<Rightarrow> Inr s
      | RelistTimeout \<Rightarrow> Inr (connect (wt_sent s))
      | StreamEnd \<Rightarrow> Inr (connect (wt_sent s))
      | StreamError \<Rightarrow> Inr (connect (wt_sent s))
      | StreamEvent e \<Rightarrow> send_all accepts (pod_event_to_updates e node_name) s)"

fun watch_run :: "(nat \<Rightarrow> bool) \<Rightarrow> string \<Rightarrow> watch_input list \<Rightarrow> watch_state \<Rightarrow> watch_state + watch_state" where
  "watch_run accepts node_name [] s = Inr s"
| "watch_run accepts node_name (i # is) s =
     (case watch_step accepts node_name i s of Inl s' \<Rightarrow> Inl s' | Inr s' \<Rightarrow> watch_run accepts node_name is s')"

text \<open>With no client the source waits for ever: \<open>None\<close>.\<close>

definition kube_source_run :: "bool \<Rightarrow> (nat \<Rightarrow> bool) \<Rightarrow> string \<Rightarrow> watch_input list \<Rightarrow> (watch_state + watch_state) option" where
  "kube_source_run has_client accepts node_name is =
     (if has_client then Some (watch_run accepts node_name is (connect [])) else None)"

subsection \<open>What the updates want\<close>

lemma foldl_asks_other: "\<forall>x \<in> set us. ps_uid (pu_pod x) \<noteq> u \<Longrightarrow> foldl asks d us u = d u"
  by (induction us arbitrary: d) (auto simp: asks_def)

lemma wanted_append: "wanted (us @ ws) = foldl asks (wanted us) ws"
  by (simp add: wanted_def)

lemma send_all_open: "send_all (\<lambda>_. True) us s = Inr (s\<lparr>wt_sent := wt_sent s @ us\<rparr>)"
  by (induction us arbitrary: s) simp_all

lemma removal_uid: "x \<in> set (removal_of p n) \<Longrightarrow> ps_uid (pu_pod x) = or_empty (kmd_uid (kpd_metadata p))"
  by (auto simp: removal_of_def Let_def split: if_splits)

lemma pod_to_spec_uid: "pod_to_spec p n = Some s \<Longrightarrow> kmd_uid (kpd_metadata p) = Some (ps_uid s)"
  by (auto simp: pod_to_spec_def k8s_spec_to_pod_def Let_def split: option.splits if_splits)

text \<open>What a pod of the server asks for: nothing while it is being deleted.\<close>

definition asked_for :: "string \<Rightarrow> KubePod \<Rightarrow> PodSpec option" where
  "asked_for n p = (if kmd_deletion_timestamp (kpd_metadata p) \<noteq> None then None else pod_to_spec p n)"

text \<open>A pod the API server stores: it has an identifier, a name and a specification.\<close>

definition stored :: "KubePod \<Rightarrow> bool" where
  "stored p \<longleftrightarrow> or_empty (kmd_uid (kpd_metadata p)) \<noteq> [] \<and> or_empty (kmd_name (kpd_metadata p)) \<noteq> [] \<and> kpd_spec p \<noteq> None"

abbreviation uid_of :: "KubePod \<Rightarrow> PodUID" where
  "uid_of p \<equiv> or_empty (kmd_uid (kpd_metadata p))"

lemma asks_removal: "stored p \<Longrightarrow> foldl asks d (removal_of p n) = d(uid_of p := None)"
  by (simp add: removal_of_def stored_def Let_def)

lemma pod_to_spec_stored: "stored p \<Longrightarrow> pod_to_spec p n = None \<longleftrightarrow> is_mirror p"
  by (auto simp: stored_def pod_to_spec_def Let_def split: option.splits)

lemma asks_applied:
  assumes "stored p"
  shows "foldl asks d (applied_updates p n) =
    (if is_mirror p \<and> kmd_deletion_timestamp (kpd_metadata p) = None then d else d(uid_of p := asked_for n p))"
  using assms pod_to_spec_stored [OF assms, of n] asks_removal [OF assms, of d n]
  by (auto simp: applied_updates_def asked_for_def dest: pod_to_spec_uid split: option.splits)

lemma asks_mirror:
  assumes "stored p" "is_mirror p \<Longrightarrow> d (uid_of p) = None"
  shows "foldl asks d (applied_updates p n) = d(uid_of p := asked_for n p)"
  using asks_applied [OF assms(1), of d n] assms pod_to_spec_stored [OF assms(1), of n]
  by (auto simp: asked_for_def fun_eq_iff)

subsection \<open>The watch follows the server\<close>

text \<open>
  The pods of the node on the server, and what happens there: a pod is created or changed, a pod is deleted, a relist is
  answered, or the stream breaks, changes are missed, and the new stream starts with all pods.
\<close>

type_synonym pod_store = "(PodUID, KubePod) hmap"

datatype store_action = Put KubePod | Drop PodUID | Relist | Reconnect "KubePod list"

definition put :: "KubePod \<Rightarrow> pod_store \<Rightarrow> pod_store" where
  "put p st = hm_insert (uid_of p) p st"

fun store_after :: "store_action \<Rightarrow> pod_store \<Rightarrow> pod_store" where
  "store_after (Put p) st = put p st"
| "store_after (Drop u) st = hm_remove u st"
| "store_after Relist st = st"
| "store_after (Reconnect missed) st = fold put missed st"

fun inputs_of :: "store_action \<Rightarrow> pod_store \<Rightarrow> watch_input list" where
  "inputs_of (Put p) st = [StreamEvent (Applied p)]"
| "inputs_of (Drop u) st = (case hm_get st u of Some p \<Rightarrow> [StreamEvent (WDeleted p)] | None \<Rightarrow> [])"
| "inputs_of Relist st = [RelistOk (hm_values st)]"
| "inputs_of (Reconnect missed) st = [StreamError, StreamEvent (Restarted (hm_values (fold put missed st)))]"

fun store_run :: "store_action list \<Rightarrow> pod_store \<Rightarrow> pod_store \<times> watch_input list" where
  "store_run [] st = (st, [])"
| "store_run (a # as) st = (let (st', is) = store_run as (store_after a st) in (st', inputs_of a st @ is))"

fun pods_put :: "store_action \<Rightarrow> KubePod list" where
  "pods_put (Put p) = [p]"
| "pods_put (Reconnect missed) = missed"
| "pods_put _ = []"

definition store_inv :: "(PodUID \<Rightarrow> bool) \<Rightarrow> pod_store \<Rightarrow> bool" where
  "store_inv mirror st \<longleftrightarrow> hm_ok st \<and>
     (\<forall>u p. hm_get st u = Some p \<longrightarrow> stored p \<and> u = uid_of p \<and> is_mirror p = mirror u)"

definition store_asks :: "string \<Rightarrow> pod_store \<Rightarrow> PodUID \<rightharpoonup> PodSpec" where
  "store_asks n st u = Option.bind (hm_get st u) (asked_for n)"

definition fit :: "(PodUID \<Rightarrow> bool) \<Rightarrow> KubePod \<Rightarrow> bool" where
  "fit mirror p \<longleftrightarrow> stored p \<and> is_mirror p = mirror (uid_of p)"

lemma store_inv_put: "store_inv mirror st \<Longrightarrow> fit mirror p \<Longrightarrow> store_inv mirror (put p st)"
  by (auto simp: store_inv_def fit_def put_def)

lemma store_inv_puts: "store_inv mirror st \<Longrightarrow> \<forall>p \<in> set ps. fit mirror p \<Longrightarrow> store_inv mirror (fold put ps st)"
  by (induction ps arbitrary: st) (simp_all add: store_inv_put)

lemma store_inv_after: "store_inv mirror st \<Longrightarrow> \<forall>p \<in> set (pods_put a). fit mirror p \<Longrightarrow> store_inv mirror (store_after a st)"
  by (cases a) (simp_all add: store_inv_put store_inv_puts, auto simp: store_inv_def)

lemma store_asks_mirror: "store_inv mirror st \<Longrightarrow> mirror u \<Longrightarrow> store_asks n st u = None"
  by (cases "hm_get st u") (auto simp: store_asks_def store_inv_def asked_for_def pod_to_spec_stored)

lemma put_asks: "store_asks n (put p st) = (store_asks n st)(uid_of p := asked_for n p)"
  by (auto simp: store_asks_def put_def fun_eq_iff)

lemma unseen_puts: "u \<notin> uid_of ` set ps \<Longrightarrow> hm_get (fold put ps st) u = hm_get st u"
  by (induction ps arbitrary: st) (auto simp: put_def)

lemma puts_keep: "hm_get st u \<noteq> None \<Longrightarrow> hm_get (fold put ps st) u \<noteq> None"
  by (induction ps arbitrary: st) (auto simp: put_def)

text \<open>Going through all pods of the store asks for exactly them, on top of what was wanted.\<close>

lemma asks_all:
  assumes "\<forall>p \<in> set ps. fit mirror p" "distinct (map uid_of ps)" "\<And>u. mirror u \<Longrightarrow> d u = None"
  shows "foldl asks d (concat (map (\<lambda>p. applied_updates p n) ps)) u =
    (case find (\<lambda>p. uid_of p = u) ps of Some p \<Rightarrow> asked_for n p | None \<Rightarrow> d u)"
  using assms
proof (induction ps arbitrary: d)
  case Nil
  then show ?case by simp
next
  case (Cons p ps)
  have p: "fit mirror p" using Cons.prems(1) by simp
  have step: "foldl asks d (applied_updates p n) = d(uid_of p := asked_for n p)"
    by (rule asks_mirror) (use p Cons.prems(3) in \<open>simp_all add: fit_def\<close>)
  have "(d(uid_of p := asked_for n p)) v = None" if "mirror v" for v
    using that Cons.prems(3) p pod_to_spec_stored [of p n] by (auto simp: fit_def asked_for_def)
  then have IH: "foldl asks (d(uid_of p := asked_for n p)) (concat (map (\<lambda>p. applied_updates p n) ps)) u =
      (case find (\<lambda>q. uid_of q = u) ps of Some q \<Rightarrow> asked_for n q | None \<Rightarrow> (d(uid_of p := asked_for n p)) u)"
    using Cons.prems(1,2) by (intro Cons.IH) simp_all
  have "uid_of q \<noteq> uid_of p" if "q \<in> set ps" for q 
    using Cons.prems(2) imageI [OF that, of uid_of] by auto
  then have "find (\<lambda>q. uid_of q = uid_of p) ps = None" by (simp add: find_None_iff)
  then show ?case using IH by (cases "uid_of p = u") (auto simp: step split: option.split)
qed

lemma store_values: "store_inv mirror st \<Longrightarrow> p \<in> set (hm_values st) \<Longrightarrow> hm_get st (uid_of p) = Some p"
  by (auto simp: store_inv_def elim!: hm_valuesE)

lemma find_values:
  assumes "store_inv mirror st"
  shows "find (\<lambda>p. uid_of p = u) (hm_values st) = hm_get st u"
proof (cases "find (\<lambda>p. uid_of p = u) (hm_values st)")
  case None
  then have "p \<in> set (hm_values st) \<Longrightarrow> uid_of p \<noteq> u" for p by (simp add: find_None_iff)
  then show ?thesis using None assms hm_get_in_values [of st u] by (cases "hm_get st u") (auto simp: store_inv_def)
next
  case (Some p)
  from find_SomeD [OF this] store_values [OF assms] Some show ?thesis by auto
qed

lemma distinct_values:
  assumes "store_inv mirror st"
  shows "distinct (map uid_of (hm_values st))"
proof -
  have "map uid_of (hm_values st) = map fst st"
    using assms by (auto simp: store_inv_def hm_values_def hm_get_in_set [symmetric])
  then show ?thesis using assms by (simp add: store_inv_def hm_ok_def)
qed

lemma fit_values: "store_inv mirror st \<Longrightarrow> p \<in> set (hm_values st) \<Longrightarrow> fit mirror p"
  by (auto simp: store_inv_def hm_values_def fit_def hm_get_in_set)

lemma asks_restart:
  assumes "store_inv mirror st" "\<And>u. hm_get st u = None \<Longrightarrow> d u = None" "\<And>u. mirror u \<Longrightarrow> d u = None"
  shows "foldl asks d (pod_event_to_updates (Restarted (hm_values st)) n) = store_asks n st"
proof
  fix u
  show "foldl asks d (pod_event_to_updates (Restarted (hm_values st)) n) u = store_asks n st u"
    using asks_all [of "hm_values st" mirror d n u] fit_values [OF assms(1)] distinct_values [OF assms(1)] assms(2,3)
    by (cases "hm_get st u") (simp_all add: find_values [OF assms(1)] store_asks_def)
qed

lemma asks_relist:
  assumes "store_inv mirror st" "set qs \<subseteq> set (hm_values st)"
  shows "foldl asks (store_asks n st) (relist_updates qs n) = store_asks n st"
  using assms(2)
proof (induction qs)
  case Nil
  then show ?case by (simp add: relist_updates_def map_filter_simps)
next
  case (Cons p qs)
  have p: "hm_get st (uid_of p) = Some p" using store_values [OF assms(1)] Cons.prems by auto
  have "store_asks n st (ps_uid x) = Some x" if "pod_to_spec p n = Some x" "kmd_deletion_timestamp (kpd_metadata p) = None" for x
    using p that pod_to_spec_uid [OF that(1)] by (simp add: store_asks_def asked_for_def)
  then have "foldl asks (store_asks n st) (relist_updates [p] n) = store_asks n st"
    by (auto simp: relist_updates_def map_filter_simps fun_eq_iff split: option.splits)
  moreover have "relist_updates (p # qs) n = relist_updates [p] n @ relist_updates qs n"
    by (simp add: relist_updates_def map_filter_simps split: option.split)
  ultimately show ?case using Cons by simp
qed

lemma watch_inputs_of:
  assumes "store_inv mirror st" "\<forall>p \<in> set (pods_put a). fit mirror p" "wanted (wt_sent s) = store_asks n st"
  shows "\<exists>s'. watch_run (\<lambda>_. True) n (inputs_of a st) s = Inr s' \<and> wanted (wt_sent s') = store_asks n (store_after a st)"
proof (cases a)
  case (Put p)
  have p: "stored p" "is_mirror p \<Longrightarrow> store_asks n st (uid_of p) = None"
    using assms(2) Put store_asks_mirror [OF assms(1)] by (auto simp: fit_def)
  show ?thesis using asks_mirror [where d = "store_asks n st" and n = n, OF p]
    by (simp add: Put watch_step_def send_all_open wanted_append assms(3) put_asks)
next
  case (Drop u)
  have "stored p \<and> uid_of p = u" if "hm_get st u = Some p" for p using assms(1) that by (simp add: store_inv_def)
  then show ?thesis
    by (auto simp: Drop watch_step_def send_all_open wanted_append assms(3) asks_removal store_asks_def fun_eq_iff split: option.split)
next
  case Relist
  show ?thesis using asks_relist [OF assms(1) order_refl, of n]
    by (simp add: Relist watch_step_def send_all_open wanted_append assms(3))
next
  case (Reconnect missed)
  let ?st = "fold put missed st"
  have inv: "store_inv mirror ?st" using store_inv_puts [OF assms(1)] assms(2) Reconnect by simp
  have "store_asks n st u = None" if "hm_get ?st u = None" for u
    using that puts_keep [of st u missed] by (cases "hm_get st u") (simp_all add: store_asks_def)
  from asks_restart [where d = "store_asks n st", OF inv this store_asks_mirror [OF assms(1)]]
  have "foldl asks (store_asks n st) (pod_event_to_updates (Restarted (hm_values ?st)) n) = store_asks n ?st" .
  then show ?thesis
    by (simp add: Reconnect watch_step_def send_all_open wanted_append assms(3) connect_def del: pod_event_to_updates.simps)
qed

lemma watch_run_append:
  "watch_run accepts n (is @ js) s =
     (case watch_run accepts n is s of Inl s' \<Rightarrow> Inl s' | Inr s' \<Rightarrow> watch_run accepts n js s')"
  by (induction "is" arbitrary: s) (simp_all split: sum.split)

lemma watch_store_run:
  assumes "store_inv mirror st" "\<forall>a \<in> set as. \<forall>p \<in> set (pods_put a). fit mirror p" "wanted (wt_sent s) = store_asks n st"
  shows "\<exists>s'. watch_run (\<lambda>_. True) n (snd (store_run as st)) s = Inr s' \<and> wanted (wt_sent s') = store_asks n (fst (store_run as st))"
  using assms
proof (induction as arbitrary: st s)
  case Nil
  then show ?case by simp
next
  case (Cons a as)
  have a: "\<forall>p \<in> set (pods_put a). fit mirror p" using Cons.prems(2) by simp
  obtain s1 where s1: "watch_run (\<lambda>_. True) n (inputs_of a st) s = Inr s1" "wanted (wt_sent s1) = store_asks n (store_after a st)"
    using watch_inputs_of [OF Cons.prems(1) a Cons.prems(3)] by blast
  have "\<exists>s'. watch_run (\<lambda>_. True) n (snd (store_run as (store_after a st))) s1 = Inr s' \<and>
      wanted (wt_sent s') = store_asks n (fst (store_run as (store_after a st)))"
    using Cons.IH [OF store_inv_after [OF Cons.prems(1) a] _ s1(2)] Cons.prems(2) by simp
  then show ?case by (auto simp: Let_def split_beta watch_run_append s1(1))
qed


subsection \<open>What the watch misses\<close>

text \<open>A pod deleted while the stream is down stays wanted: the new stream and every relist list the pods that are left, and nothing
  compares them with what was wanted.\<close>

lemma missed_deletion_stays:
  assumes "wanted (wt_sent s) u = Some spec" "\<forall>p \<in> set pods. uid_of p \<noteq> u"
  shows "\<exists>s'. watch_run (\<lambda>_. True) n [StreamError, StreamEvent (Restarted pods), RelistOk pods] s = Inr s' \<and>
    wanted (wt_sent s') u = Some spec"
proof -
  have 1: "\<forall>x \<in> set (applied_updates p n). ps_uid (pu_pod x) \<noteq> u" if "p \<in> set pods" for p
  proof
    fix x
    assume x: "x \<in> set (applied_updates p n)"
    have "ps_uid (pu_pod x) = uid_of p"
    proof (cases "kmd_deletion_timestamp (kpd_metadata p)")
      case None
      then show ?thesis using x pod_to_spec_uid [of p n] by (cases "pod_to_spec p n") (auto simp: applied_updates_def)
    next
      case (Some t)
      with x show ?thesis by (simp add: applied_updates_def removal_uid)
    qed
    then show "ps_uid (pu_pod x) \<noteq> u" using assms(2) that by simp
  qed
  have 2: "\<forall>x \<in> set (relist_updates pods n). ps_uid (pu_pod x) \<noteq> u"
    using assms(2) by (auto simp: relist_updates_def set_map_filter dest!: pod_to_spec_uid split: if_splits)
  have "wanted (wt_sent s @ concat (map (\<lambda>p. applied_updates p n) pods) @ relist_updates pods n) u = Some spec"
    using assms(1) 1 2 by (simp add: wanted_append foldl_asks_other)
  then show ?thesis by (simp add: watch_step_def send_all_open connect_def)
qed

text \<open>Mirror pods are skipped, but their deletion is passed on: a static pod that runs under the identifier of its mirror, as those from a
  URL do, is removed when the mirror is.\<close>

lemma mirror_deletion_passed_on:
  assumes "stored p" "is_mirror p"
  shows "pod_event_to_updates (Applied p) n = (if kmd_deletion_timestamp (kpd_metadata p) = None then [] else removal_of p n)"
    "map (\<lambda>u. (ps_uid (pu_pod u), pu_op u)) (pod_event_to_updates (WDeleted p) n) = [(uid_of p, OpRemove)]"
  using assms pod_to_spec_stored [OF assms(1), of n]
  by (auto simp: applied_updates_def removal_of_def stored_def Let_def)

subsection \<open>Instances\<close>

definition plain_kube_spec :: KubePodSpec where
  "plain_kube_spec =
     \<lparr>kps_containers = [], kps_init_containers = None, kps_ephemeral_containers = None, kps_volumes = None,
      kps_restart_policy = None, kps_node_selector = None, kps_readiness_gates = None, kps_node_name = None,
      kps_active_deadline_seconds = None, kps_service_account_name = None, kps_automount_service_account_token = None,
      kps_termination_grace_period_seconds = None, kps_priority = None, kps_runtime_class_name = None,
      kps_security_context = None, kps_host_network = None, kps_host_pid = None, kps_host_ipc = None, kps_host_aliases =
      None, kps_image_pull_secrets = None, kps_enable_service_links = None, kps_share_process_namespace = None,
      kps_dns_policy = None, kps_dns_config = None, kps_hostname = None, kps_subdomain = None\<rparr>"

definition plain_kube_pod :: "string \<Rightarrow> KubePod" where
  "plain_kube_pod uid =
     \<lparr>kpd_metadata = \<lparr>kmd_uid = Some uid, kmd_name = Some ''p'', kmd_namespace = None, kmd_labels = None, kmd_annotations = None,
                      kmd_deletion_timestamp = None, kmd_generation = None\<rparr>,
      kpd_spec = Some plain_kube_spec, kpd_start_time = None\<rparr>"

lemma plain_kube_pod_fit: "uid \<noteq> [] \<Longrightarrow> fit (\<lambda>_. False) (plain_kube_pod uid)"
  by (simp add: fit_def stored_def plain_kube_pod_def is_mirror_def)


end
