(* ===== verification/Kube_Report.thy ===== *)
theory Kube_Report
  imports Json Kube_Pods Node_State "HOL-Library.State_Monad"
begin

section \<open>Reports to the API server\<close>

text \<open>
  The rest of \<^verbatim>\<open>kubelet-adapters/src/kube_reporter/mod.rs\<close>: statuses in the types of the API, the patches, and the calls made with
  them. A call is a request whose answer the environment gives; the history of requests is the state. Texts of times and
  doubles are functions of the environment.
\<close>

subsection \<open>Amounts\<close>

definition resource_quantity_to_string :: "ResourceQuantity \<Rightarrow> string" where
  "resource_quantity_to_string q =
     (let v = rq_value q in
      case rq_unit q of
        UMillicores \<Rightarrow> if v mod 1000 = 0 then show_int (v div 1000) else show_int v @ ''m''
      | UBytes \<Rightarrow>
          if v mod (1024 * 1024 * 1024) = 0 then show_int (v div (1024 * 1024 * 1024)) @ ''Gi''
          else if v mod (1024 * 1024) = 0 then show_int (v div (1024 * 1024)) @ ''Mi''
          else if v mod 1024 = 0 then show_int (v div 1024) @ ''Ki''
          else show_int v
      | UCount \<Rightarrow> show_int v)"

definition amounts_to_k8s :: "(string, ResourceQuantity) hmap \<Rightarrow> (string, string) hmap option" where
  "amounts_to_k8s m = (if m = [] then None else Some (map (\<lambda>(k, v). (k, resource_quantity_to_string v)) m))"

definition resource_requirements_to_k8s :: "ResourceRequirements \<Rightarrow> KubeResources" where
  "resource_requirements_to_k8s r = \<lparr>kz_requests = amounts_to_k8s (rr_requests r), kz_limits = amounts_to_k8s (rr_limits r)\<rparr>"

subsection \<open>Statuses\<close>

datatype KubeContainerState =
    KWaiting "string option" "string option"
  | KRunning "timestamp option"
  | KTerminated int "string option" "string option" "timestamp option" "timestamp option"

record KubeContainerStatus =
  kst_name :: string
  kst_state :: "KubeContainerState option"
  kst_last_state :: "KubeContainerState option"
  kst_ready :: bool
  kst_restart_count :: int
  kst_image :: string
  kst_image_id :: string
  kst_container_id :: "string option"
  kst_started :: "bool option"
  kst_resources :: "KubeResources option"
  kst_allocated_resources :: "(string, string) hmap option"

fun container_state_to_k8s :: "ContainerState \<Rightarrow> KubeContainerState" where
  "container_state_to_k8s (Waiting reason message) = KWaiting (Some reason) message"
| "container_state_to_k8s (Running started_at) = KRunning (Some started_at)"
| "container_state_to_k8s (Terminated exit_code reason message started_at finished_at) =
     KTerminated exit_code (Some reason) message (Some started_at) (Some finished_at)"

definition lifecycle_container_status_to_k8s :: "ContainerStatus \<Rightarrow> KubeContainerStatus" where
  "lifecycle_container_status_to_k8s cs =
     (let (state_ready, started) =
            (case st_state cs of Waiting _ _ \<Rightarrow> (False, Some False) | Running _ \<Rightarrow> (True, Some True) | Terminated _ _ _ _ _ \<Rightarrow> (False, Some True));
          ready = (st_ready cs \<or> state_ready)
      in \<lparr>kst_name = st_name cs, kst_state = Some (container_state_to_k8s (st_state cs)),
          kst_last_state = map_option container_state_to_k8s (st_last_state cs), kst_ready = ready,
          kst_restart_count = sint (st_restart_count cs), kst_image = st_image cs, kst_image_id = st_image_id cs,
          kst_container_id = st_container_id cs, kst_started = started,
          kst_resources = map_option resource_requirements_to_k8s (st_resources cs),
          kst_allocated_resources = amounts_to_k8s (st_allocated_resources cs)\<rparr>)"

record KubePodCondition =
  kco_type :: string
  kco_status :: string
  kco_reason :: "string option"
  kco_message :: "string option"
  kco_last_probe_time :: "timestamp option"
  kco_last_transition_time :: "timestamp option"

definition condition_type_text :: "PodConditionType \<Rightarrow> string" where
  "condition_type_text t =
     (case t of PodScheduled \<Rightarrow> ''PodScheduled'' | ContainersReady \<Rightarrow> ''ContainersReady'' | Initialized \<Rightarrow> ''Initialized''
      | Ready \<Rightarrow> ''Ready'' | PodReadyToStartContainers \<Rightarrow> ''PodReadyToStartContainers'' | DisruptionTarget \<Rightarrow> ''DisruptionTarget'')"

definition condition_status_text :: "ConditionStatus \<Rightarrow> string" where
  "condition_status_text s = (case s of CTrue \<Rightarrow> ''True'' | CFalse \<Rightarrow> ''False'' | CUnknown \<Rightarrow> ''Unknown'')"

definition pod_condition_to_k8s :: "PodCondition \<Rightarrow> KubePodCondition" where
  "pod_condition_to_k8s c =
     \<lparr>kco_type = condition_type_text (pc_condition_type c), kco_status = condition_status_text (pc_status c),
      kco_reason = pc_reason c, kco_message = pc_message c, kco_last_probe_time = pc_last_probe_time c,
      kco_last_transition_time = pc_last_transition_time c\<rparr>"

definition lifecycle_to_phase :: "PodLifecycleState \<Rightarrow> string" where
  "lifecycle_to_phase state =
     (case ls_phase state of Pending \<Rightarrow> ''Pending'' | PhRunning \<Rightarrow> ''Running'' | Succeeded \<Rightarrow> ''Succeeded'' | Failed \<Rightarrow> ''Failed''
      | PhUnknown \<Rightarrow> ''Unknown'')"

subsection \<open>The same as JSON\<close>

record texts =
  tx_time :: "timestamp \<Rightarrow> string"
  tx_double :: "f64 \<Rightarrow> string"

definition jstr_opt :: "string option \<Rightarrow> json" where
  "jstr_opt = jopt JStr"

text \<open>The API types leave absent fields out.\<close>

definition present :: "(string \<times> json option) list \<Rightarrow> json" where
  "present kvs = JObj (List.map_filter (\<lambda>(k, v). map_option (\<lambda>x. (k, x)) v) kvs)"

definition condition_json :: "texts \<Rightarrow> KubePodCondition \<Rightarrow> json" where
  "condition_json tx c =
     present [(''lastProbeTime'', map_option (JStr \<circ> tx_time tx) (kco_last_probe_time c)),
              (''lastTransitionTime'', map_option (JStr \<circ> tx_time tx) (kco_last_transition_time c)),
              (''message'', map_option JStr (kco_message c)), (''reason'', map_option JStr (kco_reason c)),
              (''status'', Some (JStr (kco_status c))), (''type'', Some (JStr (kco_type c)))]"

text \<open>The serialized statuses and addresses are arguments: their encoding is the crate's.\<close>

definition build_pod_status_json ::
  "string \<Rightarrow> string option \<Rightarrow> json \<Rightarrow> json \<Rightarrow> json \<Rightarrow> json \<Rightarrow> json \<Rightarrow> string option \<Rightarrow> json \<Rightarrow> string option \<Rightarrow> json \<Rightarrow> int option \<Rightarrow> json" where
  "build_pod_status_json phase reason conditions statuses init_statuses ephemeral_statuses start_time pod_ip pod_ips host_ip host_ips
       observed_generation =
     JObj ([(''phase'', JStr phase), (''reason'', jstr_opt reason), (''conditions'', conditions), (''containerStatuses'', statuses),
            (''initContainerStatuses'', init_statuses), (''ephemeralContainerStatuses'', ephemeral_statuses),
            (''startTime'', start_time), (''podIP'', jstr_opt pod_ip), (''podIPs'', pod_ips), (''hostIP'', jstr_opt host_ip),
            (''hostIPs'', host_ips)] @
           (case observed_generation of Some g \<Rightarrow> [(''observedGeneration'', JInt g)] | None \<Rightarrow> []))"

definition node_condition_fields :: "texts \<Rightarrow> timestamp \<Rightarrow> NodeCondition \<Rightarrow> (string \<times> json) list" where
  "node_condition_fields tx now c =
     [(''type'', JStr (NodeConditionType_to_string (ncd_condition_type c))),
      (''status'', JStr (if ncd_status c = NsTrue then ''True'' else ''False'')), (''reason'', JStr (ncd_reason c)),
      (''message'', JStr (ncd_message c)), (''lastHeartbeatTime'', JStr (tx_time tx now)), (''lastTransitionTime'', JStr (tx_time tx now))]"

definition kibibytes :: "nat \<Rightarrow> json" where
  "kibibytes n = JStr (show_nat (n div 1024) @ ''Ki'')"

definition insert_amounts :: "(nat \<Rightarrow> json) \<Rightarrow> (string, nat) hmap \<Rightarrow> (string \<times> json) list \<Rightarrow> (string \<times> json) list" where
  "insert_amounts f m kvs = foldl (\<lambda>kvs (k, n). hm_insert k (f n) kvs) kvs m"

definition capacity_json :: "texts \<Rightarrow> NodeCapacity \<Rightarrow> json" where
  "capacity_json tx c =
     JObj (insert_amounts (\<lambda>n. JStr (show_nat n)) (nc_extended_resources c) (insert_amounts kibibytes (nc_hugepages c)
       [(''cpu'', JStr (tx_double tx (nc_cpu_cores c))), (''memory'', kibibytes (nc_memory_bytes c)),
        (''ephemeral-storage'', kibibytes (nc_ephemeral_storage_bytes c)), (''pods'', JStr (show_nat (nc_pods c)))]))"

definition allocatable_json :: "NodeAllocatableStatus \<Rightarrow> json" where
  "allocatable_json c =
     JObj (insert_amounts (\<lambda>n. JStr (show_nat n)) (nas_extended_resources c) (insert_amounts kibibytes (nas_hugepages c)
       [(''cpu'', JStr (show_nat (nas_cpu_millicores c) @ ''m'')), (''memory'', kibibytes (nas_memory_bytes c)),
        (''ephemeral-storage'', kibibytes (nas_ephemeral_storage_bytes c)), (''pods'', JStr (show_nat (nas_pods c)))]))"

definition address_type_debug :: "NodeAddressType \<Rightarrow> string" where
  "address_type_debug t =
     (case t of ExternalIP \<Rightarrow> ''ExternalIP'' | InternalIP \<Rightarrow> ''InternalIP'' | ExternalDNS \<Rightarrow> ''ExternalDNS'' | InternalDNS \<Rightarrow> ''InternalDNS''
      | HostnameAddr \<Rightarrow> ''Hostname'')"

definition system_info_json :: "NodeSystemInfo \<Rightarrow> json" where
  "system_info_json i =
     JObj [(''machineID'', JStr (nsi_machine_id i)), (''systemUUID'', JStr (nsi_system_uuid i)), (''bootID'', JStr (nsi_boot_id i)),
           (''kernelVersion'', JStr (nsi_kernel_version i)), (''osImage'', JStr (nsi_os_image i)),
           (''containerRuntimeVersion'', JStr (nsi_container_runtime_version i)), (''kubeletVersion'', JStr (nsi_kubelet_version i)),
           (''kubeProxyVersion'', JStr (nsi_kube_proxy_version i)), (''operatingSystem'', JStr (nsi_operating_system i)),
           (''architecture'', JStr (nsi_architecture i))]"

definition build_node_status_patch :: "texts \<Rightarrow> timestamp \<Rightarrow> NodeStatus \<Rightarrow> json" where
  "build_node_status_patch tx now s =
     JObj [(''apiVersion'', JStr ''v1''), (''kind'', JStr ''Node''), (''metadata'', JObj [(''name'', JStr (nst_name s))]),
           (''status'', JObj
              [(''conditions'', JArr (map (JObj \<circ> node_condition_fields tx now) (nst_conditions s))),
               (''daemonEndpoints'', JObj [(''kubeletEndpoint'', JObj [(''Port'', JInt 10250)])]),
               (''addresses'', JArr (map (\<lambda>a. JObj [(''type'', JStr (address_type_debug (nad_address_type a))),
                                                  (''address'', JStr (nad_address a))]) (nst_addresses s))),
               (''nodeInfo'', system_info_json (nst_system_info s)), (''capacity'', capacity_json tx (nst_capacity s)),
               (''allocatable'', allocatable_json (nst_allocatable s))])]"

text \<open>Operating system and architecture are constants of the build.\<close>

definition build_node_apply_patch :: "string \<Rightarrow> string \<Rightarrow> NodeStatus \<Rightarrow> json" where
  "build_node_apply_patch os build_arch s =
     (let arch = (if build_arch = ''x86_64'' then ''amd64'' else if build_arch = ''aarch64'' then ''arm64'' else build_arch) in
      JObj [(''apiVersion'', JStr ''v1''), (''kind'', JStr ''Node''),
            (''metadata'', JObj [(''name'', JStr (nst_name s)),
               (''labels'', JObj [(''kubernetes.io/hostname'', JStr (nst_name s)), (''kubernetes.io/os'', JStr os),
                  (''kubernetes.io/arch'', JStr arch), (''beta.kubernetes.io/os'', JStr os), (''beta.kubernetes.io/arch'', JStr arch)])]),
            (''spec'', JObj [])])"

subsection \<open>Calls\<close>

datatype kube_error = ApiError nat string | TransportError string

fun kube_error_text :: "kube_error \<Rightarrow> string" where
  "kube_error_text (ApiError code s) = s"
| "kube_error_text (TransportError s) = s"

definition is_not_found :: "kube_error \<Rightarrow> bool" where
  "is_not_found e = (case e of ApiError code _ \<Rightarrow> code = 404 | TransportError _ \<Rightarrow> False)"

datatype kube_request =
    PatchNodeStatus string json
  | ApplyNode string json
  | PatchPodStatus string string json
  | DeletePod string string
  | PatchLease string json
  | CreateEvent string string json

text \<open>A call appends its request; the answer depends on the requests so far.\<close>

type_synonym kube_api = "kube_request list \<Rightarrow> kube_request \<Rightarrow> kube_error option"

definition api_call :: "kube_api \<Rightarrow> kube_request \<Rightarrow> (kube_request list, kube_error option) state" where
  "api_call api q = State (\<lambda>h. (api h q, h @ [q]))"

record KubeNodeReporter =
  kn_node_name :: string
  kn_connected :: bool

type_synonym 'a reporting = "(kube_request list, 'a) state"

definition report_node_status :: "kube_api \<Rightarrow> texts \<Rightarrow> string \<Rightarrow> string \<Rightarrow> timestamp \<Rightarrow> KubeNodeReporter \<Rightarrow> NodeStatus \<Rightarrow> unit result reporting" where
  "report_node_status api tx os arch now rp status =
     (if \<not> kn_connected rp then State_Monad.return (Inr ())
      else let patch = build_node_status_patch tx now status in do {
        r \<leftarrow> api_call api (PatchNodeStatus (kn_node_name rp) patch);
        case r of
          None \<Rightarrow> State_Monad.return (Inr ())
        | Some e \<Rightarrow>
            if is_not_found e then do {
              r2 \<leftarrow> api_call api (ApplyNode (kn_node_name rp) (build_node_apply_patch os arch status));
              case r2 of
                Some e2 \<Rightarrow> State_Monad.return (Inl (ENodeStatus (''CREATE node before status patch: '' @ kube_error_text e2)))
              | None \<Rightarrow> do {
                  r3 \<leftarrow> api_call api (PatchNodeStatus (kn_node_name rp) patch);
                  State_Monad.return
                    (case r3 of
                       Some e3 \<Rightarrow> Inl (ENodeStatus (''PATCH node status after create: '' @ kube_error_text e3))
                     | None \<Rightarrow> Inr ())
                }
            }
            else State_Monad.return (Inl (ENodeStatus (''PATCH node status: '' @ kube_error_text e)))
      })"

text \<open>\<open>enc\<close> and \<open>enc_ip\<close>: the crate's encoding of a list of container statuses and of addresses.\<close>

definition report_pod_status ::
  "kube_api \<Rightarrow> texts \<Rightarrow> (KubeContainerStatus list \<Rightarrow> json) \<Rightarrow> (string list \<Rightarrow> json) \<Rightarrow> KubeNodeReporter \<Rightarrow> PodRef \<Rightarrow> PodUID \<Rightarrow>
   PodLifecycleState \<Rightarrow> unit result reporting" where
  "report_pod_status api tx enc enc_ip rp ref uid st =
     (if \<not> kn_connected rp then State_Monad.return (Inr ())
      else
        (let statuses = (\<lambda>cs. enc (map lifecycle_container_status_to_k8s cs));
             pod_ips = (case ls_pod_ip st of Some ip \<Rightarrow> if ip = [] then [] else [ip] | None \<Rightarrow> []);
             host_ips = (case ls_host_ip st of Some ip \<Rightarrow> [ip] | None \<Rightarrow> []);
             status = build_pod_status_json (lifecycle_to_phase st) (ls_reason st)
               (JArr (map (condition_json tx \<circ> pod_condition_to_k8s) (ls_conditions st))) (statuses (ls_container_statuses st))
               (statuses (ls_init_container_statuses st)) (statuses (ls_ephemeral_container_statuses st))
               (jopt (JStr \<circ> tx_time tx) (ls_start_time st)) (ls_pod_ip st) (enc_ip pod_ips) (ls_host_ip st) (enc_ip host_ips)
               (ls_observed_generation st);
             patch = JObj [(''apiVersion'', JStr ''v1''), (''kind'', JStr ''Pod''),
               (''metadata'', JObj [(''name'', JStr (pr_name ref)), (''namespace'', JStr (pr_namespace ref))]), (''status'', status)]
         in do {
           r \<leftarrow> api_call api (PatchPodStatus (pr_namespace ref) (pr_name ref) patch);
           State_Monad.return
             (case r of Some e \<Rightarrow> Inl (EPodStatus (''PATCH pod status: '' @ kube_error_text e)) | None \<Rightarrow> Inr ())
         }))"

definition kube_delete_pod :: "kube_api \<Rightarrow> KubeNodeReporter \<Rightarrow> PodRef \<Rightarrow> PodUID \<Rightarrow> unit result reporting" where
  "kube_delete_pod api rp ref uid =
     (if \<not> kn_connected rp then State_Monad.return (Inr ())
      else do {
        r \<leftarrow> api_call api (DeletePod (pr_namespace ref) (pr_name ref));
        State_Monad.return
          (case r of
             None \<Rightarrow> Inr ()
           | Some e \<Rightarrow>
               if is_not_found e then Inr ()
               else Inl (EPodStatus (''DELETE pod '' @ pr_name ref @ '': '' @ kube_error_text e)))
      })"

definition patch_node_conditions :: "kube_api \<Rightarrow> texts \<Rightarrow> timestamp \<Rightarrow> KubeNodeReporter \<Rightarrow> string \<Rightarrow> NodeCondition list \<Rightarrow> unit result reporting" where
  "patch_node_conditions api tx now rp node_name conditions =
     (if \<not> kn_connected rp then State_Monad.return (Inr ())
      else do {
        r \<leftarrow> api_call api (PatchNodeStatus node_name
          (JObj [(''apiVersion'', JStr ''v1''), (''kind'', JStr ''Node''), (''metadata'', JObj [(''name'', JStr node_name)]),
                 (''status'', JObj [(''conditions'', JArr (map (JObj \<circ> node_condition_fields tx now) conditions))])]));
        State_Monad.return
          (case r of Some e \<Rightarrow> Inl (ENodeStatus (''PATCH node conditions: '' @ kube_error_text e)) | None \<Rightarrow> Inr ())
      })"

definition renew_node_lease :: "kube_api \<Rightarrow> texts \<Rightarrow> timestamp \<Rightarrow> KubeNodeReporter \<Rightarrow> string \<Rightarrow> nat \<Rightarrow> unit result reporting" where
  "renew_node_lease api tx now rp node_name duration_seconds =
     (if \<not> kn_connected rp then State_Monad.return (Inr ())
      else do {
        r \<leftarrow> api_call api (PatchLease node_name
          (JObj [(''apiVersion'', JStr ''coordination.k8s.io/v1''), (''kind'', JStr ''Lease''),
                 (''metadata'', JObj [(''name'', JStr node_name), (''namespace'', JStr ''kube-node-lease'')]),
                 (''spec'', JObj [(''holderIdentity'', JStr node_name), (''leaseDurationSeconds'', JInt (int duration_seconds)),
                                  (''renewTime'', JStr (tx_time tx now))])]));
        State_Monad.return (case r of Some e \<Rightarrow> Inl (ENodeStatus (''renew lease: '' @ kube_error_text e)) | None \<Rightarrow> Inr ())
      })"

definition event_name :: "PodRef \<Rightarrow> string \<Rightarrow> string \<Rightarrow> string" where
  "event_name ref container_name reason = pr_name ref @ ''.'' @ container_name @ ''.'' @ to_lowercase reason"

definition emit_container_event ::
  "kube_api \<Rightarrow> texts \<Rightarrow> timestamp \<Rightarrow> KubeNodeReporter \<Rightarrow> PodRef \<Rightarrow> PodUID \<Rightarrow> string \<Rightarrow> string \<times> string \<times> string \<Rightarrow> unit result reporting" where
  "emit_container_event api tx now rp ref uid container_name ev =
     (let (event_type, reason, message) = ev in
      if \<not> kn_connected rp then State_Monad.return (Inr ())
      else do {
        _ \<leftarrow> api_call api (CreateEvent (pr_namespace ref) (event_name ref container_name reason)
          (JObj [(''involvedObject'', JObj [(''apiVersion'', JStr ''v1''), (''kind'', JStr ''Pod''), (''name'', JStr (pr_name ref)),
                    (''namespace'', JStr (pr_namespace ref)), (''uid'', JStr uid),
                    (''fieldPath'', JStr (''spec.containers{'' @ container_name @ ''}''))]),
                 (''reason'', JStr reason), (''message'', JStr message), (''type'', JStr event_type), (''count'', JInt 1),
                 (''firstTimestamp'', JStr (tx_time tx now)), (''lastTimestamp'', JStr (tx_time tx now)),
                 (''reportingComponent'', JStr ''kubelet''), (''reportingInstance'', JStr (kn_node_name rp)),
                 (''source'', JObj [(''component'', JStr ''kubelet''), (''host'', JStr (kn_node_name rp))])]));
        State_Monad.return (Inr ())
      })"

subsection \<open>A reported amount is read back\<close>

lemma strip_suffix_last: "suf \<noteq> [] \<Longrightarrow> s \<noteq> [] \<Longrightarrow> last suf \<noteq> last s \<Longrightarrow> strip_suffix suf s = None"
  by (auto simp: strip_suffix_None_iff)

lemma strip_suffix_other: "length suf = length suf' \<Longrightarrow> suf \<noteq> suf' \<Longrightarrow> strip_suffix suf (r @ suf') = None"
  by (simp add: strip_suffix_None_iff)

lemma show_int_ne [simp]: "show_int v \<noteq> []"
  by (simp add: show_int_def)

lemma show_int_last: "is_digit (last (show_int v))"
proof -
  have "is_digit (last (show_nat n))" for n using show_nat_digits [of n] by (simp add: list_all_iff)
  then show ?thesis by (simp add: show_int_def)
qed

lemma show_int_ws: "c \<in> set (show_int v) \<Longrightarrow> \<not> is_ws c"
proof -
  have "is_digit c" if "c \<in> set (show_nat n)" for n using that show_nat_digits [of n] by (simp add: list_all_iff)
  moreover have "\<not> is_ws (CHR ''-'')" by code_simp
  ultimately show "c \<in> set (show_int v) \<Longrightarrow> \<not> is_ws c" by (auto simp: show_int_def is_digit_not_ws split: if_splits)
qed

lemma trim_show_int: "\<forall>c \<in> set suf. \<not> is_ws c \<Longrightarrow> trim (show_int v @ suf) = show_int v @ suf"
  by (intro trim_none) (auto dest: show_int_ws)

lemma strip_suffix_show_int: "suf \<noteq> [] \<Longrightarrow> \<not> is_digit (last suf) \<Longrightarrow> strip_suffix suf (show_int v) = None"
  using show_int_last [of v] by (intro strip_suffix_last) auto

lemma parse_i64_show_int: "- (2 ^ 63) \<le> v \<Longrightarrow> v < 2 ^ 63 \<Longrightarrow> parse_i64 (show_int v) = Some v"
proof (cases "v < 0")
  case True
  moreover assume "- (2 ^ 63) \<le> v"
  ultimately show ?thesis by (simp add: show_int_def parse_i64_def show_nat_digits)
next
  case False
  assume v: "v < 2 ^ 63"
  obtain c r where cr: "show_nat (nat v) = c # r" by (meson neq_Nil_conv show_nat_ne)
  have "is_digit c" using show_nat_digits [of "nat v"] by (simp add: cr)
  then have "c \<noteq> CHR ''-''" by (rule is_digit_not_special)
  moreover have "parse_uint (2 ^ 63) (show_nat (nat v)) = Some (nat v)" by (rule parse_uint_show_nat) (use v False in \<open>simp add: nat_less_iff\<close>)
  ultimately show ?thesis using False by (simp add: show_int_def parse_i64_def cr)
qed

lemma sat_i64_id: "- (2 ^ 63) \<le> v \<Longrightarrow> v < 2 ^ 63 \<Longrightarrow> sat_i64 v = v"
  by (simp add: sat_i64_def)

lemma no_letters: "\<not> is_digit CHR ''i''" "\<not> is_digit CHR ''k''" "\<not> is_digit CHR ''M''" "\<not> is_digit CHR ''G''" "\<not> is_digit CHR ''m''"
  by code_simp+

lemma no_spaces: "\<not> is_ws CHR ''i''" "\<not> is_ws CHR ''K''" "\<not> is_ws CHR ''M''" "\<not> is_ws CHR ''G''" "\<not> is_ws CHR ''m''"
  by code_simp+

lemma parse_plain:
  assumes "- (2 ^ 63) \<le> v" "v < 2 ^ 63"
  shows "parse_k8s_quantity (show_int v) = Some \<lparr>rq_value = v, rq_unit = UCount\<rparr>"
  using trim_show_int [of "[]" v] assms by (simp add: parse_k8s_quantity_def Let_def strip_suffix_show_int no_letters parse_i64_show_int)

lemma parse_milli:
  assumes "- (2 ^ 63) \<le> v" "v < 2 ^ 63"
  shows "parse_k8s_quantity (show_int v @ ''m'') = Some (cpu_millicores v)"
  using trim_show_int [of "''m''" v] assms
  by (simp add: parse_k8s_quantity_def Let_def strip_suffix_last no_spaces parse_i64_show_int)

lemma parse_binary:
  assumes "- (2 ^ 63) \<le> v * factor" "v * factor < 2 ^ 63" "0 < factor" "(suf, factor) \<in> {(''Ki'', 1024), (''Mi'', 1024 * 1024), (''Gi'', 1024 * 1024 * 1024)}"
  shows "parse_k8s_quantity (show_int v @ suf) = Some (memory_bytes (v * factor))"
proof -
  have "- (2 ^ 63) \<le> v" "v < 2 ^ 63"
    using assms(1-3) mult_le_cancel_left1 [of factor] by (smt (verit, best) mult_less_cancel_left2 mult_minus_left mult_nonneg_nonneg)+
  then have "parse_i64 (show_int v) = Some v" by (rule parse_i64_show_int)
  moreover have "trim (show_int v @ suf) = show_int v @ suf" using assms(4) by (intro trim_show_int) (auto simp: no_spaces)
  ultimately show ?thesis using assms(1,2,4)
    by (auto simp: parse_k8s_quantity_def Let_def strip_suffix_other scaled_quantity_def sat_i64_id)
qed

text \<open>C29: An amount reported to the API server is read back. For every amount that fits 64 bits, in millicores exactly for the key
  \<open>cpu\<close>, parsing the text it is reported as gives the amount back; only bytes that are no multiple of 1024 come back as a plain
  count of the same value.\<close>

theorem quantity_read_back:
  assumes "- (2 ^ 63) \<le> rq_value q" "rq_value q < 2 ^ 63" "rq_unit q = UMillicores \<longleftrightarrow> key = ''cpu''"
  shows "parse_k8s_quantity_for_key key (resource_quantity_to_string q) =
    Some (if rq_unit q = UBytes \<and> rq_value q mod 1024 \<noteq> 0 then \<lparr>rq_value = rq_value q, rq_unit = UCount\<rparr> else q)"
proof -
  obtain v u where q: "q = \<lparr>rq_value = v, rq_unit = u\<rparr>" by (cases q)
  have v: "- (2 ^ 63) \<le> v" "v < 2 ^ 63" using assms(1,2) by (simp_all add: q)
  show ?thesis
  proof (cases u)
    case UBytes
    let ?k = "1024 :: int" and ?m = "1024 * 1024 :: int" and ?g = "1024 * 1024 * 1024 :: int"
    have multiple: "v div f * f = v" if "v mod f = 0" for f using that by (simp add: mod_eq_0_iff_dvd)
    have other: "key \<noteq> ''cpu''" using assms(3) UBytes by (simp add: q)
    consider "v mod ?g = 0" | "v mod ?g \<noteq> 0" "v mod ?m = 0" | "v mod ?g \<noteq> 0" "v mod ?m \<noteq> 0" "v mod ?k = 0"
      | "v mod ?g \<noteq> 0" "v mod ?m \<noteq> 0" "v mod ?k \<noteq> 0" by blast
    then show ?thesis
    proof cases
      case 1
      have "?k dvd ?g" by simp
      then have "v mod ?k = 0" using 1 dvd_trans [of ?k ?g v] by (simp only: mod_eq_0_iff_dvd)
      then show ?thesis using 1 UBytes other parse_binary [of "v div ?g" ?g "''Gi''"] v
        by (simp add: q multiple resource_quantity_to_string_def parse_k8s_quantity_for_key_def memory_bytes_def del: mod_eq_0_iff_dvd)
    next
      case 2
      have "?k dvd ?m" by simp
      then have "v mod ?k = 0" using 2(2) dvd_trans [of ?k ?m v] by (simp only: mod_eq_0_iff_dvd)
      then show ?thesis using 2 UBytes other parse_binary [of "v div ?m" ?m "''Mi''"] v
        by (simp add: q multiple resource_quantity_to_string_def parse_k8s_quantity_for_key_def memory_bytes_def)
    next
      case 3
      then show ?thesis using UBytes other parse_binary [of "v div ?k" ?k "''Ki''"] v
        by (simp add: q multiple resource_quantity_to_string_def parse_k8s_quantity_for_key_def memory_bytes_def)
    next
      case 4
      then show ?thesis using UBytes other parse_plain [OF v]
        by (simp add: q resource_quantity_to_string_def parse_k8s_quantity_for_key_def)
    qed
  next
    case UMillicores
    then have key: "key = ''cpu''" using assms(3) by (simp add: q)
    show ?thesis
    proof (cases "v mod 1000 = 0")
      case True
      have d: "- (2 ^ 63) \<le> v div 1000" "v div 1000 < 2 ^ 63" using v by linarith+
      have "v div 1000 * 1000 = v" using True div_mult_mod_eq [of v 1000] by linarith
      then show ?thesis using True UMillicores key parse_plain [OF d] sat_i64_id [OF v]
        by (simp add: q resource_quantity_to_string_def parse_k8s_quantity_for_key_def cpu_millicores_def)
    next
      case False
      then show ?thesis using UMillicores key parse_milli [OF v]
        by (simp add: q resource_quantity_to_string_def parse_k8s_quantity_for_key_def cpu_millicores_def)
    qed
  next
    case UCount
    then have "key \<noteq> ''cpu''" using assms(3) by (simp add: q)
    then show ?thesis using UCount parse_plain [OF v] by (simp add: q resource_quantity_to_string_def parse_k8s_quantity_for_key_def)
  qed
qed

theorem quantity_read_back_witness:
  "parse_k8s_quantity_for_key ''memory'' (resource_quantity_to_string (memory_bytes (3 * 1024))) = Some (memory_bytes (3 * 1024))"
proof -
  let ?q = "memory_bytes (3 * 1024)"
  have "- (2 ^ 63) \<le> rq_value ?q" "rq_value ?q < 2 ^ 63" "rq_unit ?q = UMillicores \<longleftrightarrow> ''memory'' = ''cpu''" "rq_value ?q mod 1024 = 0"
    by (simp_all add: memory_bytes_def)
  then show ?thesis using quantity_read_back [of ?q "''memory''"] by (simp only: simp_thms if_False)
qed

text \<open>Amounts with a fraction, an exponent or a larger suffix are legal in the API and are dropped: the container runs without the
  limit.\<close>

lemma quantities_dropped:
  "parse_k8s_quantity_for_key ''cpu'' ''0.5'' = None" "parse_k8s_quantity_for_key ''memory'' ''1.5Gi'' = None"
  "parse_k8s_quantity_for_key ''memory'' ''1e9'' = None" "parse_k8s_quantity_for_key ''memory'' ''1Pi'' = None"
  "k8s_amounts (Some [(''cpu'', ''0.5''), (''memory'', ''1.5Gi'')]) = []"
  by (simp_all add: parse_k8s_quantity_for_key_def parse_k8s_quantity_def trim_def is_ws_def strip_suffix_def scaled_quantity_def
        parse_i64_def parse_uint_def strip_plus_def is_digit_def k8s_amounts_def map_filter_simps)

subsection \<open>Reports\<close>

text \<open>A running container is reported ready whatever its readiness probe says.\<close>

lemma running_container_reported_ready:
  "st_state cs = Running t \<Longrightarrow> kst_ready (lifecycle_container_status_to_k8s cs)"
  by (simp add: lifecycle_container_status_to_k8s_def)

lemma reported_readiness:
  "kst_ready (lifecycle_container_status_to_k8s cs) \<longleftrightarrow> st_ready cs \<or> (\<exists>t. st_state cs = Running t)"
  by (auto simp: lifecycle_container_status_to_k8s_def split: ContainerState.split)

text \<open>The generation is left out, not null, when it is not known.\<close>

lemma observed_generation_field:
  "jget ''observedGeneration'' (build_pod_status_json ph re co st ins es t ip ips hip hips g) = map_option JInt g"
  by (cases g) (simp_all add: build_pod_status_json_def)

text \<open>The identifier plays no part in a deletion: a new pod of the name is deleted for the old one. And a repeated event has the name
  of the first.\<close>

lemma delete_ignores_uid: "kube_delete_pod api rp ref u = kube_delete_pod api rp ref w"
  by (simp add: kube_delete_pod_def)

lemma run_api_call [simp]: "run_state (api_call api q) h = (api h q, h @ [q])"
  by (simp add: api_call_def)

text \<open>The node registers itself. When the server does not know the node until it is applied and fails no other way, one report makes it
  known: the status is refused, the node is applied, the status is sent again and the report succeeds. When the server knows it, one
  request is made. Any other refusal is returned as an error of node status and nothing is applied.\<close>

theorem node_registers_itself:
  assumes "kn_connected rp" "run_state (report_node_status api tx os arch now rp status) h = (r, h')"
  shows "let p = PatchNodeStatus (kn_node_name rp) (build_node_status_patch tx now status);
             a = ApplyNode (kn_node_name rp) (build_node_apply_patch os arch status)
         in case api h p of
              None \<Rightarrow> r = Inr () \<and> h' = h @ [p]
            | Some e \<Rightarrow>
                if \<not> is_not_found e then (\<exists>m. r = Inl (ENodeStatus m)) \<and> h' = h @ [p]
                else if api (h @ [p]) a \<noteq> None then (\<exists>m. r = Inl (ENodeStatus m)) \<and> h' = h @ [p, a]
                else h' = h @ [p, a, p] \<and> (r = Inr () \<longleftrightarrow> api (h @ [p, a]) p = None)"
  using assms by (auto simp: report_node_status_def Let_def split: option.splits if_splits)

text \<open>A server that knows a node from the moment it is applied.\<close>

definition registering_server :: kube_api where
  "registering_server h q =
     (case q of
        PatchNodeStatus n _ \<Rightarrow>
          if list_ex (\<lambda>r. case r of ApplyNode m _ \<Rightarrow> m = n | _ \<Rightarrow> False) h then None else Some (ApiError 404 ''not found'')
      | _ \<Rightarrow> None)"

theorem node_registers_itself_witness:
  "\<forall>tx os arch now status.
     run_state (report_node_status registering_server tx os arch now \<lparr>kn_node_name = ''n'', kn_connected = True\<rparr> status) [] =
       (Inr (), [PatchNodeStatus ''n'' (build_node_status_patch tx now status), ApplyNode ''n'' (build_node_apply_patch os arch status),
                 PatchNodeStatus ''n'' (build_node_status_patch tx now status)])"
proof (intro allI)
  fix tx os arch now status
  let ?rp = "\<lparr>kn_node_name = ''n'', kn_connected = True\<rparr>"
  obtain r h where r: "run_state (report_node_status registering_server tx os arch now ?rp status) [] = (r, h)" by fastforce
  show "run_state (report_node_status registering_server tx os arch now ?rp status) [] =
       (Inr (), [PatchNodeStatus ''n'' (build_node_status_patch tx now status), ApplyNode ''n'' (build_node_apply_patch os arch status),
                 PatchNodeStatus ''n'' (build_node_status_patch tx now status)])"
    using node_registers_itself [OF _ r] by (simp add: r registering_server_def is_not_found_def Let_def)
qed

end
