(* ===== verification/Kube_Watcher.thy ===== *)
theory Kube_Watcher
  imports Json Kube_Pods File_Source
begin

section \<open>Pods from JSON\<close>

text \<open>
  \<^verbatim>\<open>kubelet-adapters/src/kube_watcher/mod.rs\<close>: \<^verbatim>\<open>pod_spec_from_map\<close> reads a pod from a JSON value, field by field, and the
  source that serves a fixed list of pods.
\<close>

definition jstr :: "string \<Rightarrow> json \<Rightarrow> string option" where
  "jstr k v = Option.bind (jget k v) as_str"

definition jbool :: "string \<Rightarrow> json \<Rightarrow> bool option" where
  "jbool k v = Option.bind (jget k v) as_bool"

definition ju64 :: "string \<Rightarrow> json \<Rightarrow> nat option" where
  "ju64 k v = Option.bind (jget k v) json_as_u64"

definition ji64 :: "string \<Rightarrow> json \<Rightarrow> int option" where
  "ji64 k v = Option.bind (jget k v) json_as_i64"

definition jarray :: "string \<Rightarrow> json \<Rightarrow> json list" where
  "jarray k v = or_empty (Option.bind (jget k v) as_array)"

definition jstrings :: "string \<Rightarrow> json \<Rightarrow> string list" where
  "jstrings k v = List.map_filter as_str (jarray k v)"

definition jtexts :: "string \<Rightarrow> json \<Rightarrow> (string, string) hmap" where
  "jtexts k v = map (\<lambda>(n, x). (n, or_empty (as_str x))) (or_empty (Option.bind (jget k v) as_object))"

definition as_i32 :: "int \<Rightarrow> int" where
  "as_i32 n = (n + 2 ^ 31) mod 2 ^ 32 - 2 ^ 31"

definition u16_of :: "nat \<Rightarrow> nat" where "u16_of n = n mod 2 ^ 16"
definition u32_of :: "nat \<Rightarrow> nat" where "u32_of n = n mod 2 ^ 32"

subsection \<open>Environment\<close>

text \<open>\<open>Some None\<close> is a variable without a source; \<open>None\<close> drops the variable.\<close>

definition json_env_source :: "json option \<Rightarrow> EnvVarSource option option" where
  "json_env_source value_from =
     (case value_from of None \<Rightarrow> Some None | Some vf \<Rightarrow>
     (case jget ''fieldRef'' vf of Some r \<Rightarrow> map_option (\<lambda>p. Some (FieldRef p)) (jstr ''fieldPath'' r) | None \<Rightarrow>
     (case jget ''resourceFieldRef'' vf of
        Some r \<Rightarrow> map_option (\<lambda>x. Some (EnvResourceFieldRef (jstr ''containerName'' r) x)) (jstr ''resource'' r)
      | None \<Rightarrow>
     (case jget ''configMapKeyRef'' vf of
        Some r \<Rightarrow> Option.bind (jstr ''name'' r) (\<lambda>n. map_option (\<lambda>k. Some (ConfigMapKeyRef n k (or_false (jbool ''optional'' r)))) (jstr ''key'' r))
      | None \<Rightarrow>
     (case jget ''secretKeyRef'' vf of
        Some r \<Rightarrow> Option.bind (jstr ''name'' r) (\<lambda>n. map_option (\<lambda>k. Some (SecretKeyRef n k (or_false (jbool ''optional'' r)))) (jstr ''key'' r))
      | None \<Rightarrow> Some None)))))"

definition json_env_var :: "json \<Rightarrow> EnvVar option" where
  "json_env_var e =
     Option.bind (jstr ''name'' e) (\<lambda>name.
       map_option (\<lambda>src. \<lparr>ev_name = name, ev_value = jstr ''value'' e, ev_value_from = src\<rparr>) (json_env_source (jget ''valueFrom'' e)))"

definition parse_env_vars :: "json \<Rightarrow> EnvVar list" where
  "parse_env_vars c = List.map_filter json_env_var (jarray ''env'' c)"

definition json_env_ref :: "json \<Rightarrow> EnvFromRef option" where
  "json_env_ref r = map_option (\<lambda>n. \<lparr>er_name = n, er_optional = or_false (jbool ''optional'' r)\<rparr>) (jstr ''name'' r)"

definition parse_env_from :: "json \<Rightarrow> EnvFromSource list" where
  "parse_env_from c =
     map (\<lambda>e. \<lparr>ef_prefix = jstr ''prefix'' e, ef_config_map_ref = Option.bind (jget ''configMapRef'' e) json_env_ref,
               ef_secret_ref = Option.bind (jget ''secretRef'' e) json_env_ref\<rparr>) (jarray ''envFrom'' c)"

subsection \<open>Ports and probes\<close>

definition json_port :: "json \<Rightarrow> ContainerPort option" where
  "json_port p =
     map_option (\<lambda>n.
       \<lparr>cp_name = jstr ''name'' p, cp_container_port = u16_of n, cp_host_port = map_option u16_of (ju64 ''hostPort'' p),
        cp_protocol = (if jstr ''protocol'' p = Some ''UDP'' then UDP else if jstr ''protocol'' p = Some ''SCTP'' then SCTP else TCP),
        cp_host_ip = jstr ''hostIP'' p\<rparr>) (ju64 ''containerPort'' p)"

definition parse_container_ports :: "json \<Rightarrow> ContainerPort list" where
  "parse_container_ports c = List.map_filter json_port (jarray ''ports'' c)"

definition resolve_port :: "json \<Rightarrow> ContainerPort list \<Rightarrow> nat option" where
  "resolve_port v ports =
     (case json_as_u64 v of
        Some n \<Rightarrow> Some (u16_of n)
      | None \<Rightarrow>
          (case as_str v of
             None \<Rightarrow> None
           | Some name \<Rightarrow>
               (case parse_uint (2 ^ 16) name of
                  Some n \<Rightarrow> Some n
                | None \<Rightarrow> map_option cp_container_port (find (\<lambda>p. cp_name p = Some name) ports))))"

definition json_probe_handler :: "json \<Rightarrow> ContainerPort list \<Rightarrow> ProbeHandler option" where
  "json_probe_handler v ports =
     (case jget ''httpGet'' v of
        Some h \<Rightarrow>
          Option.bind (jget ''port'' h) (\<lambda>p.
            map_option (\<lambda>n. PHttpGet (or_value ''/'' (jstr ''path'' h)) n (jstr ''host'' h) (or_value ''HTTP'' (jstr ''scheme'' h)))
              (resolve_port p ports))
      | None \<Rightarrow>
     (case jget ''tcpSocket'' v of
        Some t \<Rightarrow> Option.bind (jget ''port'' t) (\<lambda>p. map_option (\<lambda>n. PTcpSocket n (jstr ''host'' t)) (resolve_port p ports))
      | None \<Rightarrow>
     (case jget ''exec'' v of
        Some e \<Rightarrow> Some (PExec (jstrings ''command'' e))
      | None \<Rightarrow>
     (case jget ''grpc'' v of
        Some g \<Rightarrow> map_option (\<lambda>n. PGrpc (u16_of n) (jstr ''service'' g)) (ju64 ''port'' g)
      | None \<Rightarrow> None))))"

definition parse_probe :: "json option \<Rightarrow> ContainerPort list \<Rightarrow> Probe option" where
  "parse_probe value ports =
     Option.bind value (\<lambda>v.
       map_option (\<lambda>h.
         \<lparr>pb_handler = h, pb_initial_delay_seconds = u32_of (or_value 0 (ju64 ''initialDelaySeconds'' v)),
          pb_period_seconds = u32_of (or_value 10 (ju64 ''periodSeconds'' v)),
          pb_timeout_seconds = u32_of (or_value 1 (ju64 ''timeoutSeconds'' v)),
          pb_success_threshold = of_nat (or_value 1 (ju64 ''successThreshold'' v)),
          pb_failure_threshold = of_nat (or_value 3 (ju64 ''failureThreshold'' v))\<rparr>) (json_probe_handler v ports))"

subsection \<open>Security contexts\<close>

definition parse_seccomp :: "json option \<Rightarrow> SeccompSpec option" where
  "parse_seccomp sc =
     Option.bind sc (\<lambda>c. map_option (\<lambda>t. \<lparr>sp_type = t, sp_localhost_profile = jstr ''localhostProfile'' c\<rparr>) (jstr ''type'' c))"

definition parse_apparmor :: "json option \<Rightarrow> AppArmorSpec option" where
  "parse_apparmor sc =
     Option.bind sc (\<lambda>c. map_option (\<lambda>t. \<lparr>aa_type = t, aa_localhost_profile = jstr ''localhostProfile'' c\<rparr>) (jstr ''type'' c))"

definition parse_container_security_context :: "json option \<Rightarrow> SecurityContext option" where
  "parse_container_security_context sc =
     map_option (\<lambda>c.
       \<lparr>sc_run_as_user = map_option u32_of (ju64 ''runAsUser'' c), sc_run_as_group = map_option u32_of (ju64 ''runAsGroup'' c),
        sc_run_as_non_root = jbool ''runAsNonRoot'' c, sc_privileged = jbool ''privileged'' c,
        sc_read_only_root_filesystem = jbool ''readOnlyRootFilesystem'' c,
        sc_allow_privilege_escalation = jbool ''allowPrivilegeEscalation'' c,
        sc_capabilities =
          map_option (\<lambda>k. \<lparr>cap_add = jstrings ''add'' k, cap_drop = jstrings ''drop'' k\<rparr>) (jget ''capabilities'' c),
        sc_seccomp_profile = parse_seccomp (jget ''seccompProfile'' c), sc_apparmor_profile = parse_apparmor (jget ''appArmorProfile'' c),
        sc_proc_mount = jstr ''procMount'' c\<rparr>) sc"

definition json_sysctl :: "json \<Rightarrow> Sysctl option" where
  "json_sysctl s = Option.bind (jstr ''name'' s) (\<lambda>n. map_option (\<lambda>v. \<lparr>sys_name = n, sys_value = v\<rparr>) (jstr ''value'' s))"

definition parse_pod_security_context :: "json option \<Rightarrow> PodSecurityContext option" where
  "parse_pod_security_context sc =
     map_option (\<lambda>c.
       \<lparr>psc_run_as_user = map_option u32_of (ju64 ''runAsUser'' c), psc_run_as_group = map_option u32_of (ju64 ''runAsGroup'' c),
        psc_run_as_non_root = jbool ''runAsNonRoot'' c, psc_fs_group = map_option u32_of (ju64 ''fsGroup'' c),
        psc_supplemental_groups = List.map_filter (\<lambda>v. map_option u32_of (json_as_u64 v)) (jarray ''supplementalGroups'' c),
        psc_sysctls = List.map_filter json_sysctl (jarray ''sysctls'' c),
        psc_seccomp_profile = parse_seccomp (jget ''seccompProfile'' c),
        psc_fs_group_change_policy = jstr ''fsGroupChangePolicy'' c\<rparr>) sc"

subsection \<open>Volumes\<close>

definition json_key_to_path :: "json \<Rightarrow> KeyToPath option" where
  "json_key_to_path i =
     Option.bind (jstr ''key'' i) (\<lambda>k.
       map_option (\<lambda>p. \<lparr>kp_key = k, kp_path = p, kp_mode = map_option as_i32 (ji64 ''mode'' i)\<rparr>) (jstr ''path'' i))"

definition parse_key_to_paths :: "json \<Rightarrow> KeyToPath list" where
  "parse_key_to_paths v = List.map_filter json_key_to_path (or_empty (as_array v))"

definition json_mount :: "json \<Rightarrow> VolumeMount option" where
  "json_mount m =
     Option.bind (jstr ''name'' m) (\<lambda>n.
       map_option (\<lambda>p. \<lparr>vm_name = n, vm_mount_path = p, vm_sub_path = jstr ''subPath'' m, vm_sub_path_expr = jstr ''subPathExpr'' m,
                        vm_read_only = or_false (jbool ''readOnly'' m)\<rparr>) (jstr ''mountPath'' m))"

definition parse_volume_mounts :: "json \<Rightarrow> VolumeMount list" where
  "parse_volume_mounts c = List.map_filter json_mount (jarray ''volumeMounts'' c)"

definition json_resource_field :: "json \<Rightarrow> ResourceFieldRef option" where
  "json_resource_field r =
     map_option (\<lambda>x. \<lparr>rf_container_name = jstr ''containerName'' r, rf_resource = x, rf_divisor = jstr ''divisor'' r\<rparr>) (jstr ''resource'' r)"

definition json_downward_item :: "json \<Rightarrow> DownwardAPIVolumeFile option" where
  "json_downward_item i =
     map_option (\<lambda>p.
       \<lparr>da_path = p, da_field_ref = Option.bind (jget ''fieldRef'' i) (jstr ''fieldPath''),
        da_resource_field_ref = Option.bind (jget ''resourceFieldRef'' i) json_resource_field,
        da_mode = map_option as_i32 (ji64 ''mode'' i)\<rparr>) (jstr ''path'' i)"

definition parse_downward_api_items :: "json \<Rightarrow> DownwardAPIVolumeFile list" where
  "parse_downward_api_items v = List.map_filter json_downward_item (or_empty (as_array v))"

definition items_of :: "json \<Rightarrow> json" where
  "items_of v = or_value JNull (jget ''items'' v)"

definition json_projection :: "json \<Rightarrow> ProjectedVolumeSource option" where
  "json_projection s =
     (case jget ''serviceAccountToken'' s of
        Some t \<Rightarrow> map_option (\<lambda>p. PServiceAccountToken (jstr ''audience'' t) (ju64 ''expirationSeconds'' t) p) (jstr ''path'' t)
      | None \<Rightarrow>
     (case jget ''configMap'' s of
        Some c \<Rightarrow> Some (PConfigMap (or_empty (jstr ''name'' c)) (parse_key_to_paths (items_of c)) (or_false (jbool ''optional'' c)))
      | None \<Rightarrow>
     (case jget ''secret'' s of
        Some c \<Rightarrow> Some (PSecret (or_empty (jstr ''name'' c)) (parse_key_to_paths (items_of c)) (or_false (jbool ''optional'' c)))
      | None \<Rightarrow>
     (case jget ''downwardAPI'' s of Some d \<Rightarrow> Some (PDownwardAPI (parse_downward_api_items (items_of d))) | None \<Rightarrow> None))))"

definition parse_projected_sources :: "json \<Rightarrow> ProjectedVolumeSource list" where
  "parse_projected_sources v = List.map_filter json_projection (or_empty (as_array v))"

definition json_default_mode :: "json \<Rightarrow> int option" where
  "json_default_mode v = map_option as_i32 (ji64 ''defaultMode'' v)"

definition json_volume_source :: "json \<Rightarrow> VolumeSource option" where
  "json_volume_source v =
     (case jget ''hostPath'' v of Some h \<Rightarrow> map_option (\<lambda>p. HostPath p (jstr ''type'' h)) (jstr ''path'' h) | None \<Rightarrow>
     (case jget ''emptyDir'' v of Some e \<Rightarrow> Some (EmptyDir (jstr ''medium'' e) None) | None \<Rightarrow>
     (case jget ''configMap'' v of
        Some c \<Rightarrow> Some (VConfigMap (or_empty (jstr ''name'' c)) (parse_key_to_paths (items_of c)) (or_false (jbool ''optional'' c)) (json_default_mode c))
      | None \<Rightarrow>
     (case jget ''secret'' v of
        Some c \<Rightarrow> Some (VSecret (or_empty (jstr ''secretName'' c)) (parse_key_to_paths (items_of c)) (or_false (jbool ''optional'' c)) (json_default_mode c))
      | None \<Rightarrow>
     (case jget ''persistentVolumeClaim'' v of
        Some c \<Rightarrow> map_option (\<lambda>n. PersistentVolumeClaim n (or_false (jbool ''readOnly'' c))) (jstr ''claimName'' c)
      | None \<Rightarrow>
     (case jget ''projected'' v of
        Some c \<Rightarrow> Some (Projected (parse_projected_sources (or_value JNull (jget ''sources'' c))) (json_default_mode c))
      | None \<Rightarrow>
     (case jget ''downwardAPI'' v of
        Some d \<Rightarrow> Some (VDownwardAPI (parse_downward_api_items (items_of d)) (json_default_mode d))
      | None \<Rightarrow>
     (case jget ''nfs'' v of
        Some n \<Rightarrow> Option.bind (jstr ''server'' n) (\<lambda>s. map_option (\<lambda>p. NFS s p (or_false (jbool ''readOnly'' n))) (jstr ''path'' n))
      | None \<Rightarrow> None))))))))"

definition json_volume :: "json \<Rightarrow> VolumeSpec option" where
  "json_volume v =
     Option.bind (jstr ''name'' v) (\<lambda>n. map_option (\<lambda>s. \<lparr>vs_name = n, vs_source = s\<rparr>) (json_volume_source v))"

definition json_volumes :: "json \<Rightarrow> VolumeSpec list" where
  "json_volumes spec = List.map_filter json_volume (jarray ''volumes'' spec)"

subsection \<open>Resources\<close>

text \<open>The two modules have the same quantity parser.\<close>

definition watcher_quantity :: "string \<Rightarrow> string \<Rightarrow> ResourceQuantity option" where
  "watcher_quantity key s = parse_k8s_quantity_for_key key s"

definition json_amounts :: "json option \<Rightarrow> (string, ResourceQuantity) hmap" where
  "json_amounts v =
     List.map_filter (\<lambda>(k, x). Option.bind (as_str x) (\<lambda>s. map_option (\<lambda>q. (k, q)) (watcher_quantity k s))) (or_empty (Option.bind v as_object))"

definition parse_resource_requirements :: "json option \<Rightarrow> ResourceRequirements" where
  "parse_resource_requirements res =
     (case res of
        None \<Rightarrow> ResourceRequirements_default
      | Some r \<Rightarrow> \<lparr>rr_requests = json_amounts (jget ''requests'' r), rr_limits = json_amounts (jget ''limits'' r)\<rparr>)"

subsection \<open>Containers and pods\<close>

definition build_container_spec :: "json \<Rightarrow> ContainerSpec option" where
  "build_container_spec c =
     (let ports = parse_container_ports c in
      Option.bind (jstr ''name'' c) (\<lambda>name. map_option (\<lambda>image.
        \<lparr>ctr_name = name, ctr_image = image, ctr_command = jstrings ''command'' c, ctr_args = jstrings ''args'' c,
         ctr_working_dir = jstr ''workingDir'' c, ctr_ports = ports, ctr_env = parse_env_vars c, ctr_env_from = parse_env_from c,
         ctr_resources = parse_resource_requirements (jget ''resources'' c), ctr_volume_mounts = parse_volume_mounts c,
         ctr_liveness_probe = parse_probe (jget ''livenessProbe'' c) ports,
         ctr_readiness_probe = parse_probe (jget ''readinessProbe'' c) ports,
         ctr_startup_probe = parse_probe (jget ''startupProbe'' c) ports, ctr_lifecycle = None,
         ctr_image_pull_policy = manifest_pull_policy (jstr ''imagePullPolicy'' c),
         ctr_security_context = parse_container_security_context (jget ''securityContext'' c),
         ctr_termination_message_path = jstr ''terminationMessagePath'' c,
         ctr_termination_message_policy = jstr ''terminationMessagePolicy'' c, ctr_stdin = None, ctr_stdin_once = None, ctr_tty = None,
         ctr_restart_policy = map_option (\<lambda>p. manifest_restart_policy (Some p)) (jstr ''restartPolicy'' c)\<rparr>) (jstr ''image'' c)))"

definition json_claim :: "json \<Rightarrow> ResourceClaimRef option" where
  "json_claim c =
     map_option (\<lambda>n. \<lparr>rcr_name = n, rcr_resource_class_name = jstr ''resourceClassName'' c, rcr_allocated = or_false (jbool ''allocated'' c),
                      rcr_prepared = or_false (jbool ''prepared'' c)\<rparr>) (jstr ''name'' c)"

definition json_dns_option :: "json \<Rightarrow> DnsOption option" where
  "json_dns_option v = map_option (\<lambda>n. \<lparr>do_name = n, do_value = jstr ''value'' v\<rparr>) (jstr ''name'' v)"

definition json_dns :: "json \<Rightarrow> DnsConfig option" where
  "json_dns spec =
     (let policy = jstr ''dnsPolicy'' spec; overrides = or_value JNull (jget ''dnsConfig'' spec) in
      if policy \<in> {Some ''Default'', Some ''None'', Some ''ClusterFirstWithHostNet''}
      then Some \<lparr>dns_nameservers = jstrings ''nameservers'' overrides, dns_searches = jstrings ''searches'' overrides,
                 dns_options = List.map_filter json_dns_option (jarray ''options'' overrides),
                 dns_policy = (if policy = Some ''None'' then DnsNone
                               else if policy = Some ''ClusterFirstWithHostNet'' then ClusterFirstWithHostNet else DnsDefault)\<rparr>
      else None)"

definition json_host_alias :: "json \<Rightarrow> HostAlias option" where
  "json_host_alias e = map_option (\<lambda>ip. \<lparr>ha_ip = ip, ha_hostnames = jstrings ''hostnames'' e\<rparr>) (jstr ''ip'' e)"

definition json_pod :: "PodUID \<Rightarrow> string \<Rightarrow> ContainerSpec list \<Rightarrow> json \<Rightarrow> json \<Rightarrow> string \<Rightarrow> PodSpec" where
  "json_pod uid name containers md spec node_name =
     \<lparr>ps_uid = uid, ps_pod_ref = \<lparr>pr_namespace = or_value ''default'' (jstr ''namespace'' md), pr_name = name\<rparr>,
      ps_containers = containers,
      ps_init_containers = List.map_filter build_container_spec (jarray ''initContainers'' spec),
      ps_ephemeral_containers = [], ps_volumes = json_volumes spec, ps_node_name = or_value node_name (jstr ''nodeName'' spec),
      ps_host_network = or_false (jbool ''hostNetwork'' spec), ps_host_pid = or_false (jbool ''hostPID'' spec),
      ps_host_ipc = or_false (jbool ''hostIPC'' spec), ps_dns_config = json_dns spec,
      ps_restart_policy = manifest_restart_policy (jstr ''restartPolicy'' spec),
      ps_termination_grace_period_seconds = or_value 30 (ju64 ''terminationGracePeriodSeconds'' spec),
      ps_service_account_name = or_value ''default'' (jstr ''serviceAccountName'' spec), ps_priority = None, ps_tolerations = [],
      ps_node_selector = [], ps_annotations = jtexts ''annotations'' md, ps_labels = jtexts ''labels'' md,
      ps_runtime_class_name = jstr ''runtimeClassName'' spec,
      ps_security_context = parse_pod_security_context (jget ''securityContext'' spec), ps_readiness_gates = [],
      ps_active_deadline_seconds = ju64 ''activeDeadlineSeconds'' spec,
      ps_automount_service_account_token = jbool ''automountServiceAccountToken'' spec,
      ps_image_pull_secrets = List.map_filter (jstr ''name'') (jarray ''imagePullSecrets'' spec),
      ps_enable_service_links = jbool ''enableServiceLinks'' spec, ps_share_process_namespace = jbool ''shareProcessNamespace'' spec,
      ps_resource_claims = List.map_filter json_claim (jarray ''resourceClaims'' spec),
      ps_host_aliases = List.map_filter json_host_alias (jarray ''hostAliases'' spec),
      ps_hostname = non_empty (jstr ''hostname'' spec), ps_subdomain = non_empty (jstr ''subdomain'' spec),
      ps_observed_start_time = None, ps_generation = ji64 ''generation'' md\<rparr>"

definition pod_spec_from_map :: "json \<Rightarrow> string \<Rightarrow> PodSpec option" where
  "pod_spec_from_map v node_name = do {
     md \<leftarrow> jget ''metadata'' v;
     spec \<leftarrow> jget ''spec'' v;
     name \<leftarrow> jstr ''name'' md;
     uid \<leftarrow> jstr ''uid'' md;
     containers \<leftarrow> Option.bind (jget ''containers'' spec) as_array;
     Some (json_pod uid name (List.map_filter build_container_spec containers) md spec node_name)
   }"

subsection \<open>The source of a fixed list\<close>

text \<open>\<open>Inl\<close>: the receiver is gone. After the first round every turn of the timer repeats the pods.\<close>

fun offer :: "(nat \<Rightarrow> bool) \<Rightarrow> PodUpdate list \<Rightarrow> PodUpdate list \<Rightarrow> PodUpdate list + PodUpdate list" where
  "offer accepts [] sent = Inr sent"
| "offer accepts (u # us) sent = (if accepts (length sent) then offer accepts us (sent @ [u]) else Inl sent)"

definition simulated_run :: "(nat \<Rightarrow> bool) \<Rightarrow> PodSpec list \<Rightarrow> nat \<Rightarrow> PodUpdate list + PodUpdate list" where
  "simulated_run accepts pods turns =
     offer accepts (map (\<lambda>p. \<lparr>pu_pod = p, pu_op = OpAdd\<rparr>) pods @
                    concat (replicate turns (map (\<lambda>p. \<lparr>pu_pod = p, pu_op = OpReconcile\<rparr>) pods))) []"

subsection \<open>What is kept and what is dropped\<close>

lemma pod_spec_from_map_ident:
  "pod_spec_from_map v n = Some s \<Longrightarrow>
     \<exists>md. jget ''metadata'' v = Some md \<and> jstr ''name'' md = Some (pr_name (ps_pod_ref s)) \<and> jstr ''uid'' md = Some (ps_uid s)"
  by (auto simp: pod_spec_from_map_def json_pod_def split: bind_splits)

text \<open>A container without an image, and a variable whose source lacks its key, disappear; the pod is accepted without them.\<close>

lemma container_without_image_dropped: "jstr ''image'' c = None \<Longrightarrow> build_container_spec c = None"
  by (cases "jstr ''name'' c") (simp_all add: build_container_spec_def Let_def)

lemma pod_loses_container:
  "map_option (length \<circ> ps_containers)
     (pod_spec_from_map (JObj [(''metadata'', JObj [(''name'', JStr ''p''), (''uid'', JStr ''u'')]),
        (''spec'', JObj [(''containers'', JArr [JObj [(''name'', JStr ''a''), (''image'', JStr ''i'')], JObj [(''name'', JStr ''b'')]])])]) ''n'')
   = Some 1"
  by (simp add: pod_spec_from_map_def jstr_def build_container_spec_def Let_def map_filter_simps json_pod_def)

text \<open>A port beyond 16 bits wraps.\<close>

lemma port_wraps: "map_option cp_container_port (json_port (JObj [(''containerPort'', JInt 65616)])) = Some 80"
  by (simp add: json_port_def ju64_def json_as_u64_def u16_of_def)

end
