(* ===== verification/Pod_Typing.thy ===== *)
theory Pod_Typing
  imports Kube_Watcher Url_Source Kube_Source
begin

section \<open>Numbers in their types\<close>

text \<open>
  The pod model has natural numbers where the sources have \<^verbatim>\<open>u16\<close>, \<^verbatim>\<open>u32\<close> and \<^verbatim>\<open>u64\<close>. Whatever the source of a pod, its
  numbers are within those types.
\<close>

definition port_typed :: "ContainerPort \<Rightarrow> bool" where
  "port_typed p \<longleftrightarrow> cp_container_port p < 2 ^ 16 \<and> (\<forall>h. cp_host_port p = Some h \<longrightarrow> h < 2 ^ 16)"

fun probe_handler_typed :: "ProbeHandler \<Rightarrow> bool" where
  "probe_handler_typed (PHttpGet _ port _ _) \<longleftrightarrow> port < 2 ^ 16"
| "probe_handler_typed (PTcpSocket port _) \<longleftrightarrow> port < 2 ^ 16"
| "probe_handler_typed (PGrpc port _) \<longleftrightarrow> port < 2 ^ 16"
| "probe_handler_typed (PExec _) \<longleftrightarrow> True"

definition probe_typed :: "Probe \<Rightarrow> bool" where
  "probe_typed p \<longleftrightarrow> probe_handler_typed (pb_handler p) \<and> pb_initial_delay_seconds p < 2 ^ 32 \<and> pb_period_seconds p < 2 ^ 32 \<and>
     pb_timeout_seconds p < 2 ^ 32"

fun hook_typed :: "LifecycleHandler \<Rightarrow> bool" where
  "hook_typed (LHttpGet _ port _ _) \<longleftrightarrow> port < 2 ^ 16"
| "hook_typed (LTcpSocket port _) \<longleftrightarrow> port < 2 ^ 16"
| "hook_typed (LSleep n) \<longleftrightarrow> n < 2 ^ 64"
| "hook_typed (LExec _) \<longleftrightarrow> True"

abbreviation all_some :: "('a \<Rightarrow> bool) \<Rightarrow> 'a option \<Rightarrow> bool" where
  "all_some P \<equiv> pred_option P"

definition security_typed :: "SecurityContext \<Rightarrow> bool" where
  "security_typed c \<longleftrightarrow> all_some (\<lambda>n. n < 2 ^ 32) (sc_run_as_user c) \<and> all_some (\<lambda>n. n < 2 ^ 32) (sc_run_as_group c)"

definition container_typed :: "ContainerSpec \<Rightarrow> bool" where
  "container_typed c \<longleftrightarrow> list_all port_typed (ctr_ports c) \<and> all_some probe_typed (ctr_liveness_probe c) \<and>
     all_some probe_typed (ctr_readiness_probe c) \<and> all_some probe_typed (ctr_startup_probe c) \<and>
     all_some security_typed (ctr_security_context c) \<and>
     all_some (\<lambda>l. all_some hook_typed (lc_post_start l) \<and> all_some hook_typed (lc_pre_stop l)) (ctr_lifecycle c)"

definition pod_security_typed :: "PodSecurityContext \<Rightarrow> bool" where
  "pod_security_typed c \<longleftrightarrow> all_some (\<lambda>n. n < 2 ^ 32) (psc_run_as_user c) \<and> all_some (\<lambda>n. n < 2 ^ 32) (psc_run_as_group c) \<and>
     all_some (\<lambda>n. n < 2 ^ 32) (psc_fs_group c) \<and> list_all (\<lambda>n. n < 2 ^ 32) (psc_supplemental_groups c)"

definition pod_typed :: "PodSpec \<Rightarrow> bool" where
  "pod_typed p \<longleftrightarrow> list_all container_typed (ps_containers p) \<and> list_all container_typed (ps_init_containers p) \<and>
     list_all container_typed (ps_ephemeral_containers p) \<and> all_some pod_security_typed (ps_security_context p) \<and>
     all_some (\<lambda>n. n < 2 ^ 64) (ps_active_deadline_seconds p) \<and> ps_termination_grace_period_seconds p < 2 ^ 64"

lemma all_some_map: "(\<And>x. y = Some x \<Longrightarrow> P (f x)) \<Longrightarrow> all_some P (map_option f y)"
  by (cases y) simp_all

lemma all_some_bind: "(\<And>x. y = Some x \<Longrightarrow> all_some P (f x)) \<Longrightarrow> all_some P (Option.bind y f)"
  by (cases y) simp_all

named_theorems typing \<open>conversions give numbers of the type\<close>

lemma casts_typed [typing]:
  "as_u16 n < 2 ^ 16" "as_u32 n < 2 ^ 32" "as_u64 n < 2 ^ 64" "u16_of m < 2 ^ 16" "u32_of m < 2 ^ 32"
  by (simp_all add: as_u16_def as_u32_def as_u64_def u16_of_def u32_of_def nat_less_iff)

lemmas casts_typed' [typing] = casts_typed [simplified]

lemma found_port_typed: "list_all port_typed ports \<Longrightarrow> find P ports = Some p \<Longrightarrow> cp_container_port p < 2 ^ 16"
  by (auto dest!: find_SomeD simp: list_all_iff port_typed_def)

subsection \<open>Pods of the watch\<close>

lemma k8s_ports_typed: "list_all port_typed (k8s_ports ps)"
  by (auto simp: k8s_ports_def list_all_iff port_typed_def typing)

lemma resolve_intorstring_typed: "list_all port_typed ports \<Longrightarrow> resolve_intorstring_port v ports < 2 ^ 16"
  by (auto simp: resolve_intorstring_port_def typing split: IntOrString.split option.split dest: found_port_typed)

lemma k8s_probe_typed:
  assumes "list_all port_typed ports"
  shows "all_some probe_typed (Option.bind p (\<lambda>p. k8s_probe_to_spec p ports))"
  using resolve_intorstring_typed [OF assms]
  by (cases p) (auto simp: k8s_probe_to_spec_def k8s_probe_handler_def probe_typed_def typing option.pred_map split: option.splits)

lemma k8s_hook_typed: "all_some hook_typed (Option.bind h k8s_lifecycle_handler_to_spec)"
  by (rule all_some_bind)
    (auto simp: k8s_lifecycle_handler_to_spec_def typing intro!: all_some_map split: option.split IntOrString.split)

lemma k8s_security_typed: "all_some security_typed (map_option k8s_security_context c)"
  by (auto intro!: all_some_map simp: k8s_security_context_def security_typed_def typing)

lemma k8s_containers_typed: "container_typed (k8s_container_to_spec c)" "container_typed (k8s_ephemeral_container_to_spec c)"
  by (simp_all add: container_typed_def k8s_container_to_spec_def k8s_ephemeral_container_to_spec_def Let_def
        ContainerSpec_default_def k8s_ports_typed k8s_probe_typed k8s_security_typed all_some_map k8s_hook_typed)

lemma pod_to_spec_typed:
  assumes "pod_to_spec p n = Some s"
  shows "pod_typed s"
proof -
  obtain u r sp where s: "s = k8s_spec_to_pod u r n p sp"
    using assms by (auto simp: pod_to_spec_def Let_def split: option.splits if_splits)
  have "all_some pod_security_typed (map_option k8s_pod_security_context c)" for c
    by (rule all_some_map)
      (auto simp: k8s_pod_security_context_def pod_security_typed_def list_all_iff typing intro!: all_some_map)
  moreover have "or_value 30 (map_option as_u64 g) < 18446744073709551616" for g by (cases g) (simp_all add: typing)
  moreover have "all_some (\<lambda>n. n < 18446744073709551616) (map_option as_u64 d)" for d
    by (rule all_some_map) (simp add: typing)
  ultimately show ?thesis
    by (simp add: s pod_typed_def k8s_spec_to_pod_def PodSpec_default_def list_all_iff k8s_containers_typed)
qed

subsection \<open>Pods from JSON\<close>

lemma ju64_bound: "ju64 k v = Some n \<Longrightarrow> n < 2 ^ 64"
  by (auto simp: ju64_def json_as_u64_def nat_less_iff split: json.splits if_splits bind_splits)

lemma json_ports_typed: "list_all port_typed (parse_container_ports c)"
  by (auto simp: parse_container_ports_def json_port_def list_all_iff port_typed_def set_map_filter typing)

lemma resolve_port_typed: "list_all port_typed ports \<Longrightarrow> resolve_port v ports = Some n \<Longrightarrow> n < 2 ^ 16"
  by (auto simp: resolve_port_def typing split: option.splits dest: found_port_typed parse_uint_bound)

lemma json_probe_handler_typed:
  assumes "list_all port_typed ports"
  shows "all_some probe_handler_typed (json_probe_handler v ports)"
  using resolve_port_typed [OF assms]
  by (simp add: json_probe_handler_def typing split: option.split) (auto intro!: all_some_map all_some_bind simp: typing)

lemma json_probe_typed:
  assumes "list_all port_typed ports"
  shows "all_some probe_typed (parse_probe v ports)"
proof -
  have "all_some probe_typed (map_option (\<lambda>h. f h) (json_probe_handler x ports))"
    if "\<And>h. probe_handler_typed h \<Longrightarrow> probe_typed (f h)" for f x
    using json_probe_handler_typed [OF assms, of x] that by (cases "json_probe_handler x ports") simp_all
  then show ?thesis by (cases v) (simp_all add: parse_probe_def probe_typed_def typing)
qed

lemma json_security_typed: "all_some security_typed (parse_container_security_context v)"
  unfolding parse_container_security_context_def security_typed_def by (intro all_some_map) (auto intro!: all_some_map simp: typing)

lemma json_container_typed: "build_container_spec c = Some s \<Longrightarrow> container_typed s"
  using json_ports_typed [of c] json_probe_typed [OF json_ports_typed [of c]] json_security_typed
  by (auto simp: build_container_spec_def Let_def container_typed_def bind_eq_Some_conv)

lemma json_containers_typed: "list_all container_typed (List.map_filter build_container_spec cs)"
  by (auto simp: list_all_iff set_map_filter json_container_typed)

lemma pod_spec_from_map_typed:
  assumes "pod_spec_from_map v n = Some s"
  shows "pod_typed s"
proof -
  obtain u name cs md spec where s: "s = json_pod u name (List.map_filter build_container_spec cs) md spec n"
    using assms by (auto simp: pod_spec_from_map_def split: bind_splits)
  have "all_some pod_security_typed (parse_pod_security_context c)" for c
    unfolding parse_pod_security_context_def pod_security_typed_def
    by (intro all_some_map) (auto intro!: all_some_map simp: list_all_iff set_map_filter typing)
  moreover have "or_value 30 (ju64 k x) < 2 ^ 64" for k x
    using ju64_bound [of k x] by (cases "ju64 k x") simp_all
  moreover have "all_some (\<lambda>n. n < 2 ^ 64) (ju64 k x)" for k x using ju64_bound [of k x] by (auto simp: pred_option_def)
  ultimately show ?thesis by (simp add: s pod_typed_def json_pod_def json_containers_typed)
qed

subsection \<open>Static pods\<close>

lemma manifest_container_typed: "container_typed (manifest_container c)"
  by (simp add: manifest_container_def container_typed_def)

lemma static_typed:
  "parse_manifest dc src content f = Some s \<Longrightarrow> pod_typed s"
  by (auto simp: parse_manifest_def Let_def static_template_def pod_typed_def list_all_iff manifest_container_typed split: option.splits)



end
