(* ===== verification/Spdy_Session.thy ===== *)
theory Spdy_Session
  imports Stream_Exec
begin

section \<open>A command over SPDY\<close>

text \<open>
  \<^verbatim>\<open>run_spdy_exec_like_session\<close> of \<^verbatim>\<open>kubelet-app/src/streaming/mod.rs\<close>: the client opens its streams, the command runs, the result is
  written. A turn of the first loop reads a frame or nothing, when the time is up or no frame comes. The header codec keeps a state between
  frames: \<^verbatim>\<open>SpdyHeaderDecoder\<close> and \<^verbatim>\<open>SpdyHeaderEncoder\<close> around third-party compression are arguments. The connection takes
  what is written; the sources ignore when it does not.
\<close>

record ('d, 'e) codec =
  cd_decode :: "'d \<Rightarrow> u8 list \<Rightarrow> (string, string) hmap \<times> 'd"
  cd_encode :: "'e \<Rightarrow> (string, string) hmap \<Rightarrow> u8 list \<times> 'e"

record ('d, 'e) negotiation =
  ng_streams :: "(SpdyStreamKind, u32) hmap"
  ng_fallback :: nat
  ng_retries :: nat
  ng_dec :: 'd
  ng_enc :: 'e
  ng_written :: "SpdyWireFrame list"
  ng_resized :: "(ContainerID \<times> nat \<times> nat) list"

definition fallback_order :: "SpdyStreamKind list" where
  "fallback_order = [KError, KStdin, KStdout, KStderr, KResize]"

definition reply_headers :: "(string, string) hmap" where
  "reply_headers = [('':status'', ''200 OK''), ('':version'', ''HTTP/1.1'')]"

definition wants :: "bool option \<Rightarrow> bool" where
  "wants x \<longleftrightarrow> x \<noteq> Some False"

definition streams_missing :: "ExecQuery \<Rightarrow> (SpdyStreamKind, u32) hmap \<Rightarrow> bool" where
  "streams_missing q m \<longleftrightarrow>
     \<not> hm_contains_key KError m \<or> wants (eq_stdout q) \<and> \<not> hm_contains_key KStdout m \<or> wants (eq_stderr q) \<and> \<not> hm_contains_key KStderr m"

text \<open>The kind a stream is opened for, and the next position in the order that stands in for missing headers.\<close>

definition stream_kind :: "(string, string) hmap \<Rightarrow> nat \<Rightarrow> SpdyStreamKind option \<times> nat" where
  "stream_kind headers idx =
     (case spdy_stream_kind_from_headers headers of
        Some k \<Rightarrow> (Some k, idx)
      | None \<Rightarrow> (if idx < length fallback_order then Some (fallback_order ! idx) else None, Suc idx))"

definition open_stream :: "('d, 'e) codec \<Rightarrow> u32 \<Rightarrow> u8 list \<Rightarrow> ('d, 'e) negotiation \<Rightarrow> ('d, 'e) negotiation" where
  "open_stream cd stream_id raw_nv s =
     (let (headers, d) = cd_decode cd (ng_dec s) raw_nv;
          (kind, idx) = stream_kind headers (ng_fallback s);
          (nv, e) = cd_encode cd (ng_enc s) reply_headers
      in s\<lparr>ng_dec := d, ng_enc := e, ng_fallback := idx,
           ng_streams := (case kind of Some k \<Rightarrow> hm_insert k stream_id (ng_streams s) | None \<Rightarrow> ng_streams s),
           ng_written := ng_written s @ [WSynReply stream_id nv]\<rparr>)"

text \<open>The resize calls pass width and height.\<close>

definition session_data :: "(string \<Rightarrow> json option) \<Rightarrow> ContainerID option \<Rightarrow> u32 \<Rightarrow> u8 list \<Rightarrow> ('d, 'e) negotiation \<Rightarrow> ('d, 'e) negotiation" where
  "session_data parse_json container stream_id payload s =
     (case (hm_get (ng_streams s) KResize, container) of
        (Some i, Some c) \<Rightarrow>
          if stream_id = i then
            (case parse_resize_event parse_json payload of
               Some (height, width) \<Rightarrow> s\<lparr>ng_resized := ng_resized s @ [(c, width, height)]\<rparr>
             | None \<Rightarrow> s)
          else s
      | _ \<Rightarrow> s)"

text \<open>\<open>None\<close>: the client ends the connection.\<close>

definition session_frame ::
  "('d, 'e) codec \<Rightarrow> (string \<Rightarrow> json option) \<Rightarrow> ContainerID option \<Rightarrow> SpdyWireFrame \<Rightarrow> ('d, 'e) negotiation \<Rightarrow> ('d, 'e) negotiation option" where
  "session_frame cd parse_json container f s =
     (case f of
        WSynStream stream_id raw_nv \<Rightarrow> Some (open_stream cd stream_id raw_nv s)
      | WPing i \<Rightarrow> Some (s\<lparr>ng_written := ng_written s @ [WPing i]\<rparr>)
      | WGoAway _ _ \<Rightarrow> None
      | WRstStream _ _ \<Rightarrow> None
      | WData stream_id _ payload \<Rightarrow> Some (session_data parse_json container stream_id payload s)
      | WSynReply _ _ \<Rightarrow> Some s)"

fun negotiate ::
  "('d, 'e) codec \<Rightarrow> (string \<Rightarrow> json option) \<Rightarrow> ContainerID option \<Rightarrow> ExecQuery \<Rightarrow> SpdyWireFrame option list \<Rightarrow>
   ('d, 'e) negotiation \<Rightarrow> ('d, 'e) negotiation" where
  "negotiate cd pj container q [] s = s"
| "negotiate cd pj container q (i # is) s =
     (if \<not> streams_missing q (ng_streams s) then s
      else case i of
        None \<Rightarrow>
          if hm_keys (ng_streams s) = [KError] \<and> ng_retries s < 2 then negotiate cd pj container q is (s\<lparr>ng_retries := Suc (ng_retries s)\<rparr>)
          else s
      | Some f \<Rightarrow>
          (case session_frame cd pj container f (s\<lparr>ng_retries := 0\<rparr>) of
             None \<Rightarrow> s
           | Some s' \<Rightarrow> negotiate cd pj container q is s'))"

definition data_frame :: "u32 option \<Rightarrow> u8 list \<Rightarrow> SpdyWireFrame list" where
  "data_frame stream payload = (case stream of Some i \<Rightarrow> [WData i 1 payload] | None \<Rightarrow> [])"

definition send_exec_result_spdy :: "(json \<Rightarrow> string) \<Rightarrow> (SpdyStreamKind, u32) hmap \<Rightarrow> ExecResult \<Rightarrow> SpdyWireFrame list" where
  "send_exec_result_spdy json_text m r =
     (if er_stdout r \<noteq> [] then data_frame (hm_get m KStdout) (as_bytes (er_stdout r)) else []) @
     (if er_stderr r \<noteq> [] then data_frame (hm_get m KStderr) (as_bytes (er_stderr r)) else []) @
     data_frame (hm_get m KError) (exit_status_payload json_text (er_exit_code r))"

definition no_stdout_message :: string where
  "no_stdout_message = ''SPDY stream negotiation incomplete: stdout channel not opened''"

text \<open>What is written after the negotiation, given the outcome of the command if it is run, and whether it is.\<close>

definition conclude :: "(json \<Rightarrow> string) \<Rightarrow> (SpdyStreamKind, u32) hmap \<Rightarrow> nat \<times> string + ExecResult \<Rightarrow> bool \<times> SpdyWireFrame list" where
  "conclude json_text m core =
     (let fail = (\<lambda>message status. data_frame (hm_get m KError) (failure_status_payload json_text message status)) in
      if \<not> hm_contains_key KStdout m then (False, fail no_stdout_message 500 @ [WGoAway 0 0])
      else (True,
            (case core of Inr r \<Rightarrow> send_exec_result_spdy json_text m r | Inl (status, message) \<Rightarrow> fail message status) @ [WGoAway 0 0]))"

definition new_negotiation :: "'d \<Rightarrow> 'e \<Rightarrow> ('d, 'e) negotiation" where
  "new_negotiation d e =
     \<lparr>ng_streams = [], ng_fallback = 0, ng_retries = 0, ng_dec = d, ng_enc = e, ng_written = [], ng_resized = []\<rparr>"

definition session_container :: "stream_runtime \<Rightarrow> string \<Rightarrow> string \<Rightarrow> ExecQuery \<Rightarrow> ContainerID option" where
  "session_container rt ns pod_name q = Option.bind (eq_container q) (find_container_id (srt_containers rt) ns pod_name)"

definition run_spdy_exec_like_session ::
  "('d, 'e) codec \<Rightarrow> (string \<Rightarrow> json option) \<Rightarrow> (json \<Rightarrow> string) \<Rightarrow> 'd \<Rightarrow> 'e \<Rightarrow> stream_runtime \<Rightarrow> string \<Rightarrow> string \<Rightarrow> ExecQuery \<Rightarrow> string \<Rightarrow>
   SpdyWireFrame option list \<Rightarrow> bool \<times> SpdyWireFrame list" where
  "run_spdy_exec_like_session cd pj json_text d e rt ns pod_name q subresource inputs =
     (let s = negotiate cd pj (session_container rt ns pod_name q) q inputs (new_negotiation d e);
          (executed, fs) = conclude json_text (ng_streams s)
             (if subresource = ''exec'' then run_exec_core rt ns pod_name q else run_attach_core rt ns pod_name q)
      in (executed, ng_written s @ fs))"

subsection \<open>What the client reads\<close>

definition data_on :: "u32 \<Rightarrow> SpdyWireFrame list \<Rightarrow> u8 list" where
  "data_on i fs = concat (map (\<lambda>f. case f of WData j _ p \<Rightarrow> if j = i then p else [] | _ \<Rightarrow> []) fs)"

lemma data_on_simps [simp]:
  "data_on i [] = []" "data_on i (xs @ ys) = data_on i xs @ data_on i ys" "data_on i (WData j g p # fs) = (if j = i then p else []) @ data_on i fs"
  "data_on i (WGoAway a b # fs) = data_on i fs" "data_on i (WSynReply a nv # fs) = data_on i fs" "data_on i (WPing a # fs) = data_on i fs"
  by (simp_all add: data_on_def)

text \<open>What must be answered, and what the answers are.\<close>

fun asked :: "SpdyWireFrame \<Rightarrow> (bool \<times> u32) list" where
  "asked (WSynStream i _) = [(True, i)]"
| "asked (WPing i) = [(False, i)]"
| "asked _ = []"

fun answered :: "SpdyWireFrame \<Rightarrow> (bool \<times> u32) list" where
  "answered (WSynReply i _) = [(True, i)]"
| "answered (WPing i) = [(False, i)]"
| "answered _ = []"

fun frames_in :: "SpdyWireFrame option list \<Rightarrow> SpdyWireFrame list" where
  "frames_in [] = []"
| "frames_in (None # is) = frames_in is"
| "frames_in (Some f # is) = f # frames_in is"

lemma session_frame_answers:
  "session_frame cd pj c f s = Some s' \<Longrightarrow>
     concat (map answered (ng_written s')) = concat (map answered (ng_written s)) @ asked f \<and>
     data_on i (ng_written s') = data_on i (ng_written s)"
  by (auto simp: session_frame_def open_stream_def session_data_def Let_def split: SpdyWireFrame.splits prod.splits option.splits if_splits)

lemma negotiate_answers:
  "\<exists>k. concat (map answered (ng_written (negotiate cd pj c q is s))) =
         concat (map answered (ng_written s)) @ concat (map asked (take k (frames_in is))) \<and>
       data_on i (ng_written (negotiate cd pj c q is s)) = data_on i (ng_written s)"
proof (induction "is" arbitrary: s)
  case Nil
  then show ?case by simp
next
  case (Cons x xs)
  have stop: "\<exists>k. concat (map answered (ng_written s)) = concat (map answered (ng_written s)) @ concat (map asked (take k (frames_in (x # xs))))"
    by (rule exI [of _ 0]) simp
  show ?case
  proof (cases x)
    case None
    then show ?thesis using stop Cons.IH [of "s\<lparr>ng_retries := Suc (ng_retries s)\<rparr>"] by simp
  next
    case (Some f)
    show ?thesis
    proof (cases "session_frame cd pj c f (s\<lparr>ng_retries := 0\<rparr>)")
      case None
      then show ?thesis using stop Some by simp
    next
      case (Some s')
      from session_frame_answers [OF this, of i] Cons.IH [of s'] obtain k where
        k: "concat (map answered (ng_written (negotiate cd pj c q xs s'))) =
              concat (map answered (ng_written s)) @ asked f @ concat (map asked (take k (frames_in xs)))"
          "data_on i (ng_written (negotiate cd pj c q xs s')) = data_on i (ng_written s)" by auto
      show ?thesis
      proof (cases "streams_missing q (ng_streams s)")
        case True
        then show ?thesis using \<open>x = Some f\<close> Some k by (intro exI [of _ "Suc k"]) simp
      next
        case False
        then show ?thesis using stop by simp
      qed
    qed
  qed
qed



text \<open>A codec that sends texts as they are, and a client that opens three streams.\<close>

definition plain_codec :: "(nat, unit) codec" where
  "plain_codec =
     \<lparr>cd_decode = (\<lambda>n nv. (if n = 0 then [(''streamtype'', ''error'')] else if n = 1 then [(''streamtype'', ''stdout'')] else [], Suc n)),
      cd_encode = (\<lambda>u _. ([], u))\<rparr>"

definition demo_stream_runtime :: stream_runtime where
  "demo_stream_runtime =
     \<lparr>srt_containers = Some [\<lparr>rtc_id = ''c'', rtc_pod_uid = ''u'', rtc_name = ''a'', rtc_pid = None, rtc_image = [], rtc_image_ref = [],
         rtc_state = RRunning, rtc_created_at = 1, rtc_started_at = None, rtc_finished_at = None, rtc_exit_code = None,
         rtc_exit_reason = None,
         rtc_labels = [(''kubelet.rs/pod_name'', ''p''), (''kubelet.rs/pod_namespace'', ''n''), (''kubelet.rs/container_name'', ''a'')],
         rtc_attempt = 0\<rparr>],
      srt_exec_sync = (\<lambda>_ _ _. Inr \<lparr>er_stdout = ''hi'', er_stderr = [], er_exit_code = 0\<rparr>), srt_attach_sync = (\<lambda>_ _. Inl ''no'')\<rparr>"

definition demo_query :: ExecQuery where
  "demo_query = empty_query\<lparr>eq_command := [''ls''], eq_stderr := Some False\<rparr>"


subsection \<open>What is not delivered\<close>

text \<open>What the client sends on any stream but the one for sizes changes nothing: the input of the command is dropped.\<close>

lemma input_is_dropped:
  assumes "hm_get (ng_streams s) KResize \<noteq> Some i"
  shows "session_frame cd pj c (WData i g payload) s = Some s"
  using assms by (auto simp: session_frame_def session_data_def split: option.split)

text \<open>Once the streams that must be there are open the rest of what the client sends is not read.\<close>

lemma later_frames_not_read:
  "\<not> streams_missing q (ng_streams (negotiate cd pj c q is s)) \<Longrightarrow>
     negotiate cd pj c q (is @ later) s = negotiate cd pj c q is s"
proof (induction "is" arbitrary: s)
  case Nil
  then show ?case by (cases later) simp_all
qed (auto split: option.splits)

end
