(* ===== verification/Port_Forward.thy ===== *)
theory Port_Forward
  imports Stream_Exec
begin

section \<open>Port forwarding\<close>

text \<open>
  \<^verbatim>\<open>handle_port_forward_ws\<close> and \<^verbatim>\<open>spdy_port_forward_handler\<close> of \<^verbatim>\<open>kubelet-app/src/streaming/mod.rs\<close>. The events of a session are what
  the relay tasks hand over and what the client sends, in the order in which the loop takes them; an event says whether the write it
  causes succeeds. The byte arithmetic wraps, as in a release build.
\<close>

subsection \<open>The address of a pod\<close>

text \<open>The first sandbox of the pod with an address, in the listing or in its status.\<close>

fun sandbox_ip :: "(string \<Rightarrow> SandboxStatus option) \<Rightarrow> SandboxStatus list \<Rightarrow> string option" where
  "sandbox_ip status [] = None"
| "sandbox_ip status (sb # sbs) =
     (case (case sbs_network sb of Some n \<Rightarrow> if sns_ip n \<noteq> [] then Some (sns_ip n) else None | None \<Rightarrow> None) of
        Some ip \<Rightarrow> Some ip
      | None \<Rightarrow>
          (case Option.bind (Option.bind (status (sbs_id sb)) sbs_network) (\<lambda>n. if sns_ip n \<noteq> [] then Some (sns_ip n) else None) of
             Some ip \<Rightarrow> Some ip
           | None \<Rightarrow> sandbox_ip status sbs))"

definition resolve_pod_ip :: "SandboxStatus list option \<Rightarrow> (string \<Rightarrow> SandboxStatus option) \<Rightarrow> string \<Rightarrow> string option" where
  "resolve_pod_ip listing status pod_uid =
     Option.bind listing (\<lambda>sbs. sandbox_ip status (filter (\<lambda>sb. sbs_pod_uid sb = pod_uid) sbs))"

subsection \<open>Over a web socket\<close>

definition forwarded_ports :: "string option \<Rightarrow> nat list" where
  "forwarded_ports ports = List.map_filter (\<lambda>p. parse_uint (2 ^ 16) (trim p)) (split_on CHR '','' (case ports of Some s \<Rightarrow> s | None \<Rightarrow> []))"

definition data_channel :: "nat \<Rightarrow> u8" where
  "data_channel idx = word_of_nat idx * 2"

definition err_channel :: "nat \<Rightarrow> u8" where
  "err_channel idx = data_channel idx + 1"

text \<open>The writers by channel, for the ports whose connection succeeds; a later port replaces an earlier one of the same channel.\<close>

definition add_writer :: "(nat \<Rightarrow> bool) \<Rightarrow> nat \<Rightarrow> (u8, nat) hmap \<Rightarrow> (u8, nat) hmap" where
  "add_writer connects idx m = (if connects idx then hm_insert (data_channel idx) idx m else m)"

definition channel_writers :: "(nat \<Rightarrow> bool) \<Rightarrow> nat list \<Rightarrow> (u8, nat) hmap" where
  "channel_writers connects ports =
     fold (add_writer connects) [0..<length ports] []"

datatype pod_output = Chunk "u8 list" | ReadError string | ConnectError string

definition relay_frame :: "string \<Rightarrow> nat list \<Rightarrow> nat \<Rightarrow> pod_output \<Rightarrow> FramedMessage" where
  "relay_frame ip ports idx out =
     (let port = show_nat (ports ! idx) in
      case out of
        Chunk bs \<Rightarrow> FramedMessage_new (data_channel idx) bs
      | ReadError e \<Rightarrow> FramedMessage_new (err_channel idx) (as_bytes (''tcp read error on '' @ port @ '': '' @ e))
      | ConnectError e \<Rightarrow> FramedMessage_new (err_channel idx) (as_bytes (''failed to connect '' @ ip @ '':'' @ port @ '': '' @ e)))"

datatype forward_event = Relayed nat pod_output bool | FromClient ws_message bool | ClientError

record forward_state =
  fw_sent :: "FramedMessage list"
  fw_delivered :: "(nat \<times> u8 list) list"

text \<open>\<open>Inl\<close>: the session is over.\<close>

definition forward_step ::
  "string \<Rightarrow> nat list \<Rightarrow> (u8, nat) hmap \<Rightarrow> forward_event \<Rightarrow> forward_state \<Rightarrow> forward_state + forward_state" where
  "forward_step ip ports writers ev s =
     (case ev of
        Relayed idx out ok \<Rightarrow> if ok then Inr (s\<lparr>fw_sent := fw_sent s @ [relay_frame ip ports idx out]\<rparr>) else Inl s
      | FromClient m ok \<Rightarrow>
          (case m of
             WsBinary d \<Rightarrow>
               (case FramedMessage_decode d of
                  None \<Rightarrow> Inr s
                | Some f \<Rightarrow>
                    (case hm_get writers (fm_stream_id f) of
                       None \<Rightarrow> Inr s
                     | Some idx \<Rightarrow> if ok then Inr (s\<lparr>fw_delivered := fw_delivered s @ [(idx, fm_payload f)]\<rparr>) else Inl s))
           | WsClose \<Rightarrow> Inl s
           | WsText _ \<Rightarrow> Inr s)
      | ClientError \<Rightarrow> Inl s)"

fun forward_run :: "string \<Rightarrow> nat list \<Rightarrow> (u8, nat) hmap \<Rightarrow> forward_event list \<Rightarrow> forward_state \<Rightarrow> forward_state" where
  "forward_run ip ports writers [] s = s"
| "forward_run ip ports writers (ev # evs) s =
     (case forward_step ip ports writers ev s of Inl s' \<Rightarrow> s' | Inr s' \<Rightarrow> forward_run ip ports writers evs s')"

text \<open>The pod must be there and have an address; otherwise one message says so.\<close>

definition handle_port_forward_ws ::
  "(json \<Rightarrow> string) \<Rightarrow> PodSpec option \<Rightarrow> (string \<Rightarrow> string option) \<Rightarrow> string \<Rightarrow> string \<Rightarrow> string option \<Rightarrow> (nat \<Rightarrow> bool) \<Rightarrow>
   forward_event list \<Rightarrow> forward_state" where
  "handle_port_forward_ws json_text pod ip_of ns pod_name query connects evs =
     (let ports = forwarded_ports query; q = [CHR 0x27];
          fail = (\<lambda>message code. \<lparr>fw_sent = [FramedMessage_new STREAM_ERROR (as_bytes (json_text (failure_status message code)))], fw_delivered = []\<rparr>)
      in case pod of
           None \<Rightarrow> fail (''pod '' @ q @ ns @ ''/'' @ pod_name @ q @ '' not found'') 404
         | Some p \<Rightarrow>
             (case ip_of (ps_uid p) of
                None \<Rightarrow> fail (''pod '' @ q @ ns @ ''/'' @ pod_name @ q @ '' has no routable IP'') 503
              | Some ip \<Rightarrow> forward_run ip ports (channel_writers connects ports) evs \<lparr>fw_sent = [], fw_delivered = []\<rparr>))"

subsection \<open>Streams are kept apart\<close>

lemma data_channel_unat: "idx < 128 \<Longrightarrow> unat (data_channel idx) = 2 * idx"
  by (simp add: data_channel_def unat_word_ariths unat_of_nat)

lemma data_channel_inj: "i < 128 \<Longrightarrow> j < 128 \<Longrightarrow> data_channel i = data_channel j \<longleftrightarrow> i = j"
  by (metis data_channel_unat nat_mult_eq_cancel1 zero_less_numeral)

lemma err_channel_data: "i < 128 \<Longrightarrow> j < 128 \<Longrightarrow> err_channel i \<noteq> data_channel j"
proof
  assume "i < 128" "j < 128" "err_channel i = data_channel j"
  then have "unat (data_channel i + 1) = 2 * j" by (simp add: err_channel_def data_channel_unat)
  moreover have "unat (data_channel i + 1) = 2 * i + 1"
    using \<open>i < 128\<close> by (simp add: unat_word_ariths data_channel_unat)
  ultimately show False by presburger
qed

lemma channel_writers_get:
  assumes "length ports \<le> 128" "idx < length ports"
  shows "hm_get (channel_writers connects ports) (data_channel idx) = (if connects idx then Some idx else None)"
proof -
  have "hm_get (fold (add_writer connects) xs m) (data_channel idx) =
      (if idx \<in> set xs \<and> connects idx then Some idx else hm_get m (data_channel idx))" if "\<forall>x \<in> set xs. x < 128" for xs m
    using that assms
  proof (induction xs arbitrary: m)
    case (Cons x xs)
    have "data_channel x = data_channel idx \<longleftrightarrow> x = idx" using Cons.prems assms by (intro data_channel_inj) auto
    moreover have "hm_get (add_writer connects x m) (data_channel idx) =
        (if connects x \<and> data_channel x = data_channel idx then Some x else hm_get m (data_channel idx))"
      by (simp add: add_writer_def update_conv')
    ultimately show ?case using Cons.IH [of "add_writer connects x m"] Cons.prems by auto
  qed simp
  from this [of "[0..<length ports]" "[]"] show ?thesis using assms by (auto simp: channel_writers_def)
qed

definition channel_data :: "u8 \<Rightarrow> FramedMessage list \<Rightarrow> u8 list" where
  "channel_data c fs = concat (map fm_payload (filter (\<lambda>f. fm_stream_id f = c) fs))"

definition delivered_to :: "nat \<Rightarrow> (nat \<times> u8 list) list \<Rightarrow> u8 list" where
  "delivered_to idx ds = concat (map snd (filter (\<lambda>d. fst d = idx) ds))"

text \<open>What the pod sent on a port, and what the client sent on a channel, in the events the session took.\<close>

fun pod_sent :: "nat \<Rightarrow> forward_event \<Rightarrow> u8 list" where
  "pod_sent idx (Relayed i (Chunk bs) ok) = (if i = idx then bs else [])"
| "pod_sent idx ev = []"

fun client_sent :: "u8 \<Rightarrow> forward_event \<Rightarrow> u8 list" where
  "client_sent c (FromClient (WsBinary (b # bs)) ok) = (if b = c then bs else [])"
| "client_sent c ev = []"

fun goes_on :: "forward_event \<Rightarrow> bool" where
  "goes_on (Relayed i out ok) = ok"
| "goes_on (FromClient WsClose ok) = False"
| "goes_on (FromClient m ok) = ok"
| "goes_on ClientError = False"

fun from_port_below :: "nat \<Rightarrow> forward_event \<Rightarrow> bool" where
  "from_port_below n (Relayed i out ok) = (i < n)"
| "from_port_below n ev = True"

lemma channel_writers_keys: "hm_get (channel_writers connects ports) c = Some i \<Longrightarrow> c = data_channel i"
proof -
  have "\<forall>c i. hm_get (fold (add_writer connects) xs m) c = Some i \<longrightarrow> c = data_channel i"
    if "\<forall>c i. hm_get m c = Some i \<longrightarrow> c = data_channel i" for xs m
    using that
  proof (induction xs arbitrary: m)
    case (Cons x xs)
    have "hm_get m c = Some i \<or> c = data_channel x \<and> i = x" if "hm_get (add_writer connects x m) c = Some i" for c i
      using that by (auto simp: add_writer_def update_conv' split: if_splits)
    then have "\<forall>c i. hm_get (add_writer connects x m) c = Some i \<longrightarrow> c = data_channel i" using Cons.prems by blast
    from Cons.IH [OF this] show ?case by (simp only: fold_simps)
  qed simp
  from this [of "[]" "[0..<length ports]"] show "hm_get (channel_writers connects ports) c = Some i \<Longrightarrow> c = data_channel i"
    by (simp add: channel_writers_def)
qed

lemma forward_step_data:
  assumes "length ports \<le> 128" "idx < length ports" "goes_on ev" "from_port_below (length ports) ev"
    and w: "\<And>c. hm_get w c = Some idx \<longleftrightarrow> c = data_channel idx"
  shows "\<exists>s'. forward_step ip ports w ev s = Inr s' \<and>
           channel_data (data_channel idx) (fw_sent s') = channel_data (data_channel idx) (fw_sent s) @ pod_sent idx ev \<and>
           delivered_to idx (fw_delivered s') = delivered_to idx (fw_delivered s) @ client_sent (data_channel idx) ev"
proof (cases ev)
  case (Relayed i out ok)
  have "data_channel i = data_channel idx \<longleftrightarrow> i = idx" "err_channel i \<noteq> data_channel idx"
    using assms(1,2,4) by (simp_all add: Relayed data_channel_inj err_channel_data)
  then show ?thesis
    using assms(3) by (cases out) (simp_all add: Relayed forward_step_def relay_frame_def FramedMessage_new_def channel_data_def Let_def)
next
  case (FromClient m ok)
  show ?thesis
  proof (cases m)
    case (WsBinary d)
    show ?thesis
    proof (cases d)
      case (Cons b bs)
      then show ?thesis
        using assms(3) w [of b]
        by (cases "hm_get w b") (simp_all add: FromClient WsBinary forward_step_def FramedMessage_decode_def delivered_to_def)
    qed (simp add: FromClient WsBinary forward_step_def FramedMessage_decode_def)
  qed (use assms(3) in \<open>simp_all add: FromClient forward_step_def\<close>)
next
  case ClientError
  then show ?thesis using assms(3) by simp
qed

lemma forward_run_data:
  assumes "length ports \<le> 128" "idx < length ports" "\<And>c. hm_get w c = Some idx \<longleftrightarrow> c = data_channel idx"
  shows "list_all goes_on evs \<Longrightarrow> list_all (from_port_below (length ports)) evs \<Longrightarrow>
    channel_data (data_channel idx) (fw_sent (forward_run ip ports w evs s)) =
      channel_data (data_channel idx) (fw_sent s) @ concat (map (pod_sent idx) evs) \<and>
    delivered_to idx (fw_delivered (forward_run ip ports w evs s)) =
      delivered_to idx (fw_delivered s) @ concat (map (client_sent (data_channel idx)) evs)"
proof (induction evs arbitrary: s)
  case (Cons ev evs)
  have "goes_on ev" "from_port_below (length ports) ev" using Cons.prems by simp_all
  from forward_step_data [where s = s and ip = ip, OF assms(1,2) this assms(3)] obtain s' where "forward_step ip ports w ev s = Inr s'"
    "channel_data (data_channel idx) (fw_sent s') = channel_data (data_channel idx) (fw_sent s) @ pod_sent idx ev"
    "delivered_to idx (fw_delivered s') = delivered_to idx (fw_delivered s) @ client_sent (data_channel idx) ev"
    by blast
  then show ?case using Cons.IH [of s'] Cons.prems by simp
qed simp

text \<open>C24: With at most 128 ports the streams of a session are kept apart. For every port whose connection succeeded, what the pod sent on it
  reaches the client in order on the channel of the port, and what the client sent on that channel reaches that port in order, however the
  two directions and the ports are interleaved.\<close>

theorem forwarded_streams_kept_apart:
  assumes "ports = forwarded_ports query" "length ports \<le> 128" "idx < length ports" "connects idx" "ip_of (ps_uid p) = Some ip"
    "list_all goes_on evs" "list_all (from_port_below (length ports)) evs"
    "s = handle_port_forward_ws json_text (Some p) ip_of ns pod_name query connects evs"
  shows "channel_data (data_channel idx) (fw_sent s) = concat (map (pod_sent idx) evs) \<and>
         delivered_to idx (fw_delivered s) = concat (map (client_sent (data_channel idx)) evs)"
proof -
  let ?w = "channel_writers connects ports"
  have "hm_get ?w c = Some idx \<longleftrightarrow> c = data_channel idx" for c
    using channel_writers_get [OF assms(2,3), of connects] channel_writers_keys [of connects ports c idx] assms(4) by auto
  from forward_run_data [OF assms(2,3) this assms(6,7), of ip "\<lparr>fw_sent = [], fw_delivered = []\<rparr>"] show ?thesis
    using assms(5) by (simp add: assms(8) handle_port_forward_ws_def flip: assms(1)) (simp add: channel_data_def delivered_to_def)
qed

theorem forwarded_streams_kept_apart_witness:
  "fw_delivered (handle_port_forward_ws (\<lambda>_. []) (Some (PodSpec_default\<lparr>ps_uid := ''u''\<rparr>)) (\<lambda>_. Some ''10.0.0.1'') ''n'' ''p'' (Some ''80,443'') (\<lambda>_. True)
     [FromClient (WsBinary [2, 7]) True, Relayed 0 (Chunk [5]) True, FromClient (WsBinary [0, 8]) True]) = [(1, [7]), (0, [8])] \<and>
   delivered_to 1 (fw_delivered (handle_port_forward_ws (\<lambda>_. []) (Some (PodSpec_default\<lparr>ps_uid := ''u''\<rparr>)) (\<lambda>_. Some ''10.0.0.1'') ''n'' ''p''
     (Some ''80,443'') (\<lambda>_. True)
     [FromClient (WsBinary [2, 7]) True, Relayed 0 (Chunk [5]) True, FromClient (WsBinary [0, 8]) True])) = [7]"
proof -
  have p: "forwarded_ports (Some ''80,443'') = [80, 443]"
    by (simp add: forwarded_ports_def map_filter_simps parse_uint_def strip_plus_def is_digit_def digit_val_def trim_def trim_start_def
        is_ws_def)
  have c: "data_channel 0 = 0" "data_channel 1 = 2" "data_channel (Suc 0) = 2" by (simp_all add: data_channel_def)
  have "[0..<length [80 :: nat, 443]] = [0, 1]" by (simp add: upt_rec)
  then have w: "channel_writers (\<lambda>_. True) [80, 443] = [(0, 0), (2, 1)]"
    unfolding channel_writers_def by (simp add: add_writer_def c)
  let ?evs = "[FromClient (WsBinary [2, 7]) True, Relayed 0 (Chunk [5]) True, FromClient (WsBinary [0, 8]) True]"
  let ?s = "handle_port_forward_ws (\<lambda>_. []) (Some (PodSpec_default\<lparr>ps_uid := ''u''\<rparr>)) (\<lambda>_. Some ''10.0.0.1'') ''n'' ''p'' (Some ''80,443'')
     (\<lambda>_. True) ?evs"
  have "fw_delivered ?s = [(1, [7]), (0, [8])]"
    by (simp add: handle_port_forward_ws_def p w forward_step_def FramedMessage_decode_def)
  moreover have "delivered_to 1 (fw_delivered ?s) = concat (map (client_sent (data_channel 1)) ?evs)"
    by (rule forwarded_streams_kept_apart [where query = "Some ''80,443''" and idx = 1 and connects = "\<lambda>_. True" and ip = "''10.0.0.1''"
          and ip_of = "\<lambda>_. Some ''10.0.0.1''" and p = "PodSpec_default\<lparr>ps_uid := ''u''\<rparr>" and evs = ?evs and json_text = "\<lambda>_. []"
          and ns = "''n''" and pod_name = "''p''", THEN conjunct2, OF refl]) (simp_all add: p)
  ultimately show ?thesis by (simp add: c)
qed

text \<open>The 129th port takes the channel of the first.\<close>

lemma channels_collide:
  assumes "connects 0" "connects 128" "length ports = 129"
  shows "data_channel 128 = data_channel 0" "hm_get (channel_writers connects ports) (data_channel 0) = Some 128"
proof -
  show e: "data_channel 128 = data_channel 0" by (simp add: data_channel_def)
  have "length ports = Suc 128" using assms(3) by simp
  then have "[0..<length ports] = [0..<128] @ [128]" by (simp only: upt_Suc) simp
  then have "channel_writers connects ports = hm_insert (data_channel 128) 128 (fold (add_writer connects) [0..<128] [])"
    using assms(2) unfolding channel_writers_def by (simp add: add_writer_def)
  then show "hm_get (channel_writers connects ports) (data_channel 0) = Some 128"
    by (simp add: e update_conv')
qed


subsection \<open>Over SPDY\<close>

text \<open>The header block of each stream is decompressed by itself: an argument. Streams are the open connections, by the stream they belong to.\<close>

record spdy_forward =
  sx_sockets :: "(u32, nat) hmap"
  sx_errors :: "(u32, u32) hmap"
  sx_written :: "SpdyWireFrame list"
  sx_delivered :: "(u32 \<times> u8 list) list"

definition header_of :: "string \<Rightarrow> (string, string) hmap \<Rightarrow> string" where
  "header_of k hs = (case hm_get hs k of Some v \<Rightarrow> v | None \<Rightarrow> [])"

definition forward_port :: "(string, string) hmap \<Rightarrow> nat" where
  "forward_port hs = (case Option.bind (hm_get hs ''port'') (parse_uint (2 ^ 16)) of Some n \<Rightarrow> n | None \<Rightarrow> 0)"

definition saturating_pred :: "u32 \<Rightarrow> u32" where
  "saturating_pred w = (if w = 0 then 0 else w - 1)"

definition forward_open ::
  "((string, string) hmap \<Rightarrow> u8 list) \<Rightarrow> (nat \<Rightarrow> string option) \<Rightarrow> u32 \<Rightarrow> (string, string) hmap \<Rightarrow> spdy_forward \<Rightarrow> spdy_forward" where
  "forward_open encode connect stream_id headers s =
     (let s1 = s\<lparr>sx_written := sx_written s @ [WSynReply stream_id (encode [('':status'', ''200 OK''), ('':version'', ''HTTP/1.1'')])]\<rparr>;
          port = forward_port headers
      in if header_of ''streamtype'' headers = ''error'' then s1\<lparr>sx_errors := hm_insert (saturating_pred stream_id) stream_id (sx_errors s1)\<rparr>
         else if header_of ''streamtype'' headers = ''data'' \<and> port > 0 then
           (case connect port of
              None \<Rightarrow> s1\<lparr>sx_sockets := hm_insert stream_id port (sx_sockets s1)\<rparr>
            | Some e \<Rightarrow>
                (case hm_get (sx_errors s1) stream_id of
                   Some err_id \<Rightarrow> s1\<lparr>sx_written := sx_written s1 @ [WData err_id 1 (as_bytes (''connect failed: '' @ e))]\<rparr>
                 | None \<Rightarrow> s1))
         else s1)"

text \<open>What a relay task hands over is written as it is.\<close>

datatype spdy_forward_event = FromPeer SpdyWireFrame | FromSocket SpdyWireFrame

definition spdy_forward_step ::
  "(u8 list \<Rightarrow> (string, string) hmap) \<Rightarrow> ((string, string) hmap \<Rightarrow> u8 list) \<Rightarrow> (nat \<Rightarrow> string option) \<Rightarrow> spdy_forward_event \<Rightarrow>
   spdy_forward \<Rightarrow> spdy_forward option" where
  "spdy_forward_step decode encode connect ev s =
     (case ev of
        FromSocket f \<Rightarrow> Some (s\<lparr>sx_written := sx_written s @ [f]\<rparr>)
      | FromPeer f \<Rightarrow>
          (case f of
             WSynStream stream_id raw_nv \<Rightarrow> Some (forward_open encode connect stream_id (decode raw_nv) s)
           | WData stream_id _ payload \<Rightarrow>
               Some (if hm_contains_key stream_id (sx_sockets s) then s\<lparr>sx_delivered := sx_delivered s @ [(stream_id, payload)]\<rparr> else s)
           | WPing i \<Rightarrow> Some (s\<lparr>sx_written := sx_written s @ [WPing i]\<rparr>)
           | WRstStream _ _ \<Rightarrow> Some s
           | WGoAway _ _ \<Rightarrow> None
           | WSynReply _ _ \<Rightarrow> Some s))"

fun spdy_forward_run ::
  "(u8 list \<Rightarrow> (string, string) hmap) \<Rightarrow> ((string, string) hmap \<Rightarrow> u8 list) \<Rightarrow> (nat \<Rightarrow> string option) \<Rightarrow> spdy_forward_event list \<Rightarrow>
   spdy_forward \<Rightarrow> spdy_forward" where
  "spdy_forward_run decode encode connect [] s = s"
| "spdy_forward_run decode encode connect (ev # evs) s =
     (case spdy_forward_step decode encode connect ev s of None \<Rightarrow> s | Some s' \<Rightarrow> spdy_forward_run decode encode connect evs s')"

text \<open>Without a pod a farewell is written; without an address nothing.\<close>

definition spdy_port_forward_handler ::
  "(u8 list \<Rightarrow> (string, string) hmap) \<Rightarrow> ((string, string) hmap \<Rightarrow> u8 list) \<Rightarrow> PodSpec option \<Rightarrow> (string \<Rightarrow> string option) \<Rightarrow>
   (string \<Rightarrow> nat \<Rightarrow> string option) \<Rightarrow> spdy_forward_event list \<Rightarrow> spdy_forward" where
  "spdy_port_forward_handler decode encode pod ip_of connect evs =
     (let s0 = \<lparr>sx_sockets = [], sx_errors = [], sx_written = [], sx_delivered = []\<rparr> in
      case pod of
        None \<Rightarrow> s0\<lparr>sx_written := [WGoAway 0 2]\<rparr>
      | Some p \<Rightarrow> (case ip_of (ps_uid p) of None \<Rightarrow> s0 | Some ip \<Rightarrow> spdy_forward_run decode encode (connect ip) evs s0))"

text \<open>A client opens streams with odd numbers. The error stream of a connection is filed under the even number before its own, so the stream of
  the data never finds it: no failure to connect is reported.\<close>

definition odd_opened :: "spdy_forward_event \<Rightarrow> bool" where
  "odd_opened ev \<longleftrightarrow> (case ev of FromPeer (WSynStream i _) \<Rightarrow> odd (unat i) | _ \<Rightarrow> True)"

definition even_filed :: "spdy_forward \<Rightarrow> bool" where
  "even_filed s \<longleftrightarrow> (\<forall>i. hm_get (sx_errors s) i \<noteq> None \<longrightarrow> even (unat i))"

lemma saturating_pred_even: "odd (unat w) \<Longrightarrow> even (unat (saturating_pred w))"
proof -
  assume o: "odd (unat w)"
  then have "w \<noteq> 0" by auto
  then have "1 \<le> w" by (simp add: word_le_nat_alt Suc_le_eq unat_gt_0)
  then have "unat (w - 1) = unat w - 1" by (simp add: unat_sub)
  then show ?thesis using o \<open>w \<noteq> 0\<close> by (simp add: saturating_pred_def)
qed

lemma forward_open_even:
  assumes "even_filed s" "odd (unat i)"
  shows "even_filed (forward_open encode connect i hs s)"
    and "sx_written (forward_open encode connect i hs s) =
      sx_written s @ [WSynReply i (encode [('':status'', ''200 OK''), ('':version'', ''HTTP/1.1'')])]"
proof -
  have n: "hm_get (sx_errors s) i = None" using assms unfolding even_filed_def by blast
  have u: "even_filed (s\<lparr>sx_errors := hm_insert (saturating_pred i) i (sx_errors s)\<rparr>)"
    using assms saturating_pred_even [OF assms(2)] by (auto simp: even_filed_def update_conv' split: if_splits)
  show "even_filed (forward_open encode connect i hs s)"
    using assms u n by (auto simp: forward_open_def Let_def even_filed_def split: option.split)
  show "sx_written (forward_open encode connect i hs s) =
      sx_written s @ [WSynReply i (encode [('':status'', ''200 OK''), ('':version'', ''HTTP/1.1'')])]"
    using n by (auto simp: forward_open_def Let_def split: option.split)
qed

lemma connect_failures_not_reported:
  assumes "list_all odd_opened evs" "\<forall>f. FromSocket f \<notin> set evs" "even_filed s" "WData i g p \<in> set (sx_written (spdy_forward_run dc en cn evs s))"
  shows "WData i g p \<in> set (sx_written s)"
  using assms
proof (induction evs arbitrary: s)
  case (Cons ev evs)
  obtain f where f: "ev = FromPeer f" using Cons.prems(2) by (cases ev) auto
  show ?case
  proof (cases "spdy_forward_step dc en cn ev s")
    case None
    then show ?thesis using Cons.prems by simp
  next
    case (Some s')
    have "even_filed s' \<and> (WData i g p \<in> set (sx_written s') \<longrightarrow> WData i g p \<in> set (sx_written s))"
    proof (cases f)
      case (WSynStream j nv)
      then have j: "odd (unat j)" using Cons.prems(1) f by (simp add: odd_opened_def)
      then show ?thesis
        using forward_open_even [OF Cons.prems(3) j, of en cn "dc nv"] Some by (auto simp: f WSynStream spdy_forward_step_def)
    qed (use Some Cons.prems(3) in \<open>auto simp: f spdy_forward_step_def even_filed_def split: if_splits\<close>)
    then show ?thesis using Cons.IH [of s'] Cons.prems Some by auto
  qed
qed simp

end
