(* ===== verification/Stream_Logs.thy ===== *)
theory Stream_Logs
  imports Stream_Auth Log_Manager Pod_Manager Worker_Env
begin

section \<open>Container logs over HTTP\<close>

text \<open>
  \<^verbatim>\<open>log_handler\<close> and \<^verbatim>\<open>collect_logs_body\<close> of \<^verbatim>\<open>kubelet-app/src/streaming/mod.rs\<close>. An attempt sees the names in the directory of the
  container with the lines of each file, up to the first that is no text, or \<open>None\<close> when it cannot be opened. Reading JSON lines
  and times, and going back from now by some seconds, are arguments. An outer \<open>None\<close> is a panic.
\<close>

record LogQuery =
  lq_container :: "string option"
  lq_tail_lines :: "int option"
  lq_follow :: "bool option"
  lq_previous :: "bool option"
  lq_since_seconds :: "int option"
  lq_since_time :: "string option"
  lq_timestamps :: "bool option"
  lq_limit_bytes :: "int option"

type_synonym log_scan = "(string \<times> string list option) list"

record log_env =
  lge_from_json :: "string \<Rightarrow> LogEntry option"
  lge_parse_time :: "string \<Rightarrow> timestamp option"
  lge_ago :: "int \<Rightarrow> timestamp"
  lge_scans :: "fpath \<Rightarrow> nat \<Rightarrow> log_scan"

subsection \<open>Which container\<close>

definition log_container :: "PodSpec \<Rightarrow> string \<Rightarrow> string option" where
  "log_container pod container =
     map_option ctr_name
       (find (\<lambda>c. ctr_name c = container \<or> container = []) (ps_containers pod @ ps_init_containers pod @ ps_ephemeral_containers pod))"

definition effective_container :: "PodSpec \<Rightarrow> string \<Rightarrow> string" where
  "effective_container pod container =
     (if container = [] then (case ps_containers pod of c # _ \<Rightarrow> ctr_name c | [] \<Rightarrow> []) else container)"

text \<open>Start of the container and reason for which it waits, from the first status of its name.\<close>

definition container_times :: "PodLifecycleState option \<Rightarrow> string \<Rightarrow> timestamp option \<times> string option" where
  "container_times status name =
     (case Option.bind status (\<lambda>st. find (\<lambda>c. st_name c = name)
             (ls_container_statuses st @ ls_init_container_statuses st @ ls_ephemeral_container_statuses st)) of
        None \<Rightarrow> (None, None)
      | Some c \<Rightarrow>
          (case st_state c of
             Running started_at \<Rightarrow> (Some started_at, None)
           | Terminated _ _ _ started_at _ \<Rightarrow> (Some started_at, None)
           | Waiting reason message \<Rightarrow> (None, Some (case message of Some msg \<Rightarrow> reason @ '': '' @ msg | None \<Rightarrow> reason))))"

subsection \<open>Reading the files\<close>

definition log_index :: "string \<times> string list option \<Rightarrow> (nat \<times> string list option) option" where
  "log_index f = map_option (\<lambda>idx. (idx, snd f)) (Option.bind (strip_suffix ''.log'' (fst f)) parse_u32)"

definition all_log_files :: "log_scan \<Rightarrow> (nat \<times> string list option) list" where
  "all_log_files fs = sort_key fst (List.map_filter log_index fs)"

definition read_entries :: "(string \<Rightarrow> LogEntry option) \<Rightarrow> (nat \<times> string list option) list \<Rightarrow> LogEntry list" where
  "read_entries from_json files =
     concat (map (\<lambda>f. List.map_filter (parse_line from_json) (case snd f of Some ls \<Rightarrow> ls | None \<Rightarrow> [])) files)"

text \<open>An entry whose time cannot be read is kept.\<close>

definition time_is :: "log_env \<Rightarrow> (timestamp \<Rightarrow> bool) \<Rightarrow> LogEntry \<Rightarrow> bool" where
  "time_is env P e = (case lge_parse_time env (le_time e) of Some t \<Rightarrow> P t | None \<Rightarrow> True)"

definition slice_run :: "log_env \<Rightarrow> bool \<Rightarrow> timestamp option \<Rightarrow> LogEntry list \<Rightarrow> LogEntry list" where
  "slice_run env want_previous started es =
     (case started of
        None \<Rightarrow> es
      | Some start \<Rightarrow>
          if want_previous then filter (time_is env (\<lambda>t. t < start)) es
          else filter (time_is env (\<lambda>t. start - secs 2 \<le> t)) es)"

text \<open>Fifteen attempts; \<open>Inl ()\<close>: the container waits and there is no file yet.\<close>

fun read_attempts ::
  "log_env \<Rightarrow> fpath \<Rightarrow> bool \<Rightarrow> timestamp option \<Rightarrow> bool \<Rightarrow> nat \<Rightarrow> nat \<Rightarrow> unit + LogEntry list" where
  "read_attempts env dir want_previous started waiting attempt 0 = Inr []"
| "read_attempts env dir want_previous started waiting attempt (Suc k) =
     (let files = all_log_files (lge_scans env dir attempt);
          es = slice_run env want_previous started (read_entries (lge_from_json env) files)
      in if es \<noteq> [] then Inr es
         else if files = [] \<and> waiting \<and> attempt = 0 then Inl ()
         else read_attempts env dir want_previous started waiting (Suc attempt) k)"

subsection \<open>The body\<close>

definition since_cutoff :: "log_env \<Rightarrow> LogQuery \<Rightarrow> timestamp option" where
  "since_cutoff env q =
     (case lq_since_time q of
        Some raw \<Rightarrow> lge_parse_time env raw
      | None \<Rightarrow> map_option (\<lambda>n. lge_ago env (max n 0)) (lq_since_seconds q))"

definition select_since :: "log_env \<Rightarrow> LogQuery \<Rightarrow> LogEntry list \<Rightarrow> LogEntry list" where
  "select_since env q es = (case since_cutoff env q of Some cutoff \<Rightarrow> filter (time_is env (\<lambda>t. cutoff \<le> t)) es | None \<Rightarrow> es)"

definition tail_entries :: "int option \<Rightarrow> LogEntry list \<Rightarrow> LogEntry list" where
  "tail_entries tail_lines es =
     (let n = (case tail_lines of Some n \<Rightarrow> n | None \<Rightarrow> - 1) in
      if n \<ge> 0 \<and> length es > nat n then drop (length es - nat n) es else es)"

definition entry_text :: "bool \<Rightarrow> LogEntry \<Rightarrow> string" where
  "entry_text with_timestamps e = (if with_timestamps then le_time e @ '' '' else []) @ le_log e"

definition limit_body :: "int option \<Rightarrow> string \<Rightarrow> string option" where
  "limit_body limit body =
     (case limit of
        None \<Rightarrow> Some body
      | Some n \<Rightarrow>
          (let limit = nat (max n 0) in
           if length body > limit then byte_slice body (length body - limit) (length body) else Some body))"

definition log_body :: "log_env \<Rightarrow> LogQuery \<Rightarrow> LogEntry list \<Rightarrow> string option" where
  "log_body env q es =
     limit_body (lq_limit_bytes q)
       (concat (map (entry_text (lq_timestamps q = Some True)) (tail_entries (lq_tail_lines q) (select_since env q es))))"

text \<open>An error is the status, the message and its key in the metrics.\<close>

definition collect_logs_body ::
  "log_env \<Rightarrow> LogManager \<Rightarrow> PodSpec option \<Rightarrow> PodLifecycleState option \<Rightarrow> string \<Rightarrow> string \<Rightarrow> LogQuery \<Rightarrow>
   (nat \<times> string \<times> string + string \<times> string) option" where
  "collect_logs_body env lm found status ns pod_name q =
     (let container = (case lq_container q of Some c \<Rightarrow> c | None \<Rightarrow> []); quote = [CHR 0x27] in
      case found of
        None \<Rightarrow> Some (Inl (404, ''pod '' @ ns @ ''/'' @ pod_name @ '' not found'', ''pod_not_found''))
      | Some pod \<Rightarrow>
          if log_container pod container = None
          then Some (Inl (404, ''container '' @ quote @ container @ quote @ '' not found in pod'', ''container_not_found''))
          else
            (let name = effective_container pod container;
                 (started, waiting) = container_times status name
             in case read_attempts env (container_log_dir lm ns pod_name (ps_uid pod) name) (lq_previous q = Some True) started
                       (waiting \<noteq> None) 0 15 of
                  Inl _ \<Rightarrow>
                    Some (Inl (400, ''container '' @ quote @ name @ quote @ '' in pod '' @ quote @ ns @ ''/'' @ pod_name @ quote @
                                 '' is waiting: '' @ the waiting, ''container_not_started''))
                | Inr es \<Rightarrow> map_option (\<lambda>body. Inr (name, body)) (log_body env q es)))"

definition log_reason :: "nat \<Rightarrow> string" where
  "log_reason status =
     (if status = 404 then ''NotFound'' else if status = 400 then ''BadRequest'' else if status = 503 then ''ServiceUnavailable''
      else if status = 500 then ''InternalError'' else ''Failure'')"

definition log_handler ::
  "'c auth_env \<Rightarrow> 'c StreamAuthConfig \<Rightarrow> stream_request \<Rightarrow> (nat \<times> string \<times> string + string \<times> string) option \<Rightarrow> 'c auth_state \<Rightarrow>
   (refusal + string) option \<times> 'c auth_state" where
  "log_handler env cfg req collected st =
     (case authorize_stream_request env cfg (req\<lparr>sr_subresource := ''log'', sr_verb := ''get''\<rparr>) st of
        (Inl e, st') \<Rightarrow> (Some (Inl e), st')
      | (Inr _, st') \<Rightarrow>
          (map_option (\<lambda>r. case r of Inl (status, message, _) \<Rightarrow> Inl (status, log_reason status, message) | Inr (_, body) \<Rightarrow> Inr body) collected,
           st'))"

definition log_websocket_body :: "(nat \<times> string \<times> string + string \<times> string) option \<Rightarrow> string list" where
  "log_websocket_body collected = (case collected of Some (Inr (_, body)) \<Rightarrow> if body \<noteq> [] then [body] else [] | _ \<Rightarrow> [])"

subsection \<open>What is returned\<close>

lemma time_is_cases:
  "time_is env (\<lambda>t. t < s) e \<or> time_is env (\<lambda>t. s - secs 2 \<le> t) e"
  "time_is env (\<lambda>t. t < s) e \<and> time_is env (\<lambda>t. s - secs 2 \<le> t) e \<longleftrightarrow> time_is env (\<lambda>t. s - secs 2 \<le> t \<and> t < s) e"
  by (auto simp: time_is_def secs_def split: option.split)

text \<open>The current and the previous logs together are everything. For a container that started, every entry of its files is in the answer
  to one of the two questions, and it is in both only when its time cannot be read or lies in the two seconds before the start.\<close>

lemma log_runs_cover:
  "e \<in> set (slice_run env False (Some start) es) \<union> set (slice_run env True (Some start) es) \<longleftrightarrow> e \<in> set es"
  "e \<in> set (slice_run env False (Some start) es) \<inter> set (slice_run env True (Some start) es) \<longleftrightarrow>
     e \<in> set es \<and> time_is env (\<lambda>t. start - secs 2 \<le> t \<and> t < start) e"
  using time_is_cases [of env start e] by (auto simp: slice_run_def)

text \<open>The attempts end with the entries of the first scan that shows any.\<close>

lemma read_attempts_entries:
  "read_attempts env dir prev started False attempt k = Inr es \<Longrightarrow>
     es = [] \<and> (\<forall>i < k. slice_run env prev started (read_entries (lge_from_json env) (all_log_files (lge_scans env dir (attempt + i)))) = []) \<or>
     (\<exists>i < k. es = slice_run env prev started (read_entries (lge_from_json env) (all_log_files (lge_scans env dir (attempt + i)))) \<and> es \<noteq> [] \<and>
        (\<forall>j < i. slice_run env prev started (read_entries (lge_from_json env) (all_log_files (lge_scans env dir (attempt + j)))) = []))"
proof (induction k arbitrary: attempt)
  case (Suc k)
  let ?e = "\<lambda>i. slice_run env prev started (read_entries (lge_from_json env) (all_log_files (lge_scans env dir i)))"
  show ?case
  proof (cases "?e attempt = []")
    case True
    then have "read_attempts env dir prev started False (Suc attempt) k = Inr es" using Suc.prems by (simp add: Let_def)
    from Suc.IH [OF this] show ?thesis
    proof (elim disjE exE conjE)
      assume "es = []" "\<forall>i < k. ?e (Suc attempt + i) = []"
      then have "\<forall>i < Suc k. ?e (attempt + i) = []" using True by (auto simp: less_Suc_eq_0_disj)
      with \<open>es = []\<close> show ?thesis by blast
    next
      fix i
      assume "i < k" "es = ?e (Suc attempt + i)" "es \<noteq> []" "\<forall>j < i. ?e (Suc attempt + j) = []"
      then have "Suc i < Suc k \<and> es = ?e (attempt + Suc i) \<and> es \<noteq> [] \<and> (\<forall>j < Suc i. ?e (attempt + j) = [])"
        using True by (auto simp: less_Suc_eq_0_disj)
      then show ?thesis by blast
    qed
  next
    case False
    then have "es = ?e attempt" using Suc.prems by (simp add: Let_def)
    with False show ?thesis by (intro disjI2 exI [of _ 0]) simp
  qed
qed simp

text \<open>A byte limit keeps the end of the text, not its beginning; inside a character it is a panic.\<close>

lemma limit_keeps_the_end:
  "limit_body (Some 2) ''abcd'' = Some ''cd''" "limit_body (Some 1) [CHR 0xC3, CHR 0xA9] = None"
  by (simp_all add: limit_body_def byte_slice_def is_char_boundary_def is_continuation_def)

text \<open>A start time that cannot be read turns every limit by time off.\<close>

lemma unreadable_since_time_ignored:
  assumes "lq_since_time q = Some raw" "lge_parse_time env raw = None"
  shows "select_since env q es = es"
  using assms by (simp add: select_since_def since_cutoff_def)

text \<open>Without a container in the request a pod that has only init containers is found, but its logs are looked for under the empty name.\<close>

lemma init_only_pod_reads_no_logs:
  assumes "ps_containers pod = []" "ps_init_containers pod = c # cs"
  shows "log_container pod [] = Some (ctr_name c)" "effective_container pod [] = []"
  using assms by (simp_all add: log_container_def effective_container_def)

text \<open>The previous logs of a container whose status is not known are its current ones.\<close>

lemma previous_without_status: "slice_run env True None es = slice_run env False None es"
  by (simp add: slice_run_def)

end
