(* ===== verification/Spec2Isabelle.thy ===== *)
theory Spec2Isabelle
  imports Cri_Requests Cri_Types Pod_Manager Resource_Manager Admission Runtime_Manager Node_State Image_GC Pod_Teardown Hooks Volume_Safety Volume_Mounts Checkpoint Log_Manager Url_Source Kube_Source Kube_Report Pod_Typing Spdy_Session Port_Forward Stream_Logs
begin

text \<open>
  A verification development for KubeAir, a kubelet written in Rust. Paths below are under \<^verbatim>\<open>src/crates/\<close>.

  \<^bold>\<open>The program.\<close> Pods come from a directory, a URL and a watch on the API server (\<^verbatim>\<open>kubelet-adapters/src/file_config\<close>,
  \<^verbatim>\<open>url_config\<close>, \<^verbatim>\<open>kube_reporter\<close>). The pod manager (\<^verbatim>\<open>kubelet-core/src/pod/manager.rs\<close>) holds the desired pods and their
  statuses and sends every change over a channel. The runtime manager (\<^verbatim>\<open>kubelet-adapters/src/runtime_manager/mod.rs\<close>) admits
  pods, starts one sync task per pod and polls the runtime for container events; the task runs the pod worker
  (\<^verbatim>\<open>kubelet-app/src/pod_worker/mod.rs\<close>), which pulls images, writes volumes, creates the sandbox and the containers, runs hooks, arms
  probes, waits out back-offs and writes the status. Admission, the CPU, memory, device and topology managers decide what a pod may use; the
  eviction manager and the image garbage collector take resources back; node status, lease and pod statuses are reported to
  the API server. The streaming server (\<^verbatim>\<open>kubelet-app/src/streaming/mod.rs\<close>) serves exec, attach, port forwarding and logs.

  \<^bold>\<open>Theories and sources.\<close>
  \<^item> \<open>KPrelude\<close>, \<open>Rust_Str\<close>, \<open>F64\<close>, \<open>Json\<close>: results, hash maps as association lists, saturating words, Rust's string functions,
    double-precision arithmetic by rounding of rationals, JSON values.
  \<^item> \<open>Pod_Types\<close>, \<open>Pod_Lifecycle\<close>: \<^verbatim>\<open>kubelet-core\<close>'s pod, container, lifecycle, QoS and validation modules.
  \<^item> \<open>Static_Manifest\<close>, \<open>File_Source\<close>, \<open>Url_Source\<close>: \<^verbatim>\<open>file_config\<close> and \<^verbatim>\<open>url_config\<close>; \<open>Kube_Types\<close>, \<open>Kube_Pods\<close>, \<open>Kube_Source\<close>,
    \<open>Kube_Report\<close>: \<^verbatim>\<open>kube_reporter\<close>, the conversions, the watch and the reports; \<open>Kube_Watcher\<close>: \<^verbatim>\<open>kube_watcher\<close>; \<open>Pod_Typing\<close>: the
    numbers of converted pods.
  \<^item> \<open>Pod_Manager\<close>: desired pods, mirror pods, statuses, update channel.
  \<^item> \<open>Allocator\<close> (the locale of an allocator and its lemmas), \<open>Cpu_Manager\<close>, \<open>Memory_Manager\<close>, \<open>Device_Manager\<close>, \<open>Topology_Manager\<close>,
    \<open>Resource_Manager\<close>, \<open>Admission\<close>: the modules of the same names in \<^verbatim>\<open>kubelet-adapters\<close>.
  \<^item> \<open>Sync_Slots\<close>: the tasks the runtime manager spawns, interleaved at every lock, as a step relation; \<open>Pleg\<close>: the relist;
    \<open>Runtime_Manager\<close>: the handlers built on both; \<open>Eviction\<close>; \<open>Node_State\<close>: node status, conditions, lease; \<open>Image_GC\<close>.
  \<^item> \<open>Worker_Env\<close>, \<open>Sandbox_Config\<close>, \<open>Worker_Text\<close>: the pod worker's pure functions, with \<^verbatim>\<open>sandbox_builder\<close>, \<^verbatim>\<open>container_builder\<close> and the
    messages of the runtime port; \<open>Oom_Watcher\<close>: \<^verbatim>\<open>oom_watcher\<close>.
  \<^item> \<open>Worker_State\<close>: the worker's state, the calls it makes and the environment that answers them; \<open>Pod_Status\<close>, \<open>Pod_Start\<close>,
    \<open>Pod_Sync\<close>: \<^verbatim>\<open>update_pod_status\<close>, \<^verbatim>\<open>start_container\<close> with its helpers, \<^verbatim>\<open>sync_pod\<close> and \<^verbatim>\<open>terminate_pod\<close>, step by step in the
    order of the code; \<open>Mock_Runtime\<close>: \<^verbatim>\<open>mock_runtime\<close> as such an environment.
  \<^item> \<open>Sync_Calls\<close>, \<open>Sync_Order\<close>, \<open>Pod_Teardown\<close>: what a sync and a termination do, for every environment or for every
    runtime that keeps a contract.
  \<^item> \<open>Probes\<close>, \<open>Hooks\<close>: \<^verbatim>\<open>prober\<close>, \<^verbatim>\<open>probe_runner\<close>, \<^verbatim>\<open>lifecycle\<close> and the probe loops of the pod worker.
  \<^item> \<open>Filesystem\<close>, \<open>Faulty_Runs\<close>: a tree of files whose calls may fail, and a logic for it; on them \<open>Volume_Files\<close>, \<open>Volume_Refresh\<close>,
    \<open>Volume_Safety\<close> (the pod worker's volumes, \<^verbatim>\<open>volume_fsgroup\<close>), \<open>Csi\<close>, \<open>Volume_Manager\<close>, \<open>Volume_Mounts\<close> (\<^verbatim>\<open>csi\<close>, \<^verbatim>\<open>volume\<close>),
    \<open>Checkpoint\<close> and \<open>Log_Manager\<close>.
  \<^item> \<open>Spdy\<close>, \<open>Stream_Auth\<close>, \<open>Stream_Exec\<close>, \<open>Spdy_Session\<close>, \<open>Port_Forward\<close>, \<open>Stream_Logs\<close>: \<^verbatim>\<open>streaming/mod.rs\<close> in this order: frames,
    authorization, exec and attach over web sockets and over SPDY, port forwarding, logs.

  \<^bold>\<open>State and effects.\<close> A lock-protected map is a field of a record; a function that mutates is a function to the new record. The pod
  worker is written in the state monad of its history of calls, the status manager and the pod's runtime state; the answer to a call is
  an arbitrary function of the history, so a theorem over all environments covers every runtime, clock and API server. Code that
  writes files runs on a tree in which any call may fail and writes may stop half way. A session on a connection is a run over the
  events it takes. A panic is an outer \<open>None\<close> or a constructor of its own. Concurrency is explicit in \<open>Sync_Slots\<close> and in the atomic steps
  of \<open>Device_Manager\<close>; elsewhere a handler is one step, as in the code, which holds the lock or runs in one task.

  \<^bold>\<open>What is shown.\<close> The desired pods mirror the directory and the pods of the API server; their numbers are in the types of
  the code. Allocations of CPUs, memory and devices stay disjoint and are given back; the node is never
  overcommitted by admission; at most one sync task per pod outside the clean-up window; container events are complete and
  trigger syncs; the eviction loop picks an eligible pod of the lowest class and terminates it; images in use survive collection. For the
  pod worker: app containers wait for init containers, restart policies are kept, every back-off is bounded by five minutes, a
  status update is consistent, termination releases everything on a runtime that keeps its contract, the loop that expands variables
  equals a one-pass reference, probes follow their thresholds. For files: a volume holds what its sources say, nothing outside it is touched
  whatever fails, a checkpoint is replaced as a whole, retained logs are a suffix of what was written. For streams: frames are
  read back, no stream passes without a review, the rate is bounded, a session answers every stream and runs the command at most once,
  ports are kept apart. Where the code does not do what it means to, a theorem shows the behaviour.

  \<^bold>\<open>Interfaces.\<close> The locales \<open>exclusive_allocator\<close>, \<open>conserving_allocator\<close>, \<open>status_store\<close>, \<open>io_preorder\<close>, \<open>sync_rel\<close>, \<open>sync_rel_any\<close>,
  \<open>call_pred\<close> and \<open>runtime_contract\<close> state what one part relies on in another; each is interpreted on the definitions of the model.

  \<^bold>\<open>Bounds.\<close> Retry loops run over the constants of the code (three attempts for an object of a volume, fifteen for the first lines of
  a log) and are structural recursions. Recursion into directories is bounded by \<open>depth_limit\<close>, 4096, longer than any path the kernel
  accepts, and the kernel's walk by its 40 links. A reader of frames ends because every frame takes bytes.
  Machine integers are words or integers with the saturation or wrap-around of the code written out where a theorem depends on it. Sums the code
  computes in 64 bits are unbounded here, except where a theorem is about their overflow.

  \<^bold>\<open>Not modelled.\<close> Network traffic and third-party protocol code around calls that are answers of the environment here: the HTTP and gRPC
  clients, generated messages, TLS, certificates and bootstrap, the compression of header blocks. Decoding of configuration and pods by
  serde. The web server, metrics, the command line and the start-up wiring. Sockets, child processes and kernel interfaces:
  plugin registration, network plugins, cgroup files, node features, usage statistics. Dynamic resource claims, security
  profiles, runtime classes, graceful shutdown, active deadlines, the image puller and the sync loop have some logic of their own and are not
  covered.
\<close>

text \<open>C6: One turn of the eviction loop, end to end. When the signals put the node under memory pressure and some pod is
  eligible (it may restart and was not evicted within the reclaim period), then after the turn an eligible pod of the
  lowest class among the eligible ones is recorded as Failed with reason Evicted, and a task that terminates it
  has been started.\<close>

theorem eviction_turn_evicts_lowest_class:
  assumes "pm_inv (rtm_pods r)" "rp_memory_pressure (evaluator_evaluate (em_evaluator mgr) (loop_resources sig))"
    "p0 \<in> set (PodManager_list (rtm_pods r))" "ps_restart_policy p0 \<noteq> Never" "\<not> recently_evicted now1 mgr (ps_uid p0)"
    "eviction_turn now1 now2 clock sig (mgr, r) = (mgr', r')"
  shows "\<exists>p \<in> set (PodManager_list (rtm_pods r)). evicted (ps_uid p) r' \<and> ps_restart_policy p \<noteq> Never \<and>
           \<not> recently_evicted now1 mgr (ps_uid p) \<and>
           (\<forall>p' \<in> set (PodManager_list (rtm_pods r)).
              ps_restart_policy p' \<noteq> Never \<and> \<not> recently_evicted now1 mgr (ps_uid p') \<longrightarrow> compute_qos_class p \<le> compute_qos_class p')"
proof -
  let ?ps = "PodManager_list (rtm_pods r)"
  obtain d ds mgr'' where e: "eviction_evaluate now1 now2 (loop_resources sig) ?ps [] mgr = (d # ds, mgr'')" "ed_reason d = MemoryPressure"
    using assms by (rule_tac eviction_turn_decides [of mgr sig p0 r now1 now2])
  have "d \<in> set (fst (eviction_evaluate now1 now2 (loop_resources sig) ?ps [] mgr))" by (simp add: e(1))
  from victim_is_best [OF this e(2)] obtain p where p: "p \<in> set ?ps" "ps_uid p = ed_pod_uid d" "ps_restart_policy p \<noteq> Never"
      "\<not> recently_evicted now1 mgr (ps_uid p)"
      and best: "\<forall>p' \<in> set ?ps. ps_restart_policy p' \<noteq> Never \<and> \<not> recently_evicted now1 mgr (ps_uid p') \<longrightarrow>
              compute_qos_class p < compute_qos_class p' \<or> compute_qos_class p = compute_qos_class p' \<and> mem_usage [] p' \<le> mem_usage [] p"
    by (elim bexE conjE)
  have "r' = evict_all clock 0 (d # ds) r" using assms(6) e(1) by (simp add: eviction_turn_def)
  moreover have "evicted (ps_uid p) (evict_pod (clock 0) d r)"
    using evict_pod_evicts [of r d p "clock 0"] PodManager_list_get [OF assms(1) p(1)] p(2) by simp
  ultimately have ev: "evicted (ps_uid p) r'" by (simp add: evicted_evict_all)
  have le: "compute_qos_class p \<le> compute_qos_class p'"
    if "p' \<in> set ?ps" "ps_restart_policy p' \<noteq> Never" "\<not> recently_evicted now1 mgr (ps_uid p')" for p'
    using best that by (metis order_le_less)
  show ?thesis using p(1,3,4) ev le by (intro bexI [of _ p]) simp_all
qed

theorem eviction_turn_evicts_lowest_class_witness:
  "\<exists>p \<in> set (PodManager_list (rtm_pods demo_rtm)).
     evicted (ps_uid p) (snd (eviction_turn 0 0 (\<lambda>_. 0) \<lparr>rs_memory_available_bytes = 5, rs_nodefs_available_bytes = 9, rs_nodefs_inodes_free = 9,
        rs_imagefs_available_bytes = 9, rs_pid_available = 9, rs_nodefs_total_bytes = 9, rs_imagefs_total_bytes = 9\<rparr> (demo_manager, demo_rtm)))"
proof -
  let ?sig = "\<lparr>rs_memory_available_bytes = 5, rs_nodefs_available_bytes = 9, rs_nodefs_inodes_free = 9,
        rs_imagefs_available_bytes = 9, rs_pid_available = 9, rs_nodefs_total_bytes = 9, rs_imagefs_total_bytes = 9\<rparr>"
  have "rp_memory_pressure (evaluator_evaluate (em_evaluator demo_manager) (loop_resources ?sig))"
    by (simp add: demo_evaluator evaluator_evaluate_def evaluate_threshold_def is_exceeded_def loop_resources_def)
  moreover have "port_pod ''a'' \<in> set (PodManager_list (rtm_pods demo_rtm))" by (simp add: demo_rtm_props)
  moreover have "ps_restart_policy (port_pod ''a'') \<noteq> Never" by (simp add: port_pod_def PodSpec_default_def)
  moreover have "\<not> recently_evicted 0 demo_manager (ps_uid (port_pod ''a''))"
    by (simp add: recently_evicted_def demo_manager_def EvictionManager_new_def)
  moreover obtain mgr' r' where t: "eviction_turn 0 0 (\<lambda>_. 0) ?sig (demo_manager, demo_rtm) = (mgr', r')" by fastforce
  ultimately have "\<exists>p \<in> set (PodManager_list (rtm_pods demo_rtm)). evicted (ps_uid p) r'"
    using eviction_turn_evicts_lowest_class [OF demo_rtm_inv] by (metis (no_types, lifting))
  then show ?thesis unfolding t by simp
qed

end
